(* ===== verification/Prelude.thy ===== *)
theory Prelude
  imports Main "HOL-Library.Word"
begin

unbundle bit_operations_syntax

text \<open>
  Shared vocabulary of the development: the machine types of the C++ sources, the
  little-endian memory image of an unsigned integer (the nodes run on little-endian hosts,
  and \<^verbatim>\<open>uint256.h\<close>, \<^verbatim>\<open>serialize.h\<close> and \<^verbatim>\<open>script.h\<close> copy integers with \<^verbatim>\<open>memcpy\<close>),
  the value of a little-endian digit sequence in an arbitrary base, and the lemmas on lists
  and words that the component theories use.
\<close>

section \<open>Types\<close>

type_synonym byte = "8 word"
type_synonym u16 = "16 word"
type_synonym u32 = "32 word"
type_synonym u64 = "64 word"
type_synonym valtype = "byte list"
type_synonym hash256 = "byte list"

named_theorems word_conv \<open>reading machine words as natural numbers\<close>
named_theorems le_simps \<open>little-endian digit sequences\<close>

declare unat_word_ariths [word_conv]

section \<open>Little-endian digit sequences\<close>

text \<open>
  \<open>lval B ds\<close> is the number whose digits in base \<open>B\<close>, least significant first, are \<open>ds\<close>;
  \<open>ldigs B n x\<close> are the \<open>n\<close> lowest digits of \<open>x\<close>.
\<close>

fun lval :: "nat \<Rightarrow> nat list \<Rightarrow> nat" where
  "lval B [] = 0"
| "lval B (d # ds) = d + B * lval B ds"

fun ldigs :: "nat \<Rightarrow> nat \<Rightarrow> nat \<Rightarrow> nat list" where
  "ldigs B 0 x = []"
| "ldigs B (Suc n) x = x mod B # ldigs B n (x div B)"

lemma length_ldigs [simp]: "length (ldigs B n x) = n"
  by (induction n arbitrary: x) auto

lemma lval_append: "lval B (xs @ ys) = lval B xs + B ^ length xs * lval B ys"
  by (induction xs) (auto simp: algebra_simps)

lemma lval_replicate_0 [simp]: "lval B (replicate n 0) = 0"
  by (induction n) auto

lemma lval_bound:
  assumes "0 < B" and "\<forall>d \<in> set ds. d < B"
  shows "lval B ds < B ^ length ds"
  using assms(2)
proof (induction ds)
  case Nil
  then show ?case by simp
next
  case (Cons d ds)
  then have "Suc (lval B ds) \<le> B ^ length ds" and "d < B" by auto
  from this(1) have "B * Suc (lval B ds) \<le> B * B ^ length ds" by (rule mult_le_mono2)
  then show ?case using \<open>d < B\<close> by simp
qed

lemma ldigs_lval:
  assumes "\<forall>d \<in> set ds. d < B"
  shows "ldigs B (length ds) (lval B ds) = ds"
  using assms by (induction ds) auto

lemma lval_ldigs: "lval B (ldigs B n x) = x mod B ^ n"
proof (induction n arbitrary: x)
  case 0
  then show ?case by simp
next
  case (Suc n)
  show ?case by (simp add: Suc.IH mod_mult2_eq)
qed

lemma lval_inj:
  assumes "length xs = length ys" "\<forall>d \<in> set xs. d < B" "\<forall>d \<in> set ys. d < B"
    and "lval B xs = lval B ys"
  shows "xs = ys"
  by (metis assms ldigs_lval)

section \<open>Bytes of an integer\<close>

definition le_bytes :: "nat \<Rightarrow> nat \<Rightarrow> byte list" where
  "le_bytes n x = map of_nat (ldigs 256 n x)"

definition le_val :: "byte list \<Rightarrow> nat" where
  "le_val bs = lval 256 (map unat bs)"

lemma unat_byte_lt [simp]: "unat (b :: byte) < 256"
  using unsigned_less [of b] by simp

lemma unat_u32_lt [simp]: "unat (w :: u32) < 4294967296"
  using unsigned_less [of w] by simp

lemma unat_u32_le: "unat (w :: u32) \<le> 4294967295"
  using unat_u32_lt [of w] by linarith

lemma unat_byte_le: "unat (b :: byte) \<le> 255"
  using unat_byte_lt [of b] by linarith

lemma unat_of_nat_byte: "k < 256 \<Longrightarrow> unat (of_nat k :: byte) = k"
  by (simp add: unat_of_nat)

lemma unat_ucast_u32_u64: "unat (ucast (p :: u32) :: u64) = unat p"
  by (simp add: unsigned_ucast_eq take_bit_nat_eq_self_iff less_trans [OF unat_u32_lt])

lemma unat_low32: "unat (ucast (n AND 0xffffffff :: u64) :: u32) = unat n mod 2 ^ 32"
proof -
  have "(0xffffffff :: u64) = mask 32" by (simp add: mask_eq_exp_minus_1)
  then have "n AND 0xffffffff = take_bit 32 n" by (simp add: take_bit_eq_mask)
  then show ?thesis by (simp add: unsigned_ucast_eq take_bit_eq_mod unat_mod)
qed

lemma length_le_bytes [simp]: "length (le_bytes n x) = n"
  by (simp add: le_bytes_def)

lemma le_val_simps [simp]:
  "le_val [] = 0"
  "le_val (b # bs) = unat b + 256 * le_val bs"
  by (simp_all add: le_val_def)

lemma le_val_append: "le_val (xs @ ys) = le_val xs + 256 ^ length xs * le_val ys"
  by (simp add: le_val_def lval_append)

lemma le_val_bound: "le_val bs < 256 ^ length bs"
  using lval_bound [of 256 "map unat bs"] by (simp add: le_val_def)

lemma ldigs_lt: "0 < B \<Longrightarrow> d \<in> set (ldigs B n x) \<Longrightarrow> d < B"
  by (induction n arbitrary: x) auto

lemma le_val_le_bytes [le_simps]: "le_val (le_bytes n x) = x mod 256 ^ n"
proof -
  have "map (unat \<circ> (of_nat :: nat \<Rightarrow> byte)) (ldigs 256 n x) = ldigs 256 n x"
    by (rule map_idI) (auto dest!: ldigs_lt [rotated] simp: unat_of_nat)
  then show ?thesis by (simp add: le_val_def le_bytes_def lval_ldigs)
qed

lemma le_bytes_le_val [le_simps]: "le_bytes (length bs) (le_val bs) = bs"
  using ldigs_lval [of "map unat bs" 256]
  by (simp add: le_bytes_def le_val_def comp_def)

lemma le_bytes_le_val' [le_simps]: "length bs = n \<Longrightarrow> le_bytes n (le_val bs) = bs"
  using le_bytes_le_val by blast

lemma le_bytes_0 [simp]: "le_bytes 0 x = []"
  by (simp add: le_bytes_def)

lemma le_bytes_Suc: "le_bytes (Suc n) x = of_nat (x mod 256) # le_bytes n (x div 256)"
  by (simp add: le_bytes_def)

section \<open>Lists\<close>

lemma length4_cases: "length xs = 4 \<Longrightarrow> \<exists>a b c d. xs = [a, b, c, d]"
  by (auto simp: length_Suc_conv eval_nat_numeral)

lemma map2_nth: "i < length xs \<Longrightarrow> i < length ys \<Longrightarrow> map2 f xs ys ! i = f (xs ! i) (ys ! i)"
  by simp

lemma take_drop_split: "n \<le> length xs \<Longrightarrow> xs = take n xs @ drop n xs"
  by simp

end
