(* ===== verification/Uint256.thy ===== *)
theory Uint256
  imports Prelude
begin

unbundle bit_operations_syntax

text \<open>
  The fixed-width unsigned integers of \<^verbatim>\<open>src/src/uint256.h\<close> (\<^verbatim>\<open>base_uint<BITS>\<close>,
  \<^verbatim>\<open>uint160\<close>, \<^verbatim>\<open>uint256\<close>). The array \<^verbatim>\<open>pn[WIDTH]\<close> is a list of 32-bit words, least
  significant limb first, and \<^verbatim>\<open>WIDTH\<close> is its length (8 for \<^verbatim>\<open>uint256\<close>, 5 for
  \<^verbatim>\<open>uint160\<close>). Each operator is the source's loop over the limbs, with the 64-bit carry of
  \<^verbatim>\<open>operator+=\<close> kept at its width. The theorems show that the loops compute arithmetic
  modulo \<open>2 ^ BITS\<close> of the number the limbs denote (\<open>uval\<close>).
\<close>

section \<open>The operators\<close>

type_synonym limbs = "u32 list"

definition UINT256_WIDTH :: nat where "UINT256_WIDTH = 8"
definition UINT160_WIDTH :: nat where "UINT160_WIDTH = 5"

fun op_is_zero :: "limbs \<Rightarrow> bool" where
  "op_is_zero [] = True"
| "op_is_zero (p # pn) = (if p \<noteq> 0 then False else op_is_zero pn)"

definition op_compl :: "limbs \<Rightarrow> limbs" where
  "op_compl pn = map (\<lambda>p. NOT p) pn"

fun op_incr :: "limbs \<Rightarrow> limbs" where
  "op_incr [] = []"
| "op_incr (p # pn) = (p + 1) # (if p + 1 = 0 \<and> pn \<noteq> [] then op_incr pn else pn)"

fun op_decr :: "limbs \<Rightarrow> limbs" where
  "op_decr [] = []"
| "op_decr (p # pn) = (p - 1) # (if p - 1 = 0xffffffff \<and> pn \<noteq> [] then op_decr pn else pn)"

definition op_neg :: "limbs \<Rightarrow> limbs" where
  "op_neg pn = op_incr (map (\<lambda>p. NOT p) pn)"

definition op_assign64 :: "nat \<Rightarrow> u64 \<Rightarrow> limbs" where
  "op_assign64 WIDTH b = ucast b # ucast (drop_bit 32 b) # replicate (WIDTH - 2) 0"

definition op_xor :: "limbs \<Rightarrow> limbs \<Rightarrow> limbs" where
  "op_xor a b = map2 (\<lambda>x y. x XOR y) a b"

definition op_and :: "limbs \<Rightarrow> limbs \<Rightarrow> limbs" where
  "op_and a b = map2 (\<lambda>x y. x AND y) a b"

definition op_or :: "limbs \<Rightarrow> limbs \<Rightarrow> limbs" where
  "op_or a b = map2 (\<lambda>x y. x OR y) a b"

definition op_xor64 :: "limbs \<Rightarrow> u64 \<Rightarrow> limbs" where
  "op_xor64 a b = a[0 := (a ! 0) XOR ucast b, 1 := (a ! 1) XOR ucast (drop_bit 32 b)]"

definition op_or64 :: "limbs \<Rightarrow> u64 \<Rightarrow> limbs" where
  "op_or64 a b = a[0 := (a ! 0) OR ucast b, 1 := (a ! 1) OR ucast (drop_bit 32 b)]"

text \<open>One iteration of the shift loops; \<open>a\<close> is the copy of the operand, \<open>pn\<close> the result so far.\<close>

definition shl_step :: "limbs \<Rightarrow> nat \<Rightarrow> nat \<Rightarrow> nat \<Rightarrow> limbs \<Rightarrow> limbs" where
  "shl_step a k s i pn =
     (let pn1 = (if i + k + 1 < length a \<and> s \<noteq> 0
                 then pn[i + k + 1 := (pn ! (i + k + 1)) OR drop_bit (32 - s) (a ! i)] else pn)
      in if i + k < length a then pn1[i + k := (pn1 ! (i + k)) OR push_bit s (a ! i)] else pn1)"

definition op_shl :: "limbs \<Rightarrow> u32 \<Rightarrow> limbs" where
  "op_shl a shift =
     fold (shl_step a (unat shift div 32) (unat shift mod 32)) [0..<length a]
       (replicate (length a) 0)"

definition shr_step :: "limbs \<Rightarrow> nat \<Rightarrow> nat \<Rightarrow> nat \<Rightarrow> limbs \<Rightarrow> limbs" where
  "shr_step a k s i pn =
     (let pn1 = (if int i - int k - 1 \<ge> 0 \<and> s \<noteq> 0
                 then pn[i - k - 1 := (pn ! (i - k - 1)) OR push_bit (32 - s) (a ! i)] else pn)
      in if int i - int k \<ge> 0 then pn1[i - k := (pn1 ! (i - k)) OR drop_bit s (a ! i)] else pn1)"

definition op_shr :: "limbs \<Rightarrow> u32 \<Rightarrow> limbs" where
  "op_shr a shift =
     fold (shr_step a (unat shift div 32) (unat shift mod 32)) [0..<length a]
       (replicate (length a) 0)"

fun add_loop :: "u64 \<Rightarrow> limbs \<Rightarrow> limbs \<Rightarrow> limbs" where
  "add_loop carry (p # pn) (q # b) =
     (let n = carry + ucast p + ucast q
      in ucast (n AND 0xffffffff) # add_loop (drop_bit 32 n) pn b)"
| "add_loop carry _ _ = []"

definition op_add :: "limbs \<Rightarrow> limbs \<Rightarrow> limbs" where
  "op_add a b = add_loop 0 a b"

definition op_sub :: "limbs \<Rightarrow> limbs \<Rightarrow> limbs" where
  "op_sub a b = op_add a (op_neg b)"

definition op_add64 :: "limbs \<Rightarrow> u64 \<Rightarrow> limbs" where
  "op_add64 a b64 = op_add a (op_assign64 (length a) b64)"

definition op_sub64 :: "limbs \<Rightarrow> u64 \<Rightarrow> limbs" where
  "op_sub64 a b64 = op_add a (op_neg (op_assign64 (length a) b64))"

text \<open>The comparisons run from the most significant limb down, so over the reversed arrays.\<close>

fun lt_loop :: "limbs \<Rightarrow> limbs \<Rightarrow> bool" where
  "lt_loop (p # a) (q # b) = (if p < q then True else if p > q then False else lt_loop a b)"
| "lt_loop _ _ = False"

definition op_lt :: "limbs \<Rightarrow> limbs \<Rightarrow> bool" where
  "op_lt a b = lt_loop (rev a) (rev b)"

fun le_loop :: "limbs \<Rightarrow> limbs \<Rightarrow> bool" where
  "le_loop (p # a) (q # b) = (if p < q then True else if p > q then False else le_loop a b)"
| "le_loop _ _ = True"

definition op_le :: "limbs \<Rightarrow> limbs \<Rightarrow> bool" where
  "op_le a b = le_loop (rev a) (rev b)"

fun gt_loop :: "limbs \<Rightarrow> limbs \<Rightarrow> bool" where
  "gt_loop (p # a) (q # b) = (if p > q then True else if p < q then False else gt_loop a b)"
| "gt_loop _ _ = False"

definition op_gt :: "limbs \<Rightarrow> limbs \<Rightarrow> bool" where
  "op_gt a b = gt_loop (rev a) (rev b)"

fun ge_loop :: "limbs \<Rightarrow> limbs \<Rightarrow> bool" where
  "ge_loop (p # a) (q # b) = (if p > q then True else if p < q then False else ge_loop a b)"
| "ge_loop _ _ = True"

definition op_ge :: "limbs \<Rightarrow> limbs \<Rightarrow> bool" where
  "op_ge a b = ge_loop (rev a) (rev b)"

fun op_eq :: "limbs \<Rightarrow> limbs \<Rightarrow> bool" where
  "op_eq (p # a) (q # b) = (if p \<noteq> q then False else op_eq a b)"
| "op_eq _ _ = True"

definition op_eq64 :: "limbs \<Rightarrow> u64 \<Rightarrow> bool" where
  "op_eq64 a b =
     (if a ! 0 \<noteq> ucast b then False
      else if a ! 1 \<noteq> ucast (drop_bit 32 b) then False
      else op_is_zero (drop 2 a))"

definition Get64 :: "limbs \<Rightarrow> nat \<Rightarrow> u64" where
  "Get64 pn n = ucast (pn ! (2 * n)) OR push_bit 32 (ucast (pn ! (2 * n + 1)))"

section \<open>Memory image, hexadecimal, construction from bytes\<close>

definition limb_bytes :: "u32 \<Rightarrow> byte list" where
  "limb_bytes p = le_bytes 4 (unat p)"

definition uint_bytes :: "limbs \<Rightarrow> byte list" where
  "uint_bytes pn = concat (map limb_bytes pn)"

fun bytes_limbs :: "byte list \<Rightarrow> limbs" where
  "bytes_limbs (b0 # b1 # b2 # b3 # bs) = of_nat (le_val [b0, b1, b2, b3]) # bytes_limbs bs"
| "bytes_limbs _ = []"

definition uint_of_vch :: "nat \<Rightarrow> byte list \<Rightarrow> limbs" where
  "uint_of_vch WIDTH vch =
     (if length vch = 4 * WIDTH then bytes_limbs vch else op_assign64 WIDTH 0)"

definition hexchar :: "nat \<Rightarrow> char" where
  "hexchar d = (if d < 10 then char_of (48 + d) else char_of (87 + d))"

definition hex2 :: "byte \<Rightarrow> string" where
  "hex2 b = [hexchar (unat b div 16), hexchar (unat b mod 16)]"

definition GetHex :: "limbs \<Rightarrow> string" where
  "GetHex pn = concat (map hex2 (rev (uint_bytes pn)))"

definition phexdigit :: "char \<Rightarrow> nat" where
  "phexdigit c =
     (let n = of_char c :: nat
      in if 48 \<le> n \<and> n \<le> 57 then n - 48
         else if 65 \<le> n \<and> n \<le> 70 then n - 55
         else if 97 \<le> n \<and> n \<le> 102 then n - 87 else 0)"

definition c_isspace :: "char \<Rightarrow> bool" where
  "c_isspace c = (let n = of_char c :: nat in n = 32 \<or> (9 \<le> n \<and> n \<le> 13))"

definition skip_0x :: "string \<Rightarrow> string" where
  "skip_0x psz =
     (case psz of c # d # cs \<Rightarrow> if c = CHR ''0'' \<and> (d = CHR ''x'' \<or> d = CHR ''X'') then cs else psz
      | _ \<Rightarrow> psz)"

text \<open>
  The write loop of \<^verbatim>\<open>SetHex\<close>: \<open>ds\<close> are the digits from the last one backwards, the first
  argument is the number of bytes left before \<^verbatim>\<open>pend\<close>.
\<close>

fun sethex_loop :: "nat \<Rightarrow> nat list \<Rightarrow> byte list" where
  "sethex_loop 0 ds = []"
| "sethex_loop (Suc n) [] = replicate (Suc n) 0"
| "sethex_loop (Suc n) [d] = of_nat d # replicate n 0"
| "sethex_loop (Suc n) (d # e # ds) = (of_nat d OR push_bit 4 (of_nat e)) # sethex_loop n ds"

definition SetHex :: "nat \<Rightarrow> string \<Rightarrow> limbs" where
  "SetHex WIDTH psz =
     (let cs = takeWhile (\<lambda>c. c \<noteq> CHR 0x00) psz;
          digits = takeWhile (\<lambda>c. phexdigit c \<noteq> 0 \<or> c = CHR ''0'') (skip_0x (dropWhile c_isspace cs))
      in bytes_limbs (sethex_loop (4 * WIDTH) (map phexdigit (rev digits))))"

section \<open>The number a limb array denotes\<close>

definition uval :: "limbs \<Rightarrow> nat" where
  "uval pn = lval (2 ^ 32) (map unat pn)"

lemma uval_simps [simp]:
  "uval [] = 0"
  "uval (p # pn) = unat p + 2 ^ 32 * uval pn"
  by (simp_all add: uval_def)

lemma uval_append: "uval (xs @ ys) = uval xs + 2 ^ (32 * length xs) * uval ys"
  by (simp add: uval_def lval_append power_mult)

lemma uval_lt: "uval pn < 2 ^ (32 * length pn)"
  using lval_bound [of "2 ^ 32" "map unat pn"] by (simp add: uval_def power_mult)

lemma uval_inj: "length a = length b \<Longrightarrow> uval a = uval b \<Longrightarrow> a = b"
  using lval_inj [of "map unat a" "map unat b" "2 ^ 32"]
  by (simp add: uval_def inj_map_eq_map [OF injI [OF word_unat_eq_iff [THEN iffD2]]])

lemma uval_replicate_0 [simp]: "uval (replicate n 0) = 0"
  by (induction n) auto

subsection \<open>Increment, complement, addition\<close>

lemma length_ops [simp]:
  "length (op_incr a) = length a" "length (op_decr a) = length a"
  "length (op_compl a) = length a" "length (op_neg a) = length a"
proof -
  show incr: "length (op_incr a) = length a" for a by (induction a) auto
  show "length (op_decr a) = length a" by (induction a) auto
  show "length (op_compl a) = length a" by (simp add: op_compl_def)
  show "length (op_neg a) = length a" by (simp add: op_neg_def incr)
qed

lemma unat_plus1: "unat (p + 1 :: u32) = (if p + 1 = 0 then 0 else unat p + 1)"
  by (auto simp: unat_word_ariths unat_eq_0 [symmetric] mod_Suc split: if_splits)

lemma uval_incr: "a \<noteq> [] \<Longrightarrow> uval (op_incr a) = (uval a + 1) mod 2 ^ (32 * length a)"
proof (induction a)
  case Nil
  then show ?case by simp
next
  case (Cons p pn)
  define M where "M = (2::nat) ^ (32 * length pn)"
  have v: "uval pn < M" unfolding M_def by (rule uval_lt)
  have pow: "(2::nat) ^ (32 * length (p # pn)) = 2 ^ 32 * M"
    by (simp add: M_def power_add)
  show ?case
  proof (cases "p + 1 = 0")
    case True
    then have p: "unat p = 2 ^ 32 - 1" using unat_plus1 [of p] unat_word_ariths(1)[of p 1]
      by (auto simp: mod_Suc split: if_splits)
    show ?thesis
    proof (cases "pn = []")
      case True
      with \<open>p + 1 = 0\<close> p show ?thesis by simp
    next
      case False
      have "uval (op_incr (p # pn)) = 2 ^ 32 * ((uval pn + 1) mod M)"
        using Cons.IH False True by (simp add: M_def)
      also have "\<dots> = (2 ^ 32 * (uval pn + 1)) mod (2 ^ 32 * M)" by (rule mult_mod_right)
      also have "2 ^ 32 * (uval pn + 1) = uval (p # pn) + 1" using p by simp
      finally show ?thesis by (simp only: pow)
    qed
  next
    case False
    then have "unat p + 1 < 2 ^ 32" using unat_plus1 [of p] unat_u32_lt [of "p + 1"] by simp
    then have "uval (p # pn) + 1 < 2 ^ 32 * (uval pn + 1)" by simp
    also have "\<dots> \<le> 2 ^ 32 * M" using v by (intro mult_le_mono2) simp
    finally show ?thesis unfolding pow using False by (simp add: unat_plus1)
  qed
qed

lemma op_incr_decr: "op_incr (op_decr a) = a"
proof (induction a)
  case (Cons p pn)
  have "p - 1 = 0xffffffff \<longleftrightarrow> p = 0"
    by (auto simp: diff_eq_eq)
  with Cons show ?case by (cases "pn = []") auto
qed simp

lemma unat_compl32: "unat (NOT p :: u32) = 2 ^ 32 - 1 - unat p"
proof -
  have "unat (p + NOT p) = 2 ^ 32 - 1"
    by (simp add: unsigned_minus_1_eq_mask mask_eq_exp_minus_1)
  then have "(unat p + unat (NOT p)) mod 2 ^ 32 = 2 ^ 32 - 1" by (simp only: unat_word_ariths) simp
  moreover have "unat p \<le> 4294967295" "unat (NOT p) \<le> 4294967295" by (rule unat_u32_le)+
  ultimately show ?thesis
    by (cases "unat p + unat (NOT p) < 2 ^ 32") (auto simp: le_mod_geq not_less)
qed

lemma uval_compl: "uval (op_compl a) = 2 ^ (32 * length a) - 1 - uval a"
  unfolding op_compl_def
proof (induction a)
  case (Cons p pn)
  have "Suc (uval pn) \<le> 2 ^ (32 * length pn)" using uval_lt [of pn] by simp
  moreover have "unat p \<le> 4294967295" by (rule unat_u32_le)
  ultimately show ?case
    using Cons unat_compl32 [of p] mult_le_mono2 [of "Suc (uval pn)" "2 ^ (32 * length pn)" "2 ^ 32"]
    by (simp add: power_add diff_mult_distrib2)
qed simp

lemma length_add_loop [simp]: "length a = length b \<Longrightarrow> length (add_loop c a b) = length a"
  by (induction c a b rule: add_loop.induct) (auto simp: Let_def)

lemma unat_carry_sum:
  assumes "unat c \<le> 1"
  shows "unat (c + ucast (p :: u32) + ucast (q :: u32) :: u64) = unat c + unat p + unat q"
proof -
  have "unat (ucast p :: u64) = unat p" "unat (ucast q :: u64) = unat q"
    by (rule unat_ucast_u32_u64)+
  moreover have "unat p \<le> 4294967295" "unat q \<le> 4294967295" by (rule unat_u32_le)+
  ultimately show ?thesis using assms by (simp add: unat_word_ariths)
qed

text \<open>The carry loop: the result plus the final carry-out is the sum of the operands and the carry-in.\<close>

lemma uval_add_loop:
  assumes "length a = length b" "unat c \<le> 1"
  shows "uval (add_loop c a b) = (unat c + uval a + uval b) mod 2 ^ (32 * length a)"
  using assms
proof (induction c a b rule: add_loop.induct)
  case (1 c p pn q b)
  define n where "n = c + ucast p + ucast q"
  define M where "M = (2::nat) ^ (32 * length pn)"
  have n: "unat n = unat c + unat p + unat q"
    unfolding n_def by (rule unat_carry_sum [OF "1.prems"(2)])
  have carry: "unat (drop_bit 32 n) = unat n div 2 ^ 32"
    by (simp add: drop_bit_eq_div unat_div)
  have "unat p \<le> 4294967295" "unat q \<le> 4294967295" by (rule unat_u32_le)+
  with n "1.prems"(2) have le1: "unat (drop_bit 32 n) \<le> 1" unfolding carry by simp
  have low: "unat (ucast (n AND 0xffffffff) :: u32) = unat n mod 2 ^ 32" by (rule unat_low32)
  have IH: "uval (add_loop (drop_bit 32 n) pn b) = (unat n div 2 ^ 32 + uval pn + uval b) mod M"
    using "1.IH" [OF n_def] "1.prems"(1) le1 by (simp add: M_def carry)
  have pow: "(2::nat) ^ (32 * length (p # pn)) = 2 ^ 32 * M" by (simp add: M_def power_add)
  have tot: "unat c + uval (p # pn) + uval (q # b) = unat n + 2 ^ 32 * (uval pn + uval b)"
    by (simp add: n algebra_simps)
  have "(unat n + 2 ^ 32 * (uval pn + uval b)) mod (2 ^ 32 * M)
      = 2 ^ 32 * ((unat n + 2 ^ 32 * (uval pn + uval b)) div 2 ^ 32 mod M)
        + (unat n + 2 ^ 32 * (uval pn + uval b)) mod 2 ^ 32"
    by (rule mod_mult2_eq)
  also have "(unat n + 2 ^ 32 * (uval pn + uval b)) div 2 ^ 32 = unat n div 2 ^ 32 + uval pn + uval b"
    using div_mult_self2 [of "2 ^ 32" "unat n" "uval pn + uval b"] by simp
  also have "(unat n + 2 ^ 32 * (uval pn + uval b)) mod 2 ^ 32 = unat n mod 2 ^ 32"
    by (rule mod_mult_self2)
  finally show ?case
    unfolding pow tot using IH low by (simp add: n_def [symmetric] Let_def)
qed auto

lemma length_op_add [simp]: "length a = length b \<Longrightarrow> length (op_add a b) = length a"
  by (simp add: op_add_def)

lemma uval_add: "length a = length b \<Longrightarrow> uval (op_add a b) = (uval a + uval b) mod 2 ^ (32 * length a)"
  by (simp add: op_add_def uval_add_loop)

lemma lt_loop_uval: "length a = length b \<Longrightarrow> lt_loop a b \<longleftrightarrow> uval (rev a) < uval (rev b)"
proof (induction a b rule: lt_loop.induct)
  case (1 p a q b)
  define M where "M = (2::nat) ^ (32 * length a)"
  have len: "length a = length b" using "1.prems" by simp
  have lt: "uval (rev a) < M" "uval (rev b) < M"
    using uval_lt [of "rev a"] uval_lt [of "rev b"] len by (simp_all add: M_def)
  have v: "uval (rev (p # a)) = uval (rev a) + M * unat p" "uval (rev (q # b)) = uval (rev b) + M * unat q"
    using len by (simp_all add: uval_append M_def)
  have step: "uval x + M * m < uval y + M * n" if "m < n" "uval x < M" for x y and m n :: nat
  proof -
    have "M * m + M \<le> M * n" using that(1) by (metis Suc_leI mult_Suc_right mult_le_mono2 add.commute)
    with that(2) show ?thesis by linarith
  qed
  consider "p < q" | "q < p" | "p = q" by (rule linorder_cases)
  then show ?case
  proof cases
    case 1
    with step [of "unat p" "unat q" "rev a" "rev b"] lt show ?thesis by (simp only: v word_less_nat_alt lt_loop.simps if_True)
  next
    case 2
    with step [of "unat q" "unat p" "rev b" "rev a"] lt show ?thesis
      unfolding v by (simp add: word_less_nat_alt)
  next
    case 3
    with "1.IH" len show ?thesis unfolding v by simp
  qed
qed auto

lemma le_loop_lt: "length a = length b \<Longrightarrow> le_loop a b \<longleftrightarrow> \<not> lt_loop b a"
  by (induction a b rule: le_loop.induct) auto

lemma gt_loop_lt: "length a = length b \<Longrightarrow> gt_loop a b \<longleftrightarrow> lt_loop b a"
  by (induction a b rule: gt_loop.induct) auto

lemma ge_loop_lt: "length a = length b \<Longrightarrow> ge_loop a b \<longleftrightarrow> \<not> lt_loop a b"
  by (induction a b rule: ge_loop.induct) auto

lemma op_lt_uval: "length a = length b \<Longrightarrow> op_lt a b \<longleftrightarrow> uval a < uval b"
  by (simp add: op_lt_def lt_loop_uval)

lemma op_le_uval: "length a = length b \<Longrightarrow> op_le a b \<longleftrightarrow> uval a \<le> uval b"
  by (simp add: op_le_def le_loop_lt lt_loop_uval not_less)

lemma op_gt_uval: "length a = length b \<Longrightarrow> op_gt a b \<longleftrightarrow> uval a > uval b"
  by (simp add: op_gt_def gt_loop_lt lt_loop_uval)

lemma op_ge_uval: "length a = length b \<Longrightarrow> op_ge a b \<longleftrightarrow> uval a \<ge> uval b"
  by (simp add: op_ge_def ge_loop_lt lt_loop_uval not_less)

lemma op_eq_iff: "length a = length b \<Longrightarrow> op_eq a b \<longleftrightarrow> a = b"
  by (induction a b rule: op_eq.induct) auto

lemma op_is_zero_uval: "op_is_zero a \<longleftrightarrow> uval a = 0"
  by (induction a) (auto simp: unat_eq_0)

subsection \<open>Negation and subtraction from the interface\<close>

text \<open>
  What negation and subtraction need of the limb operations: addition, complement and
  increment compute modulo \<open>M\<close>, and the value determines the representation.
\<close>

locale modular_uint =
  fixes wf :: "'a \<Rightarrow> bool" and val :: "'a \<Rightarrow> nat" and M :: nat
    and add :: "'a \<Rightarrow> 'a \<Rightarrow> 'a" and compl :: "'a \<Rightarrow> 'a" and incr :: "'a \<Rightarrow> 'a"
  assumes M_pos: "0 < M"
    and val_lt: "wf a \<Longrightarrow> val a < M"
    and val_inj: "wf a \<Longrightarrow> wf b \<Longrightarrow> val a = val b \<Longrightarrow> a = b"
    and wf_add: "wf a \<Longrightarrow> wf b \<Longrightarrow> wf (add a b)"
    and wf_compl: "wf a \<Longrightarrow> wf (compl a)"
    and wf_incr: "wf a \<Longrightarrow> wf (incr a)"
    and val_add: "wf a \<Longrightarrow> wf b \<Longrightarrow> val (add a b) = (val a + val b) mod M"
    and val_compl: "wf a \<Longrightarrow> val (compl a) = M - 1 - val a"
    and val_incr: "wf a \<Longrightarrow> val (incr a) = (val a + 1) mod M"
begin

lemma wf_neg: "wf a \<Longrightarrow> wf (incr (compl a))"
  by (intro wf_incr wf_compl)

lemma val_neg: "wf a \<Longrightarrow> val (incr (compl a)) = (M - val a) mod M"
  using val_lt [of a] M_pos by (simp add: val_incr wf_compl val_compl Suc_diff_Suc)

lemma val_sub:
  assumes "wf a" "wf b"
  shows "val (add a (incr (compl b))) = (val a + (M - val b)) mod M"
  using assms by (simp add: val_add wf_neg val_neg mod_add_right_eq)

lemma add_commute: "wf a \<Longrightarrow> wf b \<Longrightarrow> add a b = add b a"
  by (rule val_inj) (simp_all add: wf_add val_add add.commute)

lemma add_assoc: "wf a \<Longrightarrow> wf b \<Longrightarrow> wf c \<Longrightarrow> add (add a b) c = add a (add b c)"
  by (rule val_inj) (simp_all add: wf_add val_add mod_add_left_eq mod_add_right_eq add.assoc)

lemma add_sub_cancel:
  assumes "wf a" "wf b"
  shows "add (add a b) (incr (compl b)) = a"
proof (rule val_inj)
  show "wf (add (add a b) (incr (compl b)))" and "wf a"
    using assms by (simp_all add: wf_add wf_neg)
  have "val (add (add a b) (incr (compl b))) = (val a + val b + (M - val b)) mod M"
    using assms by (simp add: val_sub wf_add val_add mod_add_left_eq)
  also have "\<dots> = val a" using val_lt [OF assms(1)] val_lt [OF assms(2)] by simp
  finally show "val (add (add a b) (incr (compl b))) = val a" .
qed

end

interpretation uint: modular_uint "\<lambda>a. length a = Suc w" uval "2 ^ (32 * Suc w)" op_add op_compl op_incr
  for w
proof
  show "length a = Suc w \<Longrightarrow> uval a < 2 ^ (32 * Suc w)" for a
    using uval_lt [of a] by simp
  show "length a = Suc w \<Longrightarrow> length b = Suc w \<Longrightarrow> uval a = uval b \<Longrightarrow> a = b" for a b
    by (rule uval_inj) simp_all
  show "length a = Suc w \<Longrightarrow> uval (op_incr a) = (uval a + 1) mod 2 ^ (32 * Suc w)" for a
    using uval_incr [of a] by (cases a) auto
  show "length a = Suc w \<Longrightarrow> length b = Suc w \<Longrightarrow> uval (op_add a b) = (uval a + uval b) mod 2 ^ (32 * Suc w)"
    for a b using uval_add [of a b] by simp
  show "length a = Suc w \<Longrightarrow> uval (op_compl a) = 2 ^ (32 * Suc w) - 1 - uval a" for a
    using uval_compl [of a] by simp
qed simp_all

lemma op_neg_compl: "op_neg a = op_incr (op_compl a)"
  by (simp add: op_neg_def op_compl_def)

lemma uval_sub:
  assumes "length a = length b"
  shows "uval (op_sub a b) = (uval a + (2 ^ (32 * length a) - uval b)) mod 2 ^ (32 * length a)"
proof (cases "length a")
  case 0
  with assms show ?thesis by (simp add: op_sub_def op_add_def)
next
  case (Suc w)
  with assms have "length b = Suc w" by simp
  from uint.val_sub [OF Suc this] show ?thesis by (simp only: op_sub_def op_neg_compl Suc)
qed

lemma uval_decr:
  assumes "a \<noteq> []"
  shows "uval (op_decr a) = (uval a + (2 ^ (32 * length a) - 1)) mod 2 ^ (32 * length a)"
proof -
  define M where "M = (2::nat) ^ (32 * length a)"
  have "op_decr a \<noteq> []" using assms by (cases a) auto
  from uval_incr [OF this] have inc: "uval a = (uval (op_decr a) + 1) mod M"
    by (simp add: op_incr_decr M_def)
  have lt: "uval (op_decr a) < M" using uval_lt [of "op_decr a"] by (simp add: M_def)
  have "(uval a + (M - 1)) mod M = (uval (op_decr a) + 1 + (M - 1)) mod M"
    unfolding inc by (simp add: mod_add_left_eq)
  also have "\<dots> = uval (op_decr a)" using lt by simp
  finally show ?thesis by (simp add: M_def)
qed

subsection \<open>Shifts\<close>

lemma bit_low_high:
  fixes x y :: nat
  assumes "x < 2 ^ k"
  shows "bit (x + 2 ^ k * y) n \<longleftrightarrow> (if n < k then bit x n else bit y (n - k))"
proof (cases "n < k")
  case True
  have e: "2 ^ k * y = 2 ^ n * (2 ^ (k - n) * y)"
    using True by (simp add: power_add [symmetric] mult.assoc [symmetric])
  have "(x + 2 ^ k * y) div 2 ^ n = 2 ^ (k - n) * y + x div 2 ^ n"
    unfolding e by (rule div_mult_self2) simp
  with True show ?thesis by (simp add: bit_iff_odd)
next
  case False
  then have "(2::nat) ^ n = 2 ^ k * 2 ^ (n - k)" by (simp add: power_add [symmetric])
  then have "(x + 2 ^ k * y) div 2 ^ n = (x + 2 ^ k * y) div 2 ^ k div 2 ^ (n - k)"
    by (simp only: div_mult2_eq)
  also have "(x + 2 ^ k * y) div 2 ^ k = y" using assms by simp
  finally show ?thesis using False by (simp add: bit_iff_odd)
qed

lemma bit_uval: "bit (uval a) n \<longleftrightarrow> n < 32 * length a \<and> bit (a ! (n div 32)) (n mod 32)"
proof (induction a arbitrary: n)
  case (Cons p pn)
  show ?case
  proof (cases "n < 32")
    case True
    then show ?thesis using bit_low_high [of "unat p" 32 "uval pn" n]
      by (simp add: bit_unsigned_iff)
  next
    case False
    then have "n div 32 = Suc ((n - 32) div 32)" "n mod 32 = (n - 32) mod 32"
      by (simp_all add: le_div_geq le_mod_geq)
    with False show ?thesis using bit_low_high [of "unat p" 32 "uval pn" n] Cons.IH [of "n - 32"]
      by (auto simp: less_diff_conv2)
  qed
qed simp

lemma bit_uval_at: "r < 32 \<Longrightarrow> bit (uval a) (32 * q + r) \<longleftrightarrow> q < length a \<and> bit (a ! q) r"
  by (auto simp: bit_uval)

text \<open>What the loops leave in limb \<open>j\<close> after the first \<open>m\<close> iterations.\<close>

definition shl_limb :: "limbs \<Rightarrow> nat \<Rightarrow> nat \<Rightarrow> nat \<Rightarrow> nat \<Rightarrow> u32" where
  "shl_limb a k s m j =
     (if k \<le> j \<and> j - k < m then push_bit s (a ! (j - k)) else 0) OR
     (if k + 1 \<le> j \<and> j - k - 1 < m \<and> s \<noteq> 0 then drop_bit (32 - s) (a ! (j - k - 1)) else 0)"

lemma shl_fold:
  assumes "m \<le> length a"
  shows "fold (shl_step a k s) [0..<m] (replicate (length a) 0)
       = map (shl_limb a k s m) [0..<length a]"
  using assms
proof (induction m)
  case 0
  then show ?case by (auto simp: shl_limb_def intro!: nth_equalityI)
next
  case (Suc m)
  let ?pn = "map (shl_limb a k s m) [0..<length a]"
  have "fold (shl_step a k s) [0..<Suc m] (replicate (length a) 0) = shl_step a k s m ?pn"
    using Suc by simp
  also have "\<dots> = map (shl_limb a k s (Suc m)) [0..<length a]"
  proof (rule nth_equalityI)
    fix j assume "j < length (shl_step a k s m ?pn)"
    then have j: "j < length a" by (simp add: shl_step_def Let_def split: if_splits)
    consider "j = m + k" | "j = m + k + 1" | "j \<noteq> m + k" "j \<noteq> m + k + 1" by blast
    then show "shl_step a k s m ?pn ! j = map (shl_limb a k s (Suc m)) [0..<length a] ! j"
    proof cases
      case 1
      with j show ?thesis
        by (auto simp: shl_step_def Let_def shl_limb_def nth_list_update or.commute)
    next
      case 2
      with j show ?thesis
        by (auto simp: shl_step_def Let_def shl_limb_def nth_list_update)
    next
      case 3
      then have "(k \<le> j \<and> j - k < Suc m) = (k \<le> j \<and> j - k < m)"
        "(k + 1 \<le> j \<and> j - k - 1 < Suc m) = (k + 1 \<le> j \<and> j - k - 1 < m)" by auto
      with 3 j show ?thesis
        by (auto simp: shl_step_def Let_def shl_limb_def nth_list_update)
    qed
  qed (simp add: shl_step_def Let_def)
  finally show ?case .
qed

lemma length_op_shl [simp]: "length (op_shl a sh) = length a"
  by (simp add: op_shl_def shl_fold)

lemma shl_limb_bit:
  assumes "j < length a" "s < 32" "r < 32"
  shows "bit (shl_limb a k s (length a) j) r \<longleftrightarrow>
     32 * k + s \<le> 32 * j + r \<and> bit (uval a) (32 * j + r - (32 * k + s))"
proof -
  have lhs: "bit (shl_limb a k s (length a) j) r \<longleftrightarrow>
      (k \<le> j \<and> s \<le> r \<and> bit (a ! (j - k)) (r - s)
       \<or> k + 1 \<le> j \<and> r < s \<and> bit (a ! (j - k - 1)) (32 + r - s))"
    using assms bit_imp_le_length [of "a ! (j - k - 1)" "32 - s + r"]
    by (auto simp: shl_limb_def bit_or_iff bit_push_bit_iff bit_drop_bit_eq add.commute
        split: if_splits)
  show ?thesis
  proof (cases "s \<le> r")
    case True
    have "32 * j + r - (32 * k + s) = 32 * (j - k) + (r - s)" if "k \<le> j"
      using that True by (simp add: diff_mult_distrib2)
    with True assms bit_uval_at [of "r - s" a "j - k"] show ?thesis
      unfolding lhs by (auto simp: less_imp_diff_less)
  next
    case False
    have "32 * j + r - (32 * k + s) = 32 * (j - k - 1) + (32 + r - s)" if "k + 1 \<le> j"
      using that False assms by (simp add: diff_mult_distrib2)
    with False assms bit_uval_at [of "32 + r - s" a "j - k - 1"] show ?thesis
      unfolding lhs by (auto simp: less_imp_diff_less)
  qed
qed

lemma uval_shl: "uval (op_shl a sh) = (uval a * 2 ^ unat sh) mod 2 ^ (32 * length a)"
proof -
  have "uval (op_shl a sh) = take_bit (32 * length a) (push_bit (unat sh) (uval a))"
  proof (rule bit_eqI)
    fix n :: nat
    have sh: "32 * (unat sh div 32) + unat sh mod 32 = unat sh" by simp
    have n: "32 * (n div 32) + n mod 32 = n" by simp
    show "bit (uval (op_shl a sh)) n = bit (take_bit (32 * length a) (push_bit (unat sh) (uval a))) n"
    proof (cases "n < 32 * length a")
      case True
      then have j: "n div 32 < length a" by (simp add: div_less_iff_less_mult mult.commute)
      with True have "bit (uval (op_shl a sh)) n
          = bit (shl_limb a (unat sh div 32) (unat sh mod 32) (length a) (n div 32)) (n mod 32)"
        by (simp add: bit_uval op_shl_def shl_fold)
      also have "\<dots> = (unat sh \<le> n \<and> bit (uval a) (n - unat sh))"
        using shl_limb_bit [OF j, of "unat sh mod 32" "n mod 32" "unat sh div 32"]
        unfolding sh n by simp
      finally show ?thesis using True by (simp add: bit_take_bit_iff bit_push_bit_iff)
    qed (simp add: bit_uval bit_take_bit_iff)
  qed
  then show ?thesis by (simp add: take_bit_eq_mod push_bit_eq_mult)
qed

definition shr_limb :: "limbs \<Rightarrow> nat \<Rightarrow> nat \<Rightarrow> nat \<Rightarrow> nat \<Rightarrow> u32" where
  "shr_limb a k s m j =
     (if j + k < m then drop_bit s (a ! (j + k)) else 0) OR
     (if j + k + 1 < m \<and> s \<noteq> 0 then push_bit (32 - s) (a ! (j + k + 1)) else 0)"

lemma shr_fold:
  assumes "m \<le> length a"
  shows "fold (shr_step a k s) [0..<m] (replicate (length a) 0)
       = map (shr_limb a k s m) [0..<length a]"
  using assms
proof (induction m)
  case 0
  then show ?case by (auto simp: shr_limb_def intro!: nth_equalityI)
next
  case (Suc m)
  let ?pn = "map (shr_limb a k s m) [0..<length a]"
  have "fold (shr_step a k s) [0..<Suc m] (replicate (length a) 0) = shr_step a k s m ?pn"
    using Suc by simp
  also have "\<dots> = map (shr_limb a k s (Suc m)) [0..<length a]"
  proof (rule nth_equalityI)
    fix j assume "j < length (shr_step a k s m ?pn)"
    then have j: "j < length a" by (simp add: shr_step_def Let_def split: if_splits)
    consider "m = j + k" | "m = j + k + 1" | "m \<noteq> j + k" "m \<noteq> j + k + 1" by blast
    then show "shr_step a k s m ?pn ! j = map (shr_limb a k s (Suc m)) [0..<length a] ! j"
    proof cases
      case 1
      with j show ?thesis
        by (auto simp: shr_step_def Let_def shr_limb_def nth_list_update)
    next
      case 2
      with j show ?thesis
        by (auto simp: shr_step_def Let_def shr_limb_def nth_list_update)
    next
      case 3
      then have "m - k \<noteq> j \<or> m < k" "m - k - 1 \<noteq> j \<or> m < k + 1"
        "(j + k < Suc m) = (j + k < m)" "(j + k + 1 < Suc m) = (j + k + 1 < m)" by auto
      with j show ?thesis
        by (auto simp: shr_step_def Let_def shr_limb_def nth_list_update)
    qed
  qed (simp add: shr_step_def Let_def)
  finally show ?case .
qed

lemma length_op_shr [simp]: "length (op_shr a sh) = length a"
  by (simp add: op_shr_def shr_fold)

lemma shr_limb_bit:
  assumes "s < 32" "r < 32"
  shows "bit (shr_limb a k s (length a) j) r \<longleftrightarrow> bit (uval a) (32 * j + r + (32 * k + s))"
proof -
  have lhs: "bit (shr_limb a k s (length a) j) r \<longleftrightarrow>
      (j + k < length a \<and> r + s < 32 \<and> bit (a ! (j + k)) (r + s)
       \<or> j + k + 1 < length a \<and> 32 \<le> r + s \<and> bit (a ! (j + k + 1)) (r + s - 32))"
    using assms bit_imp_le_length [of "a ! (j + k)" "s + r"]
    by (auto simp: shr_limb_def bit_or_iff bit_push_bit_iff bit_drop_bit_eq add.commute
        split: if_splits)
  show ?thesis
  proof (cases "r + s < 32")
    case True
    have e: "32 * j + r + (32 * k + s) = 32 * (j + k) + (r + s)" by simp
    from True bit_uval_at [of "r + s" a "j + k"] show ?thesis unfolding lhs e by auto
  next
    case False
    then have e: "32 * j + r + (32 * k + s) = 32 * (j + k + 1) + (r + s - 32)" by simp
    from False assms bit_uval_at [of "r + s - 32" a "j + k + 1"] show ?thesis
      unfolding lhs e by auto
  qed
qed

lemma uval_shr: "uval (op_shr a sh) = uval a div 2 ^ unat sh"
proof -
  have "uval (op_shr a sh) = drop_bit (unat sh) (uval a)"
  proof (rule bit_eqI)
    fix n :: nat
    have sh: "32 * (unat sh div 32) + unat sh mod 32 = unat sh" by simp
    have n: "32 * (n div 32) + n mod 32 = n" by simp
    show "bit (uval (op_shr a sh)) n = bit (drop_bit (unat sh) (uval a)) n"
    proof (cases "n < 32 * length a")
      case True
      then have j: "n div 32 < length a" by (simp add: div_less_iff_less_mult mult.commute)
      with True have "bit (uval (op_shr a sh)) n
          = bit (shr_limb a (unat sh div 32) (unat sh mod 32) (length a) (n div 32)) (n mod 32)"
        by (simp add: bit_uval op_shr_def shr_fold)
      also have "\<dots> = bit (uval a) (n + unat sh)"
        using shr_limb_bit [of "unat sh mod 32" "n mod 32" a "unat sh div 32" "n div 32"]
        unfolding sh n by simp
      finally show ?thesis by (simp add: bit_drop_bit_eq add.commute)
    next
      case False
      then show ?thesis by (simp add: bit_uval bit_drop_bit_eq)
    qed
  qed
  then show ?thesis by (simp add: drop_bit_eq_div)
qed

subsection \<open>64-bit operands\<close>

lemma length_op_assign64: "2 \<le> W \<Longrightarrow> length (op_assign64 W b) = W"
  by (simp add: op_assign64_def)

lemma uval_assign64: "uval (op_assign64 W b) = unat b"
proof -
  have "unat (ucast b :: u32) = unat b mod 2 ^ 32" by (simp add: unsigned_ucast_eq take_bit_eq_mod)
  moreover have "unat (ucast (drop_bit 32 b) :: u32) = unat b div 2 ^ 32"
  proof -
    have "unat b < 2 ^ 64" using unsigned_less [of b, where ?'a = nat] by simp
    then have "unat b div 2 ^ 32 < 2 ^ 32" by (simp add: div_less_iff_less_mult)
    then show ?thesis by (simp add: unsigned_ucast_eq take_bit_eq_mod drop_bit_eq_div unat_div)
  qed
  ultimately show ?thesis by (simp add: op_assign64_def)
qed

lemma uval_add64:
  assumes "2 \<le> length a"
  shows "uval (op_add64 a b) = (uval a + unat b) mod 2 ^ (32 * length a)"
  using assms by (simp add: op_add64_def uval_add length_op_assign64 uval_assign64)

lemma op_eq64_uval:
  assumes "2 \<le> length a"
  shows "op_eq64 a b \<longleftrightarrow> uval a = unat b"
proof -
  obtain p q pn where a: "a = p # q # pn"
    using assms by (metis One_nat_def Suc_1 Suc_le_length_iff)
  have "op_is_zero pn \<longleftrightarrow> pn = replicate (length pn) 0"
    using uval_inj [of pn "replicate (length pn) 0"] uval_replicate_0 [of "length pn"]
    by (auto simp: op_is_zero_uval simp del: uval_replicate_0)
  then have "op_eq64 a b \<longleftrightarrow> a = op_assign64 (length a) b"
    by (auto simp: a op_eq64_def op_assign64_def)
  also have "\<dots> \<longleftrightarrow> uval a = unat b"
    by (metis assms uval_assign64 length_op_assign64 uval_inj)
  finally show ?thesis .
qed

subsection \<open>Hexadecimal round trip\<close>

lemma of_char_hexchar: "d < 16 \<Longrightarrow> (of_char (hexchar d) :: nat) = (if d < 10 then 48 + d else 87 + d)"
  by (simp add: hexchar_def of_char_of)

lemma phexdigit_hexchar: "d < 16 \<Longrightarrow> phexdigit (hexchar d) = d"
  by (auto simp: phexdigit_def Let_def of_char_hexchar)

definition is_hexchar :: "char \<Rightarrow> bool" where
  "is_hexchar c \<longleftrightarrow> (\<exists>d < 16. c = hexchar d)"

lemma is_hexchar_code: "is_hexchar c \<Longrightarrow>
    (48 \<le> (of_char c :: nat) \<and> (of_char c :: nat) \<le> 57) \<or> (97 \<le> (of_char c :: nat) \<and> (of_char c :: nat) \<le> 102)"
  by (auto simp: is_hexchar_def of_char_hexchar split: if_splits)

lemma is_hexchar_digit: "is_hexchar c \<Longrightarrow> phexdigit c \<noteq> 0 \<or> c = CHR ''0''"
proof (cases "c = CHR ''0''")
  case False
  then have "(of_char c :: nat) \<noteq> of_char (CHR ''0'')" using of_char_eq_iff by blast
  then show "is_hexchar c \<Longrightarrow> phexdigit c \<noteq> 0 \<or> c = CHR ''0''"
    using is_hexchar_code [of c] by (auto simp: phexdigit_def Let_def)
qed simp

lemma is_hexchar_neq:
  assumes "is_hexchar c"
  shows "c \<noteq> CHR 0x00" "\<not> c_isspace c" "c \<noteq> CHR ''x''" "c \<noteq> CHR ''X''"
  using is_hexchar_code [OF assms] by (auto simp: c_isspace_def Let_def)

lemma hex2_hexchar: "c \<in> set (hex2 b) \<Longrightarrow> is_hexchar c"
proof -
  have "is_hexchar (hexchar d)" if "d < 16" for d using that by (auto simp: is_hexchar_def)
  then have "is_hexchar (hexchar (unat b div 16))" "is_hexchar (hexchar (unat b mod 16))"
    by (simp_all add: div_less_iff_less_mult)
  then show "c \<in> set (hex2 b) \<Longrightarrow> is_hexchar c" by (auto simp: hex2_def)
qed

lemma set_GetHex: "c \<in> set (GetHex a) \<Longrightarrow> is_hexchar c"
  by (auto simp: GetHex_def intro: hex2_hexchar)

lemma skip_0x_hex: "\<forall>c \<in> set cs. is_hexchar c \<Longrightarrow> skip_0x cs = cs"
proof (cases cs)
  case (Cons c ds)
  show "\<forall>c \<in> set cs. is_hexchar c \<Longrightarrow> skip_0x cs = cs"
    using is_hexchar_neq(3,4) by (cases ds) (simp_all add: Cons skip_0x_def)
qed (simp add: skip_0x_def)

lemma nibbles_byte: "of_nat (unat b mod 16) OR push_bit 4 (of_nat (unat b div 16)) = (b :: byte)"
proof (rule bit_word_eqI)
  fix n assume "n < LENGTH(8)"
  moreover have "unat b mod 16 = take_bit 4 (unat b)" "unat b div 16 = drop_bit 4 (unat b)"
    by (simp_all add: take_bit_eq_mod drop_bit_eq_div)
  ultimately show "bit (of_nat (unat b mod 16) OR push_bit 4 (of_nat (unat b div 16)) :: byte) n = bit b n"
    by (auto simp: bit_or_iff bit_push_bit_iff bit_of_nat_iff bit_take_bit_iff bit_drop_bit_eq bit_unsigned_iff)
qed

lemma sethex_loop_nibbles:
  "sethex_loop (length bs) (concat (map (\<lambda>b. [unat b mod 16, unat b div 16]) bs)) = bs"
  by (induction bs) (simp_all add: nibbles_byte)

lemma length_uint_bytes [simp]: "length (uint_bytes a) = 4 * length a"
  by (induction a) (simp_all add: uint_bytes_def limb_bytes_def)

lemma bytes_limbs_uint_bytes: "bytes_limbs (uint_bytes a) = a"
proof (induction a)
  case (Cons p pn)
  obtain b0 b1 b2 b3 where bs: "limb_bytes p = [b0, b1, b2, b3]"
    using length4_cases [of "limb_bytes p"] by (auto simp: limb_bytes_def)
  have "le_val (limb_bytes p) = unat p"
    using unat_u32_lt [of p] by (simp add: limb_bytes_def le_val_le_bytes)
  with bs have "of_nat (le_val [b0, b1, b2, b3]) = p" by simp
  with bs Cons show ?case by (simp add: uint_bytes_def)
qed (simp add: uint_bytes_def)

lemma SetHex_GetHex: "SetHex (length a) (GetHex a) = a"
proof -
  have hex: "\<forall>c \<in> set (GetHex a). is_hexchar c" using set_GetHex by blast
  have 1: "takeWhile (\<lambda>c. c \<noteq> CHR 0x00) (GetHex a) = GetHex a"
    using hex is_hexchar_neq(1) by (intro takeWhile_eq_all_conv [THEN iffD2]) blast
  have 2: "dropWhile c_isspace (GetHex a) = GetHex a"
    using hex is_hexchar_neq(2) by (cases "GetHex a") auto
  have 3: "takeWhile (\<lambda>c. phexdigit c \<noteq> 0 \<or> c = CHR ''0'') (GetHex a) = GetHex a"
    using hex is_hexchar_digit by (intro takeWhile_eq_all_conv [THEN iffD2]) blast
  have "unat b div 16 < 16" for b :: byte by (simp add: div_less_iff_less_mult)
  then have "map phexdigit (rev (GetHex a)) = concat (map (\<lambda>b. [unat b mod 16, unat b div 16]) (uint_bytes a))"
    by (simp add: GetHex_def rev_concat rev_map map_concat comp_def hex2_def phexdigit_hexchar)
  with sethex_loop_nibbles [of "uint_bytes a"] show ?thesis
    unfolding SetHex_def Let_def 1 2 skip_0x_hex [OF hex] 3 by (simp add: bytes_limbs_uint_bytes)
qed

lemma uint_of_vch_bytes: "uint_of_vch (length a) (uint_bytes a) = a"
  by (simp add: uint_of_vch_def bytes_limbs_uint_bytes)

section \<open>Correctness of the integer class\<close>

text \<open>C32. The carry, complement and borrow loops of \<^verbatim>\<open>base_uint\<close> implement arithmetic modulo
  \<open>2 ^ BITS\<close>: for operands of one non-zero width, addition, subtraction, negation, increment and
  decrement of the limb arrays denote the sum, difference, additive inverse, successor and
  predecessor of the denoted numbers, reduced modulo \<open>2 ^ (32 * WIDTH)\<close>, and keep the width.\<close>

theorem base_uint_arith_refines:
  assumes "length a = length b" and "a \<noteq> []"
  shows "uval (op_add a b) = (uval a + uval b) mod 2 ^ (32 * length a)
    \<and> uval (op_sub a b) = (uval a + (2 ^ (32 * length a) - uval b)) mod 2 ^ (32 * length a)
    \<and> uval (op_neg a) = (2 ^ (32 * length a) - uval a) mod 2 ^ (32 * length a)
    \<and> uval (op_incr a) = (uval a + 1) mod 2 ^ (32 * length a)
    \<and> uval (op_decr a) = (uval a + (2 ^ (32 * length a) - 1)) mod 2 ^ (32 * length a)
    \<and> length (op_add a b) = length a \<and> length (op_sub a b) = length a
    \<and> length (op_neg a) = length a"
proof (intro conjI)
  obtain w where w: "length a = Suc w" using assms(2) by (cases a) auto
  show "uval (op_neg a) = (2 ^ (32 * length a) - uval a) mod 2 ^ (32 * length a)"
    using uint.val_neg [OF w] by (simp only: op_neg_compl w)
qed (rule uval_add [OF assms(1)] uval_sub [OF assms(1)] uval_incr [OF assms(2)]
      uval_decr [OF assms(2)] | simp add: op_sub_def assms(1))+

theorem base_uint_arith_refines_witness:
  "uval (op_add [0xffffffff, 0] [1, 0]) = (uval [0xffffffff, 0] + uval [1, 0]) mod 2 ^ (32 * 2)
   \<and> op_add [0xffffffff, 0] [1, 0] = [0, 1]"
  using base_uint_arith_refines [of "[0xffffffff, 0]" "[1, 0]"] by (simp add: op_add_def)

text \<open>The six comparison loops of \<^verbatim>\<open>base_uint\<close> decide the numeric order of the denoted
  numbers, and the comparison with a 64-bit integer decides equality with that integer.\<close>

theorem base_uint_order_refines:
  assumes "length a = length b" and "2 \<le> length a"
  shows "(op_lt a b \<longleftrightarrow> uval a < uval b) \<and> (op_le a b \<longleftrightarrow> uval a \<le> uval b)
    \<and> (op_gt a b \<longleftrightarrow> uval a > uval b) \<and> (op_ge a b \<longleftrightarrow> uval a \<ge> uval b)
    \<and> (op_eq a b \<longleftrightarrow> uval a = uval b) \<and> (op_is_zero a \<longleftrightarrow> uval a = 0)
    \<and> (op_eq64 a n \<longleftrightarrow> uval a = unat n)"
  using assms uval_inj [OF assms(1)]
  by (auto simp: op_lt_uval op_le_uval op_gt_uval op_ge_uval op_eq_iff op_is_zero_uval op_eq64_uval)

text \<open>The shift loops of \<^verbatim>\<open>base_uint\<close>, which move whole limbs and then recombine two
  neighbouring limbs, multiply modulo \<open>2 ^ BITS\<close> and divide by \<open>2 ^ shift\<close> for every 32-bit shift
  count, including counts of at least \<open>BITS\<close>.\<close>

theorem base_uint_shift_refines:
  "uval (op_shl a sh) = (uval a * 2 ^ unat sh) mod 2 ^ (32 * length a)
   \<and> uval (op_shr a sh) = uval a div 2 ^ unat sh
   \<and> length (op_shl a sh) = length a \<and> length (op_shr a sh) = length a"
  by (simp add: uval_shl uval_shr)

text \<open>Subtraction undoes addition on limb arrays of one width, also when the addition wraps.\<close>

theorem base_uint_add_sub_cancel:
  assumes "length a = length b"
  shows "op_sub (op_add a b) b = a"
proof (cases "length a")
  case 0
  with assms show ?thesis by (simp add: op_sub_def op_add_def)
next
  case (Suc w)
  with assms have "length b = Suc w" by simp
  from uint.add_sub_cancel [OF Suc this] show ?thesis by (simp only: op_sub_def op_neg_compl)
qed

text \<open>Parsing the hexadecimal rendering of an integer of any width gives the integer back, and
  so does building it from its byte image.\<close>

theorem uint_hex_bytes_roundtrip:
  "SetHex (length a) (GetHex a) = a \<and> uint_of_vch (length a) (uint_bytes a) = a"
  by (simp add: SetHex_GetHex uint_of_vch_bytes)

end
