(* ===== verification/Bignum.thy ===== *)
theory Bignum
  imports Uint256
begin

unbundle bit_operations_syntax

text \<open>
  Arbitrary-precision integers: \<^verbatim>\<open>CBigNum\<close> of \<^verbatim>\<open>src/src/bignum.h\<close>, the wrapper around
  OpenSSL's \<^verbatim>\<open>BIGNUM\<close>. OpenSSL is not part of the repository, so its functions are the fields
  of the record \<open>bn_lib\<close>, an argument of every definition here; a \<^verbatim>\<open>BIGNUM\<close> is named by the
  integer it denotes. \<open>bn_spec\<close> states the documented behaviour of those functions and is the hypothesis of
  the results that need it; \<open>bn_ref\<close> is one library that meets it. Allocation failure inside OpenSSL is
  not modelled; \<^verbatim>\<open>unsigned long\<close> is 64 bits wide.
\<close>

section \<open>The library\<close>

record bn_lib =
  BN_mpi2bn :: "byte list \<Rightarrow> int"
  BN_bn2mpi :: "int \<Rightarrow> byte list"
  BN_set_word :: "nat \<Rightarrow> int"
  BN_get_word :: "int \<Rightarrow> nat"
  BN_is_negative :: "int \<Rightarrow> bool"
  BN_set_negative :: "int \<Rightarrow> bool \<Rightarrow> int"
  BN_add :: "int \<Rightarrow> int \<Rightarrow> int"
  BN_sub :: "int \<Rightarrow> int \<Rightarrow> int"
  BN_mul :: "int \<Rightarrow> int \<Rightarrow> int"
  BN_div :: "int \<Rightarrow> int \<Rightarrow> (int \<times> int) option"
  BN_nnmod :: "int \<Rightarrow> int \<Rightarrow> int option"
  BN_lshift :: "int \<Rightarrow> nat \<Rightarrow> int"
  BN_rshift :: "int \<Rightarrow> nat \<Rightarrow> int"
  BN_cmp :: "int \<Rightarrow> int \<Rightarrow> int"

text \<open>
  The MPI format: a four-byte big-endian length, then the magnitude in big-endian order with the sign in
  the most significant bit, a zero byte being prefixed when that bit is taken. Read backwards the magnitude
  bytes are the script number format: little-endian, the sign in the top bit of the last byte.
\<close>

fun le_min :: "nat \<Rightarrow> byte list" where
  "le_min n = (if n = 0 then [] else of_nat (n mod 256) # le_min (n div 256))"

declare le_min.simps [simp del]

definition sm_enc :: "int \<Rightarrow> byte list" where
  "sm_enc n =
     (let ds = le_min (nat \<bar>n\<bar>)
      in if ds = [] then []
         else if unat (last ds) \<ge> 128 then ds @ [if n < 0 then 0x80 else 0]
         else butlast ds @ [if n < 0 then last ds + 0x80 else last ds])"

definition sm_val :: "byte list \<Rightarrow> int" where
  "sm_val v =
     (if v = [] then 0
      else let t = unat (last v);
               m = int (le_val (butlast v) + 256 ^ (length v - 1) * (t mod 128))
           in if t \<ge> 128 then - m else m)"

definition be4 :: "nat \<Rightarrow> byte list" where
  "be4 n = rev (le_bytes 4 n)"

definition bn_spec :: "'a bn_lib_scheme \<Rightarrow> bool" where
  "bn_spec L \<longleftrightarrow>
     (\<forall>v. length v < 2 ^ 32 \<longrightarrow> BN_mpi2bn L (be4 (length v) @ rev v) = sm_val v)
     \<and> (\<forall>n. BN_bn2mpi L n = be4 (length (sm_enc n)) @ rev (sm_enc n))
     \<and> (\<forall>n. BN_set_word L n = int n)
     \<and> (\<forall>n. BN_get_word L n = (if \<bar>n\<bar> < 2 ^ 64 then nat \<bar>n\<bar> else 2 ^ 64 - 1))
     \<and> (\<forall>n. BN_is_negative L n = (n < 0))
     \<and> (\<forall>n b. BN_set_negative L n b = (if b then - \<bar>n\<bar> else \<bar>n\<bar>))
     \<and> (\<forall>a b. BN_add L a b = a + b) \<and> (\<forall>a b. BN_sub L a b = a - b) \<and> (\<forall>a b. BN_mul L a b = a * b)
     \<and> (\<forall>a b. BN_div L a b = (if b = 0 then None
            else Some (sgn a * sgn b * (\<bar>a\<bar> div \<bar>b\<bar>), sgn a * (\<bar>a\<bar> mod \<bar>b\<bar>))))
     \<and> (\<forall>a b. BN_nnmod L a b = (if b = 0 then None else Some (a mod \<bar>b\<bar>)))
     \<and> (\<forall>a k. BN_lshift L a k = a * 2 ^ k) \<and> (\<forall>a k. BN_rshift L a k = sgn a * (\<bar>a\<bar> div 2 ^ k))
     \<and> (\<forall>a b. BN_cmp L a b = sgn (a - b))"

definition bn_ref :: bn_lib where
  "bn_ref =
     \<lparr>BN_mpi2bn = \<lambda>bs. sm_val (rev (drop 4 bs)),
      BN_bn2mpi = \<lambda>n. be4 (length (sm_enc n)) @ rev (sm_enc n),
      BN_set_word = int,
      BN_get_word = \<lambda>n. if \<bar>n\<bar> < 2 ^ 64 then nat \<bar>n\<bar> else 2 ^ 64 - 1,
      BN_is_negative = \<lambda>n. n < 0,
      BN_set_negative = \<lambda>n b. if b then - \<bar>n\<bar> else \<bar>n\<bar>,
      BN_add = (+), BN_sub = (-), BN_mul = (*),
      BN_div = \<lambda>a b. if b = 0 then None
         else Some (sgn a * sgn b * (\<bar>a\<bar> div \<bar>b\<bar>), sgn a * (\<bar>a\<bar> mod \<bar>b\<bar>)),
      BN_nnmod = \<lambda>a b. if b = 0 then None else Some (a mod \<bar>b\<bar>),
      BN_lshift = \<lambda>a k. a * 2 ^ k, BN_rshift = \<lambda>a k. sgn a * (\<bar>a\<bar> div 2 ^ k),
      BN_cmp = \<lambda>a b. sgn (a - b)\<rparr>"

section \<open>Conversions of \<^verbatim>\<open>CBigNum\<close>\<close>

definition setulong :: "'a bn_lib_scheme \<Rightarrow> nat \<Rightarrow> int" where
  "setulong L n = BN_set_word L n"

definition getulong :: "'a bn_lib_scheme \<Rightarrow> int \<Rightarrow> nat" where
  "getulong L bn = BN_get_word L bn"

definition getuint :: "'a bn_lib_scheme \<Rightarrow> int \<Rightarrow> u32" where
  "getuint L bn = of_nat (BN_get_word L bn)"

text \<open>The largest and smallest \<^verbatim>\<open>int\<close> are the values returned on overflow.\<close>

definition getint :: "'a bn_lib_scheme \<Rightarrow> int \<Rightarrow> int" where
  "getint L bn =
     (let n = BN_get_word L bn
      in if \<not> BN_is_negative L bn then (if n > 2 ^ 31 - 1 then 2 ^ 31 - 1 else int n)
         else (if n > 2 ^ 31 - 1 then - (2 ^ 31) else - int n))"

text \<open>
  The digit loop of \<^verbatim>\<open>setint64\<close>, \<^verbatim>\<open>setuint64\<close> and \<^verbatim>\<open>setuint256\<close> over the big-endian
  bytes of the operand; the second argument is \<^verbatim>\<open>fLeadingZeroes\<close>.
\<close>

fun mpi_digits :: "bool \<Rightarrow> bool \<Rightarrow> byte list \<Rightarrow> byte list" where
  "mpi_digits fNegative fLeadingZeroes [] = []"
| "mpi_digits fNegative True (c # cs) =
     (if c = 0 then mpi_digits fNegative True cs
      else if c AND 0x80 \<noteq> 0 then (if fNegative then 0x80 else 0) # c # mpi_digits fNegative False cs
      else (if fNegative then c OR 0x80 else c) # mpi_digits fNegative False cs)"
| "mpi_digits fNegative False (c # cs) = c # mpi_digits fNegative False cs"

definition setint64 :: "'a bn_lib_scheme \<Rightarrow> int \<Rightarrow> int" where
  "setint64 L sn =
     (let fNegative = sn < 0;
          n = (if fNegative then of_int (- (sn + 1)) + 1 else of_int sn) :: u64;
          p = mpi_digits fNegative True (rev (le_bytes 8 (unat n)))
      in BN_mpi2bn L (be4 (length p) @ p))"

definition setuint64 :: "'a bn_lib_scheme \<Rightarrow> u64 \<Rightarrow> int" where
  "setuint64 L n =
     (let p = mpi_digits False True (rev (le_bytes 8 (unat n))) in BN_mpi2bn L (be4 (length p) @ p))"

definition setuint256 :: "'a bn_lib_scheme \<Rightarrow> limbs \<Rightarrow> int" where
  "setuint256 L n =
     (let p = mpi_digits False True (rev (uint_bytes n)) in BN_mpi2bn L (be4 (length p) @ p))"

text \<open>
  The copy loop of \<^verbatim>\<open>getuint64\<close> and \<^verbatim>\<open>getuint256\<close>: the lowest \<open>k\<close> bytes of the
  magnitude, the sign bit of the first magnitude byte cleared.
\<close>

definition mpi_low_bytes :: "nat \<Rightarrow> byte list \<Rightarrow> byte list" where
  "mpi_low_bytes k vch =
     (let vch1 = (if length vch > 4 then vch[4 := vch ! 4 AND 0x7f] else vch);
          bs = take k (rev (drop 4 vch1))
      in bs @ replicate (k - length bs) 0)"

definition getuint64 :: "'a bn_lib_scheme \<Rightarrow> int \<Rightarrow> u64" where
  "getuint64 L bn =
     (let vch = BN_bn2mpi L bn
      in if length vch < 4 then 0 else of_nat (le_val (mpi_low_bytes 8 vch)))"

definition getuint256 :: "'a bn_lib_scheme \<Rightarrow> int \<Rightarrow> limbs" where
  "getuint256 L bn =
     (let vch = BN_bn2mpi L bn
      in if length vch < 4 then op_assign64 UINT256_WIDTH 0 else bytes_limbs (mpi_low_bytes 32 vch))"

text \<open>The constructors from machine integers: \<^verbatim>\<open>int\<close>, \<^verbatim>\<open>long\<close> and their unsigned kin.\<close>

definition CBigNum_int :: "'a bn_lib_scheme \<Rightarrow> int \<Rightarrow> int" where
  "CBigNum_int L n = (if n \<ge> 0 then setulong L (nat n) else setint64 L n)"

definition CBigNum_ulong :: "'a bn_lib_scheme \<Rightarrow> nat \<Rightarrow> int" where
  "CBigNum_ulong L n = setulong L n"

definition setvch :: "'a bn_lib_scheme \<Rightarrow> byte list \<Rightarrow> int" where
  "setvch L vch = BN_mpi2bn L (be4 (length vch) @ rev vch)"

definition getvch :: "'a bn_lib_scheme \<Rightarrow> int \<Rightarrow> byte list" where
  "getvch L bn =
     (let vch = BN_bn2mpi L bn in if length vch \<le> 4 then [] else rev (drop 4 vch))"

definition SetCompact :: "'a bn_lib_scheme \<Rightarrow> u32 \<Rightarrow> int" where
  "SetCompact L nCompact =
     (let nSize = unat (drop_bit 24 nCompact);
          d = [ucast (drop_bit 16 nCompact AND 0xff), ucast (drop_bit 8 nCompact AND 0xff),
               ucast (nCompact AND 0xff)] :: byte list;
          body = take nSize d @ replicate (nSize - 3) 0
      in BN_mpi2bn L ([0, 0, 0, of_nat nSize] @ body))"

definition GetCompact :: "'a bn_lib_scheme \<Rightarrow> int \<Rightarrow> u32" where
  "GetCompact L bn =
     (let vch = BN_bn2mpi L bn;
          nSize = length vch - 4;
          c0 = push_bit 24 (of_nat nSize) :: u32;
          c1 = (if nSize \<ge> 1 then c0 OR push_bit 16 (ucast (vch ! 4)) else c0);
          c2 = (if nSize \<ge> 2 then c1 OR push_bit 8 (ucast (vch ! 5)) else c1)
      in if nSize \<ge> 3 then c2 OR ucast (vch ! 6) else c2)"

section \<open>Operators\<close>

definition bn_neg :: "'a bn_lib_scheme \<Rightarrow> int \<Rightarrow> int" where
  "bn_neg L a = BN_set_negative L a (\<not> BN_is_negative L a)"

definition bn_shr :: "'a bn_lib_scheme \<Rightarrow> int \<Rightarrow> nat \<Rightarrow> int" where
  "bn_shr L this shift =
     (let a = BN_lshift L (CBigNum_int L 1) shift
      in if BN_cmp L a this > 0 then CBigNum_int L 0 else BN_rshift L this shift)"

definition bn_eq :: "'a bn_lib_scheme \<Rightarrow> int \<Rightarrow> int \<Rightarrow> bool" where
  "bn_eq L a b \<longleftrightarrow> BN_cmp L a b = 0"

definition bn_ne :: "'a bn_lib_scheme \<Rightarrow> int \<Rightarrow> int \<Rightarrow> bool" where
  "bn_ne L a b \<longleftrightarrow> BN_cmp L a b \<noteq> 0"

definition bn_le :: "'a bn_lib_scheme \<Rightarrow> int \<Rightarrow> int \<Rightarrow> bool" where
  "bn_le L a b \<longleftrightarrow> BN_cmp L a b \<le> 0"

definition bn_ge :: "'a bn_lib_scheme \<Rightarrow> int \<Rightarrow> int \<Rightarrow> bool" where
  "bn_ge L a b \<longleftrightarrow> BN_cmp L a b \<ge> 0"

definition bn_lt :: "'a bn_lib_scheme \<Rightarrow> int \<Rightarrow> int \<Rightarrow> bool" where
  "bn_lt L a b \<longleftrightarrow> BN_cmp L a b < 0"

definition bn_gt :: "'a bn_lib_scheme \<Rightarrow> int \<Rightarrow> int \<Rightarrow> bool" where
  "bn_gt L a b \<longleftrightarrow> BN_cmp L a b > 0"

text \<open>
  \<^verbatim>\<open>SetHex\<close>: blanks, a minus sign, the prefix \<^verbatim>\<open>0x\<close>, blanks again, then hexadecimal digits.
\<close>

definition c_isxdigit :: "char \<Rightarrow> bool" where
  "c_isxdigit c =
     (let n = of_char c :: nat
      in (48 \<le> n \<and> n \<le> 57) \<or> (65 \<le> n \<and> n \<le> 70) \<or> (97 \<le> n \<and> n \<le> 102))"

definition bn_SetHex :: "'a bn_lib_scheme \<Rightarrow> string \<Rightarrow> int" where
  "bn_SetHex L str =
     (let psz = dropWhile c_isspace (takeWhile (\<lambda>c. c \<noteq> CHR 0x00) str);
          fNegative = (case psz of c # _ \<Rightarrow> c = CHR ''-'' | [] \<Rightarrow> False);
          psz1 = (if fNegative then tl psz else psz);
          psz2 = dropWhile c_isspace (skip_0x psz1);
          n = fold (\<lambda>c bn. BN_add L (BN_lshift L bn 4) (CBigNum_int L (int (phexdigit c))))
                (takeWhile c_isxdigit psz2) (CBigNum_int L 0)
      in if fNegative then BN_sub L (CBigNum_int L 0) n else n)"

text \<open>
  \<^verbatim>\<open>ToString(nBase)\<close>: the digits by repeated division, least significant first, then reversed.
  The loop returns only if the library's division makes progress, so it is a partial function; the
  outer \<open>None\<close> is a loop that does not end, the exception of a failed division is an inner \<open>None\<close>.
\<close>

partial_function (option) bn_digits :: "'a bn_lib_scheme \<Rightarrow> int \<Rightarrow> int \<Rightarrow> string \<Rightarrow> string option option" where
  "bn_digits L bnBase bn str =
     (if bn_gt L bn (CBigNum_int L 0) then
        (case BN_div L bn bnBase of
           None \<Rightarrow> Some None
         | Some (dv, rem) \<Rightarrow> bn_digits L bnBase dv (str @ [hexchar (getulong L rem)]))
      else Some (Some str))"

definition bn_ToString :: "'a bn_lib_scheme \<Rightarrow> int \<Rightarrow> int \<Rightarrow> string option option" where
  "bn_ToString L this nBase =
     (let bn = BN_set_negative L this False
      in if bn_eq L bn (CBigNum_int L 0) then Some (Some ''0'')
         else map_option (map_option (\<lambda>str.
           rev (if BN_is_negative L this then str @ ''-'' else str))) (bn_digits L (CBigNum_int L nBase) bn ''''))"

section \<open>Script numbers\<close>

lemma le_val_le_min [simp]: "le_val (le_min n) = n"
  by (induction n rule: le_min.induct) (subst le_min.simps, simp add: unat_of_nat)

lemma le_min_eq_Nil [simp]: "le_min n = [] \<longleftrightarrow> n = 0"
  by (subst le_min.simps) simp

lemma last_le_min: "0 < n \<Longrightarrow> last (le_min n) \<noteq> 0"
proof (induction n rule: le_min.induct)
  case (1 n)
  show ?case
  proof (cases "n div 256 = 0")
    case True
    then have "n < 256" by simp
    then have "le_min n = [of_nat n]" using 1(2) True by (subst le_min.simps) (simp add: le_min.simps)
    moreover have "unat (of_nat n :: byte) = n" using \<open>n < 256\<close> by (rule unat_of_nat_byte)
    ultimately show ?thesis using 1(2) by (auto simp: unat_eq_0 [symmetric])
  next
    case False
    then show ?thesis using 1 by (subst le_min.simps) simp
  qed
qed

lemma le_min_le_val: "v = [] \<or> last v \<noteq> 0 \<Longrightarrow> le_min (le_val v) = v"
proof (induction v)
  case (Cons b v)
  show ?case
  proof (cases "v = []")
    case True
    with Cons have "b \<noteq> 0" by simp
    then have "0 < unat b" by (simp add: unat_gt_0)
    moreover have "unat b div 256 = 0" "unat b mod 256 = unat b" by simp_all
    ultimately show ?thesis using True by (simp add: le_min.simps [of "unat b"] le_min.simps [of 0])
  next
    case False
    with Cons have IH: "le_min (le_val v) = v" by simp
    with False have "0 < le_val v" using le_min_eq_Nil [of "le_val v"] by (cases "le_val v = 0") auto
    moreover have "(unat b + 256 * le_val v) div 256 = le_val v" "(unat b + 256 * le_val v) mod 256 = unat b"
      by simp_all
    ultimately show ?thesis using IH by (subst le_min.simps) simp
  qed
qed (simp add: le_min.simps)

lemma sm_val_Nil [simp]: "sm_val [] = 0"
  by (simp add: sm_val_def)

lemma sm_val_snoc:
  "sm_val (xs @ [t]) =
     (let m = int (le_val xs + 256 ^ length xs * (unat t mod 128)) in if unat t \<ge> 128 then - m else m)"
  by (simp add: sm_val_def Let_def)

lemma abs_sm_val_snoc: "\<bar>sm_val (xs @ [t])\<bar> = int (le_val xs + 256 ^ length xs * (unat t mod 128))"
  unfolding sm_val_snoc Let_def by (cases "unat t \<ge> 128") (simp_all only: if_True if_False abs_minus abs_of_nat)

text \<open>The shortest encodings: the top byte carries magnitude bits, or is needed for the sign.\<close>

definition sm_minimal :: "byte list \<Rightarrow> bool" where
  "sm_minimal v \<longleftrightarrow>
     (v = [] \<or> unat (last v) mod 128 \<noteq> 0 \<or> (butlast v \<noteq> [] \<and> unat (last (butlast v)) \<ge> 128))"

lemma byte_plus_80:
  assumes "unat (b :: byte) < 128"
  shows "unat (b + 0x80) = unat b + 128"
  using assms by (subst unat_add_lem [THEN iffD1]) (simp_all add: unat_add_lem [symmetric])

lemma sm_val_sm_enc [simp]: "sm_val (sm_enc n) = n"
proof (cases "n = 0")
  case False
  define ds where "ds = le_min (nat \<bar>n\<bar>)"
  have ne: "ds \<noteq> []" and v: "int (le_val ds) = \<bar>n\<bar>" using False by (simp_all add: ds_def)
  then have d: "ds = butlast ds @ [last ds]" by simp
  have v': "le_val ds = le_val (butlast ds) + 256 ^ length (butlast ds) * unat (last ds)"
    by (subst d, subst le_val_append) simp
  show ?thesis
  proof (cases "unat (last ds) \<ge> 128")
    case True
    then have "sm_enc n = ds @ [if n < 0 then 0x80 else 0]" using ne by (simp add: sm_enc_def ds_def Let_def)
    then show ?thesis using v by (simp add: sm_val_snoc Let_def)
  next
    case False
    then have e: "sm_enc n = butlast ds @ [if n < 0 then last ds + 0x80 else last ds]"
      using ne by (simp add: sm_enc_def ds_def Let_def)
    then show ?thesis using v v' False by (auto simp: sm_val_snoc Let_def byte_plus_80 abs_if split: if_splits)
  qed
qed (simp add: sm_enc_def le_min.simps)

lemma sm_minimal_sm_enc: "sm_minimal (sm_enc n)"
proof (cases "n = 0")
  case False
  define ds where "ds = le_min (nat \<bar>n\<bar>)"
  have ne: "ds \<noteq> []" and "last ds \<noteq> 0" using False last_le_min [of "nat \<bar>n\<bar>"] by (simp_all add: ds_def)
  then have "unat (last ds) \<noteq> 0" by (simp add: unat_eq_0)
  then show ?thesis
    using ne by (auto simp: sm_enc_def Let_def sm_minimal_def byte_plus_80 simp flip: ds_def)
qed (simp add: sm_enc_def sm_minimal_def le_min.simps)

lemma sm_enc_cases:
  assumes "le_min (nat \<bar>n\<bar>) = ds" "ds \<noteq> []"
  shows "sm_enc n = (if unat (last ds) \<ge> 128 then ds @ [if n < 0 then 0x80 else 0]
         else butlast ds @ [if n < 0 then last ds + 0x80 else last ds])"
  using assms by (simp add: sm_enc_def Let_def)

lemma byte_minus_80:
  assumes "unat (t :: byte) \<ge> 128"
  shows "t = of_nat (unat t mod 128) + 0x80"
proof -
  have lt: "unat t - 128 < 128" using unat_byte_lt [of t] by linarith
  then have "unat t mod 128 = unat t - 128" using assms by (simp add: le_mod_geq)
  then have "unat (of_nat (unat t mod 128) :: byte) = unat t - 128"
    using unat_byte_lt [of t] by (simp add: unat_of_nat_byte)
  then have "unat (of_nat (unat t mod 128) + 0x80 :: byte) = unat t"
    using assms lt by (subst byte_plus_80) simp_all
  then show ?thesis by (metis word_unat_eq_iff)
qed

lemma le_min_snoc: "0 < k \<Longrightarrow> k < 256 \<Longrightarrow> le_min (le_val xs + 256 ^ length xs * k) = xs @ [of_nat k]"
proof -
  assume k: "0 < k" "k < 256"
  then have u: "unat (of_nat k :: byte) = k" by (simp add: unat_of_nat_byte)
  then have "(of_nat k :: byte) \<noteq> 0" using k by (auto simp: unat_eq_0 [symmetric])
  then have "le_min (le_val (xs @ [of_nat k])) = xs @ [of_nat k]" by (intro le_min_le_val) simp
  then show ?thesis using u by (simp add: le_val_append)
qed

lemma byte_mod_128_0: "(x::nat) mod 128 = 0 \<Longrightarrow> x < 256 \<Longrightarrow> x = 0 \<or> x = 128"
  by presburger

lemma sm_enc_sm_val_snoc:
  assumes "sm_minimal (xs @ [t])"
  shows "sm_enc (sm_val (xs @ [t])) = xs @ [t]"
proof (cases "unat t mod 128 = 0")
  case True
  have "unat t = 0 \<or> unat t = 128" if "unat t mod 128 = 0" "unat t < 256"
    using that by (metis byte_mod_128_0)
  then have t: "t = (if unat t \<ge> 128 then 0x80 else 0)"
    using True by (auto simp: word_unat_eq_iff)
  have xs: "xs \<noteq> []" "unat (last xs) \<ge> 128" using assms True by (simp_all add: sm_minimal_def)
  then have lm: "le_min (le_val xs) = xs" by (intro le_min_le_val) (auto simp: unat_eq_0 [symmetric])
  then have "0 < le_val xs" using xs by (metis le_min_eq_Nil neq0_conv)
  have s: "sm_val (xs @ [t]) = (if unat t \<ge> 128 then - int (le_val xs) else int (le_val xs))"
    using True by (simp add: sm_val_snoc Let_def)
  have "le_min (nat \<bar>sm_val (xs @ [t])\<bar>) = xs" using s lm by simp
  from sm_enc_cases [OF this xs(1)] show ?thesis
    using s \<open>0 < le_val xs\<close> xs t by (simp split: if_splits)
next
  case False
  define k where "k = unat t mod 128"
  have k: "0 < k" "k < 128" using False by (simp_all add: k_def)
  define m where "m = le_val xs + 256 ^ length xs * k"
  have lm: "le_min m = xs @ [of_nat k]" unfolding m_def using k by (intro le_min_snoc) simp_all
  then have "0 < m" by (metis le_min_eq_Nil append_is_Nil_conv list.distinct(1) neq0_conv)
  have u: "unat (of_nat k :: byte) = k" using k by (simp add: unat_of_nat_byte)
  have s: "sm_val (xs @ [t]) = (if unat t \<ge> 128 then - int m else int m)"
    by (simp add: sm_val_snoc Let_def m_def k_def)
  have "le_min (nat \<bar>sm_val (xs @ [t])\<bar>) = xs @ [of_nat k]" using s lm by simp
  from sm_enc_cases [OF this] show ?thesis
    using s \<open>0 < m\<close> k u byte_minus_80 [of t] by (auto simp: k_def)
qed

lemma sm_enc_sm_val: "sm_enc (sm_val v) = v \<longleftrightarrow> sm_minimal v"
proof
  assume "sm_minimal v"
  then show "sm_enc (sm_val v) = v"
    by (cases v rule: rev_cases) (simp_all add: sm_enc_sm_val_snoc, simp add: sm_enc_def le_min.simps)
qed (metis sm_minimal_sm_enc)

lemma length_le_min: "length (le_min n) \<le> k \<longleftrightarrow> n < 256 ^ k"
proof (induction k arbitrary: n)
  case 0
  then show ?case by simp
next
  case (Suc k)
  show ?case
  proof (cases "n = 0")
    case False
    have "length (le_min n) = Suc (length (le_min (n div 256)))" using False by (subst le_min.simps) simp
    then show ?thesis using Suc.IH [of "n div 256"] by (simp add: div_less_iff_less_mult mult.commute)
  qed (simp add: le_min.simps)
qed

lemma sm_val_bound: "\<bar>sm_val v\<bar> < 2 ^ (8 * length v - 1) \<or> v = []"
proof (cases v rule: rev_cases)
  case (snoc xs t)
  have "le_val xs + 256 ^ length xs * (unat t mod 128) < 256 ^ length xs * 128"
  proof -
    have "le_val xs + 256 ^ length xs * (unat t mod 128) < 256 ^ length xs * Suc (unat t mod 128)"
      using le_val_bound [of xs] by simp
    also have "\<dots> \<le> 256 ^ length xs * 128" by (intro mult_le_mono2) (simp add: Suc_le_eq)
    finally show ?thesis .
  qed
  also have "256 ^ length xs * 128 = (2::nat) ^ (8 * length xs + 7)"
    by (simp add: power_add power_mult)
  finally have "int (le_val xs + 256 ^ length xs * (unat t mod 128)) < 2 ^ (8 * length xs + 7)"
    by (metis of_nat_less_iff of_nat_numeral of_nat_power)
  then show ?thesis using snoc by (simp only: abs_sm_val_snoc) (simp add: add.commute)
qed simp

lemma length_sm_enc: "length (sm_enc n) \<le> Suc k \<longleftrightarrow> \<bar>n\<bar> < 2 ^ (8 * k + 7)"
proof
  assume l: "length (sm_enc n) \<le> Suc k"
  then have "8 * length (sm_enc n) - 1 \<le> 8 * k + 7" by linarith
  then have "(2::int) ^ (8 * length (sm_enc n) - 1) \<le> 2 ^ (8 * k + 7)" by (intro power_increasing) simp_all
  then have "\<bar>sm_val (sm_enc n)\<bar> < 2 ^ (8 * k + 7)"
    using sm_val_bound [of "sm_enc n"] by (cases "sm_enc n = []") (simp only: sm_val_Nil, simp, linarith)
  then show "\<bar>n\<bar> < 2 ^ (8 * k + 7)" by simp
next
  assume b: "\<bar>n\<bar> < 2 ^ (8 * k + 7)"
  define ds where "ds = le_min (nat \<bar>n\<bar>)"
  have lv: "le_val ds < 256 ^ k * 128"
  proof -
    have "(2::int) ^ (8 * k + 7) = int (256 ^ k * 128)" by (simp add: power_add power_mult)
    with b show ?thesis by (simp add: ds_def nat_less_iff)
  qed
  then have "length ds \<le> Suc k" unfolding ds_def length_le_min by simp
  moreover have "length ds \<le> k" if "ds \<noteq> []" "unat (last ds) \<ge> 128"
  proof (rule ccontr)
    assume "\<not> length ds \<le> k"
    then have len: "length (butlast ds) = k" using \<open>length ds \<le> Suc k\<close> by simp
    have "le_val ds = le_val (butlast ds) + 256 ^ k * unat (last ds)"
      using le_val_append [of "butlast ds" "[last ds]"] that len by simp
    moreover have "256 ^ k * 128 \<le> 256 ^ k * unat (last ds)" using that by (intro mult_le_mono2)
    ultimately show False using lv by linarith
  qed
  ultimately show "length (sm_enc n) \<le> Suc k" by (auto simp: sm_enc_def Let_def simp flip: ds_def)
qed

section \<open>Conversions under the library specification\<close>

lemma length_be4 [simp]: "length (be4 n) = 4"
  by (simp add: be4_def)

lemma drop_be4 [simp]: "drop 4 (be4 n @ xs) = xs"
  by simp

lemma bn_spec_bn_ref: "bn_spec bn_ref"
  by (simp add: bn_spec_def bn_ref_def)

text \<open>What each field does, for a library that meets the specification.\<close>

lemma bn_lib_simps:
  assumes "bn_spec L"
  shows "BN_add L a b = a + b" "BN_sub L a b = a - b" "BN_mul L a b = a * b"
    "BN_lshift L a k = a * 2 ^ k" "BN_set_word L m = int m" "BN_is_negative L a \<longleftrightarrow> a < 0"
    "BN_cmp L a b = sgn (a - b)" "BN_set_negative L a c = (if c then - \<bar>a\<bar> else \<bar>a\<bar>)"
    "BN_bn2mpi L n = be4 (length (sm_enc n)) @ rev (sm_enc n)"
    "BN_get_word L n = (if \<bar>n\<bar> < 2 ^ 64 then nat \<bar>n\<bar> else 2 ^ 64 - 1)"
  using assms unfolding bn_spec_def by simp_all

lemma bn_cmp_simps:
  assumes "bn_spec L"
  shows "bn_eq L a b \<longleftrightarrow> a = b" "bn_ne L a b \<longleftrightarrow> a \<noteq> b" "bn_lt L a b \<longleftrightarrow> a < b" "bn_gt L a b \<longleftrightarrow> a > b"
    "bn_le L a b \<longleftrightarrow> a \<le> b" "bn_ge L a b \<longleftrightarrow> a \<ge> b" "bn_neg L a = - a"
  unfolding bn_eq_def bn_ne_def bn_lt_def bn_gt_def bn_le_def bn_ge_def bn_neg_def bn_lib_simps [OF assms]
  by (auto simp: sgn_if)

lemma getvch_eq: "bn_spec L \<Longrightarrow> getvch L n = sm_enc n"
  by (simp add: getvch_def bn_lib_simps Let_def)

lemma setvch_eq: "bn_spec L \<Longrightarrow> length v < 2 ^ 32 \<Longrightarrow> setvch L v = sm_val v"
  by (simp add: setvch_def bn_spec_def)

lemma getint_clamp: "bn_spec L \<Longrightarrow> getint L n = max (- (2 ^ 31)) (min (2 ^ 31 - 1) n)"
  by (auto simp: getint_def Let_def bn_lib_simps)

lemma byte_and_80: "(c :: byte) AND 0x80 \<noteq> 0 \<longleftrightarrow> unat c \<ge> 128"
proof -
  have "(0x80 :: byte) = push_bit 7 1" by simp
  then have "c AND 0x80 \<noteq> 0 \<longleftrightarrow> bit c 7" by (metis and_exp_eq_0_iff_not_bit mult_1 push_bit_eq_mult)
  also have "\<dots> \<longleftrightarrow> odd (unat c div 128)" using bit_unsigned_iff [where 'a = nat, of c 7] by (simp add: bit_iff_odd [of "unat c"])
  also have "\<dots> \<longleftrightarrow> unat c \<ge> 128"
  proof -
    have "unat c div 128 = (if unat c \<ge> 128 then 1 else 0)" using unat_byte_lt [of c] by (simp add: div_nat_eqI)
    then show ?thesis by simp
  qed
  finally show ?thesis .
qed

lemma byte_or_80: "unat (c :: byte) < 128 \<Longrightarrow> c OR 0x80 = c + 0x80"
proof -
  assume "unat c < 128"
  then have "c AND 0x80 = 0" using byte_and_80 [of c] by auto
  then show ?thesis by (simp add: disjunctive_add_eq_or)
qed

lemma byte_and_7f: "unat ((c :: byte) AND 0x7f) = unat c mod 128"
proof -
  have "(0x7f :: byte) = mask 7" by (simp add: mask_eq_exp_minus_1)
  then have "c AND 0x7f = take_bit 7 c" by (simp add: take_bit_eq_mask)
  then show ?thesis by (simp add: take_bit_eq_mod unat_mod)
qed

lemma mpi_digits_False [simp]: "mpi_digits neg False cs = cs"
  by (induction cs) simp_all

lemma mpi_digits_eq:
  "mpi_digits neg True (rev bs) = rev (sm_enc (if neg then - int (le_val bs) else int (le_val bs)))"
proof (induction bs rule: rev_induct)
  case (snoc c bs)
  show ?case
  proof (cases "c = 0")
    case False
    define n where "n = (if neg then - int (le_val (bs @ [c])) else int (le_val (bs @ [c])))"
    have pos: "0 < le_val (bs @ [c])" using False by (simp add: le_val_append unat_gt_0)
    have "le_min (nat \<bar>n\<bar>) = bs @ [c]" using False by (simp add: n_def le_min_le_val)
    from sm_enc_cases [OF this] show ?thesis
      unfolding n_def [symmetric]
      using False pos by (auto simp: byte_and_80 byte_or_80 n_def)
  qed (use snoc in \<open>simp add: le_val_append\<close>)
qed (simp add: sm_enc_def le_min.simps)

lemma le_bytes_4:
  "le_bytes 4 x = [of_nat (x mod 256), of_nat (x div 256 mod 256), of_nat (x div 256 div 256 mod 256),
     of_nat (x div 256 div 256 div 256 mod 256)]"
proof -
  have "(4::nat) = Suc (Suc (Suc (Suc 0)))" by simp
  then show ?thesis by (simp only: le_bytes_Suc le_bytes_0)
qed

lemma compact_parts:
  fixes a b c s :: byte
  defines "w \<equiv> push_bit 24 (ucast s) OR push_bit 16 (ucast a) OR push_bit 8 (ucast b) OR ucast c :: u32"
  shows "ucast (drop_bit 24 w) = s" "ucast (drop_bit 16 w AND 0xff) = a"
    "ucast (drop_bit 8 w AND 0xff) = b" "ucast (w AND 0xff) = c"
proof -
  have m: "(0xff :: u32) = mask 8" by (simp add: mask_eq_exp_minus_1)
  show "ucast (drop_bit 24 w) = s" unfolding w_def by (rule bit_word_eqI) (auto simp: bit_simps dest: bit_imp_le_length)
  show "ucast (drop_bit 16 w AND 0xff) = a" unfolding w_def m by (rule bit_word_eqI) (auto simp: bit_simps dest: bit_imp_le_length)
  show "ucast (drop_bit 8 w AND 0xff) = b" unfolding w_def m by (rule bit_word_eqI) (auto simp: bit_simps dest: bit_imp_le_length)
  show "ucast (w AND 0xff) = c" unfolding w_def m by (rule bit_word_eqI) (auto simp: bit_simps dest: bit_imp_le_length)
qed

lemma GetCompact_eq:
  assumes L: "bn_spec L" and e: "sm_enc n = e" and s: "length e < 256"
  defines "B i \<equiv> (if i < length e then rev e ! i else 0)"
  shows "GetCompact L n =
    push_bit 24 (ucast (of_nat (length e) :: byte)) OR push_bit 16 (ucast (B 0)) OR push_bit 8 (ucast (B 1))
      OR ucast (B 2)"
proof -
  have vch: "BN_bn2mpi L n = be4 (length e) @ rev e" using L e by (simp add: bn_lib_simps)
  have n: "(be4 (length e) @ rev e) ! (4 + i) = rev e ! i" for i by (simp add: nth_append)
  have n': "(be4 (length e) @ rev e) ! 4 = rev e ! 0" "(be4 (length e) @ rev e) ! 5 = rev e ! 1"
    "(be4 (length e) @ rev e) ! 6 = rev e ! 2"
    using n [of 0] n [of 1] n [of 2] by simp_all
  have l: "(of_nat (length e) :: u32) = ucast (of_nat (length e) :: byte)"
    using s by (simp add: word_unat_eq_iff unat_of_nat unsigned_ucast_eq take_bit_eq_mod)
  show ?thesis
    unfolding GetCompact_def vch Let_def n' B_def by (auto simp: l or.assoc not_le not_less Suc_le_eq)
qed

lemma SetCompact_eq:
  assumes L: "bn_spec L" and s: "length e < 256"
  defines "B i \<equiv> (if i < length e then rev e ! i else 0)" and "k \<equiv> length e - 3"
  shows "SetCompact L (push_bit 24 (ucast (of_nat (length e) :: byte)) OR push_bit 16 (ucast (B 0))
      OR push_bit 8 (ucast (B 1)) OR ucast (B 2)) = sm_val (replicate k 0 @ drop k e)"
proof -
  define w where "w = (push_bit 24 (ucast (of_nat (length e) :: byte)) OR push_bit 16 (ucast (B 0))
      OR push_bit 8 (ucast (B 1)) OR ucast (B 2) :: u32)"
  have "ucast (drop_bit 24 w) = (of_nat (length e) :: byte)" unfolding w_def by (rule compact_parts)
  then have "unat (ucast (drop_bit 24 w) :: byte) = length e" using s by (simp add: unat_of_nat_byte)
  moreover have "unat (drop_bit 24 w) < 256"
    by (simp add: drop_bit_eq_div unat_div div_less_iff_less_mult)
  ultimately have sz: "unat (drop_bit 24 w) = length e"
    by (simp add: unsigned_ucast_eq take_bit_eq_mod)
  have d: "[ucast (drop_bit 16 w AND 0xff), ucast (drop_bit 8 w AND 0xff), ucast (w AND 0xff)] = [B 0, B 1, B 2]"
    unfolding w_def by (simp only: compact_parts)
  have t: "take (length e) [B 0, B 1, B 2] = take 3 (rev e)"
    by (rule nth_equalityI) (auto simp: B_def less_Suc_eq numeral_3_eq_3 numeral_2_eq_2 nth_Cons')
  have "be4 (length e) = [0, 0, 0, of_nat (length e)]"
    using s by (simp add: be4_def le_bytes_4)
  then have "SetCompact L w = BN_mpi2bn L (be4 (length e) @ take 3 (rev e) @ replicate k 0)"
    unfolding SetCompact_def sz Let_def d t k_def by simp
  also have "take 3 (rev e) @ replicate k 0 = rev (replicate k 0 @ drop k e)"
    by (cases "length e \<le> 3") (simp_all add: k_def rev_drop)
  also have "BN_mpi2bn L (be4 (length e) @ rev (replicate k 0 @ drop k e)) = sm_val (replicate k 0 @ drop k e)"
  proof -
    have "length (replicate k (0::byte) @ drop k e) = length e" by (simp add: k_def)
    moreover have "length e < 2 ^ 32" using s by simp
    ultimately show ?thesis using setvch_eq [OF L, of "replicate k 0 @ drop k e"] by (simp add: setvch_def)
  qed
  finally show ?thesis unfolding w_def .
qed

lemma sm_val_sign: "unat t \<ge> 128 \<Longrightarrow> sm_val (xs @ [t]) \<le> 0" "unat t < 128 \<Longrightarrow> 0 \<le> sm_val (xs @ [t])"
  unfolding sm_val_snoc Let_def by (simp_all only: if_True neg_le_0_iff_le of_nat_0_le_iff not_le [symmetric] if_False)

lemma sm_val_zeroed:
  assumes "k < length e"
  shows "\<bar>sm_val (replicate k 0 @ drop k e)\<bar> = \<bar>sm_val e\<bar> div 256 ^ k * 256 ^ k"
    and "sm_val (replicate k 0 @ drop k e) = (if unat (last e) \<ge> 128 then - 1 else 1) * (\<bar>sm_val e\<bar> div 256 ^ k * 256 ^ k)"
proof -
  obtain xs t where e: "e = xs @ [t]" using assms by (cases e rule: rev_cases) auto
  have k: "k \<le> length xs" using assms e by simp
  have d: "replicate k 0 @ drop k e = (replicate k 0 @ drop k xs) @ [t]" using k e by simp
  define q where "q = le_val (drop k xs) + 256 ^ (length xs - k) * (unat t mod 128)"
  have p: "256 ^ length xs = (256::nat) ^ k * 256 ^ (length xs - k)" using k by (simp flip: power_add)
  have z: "le_val (replicate k 0) = 0" by (induction k) simp_all
  have xs: "le_val xs = le_val (take k xs) + 256 ^ k * le_val (drop k xs)"
    using le_val_append [of "take k xs" "drop k xs"] k by simp
  have v1: "\<bar>sm_val (replicate k 0 @ drop k e)\<bar> = int (256 ^ k * q)"
    unfolding d abs_sm_val_snoc using k by (simp add: le_val_append z q_def p algebra_simps)
  have v2: "\<bar>sm_val e\<bar> = int (le_val (take k xs) + 256 ^ k * q)"
    unfolding e abs_sm_val_snoc by (simp only: xs p q_def) (simp add: algebra_simps)
  have "le_val (take k xs) < 256 ^ k" using le_val_bound [of "take k xs"] k by simp
  then have "(le_val (take k xs) + 256 ^ k * q) div 256 ^ k = q" by simp
  then have "int (le_val (take k xs) + 256 ^ k * q) div int (256 ^ k) = int q" by (metis zdiv_int)
  then have "\<bar>sm_val e\<bar> div 256 ^ k = int q" unfolding v2 by simp
  then show a: "\<bar>sm_val (replicate k 0 @ drop k e)\<bar> = \<bar>sm_val e\<bar> div 256 ^ k * 256 ^ k"
    unfolding v1 by simp
  show "sm_val (replicate k 0 @ drop k e) = (if unat (last e) \<ge> 128 then - 1 else 1) * (\<bar>sm_val e\<bar> div 256 ^ k * 256 ^ k)"
    unfolding a [symmetric] d using sm_val_sign [of t "replicate k 0 @ drop k xs"] e
    by (cases "unat t \<ge> 128") auto
qed

lemma sm_minimal_zeroed:
  assumes "sm_minimal e" "k = length e - 3"
  shows "sm_minimal (replicate k 0 @ drop k e)"
proof (cases "length e \<le> 3")
  case False
  then have "k < length e" "k < length (butlast e)" using assms(2) by simp_all
  then have "last (replicate k 0 @ drop k e) = last e"
    "butlast (replicate k 0 @ drop k e) = replicate k 0 @ drop k (butlast e)"
    by (simp_all add: butlast_append drop_butlast)
  moreover have "drop k (butlast e) \<noteq> []" using \<open>k < length (butlast e)\<close> by (simp del: length_butlast)
  then have "last (replicate k 0 @ drop k (butlast e)) = last (butlast e)"
    using \<open>k < length (butlast e)\<close> by (metis last_appendR last_drop)
  ultimately show ?thesis using assms(1) \<open>k < length e\<close> \<open>k < length (butlast e)\<close> by (auto simp: sm_minimal_def)
qed (use assms in simp)

lemma setmpi_eq:
  assumes "bn_spec L" "\<bar>x\<bar> < 2 ^ (8 * k + 7)" "k < 2 ^ 31" "\<bar>x\<bar> = int (le_val bs)" "neg \<longleftrightarrow> x < 0"
  defines "p \<equiv> mpi_digits neg True (rev bs)"
  shows "BN_mpi2bn L (be4 (length p) @ p) = x"
proof -
  have "(if neg then - int (le_val bs) else int (le_val bs)) = x" using assms(4,5) by auto
  then have p: "p = rev (sm_enc x)" unfolding p_def mpi_digits_eq by simp
  have "length (sm_enc x) < 2 ^ 32" using assms(2,3) length_sm_enc [of x k] by simp
  then show ?thesis using assms(1) unfolding p bn_spec_def by simp
qed

lemma le_val_le_bytes_8: "le_val (le_bytes 8 (unat (n :: u64))) = unat n"
proof -
  have "unat n < 2 ^ 64" using unsigned_less [of n] by simp
  then show ?thesis by (simp add: le_simps)
qed

lemma setuint64_eq: "bn_spec L \<Longrightarrow> setuint64 L n = int (unat n)"
  unfolding setuint64_def Let_def
  using unsigned_less [where 'a = int, of n] by (intro setmpi_eq [where k = 8]) (simp_all add: le_val_le_bytes_8)

lemma setint64_eq:
  assumes "bn_spec L" "- (2 ^ 63) \<le> sn" "sn < 2 ^ 63"
  shows "setint64 L sn = sn"
proof -
  define n :: u64 where "n = (if sn < 0 then of_int (- (sn + 1)) + 1 else of_int sn)"
  have "n = of_int \<bar>sn\<bar>" by (simp add: n_def)
  then have "uint n = \<bar>sn\<bar> mod 2 ^ 64" by (simp add: uint_word_of_int)
  then have "int (unat n) = \<bar>sn\<bar>" using assms by simp
  then show ?thesis
    unfolding setint64_def Let_def n_def [symmetric]
    using assms by (intro setmpi_eq [where k = 8]) (simp_all add: le_val_le_bytes_8)
qed

lemma le_val_uint_bytes: "le_val (uint_bytes a) = uval a"
proof (induction a)
  case (Cons p a)
  have "le_val (limb_bytes p) = unat p" by (simp add: limb_bytes_def le_simps)
  with Cons show ?case by (simp add: uint_bytes_def le_val_append) (simp add: limb_bytes_def)
qed (simp add: uint_bytes_def)

lemma setuint256_eq: "bn_spec L \<Longrightarrow> length n = 8 \<Longrightarrow> setuint256 L n = int (uval n)"
proof -
  assume L: "bn_spec L" "length n = 8"
  then have "uval n < 2 ^ 256" using uval_lt [of n] by simp
  then have "int (uval n) < 2 ^ (8 * 32 + 7)" by simp
  then show ?thesis unfolding setuint256_def Let_def
    using L by (intro setmpi_eq [where k = 32]) (simp_all add: le_val_uint_bytes)
qed

lemma le_val_pad: "le_val (take k l @ replicate m 0) = le_val l mod 256 ^ k"
proof -
  have z: "le_val (replicate m 0) = 0" by (induction m) simp_all
  show ?thesis
  proof (cases "k \<le> length l")
    case True
    have "le_val l = le_val (take k l) + 256 ^ k * le_val (drop k l)"
      using le_val_append [of "take k l" "drop k l"] True by simp
    moreover have "le_val (take k l) < 256 ^ k" using le_val_bound [of "take k l"] True by simp
    ultimately show ?thesis using z by (simp add: le_val_append)
  next
    case False
    then have "le_val l < 256 ^ k"
      using le_val_bound [of l] power_increasing [of "length l" k "256::nat"] by linarith
    with False z show ?thesis by (simp add: le_val_append)
  qed
qed

lemma mpi_low_bytes_eq:
  assumes "bn_spec L"
  shows "le_val (mpi_low_bytes k (BN_bn2mpi L n)) = nat \<bar>n\<bar> mod 256 ^ k"
proof (cases "sm_enc n" rule: rev_cases)
  case Nil
  then have "n = 0" using sm_val_sm_enc [of n] by simp
  with assms Nil le_val_pad [of k "[]" k] show ?thesis by (simp add: mpi_low_bytes_def bn_lib_simps)
next
  case (snoc xs t)
  define l where "l = xs @ [t AND 0x7f]"
  have "be4 (length (sm_enc n)) @ rev (sm_enc n) = be4 (length (sm_enc n)) @ t # rev xs" using snoc by simp
  moreover have "(be4 m @ t # rev xs)[4 := (be4 m @ t # rev xs) ! 4 AND 0x7f] = be4 m @ rev l" for m
    by (simp add: l_def list_update_append nth_append)
  ultimately have "mpi_low_bytes k (BN_bn2mpi L n) = take k l @ replicate (k - length (take k l)) 0"
    using assms by (simp add: mpi_low_bytes_def bn_lib_simps Let_def)
  moreover have "int (le_val l) = \<bar>n\<bar>"
    using abs_sm_val_snoc [of xs t] sm_val_sm_enc [of n] snoc by (simp add: l_def le_val_append byte_and_7f)
  then have "nat \<bar>n\<bar> = le_val l" by simp
  ultimately show ?thesis by (simp add: le_val_pad)
qed

lemma uval_bytes_limbs: "length bs = 4 * k \<Longrightarrow> uval (bytes_limbs bs) = le_val bs"
proof (induction k arbitrary: bs)
  case (Suc k)
  have "bs = take 4 bs @ drop 4 bs" "length (take 4 bs) = 4" using Suc.prems by simp_all
  then obtain a b c d cs where bs: "bs = a # b # c # d # cs" using length4_cases [of "take 4 bs"]
    by (metis append_Cons append_Nil)
  have "le_val [a, b, c, d] < 2 ^ 32" using le_val_bound [of "[a, b, c, d]"] by simp
  then have "unat (of_nat (le_val [a, b, c, d]) :: u32) = le_val [a, b, c, d]"
    by (simp del: le_val_simps add: unat_of_nat)
  moreover have "uval (bytes_limbs cs) = le_val cs" using Suc bs by simp
  ultimately show ?case unfolding bs by (simp del: le_val_simps) (simp add: le_val_append)
qed simp

lemma length_bytes_limbs: "length bs = 4 * k \<Longrightarrow> length (bytes_limbs bs) = k"
proof (induction bs arbitrary: k rule: bytes_limbs.induct)
  case (1 b0 b1 b2 b3 bs)
  then show ?case by (cases k) simp_all
qed (auto simp: numeral_eq_Suc)

lemma length_mpi_low_bytes [simp]: "length (mpi_low_bytes k v) = k"
  by (simp add: mpi_low_bytes_def Let_def)

lemma getuint256_eq:
  assumes "bn_spec L"
  shows "uval (getuint256 L m) = nat \<bar>m\<bar> mod 2 ^ 256 \<and> length (getuint256 L m) = 8"
proof -
  have "getuint256 L m = bytes_limbs (mpi_low_bytes 32 (BN_bn2mpi L m))"
    using assms by (simp add: getuint256_def Let_def bn_lib_simps)
  then show ?thesis
    using uval_bytes_limbs [of "mpi_low_bytes 32 (BN_bn2mpi L m)" 8] mpi_low_bytes_eq [OF assms, of 32 m]
    length_bytes_limbs [of "mpi_low_bytes 32 (BN_bn2mpi L m)" 8] by simp
qed

lemma compact_value:
  assumes "bn_spec L" "length (getvch L n) < 256"
  defines "k \<equiv> length (getvch L n) - 3"
  shows "SetCompact L (GetCompact L n) = sgn n * (\<bar>n\<bar> div 256 ^ k * 256 ^ k)
    \<and> GetCompact L (SetCompact L (GetCompact L n)) = GetCompact L n"
proof -
  define e where "e = sm_enc n"
  have k: "k = length e - 3" and l: "length e < 256" using assms by (simp_all add: getvch_eq e_def)
  define e' where "e' = replicate k 0 @ drop k e"
  have S: "SetCompact L (GetCompact L n) = sm_val e'"
    unfolding GetCompact_eq [OF assms(1) e_def [symmetric] l] SetCompact_eq [OF assms(1) l] e'_def k ..
  have "sm_enc (sm_val e') = e'"
    unfolding sm_enc_sm_val e'_def using sm_minimal_zeroed [OF _ k] sm_minimal_sm_enc by (simp add: e_def)
  moreover have len: "length e' = length e" by (simp add: e'_def k)
  moreover have "rev e' ! i = rev e ! i" if "i < length e" "i < 3" for i
    using that by (auto simp: e'_def k rev_nth nth_append)
  ultimately have "GetCompact L (sm_val e') = GetCompact L n"
    using GetCompact_eq [OF assms(1), of "sm_val e'" e'] GetCompact_eq [OF assms(1) e_def [symmetric] l] l by simp
  moreover have "sm_val e' = sgn n * (\<bar>n\<bar> div 256 ^ k * 256 ^ k)"
  proof (cases "e = []")
    case True
    then have "n = 0" using sm_val_sm_enc [of n] by (simp add: e_def)
    then show ?thesis using True by (simp add: e'_def k)
  next
    case False
    then have "k < length e" using k by simp
    moreover from False obtain xs t where "e = xs @ [t]" by (cases e rule: rev_cases) auto
    moreover have v: "sm_val e = n" by (simp add: e_def)
    ultimately show ?thesis using sm_val_zeroed(2) [of k e] sm_val_sign [of t xs]
      by (cases "unat t \<ge> 128") (auto simp: e'_def sgn_if not_le)
  qed
  ultimately show ?thesis using S by simp
qed

section \<open>Properties of big numbers\<close>

text \<open>
  C35. Script numbers: decoding what \<^verbatim>\<open>getvch\<close> produces gives the number back; \<^verbatim>\<open>getvch\<close>
  inverts \<^verbatim>\<open>setvch\<close> exactly on the shortest encodings, so every number has one shortest encoding;
  and an encoding fits in \<open>k + 1\<close> bytes exactly when the magnitude is below \<open>2 ^ (8 * k + 7)\<close>.
\<close>

theorem script_number_roundtrip:
  assumes "bn_spec L"
  shows "(length (getvch L n) < 2 ^ 32 \<longrightarrow> setvch L (getvch L n) = n)
    \<and> (length v < 2 ^ 32 \<longrightarrow> (getvch L (setvch L v) = v \<longleftrightarrow> sm_minimal v))
    \<and> (length (getvch L n) \<le> Suc k \<longleftrightarrow> \<bar>n\<bar> < 2 ^ (8 * k + 7))"
  using assms by (simp add: getvch_eq setvch_eq sm_enc_sm_val length_sm_enc)

theorem script_number_roundtrip_witness:
  "setvch bn_ref (getvch bn_ref (- 1000)) = - 1000 \<and> getvch bn_ref (setvch bn_ref [0x80]) \<noteq> [0x80]"
  using script_number_roundtrip [OF bn_spec_bn_ref, of "- 1000" "[0x80]" 1]
  by (simp add: sm_minimal_def)

text \<open>
  The conversions between machine integers and \<^verbatim>\<open>CBigNum\<close>: signed and unsigned 64-bit and 256-bit
  integers are converted to the number they denote, by way of the MPI digit loop; the unsigned getters
  return the magnitude modulo the width; \<^verbatim>\<open>getint\<close> clamps to the range of \<^verbatim>\<open>int\<close>.
\<close>

theorem bignum_conversions:
  assumes "bn_spec L"
  shows "(- (2 ^ 63) \<le> sn \<and> sn < 2 ^ 63 \<longrightarrow> setint64 L sn = sn)
    \<and> setuint64 L u = int (unat u)
    \<and> (length h = UINT256_WIDTH \<longrightarrow> setuint256 L h = int (uval h) \<and> getuint256 L (setuint256 L h) = h)
    \<and> unat (getuint64 L bn) = nat \<bar>bn\<bar> mod 2 ^ 64
    \<and> uval (getuint256 L bn) = nat \<bar>bn\<bar> mod 2 ^ 256
    \<and> getint L bn = max (- (2 ^ 31)) (min (2 ^ 31 - 1) bn)"
proof -
  have g64: "unat (getuint64 L bn) = nat \<bar>bn\<bar> mod 2 ^ 64"
    using assms mpi_low_bytes_eq [OF assms, of 8 bn]
    by (simp add: getuint64_def Let_def unat_of_nat bn_lib_simps)
  note g256 = getuint256_eq [OF assms]
  have "getuint256 L (setuint256 L h) = h" if "length h = 8"
  proof -
    have "uval h < 2 ^ 256" using uval_lt [of h] that by simp
    then have "uval (getuint256 L (setuint256 L h)) = uval h"
      using g256 [of "setuint256 L h"] setuint256_eq [OF assms that] by simp
    with g256 [of "setuint256 L h"] that show ?thesis by (metis uval_inj)
  qed
  with g64 g256 [of bn] setint64_eq [OF assms] setuint64_eq [OF assms] setuint256_eq [OF assms] getint_clamp [OF assms]
  show ?thesis by (simp add: UINT256_WIDTH_def)
qed

text \<open>
  Compact targets: \<^verbatim>\<open>SetCompact\<close> applied to \<^verbatim>\<open>GetCompact\<close> keeps the three most significant
  bytes of the encoding and clears the rest, keeping the sign; so it never moves away from zero, and
  a second round changes nothing.
\<close>

theorem compact_truncates:
  assumes "bn_spec L" "length (getvch L n) < 256"
  defines "k \<equiv> length (getvch L n) - 3"
  shows "SetCompact L (GetCompact L n) = sgn n * (\<bar>n\<bar> div 256 ^ k * 256 ^ k)
    \<and> GetCompact L (SetCompact L (GetCompact L n)) = GetCompact L n"
  using compact_value [OF assms(1,2)] unfolding k_def .

end
