(* ===== verification/Serialize.thy ===== *)
theory Serialize
  imports Prelude
begin

unbundle bit_operations_syntax

text \<open>
  Binary serialization, \<^verbatim>\<open>src/src/serialize.h\<close>: \<^verbatim>\<open>CDataStream::read\<close> and
  \<^verbatim>\<open>write\<close>, the compact size and variable-length integer formats, byte vectors and vectors
  of objects. A stream is the list of bytes that remain to be read; writing appends. Reading
  returns the value and the remaining stream, or the exception thrown. The locale \<open>codec\<close> is the
  contract of a \<^verbatim>\<open>Serialize\<close>/\<^verbatim>\<open>Unserialize\<close> pair; vectors of a codec are a codec.
\<close>

section \<open>Streams\<close>

datatype ser_error = EndOfData | NonCanonical | SizeTooLarge

type_synonym 'a reader = "byte list \<Rightarrow> ser_error + ('a \<times> byte list)"

definition MAX_SIZE :: nat where "MAX_SIZE = 0x02000000"

text \<open>A read of zero bytes empties the buffer, as the source's first branch does.\<close>

definition stream_read :: "nat \<Rightarrow> byte list reader" where
  "stream_read nSize vch =
     (if nSize = 0 then Inr ([], [])
      else if nSize > length vch then Inl EndOfData
      else Inr (take nSize vch, drop nSize vch))"

definition stream_write :: "byte list \<Rightarrow> byte list \<Rightarrow> byte list" where
  "stream_write vch data = vch @ data"

definition stream_ignore :: "nat \<Rightarrow> unit reader" where
  "stream_ignore nSize vch = (if nSize > length vch then Inl EndOfData else Inr ((), drop nSize vch))"

definition rbind :: "'a reader \<Rightarrow> ('a \<Rightarrow> 'b reader) \<Rightarrow> 'b reader" where
  "rbind r f s = (case r s of Inl e \<Rightarrow> Inl e | Inr (x, s') \<Rightarrow> f x s')"

definition rreturn :: "'a \<Rightarrow> 'a reader" where
  "rreturn x s = Inr (x, s)"

definition rfail :: "ser_error \<Rightarrow> 'a reader" where
  "rfail e s = Inl e"

lemma rreturn_simps [simp]: "rreturn y s = Inr (y, s)" "rfail e' s = Inl e'"
  by (simp_all add: rreturn_def rfail_def)

lemma rbind_Inr: "r s = Inr (x, s') \<Longrightarrow> rbind r f s = f x s'"
  by (simp add: rbind_def)

lemma rbind_Inl: "r s = Inl e \<Longrightarrow> rbind r f s = Inl e"
  by (simp add: rbind_def)

text \<open>\<^verbatim>\<open>READDATA\<close>/\<^verbatim>\<open>WRITEDATA\<close> of an unsigned integer of \<open>n\<close> bytes.\<close>

definition write_uint :: "nat \<Rightarrow> nat \<Rightarrow> byte list" where
  "write_uint n x = le_bytes n x"

definition read_uint :: "nat \<Rightarrow> nat reader" where
  "read_uint n = rbind (stream_read n) (\<lambda>bs. rreturn (le_val bs))"

section \<open>Compact sizes\<close>

definition GetSizeOfCompactSize :: "nat \<Rightarrow> nat" where
  "GetSizeOfCompactSize nSize =
     (if nSize < 253 then 1 else if nSize \<le> 0xffff then 1 + 2
      else if nSize \<le> 0xffffffff then 1 + 4 else 1 + 8)"

definition WriteCompactSize :: "nat \<Rightarrow> byte list" where
  "WriteCompactSize nSize =
     (if nSize < 253 then write_uint 1 nSize
      else if nSize \<le> 0xffff then write_uint 1 253 @ write_uint 2 nSize
      else if nSize \<le> 0xffffffff then write_uint 1 254 @ write_uint 4 nSize
      else write_uint 1 255 @ write_uint 8 nSize)"

definition check_size :: "nat \<Rightarrow> nat \<Rightarrow> nat reader" where
  "check_size lo nSizeRet =
     (if nSizeRet < lo then rfail NonCanonical
      else if nSizeRet > MAX_SIZE then rfail SizeTooLarge
      else rreturn nSizeRet)"

definition ReadCompactSize :: "nat reader" where
  "ReadCompactSize =
     rbind (read_uint 1) (\<lambda>chSize.
       if chSize < 253 then check_size 0 chSize
       else if chSize = 253 then rbind (read_uint 2) (check_size 253)
       else if chSize = 254 then rbind (read_uint 4) (check_size 0x10000)
       else rbind (read_uint 8) (check_size 0x100000000))"

section \<open>Variable-length integers\<close>

text \<open>
  The template parameter \<^verbatim>\<open>I\<close> is an unsigned type of \<open>w\<close> bits; reading shifts and increments
  at that width.
\<close>

fun varint_digits :: "nat \<Rightarrow> bool \<Rightarrow> byte list" where
  "varint_digits n more =
     of_nat (n mod 128 + (if more then 128 else 0)) #
     (if n \<le> 0x7f then [] else varint_digits (n div 128 - 1) True)"

declare varint_digits.simps [simp del]

definition WriteVarInt :: "nat \<Rightarrow> byte list" where
  "WriteVarInt n = rev (varint_digits n False)"

fun GetSizeOfVarInt :: "nat \<Rightarrow> nat" where
  "GetSizeOfVarInt n = (if n \<le> 0x7f then 1 else 1 + GetSizeOfVarInt (n div 128 - 1))"

declare GetSizeOfVarInt.simps [simp del]

fun ReadVarInt_loop :: "nat \<Rightarrow> nat \<Rightarrow> nat reader" where
  "ReadVarInt_loop w n [] = Inl EndOfData"
| "ReadVarInt_loop w n (chData # s) =
     (let n' = (n * 128) mod 2 ^ w + unat chData mod 128
      in if unat chData \<ge> 128 then ReadVarInt_loop w ((n' + 1) mod 2 ^ w) s else Inr (n', s))"

definition ReadVarInt :: "nat \<Rightarrow> nat reader" where
  "ReadVarInt w = ReadVarInt_loop w 0"

section \<open>Byte vectors, strings and vectors of objects\<close>

definition ser_vch :: "byte list \<Rightarrow> byte list" where
  "ser_vch v = WriteCompactSize (length v) @ v"

text \<open>Fundamental element types are read in blocks of at most five million bytes.\<close>

fun read_blocks :: "nat \<Rightarrow> byte list reader" where
  "read_blocks 0 s = Inr ([], s)"
| "read_blocks (Suc k) s =
     (let blk = min (Suc k) 5000000
      in rbind (stream_read blk) (\<lambda>bs. rbind (read_blocks (Suc k - blk)) (\<lambda>cs. rreturn (bs @ cs))) s)"

definition unser_vch :: "byte list reader" where
  "unser_vch = rbind ReadCompactSize read_blocks"

definition unser_string :: "byte list reader" where
  "unser_string = rbind ReadCompactSize (\<lambda>nSize. if nSize \<noteq> 0 then stream_read nSize else rreturn [])"

definition ser_vector :: "('a \<Rightarrow> byte list) \<Rightarrow> 'a list \<Rightarrow> byte list" where
  "ser_vector ser v = WriteCompactSize (length v) @ concat (map ser v)"

fun unser_items :: "'a reader \<Rightarrow> nat \<Rightarrow> 'a list reader" where
  "unser_items unser 0 s = Inr ([], s)"
| "unser_items unser (Suc k) s =
     rbind unser (\<lambda>x. rbind (unser_items unser k) (\<lambda>xs. rreturn (x # xs))) s"

definition unser_vector :: "'a reader \<Rightarrow> 'a list reader" where
  "unser_vector unser = rbind ReadCompactSize (unser_items unser)"

definition ser_pair :: "('a \<Rightarrow> byte list) \<Rightarrow> ('b \<Rightarrow> byte list) \<Rightarrow> 'a \<times> 'b \<Rightarrow> byte list" where
  "ser_pair f g item = f (fst item) @ g (snd item)"

definition unser_pair :: "'a reader \<Rightarrow> 'b reader \<Rightarrow> ('a \<times> 'b) reader" where
  "unser_pair f g = rbind f (\<lambda>x. rbind g (\<lambda>y. rreturn (x, y)))"

section \<open>The contract of a serialized type\<close>

locale codec =
  fixes ser :: "'a \<Rightarrow> byte list" and unser :: "'a reader" and ok :: "'a \<Rightarrow> bool"
  assumes roundtrip: "ok x \<Longrightarrow> unser (ser x @ rest) = Inr (x, rest)"
begin

lemma ser_inj: "ok x \<Longrightarrow> ok y \<Longrightarrow> ser x = ser y \<Longrightarrow> x = y"
  by (metis Inr_inject prod.inject roundtrip)

text \<open>No encoding is a proper prefix of another.\<close>

lemma prefix_free: "ok x \<Longrightarrow> ok y \<Longrightarrow> ser x @ r = ser y @ r' \<Longrightarrow> x = y \<and> r = r'"
  by (metis Inr_inject prod.inject roundtrip)

lemma items_roundtrip:
  "list_all ok xs \<Longrightarrow> unser_items unser (length xs) (concat (map ser xs) @ rest) = Inr (xs, rest)"
  by (induction xs) (simp_all add: rbind_def roundtrip)

end

section \<open>Integers and sizes\<close>

lemma length_write_uint [simp]: "length (write_uint n x) = n"
  by (simp add: write_uint_def)

lemma stream_read_append: "bs \<noteq> [] \<Longrightarrow> stream_read (length bs) (bs @ rest) = Inr (bs, rest)"
  by (simp add: stream_read_def)

lemma read_write_uint: "0 < n \<Longrightarrow> read_uint n (write_uint n x @ rest) = Inr (x mod 256 ^ n, rest)"
proof -
  assume "0 < n"
  then have "write_uint n x \<noteq> []" using length_write_uint [of n x] by (metis length_greater_0_conv)
  with stream_read_append [of "write_uint n x" rest] show ?thesis
    by (simp add: read_uint_def rbind_def) (simp add: write_uint_def le_val_le_bytes)
qed

lemma read_uintD:
  "0 < n \<Longrightarrow> read_uint n s = Inr (x, rest) \<Longrightarrow> s = write_uint n x @ rest \<and> x < 256 ^ n"
  by (auto simp: read_uint_def rbind_def stream_read_def write_uint_def le_bytes_le_val'
      split: if_splits sum.splits intro: le_val_bound [THEN less_le_trans])

lemma length_WriteCompactSize: "length (WriteCompactSize n) = GetSizeOfCompactSize n"
  by (simp add: WriteCompactSize_def GetSizeOfCompactSize_def)

lemma check_size_ok: "lo \<le> n \<Longrightarrow> n \<le> MAX_SIZE \<Longrightarrow> check_size lo n s = Inr (n, s)"
  by (simp add: check_size_def)

lemma check_sizeD: "check_size lo n s = Inr (m, s') \<Longrightarrow> m = n \<and> s' = s \<and> lo \<le> n \<and> n \<le> MAX_SIZE"
  by (simp add: check_size_def split: if_splits)

lemma Read_WriteCompactSize:
  assumes "n \<le> MAX_SIZE"
  shows "ReadCompactSize (WriteCompactSize n @ rest) = Inr (n, rest)"
proof -
  have "n \<le> 0xffffffff" using assms by (simp add: MAX_SIZE_def)
  then consider "n < 253" | "253 \<le> n" "n \<le> 0xffff" | "0x10000 \<le> n" "n \<le> 0xffffffff" by fastforce
  then show ?thesis
  proof cases
    case 1
    then show ?thesis using assms
      by (simp add: ReadCompactSize_def WriteCompactSize_def rbind_def read_write_uint check_size_ok)
  next
    case 2
    then show ?thesis using assms
      by (simp add: ReadCompactSize_def WriteCompactSize_def rbind_def read_write_uint check_size_ok)
  next
    case 3
    then show ?thesis using assms
      by (simp add: ReadCompactSize_def WriteCompactSize_def rbind_def read_write_uint check_size_ok)
  qed
qed

text \<open>Only the canonical encoding is accepted.\<close>

lemma ReadCompactSizeD:
  assumes "ReadCompactSize s = Inr (n, rest)"
  shows "s = WriteCompactSize n @ rest \<and> n \<le> MAX_SIZE"
proof -
  obtain ch s1 where ch: "read_uint 1 s = Inr (ch, s1)"
    using assms by (cases "read_uint 1 s") (auto simp: ReadCompactSize_def rbind_def)
  then have s: "s = write_uint 1 ch @ s1" and ch256: "ch < 256" using read_uintD [of 1 s] by auto
  have tail: "n \<le> MAX_SIZE \<and> lo \<le> n \<and> s1 = write_uint k n @ rest \<and> n < 256 ^ k"
    if "rbind (read_uint k) (check_size lo) s1 = Inr (n, rest)" "0 < k" for k lo
    using that by (cases "read_uint k s1") (auto simp: rbind_def dest!: check_sizeD read_uintD)
  from assms have body: "(if ch < 253 then check_size 0 ch
       else if ch = 253 then rbind (read_uint 2) (check_size 253)
       else if ch = 254 then rbind (read_uint 4) (check_size 0x10000)
       else rbind (read_uint 8) (check_size 0x100000000)) s1 = Inr (n, rest)"
    unfolding ReadCompactSize_def rbind_Inr [of "read_uint 1" s, OF ch] .
  consider "ch < 253" | "ch = 253" | "ch = 254" | "ch = 255" using ch256 by linarith
  then show ?thesis
  proof cases
    case 1
    with body s show ?thesis by (auto simp: WriteCompactSize_def dest!: check_sizeD)
  next
    case 2
    with body have "rbind (read_uint 2) (check_size 253) s1 = Inr (n, rest)" by simp
    from tail [OF this] 2 s show ?thesis by (auto simp: WriteCompactSize_def)
  next
    case 3
    with body have "rbind (read_uint 4) (check_size 0x10000) s1 = Inr (n, rest)" by simp
    from tail [OF this] 3 s show ?thesis by (auto simp: WriteCompactSize_def)
  next
    case 4
    with body have "rbind (read_uint 8) (check_size 0x100000000) s1 = Inr (n, rest)" by simp
    from tail [OF this] 4 s show ?thesis by (auto simp: WriteCompactSize_def)
  qed
qed

section \<open>Variable-length integers\<close>

lemma ReadVarInt_loop_append:
  assumes "list_all (\<lambda>b. 128 \<le> unat b) xs"
  shows "ReadVarInt_loop w n (xs @ ys) =
    ReadVarInt_loop w (fold (\<lambda>b m. ((m * 128) mod 2 ^ w + unat b mod 128 + 1) mod 2 ^ w) xs n) ys"
  using assms by (induction xs arbitrary: n) (simp_all add: Let_def)

lemma unat_digit: "unat (of_nat (n mod 128 + (if more then 128 else 0)) :: byte) = n mod 128 + (if more then 128 else 0)"
  using mod_less_divisor [of 128 n] by (intro unat_of_nat_byte) auto

lemma varint_digits_hi: "list_all (\<lambda>b. 128 \<le> unat b) (varint_digits n True)"
proof (induction n rule: less_induct)
  case (less n)
  have "list_all (\<lambda>b. 128 \<le> unat b) (varint_digits (n div 128 - 1) True)" if "\<not> n \<le> 0x7f"
    using that by (intro less.IH) simp
  then show ?case using unat_digit [of n True] by (subst varint_digits.simps) simp
qed

lemma varint_fold:
  assumes "n < 2 ^ w"
  shows "fold (\<lambda>b m. ((m * 128) mod 2 ^ w + unat b mod 128 + 1) mod 2 ^ w) (rev (varint_digits n True)) 0
       = (n + 1) mod 2 ^ w"
  using assms
proof (induction n rule: less_induct)
  case (less n)
  define f where "f = (\<lambda>(b::byte) m. ((m * 128) mod 2 ^ w + unat b mod 128 + 1) mod 2 ^ w)"
  have digit: "unat (of_nat (n mod 128 + 128) :: byte) mod 128 = n mod 128"
    using unat_digit [of n True] by simp
  show ?case
  proof (cases "n \<le> 0x7f")
    case True
    then have "n mod 128 = n" by simp
    with True show ?thesis using digit by (subst varint_digits.simps) simp
  next
    case False
    let ?m = "n div 128 - 1"
    have m: "?m < n" "?m + 1 = n div 128" using False by simp_all
    then have "?m < 2 ^ w" using less.prems by simp
    from less.IH [OF m(1) this] have IH: "fold f (rev (varint_digits ?m True)) 0 = n div 128 mod 2 ^ w"
      unfolding f_def m(2) .
    have "n div 128 < 2 ^ w" using less.prems by (meson div_le_dividend le_less_trans)
    then have "n div 128 mod 2 ^ w = n div 128" by simp
    moreover have "n div 128 * 128 < 2 ^ w" using less.prems
      by (meson div_times_less_eq_dividend le_less_trans)
    ultimately have "f (of_nat (n mod 128 + 128)) (n div 128 mod 2 ^ w) = (n + 1) mod 2 ^ w"
      unfolding f_def digit by simp
    then have "f (of_nat (n mod 128 + 128)) (fold f (rev (varint_digits ?m True)) 0) = (n + 1) mod 2 ^ w"
      unfolding IH .
    with False show ?thesis unfolding f_def by (subst varint_digits.simps) simp
  qed
qed

lemma Read_WriteVarInt:
  assumes "n < 2 ^ w"
  shows "ReadVarInt w (WriteVarInt n @ rest) = Inr (n, rest)"
proof (cases "n \<le> 0x7f")
  case True
  then have "unat (of_nat n :: byte) = n" by (simp add: unat_of_nat)
  with True show ?thesis
    by (simp add: ReadVarInt_def WriteVarInt_def varint_digits.simps [of n] Let_def)
next
  case False
  let ?m = "n div 128 - 1"
  have m: "?m < n" "?m + 1 = n div 128" using False by simp_all
  then have lt: "?m < 2 ^ w" using assms by simp
  have "WriteVarInt n = rev (varint_digits ?m True) @ [of_nat (n mod 128)]"
    using False by (simp add: WriteVarInt_def varint_digits.simps [of n])
  moreover have "list_all (\<lambda>b. 128 \<le> unat b) (rev (varint_digits ?m True))"
    using varint_digits_hi by (simp add: list_all_iff)
  moreover have "n div 128 * 128 < 2 ^ w" "n div 128 < 2 ^ w"
    using assms div_times_less_eq_dividend [of n 128] div_le_dividend [of n 128] by linarith+
  moreover have "unat (of_nat (n mod 128) :: byte) = n mod 128" using unat_digit [of n False] by simp
  moreover have "\<not> 128 \<le> n mod 128" by (simp add: not_le)
  ultimately show ?thesis
    using varint_fold [OF lt] m(2)
    by (simp add: ReadVarInt_def ReadVarInt_loop_append Let_def)
qed

lemma length_WriteVarInt: "length (WriteVarInt n) = GetSizeOfVarInt n"
proof -
  have "length (varint_digits n more) = GetSizeOfVarInt n" for more
  proof (induction n arbitrary: more rule: less_induct)
    case (less n)
    show ?case using less.IH [of "n div 128 - 1" True]
      by (simp add: varint_digits.simps [of n] GetSizeOfVarInt.simps [of n])
  qed
  then show ?thesis by (simp add: WriteVarInt_def)
qed

section \<open>Vectors\<close>

lemma read_blocks_append: "read_blocks (length bs) (bs @ rest) = Inr (bs, rest)"
proof (induction "length bs" arbitrary: bs rule: less_induct)
  case less
  show ?case
  proof (cases "length bs")
    case 0
    then show ?thesis by simp
  next
    case (Suc k)
    define blk where "blk = min (Suc k) 5000000"
    have blk: "0 < blk" "blk \<le> length bs" by (simp_all add: blk_def Suc)
    then have "stream_read blk (bs @ rest) = Inr (take blk bs, drop blk bs @ rest)"
      by (simp add: stream_read_def)
    moreover have "read_blocks (length (drop blk bs)) (drop blk bs @ rest) = Inr (drop blk bs, rest)"
      using blk by (intro less) simp
    ultimately show ?thesis
      unfolding Suc read_blocks.simps blk_def [symmetric] Let_def using blk
      by (simp add: rbind_def Suc)
  qed
qed

lemma unser_ser_vch: "length v \<le> MAX_SIZE \<Longrightarrow> unser_vch (ser_vch v @ rest) = Inr (v, rest)"
  by (simp add: unser_vch_def ser_vch_def rbind_def Read_WriteCompactSize read_blocks_append)

lemma unser_string_ser_vch: "length v \<le> MAX_SIZE \<Longrightarrow> unser_string (ser_vch v @ rest) = Inr (v, rest)"
  by (simp add: unser_string_def ser_vch_def rbind_def Read_WriteCompactSize stream_read_append)

lemma ser_vch_nonempty: "ser_vch v \<noteq> []"
  by (simp add: ser_vch_def WriteCompactSize_def write_uint_def le_bytes_def)

context codec
begin

lemma vector_roundtrip:
  assumes "list_all ok xs" "length xs \<le> MAX_SIZE"
  shows "unser_vector unser (ser_vector ser xs @ rest) = Inr (xs, rest)"
  using assms items_roundtrip [OF assms(1)]
  by (simp add: unser_vector_def ser_vector_def rbind_def Read_WriteCompactSize)

end

text \<open>Vectors and pairs of serialized types are serialized types.\<close>

lemma codec_vector:
  "codec ser unser ok \<Longrightarrow>
   codec (ser_vector ser) (unser_vector unser) (\<lambda>xs. list_all ok xs \<and> length xs \<le> MAX_SIZE)"
  by (rule codec.intro) (simp add: codec.vector_roundtrip)

lemma codec_pair:
  "codec f rf okf \<Longrightarrow> codec g rg okg \<Longrightarrow>
   codec (ser_pair f g) (unser_pair rf rg) (\<lambda>p. okf (fst p) \<and> okg (snd p))"
  by (rule codec.intro) (simp add: ser_pair_def unser_pair_def rbind_def codec.roundtrip)

interpretation uint_codec: codec "write_uint (Suc n)" "read_uint (Suc n)" "\<lambda>x. x < 256 ^ Suc n" for n
  by unfold_locales (simp add: read_write_uint del: power_Suc)

interpretation size_codec: codec WriteCompactSize ReadCompactSize "\<lambda>n. n \<le> MAX_SIZE"
  by unfold_locales (rule Read_WriteCompactSize)

interpretation varint_codec: codec WriteVarInt "ReadVarInt w" "\<lambda>n. n < 2 ^ w" for w
  by unfold_locales (rule Read_WriteVarInt)

interpretation vch_codec: codec ser_vch unser_vch "\<lambda>v. length v \<le> MAX_SIZE"
  by unfold_locales (rule unser_ser_vch)

interpretation string_codec: codec ser_vch unser_string "\<lambda>v. length v \<le> MAX_SIZE"
  by unfold_locales (rule unser_string_ser_vch)

section \<open>Correctness of the wire formats\<close>

text \<open>\<^verbatim>\<open>ReadCompactSize\<close> accepts exactly the canonical encodings of the sizes up to
  \<^verbatim>\<open>MAX_SIZE\<close>: a stream is read as \<open>n\<close> with rest \<open>r\<close> if and only if it is what
  \<^verbatim>\<open>WriteCompactSize\<close> writes for \<open>n\<close>, followed by \<open>r\<close>; the encoding has the size
  \<^verbatim>\<open>GetSizeOfCompactSize\<close> announces.\<close>

theorem compact_size_canonical:
  "(ReadCompactSize s = Inr (n, r) \<longleftrightarrow> s = WriteCompactSize n @ r \<and> n \<le> MAX_SIZE)
   \<and> length (WriteCompactSize n) = GetSizeOfCompactSize n"
  using ReadCompactSizeD [of s n r] by (auto simp: Read_WriteCompactSize length_WriteCompactSize)

text \<open>A variable-length integer of an unsigned type of \<open>w\<close> bits is read back as written, for
  every value of the type and every rest of the stream, and \<^verbatim>\<open>GetSizeOfVarInt\<close> is its size.\<close>

theorem varint_roundtrip:
  assumes "n < 2 ^ w"
  shows "ReadVarInt w (WriteVarInt n @ rest) = Inr (n, rest) \<and> length (WriteVarInt n) = GetSizeOfVarInt n"
  using assms by (simp add: varint_codec.roundtrip length_WriteVarInt)

end
