(* ===== verification/Tx.thy ===== *)
theory Tx
  imports Serialize Uint256
begin

unbundle bit_operations_syntax

text \<open>
  Transactions: \<^verbatim>\<open>COutPoint\<close>, \<^verbatim>\<open>CTxIn\<close>, \<^verbatim>\<open>CTxOut\<close> and the anonymous-output
  counters of \<^verbatim>\<open>src/src/core.h\<close>, and \<^verbatim>\<open>CTransaction\<close> of \<^verbatim>\<open>src/src/main.h\<close> with its
  serialization, classification, finality and value sum. Signed 64-bit and 32-bit fields are integers;
  the sum of outputs has an outcome for a signed sum that does not fit, which the language leaves undefined; where rewards
  are computed from them the usual wrap-around is written out (\<open>wrap64\<close>).
  \<^verbatim>\<open>SHA256\<close> is OpenSSL's and a parameter of the hash functions of \<^verbatim>\<open>src/src/hash.h\<close>.
\<close>

section \<open>Signed machine integers\<close>

definition wrap64 :: "int \<Rightarrow> int" where
  "wrap64 x = (x + 2 ^ 63) mod 2 ^ 64 - 2 ^ 63"

definition in_int64 :: "int \<Rightarrow> bool" where
  "in_int64 x \<longleftrightarrow> - (2 ^ 63) \<le> x \<and> x < 2 ^ 63"

definition in_int32 :: "int \<Rightarrow> bool" where
  "in_int32 x \<longleftrightarrow> - (2 ^ 31) \<le> x \<and> x < 2 ^ 31"

text \<open>The \<open>n\<close>-byte image of a signed integer, and reading it back.\<close>

definition write_sint :: "nat \<Rightarrow> int \<Rightarrow> byte list" where
  "write_sint n x = write_uint n (nat (x mod 256 ^ n))"

definition read_sint :: "nat \<Rightarrow> int reader" where
  "read_sint n = rbind (read_uint n)
     (\<lambda>u. rreturn (if 2 * u < 256 ^ n then int u else int u - 256 ^ n))"

section \<open>Records\<close>

record COutPoint =
  op_hash :: limbs
  op_n :: u32

record CTxIn =
  prevout :: COutPoint
  scriptSig :: "byte list"
  nSequence :: u32

record CTxOut =
  nValue :: int
  scriptPubKey :: "byte list"

record CTransaction =
  nVersion :: int
  nTime :: u32
  vin :: "CTxIn list"
  vout :: "CTxOut list"
  nLockTime :: u32

definition MAX_MONEY :: int where "MAX_MONEY = 2 ^ 63 - 1"
definition LOCKTIME_THRESHOLD :: nat where "LOCKTIME_THRESHOLD = 500000000"
definition ANON_TXN_VERSION :: int where "ANON_TXN_VERSION = 1000"
definition MIN_ANON_OUT_SIZE :: nat where "MIN_ANON_OUT_SIZE = 1 + 1 + 1 + 33 + 1 + 33"
definition MIN_ANON_IN_SIZE :: nat where "MIN_ANON_IN_SIZE = 2 + (33 + 32 + 32)"

definition MoneyRange :: "int \<Rightarrow> bool" where
  "MoneyRange v \<longleftrightarrow> v \<ge> 0 \<and> v \<le> MAX_MONEY"

subsection \<open>Out points\<close>

definition COutPoint_SetNull :: COutPoint where
  "COutPoint_SetNull = \<lparr>op_hash = op_assign64 UINT256_WIDTH 0, op_n = - 1\<rparr>"

definition COutPoint_IsNull :: "COutPoint \<Rightarrow> bool" where
  "COutPoint_IsNull p \<longleftrightarrow> op_eq64 (op_hash p) 0 \<and> op_n p = - 1"

definition COutPoint_lt :: "COutPoint \<Rightarrow> COutPoint \<Rightarrow> bool" where
  "COutPoint_lt a b \<longleftrightarrow>
     op_lt (op_hash a) (op_hash b) \<or> (op_eq (op_hash a) (op_hash b) \<and> op_n a < op_n b)"

definition COutPoint_eq :: "COutPoint \<Rightarrow> COutPoint \<Rightarrow> bool" where
  "COutPoint_eq a b \<longleftrightarrow> op_eq (op_hash a) (op_hash b) \<and> op_n a = op_n b"

subsection \<open>Inputs\<close>

definition CTxIn_IsFinal :: "CTxIn \<Rightarrow> bool" where
  "CTxIn_IsFinal i \<longleftrightarrow> nSequence i = 0xffffffff"

definition CTxIn_IsAnonInput :: "CTxIn \<Rightarrow> bool" where
  "CTxIn_IsAnonInput i \<longleftrightarrow>
     length (scriptSig i) \<ge> MIN_ANON_IN_SIZE \<and> scriptSig i ! 0 = 0x6a \<and> scriptSig i ! 1 = 0xb9"

definition ExtractKeyImage :: "CTxIn \<Rightarrow> byte list" where
  "ExtractKeyImage i = uint_bytes (op_hash (prevout i)) @ [ucast (op_n (prevout i) AND 0xff)]"

definition ExtractRingSize :: "CTxIn \<Rightarrow> nat" where
  "ExtractRingSize i = unat (drop_bit 16 (op_n (prevout i)) AND 0xffff)"

subsection \<open>Outputs\<close>

definition CTxOut_SetNull :: CTxOut where
  "CTxOut_SetNull = \<lparr>nValue = - 1, scriptPubKey = []\<rparr>"

definition CTxOut_IsNull :: "CTxOut \<Rightarrow> bool" where
  "CTxOut_IsNull t \<longleftrightarrow> nValue t = - 1"

definition CTxOut_SetEmpty :: CTxOut where
  "CTxOut_SetEmpty = \<lparr>nValue = 0, scriptPubKey = []\<rparr>"

definition CTxOut_IsEmpty :: "CTxOut \<Rightarrow> bool" where
  "CTxOut_IsEmpty t \<longleftrightarrow> nValue t = 0 \<and> scriptPubKey t = []"

definition CTxOut_IsAnonOutput :: "CTxOut \<Rightarrow> bool" where
  "CTxOut_IsAnonOutput t \<longleftrightarrow>
     length (scriptPubKey t) \<ge> MIN_ANON_OUT_SIZE \<and> scriptPubKey t ! 0 = 0x6a \<and> scriptPubKey t ! 1 = 0xb9"

definition ExtractAnonPk :: "CTxOut \<Rightarrow> byte list" where
  "ExtractAnonPk t = take 33 (drop 3 (scriptPubKey t))"

section \<open>Serialization\<close>

definition ser_uint256 :: "limbs \<Rightarrow> byte list" where
  "ser_uint256 h = uint_bytes h"

definition unser_uint256 :: "limbs reader" where
  "unser_uint256 = rbind (stream_read 32) (\<lambda>bs. rreturn (bytes_limbs bs))"

definition ser_outpoint :: "COutPoint \<Rightarrow> byte list" where
  "ser_outpoint p = ser_uint256 (op_hash p) @ write_uint 4 (unat (op_n p))"

definition unser_outpoint :: "COutPoint reader" where
  "unser_outpoint = rbind unser_uint256 (\<lambda>h. rbind (read_uint 4) (\<lambda>i.
     rreturn \<lparr>op_hash = h, op_n = of_nat i\<rparr>))"

definition ser_txin :: "CTxIn \<Rightarrow> byte list" where
  "ser_txin i = ser_outpoint (prevout i) @ ser_vch (scriptSig i) @ write_uint 4 (unat (nSequence i))"

definition unser_txin :: "CTxIn reader" where
  "unser_txin = rbind unser_outpoint (\<lambda>p. rbind unser_vch (\<lambda>sc. rbind (read_uint 4) (\<lambda>q.
     rreturn \<lparr>prevout = p, scriptSig = sc, nSequence = of_nat q\<rparr>)))"

definition ser_txout :: "CTxOut \<Rightarrow> byte list" where
  "ser_txout t = write_sint 8 (nValue t) @ ser_vch (scriptPubKey t)"

definition unser_txout :: "CTxOut reader" where
  "unser_txout = rbind (read_sint 8) (\<lambda>v. rbind unser_vch (\<lambda>sc.
     rreturn \<lparr>nValue = v, scriptPubKey = sc\<rparr>))"

definition ser_tx :: "CTransaction \<Rightarrow> byte list" where
  "ser_tx t = write_sint 4 (nVersion t) @ write_uint 4 (unat (nTime t)) @
     ser_vector ser_txin (vin t) @ ser_vector ser_txout (vout t) @ write_uint 4 (unat (nLockTime t))"

definition unser_tx :: "CTransaction reader" where
  "unser_tx = rbind (read_sint 4) (\<lambda>v. rbind (read_uint 4) (\<lambda>tm.
     rbind (unser_vector unser_txin) (\<lambda>is. rbind (unser_vector unser_txout) (\<lambda>os.
     rbind (read_uint 4) (\<lambda>lt.
       rreturn \<lparr>nVersion = v, nTime = of_nat tm, vin = is, vout = os, nLockTime = of_nat lt\<rparr>)))))"

section \<open>Hashes\<close>

definition Hash :: "(byte list \<Rightarrow> byte list) \<Rightarrow> byte list \<Rightarrow> limbs" where
  "Hash SHA256 data = bytes_limbs (SHA256 (SHA256 data))"

definition Hash160 :: "(byte list \<Rightarrow> byte list) \<Rightarrow> (byte list \<Rightarrow> byte list) \<Rightarrow> byte list \<Rightarrow> limbs" where
  "Hash160 SHA256 RIPEMD160 data = bytes_limbs (RIPEMD160 (SHA256 data))"

definition GetHash :: "(byte list \<Rightarrow> byte list) \<Rightarrow> CTransaction \<Rightarrow> limbs" where
  "GetHash SHA256 t = Hash SHA256 (ser_tx t)"

section \<open>Transactions\<close>

definition IsNull :: "CTransaction \<Rightarrow> bool" where
  "IsNull t \<longleftrightarrow> vin t = [] \<and> vout t = []"

definition IsCoinBase :: "CTransaction \<Rightarrow> bool" where
  "IsCoinBase t \<longleftrightarrow> length (vin t) = 1 \<and> COutPoint_IsNull (prevout (vin t ! 0)) \<and> length (vout t) \<ge> 1"

definition IsCoinStake :: "CTransaction \<Rightarrow> bool" where
  "IsCoinStake t \<longleftrightarrow>
     length (vin t) > 0 \<and> \<not> COutPoint_IsNull (prevout (vin t ! 0)) \<and> length (vout t) \<ge> 2
     \<and> CTxOut_IsEmpty (vout t ! 0)"

definition IsAnonCoinStake :: "CTransaction \<Rightarrow> bool" where
  "IsAnonCoinStake t \<longleftrightarrow> nVersion t = ANON_TXN_VERSION \<and> IsCoinStake t"

text \<open>\<open>nBestHeight\<close> and the adjusted time are globals of the node and parameters here.\<close>

definition IsFinal :: "int \<Rightarrow> int \<Rightarrow> CTransaction \<Rightarrow> int \<Rightarrow> int \<Rightarrow> bool" where
  "IsFinal nBestHeight adjustedTime t nBlockHeight nBlockTime =
     (if nLockTime t = 0 then True
      else let h = (if nBlockHeight = 0 then nBestHeight else nBlockHeight);
               bt = (if nBlockTime = 0 then adjustedTime else nBlockTime);
               lt = int (unat (nLockTime t))
           in if lt < (if lt < int LOCKTIME_THRESHOLD then h else bt) then True
              else list_all CTxIn_IsFinal (vin t))"

fun newer_loop :: "CTxIn list \<Rightarrow> CTxIn list \<Rightarrow> bool \<Rightarrow> u32 \<Rightarrow> bool" where
  "newer_loop (i # is) (j # js) fNewer nLowest =
     (if nSequence i \<noteq> nSequence j then
        (let (fNewer1, nLowest1) =
               (if nSequence i \<le> nLowest then (False, nSequence i) else (fNewer, nLowest));
             (fNewer2, nLowest2) =
               (if nSequence j < nLowest1 then (True, nSequence j) else (fNewer1, nLowest1))
         in newer_loop is js fNewer2 nLowest2)
      else newer_loop is js fNewer nLowest)"
| "newer_loop _ _ fNewer nLowest = fNewer"

definition IsNewerThan :: "CTransaction \<Rightarrow> CTransaction \<Rightarrow> bool" where
  "IsNewerThan t old =
     (if length (vin t) \<noteq> length (vin old) then False
      else if \<not> list_all2 (\<lambda>i j. COutPoint_eq (prevout i) (prevout j)) (vin t) (vin old) then False
      else newer_loop (vin t) (vin old) False 0xffffffff)"

text \<open>
  The sum is formed at 64 bits before either range check. A signed sum that does not fit has no meaning in the language;
  that is an outcome of its own, next to the sum and the exception.
\<close>

datatype money_sum = Sum int | Out_of_range | Overflow

fun value_out_loop :: "int \<Rightarrow> CTxOut list \<Rightarrow> money_sum" where
  "value_out_loop nValueOut [] = Sum nValueOut"
| "value_out_loop nValueOut (txout # os) =
     (if \<not> in_int64 (nValueOut + nValue txout) then Overflow
      else if \<not> MoneyRange (nValue txout) \<or> \<not> MoneyRange (nValueOut + nValue txout) then Out_of_range
      else value_out_loop (nValueOut + nValue txout) os)"

definition GetValueOut :: "CTransaction \<Rightarrow> money_sum" where
  "GetValueOut t = value_out_loop 0 (vout t)"

section \<open>Counters of anonymous outputs\<close>

record CAnonOutputCount =
  ao_nValue :: int
  nExists :: int
  nUnconfirmed :: int
  nSpends :: int
  nOwned :: int
  nLastHeight :: int
  nCompromised :: int
  nCompromisedHeight :: int
  nMature :: int
  nMixins :: int
  nMixinsStaking :: int
  nStakes :: int

definition addCoin :: "CAnonOutputCount \<Rightarrow> int \<Rightarrow> int \<Rightarrow> bool \<Rightarrow> CAnonOutputCount" where
  "addCoin c nBlockHeight nCoinValue fStake =
     c\<lparr>nExists := nExists c + 1, ao_nValue := nCoinValue,
       nStakes := nStakes c + (if fStake then 1 else 0),
       nLastHeight := (if nBlockHeight > nLastHeight c then nBlockHeight else nLastHeight c)\<rparr>"

definition updateDepth :: "CAnonOutputCount \<Rightarrow> int \<Rightarrow> int \<Rightarrow> CAnonOutputCount" where
  "updateDepth c nBlockHeight nCoinValue =
     c\<lparr>ao_nValue := nCoinValue,
       nLastHeight := (if nBlockHeight > nLastHeight c then nBlockHeight else nLastHeight c)\<rparr>"

definition incSpends :: "CAnonOutputCount \<Rightarrow> int \<Rightarrow> CAnonOutputCount" where
  "incSpends c nCoinValue = c\<lparr>nSpends := nSpends c + 1, ao_nValue := nCoinValue\<rparr>"

definition decSpends :: "CAnonOutputCount \<Rightarrow> int \<Rightarrow> CAnonOutputCount" where
  "decSpends c nCoinValue = c\<lparr>nSpends := nSpends c - 1, ao_nValue := nCoinValue\<rparr>"

definition incExists :: "CAnonOutputCount \<Rightarrow> int \<Rightarrow> CAnonOutputCount" where
  "incExists c nCoinValue = c\<lparr>nExists := nExists c + 1, ao_nValue := nCoinValue\<rparr>"

definition decExists :: "CAnonOutputCount \<Rightarrow> int \<Rightarrow> CAnonOutputCount" where
  "decExists c nCoinValue = c\<lparr>nExists := nExists c - 1, ao_nValue := nCoinValue\<rparr>"

definition numOfUnspends :: "CAnonOutputCount \<Rightarrow> int" where
  "numOfUnspends c = nExists c - nSpends c"

definition numOfMatureUnspends :: "CAnonOutputCount \<Rightarrow> int" where
  "numOfMatureUnspends c = nMature c - nSpends c"

section \<open>Signed integers and codecs\<close>

lemma wrap64_id: "in_int64 x \<Longrightarrow> wrap64 x = x"
  by (simp add: wrap64_def in_int64_def)

lemma read_write_sint:
  assumes "0 < n" "- (256 ^ n) \<le> 2 * x" "2 * x < 256 ^ n"
  shows "read_sint n (write_sint n x @ rest) = Inr (x, rest)"
proof -
  define M where "M = (256::int) ^ n"
  have M: "0 < M" "int (256 ^ n) = M" by (simp_all add: M_def)
  have "nat (x mod M) < 256 ^ n" using M by (simp add: nat_less_iff)
  then have r: "read_uint n (write_uint n (nat (x mod M)) @ rest) = Inr (nat (x mod M), rest)"
    using assms(1) by (simp add: read_write_uint)
  have x: "x mod M = (if 0 \<le> x then x else x + M)"
  proof (cases "0 \<le> x")
    case True
    with assms show ?thesis by (simp add: M_def)
  next
    case False
    then have "x mod M = (x + M) mod M" by simp
    also have "\<dots> = x + M" using False assms(2) M by (intro mod_pos_pos_trivial) (simp_all add: M_def)
    finally show ?thesis using False by simp
  qed
  have "(2 * nat (x mod M) < 256 ^ n) \<longleftrightarrow> 2 * (x mod M) < M"
    using M by (auto simp: nat_less_iff simp flip: of_nat_less_iff [where 'a = int])
  then show ?thesis
    unfolding read_sint_def write_sint_def M_def [symmetric] rbind_Inr [of "read_uint n", OF r]
    using assms x M by (auto simp: M_def [symmetric])
qed

interpretation int64_codec: codec "write_sint 8" "read_sint 8" in_int64
  by unfold_locales (rule read_write_sint, auto simp: in_int64_def)

interpretation int32_codec: codec "write_sint 4" "read_sint 4" in_int32
  by unfold_locales (rule read_write_sint, auto simp: in_int32_def)

lemma read_write_u32: "read_uint 4 (write_uint 4 (unat (x :: u32)) @ rest) = Inr (unat x, rest)"
  using unat_u32_lt [of x] by (simp add: read_write_uint)

definition ok_outpoint :: "COutPoint \<Rightarrow> bool" where
  "ok_outpoint p \<longleftrightarrow> length (op_hash p) = 8"

definition ok_txin :: "CTxIn \<Rightarrow> bool" where
  "ok_txin i \<longleftrightarrow> ok_outpoint (prevout i) \<and> length (scriptSig i) \<le> MAX_SIZE"

definition ok_txout :: "CTxOut \<Rightarrow> bool" where
  "ok_txout t \<longleftrightarrow> in_int64 (nValue t) \<and> length (scriptPubKey t) \<le> MAX_SIZE"

definition ok_tx :: "CTransaction \<Rightarrow> bool" where
  "ok_tx t \<longleftrightarrow> in_int32 (nVersion t) \<and> list_all ok_txin (vin t) \<and> length (vin t) \<le> MAX_SIZE
     \<and> list_all ok_txout (vout t) \<and> length (vout t) \<le> MAX_SIZE"

interpretation uint256_codec: codec ser_uint256 unser_uint256 "\<lambda>h. length h = 8"
  by unfold_locales
    (simp add: ser_uint256_def unser_uint256_def rbind_def stream_read_def bytes_limbs_uint_bytes)

interpretation outpoint_codec: codec ser_outpoint unser_outpoint ok_outpoint
  by unfold_locales
    (simp add: ser_outpoint_def unser_outpoint_def ok_outpoint_def rbind_def uint256_codec.roundtrip
      read_write_u32)

interpretation txin_codec: codec ser_txin unser_txin ok_txin
  by unfold_locales
    (simp add: ser_txin_def unser_txin_def ok_txin_def rbind_def outpoint_codec.roundtrip
      vch_codec.roundtrip read_write_u32)

interpretation txout_codec: codec ser_txout unser_txout ok_txout
  by unfold_locales
    (simp add: ser_txout_def unser_txout_def ok_txout_def rbind_def int64_codec.roundtrip
      vch_codec.roundtrip)

interpretation tx_codec: codec ser_tx unser_tx ok_tx
  by unfold_locales
    (simp add: ser_tx_def unser_tx_def ok_tx_def rbind_def int32_codec.roundtrip read_write_u32
      txin_codec.vector_roundtrip txout_codec.vector_roundtrip)

section \<open>Value sums and sequence comparison\<close>

lemma value_out_loop_Sum:
  assumes "0 \<le> acc" "acc \<le> MAX_MONEY"
  shows "value_out_loop acc os = Sum s \<longleftrightarrow>
    (\<forall>t \<in> set os. 0 \<le> nValue t) \<and> s = acc + sum_list (map nValue os) \<and> s \<le> MAX_MONEY"
  using assms
proof (induction os arbitrary: acc)
  case (Cons t os)
  have n: "0 \<le> sum_list (map nValue os)" if "\<forall>t \<in> set os. 0 \<le> nValue t" using that by (intro sum_list_nonneg) auto
  show ?case
  proof (cases "0 \<le> nValue t \<and> acc + nValue t \<le> MAX_MONEY")
    case True
    then show ?thesis using Cons.prems Cons.IH [of "acc + nValue t"]
      by (auto simp: MoneyRange_def in_int64_def MAX_MONEY_def add.assoc)
  next
    case False
    then show ?thesis using n Cons.prems by (auto simp: MoneyRange_def)
  qed
qed auto

text \<open>The sum of the first outputs.\<close>

definition sum_upto :: "nat \<Rightarrow> CTxOut list \<Rightarrow> int" where
  "sum_upto k os = sum_list (map nValue (take k os))"

lemma value_out_loop_Overflow:
  assumes "0 \<le> acc" "acc \<le> MAX_MONEY" "\<forall>t \<in> set os. in_int64 (nValue t)"
  shows "value_out_loop acc os = Overflow \<longleftrightarrow>
    (\<exists>k. (\<forall>t \<in> set (take k os). 0 \<le> nValue t) \<and> MAX_MONEY < acc + sum_upto k os)"
  using assms
proof (induction os arbitrary: acc)
  case (Cons t os)
  let ?P = "\<lambda>acc os. \<exists>k. (\<forall>t \<in> set (take k os). 0 \<le> nValue t) \<and> MAX_MONEY < acc + sum_upto k os"
  have step: "?P acc (t # os) \<longleftrightarrow> 0 \<le> nValue t \<and> ?P (acc + nValue t) os" (is "?L \<longleftrightarrow> ?R")
  proof
    assume ?L
    then obtain k where k: "\<forall>u \<in> set (take k (t # os)). 0 \<le> nValue u" "MAX_MONEY < acc + sum_upto k (t # os)" by blast
    with Cons.prems(2) obtain j where "k = Suc j" by (cases k) (auto simp: sum_upto_def)
    with k show ?R by (auto simp: sum_upto_def add.assoc)
  next
    assume ?R
    then obtain j where "0 \<le> nValue t" "\<forall>u \<in> set (take j os). 0 \<le> nValue u" "MAX_MONEY < acc + nValue t + sum_upto j os" by blast
    then have "\<forall>u \<in> set (take (Suc j) (t # os)). 0 \<le> nValue u" "MAX_MONEY < acc + sum_upto (Suc j) (t # os)"
      by (auto simp: sum_upto_def add.assoc)
    then show ?L by blast
  qed
  show ?case
  proof (cases "0 \<le> nValue t \<and> acc + nValue t \<le> MAX_MONEY")
    case True
    then show ?thesis unfolding step using Cons.prems Cons.IH [of "acc + nValue t"]
      by (auto simp: MoneyRange_def in_int64_def MAX_MONEY_def)
  next
    case False
    have "?P (acc + nValue t) os" if "MAX_MONEY < acc + nValue t" by (rule exI [of _ 0]) (use that in \<open>simp add: sum_upto_def\<close>)
    with False show ?thesis unfolding step using Cons.prems by (auto simp: MoneyRange_def in_int64_def MAX_MONEY_def)
  qed
qed (simp add: sum_upto_def)

definition seq_diffs :: "CTxIn list \<Rightarrow> CTxIn list \<Rightarrow> (u32 \<times> u32) list" where
  "seq_diffs is js =
     filter (\<lambda>(a, b). a \<noteq> b) (zip (map nSequence is) (map nSequence js))"

definition newer_spec :: "('a::linorder \<times> 'a) set \<Rightarrow> bool \<Rightarrow> 'a \<Rightarrow> bool" where
  "newer_spec S f L \<longleftrightarrow>
     (\<exists>d \<in> S. snd d < L \<and> (\<forall>e \<in> S. snd d < fst e)) \<or> (f \<and> (\<forall>e \<in> S. L < fst e))"

lemma newer_spec_insert_new:
  assumes "a \<le> L" "a < b" shows "newer_spec (insert (a, b) S) f L = newer_spec S False a"
proof -
  have "\<not> b < a" "\<not> L < a" "\<And>x. x < a \<Longrightarrow> x < L" using assms by auto
  then show ?thesis unfolding newer_spec_def by (simp, blast)
qed

lemma newer_spec_insert_old:
  assumes "b < L" "b < a" shows "newer_spec (insert (a, b) S) f L = newer_spec S True b"
proof -
  have 1: "x < L" "x < a" if "x < b" for x using that assms by auto
  have 2: "x < b \<or> (\<forall>e \<in> S. b < fst e)" if "\<forall>e \<in> S. x < fst e" for x
    using that by (meson le_less_trans not_less)
  have 3: "\<forall>e \<in> S. b < fst e" if "\<forall>e \<in> S. L < fst e" using that assms(1) less_trans by blast
  show ?thesis unfolding newer_spec_def by (simp add: assms) (use 1 2 3 in blast)
qed

lemma newer_spec_insert_same:
  assumes "L < a" "L \<le> b" shows "newer_spec (insert (a, b) S) f L = newer_spec S f L"
proof -
  have "\<not> b < L" "\<And>x. x < L \<Longrightarrow> x < a" using assms by auto
  then show ?thesis unfolding newer_spec_def using assms(1) by (simp, blast)
qed

lemma newer_spec_insert:
  assumes "a \<noteq> b"
  shows "newer_spec (insert (a, b) S) f L =
    (if b < a \<and> b < L then newer_spec S True b
     else if a \<le> L then newer_spec S False a else newer_spec S f L)"
proof -
  consider (old) "b < a" "b < L" | (new) "\<not> (b < a \<and> b < L)" "a \<le> L" "a < b"
    | (none) "\<not> (b < a \<and> b < L)" "\<not> a \<le> L" "L < a" "L \<le> b"
  proof (cases "b < a \<and> b < L"; cases "a \<le> L")
    assume "\<not> (b < a \<and> b < L)" "a \<le> L"
    moreover from this assms have "a < b" by (metis linorder_neqE order.strict_trans2)
    ultimately show thesis by (rule new)
  next
    assume n: "\<not> (b < a \<and> b < L)" "\<not> a \<le> L"
    then have "L < a" "L \<le> b" by (auto simp: not_less)
    with n show thesis by (intro none)
  qed (auto intro: old)
  then show ?thesis
  proof cases
    case old then show ?thesis by (simp add: newer_spec_insert_old)
  next
    case new then show ?thesis using newer_spec_insert_new [of a L b S f] by auto
  next
    case none then show ?thesis using newer_spec_insert_same [of L a b S f] by auto
  qed
qed

lemma newer_loop_step:
  "newer_loop (i # is) (j # js) f L =
    (let a = nSequence i; b = nSequence j in
     if a = b then newer_loop is js f L
     else if b < a \<and> b < L then newer_loop is js True b
     else if a \<le> L then newer_loop is js False a
     else newer_loop is js f L)"
  by (auto simp: Let_def)

lemma newer_loop_spec: "newer_loop is js f L \<longleftrightarrow> newer_spec (set (seq_diffs is js)) f L"
proof (induction "is" arbitrary: js f L)
  case (Cons i "is")
  show ?case
  proof (cases js)
    case (Cons j js')
    then have "set (seq_diffs (i # is) js) =
        (if nSequence i = nSequence j then {} else {(nSequence i, nSequence j)}) \<union> set (seq_diffs is js')"
      by (simp add: seq_diffs_def)
    then show ?thesis
      unfolding Cons newer_loop_step Let_def Cons.IH by (simp add: newer_spec_insert)
  qed (auto simp: seq_diffs_def newer_spec_def)
qed (auto simp: seq_diffs_def newer_spec_def)

text \<open>The pairs of differing sequence numbers, as (new, old).\<close>

lemma seq_diffs_iff:
  "(a, b) \<in> set (seq_diffs is js) \<longleftrightarrow>
     a \<noteq> b \<and> (\<exists>k < length is. k < length js \<and> nSequence (is ! k) = a \<and> nSequence (js ! k) = b)"
  unfolding seq_diffs_def by (auto simp: in_set_zip) (metis nth_map)

lemma newer_spec_top:
  "newer_spec S False (0xffffffff :: u32) \<longleftrightarrow> (\<exists>d \<in> S. \<forall>e \<in> S. snd d < fst e)"
proof -
  have "snd d < 0xffffffff" if "d \<in> S" "\<forall>e \<in> S. snd d < fst e" for d :: "u32 \<times> u32"
  proof -
    have "unat (fst d) \<le> 4294967295" by (rule unat_u32_le)
    with that show ?thesis by (auto simp: word_less_nat_alt)
  qed
  then show ?thesis unfolding newer_spec_def by auto
qed

lemma IsNewerThan_iff:
  "IsNewerThan t old \<longleftrightarrow>
     list_all2 (\<lambda>i j. COutPoint_eq (prevout i) (prevout j)) (vin t) (vin old)
     \<and> (\<exists>d \<in> set (seq_diffs (vin t) (vin old)). \<forall>e \<in> set (seq_diffs (vin t) (vin old)). snd d < fst e)"
  unfolding IsNewerThan_def newer_loop_spec newer_spec_top by (auto dest: list_all2_lengthD)

lemma seq_diffs_swap: "(a, b) \<in> set (seq_diffs js is) \<longleftrightarrow> (b, a) \<in> set (seq_diffs is js)"
  by (auto simp: seq_diffs_iff)

lemma seq_diffs_least:
  assumes "length is = length js"
  shows "(\<exists>d \<in> set (seq_diffs is js). \<forall>e \<in> set (seq_diffs is js). snd d < fst e) \<longleftrightarrow>
    (\<exists>k < length is. nSequence (is ! k) \<noteq> nSequence (js ! k)
       \<and> (\<forall>l < length is. nSequence (is ! l) \<noteq> nSequence (js ! l) \<longrightarrow> nSequence (js ! k) < nSequence (is ! l)))"
  (is "?L \<longleftrightarrow> ?R")
proof
  assume ?L
  then obtain a b where ab: "(a, b) \<in> set (seq_diffs is js)" "\<forall>e \<in> set (seq_diffs is js). b < fst e" by auto
  from ab(1) obtain k where k: "k < length is" "nSequence (is ! k) = a" "nSequence (js ! k) = b" "a \<noteq> b"
    unfolding seq_diffs_iff by blast
  have "b < nSequence (is ! l)" if "l < length is" "nSequence (is ! l) \<noteq> nSequence (js ! l)" for l
  proof -
    have "(nSequence (is ! l), nSequence (js ! l)) \<in> set (seq_diffs is js)"
      unfolding seq_diffs_iff using that assms by auto
    with ab(2) show ?thesis by fastforce
  qed
  with k show ?R by auto
next
  assume ?R
  then obtain k where k: "k < length is" "nSequence (is ! k) \<noteq> nSequence (js ! k)"
    "\<forall>l < length is. nSequence (is ! l) \<noteq> nSequence (js ! l) \<longrightarrow> nSequence (js ! k) < nSequence (is ! l)"
    by blast
  have "(nSequence (is ! k), nSequence (js ! k)) \<in> set (seq_diffs is js)"
    unfolding seq_diffs_iff using k assms by auto
  moreover have "nSequence (js ! k) < fst e" if "e \<in> set (seq_diffs is js)" for e
    using that k(3) seq_diffs_iff [of "fst e" "snd e"] by auto
  ultimately show ?L by (metis snd_conv)
qed

section \<open>Properties of transactions\<close>

text \<open>
  C33: the serialization of a transaction (\<^verbatim>\<open>IMPLEMENT_SERIALIZE\<close> of \<^verbatim>\<open>CTransaction\<close>,
  \<^verbatim>\<open>CTxIn\<close>, \<^verbatim>\<open>CTxOut\<close>, \<^verbatim>\<open>COutPoint\<close>) followed by any bytes is read back as the
  same transaction, leaving exactly those bytes; hence no two well-formed transactions share a serialization
  and none is a proper prefix of another.
\<close>

theorem tx_roundtrip:
  assumes "ok_tx t"
  shows "unser_tx (ser_tx t @ rest) = Inr (t, rest)
    \<and> (\<forall>u rest'. ok_tx u \<longrightarrow> ser_tx t @ rest = ser_tx u @ rest' \<longrightarrow> t = u \<and> rest = rest')"
proof (intro conjI allI impI)
  show r: "unser_tx (ser_tx t @ rest) = Inr (t, rest)" by (rule tx_codec.roundtrip [OF assms])
  fix u rest' assume u: "ok_tx u" "ser_tx t @ rest = ser_tx u @ rest'"
  have "unser_tx (ser_tx u @ rest') = Inr (u, rest')" by (rule tx_codec.roundtrip [OF u(1)])
  with r u(2) show "t = u" "rest = rest'" by simp_all
qed

theorem tx_roundtrip_witness:
  "unser_tx (ser_tx \<lparr>nVersion = 1, nTime = 1500000000,
       vin = [\<lparr>prevout = COutPoint_SetNull, scriptSig = [1, 2], nSequence = 7\<rparr>],
       vout = [\<lparr>nValue = - 1, scriptPubKey = [0x6a]\<rparr>, CTxOut_SetEmpty], nLockTime = 5\<rparr> @ [9])
   = Inr (\<lparr>nVersion = 1, nTime = 1500000000,
       vin = [\<lparr>prevout = COutPoint_SetNull, scriptSig = [1, 2], nSequence = 7\<rparr>],
       vout = [\<lparr>nValue = - 1, scriptPubKey = [0x6a]\<rparr>, CTxOut_SetEmpty], nLockTime = 5\<rparr>, [9])"
  by (intro tx_roundtrip [THEN conjunct1])
    (simp add: ok_tx_def ok_txin_def ok_txout_def ok_outpoint_def COutPoint_SetNull_def CTxOut_SetEmpty_def
      in_int64_def in_int32_def MAX_SIZE_def op_assign64_def UINT256_WIDTH_def)

text \<open>
  C34 (bounds). \<^verbatim>\<open>GetValueOut\<close> on 64-bit output values returns a sum exactly when no output is negative and the true sum
  does not exceed \<^verbatim>\<open>MAX_MONEY\<close>, and then the true sum. The addition leaves the range of signed integers, and so has no
  meaning in the language, exactly when some first outputs, none of them negative, exceed \<^verbatim>\<open>MAX_MONEY\<close>; otherwise the
  call throws, and it does so exactly when a negative output comes before that.
\<close>

theorem GetValueOut_exact:
  assumes "\<forall>o' \<in> set (vout t). in_int64 (nValue o')"
  shows "(GetValueOut t = Sum s \<longleftrightarrow>
      (\<forall>o' \<in> set (vout t). 0 \<le> nValue o') \<and> s = sum_list (map nValue (vout t)) \<and> s \<le> MAX_MONEY)
    \<and> (GetValueOut t = Overflow \<longleftrightarrow>
      (\<exists>k. (\<forall>o' \<in> set (take k (vout t)). 0 \<le> nValue o') \<and> MAX_MONEY < sum_list (map nValue (take k (vout t)))))
    \<and> (GetValueOut t = Out_of_range \<longleftrightarrow>
      (\<exists>o' \<in> set (vout t). nValue o' < 0) \<and>
      (\<forall>k. (\<forall>o' \<in> set (take k (vout t)). 0 \<le> nValue o') \<longrightarrow> sum_list (map nValue (take k (vout t))) \<le> MAX_MONEY))"
proof -
  have z: "0 \<le> (0::int)" "(0::int) \<le> MAX_MONEY" by (simp_all add: MAX_MONEY_def)
  note sum = value_out_loop_Sum [OF z, of "vout t"] and over = value_out_loop_Overflow [OF z assms]
  have all: "take (length (vout t)) (vout t) = vout t" by simp
  have throw: "GetValueOut t = Out_of_range \<longleftrightarrow> (\<forall>s. GetValueOut t \<noteq> Sum s) \<and> GetValueOut t \<noteq> Overflow"
    by (cases "GetValueOut t") simp_all
  show ?thesis unfolding throw unfolding GetValueOut_def sum over sum_upto_def
    using all by (auto simp: not_less) (metis all not_less)+
qed

theorem GetValueOut_exact_witness:
  "GetValueOut \<lparr>nVersion = 1, nTime = 0, vin = [],
     vout = [\<lparr>nValue = 2 ^ 62, scriptPubKey = []\<rparr>, \<lparr>nValue = 5, scriptPubKey = []\<rparr>], nLockTime = 0\<rparr>
   = Sum (2 ^ 62 + 5)"
  using GetValueOut_exact [of "\<lparr>nVersion = 1, nTime = 0, vin = [],
     vout = [\<lparr>nValue = 2 ^ 62, scriptPubKey = []\<rparr>, \<lparr>nValue = 5, scriptPubKey = []\<rparr>], nLockTime = 0\<rparr>" "2 ^ 62 + 5"]
  by (simp add: in_int64_def MAX_MONEY_def)

text \<open>
  \<^verbatim>\<open>IsNewerThan\<close> holds exactly when both transactions spend the same previous outputs in
  the same order and some input's old sequence number lies below the new sequence number of every input
  whose sequence changed; so it is irreflexive and never holds in both directions.
\<close>

theorem IsNewerThan_characterised:
  "(IsNewerThan t old \<longleftrightarrow>
     list_all2 (\<lambda>i j. COutPoint_eq (prevout i) (prevout j)) (vin t) (vin old)
     \<and> (\<exists>k < length (vin t). nSequence (vin t ! k) \<noteq> nSequence (vin old ! k)
         \<and> (\<forall>l < length (vin t). nSequence (vin t ! l) \<noteq> nSequence (vin old ! l)
              \<longrightarrow> nSequence (vin old ! k) < nSequence (vin t ! l))))
   \<and> \<not> (IsNewerThan t old \<and> IsNewerThan old t) \<and> \<not> IsNewerThan t t"
proof (intro conjI)
  let ?D = "\<lambda>a b. set (seq_diffs (vin a) (vin b))"
  show "IsNewerThan t old \<longleftrightarrow>
     list_all2 (\<lambda>i j. COutPoint_eq (prevout i) (prevout j)) (vin t) (vin old)
     \<and> (\<exists>k < length (vin t). nSequence (vin t ! k) \<noteq> nSequence (vin old ! k)
         \<and> (\<forall>l < length (vin t). nSequence (vin t ! l) \<noteq> nSequence (vin old ! l)
              \<longrightarrow> nSequence (vin old ! k) < nSequence (vin t ! l)))"
    unfolding IsNewerThan_iff using seq_diffs_least list_all2_lengthD by blast
  show asym: "\<not> (IsNewerThan t old \<and> IsNewerThan old t)"
  proof
    assume "IsNewerThan t old \<and> IsNewerThan old t"
    then obtain d e where "d \<in> ?D t old" "\<forall>x \<in> ?D t old. snd d < fst x"
      "e \<in> ?D old t" "\<forall>x \<in> ?D old t. snd e < fst x"
      unfolding IsNewerThan_iff by blast
    moreover from this have "prod.swap e \<in> ?D t old" "prod.swap d \<in> ?D old t"
      using seq_diffs_swap [of "snd e" "fst e" "vin t" "vin old"] seq_diffs_swap [of "snd d" "fst d" "vin old" "vin t"]
      by (simp_all add: prod.swap_def)
    ultimately have "snd d < fst (prod.swap e)" "snd e < fst (prod.swap d)" by blast+
    then show False by (simp add: prod.swap_def)
  qed
  show "\<not> IsNewerThan t t" unfolding IsNewerThan_iff by (auto simp: seq_diffs_iff)
qed

end
