(* ===== verification/Key.thy ===== *)
theory Key
  imports Bignum Tx
begin

unbundle bit_operations_syntax

text \<open>
  Keys: \<^verbatim>\<open>CPubKey\<close> and \<^verbatim>\<open>CKey\<close> of \<^verbatim>\<open>src/src/key.h\<close> and \<^verbatim>\<open>key.cpp\<close>, the thin calls of
  \<^verbatim>\<open>CECKey\<close> (\<^verbatim>\<open>eckey.cpp\<close>), and the key stores of \<^verbatim>\<open>keystore.h\<close> and \<^verbatim>\<open>keystore.cpp\<close>. The
  hash functions and the elliptic-curve operations are OpenSSL's; they are further fields of the library record.
  A public key is the list of its serialized bytes; the bytes of the 65-byte array after those are never read.
\<close>

section \<open>The cryptographic library\<close>

text \<open>
  \<open>o2i_ECPublicKey\<close> parses a serialized point, \<open>i2o_ECPublicKey\<close> serializes the parsed point again, compressed
  or not; \<open>ECDSA_verify\<close> takes the serialized key, the digest and the signature; \<open>EC_pubkey\<close> is the public key
  of a secret and \<open>EC_sign\<close> the signature made with it.
\<close>

record crypto_lib = bn_lib +
  RIPEMD160 :: "byte list \<Rightarrow> byte list"
  SHA1 :: "byte list \<Rightarrow> byte list"
  SHA256 :: "byte list \<Rightarrow> byte list"
  o2i_ECPublicKey :: "byte list \<Rightarrow> bool"
  i2o_ECPublicKey :: "byte list \<Rightarrow> bool \<Rightarrow> byte list"
  ECDSA_verify :: "byte list \<Rightarrow> byte list \<Rightarrow> byte list \<Rightarrow> bool"
  EC_pubkey :: "byte list \<Rightarrow> bool \<Rightarrow> byte list"
  EC_sign :: "byte list \<Rightarrow> byte list \<Rightarrow> byte list option"

section \<open>Comparison of big-endian numbers\<close>

fun skip_excess :: "nat \<Rightarrow> byte list \<Rightarrow> byte list option" where
  "skip_excess n [] = Some []"
| "skip_excess n (c # cs) =
     (if length (c # cs) > n then (if c \<noteq> 0 then None else skip_excess n cs) else Some (c # cs))"

fun cmp_same_length :: "byte list \<Rightarrow> byte list \<Rightarrow> int" where
  "cmp_same_length (c1 # cs1) (c2 # cs2) =
     (if c1 > c2 then 1 else if c2 > c1 then - 1 else cmp_same_length cs1 cs2)"
| "cmp_same_length _ _ = 0"

definition CompareBigEndian :: "byte list \<Rightarrow> byte list \<Rightarrow> int" where
  "CompareBigEndian c1 c2 =
     (case skip_excess (length c2) c1 of None \<Rightarrow> 1
      | Some d1 \<Rightarrow> (case skip_excess (length d1) c2 of None \<Rightarrow> - 1
         | Some d2 \<Rightarrow> cmp_same_length d1 d2))"

definition vchMaxModOrder :: "byte list" where
  "vchMaxModOrder =
     [0xFF,0xFF,0xFF,0xFF,0xFF,0xFF,0xFF,0xFF, 0xFF,0xFF,0xFF,0xFF,0xFF,0xFF,0xFF,0xFE,
      0xBA,0xAE,0xDC,0xE6,0xAF,0x48,0xA0,0x3B, 0xBF,0xD2,0x5E,0x8C,0xD0,0x36,0x41,0x40]"

definition vchMaxModHalfOrder :: "byte list" where
  "vchMaxModHalfOrder =
     [0x7F,0xFF,0xFF,0xFF,0xFF,0xFF,0xFF,0xFF, 0xFF,0xFF,0xFF,0xFF,0xFF,0xFF,0xFF,0xFF,
      0x5D,0x57,0x6E,0x73,0x57,0xA4,0x50,0x1D, 0xDF,0xE9,0x2F,0x46,0x68,0x1B,0x20,0xA0]"

definition CheckSignatureElement :: "byte list \<Rightarrow> bool \<Rightarrow> bool" where
  "CheckSignatureElement vch half \<longleftrightarrow>
     CompareBigEndian vch [] > 0
     \<and> CompareBigEndian vch (if half then vchMaxModHalfOrder else vchMaxModOrder) \<le> 0"

text \<open>The second loop of \<^verbatim>\<open>CKey::Check\<close>, over the secret and the largest admissible one.\<close>

fun check_max :: "byte list \<Rightarrow> byte list \<Rightarrow> bool" where
  "check_max (v # vch) (m # vchMax) = (if v < m then True else if v > m then False else check_max vch vchMax)"
| "check_max _ _ = True"

definition CKey_Check :: "byte list \<Rightarrow> bool" where
  "CKey_Check vch = (if list_all (\<lambda>b. b = 0) vch then False else check_max vch vchMaxModOrder)"

section \<open>Public keys\<close>

type_synonym CPubKey = "byte list"

definition GetLen :: "byte \<Rightarrow> nat" where
  "GetLen chHeader =
     (if chHeader = 2 \<or> chHeader = 3 then 33
      else if chHeader = 4 \<or> chHeader = 6 \<or> chHeader = 7 then 65 else 0)"

definition Invalidate :: CPubKey where
  "Invalidate = [0xFF]"

definition CPubKey_Set :: "byte list \<Rightarrow> CPubKey" where
  "CPubKey_Set data =
     (let len = (if data = [] then 0 else GetLen (hd data))
      in if len \<noteq> 0 \<and> len = length data then data else Invalidate)"

definition CPubKey_size :: "CPubKey \<Rightarrow> nat" where
  "CPubKey_size pk = GetLen (hd pk)"

definition CPubKey_bytes :: "CPubKey \<Rightarrow> byte list" where
  "CPubKey_bytes pk = take (CPubKey_size pk) pk"

definition CPubKey_eq :: "CPubKey \<Rightarrow> CPubKey \<Rightarrow> bool" where
  "CPubKey_eq a b \<longleftrightarrow> hd a = hd b \<and> take (CPubKey_size a) a = take (CPubKey_size a) b"

definition CPubKey_lt :: "CPubKey \<Rightarrow> CPubKey \<Rightarrow> bool" where
  "CPubKey_lt a b \<longleftrightarrow>
     hd a < hd b \<or> (hd a = hd b \<and> cmp_same_length (take (CPubKey_size a) a) (take (CPubKey_size a) b) < 0)"

definition ser_pubkey :: "CPubKey \<Rightarrow> byte list" where
  "ser_pubkey pk = WriteCompactSize (CPubKey_size pk) @ CPubKey_bytes pk"

definition CPubKey_IsValid :: "CPubKey \<Rightarrow> bool" where
  "CPubKey_IsValid pk \<longleftrightarrow> CPubKey_size pk > 0"

definition CPubKey_IsCompressed :: "CPubKey \<Rightarrow> bool" where
  "CPubKey_IsCompressed pk \<longleftrightarrow> CPubKey_size pk = 33"

definition CPubKey_GetID :: "'a crypto_lib_scheme \<Rightarrow> CPubKey \<Rightarrow> limbs" where
  "CPubKey_GetID E pk = Hash160 (SHA256 E) (RIPEMD160 E) (CPubKey_bytes pk)"

definition CPubKey_GetHash :: "'a crypto_lib_scheme \<Rightarrow> CPubKey \<Rightarrow> limbs" where
  "CPubKey_GetHash E pk = Hash (SHA256 E) (CPubKey_bytes pk)"

definition CECKey_SetPubKey :: "'a crypto_lib_scheme \<Rightarrow> CPubKey \<Rightarrow> bool" where
  "CECKey_SetPubKey E pk = o2i_ECPublicKey E (CPubKey_bytes pk)"

definition CECKey_GetPubKey :: "'a crypto_lib_scheme \<Rightarrow> CPubKey \<Rightarrow> bool \<Rightarrow> CPubKey" where
  "CECKey_GetPubKey E pk fCompressed = CPubKey_Set (i2o_ECPublicKey E (CPubKey_bytes pk) fCompressed)"

definition CECKey_Verify :: "'a crypto_lib_scheme \<Rightarrow> CPubKey \<Rightarrow> limbs \<Rightarrow> byte list \<Rightarrow> bool" where
  "CECKey_Verify E pk hash vchSig = ECDSA_verify E (CPubKey_bytes pk) (uint_bytes hash) vchSig"

definition CPubKey_Verify :: "'a crypto_lib_scheme \<Rightarrow> CPubKey \<Rightarrow> limbs \<Rightarrow> byte list \<Rightarrow> bool" where
  "CPubKey_Verify E pk hash vchSig =
     (if \<not> CPubKey_IsValid pk then False
      else if \<not> CECKey_SetPubKey E pk then False
      else if \<not> CECKey_Verify E pk hash vchSig then False else True)"

definition CPubKey_IsFullyValid :: "'a crypto_lib_scheme \<Rightarrow> CPubKey \<Rightarrow> bool" where
  "CPubKey_IsFullyValid E pk =
     (if \<not> CPubKey_IsValid pk then False else if \<not> CECKey_SetPubKey E pk then False else True)"

definition CPubKey_Decompress :: "'a crypto_lib_scheme \<Rightarrow> CPubKey \<Rightarrow> CPubKey option" where
  "CPubKey_Decompress E pk =
     (if \<not> CPubKey_IsValid pk then None
      else if \<not> CECKey_SetPubKey E pk then None
      else Some (CECKey_GetPubKey E pk False))"

section \<open>Secret keys and key stores\<close>

record CKey =
  fValid :: bool
  fCompressed :: bool
  key_vch :: "byte list"

definition CKey_Set :: "CKey \<Rightarrow> byte list \<Rightarrow> bool \<Rightarrow> CKey" where
  "CKey_Set k data fCompressedIn =
     (if length data \<noteq> 32 then k\<lparr>fValid := False\<rparr>
      else if CKey_Check data then k\<lparr>key_vch := data, fValid := True, fCompressed := fCompressedIn\<rparr>
      else k\<lparr>fValid := False\<rparr>)"

definition CKey_Clear :: "CKey \<Rightarrow> CKey" where
  "CKey_Clear k = k\<lparr>key_vch := replicate 32 0, fCompressed := True, fValid := False\<rparr>"

text \<open>\<open>None\<close> is the failed assertion on an invalid key.\<close>

definition CKey_GetPubKey :: "'a crypto_lib_scheme \<Rightarrow> CKey \<Rightarrow> CPubKey option" where
  "CKey_GetPubKey E k = (if fValid k then Some (CPubKey_Set (EC_pubkey E (key_vch k) (fCompressed k))) else None)"

definition CKey_Sign :: "'a crypto_lib_scheme \<Rightarrow> CKey \<Rightarrow> limbs \<Rightarrow> byte list option" where
  "CKey_Sign E k hash = (if \<not> fValid k then None else EC_sign E (key_vch k) (uint_bytes hash))"

record CBasicKeyStore =
  mapKeys :: "limbs \<rightharpoonup> CKey"
  mapScripts :: "limbs \<rightharpoonup> byte list"

definition AddKeyPubKey :: "'a crypto_lib_scheme \<Rightarrow> CBasicKeyStore \<Rightarrow> CKey \<Rightarrow> CPubKey \<Rightarrow> CBasicKeyStore" where
  "AddKeyPubKey E ks key pubkey = ks\<lparr>mapKeys := (mapKeys ks)(CPubKey_GetID E pubkey \<mapsto> key)\<rparr>"

definition AddKey :: "'a crypto_lib_scheme \<Rightarrow> CBasicKeyStore \<Rightarrow> CKey \<Rightarrow> CBasicKeyStore option" where
  "AddKey E ks key = map_option (AddKeyPubKey E ks key) (CKey_GetPubKey E key)"

definition HaveKey :: "CBasicKeyStore \<Rightarrow> limbs \<Rightarrow> bool" where
  "HaveKey ks address \<longleftrightarrow> mapKeys ks address \<noteq> None"

definition GetKey :: "CBasicKeyStore \<Rightarrow> limbs \<Rightarrow> CKey option" where
  "GetKey ks address = mapKeys ks address"

definition GetKeys :: "CBasicKeyStore \<Rightarrow> limbs set" where
  "GetKeys ks = dom (mapKeys ks)"

text \<open>The outer \<open>None\<close> is the failed assertion, the inner one \<^verbatim>\<open>return false\<close>.\<close>

definition GetPubKey :: "'a crypto_lib_scheme \<Rightarrow> CBasicKeyStore \<Rightarrow> limbs \<Rightarrow> CPubKey option option" where
  "GetPubKey E ks address =
     (case GetKey ks address of None \<Rightarrow> Some None
      | Some key \<Rightarrow> map_option Some (CKey_GetPubKey E key))"

definition HaveCScript :: "CBasicKeyStore \<Rightarrow> limbs \<Rightarrow> bool" where
  "HaveCScript ks hash \<longleftrightarrow> mapScripts ks hash \<noteq> None"

definition GetCScript :: "CBasicKeyStore \<Rightarrow> limbs \<Rightarrow> byte list option" where
  "GetCScript ks hash = mapScripts ks hash"

definition MAX_SCRIPT_ELEMENT_SIZE :: nat where
  "MAX_SCRIPT_ELEMENT_SIZE = 520"

definition AddCScript :: "'a crypto_lib_scheme \<Rightarrow> CBasicKeyStore \<Rightarrow> byte list \<Rightarrow> CBasicKeyStore option" where
  "AddCScript E ks redeemScript =
     (if length redeemScript > MAX_SCRIPT_ELEMENT_SIZE then None
      else Some (ks\<lparr>mapScripts := (mapScripts ks)(Hash160 (SHA256 E) (RIPEMD160 E) redeemScript \<mapsto> redeemScript)\<rparr>))"

section \<open>Big-endian comparison is numeric comparison\<close>

definition be_val :: "byte list \<Rightarrow> nat" where
  "be_val bs = le_val (rev bs)"

lemma be_val_simps [simp]: "be_val [] = 0" "be_val (b # bs) = unat b * 256 ^ length bs + be_val bs"
  by (simp_all add: be_val_def le_val_append)

lemma be_val_bound: "be_val bs < 256 ^ length bs"
  using le_val_bound [of "rev bs"] by (simp add: be_val_def)

lemma skip_excess_spec:
  "(case skip_excess n cs of None \<Rightarrow> 256 ^ n \<le> be_val cs
    | Some ds \<Rightarrow> be_val ds = be_val cs \<and> length ds = min n (length cs))"
proof (induction cs)
  case (Cons c cs)
  show ?case
  proof (cases "length (c # cs) > n \<and> c \<noteq> 0")
    case True
    then have "n \<le> length cs" "1 \<le> unat c" by (auto simp: unat_gt_0 Suc_le_eq)
    have "256 ^ n \<le> (256::nat) ^ length cs" using \<open>n \<le> length cs\<close> by (rule power_increasing) simp
    also have "\<dots> \<le> unat c * 256 ^ length cs" using \<open>1 \<le> unat c\<close> by simp
    also have "\<dots> \<le> be_val (c # cs)" by simp
    finally show ?thesis using True by simp
  next
    case False
    with Cons show ?thesis by (auto split: option.splits)
  qed
qed simp

lemma cmp_same_length_spec:
  "length a = length b \<Longrightarrow> cmp_same_length a b = sgn (int (be_val a) - int (be_val b))"
proof (induction a b rule: cmp_same_length.induct)
  case (1 c1 cs1 c2 cs2)
  have less: "be_val (x # xs) < be_val (y # ys)" if "x < y" "length xs = length ys" for x y :: byte and xs ys
  proof -
    have "Suc (unat x) \<le> unat y" using that by (simp add: word_less_nat_alt)
    then have "Suc (unat x) * 256 ^ length ys \<le> unat y * 256 ^ length ys" by (rule mult_le_mono1)
    with that be_val_bound [of xs] show ?thesis by simp
  qed
  consider "c1 < c2" | "c2 < c1" | "c1 = c2" by (rule linorder_cases)
  then show ?case
  proof cases
    case c: 1
    then have "cmp_same_length (c1 # cs1) (c2 # cs2) = - 1" by auto
    moreover have "be_val (c1 # cs1) < be_val (c2 # cs2)" using c "1.prems" by (intro less) simp_all
    ultimately show ?thesis by (simp del: be_val_simps)
  next
    case c: 2
    then have "cmp_same_length (c1 # cs1) (c2 # cs2) = 1" by auto
    moreover have "be_val (c2 # cs2) < be_val (c1 # cs1)" using c "1.prems" by (intro less) simp_all
    ultimately show ?thesis by (simp del: be_val_simps)
  next
    case 3
    with 1 show ?thesis by simp
  qed
qed auto

lemma CompareBigEndian_spec: "CompareBigEndian c1 c2 = sgn (int (be_val c1) - int (be_val c2))"
proof (cases "skip_excess (length c2) c1")
  case None
  then show ?thesis
    using skip_excess_spec [of "length c2" c1] be_val_bound [of c2] by (simp add: CompareBigEndian_def sgn_if)
next
  case d1: (Some d1)
  have v1: "be_val d1 = be_val c1" "length d1 = min (length c2) (length c1)"
    using skip_excess_spec [of "length c2" c1] d1 by simp_all
  show ?thesis
  proof (cases "skip_excess (length d1) c2")
    case None
    then show ?thesis
      using skip_excess_spec [of "length d1" c2] be_val_bound [of d1] d1 v1 by (simp add: CompareBigEndian_def sgn_if)
  next
    case (Some d2)
    then show ?thesis
      using skip_excess_spec [of "length d1" c2] d1 v1 cmp_same_length_spec [of d1 d2]
      by (simp add: CompareBigEndian_def)
  qed
qed

lemma check_max_spec: "length a = length b \<Longrightarrow> check_max a b \<longleftrightarrow> be_val a \<le> be_val b"
proof -
  assume l: "length a = length b"
  have "check_max a b \<longleftrightarrow> cmp_same_length a b \<le> 0"
    using l by (induction a b rule: check_max.induct) auto
  then show ?thesis using cmp_same_length_spec [OF l] by (auto simp: sgn_if)
qed

lemma be_val_eq_0: "be_val bs = 0 \<longleftrightarrow> list_all (\<lambda>b. b = 0) bs"
  by (induction bs) (auto simp: unat_eq_0)

definition secp256k1_order :: nat where
  "secp256k1_order = 0xFFFFFFFFFFFFFFFFFFFFFFFFFFFFFFFEBAAEDCE6AF48A03BBFD25E8CD0364141"

lemma be_val_orders:
  "be_val vchMaxModOrder = secp256k1_order - 1" "be_val vchMaxModHalfOrder = secp256k1_order div 2"
  by (simp_all add: vchMaxModOrder_def vchMaxModHalfOrder_def secp256k1_order_def)

section \<open>Properties of keys\<close>

text \<open>
  The range checks on secrets and signature elements: \<^verbatim>\<open>CompareBigEndian\<close> is the sign of the
  difference of the two numbers, whatever their lengths; \<^verbatim>\<open>CKey::Check\<close> accepts a 32-byte secret exactly
  when it is between one and the order of secp256k1 minus one; \<^verbatim>\<open>CheckSignatureElement\<close> accepts exactly the
  positive numbers up to the order minus one, or up to half of the order.
\<close>

theorem key_range_checks:
  "CompareBigEndian a b = sgn (int (be_val a) - int (be_val b))
   \<and> (length v = 32 \<longrightarrow> (CKey_Check v \<longleftrightarrow> 1 \<le> be_val v \<and> be_val v < secp256k1_order))
   \<and> (CheckSignatureElement e False \<longleftrightarrow> 1 \<le> be_val e \<and> be_val e < secp256k1_order)
   \<and> (CheckSignatureElement e True \<longleftrightarrow> 1 \<le> be_val e \<and> be_val e \<le> secp256k1_order div 2)"
proof -
  have o: "0 < secp256k1_order" by (simp add: secp256k1_order_def)
  have "CKey_Check v \<longleftrightarrow> 1 \<le> be_val v \<and> be_val v < secp256k1_order" if "length v = 32"
  proof -
    have "length v = length vchMaxModOrder" using that by (simp add: vchMaxModOrder_def)
    then show ?thesis
      using o by (auto simp: CKey_Check_def check_max_spec be_val_orders be_val_eq_0 [symmetric])
  qed
  moreover have "CheckSignatureElement e h \<longleftrightarrow>
      1 \<le> be_val e \<and> be_val e \<le> be_val (if h then vchMaxModHalfOrder else vchMaxModOrder)" for h
    unfolding CheckSignatureElement_def CompareBigEndian_spec by (auto simp: sgn_if)
  ultimately show ?thesis using o by (auto simp: CompareBigEndian_spec be_val_orders)
qed

end
