(* ===== verification/Script.thy ===== *)
theory Script
  imports Key
begin

unbundle bit_operations_syntax

text \<open>
  Scripts as byte strings: the opcodes and the class \<^verbatim>\<open>CScript\<close> of \<^verbatim>\<open>src/src/script.h\<close>, and its
  members defined in \<^verbatim>\<open>script.cpp\<close>: reading and appending instructions, searching and deleting, counting
  signature operations, the canonical-form tests, and the syntactic checks of signatures and public keys.
  A script is a list of bytes; an iterator into it is the suffix that starts there.
\<close>

section \<open>Opcodes\<close>

abbreviation OP_0 :: nat where "OP_0 \<equiv> 0x00"
abbreviation OP_FALSE :: nat where "OP_FALSE \<equiv> OP_0"
abbreviation OP_PUSHDATA1 :: nat where "OP_PUSHDATA1 \<equiv> 0x4c"
abbreviation OP_PUSHDATA2 :: nat where "OP_PUSHDATA2 \<equiv> 0x4d"
abbreviation OP_PUSHDATA4 :: nat where "OP_PUSHDATA4 \<equiv> 0x4e"
abbreviation OP_1NEGATE :: nat where "OP_1NEGATE \<equiv> 0x4f"
abbreviation OP_RESERVED :: nat where "OP_RESERVED \<equiv> 0x50"
abbreviation OP_1 :: nat where "OP_1 \<equiv> 0x51"
abbreviation OP_TRUE :: nat where "OP_TRUE \<equiv> OP_1"
abbreviation OP_2 :: nat where "OP_2 \<equiv> 0x52"
abbreviation OP_3 :: nat where "OP_3 \<equiv> 0x53"
abbreviation OP_4 :: nat where "OP_4 \<equiv> 0x54"
abbreviation OP_5 :: nat where "OP_5 \<equiv> 0x55"
abbreviation OP_6 :: nat where "OP_6 \<equiv> 0x56"
abbreviation OP_7 :: nat where "OP_7 \<equiv> 0x57"
abbreviation OP_8 :: nat where "OP_8 \<equiv> 0x58"
abbreviation OP_9 :: nat where "OP_9 \<equiv> 0x59"
abbreviation OP_10 :: nat where "OP_10 \<equiv> 0x5a"
abbreviation OP_11 :: nat where "OP_11 \<equiv> 0x5b"
abbreviation OP_12 :: nat where "OP_12 \<equiv> 0x5c"
abbreviation OP_13 :: nat where "OP_13 \<equiv> 0x5d"
abbreviation OP_14 :: nat where "OP_14 \<equiv> 0x5e"
abbreviation OP_15 :: nat where "OP_15 \<equiv> 0x5f"
abbreviation OP_16 :: nat where "OP_16 \<equiv> 0x60"
abbreviation OP_NOP :: nat where "OP_NOP \<equiv> 0x61"
abbreviation OP_VER :: nat where "OP_VER \<equiv> 0x62"
abbreviation OP_IF :: nat where "OP_IF \<equiv> 0x63"
abbreviation OP_NOTIF :: nat where "OP_NOTIF \<equiv> 0x64"
abbreviation OP_VERIF :: nat where "OP_VERIF \<equiv> 0x65"
abbreviation OP_VERNOTIF :: nat where "OP_VERNOTIF \<equiv> 0x66"
abbreviation OP_ELSE :: nat where "OP_ELSE \<equiv> 0x67"
abbreviation OP_ENDIF :: nat where "OP_ENDIF \<equiv> 0x68"
abbreviation OP_VERIFY :: nat where "OP_VERIFY \<equiv> 0x69"
abbreviation OP_RETURN :: nat where "OP_RETURN \<equiv> 0x6a"
abbreviation OP_TOALTSTACK :: nat where "OP_TOALTSTACK \<equiv> 0x6b"
abbreviation OP_FROMALTSTACK :: nat where "OP_FROMALTSTACK \<equiv> 0x6c"
abbreviation OP_2DROP :: nat where "OP_2DROP \<equiv> 0x6d"
abbreviation OP_2DUP :: nat where "OP_2DUP \<equiv> 0x6e"
abbreviation OP_3DUP :: nat where "OP_3DUP \<equiv> 0x6f"
abbreviation OP_2OVER :: nat where "OP_2OVER \<equiv> 0x70"
abbreviation OP_2ROT :: nat where "OP_2ROT \<equiv> 0x71"
abbreviation OP_2SWAP :: nat where "OP_2SWAP \<equiv> 0x72"
abbreviation OP_IFDUP :: nat where "OP_IFDUP \<equiv> 0x73"
abbreviation OP_DEPTH :: nat where "OP_DEPTH \<equiv> 0x74"
abbreviation OP_DROP :: nat where "OP_DROP \<equiv> 0x75"
abbreviation OP_DUP :: nat where "OP_DUP \<equiv> 0x76"
abbreviation OP_NIP :: nat where "OP_NIP \<equiv> 0x77"
abbreviation OP_OVER :: nat where "OP_OVER \<equiv> 0x78"
abbreviation OP_PICK :: nat where "OP_PICK \<equiv> 0x79"
abbreviation OP_ROLL :: nat where "OP_ROLL \<equiv> 0x7a"
abbreviation OP_ROT :: nat where "OP_ROT \<equiv> 0x7b"
abbreviation OP_SWAP :: nat where "OP_SWAP \<equiv> 0x7c"
abbreviation OP_TUCK :: nat where "OP_TUCK \<equiv> 0x7d"
abbreviation OP_CAT :: nat where "OP_CAT \<equiv> 0x7e"
abbreviation OP_SUBSTR :: nat where "OP_SUBSTR \<equiv> 0x7f"
abbreviation OP_LEFT :: nat where "OP_LEFT \<equiv> 0x80"
abbreviation OP_RIGHT :: nat where "OP_RIGHT \<equiv> 0x81"
abbreviation OP_SIZE :: nat where "OP_SIZE \<equiv> 0x82"
abbreviation OP_INVERT :: nat where "OP_INVERT \<equiv> 0x83"
abbreviation OP_AND :: nat where "OP_AND \<equiv> 0x84"
abbreviation OP_OR :: nat where "OP_OR \<equiv> 0x85"
abbreviation OP_XOR :: nat where "OP_XOR \<equiv> 0x86"
abbreviation OP_EQUAL :: nat where "OP_EQUAL \<equiv> 0x87"
abbreviation OP_EQUALVERIFY :: nat where "OP_EQUALVERIFY \<equiv> 0x88"
abbreviation OP_RESERVED1 :: nat where "OP_RESERVED1 \<equiv> 0x89"
abbreviation OP_RESERVED2 :: nat where "OP_RESERVED2 \<equiv> 0x8a"
abbreviation OP_1ADD :: nat where "OP_1ADD \<equiv> 0x8b"
abbreviation OP_1SUB :: nat where "OP_1SUB \<equiv> 0x8c"
abbreviation OP_2MUL :: nat where "OP_2MUL \<equiv> 0x8d"
abbreviation OP_2DIV :: nat where "OP_2DIV \<equiv> 0x8e"
abbreviation OP_NEGATE :: nat where "OP_NEGATE \<equiv> 0x8f"
abbreviation OP_ABS :: nat where "OP_ABS \<equiv> 0x90"
abbreviation OP_NOT :: nat where "OP_NOT \<equiv> 0x91"
abbreviation OP_0NOTEQUAL :: nat where "OP_0NOTEQUAL \<equiv> 0x92"
abbreviation OP_ADD :: nat where "OP_ADD \<equiv> 0x93"
abbreviation OP_SUB :: nat where "OP_SUB \<equiv> 0x94"
abbreviation OP_MUL :: nat where "OP_MUL \<equiv> 0x95"
abbreviation OP_DIV :: nat where "OP_DIV \<equiv> 0x96"
abbreviation OP_MOD :: nat where "OP_MOD \<equiv> 0x97"
abbreviation OP_LSHIFT :: nat where "OP_LSHIFT \<equiv> 0x98"
abbreviation OP_RSHIFT :: nat where "OP_RSHIFT \<equiv> 0x99"
abbreviation OP_BOOLAND :: nat where "OP_BOOLAND \<equiv> 0x9a"
abbreviation OP_BOOLOR :: nat where "OP_BOOLOR \<equiv> 0x9b"
abbreviation OP_NUMEQUAL :: nat where "OP_NUMEQUAL \<equiv> 0x9c"
abbreviation OP_NUMEQUALVERIFY :: nat where "OP_NUMEQUALVERIFY \<equiv> 0x9d"
abbreviation OP_NUMNOTEQUAL :: nat where "OP_NUMNOTEQUAL \<equiv> 0x9e"
abbreviation OP_LESSTHAN :: nat where "OP_LESSTHAN \<equiv> 0x9f"
abbreviation OP_GREATERTHAN :: nat where "OP_GREATERTHAN \<equiv> 0xa0"
abbreviation OP_LESSTHANOREQUAL :: nat where "OP_LESSTHANOREQUAL \<equiv> 0xa1"
abbreviation OP_GREATERTHANOREQUAL :: nat where "OP_GREATERTHANOREQUAL \<equiv> 0xa2"
abbreviation OP_MIN :: nat where "OP_MIN \<equiv> 0xa3"
abbreviation OP_MAX :: nat where "OP_MAX \<equiv> 0xa4"
abbreviation OP_WITHIN :: nat where "OP_WITHIN \<equiv> 0xa5"
abbreviation OP_RIPEMD160 :: nat where "OP_RIPEMD160 \<equiv> 0xa6"
abbreviation OP_SHA1 :: nat where "OP_SHA1 \<equiv> 0xa7"
abbreviation OP_SHA256 :: nat where "OP_SHA256 \<equiv> 0xa8"
abbreviation OP_HASH160 :: nat where "OP_HASH160 \<equiv> 0xa9"
abbreviation OP_HASH256 :: nat where "OP_HASH256 \<equiv> 0xaa"
abbreviation OP_CODESEPARATOR :: nat where "OP_CODESEPARATOR \<equiv> 0xab"
abbreviation OP_CHECKSIG :: nat where "OP_CHECKSIG \<equiv> 0xac"
abbreviation OP_CHECKSIGVERIFY :: nat where "OP_CHECKSIGVERIFY \<equiv> 0xad"
abbreviation OP_CHECKMULTISIG :: nat where "OP_CHECKMULTISIG \<equiv> 0xae"
abbreviation OP_CHECKMULTISIGVERIFY :: nat where "OP_CHECKMULTISIGVERIFY \<equiv> 0xaf"
abbreviation OP_NOP1 :: nat where "OP_NOP1 \<equiv> 0xb0"
abbreviation OP_CHECKLOCKTIMEVERIFY :: nat where "OP_CHECKLOCKTIMEVERIFY \<equiv> 0xb1"
abbreviation OP_NOP2 :: nat where "OP_NOP2 \<equiv> OP_CHECKLOCKTIMEVERIFY"
abbreviation OP_NOP3 :: nat where "OP_NOP3 \<equiv> 0xb2"
abbreviation OP_NOP4 :: nat where "OP_NOP4 \<equiv> 0xb3"
abbreviation OP_NOP5 :: nat where "OP_NOP5 \<equiv> 0xb4"
abbreviation OP_NOP6 :: nat where "OP_NOP6 \<equiv> 0xb5"
abbreviation OP_NOP7 :: nat where "OP_NOP7 \<equiv> 0xb6"
abbreviation OP_NOP8 :: nat where "OP_NOP8 \<equiv> 0xb7"
abbreviation OP_NOP9 :: nat where "OP_NOP9 \<equiv> 0xb8"
abbreviation OP_ANON_MARKER :: nat where "OP_ANON_MARKER \<equiv> 0xb9"
abbreviation OP_SMALLDATA :: nat where "OP_SMALLDATA \<equiv> 0xf9"
abbreviation OP_SMALLINTEGER :: nat where "OP_SMALLINTEGER \<equiv> 0xfa"
abbreviation OP_PUBKEYS :: nat where "OP_PUBKEYS \<equiv> 0xfb"
abbreviation OP_PUBKEYHASH :: nat where "OP_PUBKEYHASH \<equiv> 0xfd"
abbreviation OP_PUBKEY :: nat where "OP_PUBKEY \<equiv> 0xfe"
abbreviation OP_INVALIDOPCODE :: nat where "OP_INVALIDOPCODE \<equiv> 0xff"

definition op_names :: "(nat \<times> string) list" where
  "op_names =
     [(OP_0, ''0''),
      (OP_PUSHDATA1, ''OP_PUSHDATA1''),
      (OP_PUSHDATA2, ''OP_PUSHDATA2''),
      (OP_PUSHDATA4, ''OP_PUSHDATA4''),
      (OP_1NEGATE, ''-1''),
      (OP_RESERVED, ''OP_RESERVED''),
      (OP_1, ''1''),
      (OP_2, ''2''),
      (OP_3, ''3''),
      (OP_4, ''4''),
      (OP_5, ''5''),
      (OP_6, ''6''),
      (OP_7, ''7''),
      (OP_8, ''8''),
      (OP_9, ''9''),
      (OP_10, ''10''),
      (OP_11, ''11''),
      (OP_12, ''12''),
      (OP_13, ''13''),
      (OP_14, ''14''),
      (OP_15, ''15''),
      (OP_16, ''16''),
      (OP_NOP, ''OP_NOP''),
      (OP_VER, ''OP_VER''),
      (OP_IF, ''OP_IF''),
      (OP_NOTIF, ''OP_NOTIF''),
      (OP_VERIF, ''OP_VERIF''),
      (OP_VERNOTIF, ''OP_VERNOTIF''),
      (OP_ELSE, ''OP_ELSE''),
      (OP_ENDIF, ''OP_ENDIF''),
      (OP_VERIFY, ''OP_VERIFY''),
      (OP_RETURN, ''OP_RETURN''),
      (OP_TOALTSTACK, ''OP_TOALTSTACK''),
      (OP_FROMALTSTACK, ''OP_FROMALTSTACK''),
      (OP_2DROP, ''OP_2DROP''),
      (OP_2DUP, ''OP_2DUP''),
      (OP_3DUP, ''OP_3DUP''),
      (OP_2OVER, ''OP_2OVER''),
      (OP_2ROT, ''OP_2ROT''),
      (OP_2SWAP, ''OP_2SWAP''),
      (OP_IFDUP, ''OP_IFDUP''),
      (OP_DEPTH, ''OP_DEPTH''),
      (OP_DROP, ''OP_DROP''),
      (OP_DUP, ''OP_DUP''),
      (OP_NIP, ''OP_NIP''),
      (OP_OVER, ''OP_OVER''),
      (OP_PICK, ''OP_PICK''),
      (OP_ROLL, ''OP_ROLL''),
      (OP_ROT, ''OP_ROT''),
      (OP_SWAP, ''OP_SWAP''),
      (OP_TUCK, ''OP_TUCK''),
      (OP_CAT, ''OP_CAT''),
      (OP_SUBSTR, ''OP_SUBSTR''),
      (OP_LEFT, ''OP_LEFT''),
      (OP_RIGHT, ''OP_RIGHT''),
      (OP_SIZE, ''OP_SIZE''),
      (OP_INVERT, ''OP_INVERT''),
      (OP_AND, ''OP_AND''),
      (OP_OR, ''OP_OR''),
      (OP_XOR, ''OP_XOR''),
      (OP_EQUAL, ''OP_EQUAL''),
      (OP_EQUALVERIFY, ''OP_EQUALVERIFY''),
      (OP_RESERVED1, ''OP_RESERVED1''),
      (OP_RESERVED2, ''OP_RESERVED2''),
      (OP_1ADD, ''OP_1ADD''),
      (OP_1SUB, ''OP_1SUB''),
      (OP_2MUL, ''OP_2MUL''),
      (OP_2DIV, ''OP_2DIV''),
      (OP_NEGATE, ''OP_NEGATE''),
      (OP_ABS, ''OP_ABS''),
      (OP_NOT, ''OP_NOT''),
      (OP_0NOTEQUAL, ''OP_0NOTEQUAL''),
      (OP_ADD, ''OP_ADD''),
      (OP_SUB, ''OP_SUB''),
      (OP_MUL, ''OP_MUL''),
      (OP_DIV, ''OP_DIV''),
      (OP_MOD, ''OP_MOD''),
      (OP_LSHIFT, ''OP_LSHIFT''),
      (OP_RSHIFT, ''OP_RSHIFT''),
      (OP_BOOLAND, ''OP_BOOLAND''),
      (OP_BOOLOR, ''OP_BOOLOR''),
      (OP_NUMEQUAL, ''OP_NUMEQUAL''),
      (OP_NUMEQUALVERIFY, ''OP_NUMEQUALVERIFY''),
      (OP_NUMNOTEQUAL, ''OP_NUMNOTEQUAL''),
      (OP_LESSTHAN, ''OP_LESSTHAN''),
      (OP_GREATERTHAN, ''OP_GREATERTHAN''),
      (OP_LESSTHANOREQUAL, ''OP_LESSTHANOREQUAL''),
      (OP_GREATERTHANOREQUAL, ''OP_GREATERTHANOREQUAL''),
      (OP_MIN, ''OP_MIN''),
      (OP_MAX, ''OP_MAX''),
      (OP_WITHIN, ''OP_WITHIN''),
      (OP_RIPEMD160, ''OP_RIPEMD160''),
      (OP_SHA1, ''OP_SHA1''),
      (OP_SHA256, ''OP_SHA256''),
      (OP_HASH160, ''OP_HASH160''),
      (OP_HASH256, ''OP_HASH256''),
      (OP_CODESEPARATOR, ''OP_CODESEPARATOR''),
      (OP_CHECKSIG, ''OP_CHECKSIG''),
      (OP_CHECKSIGVERIFY, ''OP_CHECKSIGVERIFY''),
      (OP_CHECKMULTISIG, ''OP_CHECKMULTISIG''),
      (OP_CHECKMULTISIGVERIFY, ''OP_CHECKMULTISIGVERIFY''),
      (OP_NOP1, ''OP_NOP1''),
      (OP_CHECKLOCKTIMEVERIFY, ''OP_CHECKLOCKTIMEVERIFY''),
      (OP_NOP3, ''OP_NOP3''),
      (OP_NOP4, ''OP_NOP4''),
      (OP_NOP5, ''OP_NOP5''),
      (OP_NOP6, ''OP_NOP6''),
      (OP_NOP7, ''OP_NOP7''),
      (OP_NOP8, ''OP_NOP8''),
      (OP_NOP9, ''OP_NOP9''),
      (OP_ANON_MARKER, ''OP_ANON_MARKER''),
      (OP_INVALIDOPCODE, ''OP_INVALIDOPCODE'')]"

definition GetOpName :: "nat \<Rightarrow> string" where
  "GetOpName opcode = (case map_of op_names opcode of Some s \<Rightarrow> s | None \<Rightarrow> ''OP_UNKNOWN'')"

section \<open>Reading instructions\<close>

type_synonym CScript = "byte list"

text \<open>The length of the immediate operand and the iterator behind the length bytes.\<close>

definition operand_size :: "nat \<Rightarrow> CScript \<Rightarrow> (nat \<times> CScript) option" where
  "operand_size opcode pc =
     (if opcode < OP_PUSHDATA1 then Some (opcode, pc)
      else if opcode = OP_PUSHDATA1 then (if length pc < 1 then None else Some (unat (hd pc), tl pc))
      else if opcode = OP_PUSHDATA2 then (if length pc < 2 then None else Some (le_val (take 2 pc), drop 2 pc))
      else (if length pc < 4 then None else Some (le_val (take 4 pc), drop 4 pc)))"

text \<open>The result is the return value, the advanced iterator, the opcode and the pushed bytes.\<close>

fun GetOp2 :: "CScript \<Rightarrow> bool \<times> CScript \<times> nat \<times> valtype" where
  "GetOp2 [] = (False, [], OP_INVALIDOPCODE, [])"
| "GetOp2 (b # pc) =
     (let opcode = unat b in
      if opcode \<le> OP_PUSHDATA4 then
        (case operand_size opcode pc of
           None \<Rightarrow> (False, pc, OP_INVALIDOPCODE, [])
         | Some (nSize, pc1) \<Rightarrow>
             if length pc1 < nSize then (False, pc1, OP_INVALIDOPCODE, [])
             else (True, drop nSize pc1, opcode, take nSize pc1))
      else (True, pc, opcode, []))"

text \<open>The callers that stop at the first failure.\<close>

definition GetOp :: "CScript \<Rightarrow> (CScript \<times> nat \<times> valtype) option" where
  "GetOp pc = (case GetOp2 pc of (fRet, pc1, opcode, vch) \<Rightarrow> if fRet then Some (pc1, opcode, vch) else None)"

lemma operand_size_le: "operand_size opcode pc = Some (n, pc1) \<Longrightarrow> length pc1 \<le> length pc"
  by (auto simp: operand_size_def split: if_splits)

lemma GetOp2_le: "GetOp2 pc = (r, pc1, opcode, vch) \<Longrightarrow> length pc1 \<le> length pc - 1"
  by (cases pc) (auto simp: Let_def split: if_splits option.splits prod.splits dest: operand_size_le)

lemma GetOp_shrinks: "GetOp pc = Some (pc1, opcode, vch) \<Longrightarrow> length pc1 < length pc"
  using GetOp2_le [of pc] by (cases pc) (auto simp: GetOp_def split: prod.splits if_splits)

lemma GetOp_Nil [simp]: "GetOp [] = None"
  by (simp add: GetOp_def)

lemma operand_size_drop:
  assumes "operand_size opcode pc = Some (n, pc1)"
  shows "\<exists>k. pc1 = drop k pc"
proof -
  have "pc1 = drop 0 pc \<or> pc1 = drop 1 pc \<or> pc1 = drop 2 pc \<or> pc1 = drop 4 pc"
    using assms by (auto simp: operand_size_def drop_Suc split: if_splits)
  then show ?thesis by blast
qed

lemma GetOp_drop: "GetOp pc = Some (pc1, opcode, vch) \<Longrightarrow> \<exists>k. pc1 = drop k pc"
proof (cases pc)
  case (Cons b cs)
  assume "GetOp pc = Some (pc1, opcode, vch)"
  then have "pc1 = cs \<or> (\<exists>n d. operand_size (unat b) cs = Some (n, d) \<and> pc1 = drop n d)"
    unfolding Cons by (auto simp: GetOp_def Let_def split: if_splits option.splits prod.splits)
  then obtain k where "pc1 = drop k cs" using operand_size_drop by (metis drop0 drop_drop)
  then have "pc1 = drop (Suc k) pc" using Cons by simp
  then show ?thesis ..
qed simp

lemma GetOp_suffix: "GetOp pc = Some (pc1, opcode, vch) \<Longrightarrow> pc1 = drop (length pc - length pc1) pc"
proof -
  assume g: "GetOp pc = Some (pc1, opcode, vch)"
  then obtain k where k: "pc1 = drop k pc" using GetOp_drop by blast
  have "length pc1 < length pc" using g by (rule GetOp_shrinks)
  with k have "length pc - length pc1 = k \<or> pc1 = [] " by auto
  with k show ?thesis by auto
qed

section \<open>Appending to a script\<close>

text \<open>The little-endian length of an operand pushed with \<^verbatim>\<open>operator<<\<close> and the operand itself.\<close>

definition push_data :: "valtype \<Rightarrow> CScript" where
  "push_data b =
     (if length b < OP_PUSHDATA1 then [of_nat (length b)]
      else if length b \<le> 0xff then [of_nat OP_PUSHDATA1, of_nat (length b)]
      else if length b \<le> 0xffff then of_nat OP_PUSHDATA2 # le_bytes 2 (length b)
      else of_nat OP_PUSHDATA4 # le_bytes 4 (length b)) @ b"

definition push_vch :: "CScript \<Rightarrow> valtype \<Rightarrow> CScript" where
  "push_vch script b = script @ push_data b"

text \<open>\<open>None\<close> is the exception for a value that is not an opcode.\<close>

definition push_opcode :: "CScript \<Rightarrow> nat \<Rightarrow> CScript option" where
  "push_opcode script opcode = (if opcode > 0xff then None else Some (script @ [of_nat opcode]))"

definition push_uint160 :: "CScript \<Rightarrow> limbs \<Rightarrow> CScript" where
  "push_uint160 script b = script @ [20] @ uint_bytes b"

definition push_uint256 :: "CScript \<Rightarrow> limbs \<Rightarrow> CScript" where
  "push_uint256 script b = script @ [32] @ uint_bytes b"

text \<open>\<open>None\<close> is the failed assertion on the size.\<close>

definition push_pubkey :: "CScript \<Rightarrow> CPubKey \<Rightarrow> CScript option" where
  "push_pubkey script key =
     (if CPubKey_size key < OP_PUSHDATA1
      then Some (script @ [of_nat (CPubKey_size key)] @ CPubKey_bytes key) else None)"

definition push_int64 :: "'a bn_lib_scheme \<Rightarrow> CScript \<Rightarrow> int \<Rightarrow> CScript" where
  "push_int64 L script n =
     (if n = - 1 \<or> (n \<ge> 1 \<and> n \<le> 16) then script @ [of_int (n + (int OP_1 - 1))]
      else push_vch script (getvch L (CBigNum_int L n)))"

definition push_uint64 :: "'a bn_lib_scheme \<Rightarrow> CScript \<Rightarrow> nat \<Rightarrow> CScript" where
  "push_uint64 L script n =
     (if n \<ge> 1 \<and> n \<le> 16 then script @ [of_nat (n + (OP_1 - 1))]
      else push_vch script (getvch L (CBigNum_ulong L n)))"

definition push_bignum :: "'a bn_lib_scheme \<Rightarrow> CScript \<Rightarrow> int \<Rightarrow> CScript" where
  "push_bignum L script b = push_vch script (getvch L b)"

definition script_concat :: "CScript \<Rightarrow> CScript \<Rightarrow> CScript" where
  "script_concat a b = a @ b"

text \<open>Small integers; \<open>None\<close> is the failed assertion.\<close>

definition DecodeOP_N :: "nat \<Rightarrow> nat option" where
  "DecodeOP_N opcode =
     (if opcode = OP_0 then Some 0
      else if opcode \<ge> OP_1 \<and> opcode \<le> OP_16 then Some (opcode - (OP_1 - 1)) else None)"

definition EncodeOP_N :: "int \<Rightarrow> nat option" where
  "EncodeOP_N n =
     (if n \<ge> 0 \<and> n \<le> 16 then (if n = 0 then Some OP_0 else Some (OP_1 + nat n - 1)) else None)"

section \<open>Searching\<close>

text \<open>
  \<^verbatim>\<open>FindAndDelete\<close>: \<open>strip_prefix\<close> is the inner loop, which erases copies of \<open>b\<close> at the iterator;
  the outer loop skips one instruction and stops at the first that cannot be read. The results are the
  number of deletions and the remaining script.
\<close>

function strip_prefix :: "CScript \<Rightarrow> CScript \<Rightarrow> nat \<times> CScript" where
  "strip_prefix b pc =
     (if b \<noteq> [] \<and> length pc \<ge> length b \<and> take (length b) pc = b
      then (case strip_prefix b (drop (length b) pc) of (n, pc1) \<Rightarrow> (Suc n, pc1)) else (0, pc))"
  by pat_completeness auto
termination
proof (relation "measure (\<lambda>(b, pc). length pc)")
  fix b pc :: CScript
  assume "b \<noteq> [] \<and> length pc \<ge> length b \<and> take (length b) pc = b"
  then show "((b, drop (length b) pc), (b, pc)) \<in> measure (\<lambda>(b, pc). length pc)"
    by (cases b; cases pc) auto
qed simp

declare strip_prefix.simps [simp del]

lemma strip_prefix_le: "strip_prefix b pc = (n, pc1) \<Longrightarrow> length pc1 \<le> length pc"
proof (induction b pc arbitrary: n pc1 rule: strip_prefix.induct)
  case (1 b pc)
  then show ?case
    by (subst (asm) (2) strip_prefix.simps) (fastforce split: if_splits prod.splits)
qed

function fad_loop :: "CScript \<Rightarrow> CScript \<Rightarrow> nat \<times> CScript" where
  "fad_loop b pc =
     (case strip_prefix b pc of (n, pc1) \<Rightarrow>
        (case GetOp pc1 of
           None \<Rightarrow> (n, pc1)
         | Some (pc2, _, _) \<Rightarrow>
             (case fad_loop b pc2 of (m, rest) \<Rightarrow> (n + m, take (length pc1 - length pc2) pc1 @ rest))))"
  by pat_completeness auto
termination
  by (relation "measure (\<lambda>(b, pc). length pc)")
    (auto dest!: strip_prefix_le [OF sym] GetOp_shrinks intro: less_le_trans)

declare fad_loop.simps [simp del]

definition FindAndDelete :: "CScript \<Rightarrow> CScript \<Rightarrow> nat \<times> CScript" where
  "FindAndDelete script b = (if b = [] then (0, script) else fad_loop b script)"

function Find :: "nat \<Rightarrow> CScript \<Rightarrow> nat" where
  "Find op pc =
     (case GetOp pc of None \<Rightarrow> 0
      | Some (pc1, opcode, _) \<Rightarrow> (if opcode = op then 1 else 0) + Find op pc1)"
  by pat_completeness auto
termination by (relation "measure (\<lambda>(op, pc). length pc)") (auto dest: GetOp_shrinks)

declare Find.simps [simp del]

section \<open>Tests on the whole script\<close>

function IsPushOnly :: "CScript \<Rightarrow> bool" where
  "IsPushOnly pc =
     (if pc = [] then True
      else (case GetOp pc of None \<Rightarrow> False
            | Some (pc1, opcode, _) \<Rightarrow> if opcode > OP_16 then False else IsPushOnly pc1))"
  by pat_completeness auto
termination by (relation "measure length") (auto dest: GetOp_shrinks)

declare IsPushOnly.simps [simp del]

function sigop_loop :: "bool \<Rightarrow> nat \<Rightarrow> nat \<Rightarrow> CScript \<Rightarrow> nat" where
  "sigop_loop fAccurate n lastOpcode pc =
     (case GetOp pc of None \<Rightarrow> n
      | Some (pc1, opcode, _) \<Rightarrow>
          sigop_loop fAccurate
            (if opcode = OP_CHECKSIG \<or> opcode = OP_CHECKSIGVERIFY then n + 1
             else if opcode = OP_CHECKMULTISIG \<or> opcode = OP_CHECKMULTISIGVERIFY then
               (if fAccurate \<and> lastOpcode \<ge> OP_1 \<and> lastOpcode \<le> OP_16
                then n + the (DecodeOP_N lastOpcode) else n + 20)
             else n) opcode pc1)"
  by pat_completeness auto
termination by (relation "measure (\<lambda>(f, n, l, pc). length pc)") (auto dest: GetOp_shrinks)

declare sigop_loop.simps [simp del]

definition GetSigOpCount :: "CScript \<Rightarrow> bool \<Rightarrow> nat" where
  "GetSigOpCount script fAccurate = sigop_loop fAccurate 0 OP_INVALIDOPCODE script"

definition IsPayToScriptHash :: "CScript \<Rightarrow> bool" where
  "IsPayToScriptHash script \<longleftrightarrow>
     length script = 23 \<and> script ! 0 = of_nat OP_HASH160 \<and> script ! 1 = 0x14 \<and> script ! 22 = of_nat OP_EQUAL"

text \<open>The last item pushed by a script of pushes, \<open>None\<close> for \<^verbatim>\<open>return 0\<close>.\<close>

function last_push :: "valtype \<Rightarrow> CScript \<Rightarrow> valtype option" where
  "last_push data pc =
     (if pc = [] then Some data
      else (case GetOp pc of None \<Rightarrow> None
            | Some (pc1, opcode, vch) \<Rightarrow> if opcode > OP_16 then None else last_push vch pc1))"
  by pat_completeness auto
termination by (relation "measure (\<lambda>(d, pc). length pc)") (auto dest: GetOp_shrinks)

declare last_push.simps [simp del]

definition GetSigOpCount_P2SH :: "CScript \<Rightarrow> CScript \<Rightarrow> nat" where
  "GetSigOpCount_P2SH script sigScript =
     (if \<not> IsPayToScriptHash script then GetSigOpCount script True
      else (case last_push [] sigScript of None \<Rightarrow> 0 | Some data \<Rightarrow> GetSigOpCount data True))"

function HasCanonicalPushes :: "CScript \<Rightarrow> bool" where
  "HasCanonicalPushes pc =
     (if pc = [] then True
      else (case GetOp pc of None \<Rightarrow> False
            | Some (pc1, opcode, data) \<Rightarrow>
                if opcode > OP_16 then HasCanonicalPushes pc1
                else if opcode < OP_PUSHDATA1 \<and> opcode > OP_0 \<and> (length data = 1 \<and> unat (data ! 0) \<le> 16) then False
                else if opcode = OP_PUSHDATA1 \<and> length data < OP_PUSHDATA1 then False
                else if opcode = OP_PUSHDATA2 \<and> length data \<le> 0xFF then False
                else if opcode = OP_PUSHDATA4 \<and> length data \<le> 0xFFFF then False
                else HasCanonicalPushes pc1))"
  by pat_completeness auto
termination by (relation "measure length") (auto dest: GetOp_shrinks)

declare HasCanonicalPushes.simps [simp del]

section \<open>Printing\<close>

text \<open>\<^verbatim>\<open>strprintf("%d")\<close> and the hexadecimal dump of \<^verbatim>\<open>HexStr\<close>.\<close>

fun dec_digits :: "nat \<Rightarrow> string" where
  "dec_digits n = (if n < 10 then [hexchar n] else dec_digits (n div 10) @ [hexchar (n mod 10)])"

declare dec_digits.simps [simp del]

definition show_int :: "int \<Rightarrow> string" where
  "show_int n = (if n < 0 then CHR ''-'' # dec_digits (nat (- n)) else dec_digits (nat n))"

definition HexStr :: "byte list \<Rightarrow> string" where
  "HexStr bs = concat (map hex2 bs)"

definition ValueString :: "'a bn_lib_scheme \<Rightarrow> valtype \<Rightarrow> string" where
  "ValueString L vch = (if length vch \<le> 4 then show_int (getint L (setvch L vch)) else HexStr vch)"

fun StackString_loop :: "'a bn_lib_scheme \<Rightarrow> string \<Rightarrow> valtype list \<Rightarrow> string" where
  "StackString_loop L str [] = str"
| "StackString_loop L str (vch # vStack) =
     StackString_loop L ((if str \<noteq> [] then str @ '' '' else str) @ ValueString L vch) vStack"

definition StackString :: "'a bn_lib_scheme \<Rightarrow> valtype list \<Rightarrow> string" where
  "StackString L vStack = StackString_loop L [] vStack"

function ToString_loop :: "'a bn_lib_scheme \<Rightarrow> bool \<Rightarrow> string \<Rightarrow> CScript \<Rightarrow> string" where
  "ToString_loop L fShort str pc =
     (if pc = [] then str
      else let str1 = (if str \<noteq> [] then str @ '' '' else str) in
        (case GetOp pc of None \<Rightarrow> str1 @ ''[error]''
         | Some (pc1, opcode, vch) \<Rightarrow>
             ToString_loop L fShort
               (str1 @ (if opcode \<le> OP_PUSHDATA4
                        then (if fShort then take 10 (ValueString L vch) else ValueString L vch)
                        else GetOpName opcode)) pc1))"
  by pat_completeness auto
termination by (relation "measure (\<lambda>(L, f, s, pc). length pc)") (auto dest: GetOp_shrinks)

declare ToString_loop.simps [simp del]

definition CScript_ToString :: "'a bn_lib_scheme \<Rightarrow> CScript \<Rightarrow> bool \<Rightarrow> string" where
  "CScript_ToString L script fShort = ToString_loop L fShort [] script"

definition CScript_GetID :: "'a crypto_lib_scheme \<Rightarrow> CScript \<Rightarrow> limbs" where
  "CScript_GetID E script = Hash160 (SHA256 E) (RIPEMD160 E) script"

section \<open>Syntax of signatures and public keys\<close>

abbreviation SCRIPT_VERIFY_NONE :: u32 where "SCRIPT_VERIFY_NONE \<equiv> 0"
abbreviation SCRIPT_VERIFY_P2SH :: u32 where "SCRIPT_VERIFY_P2SH \<equiv> 1"
abbreviation SCRIPT_VERIFY_NULLDUMMY :: u32 where "SCRIPT_VERIFY_NULLDUMMY \<equiv> 2"
abbreviation SCRIPT_VERIFY_DISCOURAGE_UPGRADABLE_NOPS :: u32 where "SCRIPT_VERIFY_DISCOURAGE_UPGRADABLE_NOPS \<equiv> 4"
abbreviation SCRIPT_VERIFY_STRICTENC :: u32 where "SCRIPT_VERIFY_STRICTENC \<equiv> 8"
abbreviation SCRIPT_VERIFY_NOCACHE :: u32 where "SCRIPT_VERIFY_NOCACHE \<equiv> 16"
abbreviation SCRIPT_VERIFY_ALLOW_EMPTY_SIG :: u32 where "SCRIPT_VERIFY_ALLOW_EMPTY_SIG \<equiv> 32"
abbreviation SCRIPT_VERIFY_FIX_HASHTYPE :: u32 where "SCRIPT_VERIFY_FIX_HASHTYPE \<equiv> 64"
abbreviation SCRIPT_VERIFY_CHECKLOCKTIMEVERIFY :: u32 where "SCRIPT_VERIFY_CHECKLOCKTIMEVERIFY \<equiv> 128"

definition MANDATORY_SCRIPT_VERIFY_FLAGS :: u32 where
  "MANDATORY_SCRIPT_VERIFY_FLAGS =
     SCRIPT_VERIFY_P2SH OR SCRIPT_VERIFY_NULLDUMMY OR SCRIPT_VERIFY_STRICTENC OR SCRIPT_VERIFY_CHECKLOCKTIMEVERIFY"

definition STANDARD_SCRIPT_VERIFY_FLAGS :: u32 where
  "STANDARD_SCRIPT_VERIFY_FLAGS = MANDATORY_SCRIPT_VERIFY_FLAGS OR SCRIPT_VERIFY_DISCOURAGE_UPGRADABLE_NOPS"

definition has_flag :: "u32 \<Rightarrow> u32 \<Rightarrow> bool" where
  "has_flag flags f \<longleftrightarrow> flags AND f \<noteq> 0"

definition IsCompressedOrUncompressedPubKey :: "valtype \<Rightarrow> bool" where
  "IsCompressedOrUncompressedPubKey vchPubKey =
     (if length vchPubKey < 33 then False
      else if vchPubKey ! 0 = 0x04 then (if length vchPubKey \<noteq> 65 then False else True)
      else if vchPubKey ! 0 = 0x02 \<or> vchPubKey ! 0 = 0x03 then (if length vchPubKey \<noteq> 33 then False else True)
      else False)"

definition IsDERSignature :: "valtype \<Rightarrow> bool \<Rightarrow> bool" where
  "IsDERSignature vchSig haveHashType =
     (if length vchSig < 9 then False
      else if length vchSig > 73 then False
      else if vchSig ! 0 \<noteq> 0x30 then False
      else if unat (vchSig ! 1) \<noteq> length vchSig - (if haveHashType then 3 else 2) then False
      else let nLenR = unat (vchSig ! 3) in
      if 5 + nLenR \<ge> length vchSig then False
      else let nLenS = unat (vchSig ! (5 + nLenR)) in
      if nLenR + nLenS + (if haveHashType then 7 else 6) \<noteq> length vchSig then False
      else if vchSig ! 2 \<noteq> 0x02 then False
      else if nLenR = 0 then False
      else if vchSig ! 4 AND 0x80 \<noteq> 0 then False
      else if nLenR > 1 \<and> vchSig ! 4 = 0x00 \<and> vchSig ! 5 AND 0x80 = 0 then False
      else if vchSig ! (4 + nLenR) \<noteq> 0x02 then False
      else if nLenS = 0 then False
      else if vchSig ! (6 + nLenR) AND 0x80 \<noteq> 0 then False
      else if nLenS > 1 \<and> vchSig ! (6 + nLenR) = 0x00 \<and> vchSig ! (7 + nLenR) AND 0x80 = 0 then False
      else True)"

definition IsLowDERSignature :: "valtype \<Rightarrow> bool" where
  "IsLowDERSignature vchSig =
     (if \<not> IsDERSignature vchSig True then False
      else let nLenR = unat (vchSig ! 3);
               nLenS = unat (vchSig ! (5 + nLenR));
               S = take nLenS (drop (6 + nLenR) vchSig)
           in CheckSignatureElement S True)"

definition IsDefinedHashtypeSignature :: "valtype \<Rightarrow> bool" where
  "IsDefinedHashtypeSignature vchSig =
     (if length vchSig = 0 then False
      else let nHashType = last vchSig AND NOT 0x80
           in if nHashType < 1 \<or> nHashType > 3 then False else True)"

definition CheckSignatureEncoding :: "valtype \<Rightarrow> u32 \<Rightarrow> bool" where
  "CheckSignatureEncoding vchSig flags =
     (if has_flag flags SCRIPT_VERIFY_ALLOW_EMPTY_SIG \<and> length vchSig = 0 then True
      else if \<not> IsLowDERSignature vchSig then False
      else if \<not> has_flag flags SCRIPT_VERIFY_FIX_HASHTYPE \<and> \<not> IsDefinedHashtypeSignature vchSig then False
      else True)"

definition CheckPubKeyEncoding :: "valtype \<Rightarrow> bool" where
  "CheckPubKeyEncoding vchSig = (if \<not> IsCompressedOrUncompressedPubKey vchSig then False else True)"

section \<open>Pushed data is read back\<close>

lemma GetOp_push:
  assumes "length b < 2 ^ 32"
  shows "\<exists>opcode \<le> OP_PUSHDATA4. GetOp (push_data b @ rest) = Some (rest, opcode, b)"
proof -
  consider "length b < 76" | "76 \<le> length b" "length b \<le> 255" | "255 < length b" "length b \<le> 65535"
    | "65535 < length b" by linarith
  then show ?thesis
  proof cases
    case 1
    then show ?thesis by (simp add: push_data_def GetOp_def operand_size_def unat_of_nat_byte)
  next
    case 2
    then show ?thesis by (simp add: push_data_def GetOp_def operand_size_def unat_of_nat_byte)
  next
    case 3
    then have "le_val (le_bytes 2 (length b)) = length b" by (simp add: le_simps)
    with 3 show ?thesis by (simp add: push_data_def GetOp_def operand_size_def)
  next
    case 4
    then have "le_val (le_bytes 4 (length b)) = length b" using assms by (simp add: le_simps)
    with 4 show ?thesis by (simp add: push_data_def GetOp_def operand_size_def)
  qed
qed

lemma push_data_ne [simp]: "push_data b \<noteq> []"
  by (simp add: push_data_def)

lemma length_push_data_pos: "0 < length (push_data b)"
  by (simp add: push_data_def)

text \<open>Opcodes above the pushes are single bytes.\<close>

lemma GetOp_opcode:
  assumes "OP_PUSHDATA4 < opcode" "opcode < 256"
  shows "GetOp (of_nat opcode # rest) = Some (rest, opcode, [])"
  using assms by (simp add: GetOp_def unat_of_nat_byte)

lemma GetOp_lt_256: "GetOp pc = Some (pc1, opcode, vch) \<Longrightarrow> opcode < 256"
  by (cases pc) (auto simp: GetOp_def Let_def split: if_splits option.splits)

lemma GetOp_vch: "GetOp pc = Some (pc1, opcode, vch) \<Longrightarrow> vch \<noteq> [] \<Longrightarrow> opcode \<le> OP_PUSHDATA4"
  by (cases pc) (auto simp: GetOp_def Let_def split: if_splits option.splits)

section \<open>Deletion\<close>

lemma strip_prefix_length:
  "strip_prefix b pc = (n, pc1) \<Longrightarrow> length pc1 + n * length b = length pc"
proof (induction b pc arbitrary: n pc1 rule: strip_prefix.induct)
  case (1 b pc)
  show ?case
  proof (cases "b \<noteq> [] \<and> length b \<le> length pc \<and> take (length b) pc = b")
    case True
    obtain m q where q: "strip_prefix b (drop (length b) pc) = (m, q)" by fastforce
    then have "n = Suc m" "pc1 = q" using 1(2) True by (subst (asm) (2) strip_prefix.simps, simp)+
    moreover have "length q + m * length b = length pc - length b" using 1(1) [OF True q] by simp
    moreover have "length b \<le> length pc" using True by blast
    ultimately show ?thesis by simp
  next
    case False
    then show ?thesis using 1(2) by (subst (asm) strip_prefix.simps) auto
  qed
qed

lemma strip_prefix_stops:
  "strip_prefix b pc = (n, pc1) \<Longrightarrow> b \<noteq> [] \<Longrightarrow> take (length b) pc1 \<noteq> b"
proof (induction b pc arbitrary: n pc1 rule: strip_prefix.induct)
  case (1 b pc)
  show ?case
  proof (cases "b \<noteq> [] \<and> length b \<le> length pc \<and> take (length b) pc = b")
    case True
    obtain m q where q: "strip_prefix b (drop (length b) pc) = (m, q)" by fastforce
    then have "pc1 = q" using 1(2) True by (subst (asm) (2) strip_prefix.simps) simp
    then show ?thesis using 1(1) [OF True q] 1(3) by simp
  next
    case False
    then have "pc1 = pc" using 1(2) by (subst (asm) strip_prefix.simps) auto
    moreover have "length (take (length b) pc) = length b" if "take (length b) pc = b" using that by simp
    ultimately show ?thesis using False 1(3) by (metis length_take min.cobounded1)
  qed
qed

lemma fad_length: "fad_loop b pc = (n, s) \<Longrightarrow> length s + n * length b = length pc"
proof (induction b pc arbitrary: n s rule: fad_loop.induct)
  case (1 b pc)
  obtain k pc1 where k: "strip_prefix b pc = (k, pc1)" by fastforce
  note len = strip_prefix_length [OF k]
  show ?case
  proof (cases "GetOp pc1")
    case None
    then show ?thesis using 1(2) k len by (subst (asm) fad_loop.simps) simp
  next
    case (Some x)
    then obtain pc2 op v where g: "GetOp pc1 = Some (pc2, op, v)" by (cases x) auto
    obtain m r where m: "fad_loop b pc2 = (m, r)" by fastforce
    have "length r + m * length b = length pc2" using 1(1) [OF k [symmetric] g refl refl m] by simp
    moreover have "n = k + m" "s = take (length pc1 - length pc2) pc1 @ r"
      using 1(2) k g m by (simp_all add: fad_loop.simps [of b pc])
    moreover have "length pc2 < length pc1" using g by (rule GetOp_shrinks)
    ultimately show ?thesis using len by (simp add: algebra_simps)
  qed
qed

text \<open>The positions at which an instruction of a script starts.\<close>

inductive instr_start :: "CScript \<Rightarrow> CScript \<Rightarrow> bool" where
  here: "instr_start pc pc"
| step: "GetOp pc = Some (pc1, opcode, vch) \<Longrightarrow> instr_start pc1 q \<Longrightarrow> instr_start pc q"

lemma fad_none:
  "b \<noteq> [] \<Longrightarrow> fst (fad_loop b pc) = 0 \<longleftrightarrow> (\<forall>q. instr_start pc q \<longrightarrow> take (length b) q \<noteq> b)"
proof (induction b pc rule: fad_loop.induct)
  case (1 b pc)
  obtain k pc1 where k: "strip_prefix b pc = (k, pc1)" by fastforce
  show ?case
  proof (cases "take (length b) pc = b")
    case True
    then have "length b \<le> length pc" by (metis length_take min.cobounded1)
    then have "k > 0" using k True 1(2) by (subst (asm) strip_prefix.simps) (auto split: prod.splits)
    then have "fst (fad_loop b pc) \<noteq> 0"
      using k by (subst fad_loop.simps) (auto split: option.splits prod.splits)
    then show ?thesis using True instr_start.here by blast
  next
    case False
    then have e: "k = 0" "pc1 = pc" using k by (simp_all add: strip_prefix.simps [of b pc])
    show ?thesis
    proof (cases "GetOp pc")
      case None
      then have "instr_start pc q \<longleftrightarrow> q = pc" for q by (auto elim: instr_start.cases intro: instr_start.here)
      then show ?thesis using None False k e by (simp add: fad_loop.simps [of b pc])
    next
      case (Some x)
      then obtain pc2 op v where g: "GetOp pc = Some (pc2, op, v)" by (cases x) auto
      have "instr_start pc q \<longleftrightarrow> q = pc \<or> instr_start pc2 q" for q
        using g by (auto elim: instr_start.cases intro: instr_start.intros)
      moreover have "fst (fad_loop b pc) = fst (fad_loop b pc2)"
        using k e g by (simp add: fad_loop.simps [of b pc] split: prod.splits)
      moreover have "fst (fad_loop b pc2) = 0 \<longleftrightarrow> (\<forall>q. instr_start pc2 q \<longrightarrow> take (length b) q \<noteq> b)"
        using 1(1) [OF k [symmetric] _ refl refl 1(2)] g e by simp
      ultimately show ?thesis using False by auto
    qed
  qed
qed

lemma take_length_drop: "take (length xs - length (drop j xs)) xs @ drop j xs = xs"
  by (cases "j \<le> length xs") auto

lemma fad_same: "fst (fad_loop b pc) = 0 \<Longrightarrow> snd (fad_loop b pc) = pc"
proof (induction b pc rule: fad_loop.induct)
  case (1 b pc)
  obtain k pc1 where k: "strip_prefix b pc = (k, pc1)" by fastforce
  then have "k = 0" using 1(2) by (subst (asm) fad_loop.simps) (auto split: option.splits prod.splits)
  then have e: "pc1 = pc" using k by (subst (asm) strip_prefix.simps) (auto split: if_splits prod.splits)
  show ?case
  proof (cases "GetOp pc")
    case None
    then show ?thesis using k e by (simp add: fad_loop.simps [of b pc])
  next
    case (Some x)
    then obtain pc2 op v where g: "GetOp pc = Some (pc2, op, v)" by (cases x) auto
    have "fst (fad_loop b pc2) = 0" using 1(2) k e g by (auto simp: fad_loop.simps [of b pc] split: prod.splits)
    then have "snd (fad_loop b pc2) = pc2" using 1(1) [OF k [symmetric] _ refl refl] g e by simp
    moreover have "take (length pc - length pc2) pc @ pc2 = pc"
      using GetOp_drop [OF g] by (metis take_length_drop)
    ultimately show ?thesis using k e g by (auto simp: fad_loop.simps [of b pc] split: prod.splits)
  qed
qed

text \<open>
  What deletion should do: cut the script from the left. Where the rest starts with the pattern, the piece is a copy of it,
  elsewhere one instruction; what remains when no instruction can be read is not cut. The copies go, everything else stays.
\<close>

inductive pieces :: "CScript \<Rightarrow> CScript \<Rightarrow> (bool \<times> CScript) list \<Rightarrow> CScript \<Rightarrow> bool" for b where
  tail: "take (length b) s \<noteq> b \<Longrightarrow> GetOp s = None \<Longrightarrow> pieces b s [] s"
| copy: "pieces b s ps r \<Longrightarrow> pieces b (b @ s) ((True, b) # ps) r"
| instr: "take (length b) (p @ s) \<noteq> b \<Longrightarrow> GetOp (p @ s) = Some (s, opcode, vch) \<Longrightarrow> pieces b s ps r \<Longrightarrow>
    pieces b (p @ s) ((False, p) # ps) r"

definition copies :: "(bool \<times> CScript) list \<Rightarrow> nat" where
  "copies ps = length (filter fst ps)"

definition kept :: "(bool \<times> CScript) list \<Rightarrow> CScript" where
  "kept ps = concat (map snd (filter (\<lambda>p. \<not> fst p) ps))"

lemma copies_kept [simp]:
  "copies [] = 0" "copies ((True, p) # ps) = Suc (copies ps)" "copies ((False, p) # ps) = copies ps"
  "kept [] = []" "kept ((True, p) # ps) = kept ps" "kept ((False, p) # ps) = p @ kept ps"
  by (simp_all add: copies_def kept_def)

lemma pieces_concat: "pieces b s ps r \<Longrightarrow> s = concat (map snd ps) @ r"
  by (induction rule: pieces.induct) simp_all

lemma pieces_exist: "b \<noteq> [] \<Longrightarrow> \<exists>ps r. pieces b s ps r"
proof (induction "length s" arbitrary: s rule: less_induct)
  case less
  show ?case
  proof (cases "take (length b) s = b")
    case True
    then have s: "s = b @ drop (length b) s" by (metis append_take_drop_id)
    then have "length (drop (length b) s) < length s" using less.prems by (metis length_append length_greater_0_conv less_add_same_cancel2)
    then show ?thesis using less.hyps [OF _ less.prems] s pieces.copy by metis
  next
    case False
    show ?thesis
    proof (cases "GetOp s")
      case (Some x)
      then obtain s1 opc v where g: "GetOp s = Some (s1, opc, v)" by (cases x) auto
      have s: "s = take (length s - length s1) s @ s1" using GetOp_drop [OF g] by (metis take_length_drop)
      obtain ps r where "pieces b s1 ps r" using less.hyps [OF GetOp_shrinks [OF g] less.prems] by blast
      then show ?thesis using pieces.instr [of b "take (length s - length s1) s" s1 opc v ps r] False g s by auto
    qed (use False pieces.tail in blast)
  qed
qed

lemma fad_pieces: "pieces b s ps r \<Longrightarrow> b \<noteq> [] \<Longrightarrow> fad_loop b s = (copies ps, kept ps @ r)"
proof (induction rule: pieces.induct)
  case (tail s)
  then show ?case by (simp add: fad_loop.simps [of b s] strip_prefix.simps [of b s])
next
  case (copy s ps r)
  have "strip_prefix b (b @ s) = (case strip_prefix b s of (n, q) \<Rightarrow> (Suc n, q))"
    using copy.prems by (simp add: strip_prefix.simps [of b "b @ s"])
  then show ?case using copy by (auto simp: fad_loop.simps [of b "b @ s"] fad_loop.simps [of b s] split: prod.splits option.splits)
next
  case (instr p s opcode vch ps r)
  then show ?case by (simp add: fad_loop.simps [of b "p @ s"] strip_prefix.simps [of b "p @ s"])
qed

section \<open>Sequences of pushes\<close>

lemma pushes_only:
  assumes "\<forall>v \<in> set vs. length v < 2 ^ 32"
  shows "IsPushOnly (concat (map push_data vs))
    \<and> last_push d (concat (map push_data vs)) = Some (last (d # vs))"
  using assms
proof (induction vs arbitrary: d)
  case Nil
  then show ?case by (simp add: IsPushOnly.simps last_push.simps)
next
  case (Cons v vs)
  obtain op where g: "op \<le> OP_PUSHDATA4" "GetOp (push_data v @ concat (map push_data vs)) = Some (concat (map push_data vs), op, v)"
    using GetOp_push Cons.prems by force
  show ?case
    using Cons.IH [of v] Cons.prems g
    by (simp add: IsPushOnly.simps [of "push_data v @ _"] last_push.simps [of d "push_data v @ _"])
qed

lemma push_data_canonical:
  assumes "length b < 2 ^ 32"
  shows "HasCanonicalPushes (push_data b) \<longleftrightarrow> \<not> (length b = 1 \<and> unat (b ! 0) \<le> 16)"
proof -
  have c: "HasCanonicalPushes []" by (simp add: HasCanonicalPushes.simps)
  consider "length b < 76" | "76 \<le> length b" "length b \<le> 255" | "255 < length b" "length b \<le> 65535"
    | "65535 < length b" by linarith
  then show ?thesis
  proof cases
    case 1
    then have "GetOp (push_data b) = Some ([], length b, b)"
      by (simp add: push_data_def GetOp_def operand_size_def unat_of_nat_byte)
    then show ?thesis using 1 c by (subst HasCanonicalPushes.simps) (auto simp: push_data_def)
  next
    case 2
    then have "GetOp (push_data b) = Some ([], OP_PUSHDATA1, b)"
      by (simp add: push_data_def GetOp_def operand_size_def unat_of_nat_byte)
    then show ?thesis using 2 c by (subst HasCanonicalPushes.simps) (auto simp: push_data_def)
  next
    case 3
    then have "le_val (le_bytes 2 (length b)) = length b" by (simp add: le_simps)
    with 3 have "GetOp (push_data b) = Some ([], OP_PUSHDATA2, b)"
      by (simp add: push_data_def GetOp_def operand_size_def)
    then show ?thesis using 3 c by (subst HasCanonicalPushes.simps) (auto simp: push_data_def)
  next
    case 4
    then have "le_val (le_bytes 4 (length b)) = length b" using assms by (simp add: le_simps)
    with 4 have "GetOp (push_data b) = Some ([], OP_PUSHDATA4, b)"
      by (simp add: push_data_def GetOp_def operand_size_def)
    then show ?thesis using 4 c by (subst HasCanonicalPushes.simps) (auto simp: push_data_def)
  qed
qed

section \<open>Counting signature operations\<close>

lemma sigop_loop_mono:
  "n \<le> m \<Longrightarrow> sigop_loop True n l pc \<le> sigop_loop False m l pc
    \<and> sigop_loop False m l pc \<le> m + 20 * length pc"
proof (induction "False" m l pc arbitrary: n rule: sigop_loop.induct)
  case (1 m l pc)
  show ?case
  proof (cases "GetOp pc")
    case None
    then show ?thesis using 1(2) by (simp add: sigop_loop.simps [of _ _ l pc])
  next
    case (Some x)
    then obtain pc1 op v where g: "GetOp pc = Some (pc1, op, v)" by (cases x) auto
    have s: "length pc1 < length pc" using g by (rule GetOp_shrinks)
    have d: "DecodeOP_N l = Some (l - 80)" "l - 80 \<le> 20" if "81 \<le> l" "l \<le> 96" using that by (auto simp: DecodeOP_N_def)
    let ?step = "\<lambda>f n. if op = OP_CHECKSIG \<or> op = OP_CHECKSIGVERIFY then n + 1
             else if op = OP_CHECKMULTISIG \<or> op = OP_CHECKMULTISIGVERIFY then
               (if f \<and> l \<ge> OP_1 \<and> l \<le> OP_16
                then n + the (DecodeOP_N l) else n + 20)
             else n"
    have "?step True n \<le> ?step False m" "?step False m \<le> m + 20" using 1(2) d by auto
    moreover have "sigop_loop True n l pc = sigop_loop True (?step True n) op pc1"
      "sigop_loop False m l pc = sigop_loop False (?step False m) op pc1"
      using g by (simp_all add: sigop_loop.simps [of _ _ l pc])
    moreover have "sigop_loop True (?step True n) op pc1 \<le> sigop_loop False (?step False m) op pc1
        \<and> sigop_loop False (?step False m) op pc1 \<le> ?step False m + 20 * length pc1"
      using 1(1) [OF g refl refl] calculation(1) by simp
    ultimately show ?thesis using s by linarith
  qed
qed

section \<open>The structure of DER signatures\<close>

text \<open>A non-negative integer without superfluous leading zero, as DER encodes it; zero is one zero byte.\<close>

definition der_int :: "byte list \<Rightarrow> bool" where
  "der_int R \<longleftrightarrow> R \<noteq> [] \<and> R ! 0 AND 0x80 = 0 \<and> (length R > 1 \<and> R ! 0 = 0 \<longrightarrow> R ! 1 AND 0x80 \<noteq> 0)"

definition der_sig :: "byte list \<Rightarrow> byte list \<Rightarrow> byte list \<Rightarrow> valtype" where
  "der_sig R S t =
     [0x30, of_nat (length R + length S + 4), 0x02, of_nat (length R)] @ R
       @ [0x02, of_nat (length S)] @ S @ t"

lemma length_der_sig [simp]: "length (der_sig R S t) = length R + length S + length t + 6"
  by (simp add: der_sig_def)

lemma der_sig_nth:
  "der_sig R S t ! 0 = 0x30" "der_sig R S t ! 1 = of_nat (length R + length S + 4)"
  "der_sig R S t ! 2 = 0x02" "der_sig R S t ! 3 = of_nat (length R)"
  "i < length R \<Longrightarrow> der_sig R S t ! (4 + i) = R ! i"
  "der_sig R S t ! (4 + length R) = 0x02" "der_sig R S t ! (5 + length R) = of_nat (length S)"
  "i < length S \<Longrightarrow> der_sig R S t ! (6 + length R + i) = S ! i"
  by (simp_all add: der_sig_def nth_append nth_Cons')

lemma der_sig_ok:
  assumes "length R + length S \<le> 67" "length t = (if h then 1 else 0)" "9 \<le> length (der_sig R S t)"
    "length (der_sig R S t) \<le> 73"
  shows "IsDERSignature (der_sig R S t) h \<longleftrightarrow> der_int R \<and> der_int S"
proof -
  note n = der_sig_nth(1-4,6,7) [of R S t]
  have u: "unat (of_nat (length R + length S + 4) :: byte) = length R + length S + 4"
    "unat (of_nat (length R) :: byte) = length R" "unat (of_nat (length S) :: byte) = length S"
    using assms(1) by (simp_all add: unat_of_nat_byte del: of_nat_add)
  have r: "der_sig R S t ! 4 = R ! 0" if "R \<noteq> []" using der_sig_nth(5) [of 0 R S t] that by simp
  have r1: "der_sig R S t ! 5 = R ! 1" if "1 < length R" using der_sig_nth(5) [of 1 R S t] that by simp
  have s: "der_sig R S t ! (6 + length R) = S ! 0" if "S \<noteq> []" using der_sig_nth(8) [of 0 S R t] that by simp
  have s1: "der_sig R S t ! (7 + length R) = S ! 1" if "1 < length S" using der_sig_nth(8) [of 1 S R t] that by (simp add: ac_simps)
  show ?thesis
    unfolding IsDERSignature_def Let_def n u
    using assms r r1 s s1
    by (cases "R = []"; cases "S = []"; auto simp: der_int_def)
qed

lemma take_four: "4 \<le> length v \<Longrightarrow> \<exists>a b c d r. v = [a, b, c, d] @ r"
  by (cases v; cases "tl v"; cases "tl (tl v)"; cases "tl (tl (tl v))") auto

lemma take_two: "2 \<le> length v \<Longrightarrow> \<exists>a b r. v = [a, b] @ r"
  by (cases v; cases "tl v") auto

lemma split_at: "n \<le> length v \<Longrightarrow> \<exists>x y. v = x @ y \<and> length x = n"
  by (rule exI [of _ "take n v"], rule exI [of _ "drop n v"]) simp

lemma der_sig_shape:
  assumes "IsDERSignature v h"
  shows "\<exists>R S t. v = der_sig R S t \<and> length t = (if h then 1 else 0)"
proof -
  define k :: nat where "k = (if h then 1 else 0)"
  have c: "9 \<le> length v" "length v \<le> 73" "v ! 0 = 0x30" "unat (v ! 1) = length v - 2 - k"
    "5 + unat (v ! 3) < length v" "unat (v ! 3) + unat (v ! (5 + unat (v ! 3))) + 6 + k = length v"
    "v ! 2 = 0x02" "v ! (4 + unat (v ! 3)) = 0x02"
    using assms unfolding IsDERSignature_def Let_def k_def by (auto split: if_splits)
  obtain a b c0 d r where v: "v = [a, b, c0, d] @ r" using take_four [of v] c(1) by auto
  obtain R r2 where r: "r = R @ r2" "length R = unat d" using split_at [of "unat d" r] c(5) v by auto
  obtain e f r3 where r2: "r2 = [e, f] @ r3" using take_two [of r2] c(5,6) v r by auto
  have f: "v ! (5 + unat d) = f" "v ! (4 + unat d) = e" using v r r2 by (simp_all add: nth_append)
  obtain S t where r3: "r3 = S @ t" "length S = unat f"
    using split_at [of "unat f" r3] c(6) f v r r2 by auto
  have "length t = k" using c(6) f v r r2 r3 by simp
  moreover have "of_nat (unat b) = b" "of_nat (unat d) = d" "of_nat (unat f) = f" by simp_all
  moreover have "unat b = length R + length S + 4" using c(4,6) f v r r2 r3 by simp
  ultimately have "v = der_sig R S t"
    using c(3,7,8) f v r r2 r3 by (auto simp: der_sig_def)
  then show ?thesis using \<open>length t = k\<close> unfolding k_def by blast
qed

lemma CheckSignatureElement_low:
  "CheckSignatureElement S True \<longleftrightarrow> 1 \<le> be_val S \<and> be_val S \<le> secp256k1_order div 2"
  unfolding CheckSignatureElement_def CompareBigEndian_spec by (auto simp: sgn_if be_val_orders)

lemma IsLowDER_der_sig:
  assumes "IsDERSignature (der_sig R S t) True" "length t = 1"
  shows "IsLowDERSignature (der_sig R S t) \<longleftrightarrow> 1 \<le> be_val S \<and> be_val S \<le> secp256k1_order div 2"
proof -
  have "length R + length S \<le> 67"
    using assms unfolding IsDERSignature_def by (auto split: if_splits)
  then have u: "unat (of_nat (length R) :: byte) = length R" "unat (of_nat (length S) :: byte) = length S"
    by (simp_all add: unat_of_nat_byte)
  have "take (length S) (drop (6 + length R) (der_sig R S t)) = S"
  proof -
    let ?p = "[0x30, of_nat (length R + length S + 4), 0x02, of_nat (length R)] @ R @ [0x02, of_nat (length S)]"
    have "der_sig R S t = ?p @ S @ t" "length ?p = 6 + length R" by (simp_all add: der_sig_def)
    then show ?thesis by (simp del: append_assoc append_Cons)
  qed
  then show ?thesis
    using assms(1) by (simp add: IsLowDERSignature_def der_sig_nth u CheckSignatureElement_low Let_def)
qed

lemma length_GetOp: "GetOp pc = Some (pc1, opcode, vch) \<Longrightarrow> length vch \<le> length pc"
proof (cases pc)
  case (Cons b cs)
  assume "GetOp pc = Some (pc1, opcode, vch)"
  then have "vch = [] \<or> (\<exists>n d. operand_size (unat b) cs = Some (n, d) \<and> vch = take n d)"
    unfolding Cons by (auto simp: GetOp_def Let_def split: if_splits option.splits prod.splits)
  then show ?thesis using operand_size_le Cons by fastforce
qed simp

lemma last_push_length: "last_push d pc = Some v \<Longrightarrow> length v \<le> max (length d) (length pc)"
proof (induction d pc rule: last_push.induct)
  case (1 d pc)
  show ?case
  proof (cases "pc = []")
    case False
    then obtain pc1 op vch where g: "GetOp pc = Some (pc1, op, vch)" "\<not> op > OP_16" "last_push vch pc1 = Some v"
      using 1(2) by (subst (asm) last_push.simps) (auto split: option.splits if_splits)
    then show ?thesis
      using 1(1) [OF False g(1) refl refl g(2,3)] length_GetOp [OF g(1)] GetOp_shrinks [OF g(1)] by linarith
  qed (use 1(2) in \<open>simp add: last_push.simps\<close>)
qed

lemma instr_start_iff:
  "instr_start pc q \<longleftrightarrow> q = pc \<or> (case GetOp pc of None \<Rightarrow> False | Some (pc1, _, _) \<Rightarrow> instr_start pc1 q)"
proof (cases "GetOp pc")
  case None
  then show ?thesis by (auto elim: instr_start.cases intro: instr_start.here)
next
  case (Some x)
  then show ?thesis by (cases x) (auto elim: instr_start.cases intro: instr_start.intros)
qed

section \<open>Properties of scripts\<close>

text \<open>
  C38. What the append operator writes, \<^verbatim>\<open>GetOp\<close> reads back: data of any length below \<open>2 ^ 32\<close> comes back
  unchanged in front of any rest; a script built from such pushes is push only and its last item is the last one
  pushed; and a push is canonical exactly when it is not a single byte that a small-integer opcode covers.
\<close>

theorem pushes_read_back:
  assumes "\<forall>v \<in> set vs. length v < 2 ^ 32" "length b < 2 ^ 32"
  shows "(\<exists>opcode \<le> OP_PUSHDATA4. GetOp (push_vch [] b @ rest) = Some (rest, opcode, b))
    \<and> IsPushOnly (concat (map push_data vs))
    \<and> last_push [] (concat (map push_data vs)) = Some (last ([] # vs))
    \<and> (HasCanonicalPushes (push_vch [] b) \<longleftrightarrow> \<not> (length b = 1 \<and> unat (b ! 0) \<le> 16))"
  using GetOp_push [OF assms(2)] pushes_only [OF assms(1)] push_data_canonical [OF assms(2)]
  by (simp add: push_vch_def)

theorem pushes_read_back_witness:
  "IsPushOnly (concat (map push_data [[1, 2, 3], replicate 300 7])) \<and> \<not> HasCanonicalPushes (push_vch [] [5])"
  using pushes_read_back [of "[[1, 2, 3], replicate 300 7]" "[5]" "[]"] by simp

text \<open>
  C39 (functional). Cut from the left into copies of the pattern and single instructions, in one way, a script loses by
  \<^verbatim>\<open>FindAndDelete\<close> exactly the copies, and their number is returned; the other pieces and what cannot be read as an instruction
  stay as they are, in order. Nothing is removed exactly when the pattern does not stand at the start of any instruction or
  is empty.
\<close>

theorem FindAndDelete_effect:
  "(b \<noteq> [] \<longrightarrow> (\<exists>ps r. pieces b script ps r) \<and>
      (\<forall>ps r. pieces b script ps r \<longrightarrow> script = concat (map snd ps) @ r \<and> FindAndDelete script b = (copies ps, kept ps @ r)))
   \<and> length (snd (FindAndDelete script b)) + fst (FindAndDelete script b) * length b = length script
   \<and> (fst (FindAndDelete script b) = 0 \<longleftrightarrow>
        b = [] \<or> (\<forall>q. instr_start script q \<longrightarrow> take (length b) q \<noteq> b))
   \<and> (fst (FindAndDelete script b) = 0 \<longrightarrow> snd (FindAndDelete script b) = script)"
  using fad_length [of b script "fst (fad_loop b script)" "snd (fad_loop b script)"] fad_none [of b script]
    fad_same [of b script] pieces_exist [of b script] pieces_concat [of b script] fad_pieces [of b script]
  by (simp add: FindAndDelete_def)

theorem FindAndDelete_effect_witness:
  "FindAndDelete [0x52, 0x52, 0x51, 0x52, 0x87] [0x52] = (3, [0x51, 0x87])"
proof -
  have "pieces [0x52] ([] :: CScript) [] []" by (rule pieces.tail) (simp_all add: GetOp_def)
  then have "pieces [0x52] ([0x87] @ []) [(False, [0x87])] []" by (rule pieces.instr [rotated 2]) (simp_all add: GetOp_def)
  then have "pieces [0x52] ([0x52] @ [0x87]) [(True, [0x52]), (False, [0x87])] []" by (intro pieces.copy) simp
  then have "pieces [0x52] ([0x51] @ [0x52, 0x87]) [(False, [0x51]), (True, [0x52]), (False, [0x87])] []"
    by (intro pieces.instr) (simp_all add: GetOp_def)
  then have "pieces [0x52] ([0x52] @ [0x52] @ [0x51, 0x52, 0x87])
      [(True, [0x52]), (True, [0x52]), (False, [0x51]), (True, [0x52]), (False, [0x87])] []"
    by (intro pieces.copy) simp
  then show ?thesis using FindAndDelete_effect [of "[0x52]" "[0x52, 0x52, 0x51, 0x52, 0x87]"] by fastforce
qed

text \<open>
  Counting signature operations: the accurate count never exceeds the legacy count, which is at most twenty per
  byte; the count through a pay-to-script-hash output is bounded by the longer of the two scripts, so a sum over
  the inputs of a transaction of bounded size cannot overflow.
\<close>

theorem sigop_count_bounds:
  "GetSigOpCount script True \<le> GetSigOpCount script False
   \<and> GetSigOpCount script False \<le> 20 * length script
   \<and> GetSigOpCount_P2SH script sigScript \<le> 20 * max (length script) (length sigScript)"
proof -
  have m: "GetSigOpCount s True \<le> GetSigOpCount s False \<and> GetSigOpCount s False \<le> 20 * length s" for s
    using sigop_loop_mono [of 0 0] by (simp add: GetSigOpCount_def)
  have "GetSigOpCount_P2SH script sigScript \<le> 20 * max (length script) (length sigScript)"
  proof (cases "IsPayToScriptHash script")
    case True
    show ?thesis
    proof (cases "last_push [] sigScript")
      case (Some v)
      then have "GetSigOpCount_P2SH script sigScript = GetSigOpCount v True" using True by (simp add: GetSigOpCount_P2SH_def)
      moreover have "length v \<le> max (length script) (length sigScript)" using last_push_length [OF Some] by simp
      ultimately show ?thesis using m [of v] by linarith
    qed (simp add: True GetSigOpCount_P2SH_def)
  next
    case False
    then have "GetSigOpCount_P2SH script sigScript = GetSigOpCount script True" by (simp add: GetSigOpCount_P2SH_def)
    moreover have "length script \<le> max (length script) (length sigScript)" by simp
    ultimately show ?thesis using m [of script] by linarith
  qed
  with m show ?thesis by simp
qed

text \<open>
  C40. \<^verbatim>\<open>IsDERSignature\<close> accepts exactly the byte strings of nine to seventy-three bytes that are the DER
  encoding of a pair of non-negative, minimally encoded integers, zero included, followed by one hash-type byte when one is
  expected; the bounds on the length count the hash type even when none is expected, so the shortest encoding of a pair,
  eight bytes, is refused without one. \<^verbatim>\<open>IsLowDERSignature\<close> accepts those with hash type whose second integer is between one
  and half of the group order.
\<close>

theorem der_signature_structure:
  "(IsDERSignature v h \<longleftrightarrow>
     9 \<le> length v \<and> length v \<le> 73
     \<and> (\<exists>R S t. v = der_sig R S t \<and> length t = (if h then 1 else 0) \<and> der_int R \<and> der_int S))
   \<and> (IsLowDERSignature v \<longleftrightarrow>
     (\<exists>R S t. v = der_sig R S t \<and> IsDERSignature v True \<and> length t = 1
        \<and> 1 \<le> be_val S \<and> be_val S \<le> secp256k1_order div 2))"
proof
  have len: "9 \<le> length v \<and> length v \<le> 73" if "IsDERSignature v h" for h
    using that unfolding IsDERSignature_def by (auto split: if_splits)
  have e: "IsDERSignature (der_sig R S t) h \<longleftrightarrow> der_int R \<and> der_int S"
    if "length t = (if h then 1 else 0)" "9 \<le> length (der_sig R S t)" "length (der_sig R S t) \<le> 73" for R S t h
    using that by (intro der_sig_ok) (auto split: if_splits)
  show "IsDERSignature v h \<longleftrightarrow> 9 \<le> length v \<and> length v \<le> 73
     \<and> (\<exists>R S t. v = der_sig R S t \<and> length t = (if h then 1 else 0) \<and> der_int R \<and> der_int S)" (is "_ \<longleftrightarrow> ?R")
  proof
    assume d: "IsDERSignature v h"
    obtain R S t where v: "v = der_sig R S t" "length t = (if h then 1 else 0)" using der_sig_shape [OF d] by blast
    show ?R using len [OF d] e [of t h R S] d v by blast
  next
    assume ?R
    then show "IsDERSignature v h" using e by blast
  qed
  show "IsLowDERSignature v \<longleftrightarrow> (\<exists>R S t. v = der_sig R S t \<and> IsDERSignature v True \<and> length t = 1
        \<and> 1 \<le> be_val S \<and> be_val S \<le> secp256k1_order div 2)" (is "_ \<longleftrightarrow> ?L")
  proof
    assume l: "IsLowDERSignature v"
    then have d: "IsDERSignature v True" by (simp add: IsLowDERSignature_def split: if_splits)
    obtain R S t where "v = der_sig R S t" "length t = 1" using der_sig_shape [OF d] by auto
    then show ?L using l d IsLowDER_der_sig by blast
  next
    assume ?L
    then show "IsLowDERSignature v" using IsLowDER_der_sig by blast
  qed
qed

end
