(* ===== verification/Chain.thy ===== *)
theory Chain
  imports Key
begin

unbundle bit_operations_syntax

text \<open>
  The consensus parameters of \<^verbatim>\<open>src/src/chainparams.h\<close> and \<^verbatim>\<open>chainparams.cpp\<close> (fork times, protocol
  heights, limits, rewards), and the parts of \<^verbatim>\<open>main.h\<close> and \<^verbatim>\<open>main.cpp\<close> that compute on the block
  index: past time limits, the retarget of both node modes, proof of work, block trust and version majorities.
  A pointer to a \<^verbatim>\<open>CBlockIndex\<close> is the list of the block and its ancestors, the empty list being
  \<^verbatim>\<open>NULL\<close> and the tail being \<^verbatim>\<open>pprev\<close>. Amounts are integers with the 64-bit wrap-around written out.
\<close>

section \<open>Parameters\<close>

datatype Network = MAIN | TESTNET | REGTEST

datatype Base58Type =
    PUBKEY_ADDRESS | SCRIPT_ADDRESS | SECRET_KEY | STEALTH_ADDRESS | EXT_PUBLIC_KEY | EXT_SECRET_KEY
  | EXT_KEY_HASH | EXT_ACC_HASH | EXT_PUBLIC_KEY_BTC | EXT_SECRET_KEY_BTC

text \<open>
  The parameters without the genesis block and the seeds. The alert key is kept as the hexadecimal string it is
  parsed from; \<^verbatim>\<open>nBIP44ID\<close> is a signed 32-bit integer.
\<close>

record CChainParams =
  NetworkID :: Network
  strNetworkID :: string
  strDataDir :: string
  pchMessageStart :: "byte list"
  vAlertPubKey :: string
  nDefaultPort :: int
  nRPCPort :: int
  nBIP44ID :: int
  nFirstPosv2Block :: int
  nFirstPosv3Block :: int
  nLastPOWBlock :: int
  bnProofOfWorkLimit :: int
  bnProofOfStakeLimit :: int
  bnProofOfStakeLimitV2 :: int
  nStakeMinConfirmationsLegacy :: int
  nStakeMinConfirmations :: int
  base58Prefixes :: "Base58Type \<Rightarrow> byte list"
  nForkV2Time :: int
  nForkV3Time :: int
  nForkV4Time :: int
  devContributionAddress :: string
  supplyIncreaseAddress :: string

definition all_ones_shr :: "'a bn_lib_scheme \<Rightarrow> u32 \<Rightarrow> int" where
  "all_ones_shr L k = setuint256 L (op_shr (op_compl (op_assign64 UINT256_WIDTH 0)) k)"

fun mainPrefixes :: "Base58Type \<Rightarrow> byte list" where
  "mainPrefixes PUBKEY_ADDRESS = [63]"
| "mainPrefixes SCRIPT_ADDRESS = [136]"
| "mainPrefixes SECRET_KEY = [179]"
| "mainPrefixes STEALTH_ADDRESS = [40]"
| "mainPrefixes EXT_PUBLIC_KEY = [0x2C, 0x51, 0x3B, 0xD7]"
| "mainPrefixes EXT_SECRET_KEY = [0x2C, 0x51, 0xC1, 0x5A]"
| "mainPrefixes EXT_KEY_HASH = [137]"
| "mainPrefixes EXT_ACC_HASH = [83]"
| "mainPrefixes EXT_PUBLIC_KEY_BTC = [0x04, 0x88, 0xB2, 0x1E]"
| "mainPrefixes EXT_SECRET_KEY_BTC = [0x04, 0x88, 0xAD, 0xE4]"

fun testPrefixes :: "Base58Type \<Rightarrow> byte list" where
  "testPrefixes PUBKEY_ADDRESS = [127]"
| "testPrefixes SCRIPT_ADDRESS = [196]"
| "testPrefixes SECRET_KEY = [255]"
| "testPrefixes STEALTH_ADDRESS = [40]"
| "testPrefixes EXT_PUBLIC_KEY = [0x76, 0xC0, 0xFD, 0xFB]"
| "testPrefixes EXT_SECRET_KEY = [0x76, 0xC1, 0x07, 0x7A]"
| "testPrefixes EXT_KEY_HASH = [75]"
| "testPrefixes EXT_ACC_HASH = [23]"
| "testPrefixes EXT_PUBLIC_KEY_BTC = [0x04, 0x35, 0x87, 0xCF]"
| "testPrefixes EXT_SECRET_KEY_BTC = [0x04, 0x35, 0x83, 0x94]"

definition mainParams :: "'a bn_lib_scheme \<Rightarrow> CChainParams" where
  "mainParams L =
     \<lparr>NetworkID = MAIN, strNetworkID = ''main'', strDataDir = [],
      pchMessageStart = [0xb5, 0x22, 0x5c, 0xd3],
      vAlertPubKey = ''04f7bbad03208ea942e292080854d422d046d457949ea70ad3306438fc8357343dccaa73e52291ebe07de85c6701d88d87af2d29c2e3b024fb0ad53f045a6d3ad6'',
      nDefaultPort = 37347, nRPCPort = 36657, nBIP44ID = 0x800000d5 - 2 ^ 32,
      nFirstPosv2Block = 17001, nFirstPosv3Block = 17010, nLastPOWBlock = 17000,
      bnProofOfWorkLimit = all_ones_shr L 20, bnProofOfStakeLimit = all_ones_shr L 20,
      bnProofOfStakeLimitV2 = all_ones_shr L 48,
      nStakeMinConfirmationsLegacy = 288, nStakeMinConfirmations = 450, base58Prefixes = mainPrefixes,
      nForkV2Time = 1534888800, nForkV3Time = 1558123200, nForkV4Time = 1569614400,
      devContributionAddress = ''SdrdWNtjD7V6BSt3EyQZKCnZDkeE28cZhr'',
      supplyIncreaseAddress = ''SSGCEMb6xESgmuGXkx7yozGDxhVSXzBP3a''\<rparr>"

definition testNetParams :: "'a bn_lib_scheme \<Rightarrow> CChainParams" where
  "testNetParams L =
     \<lparr>NetworkID = TESTNET, strNetworkID = ''test'', strDataDir = ''testnet'',
      pchMessageStart = [0xa3, 0x2c, 0x44, 0xb4],
      vAlertPubKey = ''04e564bc9bf28e6d395cd89c4d2bdb235c3873f59b1330d2e6a30c6fa85d8a8637693ae367ce39c2fe0f4e8e3c7c3a34feb82305388f19030aa4fcd4955abeb810'',
      nDefaultPort = 37111, nRPCPort = 36757, nBIP44ID = 0x80000001 - 2 ^ 32,
      nFirstPosv2Block = 20, nFirstPosv3Block = 500, nLastPOWBlock = 20,
      bnProofOfWorkLimit = all_ones_shr L 1, bnProofOfStakeLimit = all_ones_shr L 20,
      bnProofOfStakeLimitV2 = all_ones_shr L 46,
      nStakeMinConfirmationsLegacy = 28, nStakeMinConfirmations = 30, base58Prefixes = testPrefixes,
      nForkV2Time = 1532466000, nForkV3Time = 1546470000, nForkV4Time = 1567972800,
      devContributionAddress = ''tSJoPZoXumJyDmGKYo9Y7SZkJvymESFYkD'',
      supplyIncreaseAddress = ''tSJoPZoXumJyDmGKYo9Y7SZkJvymESFYkD''\<rparr>"

definition regTestParams :: "'a bn_lib_scheme \<Rightarrow> CChainParams" where
  "regTestParams L =
     (testNetParams L)\<lparr>NetworkID := REGTEST, strNetworkID := ''regtest'', strDataDir := ''regtest'',
        nFirstPosv2Block := - 1, nFirstPosv3Block := - 1, pchMessageStart := [0x05, 0xc5, 0x04, 0x3a],
        bnProofOfWorkLimit := all_ones_shr L 1, nDefaultPort := 18444\<rparr>"

definition IsProtocolV2 :: "CChainParams \<Rightarrow> int \<Rightarrow> bool" where
  "IsProtocolV2 P h \<longleftrightarrow> h > nFirstPosv2Block P"

definition IsProtocolV3 :: "CChainParams \<Rightarrow> int \<Rightarrow> bool" where
  "IsProtocolV3 P h \<longleftrightarrow> h > nFirstPosv3Block P"

definition ProofOfStakeLimit :: "CChainParams \<Rightarrow> int \<Rightarrow> int" where
  "ProofOfStakeLimit P h = (if IsProtocolV2 P h then bnProofOfStakeLimitV2 P else bnProofOfStakeLimit P)"

definition IsForkV2 :: "CChainParams \<Rightarrow> int \<Rightarrow> bool" where
  "IsForkV2 P t \<longleftrightarrow> t > nForkV2Time P"

definition IsForkV3 :: "CChainParams \<Rightarrow> int \<Rightarrow> bool" where
  "IsForkV3 P t \<longleftrightarrow> t > nForkV3Time P"

definition IsForkV4 :: "CChainParams \<Rightarrow> int \<Rightarrow> bool" where
  "IsForkV4 P t \<longleftrightarrow> t \<ge> nForkV4Time P"

definition GetForkId :: "CChainParams \<Rightarrow> int \<Rightarrow> int" where
  "GetForkId P t =
     (if t \<ge> nForkV4Time P then 4 else if t > nForkV3Time P then 3 else if t > nForkV2Time P then 2 else 0)"

definition GetStakeMinConfirmations :: "CChainParams \<Rightarrow> int \<Rightarrow> int" where
  "GetStakeMinConfirmations P t =
     (if IsForkV3 P t then nStakeMinConfirmations P else nStakeMinConfirmationsLegacy P)"

section \<open>The block index\<close>

record CBlockIndex =
  bi_nFile :: u32
  bi_nBlockPos :: u32
  bi_nChainTrust :: limbs
  bi_nHeight :: int
  bi_nMint :: int
  bi_nMoneySupply :: int
  bi_nAnonSupply :: int
  bi_nFlags :: u32
  bi_nStakeModifier :: u64
  bi_bnStakeModifierV2 :: limbs
  bi_prevoutStake :: COutPoint
  bi_nStakeTime :: u32
  bi_hashProof :: limbs
  bi_nVersion :: int
  bi_hashMerkleRoot :: limbs
  bi_nTime :: u32
  bi_nBits :: u32
  bi_nNonce :: u32

definition CBlockIndex_new :: CBlockIndex where
  "CBlockIndex_new =
     \<lparr>bi_nFile = 0, bi_nBlockPos = 0, bi_nChainTrust = op_assign64 UINT256_WIDTH 0, bi_nHeight = 0, bi_nMint = 0,
      bi_nMoneySupply = 0, bi_nAnonSupply = 0, bi_nFlags = 0, bi_nStakeModifier = 0,
      bi_bnStakeModifierV2 = op_assign64 UINT256_WIDTH 0, bi_prevoutStake = COutPoint_SetNull, bi_nStakeTime = 0,
      bi_hashProof = op_assign64 UINT256_WIDTH 0, bi_nVersion = 0,
      bi_hashMerkleRoot = op_assign64 UINT256_WIDTH 0, bi_nTime = 0, bi_nBits = 0, bi_nNonce = 0\<rparr>"

type_synonym pindex = "CBlockIndex list"

abbreviation BLOCK_PROOF_OF_STAKE :: u32 where "BLOCK_PROOF_OF_STAKE \<equiv> 1"
abbreviation BLOCK_STAKE_ENTROPY :: u32 where "BLOCK_STAKE_ENTROPY \<equiv> 2"
abbreviation BLOCK_STAKE_MODIFIER :: u32 where "BLOCK_STAKE_MODIFIER \<equiv> 4"

definition GetBlockTime :: "CBlockIndex \<Rightarrow> int" where
  "GetBlockTime b = int (unat (bi_nTime b))"

definition IsProofOfStake :: "CBlockIndex \<Rightarrow> bool" where
  "IsProofOfStake b \<longleftrightarrow> bi_nFlags b AND BLOCK_PROOF_OF_STAKE \<noteq> 0"

definition IsProofOfWork :: "CBlockIndex \<Rightarrow> bool" where
  "IsProofOfWork b \<longleftrightarrow> \<not> (bi_nFlags b AND BLOCK_PROOF_OF_STAKE \<noteq> 0)"

definition SetProofOfStake :: "CBlockIndex \<Rightarrow> CBlockIndex" where
  "SetProofOfStake b = b\<lparr>bi_nFlags := bi_nFlags b OR BLOCK_PROOF_OF_STAKE\<rparr>"

definition GetStakeEntropyBit :: "CBlockIndex \<Rightarrow> u32" where
  "GetStakeEntropyBit b = drop_bit 1 (bi_nFlags b AND BLOCK_STAKE_ENTROPY)"

definition SetStakeEntropyBit :: "CBlockIndex \<Rightarrow> u32 \<Rightarrow> CBlockIndex option" where
  "SetStakeEntropyBit b nEntropyBit =
     (if nEntropyBit > 1 then None
      else Some (b\<lparr>bi_nFlags := bi_nFlags b OR (if nEntropyBit \<noteq> 0 then BLOCK_STAKE_ENTROPY else 0)\<rparr>))"

definition GeneratedStakeModifier :: "CBlockIndex \<Rightarrow> bool" where
  "GeneratedStakeModifier b \<longleftrightarrow> bi_nFlags b AND BLOCK_STAKE_MODIFIER \<noteq> 0"

definition SetStakeModifier :: "CBlockIndex \<Rightarrow> u64 \<Rightarrow> bool \<Rightarrow> CBlockIndex" where
  "SetStakeModifier b nModifier fGeneratedStakeModifier =
     b\<lparr>bi_nStakeModifier := nModifier,
       bi_nFlags := (if fGeneratedStakeModifier then bi_nFlags b OR BLOCK_STAKE_MODIFIER else bi_nFlags b)\<rparr>"

definition nMedianTimeSpan :: nat where "nMedianTimeSpan = 11"

definition GetMedianTimePast :: "pindex \<Rightarrow> int" where
  "GetMedianTimePast pind =
     (let times = sort (map GetBlockTime (take nMedianTimeSpan pind)) in times ! (length times div 2))"

definition GetPastTimeLimit :: "CChainParams \<Rightarrow> pindex \<Rightarrow> int" where
  "GetPastTimeLimit P pind =
     (if IsProtocolV2 P (bi_nHeight (hd pind)) then GetBlockTime (hd pind) else GetMedianTimePast pind)"

fun super_majority_loop :: "int \<Rightarrow> pindex \<Rightarrow> nat \<Rightarrow> nat \<Rightarrow> nat \<Rightarrow> nat" where
  "super_majority_loop minVersion pstart nRequired 0 nFound = nFound"
| "super_majority_loop minVersion [] nRequired (Suc i) nFound = nFound"
| "super_majority_loop minVersion (b # pprev) nRequired (Suc i) nFound =
     (if nFound < nRequired
      then super_majority_loop minVersion pprev nRequired i (if bi_nVersion b \<ge> minVersion then nFound + 1 else nFound)
      else nFound)"

definition IsSuperMajority :: "int \<Rightarrow> pindex \<Rightarrow> nat \<Rightarrow> nat \<Rightarrow> bool" where
  "IsSuperMajority minVersion pstart nRequired nToCheck \<longleftrightarrow>
     super_majority_loop minVersion pstart nRequired nToCheck 0 \<ge> nRequired"

section \<open>Rewards\<close>

definition COIN :: int where "COIN = 100000000"
definition CENT :: int where "CENT = 1000000"
definition COIN_YEAR_REWARD :: int where "COIN_YEAR_REWARD = 5 * CENT"

text \<open>Division of the machine truncates towards zero.\<close>

definition c_div :: "int \<Rightarrow> int \<Rightarrow> int" where
  "c_div a b = sgn a * sgn b * (\<bar>a\<bar> div \<bar>b\<bar>)"

text \<open>\<open>None\<close> stands for the dereference of a null pointer.\<close>

definition IsForkV4SupplyIncrease :: "CChainParams \<Rightarrow> pindex \<Rightarrow> bool option" where
  "IsForkV4SupplyIncrease P pindexPrev =
     (case pindexPrev of [] \<Rightarrow> None
      | b # pprev \<Rightarrow>
          if GetBlockTime b \<ge> nForkV4Time P then
            (case pprev of [] \<Rightarrow> None | c # _ \<Rightarrow> Some (GetBlockTime c < nForkV4Time P))
          else Some False)"

definition GetProofOfWorkReward :: "CChainParams \<Rightarrow> int \<Rightarrow> int" where
  "GetProofOfWorkReward P h =
     (if h = 1 then (if NetworkID P = TESTNET then 2000000 else 20000000) * COIN
      else if h \<le> nLastPOWBlock P then 0 else 0)"

definition GetProofOfStakeReward :: "CChainParams \<Rightarrow> int \<Rightarrow> pindex \<Rightarrow> int \<Rightarrow> int \<Rightarrow> int option" where
  "GetProofOfStakeReward P nStakeReward pindexPrev nCoinAge nFees =
     (case IsForkV4SupplyIncrease P pindexPrev of None \<Rightarrow> None
      | Some inc \<Rightarrow>
          let b = hd pindexPrev;
              nSubsidy =
                (if inc then (if NetworkID P = TESTNET then 300000 else 3000000) * COIN
                 else if IsProtocolV3 P (bi_nHeight b) then
                   (if IsForkV3 P (GetBlockTime b) then nStakeReward
                    else c_div (wrap64 (c_div (bi_nMoneySupply b) COIN * COIN_YEAR_REWARD)) (365 * 24 * (60 * 60 div 64)))
                 else c_div (wrap64 (wrap64 (nCoinAge * COIN_YEAR_REWARD) * 33)) (365 * 33 + 8))
          in Some (wrap64 (nSubsidy + nFees)))"

definition GetProofOfAnonStakeReward :: "CChainParams \<Rightarrow> int \<Rightarrow> pindex \<Rightarrow> int \<Rightarrow> int option" where
  "GetProofOfAnonStakeReward P nAnonStakeReward pindexPrev nFees =
     (case IsForkV4SupplyIncrease P pindexPrev of None \<Rightarrow> None
      | Some inc \<Rightarrow>
          Some (wrap64 ((if inc then (if NetworkID P = TESTNET then 300000 else 3000000) * COIN
                         else nAnonStakeReward) + nFees)))"

section \<open>Retarget and proof of work\<close>

definition nTargetTimespan :: int where "nTargetTimespan = 24 * 60 * 60"
definition TARGET_BLOCK_TIME :: int where "TARGET_BLOCK_TIME = 96"

definition FutureDrift :: "CChainParams \<Rightarrow> int \<Rightarrow> int \<Rightarrow> int" where
  "FutureDrift P t h = (if IsProtocolV2 P h then t + 15 else t + 10 * 60)"

definition GetTargetSpacing :: "CChainParams \<Rightarrow> int \<Rightarrow> int \<Rightarrow> int" where
  "GetTargetSpacing P h nBlockTime =
     (if IsProtocolV2 P h then (if IsForkV3 P nBlockTime then TARGET_BLOCK_TIME else 64) else 60)"

fun GetLastBlockIndex :: "pindex \<Rightarrow> bool \<Rightarrow> pindex" where
  "GetLastBlockIndex (b # c # rest) fProofOfStake =
     (if IsProofOfStake b \<noteq> fProofOfStake then GetLastBlockIndex (c # rest) fProofOfStake else b # c # rest)"
| "GetLastBlockIndex pind fProofOfStake = pind"

text \<open>
  The exponential moving retarget, shared by the two functions below: from the compact target of the last block
  of the kind, the target and actual spacing and the limit. \<open>None\<close> is the exception of a failed division.
\<close>

definition retarget :: "'a bn_lib_scheme \<Rightarrow> u32 \<Rightarrow> int \<Rightarrow> int \<Rightarrow> int \<Rightarrow> u32 option" where
  "retarget L bits nTargetSpacing nActualSpacing bnTargetLimit =
     (let nInterval = c_div nTargetTimespan nTargetSpacing;
          bnMul = BN_mul L (SetCompact L bits)
            (CBigNum_int L ((nInterval - 1) * nTargetSpacing + nActualSpacing + nActualSpacing))
      in case BN_div L bnMul (CBigNum_int L ((nInterval + 1) * nTargetSpacing)) of
           None \<Rightarrow> None
         | Some (bnNew, _) \<Rightarrow>
             Some (GetCompact L
               (if bn_le L bnNew (CBigNum_int L 0) \<or> bn_gt L bnNew bnTargetLimit then bnTargetLimit else bnNew)))"

definition next_target ::
  "'a bn_lib_scheme \<Rightarrow> CChainParams \<Rightarrow> (int \<Rightarrow> int \<Rightarrow> int) \<Rightarrow> pindex \<Rightarrow> bool \<Rightarrow> u32 option" where
  "next_target L P clamp pindexLast fProofOfStake =
     (if pindexLast = [] then (if fProofOfStake then None else Some (GetCompact L (bnProofOfWorkLimit P)))
      else let last = hd pindexLast;
               bnTargetLimit =
                 (if fProofOfStake then ProofOfStakeLimit P (bi_nHeight last) else bnProofOfWorkLimit P);
               pindexPrev = GetLastBlockIndex pindexLast fProofOfStake in
           if tl pindexPrev = [] then Some (GetCompact L bnTargetLimit)
           else let pindexPrevPrev = GetLastBlockIndex (tl pindexPrev) fProofOfStake in
           if tl pindexPrevPrev = [] then Some (GetCompact L bnTargetLimit)
           else let nTargetSpacing = GetTargetSpacing P (bi_nHeight last) (GetBlockTime last);
                    nActual0 = GetBlockTime (hd pindexPrev) - GetBlockTime (hd pindexPrevPrev);
                    nActualSpacing = (if nActual0 < 0 then nTargetSpacing else nActual0)
                in retarget L (bi_nBits (hd pindexPrev)) nTargetSpacing (clamp nTargetSpacing nActualSpacing)
                     bnTargetLimit)"

definition GetNextTargetRequired :: "'a bn_lib_scheme \<Rightarrow> CChainParams \<Rightarrow> pindex \<Rightarrow> bool \<Rightarrow> u32 option" where
  "GetNextTargetRequired L P pindexLast fProofOfStake =
     next_target L P
       (\<lambda>nTargetSpacing nActualSpacing.
          if IsProtocolV3 P (bi_nHeight (hd pindexLast)) \<and> nActualSpacing > nTargetSpacing * 10
          then nTargetSpacing * 10 else nActualSpacing)
       pindexLast fProofOfStake"

definition GetNextTargetRequiredThin :: "'a bn_lib_scheme \<Rightarrow> CChainParams \<Rightarrow> pindex \<Rightarrow> bool \<Rightarrow> u32 option" where
  "GetNextTargetRequiredThin L P pindexLast fProofOfStake =
     next_target L P (\<lambda>nTargetSpacing nActualSpacing. nActualSpacing) pindexLast fProofOfStake"

definition CheckProofOfWork :: "'a bn_lib_scheme \<Rightarrow> CChainParams \<Rightarrow> limbs \<Rightarrow> u32 \<Rightarrow> bool" where
  "CheckProofOfWork L P hash bits =
     (let bnTarget = SetCompact L bits
      in if bn_le L bnTarget (CBigNum_int L 0) \<or> bn_gt L bnTarget (bnProofOfWorkLimit P) then False
         else if op_gt hash (getuint256 L bnTarget) then False
         else True)"

text \<open>\<open>None\<close> is the exception of a failed division.\<close>

definition GetBlockTrust :: "'a bn_lib_scheme \<Rightarrow> CBlockIndex \<Rightarrow> limbs option" where
  "GetBlockTrust L b =
     (let bnTarget = SetCompact L (bi_nBits b)
      in if bn_le L bnTarget (CBigNum_int L 0) then Some (op_assign64 UINT256_WIDTH 0)
         else map_option (\<lambda>(q, _). getuint256 L q)
                (BN_div L (BN_lshift L (CBigNum_int L 1) 256) (BN_add L bnTarget (CBigNum_int L 1))))"

section \<open>Targets under the library specification\<close>

lemma CBigNum_int_eq: "bn_spec L \<Longrightarrow> - (2 ^ 63) \<le> n \<Longrightarrow> n < 2 ^ 63 \<Longrightarrow> CBigNum_int L n = n"
  by (auto simp: CBigNum_int_def setulong_def bn_lib_simps setint64_eq)

lemma compact_of_target:
  assumes "bn_spec L" "0 < n" "n < 2 ^ 256"
  shows "0 < SetCompact L (GetCompact L n)" "SetCompact L (GetCompact L n) \<le> n"
proof -
  define k where "k = length (getvch L n) - 3"
  have l: "length (sm_enc n) \<le> Suc 32" unfolding length_sm_enc using assms by simp
  then have "SetCompact L (GetCompact L n) = sgn n * (\<bar>n\<bar> div 256 ^ k * 256 ^ k)"
    using compact_value [OF assms(1), of n] assms(1) by (simp add: getvch_eq k_def)
  then have e: "SetCompact L (GetCompact L n) = n div 256 ^ k * 256 ^ k" using assms by simp
  have "256 ^ k \<le> n"
  proof (cases "length (sm_enc n) \<le> 3")
    case False
    then obtain j where j: "length (sm_enc n) = Suc (Suc (Suc (Suc j)))"
      by (metis Suc_le_D not_less_eq_eq numeral_3_eq_3)
    then have "\<not> length (sm_enc n) \<le> Suc (Suc (Suc j))" by simp
    then have "2 ^ (8 * (Suc (Suc j)) + 7) \<le> n" unfolding length_sm_enc using assms by simp
    moreover have "(256::int) ^ k \<le> 2 ^ (8 * (Suc (Suc j)) + 7)"
    proof -
      have "k = Suc j" using j assms(1) by (simp add: k_def getvch_eq)
      moreover have "(256::int) ^ k = 2 ^ (8 * k)" by (simp add: power_mult)
      ultimately have "(256::int) ^ k = 2 ^ (8 * Suc j)" by simp
      also have "\<dots> \<le> 2 ^ (8 * (Suc (Suc j)) + 7)" by (intro power_increasing) simp_all
      finally show ?thesis .
    qed
    ultimately show ?thesis by linarith
  qed (use assms in \<open>simp add: k_def getvch_eq\<close>)
  then have "1 \<le> n div 256 ^ k" by (simp add: pos_imp_zdiv_pos_iff int_one_le_iff_zero_less)
  then show "0 < SetCompact L (GetCompact L n)" unfolding e by simp
  show "SetCompact L (GetCompact L n) \<le> n" unfolding e
    unfolding minus_mod_eq_div_mult [symmetric] by simp
qed

lemma mult_minus_1_div: "(2 ^ a * 2 ^ b - 1) div 2 ^ b = (2::nat) ^ a - 1"
proof -
  obtain c where c: "(2::nat) ^ a = Suc c" by (metis not0_implies_Suc power_not_zero zero_neq_numeral)
  have "Suc c * 2 ^ b - 1 = (2 ^ b - 1) + c * 2 ^ b" by simp
  then have "(Suc c * 2 ^ b - 1) div 2 ^ b = ((2 ^ b - 1) + c * 2 ^ b) div 2 ^ b" by (rule arg_cong)
  also have "\<dots> = c" by (subst div_mult_self1) simp_all
  finally show ?thesis unfolding c by (simp only: diff_Suc_1)
qed

lemma all_ones_shr_eq:
  assumes "bn_spec L" "unat k < 256"
  shows "all_ones_shr L k = 2 ^ (256 - unat k) - 1"
proof -
  have "uval (op_compl (op_assign64 UINT256_WIDTH 0)) = 2 ^ 256 - 1"
    by (simp add: uval_compl UINT256_WIDTH_def uval_assign64 length_op_assign64)
  moreover have "(2 ^ 256 - 1) div 2 ^ unat k = (2::nat) ^ (256 - unat k) - 1"
  proof -
    have "(2::nat) ^ 256 = 2 ^ (256 - unat k) * 2 ^ unat k" 
      unfolding power_add [symmetric] using assms(2) by simp
    then show ?thesis by (simp only: mult_minus_1_div)
  qed
  ultimately have "uval (op_shr (op_compl (op_assign64 UINT256_WIDTH 0)) k) = 2 ^ (256 - unat k) - 1"
    by (simp only: uval_shr)
  moreover have "length (op_shr (op_compl (op_assign64 UINT256_WIDTH 0)) k) = 8"
    by (simp add: UINT256_WIDTH_def length_op_assign64)
  ultimately show ?thesis
    unfolding all_ones_shr_def using assms(1) by (simp add: setuint256_eq of_nat_diff)
qed

definition limits_ok :: "CChainParams \<Rightarrow> bool" where
  "limits_ok P \<longleftrightarrow> 0 < bnProofOfWorkLimit P \<and> bnProofOfWorkLimit P < 2 ^ 256
     \<and> 0 < bnProofOfStakeLimit P \<and> bnProofOfStakeLimit P < 2 ^ 256
     \<and> 0 < bnProofOfStakeLimitV2 P \<and> bnProofOfStakeLimitV2 P < 2 ^ 256"

lemma limits_ok_params:
  assumes "bn_spec L"
  shows "limits_ok (mainParams L)" "limits_ok (testNetParams L)" "limits_ok (regTestParams L)"
  unfolding limits_ok_def mainParams_def testNetParams_def regTestParams_def
  using assms by (simp_all add: all_ones_shr_eq)

definition target_limit :: "CChainParams \<Rightarrow> pindex \<Rightarrow> bool \<Rightarrow> int" where
  "target_limit P pindexLast fProofOfStake =
     (if fProofOfStake then ProofOfStakeLimit P (bi_nHeight (hd pindexLast)) else bnProofOfWorkLimit P)"

lemma target_limit_ok: "limits_ok P \<Longrightarrow> 0 < target_limit P pind f \<and> target_limit P pind f < 2 ^ 256"
  by (simp add: target_limit_def limits_ok_def ProofOfStakeLimit_def)

lemma GetTargetSpacing_cases: "GetTargetSpacing P h t = 96 \<or> GetTargetSpacing P h t = 64 \<or> GetTargetSpacing P h t = 60"
  by (simp add: GetTargetSpacing_def TARGET_BLOCK_TIME_def)

text \<open>The target before the compact encoding, as a number.\<close>

definition new_target :: "int \<Rightarrow> int \<Rightarrow> int \<Rightarrow> int \<Rightarrow> int" where
  "new_target old nTargetSpacing nActualSpacing lim =
     (let i = nTargetTimespan div nTargetSpacing;
          n = c_div (old * ((i - 1) * nTargetSpacing + 2 * nActualSpacing)) ((i + 1) * nTargetSpacing)
      in if n \<le> 0 \<or> n > lim then lim else n)"

lemma retarget_eq:
  assumes "bn_spec L" "T = 96 \<or> T = 64 \<or> T = 60" "0 \<le> A" "A < 2 ^ 40"
  shows "retarget L bits T A lim = Some (GetCompact L (new_target (SetCompact L bits) T A lim))"
proof -
  have i: "c_div nTargetTimespan T = nTargetTimespan div T"
    using assms(2) by (auto simp: c_div_def nTargetTimespan_def)
  define k where "k = nTargetTimespan div T"
  define m where "m = (k - 1) * T + 2 * A"
  define D where "D = (k + 1) * T"
  have k: "(k - 1) * T + A + A = m" by (simp add: m_def)
  have r: "D > 0" "- (2 ^ 63) \<le> D" "D < 2 ^ 63" "- (2 ^ 63) \<le> m" "m < 2 ^ 63"
    using assms by (auto simp: k_def m_def D_def nTargetTimespan_def)
  have d: "BN_div L a b = (if b = 0 then None else Some (c_div a b, sgn a * (\<bar>a\<bar> mod \<bar>b\<bar>)))" for a b
    using assms(1) by (simp add: bn_spec_def c_div_def)
  have z: "CBigNum_int L 0 = 0" using assms(1) by (simp add: CBigNum_int_eq)
  have n: "new_target (SetCompact L bits) T A lim =
    (let n = c_div (SetCompact L bits * m) D in if n \<le> 0 \<or> n > lim then lim else n)"
    by (simp add: new_target_def k_def m_def D_def Let_def)
  have e: "CBigNum_int L m = m" "CBigNum_int L D = D" using r assms(1) by (simp_all only: CBigNum_int_eq)
  show ?thesis
    unfolding retarget_def i k_def [symmetric] Let_def k D_def [symmetric] e n d z
    using r assms(1) by (simp add: bn_lib_simps bn_cmp_simps)
qed

lemma GetBlockTime_range: "0 \<le> GetBlockTime b" "GetBlockTime b < 2 ^ 32"
  using unsigned_less [where 'a = int, of "bi_nTime b"] by (simp_all add: GetBlockTime_def)

lemma new_target_range: "0 < lim \<Longrightarrow> 0 < new_target old T A lim \<and> new_target old T A lim \<le> lim"
  by (simp add: new_target_def Let_def)

text \<open>
  The branch that retargets: at least two earlier blocks of the kind, neither of them the genesis block.
\<close>

definition retargets :: "pindex \<Rightarrow> bool \<Rightarrow> bool" where
  "retargets pindexLast f \<longleftrightarrow>
     tl (GetLastBlockIndex pindexLast f) \<noteq> [] \<and> tl (GetLastBlockIndex (tl (GetLastBlockIndex pindexLast f)) f) \<noteq> []"

definition last_spacing :: "CChainParams \<Rightarrow> pindex \<Rightarrow> bool \<Rightarrow> int" where
  "last_spacing P pindexLast f =
     (let p = GetLastBlockIndex pindexLast f;
          d = GetBlockTime (hd p) - GetBlockTime (hd (GetLastBlockIndex (tl p) f))
      in if d < 0 then GetTargetSpacing P (bi_nHeight (hd pindexLast)) (GetBlockTime (hd pindexLast)) else d)"

lemma last_spacing_range: "0 \<le> last_spacing P pind f" "last_spacing P pind f < 2 ^ 40"
proof -
  have "GetBlockTime a - GetBlockTime b < 2 ^ 40" for a b
    using GetBlockTime_range [of a] GetBlockTime_range [of b] by simp
  then show "0 \<le> last_spacing P pind f" "last_spacing P pind f < 2 ^ 40"
    using GetTargetSpacing_cases [of P "bi_nHeight (hd pind)" "GetBlockTime (hd pind)"]
    by (auto simp: last_spacing_def Let_def)
qed

lemma next_target_eq:
  fixes P :: CChainParams
  assumes "bn_spec L" "pind \<noteq> []" and clamp: "\<And>T A. 0 \<le> A \<Longrightarrow> A < 2 ^ 40 \<Longrightarrow> 60 \<le> T \<Longrightarrow> T \<le> 96 \<Longrightarrow> 0 \<le> clamp T A \<and> clamp T A < 2 ^ 40"
  defines "T \<equiv> GetTargetSpacing P (bi_nHeight (hd pind)) (GetBlockTime (hd pind))"
  shows "next_target L P clamp pind f = Some (GetCompact L
    (if retargets pind f
     then new_target (SetCompact L (bi_nBits (hd (GetLastBlockIndex pind f)))) T
            (clamp T (last_spacing P pind f)) (target_limit P pind f)
     else target_limit P pind f))"
proof -
  have T: "T = 96 \<or> T = 64 \<or> T = 60" unfolding T_def by (rule GetTargetSpacing_cases)
  then have "60 \<le> T" "T \<le> 96" by auto
  then have c: "0 \<le> clamp T (last_spacing P pind f)" "clamp T (last_spacing P pind f) < 2 ^ 40"
    using clamp last_spacing_range by blast+
  show ?thesis
    unfolding next_target_def
    using assms(2) retarget_eq [OF assms(1) T c]
    by (auto simp: Let_def retargets_def last_spacing_def target_limit_def T_def split: if_splits)
qed

definition full_clamp :: "CChainParams \<Rightarrow> pindex \<Rightarrow> int \<Rightarrow> int \<Rightarrow> int" where
  "full_clamp P pindexLast T A =
     (if IsProtocolV3 P (bi_nHeight (hd pindexLast)) \<and> A > T * 10 then T * 10 else A)"

lemma GetNextTargetRequired_eq:
  fixes P :: CChainParams
  assumes "bn_spec L" "pind \<noteq> []"
  defines "T \<equiv> GetTargetSpacing P (bi_nHeight (hd pind)) (GetBlockTime (hd pind))"
  shows "GetNextTargetRequired L P pind f = Some (GetCompact L
    (if retargets pind f
     then new_target (SetCompact L (bi_nBits (hd (GetLastBlockIndex pind f)))) T
            (full_clamp P pind T (last_spacing P pind f)) (target_limit P pind f)
     else target_limit P pind f))"
  unfolding GetNextTargetRequired_def full_clamp_def T_def
  by (rule next_target_eq [OF assms(1,2)]) auto

lemma GetNextTargetRequiredThin_eq:
  fixes P :: CChainParams
  assumes "bn_spec L" "pind \<noteq> []"
  defines "T \<equiv> GetTargetSpacing P (bi_nHeight (hd pind)) (GetBlockTime (hd pind))"
  shows "GetNextTargetRequiredThin L P pind f = Some (GetCompact L
    (if retargets pind f
     then new_target (SetCompact L (bi_nBits (hd (GetLastBlockIndex pind f)))) T
            (last_spacing P pind f) (target_limit P pind f)
     else target_limit P pind f))"
  unfolding GetNextTargetRequiredThin_def T_def
  by (rule next_target_eq [OF assms(1,2)]) auto

lemma c_div_mult_self: "0 < a \<Longrightarrow> 0 < b \<Longrightarrow> c_div (a * b) b = a"
  by (simp add: c_div_def abs_mult sgn_mult)

lemma new_target_steady:
  assumes "T = 96 \<or> T = 64 \<or> T = 60" "0 < old" "old \<le> lim"
  shows "new_target old T T lim = old"
proof -
  define i where "i = nTargetTimespan div T"
  have i: "(i + 1) * T > 0" using assms(1) by (auto simp: i_def nTargetTimespan_def)
  have "(i - 1) * T + 2 * T = (i + 1) * T" by (simp add: algebra_simps)
  then have "c_div (old * ((i - 1) * T + 2 * T)) ((i + 1) * T) = old"
    using c_div_mult_self [OF assms(2) i] by simp
  then show ?thesis using assms(2,3) by (simp add: new_target_def Let_def flip: i_def)
qed

definition sample_block :: "u32 \<Rightarrow> CBlockIndex" where
  "sample_block t = CBlockIndex_new\<lparr>bi_nHeight := 500000, bi_nFlags := 1,
     bi_nVersion := 7, bi_nTime := t, bi_nBits := 0x0300ffff\<rparr>"

definition sample_chain :: pindex where
  "sample_chain = map sample_block [1600002000, 1600000000, 1599999904, 1479594600]"

lemma compact_exact:
  assumes "bn_spec L" "\<bar>n\<bar> < 2 ^ 23" shows "SetCompact L (GetCompact L n) = n"
proof -
  have "length (sm_enc n) \<le> Suc 2" unfolding length_sm_enc using assms(2) by simp
  then have "length (getvch L n) < 256" "length (getvch L n) - 3 = 0" using assms(1) by (simp_all add: getvch_eq)
  then show ?thesis using compact_value [OF assms(1), of n] by (simp add: sgn_mult_abs abs_mult_sgn)
qed

lemma sample_compact:
  "SetCompact bn_ref 0x0300ffff = 65535" "GetCompact bn_ref 66844 \<noteq> GetCompact bn_ref 68420"
proof -
  show "SetCompact bn_ref 0x0300ffff = 65535"
    by (simp add: SetCompact_def bn_ref_def sm_val_def)
  show "GetCompact bn_ref 66844 \<noteq> GetCompact bn_ref 68420"
    using compact_exact [OF bn_spec_bn_ref, of 66844] compact_exact [OF bn_spec_bn_ref, of 68420] by auto
qed

lemma sample_chain_facts:
  "sample_chain \<noteq> []" "retargets sample_chain True" "last_spacing P sample_chain True = 2000"
  "GetLastBlockIndex sample_chain True = sample_chain" "hd sample_chain = sample_block 1600002000"
  by (simp_all add: sample_chain_def sample_block_def retargets_def last_spacing_def GetBlockTime_def
      IsProofOfStake_def)

lemma sample_chain_diverges:
  "GetNextTargetRequired bn_ref (mainParams bn_ref) sample_chain True \<noteq>
   GetNextTargetRequiredThin bn_ref (mainParams bn_ref) sample_chain True"
proof -
  have lim: "target_limit (mainParams bn_ref) sample_chain True = 2 ^ 208 - 1"
    unfolding target_limit_def sample_chain_facts
    by (simp add: ProofOfStakeLimit_def IsProtocolV2_def sample_block_def mainParams_def
        all_ones_shr_eq [OF bn_spec_bn_ref])
  have T: "GetTargetSpacing (mainParams bn_ref) (bi_nHeight (sample_block 1600002000))
      (GetBlockTime (sample_block 1600002000)) = 96"
    by (simp add: GetTargetSpacing_def sample_block_def GetBlockTime_def IsProtocolV2_def IsForkV3_def
        mainParams_def TARGET_BLOCK_TIME_def)
  have c: "full_clamp (mainParams bn_ref) sample_chain 96 2000 = 960"
    by (simp add: full_clamp_def sample_chain_facts sample_block_def IsProtocolV3_def mainParams_def)
  have b: "SetCompact bn_ref (bi_nBits (sample_block 1600002000)) = 65535"
    using sample_compact by (simp add: sample_block_def)
  have n: "new_target 65535 96 960 l = 66844" "new_target 65535 96 2000 l = 68420" if "l \<ge> 70000" for l
    using that by (simp_all add: new_target_def c_div_def nTargetTimespan_def)
  show ?thesis
    using sample_compact(2)
    by (simp add: GetNextTargetRequired_eq [OF bn_spec_bn_ref] GetNextTargetRequiredThin_eq [OF bn_spec_bn_ref]
        sample_chain_facts lim T c b n)
qed


fun increases :: "CChainParams \<Rightarrow> pindex \<Rightarrow> nat" where
  "increases P (b # pprev) =
     (if IsForkV4SupplyIncrease P (b # pprev) = Some True then 1 else 0) + increases P pprev"
| "increases P [] = 0"

lemma increases_below:
  assumes "sorted_wrt (\<lambda>x y. GetBlockTime y \<le> GetBlockTime x) pind" "\<exists>b \<in> set pind. True"
    "GetBlockTime (hd pind) < nForkV4Time P"
  shows "increases P pind = 0"
  using assms
proof (induction pind)
  case (Cons b pprev)
  then show ?case
    by (cases pprev) (auto simp: IsForkV4SupplyIncrease_def)
qed simp

lemma increases_le_1:
  assumes "sorted_wrt (\<lambda>x y. GetBlockTime y \<le> GetBlockTime x) pind"
  shows "increases P pind \<le> 1"
  using assms
proof (induction pind)
  case (Cons b pprev)
  show ?case
  proof (cases "IsForkV4SupplyIncrease P (b # pprev) = Some True")
    case True
    then obtain c rest where "pprev = c # rest" "GetBlockTime c < nForkV4Time P"
      by (auto simp: IsForkV4SupplyIncrease_def split: list.splits if_splits)
    then have "increases P pprev = 0" using Cons.prems by (intro increases_below) auto
    then show ?thesis by simp
  qed (use Cons in simp)
qed simp

section \<open>Properties of the chain parameters and targets\<close>

text \<open>
  C36. For a block that has a predecessor, \<^verbatim>\<open>GetNextTargetRequired\<close> returns, and the target that its
  compact result denotes is positive and does not exceed the limit of the block kind at that height. If the last
  spacing was exactly the target spacing and the last target is within the limit, the compact target is that of
  the last block again.
\<close>

theorem next_target_bounds:
  assumes "bn_spec L" "limits_ok P" "pindexLast \<noteq> []"
  shows "(\<exists>c. GetNextTargetRequired L P pindexLast f = Some c
      \<and> 0 < SetCompact L c \<and> SetCompact L c \<le> target_limit P pindexLast f)
    \<and> (let old = SetCompact L (bi_nBits (hd (GetLastBlockIndex pindexLast f)))
       in retargets pindexLast f \<and> 0 < old \<and> old \<le> target_limit P pindexLast f
          \<and> last_spacing P pindexLast f
              = GetTargetSpacing P (bi_nHeight (hd pindexLast)) (GetBlockTime (hd pindexLast))
          \<longrightarrow> GetNextTargetRequired L P pindexLast f = Some (GetCompact L old))"
proof
  let ?lim = "target_limit P pindexLast f"
  have lim: "0 < ?lim" "?lim < 2 ^ 256" using target_limit_ok [OF assms(2)] by blast+
  obtain n where n: "GetNextTargetRequired L P pindexLast f = Some (GetCompact L n)" "0 < n" "n \<le> ?lim"
    using GetNextTargetRequired_eq [OF assms(1,3), of P f] new_target_range [OF lim(1)] lim(1)
    by (cases "retargets pindexLast f") auto
  have "n < 2 ^ 256" using n(3) lim(2) by linarith
  with n compact_of_target [OF assms(1) n(2)]
  show "\<exists>c. GetNextTargetRequired L P pindexLast f = Some c
      \<and> 0 < SetCompact L c \<and> SetCompact L c \<le> ?lim" by fastforce
next
  show "let old = SetCompact L (bi_nBits (hd (GetLastBlockIndex pindexLast f)))
       in retargets pindexLast f \<and> 0 < old \<and> old \<le> target_limit P pindexLast f
          \<and> last_spacing P pindexLast f
              = GetTargetSpacing P (bi_nHeight (hd pindexLast)) (GetBlockTime (hd pindexLast))
          \<longrightarrow> GetNextTargetRequired L P pindexLast f = Some (GetCompact L old)"
    using GetTargetSpacing_cases [of P "bi_nHeight (hd pindexLast)" "GetBlockTime (hd pindexLast)"]
    unfolding GetNextTargetRequired_eq [OF assms(1,3)] Let_def
    by (auto simp: new_target_steady full_clamp_def)
qed

theorem next_target_bounds_witness:
  "\<exists>c. GetNextTargetRequired bn_ref (mainParams bn_ref) sample_chain True = Some c \<and> 0 < SetCompact bn_ref c"
  using next_target_bounds [OF bn_spec_bn_ref limits_ok_params(1) [OF bn_spec_bn_ref] sample_chain_facts(1), of True]
  by blast

text \<open>
  C37 (equivalence). Both kinds of node require the compact form of the same moving average of targets, full nodes with the last
  spacing cut to ten times the target spacing from protocol version 3 on, thin nodes with the spacing as it is; the limit if
  there are too few blocks. So they agree before version 3, with too few blocks, and whenever the spacing is at most ten
  times the target spacing; and beyond that there is a chain on which they require different targets for the next block.
\<close>

theorem thin_retarget_divergence:
  fixes P :: CChainParams and f :: bool
  assumes "bn_spec L" "pindexLast \<noteq> []"
  defines "T \<equiv> GetTargetSpacing P (bi_nHeight (hd pindexLast)) (GetBlockTime (hd pindexLast))"
    and "old \<equiv> SetCompact L (bi_nBits (hd (GetLastBlockIndex pindexLast f)))"
  shows "GetNextTargetRequired L P pindexLast f = Some (GetCompact L
      (if retargets pindexLast f
       then new_target old T (if IsProtocolV3 P (bi_nHeight (hd pindexLast)) then min (last_spacing P pindexLast f) (10 * T)
              else last_spacing P pindexLast f) (target_limit P pindexLast f)
       else target_limit P pindexLast f))
    \<and> GetNextTargetRequiredThin L P pindexLast f = Some (GetCompact L
      (if retargets pindexLast f then new_target old T (last_spacing P pindexLast f) (target_limit P pindexLast f)
       else target_limit P pindexLast f))
    \<and> (\<not> IsProtocolV3 P (bi_nHeight (hd pindexLast)) \<or> \<not> retargets pindexLast f \<or> last_spacing P pindexLast f \<le> 10 * T
        \<longrightarrow> GetNextTargetRequiredThin L P pindexLast f = GetNextTargetRequired L P pindexLast f)
    \<and> GetNextTargetRequired bn_ref (mainParams bn_ref) sample_chain True
        \<noteq> GetNextTargetRequiredThin bn_ref (mainParams bn_ref) sample_chain True"
  using sample_chain_diverges unfolding T_def old_def
  by (auto simp: GetNextTargetRequired_eq [OF assms(1,2)] GetNextTargetRequiredThin_eq [OF assms(1,2)] full_clamp_def min_def mult.commute)

theorem thin_retarget_divergence_witness:
  "GetNextTargetRequiredThin bn_ref (mainParams bn_ref) (map sample_block [1600000096, 1600000000, 1599999904]) True
   = GetNextTargetRequired bn_ref (mainParams bn_ref) (map sample_block [1600000096, 1600000000, 1599999904]) True"
  by (rule thin_retarget_divergence [OF bn_spec_bn_ref, THEN conjunct2, THEN conjunct2, THEN conjunct1, rule_format])
    (simp_all add: last_spacing_def sample_block_def GetBlockTime_def GetTargetSpacing_def IsProtocolV2_def IsForkV3_def
      IsProofOfStake_def mainParams_def TARGET_BLOCK_TIME_def)

text \<open>
  \<^verbatim>\<open>CheckProofOfWork\<close> accepts a hash exactly when the claimed target is positive, within the limit
  and not below the hash as a number; the trust of a block with a positive target is the integer
  \<open>2 ^ 256 div (target + 1)\<close>, and zero otherwise.
\<close>

theorem proof_of_work_check:
  assumes "bn_spec L" "limits_ok P" "length hash = UINT256_WIDTH"
  defines "t \<equiv> \<lambda>bits. SetCompact L bits"
  shows "(CheckProofOfWork L P hash bits \<longleftrightarrow>
      0 < t bits \<and> t bits \<le> bnProofOfWorkLimit P \<and> int (uval hash) \<le> t bits)
    \<and> (\<exists>h. GetBlockTrust L b = Some h \<and> length h = UINT256_WIDTH
        \<and> int (uval h) = (if 0 < t (bi_nBits b) then 2 ^ 256 div (t (bi_nBits b) + 1) else 0))"
proof
  have z: "CBigNum_int L 0 = 0" "CBigNum_int L 1 = 1" using assms(1) by (simp_all add: CBigNum_int_eq)
  have g: "uval (getuint256 L m) = nat m \<and> length (getuint256 L m) = 8" if "0 \<le> m" "m < 2 ^ 256" for m
    using getuint256_eq [OF assms(1), of m] that by (simp add: nat_less_iff)
  show "CheckProofOfWork L P hash bits \<longleftrightarrow>
      0 < t bits \<and> t bits \<le> bnProofOfWorkLimit P \<and> int (uval hash) \<le> t bits"
  proof (cases "0 < t bits \<and> t bits \<le> bnProofOfWorkLimit P")
    case True
    then have "t bits < 2 ^ 256" using assms(2) by (simp add: limits_ok_def)
    with True g [of "t bits"] have "op_gt hash (getuint256 L (t bits)) \<longleftrightarrow> nat (t bits) < uval hash"
      using assms(3) by (simp add: op_gt_uval UINT256_WIDTH_def)
    with True assms(1) show ?thesis
      by (auto simp: CheckProofOfWork_def z bn_cmp_simps t_def)
  next
    case False
    then show ?thesis using assms(1) by (auto simp: CheckProofOfWork_def z bn_cmp_simps t_def)
  qed
  show "\<exists>h. GetBlockTrust L b = Some h \<and> length h = UINT256_WIDTH
        \<and> int (uval h) = (if 0 < t (bi_nBits b) then 2 ^ 256 div (t (bi_nBits b) + 1) else 0)"
  proof (cases "0 < t (bi_nBits b)")
    case True
    define q where "q = 2 ^ 256 div (t (bi_nBits b) + 1)"
    have q: "0 \<le> q" "q < 2 ^ 256"
    proof -
      show "0 \<le> q" using True by (simp add: q_def pos_imp_zdiv_nonneg_iff)
      show "q < 2 ^ 256" unfolding q_def using True by (intro int_div_less_self) simp_all
    qed
    have d: "BN_div L (2 ^ 256) (t (bi_nBits b) + 1) = Some (q, 2 ^ 256 mod (t (bi_nBits b) + 1))"
      using True assms(1) by (simp add: bn_spec_def q_def)
    then have "GetBlockTrust L b = Some (getuint256 L q)"
      using True assms(1) by (simp add: GetBlockTrust_def z bn_cmp_simps bn_lib_simps flip: t_def)
    with g [OF q] True show ?thesis by (simp add: UINT256_WIDTH_def q) (simp add: q_def)
  next
    case False
    then have "GetBlockTrust L b = Some (op_assign64 UINT256_WIDTH 0)"
      using assms(1) by (simp add: GetBlockTrust_def z bn_cmp_simps t_def)
    with False show ?thesis by (simp add: uval_assign64 length_op_assign64 UINT256_WIDTH_def)
  qed
qed

text \<open>
  Along a chain whose block times do not decrease (which \<^verbatim>\<open>GetPastTimeLimit\<close> enforces from protocol
  version 2 on), \<^verbatim>\<open>IsForkV4SupplyIncrease\<close> holds at no more than one block, so the one-time supply increase
  is granted at most once; at that block both stake rewards pay the increase of the network plus fees.
\<close>

theorem supply_increase_once:
  assumes "sorted_wrt (\<lambda>x y. GetBlockTime y \<le> GetBlockTime x) pind"
  shows "length (filter (\<lambda>i. IsForkV4SupplyIncrease P (drop i pind) = Some True) [0..<length pind]) \<le> 1
    \<and> (IsForkV4SupplyIncrease P pind = Some True \<longrightarrow>
        GetProofOfStakeReward P r pind a fees
          = Some (wrap64 ((if NetworkID P = TESTNET then 300000 else 3000000) * COIN + fees))
        \<and> GetProofOfAnonStakeReward P r' pind fees = GetProofOfStakeReward P r pind a fees)"
proof
  have "length (filter (\<lambda>i. IsForkV4SupplyIncrease P (drop i pind) = Some True) [0..<length pind]) = increases P pind"
  proof (induction pind)
    case (Cons b pprev)
    have "[0..<length (b # pprev)] = 0 # map Suc [0..<length pprev]" by (simp add: upt_conv_Cons map_Suc_upt del: upt_Suc)
    then show ?case using Cons by (simp add: filter_map comp_def del: upt_Suc)
  qed simp
  then show "length (filter (\<lambda>i. IsForkV4SupplyIncrease P (drop i pind) = Some True) [0..<length pind]) \<le> 1"
    using increases_le_1 [OF assms] by simp
qed (simp add: GetProofOfStakeReward_def GetProofOfAnonStakeReward_def)

end
