(* ===== verification/ScriptEval.thy ===== *)
theory ScriptEval
  imports Script Chain
begin

unbundle bit_operations_syntax

text \<open>
  The script interpreter of \<^verbatim>\<open>src/src/script.cpp\<close>: \<^verbatim>\<open>EvalScript\<close> with one definition per case of its
  switch, \<^verbatim>\<open>SignatureHash\<close>, the signature cache, \<^verbatim>\<open>CheckSig\<close> and \<^verbatim>\<open>VerifyScript\<close>. Stacks are
  lists with the top first, so \<^verbatim>\<open>stacktop(-i)\<close> is element \<open>i - 1\<close>. Every case returns the value
  \<^verbatim>\<open>EvalScript\<close> would continue or stop with, and the state reached, because the stack is a reference
  argument that callers can read after a failure; an exception is a failure with the state at the throw. The
  interpreter is total: its loop consumes at least one byte of script per instruction.
\<close>

section \<open>State and helpers\<close>

type_synonym sigdata = "limbs \<times> byte list \<times> CPubKey"

record script_env = crypto_lib +
  chain_params :: CChainParams
  nMaxCacheSize :: int
  GetRandHash :: "nat \<Rightarrow> limbs"

record eval_state =
  stack :: "valtype list"
  altstack :: "valtype list"
  vfExec :: "bool list"
  pbegincodehash :: CScript
  nOpCount :: int
  sigcache :: "sigdata list"

definition vchFalse :: valtype where "vchFalse = []"
definition vchTrue :: valtype where "vchTrue = [1]"

definition nDefaultMaxNumSize :: nat where "nDefaultMaxNumSize = 4"

text \<open>\<open>None\<close> is the overflow exception.\<close>

definition CastToBigNum :: "'a bn_lib_scheme \<Rightarrow> valtype \<Rightarrow> nat \<Rightarrow> int option" where
  "CastToBigNum L vch nMaxNumSize =
     (if length vch > nMaxNumSize then None else Some (setvch L (getvch L (setvch L vch))))"

fun CastToBool :: "valtype \<Rightarrow> bool" where
  "CastToBool [] = False"
| "CastToBool (b # vch) =
     (if b \<noteq> 0 then (if vch = [] \<and> b = 0x80 then False else True) else CastToBool vch)"

definition MakeSameSize :: "valtype \<Rightarrow> valtype \<Rightarrow> valtype \<times> valtype" where
  "MakeSameSize vch1 vch2 =
     (let v1 = (if length vch1 < length vch2 then vch1 @ replicate (length vch2 - length vch1) 0 else vch1);
          v2 = (if length vch2 < length v1 then vch2 @ replicate (length v1 - length vch2) 0 else vch2)
      in (v1, v2))"

abbreviation ok :: "eval_state \<Rightarrow> bool \<times> eval_state" where "ok st \<equiv> (True, st)"
abbreviation bad :: "eval_state \<Rightarrow> bool \<times> eval_state" where "bad st \<equiv> (False, st)"

definition push :: "valtype \<Rightarrow> eval_state \<Rightarrow> eval_state" where
  "push v st = st\<lparr>stack := v # stack st\<rparr>"

section \<open>The signature hash\<close>

definition SIGHASH_NONE :: int where "SIGHASH_NONE = 2"
definition SIGHASH_SINGLE :: int where "SIGHASH_SINGLE = 3"
definition SIGHASH_ANYONECANPAY :: int where "SIGHASH_ANYONECANPAY = 0x80"

definition blank_inputs :: "CTransaction \<Rightarrow> nat \<Rightarrow> CScript \<Rightarrow> CTransaction" where
  "blank_inputs tx nIn scriptCode =
     (let cleared = map (\<lambda>i. i\<lparr>scriptSig := []\<rparr>) (vin tx)
      in tx\<lparr>vin := cleared[nIn := (cleared ! nIn)\<lparr>scriptSig := scriptCode\<rparr>]\<rparr>)"

definition zero_sequences :: "CTransaction \<Rightarrow> nat \<Rightarrow> CTransaction" where
  "zero_sequences tx nIn =
     tx\<lparr>vin := map (\<lambda>(k, i). if k \<noteq> nIn then i\<lparr>nSequence := 0\<rparr> else i) (enumerate 0 (vin tx))\<rparr>"

text \<open>The transaction that is serialized; \<open>None\<close> is the early \<^verbatim>\<open>return 1\<close> of \<^verbatim>\<open>SIGHASH_SINGLE\<close>.\<close>

definition sighash_tx :: "CScript \<Rightarrow> CTransaction \<Rightarrow> nat \<Rightarrow> int \<Rightarrow> CTransaction option" where
  "sighash_tx scriptCode txTo nIn nHashType =
     (let txTmp = blank_inputs txTo nIn (snd (FindAndDelete scriptCode [of_nat OP_CODESEPARATOR]));
          txOut =
            (if nHashType AND 0x1f = SIGHASH_NONE then Some (zero_sequences (txTmp\<lparr>vout := []\<rparr>) nIn)
             else if nHashType AND 0x1f = SIGHASH_SINGLE then
               (if nIn \<ge> length (vout txTmp) then None
                else Some (zero_sequences
                       (txTmp\<lparr>vout := replicate nIn CTxOut_SetNull @ [vout txTmp ! nIn]\<rparr>) nIn))
             else Some txTmp)
      in map_option (\<lambda>t. if nHashType AND SIGHASH_ANYONECANPAY \<noteq> 0 then t\<lparr>vin := [vin t ! nIn]\<rparr> else t) txOut)"

definition SignatureHash :: "script_env \<Rightarrow> CScript \<Rightarrow> CTransaction \<Rightarrow> nat \<Rightarrow> int \<Rightarrow> limbs" where
  "SignatureHash E scriptCode txTo nIn nHashType =
     (if nIn \<ge> length (vin txTo) then op_assign64 UINT256_WIDTH 1
      else (case sighash_tx scriptCode txTo nIn nHashType of
              None \<Rightarrow> op_assign64 UINT256_WIDTH 1
            | Some txTmp \<Rightarrow>
                let forkId = GetForkId (chain_params E) (int (unat (nTime txTo)))
                in Hash (SHA256 E)
                     (ser_tx txTmp @ write_sint 4 nHashType @ (if forkId > 0 then write_sint 4 forkId else []))))"

section \<open>The signature cache\<close>

text \<open>
  \<^verbatim>\<open>setValid\<close> is an ordered set of (hash, signature, key) triples, kept as its sorted list; the order is the
  lexicographic one of the tuple.
\<close>

fun vch_lt :: "byte list \<Rightarrow> byte list \<Rightarrow> bool" where
  "vch_lt [] [] = False"
| "vch_lt [] (_ # _) = True"
| "vch_lt (_ # _) [] = False"
| "vch_lt (a # as) (b # bs) = (a < b \<or> (a = b \<and> vch_lt as bs))"

definition sigdata_lt :: "sigdata \<Rightarrow> sigdata \<Rightarrow> bool" where
  "sigdata_lt x y =
     (case (x, y) of ((h, s, p), (h', s', p')) \<Rightarrow>
        op_lt h h' \<or> (\<not> op_lt h' h \<and> (vch_lt s s' \<or> (\<not> vch_lt s' s \<and> CPubKey_lt p p'))))"

definition sigcache_Get :: "sigdata list \<Rightarrow> limbs \<Rightarrow> byte list \<Rightarrow> CPubKey \<Rightarrow> bool" where
  "sigcache_Get setValid hash vchSig pubKey \<longleftrightarrow>
     (\<exists>k \<in> set setValid. \<not> sigdata_lt k (hash, vchSig, pubKey) \<and> \<not> sigdata_lt (hash, vchSig, pubKey) k)"

fun sigcache_insert :: "sigdata \<Rightarrow> sigdata list \<Rightarrow> sigdata list" where
  "sigcache_insert k [] = [k]"
| "sigcache_insert k (x # xs) =
     (if sigdata_lt k x then k # x # xs
      else if sigdata_lt x k then x # sigcache_insert k xs else x # xs)"

text \<open>One eviction: the first entry not below a random hash, or the smallest entry.\<close>

definition evict_one :: "limbs \<Rightarrow> sigdata list \<Rightarrow> sigdata list" where
  "evict_one randomHash setValid =
     (let lo = takeWhile (\<lambda>k. sigdata_lt k (randomHash, [], CPubKey_Set [])) setValid;
          hi = dropWhile (\<lambda>k. sigdata_lt k (randomHash, [], CPubKey_Set [])) setValid
      in if hi = [] then tl setValid else lo @ tl hi)"

lemma length_take_tl_drop:
  assumes "dropWhile P xs \<noteq> []"
  shows "length (takeWhile P xs @ tl (dropWhile P xs)) < length xs"
proof -
  have "length (takeWhile P xs) + length (dropWhile P xs) = length xs"
    by (metis length_append takeWhile_dropWhile_id)
  with assms show ?thesis by (cases "dropWhile P xs") auto
qed

lemma evict_one_shrinks: "setValid \<noteq> [] \<Longrightarrow> length (evict_one r setValid) < length setValid"
  unfolding evict_one_def Let_def by (auto intro!: length_take_tl_drop simp del: length_append dropWhile_eq_Nil_conv)

function evict_loop :: "script_env \<Rightarrow> sigdata list \<Rightarrow> sigdata list" where
  "evict_loop E setValid =
     (if int (length setValid) > nMaxCacheSize E \<and> setValid \<noteq> []
      then evict_loop E (evict_one (GetRandHash E (length setValid)) setValid) else setValid)"
  by pat_completeness auto
termination by (relation "measure (\<lambda>(E, s). length s)") (auto dest: evict_one_shrinks)

declare evict_loop.simps [simp del]

definition sigcache_Set :: "script_env \<Rightarrow> sigdata list \<Rightarrow> limbs \<Rightarrow> byte list \<Rightarrow> CPubKey \<Rightarrow> sigdata list" where
  "sigcache_Set E setValid hash vchSig pubKey =
     (if nMaxCacheSize E \<le> 0 then setValid
      else sigcache_insert (hash, vchSig, pubKey) (evict_loop E setValid))"

definition CheckSig ::
  "script_env \<Rightarrow> sigdata list \<Rightarrow> valtype \<Rightarrow> valtype \<Rightarrow> CScript \<Rightarrow> CTransaction \<Rightarrow> nat \<Rightarrow> int \<Rightarrow> u32
    \<Rightarrow> bool \<times> sigdata list" where
  "CheckSig E cache vchSig vchPubKey scriptCode txTo nIn nHashType flags =
     (let pubkey = CPubKey_Set vchPubKey in
      if \<not> CPubKey_IsValid pubkey then (False, cache)
      else if vchSig = [] then (False, cache)
      else if nHashType \<noteq> 0 \<and> nHashType \<noteq> int (unat (last vchSig)) then (False, cache)
      else let hashType = (if nHashType = 0 then int (unat (last vchSig)) else nHashType);
               sig = butlast vchSig;
               sighash = SignatureHash E scriptCode txTo nIn hashType in
      if sigcache_Get cache sighash sig pubkey then (True, cache)
      else if \<not> CPubKey_Verify E pubkey sighash sig then (False, cache)
      else (True, if has_flag flags SCRIPT_VERIFY_NOCACHE then cache else sigcache_Set E cache sighash sig pubkey))"

definition CheckLockTime :: "script_env \<Rightarrow> CTransaction \<Rightarrow> nat \<Rightarrow> int \<Rightarrow> bool" where
  "CheckLockTime E txTo nIn bnLock =
     (let lt = unat (nLockTime txTo); thr = CBigNum_ulong E LOCKTIME_THRESHOLD in
      if \<not> ((lt < LOCKTIME_THRESHOLD \<and> bn_lt E bnLock thr) \<or> (lt \<ge> LOCKTIME_THRESHOLD \<and> bn_ge E bnLock thr))
      then False
      else if bn_gt E bnLock (CBigNum_int E (int lt)) then False
      else if CTxIn_IsFinal (vin txTo ! nIn) then False
      else True)"

section \<open>The cases of the switch\<close>

definition ev_small :: "script_env \<Rightarrow> nat \<Rightarrow> eval_state \<Rightarrow> bool \<times> eval_state" where
  "ev_small E opcode st = ok (push (getvch E (CBigNum_int E (int opcode - (int OP_1 - 1)))) st)"

definition ev_CHECKLOCKTIMEVERIFY ::
  "script_env \<Rightarrow> CTransaction \<Rightarrow> nat \<Rightarrow> u32 \<Rightarrow> eval_state \<Rightarrow> bool \<times> eval_state" where
  "ev_CHECKLOCKTIMEVERIFY E txTo nIn flags st =
     (if \<not> has_flag flags SCRIPT_VERIFY_CHECKLOCKTIMEVERIFY then
        (if has_flag flags SCRIPT_VERIFY_DISCOURAGE_UPGRADABLE_NOPS then bad st else ok st)
      else (case stack st of [] \<Rightarrow> bad st
            | v # _ \<Rightarrow>
                (case CastToBigNum E v 5 of None \<Rightarrow> bad st
                 | Some bnLock \<Rightarrow>
                     if bn_lt E bnLock (CBigNum_int E 0) then bad st
                     else if \<not> CheckLockTime E txTo nIn bnLock then bad st else ok st)))"

definition ev_NOPn :: "u32 \<Rightarrow> eval_state \<Rightarrow> bool \<times> eval_state" where
  "ev_NOPn flags st = (if has_flag flags SCRIPT_VERIFY_DISCOURAGE_UPGRADABLE_NOPS then bad st else ok st)"

definition ev_IF :: "nat \<Rightarrow> bool \<Rightarrow> eval_state \<Rightarrow> bool \<times> eval_state" where
  "ev_IF opcode fExec st =
     (if fExec then
        (case stack st of [] \<Rightarrow> bad st
         | vch # s \<Rightarrow>
             let fValue = (if opcode = OP_NOTIF then \<not> CastToBool vch else CastToBool vch)
             in ok (st\<lparr>stack := s, vfExec := fValue # vfExec st\<rparr>))
      else ok (st\<lparr>vfExec := False # vfExec st\<rparr>))"

definition ev_ELSE :: "eval_state \<Rightarrow> bool \<times> eval_state" where
  "ev_ELSE st = (case vfExec st of [] \<Rightarrow> bad st | f # fs \<Rightarrow> ok (st\<lparr>vfExec := (\<not> f) # fs\<rparr>))"

definition ev_ENDIF :: "eval_state \<Rightarrow> bool \<times> eval_state" where
  "ev_ENDIF st = (case vfExec st of [] \<Rightarrow> bad st | f # fs \<Rightarrow> ok (st\<lparr>vfExec := fs\<rparr>))"

definition ev_VERIFY :: "eval_state \<Rightarrow> bool \<times> eval_state" where
  "ev_VERIFY st = (case stack st of [] \<Rightarrow> bad st
     | v # s \<Rightarrow> if CastToBool v then ok (st\<lparr>stack := s\<rparr>) else bad st)"

definition ev_TOALTSTACK :: "eval_state \<Rightarrow> bool \<times> eval_state" where
  "ev_TOALTSTACK st = (case stack st of [] \<Rightarrow> bad st
     | v # s \<Rightarrow> ok (st\<lparr>stack := s, altstack := v # altstack st\<rparr>))"

definition ev_FROMALTSTACK :: "eval_state \<Rightarrow> bool \<times> eval_state" where
  "ev_FROMALTSTACK st = (case altstack st of [] \<Rightarrow> bad st
     | v # s \<Rightarrow> ok (st\<lparr>stack := v # stack st, altstack := s\<rparr>))"

definition ev_2DROP :: "eval_state \<Rightarrow> bool \<times> eval_state" where
  "ev_2DROP st = (case stack st of x2 # x1 # s \<Rightarrow> ok (st\<lparr>stack := s\<rparr>) | _ \<Rightarrow> bad st)"

definition ev_2DUP :: "eval_state \<Rightarrow> bool \<times> eval_state" where
  "ev_2DUP st = (case stack st of x2 # x1 # s \<Rightarrow> ok (st\<lparr>stack := x2 # x1 # x2 # x1 # s\<rparr>) | _ \<Rightarrow> bad st)"

definition ev_3DUP :: "eval_state \<Rightarrow> bool \<times> eval_state" where
  "ev_3DUP st = (case stack st of x3 # x2 # x1 # s \<Rightarrow>
     ok (st\<lparr>stack := x3 # x2 # x1 # x3 # x2 # x1 # s\<rparr>) | _ \<Rightarrow> bad st)"

definition ev_2OVER :: "eval_state \<Rightarrow> bool \<times> eval_state" where
  "ev_2OVER st = (case stack st of x4 # x3 # x2 # x1 # s \<Rightarrow>
     ok (st\<lparr>stack := x2 # x1 # x4 # x3 # x2 # x1 # s\<rparr>) | _ \<Rightarrow> bad st)"

definition ev_2ROT :: "eval_state \<Rightarrow> bool \<times> eval_state" where
  "ev_2ROT st = (case stack st of x6 # x5 # x4 # x3 # x2 # x1 # s \<Rightarrow>
     ok (st\<lparr>stack := x2 # x1 # x6 # x5 # x4 # x3 # s\<rparr>) | _ \<Rightarrow> bad st)"

definition ev_2SWAP :: "eval_state \<Rightarrow> bool \<times> eval_state" where
  "ev_2SWAP st = (case stack st of x4 # x3 # x2 # x1 # s \<Rightarrow>
     ok (st\<lparr>stack := x2 # x1 # x4 # x3 # s\<rparr>) | _ \<Rightarrow> bad st)"

definition ev_IFDUP :: "eval_state \<Rightarrow> bool \<times> eval_state" where
  "ev_IFDUP st = (case stack st of [] \<Rightarrow> bad st
     | v # s \<Rightarrow> if CastToBool v then ok (push v st) else ok st)"

definition ev_DEPTH :: "script_env \<Rightarrow> eval_state \<Rightarrow> bool \<times> eval_state" where
  "ev_DEPTH E st = ok (push (getvch E (CBigNum_ulong E (length (stack st)))) st)"

definition ev_DROP :: "eval_state \<Rightarrow> bool \<times> eval_state" where
  "ev_DROP st = (case stack st of [] \<Rightarrow> bad st | v # s \<Rightarrow> ok (st\<lparr>stack := s\<rparr>))"

definition ev_DUP :: "eval_state \<Rightarrow> bool \<times> eval_state" where
  "ev_DUP st = (case stack st of [] \<Rightarrow> bad st | v # s \<Rightarrow> ok (push v st))"

definition ev_NIP :: "eval_state \<Rightarrow> bool \<times> eval_state" where
  "ev_NIP st = (case stack st of x2 # x1 # s \<Rightarrow> ok (st\<lparr>stack := x2 # s\<rparr>) | _ \<Rightarrow> bad st)"

definition ev_OVER :: "eval_state \<Rightarrow> bool \<times> eval_state" where
  "ev_OVER st = (case stack st of x2 # x1 # s \<Rightarrow> ok (push x1 st) | _ \<Rightarrow> bad st)"

text \<open>The index is popped before it is checked.\<close>

definition ev_PICK_ROLL :: "script_env \<Rightarrow> nat \<Rightarrow> eval_state \<Rightarrow> bool \<times> eval_state" where
  "ev_PICK_ROLL E opcode st =
     (if length (stack st) < 2 then bad st
      else (case CastToBigNum E (hd (stack st)) nDefaultMaxNumSize of None \<Rightarrow> bad st
            | Some bn \<Rightarrow>
                let n = getint E bn; s = tl (stack st) in
                if n < 0 \<or> n \<ge> int (length s) then bad (st\<lparr>stack := s\<rparr>)
                else let k = nat n; vch = s ! k
                     in ok (st\<lparr>stack := vch # (if opcode = OP_ROLL then take k s @ drop (Suc k) s else s)\<rparr>)))"

definition ev_ROT :: "eval_state \<Rightarrow> bool \<times> eval_state" where
  "ev_ROT st = (case stack st of x3 # x2 # x1 # s \<Rightarrow> ok (st\<lparr>stack := x1 # x3 # x2 # s\<rparr>) | _ \<Rightarrow> bad st)"

definition ev_SWAP :: "eval_state \<Rightarrow> bool \<times> eval_state" where
  "ev_SWAP st = (case stack st of x2 # x1 # s \<Rightarrow> ok (st\<lparr>stack := x1 # x2 # s\<rparr>) | _ \<Rightarrow> bad st)"

definition ev_TUCK :: "eval_state \<Rightarrow> bool \<times> eval_state" where
  "ev_TUCK st = (case stack st of x2 # x1 # s \<Rightarrow> ok (st\<lparr>stack := x2 # x1 # x2 # s\<rparr>) | _ \<Rightarrow> bad st)"

definition ev_SIZE :: "script_env \<Rightarrow> eval_state \<Rightarrow> bool \<times> eval_state" where
  "ev_SIZE E st = (case stack st of [] \<Rightarrow> bad st
     | v # s \<Rightarrow> ok (push (getvch E (CBigNum_ulong E (length v))) st))"

text \<open>The comparison result is pushed before the verifying form looks at it.\<close>

definition push_verify :: "bool \<Rightarrow> bool \<Rightarrow> eval_state \<Rightarrow> bool \<times> eval_state" where
  "push_verify isVerify fSuccess st =
     (if isVerify then (if fSuccess then ok st else bad (push vchFalse st))
      else ok (push (if fSuccess then vchTrue else vchFalse) st))"

definition ev_EQUAL :: "nat \<Rightarrow> eval_state \<Rightarrow> bool \<times> eval_state" where
  "ev_EQUAL opcode st = (case stack st of
     vch2 # vch1 # s \<Rightarrow> push_verify (opcode = OP_EQUALVERIFY) (vch1 = vch2) (st\<lparr>stack := s\<rparr>)
   | _ \<Rightarrow> bad st)"

definition bn_of_bool :: "script_env \<Rightarrow> bool \<Rightarrow> int" where
  "bn_of_bool E b = CBigNum_int E (if b then 1 else 0)"

text \<open>
  The unary numeric operators that are not disabled; the shifts of \<^verbatim>\<open>OP_2MUL\<close> and \<^verbatim>\<open>OP_2DIV\<close> are
  never reached.
\<close>

definition unary_num :: "script_env \<Rightarrow> nat \<Rightarrow> int \<Rightarrow> int" where
  "unary_num E opcode bn =
     (if opcode = OP_1ADD then BN_add E bn (CBigNum_int E 1)
      else if opcode = OP_1SUB then BN_sub E bn (CBigNum_int E 1)
      else if opcode = OP_2MUL then BN_lshift E bn 1
      else if opcode = OP_2DIV then bn_shr E bn 1
      else if opcode = OP_NEGATE then bn_neg E bn
      else if opcode = OP_ABS then (if bn_lt E bn (CBigNum_int E 0) then bn_neg E bn else bn)
      else if opcode = OP_NOT then bn_of_bool E (bn_eq E bn (CBigNum_int E 0))
      else bn_of_bool E (bn_ne E bn (CBigNum_int E 0)))"

definition ev_unary :: "script_env \<Rightarrow> nat \<Rightarrow> eval_state \<Rightarrow> bool \<times> eval_state" where
  "ev_unary E opcode st = (case stack st of [] \<Rightarrow> bad st
     | v # s \<Rightarrow> (case CastToBigNum E v nDefaultMaxNumSize of None \<Rightarrow> bad st
         | Some bn \<Rightarrow> ok (push (getvch E (unary_num E opcode bn)) (st\<lparr>stack := s\<rparr>))))"

text \<open>The binary operators; \<open>None\<close> is the early return of the disabled ones.\<close>

definition binary_num :: "script_env \<Rightarrow> nat \<Rightarrow> int \<Rightarrow> int \<Rightarrow> int option" where
  "binary_num E opcode bn1 bn2 =
     (if opcode = OP_ADD then Some (BN_add E bn1 bn2)
      else if opcode = OP_SUB then Some (BN_sub E bn1 bn2)
      else if opcode = OP_MUL then Some (BN_mul E bn1 bn2)
      else if opcode = OP_DIV then map_option fst (BN_div E bn1 bn2)
      else if opcode = OP_MOD then map_option snd (BN_div E bn1 bn2)
      else if opcode = OP_LSHIFT then
        (if bn_lt E bn2 (CBigNum_int E 0) \<or> bn_gt E bn2 (CBigNum_int E 2048) then None
         else Some (BN_lshift E bn1 (getulong E bn2)))
      else if opcode = OP_RSHIFT then
        (if bn_lt E bn2 (CBigNum_int E 0) \<or> bn_gt E bn2 (CBigNum_int E 2048) then None
         else Some (bn_shr E bn1 (getulong E bn2)))
      else if opcode = OP_BOOLAND then
        Some (bn_of_bool E (bn_ne E bn1 (CBigNum_int E 0) \<and> bn_ne E bn2 (CBigNum_int E 0)))
      else if opcode = OP_BOOLOR then
        Some (bn_of_bool E (bn_ne E bn1 (CBigNum_int E 0) \<or> bn_ne E bn2 (CBigNum_int E 0)))
      else if opcode = OP_NUMEQUAL \<or> opcode = OP_NUMEQUALVERIFY then Some (bn_of_bool E (bn_eq E bn1 bn2))
      else if opcode = OP_NUMNOTEQUAL then Some (bn_of_bool E (bn_ne E bn1 bn2))
      else if opcode = OP_LESSTHAN then Some (bn_of_bool E (bn_lt E bn1 bn2))
      else if opcode = OP_GREATERTHAN then Some (bn_of_bool E (bn_gt E bn1 bn2))
      else if opcode = OP_LESSTHANOREQUAL then Some (bn_of_bool E (bn_le E bn1 bn2))
      else if opcode = OP_GREATERTHANOREQUAL then Some (bn_of_bool E (bn_ge E bn1 bn2))
      else if opcode = OP_MIN then Some (if bn_lt E bn1 bn2 then bn1 else bn2)
      else Some (if bn_gt E bn1 bn2 then bn1 else bn2))"

definition ev_binary :: "script_env \<Rightarrow> nat \<Rightarrow> eval_state \<Rightarrow> bool \<times> eval_state" where
  "ev_binary E opcode st = (case stack st of
     v2 # v1 # s \<Rightarrow>
       (case (CastToBigNum E v1 nDefaultMaxNumSize, CastToBigNum E v2 nDefaultMaxNumSize) of
          (Some bn1, Some bn2) \<Rightarrow>
            (case binary_num E opcode bn1 bn2 of None \<Rightarrow> bad st
             | Some bn \<Rightarrow>
                 let r = getvch E bn in
                 if opcode = OP_NUMEQUALVERIFY then
                   (if CastToBool r then ok (st\<lparr>stack := s\<rparr>) else bad (st\<lparr>stack := r # s\<rparr>))
                 else ok (st\<lparr>stack := r # s\<rparr>))
        | _ \<Rightarrow> bad st)
   | _ \<Rightarrow> bad st)"

definition ev_WITHIN :: "script_env \<Rightarrow> eval_state \<Rightarrow> bool \<times> eval_state" where
  "ev_WITHIN E st = (case stack st of
     v3 # v2 # v1 # s \<Rightarrow>
       (case (CastToBigNum E v1 nDefaultMaxNumSize, CastToBigNum E v2 nDefaultMaxNumSize,
              CastToBigNum E v3 nDefaultMaxNumSize) of
          (Some bn1, Some bn2, Some bn3) \<Rightarrow>
            ok (st\<lparr>stack := (if bn_le E bn2 bn1 \<and> bn_lt E bn1 bn3 then vchTrue else vchFalse) # s\<rparr>)
        | _ \<Rightarrow> bad st)
   | _ \<Rightarrow> bad st)"

text \<open>The splice and bitwise operators, all disabled; their bodies are behind the disabling test.\<close>

definition ev_CAT :: "eval_state \<Rightarrow> bool \<times> eval_state" where
  "ev_CAT st = (case stack st of
     vch2 # vch1 # s \<Rightarrow>
       (if length (vch1 @ vch2) > MAX_SCRIPT_ELEMENT_SIZE then bad (st\<lparr>stack := (vch1 @ vch2) # s\<rparr>)
        else ok (st\<lparr>stack := (vch1 @ vch2) # s\<rparr>))
   | _ \<Rightarrow> bad st)"

definition ev_SUBSTR :: "script_env \<Rightarrow> eval_state \<Rightarrow> bool \<times> eval_state" where
  "ev_SUBSTR E st = (case stack st of
     v3 # v2 # vch # s \<Rightarrow>
       (case (CastToBigNum E v2 nDefaultMaxNumSize, CastToBigNum E v3 nDefaultMaxNumSize) of
          (Some b, Some z) \<Rightarrow>
            let nBegin = getint E b; nEnd = nBegin + getint E z in
            if nBegin < 0 \<or> nEnd < nBegin then bad st
            else let nBegin1 = min nBegin (int (length vch)); nEnd1 = min nEnd (int (length vch))
                 in ok (st\<lparr>stack := drop (nat nBegin1) (take (nat nEnd1) vch) # s\<rparr>)
        | _ \<Rightarrow> bad st)
   | _ \<Rightarrow> bad st)"

definition ev_LEFT_RIGHT :: "script_env \<Rightarrow> nat \<Rightarrow> eval_state \<Rightarrow> bool \<times> eval_state" where
  "ev_LEFT_RIGHT E opcode st = (case stack st of
     v2 # vch # s \<Rightarrow>
       (case CastToBigNum E v2 nDefaultMaxNumSize of None \<Rightarrow> bad st
        | Some z \<Rightarrow>
            if getint E z < 0 then bad st
            else let nSize = min (nat (getint E z)) (length vch)
                 in ok (st\<lparr>stack := (if opcode = OP_LEFT then take nSize vch else drop (length vch - nSize) vch) # s\<rparr>))
   | _ \<Rightarrow> bad st)"

definition ev_INVERT :: "eval_state \<Rightarrow> bool \<times> eval_state" where
  "ev_INVERT st = (case stack st of [] \<Rightarrow> bad st
     | vch # s \<Rightarrow> ok (st\<lparr>stack := map (\<lambda>b. NOT b) vch # s\<rparr>))"

definition ev_bitwise :: "nat \<Rightarrow> eval_state \<Rightarrow> bool \<times> eval_state" where
  "ev_bitwise opcode st = (case stack st of
     vch2 # vch1 # s \<Rightarrow>
       (case MakeSameSize vch1 vch2 of (v1, v2) \<Rightarrow>
          ok (st\<lparr>stack :=
            (if opcode = OP_AND then map2 (\<lambda>a b. a AND b) v1 v2
             else if opcode = OP_OR then map2 (\<lambda>a b. a OR b) v1 v2
             else map2 (\<lambda>a b. a XOR b) v1 v2) # s\<rparr>))
   | _ \<Rightarrow> bad st)"

definition ev_hash :: "script_env \<Rightarrow> nat \<Rightarrow> eval_state \<Rightarrow> bool \<times> eval_state" where
  "ev_hash E opcode st = (case stack st of [] \<Rightarrow> bad st
     | vch # s \<Rightarrow>
         let vchHash =
           (if opcode = OP_RIPEMD160 then RIPEMD160 E vch
            else if opcode = OP_SHA1 then SHA1 E vch
            else if opcode = OP_SHA256 then SHA256 E vch
            else if opcode = OP_HASH160 then uint_bytes (Hash160 (SHA256 E) (RIPEMD160 E) vch)
            else uint_bytes (Hash (SHA256 E) vch))
         in ok (st\<lparr>stack := vchHash # s\<rparr>))"

definition ev_CODESEPARATOR :: "CScript \<Rightarrow> eval_state \<Rightarrow> bool \<times> eval_state" where
  "ev_CODESEPARATOR pc st = ok (st\<lparr>pbegincodehash := pc\<rparr>)"

definition encoding_ok :: "valtype \<Rightarrow> valtype \<Rightarrow> u32 \<Rightarrow> bool" where
  "encoding_ok vchSig vchPubKey flags \<longleftrightarrow> CheckSignatureEncoding vchSig flags \<and> CheckPubKeyEncoding vchPubKey"

definition checked_sig ::
  "script_env \<Rightarrow> sigdata list \<Rightarrow> valtype \<Rightarrow> valtype \<Rightarrow> CScript \<Rightarrow> CTransaction \<Rightarrow> nat \<Rightarrow> int \<Rightarrow> u32
    \<Rightarrow> bool \<times> sigdata list" where
  "checked_sig E cache vchSig vchPubKey scriptCode txTo nIn nHashType flags =
     (if encoding_ok vchSig vchPubKey flags
      then CheckSig E cache vchSig vchPubKey scriptCode txTo nIn nHashType flags else (False, cache))"

definition ev_CHECKSIG ::
  "script_env \<Rightarrow> CTransaction \<Rightarrow> nat \<Rightarrow> u32 \<Rightarrow> int \<Rightarrow> nat \<Rightarrow> eval_state \<Rightarrow> bool \<times> eval_state" where
  "ev_CHECKSIG E txTo nIn flags nHashType opcode st = (case stack st of
     vchPubKey # vchSig # s \<Rightarrow>
       let scriptCode = snd (FindAndDelete (pbegincodehash st) (push_vch [] vchSig)) in
       if has_flag flags SCRIPT_VERIFY_STRICTENC \<and> \<not> encoding_ok vchSig vchPubKey flags then bad st
       else (case checked_sig E (sigcache st) vchSig vchPubKey scriptCode txTo nIn nHashType flags of
               (fSuccess, cache) \<Rightarrow>
                 push_verify (opcode = OP_CHECKSIGVERIFY) fSuccess (st\<lparr>stack := s, sigcache := cache\<rparr>))
   | _ \<Rightarrow> bad st)"

text \<open>
  The matching loop of \<^verbatim>\<open>OP_CHECKMULTISIG\<close> over the remaining signatures and keys; the first result is
  \<open>None\<close> for the strict-encoding failure, otherwise \<^verbatim>\<open>fSuccess\<close>. The caller has no more signatures than
  keys and the loop keeps it so, so it never runs out of keys first.
\<close>

fun multisig_loop ::
  "script_env \<Rightarrow> CTransaction \<Rightarrow> nat \<Rightarrow> u32 \<Rightarrow> int \<Rightarrow> CScript \<Rightarrow> valtype list \<Rightarrow> valtype list \<Rightarrow> sigdata list
    \<Rightarrow> bool option \<times> sigdata list" where
  "multisig_loop E txTo nIn flags nHashType scriptCode [] keys cache = (Some True, cache)"
| "multisig_loop E txTo nIn flags nHashType scriptCode (vchSig # sigs) [] cache = (Some False, cache)"
| "multisig_loop E txTo nIn flags nHashType scriptCode (vchSig # sigs) (vchPubKey # keys) cache =
     (if has_flag flags SCRIPT_VERIFY_STRICTENC \<and> \<not> encoding_ok vchSig vchPubKey flags then (None, cache)
      else (case checked_sig E cache vchSig vchPubKey scriptCode txTo nIn nHashType flags of (fOk, cache1) \<Rightarrow>
              let sigs1 = (if fOk then sigs else vchSig # sigs) in
              if length sigs1 > length keys then (Some False, cache1)
              else multisig_loop E txTo nIn flags nHashType scriptCode sigs1 keys cache1))"

definition ev_CHECKMULTISIG ::
  "script_env \<Rightarrow> CTransaction \<Rightarrow> nat \<Rightarrow> u32 \<Rightarrow> int \<Rightarrow> nat \<Rightarrow> eval_state \<Rightarrow> bool \<times> eval_state" where
  "ev_CHECKMULTISIG E txTo nIn flags nHashType opcode st =
     (let S = stack st in
      if length S < 1 then bad st
      else (case CastToBigNum E (S ! 0) nDefaultMaxNumSize of None \<Rightarrow> bad st
        | Some bnKeys \<Rightarrow>
      let nKeysCount = getint E bnKeys in
      if nKeysCount < 0 \<or> nKeysCount > 20 then bad st
      else let st1 = st\<lparr>nOpCount := nOpCount st + nKeysCount\<rparr>; nKeys = nat nKeysCount in
      if nOpCount st1 > 201 then bad st1
      else if length S < 2 + nKeys then bad st1
      else (case CastToBigNum E (S ! (1 + nKeys)) nDefaultMaxNumSize of None \<Rightarrow> bad st1
        | Some bnSigs \<Rightarrow>
      let nSigsCount = getint E bnSigs in
      if nSigsCount < 0 \<or> nSigsCount > nKeysCount then bad st1
      else let nSigs = nat nSigsCount in
      if length S < 3 + nKeys + nSigs then bad st1
      else let keys = take nKeys (drop 1 S);
               sigs = take nSigs (drop (2 + nKeys) S);
               scriptCode = fold (\<lambda>vchSig c. snd (FindAndDelete c (push_vch [] vchSig))) sigs (pbegincodehash st)
           in (case multisig_loop E txTo nIn flags nHashType scriptCode sigs keys (sigcache st) of
                 (None, cache) \<Rightarrow> bad (st1\<lparr>sigcache := cache\<rparr>)
               | (Some fSuccess, cache) \<Rightarrow>
                   let S1 = drop (2 + nKeys + nSigs) S; st2 = st1\<lparr>stack := S1, sigcache := cache\<rparr> in
                   if length S1 < 1 then bad st2
                   else if has_flag flags SCRIPT_VERIFY_NULLDUMMY \<and> length (hd S1) \<noteq> 0 then bad st2
                   else push_verify (opcode = OP_CHECKMULTISIGVERIFY) fSuccess (st2\<lparr>stack := tl S1\<rparr>)))))"

section \<open>One instruction\<close>

definition disabled :: "nat \<Rightarrow> bool" where
  "disabled opcode \<longleftrightarrow>
     opcode = OP_CAT \<or> opcode = OP_SUBSTR \<or> opcode = OP_LEFT \<or> opcode = OP_RIGHT \<or> opcode = OP_INVERT \<or>
     opcode = OP_AND \<or> opcode = OP_OR \<or> opcode = OP_XOR \<or> opcode = OP_2MUL \<or> opcode = OP_2DIV \<or>
     opcode = OP_MUL \<or> opcode = OP_DIV \<or> opcode = OP_MOD \<or> opcode = OP_LSHIFT \<or> opcode = OP_RSHIFT"

text \<open>The switch, first half: control and stack operations; \<open>pc\<close> is the iterator behind the instruction.\<close>

definition ev_control ::
  "script_env \<Rightarrow> CTransaction \<Rightarrow> nat \<Rightarrow> u32 \<Rightarrow> bool \<Rightarrow> nat \<Rightarrow> eval_state \<Rightarrow> (bool \<times> eval_state) option" where
  "ev_control E txTo nIn flags fExec opcode st =
     (if opcode = OP_1NEGATE \<or> (OP_1 \<le> opcode \<and> opcode \<le> OP_16) then Some (ev_small E opcode st)
      else if opcode = OP_NOP then Some (ok st)
      else if opcode = OP_CHECKLOCKTIMEVERIFY then Some (ev_CHECKLOCKTIMEVERIFY E txTo nIn flags st)
      else if opcode = OP_NOP1 \<or> (OP_NOP3 \<le> opcode \<and> opcode \<le> OP_NOP9) then Some (ev_NOPn flags st)
      else if opcode = OP_IF \<or> opcode = OP_NOTIF then Some (ev_IF opcode fExec st)
      else if opcode = OP_ELSE then Some (ev_ELSE st)
      else if opcode = OP_ENDIF then Some (ev_ENDIF st)
      else if opcode = OP_VERIFY then Some (ev_VERIFY st)
      else if opcode = OP_RETURN then Some (bad st)
      else None)"

definition ev_stackop :: "script_env \<Rightarrow> nat \<Rightarrow> eval_state \<Rightarrow> (bool \<times> eval_state) option" where
  "ev_stackop E opcode st =
     (if opcode = OP_TOALTSTACK then Some (ev_TOALTSTACK st)
      else if opcode = OP_FROMALTSTACK then Some (ev_FROMALTSTACK st)
      else if opcode = OP_2DROP then Some (ev_2DROP st)
      else if opcode = OP_2DUP then Some (ev_2DUP st)
      else if opcode = OP_3DUP then Some (ev_3DUP st)
      else if opcode = OP_2OVER then Some (ev_2OVER st)
      else if opcode = OP_2ROT then Some (ev_2ROT st)
      else if opcode = OP_2SWAP then Some (ev_2SWAP st)
      else if opcode = OP_IFDUP then Some (ev_IFDUP st)
      else if opcode = OP_DEPTH then Some (ev_DEPTH E st)
      else if opcode = OP_DROP then Some (ev_DROP st)
      else if opcode = OP_DUP then Some (ev_DUP st)
      else if opcode = OP_NIP then Some (ev_NIP st)
      else if opcode = OP_OVER then Some (ev_OVER st)
      else if opcode = OP_PICK \<or> opcode = OP_ROLL then Some (ev_PICK_ROLL E opcode st)
      else if opcode = OP_ROT then Some (ev_ROT st)
      else if opcode = OP_SWAP then Some (ev_SWAP st)
      else if opcode = OP_TUCK then Some (ev_TUCK st)
      else None)"

text \<open>Second half: splice, logic, numeric and cryptographic operations, and the default.\<close>

definition ev_compute ::
  "script_env \<Rightarrow> CTransaction \<Rightarrow> nat \<Rightarrow> u32 \<Rightarrow> int \<Rightarrow> CScript \<Rightarrow> nat \<Rightarrow> eval_state \<Rightarrow> bool \<times> eval_state" where
  "ev_compute E txTo nIn flags nHashType pc opcode st =
     (if opcode = OP_CAT then ev_CAT st
      else if opcode = OP_SUBSTR then ev_SUBSTR E st
      else if opcode = OP_LEFT \<or> opcode = OP_RIGHT then ev_LEFT_RIGHT E opcode st
      else if opcode = OP_SIZE then ev_SIZE E st
      else if opcode = OP_INVERT then ev_INVERT st
      else if opcode = OP_AND \<or> opcode = OP_OR \<or> opcode = OP_XOR then ev_bitwise opcode st
      else if opcode = OP_EQUAL \<or> opcode = OP_EQUALVERIFY then ev_EQUAL opcode st
      else if OP_1ADD \<le> opcode \<and> opcode \<le> OP_0NOTEQUAL then ev_unary E opcode st
      else if OP_ADD \<le> opcode \<and> opcode \<le> OP_MAX then ev_binary E opcode st
      else if opcode = OP_WITHIN then ev_WITHIN E st
      else if OP_RIPEMD160 \<le> opcode \<and> opcode \<le> OP_HASH256 then ev_hash E opcode st
      else if opcode = OP_CODESEPARATOR then ev_CODESEPARATOR pc st
      else if opcode = OP_CHECKSIG \<or> opcode = OP_CHECKSIGVERIFY then ev_CHECKSIG E txTo nIn flags nHashType opcode st
      else if opcode = OP_CHECKMULTISIG \<or> opcode = OP_CHECKMULTISIGVERIFY
        then ev_CHECKMULTISIG E txTo nIn flags nHashType opcode st
      else bad st)"

definition ev_switch ::
  "script_env \<Rightarrow> CTransaction \<Rightarrow> nat \<Rightarrow> u32 \<Rightarrow> int \<Rightarrow> bool \<Rightarrow> CScript \<Rightarrow> nat \<Rightarrow> eval_state
    \<Rightarrow> bool \<times> eval_state" where
  "ev_switch E txTo nIn flags nHashType fExec pc opcode st =
     (case ev_control E txTo nIn flags fExec opcode st of Some r \<Rightarrow> r
      | None \<Rightarrow> (case ev_stackop E opcode st of Some r \<Rightarrow> r
         | None \<Rightarrow> ev_compute E txTo nIn flags nHashType pc opcode st))"

definition eval_instr ::
  "script_env \<Rightarrow> CTransaction \<Rightarrow> nat \<Rightarrow> u32 \<Rightarrow> int \<Rightarrow> CScript \<Rightarrow> nat \<Rightarrow> valtype \<Rightarrow> eval_state
    \<Rightarrow> bool \<times> eval_state" where
  "eval_instr E txTo nIn flags nHashType pc opcode vchPushValue st =
     (let fExec = list_all id (vfExec st) in
      if length vchPushValue > MAX_SCRIPT_ELEMENT_SIZE then bad st
      else let st1 = (if opcode > OP_16 then st\<lparr>nOpCount := nOpCount st + 1\<rparr> else st) in
      if opcode > OP_16 \<and> nOpCount st1 > 201 then bad st1
      else if disabled opcode then bad st1
      else (case (if fExec \<and> opcode \<le> OP_PUSHDATA4 then ok (push vchPushValue st1)
                  else if fExec \<or> (OP_IF \<le> opcode \<and> opcode \<le> OP_ENDIF)
                    then ev_switch E txTo nIn flags nHashType fExec pc opcode st1
                  else ok st1) of
              (False, st2) \<Rightarrow> bad st2
            | (True, st2) \<Rightarrow>
                if length (stack st2) + length (altstack st2) > 1000 then bad st2 else ok st2))"

function eval_loop ::
  "script_env \<Rightarrow> CTransaction \<Rightarrow> nat \<Rightarrow> u32 \<Rightarrow> int \<Rightarrow> CScript \<Rightarrow> eval_state \<Rightarrow> bool \<times> eval_state" where
  "eval_loop E txTo nIn flags nHashType pc st =
     (if pc = [] then ok st
      else (case GetOp pc of None \<Rightarrow> bad st
            | Some (pc1, opcode, vchPushValue) \<Rightarrow>
                (case eval_instr E txTo nIn flags nHashType pc1 opcode vchPushValue st of
                   (False, st1) \<Rightarrow> bad st1
                 | (True, st1) \<Rightarrow> eval_loop E txTo nIn flags nHashType pc1 st1)))"
  by pat_completeness auto
termination
  by (relation "measure (\<lambda>(E, t, i, f, h, pc, st). length pc)") (auto dest: GetOp_shrinks)

declare eval_loop.simps [simp del]

text \<open>The result is the return value, the stack and the signature cache.\<close>

definition eval_init :: "CScript \<Rightarrow> sigdata list \<Rightarrow> valtype list \<Rightarrow> eval_state" where
  "eval_init script cache S =
     \<lparr>stack = S, altstack = [], vfExec = [], pbegincodehash = script, nOpCount = 0, sigcache = cache\<rparr>"

definition EvalScript ::
  "script_env \<Rightarrow> sigdata list \<Rightarrow> valtype list \<Rightarrow> CScript \<Rightarrow> CTransaction \<Rightarrow> nat \<Rightarrow> u32 \<Rightarrow> int
    \<Rightarrow> bool \<times> valtype list \<times> sigdata list" where
  "EvalScript E cache S script txTo nIn flags nHashType =
     (if length script > 10000 then (False, S, cache)
      else (case eval_loop E txTo nIn flags nHashType script (eval_init script cache S) of
              (r, st) \<Rightarrow> (r \<and> vfExec st = [], stack st, sigcache st)))"

section \<open>Verification of an input\<close>

text \<open>
  \<open>None\<close> stands for reading the back of an empty vector.
\<close>

definition verify_p2sh ::
  "script_env \<Rightarrow> CScript \<Rightarrow> CTransaction \<Rightarrow> nat \<Rightarrow> u32 \<Rightarrow> int \<Rightarrow> valtype list \<Rightarrow> sigdata list
    \<Rightarrow> (bool \<times> sigdata list) option" where
  "verify_p2sh E sigScript txTo nIn flags nHashType stackCopy cache =
     (if \<not> IsPushOnly sigScript then Some (False, cache)
      else (case stackCopy of [] \<Rightarrow> None
            | pubKeySerialized # rest \<Rightarrow>
                (case EvalScript E cache rest pubKeySerialized txTo nIn flags nHashType of
                   (r, S, cache1) \<Rightarrow>
                     if \<not> r then Some (False, cache1)
                     else if S = [] then Some (False, cache1)
                     else Some (CastToBool (hd S), cache1))))"

definition VerifyScript ::
  "script_env \<Rightarrow> sigdata list \<Rightarrow> CScript \<Rightarrow> CScript \<Rightarrow> CTransaction \<Rightarrow> nat \<Rightarrow> u32 \<Rightarrow> int
    \<Rightarrow> (bool \<times> sigdata list) option" where
  "VerifyScript E cache sigScript pubScript txTo nIn flags nHashType =
     (case EvalScript E cache [] sigScript txTo nIn flags nHashType of (r1, stackCopy, cache1) \<Rightarrow>
      if \<not> r1 then Some (False, cache1)
      else (case EvalScript E cache1 stackCopy pubScript txTo nIn flags nHashType of (r2, S, cache2) \<Rightarrow>
      if \<not> r2 then Some (False, cache2)
      else if S = [] then Some (False, cache2)
      else if CastToBool (hd S) = False then Some (False, cache2)
      else if has_flag flags SCRIPT_VERIFY_P2SH \<and> IsPayToScriptHash pubScript
        then verify_p2sh E sigScript txTo nIn flags nHashType stackCopy cache2
      else Some (True, cache2)))"

text \<open>The outer \<open>None\<close> is the failed assertion on the input index.\<close>

definition VerifySignature ::
  "script_env \<Rightarrow> sigdata list \<Rightarrow> CTransaction \<Rightarrow> CTransaction \<Rightarrow> nat \<Rightarrow> u32 \<Rightarrow> int
    \<Rightarrow> (bool \<times> sigdata list) option" where
  "VerifySignature E cache txFrom txTo nIn flags nHashType =
     (if nIn \<ge> length (vin txTo) then None
      else let txin = vin txTo ! nIn; n = unat (op_n (prevout txin)) in
      if n \<ge> length (vout txFrom) then Some (False, cache)
      else if \<not> op_eq (op_hash (prevout txin)) (GetHash (SHA256 E) txFrom) then Some (False, cache)
      else VerifyScript E cache (scriptSig txin) (scriptPubKey (vout txFrom ! n)) txTo nIn flags nHashType)"

end
