(* ===== verification/ScriptStd.thy ===== *)
theory ScriptStd
  imports ScriptEval
begin

unbundle bit_operations_syntax

text \<open>
  Standard scripts (\<^verbatim>\<open>src/src/script.cpp\<close> from \<^verbatim>\<open>Solver\<close> on): the template matcher, destinations,
  signing with a key store, combination of partial signatures and the compact form of the three common outputs.
  A vector that the code fills from the front is a list in the same order. Assertions that the code makes are a
  surrounding \<open>option\<close>.
\<close>

section \<open>Types of outputs\<close>

datatype txnouttype = TX_NONSTANDARD | TX_PUBKEY | TX_PUBKEYHASH | TX_SCRIPTHASH | TX_MULTISIG | TX_NULL_DATA

definition GetTxnOutputType :: "txnouttype \<Rightarrow> string" where
  "GetTxnOutputType t =
     (case t of TX_NONSTANDARD \<Rightarrow> ''nonstandard'' | TX_PUBKEY \<Rightarrow> ''pubkey'' | TX_PUBKEYHASH \<Rightarrow> ''pubkeyhash''
      | TX_SCRIPTHASH \<Rightarrow> ''scripthash'' | TX_MULTISIG \<Rightarrow> ''multisig'' | TX_NULL_DATA \<Rightarrow> ''nulldata'')"

text \<open>Stealth addresses and extended key pairs are carried as opaque bytes.\<close>

datatype CTxDestination =
  CNoDestination | CKeyID limbs | CScriptID limbs | CStealthAddress "byte list" | CExtKeyPair "byte list"

section \<open>The template matcher\<close>

definition mTemplates :: "(txnouttype \<times> CScript) list" where
  "mTemplates =
     [(TX_PUBKEY, map of_nat [OP_PUBKEY, OP_CHECKSIG]),
      (TX_PUBKEYHASH, map of_nat [OP_DUP, OP_HASH160, OP_PUBKEYHASH, OP_EQUALVERIFY, OP_CHECKSIG]),
      (TX_MULTISIG, map of_nat [OP_SMALLINTEGER, OP_PUBKEYS, OP_SMALLINTEGER, OP_CHECKMULTISIG]),
      (TX_NULL_DATA, map of_nat [OP_RETURN]),
      (TX_NULL_DATA, map of_nat [OP_RETURN, OP_SMALLDATA]),
      (TX_NULL_DATA, map of_nat [OP_RETURN, OP_SMALLDATA, OP_RETURN, OP_SMALLDATA])]"

text \<open>The inner loop of \<^verbatim>\<open>OP_PUBKEYS\<close>; a failed read leaves the invalid opcode and no data.\<close>

function pubkeys_loop ::
  "CScript \<Rightarrow> nat \<Rightarrow> valtype \<Rightarrow> valtype list \<Rightarrow> CScript \<times> nat \<times> valtype \<times> valtype list" where
  "pubkeys_loop pc1 opcode1 vch1 sols =
     (if length vch1 \<ge> 33 \<and> length vch1 \<le> 120 then
        (case GetOp2 pc1 of (r, pc1', opcode1', vch1') \<Rightarrow>
           if r \<and> length pc1' < length pc1 then pubkeys_loop pc1' opcode1' vch1' (sols @ [vch1])
           else (pc1', opcode1', vch1', sols @ [vch1]))
      else (pc1, opcode1, vch1, sols))"
  by pat_completeness auto
termination by (relation "measure (\<lambda>(pc1, _, _, _). length pc1)") auto

declare pubkeys_loop.simps [simp del]

text \<open>One comparison after \<^verbatim>\<open>OP_PUBKEYS\<close> has been dealt with; \<open>None\<close> is the \<^verbatim>\<open>break\<close>.\<close>

definition solver_match :: "nat \<Rightarrow> valtype \<Rightarrow> nat \<Rightarrow> valtype \<Rightarrow> valtype list \<Rightarrow> valtype list option" where
  "solver_match opcode1 vch1 opcode2 vch2 sols =
     (if opcode2 = OP_PUBKEY then (if length vch1 < 33 \<or> length vch1 > 120 then None else Some (sols @ [vch1]))
      else if opcode2 = OP_PUBKEYHASH then (if length vch1 \<noteq> 20 then None else Some (sols @ [vch1]))
      else if opcode2 = OP_SMALLINTEGER then
        (if opcode1 = OP_0 \<or> (opcode1 \<ge> OP_1 \<and> opcode1 \<le> OP_16)
         then Some (sols @ [[of_nat (the (DecodeOP_N opcode1))]]) else None)
      else if opcode2 = OP_SMALLDATA then (if length vch1 > 48 then None else Some sols)
      else if opcode1 \<noteq> opcode2 \<or> vch1 \<noteq> vch2 then None
      else Some sols)"

function solver_loop :: "CScript \<Rightarrow> CScript \<Rightarrow> valtype list \<Rightarrow> valtype list option" where
  "solver_loop pc1 pc2 sols =
     (if pc1 = [] \<and> pc2 = [] then Some sols
      else (case GetOp2 pc1 of (r1, pc1a, opcode1, vch1) \<Rightarrow> if \<not> r1 then None
      else (case GetOp pc2 of None \<Rightarrow> None
        | Some (pc2a, opcode2, vch2) \<Rightarrow>
            if opcode2 = OP_PUBKEYS then
              (case pubkeys_loop pc1a opcode1 vch1 sols of (pc1b, opcode1b, vch1b, sols1) \<Rightarrow>
                 (case GetOp pc2a of None \<Rightarrow> None
                  | Some (pc2b, opcode2b, vch2b) \<Rightarrow>
                      (case solver_match opcode1b vch1b opcode2b vch2b sols1 of None \<Rightarrow> None
                       | Some sols2 \<Rightarrow> solver_loop pc1b pc2b sols2)))
            else (case solver_match opcode1 vch1 opcode2 vch2 sols of None \<Rightarrow> None
                  | Some sols2 \<Rightarrow> solver_loop pc1a pc2a sols2))))"
  by pat_completeness auto
termination
  by (relation "measure (\<lambda>(pc1, pc2, sols). length pc2)") (auto dest!: GetOp_shrinks)

declare solver_loop.simps [simp del]

definition multisig_ok :: "valtype list \<Rightarrow> bool" where
  "multisig_ok sols =
     (let m = unat (hd (hd sols)); n = unat (hd (last sols))
      in \<not> (m < 1 \<or> n < 1 \<or> m > n \<or> length sols - 2 \<noteq> n))"

fun solver_scan :: "CScript \<Rightarrow> (txnouttype \<times> CScript) list \<Rightarrow> bool \<times> txnouttype \<times> valtype list" where
  "solver_scan script [] = (False, TX_NONSTANDARD, [])"
| "solver_scan script ((t, script2) # ts) =
     (case solver_loop script script2 [] of
        Some sols \<Rightarrow> if t = TX_MULTISIG \<and> \<not> multisig_ok sols then (False, t, sols) else (True, t, sols)
      | None \<Rightarrow> solver_scan script ts)"

definition Solver :: "CScript \<Rightarrow> bool \<times> txnouttype \<times> valtype list" where
  "Solver script =
     (if IsPayToScriptHash script then (True, TX_SCRIPTHASH, [take 20 (drop 2 script)])
      else solver_scan script mTemplates)"

section \<open>Uses of the matcher\<close>

definition ScriptSigArgsExpected :: "txnouttype \<Rightarrow> valtype list \<Rightarrow> int" where
  "ScriptSigArgsExpected t vSolutions =
     (case t of TX_NONSTANDARD \<Rightarrow> - 1 | TX_NULL_DATA \<Rightarrow> - 1 | TX_PUBKEY \<Rightarrow> 1 | TX_PUBKEYHASH \<Rightarrow> 2
      | TX_MULTISIG \<Rightarrow>
          if length vSolutions < 1 \<or> length (vSolutions ! 0) < 1 then - 1
          else int (unat (vSolutions ! 0 ! 0)) + 1
      | TX_SCRIPTHASH \<Rightarrow> 1)"

definition IsStandard :: "CScript \<Rightarrow> bool \<times> txnouttype" where
  "IsStandard script =
     (case Solver script of (r, whichType, sols) \<Rightarrow>
        if \<not> r then (False, whichType)
        else if whichType = TX_MULTISIG \<and>
             (let m = unat (hd (hd sols)); n = unat (hd (last sols)) in n < 1 \<or> n > 3 \<or> m < 1 \<or> m > n)
          then (False, whichType)
        else (whichType \<noteq> TX_NONSTANDARD, whichType))"

definition ExtractDestination :: "script_env \<Rightarrow> CScript \<Rightarrow> CTxDestination option" where
  "ExtractDestination E script =
     (case Solver script of (r, whichType, sols) \<Rightarrow>
        if \<not> r then None
        else if whichType = TX_PUBKEY then Some (CKeyID (CPubKey_GetID E (CPubKey_Set (sols ! 0))))
        else if whichType = TX_PUBKEYHASH then Some (CKeyID (uint_of_vch UINT160_WIDTH (sols ! 0)))
        else if whichType = TX_SCRIPTHASH then Some (CScriptID (uint_of_vch UINT160_WIDTH (sols ! 0)))
        else None)"

text \<open>The result is the type, the addresses and the number of required signatures.\<close>

definition ExtractDestinations ::
  "script_env \<Rightarrow> CScript \<Rightarrow> bool \<times> txnouttype \<times> CTxDestination list \<times> nat" where
  "ExtractDestinations E script =
     (case Solver script of (r, t, sols) \<Rightarrow>
        if \<not> r then (False, t, [], 0)
        else if t = TX_NULL_DATA then (False, t, [], 0)
        else if t = TX_MULTISIG then
          (True, t, map (\<lambda>k. CKeyID (CPubKey_GetID E (CPubKey_Set k))) (take (length sols - 2) (drop 1 sols)),
           unat (hd (hd sols)))
        else (case ExtractDestination E script of None \<Rightarrow> (False, t, [], 1)
              | Some a \<Rightarrow> (True, t, [a], 1)))"

section \<open>Scripts for destinations\<close>

text \<open>\<^verbatim>\<open>SetDestination\<close> discards the truth value of the visitor and keeps the script it built.\<close>

definition CScriptVisitor :: "CTxDestination \<Rightarrow> bool \<times> CScript" where
  "CScriptVisitor dest =
     (case dest of
        CNoDestination \<Rightarrow> (False, [])
      | CKeyID keyID \<Rightarrow>
          (True, push_uint160 [of_nat OP_DUP, of_nat OP_HASH160] keyID @ [of_nat OP_EQUALVERIFY, of_nat OP_CHECKSIG])
      | CScriptID scriptID \<Rightarrow> (True, push_uint160 [of_nat OP_HASH160] scriptID @ [of_nat OP_EQUAL])
      | CStealthAddress _ \<Rightarrow> (False, [])
      | CExtKeyPair _ \<Rightarrow> (False, []))"

definition SetDestination :: "CTxDestination \<Rightarrow> CScript" where
  "SetDestination dest = snd (CScriptVisitor dest)"

fun push_pubkeys :: "CScript \<Rightarrow> CPubKey list \<Rightarrow> CScript option" where
  "push_pubkeys script [] = Some script"
| "push_pubkeys script (key # keys) =
     (case push_pubkey script key of None \<Rightarrow> None | Some s \<Rightarrow> push_pubkeys s keys)"

definition SetMultisig :: "int \<Rightarrow> CPubKey list \<Rightarrow> CScript option" where
  "SetMultisig nRequired keys =
     (case (EncodeOP_N nRequired, EncodeOP_N (int (length keys))) of
        (Some m, Some n) \<Rightarrow>
          map_option (\<lambda>s. s @ [of_nat n, of_nat OP_CHECKMULTISIG]) (push_pubkeys [of_nat m] keys)
      | _ \<Rightarrow> None)"

definition GetScriptForMultisig :: "int \<Rightarrow> CPubKey list \<Rightarrow> CScript option" where
  "GetScriptForMultisig nRequired keys =
     (case (EncodeOP_N nRequired, EncodeOP_N (int (length keys))) of
        (Some m, Some n) \<Rightarrow>
          Some (fold (\<lambda>key s. push_vch s (CPubKey_bytes key)) keys [of_nat m] @ [of_nat n, of_nat OP_CHECKMULTISIG])
      | _ \<Rightarrow> None)"

section \<open>Signing\<close>

definition Sign1 ::
  "script_env \<Rightarrow> CBasicKeyStore \<Rightarrow> limbs \<Rightarrow> limbs \<Rightarrow> int \<Rightarrow> CScript \<Rightarrow> bool \<times> CScript" where
  "Sign1 E ks address hash nHashType sigScript =
     (case GetKey ks address of None \<Rightarrow> (False, sigScript)
      | Some key \<Rightarrow>
          (case CKey_Sign E key hash of None \<Rightarrow> (False, sigScript)
           | Some vchSig \<Rightarrow> (True, push_vch sigScript (vchSig @ [of_int nHashType]))))"

fun signn_loop ::
  "script_env \<Rightarrow> CBasicKeyStore \<Rightarrow> limbs \<Rightarrow> int \<Rightarrow> nat \<Rightarrow> valtype list \<Rightarrow> nat \<Rightarrow> CScript \<Rightarrow> nat \<times> CScript" where
  "signn_loop E ks hash nHashType nRequired [] nSigned sigScript = (nSigned, sigScript)"
| "signn_loop E ks hash nHashType nRequired (pubkey # pubkeys) nSigned sigScript =
     (if nSigned < nRequired then
        (case Sign1 E ks (CPubKey_GetID E (CPubKey_Set pubkey)) hash nHashType sigScript of (r, sigScript1) \<Rightarrow>
           signn_loop E ks hash nHashType nRequired pubkeys (if r then nSigned + 1 else nSigned) sigScript1)
      else (nSigned, sigScript))"

definition SignN ::
  "script_env \<Rightarrow> CBasicKeyStore \<Rightarrow> valtype list \<Rightarrow> limbs \<Rightarrow> int \<Rightarrow> CScript \<Rightarrow> bool \<times> CScript" where
  "SignN E ks multisigdata hash nHashType sigScript =
     (let nRequired = unat (hd (hd multisigdata)) in
      case signn_loop E ks hash nHashType nRequired (take (length multisigdata - 2) (drop 1 multisigdata)) 0 sigScript of
        (nSigned, sigScript1) \<Rightarrow> (nSigned = nRequired, sigScript1))"

text \<open>The second \<^verbatim>\<open>Solver\<close>; \<open>None\<close> is a failed assertion.\<close>

definition Solver_sign ::
  "script_env \<Rightarrow> CBasicKeyStore \<Rightarrow> CScript \<Rightarrow> limbs \<Rightarrow> int \<Rightarrow> (bool \<times> CScript \<times> txnouttype) option" where
  "Solver_sign E ks script hash nHashType =
     (case Solver script of (r, t, sols) \<Rightarrow>
        if \<not> r then Some (False, [], t)
        else (case t of
            TX_NONSTANDARD \<Rightarrow> Some (False, [], t)
          | TX_NULL_DATA \<Rightarrow> Some (False, [], t)
          | TX_PUBKEY \<Rightarrow>
              (case Sign1 E ks (CPubKey_GetID E (CPubKey_Set (sols ! 0))) hash nHashType [] of (r, s) \<Rightarrow> Some (r, s, t))
          | TX_PUBKEYHASH \<Rightarrow>
              let keyID = uint_of_vch UINT160_WIDTH (sols ! 0) in
              (case Sign1 E ks keyID hash nHashType [] of (r, s) \<Rightarrow>
                 if \<not> r then Some (False, s, t)
                 else (case GetPubKey E ks keyID of None \<Rightarrow> None
                       | Some pk \<Rightarrow>
                           map_option (\<lambda>s1. (True, s1, t))
                             (push_pubkey s (case pk of Some k \<Rightarrow> k | None \<Rightarrow> Invalidate))))
          | TX_SCRIPTHASH \<Rightarrow>
              (case GetCScript ks (uint_of_vch UINT160_WIDTH (sols ! 0)) of
                 None \<Rightarrow> Some (False, [], t) | Some s \<Rightarrow> Some (True, s, t))
          | TX_MULTISIG \<Rightarrow>
              (case SignN E ks sols hash nHashType [of_nat OP_0] of (r, s) \<Rightarrow> Some (r, s, t))))"

definition set_scriptSig :: "CTransaction \<Rightarrow> nat \<Rightarrow> CScript \<Rightarrow> CTransaction" where
  "set_scriptSig tx nIn s = tx\<lparr>vin := (vin tx)[nIn := (vin tx ! nIn)\<lparr>scriptSig := s\<rparr>]\<rparr>"

text \<open>
  \<^verbatim>\<open>SignSignature\<close> writes the script of the input as it goes; the results are the return value, the
  transaction and the signature cache.
\<close>

definition SignSignature ::
  "script_env \<Rightarrow> sigdata list \<Rightarrow> CBasicKeyStore \<Rightarrow> CScript \<Rightarrow> CTransaction \<Rightarrow> nat \<Rightarrow> int
    \<Rightarrow> (bool \<times> CTransaction \<times> sigdata list) option" where
  "SignSignature E cache ks fromPubKey txTo nIn nHashType =
     (if nIn \<ge> length (vin txTo) then None
      else (case Solver_sign E ks fromPubKey (SignatureHash E fromPubKey txTo nIn nHashType) nHashType of
        None \<Rightarrow> None
      | Some (r, s, t) \<Rightarrow>
          let tx1 = set_scriptSig txTo nIn s in
          if \<not> r then Some (False, tx1, cache)
          else (case (if t = TX_SCRIPTHASH then
                   (case Solver_sign E ks s (SignatureHash E s tx1 nIn nHashType) nHashType of
                      None \<Rightarrow> None
                    | Some (r2, s2, t2) \<Rightarrow>
                        Some (r2 \<and> t2 \<noteq> TX_SCRIPTHASH, set_scriptSig tx1 nIn (push_vch s2 s)))
                 else Some (True, tx1)) of
               None \<Rightarrow> None
             | Some (solved, tx2) \<Rightarrow>
                 if \<not> solved then Some (False, tx2, cache)
                 else map_option (\<lambda>(v, c). (v, tx2, c))
                   (VerifyScript E cache (scriptSig (vin tx2 ! nIn)) fromPubKey tx2 nIn STANDARD_SCRIPT_VERIFY_FLAGS 0))))"

definition SignSignature_from ::
  "script_env \<Rightarrow> sigdata list \<Rightarrow> CBasicKeyStore \<Rightarrow> CTransaction \<Rightarrow> CTransaction \<Rightarrow> nat \<Rightarrow> int
    \<Rightarrow> (bool \<times> CTransaction \<times> sigdata list) option" where
  "SignSignature_from E cache ks txFrom txTo nIn nHashType =
     (if nIn \<ge> length (vin txTo) then None
      else let n = unat (op_n (prevout (vin txTo ! nIn))) in
      if n \<ge> length (vout txFrom) then None
      else SignSignature E cache ks (scriptPubKey (vout txFrom ! n)) txTo nIn nHashType)"

section \<open>Combining signatures\<close>

definition PushAll :: "valtype list \<Rightarrow> CScript" where
  "PushAll values = fold (\<lambda>v s. push_vch s v) values []"

text \<open>\<^verbatim>\<open>set<valtype>\<close> as its sorted list.\<close>

fun vch_insert :: "valtype \<Rightarrow> valtype list \<Rightarrow> valtype list" where
  "vch_insert v [] = [v]"
| "vch_insert v (x # xs) =
     (if vch_lt v x then v # x # xs else if vch_lt x v then x # vch_insert v xs else x # xs)"

definition allsigs :: "valtype list \<Rightarrow> valtype list \<Rightarrow> valtype list" where
  "allsigs sigs1 sigs2 = fold (\<lambda>v s. if v \<noteq> [] then vch_insert v s else s) (sigs1 @ sigs2) []"

text \<open>Finding the key of one signature among the keys that have none yet.\<close>

fun match_key ::
  "script_env \<Rightarrow> CScript \<Rightarrow> CTransaction \<Rightarrow> nat \<Rightarrow> valtype \<Rightarrow> valtype list \<Rightarrow> (valtype \<rightharpoonup> valtype) \<Rightarrow> sigdata list
    \<Rightarrow> (valtype \<rightharpoonup> valtype) \<times> sigdata list" where
  "match_key E script txTo nIn sig [] sigs cache = (sigs, cache)"
| "match_key E script txTo nIn sig (pubkey # pubkeys) sigs cache =
     (if sigs pubkey \<noteq> None then match_key E script txTo nIn sig pubkeys sigs cache
      else (case CheckSig E cache sig pubkey script txTo nIn 0 0 of (r, cache1) \<Rightarrow>
              if r then (sigs(pubkey \<mapsto> sig), cache1)
              else match_key E script txTo nIn sig pubkeys sigs cache1))"

fun match_keys ::
  "script_env \<Rightarrow> CScript \<Rightarrow> CTransaction \<Rightarrow> nat \<Rightarrow> valtype list \<Rightarrow> valtype list \<Rightarrow> (valtype \<rightharpoonup> valtype) \<Rightarrow> sigdata list
    \<Rightarrow> (valtype \<rightharpoonup> valtype) \<times> sigdata list" where
  "match_keys E script txTo nIn [] pubkeys sigs cache = (sigs, cache)"
| "match_keys E script txTo nIn (sig # rest) pubkeys sigs cache =
     (case match_key E script txTo nIn sig pubkeys sigs cache of (sigs1, cache1) \<Rightarrow>
        match_keys E script txTo nIn rest pubkeys sigs1 cache1)"

fun merge_sigs :: "nat \<Rightarrow> valtype list \<Rightarrow> (valtype \<rightharpoonup> valtype) \<Rightarrow> nat \<Rightarrow> CScript \<Rightarrow> nat \<times> CScript" where
  "merge_sigs nSigsRequired [] sigs nSigsHave result = (nSigsHave, result)"
| "merge_sigs nSigsRequired (k # ks) sigs nSigsHave result =
     (if nSigsHave < nSigsRequired then
        (case sigs k of Some v \<Rightarrow> merge_sigs nSigsRequired ks sigs (nSigsHave + 1) (push_vch result v)
         | None \<Rightarrow> merge_sigs nSigsRequired ks sigs nSigsHave result)
      else (nSigsHave, result))"

definition CombineMultisig ::
  "script_env \<Rightarrow> sigdata list \<Rightarrow> CScript \<Rightarrow> CTransaction \<Rightarrow> nat \<Rightarrow> valtype list \<Rightarrow> valtype list \<Rightarrow> valtype list
    \<Rightarrow> (CScript \<times> sigdata list) option" where
  "CombineMultisig E cache script txTo nIn vSolutions sigs1 sigs2 =
     (if length vSolutions \<le> 1 then None
      else let nSigsRequired = unat (hd (hd vSolutions));
               pubkeys = take (length vSolutions - 2) (drop 1 vSolutions) in
           (case match_keys E script txTo nIn (allsigs sigs1 sigs2) pubkeys Map.empty cache of (sigs, cache1) \<Rightarrow>
              (case merge_sigs nSigsRequired pubkeys sigs 0 [of_nat OP_0] of (nSigsHave, result) \<Rightarrow>
                 Some (result @ replicate (nSigsRequired - nSigsHave) (of_nat OP_0), cache1))))"

function CombineSignatures_typed ::
  "script_env \<Rightarrow> sigdata list \<Rightarrow> CScript \<Rightarrow> CTransaction \<Rightarrow> nat \<Rightarrow> txnouttype \<Rightarrow> valtype list \<Rightarrow> valtype list
    \<Rightarrow> valtype list \<Rightarrow> (CScript \<times> sigdata list) option" where
  "CombineSignatures_typed E cache script txTo nIn txType vSolutions sigs1 sigs2 =
     (case txType of
        TX_NONSTANDARD \<Rightarrow> Some (if length sigs1 \<ge> length sigs2 then PushAll sigs1 else PushAll sigs2, cache)
      | TX_NULL_DATA \<Rightarrow> Some (if length sigs1 \<ge> length sigs2 then PushAll sigs1 else PushAll sigs2, cache)
      | TX_PUBKEY \<Rightarrow> Some (if sigs1 = [] \<or> sigs1 ! 0 = [] then PushAll sigs2 else PushAll sigs1, cache)
      | TX_PUBKEYHASH \<Rightarrow> Some (if sigs1 = [] \<or> sigs1 ! 0 = [] then PushAll sigs2 else PushAll sigs1, cache)
      | TX_SCRIPTHASH \<Rightarrow>
          if sigs1 = [] \<or> last sigs1 = [] then Some (PushAll sigs2, cache)
          else if sigs2 = [] \<or> last sigs2 = [] then Some (PushAll sigs1, cache)
          else let spk = last sigs1 in
               (case Solver spk of (_, txType2, vSolutions2) \<Rightarrow>
                  map_option (\<lambda>(result, c). (push_vch result spk, c))
                    (CombineSignatures_typed E cache spk txTo nIn txType2 vSolutions2 (butlast sigs1) (butlast sigs2)))
      | TX_MULTISIG \<Rightarrow> CombineMultisig E cache script txTo nIn vSolutions sigs1 sigs2)"
  by pat_completeness auto
termination
  by (relation "measure (\<lambda>(E, c, s, t, n, ty, v, s1, s2). length s1)") auto

declare CombineSignatures_typed.simps [simp del]

text \<open>
  The two scripts are evaluated against an empty transaction (only its time, a parameter, is not fixed) and
  whatever they leave on the stack is used, also after a failure.
\<close>

definition empty_tx :: "u32 \<Rightarrow> CTransaction" where
  "empty_tx now = \<lparr>nVersion = 1, nTime = now, vin = [], vout = [], nLockTime = 0\<rparr>"

definition CombineSignatures ::
  "script_env \<Rightarrow> sigdata list \<Rightarrow> u32 \<Rightarrow> CScript \<Rightarrow> CTransaction \<Rightarrow> nat \<Rightarrow> CScript \<Rightarrow> CScript
    \<Rightarrow> (CScript \<times> sigdata list) option" where
  "CombineSignatures E cache now script txTo nIn scriptSig1 scriptSig2 =
     (case Solver script of (_, txType, vSolutions) \<Rightarrow>
      (case EvalScript E cache [] scriptSig1 (empty_tx now) 0 SCRIPT_VERIFY_NONE 0 of (_, S1, cache1) \<Rightarrow>
      (case EvalScript E cache1 [] scriptSig2 (empty_tx now) 0 SCRIPT_VERIFY_NONE 0 of (_, S2, cache2) \<Rightarrow>
         CombineSignatures_typed E cache2 script txTo nIn txType vSolutions (rev S1) (rev S2))))"

section \<open>The compact form\<close>

definition nSpecialScripts :: nat where "nSpecialScripts = 6"

definition IsToKeyID :: "CScript \<Rightarrow> byte list option" where
  "IsToKeyID script =
     (if length script = 25 \<and> script ! 0 = of_nat OP_DUP \<and> script ! 1 = of_nat OP_HASH160 \<and> script ! 2 = 20
         \<and> script ! 23 = of_nat OP_EQUALVERIFY \<and> script ! 24 = of_nat OP_CHECKSIG
      then Some (take 20 (drop 3 script)) else None)"

definition IsToScriptID :: "CScript \<Rightarrow> byte list option" where
  "IsToScriptID script =
     (if length script = 23 \<and> script ! 0 = of_nat OP_HASH160 \<and> script ! 1 = 20 \<and> script ! 22 = of_nat OP_EQUAL
      then Some (take 20 (drop 2 script)) else None)"

definition IsToPubKey :: "script_env \<Rightarrow> CScript \<Rightarrow> CPubKey option" where
  "IsToPubKey E script =
     (if length script = 35 \<and> script ! 0 = 33 \<and> script ! 34 = of_nat OP_CHECKSIG
         \<and> (script ! 1 = 0x02 \<or> script ! 1 = 0x03)
      then Some (CPubKey_Set (take 33 (drop 1 script)))
      else if length script = 67 \<and> script ! 0 = 65 \<and> script ! 66 = of_nat OP_CHECKSIG \<and> script ! 1 = 0x04
      then let pubkey = CPubKey_Set (take 65 (drop 1 script))
           in if CPubKey_IsFullyValid E pubkey then Some pubkey else None
      else None)"

definition Compress :: "script_env \<Rightarrow> CScript \<Rightarrow> byte list option" where
  "Compress E script =
     (case IsToKeyID script of Some keyID \<Rightarrow> Some (0x00 # keyID)
      | None \<Rightarrow> (case IsToScriptID script of Some scriptID \<Rightarrow> Some (0x01 # scriptID)
      | None \<Rightarrow> (case IsToPubKey E script of None \<Rightarrow> None
      | Some pubkey \<Rightarrow>
          if pubkey ! 0 = 0x02 \<or> pubkey ! 0 = 0x03 then Some (pubkey ! 0 # take 32 (drop 1 pubkey))
          else if pubkey ! 0 = 0x04 then Some ((0x04 OR (pubkey ! 64 AND 0x01)) # take 32 (drop 1 pubkey))
          else None)))"

definition GetSpecialSize :: "nat \<Rightarrow> nat" where
  "GetSpecialSize nSize =
     (if nSize = 0 \<or> nSize = 1 then 20
      else if nSize = 2 \<or> nSize = 3 \<or> nSize = 4 \<or> nSize = 5 then 32 else 0)"

text \<open>The inner \<open>None\<close> is \<^verbatim>\<open>return false\<close>, the outer one the failed assertion on the size.\<close>

definition Decompress :: "script_env \<Rightarrow> nat \<Rightarrow> byte list \<Rightarrow> CScript option option" where
  "Decompress E nSize dat =
     (if nSize = 0 then
        Some (Some ([of_nat OP_DUP, of_nat OP_HASH160, 20] @ take 20 dat @ [of_nat OP_EQUALVERIFY, of_nat OP_CHECKSIG]))
      else if nSize = 1 then Some (Some ([of_nat OP_HASH160, 20] @ take 20 dat @ [of_nat OP_EQUAL]))
      else if nSize = 2 \<or> nSize = 3 then
        Some (Some ([33, of_nat nSize] @ take 32 dat @ [of_nat OP_CHECKSIG]))
      else if nSize = 4 \<or> nSize = 5 then
        (case CPubKey_Decompress E (CPubKey_Set (of_nat (nSize - 2) # take 32 dat)) of
           None \<Rightarrow> Some None
         | Some pubkey \<Rightarrow>
             if CPubKey_size pubkey \<noteq> 65 then None
             else Some (Some ([65] @ CPubKey_bytes pubkey @ [of_nat OP_CHECKSIG])))
      else Some None)"

definition compressor_size :: "script_env \<Rightarrow> CScript \<Rightarrow> nat" where
  "compressor_size E script =
     (case Compress E script of Some compr \<Rightarrow> length compr
      | None \<Rightarrow> length script + GetSizeOfVarInt (length script + nSpecialScripts))"

definition ser_compressed :: "script_env \<Rightarrow> CScript \<Rightarrow> byte list" where
  "ser_compressed E script =
     (case Compress E script of Some compr \<Rightarrow> compr
      | None \<Rightarrow> WriteVarInt (length script + nSpecialScripts) @ script)"

text \<open>Reading into a script object that holds \<open>old\<close>; a failed \<^verbatim>\<open>Decompress\<close> leaves it unchanged.\<close>

definition unser_compressed :: "script_env \<Rightarrow> CScript \<Rightarrow> CScript option reader" where
  "unser_compressed E old =
     rbind (ReadVarInt 32) (\<lambda>nSize.
       if nSize < nSpecialScripts then
         rbind (stream_read (GetSpecialSize nSize)) (\<lambda>vch.
           rreturn (case Decompress E nSize vch of None \<Rightarrow> None
                    | Some None \<Rightarrow> Some old | Some (Some s) \<Rightarrow> Some s))
       else rbind (stream_read (nSize - nSpecialScripts)) (\<lambda>s. rreturn (Some s)))"

end
