(* ===== verification/JsBase.thy ===== *)
theory JsBase
  imports Prelude
begin

unbundle bit_operations_syntax

text \<open>
  What the scripts under \<^verbatim>\<open>src/src/qt/res/assets/plugins\<close> use of JavaScript itself. A string is its list of
  UTF-16 code units; a literal of code units below 256 is written through \<open>js\<close>. The bitwise operators work on
  32-bit words, to which numbers are reduced modulo \<open>2 ^ 32\<close>. A literal object is the list of its properties,
  where the last of two properties with one name counts. A global regular-expression replacement is
  \<open>replace_g\<close> over a matcher that returns the length of the match at a position and its groups.
\<close>

section \<open>Strings\<close>

type_synonym jsstr = "nat list"

definition js :: "string \<Rightarrow> jsstr" where
  "js s = map of_char s"

lemma js_append [simp]: "js (a @ b) = js a @ js b"
  by (simp add: js_def)

lemma js_Nil [simp]: "js [] = []"
  by (simp add: js_def)

lemma js_Cons [simp]: "js (c # s) = of_char c # js s"
  by (simp add: js_def)

lemma length_js [simp]: "length (js s) = length s"
  by (simp add: js_def)

text \<open>\<^verbatim>\<open>String.fromCharCode\<close> keeps the low sixteen bits.\<close>

definition fromCharCode :: "nat \<Rightarrow> jsstr" where
  "fromCharCode n = [n mod 65536]"

text \<open>White space and line terminators of regular expressions.\<close>

definition is_line_terminator :: "nat \<Rightarrow> bool" where
  "is_line_terminator c \<longleftrightarrow> c = 10 \<or> c = 13 \<or> c = 0x2028 \<or> c = 0x2029"

definition is_space :: "nat \<Rightarrow> bool" where
  "is_space c \<longleftrightarrow> (9 \<le> c \<and> c \<le> 13) \<or> c = 32 \<or> c = 160 \<or> c = 0x1680 \<or> (0x2000 \<le> c \<and> c \<le> 0x200a)
     \<or> c = 0x2028 \<or> c = 0x2029 \<or> c = 0x202f \<or> c = 0x205f \<or> c = 0x3000 \<or> c = 0xfeff"

text \<open>\<^verbatim>\<open>toUpperCase\<close> on the ASCII range.\<close>

definition ascii_upper :: "nat \<Rightarrow> nat" where
  "ascii_upper c = (if 97 \<le> c \<and> c \<le> 122 then c - 32 else c)"

section \<open>Hexadecimal digits\<close>

definition hexdigit :: "char \<Rightarrow> nat option" where
  "hexdigit ch =
     (let c = of_char ch :: nat in
      if 48 \<le> c \<and> c \<le> 57 then Some (c - 48)
      else if 97 \<le> c \<and> c \<le> 102 then Some (c - 87)
      else if 65 \<le> c \<and> c \<le> 70 then Some (c - 55) else None)"

lemma hexdigit_simps:
  "hexdigit CHR ''0'' = Some 0" "hexdigit CHR ''1'' = Some 1" "hexdigit CHR ''2'' = Some 2"
  "hexdigit CHR ''3'' = Some 3" "hexdigit CHR ''4'' = Some 4" "hexdigit CHR ''5'' = Some 5"
  "hexdigit CHR ''6'' = Some 6" "hexdigit CHR ''7'' = Some 7" "hexdigit CHR ''8'' = Some 8"
  "hexdigit CHR ''9'' = Some 9" "hexdigit CHR ''a'' = Some 10" "hexdigit CHR ''b'' = Some 11"
  "hexdigit CHR ''c'' = Some 12" "hexdigit CHR ''d'' = Some 13" "hexdigit CHR ''e'' = Some 14"
  "hexdigit CHR ''f'' = Some 15" "hexdigit CHR ''A'' = Some 10" "hexdigit CHR ''B'' = Some 11"
  "hexdigit CHR ''C'' = Some 12" "hexdigit CHR ''D'' = Some 13" "hexdigit CHR ''E'' = Some 14"
  "hexdigit CHR ''F'' = Some 15"
  by (simp_all add: hexdigit_def)

text \<open>
  \<^verbatim>\<open>parseInt(s, 16)\<close> on a string of hexadecimal digits: the value of the longest prefix of digits.
  \<open>None\<close> is \<^verbatim>\<open>NaN\<close>, the result when there is no digit.
\<close>

fun hex_run :: "nat \<Rightarrow> string \<Rightarrow> nat" where
  "hex_run acc [] = acc"
| "hex_run acc (c # cs) = (case hexdigit c of None \<Rightarrow> acc | Some d \<Rightarrow> hex_run (16 * acc + d) cs)"

definition parseHex :: "string \<Rightarrow> nat option" where
  "parseHex s = (case s of [] \<Rightarrow> None | c # _ \<Rightarrow> if hexdigit c = None then None else Some (hex_run 0 s))"

lemma hexdigit_bound: "hexdigit c = Some d \<Longrightarrow> d < 16"
  by (auto simp: hexdigit_def Let_def split: if_splits)

section \<open>Objects\<close>

definition obj_get :: "('k \<times> 'v) list \<Rightarrow> 'k \<Rightarrow> 'v option" where
  "obj_get obj k = map_of (rev obj) k"

lemma obj_get_Nil [simp]: "obj_get [] k = None"
  by (simp add: obj_get_def)

lemma obj_get_append: "obj_get (a @ b) k = (case obj_get b k of None \<Rightarrow> obj_get a k | Some v \<Rightarrow> Some v)"
  by (simp add: obj_get_def map_add_def split: option.splits)

lemma obj_get_snoc [simp]: "obj_get (a @ [(j, v)]) k = (if k = j then Some v else obj_get a k)"
  by (simp add: obj_get_def)

lemma obj_get_in: "obj_get obj k = Some v \<Longrightarrow> (k, v) \<in> set obj"
  unfolding obj_get_def by (drule map_of_SomeD) simp

lemma obj_get_None: "obj_get obj k = None \<longleftrightarrow> k \<notin> fst ` set obj"
  by (simp add: obj_get_def map_of_eq_None_iff)

section \<open>Global replacement\<close>

text \<open>
  The first argument of the matcher says whether the position is the start of the string. An empty match inserts
  the replacement and copies one unit.
\<close>

type_synonym 'g matcher = "bool \<Rightarrow> jsstr \<Rightarrow> (nat \<times> 'g) option"

function replace_g :: "'g matcher \<Rightarrow> (jsstr \<Rightarrow> 'g \<Rightarrow> jsstr) \<Rightarrow> bool \<Rightarrow> jsstr \<Rightarrow> jsstr" where
  "replace_g m f st s =
     (case m st s of
        None \<Rightarrow> (case s of [] \<Rightarrow> [] | c # cs \<Rightarrow> c # replace_g m f False cs)
      | Some (n, g) \<Rightarrow>
          if n = 0 then f [] g @ (case s of [] \<Rightarrow> [] | c # cs \<Rightarrow> c # replace_g m f False cs)
          else f (take n s) g @ (if s = [] then [] else replace_g m f False (drop n s)))"
  by pat_completeness auto
termination by (relation "measure (\<lambda>(m, f, st, s). length s)") auto

declare replace_g.simps [simp del]

text \<open>Case-insensitive comparison with a literal; \<open>canon\<close> is the canonical form of a code unit.\<close>

definition starts :: "(nat \<Rightarrow> nat) \<Rightarrow> jsstr \<Rightarrow> jsstr \<Rightarrow> bool" where
  "starts canon p s \<longleftrightarrow> length p \<le> length s \<and> map canon (take (length p) s) = map canon p"

text \<open>The first alternative of a list of literals that matches.\<close>

definition first_alt :: "(nat \<Rightarrow> nat) \<Rightarrow> jsstr list \<Rightarrow> jsstr \<Rightarrow> jsstr option" where
  "first_alt canon alts s = find (\<lambda>p. starts canon p s) alts"

text \<open>A matcher is progressive if it never matches the empty string nor more than there is.\<close>

definition progressive :: "'g matcher \<Rightarrow> bool" where
  "progressive m \<longleftrightarrow> (\<forall>st s n g. m st s = Some (n, g) \<longrightarrow> 0 < n \<and> n \<le> length s)"

lemma progressiveD: "progressive m \<Longrightarrow> m st s = Some (n, g) \<Longrightarrow> 0 < n \<and> n \<le> length s"
  unfolding progressive_def by blast

lemma progressive_Nil: "progressive m \<Longrightarrow> m st [] = None"
  by (cases "m st []") (auto dest: progressiveD)

lemma replace_g_Nil: "progressive m \<Longrightarrow> replace_g m f st [] = []"
  by (subst replace_g.simps) (simp add: progressive_Nil)

lemma replace_g_miss: "m st (c # s) = None \<Longrightarrow> replace_g m f st (c # s) = c # replace_g m f False s"
  by (subst replace_g.simps) simp

lemma replace_g_hit:
  "progressive m \<Longrightarrow> m st s = Some (n, g) \<Longrightarrow> replace_g m f st s = f (take n s) g @ replace_g m f False (drop n s)"
  using progressiveD [of m st s n g] by (cases "s = []") (simp_all add: progressive_Nil replace_g.simps [of m f st s])

text \<open>Text in which the pattern occurs nowhere is unchanged.\<close>

lemma replace_g_none:
  assumes "progressive m" "\<And>k st. m st (drop k s) = None"
  shows "replace_g m f st s = s"
  using assms(2)
proof (induction s arbitrary: st)
  case Nil
  then show ?case by (simp add: replace_g_Nil [OF assms(1)])
next
  case (Cons c s)
  have "m st (c # s) = None" using Cons.prems [of st 0] by simp
  moreover have "m st (drop k s) = None" for k st using Cons.prems [of st "Suc k"] by simp
  ultimately show ?case using Cons.IH by (simp add: replace_g_miss)
qed

text \<open>If the replacement is always the matched text, nothing changes.\<close>

lemma replace_g_same:
  assumes "progressive m" "\<And>st s n g. m st s = Some (n, g) \<Longrightarrow> f (take n s) g = take n s"
  shows "replace_g m f st s = s"
proof (induction "length s" arbitrary: st s rule: less_induct)
  case less
  show ?case
  proof (cases "m st s")
    case None
    then show ?thesis
      using less by (cases s) (auto simp: replace_g_miss replace_g_Nil [OF assms(1)])
  next
    case (Some x)
    obtain n g where x: "m st s = Some (n, g)" using Some by (cases x) auto
    then have "0 < n" "n \<le> length s" using assms(1) by (auto simp: progressive_def)
    then have "replace_g m f False (drop n s) = drop n s" by (intro less) simp
    then show ?thesis using x assms by (simp add: replace_g_hit)
  qed
qed

section \<open>Bits\<close>

lemma or_disjoint:
  assumes "x < 2 ^ n"
  shows "x OR push_bit n y = x + push_bit n (y :: nat)"
proof (rule disjunctive_add_eq_or [symmetric], rule bit_eqI)
  fix i
  have "\<not> bit x i" if "n \<le> i"
    using assms that power_increasing [of n i "2 :: nat"] by (simp add: bit_iff_odd div_less order.strict_trans2)
  then show "bit (x AND push_bit n y) i = bit 0 i" by (auto simp: bit_and_iff bit_push_bit_iff)
qed

lemma unat_of_nat_u32: "n < 2 ^ 32 \<Longrightarrow> unat (of_nat n :: u32) = n"
  by (simp add: unat_of_nat)

lemma nibble: "unat (drop_bit k h AND 0x0F :: u32) = unat h div 2 ^ k mod 16"
proof -
  have "drop_bit k h AND 0x0F = take_bit 4 (drop_bit k h)" by (simp add: take_bit_eq_mask mask_eq_exp_minus_1)
  then show ?thesis by (simp only: unsigned_take_bit_eq unsigned_drop_bit_eq) (simp add: take_bit_eq_mod drop_bit_eq_div)
qed

lemma octet: "unat (drop_bit k h AND 0xFF :: u32) = unat h div 2 ^ k mod 256"
proof -
  have "drop_bit k h AND 0xFF = take_bit 8 (drop_bit k h)" by (simp add: take_bit_eq_mask mask_eq_exp_minus_1)
  then show ?thesis by (simp only: unsigned_take_bit_eq unsigned_drop_bit_eq) (simp add: take_bit_eq_mod drop_bit_eq_div)
qed

lemma and_low: "x AND 0x3f = x mod (64 :: nat)" "x AND 0x3ff = x mod (1024 :: nat)"
  using take_bit_eq_mask [of 6 x] take_bit_eq_mask [of 10 x] by (simp_all add: take_bit_eq_mod mask_eq_exp_minus_1)

end
