(* ===== verification/EmojiData.thy ===== *)
theory EmojiData
  imports JsBase
begin

text \<open>
  The tables of \<^verbatim>\<open>src/src/qt/res/assets/plugins/emojione/emojione.js\<close>: \<^verbatim>\<open>emojioneList\<close>,
  \<^verbatim>\<open>asciiList\<close> and \<^verbatim>\<open>jsEscapeMap\<close> with their properties in the order of the source, cut into consecutive
  pieces, and the literals that the alternations \<^verbatim>\<open>asciiRegexp\<close> and \<^verbatim>\<open>unicodeRegexp\<close> list, with the
  escapes resolved. The keys of \<^verbatim>\<open>jsEscapeMap\<close> are written as code units.
\<close>

datatype emoji = Emoji (unicode: "string list") (isCanonical: bool)

definition emojioneList_1 :: "(string \<times> emoji) list" where
  "emojioneList_1 =
    [('':kiss_ww:'', Emoji [''1f469-200d-2764-fe0f-200d-1f48b-200d-1f469'', ''1f469-2764-1f48b-1f469''] True),
     ('':couplekiss_ww:'', Emoji [''1f469-200d-2764-fe0f-200d-1f48b-200d-1f469'', ''1f469-2764-1f48b-1f469''] False),
     ('':kiss_mm:'', Emoji [''1f468-200d-2764-fe0f-200d-1f48b-200d-1f468'', ''1f468-2764-1f48b-1f468''] True),
     ('':couplekiss_mm:'', Emoji [''1f468-200d-2764-fe0f-200d-1f48b-200d-1f468'', ''1f468-2764-1f48b-1f468''] False),
     ('':family_mmbb:'', Emoji [''1f468-200d-1f468-200d-1f466-200d-1f466'', ''1f468-1f468-1f466-1f466''] True),
     ('':family_mmgb:'', Emoji [''1f468-200d-1f468-200d-1f467-200d-1f466'', ''1f468-1f468-1f467-1f466''] True),
     ('':family_mmgg:'', Emoji [''1f468-200d-1f468-200d-1f467-200d-1f467'', ''1f468-1f468-1f467-1f467''] True),
     ('':family_mwbb:'', Emoji [''1f468-200d-1f469-200d-1f466-200d-1f466'', ''1f468-1f469-1f466-1f466''] True),
     ('':family_mwgb:'', Emoji [''1f468-200d-1f469-200d-1f467-200d-1f466'', ''1f468-1f469-1f467-1f466''] True),
     ('':family_mwgg:'', Emoji [''1f468-200d-1f469-200d-1f467-200d-1f467'', ''1f468-1f469-1f467-1f467''] True),
     ('':family_wwbb:'', Emoji [''1f469-200d-1f469-200d-1f466-200d-1f466'', ''1f469-1f469-1f466-1f466''] True),
     ('':family_wwgb:'', Emoji [''1f469-200d-1f469-200d-1f467-200d-1f466'', ''1f469-1f469-1f467-1f466''] True),
     ('':family_wwgg:'', Emoji [''1f469-200d-1f469-200d-1f467-200d-1f467'', ''1f469-1f469-1f467-1f467''] True),
     ('':couple_ww:'', Emoji [''1f469-200d-2764-fe0f-200d-1f469'', ''1f469-2764-1f469''] True),
     ('':couple_with_heart_ww:'', Emoji [''1f469-200d-2764-fe0f-200d-1f469'', ''1f469-2764-1f469''] False),
     ('':couple_mm:'', Emoji [''1f468-200d-2764-fe0f-200d-1f468'', ''1f468-2764-1f468''] True),
     ('':couple_with_heart_mm:'', Emoji [''1f468-200d-2764-fe0f-200d-1f468'', ''1f468-2764-1f468''] False),
     ('':family_mmb:'', Emoji [''1f468-200d-1f468-200d-1f466'', ''1f468-1f468-1f466''] True),
     ('':family_mmg:'', Emoji [''1f468-200d-1f468-200d-1f467'', ''1f468-1f468-1f467''] True),
     ('':family_mwg:'', Emoji [''1f468-200d-1f469-200d-1f467'', ''1f468-1f469-1f467''] True),
     ('':family_wwb:'', Emoji [''1f469-200d-1f469-200d-1f466'', ''1f469-1f469-1f466''] True),
     ('':family_wwg:'', Emoji [''1f469-200d-1f469-200d-1f467'', ''1f469-1f469-1f467''] True),
     ('':eye_in_speech_bubble:'', Emoji [''1f441-200d-1f5e8'', ''1f441-1f5e8''] True),
     ('':hash:'', Emoji [''0023-fe0f-20e3'', ''0023-20e3''] True),
     ('':zero:'', Emoji [''0030-fe0f-20e3'', ''0030-20e3''] True),
     ('':one:'', Emoji [''0031-fe0f-20e3'', ''0031-20e3''] True),
     ('':two:'', Emoji [''0032-fe0f-20e3'', ''0032-20e3''] True),
     ('':three:'', Emoji [''0033-fe0f-20e3'', ''0033-20e3''] True),
     ('':four:'', Emoji [''0034-fe0f-20e3'', ''0034-20e3''] True),
     ('':five:'', Emoji [''0035-fe0f-20e3'', ''0035-20e3''] True),
     ('':six:'', Emoji [''0036-fe0f-20e3'', ''0036-20e3''] True),
     ('':seven:'', Emoji [''0037-fe0f-20e3'', ''0037-20e3''] True),
     ('':eight:'', Emoji [''0038-fe0f-20e3'', ''0038-20e3''] True),
     ('':nine:'', Emoji [''0039-fe0f-20e3'', ''0039-20e3''] True),
     ('':asterisk:'', Emoji [''002a-fe0f-20e3'', ''002a-20e3''] True),
     ('':keycap_asterisk:'', Emoji [''002a-fe0f-20e3'', ''002a-20e3''] False),
     ('':handball_tone5:'', Emoji [''1f93e-1f3ff''] True),
     ('':handball_tone4:'', Emoji [''1f93e-1f3fe''] True),
     ('':handball_tone3:'', Emoji [''1f93e-1f3fd''] True),
     ('':handball_tone2:'', Emoji [''1f93e-1f3fc''] True),
     ('':handball_tone1:'', Emoji [''1f93e-1f3fb''] True),
     ('':water_polo_tone5:'', Emoji [''1f93d-1f3ff''] True),
     ('':water_polo_tone4:'', Emoji [''1f93d-1f3fe''] True),
     ('':water_polo_tone3:'', Emoji [''1f93d-1f3fd''] True),
     ('':water_polo_tone2:'', Emoji [''1f93d-1f3fc''] True),
     ('':water_polo_tone1:'', Emoji [''1f93d-1f3fb''] True),
     ('':wrestlers_tone5:'', Emoji [''1f93c-1f3ff''] True),
     ('':wrestling_tone5:'', Emoji [''1f93c-1f3ff''] False),
     ('':wrestlers_tone4:'', Emoji [''1f93c-1f3fe''] True),
     ('':wrestling_tone4:'', Emoji [''1f93c-1f3fe''] False),
     ('':wrestlers_tone3:'', Emoji [''1f93c-1f3fd''] True),
     ('':wrestling_tone3:'', Emoji [''1f93c-1f3fd''] False),
     ('':wrestlers_tone2:'', Emoji [''1f93c-1f3fc''] True),
     ('':wrestling_tone2:'', Emoji [''1f93c-1f3fc''] False),
     ('':wrestlers_tone1:'', Emoji [''1f93c-1f3fb''] True),
     ('':wrestling_tone1:'', Emoji [''1f93c-1f3fb''] False),
     ('':juggling_tone5:'', Emoji [''1f939-1f3ff''] True),
     ('':juggler_tone5:'', Emoji [''1f939-1f3ff''] False),
     ('':juggling_tone4:'', Emoji [''1f939-1f3fe''] True),
     ('':juggler_tone4:'', Emoji [''1f939-1f3fe''] False),
     ('':juggling_tone3:'', Emoji [''1f939-1f3fd''] True),
     ('':juggler_tone3:'', Emoji [''1f939-1f3fd''] False),
     ('':juggling_tone2:'', Emoji [''1f939-1f3fc''] True),
     ('':juggler_tone2:'', Emoji [''1f939-1f3fc''] False),
     ('':juggling_tone1:'', Emoji [''1f939-1f3fb''] True),
     ('':juggler_tone1:'', Emoji [''1f939-1f3fb''] False),
     ('':cartwheel_tone5:'', Emoji [''1f938-1f3ff''] True),
     ('':person_doing_cartwheel_tone5:'', Emoji [''1f938-1f3ff''] False),
     ('':cartwheel_tone4:'', Emoji [''1f938-1f3fe''] True),
     ('':person_doing_cartwheel_tone4:'', Emoji [''1f938-1f3fe''] False),
     ('':cartwheel_tone3:'', Emoji [''1f938-1f3fd''] True),
     ('':person_doing_cartwheel_tone3:'', Emoji [''1f938-1f3fd''] False),
     ('':cartwheel_tone2:'', Emoji [''1f938-1f3fc''] True),
     ('':person_doing_cartwheel_tone2:'', Emoji [''1f938-1f3fc''] False),
     ('':cartwheel_tone1:'', Emoji [''1f938-1f3fb''] True),
     ('':person_doing_cartwheel_tone1:'', Emoji [''1f938-1f3fb''] False),
     ('':shrug_tone5:'', Emoji [''1f937-1f3ff''] True),
     ('':shrug_tone4:'', Emoji [''1f937-1f3fe''] True),
     ('':shrug_tone3:'', Emoji [''1f937-1f3fd''] True),
     ('':shrug_tone2:'', Emoji [''1f937-1f3fc''] True),
     ('':shrug_tone1:'', Emoji [''1f937-1f3fb''] True),
     ('':mrs_claus_tone5:'', Emoji [''1f936-1f3ff''] True),
     ('':mother_christmas_tone5:'', Emoji [''1f936-1f3ff''] False),
     ('':mrs_claus_tone4:'', Emoji [''1f936-1f3fe''] True),
     ('':mother_christmas_tone4:'', Emoji [''1f936-1f3fe''] False),
     ('':mrs_claus_tone3:'', Emoji [''1f936-1f3fd''] True),
     ('':mother_christmas_tone3:'', Emoji [''1f936-1f3fd''] False),
     ('':mrs_claus_tone2:'', Emoji [''1f936-1f3fc''] True),
     ('':mother_christmas_tone2:'', Emoji [''1f936-1f3fc''] False),
     ('':mrs_claus_tone1:'', Emoji [''1f936-1f3fb''] True),
     ('':mother_christmas_tone1:'', Emoji [''1f936-1f3fb''] False),
     ('':man_in_tuxedo_tone5:'', Emoji [''1f935-1f3ff''] True),
     ('':tuxedo_tone5:'', Emoji [''1f935-1f3ff''] False),
     ('':man_in_tuxedo_tone4:'', Emoji [''1f935-1f3fe''] True),
     ('':tuxedo_tone4:'', Emoji [''1f935-1f3fe''] False),
     ('':man_in_tuxedo_tone3:'', Emoji [''1f935-1f3fd''] True),
     ('':tuxedo_tone3:'', Emoji [''1f935-1f3fd''] False),
     ('':man_in_tuxedo_tone2:'', Emoji [''1f935-1f3fc''] True),
     ('':tuxedo_tone2:'', Emoji [''1f935-1f3fc''] False),
     ('':man_in_tuxedo_tone1:'', Emoji [''1f935-1f3fb''] True),
     ('':tuxedo_tone1:'', Emoji [''1f935-1f3fb''] False),
     ('':prince_tone5:'', Emoji [''1f934-1f3ff''] True),
     ('':prince_tone4:'', Emoji [''1f934-1f3fe''] True)]"

definition emojioneList_2 :: "(string \<times> emoji) list" where
  "emojioneList_2 =
    [('':prince_tone3:'', Emoji [''1f934-1f3fd''] True),
     ('':prince_tone2:'', Emoji [''1f934-1f3fc''] True),
     ('':prince_tone1:'', Emoji [''1f934-1f3fb''] True),
     ('':selfie_tone5:'', Emoji [''1f933-1f3ff''] True),
     ('':selfie_tone4:'', Emoji [''1f933-1f3fe''] True),
     ('':selfie_tone3:'', Emoji [''1f933-1f3fd''] True),
     ('':selfie_tone2:'', Emoji [''1f933-1f3fc''] True),
     ('':selfie_tone1:'', Emoji [''1f933-1f3fb''] True),
     ('':pregnant_woman_tone5:'', Emoji [''1f930-1f3ff''] True),
     ('':expecting_woman_tone5:'', Emoji [''1f930-1f3ff''] False),
     ('':pregnant_woman_tone4:'', Emoji [''1f930-1f3fe''] True),
     ('':expecting_woman_tone4:'', Emoji [''1f930-1f3fe''] False),
     ('':pregnant_woman_tone3:'', Emoji [''1f930-1f3fd''] True),
     ('':expecting_woman_tone3:'', Emoji [''1f930-1f3fd''] False),
     ('':pregnant_woman_tone2:'', Emoji [''1f930-1f3fc''] True),
     ('':expecting_woman_tone2:'', Emoji [''1f930-1f3fc''] False),
     ('':pregnant_woman_tone1:'', Emoji [''1f930-1f3fb''] True),
     ('':expecting_woman_tone1:'', Emoji [''1f930-1f3fb''] False),
     ('':face_palm_tone5:'', Emoji [''1f926-1f3ff''] True),
     ('':facepalm_tone5:'', Emoji [''1f926-1f3ff''] False),
     ('':face_palm_tone4:'', Emoji [''1f926-1f3fe''] True),
     ('':facepalm_tone4:'', Emoji [''1f926-1f3fe''] False),
     ('':face_palm_tone3:'', Emoji [''1f926-1f3fd''] True),
     ('':facepalm_tone3:'', Emoji [''1f926-1f3fd''] False),
     ('':face_palm_tone2:'', Emoji [''1f926-1f3fc''] True),
     ('':facepalm_tone2:'', Emoji [''1f926-1f3fc''] False),
     ('':face_palm_tone1:'', Emoji [''1f926-1f3fb''] True),
     ('':facepalm_tone1:'', Emoji [''1f926-1f3fb''] False),
     ('':fingers_crossed_tone5:'', Emoji [''1f91e-1f3ff''] True),
     ('':hand_with_index_and_middle_fingers_crossed_tone5:'', Emoji [''1f91e-1f3ff''] False),
     ('':fingers_crossed_tone4:'', Emoji [''1f91e-1f3fe''] True),
     ('':hand_with_index_and_middle_fingers_crossed_tone4:'', Emoji [''1f91e-1f3fe''] False),
     ('':fingers_crossed_tone3:'', Emoji [''1f91e-1f3fd''] True),
     ('':hand_with_index_and_middle_fingers_crossed_tone3:'', Emoji [''1f91e-1f3fd''] False),
     ('':fingers_crossed_tone2:'', Emoji [''1f91e-1f3fc''] True),
     ('':hand_with_index_and_middle_fingers_crossed_tone2:'', Emoji [''1f91e-1f3fc''] False),
     ('':fingers_crossed_tone1:'', Emoji [''1f91e-1f3fb''] True),
     ('':hand_with_index_and_middle_fingers_crossed_tone1:'', Emoji [''1f91e-1f3fb''] False),
     ('':handshake_tone5:'', Emoji [''1f91d-1f3ff''] True),
     ('':shaking_hands_tone5:'', Emoji [''1f91d-1f3ff''] False),
     ('':handshake_tone4:'', Emoji [''1f91d-1f3fe''] True),
     ('':shaking_hands_tone4:'', Emoji [''1f91d-1f3fe''] False),
     ('':handshake_tone3:'', Emoji [''1f91d-1f3fd''] True),
     ('':shaking_hands_tone3:'', Emoji [''1f91d-1f3fd''] False),
     ('':handshake_tone2:'', Emoji [''1f91d-1f3fc''] True),
     ('':shaking_hands_tone2:'', Emoji [''1f91d-1f3fc''] False),
     ('':handshake_tone1:'', Emoji [''1f91d-1f3fb''] True),
     ('':shaking_hands_tone1:'', Emoji [''1f91d-1f3fb''] False),
     ('':right_facing_fist_tone5:'', Emoji [''1f91c-1f3ff''] True),
     ('':right_fist_tone5:'', Emoji [''1f91c-1f3ff''] False),
     ('':right_facing_fist_tone4:'', Emoji [''1f91c-1f3fe''] True),
     ('':right_fist_tone4:'', Emoji [''1f91c-1f3fe''] False),
     ('':right_facing_fist_tone3:'', Emoji [''1f91c-1f3fd''] True),
     ('':right_fist_tone3:'', Emoji [''1f91c-1f3fd''] False),
     ('':right_facing_fist_tone2:'', Emoji [''1f91c-1f3fc''] True),
     ('':right_fist_tone2:'', Emoji [''1f91c-1f3fc''] False),
     ('':right_facing_fist_tone1:'', Emoji [''1f91c-1f3fb''] True),
     ('':right_fist_tone1:'', Emoji [''1f91c-1f3fb''] False),
     ('':left_facing_fist_tone5:'', Emoji [''1f91b-1f3ff''] True),
     ('':left_fist_tone5:'', Emoji [''1f91b-1f3ff''] False),
     ('':left_facing_fist_tone4:'', Emoji [''1f91b-1f3fe''] True),
     ('':left_fist_tone4:'', Emoji [''1f91b-1f3fe''] False),
     ('':left_facing_fist_tone3:'', Emoji [''1f91b-1f3fd''] True),
     ('':left_fist_tone3:'', Emoji [''1f91b-1f3fd''] False),
     ('':left_facing_fist_tone2:'', Emoji [''1f91b-1f3fc''] True),
     ('':left_fist_tone2:'', Emoji [''1f91b-1f3fc''] False),
     ('':left_facing_fist_tone1:'', Emoji [''1f91b-1f3fb''] True),
     ('':left_fist_tone1:'', Emoji [''1f91b-1f3fb''] False),
     ('':raised_back_of_hand_tone5:'', Emoji [''1f91a-1f3ff''] True),
     ('':back_of_hand_tone5:'', Emoji [''1f91a-1f3ff''] False),
     ('':raised_back_of_hand_tone4:'', Emoji [''1f91a-1f3fe''] True),
     ('':back_of_hand_tone4:'', Emoji [''1f91a-1f3fe''] False),
     ('':raised_back_of_hand_tone3:'', Emoji [''1f91a-1f3fd''] True),
     ('':back_of_hand_tone3:'', Emoji [''1f91a-1f3fd''] False),
     ('':raised_back_of_hand_tone2:'', Emoji [''1f91a-1f3fc''] True),
     ('':back_of_hand_tone2:'', Emoji [''1f91a-1f3fc''] False),
     ('':raised_back_of_hand_tone1:'', Emoji [''1f91a-1f3fb''] True),
     ('':back_of_hand_tone1:'', Emoji [''1f91a-1f3fb''] False),
     ('':call_me_tone5:'', Emoji [''1f919-1f3ff''] True),
     ('':call_me_hand_tone5:'', Emoji [''1f919-1f3ff''] False),
     ('':call_me_tone4:'', Emoji [''1f919-1f3fe''] True),
     ('':call_me_hand_tone4:'', Emoji [''1f919-1f3fe''] False),
     ('':call_me_tone3:'', Emoji [''1f919-1f3fd''] True),
     ('':call_me_hand_tone3:'', Emoji [''1f919-1f3fd''] False),
     ('':call_me_tone2:'', Emoji [''1f919-1f3fc''] True),
     ('':call_me_hand_tone2:'', Emoji [''1f919-1f3fc''] False),
     ('':call_me_tone1:'', Emoji [''1f919-1f3fb''] True),
     ('':call_me_hand_tone1:'', Emoji [''1f919-1f3fb''] False),
     ('':metal_tone5:'', Emoji [''1f918-1f3ff''] True),
     ('':sign_of_the_horns_tone5:'', Emoji [''1f918-1f3ff''] False),
     ('':metal_tone4:'', Emoji [''1f918-1f3fe''] True),
     ('':sign_of_the_horns_tone4:'', Emoji [''1f918-1f3fe''] False),
     ('':metal_tone3:'', Emoji [''1f918-1f3fd''] True),
     ('':sign_of_the_horns_tone3:'', Emoji [''1f918-1f3fd''] False),
     ('':metal_tone2:'', Emoji [''1f918-1f3fc''] True),
     ('':sign_of_the_horns_tone2:'', Emoji [''1f918-1f3fc''] False),
     ('':metal_tone1:'', Emoji [''1f918-1f3fb''] True),
     ('':sign_of_the_horns_tone1:'', Emoji [''1f918-1f3fb''] False),
     ('':bath_tone5:'', Emoji [''1f6c0-1f3ff''] True),
     ('':bath_tone4:'', Emoji [''1f6c0-1f3fe''] True),
     ('':bath_tone3:'', Emoji [''1f6c0-1f3fd''] True),
     ('':bath_tone2:'', Emoji [''1f6c0-1f3fc''] True),
     ('':bath_tone1:'', Emoji [''1f6c0-1f3fb''] True),
     ('':walking_tone5:'', Emoji [''1f6b6-1f3ff''] True),
     ('':walking_tone4:'', Emoji [''1f6b6-1f3fe''] True),
     ('':walking_tone3:'', Emoji [''1f6b6-1f3fd''] True),
     ('':walking_tone2:'', Emoji [''1f6b6-1f3fc''] True),
     ('':walking_tone1:'', Emoji [''1f6b6-1f3fb''] True),
     ('':mountain_bicyclist_tone5:'', Emoji [''1f6b5-1f3ff''] True),
     ('':mountain_bicyclist_tone4:'', Emoji [''1f6b5-1f3fe''] True),
     ('':mountain_bicyclist_tone3:'', Emoji [''1f6b5-1f3fd''] True),
     ('':mountain_bicyclist_tone2:'', Emoji [''1f6b5-1f3fc''] True),
     ('':mountain_bicyclist_tone1:'', Emoji [''1f6b5-1f3fb''] True),
     ('':bicyclist_tone5:'', Emoji [''1f6b4-1f3ff''] True),
     ('':bicyclist_tone4:'', Emoji [''1f6b4-1f3fe''] True),
     ('':bicyclist_tone3:'', Emoji [''1f6b4-1f3fd''] True),
     ('':bicyclist_tone2:'', Emoji [''1f6b4-1f3fc''] True),
     ('':bicyclist_tone1:'', Emoji [''1f6b4-1f3fb''] True),
     ('':rowboat_tone5:'', Emoji [''1f6a3-1f3ff''] True),
     ('':rowboat_tone4:'', Emoji [''1f6a3-1f3fe''] True),
     ('':rowboat_tone3:'', Emoji [''1f6a3-1f3fd''] True),
     ('':rowboat_tone2:'', Emoji [''1f6a3-1f3fc''] True),
     ('':rowboat_tone1:'', Emoji [''1f6a3-1f3fb''] True),
     ('':pray_tone5:'', Emoji [''1f64f-1f3ff''] True),
     ('':pray_tone4:'', Emoji [''1f64f-1f3fe''] True),
     ('':pray_tone3:'', Emoji [''1f64f-1f3fd''] True),
     ('':pray_tone2:'', Emoji [''1f64f-1f3fc''] True),
     ('':pray_tone1:'', Emoji [''1f64f-1f3fb''] True),
     ('':person_with_pouting_face_tone5:'', Emoji [''1f64e-1f3ff''] True),
     ('':person_with_pouting_face_tone4:'', Emoji [''1f64e-1f3fe''] True),
     ('':person_with_pouting_face_tone3:'', Emoji [''1f64e-1f3fd''] True),
     ('':person_with_pouting_face_tone2:'', Emoji [''1f64e-1f3fc''] True),
     ('':person_with_pouting_face_tone1:'', Emoji [''1f64e-1f3fb''] True),
     ('':person_frowning_tone5:'', Emoji [''1f64d-1f3ff''] True),
     ('':person_frowning_tone4:'', Emoji [''1f64d-1f3fe''] True),
     ('':person_frowning_tone3:'', Emoji [''1f64d-1f3fd''] True),
     ('':person_frowning_tone2:'', Emoji [''1f64d-1f3fc''] True),
     ('':person_frowning_tone1:'', Emoji [''1f64d-1f3fb''] True),
     ('':raised_hands_tone5:'', Emoji [''1f64c-1f3ff''] True),
     ('':raised_hands_tone4:'', Emoji [''1f64c-1f3fe''] True),
     ('':raised_hands_tone3:'', Emoji [''1f64c-1f3fd''] True),
     ('':raised_hands_tone2:'', Emoji [''1f64c-1f3fc''] True),
     ('':raised_hands_tone1:'', Emoji [''1f64c-1f3fb''] True),
     ('':raising_hand_tone5:'', Emoji [''1f64b-1f3ff''] True),
     ('':raising_hand_tone4:'', Emoji [''1f64b-1f3fe''] True),
     ('':raising_hand_tone3:'', Emoji [''1f64b-1f3fd''] True),
     ('':raising_hand_tone2:'', Emoji [''1f64b-1f3fc''] True),
     ('':raising_hand_tone1:'', Emoji [''1f64b-1f3fb''] True)]"

definition emojioneList_3 :: "(string \<times> emoji) list" where
  "emojioneList_3 =
    [('':bow_tone5:'', Emoji [''1f647-1f3ff''] True),
     ('':bow_tone4:'', Emoji [''1f647-1f3fe''] True),
     ('':bow_tone3:'', Emoji [''1f647-1f3fd''] True),
     ('':bow_tone2:'', Emoji [''1f647-1f3fc''] True),
     ('':bow_tone1:'', Emoji [''1f647-1f3fb''] True),
     ('':ok_woman_tone5:'', Emoji [''1f646-1f3ff''] True),
     ('':ok_woman_tone4:'', Emoji [''1f646-1f3fe''] True),
     ('':ok_woman_tone3:'', Emoji [''1f646-1f3fd''] True),
     ('':ok_woman_tone2:'', Emoji [''1f646-1f3fc''] True),
     ('':ok_woman_tone1:'', Emoji [''1f646-1f3fb''] True),
     ('':no_good_tone5:'', Emoji [''1f645-1f3ff''] True),
     ('':no_good_tone4:'', Emoji [''1f645-1f3fe''] True),
     ('':no_good_tone3:'', Emoji [''1f645-1f3fd''] True),
     ('':no_good_tone2:'', Emoji [''1f645-1f3fc''] True),
     ('':no_good_tone1:'', Emoji [''1f645-1f3fb''] True),
     ('':vulcan_tone5:'', Emoji [''1f596-1f3ff''] True),
     ('':raised_hand_with_part_between_middle_and_ring_fingers_tone5:'', Emoji [''1f596-1f3ff''] False),
     ('':vulcan_tone4:'', Emoji [''1f596-1f3fe''] True),
     ('':raised_hand_with_part_between_middle_and_ring_fingers_tone4:'', Emoji [''1f596-1f3fe''] False),
     ('':vulcan_tone3:'', Emoji [''1f596-1f3fd''] True),
     ('':raised_hand_with_part_between_middle_and_ring_fingers_tone3:'', Emoji [''1f596-1f3fd''] False),
     ('':vulcan_tone2:'', Emoji [''1f596-1f3fc''] True),
     ('':raised_hand_with_part_between_middle_and_ring_fingers_tone2:'', Emoji [''1f596-1f3fc''] False),
     ('':vulcan_tone1:'', Emoji [''1f596-1f3fb''] True),
     ('':raised_hand_with_part_between_middle_and_ring_fingers_tone1:'', Emoji [''1f596-1f3fb''] False),
     ('':middle_finger_tone5:'', Emoji [''1f595-1f3ff''] True),
     ('':reversed_hand_with_middle_finger_extended_tone5:'', Emoji [''1f595-1f3ff''] False),
     ('':middle_finger_tone4:'', Emoji [''1f595-1f3fe''] True),
     ('':reversed_hand_with_middle_finger_extended_tone4:'', Emoji [''1f595-1f3fe''] False),
     ('':middle_finger_tone3:'', Emoji [''1f595-1f3fd''] True),
     ('':reversed_hand_with_middle_finger_extended_tone3:'', Emoji [''1f595-1f3fd''] False),
     ('':middle_finger_tone2:'', Emoji [''1f595-1f3fc''] True),
     ('':reversed_hand_with_middle_finger_extended_tone2:'', Emoji [''1f595-1f3fc''] False),
     ('':middle_finger_tone1:'', Emoji [''1f595-1f3fb''] True),
     ('':reversed_hand_with_middle_finger_extended_tone1:'', Emoji [''1f595-1f3fb''] False),
     ('':hand_splayed_tone5:'', Emoji [''1f590-1f3ff''] True),
     ('':raised_hand_with_fingers_splayed_tone5:'', Emoji [''1f590-1f3ff''] False),
     ('':hand_splayed_tone4:'', Emoji [''1f590-1f3fe''] True),
     ('':raised_hand_with_fingers_splayed_tone4:'', Emoji [''1f590-1f3fe''] False),
     ('':hand_splayed_tone3:'', Emoji [''1f590-1f3fd''] True),
     ('':raised_hand_with_fingers_splayed_tone3:'', Emoji [''1f590-1f3fd''] False),
     ('':hand_splayed_tone2:'', Emoji [''1f590-1f3fc''] True),
     ('':raised_hand_with_fingers_splayed_tone2:'', Emoji [''1f590-1f3fc''] False),
     ('':hand_splayed_tone1:'', Emoji [''1f590-1f3fb''] True),
     ('':raised_hand_with_fingers_splayed_tone1:'', Emoji [''1f590-1f3fb''] False),
     ('':man_dancing_tone5:'', Emoji [''1f57a-1f3ff''] True),
     ('':male_dancer_tone5:'', Emoji [''1f57a-1f3ff''] False),
     ('':man_dancing_tone4:'', Emoji [''1f57a-1f3fe''] True),
     ('':male_dancer_tone4:'', Emoji [''1f57a-1f3fe''] False),
     ('':man_dancing_tone3:'', Emoji [''1f57a-1f3fd''] True),
     ('':male_dancer_tone3:'', Emoji [''1f57a-1f3fd''] False),
     ('':man_dancing_tone2:'', Emoji [''1f57a-1f3fc''] True),
     ('':male_dancer_tone2:'', Emoji [''1f57a-1f3fc''] False),
     ('':man_dancing_tone1:'', Emoji [''1f57a-1f3fb''] True),
     ('':male_dancer_tone1:'', Emoji [''1f57a-1f3fb''] False),
     ('':spy_tone5:'', Emoji [''1f575-1f3ff''] True),
     ('':sleuth_or_spy_tone5:'', Emoji [''1f575-1f3ff''] False),
     ('':spy_tone4:'', Emoji [''1f575-1f3fe''] True),
     ('':sleuth_or_spy_tone4:'', Emoji [''1f575-1f3fe''] False),
     ('':spy_tone3:'', Emoji [''1f575-1f3fd''] True),
     ('':sleuth_or_spy_tone3:'', Emoji [''1f575-1f3fd''] False),
     ('':spy_tone2:'', Emoji [''1f575-1f3fc''] True),
     ('':sleuth_or_spy_tone2:'', Emoji [''1f575-1f3fc''] False),
     ('':spy_tone1:'', Emoji [''1f575-1f3fb''] True),
     ('':sleuth_or_spy_tone1:'', Emoji [''1f575-1f3fb''] False),
     ('':muscle_tone5:'', Emoji [''1f4aa-1f3ff''] True),
     ('':muscle_tone4:'', Emoji [''1f4aa-1f3fe''] True),
     ('':muscle_tone3:'', Emoji [''1f4aa-1f3fd''] True),
     ('':muscle_tone2:'', Emoji [''1f4aa-1f3fc''] True),
     ('':muscle_tone1:'', Emoji [''1f4aa-1f3fb''] True),
     ('':haircut_tone5:'', Emoji [''1f487-1f3ff''] True),
     ('':haircut_tone4:'', Emoji [''1f487-1f3fe''] True),
     ('':haircut_tone3:'', Emoji [''1f487-1f3fd''] True),
     ('':haircut_tone2:'', Emoji [''1f487-1f3fc''] True),
     ('':haircut_tone1:'', Emoji [''1f487-1f3fb''] True),
     ('':massage_tone5:'', Emoji [''1f486-1f3ff''] True),
     ('':massage_tone4:'', Emoji [''1f486-1f3fe''] True),
     ('':massage_tone3:'', Emoji [''1f486-1f3fd''] True),
     ('':massage_tone2:'', Emoji [''1f486-1f3fc''] True),
     ('':massage_tone1:'', Emoji [''1f486-1f3fb''] True),
     ('':nail_care_tone5:'', Emoji [''1f485-1f3ff''] True),
     ('':nail_care_tone4:'', Emoji [''1f485-1f3fe''] True),
     ('':nail_care_tone3:'', Emoji [''1f485-1f3fd''] True),
     ('':nail_care_tone2:'', Emoji [''1f485-1f3fc''] True),
     ('':nail_care_tone1:'', Emoji [''1f485-1f3fb''] True),
     ('':dancer_tone5:'', Emoji [''1f483-1f3ff''] True),
     ('':dancer_tone4:'', Emoji [''1f483-1f3fe''] True),
     ('':dancer_tone3:'', Emoji [''1f483-1f3fd''] True),
     ('':dancer_tone2:'', Emoji [''1f483-1f3fc''] True),
     ('':dancer_tone1:'', Emoji [''1f483-1f3fb''] True),
     ('':guardsman_tone5:'', Emoji [''1f482-1f3ff''] True),
     ('':guardsman_tone4:'', Emoji [''1f482-1f3fe''] True),
     ('':guardsman_tone3:'', Emoji [''1f482-1f3fd''] True),
     ('':guardsman_tone2:'', Emoji [''1f482-1f3fc''] True),
     ('':guardsman_tone1:'', Emoji [''1f482-1f3fb''] True),
     ('':information_desk_person_tone5:'', Emoji [''1f481-1f3ff''] True),
     ('':information_desk_person_tone4:'', Emoji [''1f481-1f3fe''] True),
     ('':information_desk_person_tone3:'', Emoji [''1f481-1f3fd''] True),
     ('':information_desk_person_tone2:'', Emoji [''1f481-1f3fc''] True),
     ('':information_desk_person_tone1:'', Emoji [''1f481-1f3fb''] True),
     ('':angel_tone5:'', Emoji [''1f47c-1f3ff''] True),
     ('':angel_tone4:'', Emoji [''1f47c-1f3fe''] True),
     ('':angel_tone3:'', Emoji [''1f47c-1f3fd''] True),
     ('':angel_tone2:'', Emoji [''1f47c-1f3fc''] True),
     ('':angel_tone1:'', Emoji [''1f47c-1f3fb''] True),
     ('':princess_tone5:'', Emoji [''1f478-1f3ff''] True),
     ('':princess_tone4:'', Emoji [''1f478-1f3fe''] True),
     ('':princess_tone3:'', Emoji [''1f478-1f3fd''] True),
     ('':princess_tone2:'', Emoji [''1f478-1f3fc''] True),
     ('':princess_tone1:'', Emoji [''1f478-1f3fb''] True),
     ('':construction_worker_tone5:'', Emoji [''1f477-1f3ff''] True),
     ('':construction_worker_tone4:'', Emoji [''1f477-1f3fe''] True),
     ('':construction_worker_tone3:'', Emoji [''1f477-1f3fd''] True),
     ('':construction_worker_tone2:'', Emoji [''1f477-1f3fc''] True),
     ('':construction_worker_tone1:'', Emoji [''1f477-1f3fb''] True),
     ('':baby_tone5:'', Emoji [''1f476-1f3ff''] True),
     ('':baby_tone4:'', Emoji [''1f476-1f3fe''] True),
     ('':baby_tone3:'', Emoji [''1f476-1f3fd''] True),
     ('':baby_tone2:'', Emoji [''1f476-1f3fc''] True),
     ('':baby_tone1:'', Emoji [''1f476-1f3fb''] True),
     ('':older_woman_tone5:'', Emoji [''1f475-1f3ff''] True),
     ('':grandma_tone5:'', Emoji [''1f475-1f3ff''] False),
     ('':older_woman_tone4:'', Emoji [''1f475-1f3fe''] True),
     ('':grandma_tone4:'', Emoji [''1f475-1f3fe''] False),
     ('':older_woman_tone3:'', Emoji [''1f475-1f3fd''] True),
     ('':grandma_tone3:'', Emoji [''1f475-1f3fd''] False),
     ('':older_woman_tone2:'', Emoji [''1f475-1f3fc''] True),
     ('':grandma_tone2:'', Emoji [''1f475-1f3fc''] False),
     ('':older_woman_tone1:'', Emoji [''1f475-1f3fb''] True),
     ('':grandma_tone1:'', Emoji [''1f475-1f3fb''] False),
     ('':older_man_tone5:'', Emoji [''1f474-1f3ff''] True),
     ('':older_man_tone4:'', Emoji [''1f474-1f3fe''] True),
     ('':older_man_tone3:'', Emoji [''1f474-1f3fd''] True)]"

definition emojioneList_4 :: "(string \<times> emoji) list" where
  "emojioneList_4 =
    [('':older_man_tone2:'', Emoji [''1f474-1f3fc''] True),
     ('':older_man_tone1:'', Emoji [''1f474-1f3fb''] True),
     ('':man_with_turban_tone5:'', Emoji [''1f473-1f3ff''] True),
     ('':man_with_turban_tone4:'', Emoji [''1f473-1f3fe''] True),
     ('':man_with_turban_tone3:'', Emoji [''1f473-1f3fd''] True),
     ('':man_with_turban_tone2:'', Emoji [''1f473-1f3fc''] True),
     ('':man_with_turban_tone1:'', Emoji [''1f473-1f3fb''] True),
     ('':man_with_gua_pi_mao_tone5:'', Emoji [''1f472-1f3ff''] True),
     ('':man_with_gua_pi_mao_tone4:'', Emoji [''1f472-1f3fe''] True),
     ('':man_with_gua_pi_mao_tone3:'', Emoji [''1f472-1f3fd''] True),
     ('':man_with_gua_pi_mao_tone2:'', Emoji [''1f472-1f3fc''] True),
     ('':man_with_gua_pi_mao_tone1:'', Emoji [''1f472-1f3fb''] True),
     ('':person_with_blond_hair_tone5:'', Emoji [''1f471-1f3ff''] True),
     ('':person_with_blond_hair_tone4:'', Emoji [''1f471-1f3fe''] True),
     ('':person_with_blond_hair_tone3:'', Emoji [''1f471-1f3fd''] True),
     ('':person_with_blond_hair_tone2:'', Emoji [''1f471-1f3fc''] True),
     ('':person_with_blond_hair_tone1:'', Emoji [''1f471-1f3fb''] True),
     ('':bride_with_veil_tone5:'', Emoji [''1f470-1f3ff''] True),
     ('':bride_with_veil_tone4:'', Emoji [''1f470-1f3fe''] True),
     ('':bride_with_veil_tone3:'', Emoji [''1f470-1f3fd''] True),
     ('':bride_with_veil_tone2:'', Emoji [''1f470-1f3fc''] True),
     ('':bride_with_veil_tone1:'', Emoji [''1f470-1f3fb''] True),
     ('':cop_tone5:'', Emoji [''1f46e-1f3ff''] True),
     ('':cop_tone4:'', Emoji [''1f46e-1f3fe''] True),
     ('':cop_tone3:'', Emoji [''1f46e-1f3fd''] True),
     ('':cop_tone2:'', Emoji [''1f46e-1f3fc''] True),
     ('':cop_tone1:'', Emoji [''1f46e-1f3fb''] True),
     ('':woman_tone5:'', Emoji [''1f469-1f3ff''] True),
     ('':woman_tone4:'', Emoji [''1f469-1f3fe''] True),
     ('':woman_tone3:'', Emoji [''1f469-1f3fd''] True),
     ('':woman_tone2:'', Emoji [''1f469-1f3fc''] True),
     ('':woman_tone1:'', Emoji [''1f469-1f3fb''] True),
     ('':man_tone5:'', Emoji [''1f468-1f3ff''] True),
     ('':man_tone4:'', Emoji [''1f468-1f3fe''] True),
     ('':man_tone3:'', Emoji [''1f468-1f3fd''] True),
     ('':man_tone2:'', Emoji [''1f468-1f3fc''] True),
     ('':man_tone1:'', Emoji [''1f468-1f3fb''] True),
     ('':girl_tone5:'', Emoji [''1f467-1f3ff''] True),
     ('':girl_tone4:'', Emoji [''1f467-1f3fe''] True),
     ('':girl_tone3:'', Emoji [''1f467-1f3fd''] True),
     ('':girl_tone2:'', Emoji [''1f467-1f3fc''] True),
     ('':girl_tone1:'', Emoji [''1f467-1f3fb''] True),
     ('':boy_tone5:'', Emoji [''1f466-1f3ff''] True),
     ('':boy_tone4:'', Emoji [''1f466-1f3fe''] True),
     ('':boy_tone3:'', Emoji [''1f466-1f3fd''] True),
     ('':boy_tone2:'', Emoji [''1f466-1f3fc''] True),
     ('':boy_tone1:'', Emoji [''1f466-1f3fb''] True),
     ('':open_hands_tone5:'', Emoji [''1f450-1f3ff''] True),
     ('':open_hands_tone4:'', Emoji [''1f450-1f3fe''] True),
     ('':open_hands_tone3:'', Emoji [''1f450-1f3fd''] True),
     ('':open_hands_tone2:'', Emoji [''1f450-1f3fc''] True),
     ('':open_hands_tone1:'', Emoji [''1f450-1f3fb''] True),
     ('':clap_tone5:'', Emoji [''1f44f-1f3ff''] True),
     ('':clap_tone4:'', Emoji [''1f44f-1f3fe''] True),
     ('':clap_tone3:'', Emoji [''1f44f-1f3fd''] True),
     ('':clap_tone2:'', Emoji [''1f44f-1f3fc''] True),
     ('':clap_tone1:'', Emoji [''1f44f-1f3fb''] True),
     ('':thumbsdown_tone5:'', Emoji [''1f44e-1f3ff''] True),
     ('':-1_tone5:'', Emoji [''1f44e-1f3ff''] False),
     ('':thumbdown_tone5:'', Emoji [''1f44e-1f3ff''] False),
     ('':thumbsdown_tone4:'', Emoji [''1f44e-1f3fe''] True),
     ('':-1_tone4:'', Emoji [''1f44e-1f3fe''] False),
     ('':thumbdown_tone4:'', Emoji [''1f44e-1f3fe''] False),
     ('':thumbsdown_tone3:'', Emoji [''1f44e-1f3fd''] True),
     ('':-1_tone3:'', Emoji [''1f44e-1f3fd''] False),
     ('':thumbdown_tone3:'', Emoji [''1f44e-1f3fd''] False),
     ('':thumbsdown_tone2:'', Emoji [''1f44e-1f3fc''] True),
     ('':-1_tone2:'', Emoji [''1f44e-1f3fc''] False),
     ('':thumbdown_tone2:'', Emoji [''1f44e-1f3fc''] False),
     ('':thumbsdown_tone1:'', Emoji [''1f44e-1f3fb''] True),
     ('':-1_tone1:'', Emoji [''1f44e-1f3fb''] False),
     ('':thumbdown_tone1:'', Emoji [''1f44e-1f3fb''] False),
     ('':thumbsup_tone5:'', Emoji [''1f44d-1f3ff''] True),
     ('':+1_tone5:'', Emoji [''1f44d-1f3ff''] False),
     ('':thumbup_tone5:'', Emoji [''1f44d-1f3ff''] False),
     ('':thumbsup_tone4:'', Emoji [''1f44d-1f3fe''] True),
     ('':+1_tone4:'', Emoji [''1f44d-1f3fe''] False),
     ('':thumbup_tone4:'', Emoji [''1f44d-1f3fe''] False),
     ('':thumbsup_tone3:'', Emoji [''1f44d-1f3fd''] True),
     ('':+1_tone3:'', Emoji [''1f44d-1f3fd''] False),
     ('':thumbup_tone3:'', Emoji [''1f44d-1f3fd''] False),
     ('':thumbsup_tone2:'', Emoji [''1f44d-1f3fc''] True),
     ('':+1_tone2:'', Emoji [''1f44d-1f3fc''] False),
     ('':thumbup_tone2:'', Emoji [''1f44d-1f3fc''] False),
     ('':thumbsup_tone1:'', Emoji [''1f44d-1f3fb''] True),
     ('':+1_tone1:'', Emoji [''1f44d-1f3fb''] False),
     ('':thumbup_tone1:'', Emoji [''1f44d-1f3fb''] False),
     ('':ok_hand_tone5:'', Emoji [''1f44c-1f3ff''] True),
     ('':ok_hand_tone4:'', Emoji [''1f44c-1f3fe''] True),
     ('':ok_hand_tone3:'', Emoji [''1f44c-1f3fd''] True),
     ('':ok_hand_tone2:'', Emoji [''1f44c-1f3fc''] True),
     ('':ok_hand_tone1:'', Emoji [''1f44c-1f3fb''] True),
     ('':wave_tone5:'', Emoji [''1f44b-1f3ff''] True),
     ('':wave_tone4:'', Emoji [''1f44b-1f3fe''] True),
     ('':wave_tone3:'', Emoji [''1f44b-1f3fd''] True),
     ('':wave_tone2:'', Emoji [''1f44b-1f3fc''] True),
     ('':wave_tone1:'', Emoji [''1f44b-1f3fb''] True),
     ('':punch_tone5:'', Emoji [''1f44a-1f3ff''] True),
     ('':punch_tone4:'', Emoji [''1f44a-1f3fe''] True),
     ('':punch_tone3:'', Emoji [''1f44a-1f3fd''] True),
     ('':punch_tone2:'', Emoji [''1f44a-1f3fc''] True),
     ('':punch_tone1:'', Emoji [''1f44a-1f3fb''] True),
     ('':point_right_tone5:'', Emoji [''1f449-1f3ff''] True),
     ('':point_right_tone4:'', Emoji [''1f449-1f3fe''] True),
     ('':point_right_tone3:'', Emoji [''1f449-1f3fd''] True),
     ('':point_right_tone2:'', Emoji [''1f449-1f3fc''] True),
     ('':point_right_tone1:'', Emoji [''1f449-1f3fb''] True),
     ('':point_left_tone5:'', Emoji [''1f448-1f3ff''] True),
     ('':point_left_tone4:'', Emoji [''1f448-1f3fe''] True),
     ('':point_left_tone3:'', Emoji [''1f448-1f3fd''] True),
     ('':point_left_tone2:'', Emoji [''1f448-1f3fc''] True),
     ('':point_left_tone1:'', Emoji [''1f448-1f3fb''] True),
     ('':point_down_tone5:'', Emoji [''1f447-1f3ff''] True),
     ('':point_down_tone4:'', Emoji [''1f447-1f3fe''] True),
     ('':point_down_tone3:'', Emoji [''1f447-1f3fd''] True),
     ('':point_down_tone2:'', Emoji [''1f447-1f3fc''] True),
     ('':point_down_tone1:'', Emoji [''1f447-1f3fb''] True),
     ('':point_up_2_tone5:'', Emoji [''1f446-1f3ff''] True),
     ('':point_up_2_tone4:'', Emoji [''1f446-1f3fe''] True),
     ('':point_up_2_tone3:'', Emoji [''1f446-1f3fd''] True),
     ('':point_up_2_tone2:'', Emoji [''1f446-1f3fc''] True),
     ('':point_up_2_tone1:'', Emoji [''1f446-1f3fb''] True),
     ('':nose_tone5:'', Emoji [''1f443-1f3ff''] True),
     ('':nose_tone4:'', Emoji [''1f443-1f3fe''] True),
     ('':nose_tone3:'', Emoji [''1f443-1f3fd''] True),
     ('':nose_tone2:'', Emoji [''1f443-1f3fc''] True),
     ('':nose_tone1:'', Emoji [''1f443-1f3fb''] True),
     ('':ear_tone5:'', Emoji [''1f442-1f3ff''] True),
     ('':ear_tone4:'', Emoji [''1f442-1f3fe''] True),
     ('':ear_tone3:'', Emoji [''1f442-1f3fd''] True),
     ('':ear_tone2:'', Emoji [''1f442-1f3fc''] True),
     ('':ear_tone1:'', Emoji [''1f442-1f3fb''] True),
     ('':gay_pride_flag:'', Emoji [''1f3f3-1f308''] True),
     ('':rainbow_flag:'', Emoji [''1f3f3-1f308''] False),
     ('':lifter_tone5:'', Emoji [''1f3cb-1f3ff''] True),
     ('':weight_lifter_tone5:'', Emoji [''1f3cb-1f3ff''] False),
     ('':lifter_tone4:'', Emoji [''1f3cb-1f3fe''] True),
     ('':weight_lifter_tone4:'', Emoji [''1f3cb-1f3fe''] False),
     ('':lifter_tone3:'', Emoji [''1f3cb-1f3fd''] True),
     ('':weight_lifter_tone3:'', Emoji [''1f3cb-1f3fd''] False),
     ('':lifter_tone2:'', Emoji [''1f3cb-1f3fc''] True),
     ('':weight_lifter_tone2:'', Emoji [''1f3cb-1f3fc''] False),
     ('':lifter_tone1:'', Emoji [''1f3cb-1f3fb''] True),
     ('':weight_lifter_tone1:'', Emoji [''1f3cb-1f3fb''] False),
     ('':swimmer_tone5:'', Emoji [''1f3ca-1f3ff''] True),
     ('':swimmer_tone4:'', Emoji [''1f3ca-1f3fe''] True),
     ('':swimmer_tone3:'', Emoji [''1f3ca-1f3fd''] True),
     ('':swimmer_tone2:'', Emoji [''1f3ca-1f3fc''] True)]"

definition emojioneList_5 :: "(string \<times> emoji) list" where
  "emojioneList_5 =
    [('':swimmer_tone1:'', Emoji [''1f3ca-1f3fb''] True),
     ('':horse_racing_tone5:'', Emoji [''1f3c7-1f3ff''] True),
     ('':horse_racing_tone4:'', Emoji [''1f3c7-1f3fe''] True),
     ('':horse_racing_tone3:'', Emoji [''1f3c7-1f3fd''] True),
     ('':horse_racing_tone2:'', Emoji [''1f3c7-1f3fc''] True),
     ('':horse_racing_tone1:'', Emoji [''1f3c7-1f3fb''] True),
     ('':surfer_tone5:'', Emoji [''1f3c4-1f3ff''] True),
     ('':surfer_tone4:'', Emoji [''1f3c4-1f3fe''] True),
     ('':surfer_tone3:'', Emoji [''1f3c4-1f3fd''] True),
     ('':surfer_tone2:'', Emoji [''1f3c4-1f3fc''] True),
     ('':surfer_tone1:'', Emoji [''1f3c4-1f3fb''] True),
     ('':runner_tone5:'', Emoji [''1f3c3-1f3ff''] True),
     ('':runner_tone4:'', Emoji [''1f3c3-1f3fe''] True),
     ('':runner_tone3:'', Emoji [''1f3c3-1f3fd''] True),
     ('':runner_tone2:'', Emoji [''1f3c3-1f3fc''] True),
     ('':runner_tone1:'', Emoji [''1f3c3-1f3fb''] True),
     ('':santa_tone5:'', Emoji [''1f385-1f3ff''] True),
     ('':santa_tone4:'', Emoji [''1f385-1f3fe''] True),
     ('':santa_tone3:'', Emoji [''1f385-1f3fd''] True),
     ('':santa_tone2:'', Emoji [''1f385-1f3fc''] True),
     ('':santa_tone1:'', Emoji [''1f385-1f3fb''] True),
     ('':flag_zw:'', Emoji [''1f1ff-1f1fc''] True),
     ('':zw:'', Emoji [''1f1ff-1f1fc''] False),
     ('':flag_zm:'', Emoji [''1f1ff-1f1f2''] True),
     ('':zm:'', Emoji [''1f1ff-1f1f2''] False),
     ('':flag_za:'', Emoji [''1f1ff-1f1e6''] True),
     ('':za:'', Emoji [''1f1ff-1f1e6''] False),
     ('':flag_yt:'', Emoji [''1f1fe-1f1f9''] True),
     ('':yt:'', Emoji [''1f1fe-1f1f9''] False),
     ('':flag_ye:'', Emoji [''1f1fe-1f1ea''] True),
     ('':ye:'', Emoji [''1f1fe-1f1ea''] False),
     ('':flag_xk:'', Emoji [''1f1fd-1f1f0''] True),
     ('':xk:'', Emoji [''1f1fd-1f1f0''] False),
     ('':flag_ws:'', Emoji [''1f1fc-1f1f8''] True),
     ('':ws:'', Emoji [''1f1fc-1f1f8''] False),
     ('':flag_wf:'', Emoji [''1f1fc-1f1eb''] True),
     ('':wf:'', Emoji [''1f1fc-1f1eb''] False),
     ('':flag_vu:'', Emoji [''1f1fb-1f1fa''] True),
     ('':vu:'', Emoji [''1f1fb-1f1fa''] False),
     ('':flag_vn:'', Emoji [''1f1fb-1f1f3''] True),
     ('':vn:'', Emoji [''1f1fb-1f1f3''] False),
     ('':flag_vi:'', Emoji [''1f1fb-1f1ee''] True),
     ('':vi:'', Emoji [''1f1fb-1f1ee''] False),
     ('':flag_vg:'', Emoji [''1f1fb-1f1ec''] True),
     ('':vg:'', Emoji [''1f1fb-1f1ec''] False),
     ('':flag_ve:'', Emoji [''1f1fb-1f1ea''] True),
     ('':ve:'', Emoji [''1f1fb-1f1ea''] False),
     ('':flag_vc:'', Emoji [''1f1fb-1f1e8''] True),
     ('':vc:'', Emoji [''1f1fb-1f1e8''] False),
     ('':flag_va:'', Emoji [''1f1fb-1f1e6''] True),
     ('':va:'', Emoji [''1f1fb-1f1e6''] False),
     ('':flag_uz:'', Emoji [''1f1fa-1f1ff''] True),
     ('':uz:'', Emoji [''1f1fa-1f1ff''] False),
     ('':flag_uy:'', Emoji [''1f1fa-1f1fe''] True),
     ('':uy:'', Emoji [''1f1fa-1f1fe''] False),
     ('':flag_us:'', Emoji [''1f1fa-1f1f8''] True),
     ('':us:'', Emoji [''1f1fa-1f1f8''] False),
     ('':flag_um:'', Emoji [''1f1fa-1f1f2''] True),
     ('':um:'', Emoji [''1f1fa-1f1f2''] False),
     ('':flag_ug:'', Emoji [''1f1fa-1f1ec''] True),
     ('':ug:'', Emoji [''1f1fa-1f1ec''] False),
     ('':flag_ua:'', Emoji [''1f1fa-1f1e6''] True),
     ('':ua:'', Emoji [''1f1fa-1f1e6''] False),
     ('':flag_tz:'', Emoji [''1f1f9-1f1ff''] True),
     ('':tz:'', Emoji [''1f1f9-1f1ff''] False),
     ('':flag_tw:'', Emoji [''1f1f9-1f1fc''] True),
     ('':tw:'', Emoji [''1f1f9-1f1fc''] False),
     ('':flag_tv:'', Emoji [''1f1f9-1f1fb''] True),
     ('':tuvalu:'', Emoji [''1f1f9-1f1fb''] False),
     ('':flag_tt:'', Emoji [''1f1f9-1f1f9''] True),
     ('':tt:'', Emoji [''1f1f9-1f1f9''] False),
     ('':flag_tr:'', Emoji [''1f1f9-1f1f7''] True),
     ('':tr:'', Emoji [''1f1f9-1f1f7''] False),
     ('':flag_to:'', Emoji [''1f1f9-1f1f4''] True),
     ('':to:'', Emoji [''1f1f9-1f1f4''] False),
     ('':flag_tn:'', Emoji [''1f1f9-1f1f3''] True),
     ('':tn:'', Emoji [''1f1f9-1f1f3''] False),
     ('':flag_tm:'', Emoji [''1f1f9-1f1f2''] True),
     ('':turkmenistan:'', Emoji [''1f1f9-1f1f2''] False),
     ('':flag_tl:'', Emoji [''1f1f9-1f1f1''] True),
     ('':tl:'', Emoji [''1f1f9-1f1f1''] False),
     ('':flag_tk:'', Emoji [''1f1f9-1f1f0''] True),
     ('':tk:'', Emoji [''1f1f9-1f1f0''] False),
     ('':flag_tj:'', Emoji [''1f1f9-1f1ef''] True),
     ('':tj:'', Emoji [''1f1f9-1f1ef''] False),
     ('':flag_th:'', Emoji [''1f1f9-1f1ed''] True),
     ('':th:'', Emoji [''1f1f9-1f1ed''] False),
     ('':flag_tg:'', Emoji [''1f1f9-1f1ec''] True),
     ('':tg:'', Emoji [''1f1f9-1f1ec''] False),
     ('':flag_tf:'', Emoji [''1f1f9-1f1eb''] True),
     ('':tf:'', Emoji [''1f1f9-1f1eb''] False),
     ('':flag_td:'', Emoji [''1f1f9-1f1e9''] True),
     ('':td:'', Emoji [''1f1f9-1f1e9''] False),
     ('':flag_tc:'', Emoji [''1f1f9-1f1e8''] True),
     ('':tc:'', Emoji [''1f1f9-1f1e8''] False),
     ('':flag_ta:'', Emoji [''1f1f9-1f1e6''] True),
     ('':ta:'', Emoji [''1f1f9-1f1e6''] False),
     ('':flag_sz:'', Emoji [''1f1f8-1f1ff''] True),
     ('':sz:'', Emoji [''1f1f8-1f1ff''] False),
     ('':flag_sy:'', Emoji [''1f1f8-1f1fe''] True),
     ('':sy:'', Emoji [''1f1f8-1f1fe''] False),
     ('':flag_sx:'', Emoji [''1f1f8-1f1fd''] True),
     ('':sx:'', Emoji [''1f1f8-1f1fd''] False),
     ('':flag_sv:'', Emoji [''1f1f8-1f1fb''] True),
     ('':sv:'', Emoji [''1f1f8-1f1fb''] False),
     ('':flag_st:'', Emoji [''1f1f8-1f1f9''] True),
     ('':st:'', Emoji [''1f1f8-1f1f9''] False),
     ('':flag_ss:'', Emoji [''1f1f8-1f1f8''] True),
     ('':ss:'', Emoji [''1f1f8-1f1f8''] False),
     ('':flag_sr:'', Emoji [''1f1f8-1f1f7''] True),
     ('':sr:'', Emoji [''1f1f8-1f1f7''] False),
     ('':flag_so:'', Emoji [''1f1f8-1f1f4''] True),
     ('':so:'', Emoji [''1f1f8-1f1f4''] False),
     ('':flag_sn:'', Emoji [''1f1f8-1f1f3''] True),
     ('':sn:'', Emoji [''1f1f8-1f1f3''] False),
     ('':flag_sm:'', Emoji [''1f1f8-1f1f2''] True),
     ('':sm:'', Emoji [''1f1f8-1f1f2''] False),
     ('':flag_sl:'', Emoji [''1f1f8-1f1f1''] True),
     ('':sl:'', Emoji [''1f1f8-1f1f1''] False),
     ('':flag_sk:'', Emoji [''1f1f8-1f1f0''] True),
     ('':sk:'', Emoji [''1f1f8-1f1f0''] False),
     ('':flag_sj:'', Emoji [''1f1f8-1f1ef''] True),
     ('':sj:'', Emoji [''1f1f8-1f1ef''] False),
     ('':flag_si:'', Emoji [''1f1f8-1f1ee''] True),
     ('':si:'', Emoji [''1f1f8-1f1ee''] False),
     ('':flag_sh:'', Emoji [''1f1f8-1f1ed''] True),
     ('':sh:'', Emoji [''1f1f8-1f1ed''] False),
     ('':flag_sg:'', Emoji [''1f1f8-1f1ec''] True),
     ('':sg:'', Emoji [''1f1f8-1f1ec''] False),
     ('':flag_se:'', Emoji [''1f1f8-1f1ea''] True),
     ('':se:'', Emoji [''1f1f8-1f1ea''] False),
     ('':flag_sd:'', Emoji [''1f1f8-1f1e9''] True),
     ('':sd:'', Emoji [''1f1f8-1f1e9''] False),
     ('':flag_sc:'', Emoji [''1f1f8-1f1e8''] True),
     ('':sc:'', Emoji [''1f1f8-1f1e8''] False),
     ('':flag_sb:'', Emoji [''1f1f8-1f1e7''] True),
     ('':sb:'', Emoji [''1f1f8-1f1e7''] False),
     ('':flag_sa:'', Emoji [''1f1f8-1f1e6''] True),
     ('':saudiarabia:'', Emoji [''1f1f8-1f1e6''] False),
     ('':saudi:'', Emoji [''1f1f8-1f1e6''] False),
     ('':flag_rw:'', Emoji [''1f1f7-1f1fc''] True),
     ('':rw:'', Emoji [''1f1f7-1f1fc''] False),
     ('':flag_ru:'', Emoji [''1f1f7-1f1fa''] True),
     ('':ru:'', Emoji [''1f1f7-1f1fa''] False),
     ('':flag_rs:'', Emoji [''1f1f7-1f1f8''] True),
     ('':rs:'', Emoji [''1f1f7-1f1f8''] False),
     ('':flag_ro:'', Emoji [''1f1f7-1f1f4''] True),
     ('':ro:'', Emoji [''1f1f7-1f1f4''] False)]"

definition emojioneList_6 :: "(string \<times> emoji) list" where
  "emojioneList_6 =
    [('':flag_re:'', Emoji [''1f1f7-1f1ea''] True),
     ('':re:'', Emoji [''1f1f7-1f1ea''] False),
     ('':flag_qa:'', Emoji [''1f1f6-1f1e6''] True),
     ('':qa:'', Emoji [''1f1f6-1f1e6''] False),
     ('':flag_py:'', Emoji [''1f1f5-1f1fe''] True),
     ('':py:'', Emoji [''1f1f5-1f1fe''] False),
     ('':flag_pw:'', Emoji [''1f1f5-1f1fc''] True),
     ('':pw:'', Emoji [''1f1f5-1f1fc''] False),
     ('':flag_pt:'', Emoji [''1f1f5-1f1f9''] True),
     ('':pt:'', Emoji [''1f1f5-1f1f9''] False),
     ('':flag_ps:'', Emoji [''1f1f5-1f1f8''] True),
     ('':ps:'', Emoji [''1f1f5-1f1f8''] False),
     ('':flag_pr:'', Emoji [''1f1f5-1f1f7''] True),
     ('':pr:'', Emoji [''1f1f5-1f1f7''] False),
     ('':flag_pn:'', Emoji [''1f1f5-1f1f3''] True),
     ('':pn:'', Emoji [''1f1f5-1f1f3''] False),
     ('':flag_pm:'', Emoji [''1f1f5-1f1f2''] True),
     ('':pm:'', Emoji [''1f1f5-1f1f2''] False),
     ('':flag_pl:'', Emoji [''1f1f5-1f1f1''] True),
     ('':pl:'', Emoji [''1f1f5-1f1f1''] False),
     ('':flag_pk:'', Emoji [''1f1f5-1f1f0''] True),
     ('':pk:'', Emoji [''1f1f5-1f1f0''] False),
     ('':flag_ph:'', Emoji [''1f1f5-1f1ed''] True),
     ('':ph:'', Emoji [''1f1f5-1f1ed''] False),
     ('':flag_pg:'', Emoji [''1f1f5-1f1ec''] True),
     ('':pg:'', Emoji [''1f1f5-1f1ec''] False),
     ('':flag_pf:'', Emoji [''1f1f5-1f1eb''] True),
     ('':pf:'', Emoji [''1f1f5-1f1eb''] False),
     ('':flag_pe:'', Emoji [''1f1f5-1f1ea''] True),
     ('':pe:'', Emoji [''1f1f5-1f1ea''] False),
     ('':flag_pa:'', Emoji [''1f1f5-1f1e6''] True),
     ('':pa:'', Emoji [''1f1f5-1f1e6''] False),
     ('':flag_om:'', Emoji [''1f1f4-1f1f2''] True),
     ('':om:'', Emoji [''1f1f4-1f1f2''] False),
     ('':flag_nz:'', Emoji [''1f1f3-1f1ff''] True),
     ('':nz:'', Emoji [''1f1f3-1f1ff''] False),
     ('':flag_nu:'', Emoji [''1f1f3-1f1fa''] True),
     ('':nu:'', Emoji [''1f1f3-1f1fa''] False),
     ('':flag_nr:'', Emoji [''1f1f3-1f1f7''] True),
     ('':nr:'', Emoji [''1f1f3-1f1f7''] False),
     ('':flag_np:'', Emoji [''1f1f3-1f1f5''] True),
     ('':np:'', Emoji [''1f1f3-1f1f5''] False),
     ('':flag_no:'', Emoji [''1f1f3-1f1f4''] True),
     ('':no:'', Emoji [''1f1f3-1f1f4''] False),
     ('':flag_nl:'', Emoji [''1f1f3-1f1f1''] True),
     ('':nl:'', Emoji [''1f1f3-1f1f1''] False),
     ('':flag_ni:'', Emoji [''1f1f3-1f1ee''] True),
     ('':ni:'', Emoji [''1f1f3-1f1ee''] False),
     ('':flag_ng:'', Emoji [''1f1f3-1f1ec''] True),
     ('':nigeria:'', Emoji [''1f1f3-1f1ec''] False),
     ('':flag_nf:'', Emoji [''1f1f3-1f1eb''] True),
     ('':nf:'', Emoji [''1f1f3-1f1eb''] False),
     ('':flag_ne:'', Emoji [''1f1f3-1f1ea''] True),
     ('':ne:'', Emoji [''1f1f3-1f1ea''] False),
     ('':flag_nc:'', Emoji [''1f1f3-1f1e8''] True),
     ('':nc:'', Emoji [''1f1f3-1f1e8''] False),
     ('':flag_na:'', Emoji [''1f1f3-1f1e6''] True),
     ('':na:'', Emoji [''1f1f3-1f1e6''] False),
     ('':flag_mz:'', Emoji [''1f1f2-1f1ff''] True),
     ('':mz:'', Emoji [''1f1f2-1f1ff''] False),
     ('':flag_my:'', Emoji [''1f1f2-1f1fe''] True),
     ('':my:'', Emoji [''1f1f2-1f1fe''] False),
     ('':flag_mx:'', Emoji [''1f1f2-1f1fd''] True),
     ('':mx:'', Emoji [''1f1f2-1f1fd''] False),
     ('':flag_mw:'', Emoji [''1f1f2-1f1fc''] True),
     ('':mw:'', Emoji [''1f1f2-1f1fc''] False),
     ('':flag_mv:'', Emoji [''1f1f2-1f1fb''] True),
     ('':mv:'', Emoji [''1f1f2-1f1fb''] False),
     ('':flag_mu:'', Emoji [''1f1f2-1f1fa''] True),
     ('':mu:'', Emoji [''1f1f2-1f1fa''] False),
     ('':flag_mt:'', Emoji [''1f1f2-1f1f9''] True),
     ('':mt:'', Emoji [''1f1f2-1f1f9''] False),
     ('':flag_ms:'', Emoji [''1f1f2-1f1f8''] True),
     ('':ms:'', Emoji [''1f1f2-1f1f8''] False),
     ('':flag_mr:'', Emoji [''1f1f2-1f1f7''] True),
     ('':mr:'', Emoji [''1f1f2-1f1f7''] False),
     ('':flag_mq:'', Emoji [''1f1f2-1f1f6''] True),
     ('':mq:'', Emoji [''1f1f2-1f1f6''] False),
     ('':flag_mp:'', Emoji [''1f1f2-1f1f5''] True),
     ('':mp:'', Emoji [''1f1f2-1f1f5''] False),
     ('':flag_mo:'', Emoji [''1f1f2-1f1f4''] True),
     ('':mo:'', Emoji [''1f1f2-1f1f4''] False),
     ('':flag_mn:'', Emoji [''1f1f2-1f1f3''] True),
     ('':mn:'', Emoji [''1f1f2-1f1f3''] False),
     ('':flag_mm:'', Emoji [''1f1f2-1f1f2''] True),
     ('':mm:'', Emoji [''1f1f2-1f1f2''] False),
     ('':flag_ml:'', Emoji [''1f1f2-1f1f1''] True),
     ('':ml:'', Emoji [''1f1f2-1f1f1''] False),
     ('':flag_mk:'', Emoji [''1f1f2-1f1f0''] True),
     ('':mk:'', Emoji [''1f1f2-1f1f0''] False),
     ('':flag_mh:'', Emoji [''1f1f2-1f1ed''] True),
     ('':mh:'', Emoji [''1f1f2-1f1ed''] False),
     ('':flag_mg:'', Emoji [''1f1f2-1f1ec''] True),
     ('':mg:'', Emoji [''1f1f2-1f1ec''] False),
     ('':flag_mf:'', Emoji [''1f1f2-1f1eb''] True),
     ('':mf:'', Emoji [''1f1f2-1f1eb''] False),
     ('':flag_me:'', Emoji [''1f1f2-1f1ea''] True),
     ('':me:'', Emoji [''1f1f2-1f1ea''] False),
     ('':flag_md:'', Emoji [''1f1f2-1f1e9''] True),
     ('':md:'', Emoji [''1f1f2-1f1e9''] False),
     ('':flag_mc:'', Emoji [''1f1f2-1f1e8''] True),
     ('':mc:'', Emoji [''1f1f2-1f1e8''] False),
     ('':flag_ma:'', Emoji [''1f1f2-1f1e6''] True),
     ('':ma:'', Emoji [''1f1f2-1f1e6''] False),
     ('':flag_ly:'', Emoji [''1f1f1-1f1fe''] True),
     ('':ly:'', Emoji [''1f1f1-1f1fe''] False),
     ('':flag_lv:'', Emoji [''1f1f1-1f1fb''] True),
     ('':lv:'', Emoji [''1f1f1-1f1fb''] False),
     ('':flag_lu:'', Emoji [''1f1f1-1f1fa''] True),
     ('':lu:'', Emoji [''1f1f1-1f1fa''] False),
     ('':flag_lt:'', Emoji [''1f1f1-1f1f9''] True),
     ('':lt:'', Emoji [''1f1f1-1f1f9''] False),
     ('':flag_ls:'', Emoji [''1f1f1-1f1f8''] True),
     ('':ls:'', Emoji [''1f1f1-1f1f8''] False),
     ('':flag_lr:'', Emoji [''1f1f1-1f1f7''] True),
     ('':lr:'', Emoji [''1f1f1-1f1f7''] False),
     ('':flag_lk:'', Emoji [''1f1f1-1f1f0''] True),
     ('':lk:'', Emoji [''1f1f1-1f1f0''] False),
     ('':flag_li:'', Emoji [''1f1f1-1f1ee''] True),
     ('':li:'', Emoji [''1f1f1-1f1ee''] False),
     ('':flag_lc:'', Emoji [''1f1f1-1f1e8''] True),
     ('':lc:'', Emoji [''1f1f1-1f1e8''] False),
     ('':flag_lb:'', Emoji [''1f1f1-1f1e7''] True),
     ('':lb:'', Emoji [''1f1f1-1f1e7''] False),
     ('':flag_la:'', Emoji [''1f1f1-1f1e6''] True),
     ('':la:'', Emoji [''1f1f1-1f1e6''] False),
     ('':flag_kz:'', Emoji [''1f1f0-1f1ff''] True),
     ('':kz:'', Emoji [''1f1f0-1f1ff''] False),
     ('':flag_ky:'', Emoji [''1f1f0-1f1fe''] True),
     ('':ky:'', Emoji [''1f1f0-1f1fe''] False),
     ('':flag_kw:'', Emoji [''1f1f0-1f1fc''] True),
     ('':kw:'', Emoji [''1f1f0-1f1fc''] False),
     ('':flag_kr:'', Emoji [''1f1f0-1f1f7''] True),
     ('':kr:'', Emoji [''1f1f0-1f1f7''] False),
     ('':flag_kp:'', Emoji [''1f1f0-1f1f5''] True),
     ('':kp:'', Emoji [''1f1f0-1f1f5''] False),
     ('':flag_kn:'', Emoji [''1f1f0-1f1f3''] True),
     ('':kn:'', Emoji [''1f1f0-1f1f3''] False),
     ('':flag_km:'', Emoji [''1f1f0-1f1f2''] True),
     ('':km:'', Emoji [''1f1f0-1f1f2''] False),
     ('':flag_ki:'', Emoji [''1f1f0-1f1ee''] True),
     ('':ki:'', Emoji [''1f1f0-1f1ee''] False),
     ('':flag_kh:'', Emoji [''1f1f0-1f1ed''] True),
     ('':kh:'', Emoji [''1f1f0-1f1ed''] False),
     ('':flag_kg:'', Emoji [''1f1f0-1f1ec''] True),
     ('':kg:'', Emoji [''1f1f0-1f1ec''] False),
     ('':flag_ke:'', Emoji [''1f1f0-1f1ea''] True),
     ('':ke:'', Emoji [''1f1f0-1f1ea''] False)]"

definition emojioneList_7 :: "(string \<times> emoji) list" where
  "emojioneList_7 =
    [('':flag_jp:'', Emoji [''1f1ef-1f1f5''] True),
     ('':jp:'', Emoji [''1f1ef-1f1f5''] False),
     ('':flag_jo:'', Emoji [''1f1ef-1f1f4''] True),
     ('':jo:'', Emoji [''1f1ef-1f1f4''] False),
     ('':flag_jm:'', Emoji [''1f1ef-1f1f2''] True),
     ('':jm:'', Emoji [''1f1ef-1f1f2''] False),
     ('':flag_je:'', Emoji [''1f1ef-1f1ea''] True),
     ('':je:'', Emoji [''1f1ef-1f1ea''] False),
     ('':flag_it:'', Emoji [''1f1ee-1f1f9''] True),
     ('':it:'', Emoji [''1f1ee-1f1f9''] False),
     ('':flag_is:'', Emoji [''1f1ee-1f1f8''] True),
     ('':is:'', Emoji [''1f1ee-1f1f8''] False),
     ('':flag_ir:'', Emoji [''1f1ee-1f1f7''] True),
     ('':ir:'', Emoji [''1f1ee-1f1f7''] False),
     ('':flag_iq:'', Emoji [''1f1ee-1f1f6''] True),
     ('':iq:'', Emoji [''1f1ee-1f1f6''] False),
     ('':flag_io:'', Emoji [''1f1ee-1f1f4''] True),
     ('':io:'', Emoji [''1f1ee-1f1f4''] False),
     ('':flag_in:'', Emoji [''1f1ee-1f1f3''] True),
     ('':in:'', Emoji [''1f1ee-1f1f3''] False),
     ('':flag_im:'', Emoji [''1f1ee-1f1f2''] True),
     ('':im:'', Emoji [''1f1ee-1f1f2''] False),
     ('':flag_il:'', Emoji [''1f1ee-1f1f1''] True),
     ('':il:'', Emoji [''1f1ee-1f1f1''] False),
     ('':flag_ie:'', Emoji [''1f1ee-1f1ea''] True),
     ('':ie:'', Emoji [''1f1ee-1f1ea''] False),
     ('':flag_id:'', Emoji [''1f1ee-1f1e9''] True),
     ('':indonesia:'', Emoji [''1f1ee-1f1e9''] False),
     ('':flag_ic:'', Emoji [''1f1ee-1f1e8''] True),
     ('':ic:'', Emoji [''1f1ee-1f1e8''] False),
     ('':flag_hu:'', Emoji [''1f1ed-1f1fa''] True),
     ('':hu:'', Emoji [''1f1ed-1f1fa''] False),
     ('':flag_ht:'', Emoji [''1f1ed-1f1f9''] True),
     ('':ht:'', Emoji [''1f1ed-1f1f9''] False),
     ('':flag_hr:'', Emoji [''1f1ed-1f1f7''] True),
     ('':hr:'', Emoji [''1f1ed-1f1f7''] False),
     ('':flag_hn:'', Emoji [''1f1ed-1f1f3''] True),
     ('':hn:'', Emoji [''1f1ed-1f1f3''] False),
     ('':flag_hm:'', Emoji [''1f1ed-1f1f2''] True),
     ('':hm:'', Emoji [''1f1ed-1f1f2''] False),
     ('':flag_hk:'', Emoji [''1f1ed-1f1f0''] True),
     ('':hk:'', Emoji [''1f1ed-1f1f0''] False),
     ('':flag_gy:'', Emoji [''1f1ec-1f1fe''] True),
     ('':gy:'', Emoji [''1f1ec-1f1fe''] False),
     ('':flag_gw:'', Emoji [''1f1ec-1f1fc''] True),
     ('':gw:'', Emoji [''1f1ec-1f1fc''] False),
     ('':flag_gu:'', Emoji [''1f1ec-1f1fa''] True),
     ('':gu:'', Emoji [''1f1ec-1f1fa''] False),
     ('':flag_gt:'', Emoji [''1f1ec-1f1f9''] True),
     ('':gt:'', Emoji [''1f1ec-1f1f9''] False),
     ('':flag_gs:'', Emoji [''1f1ec-1f1f8''] True),
     ('':gs:'', Emoji [''1f1ec-1f1f8''] False),
     ('':flag_gr:'', Emoji [''1f1ec-1f1f7''] True),
     ('':gr:'', Emoji [''1f1ec-1f1f7''] False),
     ('':flag_gq:'', Emoji [''1f1ec-1f1f6''] True),
     ('':gq:'', Emoji [''1f1ec-1f1f6''] False),
     ('':flag_gp:'', Emoji [''1f1ec-1f1f5''] True),
     ('':gp:'', Emoji [''1f1ec-1f1f5''] False),
     ('':flag_gn:'', Emoji [''1f1ec-1f1f3''] True),
     ('':gn:'', Emoji [''1f1ec-1f1f3''] False),
     ('':flag_gm:'', Emoji [''1f1ec-1f1f2''] True),
     ('':gm:'', Emoji [''1f1ec-1f1f2''] False),
     ('':flag_gl:'', Emoji [''1f1ec-1f1f1''] True),
     ('':gl:'', Emoji [''1f1ec-1f1f1''] False),
     ('':flag_gi:'', Emoji [''1f1ec-1f1ee''] True),
     ('':gi:'', Emoji [''1f1ec-1f1ee''] False),
     ('':flag_gh:'', Emoji [''1f1ec-1f1ed''] True),
     ('':gh:'', Emoji [''1f1ec-1f1ed''] False),
     ('':flag_gg:'', Emoji [''1f1ec-1f1ec''] True),
     ('':gg:'', Emoji [''1f1ec-1f1ec''] False),
     ('':flag_gf:'', Emoji [''1f1ec-1f1eb''] True),
     ('':gf:'', Emoji [''1f1ec-1f1eb''] False),
     ('':flag_ge:'', Emoji [''1f1ec-1f1ea''] True),
     ('':ge:'', Emoji [''1f1ec-1f1ea''] False),
     ('':flag_gd:'', Emoji [''1f1ec-1f1e9''] True),
     ('':gd:'', Emoji [''1f1ec-1f1e9''] False),
     ('':flag_gb:'', Emoji [''1f1ec-1f1e7''] True),
     ('':gb:'', Emoji [''1f1ec-1f1e7''] False),
     ('':flag_ga:'', Emoji [''1f1ec-1f1e6''] True),
     ('':ga:'', Emoji [''1f1ec-1f1e6''] False),
     ('':flag_fr:'', Emoji [''1f1eb-1f1f7''] True),
     ('':fr:'', Emoji [''1f1eb-1f1f7''] False),
     ('':flag_fo:'', Emoji [''1f1eb-1f1f4''] True),
     ('':fo:'', Emoji [''1f1eb-1f1f4''] False),
     ('':flag_fm:'', Emoji [''1f1eb-1f1f2''] True),
     ('':fm:'', Emoji [''1f1eb-1f1f2''] False),
     ('':flag_fk:'', Emoji [''1f1eb-1f1f0''] True),
     ('':fk:'', Emoji [''1f1eb-1f1f0''] False),
     ('':flag_fj:'', Emoji [''1f1eb-1f1ef''] True),
     ('':fj:'', Emoji [''1f1eb-1f1ef''] False),
     ('':flag_fi:'', Emoji [''1f1eb-1f1ee''] True),
     ('':fi:'', Emoji [''1f1eb-1f1ee''] False),
     ('':flag_eu:'', Emoji [''1f1ea-1f1fa''] True),
     ('':eu:'', Emoji [''1f1ea-1f1fa''] False),
     ('':flag_et:'', Emoji [''1f1ea-1f1f9''] True),
     ('':et:'', Emoji [''1f1ea-1f1f9''] False),
     ('':flag_es:'', Emoji [''1f1ea-1f1f8''] True),
     ('':es:'', Emoji [''1f1ea-1f1f8''] False),
     ('':flag_er:'', Emoji [''1f1ea-1f1f7''] True),
     ('':er:'', Emoji [''1f1ea-1f1f7''] False),
     ('':flag_eh:'', Emoji [''1f1ea-1f1ed''] True),
     ('':eh:'', Emoji [''1f1ea-1f1ed''] False),
     ('':flag_eg:'', Emoji [''1f1ea-1f1ec''] True),
     ('':eg:'', Emoji [''1f1ea-1f1ec''] False),
     ('':flag_ee:'', Emoji [''1f1ea-1f1ea''] True),
     ('':ee:'', Emoji [''1f1ea-1f1ea''] False),
     ('':flag_ec:'', Emoji [''1f1ea-1f1e8''] True),
     ('':ec:'', Emoji [''1f1ea-1f1e8''] False),
     ('':flag_ea:'', Emoji [''1f1ea-1f1e6''] True),
     ('':ea:'', Emoji [''1f1ea-1f1e6''] False),
     ('':flag_dz:'', Emoji [''1f1e9-1f1ff''] True),
     ('':dz:'', Emoji [''1f1e9-1f1ff''] False),
     ('':flag_do:'', Emoji [''1f1e9-1f1f4''] True),
     ('':do:'', Emoji [''1f1e9-1f1f4''] False),
     ('':flag_dm:'', Emoji [''1f1e9-1f1f2''] True),
     ('':dm:'', Emoji [''1f1e9-1f1f2''] False),
     ('':flag_dk:'', Emoji [''1f1e9-1f1f0''] True),
     ('':dk:'', Emoji [''1f1e9-1f1f0''] False),
     ('':flag_dj:'', Emoji [''1f1e9-1f1ef''] True),
     ('':dj:'', Emoji [''1f1e9-1f1ef''] False),
     ('':flag_dg:'', Emoji [''1f1e9-1f1ec''] True),
     ('':dg:'', Emoji [''1f1e9-1f1ec''] False),
     ('':flag_de:'', Emoji [''1f1e9-1f1ea''] True),
     ('':de:'', Emoji [''1f1e9-1f1ea''] False),
     ('':flag_cz:'', Emoji [''1f1e8-1f1ff''] True),
     ('':cz:'', Emoji [''1f1e8-1f1ff''] False),
     ('':flag_cy:'', Emoji [''1f1e8-1f1fe''] True),
     ('':cy:'', Emoji [''1f1e8-1f1fe''] False),
     ('':flag_cx:'', Emoji [''1f1e8-1f1fd''] True),
     ('':cx:'', Emoji [''1f1e8-1f1fd''] False),
     ('':flag_cw:'', Emoji [''1f1e8-1f1fc''] True),
     ('':cw:'', Emoji [''1f1e8-1f1fc''] False),
     ('':flag_cv:'', Emoji [''1f1e8-1f1fb''] True),
     ('':cv:'', Emoji [''1f1e8-1f1fb''] False),
     ('':flag_cu:'', Emoji [''1f1e8-1f1fa''] True),
     ('':cu:'', Emoji [''1f1e8-1f1fa''] False),
     ('':flag_cr:'', Emoji [''1f1e8-1f1f7''] True),
     ('':cr:'', Emoji [''1f1e8-1f1f7''] False),
     ('':flag_cp:'', Emoji [''1f1e8-1f1f5''] True),
     ('':cp:'', Emoji [''1f1e8-1f1f5''] False),
     ('':flag_co:'', Emoji [''1f1e8-1f1f4''] True),
     ('':co:'', Emoji [''1f1e8-1f1f4''] False),
     ('':flag_cn:'', Emoji [''1f1e8-1f1f3''] True),
     ('':cn:'', Emoji [''1f1e8-1f1f3''] False),
     ('':flag_cm:'', Emoji [''1f1e8-1f1f2''] True),
     ('':cm:'', Emoji [''1f1e8-1f1f2''] False),
     ('':flag_cl:'', Emoji [''1f1e8-1f1f1''] True),
     ('':chile:'', Emoji [''1f1e8-1f1f1''] False)]"

definition emojioneList_8 :: "(string \<times> emoji) list" where
  "emojioneList_8 =
    [('':flag_ck:'', Emoji [''1f1e8-1f1f0''] True),
     ('':ck:'', Emoji [''1f1e8-1f1f0''] False),
     ('':flag_ci:'', Emoji [''1f1e8-1f1ee''] True),
     ('':ci:'', Emoji [''1f1e8-1f1ee''] False),
     ('':flag_ch:'', Emoji [''1f1e8-1f1ed''] True),
     ('':ch:'', Emoji [''1f1e8-1f1ed''] False),
     ('':flag_cg:'', Emoji [''1f1e8-1f1ec''] True),
     ('':cg:'', Emoji [''1f1e8-1f1ec''] False),
     ('':flag_cf:'', Emoji [''1f1e8-1f1eb''] True),
     ('':cf:'', Emoji [''1f1e8-1f1eb''] False),
     ('':flag_cd:'', Emoji [''1f1e8-1f1e9''] True),
     ('':congo:'', Emoji [''1f1e8-1f1e9''] False),
     ('':flag_cc:'', Emoji [''1f1e8-1f1e8''] True),
     ('':cc:'', Emoji [''1f1e8-1f1e8''] False),
     ('':flag_ca:'', Emoji [''1f1e8-1f1e6''] True),
     ('':ca:'', Emoji [''1f1e8-1f1e6''] False),
     ('':flag_bz:'', Emoji [''1f1e7-1f1ff''] True),
     ('':bz:'', Emoji [''1f1e7-1f1ff''] False),
     ('':flag_by:'', Emoji [''1f1e7-1f1fe''] True),
     ('':by:'', Emoji [''1f1e7-1f1fe''] False),
     ('':flag_bw:'', Emoji [''1f1e7-1f1fc''] True),
     ('':bw:'', Emoji [''1f1e7-1f1fc''] False),
     ('':flag_bv:'', Emoji [''1f1e7-1f1fb''] True),
     ('':bv:'', Emoji [''1f1e7-1f1fb''] False),
     ('':flag_bt:'', Emoji [''1f1e7-1f1f9''] True),
     ('':bt:'', Emoji [''1f1e7-1f1f9''] False),
     ('':flag_bs:'', Emoji [''1f1e7-1f1f8''] True),
     ('':bs:'', Emoji [''1f1e7-1f1f8''] False),
     ('':flag_br:'', Emoji [''1f1e7-1f1f7''] True),
     ('':br:'', Emoji [''1f1e7-1f1f7''] False),
     ('':flag_bq:'', Emoji [''1f1e7-1f1f6''] True),
     ('':bq:'', Emoji [''1f1e7-1f1f6''] False),
     ('':flag_bo:'', Emoji [''1f1e7-1f1f4''] True),
     ('':bo:'', Emoji [''1f1e7-1f1f4''] False),
     ('':flag_bn:'', Emoji [''1f1e7-1f1f3''] True),
     ('':bn:'', Emoji [''1f1e7-1f1f3''] False),
     ('':flag_bm:'', Emoji [''1f1e7-1f1f2''] True),
     ('':bm:'', Emoji [''1f1e7-1f1f2''] False),
     ('':flag_bl:'', Emoji [''1f1e7-1f1f1''] True),
     ('':bl:'', Emoji [''1f1e7-1f1f1''] False),
     ('':flag_bj:'', Emoji [''1f1e7-1f1ef''] True),
     ('':bj:'', Emoji [''1f1e7-1f1ef''] False),
     ('':flag_bi:'', Emoji [''1f1e7-1f1ee''] True),
     ('':bi:'', Emoji [''1f1e7-1f1ee''] False),
     ('':flag_bh:'', Emoji [''1f1e7-1f1ed''] True),
     ('':bh:'', Emoji [''1f1e7-1f1ed''] False),
     ('':flag_bg:'', Emoji [''1f1e7-1f1ec''] True),
     ('':bg:'', Emoji [''1f1e7-1f1ec''] False),
     ('':flag_bf:'', Emoji [''1f1e7-1f1eb''] True),
     ('':bf:'', Emoji [''1f1e7-1f1eb''] False),
     ('':flag_be:'', Emoji [''1f1e7-1f1ea''] True),
     ('':be:'', Emoji [''1f1e7-1f1ea''] False),
     ('':flag_bd:'', Emoji [''1f1e7-1f1e9''] True),
     ('':bd:'', Emoji [''1f1e7-1f1e9''] False),
     ('':flag_bb:'', Emoji [''1f1e7-1f1e7''] True),
     ('':bb:'', Emoji [''1f1e7-1f1e7''] False),
     ('':flag_ba:'', Emoji [''1f1e7-1f1e6''] True),
     ('':ba:'', Emoji [''1f1e7-1f1e6''] False),
     ('':flag_az:'', Emoji [''1f1e6-1f1ff''] True),
     ('':az:'', Emoji [''1f1e6-1f1ff''] False),
     ('':flag_ax:'', Emoji [''1f1e6-1f1fd''] True),
     ('':ax:'', Emoji [''1f1e6-1f1fd''] False),
     ('':flag_aw:'', Emoji [''1f1e6-1f1fc''] True),
     ('':aw:'', Emoji [''1f1e6-1f1fc''] False),
     ('':flag_au:'', Emoji [''1f1e6-1f1fa''] True),
     ('':au:'', Emoji [''1f1e6-1f1fa''] False),
     ('':flag_at:'', Emoji [''1f1e6-1f1f9''] True),
     ('':at:'', Emoji [''1f1e6-1f1f9''] False),
     ('':flag_as:'', Emoji [''1f1e6-1f1f8''] True),
     ('':as:'', Emoji [''1f1e6-1f1f8''] False),
     ('':flag_ar:'', Emoji [''1f1e6-1f1f7''] True),
     ('':ar:'', Emoji [''1f1e6-1f1f7''] False),
     ('':flag_aq:'', Emoji [''1f1e6-1f1f6''] True),
     ('':aq:'', Emoji [''1f1e6-1f1f6''] False),
     ('':flag_ao:'', Emoji [''1f1e6-1f1f4''] True),
     ('':ao:'', Emoji [''1f1e6-1f1f4''] False),
     ('':flag_am:'', Emoji [''1f1e6-1f1f2''] True),
     ('':am:'', Emoji [''1f1e6-1f1f2''] False),
     ('':flag_al:'', Emoji [''1f1e6-1f1f1''] True),
     ('':al:'', Emoji [''1f1e6-1f1f1''] False),
     ('':flag_ai:'', Emoji [''1f1e6-1f1ee''] True),
     ('':ai:'', Emoji [''1f1e6-1f1ee''] False),
     ('':flag_ag:'', Emoji [''1f1e6-1f1ec''] True),
     ('':ag:'', Emoji [''1f1e6-1f1ec''] False),
     ('':flag_af:'', Emoji [''1f1e6-1f1eb''] True),
     ('':af:'', Emoji [''1f1e6-1f1eb''] False),
     ('':flag_ae:'', Emoji [''1f1e6-1f1ea''] True),
     ('':ae:'', Emoji [''1f1e6-1f1ea''] False),
     ('':flag_ad:'', Emoji [''1f1e6-1f1e9''] True),
     ('':ad:'', Emoji [''1f1e6-1f1e9''] False),
     ('':flag_ac:'', Emoji [''1f1e6-1f1e8''] True),
     ('':ac:'', Emoji [''1f1e6-1f1e8''] False),
     ('':mahjong:'', Emoji [''1f004-fe0f'', ''1f004''] True),
     ('':parking:'', Emoji [''1f17f-fe0f'', ''1f17f''] True),
     ('':sa:'', Emoji [''1f202-fe0f'', ''1f202''] True),
     ('':u7121:'', Emoji [''1f21a-fe0f'', ''1f21a''] True),
     ('':u6307:'', Emoji [''1f22f-fe0f'', ''1f22f''] True),
     ('':u6708:'', Emoji [''1f237-fe0f'', ''1f237''] True),
     ('':film_frames:'', Emoji [''1f39e-fe0f'', ''1f39e''] True),
     ('':tickets:'', Emoji [''1f39f-fe0f'', ''1f39f''] True),
     ('':admission_tickets:'', Emoji [''1f39f-fe0f'', ''1f39f''] False),
     ('':lifter:'', Emoji [''1f3cb-fe0f'', ''1f3cb''] True),
     ('':weight_lifter:'', Emoji [''1f3cb-fe0f'', ''1f3cb''] False),
     ('':golfer:'', Emoji [''1f3cc-fe0f'', ''1f3cc''] True),
     ('':motorcycle:'', Emoji [''1f3cd-fe0f'', ''1f3cd''] True),
     ('':racing_motorcycle:'', Emoji [''1f3cd-fe0f'', ''1f3cd''] False),
     ('':race_car:'', Emoji [''1f3ce-fe0f'', ''1f3ce''] True),
     ('':racing_car:'', Emoji [''1f3ce-fe0f'', ''1f3ce''] False),
     ('':military_medal:'', Emoji [''1f396-fe0f'', ''1f396''] True),
     ('':reminder_ribbon:'', Emoji [''1f397-fe0f'', ''1f397''] True),
     ('':hot_pepper:'', Emoji [''1f336-fe0f'', ''1f336''] True),
     ('':cloud_rain:'', Emoji [''1f327-fe0f'', ''1f327''] True),
     ('':cloud_with_rain:'', Emoji [''1f327-fe0f'', ''1f327''] False),
     ('':cloud_snow:'', Emoji [''1f328-fe0f'', ''1f328''] True),
     ('':cloud_with_snow:'', Emoji [''1f328-fe0f'', ''1f328''] False),
     ('':cloud_lightning:'', Emoji [''1f329-fe0f'', ''1f329''] True),
     ('':cloud_with_lightning:'', Emoji [''1f329-fe0f'', ''1f329''] False),
     ('':cloud_tornado:'', Emoji [''1f32a-fe0f'', ''1f32a''] True),
     ('':cloud_with_tornado:'', Emoji [''1f32a-fe0f'', ''1f32a''] False),
     ('':fog:'', Emoji [''1f32b-fe0f'', ''1f32b''] True),
     ('':wind_blowing_face:'', Emoji [''1f32c-fe0f'', ''1f32c''] True),
     ('':chipmunk:'', Emoji [''1f43f-fe0f'', ''1f43f''] True),
     ('':spider:'', Emoji [''1f577-fe0f'', ''1f577''] True),
     ('':spider_web:'', Emoji [''1f578-fe0f'', ''1f578''] True),
     ('':thermometer:'', Emoji [''1f321-fe0f'', ''1f321''] True),
     ('':microphone2:'', Emoji [''1f399-fe0f'', ''1f399''] True),
     ('':studio_microphone:'', Emoji [''1f399-fe0f'', ''1f399''] False),
     ('':level_slider:'', Emoji [''1f39a-fe0f'', ''1f39a''] True),
     ('':control_knobs:'', Emoji [''1f39b-fe0f'', ''1f39b''] True),
     ('':flag_white:'', Emoji [''1f3f3-fe0f'', ''1f3f3''] True),
     ('':waving_white_flag:'', Emoji [''1f3f3-fe0f'', ''1f3f3''] False),
     ('':rosette:'', Emoji [''1f3f5-fe0f'', ''1f3f5''] True),
     ('':label:'', Emoji [''1f3f7-fe0f'', ''1f3f7''] True),
     ('':projector:'', Emoji [''1f4fd-fe0f'', ''1f4fd''] True),
     ('':film_projector:'', Emoji [''1f4fd-fe0f'', ''1f4fd''] False),
     ('':om_symbol:'', Emoji [''1f549-fe0f'', ''1f549''] True),
     ('':dove:'', Emoji [''1f54a-fe0f'', ''1f54a''] True),
     ('':dove_of_peace:'', Emoji [''1f54a-fe0f'', ''1f54a''] False),
     ('':candle:'', Emoji [''1f56f-fe0f'', ''1f56f''] True),
     ('':clock:'', Emoji [''1f570-fe0f'', ''1f570''] True),
     ('':mantlepiece_clock:'', Emoji [''1f570-fe0f'', ''1f570''] False),
     ('':hole:'', Emoji [''1f573-fe0f'', ''1f573''] True),
     ('':dark_sunglasses:'', Emoji [''1f576-fe0f'', ''1f576''] True),
     ('':joystick:'', Emoji [''1f579-fe0f'', ''1f579''] True),
     ('':paperclips:'', Emoji [''1f587-fe0f'', ''1f587''] True),
     ('':linked_paperclips:'', Emoji [''1f587-fe0f'', ''1f587''] False),
     ('':pen_ballpoint:'', Emoji [''1f58a-fe0f'', ''1f58a''] True),
     ('':lower_left_ballpoint_pen:'', Emoji [''1f58a-fe0f'', ''1f58a''] False)]"

definition emojioneList_9 :: "(string \<times> emoji) list" where
  "emojioneList_9 =
    [('':pen_fountain:'', Emoji [''1f58b-fe0f'', ''1f58b''] True),
     ('':lower_left_fountain_pen:'', Emoji [''1f58b-fe0f'', ''1f58b''] False),
     ('':paintbrush:'', Emoji [''1f58c-fe0f'', ''1f58c''] True),
     ('':lower_left_paintbrush:'', Emoji [''1f58c-fe0f'', ''1f58c''] False),
     ('':crayon:'', Emoji [''1f58d-fe0f'', ''1f58d''] True),
     ('':lower_left_crayon:'', Emoji [''1f58d-fe0f'', ''1f58d''] False),
     ('':desktop:'', Emoji [''1f5a5-fe0f'', ''1f5a5''] True),
     ('':desktop_computer:'', Emoji [''1f5a5-fe0f'', ''1f5a5''] False),
     ('':printer:'', Emoji [''1f5a8-fe0f'', ''1f5a8''] True),
     ('':trackball:'', Emoji [''1f5b2-fe0f'', ''1f5b2''] True),
     ('':frame_photo:'', Emoji [''1f5bc-fe0f'', ''1f5bc''] True),
     ('':frame_with_picture:'', Emoji [''1f5bc-fe0f'', ''1f5bc''] False),
     ('':dividers:'', Emoji [''1f5c2-fe0f'', ''1f5c2''] True),
     ('':card_index_dividers:'', Emoji [''1f5c2-fe0f'', ''1f5c2''] False),
     ('':card_box:'', Emoji [''1f5c3-fe0f'', ''1f5c3''] True),
     ('':card_file_box:'', Emoji [''1f5c3-fe0f'', ''1f5c3''] False),
     ('':file_cabinet:'', Emoji [''1f5c4-fe0f'', ''1f5c4''] True),
     ('':wastebasket:'', Emoji [''1f5d1-fe0f'', ''1f5d1''] True),
     ('':notepad_spiral:'', Emoji [''1f5d2-fe0f'', ''1f5d2''] True),
     ('':spiral_note_pad:'', Emoji [''1f5d2-fe0f'', ''1f5d2''] False),
     ('':calendar_spiral:'', Emoji [''1f5d3-fe0f'', ''1f5d3''] True),
     ('':spiral_calendar_pad:'', Emoji [''1f5d3-fe0f'', ''1f5d3''] False),
     ('':compression:'', Emoji [''1f5dc-fe0f'', ''1f5dc''] True),
     ('':key2:'', Emoji [''1f5dd-fe0f'', ''1f5dd''] True),
     ('':old_key:'', Emoji [''1f5dd-fe0f'', ''1f5dd''] False),
     ('':newspaper2:'', Emoji [''1f5de-fe0f'', ''1f5de''] True),
     ('':rolled_up_newspaper:'', Emoji [''1f5de-fe0f'', ''1f5de''] False),
     ('':dagger:'', Emoji [''1f5e1-fe0f'', ''1f5e1''] True),
     ('':dagger_knife:'', Emoji [''1f5e1-fe0f'', ''1f5e1''] False),
     ('':speaking_head:'', Emoji [''1f5e3-fe0f'', ''1f5e3''] True),
     ('':speaking_head_in_silhouette:'', Emoji [''1f5e3-fe0f'', ''1f5e3''] False),
     ('':speech_left:'', Emoji [''1f5e8-fe0f'', ''1f5e8''] True),
     ('':left_speech_bubble:'', Emoji [''1f5e8-fe0f'', ''1f5e8''] False),
     ('':anger_right:'', Emoji [''1f5ef-fe0f'', ''1f5ef''] True),
     ('':right_anger_bubble:'', Emoji [''1f5ef-fe0f'', ''1f5ef''] False),
     ('':ballot_box:'', Emoji [''1f5f3-fe0f'', ''1f5f3''] True),
     ('':ballot_box_with_ballot:'', Emoji [''1f5f3-fe0f'', ''1f5f3''] False),
     ('':map:'', Emoji [''1f5fa-fe0f'', ''1f5fa''] True),
     ('':world_map:'', Emoji [''1f5fa-fe0f'', ''1f5fa''] False),
     ('':tools:'', Emoji [''1f6e0-fe0f'', ''1f6e0''] True),
     ('':hammer_and_wrench:'', Emoji [''1f6e0-fe0f'', ''1f6e0''] False),
     ('':shield:'', Emoji [''1f6e1-fe0f'', ''1f6e1''] True),
     ('':oil:'', Emoji [''1f6e2-fe0f'', ''1f6e2''] True),
     ('':oil_drum:'', Emoji [''1f6e2-fe0f'', ''1f6e2''] False),
     ('':satellite_orbital:'', Emoji [''1f6f0-fe0f'', ''1f6f0''] True),
     ('':fork_knife_plate:'', Emoji [''1f37d-fe0f'', ''1f37d''] True),
     ('':fork_and_knife_with_plate:'', Emoji [''1f37d-fe0f'', ''1f37d''] False),
     ('':eye:'', Emoji [''1f441-fe0f'', ''1f441''] True),
     ('':levitate:'', Emoji [''1f574-fe0f'', ''1f574''] True),
     ('':man_in_business_suit_levitating:'', Emoji [''1f574-fe0f'', ''1f574''] False),
     ('':spy:'', Emoji [''1f575-fe0f'', ''1f575''] True),
     ('':sleuth_or_spy:'', Emoji [''1f575-fe0f'', ''1f575''] False),
     ('':hand_splayed:'', Emoji [''1f590-fe0f'', ''1f590''] True),
     ('':raised_hand_with_fingers_splayed:'', Emoji [''1f590-fe0f'', ''1f590''] False),
     ('':mountain_snow:'', Emoji [''1f3d4-fe0f'', ''1f3d4''] True),
     ('':snow_capped_mountain:'', Emoji [''1f3d4-fe0f'', ''1f3d4''] False),
     ('':camping:'', Emoji [''1f3d5-fe0f'', ''1f3d5''] True),
     ('':beach:'', Emoji [''1f3d6-fe0f'', ''1f3d6''] True),
     ('':beach_with_umbrella:'', Emoji [''1f3d6-fe0f'', ''1f3d6''] False),
     ('':construction_site:'', Emoji [''1f3d7-fe0f'', ''1f3d7''] True),
     ('':building_construction:'', Emoji [''1f3d7-fe0f'', ''1f3d7''] False),
     ('':homes:'', Emoji [''1f3d8-fe0f'', ''1f3d8''] True),
     ('':house_buildings:'', Emoji [''1f3d8-fe0f'', ''1f3d8''] False),
     ('':cityscape:'', Emoji [''1f3d9-fe0f'', ''1f3d9''] True),
     ('':house_abandoned:'', Emoji [''1f3da-fe0f'', ''1f3da''] True),
     ('':derelict_house_building:'', Emoji [''1f3da-fe0f'', ''1f3da''] False),
     ('':classical_building:'', Emoji [''1f3db-fe0f'', ''1f3db''] True),
     ('':desert:'', Emoji [''1f3dc-fe0f'', ''1f3dc''] True),
     ('':island:'', Emoji [''1f3dd-fe0f'', ''1f3dd''] True),
     ('':desert_island:'', Emoji [''1f3dd-fe0f'', ''1f3dd''] False),
     ('':park:'', Emoji [''1f3de-fe0f'', ''1f3de''] True),
     ('':national_park:'', Emoji [''1f3de-fe0f'', ''1f3de''] False),
     ('':stadium:'', Emoji [''1f3df-fe0f'', ''1f3df''] True),
     ('':couch:'', Emoji [''1f6cb-fe0f'', ''1f6cb''] True),
     ('':couch_and_lamp:'', Emoji [''1f6cb-fe0f'', ''1f6cb''] False),
     ('':shopping_bags:'', Emoji [''1f6cd-fe0f'', ''1f6cd''] True),
     ('':bellhop:'', Emoji [''1f6ce-fe0f'', ''1f6ce''] True),
     ('':bellhop_bell:'', Emoji [''1f6ce-fe0f'', ''1f6ce''] False),
     ('':bed:'', Emoji [''1f6cf-fe0f'', ''1f6cf''] True),
     ('':motorway:'', Emoji [''1f6e3-fe0f'', ''1f6e3''] True),
     ('':railway_track:'', Emoji [''1f6e4-fe0f'', ''1f6e4''] True),
     ('':railroad_track:'', Emoji [''1f6e4-fe0f'', ''1f6e4''] False),
     ('':motorboat:'', Emoji [''1f6e5-fe0f'', ''1f6e5''] True),
     ('':airplane_small:'', Emoji [''1f6e9-fe0f'', ''1f6e9''] True),
     ('':small_airplane:'', Emoji [''1f6e9-fe0f'', ''1f6e9''] False),
     ('':cruise_ship:'', Emoji [''1f6f3-fe0f'', ''1f6f3''] True),
     ('':passenger_ship:'', Emoji [''1f6f3-fe0f'', ''1f6f3''] False),
     ('':white_sun_small_cloud:'', Emoji [''1f324-fe0f'', ''1f324''] True),
     ('':white_sun_with_small_cloud:'', Emoji [''1f324-fe0f'', ''1f324''] False),
     ('':white_sun_cloud:'', Emoji [''1f325-fe0f'', ''1f325''] True),
     ('':white_sun_behind_cloud:'', Emoji [''1f325-fe0f'', ''1f325''] False),
     ('':white_sun_rain_cloud:'', Emoji [''1f326-fe0f'', ''1f326''] True),
     ('':white_sun_behind_cloud_with_rain:'', Emoji [''1f326-fe0f'', ''1f326''] False),
     ('':mouse_three_button:'', Emoji [''1f5b1-fe0f'', ''1f5b1''] True),
     ('':three_button_mouse:'', Emoji [''1f5b1-fe0f'', ''1f5b1''] False),
     ('':point_up_tone1:'', Emoji [''261d-1f3fb''] True),
     ('':point_up_tone2:'', Emoji [''261d-1f3fc''] True),
     ('':point_up_tone3:'', Emoji [''261d-1f3fd''] True),
     ('':point_up_tone4:'', Emoji [''261d-1f3fe''] True),
     ('':point_up_tone5:'', Emoji [''261d-1f3ff''] True),
     ('':v_tone1:'', Emoji [''270c-1f3fb''] True),
     ('':v_tone2:'', Emoji [''270c-1f3fc''] True),
     ('':v_tone3:'', Emoji [''270c-1f3fd''] True),
     ('':v_tone4:'', Emoji [''270c-1f3fe''] True),
     ('':v_tone5:'', Emoji [''270c-1f3ff''] True),
     ('':fist_tone1:'', Emoji [''270a-1f3fb''] True),
     ('':fist_tone2:'', Emoji [''270a-1f3fc''] True),
     ('':fist_tone3:'', Emoji [''270a-1f3fd''] True),
     ('':fist_tone4:'', Emoji [''270a-1f3fe''] True),
     ('':fist_tone5:'', Emoji [''270a-1f3ff''] True),
     ('':raised_hand_tone1:'', Emoji [''270b-1f3fb''] True),
     ('':raised_hand_tone2:'', Emoji [''270b-1f3fc''] True),
     ('':raised_hand_tone3:'', Emoji [''270b-1f3fd''] True),
     ('':raised_hand_tone4:'', Emoji [''270b-1f3fe''] True),
     ('':raised_hand_tone5:'', Emoji [''270b-1f3ff''] True),
     ('':writing_hand_tone1:'', Emoji [''270d-1f3fb''] True),
     ('':writing_hand_tone2:'', Emoji [''270d-1f3fc''] True),
     ('':writing_hand_tone3:'', Emoji [''270d-1f3fd''] True),
     ('':writing_hand_tone4:'', Emoji [''270d-1f3fe''] True),
     ('':writing_hand_tone5:'', Emoji [''270d-1f3ff''] True),
     ('':basketball_player_tone1:'', Emoji [''26f9-1f3fb''] True),
     ('':person_with_ball_tone1:'', Emoji [''26f9-1f3fb''] False),
     ('':basketball_player_tone2:'', Emoji [''26f9-1f3fc''] True),
     ('':person_with_ball_tone2:'', Emoji [''26f9-1f3fc''] False),
     ('':basketball_player_tone3:'', Emoji [''26f9-1f3fd''] True),
     ('':person_with_ball_tone3:'', Emoji [''26f9-1f3fd''] False),
     ('':basketball_player_tone4:'', Emoji [''26f9-1f3fe''] True),
     ('':person_with_ball_tone4:'', Emoji [''26f9-1f3fe''] False),
     ('':basketball_player_tone5:'', Emoji [''26f9-1f3ff''] True),
     ('':person_with_ball_tone5:'', Emoji [''26f9-1f3ff''] False),
     ('':copyright:'', Emoji [''00a9-fe0f'', ''00a9''] True),
     ('':registered:'', Emoji [''00ae-fe0f'', ''00ae''] True),
     ('':bangbang:'', Emoji [''203c-fe0f'', ''203c''] True),
     ('':interrobang:'', Emoji [''2049-fe0f'', ''2049''] True),
     ('':tm:'', Emoji [''2122-fe0f'', ''2122''] True),
     ('':information_source:'', Emoji [''2139-fe0f'', ''2139''] True),
     ('':left_right_arrow:'', Emoji [''2194-fe0f'', ''2194''] True),
     ('':arrow_up_down:'', Emoji [''2195-fe0f'', ''2195''] True),
     ('':arrow_upper_left:'', Emoji [''2196-fe0f'', ''2196''] True),
     ('':arrow_upper_right:'', Emoji [''2197-fe0f'', ''2197''] True),
     ('':arrow_lower_right:'', Emoji [''2198-fe0f'', ''2198''] True),
     ('':arrow_lower_left:'', Emoji [''2199-fe0f'', ''2199''] True),
     ('':leftwards_arrow_with_hook:'', Emoji [''21a9-fe0f'', ''21a9''] True),
     ('':arrow_right_hook:'', Emoji [''21aa-fe0f'', ''21aa''] True),
     ('':watch:'', Emoji [''231a-fe0f'', ''231a''] True),
     ('':hourglass:'', Emoji [''231b-fe0f'', ''231b''] True),
     ('':m:'', Emoji [''24c2-fe0f'', ''24c2''] True),
     ('':black_small_square:'', Emoji [''25aa-fe0f'', ''25aa''] True)]"

definition emojioneList_10 :: "(string \<times> emoji) list" where
  "emojioneList_10 =
    [('':white_small_square:'', Emoji [''25ab-fe0f'', ''25ab''] True),
     ('':arrow_forward:'', Emoji [''25b6-fe0f'', ''25b6''] True),
     ('':arrow_backward:'', Emoji [''25c0-fe0f'', ''25c0''] True),
     ('':white_medium_square:'', Emoji [''25fb-fe0f'', ''25fb''] True),
     ('':black_medium_square:'', Emoji [''25fc-fe0f'', ''25fc''] True),
     ('':white_medium_small_square:'', Emoji [''25fd-fe0f'', ''25fd''] True),
     ('':black_medium_small_square:'', Emoji [''25fe-fe0f'', ''25fe''] True),
     ('':sunny:'', Emoji [''2600-fe0f'', ''2600''] True),
     ('':cloud:'', Emoji [''2601-fe0f'', ''2601''] True),
     ('':telephone:'', Emoji [''260e-fe0f'', ''260e''] True),
     ('':ballot_box_with_check:'', Emoji [''2611-fe0f'', ''2611''] True),
     ('':umbrella:'', Emoji [''2614-fe0f'', ''2614''] True),
     ('':coffee:'', Emoji [''2615-fe0f'', ''2615''] True),
     ('':point_up:'', Emoji [''261d-fe0f'', ''261d''] True),
     ('':relaxed:'', Emoji [''263a-fe0f'', ''263a''] True),
     ('':aries:'', Emoji [''2648-fe0f'', ''2648''] True),
     ('':taurus:'', Emoji [''2649-fe0f'', ''2649''] True),
     ('':gemini:'', Emoji [''264a-fe0f'', ''264a''] True),
     ('':cancer:'', Emoji [''264b-fe0f'', ''264b''] True),
     ('':leo:'', Emoji [''264c-fe0f'', ''264c''] True),
     ('':virgo:'', Emoji [''264d-fe0f'', ''264d''] True),
     ('':libra:'', Emoji [''264e-fe0f'', ''264e''] True),
     ('':scorpius:'', Emoji [''264f-fe0f'', ''264f''] True),
     ('':sagittarius:'', Emoji [''2650-fe0f'', ''2650''] True),
     ('':capricorn:'', Emoji [''2651-fe0f'', ''2651''] True),
     ('':aquarius:'', Emoji [''2652-fe0f'', ''2652''] True),
     ('':pisces:'', Emoji [''2653-fe0f'', ''2653''] True),
     ('':spades:'', Emoji [''2660-fe0f'', ''2660''] True),
     ('':clubs:'', Emoji [''2663-fe0f'', ''2663''] True),
     ('':hearts:'', Emoji [''2665-fe0f'', ''2665''] True),
     ('':diamonds:'', Emoji [''2666-fe0f'', ''2666''] True),
     ('':hotsprings:'', Emoji [''2668-fe0f'', ''2668''] True),
     ('':recycle:'', Emoji [''267b-fe0f'', ''267b''] True),
     ('':wheelchair:'', Emoji [''267f-fe0f'', ''267f''] True),
     ('':anchor:'', Emoji [''2693-fe0f'', ''2693''] True),
     ('':warning:'', Emoji [''26a0-fe0f'', ''26a0''] True),
     ('':zap:'', Emoji [''26a1-fe0f'', ''26a1''] True),
     ('':white_circle:'', Emoji [''26aa-fe0f'', ''26aa''] True),
     ('':black_circle:'', Emoji [''26ab-fe0f'', ''26ab''] True),
     ('':soccer:'', Emoji [''26bd-fe0f'', ''26bd''] True),
     ('':baseball:'', Emoji [''26be-fe0f'', ''26be''] True),
     ('':snowman:'', Emoji [''26c4-fe0f'', ''26c4''] True),
     ('':partly_sunny:'', Emoji [''26c5-fe0f'', ''26c5''] True),
     ('':no_entry:'', Emoji [''26d4-fe0f'', ''26d4''] True),
     ('':church:'', Emoji [''26ea-fe0f'', ''26ea''] True),
     ('':fountain:'', Emoji [''26f2-fe0f'', ''26f2''] True),
     ('':golf:'', Emoji [''26f3-fe0f'', ''26f3''] True),
     ('':sailboat:'', Emoji [''26f5-fe0f'', ''26f5''] True),
     ('':tent:'', Emoji [''26fa-fe0f'', ''26fa''] True),
     ('':fuelpump:'', Emoji [''26fd-fe0f'', ''26fd''] True),
     ('':scissors:'', Emoji [''2702-fe0f'', ''2702''] True),
     ('':airplane:'', Emoji [''2708-fe0f'', ''2708''] True),
     ('':envelope:'', Emoji [''2709-fe0f'', ''2709''] True),
     ('':v:'', Emoji [''270c-fe0f'', ''270c''] True),
     ('':pencil2:'', Emoji [''270f-fe0f'', ''270f''] True),
     ('':black_nib:'', Emoji [''2712-fe0f'', ''2712''] True),
     ('':heavy_check_mark:'', Emoji [''2714-fe0f'', ''2714''] True),
     ('':heavy_multiplication_x:'', Emoji [''2716-fe0f'', ''2716''] True),
     ('':eight_spoked_asterisk:'', Emoji [''2733-fe0f'', ''2733''] True),
     ('':eight_pointed_black_star:'', Emoji [''2734-fe0f'', ''2734''] True),
     ('':snowflake:'', Emoji [''2744-fe0f'', ''2744''] True),
     ('':sparkle:'', Emoji [''2747-fe0f'', ''2747''] True),
     ('':exclamation:'', Emoji [''2757-fe0f'', ''2757''] True),
     ('':heart:'', Emoji [''2764-fe0f'', ''2764''] True),
     ('':arrow_right:'', Emoji [''27a1-fe0f'', ''27a1''] True),
     ('':arrow_heading_up:'', Emoji [''2934-fe0f'', ''2934''] True),
     ('':arrow_heading_down:'', Emoji [''2935-fe0f'', ''2935''] True),
     ('':arrow_left:'', Emoji [''2b05-fe0f'', ''2b05''] True),
     ('':arrow_up:'', Emoji [''2b06-fe0f'', ''2b06''] True),
     ('':arrow_down:'', Emoji [''2b07-fe0f'', ''2b07''] True),
     ('':black_large_square:'', Emoji [''2b1b-fe0f'', ''2b1b''] True),
     ('':white_large_square:'', Emoji [''2b1c-fe0f'', ''2b1c''] True),
     ('':star:'', Emoji [''2b50-fe0f'', ''2b50''] True),
     ('':o:'', Emoji [''2b55-fe0f'', ''2b55''] True),
     ('':wavy_dash:'', Emoji [''3030-fe0f'', ''3030''] True),
     ('':part_alternation_mark:'', Emoji [''303d-fe0f'', ''303d''] True),
     ('':congratulations:'', Emoji [''3297-fe0f'', ''3297''] True),
     ('':secret:'', Emoji [''3299-fe0f'', ''3299''] True),
     ('':cross:'', Emoji [''271d-fe0f'', ''271d''] True),
     ('':latin_cross:'', Emoji [''271d-fe0f'', ''271d''] False),
     ('':keyboard:'', Emoji [''2328-fe0f'', ''2328''] True),
     ('':writing_hand:'', Emoji [''270d-fe0f'', ''270d''] True),
     ('':eject:'', Emoji [''23cf-fe0f'', ''23cf''] True),
     ('':eject_symbol:'', Emoji [''23cf-fe0f'', ''23cf''] False),
     ('':track_next:'', Emoji [''23ed-fe0f'', ''23ed''] True),
     ('':next_track:'', Emoji [''23ed-fe0f'', ''23ed''] False),
     ('':track_previous:'', Emoji [''23ee-fe0f'', ''23ee''] True),
     ('':previous_track:'', Emoji [''23ee-fe0f'', ''23ee''] False),
     ('':play_pause:'', Emoji [''23ef-fe0f'', ''23ef''] True),
     ('':stopwatch:'', Emoji [''23f1-fe0f'', ''23f1''] True),
     ('':timer:'', Emoji [''23f2-fe0f'', ''23f2''] True),
     ('':timer_clock:'', Emoji [''23f2-fe0f'', ''23f2''] False),
     ('':pause_button:'', Emoji [''23f8-fe0f'', ''23f8''] True),
     ('':double_vertical_bar:'', Emoji [''23f8-fe0f'', ''23f8''] False),
     ('':stop_button:'', Emoji [''23f9-fe0f'', ''23f9''] True),
     ('':record_button:'', Emoji [''23fa-fe0f'', ''23fa''] True),
     ('':umbrella2:'', Emoji [''2602-fe0f'', ''2602''] True),
     ('':snowman2:'', Emoji [''2603-fe0f'', ''2603''] True),
     ('':comet:'', Emoji [''2604-fe0f'', ''2604''] True),
     ('':shamrock:'', Emoji [''2618-fe0f'', ''2618''] True),
     ('':skull_crossbones:'', Emoji [''2620-fe0f'', ''2620''] True),
     ('':skull_and_crossbones:'', Emoji [''2620-fe0f'', ''2620''] False),
     ('':radioactive:'', Emoji [''2622-fe0f'', ''2622''] True),
     ('':radioactive_sign:'', Emoji [''2622-fe0f'', ''2622''] False),
     ('':biohazard:'', Emoji [''2623-fe0f'', ''2623''] True),
     ('':biohazard_sign:'', Emoji [''2623-fe0f'', ''2623''] False),
     ('':orthodox_cross:'', Emoji [''2626-fe0f'', ''2626''] True),
     ('':star_and_crescent:'', Emoji [''262a-fe0f'', ''262a''] True),
     ('':peace:'', Emoji [''262e-fe0f'', ''262e''] True),
     ('':peace_symbol:'', Emoji [''262e-fe0f'', ''262e''] False),
     ('':yin_yang:'', Emoji [''262f-fe0f'', ''262f''] True),
     ('':wheel_of_dharma:'', Emoji [''2638-fe0f'', ''2638''] True),
     ('':frowning2:'', Emoji [''2639-fe0f'', ''2639''] True),
     ('':white_frowning_face:'', Emoji [''2639-fe0f'', ''2639''] False),
     ('':hammer_pick:'', Emoji [''2692-fe0f'', ''2692''] True),
     ('':hammer_and_pick:'', Emoji [''2692-fe0f'', ''2692''] False),
     ('':crossed_swords:'', Emoji [''2694-fe0f'', ''2694''] True),
     ('':scales:'', Emoji [''2696-fe0f'', ''2696''] True),
     ('':alembic:'', Emoji [''2697-fe0f'', ''2697''] True),
     ('':gear:'', Emoji [''2699-fe0f'', ''2699''] True),
     ('':atom:'', Emoji [''269b-fe0f'', ''269b''] True),
     ('':atom_symbol:'', Emoji [''269b-fe0f'', ''269b''] False),
     ('':fleur-de-lis:'', Emoji [''269c-fe0f'', ''269c''] True),
     ('':coffin:'', Emoji [''26b0-fe0f'', ''26b0''] True),
     ('':urn:'', Emoji [''26b1-fe0f'', ''26b1''] True),
     ('':funeral_urn:'', Emoji [''26b1-fe0f'', ''26b1''] False),
     ('':thunder_cloud_rain:'', Emoji [''26c8-fe0f'', ''26c8''] True),
     ('':thunder_cloud_and_rain:'', Emoji [''26c8-fe0f'', ''26c8''] False),
     ('':pick:'', Emoji [''26cf-fe0f'', ''26cf''] True),
     ('':helmet_with_cross:'', Emoji [''26d1-fe0f'', ''26d1''] True),
     ('':helmet_with_white_cross:'', Emoji [''26d1-fe0f'', ''26d1''] False),
     ('':chains:'', Emoji [''26d3-fe0f'', ''26d3''] True),
     ('':shinto_shrine:'', Emoji [''26e9-fe0f'', ''26e9''] True),
     ('':mountain:'', Emoji [''26f0-fe0f'', ''26f0''] True),
     ('':beach_umbrella:'', Emoji [''26f1-fe0f'', ''26f1''] True),
     ('':umbrella_on_ground:'', Emoji [''26f1-fe0f'', ''26f1''] False),
     ('':ferry:'', Emoji [''26f4-fe0f'', ''26f4''] True),
     ('':skier:'', Emoji [''26f7-fe0f'', ''26f7''] True),
     ('':ice_skate:'', Emoji [''26f8-fe0f'', ''26f8''] True),
     ('':basketball_player:'', Emoji [''26f9-fe0f'', ''26f9''] True),
     ('':person_with_ball:'', Emoji [''26f9-fe0f'', ''26f9''] False),
     ('':star_of_david:'', Emoji [''2721-fe0f'', ''2721''] True),
     ('':heart_exclamation:'', Emoji [''2763-fe0f'', ''2763''] True),
     ('':heavy_heart_exclamation_mark_ornament:'', Emoji [''2763-fe0f'', ''2763''] False),
     ('':third_place:'', Emoji [''1f949''] True),
     ('':third_place_medal:'', Emoji [''1f949''] False),
     ('':second_place:'', Emoji [''1f948''] True),
     ('':second_place_medal:'', Emoji [''1f948''] False)]"

definition emojioneList_11 :: "(string \<times> emoji) list" where
  "emojioneList_11 =
    [('':first_place:'', Emoji [''1f947''] True),
     ('':first_place_medal:'', Emoji [''1f947''] False),
     ('':fencer:'', Emoji [''1f93a''] True),
     ('':fencing:'', Emoji [''1f93a''] False),
     ('':goal:'', Emoji [''1f945''] True),
     ('':goal_net:'', Emoji [''1f945''] False),
     ('':handball:'', Emoji [''1f93e''] True),
     ('':regional_indicator_z:'', Emoji [''1f1ff''] True),
     ('':water_polo:'', Emoji [''1f93d''] True),
     ('':martial_arts_uniform:'', Emoji [''1f94b''] True),
     ('':karate_uniform:'', Emoji [''1f94b''] False),
     ('':boxing_glove:'', Emoji [''1f94a''] True),
     ('':boxing_gloves:'', Emoji [''1f94a''] False),
     ('':wrestlers:'', Emoji [''1f93c''] True),
     ('':wrestling:'', Emoji [''1f93c''] False),
     ('':juggling:'', Emoji [''1f939''] True),
     ('':juggler:'', Emoji [''1f939''] False),
     ('':cartwheel:'', Emoji [''1f938''] True),
     ('':person_doing_cartwheel:'', Emoji [''1f938''] False),
     ('':canoe:'', Emoji [''1f6f6''] True),
     ('':kayak:'', Emoji [''1f6f6''] False),
     ('':motor_scooter:'', Emoji [''1f6f5''] True),
     ('':motorbike:'', Emoji [''1f6f5''] False),
     ('':scooter:'', Emoji [''1f6f4''] True),
     ('':shopping_cart:'', Emoji [''1f6d2''] True),
     ('':shopping_trolley:'', Emoji [''1f6d2''] False),
     ('':black_joker:'', Emoji [''1f0cf''] True),
     ('':a:'', Emoji [''1f170''] True),
     ('':b:'', Emoji [''1f171''] True),
     ('':o2:'', Emoji [''1f17e''] True),
     ('':octagonal_sign:'', Emoji [''1f6d1''] True),
     ('':stop_sign:'', Emoji [''1f6d1''] False),
     ('':ab:'', Emoji [''1f18e''] True),
     ('':cl:'', Emoji [''1f191''] True),
     ('':regional_indicator_y:'', Emoji [''1f1fe''] True),
     ('':cool:'', Emoji [''1f192''] True),
     ('':free:'', Emoji [''1f193''] True),
     ('':id:'', Emoji [''1f194''] True),
     ('':new:'', Emoji [''1f195''] True),
     ('':ng:'', Emoji [''1f196''] True),
     ('':ok:'', Emoji [''1f197''] True),
     ('':sos:'', Emoji [''1f198''] True),
     ('':spoon:'', Emoji [''1f944''] True),
     ('':up:'', Emoji [''1f199''] True),
     ('':vs:'', Emoji [''1f19a''] True),
     ('':champagne_glass:'', Emoji [''1f942''] True),
     ('':clinking_glass:'', Emoji [''1f942''] False),
     ('':tumbler_glass:'', Emoji [''1f943''] True),
     ('':whisky:'', Emoji [''1f943''] False),
     ('':koko:'', Emoji [''1f201''] True),
     ('':stuffed_flatbread:'', Emoji [''1f959''] True),
     ('':stuffed_pita:'', Emoji [''1f959''] False),
     ('':u7981:'', Emoji [''1f232''] True),
     ('':u7a7a:'', Emoji [''1f233''] True),
     ('':u5408:'', Emoji [''1f234''] True),
     ('':u6e80:'', Emoji [''1f235''] True),
     ('':u6709:'', Emoji [''1f236''] True),
     ('':shallow_pan_of_food:'', Emoji [''1f958''] True),
     ('':paella:'', Emoji [''1f958''] False),
     ('':u7533:'', Emoji [''1f238''] True),
     ('':u5272:'', Emoji [''1f239''] True),
     ('':salad:'', Emoji [''1f957''] True),
     ('':green_salad:'', Emoji [''1f957''] False),
     ('':u55b6:'', Emoji [''1f23a''] True),
     ('':ideograph_advantage:'', Emoji [''1f250''] True),
     ('':accept:'', Emoji [''1f251''] True),
     ('':cyclone:'', Emoji [''1f300''] True),
     ('':french_bread:'', Emoji [''1f956''] True),
     ('':baguette_bread:'', Emoji [''1f956''] False),
     ('':foggy:'', Emoji [''1f301''] True),
     ('':closed_umbrella:'', Emoji [''1f302''] True),
     ('':night_with_stars:'', Emoji [''1f303''] True),
     ('':sunrise_over_mountains:'', Emoji [''1f304''] True),
     ('':sunrise:'', Emoji [''1f305''] True),
     ('':city_dusk:'', Emoji [''1f306''] True),
     ('':carrot:'', Emoji [''1f955''] True),
     ('':city_sunset:'', Emoji [''1f307''] True),
     ('':city_sunrise:'', Emoji [''1f307''] False),
     ('':rainbow:'', Emoji [''1f308''] True),
     ('':potato:'', Emoji [''1f954''] True),
     ('':bridge_at_night:'', Emoji [''1f309''] True),
     ('':ocean:'', Emoji [''1f30a''] True),
     ('':volcano:'', Emoji [''1f30b''] True),
     ('':milky_way:'', Emoji [''1f30c''] True),
     ('':earth_asia:'', Emoji [''1f30f''] True),
     ('':new_moon:'', Emoji [''1f311''] True),
     ('':bacon:'', Emoji [''1f953''] True),
     ('':first_quarter_moon:'', Emoji [''1f313''] True),
     ('':waxing_gibbous_moon:'', Emoji [''1f314''] True),
     ('':full_moon:'', Emoji [''1f315''] True),
     ('':crescent_moon:'', Emoji [''1f319''] True),
     ('':first_quarter_moon_with_face:'', Emoji [''1f31b''] True),
     ('':star2:'', Emoji [''1f31f''] True),
     ('':cucumber:'', Emoji [''1f952''] True),
     ('':stars:'', Emoji [''1f320''] True),
     ('':chestnut:'', Emoji [''1f330''] True),
     ('':avocado:'', Emoji [''1f951''] True),
     ('':seedling:'', Emoji [''1f331''] True),
     ('':palm_tree:'', Emoji [''1f334''] True),
     ('':cactus:'', Emoji [''1f335''] True),
     ('':tulip:'', Emoji [''1f337''] True),
     ('':cherry_blossom:'', Emoji [''1f338''] True),
     ('':rose:'', Emoji [''1f339''] True),
     ('':hibiscus:'', Emoji [''1f33a''] True),
     ('':sunflower:'', Emoji [''1f33b''] True),
     ('':blossom:'', Emoji [''1f33c''] True),
     ('':corn:'', Emoji [''1f33d''] True),
     ('':croissant:'', Emoji [''1f950''] True),
     ('':ear_of_rice:'', Emoji [''1f33e''] True),
     ('':herb:'', Emoji [''1f33f''] True),
     ('':four_leaf_clover:'', Emoji [''1f340''] True),
     ('':maple_leaf:'', Emoji [''1f341''] True),
     ('':fallen_leaf:'', Emoji [''1f342''] True),
     ('':leaves:'', Emoji [''1f343''] True),
     ('':mushroom:'', Emoji [''1f344''] True),
     ('':tomato:'', Emoji [''1f345''] True),
     ('':eggplant:'', Emoji [''1f346''] True),
     ('':grapes:'', Emoji [''1f347''] True),
     ('':melon:'', Emoji [''1f348''] True),
     ('':watermelon:'', Emoji [''1f349''] True),
     ('':tangerine:'', Emoji [''1f34a''] True),
     ('':wilted_rose:'', Emoji [''1f940''] True),
     ('':wilted_flower:'', Emoji [''1f940''] False),
     ('':banana:'', Emoji [''1f34c''] True),
     ('':pineapple:'', Emoji [''1f34d''] True),
     ('':apple:'', Emoji [''1f34e''] True),
     ('':green_apple:'', Emoji [''1f34f''] True),
     ('':peach:'', Emoji [''1f351''] True),
     ('':cherries:'', Emoji [''1f352''] True),
     ('':strawberry:'', Emoji [''1f353''] True),
     ('':rhino:'', Emoji [''1f98f''] True),
     ('':rhinoceros:'', Emoji [''1f98f''] False),
     ('':hamburger:'', Emoji [''1f354''] True),
     ('':pizza:'', Emoji [''1f355''] True),
     ('':meat_on_bone:'', Emoji [''1f356''] True),
     ('':lizard:'', Emoji [''1f98e''] True),
     ('':poultry_leg:'', Emoji [''1f357''] True),
     ('':rice_cracker:'', Emoji [''1f358''] True),
     ('':rice_ball:'', Emoji [''1f359''] True),
     ('':gorilla:'', Emoji [''1f98d''] True),
     ('':rice:'', Emoji [''1f35a''] True),
     ('':curry:'', Emoji [''1f35b''] True),
     ('':deer:'', Emoji [''1f98c''] True),
     ('':ramen:'', Emoji [''1f35c''] True),
     ('':spaghetti:'', Emoji [''1f35d''] True),
     ('':bread:'', Emoji [''1f35e''] True),
     ('':fries:'', Emoji [''1f35f''] True),
     ('':butterfly:'', Emoji [''1f98b''] True)]"

definition emojioneList_12 :: "(string \<times> emoji) list" where
  "emojioneList_12 =
    [('':sweet_potato:'', Emoji [''1f360''] True),
     ('':dango:'', Emoji [''1f361''] True),
     ('':fox:'', Emoji [''1f98a''] True),
     ('':fox_face:'', Emoji [''1f98a''] False),
     ('':oden:'', Emoji [''1f362''] True),
     ('':sushi:'', Emoji [''1f363''] True),
     ('':owl:'', Emoji [''1f989''] True),
     ('':fried_shrimp:'', Emoji [''1f364''] True),
     ('':fish_cake:'', Emoji [''1f365''] True),
     ('':shark:'', Emoji [''1f988''] True),
     ('':icecream:'', Emoji [''1f366''] True),
     ('':bat:'', Emoji [''1f987''] True),
     ('':shaved_ice:'', Emoji [''1f367''] True),
     ('':regional_indicator_x:'', Emoji [''1f1fd''] True),
     ('':ice_cream:'', Emoji [''1f368''] True),
     ('':duck:'', Emoji [''1f986''] True),
     ('':doughnut:'', Emoji [''1f369''] True),
     ('':eagle:'', Emoji [''1f985''] True),
     ('':cookie:'', Emoji [''1f36a''] True),
     ('':black_heart:'', Emoji [''1f5a4''] True),
     ('':chocolate_bar:'', Emoji [''1f36b''] True),
     ('':candy:'', Emoji [''1f36c''] True),
     ('':lollipop:'', Emoji [''1f36d''] True),
     ('':custard:'', Emoji [''1f36e''] True),
     ('':pudding:'', Emoji [''1f36e''] False),
     ('':flan:'', Emoji [''1f36e''] False),
     ('':honey_pot:'', Emoji [''1f36f''] True),
     ('':fingers_crossed:'', Emoji [''1f91e''] True),
     ('':hand_with_index_and_middle_finger_crossed:'', Emoji [''1f91e''] False),
     ('':cake:'', Emoji [''1f370''] True),
     ('':bento:'', Emoji [''1f371''] True),
     ('':stew:'', Emoji [''1f372''] True),
     ('':handshake:'', Emoji [''1f91d''] True),
     ('':shaking_hands:'', Emoji [''1f91d''] False),
     ('':cooking:'', Emoji [''1f373''] True),
     ('':fork_and_knife:'', Emoji [''1f374''] True),
     ('':tea:'', Emoji [''1f375''] True),
     ('':sake:'', Emoji [''1f376''] True),
     ('':wine_glass:'', Emoji [''1f377''] True),
     ('':cocktail:'', Emoji [''1f378''] True),
     ('':tropical_drink:'', Emoji [''1f379''] True),
     ('':beer:'', Emoji [''1f37a''] True),
     ('':beers:'', Emoji [''1f37b''] True),
     ('':ribbon:'', Emoji [''1f380''] True),
     ('':gift:'', Emoji [''1f381''] True),
     ('':birthday:'', Emoji [''1f382''] True),
     ('':jack_o_lantern:'', Emoji [''1f383''] True),
     ('':left_facing_fist:'', Emoji [''1f91b''] True),
     ('':left_fist:'', Emoji [''1f91b''] False),
     ('':right_facing_fist:'', Emoji [''1f91c''] True),
     ('':right_fist:'', Emoji [''1f91c''] False),
     ('':christmas_tree:'', Emoji [''1f384''] True),
     ('':santa:'', Emoji [''1f385''] True),
     ('':fireworks:'', Emoji [''1f386''] True),
     ('':raised_back_of_hand:'', Emoji [''1f91a''] True),
     ('':back_of_hand:'', Emoji [''1f91a''] False),
     ('':sparkler:'', Emoji [''1f387''] True),
     ('':balloon:'', Emoji [''1f388''] True),
     ('':tada:'', Emoji [''1f389''] True),
     ('':confetti_ball:'', Emoji [''1f38a''] True),
     ('':tanabata_tree:'', Emoji [''1f38b''] True),
     ('':crossed_flags:'', Emoji [''1f38c''] True),
     ('':call_me:'', Emoji [''1f919''] True),
     ('':call_me_hand:'', Emoji [''1f919''] False),
     ('':bamboo:'', Emoji [''1f38d''] True),
     ('':man_dancing:'', Emoji [''1f57a''] True),
     ('':male_dancer:'', Emoji [''1f57a''] False),
     ('':dolls:'', Emoji [''1f38e''] True),
     ('':selfie:'', Emoji [''1f933''] True),
     ('':flags:'', Emoji [''1f38f''] True),
     ('':pregnant_woman:'', Emoji [''1f930''] True),
     ('':expecting_woman:'', Emoji [''1f930''] False),
     ('':wind_chime:'', Emoji [''1f390''] True),
     ('':face_palm:'', Emoji [''1f926''] True),
     ('':facepalm:'', Emoji [''1f926''] False),
     ('':shrug:'', Emoji [''1f937''] True),
     ('':rice_scene:'', Emoji [''1f391''] True),
     ('':school_satchel:'', Emoji [''1f392''] True),
     ('':mortar_board:'', Emoji [''1f393''] True),
     ('':carousel_horse:'', Emoji [''1f3a0''] True),
     ('':ferris_wheel:'', Emoji [''1f3a1''] True),
     ('':roller_coaster:'', Emoji [''1f3a2''] True),
     ('':fishing_pole_and_fish:'', Emoji [''1f3a3''] True),
     ('':microphone:'', Emoji [''1f3a4''] True),
     ('':movie_camera:'', Emoji [''1f3a5''] True),
     ('':cinema:'', Emoji [''1f3a6''] True),
     ('':headphones:'', Emoji [''1f3a7''] True),
     ('':mrs_claus:'', Emoji [''1f936''] True),
     ('':mother_christmas:'', Emoji [''1f936''] False),
     ('':art:'', Emoji [''1f3a8''] True),
     ('':man_in_tuxedo:'', Emoji [''1f935''] True),
     ('':tophat:'', Emoji [''1f3a9''] True),
     ('':circus_tent:'', Emoji [''1f3aa''] True),
     ('':prince:'', Emoji [''1f934''] True),
     ('':ticket:'', Emoji [''1f3ab''] True),
     ('':clapper:'', Emoji [''1f3ac''] True),
     ('':performing_arts:'', Emoji [''1f3ad''] True),
     ('':sneezing_face:'', Emoji [''1f927''] True),
     ('':sneeze:'', Emoji [''1f927''] False),
     ('':video_game:'', Emoji [''1f3ae''] True),
     ('':dart:'', Emoji [''1f3af''] True),
     ('':slot_machine:'', Emoji [''1f3b0''] True),
     ('':8ball:'', Emoji [''1f3b1''] True),
     ('':game_die:'', Emoji [''1f3b2''] True),
     ('':bowling:'', Emoji [''1f3b3''] True),
     ('':flower_playing_cards:'', Emoji [''1f3b4''] True),
     ('':lying_face:'', Emoji [''1f925''] True),
     ('':liar:'', Emoji [''1f925''] False),
     ('':musical_note:'', Emoji [''1f3b5''] True),
     ('':notes:'', Emoji [''1f3b6''] True),
     ('':saxophone:'', Emoji [''1f3b7''] True),
     ('':drooling_face:'', Emoji [''1f924''] True),
     ('':drool:'', Emoji [''1f924''] False),
     ('':guitar:'', Emoji [''1f3b8''] True),
     ('':musical_keyboard:'', Emoji [''1f3b9''] True),
     ('':trumpet:'', Emoji [''1f3ba''] True),
     ('':rofl:'', Emoji [''1f923''] True),
     ('':rolling_on_the_floor_laughing:'', Emoji [''1f923''] False),
     ('':violin:'', Emoji [''1f3bb''] True),
     ('':musical_score:'', Emoji [''1f3bc''] True),
     ('':running_shirt_with_sash:'', Emoji [''1f3bd''] True),
     ('':nauseated_face:'', Emoji [''1f922''] True),
     ('':sick:'', Emoji [''1f922''] False),
     ('':tennis:'', Emoji [''1f3be''] True),
     ('':ski:'', Emoji [''1f3bf''] True),
     ('':basketball:'', Emoji [''1f3c0''] True),
     ('':checkered_flag:'', Emoji [''1f3c1''] True),
     ('':clown:'', Emoji [''1f921''] True),
     ('':clown_face:'', Emoji [''1f921''] False),
     ('':snowboarder:'', Emoji [''1f3c2''] True),
     ('':runner:'', Emoji [''1f3c3''] True),
     ('':surfer:'', Emoji [''1f3c4''] True),
     ('':trophy:'', Emoji [''1f3c6''] True),
     ('':football:'', Emoji [''1f3c8''] True),
     ('':swimmer:'', Emoji [''1f3ca''] True),
     ('':house:'', Emoji [''1f3e0''] True),
     ('':house_with_garden:'', Emoji [''1f3e1''] True),
     ('':office:'', Emoji [''1f3e2''] True),
     ('':post_office:'', Emoji [''1f3e3''] True),
     ('':hospital:'', Emoji [''1f3e5''] True),
     ('':bank:'', Emoji [''1f3e6''] True),
     ('':atm:'', Emoji [''1f3e7''] True),
     ('':hotel:'', Emoji [''1f3e8''] True),
     ('':love_hotel:'', Emoji [''1f3e9''] True),
     ('':convenience_store:'', Emoji [''1f3ea''] True),
     ('':school:'', Emoji [''1f3eb''] True),
     ('':department_store:'', Emoji [''1f3ec''] True),
     ('':cowboy:'', Emoji [''1f920''] True)]"

definition emojioneList_13 :: "(string \<times> emoji) list" where
  "emojioneList_13 =
    [('':face_with_cowboy_hat:'', Emoji [''1f920''] False),
     ('':factory:'', Emoji [''1f3ed''] True),
     ('':izakaya_lantern:'', Emoji [''1f3ee''] True),
     ('':japanese_castle:'', Emoji [''1f3ef''] True),
     ('':european_castle:'', Emoji [''1f3f0''] True),
     ('':snail:'', Emoji [''1f40c''] True),
     ('':snake:'', Emoji [''1f40d''] True),
     ('':racehorse:'', Emoji [''1f40e''] True),
     ('':sheep:'', Emoji [''1f411''] True),
     ('':monkey:'', Emoji [''1f412''] True),
     ('':chicken:'', Emoji [''1f414''] True),
     ('':boar:'', Emoji [''1f417''] True),
     ('':elephant:'', Emoji [''1f418''] True),
     ('':octopus:'', Emoji [''1f419''] True),
     ('':shell:'', Emoji [''1f41a''] True),
     ('':bug:'', Emoji [''1f41b''] True),
     ('':ant:'', Emoji [''1f41c''] True),
     ('':bee:'', Emoji [''1f41d''] True),
     ('':beetle:'', Emoji [''1f41e''] True),
     ('':fish:'', Emoji [''1f41f''] True),
     ('':tropical_fish:'', Emoji [''1f420''] True),
     ('':blowfish:'', Emoji [''1f421''] True),
     ('':turtle:'', Emoji [''1f422''] True),
     ('':hatching_chick:'', Emoji [''1f423''] True),
     ('':baby_chick:'', Emoji [''1f424''] True),
     ('':hatched_chick:'', Emoji [''1f425''] True),
     ('':bird:'', Emoji [''1f426''] True),
     ('':penguin:'', Emoji [''1f427''] True),
     ('':koala:'', Emoji [''1f428''] True),
     ('':poodle:'', Emoji [''1f429''] True),
     ('':camel:'', Emoji [''1f42b''] True),
     ('':dolphin:'', Emoji [''1f42c''] True),
     ('':mouse:'', Emoji [''1f42d''] True),
     ('':cow:'', Emoji [''1f42e''] True),
     ('':tiger:'', Emoji [''1f42f''] True),
     ('':rabbit:'', Emoji [''1f430''] True),
     ('':cat:'', Emoji [''1f431''] True),
     ('':dragon_face:'', Emoji [''1f432''] True),
     ('':whale:'', Emoji [''1f433''] True),
     ('':horse:'', Emoji [''1f434''] True),
     ('':monkey_face:'', Emoji [''1f435''] True),
     ('':dog:'', Emoji [''1f436''] True),
     ('':pig:'', Emoji [''1f437''] True),
     ('':frog:'', Emoji [''1f438''] True),
     ('':hamster:'', Emoji [''1f439''] True),
     ('':wolf:'', Emoji [''1f43a''] True),
     ('':bear:'', Emoji [''1f43b''] True),
     ('':panda_face:'', Emoji [''1f43c''] True),
     ('':pig_nose:'', Emoji [''1f43d''] True),
     ('':feet:'', Emoji [''1f43e''] True),
     ('':paw_prints:'', Emoji [''1f43e''] False),
     ('':eyes:'', Emoji [''1f440''] True),
     ('':ear:'', Emoji [''1f442''] True),
     ('':nose:'', Emoji [''1f443''] True),
     ('':lips:'', Emoji [''1f444''] True),
     ('':tongue:'', Emoji [''1f445''] True),
     ('':point_up_2:'', Emoji [''1f446''] True),
     ('':point_down:'', Emoji [''1f447''] True),
     ('':point_left:'', Emoji [''1f448''] True),
     ('':point_right:'', Emoji [''1f449''] True),
     ('':punch:'', Emoji [''1f44a''] True),
     ('':wave:'', Emoji [''1f44b''] True),
     ('':ok_hand:'', Emoji [''1f44c''] True),
     ('':thumbsup:'', Emoji [''1f44d''] True),
     ('':+1:'', Emoji [''1f44d''] False),
     ('':thumbup:'', Emoji [''1f44d''] False),
     ('':thumbsdown:'', Emoji [''1f44e''] True),
     ('':-1:'', Emoji [''1f44e''] False),
     ('':thumbdown:'', Emoji [''1f44e''] False),
     ('':clap:'', Emoji [''1f44f''] True),
     ('':open_hands:'', Emoji [''1f450''] True),
     ('':crown:'', Emoji [''1f451''] True),
     ('':womans_hat:'', Emoji [''1f452''] True),
     ('':eyeglasses:'', Emoji [''1f453''] True),
     ('':necktie:'', Emoji [''1f454''] True),
     ('':shirt:'', Emoji [''1f455''] True),
     ('':jeans:'', Emoji [''1f456''] True),
     ('':dress:'', Emoji [''1f457''] True),
     ('':kimono:'', Emoji [''1f458''] True),
     ('':bikini:'', Emoji [''1f459''] True),
     ('':womans_clothes:'', Emoji [''1f45a''] True),
     ('':purse:'', Emoji [''1f45b''] True),
     ('':handbag:'', Emoji [''1f45c''] True),
     ('':pouch:'', Emoji [''1f45d''] True),
     ('':mans_shoe:'', Emoji [''1f45e''] True),
     ('':athletic_shoe:'', Emoji [''1f45f''] True),
     ('':high_heel:'', Emoji [''1f460''] True),
     ('':sandal:'', Emoji [''1f461''] True),
     ('':boot:'', Emoji [''1f462''] True),
     ('':footprints:'', Emoji [''1f463''] True),
     ('':bust_in_silhouette:'', Emoji [''1f464''] True),
     ('':boy:'', Emoji [''1f466''] True),
     ('':girl:'', Emoji [''1f467''] True),
     ('':man:'', Emoji [''1f468''] True),
     ('':woman:'', Emoji [''1f469''] True),
     ('':family:'', Emoji [''1f46a''] True),
     ('':couple:'', Emoji [''1f46b''] True),
     ('':cop:'', Emoji [''1f46e''] True),
     ('':dancers:'', Emoji [''1f46f''] True),
     ('':bride_with_veil:'', Emoji [''1f470''] True),
     ('':person_with_blond_hair:'', Emoji [''1f471''] True),
     ('':man_with_gua_pi_mao:'', Emoji [''1f472''] True),
     ('':man_with_turban:'', Emoji [''1f473''] True),
     ('':older_man:'', Emoji [''1f474''] True),
     ('':older_woman:'', Emoji [''1f475''] True),
     ('':grandma:'', Emoji [''1f475''] False),
     ('':baby:'', Emoji [''1f476''] True),
     ('':construction_worker:'', Emoji [''1f477''] True),
     ('':princess:'', Emoji [''1f478''] True),
     ('':japanese_ogre:'', Emoji [''1f479''] True),
     ('':japanese_goblin:'', Emoji [''1f47a''] True),
     ('':ghost:'', Emoji [''1f47b''] True),
     ('':angel:'', Emoji [''1f47c''] True),
     ('':alien:'', Emoji [''1f47d''] True),
     ('':space_invader:'', Emoji [''1f47e''] True),
     ('':imp:'', Emoji [''1f47f''] True),
     ('':skull:'', Emoji [''1f480''] True),
     ('':skeleton:'', Emoji [''1f480''] False),
     ('':card_index:'', Emoji [''1f4c7''] True),
     ('':information_desk_person:'', Emoji [''1f481''] True),
     ('':guardsman:'', Emoji [''1f482''] True),
     ('':dancer:'', Emoji [''1f483''] True),
     ('':lipstick:'', Emoji [''1f484''] True),
     ('':nail_care:'', Emoji [''1f485''] True),
     ('':ledger:'', Emoji [''1f4d2''] True),
     ('':massage:'', Emoji [''1f486''] True),
     ('':notebook:'', Emoji [''1f4d3''] True),
     ('':haircut:'', Emoji [''1f487''] True),
     ('':notebook_with_decorative_cover:'', Emoji [''1f4d4''] True),
     ('':barber:'', Emoji [''1f488''] True),
     ('':closed_book:'', Emoji [''1f4d5''] True),
     ('':syringe:'', Emoji [''1f489''] True),
     ('':book:'', Emoji [''1f4d6''] True),
     ('':pill:'', Emoji [''1f48a''] True),
     ('':green_book:'', Emoji [''1f4d7''] True),
     ('':kiss:'', Emoji [''1f48b''] True),
     ('':blue_book:'', Emoji [''1f4d8''] True),
     ('':love_letter:'', Emoji [''1f48c''] True),
     ('':orange_book:'', Emoji [''1f4d9''] True),
     ('':ring:'', Emoji [''1f48d''] True),
     ('':books:'', Emoji [''1f4da''] True),
     ('':gem:'', Emoji [''1f48e''] True),
     ('':name_badge:'', Emoji [''1f4db''] True),
     ('':couplekiss:'', Emoji [''1f48f''] True),
     ('':scroll:'', Emoji [''1f4dc''] True),
     ('':bouquet:'', Emoji [''1f490''] True),
     ('':pencil:'', Emoji [''1f4dd''] True),
     ('':couple_with_heart:'', Emoji [''1f491''] True)]"

definition emojioneList_14 :: "(string \<times> emoji) list" where
  "emojioneList_14 =
    [('':telephone_receiver:'', Emoji [''1f4de''] True),
     ('':wedding:'', Emoji [''1f492''] True),
     ('':pager:'', Emoji [''1f4df''] True),
     ('':fax:'', Emoji [''1f4e0''] True),
     ('':heartbeat:'', Emoji [''1f493''] True),
     ('':satellite:'', Emoji [''1f4e1''] True),
     ('':loudspeaker:'', Emoji [''1f4e2''] True),
     ('':broken_heart:'', Emoji [''1f494''] True),
     ('':mega:'', Emoji [''1f4e3''] True),
     ('':outbox_tray:'', Emoji [''1f4e4''] True),
     ('':two_hearts:'', Emoji [''1f495''] True),
     ('':inbox_tray:'', Emoji [''1f4e5''] True),
     ('':package:'', Emoji [''1f4e6''] True),
     ('':sparkling_heart:'', Emoji [''1f496''] True),
     ('':e-mail:'', Emoji [''1f4e7''] True),
     ('':email:'', Emoji [''1f4e7''] False),
     ('':incoming_envelope:'', Emoji [''1f4e8''] True),
     ('':heartpulse:'', Emoji [''1f497''] True),
     ('':envelope_with_arrow:'', Emoji [''1f4e9''] True),
     ('':mailbox_closed:'', Emoji [''1f4ea''] True),
     ('':cupid:'', Emoji [''1f498''] True),
     ('':mailbox:'', Emoji [''1f4eb''] True),
     ('':postbox:'', Emoji [''1f4ee''] True),
     ('':blue_heart:'', Emoji [''1f499''] True),
     ('':newspaper:'', Emoji [''1f4f0''] True),
     ('':iphone:'', Emoji [''1f4f1''] True),
     ('':green_heart:'', Emoji [''1f49a''] True),
     ('':calling:'', Emoji [''1f4f2''] True),
     ('':vibration_mode:'', Emoji [''1f4f3''] True),
     ('':yellow_heart:'', Emoji [''1f49b''] True),
     ('':mobile_phone_off:'', Emoji [''1f4f4''] True),
     ('':signal_strength:'', Emoji [''1f4f6''] True),
     ('':purple_heart:'', Emoji [''1f49c''] True),
     ('':camera:'', Emoji [''1f4f7''] True),
     ('':video_camera:'', Emoji [''1f4f9''] True),
     ('':gift_heart:'', Emoji [''1f49d''] True),
     ('':tv:'', Emoji [''1f4fa''] True),
     ('':radio:'', Emoji [''1f4fb''] True),
     ('':revolving_hearts:'', Emoji [''1f49e''] True),
     ('':vhs:'', Emoji [''1f4fc''] True),
     ('':arrows_clockwise:'', Emoji [''1f503''] True),
     ('':heart_decoration:'', Emoji [''1f49f''] True),
     ('':loud_sound:'', Emoji [''1f50a''] True),
     ('':battery:'', Emoji [''1f50b''] True),
     ('':diamond_shape_with_a_dot_inside:'', Emoji [''1f4a0''] True),
     ('':electric_plug:'', Emoji [''1f50c''] True),
     ('':mag:'', Emoji [''1f50d''] True),
     ('':bulb:'', Emoji [''1f4a1''] True),
     ('':mag_right:'', Emoji [''1f50e''] True),
     ('':lock_with_ink_pen:'', Emoji [''1f50f''] True),
     ('':anger:'', Emoji [''1f4a2''] True),
     ('':closed_lock_with_key:'', Emoji [''1f510''] True),
     ('':key:'', Emoji [''1f511''] True),
     ('':bomb:'', Emoji [''1f4a3''] True),
     ('':lock:'', Emoji [''1f512''] True),
     ('':unlock:'', Emoji [''1f513''] True),
     ('':zzz:'', Emoji [''1f4a4''] True),
     ('':bell:'', Emoji [''1f514''] True),
     ('':bookmark:'', Emoji [''1f516''] True),
     ('':boom:'', Emoji [''1f4a5''] True),
     ('':link:'', Emoji [''1f517''] True),
     ('':radio_button:'', Emoji [''1f518''] True),
     ('':sweat_drops:'', Emoji [''1f4a6''] True),
     ('':back:'', Emoji [''1f519''] True),
     ('':end:'', Emoji [''1f51a''] True),
     ('':droplet:'', Emoji [''1f4a7''] True),
     ('':on:'', Emoji [''1f51b''] True),
     ('':soon:'', Emoji [''1f51c''] True),
     ('':dash:'', Emoji [''1f4a8''] True),
     ('':top:'', Emoji [''1f51d''] True),
     ('':underage:'', Emoji [''1f51e''] True),
     ('':poop:'', Emoji [''1f4a9''] True),
     ('':shit:'', Emoji [''1f4a9''] False),
     ('':hankey:'', Emoji [''1f4a9''] False),
     ('':poo:'', Emoji [''1f4a9''] False),
     ('':keycap_ten:'', Emoji [''1f51f''] True),
     ('':muscle:'', Emoji [''1f4aa''] True),
     ('':capital_abcd:'', Emoji [''1f520''] True),
     ('':abcd:'', Emoji [''1f521''] True),
     ('':dizzy:'', Emoji [''1f4ab''] True),
     ('':1234:'', Emoji [''1f522''] True),
     ('':symbols:'', Emoji [''1f523''] True),
     ('':speech_balloon:'', Emoji [''1f4ac''] True),
     ('':abc:'', Emoji [''1f524''] True),
     ('':fire:'', Emoji [''1f525''] True),
     ('':flame:'', Emoji [''1f525''] False),
     ('':white_flower:'', Emoji [''1f4ae''] True),
     ('':flashlight:'', Emoji [''1f526''] True),
     ('':wrench:'', Emoji [''1f527''] True),
     ('':100:'', Emoji [''1f4af''] True),
     ('':hammer:'', Emoji [''1f528''] True),
     ('':nut_and_bolt:'', Emoji [''1f529''] True),
     ('':moneybag:'', Emoji [''1f4b0''] True),
     ('':knife:'', Emoji [''1f52a''] True),
     ('':gun:'', Emoji [''1f52b''] True),
     ('':currency_exchange:'', Emoji [''1f4b1''] True),
     ('':crystal_ball:'', Emoji [''1f52e''] True),
     ('':heavy_dollar_sign:'', Emoji [''1f4b2''] True),
     ('':six_pointed_star:'', Emoji [''1f52f''] True),
     ('':credit_card:'', Emoji [''1f4b3''] True),
     ('':beginner:'', Emoji [''1f530''] True),
     ('':trident:'', Emoji [''1f531''] True),
     ('':yen:'', Emoji [''1f4b4''] True),
     ('':black_square_button:'', Emoji [''1f532''] True),
     ('':white_square_button:'', Emoji [''1f533''] True),
     ('':dollar:'', Emoji [''1f4b5''] True),
     ('':red_circle:'', Emoji [''1f534''] True),
     ('':large_blue_circle:'', Emoji [''1f535''] True),
     ('':money_with_wings:'', Emoji [''1f4b8''] True),
     ('':large_orange_diamond:'', Emoji [''1f536''] True),
     ('':large_blue_diamond:'', Emoji [''1f537''] True),
     ('':chart:'', Emoji [''1f4b9''] True),
     ('':small_orange_diamond:'', Emoji [''1f538''] True),
     ('':small_blue_diamond:'', Emoji [''1f539''] True),
     ('':seat:'', Emoji [''1f4ba''] True),
     ('':small_red_triangle:'', Emoji [''1f53a''] True),
     ('':small_red_triangle_down:'', Emoji [''1f53b''] True),
     ('':computer:'', Emoji [''1f4bb''] True),
     ('':arrow_up_small:'', Emoji [''1f53c''] True),
     ('':briefcase:'', Emoji [''1f4bc''] True),
     ('':arrow_down_small:'', Emoji [''1f53d''] True),
     ('':clock1:'', Emoji [''1f550''] True),
     ('':minidisc:'', Emoji [''1f4bd''] True),
     ('':clock2:'', Emoji [''1f551''] True),
     ('':floppy_disk:'', Emoji [''1f4be''] True),
     ('':clock3:'', Emoji [''1f552''] True),
     ('':cd:'', Emoji [''1f4bf''] True),
     ('':clock4:'', Emoji [''1f553''] True),
     ('':dvd:'', Emoji [''1f4c0''] True),
     ('':clock5:'', Emoji [''1f554''] True),
     ('':clock6:'', Emoji [''1f555''] True),
     ('':file_folder:'', Emoji [''1f4c1''] True),
     ('':clock7:'', Emoji [''1f556''] True),
     ('':clock8:'', Emoji [''1f557''] True),
     ('':open_file_folder:'', Emoji [''1f4c2''] True),
     ('':clock9:'', Emoji [''1f558''] True),
     ('':clock10:'', Emoji [''1f559''] True),
     ('':page_with_curl:'', Emoji [''1f4c3''] True),
     ('':clock11:'', Emoji [''1f55a''] True),
     ('':clock12:'', Emoji [''1f55b''] True),
     ('':page_facing_up:'', Emoji [''1f4c4''] True),
     ('':mount_fuji:'', Emoji [''1f5fb''] True),
     ('':tokyo_tower:'', Emoji [''1f5fc''] True),
     ('':date:'', Emoji [''1f4c5''] True),
     ('':statue_of_liberty:'', Emoji [''1f5fd''] True),
     ('':japan:'', Emoji [''1f5fe''] True),
     ('':calendar:'', Emoji [''1f4c6''] True),
     ('':moyai:'', Emoji [''1f5ff''] True)]"

definition emojioneList_15 :: "(string \<times> emoji) list" where
  "emojioneList_15 =
    [('':grin:'', Emoji [''1f601''] True),
     ('':joy:'', Emoji [''1f602''] True),
     ('':smiley:'', Emoji [''1f603''] True),
     ('':chart_with_upwards_trend:'', Emoji [''1f4c8''] True),
     ('':smile:'', Emoji [''1f604''] True),
     ('':sweat_smile:'', Emoji [''1f605''] True),
     ('':chart_with_downwards_trend:'', Emoji [''1f4c9''] True),
     ('':laughing:'', Emoji [''1f606''] True),
     ('':satisfied:'', Emoji [''1f606''] False),
     ('':wink:'', Emoji [''1f609''] True),
     ('':bar_chart:'', Emoji [''1f4ca''] True),
     ('':blush:'', Emoji [''1f60a''] True),
     ('':yum:'', Emoji [''1f60b''] True),
     ('':clipboard:'', Emoji [''1f4cb''] True),
     ('':relieved:'', Emoji [''1f60c''] True),
     ('':heart_eyes:'', Emoji [''1f60d''] True),
     ('':pushpin:'', Emoji [''1f4cc''] True),
     ('':smirk:'', Emoji [''1f60f''] True),
     ('':unamused:'', Emoji [''1f612''] True),
     ('':round_pushpin:'', Emoji [''1f4cd''] True),
     ('':sweat:'', Emoji [''1f613''] True),
     ('':pensive:'', Emoji [''1f614''] True),
     ('':paperclip:'', Emoji [''1f4ce''] True),
     ('':confounded:'', Emoji [''1f616''] True),
     ('':kissing_heart:'', Emoji [''1f618''] True),
     ('':straight_ruler:'', Emoji [''1f4cf''] True),
     ('':kissing_closed_eyes:'', Emoji [''1f61a''] True),
     ('':stuck_out_tongue_winking_eye:'', Emoji [''1f61c''] True),
     ('':triangular_ruler:'', Emoji [''1f4d0''] True),
     ('':stuck_out_tongue_closed_eyes:'', Emoji [''1f61d''] True),
     ('':disappointed:'', Emoji [''1f61e''] True),
     ('':bookmark_tabs:'', Emoji [''1f4d1''] True),
     ('':angry:'', Emoji [''1f620''] True),
     ('':rage:'', Emoji [''1f621''] True),
     ('':cry:'', Emoji [''1f622''] True),
     ('':persevere:'', Emoji [''1f623''] True),
     ('':triumph:'', Emoji [''1f624''] True),
     ('':disappointed_relieved:'', Emoji [''1f625''] True),
     ('':fearful:'', Emoji [''1f628''] True),
     ('':weary:'', Emoji [''1f629''] True),
     ('':sleepy:'', Emoji [''1f62a''] True),
     ('':tired_face:'', Emoji [''1f62b''] True),
     ('':sob:'', Emoji [''1f62d''] True),
     ('':cold_sweat:'', Emoji [''1f630''] True),
     ('':scream:'', Emoji [''1f631''] True),
     ('':astonished:'', Emoji [''1f632''] True),
     ('':flushed:'', Emoji [''1f633''] True),
     ('':dizzy_face:'', Emoji [''1f635''] True),
     ('':mask:'', Emoji [''1f637''] True),
     ('':smile_cat:'', Emoji [''1f638''] True),
     ('':joy_cat:'', Emoji [''1f639''] True),
     ('':smiley_cat:'', Emoji [''1f63a''] True),
     ('':heart_eyes_cat:'', Emoji [''1f63b''] True),
     ('':smirk_cat:'', Emoji [''1f63c''] True),
     ('':kissing_cat:'', Emoji [''1f63d''] True),
     ('':pouting_cat:'', Emoji [''1f63e''] True),
     ('':crying_cat_face:'', Emoji [''1f63f''] True),
     ('':scream_cat:'', Emoji [''1f640''] True),
     ('':no_good:'', Emoji [''1f645''] True),
     ('':ok_woman:'', Emoji [''1f646''] True),
     ('':bow:'', Emoji [''1f647''] True),
     ('':see_no_evil:'', Emoji [''1f648''] True),
     ('':hear_no_evil:'', Emoji [''1f649''] True),
     ('':speak_no_evil:'', Emoji [''1f64a''] True),
     ('':raising_hand:'', Emoji [''1f64b''] True),
     ('':raised_hands:'', Emoji [''1f64c''] True),
     ('':person_frowning:'', Emoji [''1f64d''] True),
     ('':person_with_pouting_face:'', Emoji [''1f64e''] True),
     ('':pray:'', Emoji [''1f64f''] True),
     ('':rocket:'', Emoji [''1f680''] True),
     ('':railway_car:'', Emoji [''1f683''] True),
     ('':bullettrain_side:'', Emoji [''1f684''] True),
     ('':bullettrain_front:'', Emoji [''1f685''] True),
     ('':metro:'', Emoji [''1f687''] True),
     ('':station:'', Emoji [''1f689''] True),
     ('':bus:'', Emoji [''1f68c''] True),
     ('':busstop:'', Emoji [''1f68f''] True),
     ('':ambulance:'', Emoji [''1f691''] True),
     ('':fire_engine:'', Emoji [''1f692''] True),
     ('':police_car:'', Emoji [''1f693''] True),
     ('':taxi:'', Emoji [''1f695''] True),
     ('':red_car:'', Emoji [''1f697''] True),
     ('':blue_car:'', Emoji [''1f699''] True),
     ('':truck:'', Emoji [''1f69a''] True),
     ('':ship:'', Emoji [''1f6a2''] True),
     ('':speedboat:'', Emoji [''1f6a4''] True),
     ('':traffic_light:'', Emoji [''1f6a5''] True),
     ('':construction:'', Emoji [''1f6a7''] True),
     ('':rotating_light:'', Emoji [''1f6a8''] True),
     ('':triangular_flag_on_post:'', Emoji [''1f6a9''] True),
     ('':door:'', Emoji [''1f6aa''] True),
     ('':no_entry_sign:'', Emoji [''1f6ab''] True),
     ('':smoking:'', Emoji [''1f6ac''] True),
     ('':no_smoking:'', Emoji [''1f6ad''] True),
     ('':bike:'', Emoji [''1f6b2''] True),
     ('':walking:'', Emoji [''1f6b6''] True),
     ('':mens:'', Emoji [''1f6b9''] True),
     ('':womens:'', Emoji [''1f6ba''] True),
     ('':restroom:'', Emoji [''1f6bb''] True),
     ('':baby_symbol:'', Emoji [''1f6bc''] True),
     ('':toilet:'', Emoji [''1f6bd''] True),
     ('':wc:'', Emoji [''1f6be''] True),
     ('':bath:'', Emoji [''1f6c0''] True),
     ('':metal:'', Emoji [''1f918''] True),
     ('':sign_of_the_horns:'', Emoji [''1f918''] False),
     ('':grinning:'', Emoji [''1f600''] True),
     ('':innocent:'', Emoji [''1f607''] True),
     ('':smiling_imp:'', Emoji [''1f608''] True),
     ('':sunglasses:'', Emoji [''1f60e''] True),
     ('':neutral_face:'', Emoji [''1f610''] True),
     ('':expressionless:'', Emoji [''1f611''] True),
     ('':confused:'', Emoji [''1f615''] True),
     ('':kissing:'', Emoji [''1f617''] True),
     ('':kissing_smiling_eyes:'', Emoji [''1f619''] True),
     ('':stuck_out_tongue:'', Emoji [''1f61b''] True),
     ('':worried:'', Emoji [''1f61f''] True),
     ('':frowning:'', Emoji [''1f626''] True),
     ('':anguished:'', Emoji [''1f627''] True),
     ('':grimacing:'', Emoji [''1f62c''] True),
     ('':open_mouth:'', Emoji [''1f62e''] True),
     ('':hushed:'', Emoji [''1f62f''] True),
     ('':sleeping:'', Emoji [''1f634''] True),
     ('':no_mouth:'', Emoji [''1f636''] True),
     ('':helicopter:'', Emoji [''1f681''] True),
     ('':steam_locomotive:'', Emoji [''1f682''] True),
     ('':train2:'', Emoji [''1f686''] True),
     ('':light_rail:'', Emoji [''1f688''] True),
     ('':tram:'', Emoji [''1f68a''] True),
     ('':oncoming_bus:'', Emoji [''1f68d''] True),
     ('':trolleybus:'', Emoji [''1f68e''] True),
     ('':minibus:'', Emoji [''1f690''] True),
     ('':oncoming_police_car:'', Emoji [''1f694''] True),
     ('':oncoming_taxi:'', Emoji [''1f696''] True),
     ('':oncoming_automobile:'', Emoji [''1f698''] True),
     ('':articulated_lorry:'', Emoji [''1f69b''] True),
     ('':tractor:'', Emoji [''1f69c''] True),
     ('':monorail:'', Emoji [''1f69d''] True),
     ('':mountain_railway:'', Emoji [''1f69e''] True),
     ('':suspension_railway:'', Emoji [''1f69f''] True),
     ('':mountain_cableway:'', Emoji [''1f6a0''] True),
     ('':aerial_tramway:'', Emoji [''1f6a1''] True),
     ('':rowboat:'', Emoji [''1f6a3''] True),
     ('':vertical_traffic_light:'', Emoji [''1f6a6''] True),
     ('':put_litter_in_its_place:'', Emoji [''1f6ae''] True),
     ('':do_not_litter:'', Emoji [''1f6af''] True),
     ('':potable_water:'', Emoji [''1f6b0''] True),
     ('':non-potable_water:'', Emoji [''1f6b1''] True),
     ('':no_bicycles:'', Emoji [''1f6b3''] True)]"

definition emojioneList_16 :: "(string \<times> emoji) list" where
  "emojioneList_16 =
    [('':bicyclist:'', Emoji [''1f6b4''] True),
     ('':mountain_bicyclist:'', Emoji [''1f6b5''] True),
     ('':no_pedestrians:'', Emoji [''1f6b7''] True),
     ('':children_crossing:'', Emoji [''1f6b8''] True),
     ('':shower:'', Emoji [''1f6bf''] True),
     ('':bathtub:'', Emoji [''1f6c1''] True),
     ('':passport_control:'', Emoji [''1f6c2''] True),
     ('':customs:'', Emoji [''1f6c3''] True),
     ('':baggage_claim:'', Emoji [''1f6c4''] True),
     ('':left_luggage:'', Emoji [''1f6c5''] True),
     ('':earth_africa:'', Emoji [''1f30d''] True),
     ('':earth_americas:'', Emoji [''1f30e''] True),
     ('':globe_with_meridians:'', Emoji [''1f310''] True),
     ('':waxing_crescent_moon:'', Emoji [''1f312''] True),
     ('':waning_gibbous_moon:'', Emoji [''1f316''] True),
     ('':last_quarter_moon:'', Emoji [''1f317''] True),
     ('':waning_crescent_moon:'', Emoji [''1f318''] True),
     ('':new_moon_with_face:'', Emoji [''1f31a''] True),
     ('':last_quarter_moon_with_face:'', Emoji [''1f31c''] True),
     ('':full_moon_with_face:'', Emoji [''1f31d''] True),
     ('':sun_with_face:'', Emoji [''1f31e''] True),
     ('':evergreen_tree:'', Emoji [''1f332''] True),
     ('':deciduous_tree:'', Emoji [''1f333''] True),
     ('':lemon:'', Emoji [''1f34b''] True),
     ('':pear:'', Emoji [''1f350''] True),
     ('':baby_bottle:'', Emoji [''1f37c''] True),
     ('':horse_racing:'', Emoji [''1f3c7''] True),
     ('':rugby_football:'', Emoji [''1f3c9''] True),
     ('':european_post_office:'', Emoji [''1f3e4''] True),
     ('':rat:'', Emoji [''1f400''] True),
     ('':mouse2:'', Emoji [''1f401''] True),
     ('':ox:'', Emoji [''1f402''] True),
     ('':water_buffalo:'', Emoji [''1f403''] True),
     ('':cow2:'', Emoji [''1f404''] True),
     ('':tiger2:'', Emoji [''1f405''] True),
     ('':leopard:'', Emoji [''1f406''] True),
     ('':rabbit2:'', Emoji [''1f407''] True),
     ('':cat2:'', Emoji [''1f408''] True),
     ('':dragon:'', Emoji [''1f409''] True),
     ('':crocodile:'', Emoji [''1f40a''] True),
     ('':whale2:'', Emoji [''1f40b''] True),
     ('':ram:'', Emoji [''1f40f''] True),
     ('':goat:'', Emoji [''1f410''] True),
     ('':rooster:'', Emoji [''1f413''] True),
     ('':dog2:'', Emoji [''1f415''] True),
     ('':pig2:'', Emoji [''1f416''] True),
     ('':dromedary_camel:'', Emoji [''1f42a''] True),
     ('':busts_in_silhouette:'', Emoji [''1f465''] True),
     ('':two_men_holding_hands:'', Emoji [''1f46c''] True),
     ('':two_women_holding_hands:'', Emoji [''1f46d''] True),
     ('':thought_balloon:'', Emoji [''1f4ad''] True),
     ('':euro:'', Emoji [''1f4b6''] True),
     ('':pound:'', Emoji [''1f4b7''] True),
     ('':mailbox_with_mail:'', Emoji [''1f4ec''] True),
     ('':mailbox_with_no_mail:'', Emoji [''1f4ed''] True),
     ('':postal_horn:'', Emoji [''1f4ef''] True),
     ('':no_mobile_phones:'', Emoji [''1f4f5''] True),
     ('':twisted_rightwards_arrows:'', Emoji [''1f500''] True),
     ('':repeat:'', Emoji [''1f501''] True),
     ('':repeat_one:'', Emoji [''1f502''] True),
     ('':arrows_counterclockwise:'', Emoji [''1f504''] True),
     ('':low_brightness:'', Emoji [''1f505''] True),
     ('':high_brightness:'', Emoji [''1f506''] True),
     ('':mute:'', Emoji [''1f507''] True),
     ('':sound:'', Emoji [''1f509''] True),
     ('':no_bell:'', Emoji [''1f515''] True),
     ('':microscope:'', Emoji [''1f52c''] True),
     ('':telescope:'', Emoji [''1f52d''] True),
     ('':clock130:'', Emoji [''1f55c''] True),
     ('':clock230:'', Emoji [''1f55d''] True),
     ('':clock330:'', Emoji [''1f55e''] True),
     ('':clock430:'', Emoji [''1f55f''] True),
     ('':clock530:'', Emoji [''1f560''] True),
     ('':clock630:'', Emoji [''1f561''] True),
     ('':clock730:'', Emoji [''1f562''] True),
     ('':clock830:'', Emoji [''1f563''] True),
     ('':clock930:'', Emoji [''1f564''] True),
     ('':clock1030:'', Emoji [''1f565''] True),
     ('':clock1130:'', Emoji [''1f566''] True),
     ('':clock1230:'', Emoji [''1f567''] True),
     ('':speaker:'', Emoji [''1f508''] True),
     ('':train:'', Emoji [''1f68b''] True),
     ('':medal:'', Emoji [''1f3c5''] True),
     ('':sports_medal:'', Emoji [''1f3c5''] False),
     ('':flag_black:'', Emoji [''1f3f4''] True),
     ('':waving_black_flag:'', Emoji [''1f3f4''] False),
     ('':camera_with_flash:'', Emoji [''1f4f8''] True),
     ('':sleeping_accommodation:'', Emoji [''1f6cc''] True),
     ('':middle_finger:'', Emoji [''1f595''] True),
     ('':reversed_hand_with_middle_finger_extended:'', Emoji [''1f595''] False),
     ('':vulcan:'', Emoji [''1f596''] True),
     ('':raised_hand_with_part_between_middle_and_ring_fingers:'', Emoji [''1f596''] False),
     ('':slight_frown:'', Emoji [''1f641''] True),
     ('':slightly_frowning_face:'', Emoji [''1f641''] False),
     ('':slight_smile:'', Emoji [''1f642''] True),
     ('':slightly_smiling_face:'', Emoji [''1f642''] False),
     ('':airplane_departure:'', Emoji [''1f6eb''] True),
     ('':airplane_arriving:'', Emoji [''1f6ec''] True),
     ('':tone1:'', Emoji [''1f3fb''] True),
     ('':tone2:'', Emoji [''1f3fc''] True),
     ('':tone3:'', Emoji [''1f3fd''] True),
     ('':tone4:'', Emoji [''1f3fe''] True),
     ('':tone5:'', Emoji [''1f3ff''] True),
     ('':upside_down:'', Emoji [''1f643''] True),
     ('':upside_down_face:'', Emoji [''1f643''] False),
     ('':money_mouth:'', Emoji [''1f911''] True),
     ('':money_mouth_face:'', Emoji [''1f911''] False),
     ('':nerd:'', Emoji [''1f913''] True),
     ('':nerd_face:'', Emoji [''1f913''] False),
     ('':hugging:'', Emoji [''1f917''] True),
     ('':hugging_face:'', Emoji [''1f917''] False),
     ('':rolling_eyes:'', Emoji [''1f644''] True),
     ('':face_with_rolling_eyes:'', Emoji [''1f644''] False),
     ('':thinking:'', Emoji [''1f914''] True),
     ('':thinking_face:'', Emoji [''1f914''] False),
     ('':zipper_mouth:'', Emoji [''1f910''] True),
     ('':zipper_mouth_face:'', Emoji [''1f910''] False),
     ('':thermometer_face:'', Emoji [''1f912''] True),
     ('':face_with_thermometer:'', Emoji [''1f912''] False),
     ('':head_bandage:'', Emoji [''1f915''] True),
     ('':face_with_head_bandage:'', Emoji [''1f915''] False),
     ('':robot:'', Emoji [''1f916''] True),
     ('':robot_face:'', Emoji [''1f916''] False),
     ('':lion_face:'', Emoji [''1f981''] True),
     ('':lion:'', Emoji [''1f981''] False),
     ('':unicorn:'', Emoji [''1f984''] True),
     ('':unicorn_face:'', Emoji [''1f984''] False),
     ('':scorpion:'', Emoji [''1f982''] True),
     ('':crab:'', Emoji [''1f980''] True),
     ('':turkey:'', Emoji [''1f983''] True),
     ('':cheese:'', Emoji [''1f9c0''] True),
     ('':cheese_wedge:'', Emoji [''1f9c0''] False),
     ('':hotdog:'', Emoji [''1f32d''] True),
     ('':hot_dog:'', Emoji [''1f32d''] False),
     ('':taco:'', Emoji [''1f32e''] True),
     ('':burrito:'', Emoji [''1f32f''] True),
     ('':popcorn:'', Emoji [''1f37f''] True),
     ('':champagne:'', Emoji [''1f37e''] True),
     ('':bottle_with_popping_cork:'', Emoji [''1f37e''] False),
     ('':bow_and_arrow:'', Emoji [''1f3f9''] True),
     ('':archery:'', Emoji [''1f3f9''] False),
     ('':amphora:'', Emoji [''1f3fa''] True),
     ('':place_of_worship:'', Emoji [''1f6d0''] True),
     ('':worship_symbol:'', Emoji [''1f6d0''] False),
     ('':kaaba:'', Emoji [''1f54b''] True),
     ('':mosque:'', Emoji [''1f54c''] True),
     ('':synagogue:'', Emoji [''1f54d''] True),
     ('':menorah:'', Emoji [''1f54e''] True)]"

definition emojioneList_17 :: "(string \<times> emoji) list" where
  "emojioneList_17 =
    [('':prayer_beads:'', Emoji [''1f4ff''] True),
     ('':cricket:'', Emoji [''1f3cf''] True),
     ('':cricket_bat_ball:'', Emoji [''1f3cf''] False),
     ('':volleyball:'', Emoji [''1f3d0''] True),
     ('':field_hockey:'', Emoji [''1f3d1''] True),
     ('':hockey:'', Emoji [''1f3d2''] True),
     ('':ping_pong:'', Emoji [''1f3d3''] True),
     ('':table_tennis:'', Emoji [''1f3d3''] False),
     ('':badminton:'', Emoji [''1f3f8''] True),
     ('':drum:'', Emoji [''1f941''] True),
     ('':drum_with_drumsticks:'', Emoji [''1f941''] False),
     ('':shrimp:'', Emoji [''1f990''] True),
     ('':squid:'', Emoji [''1f991''] True),
     ('':egg:'', Emoji [''1f95a''] True),
     ('':milk:'', Emoji [''1f95b''] True),
     ('':glass_of_milk:'', Emoji [''1f95b''] False),
     ('':peanuts:'', Emoji [''1f95c''] True),
     ('':shelled_peanut:'', Emoji [''1f95c''] False),
     ('':kiwi:'', Emoji [''1f95d''] True),
     ('':kiwifruit:'', Emoji [''1f95d''] False),
     ('':pancakes:'', Emoji [''1f95e''] True),
     ('':regional_indicator_w:'', Emoji [''1f1fc''] True),
     ('':regional_indicator_v:'', Emoji [''1f1fb''] True),
     ('':regional_indicator_u:'', Emoji [''1f1fa''] True),
     ('':regional_indicator_t:'', Emoji [''1f1f9''] True),
     ('':regional_indicator_s:'', Emoji [''1f1f8''] True),
     ('':regional_indicator_r:'', Emoji [''1f1f7''] True),
     ('':regional_indicator_q:'', Emoji [''1f1f6''] True),
     ('':regional_indicator_p:'', Emoji [''1f1f5''] True),
     ('':regional_indicator_o:'', Emoji [''1f1f4''] True),
     ('':regional_indicator_n:'', Emoji [''1f1f3''] True),
     ('':regional_indicator_m:'', Emoji [''1f1f2''] True),
     ('':regional_indicator_l:'', Emoji [''1f1f1''] True),
     ('':regional_indicator_k:'', Emoji [''1f1f0''] True),
     ('':regional_indicator_j:'', Emoji [''1f1ef''] True),
     ('':regional_indicator_i:'', Emoji [''1f1ee''] True),
     ('':regional_indicator_h:'', Emoji [''1f1ed''] True),
     ('':regional_indicator_g:'', Emoji [''1f1ec''] True),
     ('':regional_indicator_f:'', Emoji [''1f1eb''] True),
     ('':regional_indicator_e:'', Emoji [''1f1ea''] True),
     ('':regional_indicator_d:'', Emoji [''1f1e9''] True),
     ('':regional_indicator_c:'', Emoji [''1f1e8''] True),
     ('':regional_indicator_b:'', Emoji [''1f1e7''] True),
     ('':regional_indicator_a:'', Emoji [''1f1e6''] True),
     ('':fast_forward:'', Emoji [''23e9''] True),
     ('':rewind:'', Emoji [''23ea''] True),
     ('':arrow_double_up:'', Emoji [''23eb''] True),
     ('':arrow_double_down:'', Emoji [''23ec''] True),
     ('':alarm_clock:'', Emoji [''23f0''] True),
     ('':hourglass_flowing_sand:'', Emoji [''23f3''] True),
     ('':ophiuchus:'', Emoji [''26ce''] True),
     ('':white_check_mark:'', Emoji [''2705''] True),
     ('':fist:'', Emoji [''270a''] True),
     ('':raised_hand:'', Emoji [''270b''] True),
     ('':sparkles:'', Emoji [''2728''] True),
     ('':x:'', Emoji [''274c''] True),
     ('':negative_squared_cross_mark:'', Emoji [''274e''] True),
     ('':question:'', Emoji [''2753''] True),
     ('':grey_question:'', Emoji [''2754''] True),
     ('':grey_exclamation:'', Emoji [''2755''] True),
     ('':heavy_plus_sign:'', Emoji [''2795''] True),
     ('':heavy_minus_sign:'', Emoji [''2796''] True),
     ('':heavy_division_sign:'', Emoji [''2797''] True),
     ('':curly_loop:'', Emoji [''27b0''] True),
     ('':loop:'', Emoji [''27bf''] True)]"

definition emojioneList :: "(string \<times> emoji) list" where
  "emojioneList =
    emojioneList_1 @ emojioneList_2 @ emojioneList_3 @ emojioneList_4 @ emojioneList_5 @ emojioneList_6 @ emojioneList_7 @ emojioneList_8 @ emojioneList_9 @ emojioneList_10 @ emojioneList_11 @ emojioneList_12 @ emojioneList_13 @ emojioneList_14 @ emojioneList_15 @ emojioneList_16 @ emojioneList_17"

definition asciiList :: "(string \<times> string) list" where
  "asciiList =
    [(''<3'', ''2764''),
     (''</3'', ''1f494''),
     ([CHR '':'', CHR 0x27, CHR '')''], ''1f602''),
     ([CHR '':'', CHR 0x27, CHR ''-'', CHR '')''], ''1f602''),
     ('':D'', ''1f603''),
     ('':-D'', ''1f603''),
     (''=D'', ''1f603''),
     ('':)'', ''1f642''),
     ('':-)'', ''1f642''),
     (''=]'', ''1f642''),
     (''=)'', ''1f642''),
     ('':]'', ''1f642''),
     ([CHR 0x27, CHR '':'', CHR '')''], ''1f605''),
     ([CHR 0x27, CHR '':'', CHR ''-'', CHR '')''], ''1f605''),
     ([CHR 0x27, CHR ''='', CHR '')''], ''1f605''),
     ([CHR 0x27, CHR '':'', CHR ''D''], ''1f605''),
     ([CHR 0x27, CHR '':'', CHR ''-'', CHR ''D''], ''1f605''),
     ([CHR 0x27, CHR ''='', CHR ''D''], ''1f605''),
     (''>:)'', ''1f606''),
     (''>;)'', ''1f606''),
     (''>:-)'', ''1f606''),
     (''>=)'', ''1f606''),
     ('';)'', ''1f609''),
     ('';-)'', ''1f609''),
     (''*-)'', ''1f609''),
     (''*)'', ''1f609''),
     ('';-]'', ''1f609''),
     ('';]'', ''1f609''),
     ('';D'', ''1f609''),
     ('';^)'', ''1f609''),
     ([CHR 0x27, CHR '':'', CHR ''(''], ''1f613''),
     ([CHR 0x27, CHR '':'', CHR ''-'', CHR ''(''], ''1f613''),
     ([CHR 0x27, CHR ''='', CHR ''(''], ''1f613''),
     ('':*'', ''1f618''),
     ('':-*'', ''1f618''),
     (''=*'', ''1f618''),
     ('':^*'', ''1f618''),
     (''>:P'', ''1f61c''),
     (''X-P'', ''1f61c''),
     (''x-p'', ''1f61c''),
     (''>:['', ''1f61e''),
     ('':-('', ''1f61e''),
     ('':('', ''1f61e''),
     ('':-['', ''1f61e''),
     ('':['', ''1f61e''),
     (''=('', ''1f61e''),
     (''>:('', ''1f620''),
     (''>:-('', ''1f620''),
     ('':@'', ''1f620''),
     ([CHR '':'', CHR 0x27, CHR ''(''], ''1f622''),
     ([CHR '':'', CHR 0x27, CHR ''-'', CHR ''(''], ''1f622''),
     ('';('', ''1f622''),
     ('';-('', ''1f622''),
     (''>.<'', ''1f623''),
     (''D:'', ''1f628''),
     ('':$'', ''1f633''),
     (''=$'', ''1f633''),
     (''#-)'', ''1f635''),
     (''#)'', ''1f635''),
     (''%-)'', ''1f635''),
     (''%)'', ''1f635''),
     (''X)'', ''1f635''),
     (''X-)'', ''1f635''),
     ([CHR ''*'', CHR 0x5C, CHR ''0'', CHR ''/'', CHR ''*''], ''1f646''),
     ([CHR 0x5C, CHR ''0'', CHR ''/''], ''1f646''),
     ([CHR ''*'', CHR 0x5C, CHR ''O'', CHR ''/'', CHR ''*''], ''1f646''),
     ([CHR 0x5C, CHR ''O'', CHR ''/''], ''1f646''),
     (''O:-)'', ''1f607''),
     (''0:-3'', ''1f607''),
     (''0:3'', ''1f607''),
     (''0:-)'', ''1f607''),
     (''0:)'', ''1f607''),
     (''0;^)'', ''1f607''),
     (''O:)'', ''1f607''),
     (''O;-)'', ''1f607''),
     (''O=)'', ''1f607''),
     (''0;-)'', ''1f607''),
     (''O:-3'', ''1f607''),
     (''O:3'', ''1f607''),
     (''B-)'', ''1f60e''),
     (''B)'', ''1f60e''),
     (''8)'', ''1f60e''),
     (''8-)'', ''1f60e''),
     (''B-D'', ''1f60e''),
     (''8-D'', ''1f60e''),
     (''-_-'', ''1f611''),
     (''-__-'', ''1f611''),
     (''-___-'', ''1f611''),
     ([CHR ''>'', CHR '':'', CHR 0x5C], ''1f615''),
     (''>:/'', ''1f615''),
     ('':-/'', ''1f615''),
     ('':-.'', ''1f615''),
     ('':/'', ''1f615''),
     ([CHR '':'', CHR 0x5C], ''1f615''),
     (''=/'', ''1f615''),
     ([CHR ''='', CHR 0x5C], ''1f615''),
     ('':L'', ''1f615''),
     (''=L'', ''1f615''),
     ('':P'', ''1f61b''),
     ('':-P'', ''1f61b''),
     (''=P'', ''1f61b''),
     ('':-p'', ''1f61b''),
     ('':p'', ''1f61b''),
     (''=p'', ''1f61b''),
     ([CHR '':'', CHR ''-'', CHR 0xDE], ''1f61b''),
     ([CHR '':'', CHR 0xDE], ''1f61b''),
     ([CHR '':'', CHR 0xFE], ''1f61b''),
     ([CHR '':'', CHR ''-'', CHR 0xFE], ''1f61b''),
     ('':-b'', ''1f61b''),
     ('':b'', ''1f61b''),
     (''d:'', ''1f61b''),
     ('':-O'', ''1f62e''),
     ('':O'', ''1f62e''),
     ('':-o'', ''1f62e''),
     ('':o'', ''1f62e''),
     (''O_O'', ''1f62e''),
     (''>:O'', ''1f62e''),
     ('':-X'', ''1f636''),
     ('':X'', ''1f636''),
     ('':-#'', ''1f636''),
     ('':#'', ''1f636''),
     (''=X'', ''1f636''),
     (''=x'', ''1f636''),
     ('':x'', ''1f636''),
     ('':-x'', ''1f636''),
     (''=#'', ''1f636'')]"

definition jsEscapeMap_1 :: "(jsstr \<times> string) list" where
  "jsEscapeMap_1 =
    [([0xD83D, 0xDC69, 0x2764, 0xD83D, 0xDC8B, 0xD83D, 0xDC69], ''1f469-2764-1f48b-1f469''),
     ([0xD83D, 0xDC68, 0x2764, 0xD83D, 0xDC8B, 0xD83D, 0xDC68], ''1f468-2764-1f48b-1f468''),
     ([0xD83D, 0xDC68, 0xD83D, 0xDC68, 0xD83D, 0xDC66, 0xD83D, 0xDC66], ''1f468-1f468-1f466-1f466''),
     ([0xD83D, 0xDC68, 0xD83D, 0xDC68, 0xD83D, 0xDC67, 0xD83D, 0xDC66], ''1f468-1f468-1f467-1f466''),
     ([0xD83D, 0xDC68, 0xD83D, 0xDC68, 0xD83D, 0xDC67, 0xD83D, 0xDC67], ''1f468-1f468-1f467-1f467''),
     ([0xD83D, 0xDC68, 0xD83D, 0xDC69, 0xD83D, 0xDC66, 0xD83D, 0xDC66], ''1f468-1f469-1f466-1f466''),
     ([0xD83D, 0xDC68, 0xD83D, 0xDC69, 0xD83D, 0xDC67, 0xD83D, 0xDC66], ''1f468-1f469-1f467-1f466''),
     ([0xD83D, 0xDC68, 0xD83D, 0xDC69, 0xD83D, 0xDC67, 0xD83D, 0xDC67], ''1f468-1f469-1f467-1f467''),
     ([0xD83D, 0xDC69, 0xD83D, 0xDC69, 0xD83D, 0xDC66, 0xD83D, 0xDC66], ''1f469-1f469-1f466-1f466''),
     ([0xD83D, 0xDC69, 0xD83D, 0xDC69, 0xD83D, 0xDC67, 0xD83D, 0xDC66], ''1f469-1f469-1f467-1f466''),
     ([0xD83D, 0xDC69, 0xD83D, 0xDC69, 0xD83D, 0xDC67, 0xD83D, 0xDC67], ''1f469-1f469-1f467-1f467''),
     ([0xD83D, 0xDC69, 0x2764, 0xD83D, 0xDC69], ''1f469-2764-1f469''),
     ([0xD83D, 0xDC68, 0x2764, 0xD83D, 0xDC68], ''1f468-2764-1f468''),
     ([0xD83D, 0xDC68, 0xD83D, 0xDC68, 0xD83D, 0xDC66], ''1f468-1f468-1f466''),
     ([0xD83D, 0xDC68, 0xD83D, 0xDC68, 0xD83D, 0xDC67], ''1f468-1f468-1f467''),
     ([0xD83D, 0xDC68, 0xD83D, 0xDC69, 0xD83D, 0xDC67], ''1f468-1f469-1f467''),
     ([0xD83D, 0xDC69, 0xD83D, 0xDC69, 0xD83D, 0xDC66], ''1f469-1f469-1f466''),
     ([0xD83D, 0xDC69, 0xD83D, 0xDC69, 0xD83D, 0xDC67], ''1f469-1f469-1f467''),
     ([0xD83D, 0xDC41, 0xD83D, 0xDDE8], ''1f441-1f5e8''),
     ([0x23, 0x20E3], ''0023-20e3''),
     ([0x30, 0x20E3], ''0030-20e3''),
     ([0x31, 0x20E3], ''0031-20e3''),
     ([0x32, 0x20E3], ''0032-20e3''),
     ([0x33, 0x20E3], ''0033-20e3''),
     ([0x34, 0x20E3], ''0034-20e3''),
     ([0x35, 0x20E3], ''0035-20e3''),
     ([0x36, 0x20E3], ''0036-20e3''),
     ([0x37, 0x20E3], ''0037-20e3''),
     ([0x38, 0x20E3], ''0038-20e3''),
     ([0x39, 0x20E3], ''0039-20e3''),
     ([0x2A, 0x20E3], ''002a-20e3''),
     ([0xD83E, 0xDD3E, 0xD83C, 0xDFFF], ''1f93e-1f3ff''),
     ([0xD83E, 0xDD3E, 0xD83C, 0xDFFE], ''1f93e-1f3fe''),
     ([0xD83E, 0xDD3E, 0xD83C, 0xDFFD], ''1f93e-1f3fd''),
     ([0xD83E, 0xDD3E, 0xD83C, 0xDFFC], ''1f93e-1f3fc''),
     ([0xD83E, 0xDD3E, 0xD83C, 0xDFFB], ''1f93e-1f3fb''),
     ([0xD83E, 0xDD3D, 0xD83C, 0xDFFF], ''1f93d-1f3ff''),
     ([0xD83E, 0xDD3D, 0xD83C, 0xDFFE], ''1f93d-1f3fe''),
     ([0xD83E, 0xDD3D, 0xD83C, 0xDFFD], ''1f93d-1f3fd''),
     ([0xD83E, 0xDD3D, 0xD83C, 0xDFFC], ''1f93d-1f3fc''),
     ([0xD83E, 0xDD3D, 0xD83C, 0xDFFB], ''1f93d-1f3fb''),
     ([0xD83E, 0xDD3C, 0xD83C, 0xDFFF], ''1f93c-1f3ff''),
     ([0xD83E, 0xDD3C, 0xD83C, 0xDFFE], ''1f93c-1f3fe''),
     ([0xD83E, 0xDD3C, 0xD83C, 0xDFFD], ''1f93c-1f3fd''),
     ([0xD83E, 0xDD3C, 0xD83C, 0xDFFC], ''1f93c-1f3fc''),
     ([0xD83E, 0xDD3C, 0xD83C, 0xDFFB], ''1f93c-1f3fb''),
     ([0xD83E, 0xDD39, 0xD83C, 0xDFFF], ''1f939-1f3ff''),
     ([0xD83E, 0xDD39, 0xD83C, 0xDFFE], ''1f939-1f3fe''),
     ([0xD83E, 0xDD39, 0xD83C, 0xDFFD], ''1f939-1f3fd''),
     ([0xD83E, 0xDD39, 0xD83C, 0xDFFC], ''1f939-1f3fc''),
     ([0xD83E, 0xDD39, 0xD83C, 0xDFFB], ''1f939-1f3fb''),
     ([0xD83E, 0xDD38, 0xD83C, 0xDFFF], ''1f938-1f3ff''),
     ([0xD83E, 0xDD38, 0xD83C, 0xDFFE], ''1f938-1f3fe''),
     ([0xD83E, 0xDD38, 0xD83C, 0xDFFD], ''1f938-1f3fd''),
     ([0xD83E, 0xDD38, 0xD83C, 0xDFFC], ''1f938-1f3fc''),
     ([0xD83E, 0xDD38, 0xD83C, 0xDFFB], ''1f938-1f3fb''),
     ([0xD83E, 0xDD37, 0xD83C, 0xDFFF], ''1f937-1f3ff''),
     ([0xD83E, 0xDD37, 0xD83C, 0xDFFE], ''1f937-1f3fe''),
     ([0xD83E, 0xDD37, 0xD83C, 0xDFFD], ''1f937-1f3fd''),
     ([0xD83E, 0xDD37, 0xD83C, 0xDFFC], ''1f937-1f3fc''),
     ([0xD83E, 0xDD37, 0xD83C, 0xDFFB], ''1f937-1f3fb''),
     ([0xD83E, 0xDD36, 0xD83C, 0xDFFF], ''1f936-1f3ff''),
     ([0xD83E, 0xDD36, 0xD83C, 0xDFFE], ''1f936-1f3fe''),
     ([0xD83E, 0xDD36, 0xD83C, 0xDFFD], ''1f936-1f3fd''),
     ([0xD83E, 0xDD36, 0xD83C, 0xDFFC], ''1f936-1f3fc''),
     ([0xD83E, 0xDD36, 0xD83C, 0xDFFB], ''1f936-1f3fb''),
     ([0xD83E, 0xDD35, 0xD83C, 0xDFFF], ''1f935-1f3ff''),
     ([0xD83E, 0xDD35, 0xD83C, 0xDFFE], ''1f935-1f3fe''),
     ([0xD83E, 0xDD35, 0xD83C, 0xDFFD], ''1f935-1f3fd''),
     ([0xD83E, 0xDD35, 0xD83C, 0xDFFC], ''1f935-1f3fc''),
     ([0xD83E, 0xDD35, 0xD83C, 0xDFFB], ''1f935-1f3fb''),
     ([0xD83E, 0xDD34, 0xD83C, 0xDFFF], ''1f934-1f3ff''),
     ([0xD83E, 0xDD34, 0xD83C, 0xDFFE], ''1f934-1f3fe''),
     ([0xD83E, 0xDD34, 0xD83C, 0xDFFD], ''1f934-1f3fd''),
     ([0xD83E, 0xDD34, 0xD83C, 0xDFFC], ''1f934-1f3fc''),
     ([0xD83E, 0xDD34, 0xD83C, 0xDFFB], ''1f934-1f3fb''),
     ([0xD83E, 0xDD33, 0xD83C, 0xDFFF], ''1f933-1f3ff''),
     ([0xD83E, 0xDD33, 0xD83C, 0xDFFE], ''1f933-1f3fe''),
     ([0xD83E, 0xDD33, 0xD83C, 0xDFFD], ''1f933-1f3fd''),
     ([0xD83E, 0xDD33, 0xD83C, 0xDFFC], ''1f933-1f3fc''),
     ([0xD83E, 0xDD33, 0xD83C, 0xDFFB], ''1f933-1f3fb''),
     ([0xD83E, 0xDD30, 0xD83C, 0xDFFF], ''1f930-1f3ff''),
     ([0xD83E, 0xDD30, 0xD83C, 0xDFFE], ''1f930-1f3fe''),
     ([0xD83E, 0xDD30, 0xD83C, 0xDFFD], ''1f930-1f3fd''),
     ([0xD83E, 0xDD30, 0xD83C, 0xDFFC], ''1f930-1f3fc''),
     ([0xD83E, 0xDD30, 0xD83C, 0xDFFB], ''1f930-1f3fb''),
     ([0xD83E, 0xDD26, 0xD83C, 0xDFFF], ''1f926-1f3ff''),
     ([0xD83E, 0xDD26, 0xD83C, 0xDFFE], ''1f926-1f3fe''),
     ([0xD83E, 0xDD26, 0xD83C, 0xDFFD], ''1f926-1f3fd''),
     ([0xD83E, 0xDD26, 0xD83C, 0xDFFC], ''1f926-1f3fc''),
     ([0xD83E, 0xDD26, 0xD83C, 0xDFFB], ''1f926-1f3fb''),
     ([0xD83E, 0xDD1E, 0xD83C, 0xDFFF], ''1f91e-1f3ff''),
     ([0xD83E, 0xDD1E, 0xD83C, 0xDFFE], ''1f91e-1f3fe''),
     ([0xD83E, 0xDD1E, 0xD83C, 0xDFFD], ''1f91e-1f3fd''),
     ([0xD83E, 0xDD1E, 0xD83C, 0xDFFC], ''1f91e-1f3fc''),
     ([0xD83E, 0xDD1E, 0xD83C, 0xDFFB], ''1f91e-1f3fb''),
     ([0xD83E, 0xDD1D, 0xD83C, 0xDFFF], ''1f91d-1f3ff''),
     ([0xD83E, 0xDD1D, 0xD83C, 0xDFFE], ''1f91d-1f3fe''),
     ([0xD83E, 0xDD1D, 0xD83C, 0xDFFD], ''1f91d-1f3fd''),
     ([0xD83E, 0xDD1D, 0xD83C, 0xDFFC], ''1f91d-1f3fc''),
     ([0xD83E, 0xDD1D, 0xD83C, 0xDFFB], ''1f91d-1f3fb''),
     ([0xD83E, 0xDD1C, 0xD83C, 0xDFFF], ''1f91c-1f3ff''),
     ([0xD83E, 0xDD1C, 0xD83C, 0xDFFE], ''1f91c-1f3fe''),
     ([0xD83E, 0xDD1C, 0xD83C, 0xDFFD], ''1f91c-1f3fd''),
     ([0xD83E, 0xDD1C, 0xD83C, 0xDFFC], ''1f91c-1f3fc''),
     ([0xD83E, 0xDD1C, 0xD83C, 0xDFFB], ''1f91c-1f3fb''),
     ([0xD83E, 0xDD1B, 0xD83C, 0xDFFF], ''1f91b-1f3ff''),
     ([0xD83E, 0xDD1B, 0xD83C, 0xDFFE], ''1f91b-1f3fe''),
     ([0xD83E, 0xDD1B, 0xD83C, 0xDFFD], ''1f91b-1f3fd''),
     ([0xD83E, 0xDD1B, 0xD83C, 0xDFFC], ''1f91b-1f3fc''),
     ([0xD83E, 0xDD1B, 0xD83C, 0xDFFB], ''1f91b-1f3fb''),
     ([0xD83E, 0xDD1A, 0xD83C, 0xDFFF], ''1f91a-1f3ff''),
     ([0xD83E, 0xDD1A, 0xD83C, 0xDFFE], ''1f91a-1f3fe''),
     ([0xD83E, 0xDD1A, 0xD83C, 0xDFFD], ''1f91a-1f3fd''),
     ([0xD83E, 0xDD1A, 0xD83C, 0xDFFC], ''1f91a-1f3fc''),
     ([0xD83E, 0xDD1A, 0xD83C, 0xDFFB], ''1f91a-1f3fb''),
     ([0xD83E, 0xDD19, 0xD83C, 0xDFFF], ''1f919-1f3ff''),
     ([0xD83E, 0xDD19, 0xD83C, 0xDFFE], ''1f919-1f3fe''),
     ([0xD83E, 0xDD19, 0xD83C, 0xDFFD], ''1f919-1f3fd''),
     ([0xD83E, 0xDD19, 0xD83C, 0xDFFC], ''1f919-1f3fc''),
     ([0xD83E, 0xDD19, 0xD83C, 0xDFFB], ''1f919-1f3fb''),
     ([0xD83E, 0xDD18, 0xD83C, 0xDFFF], ''1f918-1f3ff''),
     ([0xD83E, 0xDD18, 0xD83C, 0xDFFE], ''1f918-1f3fe''),
     ([0xD83E, 0xDD18, 0xD83C, 0xDFFD], ''1f918-1f3fd''),
     ([0xD83E, 0xDD18, 0xD83C, 0xDFFC], ''1f918-1f3fc''),
     ([0xD83E, 0xDD18, 0xD83C, 0xDFFB], ''1f918-1f3fb''),
     ([0xD83D, 0xDEC0, 0xD83C, 0xDFFF], ''1f6c0-1f3ff''),
     ([0xD83D, 0xDEC0, 0xD83C, 0xDFFE], ''1f6c0-1f3fe''),
     ([0xD83D, 0xDEC0, 0xD83C, 0xDFFD], ''1f6c0-1f3fd''),
     ([0xD83D, 0xDEC0, 0xD83C, 0xDFFC], ''1f6c0-1f3fc''),
     ([0xD83D, 0xDEC0, 0xD83C, 0xDFFB], ''1f6c0-1f3fb''),
     ([0xD83D, 0xDEB6, 0xD83C, 0xDFFF], ''1f6b6-1f3ff''),
     ([0xD83D, 0xDEB6, 0xD83C, 0xDFFE], ''1f6b6-1f3fe''),
     ([0xD83D, 0xDEB6, 0xD83C, 0xDFFD], ''1f6b6-1f3fd''),
     ([0xD83D, 0xDEB6, 0xD83C, 0xDFFC], ''1f6b6-1f3fc''),
     ([0xD83D, 0xDEB6, 0xD83C, 0xDFFB], ''1f6b6-1f3fb''),
     ([0xD83D, 0xDEB5, 0xD83C, 0xDFFF], ''1f6b5-1f3ff''),
     ([0xD83D, 0xDEB5, 0xD83C, 0xDFFE], ''1f6b5-1f3fe''),
     ([0xD83D, 0xDEB5, 0xD83C, 0xDFFD], ''1f6b5-1f3fd''),
     ([0xD83D, 0xDEB5, 0xD83C, 0xDFFC], ''1f6b5-1f3fc''),
     ([0xD83D, 0xDEB5, 0xD83C, 0xDFFB], ''1f6b5-1f3fb''),
     ([0xD83D, 0xDEB4, 0xD83C, 0xDFFF], ''1f6b4-1f3ff''),
     ([0xD83D, 0xDEB4, 0xD83C, 0xDFFE], ''1f6b4-1f3fe''),
     ([0xD83D, 0xDEB4, 0xD83C, 0xDFFD], ''1f6b4-1f3fd''),
     ([0xD83D, 0xDEB4, 0xD83C, 0xDFFC], ''1f6b4-1f3fc''),
     ([0xD83D, 0xDEB4, 0xD83C, 0xDFFB], ''1f6b4-1f3fb''),
     ([0xD83D, 0xDEA3, 0xD83C, 0xDFFF], ''1f6a3-1f3ff''),
     ([0xD83D, 0xDEA3, 0xD83C, 0xDFFE], ''1f6a3-1f3fe'')]"

definition jsEscapeMap_2 :: "(jsstr \<times> string) list" where
  "jsEscapeMap_2 =
    [([0xD83D, 0xDEA3, 0xD83C, 0xDFFD], ''1f6a3-1f3fd''),
     ([0xD83D, 0xDEA3, 0xD83C, 0xDFFC], ''1f6a3-1f3fc''),
     ([0xD83D, 0xDEA3, 0xD83C, 0xDFFB], ''1f6a3-1f3fb''),
     ([0xD83D, 0xDE4F, 0xD83C, 0xDFFF], ''1f64f-1f3ff''),
     ([0xD83D, 0xDE4F, 0xD83C, 0xDFFE], ''1f64f-1f3fe''),
     ([0xD83D, 0xDE4F, 0xD83C, 0xDFFD], ''1f64f-1f3fd''),
     ([0xD83D, 0xDE4F, 0xD83C, 0xDFFC], ''1f64f-1f3fc''),
     ([0xD83D, 0xDE4F, 0xD83C, 0xDFFB], ''1f64f-1f3fb''),
     ([0xD83D, 0xDE4E, 0xD83C, 0xDFFF], ''1f64e-1f3ff''),
     ([0xD83D, 0xDE4E, 0xD83C, 0xDFFE], ''1f64e-1f3fe''),
     ([0xD83D, 0xDE4E, 0xD83C, 0xDFFD], ''1f64e-1f3fd''),
     ([0xD83D, 0xDE4E, 0xD83C, 0xDFFC], ''1f64e-1f3fc''),
     ([0xD83D, 0xDE4E, 0xD83C, 0xDFFB], ''1f64e-1f3fb''),
     ([0xD83D, 0xDE4D, 0xD83C, 0xDFFF], ''1f64d-1f3ff''),
     ([0xD83D, 0xDE4D, 0xD83C, 0xDFFE], ''1f64d-1f3fe''),
     ([0xD83D, 0xDE4D, 0xD83C, 0xDFFD], ''1f64d-1f3fd''),
     ([0xD83D, 0xDE4D, 0xD83C, 0xDFFC], ''1f64d-1f3fc''),
     ([0xD83D, 0xDE4D, 0xD83C, 0xDFFB], ''1f64d-1f3fb''),
     ([0xD83D, 0xDE4C, 0xD83C, 0xDFFF], ''1f64c-1f3ff''),
     ([0xD83D, 0xDE4C, 0xD83C, 0xDFFE], ''1f64c-1f3fe''),
     ([0xD83D, 0xDE4C, 0xD83C, 0xDFFD], ''1f64c-1f3fd''),
     ([0xD83D, 0xDE4C, 0xD83C, 0xDFFC], ''1f64c-1f3fc''),
     ([0xD83D, 0xDE4C, 0xD83C, 0xDFFB], ''1f64c-1f3fb''),
     ([0xD83D, 0xDE4B, 0xD83C, 0xDFFF], ''1f64b-1f3ff''),
     ([0xD83D, 0xDE4B, 0xD83C, 0xDFFE], ''1f64b-1f3fe''),
     ([0xD83D, 0xDE4B, 0xD83C, 0xDFFD], ''1f64b-1f3fd''),
     ([0xD83D, 0xDE4B, 0xD83C, 0xDFFC], ''1f64b-1f3fc''),
     ([0xD83D, 0xDE4B, 0xD83C, 0xDFFB], ''1f64b-1f3fb''),
     ([0xD83D, 0xDE47, 0xD83C, 0xDFFF], ''1f647-1f3ff''),
     ([0xD83D, 0xDE47, 0xD83C, 0xDFFE], ''1f647-1f3fe''),
     ([0xD83D, 0xDE47, 0xD83C, 0xDFFD], ''1f647-1f3fd''),
     ([0xD83D, 0xDE47, 0xD83C, 0xDFFC], ''1f647-1f3fc''),
     ([0xD83D, 0xDE47, 0xD83C, 0xDFFB], ''1f647-1f3fb''),
     ([0xD83D, 0xDE46, 0xD83C, 0xDFFF], ''1f646-1f3ff''),
     ([0xD83D, 0xDE46, 0xD83C, 0xDFFE], ''1f646-1f3fe''),
     ([0xD83D, 0xDE46, 0xD83C, 0xDFFD], ''1f646-1f3fd''),
     ([0xD83D, 0xDE46, 0xD83C, 0xDFFC], ''1f646-1f3fc''),
     ([0xD83D, 0xDE46, 0xD83C, 0xDFFB], ''1f646-1f3fb''),
     ([0xD83D, 0xDE45, 0xD83C, 0xDFFF], ''1f645-1f3ff''),
     ([0xD83D, 0xDE45, 0xD83C, 0xDFFE], ''1f645-1f3fe''),
     ([0xD83D, 0xDE45, 0xD83C, 0xDFFD], ''1f645-1f3fd''),
     ([0xD83D, 0xDE45, 0xD83C, 0xDFFC], ''1f645-1f3fc''),
     ([0xD83D, 0xDE45, 0xD83C, 0xDFFB], ''1f645-1f3fb''),
     ([0xD83D, 0xDD96, 0xD83C, 0xDFFF], ''1f596-1f3ff''),
     ([0xD83D, 0xDD96, 0xD83C, 0xDFFE], ''1f596-1f3fe''),
     ([0xD83D, 0xDD96, 0xD83C, 0xDFFD], ''1f596-1f3fd''),
     ([0xD83D, 0xDD96, 0xD83C, 0xDFFC], ''1f596-1f3fc''),
     ([0xD83D, 0xDD96, 0xD83C, 0xDFFB], ''1f596-1f3fb''),
     ([0xD83D, 0xDD95, 0xD83C, 0xDFFF], ''1f595-1f3ff''),
     ([0xD83D, 0xDD95, 0xD83C, 0xDFFE], ''1f595-1f3fe''),
     ([0xD83D, 0xDD95, 0xD83C, 0xDFFD], ''1f595-1f3fd''),
     ([0xD83D, 0xDD95, 0xD83C, 0xDFFC], ''1f595-1f3fc''),
     ([0xD83D, 0xDD95, 0xD83C, 0xDFFB], ''1f595-1f3fb''),
     ([0xD83D, 0xDD90, 0xD83C, 0xDFFF], ''1f590-1f3ff''),
     ([0xD83D, 0xDD90, 0xD83C, 0xDFFE], ''1f590-1f3fe''),
     ([0xD83D, 0xDD90, 0xD83C, 0xDFFD], ''1f590-1f3fd''),
     ([0xD83D, 0xDD90, 0xD83C, 0xDFFC], ''1f590-1f3fc''),
     ([0xD83D, 0xDD90, 0xD83C, 0xDFFB], ''1f590-1f3fb''),
     ([0xD83D, 0xDD7A, 0xD83C, 0xDFFF], ''1f57a-1f3ff''),
     ([0xD83D, 0xDD7A, 0xD83C, 0xDFFE], ''1f57a-1f3fe''),
     ([0xD83D, 0xDD7A, 0xD83C, 0xDFFD], ''1f57a-1f3fd''),
     ([0xD83D, 0xDD7A, 0xD83C, 0xDFFC], ''1f57a-1f3fc''),
     ([0xD83D, 0xDD7A, 0xD83C, 0xDFFB], ''1f57a-1f3fb''),
     ([0xD83D, 0xDD75, 0xD83C, 0xDFFF], ''1f575-1f3ff''),
     ([0xD83D, 0xDD75, 0xD83C, 0xDFFE], ''1f575-1f3fe''),
     ([0xD83D, 0xDD75, 0xD83C, 0xDFFD], ''1f575-1f3fd''),
     ([0xD83D, 0xDD75, 0xD83C, 0xDFFC], ''1f575-1f3fc''),
     ([0xD83D, 0xDD75, 0xD83C, 0xDFFB], ''1f575-1f3fb''),
     ([0xD83D, 0xDCAA, 0xD83C, 0xDFFF], ''1f4aa-1f3ff''),
     ([0xD83D, 0xDCAA, 0xD83C, 0xDFFE], ''1f4aa-1f3fe''),
     ([0xD83D, 0xDCAA, 0xD83C, 0xDFFD], ''1f4aa-1f3fd''),
     ([0xD83D, 0xDCAA, 0xD83C, 0xDFFC], ''1f4aa-1f3fc''),
     ([0xD83D, 0xDCAA, 0xD83C, 0xDFFB], ''1f4aa-1f3fb''),
     ([0xD83D, 0xDC87, 0xD83C, 0xDFFF], ''1f487-1f3ff''),
     ([0xD83D, 0xDC87, 0xD83C, 0xDFFE], ''1f487-1f3fe''),
     ([0xD83D, 0xDC87, 0xD83C, 0xDFFD], ''1f487-1f3fd''),
     ([0xD83D, 0xDC87, 0xD83C, 0xDFFC], ''1f487-1f3fc''),
     ([0xD83D, 0xDC87, 0xD83C, 0xDFFB], ''1f487-1f3fb''),
     ([0xD83D, 0xDC86, 0xD83C, 0xDFFF], ''1f486-1f3ff''),
     ([0xD83D, 0xDC86, 0xD83C, 0xDFFE], ''1f486-1f3fe''),
     ([0xD83D, 0xDC86, 0xD83C, 0xDFFD], ''1f486-1f3fd''),
     ([0xD83D, 0xDC86, 0xD83C, 0xDFFC], ''1f486-1f3fc''),
     ([0xD83D, 0xDC86, 0xD83C, 0xDFFB], ''1f486-1f3fb''),
     ([0xD83D, 0xDC85, 0xD83C, 0xDFFF], ''1f485-1f3ff''),
     ([0xD83D, 0xDC85, 0xD83C, 0xDFFE], ''1f485-1f3fe''),
     ([0xD83D, 0xDC85, 0xD83C, 0xDFFD], ''1f485-1f3fd''),
     ([0xD83D, 0xDC85, 0xD83C, 0xDFFC], ''1f485-1f3fc''),
     ([0xD83D, 0xDC85, 0xD83C, 0xDFFB], ''1f485-1f3fb''),
     ([0xD83D, 0xDC83, 0xD83C, 0xDFFF], ''1f483-1f3ff''),
     ([0xD83D, 0xDC83, 0xD83C, 0xDFFE], ''1f483-1f3fe''),
     ([0xD83D, 0xDC83, 0xD83C, 0xDFFD], ''1f483-1f3fd''),
     ([0xD83D, 0xDC83, 0xD83C, 0xDFFC], ''1f483-1f3fc''),
     ([0xD83D, 0xDC83, 0xD83C, 0xDFFB], ''1f483-1f3fb''),
     ([0xD83D, 0xDC82, 0xD83C, 0xDFFF], ''1f482-1f3ff''),
     ([0xD83D, 0xDC82, 0xD83C, 0xDFFE], ''1f482-1f3fe''),
     ([0xD83D, 0xDC82, 0xD83C, 0xDFFD], ''1f482-1f3fd''),
     ([0xD83D, 0xDC82, 0xD83C, 0xDFFC], ''1f482-1f3fc''),
     ([0xD83D, 0xDC82, 0xD83C, 0xDFFB], ''1f482-1f3fb''),
     ([0xD83D, 0xDC81, 0xD83C, 0xDFFF], ''1f481-1f3ff''),
     ([0xD83D, 0xDC81, 0xD83C, 0xDFFE], ''1f481-1f3fe''),
     ([0xD83D, 0xDC81, 0xD83C, 0xDFFD], ''1f481-1f3fd''),
     ([0xD83D, 0xDC81, 0xD83C, 0xDFFC], ''1f481-1f3fc''),
     ([0xD83D, 0xDC81, 0xD83C, 0xDFFB], ''1f481-1f3fb''),
     ([0xD83D, 0xDC7C, 0xD83C, 0xDFFF], ''1f47c-1f3ff''),
     ([0xD83D, 0xDC7C, 0xD83C, 0xDFFE], ''1f47c-1f3fe''),
     ([0xD83D, 0xDC7C, 0xD83C, 0xDFFD], ''1f47c-1f3fd''),
     ([0xD83D, 0xDC7C, 0xD83C, 0xDFFC], ''1f47c-1f3fc''),
     ([0xD83D, 0xDC7C, 0xD83C, 0xDFFB], ''1f47c-1f3fb''),
     ([0xD83D, 0xDC78, 0xD83C, 0xDFFF], ''1f478-1f3ff''),
     ([0xD83D, 0xDC78, 0xD83C, 0xDFFE], ''1f478-1f3fe''),
     ([0xD83D, 0xDC78, 0xD83C, 0xDFFD], ''1f478-1f3fd''),
     ([0xD83D, 0xDC78, 0xD83C, 0xDFFC], ''1f478-1f3fc''),
     ([0xD83D, 0xDC78, 0xD83C, 0xDFFB], ''1f478-1f3fb''),
     ([0xD83D, 0xDC77, 0xD83C, 0xDFFF], ''1f477-1f3ff''),
     ([0xD83D, 0xDC77, 0xD83C, 0xDFFE], ''1f477-1f3fe''),
     ([0xD83D, 0xDC77, 0xD83C, 0xDFFD], ''1f477-1f3fd''),
     ([0xD83D, 0xDC77, 0xD83C, 0xDFFC], ''1f477-1f3fc''),
     ([0xD83D, 0xDC77, 0xD83C, 0xDFFB], ''1f477-1f3fb''),
     ([0xD83D, 0xDC76, 0xD83C, 0xDFFF], ''1f476-1f3ff''),
     ([0xD83D, 0xDC76, 0xD83C, 0xDFFE], ''1f476-1f3fe''),
     ([0xD83D, 0xDC76, 0xD83C, 0xDFFD], ''1f476-1f3fd''),
     ([0xD83D, 0xDC76, 0xD83C, 0xDFFC], ''1f476-1f3fc''),
     ([0xD83D, 0xDC76, 0xD83C, 0xDFFB], ''1f476-1f3fb''),
     ([0xD83D, 0xDC75, 0xD83C, 0xDFFF], ''1f475-1f3ff''),
     ([0xD83D, 0xDC75, 0xD83C, 0xDFFE], ''1f475-1f3fe''),
     ([0xD83D, 0xDC75, 0xD83C, 0xDFFD], ''1f475-1f3fd''),
     ([0xD83D, 0xDC75, 0xD83C, 0xDFFC], ''1f475-1f3fc''),
     ([0xD83D, 0xDC75, 0xD83C, 0xDFFB], ''1f475-1f3fb''),
     ([0xD83D, 0xDC74, 0xD83C, 0xDFFF], ''1f474-1f3ff''),
     ([0xD83D, 0xDC74, 0xD83C, 0xDFFE], ''1f474-1f3fe''),
     ([0xD83D, 0xDC74, 0xD83C, 0xDFFD], ''1f474-1f3fd''),
     ([0xD83D, 0xDC74, 0xD83C, 0xDFFC], ''1f474-1f3fc''),
     ([0xD83D, 0xDC74, 0xD83C, 0xDFFB], ''1f474-1f3fb''),
     ([0xD83D, 0xDC73, 0xD83C, 0xDFFF], ''1f473-1f3ff''),
     ([0xD83D, 0xDC73, 0xD83C, 0xDFFE], ''1f473-1f3fe''),
     ([0xD83D, 0xDC73, 0xD83C, 0xDFFD], ''1f473-1f3fd''),
     ([0xD83D, 0xDC73, 0xD83C, 0xDFFC], ''1f473-1f3fc''),
     ([0xD83D, 0xDC73, 0xD83C, 0xDFFB], ''1f473-1f3fb''),
     ([0xD83D, 0xDC72, 0xD83C, 0xDFFF], ''1f472-1f3ff''),
     ([0xD83D, 0xDC72, 0xD83C, 0xDFFE], ''1f472-1f3fe''),
     ([0xD83D, 0xDC72, 0xD83C, 0xDFFD], ''1f472-1f3fd''),
     ([0xD83D, 0xDC72, 0xD83C, 0xDFFC], ''1f472-1f3fc''),
     ([0xD83D, 0xDC72, 0xD83C, 0xDFFB], ''1f472-1f3fb''),
     ([0xD83D, 0xDC71, 0xD83C, 0xDFFF], ''1f471-1f3ff''),
     ([0xD83D, 0xDC71, 0xD83C, 0xDFFE], ''1f471-1f3fe''),
     ([0xD83D, 0xDC71, 0xD83C, 0xDFFD], ''1f471-1f3fd''),
     ([0xD83D, 0xDC71, 0xD83C, 0xDFFC], ''1f471-1f3fc''),
     ([0xD83D, 0xDC71, 0xD83C, 0xDFFB], ''1f471-1f3fb'')]"

definition jsEscapeMap_3 :: "(jsstr \<times> string) list" where
  "jsEscapeMap_3 =
    [([0xD83D, 0xDC70, 0xD83C, 0xDFFF], ''1f470-1f3ff''),
     ([0xD83D, 0xDC70, 0xD83C, 0xDFFE], ''1f470-1f3fe''),
     ([0xD83D, 0xDC70, 0xD83C, 0xDFFD], ''1f470-1f3fd''),
     ([0xD83D, 0xDC70, 0xD83C, 0xDFFC], ''1f470-1f3fc''),
     ([0xD83D, 0xDC70, 0xD83C, 0xDFFB], ''1f470-1f3fb''),
     ([0xD83D, 0xDC6E, 0xD83C, 0xDFFF], ''1f46e-1f3ff''),
     ([0xD83D, 0xDC6E, 0xD83C, 0xDFFE], ''1f46e-1f3fe''),
     ([0xD83D, 0xDC6E, 0xD83C, 0xDFFD], ''1f46e-1f3fd''),
     ([0xD83D, 0xDC6E, 0xD83C, 0xDFFC], ''1f46e-1f3fc''),
     ([0xD83D, 0xDC6E, 0xD83C, 0xDFFB], ''1f46e-1f3fb''),
     ([0xD83D, 0xDC69, 0xD83C, 0xDFFF], ''1f469-1f3ff''),
     ([0xD83D, 0xDC69, 0xD83C, 0xDFFE], ''1f469-1f3fe''),
     ([0xD83D, 0xDC69, 0xD83C, 0xDFFD], ''1f469-1f3fd''),
     ([0xD83D, 0xDC69, 0xD83C, 0xDFFC], ''1f469-1f3fc''),
     ([0xD83D, 0xDC69, 0xD83C, 0xDFFB], ''1f469-1f3fb''),
     ([0xD83D, 0xDC68, 0xD83C, 0xDFFF], ''1f468-1f3ff''),
     ([0xD83D, 0xDC68, 0xD83C, 0xDFFE], ''1f468-1f3fe''),
     ([0xD83D, 0xDC68, 0xD83C, 0xDFFD], ''1f468-1f3fd''),
     ([0xD83D, 0xDC68, 0xD83C, 0xDFFC], ''1f468-1f3fc''),
     ([0xD83D, 0xDC68, 0xD83C, 0xDFFB], ''1f468-1f3fb''),
     ([0xD83D, 0xDC67, 0xD83C, 0xDFFF], ''1f467-1f3ff''),
     ([0xD83D, 0xDC67, 0xD83C, 0xDFFE], ''1f467-1f3fe''),
     ([0xD83D, 0xDC67, 0xD83C, 0xDFFD], ''1f467-1f3fd''),
     ([0xD83D, 0xDC67, 0xD83C, 0xDFFC], ''1f467-1f3fc''),
     ([0xD83D, 0xDC67, 0xD83C, 0xDFFB], ''1f467-1f3fb''),
     ([0xD83D, 0xDC66, 0xD83C, 0xDFFF], ''1f466-1f3ff''),
     ([0xD83D, 0xDC66, 0xD83C, 0xDFFE], ''1f466-1f3fe''),
     ([0xD83D, 0xDC66, 0xD83C, 0xDFFD], ''1f466-1f3fd''),
     ([0xD83D, 0xDC66, 0xD83C, 0xDFFC], ''1f466-1f3fc''),
     ([0xD83D, 0xDC66, 0xD83C, 0xDFFB], ''1f466-1f3fb''),
     ([0xD83D, 0xDC50, 0xD83C, 0xDFFF], ''1f450-1f3ff''),
     ([0xD83D, 0xDC50, 0xD83C, 0xDFFE], ''1f450-1f3fe''),
     ([0xD83D, 0xDC50, 0xD83C, 0xDFFD], ''1f450-1f3fd''),
     ([0xD83D, 0xDC50, 0xD83C, 0xDFFC], ''1f450-1f3fc''),
     ([0xD83D, 0xDC50, 0xD83C, 0xDFFB], ''1f450-1f3fb''),
     ([0xD83D, 0xDC4F, 0xD83C, 0xDFFF], ''1f44f-1f3ff''),
     ([0xD83D, 0xDC4F, 0xD83C, 0xDFFE], ''1f44f-1f3fe''),
     ([0xD83D, 0xDC4F, 0xD83C, 0xDFFD], ''1f44f-1f3fd''),
     ([0xD83D, 0xDC4F, 0xD83C, 0xDFFC], ''1f44f-1f3fc''),
     ([0xD83D, 0xDC4F, 0xD83C, 0xDFFB], ''1f44f-1f3fb''),
     ([0xD83D, 0xDC4E, 0xD83C, 0xDFFF], ''1f44e-1f3ff''),
     ([0xD83D, 0xDC4E, 0xD83C, 0xDFFE], ''1f44e-1f3fe''),
     ([0xD83D, 0xDC4E, 0xD83C, 0xDFFD], ''1f44e-1f3fd''),
     ([0xD83D, 0xDC4E, 0xD83C, 0xDFFC], ''1f44e-1f3fc''),
     ([0xD83D, 0xDC4E, 0xD83C, 0xDFFB], ''1f44e-1f3fb''),
     ([0xD83D, 0xDC4D, 0xD83C, 0xDFFF], ''1f44d-1f3ff''),
     ([0xD83D, 0xDC4D, 0xD83C, 0xDFFE], ''1f44d-1f3fe''),
     ([0xD83D, 0xDC4D, 0xD83C, 0xDFFD], ''1f44d-1f3fd''),
     ([0xD83D, 0xDC4D, 0xD83C, 0xDFFC], ''1f44d-1f3fc''),
     ([0xD83D, 0xDC4D, 0xD83C, 0xDFFB], ''1f44d-1f3fb''),
     ([0xD83D, 0xDC4C, 0xD83C, 0xDFFF], ''1f44c-1f3ff''),
     ([0xD83D, 0xDC4C, 0xD83C, 0xDFFE], ''1f44c-1f3fe''),
     ([0xD83D, 0xDC4C, 0xD83C, 0xDFFD], ''1f44c-1f3fd''),
     ([0xD83D, 0xDC4C, 0xD83C, 0xDFFC], ''1f44c-1f3fc''),
     ([0xD83D, 0xDC4C, 0xD83C, 0xDFFB], ''1f44c-1f3fb''),
     ([0xD83D, 0xDC4B, 0xD83C, 0xDFFF], ''1f44b-1f3ff''),
     ([0xD83D, 0xDC4B, 0xD83C, 0xDFFE], ''1f44b-1f3fe''),
     ([0xD83D, 0xDC4B, 0xD83C, 0xDFFD], ''1f44b-1f3fd''),
     ([0xD83D, 0xDC4B, 0xD83C, 0xDFFC], ''1f44b-1f3fc''),
     ([0xD83D, 0xDC4B, 0xD83C, 0xDFFB], ''1f44b-1f3fb''),
     ([0xD83D, 0xDC4A, 0xD83C, 0xDFFF], ''1f44a-1f3ff''),
     ([0xD83D, 0xDC4A, 0xD83C, 0xDFFE], ''1f44a-1f3fe''),
     ([0xD83D, 0xDC4A, 0xD83C, 0xDFFD], ''1f44a-1f3fd''),
     ([0xD83D, 0xDC4A, 0xD83C, 0xDFFC], ''1f44a-1f3fc''),
     ([0xD83D, 0xDC4A, 0xD83C, 0xDFFB], ''1f44a-1f3fb''),
     ([0xD83D, 0xDC49, 0xD83C, 0xDFFF], ''1f449-1f3ff''),
     ([0xD83D, 0xDC49, 0xD83C, 0xDFFE], ''1f449-1f3fe''),
     ([0xD83D, 0xDC49, 0xD83C, 0xDFFD], ''1f449-1f3fd''),
     ([0xD83D, 0xDC49, 0xD83C, 0xDFFC], ''1f449-1f3fc''),
     ([0xD83D, 0xDC49, 0xD83C, 0xDFFB], ''1f449-1f3fb''),
     ([0xD83D, 0xDC48, 0xD83C, 0xDFFF], ''1f448-1f3ff''),
     ([0xD83D, 0xDC48, 0xD83C, 0xDFFE], ''1f448-1f3fe''),
     ([0xD83D, 0xDC48, 0xD83C, 0xDFFD], ''1f448-1f3fd''),
     ([0xD83D, 0xDC48, 0xD83C, 0xDFFC], ''1f448-1f3fc''),
     ([0xD83D, 0xDC48, 0xD83C, 0xDFFB], ''1f448-1f3fb''),
     ([0xD83D, 0xDC47, 0xD83C, 0xDFFF], ''1f447-1f3ff''),
     ([0xD83D, 0xDC47, 0xD83C, 0xDFFE], ''1f447-1f3fe''),
     ([0xD83D, 0xDC47, 0xD83C, 0xDFFD], ''1f447-1f3fd''),
     ([0xD83D, 0xDC47, 0xD83C, 0xDFFC], ''1f447-1f3fc''),
     ([0xD83D, 0xDC47, 0xD83C, 0xDFFB], ''1f447-1f3fb''),
     ([0xD83D, 0xDC46, 0xD83C, 0xDFFF], ''1f446-1f3ff''),
     ([0xD83D, 0xDC46, 0xD83C, 0xDFFE], ''1f446-1f3fe''),
     ([0xD83D, 0xDC46, 0xD83C, 0xDFFD], ''1f446-1f3fd''),
     ([0xD83D, 0xDC46, 0xD83C, 0xDFFC], ''1f446-1f3fc''),
     ([0xD83D, 0xDC46, 0xD83C, 0xDFFB], ''1f446-1f3fb''),
     ([0xD83D, 0xDC43, 0xD83C, 0xDFFF], ''1f443-1f3ff''),
     ([0xD83D, 0xDC43, 0xD83C, 0xDFFE], ''1f443-1f3fe''),
     ([0xD83D, 0xDC43, 0xD83C, 0xDFFD], ''1f443-1f3fd''),
     ([0xD83D, 0xDC43, 0xD83C, 0xDFFC], ''1f443-1f3fc''),
     ([0xD83D, 0xDC43, 0xD83C, 0xDFFB], ''1f443-1f3fb''),
     ([0xD83D, 0xDC42, 0xD83C, 0xDFFF], ''1f442-1f3ff''),
     ([0xD83D, 0xDC42, 0xD83C, 0xDFFE], ''1f442-1f3fe''),
     ([0xD83D, 0xDC42, 0xD83C, 0xDFFD], ''1f442-1f3fd''),
     ([0xD83D, 0xDC42, 0xD83C, 0xDFFC], ''1f442-1f3fc''),
     ([0xD83D, 0xDC42, 0xD83C, 0xDFFB], ''1f442-1f3fb''),
     ([0xD83C, 0xDFF3, 0xD83C, 0xDF08], ''1f3f3-1f308''),
     ([0xD83C, 0xDFCB, 0xD83C, 0xDFFF], ''1f3cb-1f3ff''),
     ([0xD83C, 0xDFCB, 0xD83C, 0xDFFE], ''1f3cb-1f3fe''),
     ([0xD83C, 0xDFCB, 0xD83C, 0xDFFD], ''1f3cb-1f3fd''),
     ([0xD83C, 0xDFCB, 0xD83C, 0xDFFC], ''1f3cb-1f3fc''),
     ([0xD83C, 0xDFCB, 0xD83C, 0xDFFB], ''1f3cb-1f3fb''),
     ([0xD83C, 0xDFCA, 0xD83C, 0xDFFF], ''1f3ca-1f3ff''),
     ([0xD83C, 0xDFCA, 0xD83C, 0xDFFE], ''1f3ca-1f3fe''),
     ([0xD83C, 0xDFCA, 0xD83C, 0xDFFD], ''1f3ca-1f3fd''),
     ([0xD83C, 0xDFCA, 0xD83C, 0xDFFC], ''1f3ca-1f3fc''),
     ([0xD83C, 0xDFCA, 0xD83C, 0xDFFB], ''1f3ca-1f3fb''),
     ([0xD83C, 0xDFC7, 0xD83C, 0xDFFF], ''1f3c7-1f3ff''),
     ([0xD83C, 0xDFC7, 0xD83C, 0xDFFE], ''1f3c7-1f3fe''),
     ([0xD83C, 0xDFC7, 0xD83C, 0xDFFD], ''1f3c7-1f3fd''),
     ([0xD83C, 0xDFC7, 0xD83C, 0xDFFC], ''1f3c7-1f3fc''),
     ([0xD83C, 0xDFC7, 0xD83C, 0xDFFB], ''1f3c7-1f3fb''),
     ([0xD83C, 0xDFC4, 0xD83C, 0xDFFF], ''1f3c4-1f3ff''),
     ([0xD83C, 0xDFC4, 0xD83C, 0xDFFE], ''1f3c4-1f3fe''),
     ([0xD83C, 0xDFC4, 0xD83C, 0xDFFD], ''1f3c4-1f3fd''),
     ([0xD83C, 0xDFC4, 0xD83C, 0xDFFC], ''1f3c4-1f3fc''),
     ([0xD83C, 0xDFC4, 0xD83C, 0xDFFB], ''1f3c4-1f3fb''),
     ([0xD83C, 0xDFC3, 0xD83C, 0xDFFF], ''1f3c3-1f3ff''),
     ([0xD83C, 0xDFC3, 0xD83C, 0xDFFE], ''1f3c3-1f3fe''),
     ([0xD83C, 0xDFC3, 0xD83C, 0xDFFD], ''1f3c3-1f3fd''),
     ([0xD83C, 0xDFC3, 0xD83C, 0xDFFC], ''1f3c3-1f3fc''),
     ([0xD83C, 0xDFC3, 0xD83C, 0xDFFB], ''1f3c3-1f3fb''),
     ([0xD83C, 0xDF85, 0xD83C, 0xDFFF], ''1f385-1f3ff''),
     ([0xD83C, 0xDF85, 0xD83C, 0xDFFE], ''1f385-1f3fe''),
     ([0xD83C, 0xDF85, 0xD83C, 0xDFFD], ''1f385-1f3fd''),
     ([0xD83C, 0xDF85, 0xD83C, 0xDFFC], ''1f385-1f3fc''),
     ([0xD83C, 0xDF85, 0xD83C, 0xDFFB], ''1f385-1f3fb''),
     ([0xD83C, 0xDDFF, 0xD83C, 0xDDFC], ''1f1ff-1f1fc''),
     ([0xD83C, 0xDDFF, 0xD83C, 0xDDF2], ''1f1ff-1f1f2''),
     ([0xD83C, 0xDDFF, 0xD83C, 0xDDE6], ''1f1ff-1f1e6''),
     ([0xD83C, 0xDDFE, 0xD83C, 0xDDF9], ''1f1fe-1f1f9''),
     ([0xD83C, 0xDDFE, 0xD83C, 0xDDEA], ''1f1fe-1f1ea''),
     ([0xD83C, 0xDDFD, 0xD83C, 0xDDF0], ''1f1fd-1f1f0''),
     ([0xD83C, 0xDDFC, 0xD83C, 0xDDF8], ''1f1fc-1f1f8''),
     ([0xD83C, 0xDDFC, 0xD83C, 0xDDEB], ''1f1fc-1f1eb''),
     ([0xD83C, 0xDDFB, 0xD83C, 0xDDFA], ''1f1fb-1f1fa''),
     ([0xD83C, 0xDDFB, 0xD83C, 0xDDF3], ''1f1fb-1f1f3''),
     ([0xD83C, 0xDDFB, 0xD83C, 0xDDEE], ''1f1fb-1f1ee''),
     ([0xD83C, 0xDDFB, 0xD83C, 0xDDEC], ''1f1fb-1f1ec''),
     ([0xD83C, 0xDDFB, 0xD83C, 0xDDEA], ''1f1fb-1f1ea''),
     ([0xD83C, 0xDDFB, 0xD83C, 0xDDE8], ''1f1fb-1f1e8''),
     ([0xD83C, 0xDDFB, 0xD83C, 0xDDE6], ''1f1fb-1f1e6''),
     ([0xD83C, 0xDDFA, 0xD83C, 0xDDFF], ''1f1fa-1f1ff''),
     ([0xD83C, 0xDDFA, 0xD83C, 0xDDFE], ''1f1fa-1f1fe''),
     ([0xD83C, 0xDDFA, 0xD83C, 0xDDF8], ''1f1fa-1f1f8''),
     ([0xD83C, 0xDDFA, 0xD83C, 0xDDF2], ''1f1fa-1f1f2''),
     ([0xD83C, 0xDDFA, 0xD83C, 0xDDEC], ''1f1fa-1f1ec''),
     ([0xD83C, 0xDDFA, 0xD83C, 0xDDE6], ''1f1fa-1f1e6''),
     ([0xD83C, 0xDDF9, 0xD83C, 0xDDFF], ''1f1f9-1f1ff'')]"

definition jsEscapeMap_4 :: "(jsstr \<times> string) list" where
  "jsEscapeMap_4 =
    [([0xD83C, 0xDDF9, 0xD83C, 0xDDFC], ''1f1f9-1f1fc''),
     ([0xD83C, 0xDDF9, 0xD83C, 0xDDFB], ''1f1f9-1f1fb''),
     ([0xD83C, 0xDDF9, 0xD83C, 0xDDF9], ''1f1f9-1f1f9''),
     ([0xD83C, 0xDDF9, 0xD83C, 0xDDF7], ''1f1f9-1f1f7''),
     ([0xD83C, 0xDDF9, 0xD83C, 0xDDF4], ''1f1f9-1f1f4''),
     ([0xD83C, 0xDDF9, 0xD83C, 0xDDF3], ''1f1f9-1f1f3''),
     ([0xD83C, 0xDDF9, 0xD83C, 0xDDF2], ''1f1f9-1f1f2''),
     ([0xD83C, 0xDDF9, 0xD83C, 0xDDF1], ''1f1f9-1f1f1''),
     ([0xD83C, 0xDDF9, 0xD83C, 0xDDF0], ''1f1f9-1f1f0''),
     ([0xD83C, 0xDDF9, 0xD83C, 0xDDEF], ''1f1f9-1f1ef''),
     ([0xD83C, 0xDDF9, 0xD83C, 0xDDED], ''1f1f9-1f1ed''),
     ([0xD83C, 0xDDF9, 0xD83C, 0xDDEC], ''1f1f9-1f1ec''),
     ([0xD83C, 0xDDF9, 0xD83C, 0xDDEB], ''1f1f9-1f1eb''),
     ([0xD83C, 0xDDF9, 0xD83C, 0xDDE9], ''1f1f9-1f1e9''),
     ([0xD83C, 0xDDF9, 0xD83C, 0xDDE8], ''1f1f9-1f1e8''),
     ([0xD83C, 0xDDF9, 0xD83C, 0xDDE6], ''1f1f9-1f1e6''),
     ([0xD83C, 0xDDF8, 0xD83C, 0xDDFF], ''1f1f8-1f1ff''),
     ([0xD83C, 0xDDF8, 0xD83C, 0xDDFE], ''1f1f8-1f1fe''),
     ([0xD83C, 0xDDF8, 0xD83C, 0xDDFD], ''1f1f8-1f1fd''),
     ([0xD83C, 0xDDF8, 0xD83C, 0xDDFB], ''1f1f8-1f1fb''),
     ([0xD83C, 0xDDF8, 0xD83C, 0xDDF9], ''1f1f8-1f1f9''),
     ([0xD83C, 0xDDF8, 0xD83C, 0xDDF8], ''1f1f8-1f1f8''),
     ([0xD83C, 0xDDF8, 0xD83C, 0xDDF7], ''1f1f8-1f1f7''),
     ([0xD83C, 0xDDF8, 0xD83C, 0xDDF4], ''1f1f8-1f1f4''),
     ([0xD83C, 0xDDF8, 0xD83C, 0xDDF3], ''1f1f8-1f1f3''),
     ([0xD83C, 0xDDF8, 0xD83C, 0xDDF2], ''1f1f8-1f1f2''),
     ([0xD83C, 0xDDF8, 0xD83C, 0xDDF1], ''1f1f8-1f1f1''),
     ([0xD83C, 0xDDF8, 0xD83C, 0xDDF0], ''1f1f8-1f1f0''),
     ([0xD83C, 0xDDF8, 0xD83C, 0xDDEF], ''1f1f8-1f1ef''),
     ([0xD83C, 0xDDF8, 0xD83C, 0xDDEE], ''1f1f8-1f1ee''),
     ([0xD83C, 0xDDF8, 0xD83C, 0xDDED], ''1f1f8-1f1ed''),
     ([0xD83C, 0xDDF8, 0xD83C, 0xDDEC], ''1f1f8-1f1ec''),
     ([0xD83C, 0xDDF8, 0xD83C, 0xDDEA], ''1f1f8-1f1ea''),
     ([0xD83C, 0xDDF8, 0xD83C, 0xDDE9], ''1f1f8-1f1e9''),
     ([0xD83C, 0xDDF8, 0xD83C, 0xDDE8], ''1f1f8-1f1e8''),
     ([0xD83C, 0xDDF8, 0xD83C, 0xDDE7], ''1f1f8-1f1e7''),
     ([0xD83C, 0xDDF8, 0xD83C, 0xDDE6], ''1f1f8-1f1e6''),
     ([0xD83C, 0xDDF7, 0xD83C, 0xDDFC], ''1f1f7-1f1fc''),
     ([0xD83C, 0xDDF7, 0xD83C, 0xDDFA], ''1f1f7-1f1fa''),
     ([0xD83C, 0xDDF7, 0xD83C, 0xDDF8], ''1f1f7-1f1f8''),
     ([0xD83C, 0xDDF7, 0xD83C, 0xDDF4], ''1f1f7-1f1f4''),
     ([0xD83C, 0xDDF7, 0xD83C, 0xDDEA], ''1f1f7-1f1ea''),
     ([0xD83C, 0xDDF6, 0xD83C, 0xDDE6], ''1f1f6-1f1e6''),
     ([0xD83C, 0xDDF5, 0xD83C, 0xDDFE], ''1f1f5-1f1fe''),
     ([0xD83C, 0xDDF5, 0xD83C, 0xDDFC], ''1f1f5-1f1fc''),
     ([0xD83C, 0xDDF5, 0xD83C, 0xDDF9], ''1f1f5-1f1f9''),
     ([0xD83C, 0xDDF5, 0xD83C, 0xDDF8], ''1f1f5-1f1f8''),
     ([0xD83C, 0xDDF5, 0xD83C, 0xDDF7], ''1f1f5-1f1f7''),
     ([0xD83C, 0xDDF5, 0xD83C, 0xDDF3], ''1f1f5-1f1f3''),
     ([0xD83C, 0xDDF5, 0xD83C, 0xDDF2], ''1f1f5-1f1f2''),
     ([0xD83C, 0xDDF5, 0xD83C, 0xDDF1], ''1f1f5-1f1f1''),
     ([0xD83C, 0xDDF5, 0xD83C, 0xDDF0], ''1f1f5-1f1f0''),
     ([0xD83C, 0xDDF5, 0xD83C, 0xDDED], ''1f1f5-1f1ed''),
     ([0xD83C, 0xDDF5, 0xD83C, 0xDDEC], ''1f1f5-1f1ec''),
     ([0xD83C, 0xDDF5, 0xD83C, 0xDDEB], ''1f1f5-1f1eb''),
     ([0xD83C, 0xDDF5, 0xD83C, 0xDDEA], ''1f1f5-1f1ea''),
     ([0xD83C, 0xDDF5, 0xD83C, 0xDDE6], ''1f1f5-1f1e6''),
     ([0xD83C, 0xDDF4, 0xD83C, 0xDDF2], ''1f1f4-1f1f2''),
     ([0xD83C, 0xDDF3, 0xD83C, 0xDDFF], ''1f1f3-1f1ff''),
     ([0xD83C, 0xDDF3, 0xD83C, 0xDDFA], ''1f1f3-1f1fa''),
     ([0xD83C, 0xDDF3, 0xD83C, 0xDDF7], ''1f1f3-1f1f7''),
     ([0xD83C, 0xDDF3, 0xD83C, 0xDDF5], ''1f1f3-1f1f5''),
     ([0xD83C, 0xDDF3, 0xD83C, 0xDDF4], ''1f1f3-1f1f4''),
     ([0xD83C, 0xDDF3, 0xD83C, 0xDDF1], ''1f1f3-1f1f1''),
     ([0xD83C, 0xDDF3, 0xD83C, 0xDDEE], ''1f1f3-1f1ee''),
     ([0xD83C, 0xDDF3, 0xD83C, 0xDDEC], ''1f1f3-1f1ec''),
     ([0xD83C, 0xDDF3, 0xD83C, 0xDDEB], ''1f1f3-1f1eb''),
     ([0xD83C, 0xDDF3, 0xD83C, 0xDDEA], ''1f1f3-1f1ea''),
     ([0xD83C, 0xDDF3, 0xD83C, 0xDDE8], ''1f1f3-1f1e8''),
     ([0xD83C, 0xDDF3, 0xD83C, 0xDDE6], ''1f1f3-1f1e6''),
     ([0xD83C, 0xDDF2, 0xD83C, 0xDDFF], ''1f1f2-1f1ff''),
     ([0xD83C, 0xDDF2, 0xD83C, 0xDDFE], ''1f1f2-1f1fe''),
     ([0xD83C, 0xDDF2, 0xD83C, 0xDDFD], ''1f1f2-1f1fd''),
     ([0xD83C, 0xDDF2, 0xD83C, 0xDDFC], ''1f1f2-1f1fc''),
     ([0xD83C, 0xDDF2, 0xD83C, 0xDDFB], ''1f1f2-1f1fb''),
     ([0xD83C, 0xDDF2, 0xD83C, 0xDDFA], ''1f1f2-1f1fa''),
     ([0xD83C, 0xDDF2, 0xD83C, 0xDDF9], ''1f1f2-1f1f9''),
     ([0xD83C, 0xDDF2, 0xD83C, 0xDDF8], ''1f1f2-1f1f8''),
     ([0xD83C, 0xDDF2, 0xD83C, 0xDDF7], ''1f1f2-1f1f7''),
     ([0xD83C, 0xDDF2, 0xD83C, 0xDDF6], ''1f1f2-1f1f6''),
     ([0xD83C, 0xDDF2, 0xD83C, 0xDDF5], ''1f1f2-1f1f5''),
     ([0xD83C, 0xDDF2, 0xD83C, 0xDDF4], ''1f1f2-1f1f4''),
     ([0xD83C, 0xDDF2, 0xD83C, 0xDDF3], ''1f1f2-1f1f3''),
     ([0xD83C, 0xDDF2, 0xD83C, 0xDDF2], ''1f1f2-1f1f2''),
     ([0xD83C, 0xDDF2, 0xD83C, 0xDDF1], ''1f1f2-1f1f1''),
     ([0xD83C, 0xDDF2, 0xD83C, 0xDDF0], ''1f1f2-1f1f0''),
     ([0xD83C, 0xDDF2, 0xD83C, 0xDDED], ''1f1f2-1f1ed''),
     ([0xD83C, 0xDDF2, 0xD83C, 0xDDEC], ''1f1f2-1f1ec''),
     ([0xD83C, 0xDDF2, 0xD83C, 0xDDEB], ''1f1f2-1f1eb''),
     ([0xD83C, 0xDDF2, 0xD83C, 0xDDEA], ''1f1f2-1f1ea''),
     ([0xD83C, 0xDDF2, 0xD83C, 0xDDE9], ''1f1f2-1f1e9''),
     ([0xD83C, 0xDDF2, 0xD83C, 0xDDE8], ''1f1f2-1f1e8''),
     ([0xD83C, 0xDDF2, 0xD83C, 0xDDE6], ''1f1f2-1f1e6''),
     ([0xD83C, 0xDDF1, 0xD83C, 0xDDFE], ''1f1f1-1f1fe''),
     ([0xD83C, 0xDDF1, 0xD83C, 0xDDFB], ''1f1f1-1f1fb''),
     ([0xD83C, 0xDDF1, 0xD83C, 0xDDFA], ''1f1f1-1f1fa''),
     ([0xD83C, 0xDDF1, 0xD83C, 0xDDF9], ''1f1f1-1f1f9''),
     ([0xD83C, 0xDDF1, 0xD83C, 0xDDF8], ''1f1f1-1f1f8''),
     ([0xD83C, 0xDDF1, 0xD83C, 0xDDF7], ''1f1f1-1f1f7''),
     ([0xD83C, 0xDDF1, 0xD83C, 0xDDF0], ''1f1f1-1f1f0''),
     ([0xD83C, 0xDDF1, 0xD83C, 0xDDEE], ''1f1f1-1f1ee''),
     ([0xD83C, 0xDDF1, 0xD83C, 0xDDE8], ''1f1f1-1f1e8''),
     ([0xD83C, 0xDDF1, 0xD83C, 0xDDE7], ''1f1f1-1f1e7''),
     ([0xD83C, 0xDDF1, 0xD83C, 0xDDE6], ''1f1f1-1f1e6''),
     ([0xD83C, 0xDDF0, 0xD83C, 0xDDFF], ''1f1f0-1f1ff''),
     ([0xD83C, 0xDDF0, 0xD83C, 0xDDFE], ''1f1f0-1f1fe''),
     ([0xD83C, 0xDDF0, 0xD83C, 0xDDFC], ''1f1f0-1f1fc''),
     ([0xD83C, 0xDDF0, 0xD83C, 0xDDF7], ''1f1f0-1f1f7''),
     ([0xD83C, 0xDDF0, 0xD83C, 0xDDF5], ''1f1f0-1f1f5''),
     ([0xD83C, 0xDDF0, 0xD83C, 0xDDF3], ''1f1f0-1f1f3''),
     ([0xD83C, 0xDDF0, 0xD83C, 0xDDF2], ''1f1f0-1f1f2''),
     ([0xD83C, 0xDDF0, 0xD83C, 0xDDEE], ''1f1f0-1f1ee''),
     ([0xD83C, 0xDDF0, 0xD83C, 0xDDED], ''1f1f0-1f1ed''),
     ([0xD83C, 0xDDF0, 0xD83C, 0xDDEC], ''1f1f0-1f1ec''),
     ([0xD83C, 0xDDF0, 0xD83C, 0xDDEA], ''1f1f0-1f1ea''),
     ([0xD83C, 0xDDEF, 0xD83C, 0xDDF5], ''1f1ef-1f1f5''),
     ([0xD83C, 0xDDEF, 0xD83C, 0xDDF4], ''1f1ef-1f1f4''),
     ([0xD83C, 0xDDEF, 0xD83C, 0xDDF2], ''1f1ef-1f1f2''),
     ([0xD83C, 0xDDEF, 0xD83C, 0xDDEA], ''1f1ef-1f1ea''),
     ([0xD83C, 0xDDEE, 0xD83C, 0xDDF9], ''1f1ee-1f1f9''),
     ([0xD83C, 0xDDEE, 0xD83C, 0xDDF8], ''1f1ee-1f1f8''),
     ([0xD83C, 0xDDEE, 0xD83C, 0xDDF7], ''1f1ee-1f1f7''),
     ([0xD83C, 0xDDEE, 0xD83C, 0xDDF6], ''1f1ee-1f1f6''),
     ([0xD83C, 0xDDEE, 0xD83C, 0xDDF4], ''1f1ee-1f1f4''),
     ([0xD83C, 0xDDEE, 0xD83C, 0xDDF3], ''1f1ee-1f1f3''),
     ([0xD83C, 0xDDEE, 0xD83C, 0xDDF2], ''1f1ee-1f1f2''),
     ([0xD83C, 0xDDEE, 0xD83C, 0xDDF1], ''1f1ee-1f1f1''),
     ([0xD83C, 0xDDEE, 0xD83C, 0xDDEA], ''1f1ee-1f1ea''),
     ([0xD83C, 0xDDEE, 0xD83C, 0xDDE9], ''1f1ee-1f1e9''),
     ([0xD83C, 0xDDEE, 0xD83C, 0xDDE8], ''1f1ee-1f1e8''),
     ([0xD83C, 0xDDED, 0xD83C, 0xDDFA], ''1f1ed-1f1fa''),
     ([0xD83C, 0xDDED, 0xD83C, 0xDDF9], ''1f1ed-1f1f9''),
     ([0xD83C, 0xDDED, 0xD83C, 0xDDF7], ''1f1ed-1f1f7''),
     ([0xD83C, 0xDDED, 0xD83C, 0xDDF3], ''1f1ed-1f1f3''),
     ([0xD83C, 0xDDED, 0xD83C, 0xDDF2], ''1f1ed-1f1f2''),
     ([0xD83C, 0xDDED, 0xD83C, 0xDDF0], ''1f1ed-1f1f0''),
     ([0xD83C, 0xDDEC, 0xD83C, 0xDDFE], ''1f1ec-1f1fe''),
     ([0xD83C, 0xDDEC, 0xD83C, 0xDDFC], ''1f1ec-1f1fc''),
     ([0xD83C, 0xDDEC, 0xD83C, 0xDDFA], ''1f1ec-1f1fa''),
     ([0xD83C, 0xDDEC, 0xD83C, 0xDDF9], ''1f1ec-1f1f9''),
     ([0xD83C, 0xDDEC, 0xD83C, 0xDDF8], ''1f1ec-1f1f8''),
     ([0xD83C, 0xDDEC, 0xD83C, 0xDDF7], ''1f1ec-1f1f7''),
     ([0xD83C, 0xDDEC, 0xD83C, 0xDDF6], ''1f1ec-1f1f6''),
     ([0xD83C, 0xDDEC, 0xD83C, 0xDDF5], ''1f1ec-1f1f5''),
     ([0xD83C, 0xDDEC, 0xD83C, 0xDDF3], ''1f1ec-1f1f3''),
     ([0xD83C, 0xDDEC, 0xD83C, 0xDDF2], ''1f1ec-1f1f2''),
     ([0xD83C, 0xDDEC, 0xD83C, 0xDDF1], ''1f1ec-1f1f1''),
     ([0xD83C, 0xDDEC, 0xD83C, 0xDDEE], ''1f1ec-1f1ee'')]"

definition jsEscapeMap_5 :: "(jsstr \<times> string) list" where
  "jsEscapeMap_5 =
    [([0xD83C, 0xDDEC, 0xD83C, 0xDDED], ''1f1ec-1f1ed''),
     ([0xD83C, 0xDDEC, 0xD83C, 0xDDEC], ''1f1ec-1f1ec''),
     ([0xD83C, 0xDDEC, 0xD83C, 0xDDEB], ''1f1ec-1f1eb''),
     ([0xD83C, 0xDDEC, 0xD83C, 0xDDEA], ''1f1ec-1f1ea''),
     ([0xD83C, 0xDDEC, 0xD83C, 0xDDE9], ''1f1ec-1f1e9''),
     ([0xD83C, 0xDDEC, 0xD83C, 0xDDE7], ''1f1ec-1f1e7''),
     ([0xD83C, 0xDDEC, 0xD83C, 0xDDE6], ''1f1ec-1f1e6''),
     ([0xD83C, 0xDDEB, 0xD83C, 0xDDF7], ''1f1eb-1f1f7''),
     ([0xD83C, 0xDDEB, 0xD83C, 0xDDF4], ''1f1eb-1f1f4''),
     ([0xD83C, 0xDDEB, 0xD83C, 0xDDF2], ''1f1eb-1f1f2''),
     ([0xD83C, 0xDDEB, 0xD83C, 0xDDF0], ''1f1eb-1f1f0''),
     ([0xD83C, 0xDDEB, 0xD83C, 0xDDEF], ''1f1eb-1f1ef''),
     ([0xD83C, 0xDDEB, 0xD83C, 0xDDEE], ''1f1eb-1f1ee''),
     ([0xD83C, 0xDDEA, 0xD83C, 0xDDFA], ''1f1ea-1f1fa''),
     ([0xD83C, 0xDDEA, 0xD83C, 0xDDF9], ''1f1ea-1f1f9''),
     ([0xD83C, 0xDDEA, 0xD83C, 0xDDF8], ''1f1ea-1f1f8''),
     ([0xD83C, 0xDDEA, 0xD83C, 0xDDF7], ''1f1ea-1f1f7''),
     ([0xD83C, 0xDDEA, 0xD83C, 0xDDED], ''1f1ea-1f1ed''),
     ([0xD83C, 0xDDEA, 0xD83C, 0xDDEC], ''1f1ea-1f1ec''),
     ([0xD83C, 0xDDEA, 0xD83C, 0xDDEA], ''1f1ea-1f1ea''),
     ([0xD83C, 0xDDEA, 0xD83C, 0xDDE8], ''1f1ea-1f1e8''),
     ([0xD83C, 0xDDEA, 0xD83C, 0xDDE6], ''1f1ea-1f1e6''),
     ([0xD83C, 0xDDE9, 0xD83C, 0xDDFF], ''1f1e9-1f1ff''),
     ([0xD83C, 0xDDE9, 0xD83C, 0xDDF4], ''1f1e9-1f1f4''),
     ([0xD83C, 0xDDE9, 0xD83C, 0xDDF2], ''1f1e9-1f1f2''),
     ([0xD83C, 0xDDE9, 0xD83C, 0xDDF0], ''1f1e9-1f1f0''),
     ([0xD83C, 0xDDE9, 0xD83C, 0xDDEF], ''1f1e9-1f1ef''),
     ([0xD83C, 0xDDE9, 0xD83C, 0xDDEC], ''1f1e9-1f1ec''),
     ([0xD83C, 0xDDE9, 0xD83C, 0xDDEA], ''1f1e9-1f1ea''),
     ([0xD83C, 0xDDE8, 0xD83C, 0xDDFF], ''1f1e8-1f1ff''),
     ([0xD83C, 0xDDE8, 0xD83C, 0xDDFE], ''1f1e8-1f1fe''),
     ([0xD83C, 0xDDE8, 0xD83C, 0xDDFD], ''1f1e8-1f1fd''),
     ([0xD83C, 0xDDE8, 0xD83C, 0xDDFC], ''1f1e8-1f1fc''),
     ([0xD83C, 0xDDE8, 0xD83C, 0xDDFB], ''1f1e8-1f1fb''),
     ([0xD83C, 0xDDE8, 0xD83C, 0xDDFA], ''1f1e8-1f1fa''),
     ([0xD83C, 0xDDE8, 0xD83C, 0xDDF7], ''1f1e8-1f1f7''),
     ([0xD83C, 0xDDE8, 0xD83C, 0xDDF5], ''1f1e8-1f1f5''),
     ([0xD83C, 0xDDE8, 0xD83C, 0xDDF4], ''1f1e8-1f1f4''),
     ([0xD83C, 0xDDE8, 0xD83C, 0xDDF3], ''1f1e8-1f1f3''),
     ([0xD83C, 0xDDE8, 0xD83C, 0xDDF2], ''1f1e8-1f1f2''),
     ([0xD83C, 0xDDE8, 0xD83C, 0xDDF1], ''1f1e8-1f1f1''),
     ([0xD83C, 0xDDE8, 0xD83C, 0xDDF0], ''1f1e8-1f1f0''),
     ([0xD83C, 0xDDE8, 0xD83C, 0xDDEE], ''1f1e8-1f1ee''),
     ([0xD83C, 0xDDE8, 0xD83C, 0xDDED], ''1f1e8-1f1ed''),
     ([0xD83C, 0xDDE8, 0xD83C, 0xDDEC], ''1f1e8-1f1ec''),
     ([0xD83C, 0xDDE8, 0xD83C, 0xDDEB], ''1f1e8-1f1eb''),
     ([0xD83C, 0xDDE8, 0xD83C, 0xDDE9], ''1f1e8-1f1e9''),
     ([0xD83C, 0xDDE8, 0xD83C, 0xDDE8], ''1f1e8-1f1e8''),
     ([0xD83C, 0xDDE8, 0xD83C, 0xDDE6], ''1f1e8-1f1e6''),
     ([0xD83C, 0xDDE7, 0xD83C, 0xDDFF], ''1f1e7-1f1ff''),
     ([0xD83C, 0xDDE7, 0xD83C, 0xDDFE], ''1f1e7-1f1fe''),
     ([0xD83C, 0xDDE7, 0xD83C, 0xDDFC], ''1f1e7-1f1fc''),
     ([0xD83C, 0xDDE7, 0xD83C, 0xDDFB], ''1f1e7-1f1fb''),
     ([0xD83C, 0xDDE7, 0xD83C, 0xDDF9], ''1f1e7-1f1f9''),
     ([0xD83C, 0xDDE7, 0xD83C, 0xDDF8], ''1f1e7-1f1f8''),
     ([0xD83C, 0xDDE7, 0xD83C, 0xDDF7], ''1f1e7-1f1f7''),
     ([0xD83C, 0xDDE7, 0xD83C, 0xDDF6], ''1f1e7-1f1f6''),
     ([0xD83C, 0xDDE7, 0xD83C, 0xDDF4], ''1f1e7-1f1f4''),
     ([0xD83C, 0xDDE7, 0xD83C, 0xDDF3], ''1f1e7-1f1f3''),
     ([0xD83C, 0xDDE7, 0xD83C, 0xDDF2], ''1f1e7-1f1f2''),
     ([0xD83C, 0xDDE7, 0xD83C, 0xDDF1], ''1f1e7-1f1f1''),
     ([0xD83C, 0xDDE7, 0xD83C, 0xDDEF], ''1f1e7-1f1ef''),
     ([0xD83C, 0xDDE7, 0xD83C, 0xDDEE], ''1f1e7-1f1ee''),
     ([0xD83C, 0xDDE7, 0xD83C, 0xDDED], ''1f1e7-1f1ed''),
     ([0xD83C, 0xDDE7, 0xD83C, 0xDDEC], ''1f1e7-1f1ec''),
     ([0xD83C, 0xDDE7, 0xD83C, 0xDDEB], ''1f1e7-1f1eb''),
     ([0xD83C, 0xDDE7, 0xD83C, 0xDDEA], ''1f1e7-1f1ea''),
     ([0xD83C, 0xDDE7, 0xD83C, 0xDDE9], ''1f1e7-1f1e9''),
     ([0xD83C, 0xDDE7, 0xD83C, 0xDDE7], ''1f1e7-1f1e7''),
     ([0xD83C, 0xDDE7, 0xD83C, 0xDDE6], ''1f1e7-1f1e6''),
     ([0xD83C, 0xDDE6, 0xD83C, 0xDDFF], ''1f1e6-1f1ff''),
     ([0xD83C, 0xDDE6, 0xD83C, 0xDDFD], ''1f1e6-1f1fd''),
     ([0xD83C, 0xDDE6, 0xD83C, 0xDDFC], ''1f1e6-1f1fc''),
     ([0xD83C, 0xDDE6, 0xD83C, 0xDDFA], ''1f1e6-1f1fa''),
     ([0xD83C, 0xDDE6, 0xD83C, 0xDDF9], ''1f1e6-1f1f9''),
     ([0xD83C, 0xDDE6, 0xD83C, 0xDDF8], ''1f1e6-1f1f8''),
     ([0xD83C, 0xDDE6, 0xD83C, 0xDDF7], ''1f1e6-1f1f7''),
     ([0xD83C, 0xDDE6, 0xD83C, 0xDDF6], ''1f1e6-1f1f6''),
     ([0xD83C, 0xDDE6, 0xD83C, 0xDDF4], ''1f1e6-1f1f4''),
     ([0xD83C, 0xDDE6, 0xD83C, 0xDDF2], ''1f1e6-1f1f2''),
     ([0xD83C, 0xDDE6, 0xD83C, 0xDDF1], ''1f1e6-1f1f1''),
     ([0xD83C, 0xDDE6, 0xD83C, 0xDDEE], ''1f1e6-1f1ee''),
     ([0xD83C, 0xDDE6, 0xD83C, 0xDDEC], ''1f1e6-1f1ec''),
     ([0xD83C, 0xDDE6, 0xD83C, 0xDDEB], ''1f1e6-1f1eb''),
     ([0xD83C, 0xDDE6, 0xD83C, 0xDDEA], ''1f1e6-1f1ea''),
     ([0xD83C, 0xDDE6, 0xD83C, 0xDDE9], ''1f1e6-1f1e9''),
     ([0xD83C, 0xDDE6, 0xD83C, 0xDDE8], ''1f1e6-1f1e8''),
     ([0xD83C, 0xDC04], ''1f004''),
     ([0xD83C, 0xDD7F], ''1f17f''),
     ([0xD83C, 0xDE02], ''1f202''),
     ([0xD83C, 0xDE1A], ''1f21a''),
     ([0xD83C, 0xDE2F], ''1f22f''),
     ([0xD83C, 0xDE37], ''1f237''),
     ([0xD83C, 0xDF9E], ''1f39e''),
     ([0xD83C, 0xDF9F], ''1f39f''),
     ([0xD83C, 0xDFCB], ''1f3cb''),
     ([0xD83C, 0xDFCC], ''1f3cc''),
     ([0xD83C, 0xDFCD], ''1f3cd''),
     ([0xD83C, 0xDFCE], ''1f3ce''),
     ([0xD83C, 0xDF96], ''1f396''),
     ([0xD83C, 0xDF97], ''1f397''),
     ([0xD83C, 0xDF36], ''1f336''),
     ([0xD83C, 0xDF27], ''1f327''),
     ([0xD83C, 0xDF28], ''1f328''),
     ([0xD83C, 0xDF29], ''1f329''),
     ([0xD83C, 0xDF2A], ''1f32a''),
     ([0xD83C, 0xDF2B], ''1f32b''),
     ([0xD83C, 0xDF2C], ''1f32c''),
     ([0xD83D, 0xDC3F], ''1f43f''),
     ([0xD83D, 0xDD77], ''1f577''),
     ([0xD83D, 0xDD78], ''1f578''),
     ([0xD83C, 0xDF21], ''1f321''),
     ([0xD83C, 0xDF99], ''1f399''),
     ([0xD83C, 0xDF9A], ''1f39a''),
     ([0xD83C, 0xDF9B], ''1f39b''),
     ([0xD83C, 0xDFF3], ''1f3f3''),
     ([0xD83C, 0xDFF5], ''1f3f5''),
     ([0xD83C, 0xDFF7], ''1f3f7''),
     ([0xD83D, 0xDCFD], ''1f4fd''),
     ([0xD83D, 0xDD49], ''1f549''),
     ([0xD83D, 0xDD4A], ''1f54a''),
     ([0xD83D, 0xDD6F], ''1f56f''),
     ([0xD83D, 0xDD70], ''1f570''),
     ([0xD83D, 0xDD73], ''1f573''),
     ([0xD83D, 0xDD76], ''1f576''),
     ([0xD83D, 0xDD79], ''1f579''),
     ([0xD83D, 0xDD87], ''1f587''),
     ([0xD83D, 0xDD8A], ''1f58a''),
     ([0xD83D, 0xDD8B], ''1f58b''),
     ([0xD83D, 0xDD8C], ''1f58c''),
     ([0xD83D, 0xDD8D], ''1f58d''),
     ([0xD83D, 0xDDA5], ''1f5a5''),
     ([0xD83D, 0xDDA8], ''1f5a8''),
     ([0xD83D, 0xDDB2], ''1f5b2''),
     ([0xD83D, 0xDDBC], ''1f5bc''),
     ([0xD83D, 0xDDC2], ''1f5c2''),
     ([0xD83D, 0xDDC3], ''1f5c3''),
     ([0xD83D, 0xDDC4], ''1f5c4''),
     ([0xD83D, 0xDDD1], ''1f5d1''),
     ([0xD83D, 0xDDD2], ''1f5d2''),
     ([0xD83D, 0xDDD3], ''1f5d3''),
     ([0xD83D, 0xDDDC], ''1f5dc''),
     ([0xD83D, 0xDDDD], ''1f5dd''),
     ([0xD83D, 0xDDDE], ''1f5de''),
     ([0xD83D, 0xDDE1], ''1f5e1''),
     ([0xD83D, 0xDDE3], ''1f5e3''),
     ([0xD83D, 0xDDE8], ''1f5e8''),
     ([0xD83D, 0xDDEF], ''1f5ef'')]"

definition jsEscapeMap_6 :: "(jsstr \<times> string) list" where
  "jsEscapeMap_6 =
    [([0xD83D, 0xDDF3], ''1f5f3''),
     ([0xD83D, 0xDDFA], ''1f5fa''),
     ([0xD83D, 0xDEE0], ''1f6e0''),
     ([0xD83D, 0xDEE1], ''1f6e1''),
     ([0xD83D, 0xDEE2], ''1f6e2''),
     ([0xD83D, 0xDEF0], ''1f6f0''),
     ([0xD83C, 0xDF7D], ''1f37d''),
     ([0xD83D, 0xDC41], ''1f441''),
     ([0xD83D, 0xDD74], ''1f574''),
     ([0xD83D, 0xDD75], ''1f575''),
     ([0xD83D, 0xDD90], ''1f590''),
     ([0xD83C, 0xDFD4], ''1f3d4''),
     ([0xD83C, 0xDFD5], ''1f3d5''),
     ([0xD83C, 0xDFD6], ''1f3d6''),
     ([0xD83C, 0xDFD7], ''1f3d7''),
     ([0xD83C, 0xDFD8], ''1f3d8''),
     ([0xD83C, 0xDFD9], ''1f3d9''),
     ([0xD83C, 0xDFDA], ''1f3da''),
     ([0xD83C, 0xDFDB], ''1f3db''),
     ([0xD83C, 0xDFDC], ''1f3dc''),
     ([0xD83C, 0xDFDD], ''1f3dd''),
     ([0xD83C, 0xDFDE], ''1f3de''),
     ([0xD83C, 0xDFDF], ''1f3df''),
     ([0xD83D, 0xDECB], ''1f6cb''),
     ([0xD83D, 0xDECD], ''1f6cd''),
     ([0xD83D, 0xDECE], ''1f6ce''),
     ([0xD83D, 0xDECF], ''1f6cf''),
     ([0xD83D, 0xDEE3], ''1f6e3''),
     ([0xD83D, 0xDEE4], ''1f6e4''),
     ([0xD83D, 0xDEE5], ''1f6e5''),
     ([0xD83D, 0xDEE9], ''1f6e9''),
     ([0xD83D, 0xDEF3], ''1f6f3''),
     ([0xD83C, 0xDF24], ''1f324''),
     ([0xD83C, 0xDF25], ''1f325''),
     ([0xD83C, 0xDF26], ''1f326''),
     ([0xD83D, 0xDDB1], ''1f5b1''),
     ([0x261D, 0xD83C, 0xDFFB], ''261d-1f3fb''),
     ([0x261D, 0xD83C, 0xDFFC], ''261d-1f3fc''),
     ([0x261D, 0xD83C, 0xDFFD], ''261d-1f3fd''),
     ([0x261D, 0xD83C, 0xDFFE], ''261d-1f3fe''),
     ([0x261D, 0xD83C, 0xDFFF], ''261d-1f3ff''),
     ([0x270C, 0xD83C, 0xDFFB], ''270c-1f3fb''),
     ([0x270C, 0xD83C, 0xDFFC], ''270c-1f3fc''),
     ([0x270C, 0xD83C, 0xDFFD], ''270c-1f3fd''),
     ([0x270C, 0xD83C, 0xDFFE], ''270c-1f3fe''),
     ([0x270C, 0xD83C, 0xDFFF], ''270c-1f3ff''),
     ([0x270A, 0xD83C, 0xDFFB], ''270a-1f3fb''),
     ([0x270A, 0xD83C, 0xDFFC], ''270a-1f3fc''),
     ([0x270A, 0xD83C, 0xDFFD], ''270a-1f3fd''),
     ([0x270A, 0xD83C, 0xDFFE], ''270a-1f3fe''),
     ([0x270A, 0xD83C, 0xDFFF], ''270a-1f3ff''),
     ([0x270B, 0xD83C, 0xDFFB], ''270b-1f3fb''),
     ([0x270B, 0xD83C, 0xDFFC], ''270b-1f3fc''),
     ([0x270B, 0xD83C, 0xDFFD], ''270b-1f3fd''),
     ([0x270B, 0xD83C, 0xDFFE], ''270b-1f3fe''),
     ([0x270B, 0xD83C, 0xDFFF], ''270b-1f3ff''),
     ([0x270D, 0xD83C, 0xDFFB], ''270d-1f3fb''),
     ([0x270D, 0xD83C, 0xDFFC], ''270d-1f3fc''),
     ([0x270D, 0xD83C, 0xDFFD], ''270d-1f3fd''),
     ([0x270D, 0xD83C, 0xDFFE], ''270d-1f3fe''),
     ([0x270D, 0xD83C, 0xDFFF], ''270d-1f3ff''),
     ([0x26F9, 0xD83C, 0xDFFB], ''26f9-1f3fb''),
     ([0x26F9, 0xD83C, 0xDFFC], ''26f9-1f3fc''),
     ([0x26F9, 0xD83C, 0xDFFD], ''26f9-1f3fd''),
     ([0x26F9, 0xD83C, 0xDFFE], ''26f9-1f3fe''),
     ([0x26F9, 0xD83C, 0xDFFF], ''26f9-1f3ff''),
     ([0xA9], ''00a9''),
     ([0xAE], ''00ae''),
     ([0x203C], ''203c''),
     ([0x2049], ''2049''),
     ([0x2122], ''2122''),
     ([0x2139], ''2139''),
     ([0x2194], ''2194''),
     ([0x2195], ''2195''),
     ([0x2196], ''2196''),
     ([0x2197], ''2197''),
     ([0x2198], ''2198''),
     ([0x2199], ''2199''),
     ([0x21A9], ''21a9''),
     ([0x21AA], ''21aa''),
     ([0x231A], ''231a''),
     ([0x231B], ''231b''),
     ([0x24C2], ''24c2''),
     ([0x25AA], ''25aa''),
     ([0x25AB], ''25ab''),
     ([0x25B6], ''25b6''),
     ([0x25C0], ''25c0''),
     ([0x25FB], ''25fb''),
     ([0x25FC], ''25fc''),
     ([0x25FD], ''25fd''),
     ([0x25FE], ''25fe''),
     ([0x2600], ''2600''),
     ([0x2601], ''2601''),
     ([0x260E], ''260e''),
     ([0x2611], ''2611''),
     ([0x2614], ''2614''),
     ([0x2615], ''2615''),
     ([0x261D], ''261d''),
     ([0x263A], ''263a''),
     ([0x2648], ''2648''),
     ([0x2649], ''2649''),
     ([0x264A], ''264a''),
     ([0x264B], ''264b''),
     ([0x264C], ''264c''),
     ([0x264D], ''264d''),
     ([0x264E], ''264e''),
     ([0x264F], ''264f''),
     ([0x2650], ''2650''),
     ([0x2651], ''2651''),
     ([0x2652], ''2652''),
     ([0x2653], ''2653''),
     ([0x2660], ''2660''),
     ([0x2663], ''2663''),
     ([0x2665], ''2665''),
     ([0x2666], ''2666''),
     ([0x2668], ''2668''),
     ([0x267B], ''267b''),
     ([0x267F], ''267f''),
     ([0x2693], ''2693''),
     ([0x26A0], ''26a0''),
     ([0x26A1], ''26a1''),
     ([0x26AA], ''26aa''),
     ([0x26AB], ''26ab''),
     ([0x26BD], ''26bd''),
     ([0x26BE], ''26be''),
     ([0x26C4], ''26c4''),
     ([0x26C5], ''26c5''),
     ([0x26D4], ''26d4''),
     ([0x26EA], ''26ea''),
     ([0x26F2], ''26f2''),
     ([0x26F3], ''26f3''),
     ([0x26F5], ''26f5''),
     ([0x26FA], ''26fa''),
     ([0x26FD], ''26fd''),
     ([0x2702], ''2702''),
     ([0x2708], ''2708''),
     ([0x2709], ''2709''),
     ([0x270C], ''270c''),
     ([0x270F], ''270f''),
     ([0x2712], ''2712''),
     ([0x2714], ''2714''),
     ([0x2716], ''2716''),
     ([0x2733], ''2733''),
     ([0x2734], ''2734''),
     ([0x2744], ''2744''),
     ([0x2747], ''2747''),
     ([0x2757], ''2757''),
     ([0x2764], ''2764'')]"

definition jsEscapeMap_7 :: "(jsstr \<times> string) list" where
  "jsEscapeMap_7 =
    [([0x27A1], ''27a1''),
     ([0x2934], ''2934''),
     ([0x2935], ''2935''),
     ([0x2B05], ''2b05''),
     ([0x2B06], ''2b06''),
     ([0x2B07], ''2b07''),
     ([0x2B1B], ''2b1b''),
     ([0x2B1C], ''2b1c''),
     ([0x2B50], ''2b50''),
     ([0x2B55], ''2b55''),
     ([0x3030], ''3030''),
     ([0x303D], ''303d''),
     ([0x3297], ''3297''),
     ([0x3299], ''3299''),
     ([0x271D], ''271d''),
     ([0x2328], ''2328''),
     ([0x270D], ''270d''),
     ([0x23CF], ''23cf''),
     ([0x23ED], ''23ed''),
     ([0x23EE], ''23ee''),
     ([0x23EF], ''23ef''),
     ([0x23F1], ''23f1''),
     ([0x23F2], ''23f2''),
     ([0x23F8], ''23f8''),
     ([0x23F9], ''23f9''),
     ([0x23FA], ''23fa''),
     ([0x2602], ''2602''),
     ([0x2603], ''2603''),
     ([0x2604], ''2604''),
     ([0x2618], ''2618''),
     ([0x2620], ''2620''),
     ([0x2622], ''2622''),
     ([0x2623], ''2623''),
     ([0x2626], ''2626''),
     ([0x262A], ''262a''),
     ([0x262E], ''262e''),
     ([0x262F], ''262f''),
     ([0x2638], ''2638''),
     ([0x2639], ''2639''),
     ([0x2692], ''2692''),
     ([0x2694], ''2694''),
     ([0x2696], ''2696''),
     ([0x2697], ''2697''),
     ([0x2699], ''2699''),
     ([0x269B], ''269b''),
     ([0x269C], ''269c''),
     ([0x26B0], ''26b0''),
     ([0x26B1], ''26b1''),
     ([0x26C8], ''26c8''),
     ([0x26CF], ''26cf''),
     ([0x26D1], ''26d1''),
     ([0x26D3], ''26d3''),
     ([0x26E9], ''26e9''),
     ([0x26F0], ''26f0''),
     ([0x26F1], ''26f1''),
     ([0x26F4], ''26f4''),
     ([0x26F7], ''26f7''),
     ([0x26F8], ''26f8''),
     ([0x26F9], ''26f9''),
     ([0x2721], ''2721''),
     ([0x2763], ''2763''),
     ([0xD83E, 0xDD49], ''1f949''),
     ([0xD83E, 0xDD48], ''1f948''),
     ([0xD83E, 0xDD47], ''1f947''),
     ([0xD83E, 0xDD3A], ''1f93a''),
     ([0xD83E, 0xDD45], ''1f945''),
     ([0xD83E, 0xDD3E], ''1f93e''),
     ([0xD83C, 0xDDFF], ''1f1ff''),
     ([0xD83E, 0xDD3D], ''1f93d''),
     ([0xD83E, 0xDD4B], ''1f94b''),
     ([0xD83E, 0xDD4A], ''1f94a''),
     ([0xD83E, 0xDD3C], ''1f93c''),
     ([0xD83E, 0xDD39], ''1f939''),
     ([0xD83E, 0xDD38], ''1f938''),
     ([0xD83D, 0xDEF6], ''1f6f6''),
     ([0xD83D, 0xDEF5], ''1f6f5''),
     ([0xD83D, 0xDEF4], ''1f6f4''),
     ([0xD83D, 0xDED2], ''1f6d2''),
     ([0xD83C, 0xDCCF], ''1f0cf''),
     ([0xD83C, 0xDD70], ''1f170''),
     ([0xD83C, 0xDD71], ''1f171''),
     ([0xD83C, 0xDD7E], ''1f17e''),
     ([0xD83D, 0xDED1], ''1f6d1''),
     ([0xD83C, 0xDD8E], ''1f18e''),
     ([0xD83C, 0xDD91], ''1f191''),
     ([0xD83C, 0xDDFE], ''1f1fe''),
     ([0xD83C, 0xDD92], ''1f192''),
     ([0xD83C, 0xDD93], ''1f193''),
     ([0xD83C, 0xDD94], ''1f194''),
     ([0xD83C, 0xDD95], ''1f195''),
     ([0xD83C, 0xDD96], ''1f196''),
     ([0xD83C, 0xDD97], ''1f197''),
     ([0xD83C, 0xDD98], ''1f198''),
     ([0xD83E, 0xDD44], ''1f944''),
     ([0xD83C, 0xDD99], ''1f199''),
     ([0xD83C, 0xDD9A], ''1f19a''),
     ([0xD83E, 0xDD42], ''1f942''),
     ([0xD83E, 0xDD43], ''1f943''),
     ([0xD83C, 0xDE01], ''1f201''),
     ([0xD83E, 0xDD59], ''1f959''),
     ([0xD83C, 0xDE32], ''1f232''),
     ([0xD83C, 0xDE33], ''1f233''),
     ([0xD83C, 0xDE34], ''1f234''),
     ([0xD83C, 0xDE35], ''1f235''),
     ([0xD83C, 0xDE36], ''1f236''),
     ([0xD83E, 0xDD58], ''1f958''),
     ([0xD83C, 0xDE38], ''1f238''),
     ([0xD83C, 0xDE39], ''1f239''),
     ([0xD83E, 0xDD57], ''1f957''),
     ([0xD83C, 0xDE3A], ''1f23a''),
     ([0xD83C, 0xDE50], ''1f250''),
     ([0xD83C, 0xDE51], ''1f251''),
     ([0xD83C, 0xDF00], ''1f300''),
     ([0xD83E, 0xDD56], ''1f956''),
     ([0xD83C, 0xDF01], ''1f301''),
     ([0xD83C, 0xDF02], ''1f302''),
     ([0xD83C, 0xDF03], ''1f303''),
     ([0xD83C, 0xDF04], ''1f304''),
     ([0xD83C, 0xDF05], ''1f305''),
     ([0xD83C, 0xDF06], ''1f306''),
     ([0xD83E, 0xDD55], ''1f955''),
     ([0xD83C, 0xDF07], ''1f307''),
     ([0xD83C, 0xDF08], ''1f308''),
     ([0xD83E, 0xDD54], ''1f954''),
     ([0xD83C, 0xDF09], ''1f309''),
     ([0xD83C, 0xDF0A], ''1f30a''),
     ([0xD83C, 0xDF0B], ''1f30b''),
     ([0xD83C, 0xDF0C], ''1f30c''),
     ([0xD83C, 0xDF0F], ''1f30f''),
     ([0xD83C, 0xDF11], ''1f311''),
     ([0xD83E, 0xDD53], ''1f953''),
     ([0xD83C, 0xDF13], ''1f313''),
     ([0xD83C, 0xDF14], ''1f314''),
     ([0xD83C, 0xDF15], ''1f315''),
     ([0xD83C, 0xDF19], ''1f319''),
     ([0xD83C, 0xDF1B], ''1f31b''),
     ([0xD83C, 0xDF1F], ''1f31f''),
     ([0xD83E, 0xDD52], ''1f952''),
     ([0xD83C, 0xDF20], ''1f320''),
     ([0xD83C, 0xDF30], ''1f330''),
     ([0xD83E, 0xDD51], ''1f951''),
     ([0xD83C, 0xDF31], ''1f331''),
     ([0xD83C, 0xDF34], ''1f334''),
     ([0xD83C, 0xDF35], ''1f335''),
     ([0xD83C, 0xDF37], ''1f337''),
     ([0xD83C, 0xDF38], ''1f338''),
     ([0xD83C, 0xDF39], ''1f339''),
     ([0xD83C, 0xDF3A], ''1f33a'')]"

definition jsEscapeMap_8 :: "(jsstr \<times> string) list" where
  "jsEscapeMap_8 =
    [([0xD83C, 0xDF3B], ''1f33b''),
     ([0xD83C, 0xDF3C], ''1f33c''),
     ([0xD83C, 0xDF3D], ''1f33d''),
     ([0xD83E, 0xDD50], ''1f950''),
     ([0xD83C, 0xDF3E], ''1f33e''),
     ([0xD83C, 0xDF3F], ''1f33f''),
     ([0xD83C, 0xDF40], ''1f340''),
     ([0xD83C, 0xDF41], ''1f341''),
     ([0xD83C, 0xDF42], ''1f342''),
     ([0xD83C, 0xDF43], ''1f343''),
     ([0xD83C, 0xDF44], ''1f344''),
     ([0xD83C, 0xDF45], ''1f345''),
     ([0xD83C, 0xDF46], ''1f346''),
     ([0xD83C, 0xDF47], ''1f347''),
     ([0xD83C, 0xDF48], ''1f348''),
     ([0xD83C, 0xDF49], ''1f349''),
     ([0xD83C, 0xDF4A], ''1f34a''),
     ([0xD83E, 0xDD40], ''1f940''),
     ([0xD83C, 0xDF4C], ''1f34c''),
     ([0xD83C, 0xDF4D], ''1f34d''),
     ([0xD83C, 0xDF4E], ''1f34e''),
     ([0xD83C, 0xDF4F], ''1f34f''),
     ([0xD83C, 0xDF51], ''1f351''),
     ([0xD83C, 0xDF52], ''1f352''),
     ([0xD83C, 0xDF53], ''1f353''),
     ([0xD83E, 0xDD8F], ''1f98f''),
     ([0xD83C, 0xDF54], ''1f354''),
     ([0xD83C, 0xDF55], ''1f355''),
     ([0xD83C, 0xDF56], ''1f356''),
     ([0xD83E, 0xDD8E], ''1f98e''),
     ([0xD83C, 0xDF57], ''1f357''),
     ([0xD83C, 0xDF58], ''1f358''),
     ([0xD83C, 0xDF59], ''1f359''),
     ([0xD83E, 0xDD8D], ''1f98d''),
     ([0xD83C, 0xDF5A], ''1f35a''),
     ([0xD83C, 0xDF5B], ''1f35b''),
     ([0xD83E, 0xDD8C], ''1f98c''),
     ([0xD83C, 0xDF5C], ''1f35c''),
     ([0xD83C, 0xDF5D], ''1f35d''),
     ([0xD83C, 0xDF5E], ''1f35e''),
     ([0xD83C, 0xDF5F], ''1f35f''),
     ([0xD83E, 0xDD8B], ''1f98b''),
     ([0xD83C, 0xDF60], ''1f360''),
     ([0xD83C, 0xDF61], ''1f361''),
     ([0xD83E, 0xDD8A], ''1f98a''),
     ([0xD83C, 0xDF62], ''1f362''),
     ([0xD83C, 0xDF63], ''1f363''),
     ([0xD83E, 0xDD89], ''1f989''),
     ([0xD83C, 0xDF64], ''1f364''),
     ([0xD83C, 0xDF65], ''1f365''),
     ([0xD83E, 0xDD88], ''1f988''),
     ([0xD83C, 0xDF66], ''1f366''),
     ([0xD83E, 0xDD87], ''1f987''),
     ([0xD83C, 0xDF67], ''1f367''),
     ([0xD83C, 0xDDFD], ''1f1fd''),
     ([0xD83C, 0xDF68], ''1f368''),
     ([0xD83E, 0xDD86], ''1f986''),
     ([0xD83C, 0xDF69], ''1f369''),
     ([0xD83E, 0xDD85], ''1f985''),
     ([0xD83C, 0xDF6A], ''1f36a''),
     ([0xD83D, 0xDDA4], ''1f5a4''),
     ([0xD83C, 0xDF6B], ''1f36b''),
     ([0xD83C, 0xDF6C], ''1f36c''),
     ([0xD83C, 0xDF6D], ''1f36d''),
     ([0xD83C, 0xDF6E], ''1f36e''),
     ([0xD83C, 0xDF6F], ''1f36f''),
     ([0xD83E, 0xDD1E], ''1f91e''),
     ([0xD83C, 0xDF70], ''1f370''),
     ([0xD83C, 0xDF71], ''1f371''),
     ([0xD83C, 0xDF72], ''1f372''),
     ([0xD83E, 0xDD1D], ''1f91d''),
     ([0xD83C, 0xDF73], ''1f373''),
     ([0xD83C, 0xDF74], ''1f374''),
     ([0xD83C, 0xDF75], ''1f375''),
     ([0xD83C, 0xDF76], ''1f376''),
     ([0xD83C, 0xDF77], ''1f377''),
     ([0xD83C, 0xDF78], ''1f378''),
     ([0xD83C, 0xDF79], ''1f379''),
     ([0xD83C, 0xDF7A], ''1f37a''),
     ([0xD83C, 0xDF7B], ''1f37b''),
     ([0xD83C, 0xDF80], ''1f380''),
     ([0xD83C, 0xDF81], ''1f381''),
     ([0xD83C, 0xDF82], ''1f382''),
     ([0xD83C, 0xDF83], ''1f383''),
     ([0xD83E, 0xDD1B], ''1f91b''),
     ([0xD83E, 0xDD1C], ''1f91c''),
     ([0xD83C, 0xDF84], ''1f384''),
     ([0xD83C, 0xDF85], ''1f385''),
     ([0xD83C, 0xDF86], ''1f386''),
     ([0xD83E, 0xDD1A], ''1f91a''),
     ([0xD83C, 0xDF87], ''1f387''),
     ([0xD83C, 0xDF88], ''1f388''),
     ([0xD83C, 0xDF89], ''1f389''),
     ([0xD83C, 0xDF8A], ''1f38a''),
     ([0xD83C, 0xDF8B], ''1f38b''),
     ([0xD83C, 0xDF8C], ''1f38c''),
     ([0xD83E, 0xDD19], ''1f919''),
     ([0xD83C, 0xDF8D], ''1f38d''),
     ([0xD83D, 0xDD7A], ''1f57a''),
     ([0xD83C, 0xDF8E], ''1f38e''),
     ([0xD83E, 0xDD33], ''1f933''),
     ([0xD83C, 0xDF8F], ''1f38f''),
     ([0xD83E, 0xDD30], ''1f930''),
     ([0xD83C, 0xDF90], ''1f390''),
     ([0xD83E, 0xDD26], ''1f926''),
     ([0xD83E, 0xDD37], ''1f937''),
     ([0xD83C, 0xDF91], ''1f391''),
     ([0xD83C, 0xDF92], ''1f392''),
     ([0xD83C, 0xDF93], ''1f393''),
     ([0xD83C, 0xDFA0], ''1f3a0''),
     ([0xD83C, 0xDFA1], ''1f3a1''),
     ([0xD83C, 0xDFA2], ''1f3a2''),
     ([0xD83C, 0xDFA3], ''1f3a3''),
     ([0xD83C, 0xDFA4], ''1f3a4''),
     ([0xD83C, 0xDFA5], ''1f3a5''),
     ([0xD83C, 0xDFA6], ''1f3a6''),
     ([0xD83C, 0xDFA7], ''1f3a7''),
     ([0xD83E, 0xDD36], ''1f936''),
     ([0xD83C, 0xDFA8], ''1f3a8''),
     ([0xD83E, 0xDD35], ''1f935''),
     ([0xD83C, 0xDFA9], ''1f3a9''),
     ([0xD83C, 0xDFAA], ''1f3aa''),
     ([0xD83E, 0xDD34], ''1f934''),
     ([0xD83C, 0xDFAB], ''1f3ab''),
     ([0xD83C, 0xDFAC], ''1f3ac''),
     ([0xD83C, 0xDFAD], ''1f3ad''),
     ([0xD83E, 0xDD27], ''1f927''),
     ([0xD83C, 0xDFAE], ''1f3ae''),
     ([0xD83C, 0xDFAF], ''1f3af''),
     ([0xD83C, 0xDFB0], ''1f3b0''),
     ([0xD83C, 0xDFB1], ''1f3b1''),
     ([0xD83C, 0xDFB2], ''1f3b2''),
     ([0xD83C, 0xDFB3], ''1f3b3''),
     ([0xD83C, 0xDFB4], ''1f3b4''),
     ([0xD83E, 0xDD25], ''1f925''),
     ([0xD83C, 0xDFB5], ''1f3b5''),
     ([0xD83C, 0xDFB6], ''1f3b6''),
     ([0xD83C, 0xDFB7], ''1f3b7''),
     ([0xD83E, 0xDD24], ''1f924''),
     ([0xD83C, 0xDFB8], ''1f3b8''),
     ([0xD83C, 0xDFB9], ''1f3b9''),
     ([0xD83C, 0xDFBA], ''1f3ba''),
     ([0xD83E, 0xDD23], ''1f923''),
     ([0xD83C, 0xDFBB], ''1f3bb''),
     ([0xD83C, 0xDFBC], ''1f3bc''),
     ([0xD83C, 0xDFBD], ''1f3bd''),
     ([0xD83E, 0xDD22], ''1f922''),
     ([0xD83C, 0xDFBE], ''1f3be'')]"

definition jsEscapeMap_9 :: "(jsstr \<times> string) list" where
  "jsEscapeMap_9 =
    [([0xD83C, 0xDFBF], ''1f3bf''),
     ([0xD83C, 0xDFC0], ''1f3c0''),
     ([0xD83C, 0xDFC1], ''1f3c1''),
     ([0xD83E, 0xDD21], ''1f921''),
     ([0xD83C, 0xDFC2], ''1f3c2''),
     ([0xD83C, 0xDFC3], ''1f3c3''),
     ([0xD83C, 0xDFC4], ''1f3c4''),
     ([0xD83C, 0xDFC6], ''1f3c6''),
     ([0xD83C, 0xDFC8], ''1f3c8''),
     ([0xD83C, 0xDFCA], ''1f3ca''),
     ([0xD83C, 0xDFE0], ''1f3e0''),
     ([0xD83C, 0xDFE1], ''1f3e1''),
     ([0xD83C, 0xDFE2], ''1f3e2''),
     ([0xD83C, 0xDFE3], ''1f3e3''),
     ([0xD83C, 0xDFE5], ''1f3e5''),
     ([0xD83C, 0xDFE6], ''1f3e6''),
     ([0xD83C, 0xDFE7], ''1f3e7''),
     ([0xD83C, 0xDFE8], ''1f3e8''),
     ([0xD83C, 0xDFE9], ''1f3e9''),
     ([0xD83C, 0xDFEA], ''1f3ea''),
     ([0xD83C, 0xDFEB], ''1f3eb''),
     ([0xD83C, 0xDFEC], ''1f3ec''),
     ([0xD83E, 0xDD20], ''1f920''),
     ([0xD83C, 0xDFED], ''1f3ed''),
     ([0xD83C, 0xDFEE], ''1f3ee''),
     ([0xD83C, 0xDFEF], ''1f3ef''),
     ([0xD83C, 0xDFF0], ''1f3f0''),
     ([0xD83D, 0xDC0C], ''1f40c''),
     ([0xD83D, 0xDC0D], ''1f40d''),
     ([0xD83D, 0xDC0E], ''1f40e''),
     ([0xD83D, 0xDC11], ''1f411''),
     ([0xD83D, 0xDC12], ''1f412''),
     ([0xD83D, 0xDC14], ''1f414''),
     ([0xD83D, 0xDC17], ''1f417''),
     ([0xD83D, 0xDC18], ''1f418''),
     ([0xD83D, 0xDC19], ''1f419''),
     ([0xD83D, 0xDC1A], ''1f41a''),
     ([0xD83D, 0xDC1B], ''1f41b''),
     ([0xD83D, 0xDC1C], ''1f41c''),
     ([0xD83D, 0xDC1D], ''1f41d''),
     ([0xD83D, 0xDC1E], ''1f41e''),
     ([0xD83D, 0xDC1F], ''1f41f''),
     ([0xD83D, 0xDC20], ''1f420''),
     ([0xD83D, 0xDC21], ''1f421''),
     ([0xD83D, 0xDC22], ''1f422''),
     ([0xD83D, 0xDC23], ''1f423''),
     ([0xD83D, 0xDC24], ''1f424''),
     ([0xD83D, 0xDC25], ''1f425''),
     ([0xD83D, 0xDC26], ''1f426''),
     ([0xD83D, 0xDC27], ''1f427''),
     ([0xD83D, 0xDC28], ''1f428''),
     ([0xD83D, 0xDC29], ''1f429''),
     ([0xD83D, 0xDC2B], ''1f42b''),
     ([0xD83D, 0xDC2C], ''1f42c''),
     ([0xD83D, 0xDC2D], ''1f42d''),
     ([0xD83D, 0xDC2E], ''1f42e''),
     ([0xD83D, 0xDC2F], ''1f42f''),
     ([0xD83D, 0xDC30], ''1f430''),
     ([0xD83D, 0xDC31], ''1f431''),
     ([0xD83D, 0xDC32], ''1f432''),
     ([0xD83D, 0xDC33], ''1f433''),
     ([0xD83D, 0xDC34], ''1f434''),
     ([0xD83D, 0xDC35], ''1f435''),
     ([0xD83D, 0xDC36], ''1f436''),
     ([0xD83D, 0xDC37], ''1f437''),
     ([0xD83D, 0xDC38], ''1f438''),
     ([0xD83D, 0xDC39], ''1f439''),
     ([0xD83D, 0xDC3A], ''1f43a''),
     ([0xD83D, 0xDC3B], ''1f43b''),
     ([0xD83D, 0xDC3C], ''1f43c''),
     ([0xD83D, 0xDC3D], ''1f43d''),
     ([0xD83D, 0xDC3E], ''1f43e''),
     ([0xD83D, 0xDC40], ''1f440''),
     ([0xD83D, 0xDC42], ''1f442''),
     ([0xD83D, 0xDC43], ''1f443''),
     ([0xD83D, 0xDC44], ''1f444''),
     ([0xD83D, 0xDC45], ''1f445''),
     ([0xD83D, 0xDC46], ''1f446''),
     ([0xD83D, 0xDC47], ''1f447''),
     ([0xD83D, 0xDC48], ''1f448''),
     ([0xD83D, 0xDC49], ''1f449''),
     ([0xD83D, 0xDC4A], ''1f44a''),
     ([0xD83D, 0xDC4B], ''1f44b''),
     ([0xD83D, 0xDC4C], ''1f44c''),
     ([0xD83D, 0xDC4D], ''1f44d''),
     ([0xD83D, 0xDC4E], ''1f44e''),
     ([0xD83D, 0xDC4F], ''1f44f''),
     ([0xD83D, 0xDC50], ''1f450''),
     ([0xD83D, 0xDC51], ''1f451''),
     ([0xD83D, 0xDC52], ''1f452''),
     ([0xD83D, 0xDC53], ''1f453''),
     ([0xD83D, 0xDC54], ''1f454''),
     ([0xD83D, 0xDC55], ''1f455''),
     ([0xD83D, 0xDC56], ''1f456''),
     ([0xD83D, 0xDC57], ''1f457''),
     ([0xD83D, 0xDC58], ''1f458''),
     ([0xD83D, 0xDC59], ''1f459''),
     ([0xD83D, 0xDC5A], ''1f45a''),
     ([0xD83D, 0xDC5B], ''1f45b''),
     ([0xD83D, 0xDC5C], ''1f45c''),
     ([0xD83D, 0xDC5D], ''1f45d''),
     ([0xD83D, 0xDC5E], ''1f45e''),
     ([0xD83D, 0xDC5F], ''1f45f''),
     ([0xD83D, 0xDC60], ''1f460''),
     ([0xD83D, 0xDC61], ''1f461''),
     ([0xD83D, 0xDC62], ''1f462''),
     ([0xD83D, 0xDC63], ''1f463''),
     ([0xD83D, 0xDC64], ''1f464''),
     ([0xD83D, 0xDC66], ''1f466''),
     ([0xD83D, 0xDC67], ''1f467''),
     ([0xD83D, 0xDC68], ''1f468''),
     ([0xD83D, 0xDC69], ''1f469''),
     ([0xD83D, 0xDC6A], ''1f46a''),
     ([0xD83D, 0xDC6B], ''1f46b''),
     ([0xD83D, 0xDC6E], ''1f46e''),
     ([0xD83D, 0xDC6F], ''1f46f''),
     ([0xD83D, 0xDC70], ''1f470''),
     ([0xD83D, 0xDC71], ''1f471''),
     ([0xD83D, 0xDC72], ''1f472''),
     ([0xD83D, 0xDC73], ''1f473''),
     ([0xD83D, 0xDC74], ''1f474''),
     ([0xD83D, 0xDC75], ''1f475''),
     ([0xD83D, 0xDC76], ''1f476''),
     ([0xD83D, 0xDC77], ''1f477''),
     ([0xD83D, 0xDC78], ''1f478''),
     ([0xD83D, 0xDC79], ''1f479''),
     ([0xD83D, 0xDC7A], ''1f47a''),
     ([0xD83D, 0xDC7B], ''1f47b''),
     ([0xD83D, 0xDC7C], ''1f47c''),
     ([0xD83D, 0xDC7D], ''1f47d''),
     ([0xD83D, 0xDC7E], ''1f47e''),
     ([0xD83D, 0xDC7F], ''1f47f''),
     ([0xD83D, 0xDC80], ''1f480''),
     ([0xD83D, 0xDCC7], ''1f4c7''),
     ([0xD83D, 0xDC81], ''1f481''),
     ([0xD83D, 0xDC82], ''1f482''),
     ([0xD83D, 0xDC83], ''1f483''),
     ([0xD83D, 0xDC84], ''1f484''),
     ([0xD83D, 0xDC85], ''1f485''),
     ([0xD83D, 0xDCD2], ''1f4d2''),
     ([0xD83D, 0xDC86], ''1f486''),
     ([0xD83D, 0xDCD3], ''1f4d3''),
     ([0xD83D, 0xDC87], ''1f487''),
     ([0xD83D, 0xDCD4], ''1f4d4''),
     ([0xD83D, 0xDC88], ''1f488''),
     ([0xD83D, 0xDCD5], ''1f4d5''),
     ([0xD83D, 0xDC89], ''1f489''),
     ([0xD83D, 0xDCD6], ''1f4d6'')]"

definition jsEscapeMap_10 :: "(jsstr \<times> string) list" where
  "jsEscapeMap_10 =
    [([0xD83D, 0xDC8A], ''1f48a''),
     ([0xD83D, 0xDCD7], ''1f4d7''),
     ([0xD83D, 0xDC8B], ''1f48b''),
     ([0xD83D, 0xDCD8], ''1f4d8''),
     ([0xD83D, 0xDC8C], ''1f48c''),
     ([0xD83D, 0xDCD9], ''1f4d9''),
     ([0xD83D, 0xDC8D], ''1f48d''),
     ([0xD83D, 0xDCDA], ''1f4da''),
     ([0xD83D, 0xDC8E], ''1f48e''),
     ([0xD83D, 0xDCDB], ''1f4db''),
     ([0xD83D, 0xDC8F], ''1f48f''),
     ([0xD83D, 0xDCDC], ''1f4dc''),
     ([0xD83D, 0xDC90], ''1f490''),
     ([0xD83D, 0xDCDD], ''1f4dd''),
     ([0xD83D, 0xDC91], ''1f491''),
     ([0xD83D, 0xDCDE], ''1f4de''),
     ([0xD83D, 0xDC92], ''1f492''),
     ([0xD83D, 0xDCDF], ''1f4df''),
     ([0xD83D, 0xDCE0], ''1f4e0''),
     ([0xD83D, 0xDC93], ''1f493''),
     ([0xD83D, 0xDCE1], ''1f4e1''),
     ([0xD83D, 0xDCE2], ''1f4e2''),
     ([0xD83D, 0xDC94], ''1f494''),
     ([0xD83D, 0xDCE3], ''1f4e3''),
     ([0xD83D, 0xDCE4], ''1f4e4''),
     ([0xD83D, 0xDC95], ''1f495''),
     ([0xD83D, 0xDCE5], ''1f4e5''),
     ([0xD83D, 0xDCE6], ''1f4e6''),
     ([0xD83D, 0xDC96], ''1f496''),
     ([0xD83D, 0xDCE7], ''1f4e7''),
     ([0xD83D, 0xDCE8], ''1f4e8''),
     ([0xD83D, 0xDC97], ''1f497''),
     ([0xD83D, 0xDCE9], ''1f4e9''),
     ([0xD83D, 0xDCEA], ''1f4ea''),
     ([0xD83D, 0xDC98], ''1f498''),
     ([0xD83D, 0xDCEB], ''1f4eb''),
     ([0xD83D, 0xDCEE], ''1f4ee''),
     ([0xD83D, 0xDC99], ''1f499''),
     ([0xD83D, 0xDCF0], ''1f4f0''),
     ([0xD83D, 0xDCF1], ''1f4f1''),
     ([0xD83D, 0xDC9A], ''1f49a''),
     ([0xD83D, 0xDCF2], ''1f4f2''),
     ([0xD83D, 0xDCF3], ''1f4f3''),
     ([0xD83D, 0xDC9B], ''1f49b''),
     ([0xD83D, 0xDCF4], ''1f4f4''),
     ([0xD83D, 0xDCF6], ''1f4f6''),
     ([0xD83D, 0xDC9C], ''1f49c''),
     ([0xD83D, 0xDCF7], ''1f4f7''),
     ([0xD83D, 0xDCF9], ''1f4f9''),
     ([0xD83D, 0xDC9D], ''1f49d''),
     ([0xD83D, 0xDCFA], ''1f4fa''),
     ([0xD83D, 0xDCFB], ''1f4fb''),
     ([0xD83D, 0xDC9E], ''1f49e''),
     ([0xD83D, 0xDCFC], ''1f4fc''),
     ([0xD83D, 0xDD03], ''1f503''),
     ([0xD83D, 0xDC9F], ''1f49f''),
     ([0xD83D, 0xDD0A], ''1f50a''),
     ([0xD83D, 0xDD0B], ''1f50b''),
     ([0xD83D, 0xDCA0], ''1f4a0''),
     ([0xD83D, 0xDD0C], ''1f50c''),
     ([0xD83D, 0xDD0D], ''1f50d''),
     ([0xD83D, 0xDCA1], ''1f4a1''),
     ([0xD83D, 0xDD0E], ''1f50e''),
     ([0xD83D, 0xDD0F], ''1f50f''),
     ([0xD83D, 0xDCA2], ''1f4a2''),
     ([0xD83D, 0xDD10], ''1f510''),
     ([0xD83D, 0xDD11], ''1f511''),
     ([0xD83D, 0xDCA3], ''1f4a3''),
     ([0xD83D, 0xDD12], ''1f512''),
     ([0xD83D, 0xDD13], ''1f513''),
     ([0xD83D, 0xDCA4], ''1f4a4''),
     ([0xD83D, 0xDD14], ''1f514''),
     ([0xD83D, 0xDD16], ''1f516''),
     ([0xD83D, 0xDCA5], ''1f4a5''),
     ([0xD83D, 0xDD17], ''1f517''),
     ([0xD83D, 0xDD18], ''1f518''),
     ([0xD83D, 0xDCA6], ''1f4a6''),
     ([0xD83D, 0xDD19], ''1f519''),
     ([0xD83D, 0xDD1A], ''1f51a''),
     ([0xD83D, 0xDCA7], ''1f4a7''),
     ([0xD83D, 0xDD1B], ''1f51b''),
     ([0xD83D, 0xDD1C], ''1f51c''),
     ([0xD83D, 0xDCA8], ''1f4a8''),
     ([0xD83D, 0xDD1D], ''1f51d''),
     ([0xD83D, 0xDD1E], ''1f51e''),
     ([0xD83D, 0xDCA9], ''1f4a9''),
     ([0xD83D, 0xDD1F], ''1f51f''),
     ([0xD83D, 0xDCAA], ''1f4aa''),
     ([0xD83D, 0xDD20], ''1f520''),
     ([0xD83D, 0xDD21], ''1f521''),
     ([0xD83D, 0xDCAB], ''1f4ab''),
     ([0xD83D, 0xDD22], ''1f522''),
     ([0xD83D, 0xDD23], ''1f523''),
     ([0xD83D, 0xDCAC], ''1f4ac''),
     ([0xD83D, 0xDD24], ''1f524''),
     ([0xD83D, 0xDD25], ''1f525''),
     ([0xD83D, 0xDCAE], ''1f4ae''),
     ([0xD83D, 0xDD26], ''1f526''),
     ([0xD83D, 0xDD27], ''1f527''),
     ([0xD83D, 0xDCAF], ''1f4af''),
     ([0xD83D, 0xDD28], ''1f528''),
     ([0xD83D, 0xDD29], ''1f529''),
     ([0xD83D, 0xDCB0], ''1f4b0''),
     ([0xD83D, 0xDD2A], ''1f52a''),
     ([0xD83D, 0xDD2B], ''1f52b''),
     ([0xD83D, 0xDCB1], ''1f4b1''),
     ([0xD83D, 0xDD2E], ''1f52e''),
     ([0xD83D, 0xDCB2], ''1f4b2''),
     ([0xD83D, 0xDD2F], ''1f52f''),
     ([0xD83D, 0xDCB3], ''1f4b3''),
     ([0xD83D, 0xDD30], ''1f530''),
     ([0xD83D, 0xDD31], ''1f531''),
     ([0xD83D, 0xDCB4], ''1f4b4''),
     ([0xD83D, 0xDD32], ''1f532''),
     ([0xD83D, 0xDD33], ''1f533''),
     ([0xD83D, 0xDCB5], ''1f4b5''),
     ([0xD83D, 0xDD34], ''1f534''),
     ([0xD83D, 0xDD35], ''1f535''),
     ([0xD83D, 0xDCB8], ''1f4b8''),
     ([0xD83D, 0xDD36], ''1f536''),
     ([0xD83D, 0xDD37], ''1f537''),
     ([0xD83D, 0xDCB9], ''1f4b9''),
     ([0xD83D, 0xDD38], ''1f538''),
     ([0xD83D, 0xDD39], ''1f539''),
     ([0xD83D, 0xDCBA], ''1f4ba''),
     ([0xD83D, 0xDD3A], ''1f53a''),
     ([0xD83D, 0xDD3B], ''1f53b''),
     ([0xD83D, 0xDCBB], ''1f4bb''),
     ([0xD83D, 0xDD3C], ''1f53c''),
     ([0xD83D, 0xDCBC], ''1f4bc''),
     ([0xD83D, 0xDD3D], ''1f53d''),
     ([0xD83D, 0xDD50], ''1f550''),
     ([0xD83D, 0xDCBD], ''1f4bd''),
     ([0xD83D, 0xDD51], ''1f551''),
     ([0xD83D, 0xDCBE], ''1f4be''),
     ([0xD83D, 0xDD52], ''1f552''),
     ([0xD83D, 0xDCBF], ''1f4bf''),
     ([0xD83D, 0xDD53], ''1f553''),
     ([0xD83D, 0xDCC0], ''1f4c0''),
     ([0xD83D, 0xDD54], ''1f554''),
     ([0xD83D, 0xDD55], ''1f555''),
     ([0xD83D, 0xDCC1], ''1f4c1''),
     ([0xD83D, 0xDD56], ''1f556''),
     ([0xD83D, 0xDD57], ''1f557''),
     ([0xD83D, 0xDCC2], ''1f4c2''),
     ([0xD83D, 0xDD58], ''1f558''),
     ([0xD83D, 0xDD59], ''1f559''),
     ([0xD83D, 0xDCC3], ''1f4c3'')]"

definition jsEscapeMap_11 :: "(jsstr \<times> string) list" where
  "jsEscapeMap_11 =
    [([0xD83D, 0xDD5A], ''1f55a''),
     ([0xD83D, 0xDD5B], ''1f55b''),
     ([0xD83D, 0xDCC4], ''1f4c4''),
     ([0xD83D, 0xDDFB], ''1f5fb''),
     ([0xD83D, 0xDDFC], ''1f5fc''),
     ([0xD83D, 0xDCC5], ''1f4c5''),
     ([0xD83D, 0xDDFD], ''1f5fd''),
     ([0xD83D, 0xDDFE], ''1f5fe''),
     ([0xD83D, 0xDCC6], ''1f4c6''),
     ([0xD83D, 0xDDFF], ''1f5ff''),
     ([0xD83D, 0xDE01], ''1f601''),
     ([0xD83D, 0xDE02], ''1f602''),
     ([0xD83D, 0xDE03], ''1f603''),
     ([0xD83D, 0xDCC8], ''1f4c8''),
     ([0xD83D, 0xDE04], ''1f604''),
     ([0xD83D, 0xDE05], ''1f605''),
     ([0xD83D, 0xDCC9], ''1f4c9''),
     ([0xD83D, 0xDE06], ''1f606''),
     ([0xD83D, 0xDE09], ''1f609''),
     ([0xD83D, 0xDCCA], ''1f4ca''),
     ([0xD83D, 0xDE0A], ''1f60a''),
     ([0xD83D, 0xDE0B], ''1f60b''),
     ([0xD83D, 0xDCCB], ''1f4cb''),
     ([0xD83D, 0xDE0C], ''1f60c''),
     ([0xD83D, 0xDE0D], ''1f60d''),
     ([0xD83D, 0xDCCC], ''1f4cc''),
     ([0xD83D, 0xDE0F], ''1f60f''),
     ([0xD83D, 0xDE12], ''1f612''),
     ([0xD83D, 0xDCCD], ''1f4cd''),
     ([0xD83D, 0xDE13], ''1f613''),
     ([0xD83D, 0xDE14], ''1f614''),
     ([0xD83D, 0xDCCE], ''1f4ce''),
     ([0xD83D, 0xDE16], ''1f616''),
     ([0xD83D, 0xDE18], ''1f618''),
     ([0xD83D, 0xDCCF], ''1f4cf''),
     ([0xD83D, 0xDE1A], ''1f61a''),
     ([0xD83D, 0xDE1C], ''1f61c''),
     ([0xD83D, 0xDCD0], ''1f4d0''),
     ([0xD83D, 0xDE1D], ''1f61d''),
     ([0xD83D, 0xDE1E], ''1f61e''),
     ([0xD83D, 0xDCD1], ''1f4d1''),
     ([0xD83D, 0xDE20], ''1f620''),
     ([0xD83D, 0xDE21], ''1f621''),
     ([0xD83D, 0xDE22], ''1f622''),
     ([0xD83D, 0xDE23], ''1f623''),
     ([0xD83D, 0xDE24], ''1f624''),
     ([0xD83D, 0xDE25], ''1f625''),
     ([0xD83D, 0xDE28], ''1f628''),
     ([0xD83D, 0xDE29], ''1f629''),
     ([0xD83D, 0xDE2A], ''1f62a''),
     ([0xD83D, 0xDE2B], ''1f62b''),
     ([0xD83D, 0xDE2D], ''1f62d''),
     ([0xD83D, 0xDE30], ''1f630''),
     ([0xD83D, 0xDE31], ''1f631''),
     ([0xD83D, 0xDE32], ''1f632''),
     ([0xD83D, 0xDE33], ''1f633''),
     ([0xD83D, 0xDE35], ''1f635''),
     ([0xD83D, 0xDE37], ''1f637''),
     ([0xD83D, 0xDE38], ''1f638''),
     ([0xD83D, 0xDE39], ''1f639''),
     ([0xD83D, 0xDE3A], ''1f63a''),
     ([0xD83D, 0xDE3B], ''1f63b''),
     ([0xD83D, 0xDE3C], ''1f63c''),
     ([0xD83D, 0xDE3D], ''1f63d''),
     ([0xD83D, 0xDE3E], ''1f63e''),
     ([0xD83D, 0xDE3F], ''1f63f''),
     ([0xD83D, 0xDE40], ''1f640''),
     ([0xD83D, 0xDE45], ''1f645''),
     ([0xD83D, 0xDE46], ''1f646''),
     ([0xD83D, 0xDE47], ''1f647''),
     ([0xD83D, 0xDE48], ''1f648''),
     ([0xD83D, 0xDE49], ''1f649''),
     ([0xD83D, 0xDE4A], ''1f64a''),
     ([0xD83D, 0xDE4B], ''1f64b''),
     ([0xD83D, 0xDE4C], ''1f64c''),
     ([0xD83D, 0xDE4D], ''1f64d''),
     ([0xD83D, 0xDE4E], ''1f64e''),
     ([0xD83D, 0xDE4F], ''1f64f''),
     ([0xD83D, 0xDE80], ''1f680''),
     ([0xD83D, 0xDE83], ''1f683''),
     ([0xD83D, 0xDE84], ''1f684''),
     ([0xD83D, 0xDE85], ''1f685''),
     ([0xD83D, 0xDE87], ''1f687''),
     ([0xD83D, 0xDE89], ''1f689''),
     ([0xD83D, 0xDE8C], ''1f68c''),
     ([0xD83D, 0xDE8F], ''1f68f''),
     ([0xD83D, 0xDE91], ''1f691''),
     ([0xD83D, 0xDE92], ''1f692''),
     ([0xD83D, 0xDE93], ''1f693''),
     ([0xD83D, 0xDE95], ''1f695''),
     ([0xD83D, 0xDE97], ''1f697''),
     ([0xD83D, 0xDE99], ''1f699''),
     ([0xD83D, 0xDE9A], ''1f69a''),
     ([0xD83D, 0xDEA2], ''1f6a2''),
     ([0xD83D, 0xDEA4], ''1f6a4''),
     ([0xD83D, 0xDEA5], ''1f6a5''),
     ([0xD83D, 0xDEA7], ''1f6a7''),
     ([0xD83D, 0xDEA8], ''1f6a8''),
     ([0xD83D, 0xDEA9], ''1f6a9''),
     ([0xD83D, 0xDEAA], ''1f6aa''),
     ([0xD83D, 0xDEAB], ''1f6ab''),
     ([0xD83D, 0xDEAC], ''1f6ac''),
     ([0xD83D, 0xDEAD], ''1f6ad''),
     ([0xD83D, 0xDEB2], ''1f6b2''),
     ([0xD83D, 0xDEB6], ''1f6b6''),
     ([0xD83D, 0xDEB9], ''1f6b9''),
     ([0xD83D, 0xDEBA], ''1f6ba''),
     ([0xD83D, 0xDEBB], ''1f6bb''),
     ([0xD83D, 0xDEBC], ''1f6bc''),
     ([0xD83D, 0xDEBD], ''1f6bd''),
     ([0xD83D, 0xDEBE], ''1f6be''),
     ([0xD83D, 0xDEC0], ''1f6c0''),
     ([0xD83E, 0xDD18], ''1f918''),
     ([0xD83D, 0xDE00], ''1f600''),
     ([0xD83D, 0xDE07], ''1f607''),
     ([0xD83D, 0xDE08], ''1f608''),
     ([0xD83D, 0xDE0E], ''1f60e''),
     ([0xD83D, 0xDE10], ''1f610''),
     ([0xD83D, 0xDE11], ''1f611''),
     ([0xD83D, 0xDE15], ''1f615''),
     ([0xD83D, 0xDE17], ''1f617''),
     ([0xD83D, 0xDE19], ''1f619''),
     ([0xD83D, 0xDE1B], ''1f61b''),
     ([0xD83D, 0xDE1F], ''1f61f''),
     ([0xD83D, 0xDE26], ''1f626''),
     ([0xD83D, 0xDE27], ''1f627''),
     ([0xD83D, 0xDE2C], ''1f62c''),
     ([0xD83D, 0xDE2E], ''1f62e''),
     ([0xD83D, 0xDE2F], ''1f62f''),
     ([0xD83D, 0xDE34], ''1f634''),
     ([0xD83D, 0xDE36], ''1f636''),
     ([0xD83D, 0xDE81], ''1f681''),
     ([0xD83D, 0xDE82], ''1f682''),
     ([0xD83D, 0xDE86], ''1f686''),
     ([0xD83D, 0xDE88], ''1f688''),
     ([0xD83D, 0xDE8A], ''1f68a''),
     ([0xD83D, 0xDE8D], ''1f68d''),
     ([0xD83D, 0xDE8E], ''1f68e''),
     ([0xD83D, 0xDE90], ''1f690''),
     ([0xD83D, 0xDE94], ''1f694''),
     ([0xD83D, 0xDE96], ''1f696''),
     ([0xD83D, 0xDE98], ''1f698''),
     ([0xD83D, 0xDE9B], ''1f69b''),
     ([0xD83D, 0xDE9C], ''1f69c''),
     ([0xD83D, 0xDE9D], ''1f69d''),
     ([0xD83D, 0xDE9E], ''1f69e''),
     ([0xD83D, 0xDE9F], ''1f69f''),
     ([0xD83D, 0xDEA0], ''1f6a0'')]"

definition jsEscapeMap_12 :: "(jsstr \<times> string) list" where
  "jsEscapeMap_12 =
    [([0xD83D, 0xDEA1], ''1f6a1''),
     ([0xD83D, 0xDEA3], ''1f6a3''),
     ([0xD83D, 0xDEA6], ''1f6a6''),
     ([0xD83D, 0xDEAE], ''1f6ae''),
     ([0xD83D, 0xDEAF], ''1f6af''),
     ([0xD83D, 0xDEB0], ''1f6b0''),
     ([0xD83D, 0xDEB1], ''1f6b1''),
     ([0xD83D, 0xDEB3], ''1f6b3''),
     ([0xD83D, 0xDEB4], ''1f6b4''),
     ([0xD83D, 0xDEB5], ''1f6b5''),
     ([0xD83D, 0xDEB7], ''1f6b7''),
     ([0xD83D, 0xDEB8], ''1f6b8''),
     ([0xD83D, 0xDEBF], ''1f6bf''),
     ([0xD83D, 0xDEC1], ''1f6c1''),
     ([0xD83D, 0xDEC2], ''1f6c2''),
     ([0xD83D, 0xDEC3], ''1f6c3''),
     ([0xD83D, 0xDEC4], ''1f6c4''),
     ([0xD83D, 0xDEC5], ''1f6c5''),
     ([0xD83C, 0xDF0D], ''1f30d''),
     ([0xD83C, 0xDF0E], ''1f30e''),
     ([0xD83C, 0xDF10], ''1f310''),
     ([0xD83C, 0xDF12], ''1f312''),
     ([0xD83C, 0xDF16], ''1f316''),
     ([0xD83C, 0xDF17], ''1f317''),
     ([0xD83C, 0xDF18], ''1f318''),
     ([0xD83C, 0xDF1A], ''1f31a''),
     ([0xD83C, 0xDF1C], ''1f31c''),
     ([0xD83C, 0xDF1D], ''1f31d''),
     ([0xD83C, 0xDF1E], ''1f31e''),
     ([0xD83C, 0xDF32], ''1f332''),
     ([0xD83C, 0xDF33], ''1f333''),
     ([0xD83C, 0xDF4B], ''1f34b''),
     ([0xD83C, 0xDF50], ''1f350''),
     ([0xD83C, 0xDF7C], ''1f37c''),
     ([0xD83C, 0xDFC7], ''1f3c7''),
     ([0xD83C, 0xDFC9], ''1f3c9''),
     ([0xD83C, 0xDFE4], ''1f3e4''),
     ([0xD83D, 0xDC00], ''1f400''),
     ([0xD83D, 0xDC01], ''1f401''),
     ([0xD83D, 0xDC02], ''1f402''),
     ([0xD83D, 0xDC03], ''1f403''),
     ([0xD83D, 0xDC04], ''1f404''),
     ([0xD83D, 0xDC05], ''1f405''),
     ([0xD83D, 0xDC06], ''1f406''),
     ([0xD83D, 0xDC07], ''1f407''),
     ([0xD83D, 0xDC08], ''1f408''),
     ([0xD83D, 0xDC09], ''1f409''),
     ([0xD83D, 0xDC0A], ''1f40a''),
     ([0xD83D, 0xDC0B], ''1f40b''),
     ([0xD83D, 0xDC0F], ''1f40f''),
     ([0xD83D, 0xDC10], ''1f410''),
     ([0xD83D, 0xDC13], ''1f413''),
     ([0xD83D, 0xDC15], ''1f415''),
     ([0xD83D, 0xDC16], ''1f416''),
     ([0xD83D, 0xDC2A], ''1f42a''),
     ([0xD83D, 0xDC65], ''1f465''),
     ([0xD83D, 0xDC6C], ''1f46c''),
     ([0xD83D, 0xDC6D], ''1f46d''),
     ([0xD83D, 0xDCAD], ''1f4ad''),
     ([0xD83D, 0xDCB6], ''1f4b6''),
     ([0xD83D, 0xDCB7], ''1f4b7''),
     ([0xD83D, 0xDCEC], ''1f4ec''),
     ([0xD83D, 0xDCED], ''1f4ed''),
     ([0xD83D, 0xDCEF], ''1f4ef''),
     ([0xD83D, 0xDCF5], ''1f4f5''),
     ([0xD83D, 0xDD00], ''1f500''),
     ([0xD83D, 0xDD01], ''1f501''),
     ([0xD83D, 0xDD02], ''1f502''),
     ([0xD83D, 0xDD04], ''1f504''),
     ([0xD83D, 0xDD05], ''1f505''),
     ([0xD83D, 0xDD06], ''1f506''),
     ([0xD83D, 0xDD07], ''1f507''),
     ([0xD83D, 0xDD09], ''1f509''),
     ([0xD83D, 0xDD15], ''1f515''),
     ([0xD83D, 0xDD2C], ''1f52c''),
     ([0xD83D, 0xDD2D], ''1f52d''),
     ([0xD83D, 0xDD5C], ''1f55c''),
     ([0xD83D, 0xDD5D], ''1f55d''),
     ([0xD83D, 0xDD5E], ''1f55e''),
     ([0xD83D, 0xDD5F], ''1f55f''),
     ([0xD83D, 0xDD60], ''1f560''),
     ([0xD83D, 0xDD61], ''1f561''),
     ([0xD83D, 0xDD62], ''1f562''),
     ([0xD83D, 0xDD63], ''1f563''),
     ([0xD83D, 0xDD64], ''1f564''),
     ([0xD83D, 0xDD65], ''1f565''),
     ([0xD83D, 0xDD66], ''1f566''),
     ([0xD83D, 0xDD67], ''1f567''),
     ([0xD83D, 0xDD08], ''1f508''),
     ([0xD83D, 0xDE8B], ''1f68b''),
     ([0xD83C, 0xDFC5], ''1f3c5''),
     ([0xD83C, 0xDFF4], ''1f3f4''),
     ([0xD83D, 0xDCF8], ''1f4f8''),
     ([0xD83D, 0xDECC], ''1f6cc''),
     ([0xD83D, 0xDD95], ''1f595''),
     ([0xD83D, 0xDD96], ''1f596''),
     ([0xD83D, 0xDE41], ''1f641''),
     ([0xD83D, 0xDE42], ''1f642''),
     ([0xD83D, 0xDEEB], ''1f6eb''),
     ([0xD83D, 0xDEEC], ''1f6ec''),
     ([0xD83C, 0xDFFB], ''1f3fb''),
     ([0xD83C, 0xDFFC], ''1f3fc''),
     ([0xD83C, 0xDFFD], ''1f3fd''),
     ([0xD83C, 0xDFFE], ''1f3fe''),
     ([0xD83C, 0xDFFF], ''1f3ff''),
     ([0xD83D, 0xDE43], ''1f643''),
     ([0xD83E, 0xDD11], ''1f911''),
     ([0xD83E, 0xDD13], ''1f913''),
     ([0xD83E, 0xDD17], ''1f917''),
     ([0xD83D, 0xDE44], ''1f644''),
     ([0xD83E, 0xDD14], ''1f914''),
     ([0xD83E, 0xDD10], ''1f910''),
     ([0xD83E, 0xDD12], ''1f912''),
     ([0xD83E, 0xDD15], ''1f915''),
     ([0xD83E, 0xDD16], ''1f916''),
     ([0xD83E, 0xDD81], ''1f981''),
     ([0xD83E, 0xDD84], ''1f984''),
     ([0xD83E, 0xDD82], ''1f982''),
     ([0xD83E, 0xDD80], ''1f980''),
     ([0xD83E, 0xDD83], ''1f983''),
     ([0xD83E, 0xDDC0], ''1f9c0''),
     ([0xD83C, 0xDF2D], ''1f32d''),
     ([0xD83C, 0xDF2E], ''1f32e''),
     ([0xD83C, 0xDF2F], ''1f32f''),
     ([0xD83C, 0xDF7F], ''1f37f''),
     ([0xD83C, 0xDF7E], ''1f37e''),
     ([0xD83C, 0xDFF9], ''1f3f9''),
     ([0xD83C, 0xDFFA], ''1f3fa''),
     ([0xD83D, 0xDED0], ''1f6d0''),
     ([0xD83D, 0xDD4B], ''1f54b''),
     ([0xD83D, 0xDD4C], ''1f54c''),
     ([0xD83D, 0xDD4D], ''1f54d''),
     ([0xD83D, 0xDD4E], ''1f54e''),
     ([0xD83D, 0xDCFF], ''1f4ff''),
     ([0xD83C, 0xDFCF], ''1f3cf''),
     ([0xD83C, 0xDFD0], ''1f3d0''),
     ([0xD83C, 0xDFD1], ''1f3d1''),
     ([0xD83C, 0xDFD2], ''1f3d2''),
     ([0xD83C, 0xDFD3], ''1f3d3''),
     ([0xD83C, 0xDFF8], ''1f3f8''),
     ([0xD83E, 0xDD41], ''1f941''),
     ([0xD83E, 0xDD90], ''1f990''),
     ([0xD83E, 0xDD91], ''1f991''),
     ([0xD83E, 0xDD5A], ''1f95a''),
     ([0xD83E, 0xDD5B], ''1f95b''),
     ([0xD83E, 0xDD5C], ''1f95c''),
     ([0xD83E, 0xDD5D], ''1f95d''),
     ([0xD83E, 0xDD5E], ''1f95e'')]"

definition jsEscapeMap_13 :: "(jsstr \<times> string) list" where
  "jsEscapeMap_13 =
    [([0xD83C, 0xDDFC], ''1f1fc''),
     ([0xD83C, 0xDDFB], ''1f1fb''),
     ([0xD83C, 0xDDFA], ''1f1fa''),
     ([0xD83C, 0xDDF9], ''1f1f9''),
     ([0xD83C, 0xDDF8], ''1f1f8''),
     ([0xD83C, 0xDDF7], ''1f1f7''),
     ([0xD83C, 0xDDF6], ''1f1f6''),
     ([0xD83C, 0xDDF5], ''1f1f5''),
     ([0xD83C, 0xDDF4], ''1f1f4''),
     ([0xD83C, 0xDDF3], ''1f1f3''),
     ([0xD83C, 0xDDF2], ''1f1f2''),
     ([0xD83C, 0xDDF1], ''1f1f1''),
     ([0xD83C, 0xDDF0], ''1f1f0''),
     ([0xD83C, 0xDDEF], ''1f1ef''),
     ([0xD83C, 0xDDEE], ''1f1ee''),
     ([0xD83C, 0xDDED], ''1f1ed''),
     ([0xD83C, 0xDDEC], ''1f1ec''),
     ([0xD83C, 0xDDEB], ''1f1eb''),
     ([0xD83C, 0xDDEA], ''1f1ea''),
     ([0xD83C, 0xDDE9], ''1f1e9''),
     ([0xD83C, 0xDDE8], ''1f1e8''),
     ([0xD83C, 0xDDE7], ''1f1e7''),
     ([0xD83C, 0xDDE6], ''1f1e6''),
     ([0x23E9], ''23e9''),
     ([0x23EA], ''23ea''),
     ([0x23EB], ''23eb''),
     ([0x23EC], ''23ec''),
     ([0x23F0], ''23f0''),
     ([0x23F3], ''23f3''),
     ([0x2A], ''002a''),
     ([0x26CE], ''26ce''),
     ([0x2705], ''2705''),
     ([0x270A], ''270a''),
     ([0x270B], ''270b''),
     ([0x2728], ''2728''),
     ([0x274C], ''274c''),
     ([0x274E], ''274e''),
     ([0x2753], ''2753''),
     ([0x2754], ''2754''),
     ([0x2755], ''2755''),
     ([0x2795], ''2795''),
     ([0x2796], ''2796''),
     ([0x2797], ''2797''),
     ([0x27B0], ''27b0''),
     ([0x23], ''0023''),
     ([0x27BF], ''27bf''),
     ([0x39], ''0039''),
     ([0x38], ''0038''),
     ([0x37], ''0037''),
     ([0x36], ''0036''),
     ([0x35], ''0035''),
     ([0x34], ''0034''),
     ([0x33], ''0033''),
     ([0x32], ''0032''),
     ([0x31], ''0031''),
     ([0x30], ''0030''),
     ([0xA9], ''00a9''),
     ([0xAE], ''00ae''),
     ([0x203C], ''203c''),
     ([0x2049], ''2049''),
     ([0x2122], ''2122''),
     ([0x2139], ''2139''),
     ([0x2194], ''2194''),
     ([0x2195], ''2195''),
     ([0x2196], ''2196''),
     ([0x2197], ''2197''),
     ([0x2198], ''2198''),
     ([0x2199], ''2199''),
     ([0x21A9], ''21a9''),
     ([0x21AA], ''21aa''),
     ([0x231A], ''231a''),
     ([0x231B], ''231b''),
     ([0x24C2], ''24c2''),
     ([0x25AA], ''25aa''),
     ([0x25AB], ''25ab''),
     ([0x25B6], ''25b6''),
     ([0x25C0], ''25c0''),
     ([0x25FB], ''25fb''),
     ([0x25FC], ''25fc''),
     ([0x25FD], ''25fd''),
     ([0x25FE], ''25fe''),
     ([0x2600], ''2600''),
     ([0x2601], ''2601''),
     ([0x260E], ''260e''),
     ([0x2611], ''2611''),
     ([0x2614], ''2614''),
     ([0x2615], ''2615''),
     ([0x261D], ''261d''),
     ([0x263A], ''263a''),
     ([0x2648], ''2648''),
     ([0x2649], ''2649''),
     ([0x264A], ''264a''),
     ([0x264B], ''264b''),
     ([0x264C], ''264c''),
     ([0x264D], ''264d''),
     ([0x264E], ''264e''),
     ([0x264F], ''264f''),
     ([0x2650], ''2650''),
     ([0x2651], ''2651''),
     ([0x2652], ''2652''),
     ([0x2653], ''2653''),
     ([0x2660], ''2660''),
     ([0x2663], ''2663''),
     ([0x2665], ''2665''),
     ([0x2666], ''2666''),
     ([0x2668], ''2668''),
     ([0x267B], ''267b''),
     ([0x267F], ''267f''),
     ([0x2693], ''2693''),
     ([0x26A0], ''26a0''),
     ([0x26A1], ''26a1''),
     ([0x26AA], ''26aa''),
     ([0x26AB], ''26ab''),
     ([0x26BD], ''26bd''),
     ([0x26BE], ''26be''),
     ([0x26C4], ''26c4''),
     ([0x26C5], ''26c5''),
     ([0x26D4], ''26d4''),
     ([0x26EA], ''26ea''),
     ([0x26F2], ''26f2''),
     ([0x26F3], ''26f3''),
     ([0x26F5], ''26f5''),
     ([0x26FA], ''26fa''),
     ([0x26FD], ''26fd''),
     ([0x2702], ''2702''),
     ([0x2708], ''2708''),
     ([0x2709], ''2709''),
     ([0x270C], ''270c''),
     ([0x270F], ''270f''),
     ([0x2712], ''2712''),
     ([0x2714], ''2714''),
     ([0x2716], ''2716''),
     ([0x2733], ''2733''),
     ([0x2734], ''2734''),
     ([0x2744], ''2744''),
     ([0x2747], ''2747''),
     ([0x2757], ''2757''),
     ([0x2764], ''2764''),
     ([0x27A1], ''27a1''),
     ([0x2934], ''2934''),
     ([0x2935], ''2935''),
     ([0x2B05], ''2b05''),
     ([0x2B06], ''2b06''),
     ([0x2B07], ''2b07''),
     ([0x2B1B], ''2b1b''),
     ([0x2B1C], ''2b1c''),
     ([0x2B50], ''2b50''),
     ([0x2B55], ''2b55'')]"

definition jsEscapeMap_14 :: "(jsstr \<times> string) list" where
  "jsEscapeMap_14 =
    [([0x3030], ''3030''),
     ([0x303D], ''303d''),
     ([0x3297], ''3297''),
     ([0x3299], ''3299''),
     ([0xD83C, 0xDC04], ''1f004''),
     ([0xD83C, 0xDD7F], ''1f17f''),
     ([0xD83C, 0xDE02], ''1f202''),
     ([0xD83C, 0xDE1A], ''1f21a''),
     ([0xD83C, 0xDE2F], ''1f22f''),
     ([0xD83C, 0xDE37], ''1f237''),
     ([0xD83C, 0xDF9E], ''1f39e''),
     ([0xD83C, 0xDF9F], ''1f39f''),
     ([0xD83C, 0xDFCB], ''1f3cb''),
     ([0xD83C, 0xDFCC], ''1f3cc''),
     ([0xD83C, 0xDFCD], ''1f3cd''),
     ([0xD83C, 0xDFCE], ''1f3ce''),
     ([0xD83C, 0xDF96], ''1f396''),
     ([0xD83C, 0xDF97], ''1f397''),
     ([0xD83C, 0xDF36], ''1f336''),
     ([0xD83C, 0xDF27], ''1f327''),
     ([0xD83C, 0xDF28], ''1f328''),
     ([0xD83C, 0xDF29], ''1f329''),
     ([0xD83C, 0xDF2A], ''1f32a''),
     ([0xD83C, 0xDF2B], ''1f32b''),
     ([0xD83C, 0xDF2C], ''1f32c''),
     ([0xD83D, 0xDC3F], ''1f43f''),
     ([0xD83D, 0xDD77], ''1f577''),
     ([0xD83D, 0xDD78], ''1f578''),
     ([0xD83C, 0xDF21], ''1f321''),
     ([0xD83C, 0xDF99], ''1f399''),
     ([0xD83C, 0xDF9A], ''1f39a''),
     ([0xD83C, 0xDF9B], ''1f39b''),
     ([0xD83C, 0xDFF3], ''1f3f3''),
     ([0xD83C, 0xDFF5], ''1f3f5''),
     ([0xD83C, 0xDFF7], ''1f3f7''),
     ([0xD83D, 0xDCFD], ''1f4fd''),
     ([0x271D], ''271d''),
     ([0xD83D, 0xDD49], ''1f549''),
     ([0xD83D, 0xDD4A], ''1f54a''),
     ([0xD83D, 0xDD6F], ''1f56f''),
     ([0xD83D, 0xDD70], ''1f570''),
     ([0xD83D, 0xDD73], ''1f573''),
     ([0xD83D, 0xDD76], ''1f576''),
     ([0xD83D, 0xDD79], ''1f579''),
     ([0xD83D, 0xDD87], ''1f587''),
     ([0xD83D, 0xDD8A], ''1f58a''),
     ([0xD83D, 0xDD8B], ''1f58b''),
     ([0xD83D, 0xDD8C], ''1f58c''),
     ([0xD83D, 0xDD8D], ''1f58d''),
     ([0xD83D, 0xDDA5], ''1f5a5''),
     ([0xD83D, 0xDDA8], ''1f5a8''),
     ([0x2328], ''2328''),
     ([0xD83D, 0xDDB2], ''1f5b2''),
     ([0xD83D, 0xDDBC], ''1f5bc''),
     ([0xD83D, 0xDDC2], ''1f5c2''),
     ([0xD83D, 0xDDC3], ''1f5c3''),
     ([0xD83D, 0xDDC4], ''1f5c4''),
     ([0xD83D, 0xDDD1], ''1f5d1''),
     ([0xD83D, 0xDDD2], ''1f5d2''),
     ([0xD83D, 0xDDD3], ''1f5d3''),
     ([0xD83D, 0xDDDC], ''1f5dc''),
     ([0xD83D, 0xDDDD], ''1f5dd''),
     ([0xD83D, 0xDDDE], ''1f5de''),
     ([0xD83D, 0xDDE1], ''1f5e1''),
     ([0xD83D, 0xDDE3], ''1f5e3''),
     ([0xD83D, 0xDDE8], ''1f5e8''),
     ([0xD83D, 0xDDEF], ''1f5ef''),
     ([0xD83D, 0xDDF3], ''1f5f3''),
     ([0xD83D, 0xDDFA], ''1f5fa''),
     ([0xD83D, 0xDEE0], ''1f6e0''),
     ([0xD83D, 0xDEE1], ''1f6e1''),
     ([0xD83D, 0xDEE2], ''1f6e2''),
     ([0xD83D, 0xDEF0], ''1f6f0''),
     ([0xD83C, 0xDF7D], ''1f37d''),
     ([0xD83D, 0xDC41], ''1f441''),
     ([0xD83D, 0xDD74], ''1f574''),
     ([0xD83D, 0xDD75], ''1f575''),
     ([0x270D], ''270d''),
     ([0xD83D, 0xDD90], ''1f590''),
     ([0xD83C, 0xDFD4], ''1f3d4''),
     ([0xD83C, 0xDFD5], ''1f3d5''),
     ([0xD83C, 0xDFD6], ''1f3d6''),
     ([0xD83C, 0xDFD7], ''1f3d7''),
     ([0xD83C, 0xDFD8], ''1f3d8''),
     ([0xD83C, 0xDFD9], ''1f3d9''),
     ([0xD83C, 0xDFDA], ''1f3da''),
     ([0xD83C, 0xDFDB], ''1f3db''),
     ([0xD83C, 0xDFDC], ''1f3dc''),
     ([0xD83C, 0xDFDD], ''1f3dd''),
     ([0xD83C, 0xDFDE], ''1f3de''),
     ([0xD83C, 0xDFDF], ''1f3df''),
     ([0xD83D, 0xDECB], ''1f6cb''),
     ([0xD83D, 0xDECD], ''1f6cd''),
     ([0xD83D, 0xDECE], ''1f6ce''),
     ([0xD83D, 0xDECF], ''1f6cf''),
     ([0xD83D, 0xDEE3], ''1f6e3''),
     ([0xD83D, 0xDEE4], ''1f6e4''),
     ([0xD83D, 0xDEE5], ''1f6e5''),
     ([0xD83D, 0xDEE9], ''1f6e9''),
     ([0xD83D, 0xDEF3], ''1f6f3''),
     ([0x23CF], ''23cf''),
     ([0x23ED], ''23ed''),
     ([0x23EE], ''23ee''),
     ([0x23EF], ''23ef''),
     ([0x23F1], ''23f1''),
     ([0x23F2], ''23f2''),
     ([0x23F8], ''23f8''),
     ([0x23F9], ''23f9''),
     ([0x23FA], ''23fa''),
     ([0x2602], ''2602''),
     ([0x2603], ''2603''),
     ([0x2604], ''2604''),
     ([0x2618], ''2618''),
     ([0x2620], ''2620''),
     ([0x2622], ''2622''),
     ([0x2623], ''2623''),
     ([0x2626], ''2626''),
     ([0x262A], ''262a''),
     ([0x262E], ''262e''),
     ([0x262F], ''262f''),
     ([0x2638], ''2638''),
     ([0x2639], ''2639''),
     ([0x2692], ''2692''),
     ([0x2694], ''2694''),
     ([0x2696], ''2696''),
     ([0x2697], ''2697''),
     ([0x2699], ''2699''),
     ([0x269B], ''269b''),
     ([0x269C], ''269c''),
     ([0x26B0], ''26b0''),
     ([0x26B1], ''26b1''),
     ([0x26C8], ''26c8''),
     ([0x26CF], ''26cf''),
     ([0x26D1], ''26d1''),
     ([0x26D3], ''26d3''),
     ([0x26E9], ''26e9''),
     ([0x26F0], ''26f0''),
     ([0x26F1], ''26f1''),
     ([0x26F4], ''26f4''),
     ([0x26F7], ''26f7''),
     ([0x26F8], ''26f8''),
     ([0x26F9], ''26f9''),
     ([0x2721], ''2721''),
     ([0x2763], ''2763''),
     ([0xD83C, 0xDF24], ''1f324''),
     ([0xD83C, 0xDF25], ''1f325''),
     ([0xD83C, 0xDF26], ''1f326''),
     ([0xD83D, 0xDDB1], ''1f5b1'')]"

definition jsEscapeMap :: "(jsstr \<times> string) list" where
  "jsEscapeMap =
    jsEscapeMap_1 @ jsEscapeMap_2 @ jsEscapeMap_3 @ jsEscapeMap_4 @ jsEscapeMap_5 @ jsEscapeMap_6 @ jsEscapeMap_7 @ jsEscapeMap_8 @ jsEscapeMap_9 @ jsEscapeMap_10 @ jsEscapeMap_11 @ jsEscapeMap_12 @ jsEscapeMap_13 @ jsEscapeMap_14"

definition asciiRegexp :: "string list" where
  "asciiRegexp =
    [''<3'',
     ''&lt;3'',
     ''</3'',
     ''&lt;/3'',
     [CHR '':'', CHR 0x27, CHR '')''],
     [CHR '':'', CHR 0x27, CHR ''-'', CHR '')''],
     '':D'',
     '':-D'',
     ''=D'',
     '':)'',
     '':-)'',
     ''=]'',
     ''=)'',
     '':]'',
     [CHR 0x27, CHR '':'', CHR '')''],
     [CHR 0x27, CHR '':'', CHR ''-'', CHR '')''],
     [CHR 0x27, CHR ''='', CHR '')''],
     [CHR 0x27, CHR '':'', CHR ''D''],
     [CHR 0x27, CHR '':'', CHR ''-'', CHR ''D''],
     [CHR 0x27, CHR ''='', CHR ''D''],
     ''>:)'',
     ''&gt;:)'',
     ''>;)'',
     ''&gt;;)'',
     ''>:-)'',
     ''&gt;:-)'',
     ''>=)'',
     ''&gt;=)'',
     '';)'',
     '';-)'',
     ''*-)'',
     ''*)'',
     '';-]'',
     '';]'',
     '';D'',
     '';^)'',
     [CHR 0x27, CHR '':'', CHR ''(''],
     [CHR 0x27, CHR '':'', CHR ''-'', CHR ''(''],
     [CHR 0x27, CHR ''='', CHR ''(''],
     '':*'',
     '':-*'',
     ''=*'',
     '':^*'',
     ''>:P'',
     ''&gt;:P'',
     ''X-P'',
     ''x-p'',
     ''>:['',
     ''&gt;:['',
     '':-('',
     '':('',
     '':-['',
     '':['',
     ''=('',
     ''>:('',
     ''&gt;:('',
     ''>:-('',
     ''&gt;:-('',
     '':@'',
     [CHR '':'', CHR 0x27, CHR ''(''],
     [CHR '':'', CHR 0x27, CHR ''-'', CHR ''(''],
     '';('',
     '';-('',
     ''>.<'',
     ''&gt;.&lt;'',
     ''D:'',
     '':$'',
     ''=$'',
     ''#-)'',
     ''#)'',
     ''%-)'',
     ''%)'',
     ''X)'',
     ''X-)'',
     [CHR ''*'', CHR 0x5C, CHR ''0'', CHR ''/'', CHR ''*''],
     [CHR 0x5C, CHR ''0'', CHR ''/''],
     [CHR ''*'', CHR 0x5C, CHR ''O'', CHR ''/'', CHR ''*''],
     [CHR 0x5C, CHR ''O'', CHR ''/''],
     ''O:-)'',
     ''0:-3'',
     ''0:3'',
     ''0:-)'',
     ''0:)'',
     ''0;^)'',
     ''O:-)'',
     ''O:)'',
     ''O;-)'',
     ''O=)'',
     ''0;-)'',
     ''O:-3'',
     ''O:3'',
     ''B-)'',
     ''B)'',
     ''8)'',
     ''8-)'',
     ''B-D'',
     ''8-D'',
     ''-_-'',
     ''-__-'',
     ''-___-'',
     [CHR ''>'', CHR '':'', CHR 0x5C],
     [CHR ''&'', CHR ''g'', CHR ''t'', CHR '';'', CHR '':'', CHR 0x5C],
     ''>:/'',
     ''&gt;:/'',
     '':-/'',
     '':-.'',
     '':/'',
     [CHR '':'', CHR 0x5C],
     ''=/'',
     [CHR ''='', CHR 0x5C],
     '':L'',
     ''=L'',
     '':P'',
     '':-P'',
     ''=P'',
     '':-p'',
     '':p'',
     ''=p'',
     [CHR '':'', CHR ''-'', CHR 0xDE],
     '':-&THORN;'',
     [CHR '':'', CHR 0xDE],
     '':&THORN;'',
     [CHR '':'', CHR 0xFE],
     '':&thorn;'',
     [CHR '':'', CHR ''-'', CHR 0xFE],
     '':-&thorn;'',
     '':-b'',
     '':b'',
     ''d:'',
     '':-O'',
     '':O'',
     '':-o'',
     '':o'',
     ''O_O'',
     ''>:O'',
     ''&gt;:O'',
     '':-X'',
     '':X'',
     '':-#'',
     '':#'',
     ''=X'',
     ''=x'',
     '':x'',
     '':-x'',
     ''=#'']"

definition unicodeRegexp_1 :: "jsstr list" where
  "unicodeRegexp_1 =
    [[0xD83D, 0xDC69, 0x200D, 0x2764, 0xFE0F, 0x200D, 0xD83D, 0xDC8B, 0x200D, 0xD83D, 0xDC69],
     [0xD83D, 0xDC68, 0x200D, 0x2764, 0xFE0F, 0x200D, 0xD83D, 0xDC8B, 0x200D, 0xD83D, 0xDC68],
     [0xD83D, 0xDC68, 0x200D, 0xD83D, 0xDC68, 0x200D, 0xD83D, 0xDC67, 0x200D, 0xD83D, 0xDC66],
     [0xD83D, 0xDC68, 0x200D, 0xD83D, 0xDC68, 0x200D, 0xD83D, 0xDC67, 0x200D, 0xD83D, 0xDC67],
     [0xD83D, 0xDC68, 0x200D, 0xD83D, 0xDC69, 0x200D, 0xD83D, 0xDC66, 0x200D, 0xD83D, 0xDC66],
     [0xD83D, 0xDC68, 0x200D, 0xD83D, 0xDC69, 0x200D, 0xD83D, 0xDC67, 0x200D, 0xD83D, 0xDC66],
     [0xD83D, 0xDC68, 0x200D, 0xD83D, 0xDC69, 0x200D, 0xD83D, 0xDC67, 0x200D, 0xD83D, 0xDC67],
     [0xD83D, 0xDC69, 0x200D, 0xD83D, 0xDC69, 0x200D, 0xD83D, 0xDC66, 0x200D, 0xD83D, 0xDC66],
     [0xD83D, 0xDC69, 0x200D, 0xD83D, 0xDC69, 0x200D, 0xD83D, 0xDC67, 0x200D, 0xD83D, 0xDC66],
     [0xD83D, 0xDC69, 0x200D, 0xD83D, 0xDC69, 0x200D, 0xD83D, 0xDC67, 0x200D, 0xD83D, 0xDC67],
     [0xD83D, 0xDC68, 0x200D, 0xD83D, 0xDC68, 0x200D, 0xD83D, 0xDC66, 0x200D, 0xD83D, 0xDC66],
     [0xD83D, 0xDC68, 0x200D, 0x2764, 0xFE0F, 0x200D, 0xD83D, 0xDC68],
     [0xD83D, 0xDC68, 0x200D, 0xD83D, 0xDC68, 0x200D, 0xD83D, 0xDC67],
     [0xD83D, 0xDC68, 0x200D, 0xD83D, 0xDC69, 0x200D, 0xD83D, 0xDC67],
     [0xD83D, 0xDC69, 0x200D, 0xD83D, 0xDC69, 0x200D, 0xD83D, 0xDC66],
     [0xD83D, 0xDC69, 0x200D, 0xD83D, 0xDC69, 0x200D, 0xD83D, 0xDC67],
     [0xD83D, 0xDC69, 0x200D, 0x2764, 0xFE0F, 0x200D, 0xD83D, 0xDC69],
     [0xD83D, 0xDC68, 0x200D, 0xD83D, 0xDC68, 0x200D, 0xD83D, 0xDC66],
     [0xD83D, 0xDC41, 0x200D, 0xD83D, 0xDDE8],
     [0xD83C, 0xDDE6, 0xD83C, 0xDDE9],
     [0xD83C, 0xDDE6, 0xD83C, 0xDDEA],
     [0xD83C, 0xDDE6, 0xD83C, 0xDDEB],
     [0xD83C, 0xDDE6, 0xD83C, 0xDDEC],
     [0xD83C, 0xDDE6, 0xD83C, 0xDDEE],
     [0xD83C, 0xDDE6, 0xD83C, 0xDDF1],
     [0xD83C, 0xDDE6, 0xD83C, 0xDDF2],
     [0xD83C, 0xDDE6, 0xD83C, 0xDDF4],
     [0xD83C, 0xDDE6, 0xD83C, 0xDDF6],
     [0xD83C, 0xDDE6, 0xD83C, 0xDDF7],
     [0xD83C, 0xDDE6, 0xD83C, 0xDDF8],
     [0xD83E, 0xDD18, 0xD83C, 0xDFFF],
     [0xD83E, 0xDD18, 0xD83C, 0xDFFE],
     [0xD83E, 0xDD18, 0xD83C, 0xDFFD],
     [0xD83E, 0xDD18, 0xD83C, 0xDFFC],
     [0xD83E, 0xDD18, 0xD83C, 0xDFFB],
     [0xD83D, 0xDEC0, 0xD83C, 0xDFFF],
     [0xD83D, 0xDEC0, 0xD83C, 0xDFFE],
     [0xD83D, 0xDEC0, 0xD83C, 0xDFFD],
     [0xD83D, 0xDEC0, 0xD83C, 0xDFFC],
     [0xD83D, 0xDEC0, 0xD83C, 0xDFFB],
     [0xD83D, 0xDEB6, 0xD83C, 0xDFFF],
     [0xD83D, 0xDEB6, 0xD83C, 0xDFFE],
     [0xD83D, 0xDEB6, 0xD83C, 0xDFFD],
     [0xD83D, 0xDEB6, 0xD83C, 0xDFFC],
     [0xD83D, 0xDEB6, 0xD83C, 0xDFFB],
     [0xD83D, 0xDEB5, 0xD83C, 0xDFFF],
     [0xD83D, 0xDEB5, 0xD83C, 0xDFFE],
     [0xD83D, 0xDEB5, 0xD83C, 0xDFFD],
     [0xD83D, 0xDEB5, 0xD83C, 0xDFFC],
     [0xD83D, 0xDEB5, 0xD83C, 0xDFFB],
     [0xD83D, 0xDEB4, 0xD83C, 0xDFFF],
     [0xD83D, 0xDEB4, 0xD83C, 0xDFFE],
     [0xD83D, 0xDEB4, 0xD83C, 0xDFFD],
     [0xD83D, 0xDEB4, 0xD83C, 0xDFFC],
     [0xD83D, 0xDEB4, 0xD83C, 0xDFFB],
     [0xD83D, 0xDEA3, 0xD83C, 0xDFFF],
     [0xD83D, 0xDEA3, 0xD83C, 0xDFFE],
     [0xD83D, 0xDEA3, 0xD83C, 0xDFFD],
     [0xD83D, 0xDEA3, 0xD83C, 0xDFFC],
     [0xD83D, 0xDEA3, 0xD83C, 0xDFFB],
     [0xD83D, 0xDE4F, 0xD83C, 0xDFFF],
     [0xD83D, 0xDE4F, 0xD83C, 0xDFFE],
     [0xD83D, 0xDE4F, 0xD83C, 0xDFFD],
     [0xD83D, 0xDE4F, 0xD83C, 0xDFFC],
     [0xD83D, 0xDE4F, 0xD83C, 0xDFFB],
     [0xD83D, 0xDE4E, 0xD83C, 0xDFFF],
     [0xD83D, 0xDE4E, 0xD83C, 0xDFFE],
     [0xD83D, 0xDE4E, 0xD83C, 0xDFFD],
     [0xD83D, 0xDE4E, 0xD83C, 0xDFFC],
     [0xD83D, 0xDE4E, 0xD83C, 0xDFFB],
     [0xD83D, 0xDE4D, 0xD83C, 0xDFFF],
     [0xD83D, 0xDE4D, 0xD83C, 0xDFFE],
     [0xD83D, 0xDE4D, 0xD83C, 0xDFFD],
     [0xD83D, 0xDE4D, 0xD83C, 0xDFFC],
     [0xD83D, 0xDE4D, 0xD83C, 0xDFFB],
     [0xD83D, 0xDE4C, 0xD83C, 0xDFFF],
     [0xD83D, 0xDE4C, 0xD83C, 0xDFFE],
     [0xD83D, 0xDE4C, 0xD83C, 0xDFFD],
     [0xD83D, 0xDE4C, 0xD83C, 0xDFFC],
     [0xD83D, 0xDE4C, 0xD83C, 0xDFFB],
     [0xD83D, 0xDE4B, 0xD83C, 0xDFFF],
     [0xD83D, 0xDE4B, 0xD83C, 0xDFFE],
     [0xD83D, 0xDE4B, 0xD83C, 0xDFFD],
     [0xD83D, 0xDE4B, 0xD83C, 0xDFFC],
     [0xD83D, 0xDE4B, 0xD83C, 0xDFFB],
     [0xD83D, 0xDE47, 0xD83C, 0xDFFF],
     [0xD83D, 0xDE47, 0xD83C, 0xDFFE],
     [0xD83D, 0xDE47, 0xD83C, 0xDFFD],
     [0xD83D, 0xDE47, 0xD83C, 0xDFFC],
     [0xD83D, 0xDE47, 0xD83C, 0xDFFB],
     [0xD83D, 0xDE46, 0xD83C, 0xDFFF],
     [0xD83D, 0xDE46, 0xD83C, 0xDFFE],
     [0xD83D, 0xDE46, 0xD83C, 0xDFFD],
     [0xD83D, 0xDE46, 0xD83C, 0xDFFC],
     [0xD83D, 0xDE46, 0xD83C, 0xDFFB],
     [0xD83D, 0xDE45, 0xD83C, 0xDFFF],
     [0xD83D, 0xDE45, 0xD83C, 0xDFFE],
     [0xD83D, 0xDE45, 0xD83C, 0xDFFD],
     [0xD83D, 0xDE45, 0xD83C, 0xDFFC],
     [0xD83D, 0xDE45, 0xD83C, 0xDFFB],
     [0xD83D, 0xDD96, 0xD83C, 0xDFFF],
     [0xD83D, 0xDD96, 0xD83C, 0xDFFE],
     [0xD83D, 0xDD96, 0xD83C, 0xDFFD],
     [0xD83D, 0xDD96, 0xD83C, 0xDFFC],
     [0xD83D, 0xDD96, 0xD83C, 0xDFFB],
     [0xD83D, 0xDD95, 0xD83C, 0xDFFF],
     [0xD83D, 0xDD95, 0xD83C, 0xDFFE],
     [0xD83D, 0xDD95, 0xD83C, 0xDFFD],
     [0xD83D, 0xDD95, 0xD83C, 0xDFFC],
     [0xD83D, 0xDD95, 0xD83C, 0xDFFB],
     [0xD83D, 0xDD90, 0xD83C, 0xDFFF],
     [0xD83D, 0xDD90, 0xD83C, 0xDFFE],
     [0xD83D, 0xDD90, 0xD83C, 0xDFFD],
     [0xD83D, 0xDD90, 0xD83C, 0xDFFC],
     [0xD83D, 0xDD90, 0xD83C, 0xDFFB],
     [0xD83D, 0xDD75, 0xD83C, 0xDFFF],
     [0xD83D, 0xDD75, 0xD83C, 0xDFFE],
     [0xD83D, 0xDD75, 0xD83C, 0xDFFD],
     [0xD83D, 0xDD75, 0xD83C, 0xDFFC],
     [0xD83D, 0xDD75, 0xD83C, 0xDFFB],
     [0xD83D, 0xDCAA, 0xD83C, 0xDFFF],
     [0xD83D, 0xDCAA, 0xD83C, 0xDFFE],
     [0xD83D, 0xDCAA, 0xD83C, 0xDFFD],
     [0xD83D, 0xDCAA, 0xD83C, 0xDFFC],
     [0xD83D, 0xDCAA, 0xD83C, 0xDFFB],
     [0xD83D, 0xDC87, 0xD83C, 0xDFFF],
     [0xD83D, 0xDC87, 0xD83C, 0xDFFE],
     [0xD83D, 0xDC87, 0xD83C, 0xDFFD],
     [0xD83D, 0xDC87, 0xD83C, 0xDFFC],
     [0xD83D, 0xDC87, 0xD83C, 0xDFFB],
     [0xD83D, 0xDC86, 0xD83C, 0xDFFF],
     [0xD83D, 0xDC86, 0xD83C, 0xDFFE],
     [0xD83D, 0xDC86, 0xD83C, 0xDFFD],
     [0xD83D, 0xDC86, 0xD83C, 0xDFFC],
     [0xD83D, 0xDC86, 0xD83C, 0xDFFB],
     [0xD83D, 0xDC85, 0xD83C, 0xDFFF],
     [0xD83D, 0xDC85, 0xD83C, 0xDFFE],
     [0xD83D, 0xDC85, 0xD83C, 0xDFFD],
     [0xD83D, 0xDC85, 0xD83C, 0xDFFC],
     [0xD83D, 0xDC85, 0xD83C, 0xDFFB],
     [0xD83D, 0xDC83, 0xD83C, 0xDFFF],
     [0xD83D, 0xDC83, 0xD83C, 0xDFFE],
     [0xD83D, 0xDC83, 0xD83C, 0xDFFD],
     [0xD83D, 0xDC83, 0xD83C, 0xDFFC],
     [0xD83D, 0xDC83, 0xD83C, 0xDFFB],
     [0xD83D, 0xDC82, 0xD83C, 0xDFFF],
     [0xD83D, 0xDC82, 0xD83C, 0xDFFE],
     [0xD83D, 0xDC82, 0xD83C, 0xDFFD],
     [0xD83D, 0xDC82, 0xD83C, 0xDFFC],
     [0xD83D, 0xDC82, 0xD83C, 0xDFFB],
     [0xD83D, 0xDC81, 0xD83C, 0xDFFF],
     [0xD83D, 0xDC81, 0xD83C, 0xDFFE],
     [0xD83D, 0xDC81, 0xD83C, 0xDFFD],
     [0xD83D, 0xDC81, 0xD83C, 0xDFFC],
     [0xD83D, 0xDC81, 0xD83C, 0xDFFB],
     [0xD83D, 0xDC7C, 0xD83C, 0xDFFF],
     [0xD83D, 0xDC7C, 0xD83C, 0xDFFE],
     [0xD83D, 0xDC7C, 0xD83C, 0xDFFD],
     [0xD83D, 0xDC7C, 0xD83C, 0xDFFC],
     [0xD83D, 0xDC7C, 0xD83C, 0xDFFB],
     [0xD83D, 0xDC78, 0xD83C, 0xDFFF],
     [0xD83D, 0xDC78, 0xD83C, 0xDFFE],
     [0xD83D, 0xDC78, 0xD83C, 0xDFFD],
     [0xD83D, 0xDC78, 0xD83C, 0xDFFC],
     [0xD83D, 0xDC78, 0xD83C, 0xDFFB],
     [0xD83D, 0xDC77, 0xD83C, 0xDFFF],
     [0xD83D, 0xDC77, 0xD83C, 0xDFFE],
     [0xD83D, 0xDC77, 0xD83C, 0xDFFD],
     [0xD83D, 0xDC77, 0xD83C, 0xDFFC],
     [0xD83D, 0xDC77, 0xD83C, 0xDFFB],
     [0xD83D, 0xDC76, 0xD83C, 0xDFFF],
     [0xD83D, 0xDC76, 0xD83C, 0xDFFE],
     [0xD83D, 0xDC76, 0xD83C, 0xDFFD],
     [0xD83D, 0xDC76, 0xD83C, 0xDFFC],
     [0xD83D, 0xDC76, 0xD83C, 0xDFFB],
     [0xD83D, 0xDC75, 0xD83C, 0xDFFF],
     [0xD83D, 0xDC75, 0xD83C, 0xDFFE],
     [0xD83D, 0xDC75, 0xD83C, 0xDFFD],
     [0xD83D, 0xDC75, 0xD83C, 0xDFFC],
     [0xD83D, 0xDC75, 0xD83C, 0xDFFB],
     [0xD83D, 0xDC74, 0xD83C, 0xDFFF],
     [0xD83D, 0xDC74, 0xD83C, 0xDFFE],
     [0xD83D, 0xDC74, 0xD83C, 0xDFFD],
     [0xD83D, 0xDC74, 0xD83C, 0xDFFC],
     [0xD83D, 0xDC74, 0xD83C, 0xDFFB],
     [0xD83D, 0xDC73, 0xD83C, 0xDFFF],
     [0xD83D, 0xDC73, 0xD83C, 0xDFFE],
     [0xD83D, 0xDC73, 0xD83C, 0xDFFD],
     [0xD83D, 0xDC73, 0xD83C, 0xDFFC],
     [0xD83D, 0xDC73, 0xD83C, 0xDFFB],
     [0xD83D, 0xDC72, 0xD83C, 0xDFFF],
     [0xD83D, 0xDC72, 0xD83C, 0xDFFE],
     [0xD83D, 0xDC72, 0xD83C, 0xDFFD],
     [0xD83D, 0xDC72, 0xD83C, 0xDFFC],
     [0xD83D, 0xDC72, 0xD83C, 0xDFFB],
     [0xD83D, 0xDC71, 0xD83C, 0xDFFF],
     [0xD83D, 0xDC71, 0xD83C, 0xDFFE],
     [0xD83D, 0xDC71, 0xD83C, 0xDFFD],
     [0xD83D, 0xDC71, 0xD83C, 0xDFFC],
     [0xD83D, 0xDC71, 0xD83C, 0xDFFB]]"

definition unicodeRegexp_2 :: "jsstr list" where
  "unicodeRegexp_2 =
    [[0xD83D, 0xDC70, 0xD83C, 0xDFFF],
     [0xD83D, 0xDC70, 0xD83C, 0xDFFE],
     [0xD83D, 0xDC70, 0xD83C, 0xDFFD],
     [0xD83D, 0xDC70, 0xD83C, 0xDFFC],
     [0xD83D, 0xDC70, 0xD83C, 0xDFFB],
     [0xD83D, 0xDC6E, 0xD83C, 0xDFFF],
     [0xD83D, 0xDC6E, 0xD83C, 0xDFFE],
     [0xD83D, 0xDC6E, 0xD83C, 0xDFFD],
     [0xD83D, 0xDC6E, 0xD83C, 0xDFFC],
     [0xD83D, 0xDC6E, 0xD83C, 0xDFFB],
     [0xD83D, 0xDC69, 0xD83C, 0xDFFF],
     [0xD83D, 0xDC69, 0xD83C, 0xDFFE],
     [0xD83D, 0xDC69, 0xD83C, 0xDFFD],
     [0xD83D, 0xDC69, 0xD83C, 0xDFFC],
     [0xD83D, 0xDC69, 0xD83C, 0xDFFB],
     [0xD83D, 0xDC68, 0xD83C, 0xDFFF],
     [0xD83D, 0xDC68, 0xD83C, 0xDFFE],
     [0xD83D, 0xDC68, 0xD83C, 0xDFFD],
     [0xD83D, 0xDC68, 0xD83C, 0xDFFC],
     [0xD83D, 0xDC68, 0xD83C, 0xDFFB],
     [0xD83D, 0xDC67, 0xD83C, 0xDFFF],
     [0xD83D, 0xDC67, 0xD83C, 0xDFFE],
     [0xD83D, 0xDC67, 0xD83C, 0xDFFD],
     [0xD83D, 0xDC67, 0xD83C, 0xDFFC],
     [0xD83D, 0xDC67, 0xD83C, 0xDFFB],
     [0xD83D, 0xDC66, 0xD83C, 0xDFFF],
     [0xD83D, 0xDC66, 0xD83C, 0xDFFE],
     [0xD83D, 0xDC66, 0xD83C, 0xDFFD],
     [0xD83D, 0xDC66, 0xD83C, 0xDFFC],
     [0xD83D, 0xDC66, 0xD83C, 0xDFFB],
     [0xD83D, 0xDC50, 0xD83C, 0xDFFF],
     [0xD83D, 0xDC50, 0xD83C, 0xDFFE],
     [0xD83D, 0xDC50, 0xD83C, 0xDFFD],
     [0xD83D, 0xDC50, 0xD83C, 0xDFFC],
     [0xD83D, 0xDC50, 0xD83C, 0xDFFB],
     [0xD83D, 0xDC4F, 0xD83C, 0xDFFF],
     [0xD83D, 0xDC4F, 0xD83C, 0xDFFE],
     [0xD83D, 0xDC4F, 0xD83C, 0xDFFD],
     [0xD83D, 0xDC4F, 0xD83C, 0xDFFC],
     [0xD83D, 0xDC4F, 0xD83C, 0xDFFB],
     [0xD83D, 0xDC4E, 0xD83C, 0xDFFF],
     [0xD83D, 0xDC4E, 0xD83C, 0xDFFE],
     [0xD83D, 0xDC4E, 0xD83C, 0xDFFD],
     [0xD83D, 0xDC4E, 0xD83C, 0xDFFC],
     [0xD83D, 0xDC4E, 0xD83C, 0xDFFB],
     [0xD83D, 0xDC4D, 0xD83C, 0xDFFF],
     [0xD83D, 0xDC4D, 0xD83C, 0xDFFE],
     [0xD83D, 0xDC4D, 0xD83C, 0xDFFD],
     [0xD83D, 0xDC4D, 0xD83C, 0xDFFC],
     [0xD83D, 0xDC4D, 0xD83C, 0xDFFB],
     [0xD83D, 0xDC4C, 0xD83C, 0xDFFF],
     [0xD83D, 0xDC4C, 0xD83C, 0xDFFE],
     [0xD83D, 0xDC4C, 0xD83C, 0xDFFD],
     [0xD83D, 0xDC4C, 0xD83C, 0xDFFC],
     [0xD83D, 0xDC4C, 0xD83C, 0xDFFB],
     [0xD83D, 0xDC4B, 0xD83C, 0xDFFF],
     [0xD83D, 0xDC4B, 0xD83C, 0xDFFE],
     [0xD83D, 0xDC4B, 0xD83C, 0xDFFD],
     [0xD83D, 0xDC4B, 0xD83C, 0xDFFC],
     [0xD83D, 0xDC4B, 0xD83C, 0xDFFB],
     [0xD83D, 0xDC4A, 0xD83C, 0xDFFF],
     [0xD83D, 0xDC4A, 0xD83C, 0xDFFE],
     [0xD83D, 0xDC4A, 0xD83C, 0xDFFD],
     [0xD83D, 0xDC4A, 0xD83C, 0xDFFC],
     [0xD83D, 0xDC4A, 0xD83C, 0xDFFB],
     [0xD83D, 0xDC49, 0xD83C, 0xDFFF],
     [0xD83D, 0xDC49, 0xD83C, 0xDFFE],
     [0xD83D, 0xDC49, 0xD83C, 0xDFFD],
     [0xD83D, 0xDC49, 0xD83C, 0xDFFC],
     [0xD83D, 0xDC49, 0xD83C, 0xDFFB],
     [0xD83D, 0xDC48, 0xD83C, 0xDFFF],
     [0xD83D, 0xDC48, 0xD83C, 0xDFFE],
     [0xD83D, 0xDC48, 0xD83C, 0xDFFD],
     [0xD83D, 0xDC48, 0xD83C, 0xDFFC],
     [0xD83D, 0xDC48, 0xD83C, 0xDFFB],
     [0xD83D, 0xDC47, 0xD83C, 0xDFFF],
     [0xD83D, 0xDC47, 0xD83C, 0xDFFE],
     [0xD83D, 0xDC47, 0xD83C, 0xDFFD],
     [0xD83D, 0xDC47, 0xD83C, 0xDFFC],
     [0xD83D, 0xDC47, 0xD83C, 0xDFFB],
     [0xD83D, 0xDC46, 0xD83C, 0xDFFF],
     [0xD83D, 0xDC46, 0xD83C, 0xDFFE],
     [0xD83D, 0xDC46, 0xD83C, 0xDFFD],
     [0xD83D, 0xDC46, 0xD83C, 0xDFFC],
     [0xD83D, 0xDC46, 0xD83C, 0xDFFB],
     [0xD83D, 0xDC43, 0xD83C, 0xDFFF],
     [0xD83D, 0xDC43, 0xD83C, 0xDFFE],
     [0xD83D, 0xDC43, 0xD83C, 0xDFFD],
     [0xD83D, 0xDC43, 0xD83C, 0xDFFC],
     [0xD83D, 0xDC43, 0xD83C, 0xDFFB],
     [0xD83D, 0xDC42, 0xD83C, 0xDFFF],
     [0xD83D, 0xDC42, 0xD83C, 0xDFFE],
     [0xD83D, 0xDC42, 0xD83C, 0xDFFD],
     [0xD83D, 0xDC42, 0xD83C, 0xDFFC],
     [0xD83D, 0xDC42, 0xD83C, 0xDFFB],
     [0xD83C, 0xDFCB, 0xD83C, 0xDFFF],
     [0xD83C, 0xDFCB, 0xD83C, 0xDFFE],
     [0xD83C, 0xDFCB, 0xD83C, 0xDFFD],
     [0xD83C, 0xDFCB, 0xD83C, 0xDFFC],
     [0xD83C, 0xDFCB, 0xD83C, 0xDFFB],
     [0xD83C, 0xDFCA, 0xD83C, 0xDFFF],
     [0xD83C, 0xDFCA, 0xD83C, 0xDFFE],
     [0xD83C, 0xDFCA, 0xD83C, 0xDFFD],
     [0xD83C, 0xDFCA, 0xD83C, 0xDFFC],
     [0xD83C, 0xDFCA, 0xD83C, 0xDFFB],
     [0xD83C, 0xDFC7, 0xD83C, 0xDFFF],
     [0xD83C, 0xDFC7, 0xD83C, 0xDFFE],
     [0xD83C, 0xDFC7, 0xD83C, 0xDFFD],
     [0xD83C, 0xDFC7, 0xD83C, 0xDFFC],
     [0xD83C, 0xDFC7, 0xD83C, 0xDFFB],
     [0xD83C, 0xDFC4, 0xD83C, 0xDFFF],
     [0xD83C, 0xDFC4, 0xD83C, 0xDFFE],
     [0xD83C, 0xDFC4, 0xD83C, 0xDFFD],
     [0xD83C, 0xDFC4, 0xD83C, 0xDFFC],
     [0xD83C, 0xDFC4, 0xD83C, 0xDFFB],
     [0xD83C, 0xDFC3, 0xD83C, 0xDFFF],
     [0xD83C, 0xDFC3, 0xD83C, 0xDFFE],
     [0xD83C, 0xDFC3, 0xD83C, 0xDFFD],
     [0xD83C, 0xDFC3, 0xD83C, 0xDFFC],
     [0xD83C, 0xDFC3, 0xD83C, 0xDFFB],
     [0xD83C, 0xDF85, 0xD83C, 0xDFFF],
     [0xD83C, 0xDF85, 0xD83C, 0xDFFE],
     [0xD83C, 0xDF85, 0xD83C, 0xDFFD],
     [0xD83C, 0xDF85, 0xD83C, 0xDFFC],
     [0xD83C, 0xDF85, 0xD83C, 0xDFFB],
     [0xD83C, 0xDDFF, 0xD83C, 0xDDFC],
     [0xD83C, 0xDDFF, 0xD83C, 0xDDF2],
     [0xD83C, 0xDDFF, 0xD83C, 0xDDE6],
     [0xD83C, 0xDDFE, 0xD83C, 0xDDF9],
     [0xD83C, 0xDDFE, 0xD83C, 0xDDEA],
     [0xD83C, 0xDDFD, 0xD83C, 0xDDF0],
     [0xD83C, 0xDDFC, 0xD83C, 0xDDF8],
     [0xD83C, 0xDDFC, 0xD83C, 0xDDEB],
     [0xD83C, 0xDDFB, 0xD83C, 0xDDFA],
     [0xD83C, 0xDDFB, 0xD83C, 0xDDF3],
     [0xD83C, 0xDDFB, 0xD83C, 0xDDEE],
     [0xD83C, 0xDDFB, 0xD83C, 0xDDEC],
     [0xD83C, 0xDDFB, 0xD83C, 0xDDEA],
     [0xD83C, 0xDDFB, 0xD83C, 0xDDE8],
     [0xD83C, 0xDDFB, 0xD83C, 0xDDE6],
     [0xD83C, 0xDDFA, 0xD83C, 0xDDFF],
     [0xD83C, 0xDDFA, 0xD83C, 0xDDFE],
     [0xD83C, 0xDDFA, 0xD83C, 0xDDF8],
     [0xD83C, 0xDDFA, 0xD83C, 0xDDF2],
     [0xD83C, 0xDDFA, 0xD83C, 0xDDEC],
     [0xD83C, 0xDDFA, 0xD83C, 0xDDE6],
     [0xD83C, 0xDDF9, 0xD83C, 0xDDFF],
     [0xD83C, 0xDDF9, 0xD83C, 0xDDFC],
     [0xD83C, 0xDDF9, 0xD83C, 0xDDFB],
     [0xD83C, 0xDDF9, 0xD83C, 0xDDF9],
     [0xD83C, 0xDDF9, 0xD83C, 0xDDF7],
     [0xD83C, 0xDDF9, 0xD83C, 0xDDF4],
     [0xD83C, 0xDDF9, 0xD83C, 0xDDF3],
     [0xD83C, 0xDDF9, 0xD83C, 0xDDF2],
     [0xD83C, 0xDDF9, 0xD83C, 0xDDF1],
     [0xD83C, 0xDDF9, 0xD83C, 0xDDF0],
     [0xD83C, 0xDDF9, 0xD83C, 0xDDEF],
     [0xD83C, 0xDDF9, 0xD83C, 0xDDED],
     [0xD83C, 0xDDF9, 0xD83C, 0xDDEC],
     [0xD83C, 0xDDF9, 0xD83C, 0xDDEB],
     [0xD83C, 0xDDE6, 0xD83C, 0xDDE8],
     [0xD83C, 0xDDF9, 0xD83C, 0xDDE8],
     [0xD83C, 0xDDF9, 0xD83C, 0xDDE6],
     [0xD83C, 0xDDF8, 0xD83C, 0xDDFF],
     [0xD83C, 0xDDF8, 0xD83C, 0xDDFE],
     [0xD83C, 0xDDF8, 0xD83C, 0xDDFD],
     [0xD83C, 0xDDF8, 0xD83C, 0xDDFB],
     [0xD83C, 0xDDF8, 0xD83C, 0xDDF9],
     [0xD83C, 0xDDF8, 0xD83C, 0xDDF8],
     [0xD83C, 0xDDF8, 0xD83C, 0xDDF7],
     [0xD83C, 0xDDF8, 0xD83C, 0xDDF4],
     [0xD83C, 0xDDF8, 0xD83C, 0xDDF3],
     [0xD83C, 0xDDF8, 0xD83C, 0xDDF2],
     [0xD83C, 0xDDF8, 0xD83C, 0xDDF1],
     [0xD83C, 0xDDF8, 0xD83C, 0xDDF0],
     [0xD83C, 0xDDF8, 0xD83C, 0xDDEF],
     [0xD83C, 0xDDF8, 0xD83C, 0xDDEE],
     [0xD83C, 0xDDF8, 0xD83C, 0xDDED],
     [0xD83C, 0xDDF8, 0xD83C, 0xDDEC],
     [0xD83C, 0xDDF8, 0xD83C, 0xDDEA],
     [0xD83C, 0xDDF8, 0xD83C, 0xDDE9],
     [0xD83C, 0xDDF8, 0xD83C, 0xDDE8],
     [0xD83C, 0xDDF8, 0xD83C, 0xDDE7],
     [0xD83C, 0xDDF8, 0xD83C, 0xDDE6],
     [0xD83C, 0xDDF7, 0xD83C, 0xDDFC],
     [0xD83C, 0xDDF7, 0xD83C, 0xDDFA],
     [0xD83C, 0xDDF7, 0xD83C, 0xDDF8],
     [0xD83C, 0xDDF7, 0xD83C, 0xDDF4],
     [0xD83C, 0xDDF7, 0xD83C, 0xDDEA],
     [0xD83C, 0xDDF6, 0xD83C, 0xDDE6],
     [0xD83C, 0xDDF5, 0xD83C, 0xDDFE],
     [0xD83C, 0xDDF5, 0xD83C, 0xDDFC],
     [0xD83C, 0xDDF5, 0xD83C, 0xDDF9],
     [0xD83C, 0xDDF5, 0xD83C, 0xDDF8],
     [0xD83C, 0xDDF5, 0xD83C, 0xDDF7],
     [0xD83C, 0xDDF5, 0xD83C, 0xDDF3],
     [0xD83C, 0xDDF5, 0xD83C, 0xDDF2],
     [0xD83C, 0xDDF5, 0xD83C, 0xDDF1],
     [0xD83C, 0xDDF5, 0xD83C, 0xDDF0],
     [0xD83C, 0xDDF5, 0xD83C, 0xDDED]]"

definition unicodeRegexp_3 :: "jsstr list" where
  "unicodeRegexp_3 =
    [[0xD83C, 0xDDF5, 0xD83C, 0xDDEC],
     [0xD83C, 0xDDF5, 0xD83C, 0xDDEB],
     [0xD83C, 0xDDF5, 0xD83C, 0xDDEA],
     [0xD83C, 0xDDF5, 0xD83C, 0xDDE6],
     [0xD83C, 0xDDF4, 0xD83C, 0xDDF2],
     [0xD83C, 0xDDF3, 0xD83C, 0xDDFF],
     [0xD83C, 0xDDF3, 0xD83C, 0xDDFA],
     [0xD83C, 0xDDF3, 0xD83C, 0xDDF7],
     [0xD83C, 0xDDF3, 0xD83C, 0xDDF5],
     [0xD83C, 0xDDF3, 0xD83C, 0xDDF4],
     [0xD83C, 0xDDF3, 0xD83C, 0xDDF1],
     [0xD83C, 0xDDF3, 0xD83C, 0xDDEE],
     [0xD83C, 0xDDF3, 0xD83C, 0xDDEC],
     [0xD83C, 0xDDF3, 0xD83C, 0xDDEB],
     [0xD83C, 0xDDF3, 0xD83C, 0xDDEA],
     [0xD83C, 0xDDF3, 0xD83C, 0xDDE8],
     [0xD83C, 0xDDF3, 0xD83C, 0xDDE6],
     [0xD83C, 0xDDF2, 0xD83C, 0xDDFF],
     [0xD83C, 0xDDF2, 0xD83C, 0xDDFE],
     [0xD83C, 0xDDF2, 0xD83C, 0xDDFD],
     [0xD83C, 0xDDF2, 0xD83C, 0xDDFC],
     [0xD83C, 0xDDF2, 0xD83C, 0xDDFB],
     [0xD83C, 0xDDF2, 0xD83C, 0xDDFA],
     [0xD83C, 0xDDF2, 0xD83C, 0xDDF9],
     [0xD83C, 0xDDF2, 0xD83C, 0xDDF8],
     [0xD83C, 0xDDF2, 0xD83C, 0xDDF7],
     [0xD83C, 0xDDF2, 0xD83C, 0xDDF6],
     [0xD83C, 0xDDF2, 0xD83C, 0xDDF5],
     [0xD83C, 0xDDF2, 0xD83C, 0xDDF4],
     [0xD83C, 0xDDF2, 0xD83C, 0xDDF3],
     [0xD83C, 0xDDF2, 0xD83C, 0xDDF2],
     [0xD83C, 0xDDF2, 0xD83C, 0xDDF1],
     [0xD83C, 0xDDF2, 0xD83C, 0xDDF0],
     [0xD83C, 0xDDF2, 0xD83C, 0xDDED],
     [0xD83C, 0xDDF2, 0xD83C, 0xDDEC],
     [0xD83C, 0xDDF2, 0xD83C, 0xDDEB],
     [0xD83C, 0xDDF2, 0xD83C, 0xDDEA],
     [0xD83C, 0xDDF2, 0xD83C, 0xDDE9],
     [0xD83C, 0xDDF2, 0xD83C, 0xDDE8],
     [0xD83C, 0xDDF2, 0xD83C, 0xDDE6],
     [0xD83C, 0xDDF1, 0xD83C, 0xDDFE],
     [0xD83C, 0xDDF1, 0xD83C, 0xDDFB],
     [0xD83C, 0xDDF1, 0xD83C, 0xDDFA],
     [0xD83C, 0xDDF1, 0xD83C, 0xDDF9],
     [0xD83C, 0xDDF1, 0xD83C, 0xDDF8],
     [0xD83C, 0xDDF1, 0xD83C, 0xDDF7],
     [0xD83C, 0xDDF1, 0xD83C, 0xDDF0],
     [0xD83C, 0xDDF1, 0xD83C, 0xDDEE],
     [0xD83C, 0xDDF1, 0xD83C, 0xDDE8],
     [0xD83C, 0xDDF1, 0xD83C, 0xDDE7],
     [0xD83C, 0xDDF1, 0xD83C, 0xDDE6],
     [0xD83C, 0xDDF0, 0xD83C, 0xDDFF],
     [0xD83C, 0xDDF0, 0xD83C, 0xDDFE],
     [0xD83C, 0xDDF0, 0xD83C, 0xDDFC],
     [0xD83C, 0xDDF0, 0xD83C, 0xDDF7],
     [0xD83C, 0xDDF0, 0xD83C, 0xDDF5],
     [0xD83C, 0xDDF0, 0xD83C, 0xDDF3],
     [0xD83C, 0xDDF0, 0xD83C, 0xDDF2],
     [0xD83C, 0xDDF0, 0xD83C, 0xDDEE],
     [0xD83C, 0xDDF0, 0xD83C, 0xDDED],
     [0xD83C, 0xDDF0, 0xD83C, 0xDDEC],
     [0xD83C, 0xDDF0, 0xD83C, 0xDDEA],
     [0xD83C, 0xDDEF, 0xD83C, 0xDDF5],
     [0xD83C, 0xDDEF, 0xD83C, 0xDDF4],
     [0xD83C, 0xDDEF, 0xD83C, 0xDDF2],
     [0xD83C, 0xDDEF, 0xD83C, 0xDDEA],
     [0xD83C, 0xDDEE, 0xD83C, 0xDDF9],
     [0xD83C, 0xDDEE, 0xD83C, 0xDDF8],
     [0xD83C, 0xDDEE, 0xD83C, 0xDDF7],
     [0xD83C, 0xDDEE, 0xD83C, 0xDDF6],
     [0xD83C, 0xDDEE, 0xD83C, 0xDDF4],
     [0xD83C, 0xDDEE, 0xD83C, 0xDDF3],
     [0xD83C, 0xDDEE, 0xD83C, 0xDDF2],
     [0xD83C, 0xDDEE, 0xD83C, 0xDDF1],
     [0xD83C, 0xDDEE, 0xD83C, 0xDDEA],
     [0xD83C, 0xDDEE, 0xD83C, 0xDDE9],
     [0xD83C, 0xDDEE, 0xD83C, 0xDDE8],
     [0xD83C, 0xDDED, 0xD83C, 0xDDFA],
     [0xD83C, 0xDDED, 0xD83C, 0xDDF9],
     [0xD83C, 0xDDED, 0xD83C, 0xDDF7],
     [0xD83C, 0xDDED, 0xD83C, 0xDDF3],
     [0xD83C, 0xDDED, 0xD83C, 0xDDF2],
     [0xD83C, 0xDDED, 0xD83C, 0xDDF0],
     [0xD83C, 0xDDEC, 0xD83C, 0xDDFE],
     [0xD83C, 0xDDEC, 0xD83C, 0xDDFC],
     [0xD83C, 0xDDEC, 0xD83C, 0xDDFA],
     [0xD83C, 0xDDEC, 0xD83C, 0xDDF9],
     [0xD83C, 0xDDEC, 0xD83C, 0xDDF8],
     [0xD83C, 0xDDEC, 0xD83C, 0xDDF7],
     [0xD83C, 0xDDEC, 0xD83C, 0xDDF6],
     [0xD83C, 0xDDEC, 0xD83C, 0xDDF5],
     [0xD83C, 0xDDEC, 0xD83C, 0xDDF3],
     [0xD83C, 0xDDEC, 0xD83C, 0xDDF2],
     [0xD83C, 0xDDEC, 0xD83C, 0xDDF1],
     [0xD83C, 0xDDEC, 0xD83C, 0xDDEE],
     [0xD83C, 0xDDEC, 0xD83C, 0xDDED],
     [0xD83C, 0xDDEC, 0xD83C, 0xDDEC],
     [0xD83C, 0xDDEC, 0xD83C, 0xDDEB],
     [0xD83C, 0xDDEC, 0xD83C, 0xDDEA],
     [0xD83C, 0xDDEC, 0xD83C, 0xDDE9],
     [0xD83C, 0xDDEC, 0xD83C, 0xDDE7],
     [0xD83C, 0xDDEC, 0xD83C, 0xDDE6],
     [0xD83C, 0xDDEB, 0xD83C, 0xDDF7],
     [0xD83C, 0xDDEB, 0xD83C, 0xDDF4],
     [0xD83C, 0xDDEB, 0xD83C, 0xDDF2],
     [0xD83C, 0xDDEB, 0xD83C, 0xDDF0],
     [0xD83C, 0xDDEB, 0xD83C, 0xDDEF],
     [0xD83C, 0xDDEB, 0xD83C, 0xDDEE],
     [0xD83C, 0xDDEA, 0xD83C, 0xDDFA],
     [0xD83C, 0xDDEA, 0xD83C, 0xDDF9],
     [0xD83C, 0xDDEA, 0xD83C, 0xDDF8],
     [0xD83C, 0xDDEA, 0xD83C, 0xDDF7],
     [0xD83C, 0xDDEA, 0xD83C, 0xDDED],
     [0xD83C, 0xDDEA, 0xD83C, 0xDDEC],
     [0xD83C, 0xDDEA, 0xD83C, 0xDDEA],
     [0xD83C, 0xDDEA, 0xD83C, 0xDDE8],
     [0xD83C, 0xDDEA, 0xD83C, 0xDDE6],
     [0xD83C, 0xDDE9, 0xD83C, 0xDDFF],
     [0xD83C, 0xDDE9, 0xD83C, 0xDDF4],
     [0xD83C, 0xDDE9, 0xD83C, 0xDDF2],
     [0xD83C, 0xDDE9, 0xD83C, 0xDDF0],
     [0xD83C, 0xDDE9, 0xD83C, 0xDDEF],
     [0xD83C, 0xDDE9, 0xD83C, 0xDDEC],
     [0xD83C, 0xDDE9, 0xD83C, 0xDDEA],
     [0xD83C, 0xDDE8, 0xD83C, 0xDDFF],
     [0xD83C, 0xDDE8, 0xD83C, 0xDDFE],
     [0xD83C, 0xDDE8, 0xD83C, 0xDDFD],
     [0xD83C, 0xDDE8, 0xD83C, 0xDDFC],
     [0xD83C, 0xDDE8, 0xD83C, 0xDDFB],
     [0xD83C, 0xDDE8, 0xD83C, 0xDDFA],
     [0xD83C, 0xDDE8, 0xD83C, 0xDDF7],
     [0xD83C, 0xDDE8, 0xD83C, 0xDDF5],
     [0xD83C, 0xDDE8, 0xD83C, 0xDDF4],
     [0xD83C, 0xDDE8, 0xD83C, 0xDDF3],
     [0xD83C, 0xDDE8, 0xD83C, 0xDDF2],
     [0xD83C, 0xDDE8, 0xD83C, 0xDDF1],
     [0xD83C, 0xDDE8, 0xD83C, 0xDDF0],
     [0xD83C, 0xDDE8, 0xD83C, 0xDDEE],
     [0xD83C, 0xDDE8, 0xD83C, 0xDDED],
     [0xD83C, 0xDDE8, 0xD83C, 0xDDEC],
     [0xD83C, 0xDDE8, 0xD83C, 0xDDEB],
     [0xD83C, 0xDDE8, 0xD83C, 0xDDE9],
     [0xD83C, 0xDDE8, 0xD83C, 0xDDE8],
     [0xD83C, 0xDDE8, 0xD83C, 0xDDE6],
     [0xD83C, 0xDDE7, 0xD83C, 0xDDFF],
     [0xD83C, 0xDDE7, 0xD83C, 0xDDFE],
     [0xD83C, 0xDDE7, 0xD83C, 0xDDFC],
     [0xD83C, 0xDDE7, 0xD83C, 0xDDFB],
     [0xD83C, 0xDDE7, 0xD83C, 0xDDF9],
     [0xD83C, 0xDDE7, 0xD83C, 0xDDF8],
     [0xD83C, 0xDDE7, 0xD83C, 0xDDF7],
     [0xD83C, 0xDDE7, 0xD83C, 0xDDF6],
     [0xD83C, 0xDDE7, 0xD83C, 0xDDF4],
     [0xD83C, 0xDDE7, 0xD83C, 0xDDF3],
     [0xD83C, 0xDDE7, 0xD83C, 0xDDF2],
     [0xD83C, 0xDDE7, 0xD83C, 0xDDF1],
     [0xD83C, 0xDDE7, 0xD83C, 0xDDEF],
     [0xD83C, 0xDDE7, 0xD83C, 0xDDEE],
     [0xD83C, 0xDDE7, 0xD83C, 0xDDED],
     [0xD83C, 0xDDE7, 0xD83C, 0xDDEC],
     [0xD83C, 0xDDE7, 0xD83C, 0xDDEB],
     [0xD83C, 0xDDE7, 0xD83C, 0xDDEA],
     [0xD83C, 0xDDE7, 0xD83C, 0xDDE9],
     [0xD83C, 0xDDE7, 0xD83C, 0xDDE7],
     [0xD83C, 0xDDE7, 0xD83C, 0xDDE6],
     [0xD83C, 0xDDE6, 0xD83C, 0xDDFF],
     [0xD83C, 0xDDE6, 0xD83C, 0xDDFD],
     [0xD83C, 0xDDE6, 0xD83C, 0xDDFC],
     [0xD83C, 0xDDE6, 0xD83C, 0xDDFA],
     [0xD83C, 0xDDE6, 0xD83C, 0xDDF9],
     [0xD83C, 0xDDF9, 0xD83C, 0xDDE9],
     [0xD83D, 0xDDE1, 0xFE0F],
     [0x26F9, 0xD83C, 0xDFFF],
     [0x26F9, 0xD83C, 0xDFFE],
     [0x26F9, 0xD83C, 0xDFFD],
     [0x26F9, 0xD83C, 0xDFFC],
     [0x26F9, 0xD83C, 0xDFFB],
     [0x270D, 0xD83C, 0xDFFF],
     [0x270D, 0xD83C, 0xDFFE],
     [0x270D, 0xD83C, 0xDFFD],
     [0x270D, 0xD83C, 0xDFFC],
     [0x270D, 0xD83C, 0xDFFB],
     [0xD83C, 0xDC04, 0xFE0F],
     [0xD83C, 0xDD7F, 0xFE0F],
     [0xD83C, 0xDE02, 0xFE0F],
     [0xD83C, 0xDE1A, 0xFE0F],
     [0xD83C, 0xDE2F, 0xFE0F],
     [0xD83C, 0xDE37, 0xFE0F],
     [0xD83C, 0xDF9E, 0xFE0F],
     [0xD83C, 0xDF9F, 0xFE0F],
     [0xD83C, 0xDFCB, 0xFE0F],
     [0xD83C, 0xDFCC, 0xFE0F],
     [0xD83C, 0xDFCD, 0xFE0F],
     [0xD83C, 0xDFCE, 0xFE0F],
     [0xD83C, 0xDF96, 0xFE0F],
     [0xD83C, 0xDF97, 0xFE0F],
     [0xD83C, 0xDF36, 0xFE0F],
     [0xD83C, 0xDF27, 0xFE0F],
     [0xD83C, 0xDF28, 0xFE0F],
     [0xD83C, 0xDF29, 0xFE0F]]"

definition unicodeRegexp_4 :: "jsstr list" where
  "unicodeRegexp_4 =
    [[0xD83C, 0xDF2A, 0xFE0F],
     [0xD83C, 0xDF2B, 0xFE0F],
     [0xD83C, 0xDF2C, 0xFE0F],
     [0xD83D, 0xDC3F, 0xFE0F],
     [0xD83D, 0xDD77, 0xFE0F],
     [0xD83D, 0xDD78, 0xFE0F],
     [0xD83C, 0xDF21, 0xFE0F],
     [0xD83C, 0xDF99, 0xFE0F],
     [0xD83C, 0xDF9A, 0xFE0F],
     [0xD83C, 0xDF9B, 0xFE0F],
     [0xD83C, 0xDFF3, 0xFE0F],
     [0xD83C, 0xDFF5, 0xFE0F],
     [0xD83C, 0xDFF7, 0xFE0F],
     [0xD83D, 0xDCFD, 0xFE0F],
     [0xD83D, 0xDD49, 0xFE0F],
     [0xD83D, 0xDD4A, 0xFE0F],
     [0xD83D, 0xDD6F, 0xFE0F],
     [0xD83D, 0xDD70, 0xFE0F],
     [0xD83D, 0xDD73, 0xFE0F],
     [0xD83D, 0xDD76, 0xFE0F],
     [0xD83D, 0xDD79, 0xFE0F],
     [0xD83D, 0xDD87, 0xFE0F],
     [0xD83D, 0xDD8A, 0xFE0F],
     [0xD83D, 0xDD8B, 0xFE0F],
     [0xD83D, 0xDD8C, 0xFE0F],
     [0xD83D, 0xDD8D, 0xFE0F],
     [0xD83D, 0xDDA5, 0xFE0F],
     [0xD83D, 0xDDA8, 0xFE0F],
     [0xD83D, 0xDDB2, 0xFE0F],
     [0xD83D, 0xDDBC, 0xFE0F],
     [0xD83D, 0xDDC2, 0xFE0F],
     [0xD83D, 0xDDC3, 0xFE0F],
     [0xD83D, 0xDDC4, 0xFE0F],
     [0xD83D, 0xDDD1, 0xFE0F],
     [0xD83D, 0xDDD2, 0xFE0F],
     [0xD83D, 0xDDD3, 0xFE0F],
     [0xD83D, 0xDDDC, 0xFE0F],
     [0xD83D, 0xDDDD, 0xFE0F],
     [0xD83D, 0xDDDE, 0xFE0F],
     [0x270B, 0xD83C, 0xDFFF],
     [0xD83D, 0xDDE3, 0xFE0F],
     [0xD83D, 0xDDEF, 0xFE0F],
     [0xD83D, 0xDDF3, 0xFE0F],
     [0xD83D, 0xDDFA, 0xFE0F],
     [0xD83D, 0xDEE0, 0xFE0F],
     [0xD83D, 0xDEE1, 0xFE0F],
     [0xD83D, 0xDEE2, 0xFE0F],
     [0xD83D, 0xDEF0, 0xFE0F],
     [0xD83C, 0xDF7D, 0xFE0F],
     [0xD83D, 0xDC41, 0xFE0F],
     [0xD83D, 0xDD74, 0xFE0F],
     [0xD83D, 0xDD75, 0xFE0F],
     [0xD83D, 0xDD90, 0xFE0F],
     [0xD83C, 0xDFD4, 0xFE0F],
     [0xD83C, 0xDFD5, 0xFE0F],
     [0xD83C, 0xDFD6, 0xFE0F],
     [0xD83C, 0xDFD7, 0xFE0F],
     [0xD83C, 0xDFD8, 0xFE0F],
     [0xD83C, 0xDFD9, 0xFE0F],
     [0xD83C, 0xDFDA, 0xFE0F],
     [0xD83C, 0xDFDB, 0xFE0F],
     [0xD83C, 0xDFDC, 0xFE0F],
     [0xD83C, 0xDFDD, 0xFE0F],
     [0xD83C, 0xDFDE, 0xFE0F],
     [0xD83C, 0xDFDF, 0xFE0F],
     [0xD83D, 0xDECB, 0xFE0F],
     [0xD83D, 0xDECD, 0xFE0F],
     [0xD83D, 0xDECE, 0xFE0F],
     [0xD83D, 0xDECF, 0xFE0F],
     [0xD83D, 0xDEE3, 0xFE0F],
     [0xD83D, 0xDEE4, 0xFE0F],
     [0xD83D, 0xDEE5, 0xFE0F],
     [0xD83D, 0xDEE9, 0xFE0F],
     [0xD83D, 0xDEF3, 0xFE0F],
     [0xD83C, 0xDF24, 0xFE0F],
     [0xD83C, 0xDF25, 0xFE0F],
     [0xD83C, 0xDF26, 0xFE0F],
     [0xD83D, 0xDDB1, 0xFE0F],
     [0x261D, 0xD83C, 0xDFFB],
     [0x261D, 0xD83C, 0xDFFC],
     [0x261D, 0xD83C, 0xDFFD],
     [0x261D, 0xD83C, 0xDFFE],
     [0x261D, 0xD83C, 0xDFFF],
     [0x270C, 0xD83C, 0xDFFB],
     [0x270C, 0xD83C, 0xDFFC],
     [0x270C, 0xD83C, 0xDFFD],
     [0x270C, 0xD83C, 0xDFFE],
     [0x270C, 0xD83C, 0xDFFF],
     [0x270A, 0xD83C, 0xDFFB],
     [0x270A, 0xD83C, 0xDFFC],
     [0x270A, 0xD83C, 0xDFFD],
     [0x270A, 0xD83C, 0xDFFE],
     [0x270A, 0xD83C, 0xDFFF],
     [0x270B, 0xD83C, 0xDFFB],
     [0x270B, 0xD83C, 0xDFFC],
     [0x270B, 0xD83C, 0xDFFD],
     [0x270B, 0xD83C, 0xDFFE],
     [0x34, 0xFE0F, 0x20E3],
     [0x39, 0xFE0F, 0x20E3],
     [0x30, 0xFE0F, 0x20E3],
     [0x31, 0xFE0F, 0x20E3],
     [0x32, 0xFE0F, 0x20E3],
     [0x33, 0xFE0F, 0x20E3],
     [0x23, 0xFE0F, 0x20E3],
     [0x35, 0xFE0F, 0x20E3],
     [0x36, 0xFE0F, 0x20E3],
     [0x37, 0xFE0F, 0x20E3],
     [0x38, 0xFE0F, 0x20E3],
     [0x2A, 0xFE0F, 0x20E3],
     [0xA9, 0xFE0F],
     [0xAE, 0xFE0F],
     [0x203C, 0xFE0F],
     [0x2049, 0xFE0F],
     [0x2122, 0xFE0F],
     [0x2139, 0xFE0F],
     [0x2194, 0xFE0F],
     [0x2195, 0xFE0F],
     [0x2196, 0xFE0F],
     [0x2197, 0xFE0F],
     [0x2198, 0xFE0F],
     [0x2199, 0xFE0F],
     [0x21A9, 0xFE0F],
     [0x21AA, 0xFE0F],
     [0x231A, 0xFE0F],
     [0x231B, 0xFE0F],
     [0x24C2, 0xFE0F],
     [0x25AA, 0xFE0F],
     [0x25AB, 0xFE0F],
     [0x25B6, 0xFE0F],
     [0x25C0, 0xFE0F],
     [0x25FB, 0xFE0F],
     [0x25FC, 0xFE0F],
     [0x25FD, 0xFE0F],
     [0x25FE, 0xFE0F],
     [0x2600, 0xFE0F],
     [0x2601, 0xFE0F],
     [0x260E, 0xFE0F],
     [0x2611, 0xFE0F],
     [0x2614, 0xFE0F],
     [0x2615, 0xFE0F],
     [0x261D, 0xFE0F],
     [0x263A, 0xFE0F],
     [0x2648, 0xFE0F],
     [0x2649, 0xFE0F],
     [0x264A, 0xFE0F],
     [0x264B, 0xFE0F],
     [0x264C, 0xFE0F],
     [0x264D, 0xFE0F],
     [0x264E, 0xFE0F],
     [0x264F, 0xFE0F],
     [0x2650, 0xFE0F],
     [0x2651, 0xFE0F],
     [0x2652, 0xFE0F],
     [0x2653, 0xFE0F],
     [0x2660, 0xFE0F],
     [0x2663, 0xFE0F],
     [0x2665, 0xFE0F],
     [0x2666, 0xFE0F],
     [0x2668, 0xFE0F],
     [0x267B, 0xFE0F],
     [0x267F, 0xFE0F],
     [0x2693, 0xFE0F],
     [0x26A0, 0xFE0F],
     [0x26A1, 0xFE0F],
     [0x26AA, 0xFE0F],
     [0x26AB, 0xFE0F],
     [0x26BD, 0xFE0F],
     [0x26BE, 0xFE0F],
     [0x26C4, 0xFE0F],
     [0x26C5, 0xFE0F],
     [0x26D4, 0xFE0F],
     [0x26EA, 0xFE0F],
     [0x26F2, 0xFE0F],
     [0x26F3, 0xFE0F],
     [0x26F5, 0xFE0F],
     [0x26FA, 0xFE0F],
     [0x26FD, 0xFE0F],
     [0x2702, 0xFE0F],
     [0x2708, 0xFE0F],
     [0x2709, 0xFE0F],
     [0x270C, 0xFE0F],
     [0x270F, 0xFE0F],
     [0x2712, 0xFE0F],
     [0x2714, 0xFE0F],
     [0x2716, 0xFE0F],
     [0x2733, 0xFE0F],
     [0x2734, 0xFE0F],
     [0x2744, 0xFE0F],
     [0x2747, 0xFE0F],
     [0x2757, 0xFE0F],
     [0x2764, 0xFE0F],
     [0x27A1, 0xFE0F],
     [0x2934, 0xFE0F],
     [0x2935, 0xFE0F],
     [0x2B05, 0xFE0F],
     [0x2B06, 0xFE0F],
     [0x2B07, 0xFE0F],
     [0x2B1B, 0xFE0F],
     [0x2B1C, 0xFE0F],
     [0x2B50, 0xFE0F]]"

definition unicodeRegexp_5 :: "jsstr list" where
  "unicodeRegexp_5 =
    [[0x2B55, 0xFE0F],
     [0x3030, 0xFE0F],
     [0x303D, 0xFE0F],
     [0x3297, 0xFE0F],
     [0x3299, 0xFE0F],
     [0x271D, 0xFE0F],
     [0x2328, 0xFE0F],
     [0x270D, 0xFE0F],
     [0x23ED, 0xFE0F],
     [0x23EE, 0xFE0F],
     [0x23EF, 0xFE0F],
     [0x23F1, 0xFE0F],
     [0x23F2, 0xFE0F],
     [0x23F8, 0xFE0F],
     [0x23F9, 0xFE0F],
     [0x23FA, 0xFE0F],
     [0x2602, 0xFE0F],
     [0x2603, 0xFE0F],
     [0x2604, 0xFE0F],
     [0x2618, 0xFE0F],
     [0x2620, 0xFE0F],
     [0x2622, 0xFE0F],
     [0x2623, 0xFE0F],
     [0x2626, 0xFE0F],
     [0x262A, 0xFE0F],
     [0x262E, 0xFE0F],
     [0x262F, 0xFE0F],
     [0x2638, 0xFE0F],
     [0x2639, 0xFE0F],
     [0x2692, 0xFE0F],
     [0x2694, 0xFE0F],
     [0x2696, 0xFE0F],
     [0x2697, 0xFE0F],
     [0x2699, 0xFE0F],
     [0x269B, 0xFE0F],
     [0x269C, 0xFE0F],
     [0x26B0, 0xFE0F],
     [0x26B1, 0xFE0F],
     [0x26C8, 0xFE0F],
     [0x26CF, 0xFE0F],
     [0x26D1, 0xFE0F],
     [0x26D3, 0xFE0F],
     [0x26E9, 0xFE0F],
     [0x26F0, 0xFE0F],
     [0x26F1, 0xFE0F],
     [0x26F4, 0xFE0F],
     [0x26F7, 0xFE0F],
     [0x26F8, 0xFE0F],
     [0x26F9, 0xFE0F],
     [0x2721, 0xFE0F],
     [0x2763, 0xFE0F],
     [0xD83C, 0xDCCF],
     [0xD83C, 0xDD70],
     [0xD83C, 0xDD71],
     [0xD83C, 0xDD7E],
     [0xD83C, 0xDD8E],
     [0xD83C, 0xDD91],
     [0xD83C, 0xDD92],
     [0xD83C, 0xDD93],
     [0xD83C, 0xDD94],
     [0xD83C, 0xDD95],
     [0xD83C, 0xDD96],
     [0xD83C, 0xDD97],
     [0xD83C, 0xDD98],
     [0xD83C, 0xDD99],
     [0xD83C, 0xDD9A],
     [0xD83C, 0xDE01],
     [0xD83C, 0xDE32],
     [0xD83C, 0xDE33],
     [0xD83C, 0xDE34],
     [0xD83C, 0xDE35],
     [0xD83C, 0xDE36],
     [0xD83C, 0xDE38],
     [0xD83C, 0xDE39],
     [0xD83C, 0xDE3A],
     [0xD83C, 0xDE50],
     [0xD83C, 0xDE51],
     [0xD83C, 0xDF00],
     [0xD83C, 0xDF01],
     [0xD83C, 0xDF02],
     [0xD83C, 0xDF03],
     [0xD83C, 0xDF04],
     [0xD83C, 0xDF05],
     [0xD83C, 0xDF06],
     [0xD83C, 0xDF07],
     [0xD83C, 0xDF08],
     [0xD83C, 0xDF09],
     [0xD83C, 0xDF0A],
     [0xD83C, 0xDF0B],
     [0xD83C, 0xDF0C],
     [0xD83C, 0xDF0F],
     [0xD83C, 0xDF11],
     [0xD83C, 0xDF13],
     [0xD83C, 0xDF14],
     [0xD83C, 0xDF15],
     [0xD83C, 0xDF19],
     [0xD83C, 0xDF1B],
     [0xD83C, 0xDF1F],
     [0xD83C, 0xDF20],
     [0xD83C, 0xDF30],
     [0xD83C, 0xDF31],
     [0xD83C, 0xDF34],
     [0xD83C, 0xDF35],
     [0xD83C, 0xDF37],
     [0xD83C, 0xDF38],
     [0xD83C, 0xDF39],
     [0xD83C, 0xDF3A],
     [0xD83C, 0xDF3B],
     [0xD83C, 0xDF3C],
     [0xD83C, 0xDF3D],
     [0xD83C, 0xDF3E],
     [0xD83C, 0xDF3F],
     [0xD83C, 0xDF40],
     [0xD83C, 0xDF41],
     [0xD83C, 0xDF42],
     [0xD83C, 0xDF43],
     [0xD83C, 0xDF44],
     [0xD83C, 0xDF45],
     [0xD83C, 0xDF46],
     [0xD83C, 0xDF47],
     [0xD83C, 0xDF48],
     [0xD83C, 0xDF49],
     [0xD83C, 0xDF4A],
     [0xD83C, 0xDF4C],
     [0xD83C, 0xDF4D],
     [0xD83C, 0xDF4E],
     [0xD83C, 0xDF4F],
     [0xD83C, 0xDF51],
     [0xD83C, 0xDF52],
     [0xD83C, 0xDF53],
     [0xD83C, 0xDF54],
     [0xD83C, 0xDF55],
     [0xD83C, 0xDF56],
     [0xD83C, 0xDF57],
     [0xD83C, 0xDF58],
     [0xD83C, 0xDF59],
     [0xD83C, 0xDF5A],
     [0xD83C, 0xDF5B],
     [0xD83C, 0xDF5C],
     [0xD83C, 0xDF5D],
     [0xD83C, 0xDF5E],
     [0xD83C, 0xDF5F],
     [0xD83C, 0xDF60],
     [0xD83C, 0xDF61],
     [0xD83C, 0xDF62],
     [0xD83C, 0xDF63],
     [0xD83C, 0xDF64],
     [0xD83C, 0xDF65],
     [0xD83C, 0xDF66],
     [0xD83C, 0xDF67],
     [0xD83C, 0xDF68],
     [0xD83C, 0xDF69],
     [0xD83C, 0xDF6A],
     [0xD83C, 0xDF6B],
     [0xD83C, 0xDF6C],
     [0xD83C, 0xDF6D],
     [0xD83C, 0xDF6E],
     [0xD83C, 0xDF6F],
     [0xD83C, 0xDF70],
     [0xD83C, 0xDF71],
     [0xD83C, 0xDF72],
     [0xD83C, 0xDF73],
     [0xD83C, 0xDF74],
     [0xD83C, 0xDF75],
     [0xD83C, 0xDF76],
     [0xD83C, 0xDF77],
     [0xD83C, 0xDF78],
     [0xD83C, 0xDF79],
     [0xD83C, 0xDF7A],
     [0xD83C, 0xDF7B],
     [0xD83C, 0xDF80],
     [0xD83C, 0xDF81],
     [0xD83C, 0xDF82],
     [0xD83C, 0xDF83],
     [0xD83C, 0xDF84],
     [0xD83C, 0xDF85],
     [0xD83C, 0xDF86],
     [0xD83C, 0xDF87],
     [0xD83C, 0xDF88],
     [0xD83C, 0xDF89],
     [0xD83C, 0xDF8A],
     [0xD83C, 0xDF8B],
     [0xD83C, 0xDF8C],
     [0xD83C, 0xDF8D],
     [0xD83C, 0xDF8E],
     [0xD83C, 0xDF8F],
     [0xD83C, 0xDF90],
     [0xD83C, 0xDF91],
     [0xD83C, 0xDF92],
     [0xD83C, 0xDF93],
     [0xD83C, 0xDFA0],
     [0xD83C, 0xDFA1],
     [0xD83C, 0xDFA2],
     [0xD83C, 0xDFA3],
     [0xD83C, 0xDFA4],
     [0xD83C, 0xDFA5],
     [0xD83C, 0xDFA6],
     [0xD83C, 0xDFA7],
     [0xD83C, 0xDFA8],
     [0xD83C, 0xDFA9]]"

definition unicodeRegexp_6 :: "jsstr list" where
  "unicodeRegexp_6 =
    [[0xD83C, 0xDFAA],
     [0xD83C, 0xDFAB],
     [0xD83C, 0xDFAC],
     [0xD83C, 0xDFAD],
     [0xD83C, 0xDFAE],
     [0xD83C, 0xDFAF],
     [0xD83C, 0xDFB0],
     [0xD83C, 0xDFB1],
     [0xD83C, 0xDFB2],
     [0xD83C, 0xDFB3],
     [0xD83C, 0xDFB4],
     [0xD83C, 0xDFB5],
     [0xD83C, 0xDFB6],
     [0xD83C, 0xDFB7],
     [0xD83C, 0xDFB8],
     [0xD83C, 0xDFB9],
     [0xD83C, 0xDFBA],
     [0xD83C, 0xDFBB],
     [0xD83C, 0xDFBC],
     [0xD83C, 0xDFBD],
     [0xD83C, 0xDFBE],
     [0xD83C, 0xDFBF],
     [0xD83C, 0xDFC0],
     [0xD83C, 0xDFC1],
     [0xD83C, 0xDFC2],
     [0xD83C, 0xDFC3],
     [0xD83C, 0xDFC4],
     [0xD83C, 0xDFC6],
     [0xD83C, 0xDFC8],
     [0xD83C, 0xDFCA],
     [0xD83C, 0xDFE0],
     [0xD83D, 0xDDB1],
     [0xD83C, 0xDFE2],
     [0xD83C, 0xDFE3],
     [0xD83C, 0xDFE5],
     [0xD83C, 0xDFE6],
     [0xD83C, 0xDFE7],
     [0xD83C, 0xDFE8],
     [0xD83C, 0xDFE9],
     [0xD83C, 0xDFEA],
     [0xD83C, 0xDFEB],
     [0xD83C, 0xDFEC],
     [0xD83C, 0xDFED],
     [0xD83C, 0xDFEE],
     [0xD83C, 0xDFEF],
     [0xD83C, 0xDFF0],
     [0xD83D, 0xDC0C],
     [0xD83D, 0xDC0D],
     [0xD83D, 0xDC0E],
     [0xD83D, 0xDC11],
     [0xD83D, 0xDC12],
     [0xD83D, 0xDC14],
     [0xD83D, 0xDC17],
     [0xD83D, 0xDC18],
     [0xD83D, 0xDC19],
     [0xD83D, 0xDC1A],
     [0xD83D, 0xDC1B],
     [0xD83D, 0xDC1C],
     [0xD83D, 0xDC1D],
     [0xD83D, 0xDC1E],
     [0xD83D, 0xDC1F],
     [0xD83D, 0xDC20],
     [0xD83D, 0xDC21],
     [0xD83D, 0xDC22],
     [0xD83D, 0xDC23],
     [0xD83D, 0xDC24],
     [0xD83D, 0xDC25],
     [0xD83D, 0xDC26],
     [0xD83D, 0xDC27],
     [0xD83D, 0xDC28],
     [0xD83D, 0xDC29],
     [0xD83D, 0xDC2B],
     [0xD83D, 0xDC2C],
     [0xD83D, 0xDC2D],
     [0xD83D, 0xDC2E],
     [0xD83D, 0xDC2F],
     [0xD83D, 0xDC30],
     [0xD83D, 0xDC31],
     [0xD83D, 0xDC32],
     [0xD83D, 0xDC33],
     [0xD83D, 0xDC34],
     [0xD83D, 0xDC35],
     [0xD83D, 0xDC36],
     [0xD83D, 0xDC37],
     [0xD83D, 0xDC38],
     [0xD83D, 0xDC39],
     [0xD83D, 0xDC3A],
     [0xD83D, 0xDC3B],
     [0xD83D, 0xDC3C],
     [0xD83D, 0xDC3D],
     [0xD83D, 0xDC3E],
     [0xD83D, 0xDC40],
     [0xD83D, 0xDC42],
     [0xD83D, 0xDC43],
     [0xD83D, 0xDC44],
     [0xD83D, 0xDC45],
     [0xD83D, 0xDC46],
     [0xD83D, 0xDC47],
     [0xD83D, 0xDC48],
     [0xD83D, 0xDC49],
     [0xD83D, 0xDC4A],
     [0xD83D, 0xDC4B],
     [0xD83D, 0xDC4C],
     [0xD83D, 0xDC4D],
     [0xD83D, 0xDC4E],
     [0xD83D, 0xDC4F],
     [0xD83D, 0xDC50],
     [0xD83D, 0xDC51],
     [0xD83D, 0xDC52],
     [0xD83D, 0xDC53],
     [0xD83D, 0xDC54],
     [0xD83D, 0xDC55],
     [0xD83D, 0xDC56],
     [0xD83D, 0xDC57],
     [0xD83D, 0xDC58],
     [0xD83D, 0xDC59],
     [0xD83D, 0xDC5A],
     [0xD83D, 0xDC5B],
     [0xD83D, 0xDC5C],
     [0xD83D, 0xDC5D],
     [0xD83D, 0xDC5E],
     [0xD83D, 0xDC5F],
     [0xD83D, 0xDC60],
     [0xD83D, 0xDC61],
     [0xD83D, 0xDC62],
     [0xD83D, 0xDC63],
     [0xD83D, 0xDC64],
     [0xD83D, 0xDC66],
     [0xD83D, 0xDC67],
     [0xD83D, 0xDC68],
     [0xD83D, 0xDC69],
     [0xD83D, 0xDC6A],
     [0xD83D, 0xDC6B],
     [0xD83D, 0xDC6E],
     [0xD83D, 0xDC6F],
     [0xD83D, 0xDC70],
     [0xD83D, 0xDC71],
     [0xD83D, 0xDC72],
     [0xD83D, 0xDC73],
     [0xD83D, 0xDC74],
     [0xD83D, 0xDC75],
     [0xD83D, 0xDC76],
     [0xD83D, 0xDC77],
     [0xD83D, 0xDC78],
     [0xD83D, 0xDC79],
     [0xD83D, 0xDC7A],
     [0xD83D, 0xDC7B],
     [0xD83D, 0xDC7C],
     [0xD83D, 0xDC7D],
     [0xD83D, 0xDC7E],
     [0xD83D, 0xDC7F],
     [0xD83D, 0xDC80],
     [0xD83D, 0xDCC7],
     [0xD83D, 0xDC81],
     [0xD83D, 0xDC82],
     [0xD83D, 0xDC83],
     [0xD83D, 0xDC84],
     [0xD83D, 0xDC85],
     [0xD83D, 0xDCD2],
     [0xD83D, 0xDC86],
     [0xD83D, 0xDCD3],
     [0xD83D, 0xDC87],
     [0xD83D, 0xDCD4],
     [0xD83D, 0xDC88],
     [0xD83D, 0xDCD5],
     [0xD83D, 0xDC89],
     [0xD83D, 0xDCD6],
     [0xD83D, 0xDC8A],
     [0xD83D, 0xDCD7],
     [0xD83D, 0xDC8B],
     [0xD83D, 0xDCD8],
     [0xD83D, 0xDC8C],
     [0xD83D, 0xDCD9],
     [0xD83D, 0xDC8D],
     [0xD83D, 0xDCDA],
     [0xD83D, 0xDC8E],
     [0xD83D, 0xDCDB],
     [0xD83D, 0xDC8F],
     [0xD83D, 0xDCDC],
     [0xD83D, 0xDC90],
     [0xD83D, 0xDCDD],
     [0xD83D, 0xDC91],
     [0xD83D, 0xDCDE],
     [0xD83D, 0xDC92],
     [0xD83D, 0xDCDF],
     [0xD83D, 0xDCE0],
     [0xD83D, 0xDC93],
     [0xD83D, 0xDCE1],
     [0xD83D, 0xDCE2],
     [0xD83D, 0xDC94],
     [0xD83D, 0xDCE3],
     [0xD83D, 0xDCE4],
     [0xD83D, 0xDC95],
     [0xD83D, 0xDCE5],
     [0xD83D, 0xDCE6],
     [0xD83D, 0xDC96],
     [0xD83D, 0xDCE7],
     [0xD83D, 0xDCE8],
     [0xD83D, 0xDC97],
     [0xD83D, 0xDCE9]]"

definition unicodeRegexp_7 :: "jsstr list" where
  "unicodeRegexp_7 =
    [[0xD83D, 0xDCEA],
     [0xD83D, 0xDC98],
     [0xD83D, 0xDCEB],
     [0xD83D, 0xDCEE],
     [0xD83D, 0xDC99],
     [0xD83D, 0xDCF0],
     [0xD83D, 0xDCF1],
     [0xD83D, 0xDC9A],
     [0xD83D, 0xDCF2],
     [0xD83D, 0xDCF3],
     [0xD83D, 0xDC9B],
     [0xD83D, 0xDCF4],
     [0xD83D, 0xDCF6],
     [0xD83D, 0xDC9C],
     [0xD83D, 0xDCF7],
     [0xD83D, 0xDCF9],
     [0xD83D, 0xDC9D],
     [0xD83D, 0xDCFA],
     [0xD83D, 0xDCFB],
     [0xD83D, 0xDC9E],
     [0xD83D, 0xDCFC],
     [0xD83D, 0xDD03],
     [0xD83D, 0xDC9F],
     [0xD83D, 0xDD0A],
     [0xD83D, 0xDD0B],
     [0xD83D, 0xDCA0],
     [0xD83D, 0xDD0C],
     [0xD83D, 0xDD0D],
     [0xD83D, 0xDCA1],
     [0xD83D, 0xDD0E],
     [0xD83D, 0xDD0F],
     [0xD83D, 0xDCA2],
     [0xD83D, 0xDD10],
     [0xD83D, 0xDD11],
     [0xD83D, 0xDCA3],
     [0xD83D, 0xDD12],
     [0xD83D, 0xDD13],
     [0xD83D, 0xDCA4],
     [0xD83D, 0xDD14],
     [0xD83D, 0xDD16],
     [0xD83D, 0xDCA5],
     [0xD83D, 0xDD17],
     [0xD83D, 0xDD18],
     [0xD83D, 0xDCA6],
     [0xD83D, 0xDD19],
     [0xD83D, 0xDD1A],
     [0xD83D, 0xDCA7],
     [0xD83D, 0xDD1B],
     [0xD83D, 0xDD1C],
     [0xD83D, 0xDCA8],
     [0xD83D, 0xDD1D],
     [0xD83D, 0xDD1E],
     [0xD83D, 0xDCA9],
     [0xD83D, 0xDD1F],
     [0xD83D, 0xDCAA],
     [0xD83D, 0xDD20],
     [0xD83D, 0xDD21],
     [0xD83D, 0xDCAB],
     [0xD83D, 0xDD22],
     [0xD83D, 0xDD23],
     [0xD83D, 0xDCAC],
     [0xD83D, 0xDD24],
     [0xD83D, 0xDD25],
     [0xD83D, 0xDCAE],
     [0xD83D, 0xDD26],
     [0xD83D, 0xDD27],
     [0xD83D, 0xDCAF],
     [0xD83D, 0xDD28],
     [0xD83D, 0xDD29],
     [0xD83D, 0xDCB0],
     [0xD83D, 0xDD2A],
     [0xD83D, 0xDD2B],
     [0xD83D, 0xDCB1],
     [0xD83D, 0xDD2E],
     [0xD83D, 0xDCB2],
     [0xD83D, 0xDD2F],
     [0xD83D, 0xDCB3],
     [0xD83D, 0xDD30],
     [0xD83D, 0xDD31],
     [0xD83D, 0xDCB4],
     [0xD83D, 0xDD32],
     [0xD83D, 0xDD33],
     [0xD83D, 0xDCB5],
     [0xD83D, 0xDD34],
     [0xD83D, 0xDD35],
     [0xD83D, 0xDCB8],
     [0xD83D, 0xDD36],
     [0xD83D, 0xDD37],
     [0xD83D, 0xDCB9],
     [0xD83D, 0xDD38],
     [0xD83D, 0xDD39],
     [0xD83D, 0xDCBA],
     [0xD83D, 0xDD3A],
     [0xD83D, 0xDD3B],
     [0xD83D, 0xDCBB],
     [0xD83D, 0xDD3C],
     [0xD83D, 0xDCBC],
     [0xD83D, 0xDD3D],
     [0xD83D, 0xDD50],
     [0xD83D, 0xDCBD],
     [0xD83D, 0xDD51],
     [0xD83D, 0xDCBE],
     [0xD83D, 0xDD52],
     [0xD83D, 0xDCBF],
     [0xD83D, 0xDD53],
     [0xD83D, 0xDCC0],
     [0xD83D, 0xDD54],
     [0xD83D, 0xDD55],
     [0xD83D, 0xDCC1],
     [0xD83D, 0xDD56],
     [0xD83D, 0xDD57],
     [0xD83D, 0xDCC2],
     [0xD83D, 0xDD58],
     [0xD83D, 0xDD59],
     [0xD83D, 0xDCC3],
     [0xD83D, 0xDD5A],
     [0xD83D, 0xDD5B],
     [0xD83D, 0xDCC4],
     [0xD83D, 0xDDFB],
     [0xD83D, 0xDDFC],
     [0xD83D, 0xDCC5],
     [0xD83D, 0xDDFD],
     [0xD83D, 0xDDFE],
     [0xD83D, 0xDCC6],
     [0xD83D, 0xDDFF],
     [0xD83D, 0xDE01],
     [0xD83D, 0xDE02],
     [0xD83D, 0xDE03],
     [0xD83D, 0xDCC8],
     [0xD83D, 0xDE04],
     [0xD83D, 0xDE05],
     [0xD83D, 0xDCC9],
     [0xD83D, 0xDE06],
     [0xD83D, 0xDE09],
     [0xD83D, 0xDCCA],
     [0xD83D, 0xDE0A],
     [0xD83D, 0xDE0B],
     [0xD83D, 0xDCCB],
     [0xD83D, 0xDE0C],
     [0xD83D, 0xDE0D],
     [0xD83D, 0xDCCC],
     [0xD83D, 0xDE0F],
     [0xD83D, 0xDE12],
     [0xD83D, 0xDCCD],
     [0xD83D, 0xDE13],
     [0xD83D, 0xDE14],
     [0xD83D, 0xDCCE],
     [0xD83D, 0xDE16],
     [0xD83D, 0xDE18],
     [0xD83D, 0xDCCF],
     [0xD83D, 0xDE1A],
     [0xD83D, 0xDE1C],
     [0xD83D, 0xDCD0],
     [0xD83D, 0xDE1D],
     [0xD83D, 0xDE1E],
     [0xD83D, 0xDCD1],
     [0xD83D, 0xDE20],
     [0xD83D, 0xDE21],
     [0xD83D, 0xDE22],
     [0xD83D, 0xDE23],
     [0xD83D, 0xDE24],
     [0xD83D, 0xDE25],
     [0xD83D, 0xDE28],
     [0xD83D, 0xDE29],
     [0xD83D, 0xDE2A],
     [0xD83D, 0xDE2B],
     [0xD83D, 0xDE2D],
     [0xD83D, 0xDE30],
     [0xD83D, 0xDE31],
     [0xD83D, 0xDE32],
     [0xD83D, 0xDE33],
     [0xD83D, 0xDE35],
     [0xD83D, 0xDE37],
     [0xD83D, 0xDE38],
     [0xD83D, 0xDE39],
     [0xD83D, 0xDE3A],
     [0xD83D, 0xDE3B],
     [0xD83D, 0xDE3C],
     [0xD83D, 0xDE3D],
     [0xD83D, 0xDE3E],
     [0xD83D, 0xDE3F],
     [0xD83D, 0xDE40],
     [0xD83D, 0xDE45],
     [0xD83D, 0xDE46],
     [0xD83D, 0xDE47],
     [0xD83D, 0xDE48],
     [0xD83D, 0xDE49],
     [0xD83D, 0xDE4A],
     [0xD83D, 0xDE4B],
     [0xD83D, 0xDE4C],
     [0xD83D, 0xDE4D],
     [0xD83D, 0xDE4E],
     [0xD83D, 0xDE4F],
     [0xD83D, 0xDE80],
     [0xD83D, 0xDE83],
     [0xD83D, 0xDE84],
     [0xD83D, 0xDE85],
     [0xD83D, 0xDE87],
     [0xD83D, 0xDE89],
     [0xD83D, 0xDE8C]]"

definition unicodeRegexp_8 :: "jsstr list" where
  "unicodeRegexp_8 =
    [[0xD83D, 0xDE8F],
     [0xD83D, 0xDE91],
     [0xD83D, 0xDE92],
     [0xD83D, 0xDE93],
     [0xD83D, 0xDE95],
     [0xD83D, 0xDE97],
     [0xD83D, 0xDE99],
     [0xD83D, 0xDE9A],
     [0xD83D, 0xDEA2],
     [0xD83D, 0xDEA4],
     [0xD83D, 0xDEA5],
     [0xD83D, 0xDEA7],
     [0xD83D, 0xDEA8],
     [0xD83D, 0xDEA9],
     [0xD83D, 0xDEAA],
     [0xD83D, 0xDEAB],
     [0xD83D, 0xDEAC],
     [0xD83D, 0xDEAD],
     [0xD83D, 0xDEB2],
     [0xD83D, 0xDEB6],
     [0xD83D, 0xDEB9],
     [0xD83D, 0xDEBA],
     [0xD83D, 0xDEBB],
     [0xD83D, 0xDEBC],
     [0xD83D, 0xDEBD],
     [0xD83D, 0xDEBE],
     [0xD83D, 0xDEC0],
     [0xD83E, 0xDD18],
     [0xD83D, 0xDE00],
     [0xD83D, 0xDE07],
     [0xD83D, 0xDE08],
     [0xD83D, 0xDE0E],
     [0xD83D, 0xDE10],
     [0xD83D, 0xDE11],
     [0xD83D, 0xDE15],
     [0xD83D, 0xDE17],
     [0xD83D, 0xDE19],
     [0xD83D, 0xDE1B],
     [0xD83D, 0xDE1F],
     [0xD83D, 0xDE26],
     [0xD83D, 0xDE27],
     [0xD83D, 0xDE2C],
     [0xD83D, 0xDE2E],
     [0xD83D, 0xDE2F],
     [0xD83D, 0xDE34],
     [0xD83D, 0xDE36],
     [0xD83D, 0xDE81],
     [0xD83D, 0xDE82],
     [0xD83D, 0xDE86],
     [0xD83D, 0xDE88],
     [0xD83D, 0xDE8A],
     [0xD83D, 0xDE8D],
     [0xD83D, 0xDE8E],
     [0xD83D, 0xDE90],
     [0xD83D, 0xDE94],
     [0xD83D, 0xDE96],
     [0xD83D, 0xDE98],
     [0xD83D, 0xDE9B],
     [0xD83D, 0xDE9C],
     [0xD83D, 0xDE9D],
     [0xD83D, 0xDE9E],
     [0xD83D, 0xDE9F],
     [0xD83D, 0xDEA0],
     [0xD83D, 0xDEA1],
     [0xD83D, 0xDEA3],
     [0xD83D, 0xDEA6],
     [0xD83D, 0xDEAE],
     [0xD83D, 0xDEAF],
     [0xD83D, 0xDEB0],
     [0xD83D, 0xDEB1],
     [0xD83D, 0xDEB3],
     [0xD83D, 0xDEB4],
     [0xD83D, 0xDEB5],
     [0xD83D, 0xDEB7],
     [0xD83D, 0xDEB8],
     [0xD83D, 0xDEBF],
     [0xD83D, 0xDEC1],
     [0xD83D, 0xDEC2],
     [0xD83D, 0xDEC3],
     [0xD83D, 0xDEC4],
     [0xD83D, 0xDEC5],
     [0xD83C, 0xDF0D],
     [0xD83C, 0xDF0E],
     [0xD83C, 0xDF10],
     [0xD83C, 0xDF12],
     [0xD83C, 0xDF16],
     [0xD83C, 0xDF17],
     [0xD83C, 0xDF18],
     [0xD83C, 0xDF1A],
     [0xD83C, 0xDF1C],
     [0xD83C, 0xDF1D],
     [0xD83C, 0xDF1E],
     [0xD83C, 0xDF32],
     [0xD83C, 0xDF33],
     [0xD83C, 0xDF4B],
     [0xD83C, 0xDF50],
     [0xD83C, 0xDF7C],
     [0xD83C, 0xDFC7],
     [0xD83C, 0xDFC9],
     [0xD83C, 0xDFE4],
     [0xD83D, 0xDC00],
     [0xD83D, 0xDC01],
     [0xD83D, 0xDC02],
     [0xD83D, 0xDC03],
     [0xD83D, 0xDC04],
     [0xD83D, 0xDC05],
     [0xD83D, 0xDC06],
     [0xD83D, 0xDC07],
     [0xD83D, 0xDC08],
     [0xD83D, 0xDC09],
     [0xD83D, 0xDC0A],
     [0xD83D, 0xDC0B],
     [0xD83D, 0xDC0F],
     [0xD83D, 0xDC10],
     [0xD83D, 0xDC13],
     [0xD83D, 0xDC15],
     [0xD83D, 0xDC16],
     [0xD83D, 0xDC2A],
     [0xD83D, 0xDC65],
     [0xD83D, 0xDC6C],
     [0xD83D, 0xDC6D],
     [0xD83D, 0xDCAD],
     [0xD83D, 0xDCB6],
     [0xD83D, 0xDCB7],
     [0xD83D, 0xDCEC],
     [0xD83D, 0xDCED],
     [0xD83D, 0xDCEF],
     [0xD83D, 0xDCF5],
     [0xD83D, 0xDD00],
     [0xD83D, 0xDD01],
     [0xD83D, 0xDD02],
     [0xD83D, 0xDD04],
     [0xD83D, 0xDD05],
     [0xD83D, 0xDD06],
     [0xD83D, 0xDD07],
     [0xD83D, 0xDD09],
     [0xD83D, 0xDD15],
     [0xD83D, 0xDD2C],
     [0xD83D, 0xDD2D],
     [0xD83D, 0xDD5C],
     [0xD83D, 0xDD5D],
     [0xD83D, 0xDD5E],
     [0xD83D, 0xDD5F],
     [0xD83D, 0xDD60],
     [0xD83D, 0xDD61],
     [0xD83D, 0xDD62],
     [0xD83D, 0xDD63],
     [0xD83D, 0xDD64],
     [0xD83D, 0xDD65],
     [0xD83D, 0xDD66],
     [0xD83D, 0xDD67],
     [0xD83D, 0xDD08],
     [0xD83D, 0xDE8B],
     [0xD83C, 0xDFC5],
     [0xD83C, 0xDFF4],
     [0xD83D, 0xDCF8],
     [0xD83D, 0xDECC],
     [0xD83D, 0xDD95],
     [0xD83D, 0xDD96],
     [0xD83D, 0xDE41],
     [0xD83D, 0xDE42],
     [0xD83D, 0xDEEB],
     [0xD83D, 0xDEEC],
     [0xD83C, 0xDFFB],
     [0xD83C, 0xDFFC],
     [0xD83C, 0xDFFD],
     [0xD83C, 0xDFFE],
     [0xD83C, 0xDFFF],
     [0xD83D, 0xDE43],
     [0xD83E, 0xDD11],
     [0xD83E, 0xDD13],
     [0xD83E, 0xDD17],
     [0xD83D, 0xDE44],
     [0xD83E, 0xDD14],
     [0xD83E, 0xDD10],
     [0xD83E, 0xDD12],
     [0xD83E, 0xDD15],
     [0xD83E, 0xDD16],
     [0xD83E, 0xDD81],
     [0xD83E, 0xDD84],
     [0xD83E, 0xDD82],
     [0xD83E, 0xDD80],
     [0xD83E, 0xDD83],
     [0xD83E, 0xDDC0],
     [0xD83C, 0xDF2D],
     [0xD83C, 0xDF2E],
     [0xD83C, 0xDF2F],
     [0xD83C, 0xDF7F],
     [0xD83C, 0xDF7E],
     [0xD83C, 0xDFF9],
     [0xD83C, 0xDFFA],
     [0xD83D, 0xDED0],
     [0xD83D, 0xDD4B],
     [0xD83D, 0xDD4C],
     [0xD83D, 0xDD4D],
     [0xD83D, 0xDD4E],
     [0xD83D, 0xDCFF],
     [0xD83C, 0xDFCF],
     [0xD83C, 0xDFD0],
     [0xD83C, 0xDFD1]]"

definition unicodeRegexp_9 :: "jsstr list" where
  "unicodeRegexp_9 =
    [[0xD83C, 0xDFD2],
     [0xD83C, 0xDFD3],
     [0xD83C, 0xDFF8],
     [0xD83C, 0xDF26],
     [0xD83C, 0xDF25],
     [0xD83C, 0xDF24],
     [0xD83D, 0xDEF3],
     [0xD83D, 0xDEE9],
     [0xD83D, 0xDEE5],
     [0xD83D, 0xDEE4],
     [0xD83D, 0xDEE3],
     [0xD83D, 0xDECF],
     [0xD83D, 0xDECE],
     [0xD83D, 0xDECD],
     [0xD83D, 0xDECB],
     [0xD83C, 0xDFDF],
     [0xD83C, 0xDFDE],
     [0xD83C, 0xDFDD],
     [0xD83C, 0xDFDC],
     [0xD83C, 0xDFDB],
     [0xD83C, 0xDFDA],
     [0xD83C, 0xDFD9],
     [0xD83C, 0xDFD8],
     [0xD83C, 0xDFD7],
     [0xD83C, 0xDFD6],
     [0xD83C, 0xDFD5],
     [0xD83C, 0xDFD4],
     [0xD83D, 0xDD90],
     [0xD83D, 0xDD75],
     [0xD83D, 0xDD74],
     [0xD83D, 0xDC41],
     [0xD83C, 0xDF7D],
     [0xD83D, 0xDEF0],
     [0xD83D, 0xDEE2],
     [0xD83D, 0xDEE1],
     [0xD83D, 0xDEE0],
     [0xD83D, 0xDDFA],
     [0xD83D, 0xDDF3],
     [0xD83D, 0xDDEF],
     [0xD83D, 0xDDE3],
     [0xD83D, 0xDDE1],
     [0xD83D, 0xDDDE],
     [0xD83D, 0xDDDD],
     [0xD83D, 0xDDDC],
     [0xD83D, 0xDDD3],
     [0xD83D, 0xDDD2],
     [0xD83D, 0xDDD1],
     [0xD83D, 0xDDC4],
     [0xD83D, 0xDDC3],
     [0xD83D, 0xDDC2],
     [0xD83D, 0xDDBC],
     [0xD83D, 0xDDB2],
     [0xD83D, 0xDDA8],
     [0xD83D, 0xDDA5],
     [0xD83D, 0xDD8D],
     [0xD83D, 0xDD8C],
     [0xD83D, 0xDD8B],
     [0xD83D, 0xDD8A],
     [0xD83D, 0xDD87],
     [0xD83D, 0xDD79],
     [0xD83D, 0xDD76],
     [0xD83D, 0xDD73],
     [0xD83D, 0xDD70],
     [0xD83D, 0xDD6F],
     [0xD83D, 0xDD4A],
     [0xD83D, 0xDD49],
     [0xD83D, 0xDCFD],
     [0xD83C, 0xDFF7],
     [0xD83C, 0xDFF5],
     [0xD83C, 0xDFF3],
     [0xD83C, 0xDF9B],
     [0xD83C, 0xDF9A],
     [0xD83C, 0xDF99],
     [0xD83C, 0xDF21],
     [0xD83D, 0xDD78],
     [0xD83D, 0xDD77],
     [0xD83D, 0xDC3F],
     [0xD83C, 0xDF2C],
     [0xD83C, 0xDF2B],
     [0xD83C, 0xDF2A],
     [0xD83C, 0xDF29],
     [0xD83C, 0xDF28],
     [0xD83C, 0xDF27],
     [0xD83C, 0xDF36],
     [0xD83C, 0xDF97],
     [0xD83C, 0xDF96],
     [0xD83C, 0xDFCE],
     [0xD83C, 0xDFCD],
     [0xD83C, 0xDFCC],
     [0xD83C, 0xDFCB],
     [0xD83C, 0xDF9F],
     [0xD83C, 0xDF9E],
     [0xD83C, 0xDE37],
     [0xD83C, 0xDE2F],
     [0xD83C, 0xDE1A],
     [0xD83C, 0xDE02],
     [0xD83C, 0xDD7F],
     [0xD83C, 0xDC04],
     [0xD83C, 0xDFE1],
     [0x2714],
     [0x2733],
     [0x2734],
     [0x2744],
     [0x2747],
     [0x2757],
     [0x2764],
     [0x27A1],
     [0x2934],
     [0x2935],
     [0x2B05],
     [0x2B06],
     [0x2B07],
     [0x2B1B],
     [0x2B1C],
     [0x2B50],
     [0x2B55],
     [0x3030],
     [0x303D],
     [0x3297],
     [0x3299],
     [0x2712],
     [0x270F],
     [0x270C],
     [0x2709],
     [0x2708],
     [0x2702],
     [0x26FD],
     [0x26FA],
     [0x26F5],
     [0x26F3],
     [0x26F2],
     [0x26EA],
     [0x26D4],
     [0x26C5],
     [0x26C4],
     [0x26BE],
     [0x26BD],
     [0x26AB],
     [0x26AA],
     [0x26A1],
     [0x26A0],
     [0x2693],
     [0x267F],
     [0x267B],
     [0x2668],
     [0x2666],
     [0x2665],
     [0x2663],
     [0x2660],
     [0x2653],
     [0x2652],
     [0x2651],
     [0x271D],
     [0x2650],
     [0x264F],
     [0x264E],
     [0x264D],
     [0x264C],
     [0x264B],
     [0x264A],
     [0x2649],
     [0x2648],
     [0x263A],
     [0x261D],
     [0x2615],
     [0x2614],
     [0x2611],
     [0x2328],
     [0x260E],
     [0x2601],
     [0x2600],
     [0x25FE],
     [0x25FD],
     [0x25FC],
     [0x25FB],
     [0x25C0],
     [0x25B6],
     [0x25AB],
     [0x25AA],
     [0x24C2],
     [0x2716],
     [0x231A],
     [0x21AA],
     [0x21A9],
     [0x2199],
     [0x2198],
     [0x2197],
     [0x2196],
     [0x2195],
     [0x2194],
     [0x2139],
     [0x2122],
     [0x270D],
     [0x2049],
     [0x203C],
     [0xAE],
     [0xA9],
     [0x27BF],
     [0x27B0],
     [0x2797]]"

definition unicodeRegexp_10 :: "jsstr list" where
  "unicodeRegexp_10 =
    [[0x2796],
     [0x2795],
     [0x2755],
     [0x2754],
     [0x2753],
     [0x274E],
     [0x274C],
     [0x2728],
     [0x270B],
     [0x270A],
     [0x2705],
     [0x26CE],
     [0x23F3],
     [0x23F0],
     [0x23EC],
     [0x23ED],
     [0x23EE],
     [0x23EF],
     [0x23F1],
     [0x23F2],
     [0x23F8],
     [0x23F9],
     [0x23FA],
     [0x2602],
     [0x2603],
     [0x2604],
     [0x2618],
     [0x2620],
     [0x2622],
     [0x2623],
     [0x2626],
     [0x262A],
     [0x262E],
     [0x262F],
     [0x2638],
     [0x2639],
     [0x2692],
     [0x2694],
     [0x2696],
     [0x2697],
     [0x2699],
     [0x269B],
     [0x269C],
     [0x26B0],
     [0x26B1],
     [0x26C8],
     [0x26CF],
     [0x26D1],
     [0x26D3],
     [0x26E9],
     [0x26F0],
     [0x26F1],
     [0x26F4],
     [0x26F7],
     [0x26F8],
     [0x26F9],
     [0x2721],
     [0x2763],
     [0x23EB],
     [0x23EA],
     [0x23E9],
     [0x231B],
     [0xD83E, 0xDD19, 0xD83C, 0xDFFE],
     [0xD83E, 0xDD34, 0xD83C, 0xDFFB],
     [0xD83E, 0xDD34, 0xD83C, 0xDFFE],
     [0xD83E, 0xDD34, 0xD83C, 0xDFFF],
     [0xD83E, 0xDD36, 0xD83C, 0xDFFB],
     [0xD83E, 0xDD36, 0xD83C, 0xDFFC],
     [0xD83E, 0xDD36, 0xD83C, 0xDFFD],
     [0xD83E, 0xDD36, 0xD83C, 0xDFFE],
     [0xD83E, 0xDD36, 0xD83C, 0xDFFF],
     [0xD83E, 0xDD35, 0xD83C, 0xDFFB],
     [0xD83E, 0xDD35, 0xD83C, 0xDFFC],
     [0xD83E, 0xDD35, 0xD83C, 0xDFFD],
     [0xD83E, 0xDD35, 0xD83C, 0xDFFE],
     [0xD83E, 0xDD35, 0xD83C, 0xDFFF],
     [0xD83E, 0xDD37, 0xD83C, 0xDFFB],
     [0xD83E, 0xDD37, 0xD83C, 0xDFFC],
     [0xD83E, 0xDD37, 0xD83C, 0xDFFD],
     [0xD83E, 0xDD37, 0xD83C, 0xDFFE],
     [0xD83E, 0xDD37, 0xD83C, 0xDFFF],
     [0xD83E, 0xDD26, 0xD83C, 0xDFFB],
     [0xD83E, 0xDD26, 0xD83C, 0xDFFC],
     [0xD83E, 0xDD26, 0xD83C, 0xDFFD],
     [0xD83E, 0xDD26, 0xD83C, 0xDFFE],
     [0xD83E, 0xDD26, 0xD83C, 0xDFFF],
     [0xD83E, 0xDD30, 0xD83C, 0xDFFB],
     [0xD83E, 0xDD30, 0xD83C, 0xDFFC],
     [0xD83E, 0xDD30, 0xD83C, 0xDFFD],
     [0xD83E, 0xDD30, 0xD83C, 0xDFFE],
     [0xD83E, 0xDD30, 0xD83C, 0xDFFF],
     [0xD83D, 0xDD7A, 0xD83C, 0xDFFB],
     [0xD83D, 0xDD7A, 0xD83C, 0xDFFC],
     [0xD83D, 0xDD7A, 0xD83C, 0xDFFD],
     [0xD83D, 0xDD7A, 0xD83C, 0xDFFE],
     [0xD83D, 0xDD7A, 0xD83C, 0xDFFF],
     [0xD83E, 0xDD33, 0xD83C, 0xDFFB],
     [0xD83E, 0xDD33, 0xD83C, 0xDFFC],
     [0xD83E, 0xDD33, 0xD83C, 0xDFFD],
     [0xD83E, 0xDD33, 0xD83C, 0xDFFE],
     [0xD83E, 0xDD33, 0xD83C, 0xDFFF],
     [0xD83E, 0xDD1E, 0xD83C, 0xDFFB],
     [0xD83E, 0xDD1E, 0xD83C, 0xDFFC],
     [0xD83E, 0xDD1E, 0xD83C, 0xDFFD],
     [0xD83E, 0xDD1E, 0xD83C, 0xDFFE],
     [0xD83E, 0xDD1E, 0xD83C, 0xDFFF],
     [0xD83E, 0xDD19, 0xD83C, 0xDFFB],
     [0xD83E, 0xDD19, 0xD83C, 0xDFFC],
     [0xD83E, 0xDD19, 0xD83C, 0xDFFD],
     [0xD83E, 0xDD34, 0xD83C, 0xDFFD],
     [0xD83E, 0xDD19, 0xD83C, 0xDFFF],
     [0xD83E, 0xDD1B, 0xD83C, 0xDFFB],
     [0xD83E, 0xDD1B, 0xD83C, 0xDFFC],
     [0xD83E, 0xDD1B, 0xD83C, 0xDFFD],
     [0xD83E, 0xDD1B, 0xD83C, 0xDFFE],
     [0xD83E, 0xDD1B, 0xD83C, 0xDFFF],
     [0xD83E, 0xDD1C, 0xD83C, 0xDFFB],
     [0xD83E, 0xDD1C, 0xD83C, 0xDFFC],
     [0xD83E, 0xDD1C, 0xD83C, 0xDFFD],
     [0xD83E, 0xDD1C, 0xD83C, 0xDFFE],
     [0xD83E, 0xDD1C, 0xD83C, 0xDFFF],
     [0xD83E, 0xDD1A, 0xD83C, 0xDFFB],
     [0xD83E, 0xDD1A, 0xD83C, 0xDFFC],
     [0xD83E, 0xDD1A, 0xD83C, 0xDFFD],
     [0xD83E, 0xDD1A, 0xD83C, 0xDFFE],
     [0xD83E, 0xDD1A, 0xD83C, 0xDFFF],
     [0xD83E, 0xDD1D, 0xD83C, 0xDFFB],
     [0xD83E, 0xDD1D, 0xD83C, 0xDFFC],
     [0xD83E, 0xDD1D, 0xD83C, 0xDFFD],
     [0xD83E, 0xDD1D, 0xD83C, 0xDFFE],
     [0xD83E, 0xDD1D, 0xD83C, 0xDFFF],
     [0xD83E, 0xDD38, 0xD83C, 0xDFFB],
     [0xD83E, 0xDD38, 0xD83C, 0xDFFC],
     [0xD83E, 0xDD38, 0xD83C, 0xDFFD],
     [0xD83E, 0xDD38, 0xD83C, 0xDFFE],
     [0xD83E, 0xDD38, 0xD83C, 0xDFFF],
     [0xD83E, 0xDD3C, 0xD83C, 0xDFFC],
     [0xD83E, 0xDD3C, 0xD83C, 0xDFFB],
     [0xD83E, 0xDD3C, 0xD83C, 0xDFFD],
     [0xD83E, 0xDD3C, 0xD83C, 0xDFFE],
     [0xD83E, 0xDD3C, 0xD83C, 0xDFFF],
     [0xD83E, 0xDD3D, 0xD83C, 0xDFFB],
     [0xD83E, 0xDD3D, 0xD83C, 0xDFFC],
     [0xD83E, 0xDD3D, 0xD83C, 0xDFFD],
     [0xD83E, 0xDD3D, 0xD83C, 0xDFFE],
     [0xD83E, 0xDD3D, 0xD83C, 0xDFFF],
     [0xD83E, 0xDD3E, 0xD83C, 0xDFFB],
     [0xD83E, 0xDD3E, 0xD83C, 0xDFFC],
     [0xD83E, 0xDD3E, 0xD83C, 0xDFFD],
     [0xD83E, 0xDD3E, 0xD83C, 0xDFFE],
     [0xD83E, 0xDD3E, 0xD83C, 0xDFFF],
     [0xD83E, 0xDD39, 0xD83C, 0xDFFB],
     [0xD83E, 0xDD39, 0xD83C, 0xDFFC],
     [0xD83E, 0xDD39, 0xD83C, 0xDFFD],
     [0xD83E, 0xDD39, 0xD83C, 0xDFFE],
     [0xD83E, 0xDD39, 0xD83C, 0xDFFF],
     [0xD83E, 0xDD34, 0xD83C, 0xDFFC],
     [0xD83E, 0xDD49],
     [0xD83E, 0xDD48],
     [0xD83E, 0xDD47],
     [0xD83E, 0xDD3A],
     [0xD83E, 0xDD45],
     [0xD83E, 0xDD3E],
     [0xD83C, 0xDDFF],
     [0xD83E, 0xDD3D],
     [0xD83E, 0xDD4B],
     [0xD83E, 0xDD4A],
     [0xD83E, 0xDD3C],
     [0xD83E, 0xDD39],
     [0xD83E, 0xDD38],
     [0xD83D, 0xDEF6],
     [0xD83D, 0xDEF5],
     [0xD83D, 0xDEF4],
     [0xD83D, 0xDED2],
     [0xD83D, 0xDED1],
     [0xD83C, 0xDDFE],
     [0xD83E, 0xDD44],
     [0xD83E, 0xDD42],
     [0xD83E, 0xDD43],
     [0xD83E, 0xDD59],
     [0xD83E, 0xDD58],
     [0xD83E, 0xDD57],
     [0xD83E, 0xDD56],
     [0xD83E, 0xDD55],
     [0xD83E, 0xDD54],
     [0xD83E, 0xDD53],
     [0xD83E, 0xDD52],
     [0xD83E, 0xDD51],
     [0xD83E, 0xDD50],
     [0xD83E, 0xDD40],
     [0xD83E, 0xDD8F],
     [0xD83E, 0xDD8E],
     [0xD83E, 0xDD8D],
     [0xD83E, 0xDD8C],
     [0xD83E, 0xDD8B],
     [0xD83E, 0xDD8A],
     [0xD83E, 0xDD89],
     [0xD83E, 0xDD88],
     [0xD83E, 0xDD87],
     [0xD83C, 0xDDFD]]"

definition unicodeRegexp_11 :: "jsstr list" where
  "unicodeRegexp_11 =
    [[0xD83E, 0xDD86],
     [0xD83E, 0xDD85],
     [0xD83D, 0xDDA4],
     [0xD83E, 0xDD1E],
     [0xD83E, 0xDD1D],
     [0xD83E, 0xDD1B],
     [0xD83E, 0xDD1C],
     [0xD83E, 0xDD1A],
     [0xD83E, 0xDD19],
     [0xD83D, 0xDD7A],
     [0xD83E, 0xDD33],
     [0xD83E, 0xDD30],
     [0xD83E, 0xDD26],
     [0xD83E, 0xDD37],
     [0xD83E, 0xDD36],
     [0xD83E, 0xDD35],
     [0xD83E, 0xDD34],
     [0xD83E, 0xDD27],
     [0xD83E, 0xDD25],
     [0xD83E, 0xDD24],
     [0xD83E, 0xDD23],
     [0xD83E, 0xDD22],
     [0xD83E, 0xDD21],
     [0xD83E, 0xDD20],
     [0xD83E, 0xDD41],
     [0xD83E, 0xDD90],
     [0xD83E, 0xDD91],
     [0xD83E, 0xDD5A],
     [0xD83E, 0xDD5B],
     [0xD83E, 0xDD5C],
     [0xD83E, 0xDD5D],
     [0xD83E, 0xDD5E],
     [0xD83C, 0xDDFC],
     [0xD83C, 0xDDFB],
     [0xD83C, 0xDDFA],
     [0xD83C, 0xDDF9],
     [0xD83C, 0xDDF8],
     [0xD83C, 0xDDF7],
     [0xD83C, 0xDDF6],
     [0xD83C, 0xDDF5],
     [0xD83C, 0xDDF4],
     [0xD83C, 0xDDF3],
     [0xD83C, 0xDDF2],
     [0xD83C, 0xDDF1],
     [0xD83C, 0xDDF0],
     [0xD83C, 0xDDEF],
     [0xD83C, 0xDDEE],
     [0xD83C, 0xDDED],
     [0xD83C, 0xDDEC],
     [0xD83C, 0xDDEB],
     [0xD83C, 0xDDEA],
     [0xD83C, 0xDDE9],
     [0xD83C, 0xDDE8],
     [0xD83C, 0xDDE7],
     [0xD83C, 0xDDE6],
     [0xD83C, 0xDF26],
     [0xD83C, 0xDF25],
     [0xD83C, 0xDF24],
     [0xD83D, 0xDEF3],
     [0xD83D, 0xDEE9],
     [0xD83D, 0xDEE5],
     [0xD83D, 0xDEE4],
     [0xD83D, 0xDEE3],
     [0xD83D, 0xDECF],
     [0xD83D, 0xDECE],
     [0xD83D, 0xDECD],
     [0xD83D, 0xDECB],
     [0xD83C, 0xDFDF],
     [0xD83C, 0xDFDE],
     [0xD83C, 0xDFDD],
     [0xD83C, 0xDFDC],
     [0xD83C, 0xDFDB],
     [0xD83C, 0xDFDA],
     [0xD83C, 0xDFD9],
     [0xD83C, 0xDFD8],
     [0xD83C, 0xDFD7],
     [0xD83C, 0xDFD6],
     [0xD83C, 0xDFD5],
     [0xD83C, 0xDFD4],
     [0xD83D, 0xDD90],
     [0xD83D, 0xDD75],
     [0xD83D, 0xDD74],
     [0xD83D, 0xDC41],
     [0xD83C, 0xDF7D],
     [0xD83D, 0xDDB1],
     [0xD83D, 0xDEF0],
     [0xD83D, 0xDEE2],
     [0xD83D, 0xDEE1],
     [0xD83D, 0xDEE0],
     [0xD83D, 0xDDFA],
     [0xD83D, 0xDDF3],
     [0xD83D, 0xDDEF],
     [0xD83D, 0xDDE8],
     [0xD83D, 0xDDE3],
     [0xD83D, 0xDDE1],
     [0xD83D, 0xDDDE],
     [0xD83D, 0xDDDD],
     [0xD83D, 0xDDDC],
     [0xD83D, 0xDDD3],
     [0xD83D, 0xDDD2],
     [0xD83D, 0xDDD1],
     [0xD83D, 0xDDC4],
     [0xD83D, 0xDDC3],
     [0xD83D, 0xDDC2],
     [0xD83D, 0xDDBC],
     [0xD83D, 0xDDB2],
     [0xD83D, 0xDDA8],
     [0xD83D, 0xDDA5],
     [0xD83D, 0xDD8D],
     [0xD83D, 0xDD8C],
     [0xD83D, 0xDD8B],
     [0xD83D, 0xDD8A],
     [0xD83D, 0xDD87],
     [0xD83D, 0xDD79],
     [0xD83D, 0xDD76],
     [0xD83D, 0xDD73],
     [0xD83D, 0xDD70],
     [0xD83D, 0xDD6F],
     [0xD83D, 0xDD4A],
     [0xD83D, 0xDD49],
     [0xD83D, 0xDCFD],
     [0xD83C, 0xDFF7],
     [0xD83C, 0xDFF5],
     [0xD83C, 0xDFF3],
     [0xD83C, 0xDF9B],
     [0xD83C, 0xDF9A],
     [0xD83C, 0xDF99],
     [0xD83C, 0xDF21],
     [0xD83D, 0xDD78],
     [0xD83D, 0xDD77],
     [0xD83D, 0xDC3F],
     [0xD83C, 0xDF2C],
     [0xD83C, 0xDF2B],
     [0xD83C, 0xDF2A],
     [0xD83C, 0xDF29],
     [0xD83C, 0xDF28],
     [0xD83C, 0xDF27],
     [0xD83C, 0xDF36],
     [0xD83C, 0xDF97],
     [0xD83C, 0xDF96],
     [0xD83C, 0xDFCE],
     [0xD83C, 0xDFCD],
     [0xD83C, 0xDFCC],
     [0xD83C, 0xDFCB],
     [0xD83C, 0xDF9F],
     [0xD83C, 0xDF9E],
     [0xD83C, 0xDE37],
     [0xD83C, 0xDE2F],
     [0xD83C, 0xDE1A],
     [0xD83C, 0xDE02],
     [0xD83C, 0xDD7F],
     [0xD83C, 0xDC04],
     [0x25C0],
     [0x2B05],
     [0x2B07],
     [0x2B1B],
     [0x2B1C],
     [0x2B50],
     [0x2B55],
     [0x3030],
     [0x303D],
     [0x3297],
     [0x3299],
     [0x2935],
     [0x2934],
     [0x27A1],
     [0x2764],
     [0x2757],
     [0x2747],
     [0x2744],
     [0x2734],
     [0x2733],
     [0x2716],
     [0x2714],
     [0x2712],
     [0x270F],
     [0x270C],
     [0x2709],
     [0x2708],
     [0x2702],
     [0x26FD],
     [0x26FA],
     [0x26F5],
     [0x26F3],
     [0x26F2],
     [0x26EA],
     [0x26D4],
     [0x26C5],
     [0x26C4],
     [0x26BE],
     [0x26BD],
     [0x26AB],
     [0x26AA],
     [0x26A1],
     [0x26A0],
     [0x271D],
     [0x2693],
     [0x267F],
     [0x267B],
     [0x2668]]"

definition unicodeRegexp_12 :: "jsstr list" where
  "unicodeRegexp_12 =
    [[0x2666],
     [0x2665],
     [0x2663],
     [0x2660],
     [0x2653],
     [0x2652],
     [0x2651],
     [0x2650],
     [0x264F],
     [0x264E],
     [0x2328],
     [0x264D],
     [0x264C],
     [0x264B],
     [0x264A],
     [0x2649],
     [0x2648],
     [0x263A],
     [0x261D],
     [0x2615],
     [0x2614],
     [0x2611],
     [0x260E],
     [0x2601],
     [0x2600],
     [0x25FE],
     [0x25FD],
     [0x25FC],
     [0x25FB],
     [0x2B06],
     [0x25B6],
     [0x25AB],
     [0x24C2],
     [0x231B],
     [0x231A],
     [0x21AA],
     [0x270D],
     [0x21A9],
     [0x2199],
     [0x2198],
     [0x2197],
     [0x2196],
     [0x2195],
     [0x2194],
     [0x2139],
     [0x2122],
     [0x2049],
     [0x203C],
     [0xAE],
     [0xA9],
     [0x2763],
     [0x2721],
     [0x26F9],
     [0x26F8],
     [0x26F7],
     [0x26F4],
     [0x26F1],
     [0x26F0],
     [0x26E9],
     [0x23CF],
     [0x23ED],
     [0x23EE],
     [0x23EF],
     [0x23F1],
     [0x23F2],
     [0x23F8],
     [0x23F9],
     [0x23FA],
     [0x2602],
     [0x2603],
     [0x2604],
     [0x2618],
     [0x2620],
     [0x2622],
     [0x2623],
     [0x2626],
     [0x262A],
     [0x262E],
     [0x262F],
     [0x2638],
     [0x2639],
     [0x2692],
     [0x2694],
     [0x2696],
     [0x2697],
     [0x2699],
     [0x269B],
     [0x269C],
     [0x26B0],
     [0x26B1],
     [0x26C8],
     [0x26CF],
     [0x26D1],
     [0x26D3],
     [0x25AA]]"

definition unicodeRegexp :: "jsstr list" where
  "unicodeRegexp =
    unicodeRegexp_1 @ unicodeRegexp_2 @ unicodeRegexp_3 @ unicodeRegexp_4 @ unicodeRegexp_5 @ unicodeRegexp_6 @ unicodeRegexp_7 @ unicodeRegexp_8 @ unicodeRegexp_9 @ unicodeRegexp_10 @ unicodeRegexp_11 @ unicodeRegexp_12"

end
