(* ===== verification/Emojione.thy ===== *)
theory Emojione
  imports EmojiData
begin

text \<open>
  \<^verbatim>\<open>src/src/qt/res/assets/plugins/emojione/emojione.js\<close>: conversion between short names, ASCII smileys,
  Unicode and image markup. The regular expressions are matchers on code units; those with the flag for ignoring
  case compare canonical forms, which for patterns of ASCII letters is upper-casing and otherwise a parameter
  \<open>canon\<close>. The memoized reverse maps are a record that the functions using them pass along.
\<close>

section \<open>Settings\<close>

record emoji_settings =
  imagePathPNG :: string
  imagePathSVG :: string
  imagePathSVGSprites :: string
  imageType :: string
  sprites :: bool
  unicodeAlt :: bool
  ascii :: bool
  cacheBustParam :: string

definition ns_default :: emoji_settings where
  "ns_default =
     \<lparr>imagePathPNG = ''//cdn.jsdelivr.net/emojione/assets/png/'',
      imagePathSVG = ''qrc:///assets/plugins/emojione/qrc:///assets/svg/'',
      imagePathSVGSprites = ''./../assets/sprites/emojione.sprites.svg'',
      imageType = ''svg'', sprites = False, unicodeAlt = True, ascii = True, cacheBustParam = ''?v=2.2.6''\<rparr>"

section \<open>Code points\<close>

fun split_dash :: "string \<Rightarrow> string \<Rightarrow> string list" where
  "split_dash acc [] = [rev acc]"
| "split_dash acc (c # cs) = (if c = CHR ''-'' then rev acc # split_dash [] cs else split_dash (c # acc) cs)"

text \<open>One code point; the missing digits of \<^verbatim>\<open>NaN\<close> give the unit zero.\<close>

definition convert_part :: "string \<Rightarrow> jsstr" where
  "convert_part p =
     (case parseHex p of None \<Rightarrow> fromCharCode 0
      | Some s \<Rightarrow>
          if s \<ge> 0x10000 \<and> s \<le> 0x10FFFF
          then fromCharCode ((s - 0x10000) div 0x400 + 0xD800) @ fromCharCode ((s - 0x10000) mod 0x400 + 0xDC00)
          else fromCharCode s)"

definition convert :: "string \<Rightarrow> jsstr" where
  "convert u =
     (if CHR ''-'' \<in> set u then concat (map convert_part (split_dash [] u)) else convert_part u)"

definition to_upper :: "string \<Rightarrow> string" where
  "to_upper s = map (\<lambda>c. char_of (ascii_upper (of_char c))) s"

section \<open>HTML escapes\<close>

definition html_escaped :: "nat \<Rightarrow> string option" where
  "html_escaped c =
     (if c = 0x26 then Some ''&amp;'' else if c = 0x3C then Some ''&lt;'' else if c = 0x3E then Some ''&gt;''
      else if c = 0x22 then Some ''&quot;'' else if c = 0x27 then Some ''&#039;'' else None)"

definition escapeHTML :: "jsstr \<Rightarrow> jsstr" where
  "escapeHTML s =
     replace_g (\<lambda>st t. case t of [] \<Rightarrow> None | c # _ \<Rightarrow> if html_escaped c = None then None else Some (1, ()))
       (\<lambda>match _. js (the (html_escaped (hd match)))) True s"

definition html_unescaped :: "(string \<times> nat) list" where
  "html_unescaped =
     [(''&amp;'', 0x26), (''&#38;'', 0x26), (''&#x26;'', 0x26),
      (''&lt;'', 0x3C), (''&#60;'', 0x3C), (''&#x3C;'', 0x3C),
      (''&gt;'', 0x3E), (''&#62;'', 0x3E), (''&#x3E;'', 0x3E),
      (''&quot;'', 0x22), (''&#34;'', 0x22), (''&#x22;'', 0x22),
      (''&apos;'', 0x27), (''&#39;'', 0x27), (''&#x27;'', 0x27)]"

text \<open>The alternatives of the pattern, in its order; the match ignores case.\<close>

definition html_entities :: "jsstr list" where
  "html_entities =
     map js [''&amp;'', ''&#38;'', ''&#x26;'', ''&lt;'', ''&#60;'', ''&#x3C;'', ''&gt;'', ''&#62;'', ''&#x3E;'',
       ''&apos;'', ''&#39;'', ''&#x27;'', ''&quot;'', ''&#34;'', ''&#x22;'']"

text \<open>A callback that returns \<^verbatim>\<open>undefined\<close> inserts that word.\<close>

definition unescapeHTML :: "jsstr \<Rightarrow> jsstr" where
  "unescapeHTML s =
     replace_g (\<lambda>st t. map_option (\<lambda>p. (length p, ())) (first_alt ascii_upper html_entities t))
       (\<lambda>match _. case obj_get (map (\<lambda>(k, v). (js k, v)) html_unescaped) match of
                    Some c \<Rightarrow> [c] | None \<Rightarrow> js ''undefined'') True s"

section \<open>Markup\<close>

text \<open>The units up to and including the first closing bracket.\<close>

fun upto_gt :: "jsstr \<Rightarrow> nat option" where
  "upto_gt [] = None"
| "upto_gt (c # cs) = (if c = 0x3E then Some 1 else map_option Suc (upto_gt cs))"

fun find_close :: "(nat \<Rightarrow> nat) \<Rightarrow> jsstr \<Rightarrow> jsstr \<Rightarrow> nat option" where
  "find_close canon close [] = (if starts canon close [] then Some (length close) else None)"
| "find_close canon close (c # cs) =
     (if starts canon close (c # cs) then Some (length close)
      else if is_line_terminator c then None else map_option Suc (find_close canon close cs))"

text \<open>An element with its content, without a line break in between, and an opening tag.\<close>

definition match_block :: "(nat \<Rightarrow> nat) \<Rightarrow> string \<Rightarrow> jsstr \<Rightarrow> nat option" where
  "match_block canon name s =
     (if starts canon (js (CHR ''<'' # name)) s then
        (case upto_gt (drop (Suc (length name)) s) of None \<Rightarrow> None
         | Some k \<Rightarrow>
             map_option (\<lambda>j. Suc (length name) + k + j)
               (find_close canon (js (''</'' @ name @ ''>'')) (drop (Suc (length name) + k) s)))
      else None)"

definition open_tags :: "string list" where
  "open_tags = [''object'', ''embed'', ''svg'', ''img'', ''div'', ''span'', ''p'', ''a'']"

definition match_open :: "(nat \<Rightarrow> nat) \<Rightarrow> jsstr \<Rightarrow> nat option" where
  "match_open canon s =
     (if list_ex (\<lambda>n. starts canon (js (CHR ''<'' # n)) s) open_tags then upto_gt s else None)"

definition match_html :: "(nat \<Rightarrow> nat) \<Rightarrow> jsstr \<Rightarrow> nat option" where
  "match_html canon s =
     (case match_block canon ''object'' s of Some n \<Rightarrow> Some n
      | None \<Rightarrow> (case match_block canon ''span'' s of Some n \<Rightarrow> Some n | None \<Rightarrow> match_open canon s))"

text \<open>The patterns: markup, or one of a list of literals as the first group.\<close>

definition reg_literals :: "(nat \<Rightarrow> nat) \<Rightarrow> jsstr list \<Rightarrow> jsstr option matcher" where
  "reg_literals canon alts st s =
     (case match_html canon s of Some n \<Rightarrow> Some (n, None)
      | None \<Rightarrow> map_option (\<lambda>p. (length p, Some (take (length p) s))) (first_alt canon alts s))"

definition shortnames :: "jsstr list" where
  "shortnames = map (js \<circ> fst) emojioneList"

definition regShortNames :: "jsstr option matcher" where
  "regShortNames = reg_literals ascii_upper shortnames"

definition regUnicode :: "(nat \<Rightarrow> nat) \<Rightarrow> jsstr option matcher" where
  "regUnicode canon = reg_literals canon unicodeRegexp"

text \<open>The look-ahead behind a smiley, and the smiley after white space or at the start, with its two groups.\<close>

definition ascii_end :: "jsstr \<Rightarrow> bool" where
  "ascii_end s \<longleftrightarrow> (case s of [] \<Rightarrow> True
     | c # _ \<Rightarrow> is_space c \<or> c = 0x21 \<or> c = 0x2C \<or> c = 0x2E \<or> c = 0x3F)"

definition match_smiley :: "jsstr \<Rightarrow> jsstr option" where
  "match_smiley s = find (\<lambda>p. starts id p s \<and> ascii_end (drop (length p) s)) (map js asciiRegexp)"

definition regAscii :: "(jsstr \<times> jsstr) option matcher" where
  "regAscii st s =
     (case match_html id s of Some n \<Rightarrow> Some (n, None)
      | None \<Rightarrow>
          (case (case s of [] \<Rightarrow> None
                 | c # cs \<Rightarrow> if is_space c then map_option (\<lambda>p. ([c], p)) (match_smiley cs) else None) of
             Some (m2, p) \<Rightarrow> Some (Suc (length p), Some (m2, p))
           | None \<Rightarrow> if st then map_option (\<lambda>p. (length p, Some ([], p))) (match_smiley s) else None))"

section \<open>Conversions of text\<close>

definition emoji_of :: "jsstr \<Rightarrow> emoji option" where
  "emoji_of shortname = obj_get (map (\<lambda>(k, v). (js k, v)) emojioneList) shortname"

definition ascii_of :: "jsstr \<Rightarrow> string option" where
  "ascii_of m = obj_get (map (\<lambda>(k, v). (js k, v)) asciiList) m"

definition objectFlip :: "('k \<times> 'v) list \<Rightarrow> ('v \<times> 'k) list" where
  "objectFlip obj = map (\<lambda>(k, v). (v, k)) obj"

definition shortnameToAscii :: "jsstr \<Rightarrow> jsstr" where
  "shortnameToAscii str =
     (let unicodeToAscii = objectFlip asciiList in
      replace_g regShortNames
        (\<lambda>shortname _. case emoji_of shortname of None \<Rightarrow> shortname
           | Some e \<Rightarrow> (case obj_get unicodeToAscii (last (unicode e)) of Some a \<Rightarrow> js a | None \<Rightarrow> shortname))
        True str)"

definition shortname_pass :: "jsstr \<Rightarrow> jsstr" where
  "shortname_pass str =
     replace_g regShortNames
       (\<lambda>shortname _. case emoji_of shortname of None \<Rightarrow> shortname
          | Some e \<Rightarrow> convert (to_upper (unicode e ! 0))) True str"

definition ascii_unicode :: "jsstr \<Rightarrow> (jsstr \<times> jsstr) option \<Rightarrow> jsstr" where
  "ascii_unicode entire g =
     (case g of None \<Rightarrow> entire
      | Some (m2, m3) \<Rightarrow>
          if m3 = [] then entire
          else (case ascii_of (unescapeHTML m3) of None \<Rightarrow> entire
                | Some code \<Rightarrow> m2 @ convert (to_upper code)))"

definition shortnameToUnicode :: "emoji_settings \<Rightarrow> jsstr \<Rightarrow> jsstr" where
  "shortnameToUnicode ns str =
     (let str1 = shortname_pass str in if ascii ns then replace_g regAscii ascii_unicode True str1 else str1)"

text \<open>The markup that replaces an emoji: code point, title and alternative text.\<close>

definition img_png :: "emoji_settings \<Rightarrow> string \<Rightarrow> jsstr \<Rightarrow> jsstr" where
  \<open>img_png ns code alt =
     js ''<img class="emojione" alt="'' @ alt @ js ''" src="'' @ js (imagePathPNG ns) @ js code @ js ''.png''
       @ js (cacheBustParam ns) @ js ''"/>''\<close>

definition span_png :: "string \<Rightarrow> jsstr \<Rightarrow> jsstr \<Rightarrow> jsstr" where
  \<open>span_png code title alt =
     js ''<span class="emojione emojione-'' @ js code @ js ''" title="'' @ title @ js ''">'' @ alt @ js ''</span>''\<close>

definition svg_sprite :: "emoji_settings \<Rightarrow> string \<Rightarrow> jsstr \<Rightarrow> jsstr" where
  \<open>svg_sprite ns code alt =
     js ''<svg class="emojione"><description>'' @ alt @ js ''</description><use xlink:href="''
       @ js (imagePathSVGSprites ns) @ js ''#emoji-'' @ js code @ js ''"></use></svg>''\<close>

definition svg_object :: "emoji_settings \<Rightarrow> string \<Rightarrow> jsstr \<Rightarrow> jsstr" where
  \<open>svg_object ns code alt =
     js ''<object class="emojione" data="'' @ js (imagePathSVG ns) @ js code @ js ''.svg'' @ js (cacheBustParam ns)
       @ js ''" type="image/svg+xml" standby="'' @ alt @ js ''">'' @ alt @ js ''</object>''\<close>

definition svg_img :: "emoji_settings \<Rightarrow> string \<Rightarrow> jsstr \<Rightarrow> jsstr" where
  \<open>svg_img ns code alt =
     js ''<img class="emojione" alt="'' @ alt @ js ''" src="'' @ js (imagePathSVG ns) @ js code @ js ''.svg''
       @ js (cacheBustParam ns) @ js ''"/>''\<close>

definition shortname_image :: "emoji_settings \<Rightarrow> jsstr \<Rightarrow> jsstr" where
  "shortname_image ns shortname =
     (case emoji_of shortname of None \<Rightarrow> shortname
      | Some e \<Rightarrow>
          let code = last (unicode e);
              alt = (if unicodeAlt ns then convert (to_upper code) else shortname)
          in if imageType ns = ''png''
             then (if sprites ns then span_png code shortname alt else img_png ns code alt)
             else (if sprites ns then svg_sprite ns code alt else svg_object ns code alt))"

text \<open>In the sprite case of vector images the character before the smiley is lost, as in the source.\<close>

definition ascii_image :: "emoji_settings \<Rightarrow> jsstr \<Rightarrow> (jsstr \<times> jsstr) option \<Rightarrow> jsstr" where
  "ascii_image ns entire g =
     (case g of None \<Rightarrow> entire
      | Some (m2, m30) \<Rightarrow>
          if m30 = [] then entire
          else (case ascii_of (unescapeHTML m30) of None \<Rightarrow> entire
                | Some code \<Rightarrow>
                    let m3 = unescapeHTML m30;
                        alt = (if unicodeAlt ns then convert (to_upper code) else escapeHTML m3)
                    in if imageType ns = ''png''
                       then (if sprites ns then m2 @ span_png code (escapeHTML m3) alt else m2 @ img_png ns code alt)
                       else (if sprites ns then svg_sprite ns code alt else m2 @ svg_object ns code alt)))"

definition shortnameToImage :: "emoji_settings \<Rightarrow> jsstr \<Rightarrow> jsstr" where
  "shortnameToImage ns str =
     (let str1 = replace_g regShortNames (\<lambda>shortname _. shortname_image ns shortname) True str
      in if ascii ns then replace_g regAscii (ascii_image ns) True str1 else str1)"

section \<open>Reverse maps, memoized\<close>

definition mapEmojioneList :: "(string \<Rightarrow> string \<Rightarrow> 's \<Rightarrow> 's) \<Rightarrow> 's \<Rightarrow> 's" where
  "mapEmojioneList addToMapStorage s =
     fold (\<lambda>(shortname, e) s. fold (\<lambda>u s. addToMapStorage u shortname s) (unicode e) s) emojioneList s"

record emoji_memo =
  memMapShortToUnicode :: "(string \<rightharpoonup> string) option"
  memMapShortToUnicodeCharacters :: "(jsstr \<rightharpoonup> string) option"
  unicodeReplacementRegEx :: "jsstr list option"

definition mapUnicodeToShort :: "emoji_memo \<Rightarrow> (string \<rightharpoonup> string) \<times> emoji_memo" where
  "mapUnicodeToShort mem =
     (case memMapShortToUnicode mem of Some m \<Rightarrow> (m, mem)
      | None \<Rightarrow>
          let m = mapEmojioneList (\<lambda>u shortname m. m(u \<mapsto> shortname)) Map.empty
          in (m, mem\<lparr>memMapShortToUnicode := Some m\<rparr>))"

text \<open>The pattern joins the characters by bars, so it is kept as the list of its alternatives.\<close>

definition replacement_tables :: "(jsstr \<rightharpoonup> string) \<times> jsstr list" where
  "replacement_tables =
     mapEmojioneList
       (\<lambda>u shortname (m, l).
          (case emoji_of (js shortname) of
             Some e \<Rightarrow> (if isCanonical e then m(convert u \<mapsto> shortname) else m)
           | None \<Rightarrow> m, l @ [convert u])) (Map.empty, [])"

definition memoizeReplacement :: "emoji_memo \<Rightarrow> emoji_memo" where
  "memoizeReplacement mem =
     (if unicodeReplacementRegEx mem = None \<or> memMapShortToUnicodeCharacters mem = None
      then case replacement_tables of (m, l) \<Rightarrow>
        mem\<lparr>memMapShortToUnicodeCharacters := Some m, unicodeReplacementRegEx := Some l\<rparr>
      else mem)"

definition mapUnicodeCharactersToShort :: "emoji_memo \<Rightarrow> (jsstr \<rightharpoonup> string) \<times> emoji_memo" where
  "mapUnicodeCharactersToShort mem =
     (let mem1 = memoizeReplacement mem in (the (memMapShortToUnicodeCharacters mem1), mem1))"

definition getUnicodeReplacementRegEx :: "emoji_memo \<Rightarrow> jsstr list \<times> emoji_memo" where
  "getUnicodeReplacementRegEx mem =
     (let mem1 = memoizeReplacement mem in (the (unicodeReplacementRegEx mem1), mem1))"

definition regexp_special :: "nat \<Rightarrow> bool" where
  "regexp_special c \<longleftrightarrow> c \<in> of_char ` set ''-[]{}()*+?.,;:&^$#'' \<or> c = 0x5C \<or> is_space c"

definition escapeRegExp :: "jsstr \<Rightarrow> jsstr" where
  "escapeRegExp s = concat (map (\<lambda>c. if regexp_special c then [0x5C, c] else [c]) s)"

text \<open>
  The characters that \<^verbatim>\<open>escapeRegExp\<close> guards stand for themselves afterwards, and the bars are kept: the
  pattern is the alternation of the literals. A missing replacement inserts the word \<^verbatim>\<open>undefined\<close>.
\<close>

definition replaceAll :: "(nat \<Rightarrow> nat) \<Rightarrow> jsstr \<Rightarrow> jsstr list \<Rightarrow> (jsstr \<rightharpoonup> string) \<Rightarrow> jsstr" where
  "replaceAll canon str pats replacementList =
     replace_g (reg_literals canon pats)
       (\<lambda>entire g. case g of None \<Rightarrow> entire
          | Some m1 \<Rightarrow> if m1 = [] then entire
                       else (case replacementList m1 of Some r \<Rightarrow> js r | None \<Rightarrow> js ''undefined'')) True str"

definition toShort :: "(nat \<Rightarrow> nat) \<Rightarrow> emoji_memo \<Rightarrow> jsstr \<Rightarrow> jsstr \<times> emoji_memo" where
  "toShort canon mem str =
     (case getUnicodeReplacementRegEx mem of (pats, mem1) \<Rightarrow>
      (case mapUnicodeCharactersToShort mem1 of (replacementList, mem2) \<Rightarrow>
         (replaceAll canon str pats replacementList, mem2)))"

definition unicode_image :: "emoji_settings \<Rightarrow> (string \<rightharpoonup> string) \<Rightarrow> jsstr \<Rightarrow> jsstr" where
  "unicode_image ns mappedUnicode unicodeChar =
     (if unicodeChar = [] then unicodeChar
      else (case obj_get jsEscapeMap unicodeChar of None \<Rightarrow> unicodeChar
            | Some code \<Rightarrow>
                let short = (case mappedUnicode code of Some n \<Rightarrow> js n | None \<Rightarrow> js ''undefined'');
                    alt = (if unicodeAlt ns then convert (to_upper code) else short)
                in if imageType ns = ''png''
                   then (if sprites ns then span_png code short alt else img_png ns code alt)
                   else (if sprites ns then svg_sprite ns code alt else svg_img ns code alt)))"

definition unicodeToImage :: "emoji_settings \<Rightarrow> (nat \<Rightarrow> nat) \<Rightarrow> emoji_memo \<Rightarrow> jsstr \<Rightarrow> jsstr \<times> emoji_memo" where
  "unicodeToImage ns canon mem str =
     (case (if \<not> unicodeAlt ns \<or> sprites ns then mapUnicodeToShort mem else (Map.empty, mem)) of
        (mappedUnicode, mem1) \<Rightarrow>
          (replace_g (regUnicode canon) (\<lambda>unicodeChar _. unicode_image ns mappedUnicode unicodeChar) True str, mem1))"

definition toImage :: "emoji_settings \<Rightarrow> (nat \<Rightarrow> nat) \<Rightarrow> emoji_memo \<Rightarrow> jsstr \<Rightarrow> jsstr \<times> emoji_memo" where
  "toImage ns canon mem str =
     (case unicodeToImage ns canon mem str of (str1, mem1) \<Rightarrow> (shortnameToImage ns str1, mem1))"

definition unifyUnicode :: "emoji_settings \<Rightarrow> (nat \<Rightarrow> nat) \<Rightarrow> emoji_memo \<Rightarrow> jsstr \<Rightarrow> jsstr \<times> emoji_memo" where
  "unifyUnicode ns canon mem str =
     (case toShort canon mem str of (str1, mem1) \<Rightarrow> (shortnameToUnicode ns str1, mem1))"

section \<open>HTML escapes, proofs\<close>

lemma of_char_upper: "of_char (char_of (ascii_upper (of_char c))) = ascii_upper (of_char c)"
proof -
  have "ascii_upper (of_char c) < 256"
    using nat_of_char_less_256 [of c] unfolding ascii_upper_def by (auto simp: less_imp_diff_less)
  then show ?thesis by simp
qed

lemma hexdigit_upper: "hexdigit (char_of (ascii_upper (of_char c))) = hexdigit c"
  unfolding hexdigit_def Let_def of_char_upper by (auto simp: ascii_upper_def)

definition escape_matcher :: "unit matcher" where
  "escape_matcher st t = (case t of [] \<Rightarrow> None | c # _ \<Rightarrow> if html_escaped c = None then None else Some (1, ()))"

lemma progressive_escape: "progressive escape_matcher"
  by (auto simp: progressive_def escape_matcher_def split: list.splits if_splits)

lemma escapeHTML_eq:
  "escapeHTML s = concat (map (\<lambda>c. case html_escaped c of None \<Rightarrow> [c] | Some e \<Rightarrow> js e) s)"
proof -
  have "replace_g escape_matcher (\<lambda>match _. js (the (html_escaped (hd match)))) st s
      = concat (map (\<lambda>c. case html_escaped c of None \<Rightarrow> [c] | Some e \<Rightarrow> js e) s)" for st
  proof (induction s arbitrary: st)
    case Nil
    then show ?case by (simp add: replace_g_Nil [OF progressive_escape])
  next
    case (Cons c s)
    show ?case
    proof (cases "html_escaped c")
      case None
      then have "escape_matcher st (c # s) = None" by (simp add: escape_matcher_def)
      then show ?thesis using Cons None by (simp add: replace_g_miss)
    next
      case (Some e)
      then have "escape_matcher st (c # s) = Some (1, ())" by (simp add: escape_matcher_def)
      then show ?thesis using Cons Some by (simp add: replace_g_hit [OF progressive_escape])
    qed
  qed
  moreover have "escape_matcher
      = (\<lambda>st t. case t of [] \<Rightarrow> None | c # _ \<Rightarrow> if html_escaped c = None then None else Some (1, ()))"
    by (intro ext) (simp add: escape_matcher_def)
  ultimately show ?thesis unfolding escapeHTML_def by metis
qed

definition unescape_matcher :: "unit matcher" where
  "unescape_matcher st t = map_option (\<lambda>p. (length p, ())) (first_alt ascii_upper html_entities t)"

definition unescape_entity :: "jsstr \<Rightarrow> jsstr" where
  "unescape_entity match =
     (case obj_get (map (\<lambda>(k, v). (js k, v)) html_unescaped) match of Some c \<Rightarrow> [c] | None \<Rightarrow> js ''undefined'')"

lemma unescapeHTML_eq: "unescapeHTML s = replace_g unescape_matcher (\<lambda>m _. unescape_entity m) True s"
  unfolding unescapeHTML_def unescape_entity_def
  by (rule arg_cong [of _ _ "\<lambda>m. replace_g m _ True s"]) (intro ext, simp add: unescape_matcher_def)

lemma first_alt_SomeD: "first_alt canon alts s = Some p \<Longrightarrow> p \<in> set alts \<and> starts canon p s"
  by (auto simp: first_alt_def find_Some_iff)

lemma progressive_unescape: "progressive unescape_matcher"
proof -
  have "0 < length p" if "p \<in> set html_entities" for p using that by (auto simp: html_entities_def)
  then show ?thesis
    by (fastforce simp: progressive_def unescape_matcher_def starts_def dest: first_alt_SomeD)
qed

lemma starts_Cons: "starts canon (p # ps) (c # cs) \<longleftrightarrow> canon c = canon p \<and> starts canon ps cs"
  by (auto simp: starts_def)

lemma starts_Nil [simp]: "starts canon [] s"
  by (simp add: starts_def)

lemma starts_short [simp]: "\<not> starts canon (p # ps) []"
  by (simp add: starts_def)

lemmas starts_simps = starts_Cons starts_Nil starts_short

lemma upper_amp: "ascii_upper c = 0x26 \<longleftrightarrow> c = 0x26"
  by (auto simp: ascii_upper_def)

lemmas ascii_upper_numeral = ascii_upper_def [of "numeral n" for n]

lemma unescape_miss: "c \<noteq> 0x26 \<Longrightarrow> unescape_matcher st (c # s) = None"
  by (simp add: unescape_matcher_def first_alt_def html_entities_def starts_simps upper_amp ascii_upper_numeral)

lemma unescape_hits:
  "unescape_matcher st (js ''&amp;'' @ s) = Some (5, ())" "unescape_matcher st (js ''&lt;'' @ s) = Some (4, ())"
  "unescape_matcher st (js ''&gt;'' @ s) = Some (4, ())" "unescape_matcher st (js ''&quot;'' @ s) = Some (6, ())"
  "unescape_matcher st (js ''&LT;'' @ s) = Some (4, ())"
  by (simp_all add: unescape_matcher_def first_alt_def html_entities_def starts_simps ascii_upper_numeral)

lemma unescape_entities:
  "unescape_entity (js ''&amp;'') = [0x26]" "unescape_entity (js ''&lt;'') = [0x3C]"
  "unescape_entity (js ''&gt;'') = [0x3E]" "unescape_entity (js ''&quot;'') = [0x22]"
  "unescape_entity (js ''&LT;'') = js ''undefined''"
  by (simp_all add: unescape_entity_def html_unescaped_def obj_get_def)

lemma unescape_step:
  assumes "c \<noteq> 0x27"
  shows "replace_g unescape_matcher (\<lambda>m _. unescape_entity m) st
      ((case html_escaped c of None \<Rightarrow> [c] | Some e \<Rightarrow> js e) @ s)
    = c # replace_g unescape_matcher (\<lambda>m _. unescape_entity m) False s"
proof -
  have hit: "replace_g unescape_matcher (\<lambda>m _. unescape_entity m) st (js e @ s)
      = c # replace_g unescape_matcher (\<lambda>m _. unescape_entity m) False s"
    if "unescape_matcher st (js e @ s) = Some (length e, ())" "unescape_entity (js e) = [c]" for e
    using that replace_g_hit [OF progressive_unescape that(1)] by simp
  consider "c = 0x26" | "c = 0x3C" | "c = 0x3E" | "c = 0x22" | "html_escaped c = None" "c \<noteq> 0x26"
  proof -
    have "html_escaped c = None" if "c \<noteq> 0x26" "c \<noteq> 0x3C" "c \<noteq> 0x3E" "c \<noteq> 0x22"
      using that assms by (simp add: html_escaped_def)
    then show ?thesis using that by blast
  qed
  then show ?thesis
  proof cases
    case 1
    then show ?thesis using hit [of "''&amp;''"] by (simp add: html_escaped_def unescape_hits unescape_entities del: js_Cons)
  next
    case 2
    then show ?thesis using hit [of "''&lt;''"] by (simp add: html_escaped_def unescape_hits unescape_entities del: js_Cons)
  next
    case 3
    then show ?thesis using hit [of "''&gt;''"] by (simp add: html_escaped_def unescape_hits unescape_entities del: js_Cons)
  next
    case 4
    then show ?thesis using hit [of "''&quot;''"] by (simp add: html_escaped_def unescape_hits unescape_entities del: js_Cons)
  next
    case 5
    then show ?thesis by (simp add: unescape_miss replace_g_miss)
  qed
qed

text \<open>The escape of the apostrophe is no entity that \<^verbatim>\<open>unescapeHTML\<close> knows; everything else is undone.\<close>

lemma unescape_quote_step:
  "replace_g unescape_matcher (\<lambda>m _. unescape_entity m) st (js ''&#039;'' @ s) =
   js ''&#039;'' @ replace_g unescape_matcher (\<lambda>m _. unescape_entity m) False s"
proof -
  have "unescape_matcher st (js ''&#039;'' @ s) = None" for st
    by (simp add: unescape_matcher_def first_alt_def html_entities_def starts_simps ascii_upper_numeral)
  then show ?thesis by (simp add: replace_g_miss unescape_miss)
qed

lemma unescape_escape: "unescapeHTML (escapeHTML s) = concat (map (\<lambda>c. if c = 0x27 then js ''&#039;'' else [c]) s)"
proof -
  have "replace_g unescape_matcher (\<lambda>m _. unescape_entity m) st (escapeHTML s) =
      concat (map (\<lambda>c. if c = 0x27 then js ''&#039;'' else [c]) s)" for st
  proof (induction s arbitrary: st)
    case Nil
    then show ?case by (simp add: escapeHTML_eq replace_g_Nil [OF progressive_unescape])
  next
    case (Cons c s)
    have "escapeHTML (c # s) = (case html_escaped c of None \<Rightarrow> [c] | Some e \<Rightarrow> js e) @ escapeHTML s" by (simp add: escapeHTML_eq)
    moreover have "html_escaped 0x27 = Some ''&#039;''" by (simp add: html_escaped_def)
    ultimately show ?case
      using Cons.IH unescape_step [of c st "escapeHTML s"] unescape_quote_step [of st "escapeHTML s"] by (cases "c = 0x27") simp_all
  qed
  then show ?thesis by (simp add: unescapeHTML_eq)
qed

lemma unescape_escape_same: "unescapeHTML (escapeHTML s) = s \<longleftrightarrow> 0x27 \<notin> set s"
proof
  assume "0x27 \<notin> set s"
  then show "unescapeHTML (escapeHTML s) = s" unfolding unescape_escape by (induction s) auto
next
  have l: "length (concat (map (\<lambda>c. if c = 0x27 then js ''&#039;'' else [c]) s)) = length s + 5 * length (filter (\<lambda>c. c = 0x27) s)" for s
    by (induction s) simp_all
  assume "unescapeHTML (escapeHTML s) = s"
  then have "length (filter (\<lambda>c. c = 0x27) s) = 0" using l [of s] unfolding unescape_escape by simp
  then show "0x27 \<notin> set s" by (auto simp: filter_empty_conv)
qed

text \<open>An entity in any letters, and what replaces it.\<close>

lemma starts_canon: "starts canon p x \<longleftrightarrow> length p \<le> length x \<and> take (length p) (map canon x) = map canon p"
  by (simp add: starts_def take_map)

lemma first_alt_canon:
  assumes "map canon x = map canon y"
  shows "first_alt canon alts x = first_alt canon alts y"
  unfolding first_alt_def starts_canon assms map_eq_imp_length_eq [OF assms] ..

lemma first_alt_entity: "p \<in> set html_entities \<Longrightarrow> first_alt ascii_upper html_entities (p @ s) = Some p"
  by (simp only: html_entities_def list.map list.set insert_iff empty_iff, elim disjE FalseE)
    (simp_all add: first_alt_def starts_simps ascii_upper_numeral)

lemma entities_apart: "p \<in> set html_entities \<Longrightarrow> q \<in> set html_entities \<Longrightarrow> map ascii_upper p = map ascii_upper q \<Longrightarrow> p = q"
  using first_alt_entity [of p "[]"] first_alt_entity [of q "[]"] first_alt_canon [of ascii_upper p q html_entities] by simp

lemma unescape_entity_cases:
  assumes "p \<in> set html_entities" "map ascii_upper e = map ascii_upper p"
  shows "unescape_entity e = (if e = p then unescape_entity p else js ''undefined'')"
proof -
  have "e \<in> set html_entities" if "obj_get (map (\<lambda>(k, v). (js k, v)) html_unescaped) e = Some c" for c
  proof -
    have "list_all (\<lambda>(k, v). js k \<in> set html_entities) html_unescaped" by code_simp
    then show ?thesis using map_of_SomeD [of _ e c] that unfolding obj_get_def by (force simp: list_all_iff)
  qed
  then have "obj_get (map (\<lambda>(k, v). (js k, v)) html_unescaped) e = None" if "e \<noteq> p"
    using that entities_apart assms by (cases "obj_get (map (\<lambda>(k, v). (js k, v)) html_unescaped) e") blast+
  then show ?thesis by (simp add: unescape_entity_def)
qed

lemma unescape_entity_char:
  "p \<in> set html_entities \<Longrightarrow>
   unescape_entity p = (case obj_get (map (\<lambda>(k, v). (js k, v)) html_unescaped) p of Some c \<Rightarrow> [c] | None \<Rightarrow> [])"
  unfolding html_entities_def by (auto simp: unescape_entity_def html_unescaped_def obj_get_def)

lemma unescape_any_case:
  assumes "p \<in> set html_entities" "map ascii_upper e = map ascii_upper p"
  shows "unescapeHTML (e @ s) = (if e = p then unescape_entity p else js ''undefined'') @ unescapeHTML s"
proof -
  have l: "length e = length p" using assms(2) by (rule map_eq_imp_length_eq)
  have "unescape_matcher True (e @ s) = Some (length e, ())"
    using first_alt_entity [OF assms(1)] first_alt_canon [of ascii_upper "e @ s" "p @ s"] assms(2) l by (simp add: unescape_matcher_def)
  from replace_g_hit [OF progressive_unescape this]
  have "unescapeHTML (e @ s) = unescape_entity e @ replace_g unescape_matcher (\<lambda>m _. unescape_entity m) False s"
    by (simp add: unescapeHTML_eq)
  moreover have "unescape_matcher True s = unescape_matcher False s" by (simp add: unescape_matcher_def)
  then have "replace_g unescape_matcher (\<lambda>m _. unescape_entity m) False s = unescapeHTML s"
    unfolding unescapeHTML_eq by (simp add: replace_g.simps [of _ _ True s] replace_g.simps [of _ _ False s])
  ultimately show ?thesis using unescape_entity_cases [OF assms] by simp
qed

lemma escapeHTML_safe: "c \<in> set (escapeHTML s) \<Longrightarrow> c \<noteq> 0x3C \<and> c \<noteq> 0x3E \<and> c \<noteq> 0x22 \<and> c \<noteq> 0x27"
proof -
  let ?f = "\<lambda>d. case html_escaped d of None \<Rightarrow> [d] | Some e \<Rightarrow> js e"
  have ok: "x \<noteq> 0x3C \<and> x \<noteq> 0x3E \<and> x \<noteq> 0x22 \<and> x \<noteq> 0x27" if "x \<in> set (?f d)" for x d
  proof (cases "html_escaped d")
    case None
    then show ?thesis using that by (auto simp: html_escaped_def)
  next
    case (Some e)
    then have "e = ''&amp;'' \<or> e = ''&lt;'' \<or> e = ''&gt;'' \<or> e = ''&quot;'' \<or> e = ''&#039;''"
      unfolding html_escaped_def by (metis option.discI option.inject)
    then show ?thesis using that Some by (elim disjE) auto
  qed
  assume "c \<in> set (escapeHTML s)"
  then show ?thesis using ok by (auto simp: escapeHTML_eq)
qed

section \<open>Code points, proofs\<close>

lemma hex_run_upper: "hex_run acc (to_upper s) = hex_run acc s"
  by (induction s arbitrary: acc) (simp_all add: to_upper_def hexdigit_upper split: option.splits)

lemma parseHex_upper: "parseHex (to_upper s) = parseHex s"
  using hex_run_upper [of 0 s] by (cases s) (simp_all add: parseHex_def to_upper_def hexdigit_upper)

lemma upper_dash: "char_of (ascii_upper (of_char c)) = CHR ''-'' \<longleftrightarrow> c = CHR ''-''"
proof
  assume "char_of (ascii_upper (of_char c)) = CHR ''-''"
  then have "ascii_upper (of_char c) = of_char CHR ''-''" using of_char_upper [of c] by simp
  then have "of_char c = (of_char CHR ''-'' :: nat)" by (auto simp: ascii_upper_def split: if_splits)
  then show "c = CHR ''-''" by (metis of_char_eq_iff)
next
  assume c: "c = CHR ''-''"
  then have "ascii_upper (of_char c) = of_char c" by (simp add: ascii_upper_def)
  then show "char_of (ascii_upper (of_char c)) = CHR ''-''" using c by (metis char_of_char)
qed

lemma split_dash_upper: "split_dash (to_upper acc) (to_upper s) = map to_upper (split_dash acc s)"
proof (induction acc s rule: split_dash.induct)
  case (1 acc)
  then show ?case by (simp add: to_upper_def rev_map)
next
  case (2 acc c cs)
  then show ?case by (auto simp: to_upper_def upper_dash rev_map)
qed

lemma convert_upper: "convert (to_upper u) = convert u"
proof -
  have p: "convert_part (to_upper q) = convert_part q" for q by (simp add: convert_part_def parseHex_upper)
  have "split_dash [] (to_upper u) = map to_upper (split_dash [] u)"
    using split_dash_upper [of "[]" u] by (simp add: to_upper_def)
  moreover have "CHR ''-'' \<in> set (to_upper u) \<longleftrightarrow> CHR ''-'' \<in> set u"
    using upper_dash by (induction u) (auto simp: to_upper_def eq_commute)
  ultimately show ?thesis by (simp add: convert_def p comp_def)
qed

section \<open>Matching markup and literals\<close>

lemma upto_gt_bound: "upto_gt s = Some n \<Longrightarrow> 0 < n \<and> n \<le> length s"
  by (induction s arbitrary: n) (auto split: if_splits)

lemma find_close_bound: "find_close canon close s = Some n \<Longrightarrow> n \<le> length s"
proof (induction s arbitrary: n)
  case Nil
  then show ?case by (auto simp: starts_def split: if_splits)
next
  case (Cons c s)
  then show ?case by (auto simp: starts_def split: if_splits)
qed

lemma match_block_bound: "match_block canon name s = Some n \<Longrightarrow> 0 < n \<and> n \<le> length s"
proof -
  assume "match_block canon name s = Some n"
  then obtain k j where "starts canon (js (CHR ''<'' # name)) s"
    "upto_gt (drop (Suc (length name)) s) = Some k"
    "find_close canon (js (''</'' @ name @ ''>'')) (drop (Suc (length name) + k) s) = Some j"
    "n = Suc (length name) + k + j"
    by (auto simp: match_block_def simp del: js_Cons js_append split: if_splits option.splits)
  then show ?thesis
    using upto_gt_bound [of "drop (Suc (length name)) s" k] find_close_bound by fastforce
qed

lemma match_html_bound: "match_html canon s = Some n \<Longrightarrow> 0 < n \<and> n \<le> length s"
  by (auto simp: match_html_def match_open_def dest: match_block_bound upto_gt_bound split: option.splits if_splits)

lemma match_html_lt:
  assumes "match_html ascii_upper s = Some n"
  shows "s \<noteq> [] \<and> hd s = 0x3C"
proof -
  have h: "s \<noteq> [] \<and> hd s = 0x3C" if "starts ascii_upper (js (CHR ''<'' # name)) s" for name
    using that by (cases s) (auto simp: starts_simps ascii_upper_def split: if_splits)
  show ?thesis
    using assms h
    by (auto simp: match_html_def match_open_def match_block_def list_ex_iff simp del: js_Cons js_append
        split: option.splits if_splits)
qed

lemma progressive_literals:
  assumes "[] \<notin> set alts"
  shows "progressive (reg_literals canon alts)"
  unfolding progressive_def
proof (intro allI impI)
  fix st s n g
  assume a: "reg_literals canon alts st s = Some (n, g)"
  show "0 < n \<and> n \<le> length s"
  proof (cases "match_html canon s")
    case None
    then obtain p where p: "first_alt canon alts s = Some p" "n = length p"
      using a by (auto simp: reg_literals_def)
    then have "p \<in> set alts" "starts canon p s" using first_alt_SomeD by blast+
    then show ?thesis using p assms by (auto simp: starts_def)
  next
    case (Some k)
    then show ?thesis using a match_html_bound [OF Some] by (auto simp: reg_literals_def)
  qed
qed

lemma reg_literals_html:
  "match_html canon s = Some n \<Longrightarrow> reg_literals canon alts st s = Some (n, None)"
  by (simp add: reg_literals_def)

lemma reg_literals_miss:
  assumes "match_html canon s = None" "\<And>p. p \<in> set alts \<Longrightarrow> \<not> starts canon p s"
  shows "reg_literals canon alts st s = None"
proof -
  have "first_alt canon alts s = None" using assms(2) by (auto simp: first_alt_def find_None_iff)
  then show ?thesis using assms(1) by (simp add: reg_literals_def)
qed

section \<open>Memoization\<close>

text \<open>Cached tables are those that would be computed.\<close>

definition memo_ok :: "emoji_memo \<Rightarrow> bool" where
  "memo_ok mem \<longleftrightarrow>
     (\<forall>m. memMapShortToUnicode mem = Some m \<longrightarrow>
        m = mapEmojioneList (\<lambda>u shortname m. m(u \<mapsto> shortname)) Map.empty)
     \<and> (\<forall>m. memMapShortToUnicodeCharacters mem = Some m \<longrightarrow> m = fst replacement_tables)
     \<and> (\<forall>l. unicodeReplacementRegEx mem = Some l \<longrightarrow> l = snd replacement_tables)"

definition memo_empty :: emoji_memo where
  "memo_empty = \<lparr>memMapShortToUnicode = None, memMapShortToUnicodeCharacters = None, unicodeReplacementRegEx = None\<rparr>"

lemma memo_ok_empty: "memo_ok memo_empty"
  by (simp add: memo_ok_def memo_empty_def)

lemma mapUnicodeToShort_memo:
  "memo_ok mem \<Longrightarrow> fst (mapUnicodeToShort mem) = mapEmojioneList (\<lambda>u shortname m. m(u \<mapsto> shortname)) Map.empty
     \<and> memo_ok (snd (mapUnicodeToShort mem))"
  by (auto simp: mapUnicodeToShort_def memo_ok_def Let_def split: option.splits)

lemma memoizeReplacement_memo:
  "memo_ok mem \<Longrightarrow> memo_ok (memoizeReplacement mem)
     \<and> memMapShortToUnicodeCharacters (memoizeReplacement mem) = Some (fst replacement_tables)
     \<and> unicodeReplacementRegEx (memoizeReplacement mem) = Some (snd replacement_tables)"
  by (auto simp: memoizeReplacement_def memo_ok_def case_prod_beta)

lemma toShort_memo:
  assumes "memo_ok mem"
  shows "fst (toShort canon mem str) = replaceAll canon str (snd replacement_tables) (fst replacement_tables)
    \<and> memo_ok (snd (toShort canon mem str))"
proof -
  note m1 = memoizeReplacement_memo [OF assms]
  note m2 = memoizeReplacement_memo [OF m1 [THEN conjunct1]]
  show ?thesis
    using m1 m2
    by (simp add: toShort_def getUnicodeReplacementRegEx_def mapUnicodeCharactersToShort_def Let_def)
qed

lemma unicodeToImage_memo:
  assumes "memo_ok mem"
  shows "fst (unicodeToImage ns canon mem str) = fst (unicodeToImage ns canon memo_empty str)
    \<and> memo_ok (snd (unicodeToImage ns canon mem str))"
  using mapUnicodeToShort_memo [OF assms] mapUnicodeToShort_memo [OF memo_ok_empty] assms
  by (cases "mapUnicodeToShort mem"; cases "mapUnicodeToShort memo_empty") (simp add: unicodeToImage_def)

lemma objectFlip_get: "obj_get (objectFlip obj) v = Some k \<Longrightarrow> (k, v) \<in> set obj"
  using obj_get_in [of "objectFlip obj" v k] by (auto simp: objectFlip_def)

lemma objectFlip_defined: "obj_get (objectFlip obj) v \<noteq> None \<longleftrightarrow> v \<in> snd ` set obj"
  by (force simp: obj_get_None objectFlip_def)

end
