(* ===== verification/EmojiTables.thy ===== *)
theory EmojiTables
  imports Emojione
begin

text \<open>
  The tables of \<^verbatim>\<open>emojione.js\<close> are well formed, entry by entry, and the conversions of text do on them what
  their names say.
\<close>

section \<open>The tables\<close>

lemma split_dash_none: "CHR ''-'' \<notin> set u \<Longrightarrow> split_dash acc u = [rev acc @ u]"
  by (induction acc u rule: split_dash.induct) auto

lemma convert_alt: "convert u = concat (map convert_part (split_dash [] u))"
  by (auto simp: convert_def split_dash_none)

definition escape_ok :: "jsstr \<times> string \<Rightarrow> bool" where
  "escape_ok kv \<longleftrightarrow> convert (snd kv) = fst kv"

definition shortname_char :: "char \<Rightarrow> bool" where
  "shortname_char c \<longleftrightarrow> c \<in> set ''abcdefghijklmnopqrstuvwxyz0123456789_+-''"

definition hex_char :: "char \<Rightarrow> bool" where
  "hex_char c \<longleftrightarrow> c \<in> set ''0123456789abcdef''"

text \<open>Groups of at least four digits between dashes.\<close>

fun code_ok :: "nat \<Rightarrow> string \<Rightarrow> bool" where
  "code_ok n [] \<longleftrightarrow> 4 \<le> n"
| "code_ok n (c # cs) \<longleftrightarrow> (if hex_char c then code_ok (Suc n) cs else c = CHR ''-'' \<and> 4 \<le> n \<and> code_ok 0 cs)"

text \<open>The letters of a short name up to the closing colon.\<close>

fun name_ok :: "string \<Rightarrow> bool" where
  "name_ok [] \<longleftrightarrow> False"
| "name_ok (c # cs) \<longleftrightarrow> (if shortname_char c then name_ok cs else c = CHR '':'' \<and> cs = [])"

lemma shortname_char_simps:
  "shortname_char CHR ''a''" "shortname_char CHR ''b''" "shortname_char CHR ''c''"
  "shortname_char CHR ''d''" "shortname_char CHR ''e''" "shortname_char CHR ''f''"
  "shortname_char CHR ''g''" "shortname_char CHR ''h''" "shortname_char CHR ''i''"
  "shortname_char CHR ''j''" "shortname_char CHR ''k''" "shortname_char CHR ''l''"
  "shortname_char CHR ''m''" "shortname_char CHR ''n''" "shortname_char CHR ''o''"
  "shortname_char CHR ''p''" "shortname_char CHR ''q''" "shortname_char CHR ''r''"
  "shortname_char CHR ''s''" "shortname_char CHR ''t''" "shortname_char CHR ''u''"
  "shortname_char CHR ''v''" "shortname_char CHR ''w''" "shortname_char CHR ''x''"
  "shortname_char CHR ''y''" "shortname_char CHR ''z''" "shortname_char CHR ''0''"
  "shortname_char CHR ''1''" "shortname_char CHR ''2''" "shortname_char CHR ''3''"
  "shortname_char CHR ''4''" "shortname_char CHR ''5''" "shortname_char CHR ''6''"
  "shortname_char CHR ''7''" "shortname_char CHR ''8''" "shortname_char CHR ''9''"
  "shortname_char CHR ''_''" "shortname_char CHR ''+''" "shortname_char CHR ''-''"
  "\<not> shortname_char CHR '':''"
  by (simp_all add: shortname_char_def)

lemma hex_char_simps:
  "hex_char CHR ''0''" "hex_char CHR ''1''" "hex_char CHR ''2''" "hex_char CHR ''3''"
  "hex_char CHR ''4''" "hex_char CHR ''5''" "hex_char CHR ''6''" "hex_char CHR ''7''"
  "hex_char CHR ''8''" "hex_char CHR ''9''" "hex_char CHR ''a''" "hex_char CHR ''b''"
  "hex_char CHR ''c''" "hex_char CHR ''d''" "hex_char CHR ''e''" "hex_char CHR ''f''"
  "\<not> hex_char CHR ''-''"
  by (simp_all add: hex_char_def)

definition entry_ok :: "string \<times> emoji \<Rightarrow> bool" where
  "entry_ok ne \<longleftrightarrow>
     (case fst ne of c # cs \<Rightarrow> c = CHR '':'' \<and> name_ok cs | [] \<Rightarrow> False)
     \<and> unicode (snd ne) \<noteq> [] \<and> list_all (code_ok 0) (unicode (snd ne))"

fun descending :: "nat list \<Rightarrow> bool" where
  "descending (a # b # xs) \<longleftrightarrow> b \<le> a \<and> descending (b # xs)"
| "descending _ \<longleftrightarrow> True"

definition code_lengths :: "(string \<times> emoji) list \<Rightarrow> nat list" where
  "code_lengths es = map (\<lambda>(n, e). length (unicode e ! 0)) es"

lemma descending_sorted: "descending xs \<longleftrightarrow> sorted_wrt (\<lambda>a b. b \<le> a) xs"
  by (induction xs rule: descending.induct) (auto intro: order_trans)

lemma descending_append:
  "descending (xs @ ys) \<longleftrightarrow> descending xs \<and> descending ys \<and> (xs = [] \<or> ys = [] \<or> hd ys \<le> last xs)"
proof (induction xs)
  case (Cons a xs)
  then show ?case by (cases xs; cases ys) auto
qed simp

lemma code_lengths_append: "code_lengths (a @ b) = code_lengths a @ code_lengths b"
  by (simp add: code_lengths_def)

lemma name_ok_shape: "name_ok cs \<Longrightarrow> \<exists>w. cs = w @ '':'' \<and> list_all shortname_char w"
proof (induction cs)
  case (Cons c cs)
  show ?case
  proof (cases "shortname_char c")
    case True
    then obtain w where "cs = w @ '':''" "list_all shortname_char w" using Cons by auto
    then have "c # cs = (c # w) @ '':''" "list_all shortname_char (c # w)" using True by simp_all
    then show ?thesis by blast
  next
    case False
    then have "c # cs = [] @ '':''" using Cons.prems by simp
    then show ?thesis by (intro exI [of _ "[]"]) simp
  qed
qed simp

lemmas escape_eval =
  escape_ok_def convert_alt convert_part_def parseHex_def fromCharCode_def hexdigit_simps

lemmas entry_eval = entry_ok_def shortname_char_simps hex_char_simps

lemma escape_ok_1: "list_all escape_ok jsEscapeMap_1"
  by (simp add: jsEscapeMap_1_def escape_eval)

lemma escape_ok_2: "list_all escape_ok jsEscapeMap_2"
  by (simp add: jsEscapeMap_2_def escape_eval)

lemma escape_ok_3: "list_all escape_ok jsEscapeMap_3"
  by (simp add: jsEscapeMap_3_def escape_eval)

lemma escape_ok_4: "list_all escape_ok jsEscapeMap_4"
  by (simp add: jsEscapeMap_4_def escape_eval)

lemma escape_ok_5: "list_all escape_ok jsEscapeMap_5"
  by (simp add: jsEscapeMap_5_def escape_eval)

lemma escape_ok_6: "list_all escape_ok jsEscapeMap_6"
  by (simp add: jsEscapeMap_6_def escape_eval)

lemma escape_ok_7: "list_all escape_ok jsEscapeMap_7"
  by (simp add: jsEscapeMap_7_def escape_eval)

lemma escape_ok_8: "list_all escape_ok jsEscapeMap_8"
  by (simp add: jsEscapeMap_8_def escape_eval)

lemma escape_ok_9: "list_all escape_ok jsEscapeMap_9"
  by (simp add: jsEscapeMap_9_def escape_eval)

lemma escape_ok_10: "list_all escape_ok jsEscapeMap_10"
  by (simp add: jsEscapeMap_10_def escape_eval)

lemma escape_ok_11: "list_all escape_ok jsEscapeMap_11"
  by (simp add: jsEscapeMap_11_def escape_eval)

lemma escape_ok_12: "list_all escape_ok jsEscapeMap_12"
  by (simp add: jsEscapeMap_12_def escape_eval)

lemma escape_ok_13: "list_all escape_ok jsEscapeMap_13"
  by (simp add: jsEscapeMap_13_def escape_eval)

lemma escape_ok_14: "list_all escape_ok jsEscapeMap_14"
  by (simp add: jsEscapeMap_14_def escape_eval)

lemma entry_ok_1: "list_all entry_ok emojioneList_1"
  by (simp add: emojioneList_1_def entry_eval)

lemma entry_ok_2: "list_all entry_ok emojioneList_2"
  by (simp add: emojioneList_2_def entry_eval)

lemma entry_ok_3: "list_all entry_ok emojioneList_3"
  by (simp add: emojioneList_3_def entry_eval)

lemma entry_ok_4: "list_all entry_ok emojioneList_4"
  by (simp add: emojioneList_4_def entry_eval)

lemma entry_ok_5: "list_all entry_ok emojioneList_5"
  by (simp add: emojioneList_5_def entry_eval)

lemma entry_ok_6: "list_all entry_ok emojioneList_6"
  by (simp add: emojioneList_6_def entry_eval)

lemma entry_ok_7: "list_all entry_ok emojioneList_7"
  by (simp add: emojioneList_7_def entry_eval)

lemma entry_ok_8: "list_all entry_ok emojioneList_8"
  by (simp add: emojioneList_8_def entry_eval)

lemma entry_ok_9: "list_all entry_ok emojioneList_9"
  by (simp add: emojioneList_9_def entry_eval)

lemma entry_ok_10: "list_all entry_ok emojioneList_10"
  by (simp add: emojioneList_10_def entry_eval)

lemma entry_ok_11: "list_all entry_ok emojioneList_11"
  by (simp add: emojioneList_11_def entry_eval)

lemma entry_ok_12: "list_all entry_ok emojioneList_12"
  by (simp add: emojioneList_12_def entry_eval)

lemma entry_ok_13: "list_all entry_ok emojioneList_13"
  by (simp add: emojioneList_13_def entry_eval)

lemma entry_ok_14: "list_all entry_ok emojioneList_14"
  by (simp add: emojioneList_14_def entry_eval)

lemma entry_ok_15: "list_all entry_ok emojioneList_15"
  by (simp add: emojioneList_15_def entry_eval)

lemma entry_ok_16: "list_all entry_ok emojioneList_16"
  by (simp add: emojioneList_16_def entry_eval)

lemma entry_ok_17: "list_all entry_ok emojioneList_17"
  by (simp add: emojioneList_17_def entry_eval)

lemma lengths_1: "descending (code_lengths emojioneList_1)"
  by (simp add: emojioneList_1_def code_lengths_def)

lemma lengths_2: "descending (code_lengths emojioneList_2)"
  by (simp add: emojioneList_2_def code_lengths_def)

lemma lengths_3: "descending (code_lengths emojioneList_3)"
  by (simp add: emojioneList_3_def code_lengths_def)

lemma lengths_4: "descending (code_lengths emojioneList_4)"
  by (simp add: emojioneList_4_def code_lengths_def)

lemma lengths_5: "descending (code_lengths emojioneList_5)"
  by (simp add: emojioneList_5_def code_lengths_def)

lemma lengths_6: "descending (code_lengths emojioneList_6)"
  by (simp add: emojioneList_6_def code_lengths_def)

lemma lengths_7: "descending (code_lengths emojioneList_7)"
  by (simp add: emojioneList_7_def code_lengths_def)

lemma lengths_8: "descending (code_lengths emojioneList_8)"
  by (simp add: emojioneList_8_def code_lengths_def)

lemma lengths_9: "descending (code_lengths emojioneList_9)"
  by (simp add: emojioneList_9_def code_lengths_def)

lemma lengths_10: "descending (code_lengths emojioneList_10)"
  by (simp add: emojioneList_10_def code_lengths_def)

lemma lengths_11: "descending (code_lengths emojioneList_11)"
  by (simp add: emojioneList_11_def code_lengths_def)

lemma lengths_12: "descending (code_lengths emojioneList_12)"
  by (simp add: emojioneList_12_def code_lengths_def)

lemma lengths_13: "descending (code_lengths emojioneList_13)"
  by (simp add: emojioneList_13_def code_lengths_def)

lemma lengths_14: "descending (code_lengths emojioneList_14)"
  by (simp add: emojioneList_14_def code_lengths_def)

lemma lengths_15: "descending (code_lengths emojioneList_15)"
  by (simp add: emojioneList_15_def code_lengths_def)

lemma lengths_16: "descending (code_lengths emojioneList_16)"
  by (simp add: emojioneList_16_def code_lengths_def)

lemma lengths_17: "descending (code_lengths emojioneList_17)"
  by (simp add: emojioneList_17_def code_lengths_def)

lemma ends_1:
  "emojioneList_1 \<noteq> []" "hd (code_lengths emojioneList_1) = 42"
  "last (code_lengths emojioneList_1) = 11"
  by (simp_all add: emojioneList_1_def code_lengths_def)

lemma ends_2:
  "emojioneList_2 \<noteq> []" "hd (code_lengths emojioneList_2) = 11"
  "last (code_lengths emojioneList_2) = 11"
  by (simp_all add: emojioneList_2_def code_lengths_def)

lemma ends_3:
  "emojioneList_3 \<noteq> []" "hd (code_lengths emojioneList_3) = 11"
  "last (code_lengths emojioneList_3) = 11"
  by (simp_all add: emojioneList_3_def code_lengths_def)

lemma ends_4:
  "emojioneList_4 \<noteq> []" "hd (code_lengths emojioneList_4) = 11"
  "last (code_lengths emojioneList_4) = 11"
  by (simp_all add: emojioneList_4_def code_lengths_def)

lemma ends_5:
  "emojioneList_5 \<noteq> []" "hd (code_lengths emojioneList_5) = 11"
  "last (code_lengths emojioneList_5) = 11"
  by (simp_all add: emojioneList_5_def code_lengths_def)

lemma ends_6:
  "emojioneList_6 \<noteq> []" "hd (code_lengths emojioneList_6) = 11"
  "last (code_lengths emojioneList_6) = 11"
  by (simp_all add: emojioneList_6_def code_lengths_def)

lemma ends_7:
  "emojioneList_7 \<noteq> []" "hd (code_lengths emojioneList_7) = 11"
  "last (code_lengths emojioneList_7) = 11"
  by (simp_all add: emojioneList_7_def code_lengths_def)

lemma ends_8:
  "emojioneList_8 \<noteq> []" "hd (code_lengths emojioneList_8) = 11"
  "last (code_lengths emojioneList_8) = 10"
  by (simp_all add: emojioneList_8_def code_lengths_def)

lemma ends_9:
  "emojioneList_9 \<noteq> []" "hd (code_lengths emojioneList_9) = 10"
  "last (code_lengths emojioneList_9) = 9"
  by (simp_all add: emojioneList_9_def code_lengths_def)

lemma ends_10:
  "emojioneList_10 \<noteq> []" "hd (code_lengths emojioneList_10) = 9"
  "last (code_lengths emojioneList_10) = 5"
  by (simp_all add: emojioneList_10_def code_lengths_def)

lemma ends_11:
  "emojioneList_11 \<noteq> []" "hd (code_lengths emojioneList_11) = 5"
  "last (code_lengths emojioneList_11) = 5"
  by (simp_all add: emojioneList_11_def code_lengths_def)

lemma ends_12:
  "emojioneList_12 \<noteq> []" "hd (code_lengths emojioneList_12) = 5"
  "last (code_lengths emojioneList_12) = 5"
  by (simp_all add: emojioneList_12_def code_lengths_def)

lemma ends_13:
  "emojioneList_13 \<noteq> []" "hd (code_lengths emojioneList_13) = 5"
  "last (code_lengths emojioneList_13) = 5"
  by (simp_all add: emojioneList_13_def code_lengths_def)

lemma ends_14:
  "emojioneList_14 \<noteq> []" "hd (code_lengths emojioneList_14) = 5"
  "last (code_lengths emojioneList_14) = 5"
  by (simp_all add: emojioneList_14_def code_lengths_def)

lemma ends_15:
  "emojioneList_15 \<noteq> []" "hd (code_lengths emojioneList_15) = 5"
  "last (code_lengths emojioneList_15) = 5"
  by (simp_all add: emojioneList_15_def code_lengths_def)

lemma ends_16:
  "emojioneList_16 \<noteq> []" "hd (code_lengths emojioneList_16) = 5"
  "last (code_lengths emojioneList_16) = 5"
  by (simp_all add: emojioneList_16_def code_lengths_def)

lemma ends_17:
  "emojioneList_17 \<noteq> []" "hd (code_lengths emojioneList_17) = 5"
  "last (code_lengths emojioneList_17) = 4"
  by (simp_all add: emojioneList_17_def code_lengths_def)

lemmas length_ends =
  ends_1 ends_2 ends_3 ends_4 ends_5 ends_6 ends_7 ends_8 ends_9 ends_10 ends_11 ends_12 ends_13 ends_14 ends_15 ends_16 ends_17

lemma escape_map_ok: "list_all escape_ok jsEscapeMap"
  unfolding jsEscapeMap_def list_all_append
  using escape_ok_1 escape_ok_2 escape_ok_3 escape_ok_4 escape_ok_5 escape_ok_6 escape_ok_7 escape_ok_8 escape_ok_9 escape_ok_10 escape_ok_11 escape_ok_12 escape_ok_13 escape_ok_14 by blast

lemma emoji_list_ok: "list_all entry_ok emojioneList"
  unfolding emojioneList_def list_all_append
  using entry_ok_1 entry_ok_2 entry_ok_3 entry_ok_4 entry_ok_5 entry_ok_6 entry_ok_7 entry_ok_8 entry_ok_9 entry_ok_10 entry_ok_11 entry_ok_12 entry_ok_13 entry_ok_14 entry_ok_15 entry_ok_16 entry_ok_17 by blast

lemma emoji_lengths: "descending (code_lengths emojioneList)"
proof -
  have n: "code_lengths es = [] \<longleftrightarrow> es = []" for es by (simp add: code_lengths_def)
  show ?thesis
    unfolding emojioneList_def code_lengths_append descending_append
    using lengths_1 lengths_2 lengths_3 lengths_4 lengths_5 lengths_6 lengths_7 lengths_8 lengths_9 lengths_10 lengths_11 lengths_12 lengths_13 lengths_14 lengths_15 lengths_16 lengths_17
    by (simp add: length_ends n last_append hd_append)
qed

section \<open>Short names in text\<close>

lemma replace_g_st:
  assumes "\<And>st s. m st s = m True s"
  shows "replace_g m f st s = replace_g m f True s"
  using assms [of st s] by (subst (1 2) replace_g.simps) simp

lemma shortname_shape:
  assumes "p \<in> set shortnames"
  shows "\<exists>w. p = 0x3A # js w @ [0x3A] \<and> list_all shortname_char w"
proof -
  obtain n e where n: "p = js n" "(n, e) \<in> set emojioneList" using assms by (auto simp: shortnames_def)
  then have "entry_ok (n, e)" using emoji_list_ok by (simp add: list_all_iff)
  then obtain cs where "n = CHR '':'' # cs" "name_ok cs" by (auto simp: entry_ok_def split: list.splits)
  then show ?thesis using name_ok_shape n(1) by fastforce
qed

lemma shortnames_ne: "[] \<notin> set shortnames"
  using shortname_shape by fastforce

lemma progressive_shortnames: "progressive regShortNames"
  unfolding regShortNames_def by (rule progressive_literals [OF shortnames_ne])

lemma regShortNames_st: "regShortNames st s = regShortNames True s"
  by (simp add: regShortNames_def reg_literals_def)

lemma emoji_of_shortname: "emoji_of p \<noteq> None \<longleftrightarrow> p \<in> set shortnames"
  by (force simp: emoji_of_def obj_get_None shortnames_def)

lemma regShortNames_miss:
  assumes "c \<noteq> 0x3C" "c \<noteq> 0x3A"
  shows "regShortNames st (c # s) = None"
  unfolding regShortNames_def
proof (rule reg_literals_miss)
  show "match_html ascii_upper (c # s) = None"
    using match_html_lt [of "c # s"] assms(1) by (cases "match_html ascii_upper (c # s)") auto
  have "ascii_upper c \<noteq> 0x3A" using assms(2) by (auto simp: ascii_upper_def)
  then show "\<not> starts ascii_upper p (c # s)" if "p \<in> set shortnames" for p
    using shortname_shape [OF that] by (auto simp: starts_simps ascii_upper_numeral)
qed

text \<open>A pass that leaves what is not a short name alone.\<close>

definition short_pass :: "(jsstr \<Rightarrow> emoji \<Rightarrow> jsstr) \<Rightarrow> jsstr \<Rightarrow> jsstr" where
  "short_pass f str =
     replace_g regShortNames (\<lambda>shortname _. case emoji_of shortname of None \<Rightarrow> shortname | Some e \<Rightarrow> f shortname e)
       True str"

lemma short_pass_st:
  "replace_g regShortNames (\<lambda>shortname _. case emoji_of shortname of None \<Rightarrow> shortname | Some e \<Rightarrow> f shortname e)
     st str = short_pass f str"
  unfolding short_pass_def by (rule replace_g_st) (rule regShortNames_st)

lemma short_pass_step:
  assumes "regShortNames True s = Some (n, g)"
  shows "short_pass f s
    = (case emoji_of (take n s) of None \<Rightarrow> take n s | Some e \<Rightarrow> f (take n s) e) @ short_pass f (drop n s)"
  using replace_g_hit [OF progressive_shortnames assms,
      of "\<lambda>shortname _. case emoji_of shortname of None \<Rightarrow> shortname | Some e \<Rightarrow> f shortname e"]
  unfolding short_pass_st .

lemma shortname_pass_eq: "shortname_pass = short_pass (\<lambda>_ e. convert (to_upper (unicode e ! 0)))"
  by (intro ext) (simp add: shortname_pass_def short_pass_def)

lemma short_pass_html:
  assumes "match_html ascii_upper s = Some n"
  shows "short_pass f s = take n s @ short_pass f (drop n s)"
proof -
  have "take n s \<noteq> []" "hd (take n s) = 0x3C"
    using match_html_bound [OF assms] match_html_lt [OF assms] by (auto simp: hd_take)
  then have "take n s \<notin> set shortnames" using shortname_shape by fastforce
  then have "emoji_of (take n s) = None" using emoji_of_shortname by blast
  moreover have "regShortNames True s = Some (n, None)"
    using assms by (simp add: regShortNames_def reg_literals_html)
  ultimately show ?thesis using short_pass_step by simp
qed

lemma short_pass_plain:
  assumes "0x3C \<notin> set s" "0x3A \<notin> set s"
  shows "short_pass f s = s"
  unfolding short_pass_def
proof (rule replace_g_none [OF progressive_shortnames])
  show "regShortNames st (drop k s) = None" for k st
  proof (cases "drop k s")
    case Nil
    then show ?thesis using progressive_Nil [OF progressive_shortnames] by simp
  next
    case (Cons c t)
    then have "c \<in> set s" by (metis in_set_dropD list.set_intros(1))
    then have "c \<noteq> 0x3C" "c \<noteq> 0x3A" using assms by auto
    then show ?thesis using Cons by (simp add: regShortNames_miss)
  qed
qed

lemma shortname_char_upper: "shortname_char c \<Longrightarrow> shortname_char d \<Longrightarrow> ascii_upper (of_char c) = ascii_upper (of_char d) \<Longrightarrow> c = d"
proof -
  have low: "\<not> (65 \<le> (of_char c :: nat) \<and> of_char c \<le> (90 :: nat))" if "shortname_char c" for c
    using that unfolding shortname_char_def by auto
  assume "shortname_char c" "shortname_char d" "ascii_upper (of_char c) = ascii_upper (of_char d)"
  then have "(of_char c :: nat) = of_char d"
    using low [of c] low [of d] unfolding ascii_upper_def by (simp split: if_splits del: of_char_eq_iff) linarith+
  then show "c = d" by simp
qed

lemma shortname_char_colon: "shortname_char c \<Longrightarrow> ascii_upper (of_char c) \<noteq> 0x3A"
proof
  assume c: "shortname_char c" "ascii_upper (of_char c) = 0x3A"
  then have "(of_char c :: nat) = of_char CHR '':''" by (auto simp: ascii_upper_def split: if_splits)
  then have "c = CHR '':''" by (metis of_char_eq_iff)
  then show False using c(1) by (simp add: shortname_char_simps)
qed

lemma name_prefix:
  assumes "list_all shortname_char w" "list_all shortname_char v"
    "starts ascii_upper (js w @ [0x3A]) (js v @ 0x3A # rest)"
  shows "w = v"
  using assms
proof (induction w arbitrary: v)
  case Nil
  then show ?case by (cases v) (auto simp: starts_simps ascii_upper_numeral dest: shortname_char_colon)
next
  case (Cons c w)
  show ?case
  proof (cases v)
    case Nil
    then show ?thesis using Cons.prems shortname_char_colon [of c] by (simp add: starts_simps ascii_upper_numeral)
  next
    case (Cons d u)
    then show ?thesis
      using Cons.IH [of u] Cons.prems shortname_char_upper [of c d] by (simp add: starts_simps)
  qed
qed

lemma starts_refl: "starts canon p (p @ s)"
  by (simp add: starts_def)

lemma find_unique: "p \<in> set alts \<Longrightarrow> Q p \<Longrightarrow> (\<And>q. q \<in> set alts \<Longrightarrow> Q q \<Longrightarrow> q = p) \<Longrightarrow> find Q alts = Some p"
proof (induction alts)
  case (Cons a alts)
  show ?case
  proof (cases "Q a")
    case True
    then have "a = p" using Cons.prems(3) [of a] by simp
    then show ?thesis using True by simp
  next
    case False
    then have "p \<in> set alts" using Cons.prems(1,2) by auto
    then have "find Q alts = Some p" using Cons.IH Cons.prems(2,3) list.set_intros(2) by metis
    then show ?thesis using False by simp
  qed
qed simp

lemma first_alt_shortname:
  assumes "p \<in> set shortnames"
  shows "first_alt ascii_upper shortnames (p @ rest) = Some p"
  unfolding first_alt_def
proof (rule find_unique [OF assms starts_refl])
  fix q
  assume q: "q \<in> set shortnames" "starts ascii_upper q (p @ rest)"
  obtain w where w: "p = 0x3A # js w @ [0x3A]" "list_all shortname_char w" using shortname_shape [OF assms] by blast
  obtain v where v: "q = 0x3A # js v @ [0x3A]" "list_all shortname_char v" using shortname_shape [OF q(1)] by blast
  have "starts ascii_upper (js v @ [0x3A]) (js w @ 0x3A # rest)" using q(2) w v by (simp add: starts_simps)
  then show "q = p" using name_prefix w v by blast
qed

lemma short_pass_hit:
  assumes "p \<in> set shortnames"
  shows "\<exists>e. emoji_of p = Some e \<and> unicode e \<noteq> [] \<and> short_pass f (p @ rest) = f p e @ short_pass f rest"
proof -
  obtain e where e: "emoji_of p = Some e" using assms emoji_of_shortname by blast
  then obtain n where "(n, e) \<in> set emojioneList" using obj_get_in unfolding emoji_of_def by fastforce
  then have u: "unicode e \<noteq> []" using emoji_list_ok by (auto simp: list_all_iff entry_ok_def)
  obtain w where w: "p = 0x3A # js w @ [0x3A]" using shortname_shape [OF assms] by blast
  have "match_html ascii_upper (p @ rest) = None"
    using match_html_lt [of "p @ rest"] w by (cases "match_html ascii_upper (p @ rest)") auto
  then have "regShortNames True (p @ rest) = Some (length p, Some p)"
    using first_alt_shortname [OF assms, of rest] by (simp add: regShortNames_def reg_literals_def)
  then have "short_pass f (p @ rest) = f p e @ short_pass f rest"
    using short_pass_step [of "p @ rest" "length p" "Some p" f] e by simp
  with e u show ?thesis by blast
qed

section \<open>Properties of the emoji conversions\<close>

text \<open>
  C3. The escape table is exact: whatever character sequence is looked up in \<^verbatim>\<open>jsEscapeMap\<close>, its code converts
  back to that very sequence, in either case of the digits; so the alternative text of the image that
  \<^verbatim>\<open>unicodeToImage\<close> inserts is the text it replaces, although the table repeats keys.
\<close>

theorem escape_map_exact:
  assumes "obj_get jsEscapeMap c = Some code"
  shows "convert code = c \<and> convert (to_upper code) = c
    \<and> unicode_image ns_default mappedUnicode c = (if c = [] then [] else svg_img ns_default code c)"
proof -
  have "escape_ok (c, code)" using escape_map_ok obj_get_in [OF assms] by (simp add: list_all_iff)
  then have "convert code = c" by (simp add: escape_ok_def)
  then show ?thesis using assms by (simp add: convert_upper unicode_image_def ns_default_def Let_def)
qed

theorem escape_map_exact_witness: "convert ''1f5b1'' = [0xD83D, 0xDDB1]"
proof -
  have "obj_get jsEscapeMap_14 [0xD83D, 0xDDB1] = Some ''1f5b1''"
    by (simp add: obj_get_def jsEscapeMap_14_def)
  then have "obj_get jsEscapeMap [0xD83D, 0xDDB1] = Some ''1f5b1''"
    by (simp add: jsEscapeMap_def obj_get_append)
  then show ?thesis using escape_map_exact by blast
qed

text \<open>
  C31. The table of short names is well formed: the codes are ordered from the longest to the shortest, as the
  comment in front of the table asks; every entry has a code, so reading the first and the last code is safe; every
  code is groups of hexadecimal digits; and every short name is a word between two colons that contains no character
  special in a regular expression except the plus sign, the only one that is escaped when the pattern is built.
\<close>

theorem emoji_table_wf:
  "sorted_wrt (\<lambda>a b. b \<le> a) (code_lengths emojioneList)
   \<and> (\<forall>(n, e) \<in> set emojioneList. unicode e \<noteq> [] \<and> list_all (code_ok 0) (unicode e)
        \<and> (\<exists>w. n = '':'' @ w @ '':'' \<and> list_all shortname_char w))"
proof -
  have "unicode e \<noteq> [] \<and> list_all (code_ok 0) (unicode e) \<and> (\<exists>w. n = '':'' @ w @ '':'' \<and> list_all shortname_char w)"
    if "(n, e) \<in> set emojioneList" for n e
  proof -
    have "entry_ok (n, e)" using that emoji_list_ok by (simp add: list_all_iff)
    then show ?thesis using name_ok_shape by (fastforce simp: entry_ok_def split: list.splits)
  qed
  then show ?thesis using emoji_lengths by (auto simp: descending_sorted)
qed

theorem emoji_table_wf_witness:
  "\<exists>w. '':loop:'' = '':'' @ w @ '':'' \<and> list_all shortname_char w"
proof -
  have "('':loop:'', Emoji [''27bf''] True) \<in> set emojioneList_17" by (simp add: emojioneList_17_def)
  then have "('':loop:'', Emoji [''27bf''] True) \<in> set emojioneList" by (simp add: emojioneList_def)
  then show ?thesis using emoji_table_wf by fastforce
qed

text \<open>
  C5. Replacing short names is local: a short name of the table, at the front of any text, is replaced by the
  characters of its first code and the rest is treated alone; markup is copied untouched; and text without an
  angle bracket and a colon does not change.
\<close>

theorem shortname_pass_local:
  "(p \<in> set shortnames \<longrightarrow>
      (\<exists>e. emoji_of p = Some e \<and> unicode e \<noteq> []
         \<and> shortname_pass (p @ rest) = convert (unicode e ! 0) @ shortname_pass rest))
   \<and> (match_html ascii_upper s = Some n \<longrightarrow> shortname_pass s = take n s @ shortname_pass (drop n s))
   \<and> (0x3C \<notin> set s \<and> 0x3A \<notin> set s \<longrightarrow> shortname_pass s = s)"
  unfolding shortname_pass_eq
  using short_pass_hit [of p "\<lambda>_ e. convert (to_upper (unicode e ! 0))" rest] short_pass_html short_pass_plain
  by (simp add: convert_upper)

theorem shortname_pass_local_witness: "shortname_pass (js ''plain text'') = js ''plain text''"
  using shortname_pass_local [of "[]" "[]" "js ''plain text''" 0] by simp

text \<open>
  C27 (error). HTML escapes: the result of \<^verbatim>\<open>escapeHTML\<close> contains none of the brackets and quotes. On every text
  \<^verbatim>\<open>unescapeHTML\<close> undoes it except that each apostrophe stays in its escaped spelling, so the text comes back exactly if it
  has no apostrophe. In front of any text, an entity of the pattern is replaced by its character when spelled as in the table
  and by the word undefined in any other letters, because the pattern ignores case and the table does not.
\<close>

theorem html_escapes:
  "(c \<in> set (escapeHTML s) \<longrightarrow> c \<noteq> 0x3C \<and> c \<noteq> 0x3E \<and> c \<noteq> 0x22 \<and> c \<noteq> 0x27)
   \<and> unescapeHTML (escapeHTML s) = concat (map (\<lambda>c. if c = 0x27 then js ''&#039;'' else [c]) s)
   \<and> (unescapeHTML (escapeHTML s) = s \<longleftrightarrow> 0x27 \<notin> set s)
   \<and> (p \<in> set html_entities \<and> map ascii_upper e = map ascii_upper p \<longrightarrow>
        unescapeHTML (e @ s) =
          (if e = p then (case obj_get (map (\<lambda>(k, v). (js k, v)) html_unescaped) p of Some c \<Rightarrow> [c] | None \<Rightarrow> [])
           else js ''undefined'') @ unescapeHTML s)"
  using escapeHTML_safe unescape_escape unescape_escape_same unescape_any_case [of p e s] unescape_entity_char [of p] by auto

theorem html_escapes_witness:
  "unescapeHTML (escapeHTML (js ''a<b & c'')) = js ''a<b & c'' \<and> unescapeHTML (js ''&LT;'' @ js ''b'') = js ''undefined'' @ unescapeHTML (js ''b'')"
  using html_escapes [of 0 "js ''a<b & c''"] html_escapes [of 0 "js ''b''" "js ''&lt;''" "js ''&LT;''"]
  by (auto simp: html_entities_def ascii_upper_numeral)

text \<open>
  C28. Memoization is transparent: as long as the cached tables are the computed ones, which holds at the start and
  after every call, \<^verbatim>\<open>toShort\<close> and \<^verbatim>\<open>unicodeToImage\<close> return what they would without a cache.
\<close>

theorem emoji_memo_transparent:
  "memo_ok memo_empty
   \<and> (memo_ok mem \<longrightarrow>
        fst (toShort canon mem str) = fst (toShort canon memo_empty str) \<and> memo_ok (snd (toShort canon mem str))
        \<and> fst (unicodeToImage ns canon mem str) = fst (unicodeToImage ns canon memo_empty str)
        \<and> memo_ok (snd (unicodeToImage ns canon mem str)))"
  using memo_ok_empty toShort_memo unicodeToImage_memo by metis

theorem emoji_memo_transparent_witness:
  "fst (toShort id (snd (toShort id memo_empty [0x41])) [0x41]) = fst (toShort id memo_empty [0x41])"
  using emoji_memo_transparent [of memo_empty id "[0x41]" ns_default]
    emoji_memo_transparent [of "snd (toShort id memo_empty [0x41])" id "[0x41]" ns_default] by blast

end
