(* ===== verification/Md5.thy ===== *)
theory Md5
  imports JsBase
begin

unbundle bit_operations_syntax

text \<open>
  \<^verbatim>\<open>src/src/qt/res/assets/plugins/md5/md5.js\<close>: the class \<^verbatim>\<open>Md5\<close>, which hashes a message given in pieces.
  \<^verbatim>\<open>blocks\<close> and \<^verbatim>\<open>buffer8\<close> are two views of one buffer of 68 bytes; without array buffers,
  \<^verbatim>\<open>blocks\<close> is an array of integers into whose bytes the input is ORed. Both are the byte list \<open>m_buffer\<close>,
  least significant byte first, and the flag \<open>AB\<close> stands for \<^verbatim>\<open>ARRAY_BUFFER\<close>. The sums of the rounds stay far below
  \<open>2 ^ 53\<close> and are reduced by the next shift, so they are sums of 32-bit words. The theory ends with the proof that
  the digest is the one RFC 1321 defines, however the message is cut.
\<close>

section \<open>The class\<close>

type_synonym chain = "u32 \<times> u32 \<times> u32 \<times> u32"

record md5_state =
  m_buffer :: "byte list"
  m_h :: chain
  m_start :: nat
  m_bytes :: nat
  m_lastByteIndex :: nat
  m_finalized :: bool
  m_hashed :: bool
  m_first :: bool

text \<open>
  The undefined \<^verbatim>\<open>lastByteIndex\<close> of a new object acts as zero in the operators it is used with.
\<close>

definition Md5_new :: md5_state where
  "Md5_new =
     \<lparr>m_buffer = replicate 68 0, m_h = (0, 0, 0, 0), m_start = 0, m_bytes = 0, m_lastByteIndex = 0,
      m_finalized = False, m_hashed = False, m_first = True\<rparr>"

definition block_word :: "byte list \<Rightarrow> nat \<Rightarrow> u32" where
  "block_word buf k = of_nat (le_val (take 4 (drop (4 * k) buf)))"

definition rot :: "nat \<Rightarrow> u32 \<Rightarrow> u32" where
  "rot s x = push_bit s x OR drop_bit (32 - s) x"

text \<open>The functions of the four rounds and a group of four of their steps.\<close>

definition md5_F :: "u32 \<Rightarrow> u32 \<Rightarrow> u32 \<Rightarrow> u32" where "md5_F b c d = d XOR (b AND (c XOR d))"
definition md5_G :: "u32 \<Rightarrow> u32 \<Rightarrow> u32 \<Rightarrow> u32" where "md5_G b c d = c XOR (d AND (b XOR c))"
definition md5_H :: "u32 \<Rightarrow> u32 \<Rightarrow> u32 \<Rightarrow> u32" where "md5_H b c d = (b XOR c) XOR d"
definition md5_I :: "u32 \<Rightarrow> u32 \<Rightarrow> u32 \<Rightarrow> u32" where "md5_I b c d = c XOR (b OR NOT d)"

definition quad ::
  "(u32 \<Rightarrow> u32 \<Rightarrow> u32 \<Rightarrow> u32) \<Rightarrow> nat \<Rightarrow> nat \<Rightarrow> nat \<Rightarrow> nat \<Rightarrow> (nat \<Rightarrow> u32)
    \<Rightarrow> nat \<Rightarrow> u32 \<Rightarrow> nat \<Rightarrow> u32 \<Rightarrow> nat \<Rightarrow> u32 \<Rightarrow> nat \<Rightarrow> u32 \<Rightarrow> chain \<Rightarrow> chain" where
  "quad f s1 s2 s3 s4 X k1 t1 k2 t2 k3 t3 k4 t4 v =
     (case v of (a, b, c, d) \<Rightarrow>
        let a = rot s1 (a + (f b c d + X k1 + t1)) + b;
            d = rot s2 (d + (f a b c + X k2 + t2)) + a;
            c = rot s3 (c + (f d a b + X k3 + t3)) + d;
            b = rot s4 (b + (f c d a + X k4 + t4)) + c
        in (a, b, c, d))"

text \<open>The first four steps: on the initial values they are simplified.\<close>

definition first_quad :: "(nat \<Rightarrow> u32) \<Rightarrow> chain" where
  "first_quad X =
     (let a = X 0 - 680876937;
          a = rot 7 a - 271733879;
          d = (- 1732584194 XOR (a AND 2004318071)) + X 1 - 117830708;
          d = rot 12 d + a;
          c = (- 271733879 XOR (d AND (a XOR - 271733879))) + X 2 - 1126478375;
          c = rot 17 c + d;
          b = (a XOR (c AND (d XOR a))) + X 3 - 1316259209;
          b = rot 22 b + c
      in (a, b, c, d))"

definition other_quad :: "(nat \<Rightarrow> u32) \<Rightarrow> chain \<Rightarrow> chain" where
  "other_quad X v = quad md5_F 7 12 17 22 X 0 (- 680876936) 1 (- 389564586) 2 (606105819) 3 (- 1044525330) v"

definition round1 :: "(nat \<Rightarrow> u32) \<Rightarrow> chain \<Rightarrow> chain" where
  "round1 X v =
     (let v = quad md5_F 7 12 17 22 X 4 (- 176418897) 5 (1200080426) 6 (- 1473231341) 7 (- 45705983) v;
          v = quad md5_F 7 12 17 22 X 8 (1770035416) 9 (- 1958414417) 10 (- 42063) 11 (- 1990404162) v;
          v = quad md5_F 7 12 17 22 X 12 (1804603682) 13 (- 40341101) 14 (- 1502002290) 15 (1236535329) v
      in v)"

definition round2 :: "(nat \<Rightarrow> u32) \<Rightarrow> chain \<Rightarrow> chain" where
  "round2 X v =
     (let v = quad md5_G 5 9 14 20 X 1 (- 165796510) 6 (- 1069501632) 11 (643717713) 0 (- 373897302) v;
          v = quad md5_G 5 9 14 20 X 5 (- 701558691) 10 (38016083) 15 (- 660478335) 4 (- 405537848) v;
          v = quad md5_G 5 9 14 20 X 9 (568446438) 14 (- 1019803690) 3 (- 187363961) 8 (1163531501) v;
          v = quad md5_G 5 9 14 20 X 13 (- 1444681467) 2 (- 51403784) 7 (1735328473) 12 (- 1926607734) v
      in v)"

definition round3 :: "(nat \<Rightarrow> u32) \<Rightarrow> chain \<Rightarrow> chain" where
  "round3 X v =
     (let v = quad md5_H 4 11 16 23 X 5 (- 378558) 8 (- 2022574463) 11 (1839030562) 14 (- 35309556) v;
          v = quad md5_H 4 11 16 23 X 1 (- 1530992060) 4 (1272893353) 7 (- 155497632) 10 (- 1094730640) v;
          v = quad md5_H 4 11 16 23 X 13 (681279174) 0 (- 358537222) 3 (- 722521979) 6 (76029189) v;
          v = quad md5_H 4 11 16 23 X 9 (- 640364487) 12 (- 421815835) 15 (530742520) 2 (- 995338651) v
      in v)"

definition round4 :: "(nat \<Rightarrow> u32) \<Rightarrow> chain \<Rightarrow> chain" where
  "round4 X v =
     (let v = quad md5_I 6 10 15 21 X 0 (- 198630844) 7 (1126891415) 14 (- 1416354905) 5 (- 57434055) v;
          v = quad md5_I 6 10 15 21 X 12 (1700485571) 3 (- 1894986606) 10 (- 1051523) 1 (- 2054922799) v;
          v = quad md5_I 6 10 15 21 X 8 (1873313359) 15 (- 30611744) 6 (- 1560198380) 13 (1309151649) v;
          v = quad md5_I 6 10 15 21 X 4 (- 145523070) 11 (- 1120210379) 2 (718787259) 9 (- 343485551) v
      in v)"

definition md5_hash :: "md5_state \<Rightarrow> md5_state" where
  "md5_hash st =
     (let X = block_word (m_buffer st);
          v = (if m_first st then first_quad X else other_quad X (m_h st))
      in case round4 X (round3 X (round2 X (round1 X v))) of (a, b, c, d) \<Rightarrow>
           (if m_first st
            then st\<lparr>m_h := (a + 1732584193, b - 271733879, c - 1732584194, d + 271733878), m_first := False\<rparr>
            else (case m_h st of (h0, h1, h2, h3) \<Rightarrow> st\<lparr>m_h := (h0 + a, h1 + b, h2 + c, h3 + d)\<rparr>)))"

text \<open>After a block has been hashed its overflow, in the last word, moves to the front.\<close>

definition carry_over :: "byte list \<Rightarrow> byte list" where
  "carry_over buf = take 4 (drop 64 buf) @ replicate 64 0"

definition reload :: "md5_state \<Rightarrow> md5_state" where
  "reload st = (if m_hashed st then st\<lparr>m_hashed := False, m_buffer := carry_over (m_buffer st)\<rparr> else st)"

definition put_byte :: "bool \<Rightarrow> byte list \<Rightarrow> nat \<Rightarrow> byte \<Rightarrow> byte list" where
  "put_byte AB buf i b = buf[i := if AB then b else buf ! i OR b]"

fun put_bytes :: "bool \<Rightarrow> byte list \<Rightarrow> nat \<Rightarrow> byte list \<Rightarrow> byte list \<times> nat" where
  "put_bytes AB buf i [] = (buf, i)"
| "put_bytes AB buf i (b # bs) = put_bytes AB (put_byte AB buf i b) (Suc i) bs"

text \<open>The inner loops: they fill the block and return the buffer, the index behind it and the rest of the message.\<close>

fun fill_bytes :: "bool \<Rightarrow> byte list \<Rightarrow> nat \<Rightarrow> byte list \<Rightarrow> byte list \<times> nat \<times> byte list" where
  "fill_bytes AB buf i [] = (buf, i, [])"
| "fill_bytes AB buf i (b # bs) =
     (if i < 64 then fill_bytes AB (put_byte AB buf i b) (Suc i) bs else (buf, i, b # bs))"

text \<open>
  The bytes of the character at the front and the rest of the string. A surrogate takes the next unit along, which
  reads as zero at the end of the string.
\<close>

definition utf8_at :: "nat \<Rightarrow> jsstr \<Rightarrow> byte list \<times> jsstr" where
  "utf8_at code s =
     (if code < 0x80 then ([of_nat code], s)
      else if code < 0x800 then ([of_nat (0xc0 OR code div 64), of_nat (0x80 OR code AND 0x3f)], s)
      else if code < 0xd800 \<or> code \<ge> 0xe000 then
        ([of_nat (0xe0 OR code div 4096), of_nat (0x80 OR code div 64 AND 0x3f), of_nat (0x80 OR code AND 0x3f)], s)
      else let lo = (case s of [] \<Rightarrow> 0 | u # _ \<Rightarrow> u AND 0x3ff);
               cp = 0x10000 + (push_bit 10 (code AND 0x3ff) OR lo)
           in ([of_nat (0xf0 OR cp div 262144), of_nat (0x80 OR cp div 4096 AND 0x3f),
                of_nat (0x80 OR cp div 64 AND 0x3f), of_nat (0x80 OR cp AND 0x3f)], drop 1 s))"

lemma utf8_at_rest: "utf8_at code s = (bs, r) \<Longrightarrow> length r \<le> length s"
  by (auto simp: utf8_at_def Let_def split: if_splits)

function fill_str :: "bool \<Rightarrow> byte list \<Rightarrow> nat \<Rightarrow> jsstr \<Rightarrow> byte list \<times> nat \<times> jsstr" where
  "fill_str AB buf i [] = (buf, i, [])"
| "fill_str AB buf i (code # s) =
     (if i < 64 then
        (case utf8_at code s of (bs, r) \<Rightarrow>
           (case put_bytes AB buf i bs of (buf1, i1) \<Rightarrow> fill_str AB buf1 i1 r))
      else (buf, i, code # s))"
  by pat_completeness auto
termination
  by (relation "measure (\<lambda>(AB, buf, i, s). length s)") (auto dest: utf8_at_rest [OF sym] simp: less_Suc_eq_le)

definition advance :: "md5_state \<Rightarrow> byte list \<Rightarrow> nat \<Rightarrow> md5_state" where
  "advance st buf i =
     (let st1 = st\<lparr>m_buffer := buf, m_lastByteIndex := i, m_bytes := m_bytes st + (i - m_start st)\<rparr>
      in if i \<ge> 64 then (md5_hash (st1\<lparr>m_start := i - 64\<rparr>))\<lparr>m_hashed := True\<rparr> else st1\<lparr>m_start := i\<rparr>)"

text \<open>The outer loop; \<open>None\<close> would be a loop that does not end.\<close>

partial_function (option) update_bytes :: "bool \<Rightarrow> md5_state \<Rightarrow> byte list \<Rightarrow> md5_state option" where
  "update_bytes AB st msg =
     (if msg = [] then Some st
      else (case fill_bytes AB (m_buffer (reload st)) (m_start (reload st)) msg of (buf, i, rest) \<Rightarrow>
              update_bytes AB (advance (reload st) buf i) rest))"

partial_function (option) update_str :: "bool \<Rightarrow> md5_state \<Rightarrow> jsstr \<Rightarrow> md5_state option" where
  "update_str AB st msg =
     (if msg = [] then Some st
      else (case fill_str AB (m_buffer (reload st)) (m_start (reload st)) msg of (buf, i, rest) \<Rightarrow>
              update_str AB (advance (reload st) buf i) rest))"

datatype message = Bytes "byte list" | Str jsstr

definition md5_update :: "bool \<Rightarrow> md5_state \<Rightarrow> message \<Rightarrow> md5_state option" where
  "md5_update AB st message =
     (if m_finalized st then Some st
      else (case message of Bytes b \<Rightarrow> update_bytes AB st b | Str s \<Rightarrow> update_str AB st s))"

definition EXTRA :: "nat \<Rightarrow> u32" where
  "EXTRA k = [128, 32768, 8388608, - 2147483648] ! k"

definition or_word :: "byte list \<Rightarrow> nat \<Rightarrow> u32 \<Rightarrow> byte list" where
  "or_word buf k w = take (4 * k) buf @ le_bytes 4 (unat (block_word buf k OR w)) @ drop (4 * k + 4) buf"

definition set_word :: "byte list \<Rightarrow> nat \<Rightarrow> u32 \<Rightarrow> byte list" where
  "set_word buf k w = take (4 * k) buf @ le_bytes 4 (unat w) @ drop (4 * k + 4) buf"

definition finalize :: "md5_state \<Rightarrow> md5_state" where
  "finalize st =
     (if m_finalized st then st
      else let i = m_lastByteIndex st;
               st1 = st\<lparr>m_finalized := True, m_buffer := or_word (m_buffer st) (i div 4) (EXTRA (i mod 4))\<rparr>;
               st2 = (if i \<ge> 56 then
                        (let st2 = (if \<not> m_hashed st1 then md5_hash st1 else st1)
                         in st2\<lparr>m_buffer := carry_over (m_buffer st2)\<rparr>)
                      else st1)
           in md5_hash (st2\<lparr>m_buffer := set_word (m_buffer st2) 14 (push_bit 3 (of_nat (m_bytes st2)))\<rparr>))"

definition HEX_CHARS :: string where "HEX_CHARS = ''0123456789abcdef''"

definition word_hex :: "u32 \<Rightarrow> string" where
  "word_hex h =
     map (\<lambda>k. HEX_CHARS ! unat (drop_bit k h AND 0x0F)) [4, 0, 12, 8, 20, 16, 28, 24]"

definition md5_hex :: "md5_state \<Rightarrow> string \<times> md5_state" where
  "md5_hex st =
     (let st1 = finalize st
      in case m_h st1 of (h0, h1, h2, h3) \<Rightarrow> (word_hex h0 @ word_hex h1 @ word_hex h2 @ word_hex h3, st1))"

definition word_digest :: "u32 \<Rightarrow> nat list" where
  "word_digest h = map (\<lambda>k. unat (drop_bit k h AND 0xFF)) [0, 8, 16, 24]"

definition md5_digest :: "md5_state \<Rightarrow> nat list \<times> md5_state" where
  "md5_digest st =
     (let st1 = finalize st
      in case m_h st1 of (h0, h1, h2, h3) \<Rightarrow>
           (word_digest h0 @ word_digest h1 @ word_digest h2 @ word_digest h3, st1))"

definition md5_arrayBuffer :: "md5_state \<Rightarrow> byte list \<times> md5_state" where
  "md5_arrayBuffer st =
     (let st1 = finalize st
      in case m_h st1 of (h0, h1, h2, h3) \<Rightarrow> (concat (map (\<lambda>h. le_bytes 4 (unat h)) [h0, h1, h2, h3]), st1))"

text \<open>The exported function: a new object, one update, the hexadecimal digest.\<close>

definition md5 :: "bool \<Rightarrow> message \<Rightarrow> string option" where
  "md5 AB message = map_option (\<lambda>st. fst (md5_hex st)) (md5_update AB Md5_new message)"

section \<open>RFC 1321\<close>

definition rfc_K :: "u32 list" where
  "rfc_K =
    [0xd76aa478, 0xe8c7b756, 0x242070db, 0xc1bdceee,
     0xf57c0faf, 0x4787c62a, 0xa8304613, 0xfd469501,
     0x698098d8, 0x8b44f7af, 0xffff5bb1, 0x895cd7be,
     0x6b901122, 0xfd987193, 0xa679438e, 0x49b40821,
     0xf61e2562, 0xc040b340, 0x265e5a51, 0xe9b6c7aa,
     0xd62f105d, 0x02441453, 0xd8a1e681, 0xe7d3fbc8,
     0x21e1cde6, 0xc33707d6, 0xf4d50d87, 0x455a14ed,
     0xa9e3e905, 0xfcefa3f8, 0x676f02d9, 0x8d2a4c8a,
     0xfffa3942, 0x8771f681, 0x6d9d6122, 0xfde5380c,
     0xa4beea44, 0x4bdecfa9, 0xf6bb4b60, 0xbebfbc70,
     0x289b7ec6, 0xeaa127fa, 0xd4ef3085, 0x04881d05,
     0xd9d4d039, 0xe6db99e5, 0x1fa27cf8, 0xc4ac5665,
     0xf4292244, 0x432aff97, 0xab9423a7, 0xfc93a039,
     0x655b59c3, 0x8f0ccc92, 0xffeff47d, 0x85845dd1,
     0x6fa87e4f, 0xfe2ce6e0, 0xa3014314, 0x4e0811a1,
     0xf7537e82, 0xbd3af235, 0x2ad7d2bb, 0xeb86d391]"

definition rfc_S :: "nat \<Rightarrow> nat" where
  "rfc_S j = [[7, 12, 17, 22], [5, 9, 14, 20], [4, 11, 16, 23], [6, 10, 15, 21]] ! (j div 16) ! (j mod 4)"

definition rfc_f :: "nat \<Rightarrow> u32 \<Rightarrow> u32 \<Rightarrow> u32 \<Rightarrow> u32" where
  "rfc_f j x y z =
     (if j < 16 then (x AND y) OR (NOT x AND z)
      else if j < 32 then (x AND z) OR (y AND NOT z)
      else if j < 48 then x XOR y XOR z
      else y XOR (x OR NOT z))"

definition rfc_g :: "nat \<Rightarrow> nat" where
  "rfc_g j =
     (if j < 16 then j else if j < 32 then (5 * j + 1) mod 16 else if j < 48 then (3 * j + 5) mod 16 else 7 * j mod 16)"

definition rfc_step :: "(nat \<Rightarrow> u32) \<Rightarrow> chain \<Rightarrow> nat \<Rightarrow> chain" where
  "rfc_step X v j =
     (case v of (a, b, c, d) \<Rightarrow>
        (d, b + word_rotl (rfc_S j) (a + rfc_f j b c d + X (rfc_g j) + rfc_K ! j), b, c))"

definition rfc_iv :: chain where
  "rfc_iv = (0x67452301, 0xefcdab89, 0x98badcfe, 0x10325476)"

definition rfc_compress :: "chain \<Rightarrow> byte list \<Rightarrow> chain" where
  "rfc_compress h block =
     (case (h, foldl (rfc_step (block_word block)) h [0..<64]) of ((A, B, C, D), (a, b, c, d)) \<Rightarrow>
        (A + a, B + b, C + c, D + d))"

function blocks64 :: "byte list \<Rightarrow> byte list list" where
  "blocks64 bs = (if length bs < 64 then [] else take 64 bs # blocks64 (drop 64 bs))"
  by pat_completeness auto
termination by (relation "measure length") auto

declare blocks64.simps [simp del]

definition rfc_pad :: "byte list \<Rightarrow> byte list" where
  "rfc_pad m = m @ [0x80] @ replicate ((119 - length m mod 64) mod 64) 0 @ le_bytes 8 (8 * length m)"

definition rfc_md5 :: "byte list \<Rightarrow> chain" where
  "rfc_md5 m = foldl rfc_compress rfc_iv (blocks64 (rfc_pad m))"

section \<open>The unrolled rounds are those of the RFC\<close>

lemma rot_eq: "0 < s \<Longrightarrow> s < 32 \<Longrightarrow> rot s x = word_rotl s x"
proof (rule bit_word_eqI)
  fix n
  assume s: "0 < s" "s < 32" and "n < LENGTH(32)"
  then have n: "n < 32" by simp
  show "bit (rot s x) n \<longleftrightarrow> bit (word_rotl s x) n"
  proof (cases "n < s")
    case True
    then have "(n + (32 - s)) mod 32 = 32 - s + n" using s n by (simp add: add.commute)
    then have "bit (word_rotl s x) n \<longleftrightarrow> bit x (32 - s + n)"
      unfolding bit_word_rotl_iff using s n by simp
    moreover have "bit (rot s x) n \<longleftrightarrow> bit x (32 - s + n)"
      using True s n unfolding rot_def bit_or_iff bit_push_bit_iff bit_drop_bit_eq comp_def by simp
    ultimately show ?thesis by simp
  next
    case False
    then have "(n + (32 - s)) mod 32 = n - s" using s n by (simp add: le_mod_geq)
    moreover have "\<not> bit x (32 - s + n)" using False s bit_imp_le_length [of x "32 - s + n"] by auto
    ultimately show ?thesis
      using False s n by (simp add: rot_def bit_word_rotl_iff bit_or_iff bit_push_bit_iff bit_drop_bit_eq)
  qed
qed

lemma md5_f_eq:
  "md5_F b c d = (b AND c) OR (NOT b AND d)" "md5_G b c d = (b AND d) OR (c AND NOT d)"
  "md5_H b c d = b XOR c XOR d" "md5_I b c d = c XOR (b OR NOT d)"
  by (auto simp: md5_F_def md5_G_def md5_H_def md5_I_def ac_simps intro!: bit_eqI
      simp: bit_and_iff bit_or_iff bit_xor_iff bit_not_iff)

lemma upt_quad: "[j..<j + 4] = [j, Suc j, Suc (Suc j), Suc (Suc (Suc j))]"
  by (simp add: upt_rec)

lemma quad_steps:
  assumes "\<And>x y z. rfc_f j x y z = f x y z" "\<And>x y z. rfc_f (Suc j) x y z = f x y z"
    "\<And>x y z. rfc_f (Suc (Suc j)) x y z = f x y z" "\<And>x y z. rfc_f (Suc (Suc (Suc j))) x y z = f x y z"
    "rfc_S j = s1" "rfc_S (Suc j) = s2" "rfc_S (Suc (Suc j)) = s3" "rfc_S (Suc (Suc (Suc j))) = s4"
    "rfc_g j = k1" "rfc_g (Suc j) = k2" "rfc_g (Suc (Suc j)) = k3" "rfc_g (Suc (Suc (Suc j))) = k4"
    "rfc_K ! j = t1" "rfc_K ! Suc j = t2" "rfc_K ! Suc (Suc j) = t3" "rfc_K ! Suc (Suc (Suc j)) = t4"
    "0 < s1" "s1 < 32" "0 < s2" "s2 < 32" "0 < s3" "s3 < 32" "0 < s4" "s4 < 32"
    "m = j + 4"
  shows "quad f s1 s2 s3 s4 X k1 t1 k2 t2 k3 t3 k4 t4 v
    = foldl (rfc_step X) v [j..<m]"
proof (cases v)
  case (fields a b c d)
  define a1 where "a1 = b + word_rotl s1 (a + f b c d + X k1 + t1)"
  define d1 where "d1 = a1 + word_rotl s2 (d + f a1 b c + X k2 + t2)"
  define c1 where "c1 = d1 + word_rotl s3 (c + f d1 a1 b + X k3 + t3)"
  define b1 where "b1 = c1 + word_rotl s4 (b + f c1 d1 a1 + X k4 + t4)"
  have "quad f s1 s2 s3 s4 X k1 t1 k2 t2 k3 t3 k4 t4 v = (a1, b1, c1, d1)"
    unfolding fields quad_def prod.case Let_def rot_eq [OF assms(17,18)] rot_eq [OF assms(19,20)]
      rot_eq [OF assms(21,22)] rot_eq [OF assms(23,24)] add.assoc [symmetric] add.commute [of "word_rotl _ _"]
      a1_def [symmetric] d1_def [symmetric] c1_def [symmetric] b1_def [symmetric] ..
  moreover have "rfc_step X v j = (d, a1, b, c)" unfolding fields rfc_step_def prod.case assms a1_def ..
  moreover have "rfc_step X (d, a1, b, c) (Suc j) = (c, d1, a1, b)" unfolding rfc_step_def prod.case assms d1_def ..
  moreover have "rfc_step X (c, d1, a1, b) (Suc (Suc j)) = (b, c1, d1, a1)" unfolding rfc_step_def prod.case assms c1_def ..
  moreover have "rfc_step X (b, c1, d1, a1) (Suc (Suc (Suc j))) = (a1, b1, c1, d1)"
    unfolding rfc_step_def prod.case assms b1_def ..
  ultimately show ?thesis unfolding assms(25) upt_quad by simp
qed

lemma first_quad_eq: "first_quad X = other_quad X rfc_iv"
proof -
  define a where "a = rot 7 (X 0 - 680876937) - 271733879"
  define d where "d = rot 12 ((- 1732584194 XOR (a AND 2004318071)) + X 1 - 117830708) + a"
  define c where "c = rot 17 ((- 271733879 XOR (d AND (a XOR - 271733879))) + X 2 - 1126478375) + d"
  define b where "b = rot 22 ((a XOR (c AND (d XOR a))) + X 3 - 1316259209) + c"
  have f: "first_quad X = (a, b, c, d)"
    unfolding first_quad_def Let_def a_def [symmetric] d_def [symmetric] c_def [symmetric] b_def [symmetric] ..
  have x: "(0xefcdab89 :: u32) XOR 0x98badcfe = 2004318071" "(0x98badcfe :: u32) = - 1732584194"
    "(0xefcdab89 :: u32) = - 271733879" by simp_all
  have e1: "0x67452301 + (md5_F 0xefcdab89 0x98badcfe 0x10325476 + X 0 + - 680876936) = X 0 - 680876937"
    by (simp add: md5_F_def)
  have a: "rot 7 (0x67452301 + (md5_F 0xefcdab89 0x98badcfe 0x10325476 + X 0 + - 680876936)) + 0xefcdab89 = a"
    unfolding e1 a_def by simp
  have e2: "0x10325476 + (md5_F a 0xefcdab89 0x98badcfe + X 1 + - 389564586)
      = (- 1732584194 XOR (a AND 2004318071)) + X 1 - 117830708"
    unfolding md5_F_def x(1) unfolding x by (simp add: algebra_simps)
  have d: "rot 12 (0x10325476 + (md5_F a 0xefcdab89 0x98badcfe + X 1 + - 389564586)) + a = d"
    unfolding e2 d_def ..
  have e3: "0x98badcfe + (md5_F d a 0xefcdab89 + X 2 + 606105819)
      = (- 271733879 XOR (d AND (a XOR - 271733879))) + X 2 - 1126478375"
    unfolding md5_F_def x by (simp add: algebra_simps)
  have c: "rot 17 (0x98badcfe + (md5_F d a 0xefcdab89 + X 2 + 606105819)) + d = c"
    unfolding e3 c_def ..
  have e4: "0xefcdab89 + (md5_F c d a + X 3 + - 1044525330) = (a XOR (c AND (d XOR a))) + X 3 - 1316259209"
    unfolding md5_F_def x by (simp add: algebra_simps)
  have b: "rot 22 (0xefcdab89 + (md5_F c d a + X 3 + - 1044525330)) + c = b"
    unfolding e4 b_def ..
  show ?thesis unfolding f other_quad_def quad_def rfc_iv_def prod.case Let_def a d c b ..
qed


lemmas rfc_simps = rfc_f_def rfc_S_def rfc_g_def rfc_K_def md5_f_eq

lemma foldl_upt_join: "i \<le> j \<Longrightarrow> j \<le> k \<Longrightarrow> foldl f (foldl f v [i..<j]) [j..<k] = foldl f v [i..<k]"
  using upt_add_eq_append [of i j "k - j"] by simp

lemma quad_0:
  "quad md5_F 7 12 17 22 X 0 (- 680876936) 1 (- 389564586) 2 (606105819) 3 (- 1044525330) v
   = foldl (rfc_step X) v [0..<4]"
  by (rule quad_steps) (simp_all add: rfc_simps)

lemma quad_4:
  "quad md5_F 7 12 17 22 X 4 (- 176418897) 5 (1200080426) 6 (- 1473231341) 7 (- 45705983) v
   = foldl (rfc_step X) v [4..<8]"
  by (rule quad_steps) (simp_all add: rfc_simps)

lemma quad_8:
  "quad md5_F 7 12 17 22 X 8 (1770035416) 9 (- 1958414417) 10 (- 42063) 11 (- 1990404162) v
   = foldl (rfc_step X) v [8..<12]"
  by (rule quad_steps) (simp_all add: rfc_simps)

lemma quad_12:
  "quad md5_F 7 12 17 22 X 12 (1804603682) 13 (- 40341101) 14 (- 1502002290) 15 (1236535329) v
   = foldl (rfc_step X) v [12..<16]"
  by (rule quad_steps) (simp_all add: rfc_simps)

lemma quad_16:
  "quad md5_G 5 9 14 20 X 1 (- 165796510) 6 (- 1069501632) 11 (643717713) 0 (- 373897302) v
   = foldl (rfc_step X) v [16..<20]"
  by (rule quad_steps) (simp_all add: rfc_simps)

lemma quad_20:
  "quad md5_G 5 9 14 20 X 5 (- 701558691) 10 (38016083) 15 (- 660478335) 4 (- 405537848) v
   = foldl (rfc_step X) v [20..<24]"
  by (rule quad_steps) (simp_all add: rfc_simps)

lemma quad_24:
  "quad md5_G 5 9 14 20 X 9 (568446438) 14 (- 1019803690) 3 (- 187363961) 8 (1163531501) v
   = foldl (rfc_step X) v [24..<28]"
  by (rule quad_steps) (simp_all add: rfc_simps)

lemma quad_28:
  "quad md5_G 5 9 14 20 X 13 (- 1444681467) 2 (- 51403784) 7 (1735328473) 12 (- 1926607734) v
   = foldl (rfc_step X) v [28..<32]"
  by (rule quad_steps) (simp_all add: rfc_simps)

lemma quad_32:
  "quad md5_H 4 11 16 23 X 5 (- 378558) 8 (- 2022574463) 11 (1839030562) 14 (- 35309556) v
   = foldl (rfc_step X) v [32..<36]"
  by (rule quad_steps) (simp_all add: rfc_simps)

lemma quad_36:
  "quad md5_H 4 11 16 23 X 1 (- 1530992060) 4 (1272893353) 7 (- 155497632) 10 (- 1094730640) v
   = foldl (rfc_step X) v [36..<40]"
  by (rule quad_steps) (simp_all add: rfc_simps)

lemma quad_40:
  "quad md5_H 4 11 16 23 X 13 (681279174) 0 (- 358537222) 3 (- 722521979) 6 (76029189) v
   = foldl (rfc_step X) v [40..<44]"
  by (rule quad_steps) (simp_all add: rfc_simps)

lemma quad_44:
  "quad md5_H 4 11 16 23 X 9 (- 640364487) 12 (- 421815835) 15 (530742520) 2 (- 995338651) v
   = foldl (rfc_step X) v [44..<48]"
  by (rule quad_steps) (simp_all add: rfc_simps)

lemma quad_48:
  "quad md5_I 6 10 15 21 X 0 (- 198630844) 7 (1126891415) 14 (- 1416354905) 5 (- 57434055) v
   = foldl (rfc_step X) v [48..<52]"
  by (rule quad_steps) (simp_all add: rfc_simps)

lemma quad_52:
  "quad md5_I 6 10 15 21 X 12 (1700485571) 3 (- 1894986606) 10 (- 1051523) 1 (- 2054922799) v
   = foldl (rfc_step X) v [52..<56]"
  by (rule quad_steps) (simp_all add: rfc_simps)

lemma quad_56:
  "quad md5_I 6 10 15 21 X 8 (1873313359) 15 (- 30611744) 6 (- 1560198380) 13 (1309151649) v
   = foldl (rfc_step X) v [56..<60]"
  by (rule quad_steps) (simp_all add: rfc_simps)

lemma quad_60:
  "quad md5_I 6 10 15 21 X 4 (- 145523070) 11 (- 1120210379) 2 (718787259) 9 (- 343485551) v
   = foldl (rfc_step X) v [60..<64]"
  by (rule quad_steps) (simp_all add: rfc_simps)

lemma rounds_eq:
  "round4 X (round3 X (round2 X (round1 X (other_quad X v)))) = foldl (rfc_step X) v [0..<64]"
  unfolding round1_def round2_def round3_def round4_def other_quad_def Let_def
    quad_0 quad_4 quad_8 quad_12 quad_16 quad_20 quad_24 quad_28 quad_32 quad_36 quad_40 quad_44
    quad_48 quad_52 quad_56 quad_60
  by (simp only: foldl_upt_join zero_le_numeral numeral_le_iff semiring_norm)

lemma md5_hash_eq:
  "md5_hash st = st\<lparr>m_h := rfc_compress (if m_first st then rfc_iv else m_h st) (m_buffer st), m_first := False\<rparr>"
proof -
  have iv: "(case rfc_iv of (A, B, C, D) \<Rightarrow> (a + A, b + B, c + C, d + D))
      = (a + 1732584193, b - 271733879, c - 1732584194, d + 271733878)" for a b c d
    by (simp add: rfc_iv_def)
  show ?thesis
    by (cases "m_first st"; cases "m_h st"; cases "foldl (rfc_step (block_word (m_buffer st)))
        (if m_first st then rfc_iv else m_h st) [0..<64]")
      (simp_all add: md5_hash_def Let_def first_quad_eq rounds_eq rfc_compress_def add.commute iv)
qed

section \<open>Blocks\<close>

lemma rfc_g_lt: "j < 64 \<Longrightarrow> rfc_g j < 16"
  by (simp add: rfc_g_def)

lemma block_word_take: "k < 16 \<Longrightarrow> block_word (take 64 buf) k = block_word buf k"
  by (simp add: block_word_def drop_take min_def)

lemma foldl_cong_set:
  assumes "\<And>v j. j \<in> set ks \<Longrightarrow> f v j = g v j"
  shows "foldl f v ks = foldl g v ks"
  using assms by (induction ks arbitrary: v) simp_all

lemma rfc_compress_take: "rfc_compress h (take 64 buf) = rfc_compress h buf"
proof -
  have "foldl (rfc_step (block_word (take 64 buf))) h [0..<64] = foldl (rfc_step (block_word buf)) h [0..<64]"
    by (rule foldl_cong_set) (simp add: rfc_step_def block_word_take rfc_g_lt split: prod.split)
  then show ?thesis by (simp add: rfc_compress_def)
qed

lemma blocks64_short: "length r < 64 \<Longrightarrow> blocks64 r = []"
  by (simp add: blocks64.simps)

lemma blocks64_block: "length b = 64 \<Longrightarrow> blocks64 (b @ r) = b # blocks64 r"
  by (subst blocks64.simps) simp

lemma blocks64_append: "length p mod 64 = 0 \<Longrightarrow> blocks64 (p @ r) = blocks64 p @ blocks64 r"
proof (induction p rule: blocks64.induct)
  case (1 p)
  show ?case
  proof (cases "length p < 64")
    case True
    then have "p = []" using "1.prems" by simp
    then show ?thesis by (simp add: blocks64_short)
  next
    case False
    then have "length (drop 64 p) mod 64 = 0" using "1.prems" by (simp add: mod_if)
    then have "blocks64 (drop 64 p @ r) = blocks64 (drop 64 p) @ blocks64 r" using 1 False by simp
    moreover have "blocks64 (take 64 p @ drop 64 p @ r) = take 64 p # blocks64 (drop 64 p @ r)"
      using False by (intro blocks64_block) simp
    moreover have "blocks64 p = take 64 p # blocks64 (drop 64 p)" using False by (subst blocks64.simps) simp
    ultimately show ?thesis by (metis append_Cons append_assoc append_take_drop_id)
  qed
qed

section \<open>Filling the buffer\<close>

definition zeros :: "nat \<Rightarrow> byte list" where "zeros n = replicate n 0"

lemma length_zeros [simp]: "length (zeros n) = n"
  by (simp add: zeros_def)

lemma zeros_0 [simp]: "zeros 0 = []"
  by (simp add: zeros_def)

lemma zeros_Suc: "zeros (Suc n) = 0 # zeros n"
  by (simp add: zeros_def)

lemma take_zeros [simp]: "take k (zeros n) = zeros (min k n)"
  by (simp add: zeros_def)

lemma drop_zeros [simp]: "drop k (zeros n) = zeros (n - k)"
  by (simp add: zeros_def)

lemma zeros_append: "zeros a @ zeros b = zeros (a + b)"
  by (simp add: zeros_def replicate_add)

lemma put_byte_zero: "put_byte AB (r @ zeros (Suc n)) (length r) b = (r @ [b]) @ zeros n"
  by (simp add: put_byte_def zeros_Suc)

lemma put_bytes_zero:
  "length bs \<le> n \<Longrightarrow>
    put_bytes AB (r @ zeros n) (length r) bs = ((r @ bs) @ zeros (n - length bs), length r + length bs)"
proof (induction bs arbitrary: r n)
  case (Cons b bs)
  obtain k where n: "n = Suc k" using Cons.prems by (cases n) auto
  have "put_bytes AB ((r @ [b]) @ zeros k) (length (r @ [b])) bs
      = (((r @ [b]) @ bs) @ zeros (k - length bs), length (r @ [b]) + length bs)"
    using Cons.prems n by (intro Cons.IH) simp
  then show ?case by (simp add: n put_byte_zero del: append_assoc)
qed simp

text \<open>
  What both inner loops promise: from a buffer holding \<open>r\<close> they append a prefix \<open>t\<close> of the encoding of the message,
  at most up to byte 67, and leave some of the message only if the block is full.
\<close>

definition fills ::
  "(byte list \<Rightarrow> nat \<Rightarrow> 'm list \<Rightarrow> byte list \<times> nat \<times> 'm list) \<Rightarrow> ('m list \<Rightarrow> byte list) \<Rightarrow> bool" where
  "fills fill enc \<longleftrightarrow>
     (\<forall>r msg. length r \<le> 67 \<longrightarrow>
        (\<exists>t rest. fill (r @ zeros (68 - length r)) (length r) msg
            = ((r @ t) @ zeros (68 - length (r @ t)), length (r @ t), rest)
          \<and> enc msg = t @ enc rest \<and> length (r @ t) \<le> 67
          \<and> (rest \<noteq> [] \<longrightarrow> 64 \<le> length (r @ t))
          \<and> (length r < 64 \<and> msg \<noteq> [] \<longrightarrow> length rest < length msg)))"

lemma fills_bytes: "fills (fill_bytes AB) (\<lambda>b. b)"
  unfolding fills_def
proof (intro allI impI)
  fix r msg :: "byte list"
  assume "length r \<le> 67"
  then show "\<exists>t rest. fill_bytes AB (r @ zeros (68 - length r)) (length r) msg
            = ((r @ t) @ zeros (68 - length (r @ t)), length (r @ t), rest)
          \<and> msg = t @ rest \<and> length (r @ t) \<le> 67 \<and> (rest \<noteq> [] \<longrightarrow> 64 \<le> length (r @ t))
          \<and> (length r < 64 \<and> msg \<noteq> [] \<longrightarrow> length rest < length msg)"
  proof (induction msg arbitrary: r)
    case Nil
    then show ?case by (intro exI [of _ "[]"]) simp
  next
    case (Cons b bs)
    show ?case
    proof (cases "length r < 64")
      case True
      then have "68 - length r = Suc (68 - length (r @ [b]))" by simp
      then have p: "put_byte AB (r @ zeros (68 - length r)) (length r) b = (r @ [b]) @ zeros (68 - length (r @ [b]))"
        by (simp only: put_byte_zero)
      obtain t rest where "fill_bytes AB ((r @ [b]) @ zeros (68 - length (r @ [b]))) (length (r @ [b])) bs
          = (((r @ [b]) @ t) @ zeros (68 - length ((r @ [b]) @ t)), length ((r @ [b]) @ t), rest)"
        "bs = t @ rest" "length ((r @ [b]) @ t) \<le> 67" "rest \<noteq> [] \<longrightarrow> 64 \<le> length ((r @ [b]) @ t)"
        using Cons.IH [of "r @ [b]"] True by auto
      then show ?thesis using True p by (intro exI [of _ "b # t"] exI [of _ rest]) simp
    next
      case False
      then show ?thesis using Cons.prems by (intro exI [of _ "[]"] exI [of _ "b # bs"]) simp
    qed
  qed
qed

function utf8 :: "jsstr \<Rightarrow> byte list" where
  "utf8 [] = []"
| "utf8 (code # s) = (case utf8_at code s of (bs, r) \<Rightarrow> bs @ utf8 r)"
  by pat_completeness auto
termination by (relation "measure length") (auto dest: utf8_at_rest [OF sym] simp: less_Suc_eq_le)

lemma utf8_at_length: "utf8_at code s = (bs, r) \<Longrightarrow> length bs \<le> 4"
  by (auto simp: utf8_at_def Let_def split: if_splits)

lemma fills_str: "fills (fill_str AB) utf8"
  unfolding fills_def
proof (intro allI impI)
  fix r :: "byte list" and msg :: jsstr
  assume "length r \<le> 67"
  then show "\<exists>t rest. fill_str AB (r @ zeros (68 - length r)) (length r) msg
            = ((r @ t) @ zeros (68 - length (r @ t)), length (r @ t), rest)
          \<and> utf8 msg = t @ utf8 rest \<and> length (r @ t) \<le> 67 \<and> (rest \<noteq> [] \<longrightarrow> 64 \<le> length (r @ t))
          \<and> (length r < 64 \<and> msg \<noteq> [] \<longrightarrow> length rest < length msg)"
  proof (induction "length msg" arbitrary: r msg rule: less_induct)
    case less
    show ?case
    proof (cases msg)
      case Nil
      then show ?thesis using less.prems by (intro exI [of _ "[]"] exI [of _ "[]"]) simp
    next
      case (Cons code s)
      show ?thesis
      proof (cases "length r < 64")
        case True
        obtain bs q where u: "utf8_at code s = (bs, q)" by fastforce
        note l = utf8_at_length [OF u] utf8_at_rest [OF u]
        have p: "put_bytes AB (r @ zeros (68 - length r)) (length r) bs
            = ((r @ bs) @ zeros (68 - length (r @ bs)), length (r @ bs))"
          using put_bytes_zero [of bs "68 - length r" AB r] l True by simp
        have "length q < length msg" "length (r @ bs) \<le> 67" using l True Cons by simp_all
        from less.hyps [OF this] obtain t rest where "fill_str AB ((r @ bs) @ zeros (68 - length (r @ bs))) (length (r @ bs)) q
            = (((r @ bs) @ t) @ zeros (68 - length ((r @ bs) @ t)), length ((r @ bs) @ t), rest)"
          "utf8 q = t @ utf8 rest" "length ((r @ bs) @ t) \<le> 67" "rest \<noteq> [] \<longrightarrow> 64 \<le> length ((r @ bs) @ t)"
          "length (r @ bs) < 64 \<and> q \<noteq> [] \<longrightarrow> length rest < length q"
          by blast
        moreover have "length rest \<le> length q"
          using calculation less_imp_le by (cases "length (r @ bs) < 64 \<and> q \<noteq> []") (auto elim!: fill_str.elims split: if_splits)
        ultimately show ?thesis
          using True p u Cons l by (intro exI [of _ "bs @ t"] exI [of _ rest]) simp
      next
        case False
        then show ?thesis using less.prems Cons by (intro exI [of _ "[]"] exI [of _ msg]) simp
      qed
    qed
  qed
qed

section \<open>The invariant of a hash in progress\<close>

text \<open>
  \<open>holds st p r\<close>: the whole blocks \<open>p\<close> of the message have gone through the compression function and \<open>r\<close> has not.
  \<open>md5_inv st m\<close>: the object has been given \<open>m\<close> so far; the rest \<open>r\<close> lies at the front of the buffer, or behind a
  block that has just been hashed.
\<close>

definition md5_chain :: "md5_state \<Rightarrow> chain" where
  "md5_chain st = (if m_first st then rfc_iv else m_h st)"

definition holds :: "md5_state \<Rightarrow> byte list \<Rightarrow> byte list \<Rightarrow> bool" where
  "holds st p r \<longleftrightarrow>
     length p mod 64 = 0 \<and> md5_chain st = foldl rfc_compress rfc_iv (blocks64 p)
     \<and> m_start st = length r \<and> m_bytes st = length p + length r \<and> \<not> m_finalized st"

definition md5_inv :: "md5_state \<Rightarrow> byte list \<Rightarrow> bool" where
  "md5_inv st m \<longleftrightarrow>
     (\<exists>p r. m = p @ r \<and> holds st p r \<and> length (m_buffer st) = 68
        \<and> (if m_hashed st
            then length r < 4 \<and> drop 64 (m_buffer st) = r @ zeros (4 - length r) \<and> m_lastByteIndex st = 64 + length r
            else length r < 64 \<and> m_buffer st = r @ zeros (68 - length r) \<and> m_lastByteIndex st = length r))"

lemma md5_invI:
  assumes "m = p @ r" "holds st p r" "length (m_buffer st) = 68"
    "if m_hashed st
      then length r < 4 \<and> drop 64 (m_buffer st) = r @ zeros (4 - length r) \<and> m_lastByteIndex st = 64 + length r
      else length r < 64 \<and> m_buffer st = r @ zeros (68 - length r) \<and> m_lastByteIndex st = length r"
  shows "md5_inv st m"
  unfolding md5_inv_def using assms by blast

lemma holds_fields:
  "holds (st\<lparr>m_buffer := b\<rparr>) p r = holds st p r"
  "holds (st\<lparr>m_hashed := h\<rparr>) p r = holds st p r"
  "holds (st\<lparr>m_lastByteIndex := i\<rparr>) p r = holds st p r"
  by (simp_all add: holds_def md5_chain_def)

lemma md5_chain_buffer [simp]: "md5_chain (st\<lparr>m_buffer := b\<rparr>) = md5_chain st"
  by (simp add: md5_chain_def)

lemma md5_inv_new: "md5_inv Md5_new []"
  by (simp add: md5_inv_def holds_def md5_chain_def Md5_new_def blocks64_short zeros_def)

lemma md5_inv_open: "md5_inv st m \<Longrightarrow> \<not> m_finalized st"
  by (auto simp: md5_inv_def holds_def)

lemma reload_inv:
  assumes "md5_inv st m"
  obtains p r where "m = p @ r" "holds (reload st) p r" "\<not> m_hashed (reload st)" "length r < 64"
    "m_buffer (reload st) = r @ zeros (68 - length r)"
proof (cases "m_hashed st")
  case True
  with assms obtain p r where *: "m = p @ r" "holds st p r" "length r < 4"
    "drop 64 (m_buffer st) = r @ zeros (4 - length r)"
    by (auto simp: md5_inv_def)
  show ?thesis
  proof (rule that [of p r])
    show "m_buffer (reload st) = r @ zeros (68 - length r)"
      using True *(3,4) zeros_append [of "4 - length r" 64]
      by (simp add: reload_def carry_over_def flip: zeros_def)
  qed (use True * in \<open>simp_all add: reload_def holds_fields\<close>)
next
  case False
  with assms show ?thesis by (auto simp: md5_inv_def reload_def intro: that)
qed

lemma hash_block:
  assumes "length p mod 64 = 0" "64 \<le> length b" "h = foldl rfc_compress rfc_iv (blocks64 p)"
  shows "rfc_compress h b = foldl rfc_compress rfc_iv (blocks64 (p @ take 64 b))"
proof -
  have "blocks64 (take 64 b) = [take 64 b]"
    using assms(2) blocks64_block [of "take 64 b" "[]"] by (simp add: blocks64_short)
  then show ?thesis using assms by (simp add: blocks64_append rfc_compress_take)
qed

lemma md5_chain_hash:
  assumes "length p mod 64 = 0" "64 \<le> length (m_buffer st)"
    "md5_chain st = foldl rfc_compress rfc_iv (blocks64 p)"
  shows "m_h (md5_hash st) = foldl rfc_compress rfc_iv (blocks64 (p @ take 64 (m_buffer st)))"
    and "\<not> m_first (md5_hash st)"
  using hash_block [OF assms] by (simp_all add: md5_hash_eq md5_chain_def)

lemma advance_inv:
  assumes h: "holds st p r" "\<not> m_hashed st" and len: "length (r @ t) \<le> 67"
  shows "md5_inv (advance st ((r @ t) @ zeros (68 - length (r @ t))) (length (r @ t))) (p @ r @ t)"
proof (cases "length (r @ t) < 64")
  case True
  show ?thesis
    by (rule md5_invI [of _ p "r @ t"])
      (use h True in \<open>auto simp: advance_def Let_def holds_def md5_chain_def split: if_splits\<close>)
next
  case False
  define u where "u = r @ t"
  have u: "64 \<le> length u" "length u \<le> 67" "length u - length r = length t" "length u = length r + length t"
    using False len by (simp_all add: u_def)
  let ?b = "u @ zeros (68 - length u)"
  let ?s = "st\<lparr>m_buffer := ?b, m_lastByteIndex := length u, m_bytes := m_bytes st + (length u - m_start st),
     m_start := length u - 64\<rparr>"
  have tb: "take 64 ?b = take 64 u" "drop 64 ?b = drop 64 u @ zeros (68 - length u)" using u by simp_all
  have "md5_chain ?s = foldl rfc_compress rfc_iv (blocks64 p)" "length p mod 64 = 0"
    using h by (auto simp: holds_def md5_chain_def split: if_splits)
  from md5_chain_hash [OF this(2) _ this(1)] u
  have hh: "m_h (md5_hash ?s) = foldl rfc_compress rfc_iv (blocks64 (p @ take 64 u))" "\<not> m_first (md5_hash ?s)"
    using tb by simp_all
  have adv: "advance st ?b (length u) = (md5_hash ?s)\<lparr>m_hashed := True\<rparr>"
    using u by (simp add: advance_def)
  have fields: "m_start (md5_hash ?s) = length u - 64" "m_bytes (md5_hash ?s) = length p + length u"
    "m_lastByteIndex (md5_hash ?s) = length u" "m_buffer (md5_hash ?s) = ?b" "\<not> m_finalized (md5_hash ?s)"
    using h u by (simp_all add: md5_hash_eq holds_def)
  have hold: "holds ((md5_hash ?s)\<lparr>m_hashed := True\<rparr>) (p @ take 64 u) (drop 64 u)"
    unfolding holds_fields using hh fields u(1) h by (simp add: holds_def md5_chain_def)
  show ?thesis
    unfolding u_def [symmetric] adv
    by (rule md5_invI [OF _ hold]) (use u(1,2) fields(3,4) tb in auto)
qed

section \<open>Updates\<close>

text \<open>
  The contract between the outer loop and an inner loop, and what follows from it: the loop ends, and the object
  holds the message followed by the encoding of the new piece.
\<close>

locale md5_filler =
  fixes fill :: "byte list \<Rightarrow> nat \<Rightarrow> 'm list \<Rightarrow> byte list \<times> nat \<times> 'm list"
    and enc :: "'m list \<Rightarrow> byte list"
    and upd :: "md5_state \<Rightarrow> 'm list \<Rightarrow> md5_state option"
  assumes fills: "fills fill enc"
    and enc_Nil: "enc [] = []"
    and upd_eq: "upd st msg =
      (if msg = [] then Some st
       else (case fill (m_buffer (reload st)) (m_start (reload st)) msg of (buf, i, rest) \<Rightarrow>
               upd (advance (reload st) buf i) rest))"
begin

lemma upd_step:
  assumes inv: "md5_inv st m" and ne: "msg \<noteq> []"
  obtains st1 t rest where "upd st msg = upd st1 rest" "md5_inv st1 (m @ t)" "enc msg = t @ enc rest"
    "length rest < length msg"
proof -
  obtain p r where r: "m = p @ r" "holds (reload st) p r" "\<not> m_hashed (reload st)" "length r < 64"
    "m_buffer (reload st) = r @ zeros (68 - length r)"
    using reload_inv [OF inv] by blast
  obtain t rest where t: "fill (r @ zeros (68 - length r)) (length r) msg
      = ((r @ t) @ zeros (68 - length (r @ t)), length (r @ t), rest)"
    "enc msg = t @ enc rest" "length (r @ t) \<le> 67" "length rest < length msg"
    using fills [unfolded fills_def, rule_format, of r msg] r(4) ne by auto
  have "m_start (reload st) = length r" using r(2) by (simp add: holds_def)
  then have "upd st msg = upd (advance (reload st) ((r @ t) @ zeros (68 - length (r @ t))) (length (r @ t))) rest"
    using upd_eq [of st msg] ne t(1) r(5) by simp
  then show ?thesis using that advance_inv [OF r(2,3) t(3)] t(2,4) r(1) by simp
qed

theorem upd_ends: "md5_inv st m \<Longrightarrow> \<exists>st'. upd st msg = Some st' \<and> md5_inv st' (m @ enc msg)"
proof (induction "length msg" arbitrary: st m msg rule: less_induct)
  case less
  show ?case
  proof (cases "msg = []")
    case True
    then show ?thesis using less.prems upd_eq [of st msg] by (simp add: enc_Nil)
  next
    case False
    obtain st1 t rest where *: "upd st msg = upd st1 rest" "md5_inv st1 (m @ t)" "enc msg = t @ enc rest"
      "length rest < length msg"
      using upd_step [OF less.prems False] by blast
    show ?thesis using less.hyps [OF *(4,2)] *(1,3) by simp
  qed
qed

end

interpretation md5_bytes: md5_filler "fill_bytes AB" "\<lambda>b. b" "update_bytes AB" for AB
  by unfold_locales (simp_all add: fills_bytes update_bytes.simps)

interpretation md5_str: md5_filler "fill_str AB" utf8 "update_str AB" for AB
  by unfold_locales (simp_all add: fills_str update_str.simps)

fun encoding :: "message \<Rightarrow> byte list" where
  "encoding (Bytes b) = b"
| "encoding (Str s) = utf8 s"

lemma md5_update_inv:
  assumes "md5_inv st m"
  shows "\<exists>st'. md5_update AB st msg = Some st' \<and> md5_inv st' (m @ encoding msg)"
  using assms md5_bytes.upd_ends md5_str.upd_ends
  by (cases msg) (simp_all add: md5_update_def md5_inv_open)

text \<open>A sequence of calls of \<^verbatim>\<open>update\<close> on one object.\<close>

fun updates :: "bool \<Rightarrow> md5_state \<Rightarrow> message list \<Rightarrow> md5_state option" where
  "updates AB st [] = Some st"
| "updates AB st (msg # msgs) = Option.bind (md5_update AB st msg) (\<lambda>st'. updates AB st' msgs)"

lemma updates_inv:
  "md5_inv st m \<Longrightarrow> \<exists>st'. updates AB st msgs = Some st' \<and> md5_inv st' (m @ concat (map encoding msgs))"
proof (induction msgs arbitrary: st m)
  case (Cons msg msgs)
  obtain st1 where "md5_update AB st msg = Some st1" "md5_inv st1 (m @ encoding msg)"
    using md5_update_inv [OF Cons.prems] by blast
  then show ?case using Cons.IH [of st1 "m @ encoding msg"] by simp
qed simp

section \<open>Finalization\<close>

lemma block_word_mid:
  assumes "length p = 4 * k" "length s = 4"
  shows "block_word (p @ s @ q) k = of_nat (le_val s)"
  using assms by (simp add: block_word_def)

lemma EXTRA_eq: "k < 4 \<Longrightarrow> EXTRA k = of_nat (push_bit (8 * k) 0x80)"
  by (cases "k = 0"; cases "k = 1"; cases "k = 2"; cases "k = 3") (simp_all add: EXTRA_def push_bit_eq_mult)

lemma le_val_zeros: "le_val (zeros n) = 0"
  by (induction n) (simp_all add: zeros_def)

lemma or_word_extra:
  assumes k: "length p = 4 * k" and s: "length s < 4"
  shows "or_word (p @ s @ zeros (4 - length s) @ q) k (EXTRA (length s)) = p @ s @ 0x80 # zeros (3 - length s) @ q"
proof -
  let ?w = "s @ zeros (4 - length s)" and ?v = "s @ 0x80 # zeros (3 - length s)"
  have lt: "le_val s < 2 ^ (8 * length s)" using le_val_bound [of s] by (simp add: power_mult)
  have v: "le_val ?v = le_val s OR push_bit (8 * length s) 0x80"
    by (subst or_disjoint [OF lt]) (simp add: le_val_append le_val_zeros push_bit_eq_mult power_mult)
  have v4: "le_val ?v < 2 ^ 32" using le_val_bound [of ?v] s by simp
  have "block_word (p @ ?w @ q) k OR EXTRA (length s) = of_nat (le_val ?v)"
    unfolding v of_nat_or_eq
    using s k by (subst block_word_mid) (simp_all add: EXTRA_eq le_val_append le_val_zeros)
  then have "le_bytes 4 (unat (block_word (p @ ?w @ q) k OR EXTRA (length s))) = ?v"
    using v4 s by (simp add: unat_of_nat le_bytes_le_val' del: of_nat_add)
  then show ?thesis using k s by (simp add: or_word_def)
qed

lemma mark:
  assumes "length b + n = 68" "0 < n"
  shows "or_word (b @ zeros n) (length b div 4) (EXTRA (length b mod 4)) = b @ 0x80 # zeros (n - 1)"
proof -
  define k where "k = length b div 4"
  define p s where "p = take (4 * k) b" and "s = drop (4 * k) b"
  have l: "length b = 4 * k + length s" "length s = length b mod 4" "length p = 4 * k" "length s < 4"
    by (simp_all add: p_def s_def k_def minus_mult_div_eq_mod)
  have n: "4 - length s \<le> n" using l(1,4) assms by presburger
  then have "b @ zeros n = p @ s @ zeros (4 - length s) @ zeros (n - (4 - length s))"
    by (simp add: p_def s_def zeros_append)
  moreover have "zeros (3 - length s) @ zeros (n - (4 - length s)) = zeros (n - 1)"
    using n l(4) by (simp add: zeros_append)
  ultimately show ?thesis
    using or_word_extra [OF l(3,4)] l(2) by (simp add: k_def [symmetric]) (simp add: p_def s_def flip: append_assoc)
qed

lemma set_length:
  assumes "length a = 56"
  shows "take 64 (set_word (a @ zeros 12) 14 (of_nat n)) = a @ le_bytes 4 n @ zeros 4"
proof -
  have "le_bytes 4 (n mod 2 ^ 32) = le_bytes 4 n" using le_bytes_le_val' [of "le_bytes 4 n" 4] by (simp add: le_val_le_bytes)
  then show ?thesis using assms by (simp add: set_word_def unat_of_nat)
qed

text \<open>The padding the code makes: the low 32 bits of the length in bits, then four zeros.\<close>

definition js_pad :: "byte list \<Rightarrow> byte list" where
  "js_pad m = m @ 0x80 # zeros ((119 - length m mod 64) mod 64) @ le_bytes 4 (8 * length m) @ zeros 4"

lemma finish:
  assumes p: "length p mod 64 = 0" "md5_chain st = foldl rfc_compress rfc_iv (blocks64 p)"
    and b: "m_buffer st = a @ zeros 12" "length a = 56"
  shows "m_h (md5_hash (st\<lparr>m_buffer := set_word (m_buffer st) 14 (push_bit 3 (of_nat n))\<rparr>))
    = foldl rfc_compress rfc_iv (blocks64 (p @ a @ le_bytes 4 (8 * n) @ zeros 4))"
proof -
  let ?s = "st\<lparr>m_buffer := set_word (m_buffer st) 14 (push_bit 3 (of_nat n))\<rparr>"
  have w: "push_bit 3 (of_nat n) = (of_nat (8 * n) :: u32)" by (simp add: push_bit_eq_mult)
  have "md5_chain ?s = foldl rfc_compress rfc_iv (blocks64 p)" "64 \<le> length (m_buffer ?s)"
    using p(2) b by (auto simp: md5_chain_def set_word_def split: if_splits)
  from md5_chain_hash(1) [OF p(1) this(2,1)] show ?thesis
    unfolding w using set_length [OF b(2), of "8 * n"] b(1) by simp
qed

text \<open>The object after the mark and, when the length needs another block, after the hash before it.\<close>

definition marked :: "md5_state \<Rightarrow> md5_state" where
  "marked st =
     st\<lparr>m_finalized := True,
        m_buffer := or_word (m_buffer st) (m_lastByteIndex st div 4) (EXTRA (m_lastByteIndex st mod 4))\<rparr>"

definition closing :: "md5_state \<Rightarrow> md5_state" where
  "closing st =
     (if m_lastByteIndex st < 56 then marked st
      else let st1 = (if m_hashed st then marked st else md5_hash (marked st))
           in st1\<lparr>m_buffer := carry_over (m_buffer st1)\<rparr>)"

lemma closing_bytes: "m_bytes (closing st) = m_bytes st"
  by (simp add: closing_def marked_def md5_hash_eq Let_def)

lemma finalize_closing:
  "\<not> m_finalized st \<Longrightarrow> finalize st =
    md5_hash ((closing st)\<lparr>m_buffer := set_word (m_buffer (closing st)) 14 (push_bit 3 (of_nat (m_bytes st)))\<rparr>)"
  by (simp add: finalize_def closing_def marked_def md5_hash_eq Let_def)

lemma marked_chain: "md5_chain (marked st) = md5_chain st"
  by (simp add: marked_def md5_chain_def)

lemma marked_buffer:
  assumes "m_buffer st = b @ zeros (68 - length b)" "length b < 68" "m_lastByteIndex st = length b"
  shows "m_buffer (marked st) = b @ 0x80 # zeros (67 - length b)"
  using mark [of b "68 - length b"] assms by (simp add: marked_def)

lemma closing_hashed:
  assumes p: "length p mod 64 = 0" "md5_chain st = foldl rfc_compress rfc_iv (blocks64 p)"
    and b: "m_hashed st" "length (m_buffer st) = 68" "drop 64 (m_buffer st) = r @ zeros (4 - length r)"
    "length r < 4" "m_lastByteIndex st = 64 + length r"
  shows "md5_chain (closing st) = foldl rfc_compress rfc_iv (blocks64 p)"
    and "m_buffer (closing st) = (r @ 0x80 # zeros (55 - length r)) @ zeros 12"
proof -
  let ?b = "take 64 (m_buffer st) @ r"
  have len: "length ?b = 64 + length r" using b(2) by simp
  have "m_buffer st = ?b @ zeros (68 - length ?b)"
    using append_take_drop_id [of 64 "m_buffer st"] b(3) len by simp
  then have "m_buffer (marked st) = ?b @ 0x80 # zeros (3 - length r)"
    using marked_buffer [of st ?b] len b(4,5) by simp
  then have "drop 64 (m_buffer (marked st)) = r @ 0x80 # zeros (3 - length r)"
    using b(2) by simp
  then show "m_buffer (closing st) = (r @ 0x80 # zeros (55 - length r)) @ zeros 12"
    using b(1,4,5) by (simp add: closing_def carry_over_def zeros_append flip: zeros_def)
  show "md5_chain (closing st) = foldl rfc_compress rfc_iv (blocks64 p)"
    using b(1,5) p(2) by (simp add: closing_def Let_def marked_chain)
qed

lemma closing_long:
  assumes p: "length p mod 64 = 0" "md5_chain st = foldl rfc_compress rfc_iv (blocks64 p)"
    and b: "\<not> m_hashed st" "m_buffer st = r @ zeros (68 - length r)" "length r < 64" "56 \<le> length r"
    "m_lastByteIndex st = length r"
  shows "md5_chain (closing st) = foldl rfc_compress rfc_iv (blocks64 (p @ r @ 0x80 # zeros (63 - length r)))"
    and "m_buffer (closing st) = zeros 56 @ zeros 12"
proof -
  have mb: "m_buffer (marked st) = (r @ 0x80 # zeros (63 - length r)) @ zeros 4"
    using marked_buffer [of st r] b by (simp add: zeros_append)
  have c: "closing st = (md5_hash (marked st))\<lparr>m_buffer := carry_over (m_buffer (marked st))\<rparr>"
    using b by (simp add: closing_def md5_hash_eq)
  have l: "length (r @ 0x80 # zeros (63 - length r)) = 64" using b(3) by simp
  then have "take 64 (m_buffer (marked st)) = r @ 0x80 # zeros (63 - length r)" "64 \<le> length (m_buffer (marked st))"
    unfolding mb by (metis append_eq_conv_conj) simp
  with md5_chain_hash [OF p(1), of "marked st"] p(2)
  show "md5_chain (closing st) = foldl rfc_compress rfc_iv (blocks64 (p @ r @ 0x80 # zeros (63 - length r)))"
    by (simp add: c marked_chain) (simp add: md5_chain_def)
  show "m_buffer (closing st) = zeros 56 @ zeros 12"
    unfolding c mb using drop_append [of 64 _ "zeros 4"] l
    by (simp add: carry_over_def zeros_append del: append_assoc append_Cons flip: zeros_def)
qed

lemma finalize_eq:
  assumes "md5_inv st m"
  shows "m_h (finalize st) = foldl rfc_compress rfc_iv (blocks64 (js_pad m))"
proof -
  obtain p r where m: "m = p @ r" and h: "holds st p r" and l68: "length (m_buffer st) = 68"
    and c: "if m_hashed st
      then length r < 4 \<and> drop 64 (m_buffer st) = r @ zeros (4 - length r) \<and> m_lastByteIndex st = 64 + length r
      else length r < 64 \<and> m_buffer st = r @ zeros (68 - length r) \<and> m_lastByteIndex st = length r"
    using assms unfolding md5_inv_def by blast
  have p: "length p mod 64 = 0" "md5_chain st = foldl rfc_compress rfc_iv (blocks64 p)"
    and n: "m_bytes st = length m" and nf: "\<not> m_finalized st"
    using h m by (simp_all add: holds_def)
  have r64: "length m mod 64 = length r" using p(1) c m by (auto simp: mod_add_left_eq [symmetric] split: if_splits)
  have fin: "m_h (finalize st) = foldl rfc_compress rfc_iv (blocks64 (js_pad m))"
    if "length q mod 64 = 0" "md5_chain (closing st) = foldl rfc_compress rfc_iv (blocks64 q)"
      "m_buffer (closing st) = a @ zeros 12" "length a = 56" "q @ a = m @ 0x80 # zeros ((119 - length r) mod 64)" for q a
  proof -
    have "js_pad m = (q @ a) @ le_bytes 4 (8 * length m) @ zeros 4" unfolding that(5) js_pad_def r64 by simp
    then show ?thesis using finish [OF that(1-4), of "length m"] unfolding finalize_closing [OF nf] n by simp
  qed
  consider (short) "\<not> m_hashed st" "length r < 56" | (long) "\<not> m_hashed st" "56 \<le> length r" | (hashed) "m_hashed st"
    by linarith
  then show ?thesis
  proof cases
    case short
    show ?thesis
      by (rule fin [of p "r @ 0x80 # zeros (55 - length r)"])
        (use short c m p marked_chain [of st] marked_buffer [of st r] in \<open>auto simp: closing_def zeros_append mod_if\<close>)
  next
    case long
    then have "length r < 64" "m_buffer st = r @ zeros (68 - length r)" "m_lastByteIndex st = length r" using c by auto
    note cl = closing_long [OF p long(1) this(2,1) long(2) this(3)]
    show ?thesis
      by (rule fin [OF _ cl]) (use long c m p in \<open>auto simp: zeros_append mod_add_left_eq [symmetric]\<close>)
  next
    case hashed
    then have *: "drop 64 (m_buffer st) = r @ zeros (4 - length r)" "length r < 4" "m_lastByteIndex st = 64 + length r"
      using c by auto
    show ?thesis
      by (rule fin [OF p(1) closing_hashed [OF p hashed l68 *]]) (use * m in \<open>auto simp: mod_if\<close>)
  qed
qed

lemma js_pad_rfc:
  assumes "length m < 2 ^ 29"
  shows "js_pad m = rfc_pad m"
proof -
  have "le_val (le_bytes 4 (8 * length m) @ zeros 4) = 8 * length m"
    using assms by (simp add: le_val_append le_val_zeros le_val_le_bytes)
  then have "le_bytes 8 (8 * length m) = le_bytes 4 (8 * length m) @ zeros 4"
    using le_bytes_le_val' [of "le_bytes 4 (8 * length m) @ zeros 4" 8] by simp
  then show ?thesis by (simp add: js_pad_def rfc_pad_def zeros_def)
qed

section \<open>Output\<close>

lemma finalize_finalized [simp]: "m_finalized (finalize st)"
  by (simp add: finalize_def md5_hash_eq Let_def)

lemma finalize_idem [simp]: "finalize (finalize st) = finalize st"
  by (subst (1) finalize_def) simp

lemma md5_update_finalized: "md5_update AB (finalize st) msg = Some (finalize st)"
  by (simp add: md5_update_def)

text \<open>Two lower-case digits for a byte, and the bytes of a chaining value, least significant first.\<close>

definition hex2 :: "nat \<Rightarrow> string" where
  "hex2 n = [''0123456789abcdef'' ! (n div 16), ''0123456789abcdef'' ! (n mod 16)]"

fun chain_bytes :: "chain \<Rightarrow> byte list" where
  "chain_bytes (a, b, c, d) = concat (map (\<lambda>h. le_bytes 4 (unat h)) [a, b, c, d])"

lemma le_bytes_four:
  "le_bytes 4 x = map of_nat [x mod 256, x div 2 ^ 8 mod 256, x div 2 ^ 16 mod 256, x div 2 ^ 24 mod 256]"
proof -
  have "le_bytes (Suc (Suc (Suc (Suc 0)))) x
      = map of_nat [x mod 256, x div 256 mod 256, x div 256 div 256 mod 256, x div 256 div 256 div 256 mod 256]"
    by (simp add: le_bytes_Suc)
  moreover have "Suc (Suc (Suc (Suc 0))) = 4" by simp
  moreover have "x div 256 div 256 = x div 65536" "x div 65536 div 256 = x div 16777216"
    by (simp_all add: div_mult2_eq [symmetric])
  ultimately show ?thesis by simp
qed

lemma word_digest_eq: "word_digest h = map unat (le_bytes 4 (unat h))"
  by (simp add: word_digest_def octet le_bytes_four unat_of_nat)

lemma word_hex_eq: "word_hex h = concat (map (hex2 \<circ> unat) (le_bytes 4 (unat h)))"
proof -
  have "n mod 256 mod 16 = n mod 16" "n mod 256 div 16 = n div 16 mod 16" for n :: nat
    using mod_mult2_eq [of n 16 16] by simp_all
  then show ?thesis
    by (simp add: word_hex_def nibble HEX_CHARS_def hex2_def le_bytes_four unat_of_nat div_mult2_eq [symmetric])
qed

lemma md5_hex_eq: "md5_hex st = (concat (map (hex2 \<circ> unat) (chain_bytes (m_h (finalize st)))), finalize st)"
  by (cases "m_h (finalize st)") (simp add: md5_hex_def word_hex_eq)

lemma md5_digest_eq: "md5_digest st = (map unat (chain_bytes (m_h (finalize st))), finalize st)"
  by (cases "m_h (finalize st)") (simp add: md5_digest_def word_digest_eq)

lemma md5_arrayBuffer_eq: "md5_arrayBuffer st = (chain_bytes (m_h (finalize st)), finalize st)"
  by (cases "m_h (finalize st)") (simp add: md5_arrayBuffer_def)

section \<open>UTF-8\<close>

text \<open>
  The encodings of a code point: UTF-16, as the string of the program has it, and UTF-8 as RFC 3629 defines it.
\<close>

definition utf16_cp :: "nat \<Rightarrow> jsstr" where
  "utf16_cp c = (if c < 0x10000 then [c] else [0xd800 + (c - 0x10000) div 1024, 0xdc00 + (c - 0x10000) mod 1024])"

definition utf8_cp :: "nat \<Rightarrow> byte list" where
  "utf8_cp c =
     map of_nat
      (if c < 0x80 then [c]
       else if c < 0x800 then [0xc0 + c div 64, 0x80 + c mod 64]
       else if c < 0x10000 then [0xe0 + c div 4096, 0x80 + c div 64 mod 64, 0x80 + c mod 64]
       else [0xf0 + c div 262144, 0x80 + c div 4096 mod 64, 0x80 + c div 64 mod 64, 0x80 + c mod 64])"

definition scalar :: "nat \<Rightarrow> bool" where
  "scalar c \<longleftrightarrow> c < 0x110000 \<and> \<not> (0xd800 \<le> c \<and> c < 0xe000)"

lemma or_high:
  "x < 64 \<Longrightarrow> 0x80 OR x = 0x80 + (x :: nat)"
  "x < 32 \<Longrightarrow> 0xc0 OR x = 0xc0 + (x :: nat)"
  "x < 16 \<Longrightarrow> 0xe0 OR x = 0xe0 + (x :: nat)"
  "x < 8 \<Longrightarrow> 0xf0 OR x = 0xf0 + (x :: nat)"
  using or_disjoint [of x 7 1] or_disjoint [of x 6 3] or_disjoint [of x 5 7] or_disjoint [of x 4 15]
  by (simp_all add: push_bit_eq_mult or.commute)

lemma utf8_at_cp:
  assumes "scalar c" "utf16_cp c = u # us"
  shows "utf8_at u (us @ s) = (utf8_cp c, s)"
proof (cases "c < 0x10000")
  case True
  then have u: "u = c" "us = []" using assms(2) by (simp_all add: utf16_cp_def)
  consider "c < 0x80" | "0x80 \<le> c" "c < 0x800" | "0x800 \<le> c" by linarith
  then show ?thesis
    using assms(1) True
    by cases (auto simp: u utf8_at_def utf8_cp_def scalar_def and_low or_high less_mult_imp_div_less)
next
  case False
  let ?d = "c - 0x10000"
  have base: "(0xd800 + x) mod 1024 = x mod 1024" "(0xdc00 + x) mod 1024 = x mod 1024" for x :: nat
    using mod_mult_self3 [of 54 1024 x] mod_mult_self3 [of 55 1024 x] by simp_all
  have u: "u = 0xd800 + ?d div 1024" "us = [0xdc00 + ?d mod 1024]" using assms(2) False by (simp_all add: utf16_cp_def)
  have d: "?d < 0x100000" "?d div 1024 < 1024" using assms(1) False by (simp_all add: scalar_def less_mult_imp_div_less)
  have "push_bit 10 (?d div 1024) OR ?d mod 1024 = ?d"
    using or_disjoint [of "?d mod 1024" 10 "?d div 1024"] by (simp add: push_bit_eq_mult or.commute)
  moreover have "u mod 1024 = ?d div 1024" "(0xdc00 + ?d mod 1024) mod 1024 = ?d mod 1024"
    using d(2) base [of "?d div 1024"] base [of "?d mod 1024"] by (simp_all add: u)
  ultimately have cp: "0x10000 + (push_bit 10 (u AND 0x3ff) OR (0xdc00 + ?d mod 1024) AND 0x3ff) = c"
    using False by (simp add: and_low)
  have "0xd800 \<le> u" "u < 0xe000" using d(2) by (simp_all add: u)
  then have "utf8_at u (us @ s) = (map of_nat [0xf0 OR c div 262144, 0x80 OR c div 4096 AND 0x3f,
      0x80 OR c div 64 AND 0x3f, 0x80 OR c AND 0x3f], s)"
    by (simp add: utf8_at_def u(2) cp Let_def del: push_bit_and)
  moreover have "c div 262144 < 8" using assms(1) by (simp add: scalar_def less_mult_imp_div_less)
  ultimately show ?thesis using False by (simp add: utf8_cp_def and_low or_high)
qed

lemma utf8_utf16: "list_all scalar cs \<Longrightarrow> utf8 (concat (map utf16_cp cs)) = concat (map utf8_cp cs)"
proof (induction cs)
  case (Cons c cs)
  obtain u us where u: "utf16_cp c = u # us" by (cases "utf16_cp c") (auto simp: utf16_cp_def split: if_splits)
  then show ?case using Cons utf8_at_cp [of c u us "concat (map utf16_cp cs)"] by simp
qed simp

section \<open>Properties\<close>

definition rfc_hex :: "byte list \<Rightarrow> string" where
  "rfc_hex m = concat (map (hex2 \<circ> unat) (chain_bytes (rfc_md5 m)))"

text \<open>
  C1 (equivalence). The digest of a message fed to an object in any sequence of \<^verbatim>\<open>update\<close> calls, byte arrays and
  strings mixed, with array buffers or without, is the MD5 digest of RFC 1321 of the concatenated bytes, as long as
  the message is shorter than 512 MiB.
\<close>

theorem md5_streaming:
  assumes "length (concat (map encoding msgs)) < 2 ^ 29"
  shows "map_option (\<lambda>st. fst (md5_hex st)) (updates AB Md5_new msgs) = Some (rfc_hex (concat (map encoding msgs)))"
proof -
  obtain st where "updates AB Md5_new msgs = Some st" "md5_inv st (concat (map encoding msgs))"
    using updates_inv [OF md5_inv_new] by auto
  then show ?thesis
    using finalize_eq js_pad_rfc [OF assms] by (simp add: md5_hex_eq rfc_hex_def rfc_md5_def)
qed

theorem md5_streaming_witness:
  "map_option (\<lambda>st. fst (md5_hex st)) (updates False Md5_new [Str [0x61, 0xe9], Bytes [0x62, 0x63]])
    = Some (rfc_hex [0x61, 0xc3, 0xa9, 0x62, 0x63])"
proof -
  have e: "concat (map encoding [Str [0x61, 0xe9], Bytes [0x62, 0x63]]) = [0x61, 0xc3, 0xa9, 0x62, 0x63]"
    by (simp add: utf8_at_def and_low or_high)
  show ?thesis using md5_streaming [of "[Str [0x61, 0xe9], Bytes [0x62, 0x63]]" False] unfolding e by simp
qed

text \<open>
  C26 (termination). On an object that has been given \<open>m\<close> the loop of \<^verbatim>\<open>update\<close> ends on every message, and leaves an
  object that has been given \<open>m\<close> and the bytes of the message.
\<close>

theorem md5_update_ends:
  assumes "md5_inv st m"
  shows "\<exists>st'. md5_update AB st msg = Some st' \<and> md5_inv st' (m @ encoding msg)"
  by (rule md5_update_inv [OF assms])

theorem md5_update_ends_witness:
  "\<exists>st'. md5_update True Md5_new (Bytes (replicate 130 7)) = Some st' \<and> md5_inv st' (replicate 130 7)"
  using md5_update_ends [OF md5_inv_new, of True "Bytes (replicate 130 7)"] by simp

text \<open>
  The three outputs of an object describe the same sixteen bytes: the digest array lists them, the
  array buffer holds them, the hexadecimal string spells them in lower case. The first output closes the object: it
  ignores later updates and gives the same outputs again.
\<close>

theorem md5_outputs_agree:
  "\<exists>bs. length bs = 16 \<and> md5_arrayBuffer st = (bs, finalize st) \<and> md5_digest st = (map unat bs, finalize st)
     \<and> md5_hex st = (concat (map (hex2 \<circ> unat) bs), finalize st)
     \<and> md5_update AB (finalize st) msg = Some (finalize st) \<and> md5_hex (finalize st) = md5_hex st"
proof -
  obtain a b c d where "m_h (finalize st) = (a, b, c, d)" by (cases "m_h (finalize st)")
  then have "length (chain_bytes (m_h (finalize st))) = 16" by simp
  then show ?thesis
    by (intro exI [of _ "chain_bytes (m_h (finalize st))"])
      (simp add: md5_arrayBuffer_eq md5_digest_eq md5_hex_eq md5_update_finalized)
qed

text \<open>
  The bytes hashed for a string are its UTF-8 encoding: for every sequence of Unicode scalar values,
  given as the UTF-16 code units of the string, supplementary characters as surrogate pairs.
\<close>

theorem md5_hashes_utf8:
  assumes "list_all scalar cs"
  shows "encoding (Str (concat (map utf16_cp cs))) = concat (map utf8_cp cs)"
  using utf8_utf16 [OF assms] by simp

end
