(* ===== verification/Png.thy ===== *)
theory Png
  imports JsBase
begin

unbundle bit_operations_syntax

text \<open>
  \<^verbatim>\<open>src/src/qt/res/assets/plugins/pnglib/pnglib.js\<close>: the class \<^verbatim>\<open>PNGlib\<close>, which builds an image with a palette
  in an array of one-character strings, here the list \<open>p_buffer\<close> of their code units, and completes it with its
  check sums. \<open>None\<close> is an access outside the array. The shift \<^verbatim>\<open>i << 16\<close> is a product: it stays below \<open>2 ^ 31\<close>
  for every image that fits an array. The second half of the theory states the file format and proves that
  \<^verbatim>\<open>getDump\<close> writes it.
\<close>

section \<open>Helpers\<close>

fun buf_write :: "nat list \<Rightarrow> nat \<Rightarrow> nat list \<Rightarrow> nat list option" where
  "buf_write buffer offs [] = Some buffer"
| "buf_write buffer offs (c # s) = (if offs < length buffer then buf_write (buffer[offs := c]) (Suc offs) s else None)"

fun write_all :: "nat list \<Rightarrow> (nat \<times> nat list) list \<Rightarrow> nat list option" where
  "write_all buffer [] = Some buffer"
| "write_all buffer ((offs, s) # ws) = Option.bind (buf_write buffer offs s) (\<lambda>b. write_all b ws)"

definition byte2 :: "u32 \<Rightarrow> nat list" where
  "byte2 w = map unat [drop_bit 8 w AND 255, w AND 255]"

definition byte4 :: "u32 \<Rightarrow> nat list" where
  "byte4 w = map unat [drop_bit 24 w AND 255, drop_bit 16 w AND 255, drop_bit 8 w AND 255, w AND 255]"

definition byte2lsb :: "u32 \<Rightarrow> nat list" where
  "byte2lsb w = map unat [w AND 255, drop_bit 8 w AND 255]"

section \<open>Images\<close>

record png =
  p_width :: nat
  p_height :: nat
  p_depth :: nat
  p_buffer :: "nat list"
  p_palette :: "u32 \<rightharpoonup> nat"
  p_pindex :: nat

definition pix_size :: "png \<Rightarrow> nat" where
  "pix_size p = p_height p * (p_width p + 1)"

definition data_size :: "png \<Rightarrow> nat" where
  "data_size p = 2 + pix_size p + 5 * ((0xfffe + pix_size p) div 0xffff) + 4"

definition ihdr_offs :: "png \<Rightarrow> nat" where "ihdr_offs p = 0"
definition ihdr_size :: "png \<Rightarrow> nat" where "ihdr_size p = 4 + 4 + 13 + 4"
definition plte_offs :: "png \<Rightarrow> nat" where "plte_offs p = ihdr_offs p + ihdr_size p"
definition plte_size :: "png \<Rightarrow> nat" where "plte_size p = 4 + 4 + 3 * p_depth p + 4"
definition trns_offs :: "png \<Rightarrow> nat" where "trns_offs p = plte_offs p + plte_size p"
definition trns_size :: "png \<Rightarrow> nat" where "trns_size p = 4 + 4 + p_depth p + 4"
definition idat_offs :: "png \<Rightarrow> nat" where "idat_offs p = trns_offs p + trns_size p"
definition idat_size :: "png \<Rightarrow> nat" where "idat_size p = 4 + 4 + data_size p + 4"
definition iend_offs :: "png \<Rightarrow> nat" where "iend_offs p = idat_offs p + idat_size p"
definition iend_size :: "png \<Rightarrow> nat" where "iend_size p = 4 + 4 + 4"
definition buffer_size :: "png \<Rightarrow> nat" where "buffer_size p = iend_offs p + iend_size p"

definition deflate_header :: nat where
  "deflate_header = (let header = push_bit 8 (8 + push_bit 4 7) OR push_bit 6 3 in header + (31 - header mod 31))"

text \<open>The headers of the stored blocks.\<close>

definition block_header :: "nat \<Rightarrow> nat \<Rightarrow> nat list" where
  "block_header pix i =
     (let (sz, bits) =
            (if i + 0xffff < pix then (0xffff :: u32, 0) else (of_nat pix - of_nat (i * 65536) - of_nat i, 1))
      in bits # byte2lsb sz @ byte2lsb (NOT sz))"

function block_headers :: "nat \<Rightarrow> nat \<Rightarrow> nat \<Rightarrow> (nat \<times> nat list) list" where
  "block_headers idat pix i =
     (if i * 65536 < pix + 1
      then (idat + 8 + 2 + i * 65536 + i * 4, block_header pix i) # block_headers idat pix (Suc i) else [])"
  by pat_completeness auto
termination by (relation "measure (\<lambda>(idat, pix, i). pix + 1 - i)") auto

declare block_headers.simps [simp del]

text \<open>The table of the cyclic redundancy check.\<close>

definition crc_shift :: "u32 \<Rightarrow> u32" where
  "crc_shift c = (if c AND 1 \<noteq> 0 then - 306674912 XOR drop_bit 1 c else drop_bit 1 c)"

definition crc_entry :: "u32 \<Rightarrow> u32" where
  "crc_entry c = (crc_shift ^^ 8) c"

definition crc_table :: "u32 list" where
  "crc_table = map (\<lambda>i. crc_entry (of_nat i)) [0..<256]"

definition new_writes :: "png \<Rightarrow> (nat \<times> nat list) list" where
  "new_writes p =
     [(ihdr_offs p, byte4 (of_nat (ihdr_size p - 12)) @ js ''IHDR'' @ byte4 (of_nat (p_width p)) @ byte4 (of_nat (p_height p)) @ [8, 3]),
      (plte_offs p, byte4 (of_nat (plte_size p - 12)) @ js ''PLTE''),
      (trns_offs p, byte4 (of_nat (trns_size p - 12)) @ js ''tRNS''),
      (idat_offs p, byte4 (of_nat (idat_size p - 12)) @ js ''IDAT''),
      (iend_offs p, byte4 (of_nat (iend_size p - 12)) @ js ''IEND''),
      (idat_offs p + 8, byte2 (of_nat deflate_header))] @ block_headers (idat_offs p) (pix_size p) 0"

definition PNGlib :: "nat \<Rightarrow> nat \<Rightarrow> nat \<Rightarrow> png option" where
  "PNGlib width height depth =
     (let p = \<lparr>p_width = width, p_height = height, p_depth = depth, p_buffer = [], p_palette = Map.empty, p_pindex = 0\<rparr>
      in map_option (\<lambda>b. p\<lparr>p_buffer := b\<rparr>) (write_all (replicate (buffer_size p) 0) (new_writes p)))"

definition index :: "png \<Rightarrow> int \<Rightarrow> int \<Rightarrow> int" where
  "index p x y =
     (let i = y * (int (p_width p) + 1) + x + 1
      in int (idat_offs p) + 8 + 2 + 5 * (i div 0xffff + 1) + i)"

text \<open>
  The components of a colour are integers: every operator they meet drops a fraction. An absent \<^verbatim>\<open>alpha\<close> is \<open>None\<close>.
\<close>

definition char16 :: "int \<Rightarrow> nat" where
  "char16 n = nat (n mod 65536)"

definition color_key :: "int \<Rightarrow> int \<Rightarrow> int \<Rightarrow> int \<Rightarrow> u32" where
  "color_key red green blue alpha =
     push_bit 8 (push_bit 8 (push_bit 8 (of_int alpha) OR of_int red) OR of_int green) OR of_int blue"

definition color :: "png \<Rightarrow> int \<Rightarrow> int \<Rightarrow> int \<Rightarrow> int option \<Rightarrow> (nat \<times> png) option" where
  "color p red green blue alpha_opt =
     (let alpha = (case alpha_opt of Some a \<Rightarrow> if a \<ge> 0 then a else 255 | None \<Rightarrow> 255);
          key = color_key red green blue alpha
      in case p_palette p key of
           Some c \<Rightarrow> Some (c, p)
         | None \<Rightarrow>
             if p_pindex p = p_depth p then Some (0, p)
             else map_option
               (\<lambda>b. (char16 (int (p_pindex p)),
                     p\<lparr>p_buffer := b, p_palette := (p_palette p)(key \<mapsto> char16 (int (p_pindex p))), p_pindex := p_pindex p + 1\<rparr>))
               (write_all (p_buffer p)
                 [(plte_offs p + 8 + 3 * p_pindex p, [char16 red, char16 green, char16 blue]),
                  (trns_offs p + 8 + p_pindex p, [char16 alpha])]))"

text \<open>A pixel set by a client: \<^verbatim>\<open>image.buffer[image.index(x, y)] = color\<close>.\<close>

definition set_pixel :: "png \<Rightarrow> int \<Rightarrow> int \<Rightarrow> nat \<Rightarrow> png option" where
  "set_pixel p x y c =
     (let j = index p x y
      in if 0 \<le> j \<and> nat j < length (p_buffer p) then Some (p\<lparr>p_buffer := (p_buffer p)[nat j := c]\<rparr>) else None)"

section \<open>Output\<close>

definition NMAX :: nat where "NMAX = 5552"
definition BASE :: nat where "BASE = 65521"

definition scan_order :: "png \<Rightarrow> (int \<times> int) list" where
  "scan_order p = concat (map (\<lambda>y. map (\<lambda>x. (x, int y)) [- 1..int (p_width p) - 1]) [0..<p_height p])"

definition read_at :: "nat list \<Rightarrow> int \<Rightarrow> nat option" where
  "read_at b j = (if 0 \<le> j \<and> nat j < length b then Some (b ! nat j) else None)"

definition adler_step :: "nat \<times> nat \<times> nat \<Rightarrow> nat \<Rightarrow> nat \<times> nat \<times> nat" where
  "adler_step st c =
     (case st of (s1, s2, n) \<Rightarrow>
        let s1 = s1 + c; s2 = s2 + s1; n = n - 1
        in if n = 0 then (s1 mod BASE, s2 mod BASE, NMAX) else (s1, s2, n))"

fun adler_loop :: "png \<Rightarrow> nat \<times> nat \<times> nat \<Rightarrow> (int \<times> int) list \<Rightarrow> (nat \<times> nat \<times> nat) option" where
  "adler_loop p st [] = Some st"
| "adler_loop p st ((x, y) # xys) =
     Option.bind (read_at (p_buffer p) (index p x y)) (\<lambda>c. adler_loop p (adler_step st c) xys)"

fun crc_loop :: "nat list \<Rightarrow> nat \<Rightarrow> u32 \<Rightarrow> nat list \<Rightarrow> u32 option" where
  "crc_loop png offs crc [] = Some crc"
| "crc_loop png offs crc (i # ks) =
     Option.bind (read_at png (int (offs + i)))
       (\<lambda>c. crc_loop png offs (crc_table ! unat ((crc XOR of_nat c) AND 0xff) XOR drop_bit 8 crc) ks)"

definition crc32 :: "nat list \<Rightarrow> nat \<Rightarrow> nat \<Rightarrow> nat list option" where
  "crc32 png offs sz =
     Option.bind (crc_loop png offs (- 1) [4..<sz - 4]) (\<lambda>crc. buf_write png (offs + sz - 4) (byte4 (crc XOR - 1)))"

definition crc32_all :: "png \<Rightarrow> nat list \<Rightarrow> nat list option" where
  "crc32_all p b =
     Option.bind (crc32 b (ihdr_offs p) (ihdr_size p)) (\<lambda>b.
     Option.bind (crc32 b (plte_offs p) (plte_size p)) (\<lambda>b.
     Option.bind (crc32 b (trns_offs p) (trns_size p)) (\<lambda>b.
     Option.bind (crc32 b (idat_offs p) (idat_size p)) (\<lambda>b.
     crc32 b (iend_offs p) (iend_size p)))))"

definition signature :: "nat list" where
  "signature = [137, 80, 78, 71, 13, 10, 26, 10]"

definition getDump :: "png \<Rightarrow> (jsstr \<times> png) option" where
  "getDump p =
     Option.bind (adler_loop p (1, 0, NMAX) (scan_order p)) (\<lambda>(s1, s2, n).
     Option.bind (buf_write (p_buffer p) (idat_offs p + idat_size p - 8)
         (byte4 (push_bit 16 (of_nat (s2 mod BASE)) OR of_nat (s1 mod BASE)))) (\<lambda>b.
     Option.bind (crc32_all p b) (\<lambda>b. Some (signature @ b, p\<lparr>p_buffer := b\<rparr>))))"

definition base64_chars :: jsstr where
  "base64_chars = js ''ABCDEFGHIJKLMNOPQRSTUVWXYZabcdefghijklmnopqrstuvwxyz0123456789+/=''"

definition charAt :: "jsstr \<Rightarrow> nat \<Rightarrow> jsstr" where
  "charAt s i = (if i < length s then [s ! i] else [])"

text \<open>\<^verbatim>\<open>charCodeAt\<close> as an operand of a bitwise operator: beyond the end it is not a number and acts as zero.\<close>

definition charCodeAt0 :: "jsstr \<Rightarrow> nat \<Rightarrow> nat" where
  "charCodeAt0 s i = (if i < length s then s ! i else 0)"

definition base64_group :: "jsstr \<Rightarrow> nat \<Rightarrow> jsstr" where
  "base64_group s i =
     (let l = length s; c1 = charCodeAt0 s i; e1 = drop_bit 2 c1;
          c2 = charCodeAt0 s (i + 1); e2 = push_bit 4 (c1 AND 3) OR drop_bit 4 c2;
          c3 = charCodeAt0 s (i + 2);
          e3 = (if l < i + 2 then 64 else push_bit 2 (c2 AND 0xf) OR drop_bit 6 c3);
          e4 = (if l < i + 3 then 64 else c3 AND 0x3f)
      in charAt base64_chars e1 @ charAt base64_chars e2 @ charAt base64_chars e3 @ charAt base64_chars e4)"

function base64_loop :: "jsstr \<Rightarrow> nat \<Rightarrow> jsstr" where
  "base64_loop s i = base64_group s i @ (if i + 3 < length s then base64_loop s (i + 3) else [])"
  by pat_completeness auto
termination by (relation "measure (\<lambda>(s, i). length s - i)") auto

declare base64_loop.simps [simp del]

text \<open>The browser's own encoder, where there is one, is the parameter \<open>btoa\<close>.\<close>

definition getBase64 :: "(jsstr \<Rightarrow> jsstr) option \<Rightarrow> png \<Rightarrow> (jsstr \<times> png) option" where
  "getBase64 btoa p =
     map_option (\<lambda>(s, p'). (case btoa of Some f \<Rightarrow> f s | None \<Rightarrow> base64_loop s 0, p')) (getDump p)"

section \<open>The file format\<close>

text \<open>
  Big-endian numbers, the cyclic redundancy check bit by bit (ISO 3309), the check sum of RFC 1950, a zlib stream of
  one stored block (RFC 1951), chunks and files.
\<close>

definition be32 :: "nat \<Rightarrow> nat list" where
  "be32 n = [n div 2 ^ 24 mod 256, n div 2 ^ 16 mod 256, n div 2 ^ 8 mod 256, n mod 256]"

text \<open>The generating polynomial by its exponents below 32, the highest in the lowest bit, and the division by it of one more bit.\<close>

definition crc_poly :: u32 where
  "crc_poly = foldr (\<lambda>k p. p OR push_bit (31 - k) 1) [26, 23, 22, 16, 12, 11, 10, 8, 7, 5, 4, 2, 1, 0] 0"

definition crc_bit :: "u32 \<Rightarrow> u32" where
  "crc_bit c = (if odd c then crc_poly else 0) XOR drop_bit 1 c"

definition crc_byte :: "u32 \<Rightarrow> nat \<Rightarrow> u32" where
  "crc_byte c b = (crc_bit ^^ 8) (c XOR of_nat b)"

definition crc_ref :: "nat list \<Rightarrow> u32" where
  "crc_ref bs = foldl crc_byte (- 1) bs XOR - 1"

definition adler_ref_step :: "nat \<times> nat \<Rightarrow> nat \<Rightarrow> nat \<times> nat" where
  "adler_ref_step st c = (case st of (a, b) \<Rightarrow> ((a + c) mod 65521, (b + (a + c)) mod 65521))"

definition adler_ref :: "nat list \<Rightarrow> nat" where
  "adler_ref bs = (case foldl adler_ref_step (1, 0) bs of (a, b) \<Rightarrow> b * 65536 + a)"

definition zlib_stored :: "nat list \<Rightarrow> nat list" where
  "zlib_stored bs =
     [0x78, 0xda, 1, length bs mod 256, length bs div 256, 255 - length bs mod 256, 255 - length bs div 256]
     @ bs @ be32 (adler_ref bs)"

definition chunk :: "string \<Rightarrow> nat list \<Rightarrow> nat list" where
  "chunk t d = be32 (length d) @ js t @ d @ be32 (unat (crc_ref (js t @ d)))"

definition png_file :: "nat \<Rightarrow> nat \<Rightarrow> nat list \<Rightarrow> nat list \<Rightarrow> nat list \<Rightarrow> nat list" where
  "png_file w h plte trns raster =
     signature @ chunk ''IHDR'' (be32 w @ be32 h @ [8, 3, 0, 0, 0]) @ chunk ''PLTE'' plte @ chunk ''tRNS'' trns
     @ chunk ''IDAT'' (zlib_stored raster) @ chunk ''IEND'' []"

section \<open>Check sums\<close>

lemma byte4_be32: "byte4 w = be32 (unat w)"
  using octet [of 24 w] octet [of 16 w] octet [of 8 w] octet [of 0 w] by (simp add: byte4_def be32_def)

lemma length_be32 [simp]: "length (be32 n) = 4"
  by (simp add: be32_def)

lemma be32_lt: "c \<in> set (be32 n) \<Longrightarrow> c < 256"
  by (auto simp: be32_def)

lemma crc_shift_odd: "crc_shift c = (if odd c then - 306674912 XOR drop_bit 1 c else drop_bit 1 c)"
  by (simp add: crc_shift_def and_one_eq odd_iff_mod_2_eq_one)

lemma crc_bit_eq: "crc_bit = crc_shift"
proof -
  have "crc_poly = - 306674912" by code_simp
  then show ?thesis by (intro ext) (simp add: crc_bit_def crc_shift_odd)
qed

lemma crc_shift_xor: "crc_shift (x XOR y) = crc_shift x XOR crc_shift y"
  by (simp add: crc_shift_odd even_xor_iff drop_bit_xor xor.assoc xor.left_commute xor.commute)

lemma crc_shifts_xor: "(crc_shift ^^ n) (x XOR y) = (crc_shift ^^ n) x XOR (crc_shift ^^ n) y"
  by (induction n) (simp_all add: crc_shift_xor)

lemma crc_shifts_low: "take_bit n y = 0 \<Longrightarrow> (crc_shift ^^ n) y = drop_bit n y"
proof (induction n arbitrary: y)
  case (Suc n)
  have b: "\<not> bit y i" if "i < Suc n" for i
    using Suc.prems that by (metis bit_0_eq bit_take_bit_iff bot_apply bot_bool_def)
  then have "even y" using bit_0 by (metis zero_less_Suc)
  moreover have "take_bit n (drop_bit 1 y) = 0"
    by (rule bit_eqI) (use b in \<open>auto simp: bit_take_bit_iff bit_drop_bit_eq\<close>)
  ultimately show ?case
    using Suc.IH [of "drop_bit 1 y"] by (simp add: funpow_Suc_right crc_shift_odd del: funpow.simps)
qed simp

lemma crc_table_step:
  assumes "c < 256"
  shows "crc_table ! unat ((crc XOR of_nat c) AND 0xff) XOR drop_bit 8 crc = crc_byte crc c"
proof -
  let ?x = "crc XOR of_nat c"
  have lo: "?x AND 0xff = take_bit 8 ?x" by (simp add: take_bit_eq_mask mask_eq_exp_minus_1)
  have "unat (take_bit 8 ?x) < 256" by (simp only: unsigned_take_bit_eq) (simp add: take_bit_eq_mod)
  then have t: "crc_table ! unat (?x AND 0xff) = (crc_shift ^^ 8) (take_bit 8 ?x)"
    by (simp only: lo) (simp add: crc_table_def crc_entry_def)
  have "drop_bit 8 (of_nat c :: u32) = 0"
    by (rule word_unat_eq_iff [THEN iffD2])
      (simp only: unsigned_drop_bit_eq, use assms in \<open>simp add: unat_of_nat drop_bit_eq_div take_bit_eq_mod\<close>)
  then have h: "drop_bit 8 (?x XOR take_bit 8 ?x) = drop_bit 8 crc"
    by (simp add: drop_bit_xor drop_bit_take_bit)
  have z: "(crc_shift ^^ 8) (?x XOR take_bit 8 ?x) = drop_bit 8 crc"
    unfolding h [symmetric] by (rule crc_shifts_low) (simp add: take_bit_xor)
  have "(crc_shift ^^ 8) ?x = (crc_shift ^^ 8) (take_bit 8 ?x XOR (?x XOR take_bit 8 ?x))"
    by (simp add: xor.left_commute)
  also have "\<dots> = (crc_shift ^^ 8) (take_bit 8 ?x) XOR drop_bit 8 crc"
    by (simp only: crc_shifts_xor [of 8 "take_bit 8 ?x" "?x XOR take_bit 8 ?x"] z)
  finally show ?thesis by (simp add: t crc_byte_def crc_bit_eq)
qed

lemma read_at_nat: "read_at b (int n) = (if n < length b then Some (b ! n) else None)"
  by (simp add: read_at_def)

lemma crc_loop_eq:
  assumes "\<forall>c \<in> set d. c < 256" "b = pre @ d @ post" "length pre = offs + i"
  shows "crc_loop b offs crc [i..<i + length d] = Some (foldl crc_byte crc d)"
  using assms
proof (induction d arbitrary: pre i crc)
  case (Cons c d)
  have "crc_loop b offs (crc_byte crc c) [Suc i..<Suc i + length d] = Some (foldl crc_byte (crc_byte crc c) d)"
    using Cons.prems by (intro Cons.IH [of "pre @ [c]"]) simp_all
  moreover have "read_at b (int (offs + i)) = Some c" using Cons.prems by (simp add: read_at_nat nth_append del: of_nat_add)
  ultimately show ?case using Cons.prems(1) by (simp add: upt_conv_Cons crc_table_step del: upt_Suc)
qed simp

text \<open>The sums of the code reduce late; they agree with the reference after reduction, and stay below \<open>2 ^ 32\<close>.\<close>

definition adler_mod :: "nat \<times> nat \<times> nat \<Rightarrow> nat \<times> nat" where
  "adler_mod st = (case st of (s1, s2, n) \<Rightarrow> (s1 mod BASE, s2 mod BASE))"

lemma adler_step_mod: "adler_mod (adler_step st c) = adler_ref_step (adler_mod st) c"
  by (cases st) (simp add: adler_mod_def adler_step_def adler_ref_step_def BASE_def Let_def mod_simps add.left_commute [of _ "_ mod _"])

lemma adler_steps_mod: "adler_mod (foldl adler_step st cs) = foldl adler_ref_step (adler_mod st) cs"
  by (induction cs arbitrary: st) (simp_all add: adler_step_mod)

definition adler_bound :: "nat \<times> nat \<times> nat \<Rightarrow> bool" where
  "adler_bound st \<longleftrightarrow>
     (case st of (s1, s2, n) \<Rightarrow> 0 < n \<and> n \<le> NMAX \<and> s1 \<le> 65520 + 255 * (NMAX - n)
        \<and> 2 * s2 \<le> 131040 * (NMAX - n + 1) + 255 * (NMAX - n) * (NMAX - n + 1))"

lemma adler_step_bound:
  assumes "adler_bound st" "c < 256"
  shows "adler_bound (adler_step st c)"
proof -
  obtain s1 s2 n where st: "st = (s1, s2, n)" by (cases st)
  define k where "k = NMAX - n"
  have n: "n = NMAX - k" "k < NMAX" and b: "s1 \<le> 65520 + 255 * k" "2 * s2 \<le> 131040 * (k + 1) + 255 * k * (k + 1)"
    using assms(1) by (auto simp: st adler_bound_def k_def)
  have s1: "s1 + c \<le> 65520 + 255 * (k + 1)" using b(1) assms(2) by simp
  then have s2: "2 * (s2 + (s1 + c)) \<le> 131040 * (k + 1 + 1) + 255 * (k + 1) * (k + 1 + 1)"
    using b(2) by (simp add: algebra_simps)
  show ?thesis
  proof (cases "n = 1")
    case True
    then show ?thesis by (simp add: st adler_step_def adler_bound_def NMAX_def BASE_def Let_def less_Suc_eq_le [symmetric])
  next
    case False
    then have "NMAX - (n - 1) = k + 1" "0 < n - 1" "n - 1 \<le> NMAX" using n by (simp_all add: NMAX_def)
    then show ?thesis using s1 s2 False n by (simp add: st adler_step_def adler_bound_def Let_def)
  qed
qed

lemma adler_bound_32:
  assumes "adler_bound (s1, s2, n)" "c < 256"
  shows "s1 + c < 2 ^ 32" "s2 + (s1 + c) < 2 ^ 32"
proof -
  define k where "k = NMAX - n"
  have k: "k \<le> 5551" and b: "s1 \<le> 65520 + 255 * k" "2 * s2 \<le> 131040 * (k + 1) + 255 * (k * (k + 1))"
    using assms(1) by (auto simp: adler_bound_def k_def NMAX_def)
  have "k * (k + 1) \<le> 5551 * (5551 + 1)" using k by (intro mult_le_mono) simp_all
  then show "s1 + c < 2 ^ 32" "s2 + (s1 + c) < 2 ^ 32" using k b assms(2) by simp_all
qed

section \<open>The layout of the buffer\<close>

lemmas offs_defs =
  ihdr_offs_def ihdr_size_def plte_offs_def plte_size_def trns_offs_def trns_size_def idat_offs_def idat_size_def
  iend_offs_def iend_size_def buffer_size_def data_size_def

definition stored_header :: "nat \<Rightarrow> nat list" where
  "stored_header n = [0x78, 0xda, 1, n mod 256, n div 256, 255 - n mod 256, 255 - n div 256]"

definition layout :: "nat \<Rightarrow> nat \<Rightarrow> nat list \<Rightarrow> nat list \<Rightarrow> nat list \<Rightarrow> nat list \<Rightarrow> (nat \<Rightarrow> nat list) \<Rightarrow> nat list" where
  "layout w h plte trns raster ad crc =
     be32 13 @ (js ''IHDR'' @ be32 w @ be32 h @ [8, 3, 0, 0, 0]) @ crc 0
     @ be32 (length plte) @ (js ''PLTE'' @ plte) @ crc 1
     @ be32 (length trns) @ (js ''tRNS'' @ trns) @ crc 2
     @ be32 (length raster + 11) @ (js ''IDAT'' @ stored_header (length raster) @ raster @ ad) @ crc 3
     @ be32 0 @ js ''IEND'' @ crc 4"

text \<open>
  An image of at most 65535 bytes of pixels and filter types: its buffer is laid out as a file, up to the check sums.
\<close>

definition png_ok :: "png \<Rightarrow> nat list \<Rightarrow> nat list \<Rightarrow> nat list \<Rightarrow> bool" where
  "png_ok p plte trns raster \<longleftrightarrow>
     p_width p < 2 ^ 31 \<and> p_height p < 2 ^ 31 \<and> 0 < pix_size p \<and> pix_size p \<le> 65535 \<and> p_depth p \<le> 256
     \<and> length plte = 3 * p_depth p \<and> length trns = p_depth p \<and> length raster = pix_size p
     \<and> list_all (\<lambda>c. c < 256) (plte @ trns @ raster)
     \<and> (\<exists>ad crc. length ad = 4 \<and> (\<forall>k. length (crc k) = 4)
         \<and> p_buffer p = layout (p_width p) (p_height p) plte trns raster ad crc)"

lemma pix_blocks: "0 < n \<Longrightarrow> n \<le> 65535 \<Longrightarrow> (0xfffe + n) div 0xffff = 1" for n :: nat
  by (simp add: div_eq_dividend_iff div_nat_eqI)

lemma png_ok_data: "png_ok p plte trns raster \<Longrightarrow> data_size p = length raster + 11"
  using pix_blocks [of "pix_size p"] by (simp add: png_ok_def data_size_def)

lemma buf_write_at:
  "length a = offs \<Longrightarrow> length b = length s \<Longrightarrow> buf_write (a @ b @ c) offs s = Some (a @ s @ c)"
proof (induction s arbitrary: a b offs)
  case (Cons x s)
  obtain y b' where b: "b = y # b'" using Cons.prems(2) by (cases b) auto
  have "buf_write ((a @ [x]) @ b' @ c) (Suc offs) s = Some ((a @ [x]) @ s @ c)"
    using Cons.prems b by (intro Cons.IH) simp_all
  then show ?case using Cons.prems b by (simp add: list_update_append)
qed simp

lemma crc32_eq:
  assumes "length pre = offs" "length l = 4" "length c = 4" "sz = length d + 8" "\<forall>c \<in> set d. c < 256"
  shows "crc32 (pre @ l @ d @ c @ post) offs sz = Some (pre @ l @ d @ be32 (unat (crc_ref d)) @ post)"
proof -
  have "crc_loop (pre @ l @ d @ c @ post) offs (- 1) [4..<4 + length d] = Some (foldl crc_byte (- 1) d)"
    using assms by (intro crc_loop_eq [of _ _ "pre @ l" "c @ post"]) simp_all
  moreover have "buf_write ((pre @ l @ d) @ c @ post) (offs + sz - 4) (be32 (unat (crc_ref d)))
      = Some ((pre @ l @ d) @ be32 (unat (crc_ref d)) @ post)"
    using assms by (intro buf_write_at) simp_all
  ultimately show ?thesis using assms by (simp add: crc32_def byte4_be32 crc_ref_def)
qed

lemma crc32_all_eq:
  assumes l: "length l0 = 4" "length l1 = 4" "length l2 = 4" "length l3 = 4" "length l4 = 4"
    and c: "length c0 = 4" "length c1 = 4" "length c2 = 4" "length c3 = 4" "length c4 = 4"
    and d: "length d0 = 17" "length d1 = 4 + 3 * p_depth p" "length d2 = 4 + p_depth p" "length d3 = 4 + data_size p"
      "length d4 = 4"
    and lt: "\<forall>c \<in> set (d0 @ d1 @ d2 @ d3 @ d4). c < 256"
  shows "crc32_all p (l0 @ d0 @ c0 @ l1 @ d1 @ c1 @ l2 @ d2 @ c2 @ l3 @ d3 @ c3 @ l4 @ d4 @ c4)
    = Some (l0 @ d0 @ be32 (unat (crc_ref d0)) @ l1 @ d1 @ be32 (unat (crc_ref d1)) @ l2 @ d2 @ be32 (unat (crc_ref d2))
        @ l3 @ d3 @ be32 (unat (crc_ref d3)) @ l4 @ d4 @ be32 (unat (crc_ref d4)))"
proof -
  let ?c = "\<lambda>d. be32 (unat (crc_ref d))"
  let ?p1 = "l0 @ d0 @ ?c d0" let ?p2 = "?p1 @ l1 @ d1 @ ?c d1" let ?p3 = "?p2 @ l2 @ d2 @ ?c d2"
  let ?p4 = "?p3 @ l3 @ d3 @ ?c d3"
  let ?s4 = "l4 @ d4 @ c4" let ?s3 = "l3 @ d3 @ c3 @ ?s4" let ?s2 = "l2 @ d2 @ c2 @ ?s3" let ?s1 = "l1 @ d1 @ c1 @ ?s2"
  have "crc32 ([] @ l0 @ d0 @ c0 @ ?s1) (ihdr_offs p) (ihdr_size p) = Some ([] @ l0 @ d0 @ ?c d0 @ ?s1)"
    using assms by (intro crc32_eq) (simp_all add: offs_defs)
  moreover have "crc32 (?p1 @ ?s1) (plte_offs p) (plte_size p) = Some (?p1 @ l1 @ d1 @ ?c d1 @ ?s2)"
    using assms by (intro crc32_eq) (simp_all add: offs_defs)
  moreover have "crc32 (?p2 @ ?s2) (trns_offs p) (trns_size p) = Some (?p2 @ l2 @ d2 @ ?c d2 @ ?s3)"
    using assms by (intro crc32_eq) (simp_all add: offs_defs)
  moreover have "crc32 (?p3 @ ?s3) (idat_offs p) (idat_size p) = Some (?p3 @ l3 @ d3 @ ?c d3 @ ?s4)"
    using assms by (intro crc32_eq) (simp_all add: offs_defs)
  moreover have "crc32 (?p4 @ l4 @ d4 @ c4 @ []) (iend_offs p) (iend_size p) = Some (?p4 @ l4 @ d4 @ ?c d4 @ [])"
    using assms by (intro crc32_eq) (simp_all add: offs_defs)
  ultimately show ?thesis by (simp add: crc32_all_def)
qed

definition crc_fields :: "nat \<Rightarrow> nat \<Rightarrow> nat list \<Rightarrow> nat list \<Rightarrow> nat list \<Rightarrow> nat list \<Rightarrow> nat \<Rightarrow> nat list" where
  "crc_fields w h plte trns raster ad k =
     be32 (unat (crc_ref
       ([js ''IHDR'' @ be32 w @ be32 h @ [8, 3, 0, 0, 0], js ''PLTE'' @ plte, js ''tRNS'' @ trns,
         js ''IDAT'' @ stored_header (length raster) @ raster @ ad, js ''IEND''] ! k)))"

lemma layout_crc:
  assumes ok: "png_ok p plte trns raster" and "length ad = 4" "\<forall>k. length (crc k) = 4" "\<forall>c \<in> set ad. c < 256"
  shows "crc32_all p (layout (p_width p) (p_height p) plte trns raster ad crc)
    = Some (layout (p_width p) (p_height p) plte trns raster ad
        (crc_fields (p_width p) (p_height p) plte trns raster ad))"
proof -
  have n: "length raster < 65536" "length plte = 3 * p_depth p" "length trns = p_depth p" "data_size p = length raster + 11"
    using ok png_ok_data [OF ok] by (simp_all add: png_ok_def)
  have "\<forall>c \<in> set (plte @ trns @ raster @ be32 (p_width p) @ be32 (p_height p)). c < 256"
    using ok by (auto simp: png_ok_def list_all_iff dest: be32_lt)
  moreover have "\<forall>c \<in> set (stored_header (length raster)). c < 256" using n(1) by (auto simp: stored_header_def)
  moreover have "length (stored_header (length raster)) = 7" by (simp add: stored_header_def)
  ultimately show ?thesis
    unfolding layout_def crc_fields_def
    by (subst crc32_all_eq) (use assms(2-4) n(2-4) in auto)
qed

section \<open>Parts of the layout\<close>

text \<open>Where the palette, the transparencies, the raster and its check sum lie; each may be exchanged in place.\<close>

lemma layout_parts:
  assumes ok: "length plte = 3 * p_depth p" "length trns = p_depth p" "length raster = pix_size p"
    "data_size p = pix_size p + 11" "length ad = 4" "\<forall>k. length (crc k) = 4"
  shows "\<exists>pre post. length pre = plte_offs p + 8 \<and>
      (\<forall>l. length l = length plte \<longrightarrow> layout w h l trns raster ad crc = pre @ l @ post)" (is ?P)
    and "\<exists>pre post. length pre = trns_offs p + 8 \<and>
      (\<forall>l. length l = length trns \<longrightarrow> layout w h plte l raster ad crc = pre @ l @ post)" (is ?T)
    and "\<exists>pre post. length pre = idat_offs p + 15 \<and>
      (\<forall>l. length l = length raster \<longrightarrow> layout w h plte trns l ad crc = pre @ l @ post)" (is ?R)
    and "\<exists>pre post. length pre = idat_offs p + idat_size p - 8 \<and>
      (\<forall>l. length l = length ad \<longrightarrow> layout w h plte trns raster l crc = pre @ l @ post)" (is ?A)
proof -
  let ?h = "be32 13 @ js ''IHDR'' @ be32 w @ be32 h @ [8, 3, 0, 0, 0] @ crc 0"
  let ?p = "\<lambda>l. be32 (length plte) @ js ''PLTE'' @ l" and ?t = "\<lambda>l. be32 (length trns) @ js ''tRNS'' @ l"
  let ?i = "\<lambda>l. be32 (length raster + 11) @ js ''IDAT'' @ stored_header (length raster) @ l"
  let ?e = "be32 0 @ js ''IEND'' @ crc 4"
  show ?P
    by (rule exI [of _ "?h @ ?p []"], rule exI [of _ "crc 1 @ ?t trns @ crc 2 @ ?i raster @ ad @ crc 3 @ ?e"])
      (use assms in \<open>simp add: layout_def offs_defs\<close>)
  show ?T
    by (rule exI [of _ "?h @ ?p plte @ crc 1 @ ?t []"], rule exI [of _ "crc 2 @ ?i raster @ ad @ crc 3 @ ?e"])
      (use assms in \<open>simp add: layout_def offs_defs\<close>)
  show ?R
    by (rule exI [of _ "?h @ ?p plte @ crc 1 @ ?t trns @ crc 2 @ ?i []"], rule exI [of _ "ad @ crc 3 @ ?e"])
      (use assms in \<open>simp add: layout_def offs_defs stored_header_def\<close>)
  show ?A
    by (rule exI [of _ "?h @ ?p plte @ crc 1 @ ?t trns @ crc 2 @ ?i raster"], rule exI [of _ "crc 3 @ ?e"])
      (use assms in \<open>simp add: layout_def offs_defs stored_header_def\<close>)
qed

lemma png_okE:
  assumes "png_ok p plte trns raster"
  obtains ad crc where "length ad = 4" "\<forall>k. length (crc k) = 4"
    "p_buffer p = layout (p_width p) (p_height p) plte trns raster ad crc"
    "length plte = 3 * p_depth p" "length trns = p_depth p" "length raster = pix_size p" "data_size p = pix_size p + 11"
  using assms png_ok_data [OF assms] unfolding png_ok_def by auto

lemma png_ok_update:
  assumes "png_ok p plte trns raster" "length plte' = length plte" "length trns' = length trns" "length raster' = length raster"
    "list_all (\<lambda>c. c < 256) (plte' @ trns' @ raster')" "length ad = 4" "\<forall>k. length (crc k) = 4"
    "p_buffer p' = layout (p_width p) (p_height p) plte' trns' raster' ad crc"
    "p_width p' = p_width p" "p_height p' = p_height p" "p_depth p' = p_depth p"
  shows "png_ok p' plte' trns' raster'"
proof -
  have "pix_size p' = pix_size p" using assms(9,10) by (simp add: pix_size_def)
  moreover have "\<exists>ad crc. length ad = 4 \<and> (\<forall>k. length (crc k) = 4)
      \<and> p_buffer p' = layout (p_width p') (p_height p') plte' trns' raster' ad crc"
    using assms(6-10) by (intro exI [of _ ad] exI [of _ crc]) simp
  ultimately show ?thesis
    using assms(1-5,9-11) unfolding png_ok_def by simp
qed

section \<open>Scanning the image\<close>

lemma upto_minus_one: "[- 1..int w - 1] = map (\<lambda>k. int k - 1) [0..<Suc w]"
proof (induction w)
  case (Suc w)
  have "[- 1..int (Suc w) - 1] = [- 1..int w - 1] @ [int w]" using upto_rec2 [of "- 1" "int w"] by simp
  then show ?case using Suc by simp
qed simp

lemma scan_rows:
  "concat (map (\<lambda>y. map (\<lambda>x. g (int y * (int w + 1) + x + 1)) [- 1..int w - 1]) [0..<h]) = map (g \<circ> int) [0..<h * (w + 1)]"
proof (induction h)
  case (Suc h)
  have "map (\<lambda>x. g (int h * (int w + 1) + x + 1)) [- 1..int w - 1] = map (g \<circ> int) [h * (w + 1)..<h * (w + 1) + (w + 1)]"
    using map_add_upt [of "h * (w + 1)" "w + 1", symmetric]
    by (simp add: upto_minus_one comp_def algebra_simps del: upt_Suc)
  moreover have "[0..<Suc h * (w + 1)] = [0..<h * (w + 1)] @ [h * (w + 1)..<h * (w + 1) + (w + 1)]"
    by (subst upt_add_eq_append [symmetric]) (simp_all add: ac_simps)
  ultimately show ?case using Suc by (simp only: upt_Suc_append zero_le map_append concat_append concat.simps list.map append_Nil2)
qed simp

lemma index_small:
  assumes "0 \<le> y * (int (p_width p) + 1) + x + 1" "y * (int (p_width p) + 1) + x + 1 < 65535"
  shows "index p x y = int (idat_offs p) + 15 + (y * (int (p_width p) + 1) + x + 1)"
  using assms by (simp add: index_def Let_def div_pos_pos_trivial)

lemma adler_loop_eq:
  "map (\<lambda>(x, y). read_at (p_buffer p) (index p x y)) xys = map Some cs \<Longrightarrow>
    adler_loop p st xys = Some (foldl adler_step st cs)"
proof (induction cs arbitrary: xys st)
  case (Cons c cs)
  then obtain x y r where "xys = (x, y) # r" by (cases xys) auto
  then show ?case using Cons by simp
qed simp

lemma scan_reads:
  assumes "png_ok p plte trns raster"
  shows "map (\<lambda>(x, y). read_at (p_buffer p) (index p x y)) (scan_order p) = map Some raster"
proof -
  have pix: "pix_size p \<le> 65535" "pix_size p = p_height p * (p_width p + 1)"
    using assms by (simp_all add: png_ok_def pix_size_def)
  obtain ad crc where l: "length ad = 4" "\<forall>k. length (crc k) = 4"
    "p_buffer p = layout (p_width p) (p_height p) plte trns raster ad crc" "length plte = 3 * p_depth p"
    "length trns = p_depth p" "length raster = pix_size p" "data_size p = pix_size p + 11"
    using png_okE [OF assms] by blast
  obtain pre post where b: "length pre = idat_offs p + 15" "p_buffer p = pre @ raster @ post"
    using layout_parts(3) [OF l(4-7,1,2)] l(3) by metis
  let ?g = "\<lambda>i. if 0 \<le> i \<and> i < int (pix_size p) then Some (raster ! nat i) else None"
  have "read_at (p_buffer p) (index p x (int y)) = ?g (int y * (int (p_width p) + 1) + x + 1)"
    if "y < p_height p" "- 1 \<le> x" "x \<le> int (p_width p) - 1" for x y
  proof -
    let ?i = "int y * (int (p_width p) + 1) + x + 1"
    have "int y * (int (p_width p) + 1) + (int (p_width p) + 1) \<le> int (p_height p) * (int (p_width p) + 1)"
      using that(1) mult_right_mono [of "int y + 1" "int (p_height p)" "int (p_width p) + 1"] by (simp add: algebra_simps)
    moreover have "int (pix_size p) = int (p_height p) * (int (p_width p) + 1)" by (simp add: pix(2) distrib_left)
    moreover have "0 \<le> int y * (int (p_width p) + 1)" by simp
    ultimately have i: "0 \<le> ?i" "?i < int (pix_size p)" using that(2,3) by linarith+
    then have "index p x (int y) = int (idat_offs p + 15 + nat ?i)"
      using pix(1) index_small [of "int y" p x] by simp
    moreover have "nat ?i < pix_size p" using i by linarith
    ultimately show ?thesis using i b l(6) by (simp add: read_at_nat nth_append del: of_nat_add)
  qed
  then have "map (\<lambda>(x, y). read_at (p_buffer p) (index p x y)) (scan_order p)
      = concat (map (\<lambda>y. map (\<lambda>x. ?g (int y * (int (p_width p) + 1) + x + 1)) [- 1..int (p_width p) - 1]) [0..<p_height p])"
    unfolding scan_order_def map_concat map_map comp_def by (intro arg_cong [where f = concat] map_cong refl) auto
  also have "\<dots> = map (?g \<circ> int) [0..<pix_size p]" unfolding pix(2) by (rule scan_rows)
  also have "\<dots> = map Some raster" using l(6) by (intro nth_equalityI) auto
  finally show ?thesis .
qed

lemma adler_fields:
  assumes "foldl adler_step (1, 0, NMAX) raster = (s1, s2, n)"
  shows "byte4 (push_bit 16 (of_nat (s2 mod BASE)) OR of_nat (s1 mod BASE)) = be32 (adler_ref raster)"
proof -
  let ?a = "s1 mod BASE" and ?b = "s2 mod BASE"
  have r: "adler_ref raster = ?b * 65536 + ?a"
    using adler_steps_mod [of "(1, 0, NMAX)" raster, symmetric] assms by (simp add: adler_ref_def adler_mod_def BASE_def)
  have lt: "?a < 65536" "?b < 65536" using mod_less_divisor [of BASE s1] mod_less_divisor [of BASE s2] by (simp_all add: BASE_def)
  have "push_bit 16 (of_nat ?b) OR of_nat ?a = (of_nat (push_bit 16 ?b OR ?a) :: u32)"
    by (simp add: of_nat_or_eq of_nat_push_bit)
  also have "push_bit 16 ?b OR ?a = ?b * 65536 + ?a"
    using or_disjoint [of ?a 16 ?b] lt by (simp add: or.commute push_bit_eq_mult)
  finally show ?thesis using r lt by (simp add: byte4_be32 unat_of_nat del: of_nat_add of_nat_mult)
qed

lemma getDump_eq:
  assumes ok: "png_ok p plte trns raster"
  obtains b where "getDump p = Some (png_file (p_width p) (p_height p) plte trns raster, p\<lparr>p_buffer := b\<rparr>)"
    "png_ok (p\<lparr>p_buffer := b\<rparr>) plte trns raster"
proof -
  obtain ad crc where l: "length ad = 4" "\<forall>k. length (crc k) = 4"
    "p_buffer p = layout (p_width p) (p_height p) plte trns raster ad crc" "length plte = 3 * p_depth p"
    "length trns = p_depth p" "length raster = pix_size p" "data_size p = pix_size p + 11"
    using png_okE [OF ok] by blast
  obtain s1 s2 n where s: "foldl adler_step (1, 0, NMAX) raster = (s1, s2, n)" by (metis prod_cases3)
  let ?ad = "be32 (adler_ref raster)"
  let ?b = "layout (p_width p) (p_height p) plte trns raster ?ad (crc_fields (p_width p) (p_height p) plte trns raster ?ad)"
  obtain pre post where a: "length pre = idat_offs p + idat_size p - 8"
    "\<And>x. length x = 4 \<Longrightarrow> layout (p_width p) (p_height p) plte trns raster x crc = pre @ x @ post"
    using layout_parts(4) [OF l(4-7,1,2)] l(1) by metis
  have "buf_write (p_buffer p) (idat_offs p + idat_size p - 8) ?ad
      = Some (layout (p_width p) (p_height p) plte trns raster ?ad crc)"
    using buf_write_at [OF a(1), of ad ?ad post] a(2) l(1,3) by simp
  moreover have "crc32_all p (layout (p_width p) (p_height p) plte trns raster ?ad crc) = Some ?b"
    using l(2) by (intro layout_crc [OF ok]) (auto dest: be32_lt)
  moreover have "adler_loop p (1, 0, NMAX) (scan_order p) = Some (s1, s2, n)"
    using adler_loop_eq [OF scan_reads [OF ok]] s by simp
  ultimately have "getDump p = Some (signature @ ?b, p\<lparr>p_buffer := ?b\<rparr>)"
    by (simp add: getDump_def adler_fields [OF s])
  moreover have "signature @ ?b = png_file (p_width p) (p_height p) plte trns raster"
    by (simp add: png_file_def layout_def chunk_def crc_fields_def zlib_stored_def stored_header_def add.commute)
  moreover have "png_ok (p\<lparr>p_buffer := ?b\<rparr>) plte trns raster"
    by (rule png_ok_update [OF ok]) (use ok in \<open>simp_all add: png_ok_def crc_fields_def\<close>)
  ultimately show ?thesis using that by simp
qed

section \<open>New images\<close>

definition blank :: "nat \<Rightarrow> nat list" where "blank n = replicate n 0"

lemma length_blank [simp]: "length (blank n) = n"
  by (simp add: blank_def)

lemma blank_add: "blank (a + b) = blank a @ blank b"
  by (simp add: blank_def replicate_add)

lemma blank_lt: "c \<in> set (blank n) \<Longrightarrow> c < 256"
  by (simp add: blank_def)

lemma deflate_header_value: "byte2 (of_nat deflate_header) = [0x78, 0xda]"
  by (simp add: deflate_header_def byte2_def push_bit_eq_mult)

lemma complement_bytes:
  fixes n :: nat
  assumes "n \<le> 65535"
  shows "(4294967295 - n) mod 256 = 255 - n mod 256" "(4294967295 - n) div 256 mod 256 = 255 - n div 256"
proof -
  define a b where "a = n div 256" and "b = n mod 256"
  have ab: "n = 256 * a + b" "a \<le> 255" "b \<le> 255" using assms by (simp_all add: a_def b_def)
  have split: "(r + 256 * q) mod 256 = r" "(r + 256 * q) div 256 = q" if "r < 256" for r q :: nat using that by simp_all
  have e: "4294967295 - n = (255 - b) + 256 * ((255 - a) + 256 * 65535)" using ab by (simp add: algebra_simps)
  show "(4294967295 - n) mod 256 = 255 - n mod 256"
    unfolding e using split(1) [of "255 - b" "(255 - a) + 256 * 65535"] by (simp only: b_def)
  show "(4294967295 - n) div 256 mod 256 = 255 - n div 256"
    unfolding e using split(2) [of "255 - b" "(255 - a) + 256 * 65535"] split(1) [of "255 - a" 65535] by (simp only: a_def)
qed

lemma block_header_value:
  assumes "n \<le> 65535"
  shows "[0x78, 0xda] @ block_header n 0 = stored_header n"
proof -
  have "unat (of_nat n :: u32) = n" using assms by (simp add: unat_of_nat)
  moreover have "NOT (of_nat n :: u32) = of_nat (4294967295 - n)"
    using assms by (simp add: of_nat_diff not_eq_complement)
  then have "unat (NOT (of_nat n :: u32)) = 4294967295 - n" by (simp add: unat_of_nat del: of_nat_diff)
  ultimately show ?thesis
    using assms octet [of 0 "of_nat n"] octet [of 8 "of_nat n"] octet [of 0 "NOT (of_nat n)"] octet [of 8 "NOT (of_nat n)"]
    by (simp add: block_header_def byte2lsb_def stored_header_def complement_bytes)
qed

lemma block_headers_one:
  assumes "0 < n" "n \<le> 65535"
  shows "block_headers idat n 0 = [(idat + 10, block_header n 0)]"
  using assms by (subst block_headers.simps, subst block_headers.simps) simp

lemma write_all_blank:
  assumes "length A = 18" "length B = 8" "length C = 8" "length D = 8" "length E = 8" "length F = 2" "length G = 5"
    "data_size p = n + 11"
  shows "write_all (replicate (buffer_size p) 0)
      [(ihdr_offs p, A), (plte_offs p, B), (trns_offs p, C), (idat_offs p, D), (iend_offs p, E), (idat_offs p + 8, F),
       (idat_offs p + 10, G)]
    = Some (A @ blank 7 @ B @ blank (3 * p_depth p) @ blank 4 @ C @ blank (p_depth p) @ blank 4 @ D @ F @ G @ blank n
        @ blank 8 @ E @ blank 4)"
proof -
  let ?z = "\<lambda>B. B @ blank (3 * p_depth p) @ blank 4" and ?t = "\<lambda>C. C @ blank (p_depth p) @ blank 4"
  let ?i = "\<lambda>D F G E. D @ F @ G @ blank n @ blank 8 @ E @ blank 4"
  have 0: "replicate (buffer_size p) 0
      = [] @ blank 18 @ (blank 7 @ ?z (blank 8) @ ?t (blank 8) @ ?i (blank 8) (blank 2) (blank 5) (blank 8))"
    using assms(8) by (simp add: offs_defs flip: blank_def blank_add)
  have 1: "buf_write ([] @ blank 18 @ s) (ihdr_offs p) A = Some ([] @ A @ s)" for s
    using assms by (intro buf_write_at) (simp_all add: offs_defs)
  have 2: "buf_write ((A @ blank 7) @ blank 8 @ s) (plte_offs p) B = Some ((A @ blank 7) @ B @ s)" for s
    using assms by (intro buf_write_at) (simp_all add: offs_defs)
  have 3: "buf_write ((A @ blank 7 @ ?z B) @ blank 8 @ s) (trns_offs p) C = Some ((A @ blank 7 @ ?z B) @ C @ s)" for s
    using assms by (intro buf_write_at) (simp_all add: offs_defs)
  have 4: "buf_write ((A @ blank 7 @ ?z B @ ?t C) @ blank 8 @ s) (idat_offs p) D = Some ((A @ blank 7 @ ?z B @ ?t C) @ D @ s)" for s
    using assms by (intro buf_write_at) (simp_all add: offs_defs)
  have 5: "buf_write ((A @ blank 7 @ ?z B @ ?t C @ D @ blank 2 @ blank 5 @ blank n @ blank 8) @ blank 8 @ s) (iend_offs p) E
      = Some ((A @ blank 7 @ ?z B @ ?t C @ D @ blank 2 @ blank 5 @ blank n @ blank 8) @ E @ s)" for s
    using assms by (intro buf_write_at) (simp_all add: offs_defs)
  have 6: "buf_write ((A @ blank 7 @ ?z B @ ?t C @ D) @ blank 2 @ s) (idat_offs p + 8) F
      = Some ((A @ blank 7 @ ?z B @ ?t C @ D) @ F @ s)" for s
    using assms by (intro buf_write_at) (simp_all add: offs_defs)
  have 7: "buf_write ((A @ blank 7 @ ?z B @ ?t C @ D @ F) @ blank 5 @ s) (idat_offs p + 10) G
      = Some ((A @ blank 7 @ ?z B @ ?t C @ D @ F) @ G @ s)" for s
    using assms by (intro buf_write_at) (simp_all add: offs_defs)
  show ?thesis
    using 1 2 3 4 5 6 7 unfolding 0 by simp
qed

lemma new_buffer:
  assumes p: "p_width p < 2 ^ 31" "p_height p < 2 ^ 31" "p_depth p \<le> 256"
    and n: "pix_size p = n" "0 < n" "n \<le> 65535"
  shows "write_all (replicate (buffer_size p) 0) (new_writes p)
    = Some (layout (p_width p) (p_height p) (blank (3 * p_depth p)) (blank (p_depth p)) (blank n) (blank 4) (\<lambda>k. blank 4))"
proof -
  let ?A = "be32 13 @ js ''IHDR'' @ be32 (p_width p) @ be32 (p_height p) @ [8, 3]"
  let ?B = "be32 (3 * p_depth p) @ js ''PLTE''" and ?C = "be32 (p_depth p) @ js ''tRNS''"
  let ?D = "be32 (n + 11) @ js ''IDAT''" and ?E = "be32 0 @ js ''IEND''"
  have ds: "data_size p = n + 11" using n pix_blocks [of n] by (simp add: data_size_def)
  have b4: "byte4 (of_nat k) = be32 k" if "k < 2 ^ 32" for k
    using that by (simp add: byte4_be32 unat_of_nat take_bit_eq_mod)
  have sz: "ihdr_size p - 12 = 13" "plte_size p - 12 = 3 * p_depth p" "trns_size p - 12 = p_depth p"
    "idat_size p - 12 = n + 11" "iend_size p - 12 = 0"
    by (simp_all add: offs_defs(2,4,6,8,10) ds)
  have lt: "p_width p < 2 ^ 32" "p_height p < 2 ^ 32" "p_depth p < 2 ^ 32" "3 * p_depth p < 2 ^ 32" "n + 11 < 2 ^ 32"
    "13 < (2 :: nat) ^ 32" "0 < (2 :: nat) ^ 32"
    using p n by simp_all
  have nw: "new_writes p = [(ihdr_offs p, ?A), (plte_offs p, ?B), (trns_offs p, ?C), (idat_offs p, ?D), (iend_offs p, ?E),
      (idat_offs p + 8, [0x78, 0xda]), (idat_offs p + 10, block_header n 0)]"
    unfolding new_writes_def sz n(1) block_headers_one [OF n(2,3)] deflate_header_value b4 [OF lt(1)] b4 [OF lt(2)]
      b4 [OF lt(3)] b4 [OF lt(4)] b4 [OF lt(5)] b4 [OF lt(6)] b4 [OF lt(7)] by simp
  have z: "blank 7 = [0, 0, 0] @ blank 4" "blank 8 = blank 4 @ blank 4" by (simp_all add: blank_def numeral_eq_Suc)
  have "write_all (replicate (buffer_size p) 0) (new_writes p)
      = Some (?A @ blank 7 @ ?B @ blank (3 * p_depth p) @ blank 4 @ ?C @ blank (p_depth p) @ blank 4 @ ?D @ [0x78, 0xda]
          @ block_header n 0 @ blank n @ blank 8 @ ?E @ blank 4)"
    unfolding nw by (rule write_all_blank) (simp_all add: ds block_header_def byte2lsb_def)
  then show ?thesis using block_header_value [OF n(3)] by (simp add: layout_def z)
qed

lemma PNGlib_eq:
  assumes "w < 2 ^ 31" "h < 2 ^ 31" "d \<le> 256" "0 < h * (w + 1)" "h * (w + 1) \<le> 65535"
  obtains p where "PNGlib w h d = Some p" "p_width p = w" "p_height p = h" "p_depth p = d" "p_palette p = Map.empty"
    "p_pindex p = 0" "png_ok p (blank (3 * d)) (blank d) (blank (h * (w + 1)))"
proof -
  define n where "n = h * (w + 1)"
  let ?p = "\<lparr>p_width = w, p_height = h, p_depth = d, p_buffer = [], p_palette = Map.empty, p_pindex = 0\<rparr>"
  let ?b = "layout w h (blank (3 * d)) (blank d) (blank n) (blank 4) (\<lambda>k. blank 4)"
  have n: "pix_size ?p = n" "0 < n" "n \<le> 65535" using assms by (simp_all add: pix_size_def n_def)
  have "PNGlib w h d = Some (?p\<lparr>p_buffer := ?b\<rparr>)"
    using new_buffer [of ?p n] n assms(1-3) by (simp add: PNGlib_def)
  moreover have "pix_size (?p\<lparr>p_buffer := ?b\<rparr>) = n" using n(1) by (simp add: pix_size_def)
  then have "png_ok (?p\<lparr>p_buffer := ?b\<rparr>) (blank (3 * d)) (blank d) (blank n)"
    using assms(1-3) n(2,3) unfolding png_ok_def
    by (auto simp: list_all_iff dest: blank_lt intro!: exI [of _ "blank 4"] exI [of _ "\<lambda>k. blank 4"])
  ultimately show ?thesis using that by (simp add: n_def)
qed

section \<open>Colours and pixels\<close>

definition octets :: "int \<Rightarrow> int \<Rightarrow> int \<Rightarrow> int \<Rightarrow> bool" where
  "octets r g b a \<longleftrightarrow> list_all (\<lambda>x. 0 \<le> x \<and> x < 256) [r, g, b, a]"

lemma color_key_nat:
  assumes "octets r g b a"
  shows "unat (color_key r g b a) = lval 256 (map nat [b, g, r, a])"
proof -
  obtain r' g' b' a' where n: "r = int r'" "g = int g'" "b = int b'" "a = int a'"
  proof -
    have "0 \<le> r" "0 \<le> g" "0 \<le> b" "0 \<le> a" using assms by (simp_all add: octets_def)
    then show ?thesis using that by (metis nonneg_int_cases)
  qed
  have lt: "r' < 2 ^ 8" "g' < 2 ^ 8" "b' < 2 ^ 8" "a' < 2 ^ 8" using assms by (simp_all add: octets_def n)
  have step: "push_bit 8 (of_nat x) OR of_nat y = (of_nat (x * 256 + y) :: u32)" if "y < 2 ^ 8" for x y :: nat
  proof -
    have "push_bit 8 x OR y = x * 256 + y" using or_disjoint [OF that, of x] by (simp add: or.commute push_bit_eq_mult)
    moreover have "push_bit 8 (of_nat x) OR of_nat y = (of_nat (push_bit 8 x OR y) :: u32)"
      by (simp add: of_nat_or_eq of_nat_push_bit)
    ultimately show ?thesis by simp
  qed
  have "color_key r g b a = of_nat (((a' * 256 + r') * 256 + g') * 256 + b')"
    by (simp only: color_key_def n of_int_of_nat_eq step lt)
  also have "((a' * 256 + r') * 256 + g') * 256 + b' = lval 256 [b', g', r', a']" by simp
  finally have "color_key r g b a = of_nat (lval 256 [b', g', r', a'])" .
  moreover have "lval 256 [b', g', r', a'] < 2 ^ 32" using lval_bound [of 256 "[b', g', r', a']"] lt by simp
  ultimately have "unat (color_key r g b a) = lval 256 [b', g', r', a']"
    by (simp only: unat_of_nat_u32)
  then show ?thesis by (simp only: n list.map nat_int)
qed

lemma color_key_inj:
  assumes "octets r g b a" "octets r' g' b' a'" "color_key r g b a = color_key r' g' b' a'"
  shows "r = r' \<and> g = g' \<and> b = b' \<and> a = a'"
proof -
  have "map nat [b, g, r, a] = map nat [b', g', r', a']"
    by (rule lval_inj [where B = 256]) (use assms color_key_nat [OF assms(1)] color_key_nat [OF assms(2)] in \<open>auto simp: octets_def nat_less_iff simp del: lval.simps\<close>)
  then show ?thesis using assms(1,2) by (simp add: octets_def eq_nat_nat_iff)
qed

text \<open>The palette: every known colour has an index below \<open>p_pindex\<close>, at which its components stand.\<close>

definition entry :: "nat list \<Rightarrow> nat list \<Rightarrow> nat \<Rightarrow> int \<times> int \<times> int \<times> int" where
  "entry plte trns c = (int (plte ! (3 * c)), int (plte ! (3 * c + 1)), int (plte ! (3 * c + 2)), int (trns ! c))"

definition pal_ok :: "png \<Rightarrow> nat list \<Rightarrow> nat list \<Rightarrow> bool" where
  "pal_ok p plte trns \<longleftrightarrow>
     p_pindex p \<le> p_depth p
     \<and> (\<forall>k c. p_palette p k = Some c \<longrightarrow>
          c < p_pindex p \<and> (\<exists>r g b a. octets r g b a \<and> k = color_key r g b a \<and> entry plte trns c = (r, g, b, a)))"

lemma pal_ok_hit:
  assumes "pal_ok p plte trns" "p_palette p (color_key r g b a) = Some c" "octets r g b a"
  shows "c < p_pindex p" "entry plte trns c = (r, g, b, a)"
  using assms color_key_inj [OF assms(3)] unfolding pal_ok_def by blast+

definition splice_at :: "nat \<Rightarrow> 'a list \<Rightarrow> 'a list \<Rightarrow> 'a list" where
  "splice_at k s xs = take k xs @ s @ drop (k + length s) xs"

lemma length_splice_at [simp]: "k + length s \<le> length xs \<Longrightarrow> length (splice_at k s xs) = length xs"
  by (simp add: splice_at_def)

lemma nth_splice_at:
  "k + length s \<le> length xs \<Longrightarrow> i < length xs \<Longrightarrow>
    splice_at k s xs ! i = (if k \<le> i \<and> i < k + length s then s ! (i - k) else xs ! i)"
  by (auto simp: splice_at_def nth_append min_def)

lemma set_splice_at: "set (splice_at k s xs) \<subseteq> set xs \<union> set s"
  by (auto simp: splice_at_def dest: in_set_takeD in_set_dropD)

lemma buf_write_part:
  assumes "length pre = offs" "k + length s \<le> length part"
  shows "buf_write (pre @ part @ post) (offs + k) s = Some (pre @ splice_at k s part @ post)"
proof -
  have "part = take k part @ take (length s) (drop k part) @ drop (k + length s) part"
    by (metis add.commute append_take_drop_id drop_drop)
  then have eq: "pre @ part @ post = (pre @ take k part) @ take (length s) (drop k part) @ drop (k + length s) part @ post"
    by (metis append_assoc)
  show ?thesis by (subst eq, subst buf_write_at) (use assms in \<open>simp_all add: splice_at_def\<close>)
qed

lemma write_plte:
  assumes ok: "png_ok p plte trns raster" and k: "k + length s \<le> length plte" and s: "list_all (\<lambda>c. c < 256) s"
  shows "\<exists>b. buf_write (p_buffer p) (plte_offs p + 8 + k) s = Some b \<and> png_ok (p\<lparr>p_buffer := b\<rparr>) (splice_at k s plte) trns raster"
proof -
  obtain ad crc where l: "length ad = 4" "\<forall>k. length (crc k) = 4"
    "p_buffer p = layout (p_width p) (p_height p) plte trns raster ad crc" "length plte = 3 * p_depth p"
    "length trns = p_depth p" "length raster = pix_size p" "data_size p = pix_size p + 11"
    using png_okE [OF ok] by blast
  obtain pre post where a: "length pre = plte_offs p + 8"
    "\<And>x. length x = length plte \<Longrightarrow> layout (p_width p) (p_height p) x trns raster ad crc = pre @ x @ post"
    using layout_parts(1) [OF l(4-7,1,2)] by metis
  have "buf_write (p_buffer p) (plte_offs p + 8 + k) s
      = Some (layout (p_width p) (p_height p) (splice_at k s plte) trns raster ad crc)"
    using buf_write_part [OF a(1) k] a(2) l(3) k by simp
  moreover have "list_all (\<lambda>c. c < 256) (splice_at k s plte @ trns @ raster)"
    using ok s set_splice_at [of k s plte] by (auto simp: png_ok_def list_all_iff)
  ultimately show ?thesis using png_ok_update [OF ok _ _ _ _ l(1,2)] k by simp
qed

lemma write_trns:
  assumes ok: "png_ok p plte trns raster" and k: "k + length s \<le> length trns" and s: "list_all (\<lambda>c. c < 256) s"
  shows "\<exists>b. buf_write (p_buffer p) (trns_offs p + 8 + k) s = Some b \<and> png_ok (p\<lparr>p_buffer := b\<rparr>) plte (splice_at k s trns) raster"
proof -
  obtain ad crc where l: "length ad = 4" "\<forall>k. length (crc k) = 4"
    "p_buffer p = layout (p_width p) (p_height p) plte trns raster ad crc" "length plte = 3 * p_depth p"
    "length trns = p_depth p" "length raster = pix_size p" "data_size p = pix_size p + 11"
    using png_okE [OF ok] by blast
  obtain pre post where a: "length pre = trns_offs p + 8"
    "\<And>x. length x = length trns \<Longrightarrow> layout (p_width p) (p_height p) plte x raster ad crc = pre @ x @ post"
    using layout_parts(2) [OF l(4-7,1,2)] by metis
  have "buf_write (p_buffer p) (trns_offs p + 8 + k) s
      = Some (layout (p_width p) (p_height p) plte (splice_at k s trns) raster ad crc)"
    using buf_write_part [OF a(1) k] a(2) l(3) k by simp
  moreover have "list_all (\<lambda>c. c < 256) (plte @ splice_at k s trns @ raster)"
    using ok s set_splice_at [of k s trns] by (auto simp: png_ok_def list_all_iff)
  ultimately show ?thesis using png_ok_update [OF ok _ _ _ _ l(1,2)] k by simp
qed

lemma png_ok_palette: "png_ok (p\<lparr>p_palette := m, p_pindex := i\<rparr>) plte trns raster = png_ok p plte trns raster"
  by (simp add: png_ok_def pix_size_def)

lemma color_new:
  assumes ok: "png_ok p plte trns raster" "pal_ok p plte trns" and o: "octets r g b a"
    and new: "p_palette p (color_key r g b a) = None" "p_pindex p < p_depth p"
  shows "\<exists>p' plte' trns'. color p r g b (Some a) = Some (p_pindex p, p') \<and> png_ok p' plte' trns' raster \<and> pal_ok p' plte' trns'
    \<and> p_pindex p' = p_pindex p + 1 \<and> entry plte' trns' (p_pindex p) = (r, g, b, a)
    \<and> (\<forall>c < p_pindex p. entry plte' trns' c = entry plte trns c)
    \<and> p_width p' = p_width p \<and> p_height p' = p_height p \<and> p_depth p' = p_depth p"
proof -
  let ?k = "p_pindex p" and ?key = "color_key r g b a"
  have len: "length plte = 3 * p_depth p" "length trns = p_depth p" "?k < 256" using ok new(2) by (simp_all add: png_ok_def)
  have c16: "char16 r = nat r" "char16 g = nat g" "char16 b = nat b" "char16 a = nat a" "char16 (int ?k) = ?k" "0 \<le> a"
    using o len(3) by (simp_all add: char16_def octets_def)
  have lt: "nat r < 256" "nat g < 256" "nat b < 256" "nat a < 256" using o by (simp_all add: octets_def nat_less_iff)
  let ?plte = "splice_at (3 * ?k) [nat r, nat g, nat b] plte" and ?trns = "splice_at ?k [nat a] trns"
  have kl: "3 * ?k + length [nat r, nat g, nat b] \<le> length plte" "?k + length [nat a] \<le> length trns"
    using new(2) len by simp_all
  obtain b1 where b1: "buf_write (p_buffer p) (plte_offs p + 8 + 3 * ?k) [nat r, nat g, nat b] = Some b1"
    "png_ok (p\<lparr>p_buffer := b1\<rparr>) ?plte trns raster"
    using write_plte [OF ok(1) kl(1)] lt by auto
  obtain b2 where b2: "buf_write b1 (trns_offs p + 8 + ?k) [nat a] = Some b2" "png_ok (p\<lparr>p_buffer := b2\<rparr>) ?plte ?trns raster"
    using write_trns [OF b1(2) kl(2)] lt by (auto simp: offs_defs)
  let ?p' = "p\<lparr>p_buffer := b2, p_palette := (p_palette p)(?key \<mapsto> ?k), p_pindex := ?k + 1\<rparr>"
  have col: "color p r g b (Some a) = Some (?k, ?p')"
    using new b1(1) b2(1) c16 by (simp add: color_def Let_def)
  have old: "entry ?plte ?trns c = entry plte trns c" if "c < ?k" for c
    using that kl by (simp add: entry_def nth_splice_at)
  have e: "entry ?plte ?trns ?k = (r, g, b, a)"
    using kl o by (simp add: entry_def nth_splice_at octets_def)
  have "pal_ok ?p' ?plte ?trns"
    unfolding pal_ok_def
  proof (intro conjI allI impI)
    fix k c assume kc: "p_palette ?p' k = Some c"
    show "c < p_pindex ?p'" using kc ok(2) by (auto simp: pal_ok_def split: if_splits dest: less_SucI)
    show "\<exists>r g b a. octets r g b a \<and> k = color_key r g b a \<and> entry ?plte ?trns c = (r, g, b, a)"
    proof (cases "k = ?key")
      case True
      then show ?thesis using kc e o by auto
    next
      case False
      then have "p_palette p k = Some c" using kc by simp
      then show ?thesis using ok(2) old unfolding pal_ok_def by metis
    qed
  qed (use new(2) in simp)
  then show ?thesis
    using col b2(2) e old by (intro exI [of _ ?p'] exI [of _ ?plte] exI [of _ ?trns]) (simp add: png_ok_palette)
qed

text \<open>What \<^verbatim>\<open>color\<close> promises: the index of an entry with the colour, unless the colour is new and the palette full.\<close>

lemma color_spec:
  assumes ok: "png_ok p plte trns raster" "pal_ok p plte trns" and o: "octets r g b a"
  shows "\<exists>c p' plte' trns'. color p r g b (Some a) = Some (c, p') \<and> png_ok p' plte' trns' raster \<and> pal_ok p' plte' trns'
    \<and> (\<forall>k < p_pindex p. entry plte' trns' k = entry plte trns k) \<and> p_pindex p' \<le> p_pindex p + 1
    \<and> p_width p' = p_width p \<and> p_height p' = p_height p \<and> p_depth p' = p_depth p
    \<and> (if p_pindex p = p_depth p \<and> p_palette p (color_key r g b a) = None then c = 0 \<and> p' = p
        else c < p_pindex p' \<and> entry plte' trns' c = (r, g, b, a))"
proof (cases "p_palette p (color_key r g b a)")
  case (Some c)
  have "color p r g b (Some a) = Some (c, p)" using Some o by (simp add: color_def Let_def octets_def)
  with ok pal_ok_hit [OF ok(2) Some o] Some show ?thesis
    by (intro exI [of _ c] exI [of _ p] exI [of _ plte] exI [of _ trns]) simp
next
  case None
  show ?thesis
  proof (cases "p_pindex p = p_depth p")
    case True
    with None o ok show ?thesis
      by (intro exI [of _ 0] exI [of _ p] exI [of _ plte] exI [of _ trns]) (simp add: color_def Let_def octets_def)
  next
    case False
    with ok(2) have "p_pindex p < p_depth p" by (simp add: pal_ok_def)
    from color_new [OF ok o None this] False show ?thesis by (metis less_add_one order_refl)
  qed
qed

lemma color_default: "color p r g b None = color p r g b (Some 255)"
  by (simp add: color_def)

text \<open>Setting a pixel changes one byte of the raster.\<close>

definition raster_pos :: "png \<Rightarrow> int \<Rightarrow> int \<Rightarrow> nat" where
  "raster_pos p x y = nat (y * (int (p_width p) + 1) + x + 1)"

lemma raster_pos_lt:
  assumes "- 1 \<le> x" "x < int (p_width p)" "0 \<le> y" "y < int (p_height p)"
  shows "raster_pos p x y < pix_size p" "int (raster_pos p x y) = y * (int (p_width p) + 1) + x + 1"
proof -
  have "(y + 1) * (int (p_width p) + 1) \<le> int (p_height p) * (int (p_width p) + 1)" using assms by (intro mult_right_mono) simp_all
  moreover have "(y + 1) * (int (p_width p) + 1) = y * (int (p_width p) + 1) + int (p_width p) + 1" by (simp add: distrib_right)
  moreover have "int (pix_size p) = int (p_height p) * (int (p_width p) + 1)" by (simp add: pix_size_def distrib_left)
  moreover have "0 \<le> y * (int (p_width p) + 1)" using assms(3) by simp
  ultimately have "0 \<le> y * (int (p_width p) + 1) + x + 1" "y * (int (p_width p) + 1) + x + 1 < int (pix_size p)"
    using assms(1,2) by linarith+
  then show "raster_pos p x y < pix_size p" "int (raster_pos p x y) = y * (int (p_width p) + 1) + x + 1"
    by (simp_all add: raster_pos_def nat_less_iff)
qed

lemma set_pixel_eq:
  assumes ok: "png_ok p plte trns raster" and xy: "- 1 \<le> x" "x < int (p_width p)" "0 \<le> y" "y < int (p_height p)" and c: "c < 256"
  shows "\<exists>b. set_pixel p x y c = Some (p\<lparr>p_buffer := b\<rparr>)
    \<and> png_ok (p\<lparr>p_buffer := b\<rparr>) plte trns (raster[raster_pos p x y := c])"
proof -
  note pos = raster_pos_lt [OF xy]
  obtain ad crc where l: "length ad = 4" "\<forall>k. length (crc k) = 4"
    "p_buffer p = layout (p_width p) (p_height p) plte trns raster ad crc" "length plte = 3 * p_depth p"
    "length trns = p_depth p" "length raster = pix_size p" "data_size p = pix_size p + 11"
    using png_okE [OF ok] by blast
  obtain pre post where a: "length pre = idat_offs p + 15"
    "\<And>x. length x = length raster \<Longrightarrow> layout (p_width p) (p_height p) plte trns x ad crc = pre @ x @ post"
    using layout_parts(3) [OF l(4-7,1,2)] by metis
  have "index p x y = int (idat_offs p + 15 + raster_pos p x y)"
    using index_small [of y p x] pos ok by (simp add: png_ok_def)
  then have "set_pixel p x y c = Some (p\<lparr>p_buffer := layout (p_width p) (p_height p) plte trns (raster[raster_pos p x y := c]) ad crc\<rparr>)"
    using pos(1) a l(3,6) by (simp add: set_pixel_def list_update_append del: of_nat_add)
  moreover have "list_all (\<lambda>c. c < 256) (plte @ trns @ raster[raster_pos p x y := c])"
    using ok c set_update_subset_insert [of raster "raster_pos p x y" c] by (auto simp: png_ok_def list_all_iff)
  ultimately show ?thesis
    using png_ok_update [OF ok _ _ _ _ l(1,2)]
    by (intro exI [of _ "layout (p_width p) (p_height p) plte trns (raster[raster_pos p x y := c]) ad crc"]) simp
qed

section \<open>Base 64\<close>

text \<open>RFC 4648: groups of three octets as four digits of six bits, the last group padded.\<close>

definition digit64 :: "nat \<Rightarrow> nat" where
  "digit64 k =
     (if k < 26 then of_char (CHR ''A'') + k else if k < 52 then of_char (CHR ''a'') + (k - 26)
      else if k < 62 then of_char (CHR ''0'') + (k - 52) else if k = 62 then of_char (CHR ''+'') else of_char (CHR ''/''))"

definition digits64 :: "nat \<Rightarrow> nat list" where
  "digits64 n = map (\<lambda>k. digit64 (n div 64 ^ k mod 64)) [3, 2, 1, 0]"

fun rfc4648 :: "nat list \<Rightarrow> jsstr" where
  "rfc4648 [] = []"
| "rfc4648 [a] = take 2 (digits64 (a * 65536)) @ js ''==''"
| "rfc4648 [a, b] = take 3 (digits64 (a * 65536 + b * 256)) @ js ''=''"
| "rfc4648 (a # b # c # r) = digits64 (a * 65536 + b * 256 + c) @ rfc4648 r"

lemma digit64_char: "k < 64 \<Longrightarrow> base64_chars ! k = digit64 k"
proof -
  have "list_all (\<lambda>k. base64_chars ! k = digit64 k) [0..<64]" by code_simp
  then show "k < 64 \<Longrightarrow> base64_chars ! k = digit64 k" by (simp add: list_all_iff)
qed

lemma digits64_eq:
  assumes "a < 256" "b < 256" "c < 256"
  shows "digits64 (a * 65536 + b * 256 + c)
    = map (\<lambda>k. base64_chars ! k) [a div 4, (a mod 4) * 16 + b div 16, (b mod 16) * 4 + c div 64, c mod 64]"
proof -
  define x1 x2 x3 x4 where "x1 = a div 4" and "x2 = (a mod 4) * 16 + b div 16" and "x3 = (b mod 16) * 4 + c div 64"
    and "x4 = c mod 64"
  have lt: "x1 < 64" "x2 < 64" "x3 < 64" "x4 < 64"
  proof -
    have "a mod 4 \<le> 3" "b div 16 \<le> 15" "b mod 16 \<le> 15" "c div 64 \<le> 3" using assms by simp_all
    then show "x2 < 64" "x3 < 64" unfolding x2_def x3_def by linarith+
  qed (use assms in \<open>simp_all add: x1_def x4_def\<close>)
  have "(4 * u + v) * 65536 + (16 * w + x) * 256 + (64 * y + z)
      = ((u * 64 + (v * 16 + w)) * 64 + (x * 4 + y)) * 64 + z" for u v w x y z :: nat
    by simp
  from this [of "a div 4" "a mod 4" "b div 16" "b mod 16" "c div 64" "c mod 64"]
  have n: "a * 65536 + b * 256 + c = ((x1 * 64 + x2) * 64 + x3) * 64 + x4"
    unfolding mult_div_mod_eq x1_def x2_def x3_def x4_def .
  have q: "(u * 64 + v) div 64 = u" "(u * 64 + v) mod 64 = v" if "v < 64" for u v :: nat using that by simp_all
  have "64 ^ 3 = 64 * 64 * (64 :: nat)" "64 ^ 2 = 64 * (64 :: nat)" by simp_all
  then have "digits64 (a * 65536 + b * 256 + c) = map digit64 [x1, x2, x3, x4]"
    unfolding n digits64_def by (simp only: list.map power_0 power_one_right div_by_1 div_mult2_eq q lt) (simp add: lt)
  also have "\<dots> = map (\<lambda>k. base64_chars ! k) [x1, x2, x3, x4]" using lt by (simp add: digit64_char)
  finally show ?thesis by (simp only: x1_def x2_def x3_def x4_def)
qed

lemma base64_len: "length base64_chars = 65" "base64_chars ! 64 = 61"
  by (simp_all add: base64_chars_def)

lemma group_digits:
  assumes "a < 256" "b < 256" "c < (256 :: nat)"
  shows "drop_bit 2 a = a div 4" "push_bit 4 (a AND 3) OR drop_bit 4 b = (a mod 4) * 16 + b div 16"
    "push_bit 2 (b AND 0xf) OR drop_bit 6 c = (b mod 16) * 4 + c div 64" "c AND 0x3f = c mod 64"
proof -
  have m: "a AND 3 = a mod 4" "b AND 0xf = b mod 16"
    using take_bit_eq_mask [of 2 a] take_bit_eq_mask [of 4 b] by (simp_all add: take_bit_eq_mod mask_eq_exp_minus_1)
  have "b div 16 < 2 ^ 4" "c div 64 < 2 ^ 2" using assms by simp_all
  from or_disjoint [OF this(1), of "a mod 4"] or_disjoint [OF this(2), of "b mod 16"]
  show "push_bit 4 (a AND 3) OR drop_bit 4 b = (a mod 4) * 16 + b div 16"
    "push_bit 2 (b AND 0xf) OR drop_bit 6 c = (b mod 16) * 4 + c div 64"
    by (simp_all add: m drop_bit_eq_div push_bit_eq_mult or.commute)
qed (simp_all add: drop_bit_eq_div and_low)

lemma charAt_digit: "k < 65 \<Longrightarrow> charAt base64_chars k = [base64_chars ! k]"
  by (simp add: charAt_def base64_len)

lemma digit_bounds:
  assumes "a < 256" "b < 256" "c < (256 :: nat)"
  shows "a div 4 < 65" "(a mod 4) * 16 + b div 16 < 65" "(b mod 16) * 4 + c div 64 < 65" "c mod 64 < 65"
proof -
  have "a mod 4 \<le> 3" "b div 16 \<le> 15" "b mod 16 \<le> 15" "c div 64 \<le> 3" "c mod 64 \<le> 63" "a div 4 \<le> 63"
    using assms by (simp_all add: less_mult_imp_div_less flip: less_Suc_eq_le)
  then show "a div 4 < 65" "(a mod 4) * 16 + b div 16 < 65" "(b mod 16) * 4 + c div 64 < 65" "c mod 64 < 65" by linarith+
qed

lemma base64_group_eq:
  assumes "i < length s" "list_all (\<lambda>c. c < 256) s"
  shows "base64_group s i = rfc4648 (take 3 (drop i s))"
proof -
  have lt: "s ! k < 256" if "k < length s" for k using assms(2) that by (simp add: list_all_length)
  consider (one) "length s = i + 1" | (two) "length s = i + 2" | (three) "i + 3 \<le> length s" using assms(1) by linarith
  then show ?thesis
  proof cases
    case one
    then have "take 3 (drop i s) = [s ! i]" by (simp add: Cons_nth_drop_Suc [symmetric])
    then show ?thesis
      using one lt [of i] digits64_eq [of "s ! i" 0 0] digit_bounds [of "s ! i" 0 0] group_digits [of "s ! i" 0 0]
      by (simp add: base64_group_def Let_def charCodeAt0_def charAt_digit base64_len)
  next
    case two
    then have "take 3 (drop i s) = [s ! i, s ! (i + 1)]" by (simp add: Cons_nth_drop_Suc [symmetric])
    then show ?thesis
      using two lt [of i] lt [of "i + 1"] digits64_eq [of "s ! i" "s ! (i + 1)" 0] digit_bounds [of "s ! i" "s ! (i + 1)" 0]
        group_digits [of "s ! i" "s ! (i + 1)" 0]
      by (simp add: base64_group_def Let_def charCodeAt0_def charAt_digit base64_len)
  next
    case three
    then have "take 3 (drop i s) = [s ! i, s ! (i + 1), s ! (i + 2)]" by (simp add: Cons_nth_drop_Suc [symmetric] numeral_3_eq_3)
    then show ?thesis
      using three lt [of i] lt [of "i + 1"] lt [of "i + 2"] digits64_eq [of "s ! i" "s ! (i + 1)" "s ! (i + 2)"]
        digit_bounds [of "s ! i" "s ! (i + 1)" "s ! (i + 2)"] group_digits [of "s ! i" "s ! (i + 1)" "s ! (i + 2)"]
      by (simp add: base64_group_def Let_def charCodeAt0_def charAt_digit)
  qed
qed

lemma rfc4648_take: "rfc4648 (take 3 r) @ rfc4648 (drop 3 r) = rfc4648 r"
  by (cases r rule: rfc4648.cases) simp_all

lemma base64_loop_eq: "i < length s \<Longrightarrow> list_all (\<lambda>c. c < 256) s \<Longrightarrow> base64_loop s i = rfc4648 (drop i s)"
proof (induction s i rule: base64_loop.induct)
  case (1 s i)
  show ?case
  proof (cases "i + 3 < length s")
    case True
    then have "base64_loop s (i + 3) = rfc4648 (drop 3 (drop i s))" using 1 by (simp add: add.commute)
    then show ?thesis
      using True 1 base64_group_eq rfc4648_take [of "drop i s"] by (subst base64_loop.simps) simp
  next
    case False
    then have "drop 3 (drop i s) = []" by simp
    then show ?thesis
      using False 1 base64_group_eq rfc4648_take [of "drop i s"] by (subst base64_loop.simps) simp
  qed
qed

section \<open>Images of one client\<close>

text \<open>
  What a client can do with an image of \<open>w\<close> by \<open>h\<close> pixels and \<open>d\<close> colours: create it, ask for colours, set pixels
  inside it to palette indices, and dump it, in any order.
\<close>

inductive drawn :: "nat \<Rightarrow> nat \<Rightarrow> nat \<Rightarrow> png \<Rightarrow> bool" for w h d where
  drawn_new: "PNGlib w h d = Some p \<Longrightarrow> drawn w h d p"
| drawn_color: "drawn w h d p \<Longrightarrow> octets r g b a \<Longrightarrow> color p r g b (Some a) = Some (c, p') \<Longrightarrow> drawn w h d p'"
| drawn_pixel: "drawn w h d p \<Longrightarrow> 0 \<le> x \<Longrightarrow> x < int w \<Longrightarrow> 0 \<le> y \<Longrightarrow> y < int h \<Longrightarrow> c < 256 \<Longrightarrow>
    set_pixel p x y c = Some p' \<Longrightarrow> drawn w h d p'"
| drawn_dump: "drawn w h d p \<Longrightarrow> getDump p = Some (s, p') \<Longrightarrow> drawn w h d p'"

definition zero_filters :: "nat \<Rightarrow> nat \<Rightarrow> nat list \<Rightarrow> bool" where
  "zero_filters w h raster \<longleftrightarrow> (\<forall>y < h. raster ! (y * (w + 1)) = 0)"

lemma pal_ok_new: "p_palette p = Map.empty \<Longrightarrow> p_pindex p = 0 \<Longrightarrow> pal_ok p plte trns"
  by (simp add: pal_ok_def)

lemma pal_ok_buffer: "pal_ok (p\<lparr>p_buffer := b\<rparr>) plte trns = pal_ok p plte trns"
  by (simp add: pal_ok_def)

lemma zero_filters_pixel:
  assumes "zero_filters w h raster" "p_width p = w" "0 \<le> x" "x < int w" "0 \<le> y"
  shows "zero_filters w h (raster[raster_pos p x y := c])"
proof -
  have "raster_pos p x y \<noteq> k * (w + 1)" for k
  proof
    assume k: "raster_pos p x y = k * (w + 1)"
    have "int (raster_pos p x y) mod (int w + 1) = (x + 1) mod (int w + 1)"
      using assms by (simp add: raster_pos_def add.assoc)
    moreover have "(x + 1) mod (int w + 1) = x + 1" using assms by simp
    moreover have "int (k * (w + 1)) = int k * (int w + 1)" by (simp add: distrib_left)
    then have "int (k * (w + 1)) mod (int w + 1) = 0" by simp
    ultimately show False using k assms(3) by simp
  qed
  then show ?thesis using assms(1) by (simp add: zero_filters_def nth_list_update_neq)
qed

lemma drawn_inv:
  assumes "drawn w h d p" and dim: "w < 2 ^ 31" "h < 2 ^ 31" "d \<le> 256" "0 < h * (w + 1)" "h * (w + 1) \<le> 65535"
  shows "\<exists>plte trns raster. png_ok p plte trns raster \<and> pal_ok p plte trns \<and> zero_filters w h raster
    \<and> p_width p = w \<and> p_height p = h \<and> p_depth p = d"
  using assms(1)
proof induction
  case (drawn_new p)
  have "y * (w + 1) < h * (w + 1)" if "y < h" for y using that by (intro mult_less_mono1) simp_all
  then have "zero_filters w h (blank (h * (w + 1)))" unfolding zero_filters_def blank_def by (metis nth_replicate)
  with drawn_new PNGlib_eq [OF dim] show ?case using pal_ok_new by (metis option.inject)
next
  case (drawn_color p r g b a c p')
  then obtain plte trns raster where ok: "png_ok p plte trns raster" "pal_ok p plte trns" "zero_filters w h raster"
    "p_width p = w" "p_height p = h" "p_depth p = d" by blast
  then show ?case using color_spec [OF ok(1,2) drawn_color.hyps(2)] drawn_color.hyps(3) by auto
next
  case (drawn_pixel p x y c p')
  then obtain plte trns raster where ok: "png_ok p plte trns raster" "pal_ok p plte trns" "zero_filters w h raster"
    "p_width p = w" "p_height p = h" "p_depth p = d" by blast
  obtain b where b: "p' = p\<lparr>p_buffer := b\<rparr>" "png_ok (p\<lparr>p_buffer := b\<rparr>) plte trns (raster[raster_pos p x y := c])"
    using set_pixel_eq [OF ok(1), of x y c] drawn_pixel.hyps ok by auto
  then show ?case
    using ok zero_filters_pixel [OF ok(3,4) drawn_pixel.hyps(2-4)] by (metis pal_ok_buffer png.select_convs png.update_convs(4) png.surjective)
next
  case (drawn_dump p s p')
  then obtain plte trns raster where ok: "png_ok p plte trns raster" "pal_ok p plte trns" "zero_filters w h raster"
    "p_width p = w" "p_height p = h" "p_depth p = d" by blast
  obtain b where "p' = p\<lparr>p_buffer := b\<rparr>" "png_ok (p\<lparr>p_buffer := b\<rparr>) plte trns raster"
    using getDump_eq [OF ok(1)] drawn_dump.hyps(2) by (metis option.inject prod.inject)
  then show ?case using ok by (intro exI [of _ plte] exI [of _ trns] exI [of _ raster]) (simp add: pal_ok_buffer)
qed

lemma png_file_lt:
  assumes "png_ok p plte trns raster"
  shows "list_all (\<lambda>c. c < 256) (png_file w h plte trns raster)"
proof -
  have "\<forall>c \<in> set (plte @ trns @ raster). c < 256" "length raster < 65536"
    using assms by (auto simp: png_ok_def list_all_iff)
  then show ?thesis
    by (auto simp: list_all_iff png_file_def chunk_def zlib_stored_def signature_def dest: be32_lt)
qed

lemma large_blocks_not_final:
  "65537 \<le> pix \<Longrightarrow> (o', s) \<in> set (block_headers idat pix i) \<Longrightarrow> hd s = 0"
proof (induction idat pix i rule: block_headers.induct)
  case (1 idat pix i)
  show ?case
  proof (cases "i * 65536 < pix + 1")
    case True
    then have "i + 65535 < pix" using "1.prems"(1) by linarith
    then have "hd (block_header pix i) = 0" by (simp add: block_header_def)
    then show ?thesis using 1 True by (auto simp: block_headers.simps [of idat pix i])
  next
    case False
    then show ?thesis using "1.prems"(2) by (simp add: block_headers.simps [of idat pix i])
  qed
qed

section \<open>Properties\<close>

text \<open>
  C2 (functional). For an image of at most 65535 bytes of pixel data, \<^verbatim>\<open>getDump\<close> succeeds and returns a PNG file:
  the signature, the header, the palette with its transparencies, the raster in a zlib stream of one stored block, and
  the end marker, each chunk with its length and a correct check sum; and it leaves an image that can be drawn on again.
\<close>

theorem getDump_is_png:
  assumes "png_ok p plte trns raster"
  shows "\<exists>b. getDump p = Some (png_file (p_width p) (p_height p) plte trns raster, p\<lparr>p_buffer := b\<rparr>)
    \<and> png_ok (p\<lparr>p_buffer := b\<rparr>) plte trns raster"
  using getDump_eq [OF assms] by metis

theorem getDump_is_png_witness:
  "\<exists>p b. PNGlib 4 3 2 = Some p \<and> png_ok p (blank 6) (blank 2) (blank 15)
    \<and> getDump p = Some (png_file 4 3 (blank 6) (blank 2) (blank 15), p\<lparr>p_buffer := b\<rparr>)"
proof -
  obtain p where p: "PNGlib 4 3 2 = Some p" "p_width p = 4" "p_height p = 3" "png_ok p (blank 6) (blank 2) (blank 15)"
    using PNGlib_eq [of 4 3 2] by auto
  show ?thesis using getDump_is_png [OF p(4)] p by auto
qed

text \<open>
  C4 (invariant). Whatever sequence of colours, pixels and dumps a client makes from a new image of at most 65535 bytes,
  the image stays in order: its dump is a PNG file of its width and height, with as many palette entries as asked for
  and a raster in which every row has filter type zero.
\<close>

theorem drawn_dumps_png:
  assumes "drawn w h d p" "w < 2 ^ 31" "h < 2 ^ 31" "d \<le> 256" "0 < h * (w + 1)" "h * (w + 1) \<le> 65535"
  shows "\<exists>plte trns raster p'. getDump p = Some (png_file w h plte trns raster, p') \<and> length plte = 3 * d
    \<and> length trns = d \<and> length raster = h * (w + 1) \<and> zero_filters w h raster"
proof -
  obtain plte trns raster where ok: "png_ok p plte trns raster" "zero_filters w h raster" "p_width p = w" "p_height p = h"
    "p_depth p = d"
    using drawn_inv [OF assms] by blast
  moreover have "length plte = 3 * d" "length trns = d" "length raster = h * (w + 1)"
    using ok by (simp_all add: png_ok_def pix_size_def)
  ultimately show ?thesis using getDump_eq [OF ok(1)] by metis
qed

theorem drawn_dumps_png_witness:
  "\<exists>p plte trns raster p'. PNGlib 16 16 256 = Some p \<and> getDump p = Some (png_file 16 16 plte trns raster, p')
    \<and> length raster = 272 \<and> zero_filters 16 16 raster"
proof -
  obtain p where p: "PNGlib 16 16 256 = Some p" using PNGlib_eq [of 16 16 256] by auto
  show ?thesis using drawn_dumps_png [OF drawn_new [OF p]] p by auto
qed

text \<open>
  C29 (functional). Asking an image in order for a colour gives the index of a palette entry that has exactly its
  components, moves no entry handed out before, and uses at most one new entry; only when the colour is new and the
  palette full is the answer index 0 and the image unchanged. A missing transparency is opaque.
\<close>

theorem color_contract:
  assumes "png_ok p plte trns raster" "pal_ok p plte trns" "octets r g b a"
  shows "color p r g b None = color p r g b (Some 255)
    \<and> (\<exists>c p' plte' trns'. color p r g b (Some a) = Some (c, p') \<and> png_ok p' plte' trns' raster \<and> pal_ok p' plte' trns'
        \<and> (\<forall>k < p_pindex p. entry plte' trns' k = entry plte trns k) \<and> p_pindex p' \<le> p_pindex p + 1
        \<and> (if p_pindex p = p_depth p \<and> p_palette p (color_key r g b a) = None then c = 0 \<and> p' = p
            else c < p_pindex p' \<and> entry plte' trns' c = (r, g, b, a)))"
  using color_spec [OF assms] by (intro conjI color_default) blast

theorem color_contract_witness:
  "\<exists>p c p' plte' trns'. PNGlib 4 3 2 = Some p \<and> color p 240 240 240 (Some 255) = Some (c, p')
    \<and> png_ok p' plte' trns' (blank 15) \<and> entry plte' trns' c = (240, 240, 240, 255)"
proof -
  obtain p where p: "PNGlib 4 3 2 = Some p" "p_depth p = 2" "p_palette p = Map.empty" "p_pindex p = 0"
    "png_ok p (blank 6) (blank 2) (blank 15)"
    using PNGlib_eq [of 4 3 2] by auto
  have "octets 240 240 240 255" by (simp add: octets_def)
  from color_contract [OF p(5) pal_ok_new [OF p(3,4)] this] show ?thesis using p by auto
qed

text \<open>
  C30 (equivalence). Without an encoder in the browser, the base-64 text of an image in order is the encoding RFC 4648
  defines of its PNG file, over the alphabet of that document; with one, it is what that encoder makes of the same file.
\<close>

theorem getBase64_is_rfc4648:
  assumes "png_ok p plte trns raster"
  shows "map_option fst (getBase64 None p) = Some (rfc4648 (png_file (p_width p) (p_height p) plte trns raster))
    \<and> map_option fst (getBase64 (Some btoa) p) = Some (btoa (png_file (p_width p) (p_height p) plte trns raster))"
proof -
  let ?f = "png_file (p_width p) (p_height p) plte trns raster"
  have "0 < length ?f" by (simp add: png_file_def signature_def)
  then have "base64_loop ?f 0 = rfc4648 ?f" using base64_loop_eq [of 0 ?f] png_file_lt [OF assms] by simp
  then show ?thesis using getDump_eq [OF assms] by (fastforce simp: getBase64_def)
qed

theorem getBase64_is_rfc4648_witness:
  "\<exists>p. PNGlib 4 3 2 = Some p
    \<and> map_option fst (getBase64 None p) = Some (rfc4648 (png_file 4 3 (blank 6) (blank 2) (blank 15)))"
proof -
  obtain p where p: "PNGlib 4 3 2 = Some p" "p_width p = 4" "p_height p = 3" "png_ok p (blank 6) (blank 2) (blank 15)"
    using PNGlib_eq [of 4 3 2] by auto
  show ?thesis using getBase64_is_rfc4648 [OF p(4)] p(1) unfolding p(2,3) by blast
qed

text \<open>
  The check sum of the raster postpones its reductions for 5552 bytes: over any bytes its two sums stay below
  \<open>2 ^ 32\<close> at every step, as the comment in the code asks, and after the last reduction they are those of RFC 1950.
\<close>

theorem adler_sums:
  assumes "list_all (\<lambda>c. c < 256) (cs @ [c])"
  shows "(case foldl adler_step (1, 0, NMAX) cs of (s1, s2, n) \<Rightarrow>
      s1 + c < 2 ^ 32 \<and> s2 + (s1 + c) < 2 ^ 32 \<and> adler_ref cs = (s2 mod BASE) * 65536 + s1 mod BASE)"
proof -
  have "adler_bound (1, 0, NMAX)" by (simp add: adler_bound_def NMAX_def)
  moreover have "adler_bound (foldl adler_step st cs)" if "adler_bound st" "list_all (\<lambda>c. c < 256) cs" for st cs
    using that by (induction cs arbitrary: st) (simp_all add: adler_step_bound)
  ultimately have "adler_bound (foldl adler_step (1, 0, NMAX) cs)" using assms by simp
  moreover obtain s1 s2 n where s: "foldl adler_step (1, 0, NMAX) cs = (s1, s2, n)" by (metis prod_cases3)
  moreover have "adler_ref cs = (s2 mod BASE) * 65536 + s1 mod BASE"
    using adler_steps_mod [of "(1, 0, NMAX)" cs, symmetric] s by (simp add: adler_ref_def adler_mod_def BASE_def)
  ultimately show ?thesis using adler_bound_32 [of s1 s2 n c] assms by simp
qed

end
