(* ===== verification/JsNum.thy ===== *)
theory JsNum
  imports JsBase "HOL-Library.Log_Nat"
begin

text \<open>
  The numbers of JavaScript as the scripts use them: rational numbers, rounded to 53 significant bits, to the nearest and
  ties to even, after each operation. Overflow, gradual underflow and the sign of zero are left out: the values of the
  scripts are far from them. A value that is not a number is \<open>None\<close>. The theory bounds the error of a rounding and shows
  that quotients of integers have the right integral part.
\<close>

section \<open>Rounding\<close>

definition pow2 :: "int \<Rightarrow> rat" where
  "pow2 k = (if 0 \<le> k then 2 ^ nat k else 1 / 2 ^ nat (- k))"

definition ilog :: "rat \<Rightarrow> int" where
  "ilog x =
     (case quotient_of \<bar>x\<bar> of (n, d) \<Rightarrow>
        let k = bitlen n - bitlen d in if pow2 k \<le> \<bar>x\<bar> then k else k - 1)"

definition round_even :: "rat \<Rightarrow> int" where
  "round_even q =
     (let f = floor q; r = q - of_int f
      in if r < 1 / 2 then f else if 1 / 2 < r then f + 1 else if even f then f else f + 1)"

definition rnd :: "rat \<Rightarrow> rat" where
  "rnd x = (if x = 0 then 0 else let u = pow2 (ilog x - 52) in of_int (round_even (x / u)) * u)"

definition trunc :: "rat \<Rightarrow> int" where
  "trunc x = (if 0 \<le> x then floor x else - floor (- x))"

text \<open>The remainder of integers, with the sign of the dividend, and of a number and one.\<close>

definition js_rem :: "int \<Rightarrow> int \<Rightarrow> int" where
  "js_rem a b = (if 0 \<le> a then a mod \<bar>b\<bar> else - ((- a) mod \<bar>b\<bar>))"

definition frac_part :: "rat \<Rightarrow> rat" where
  "frac_part x = x - of_int (trunc x)"

section \<open>The error of a rounding\<close>

lemma pow2_pos [simp]: "0 < pow2 k"
  by (simp add: pow2_def)

lemma pow2_powi: "pow2 k = 2 powi k"
  by (simp add: pow2_def power_int_def inverse_eq_divide power_one_over)

lemma pow2_add: "pow2 (a + b) = pow2 a * pow2 b"
  by (simp add: pow2_powi power_int_add)

lemma pow2_mono: "a \<le> b \<Longrightarrow> pow2 a \<le> pow2 b"
  by (simp add: pow2_powi power_int_increasing)

lemma pow2_diff: "pow2 (a - b) = pow2 a / pow2 b"
  by (simp add: pow2_powi power_int_diff)

lemma bitlen_range:
  assumes "0 < n"
  shows "pow2 (bitlen n - 1) \<le> of_int n" "of_int n < pow2 (bitlen n)"
proof -
  have b: "1 \<le> bitlen n" using assms bitlen_eq_zero_iff [of n] bitlen_nonneg [of n] by linarith
  have "2 ^ nat (bitlen n - 1) \<le> n" "n < 2 ^ nat (bitlen n)" using bitlen_bounds [OF assms] by auto
  then have "of_int (2 ^ nat (bitlen n - 1)) \<le> (of_int n :: rat)" "(of_int n :: rat) < of_int (2 ^ nat (bitlen n))"
    by (simp_all only: of_int_le_iff of_int_less_iff)
  then show "pow2 (bitlen n - 1) \<le> of_int n" "of_int n < pow2 (bitlen n)" using b by (simp_all add: pow2_def)
qed

lemma ilog_range:
  assumes "x \<noteq> 0"
  shows "pow2 (ilog x) \<le> \<bar>x\<bar>" "\<bar>x\<bar> < pow2 (ilog x + 1)"
proof -
  obtain n d where q: "quotient_of \<bar>x\<bar> = (n, d)" by (cases "quotient_of \<bar>x\<bar>")
  have d: "0 < d" and x: "\<bar>x\<bar> = of_int n / of_int d" using quotient_of_denom_pos [OF q] quotient_of_div [OF q] by simp_all
  have "0 < of_int n / (of_int d :: rat)" using assms by (simp flip: x)
  then have n: "0 < n" using d by (simp add: zero_less_divide_iff)
  let ?k = "bitlen n - bitlen d"
  have "of_int n / of_int d \<le> of_int n / pow2 (bitlen d - 1)"
    using bitlen_range(1) [OF d] n d by (intro divide_left_mono) simp_all
  also have "\<dots> < pow2 (bitlen n) / pow2 (bitlen d - 1)"
    using bitlen_range(2) [OF n] by (intro divide_strict_right_mono) simp_all
  finally have u: "\<bar>x\<bar> < pow2 (?k + 1)" by (simp add: x pow2_diff [symmetric] algebra_simps)
  have "pow2 (bitlen n - 1) / pow2 (bitlen d) \<le> of_int n / pow2 (bitlen d)"
    using bitlen_range(1) [OF n] by (intro divide_right_mono) (simp_all add: less_imp_le)
  also have "\<dots> \<le> of_int n / of_int d"
    using bitlen_range(2) [OF d] n d by (intro divide_left_mono) simp_all
  finally have l: "pow2 (?k - 1) \<le> \<bar>x\<bar>" by (simp add: x pow2_diff [symmetric] algebra_simps)
  show "pow2 (ilog x) \<le> \<bar>x\<bar>" "\<bar>x\<bar> < pow2 (ilog x + 1)"
    using u l by (auto simp: ilog_def q Let_def)
qed

lemma round_even_error: "\<bar>of_int (round_even q) - q\<bar> \<le> 1 / 2"
proof -
  define f where "f = floor q"
  have f: "of_int f \<le> q" "q < of_int f + 1" by (simp_all add: f_def) linarith
  show ?thesis unfolding round_even_def Let_def f_def [symmetric] abs_le_iff using f by (simp split: if_splits)
qed

lemma round_even_int [simp]: "round_even (of_int k) = k"
  by (simp add: round_even_def)

definition eps :: rat where "eps = pow2 (- 53)"

lemma eps_pos [simp]: "0 < eps"
  by (simp add: eps_def)

lemma eps_small: "eps * 1000000000000000 \<le> 1"
  by (simp add: eps_def pow2_def)

lemma rnd_error: "\<bar>rnd x - x\<bar> \<le> \<bar>x\<bar> * eps"
proof (cases "x = 0")
  case False
  define u where "u = pow2 (ilog x - 52)"
  have u: "0 < u" by (simp add: u_def)
  have "rnd x - x = (of_int (round_even (x / u)) - x / u) * u"
    using False u by (simp add: rnd_def Let_def u_def [symmetric] left_diff_distrib)
  then have "\<bar>rnd x - x\<bar> = \<bar>of_int (round_even (x / u)) - x / u\<bar> * u"
    using u by (simp add: abs_mult)
  also have "\<dots> \<le> 1 / 2 * u" using round_even_error u by (intro mult_right_mono) simp_all
  also have "\<dots> = pow2 (ilog x) * eps"
    using pow2_add [of "ilog x - 52" "- 1"] pow2_add [of "ilog x" "- 53"] by (simp add: u_def eps_def pow2_def [of "- 1"])
  also have "\<dots> \<le> \<bar>x\<bar> * eps" using ilog_range(1) [OF False] by (intro mult_right_mono) (simp_all add: less_imp_le)
  finally show ?thesis .
qed (simp add: rnd_def)

lemma rnd_bounds:
  assumes "0 \<le> x"
  shows "x - x * eps \<le> rnd x" "rnd x \<le> x + x * eps"
  using rnd_error [of x] assms by (simp_all add: abs_le_iff)

lemma rnd_nonneg: "0 \<le> x \<Longrightarrow> 0 \<le> rnd x"
proof -
  assume x: "0 \<le> x"
  have "x * eps \<le> x * 1" using x eps_small by (intro mult_left_mono) auto
  then show ?thesis using rnd_bounds(1) [OF x] by simp
qed

text \<open>Integers below \<open>2 ^ 53\<close> are exact.\<close>

lemma rnd_int:
  assumes "\<bar>k\<bar> < 2 ^ 53"
  shows "rnd (of_int k) = of_int k"
proof (cases "k = 0")
  case False
  define e where "e = ilog (of_int k)"
  have "(of_int \<bar>k\<bar> :: rat) < of_int (2 ^ 53)" using assms by (simp only: of_int_less_iff)
  then have "pow2 e < pow2 53"
    using ilog_range(1) [of "of_int k"] False by (simp add: e_def pow2_def [of 53])
  then have "e < 53" using pow2_mono [of 53 e] by linarith
  then have "0 \<le> 52 - e" by simp
  then obtain j where j: "52 - e = int j" by (rule nonneg_int_cases)
  then have "e - 52 = - int j" by simp
  then have u: "pow2 (e - 52) = 1 / 2 ^ j" by (simp add: pow2_powi power_int_minus inverse_eq_divide)
  then have "of_int k / pow2 (e - 52) = of_int (k * 2 ^ j)" by simp
  then show ?thesis using False u by (simp only: rnd_def Let_def e_def [symmetric] round_even_int) simp
qed (simp add: rnd_def)

lemma rnd_near:
  assumes "\<bar>x\<bar> \<le> 1000000000"
  shows "\<bar>rnd x - x\<bar> * 1000000 \<le> 1"
proof -
  have "\<bar>rnd x - x\<bar> \<le> 1000000000 * eps"
    using order_trans [OF rnd_error mult_right_mono [OF assms less_imp_le [OF eps_pos]]] .
  then show ?thesis using eps_small by simp
qed

lemma rnd_close:
  assumes "- 1000000000 \<le> x" "x \<le> 1000000000"
  shows "x - 1 / 1000000 \<le> rnd x" "rnd x \<le> x + 1 / 1000000"
proof -
  have "\<bar>x\<bar> \<le> 1000000000" using assms by (simp add: abs_le_iff)
  from order_trans [OF rnd_error mult_right_mono [OF this less_imp_le [OF eps_pos]]]
  have "rnd x - x \<le> 1000000000 * eps" "- (rnd x - x) \<le> 1000000000 * eps" unfolding abs_le_iff by blast+
  then show "x - 1 / 1000000 \<le> rnd x" "rnd x \<le> x + 1 / 1000000" using eps_small by linarith+
qed

text \<open>Rounding is odd, monotone, and commutes with powers of two, so fractions with a power of two below are exact.\<close>

lemma round_even_minus [simp]: "round_even (- q) = - round_even q"
proof (cases "q = of_int (floor q)")
  case True
  then show ?thesis using round_even_int [of "floor q"] round_even_int [of "- floor q"] by simp
next
  case False
  then have f: "floor (- q) = - floor q - 1"
    using ceiling_altdef [of q] ceiling_def [of q] by (auto split: if_splits)
  have "(- q) - of_int (floor (- q)) = 1 - (q - of_int (floor q))" by (simp add: f)
  then show ?thesis unfolding round_even_def Let_def by (auto simp: f)
qed

lemma round_even_mono: "p \<le> q \<Longrightarrow> round_even p \<le> round_even q"
proof -
  assume pq: "p \<le> q"
  have b: "floor x \<le> round_even x" "round_even x \<le> floor x + 1" for x by (auto simp: round_even_def Let_def)
  show ?thesis
  proof (cases "floor p = floor q")
    case True
    then show ?thesis using pq by (auto simp: round_even_def Let_def)
  next
    case False
    then have "floor p + 1 \<le> floor q" using floor_mono [OF pq] by simp
    then show ?thesis using b(2) [of p] b(1) [of q] by simp
  qed
qed

lemma ilog_unique:
  assumes "pow2 e \<le> \<bar>x\<bar>" "\<bar>x\<bar> < pow2 (e + 1)"
  shows "ilog x = e"
proof -
  have "x \<noteq> 0" using assms(1) pow2_pos [of e] by (auto simp del: pow2_pos)
  note r = ilog_range [OF this]
  have "\<not> ilog x + 1 \<le> e" "\<not> e + 1 \<le> ilog x"
    using pow2_mono [of "ilog x + 1" e] pow2_mono [of "e + 1" "ilog x"] r assms by linarith+
  then show ?thesis by simp
qed

lemma rnd_minus [simp]: "rnd (- x) = - rnd x"
  by (simp add: rnd_def ilog_def Let_def)

lemma rnd_scale: "rnd (x * pow2 j) = rnd x * pow2 j"
proof (cases "x = 0")
  case False
  have "pow2 (ilog x + j) \<le> \<bar>x * pow2 j\<bar>" "\<bar>x * pow2 j\<bar> < pow2 (ilog x + j + 1)"
    using ilog_range [OF False] mult_right_mono [of "pow2 (ilog x)" "\<bar>x\<bar>" "pow2 j"] mult_strict_right_mono [of "\<bar>x\<bar>" "pow2 (ilog x + 1)" "pow2 j"]
    by (simp_all add: abs_mult pow2_add less_imp_le mult.commute mult.left_commute)
  then have i: "ilog (x * pow2 j) = ilog x + j" by (rule ilog_unique)
  have s: "pow2 (ilog x + j - 52) = pow2 (ilog x - 52) * pow2 j" using pow2_add [of "ilog x - 52" j] by (simp add: algebra_simps)
  have n: "pow2 j \<noteq> 0" using pow2_pos [of j] by linarith
  then have "x * pow2 j \<noteq> 0" using False by simp
  then show ?thesis using False n by (simp add: rnd_def i Let_def s)
qed (simp add: rnd_def)

lemma rnd_dyadic: "\<bar>k\<bar> < 2 ^ 53 \<Longrightarrow> rnd (of_int k * pow2 j) = of_int k * pow2 j"
  by (simp add: rnd_scale rnd_int)

lemma rnd_mono_pos:
  assumes "0 < x" "x \<le> y"
  shows "rnd x \<le> rnd y"
proof -
  have y: "0 < y" using assms by simp
  have r: "rnd z = of_int (round_even (z / pow2 (ilog z - 52))) * pow2 (ilog z - 52)" if "0 < z" for z
    using that by (simp add: rnd_def Let_def)
  have x1: "pow2 (ilog x) \<le> x" "x < pow2 (ilog x + 1)" using ilog_range [of x] assms by auto
  have y1: "pow2 (ilog y) \<le> y" "y < pow2 (ilog y + 1)" using ilog_range [of y] y by auto
  have le: "ilog x \<le> ilog y"
  proof (rule ccontr)
    assume "\<not> ilog x \<le> ilog y"
    then have "pow2 (ilog y + 1) \<le> pow2 (ilog x)" by (intro pow2_mono) simp
    then show False using x1 y1 assms by linarith
  qed
  show ?thesis
  proof (cases "ilog x = ilog y")
    case True
    have "x / pow2 (ilog y - 52) \<le> y / pow2 (ilog y - 52)" using assms by (intro divide_right_mono) (simp_all add: less_imp_le)
    from round_even_mono [OF this] show ?thesis by (simp add: r assms(1) y True)
  next
    case False
    define u v where "u = pow2 (ilog x - 52)" and "v = pow2 (ilog y - 52)"
    have uv: "0 < u" "0 < v" by (simp_all add: u_def v_def)
    have eu: "pow2 (ilog x + 1) = of_int (2 ^ 53) * u" "pow2 (ilog y) = of_int (2 ^ 52) * v"
      using pow2_add [of 53 "ilog x - 52"] pow2_add [of 52 "ilog y - 52"] by (simp_all add: u_def v_def pow2_def [of 53] pow2_def [of 52] add.commute)
    have "x / u \<le> of_int (2 ^ 53)" using x1(2) uv by (simp add: eu divide_le_eq less_imp_le)
    from round_even_mono [OF this] have a: "round_even (x / u) \<le> 2 ^ 53" by (simp only: round_even_int)
    have "of_int (2 ^ 52) \<le> y / v" using y1(1) uv by (simp add: eu le_divide_eq)
    from round_even_mono [OF this] have b: "2 ^ 52 \<le> round_even (y / v)" by (simp only: round_even_int)
    have "rnd x \<le> of_int (2 ^ 53) * u" unfolding r [OF assms(1)] u_def [symmetric] using a uv
      by (intro mult_right_mono) (simp_all only: of_int_le_iff less_imp_le)
    also have "\<dots> \<le> pow2 (ilog y)" unfolding eu(1) [symmetric] using le False by (intro pow2_mono) simp
    also have "\<dots> \<le> rnd y" unfolding r [OF y] v_def [symmetric] eu(2) using b uv
      by (intro mult_right_mono) (simp_all only: of_int_le_iff less_imp_le)
    finally show ?thesis .
  qed
qed

lemma rnd_mono: "x \<le> y \<Longrightarrow> rnd x \<le> rnd y"
proof -
  assume xy: "x \<le> y"
  consider "0 < x" | "y < 0" | "x \<le> 0" "0 \<le> y" by linarith
  then show ?thesis
  proof cases
    case 2
    then show ?thesis using rnd_mono_pos [of "- y" "- x"] xy by simp
  next
    case 3
    then show ?thesis using rnd_nonneg [of y] rnd_nonneg [of "- x"] by simp
  qed (use rnd_mono_pos xy in blast)
qed

text \<open>The integral part of a quotient of integers is not disturbed.\<close>

lemma near_floor:
  fixes x y f :: rat
  assumes "\<bar>y - x\<bar> * 1000000 \<le> 1" "x = of_int q + f" "1 / 1000 \<le> f" "f \<le> 1 - 1 / 1000"
  shows "floor y = q"
proof -
  have "Q \<le> y \<and> y < Q + 1"
    if "d * 1000000 \<le> 1" "y - x \<le> d" "x - y \<le> d" "x = Q + f" "1 / 1000 \<le> f" "f \<le> 1 - 1 / 1000" for d Q :: rat
    using that by linarith
  from this [OF assms(1) abs_ge_self _ assms(2-4)] have "of_int q \<le> y" "y < of_int q + 1"
    using abs_ge_self [of "x - y"] by (simp_all add: abs_minus_commute)
  then show ?thesis by (rule floor_unique)
qed

lemma floor_quotient:
  assumes "\<bar>n\<bar> \<le> 1000000000" "0 < m" "m \<le> 1000"
  shows "floor (rnd (of_int n / of_int m)) = n div m"
proof (cases "m dvd n")
  case True
  then obtain k where k: "n = m * k" by (rule dvdE)
  then have q: "of_int n / of_int m = (of_int k :: rat)" using assms(2) by simp
  have "\<bar>k\<bar> \<le> \<bar>n\<bar>" using k assms(2) by (simp add: abs_mult mult_le_cancel_right1)
  then have "rnd (of_int k) = of_int k" using assms(1) by (intro rnd_int) simp
  then show ?thesis using k assms(2) by (simp add: q)
next
  case False
  let ?x = "of_int n / (of_int m :: rat)"
  have n: "(of_int n :: rat) = of_int m * of_int (n div m) + of_int (n mod m)"
    by (simp flip: of_int_mult of_int_add)
  have r: "1 \<le> n mod m" "n mod m \<le> m - 1" using False assms(2) by (simp_all add: dvd_eq_mod_eq_0 pos_mod_bound order.not_eq_order_implies_strict int_one_le_iff_zero_less)
  have x: "?x = of_int (n div m) + of_int (n mod m) / of_int m"
    using assms(2) by (subst (1) n) (simp add: add_divide_distrib)
  have "\<bar>?x\<bar> \<le> \<bar>of_int n\<bar>" using assms(2) by (simp add: divide_le_eq mult_le_cancel_left1)
  also have "\<dots> \<le> 1000000000" using assms(1) by (simp flip: of_int_abs)
  finally have e: "\<bar>rnd ?x - ?x\<bar> * 1000000 \<le> 1" by (rule rnd_near)
  have "1 / 1000 \<le> of_int (n mod m) / (of_int m :: rat)" "of_int (n mod m) / (of_int m :: rat) \<le> 1 - 1 / 1000"
  proof -
    have "m \<le> 1000 * (n mod m)" "1000 * (n mod m) \<le> 999 * m" using r assms(3) by linarith+
    then have "(of_int m :: rat) \<le> of_int (1000 * (n mod m))" "(of_int (1000 * (n mod m)) :: rat) \<le> of_int (999 * m)"
      by (simp_all only: of_int_le_iff)
    then show "1 / 1000 \<le> of_int (n mod m) / (of_int m :: rat)" "of_int (n mod m) / (of_int m :: rat) \<le> 1 - 1 / 1000"
      using assms(2) by (simp_all add: field_simps)
  qed
  then show ?thesis by (rule near_floor [OF e x])
qed

end
