(* ===== verification/Identicon.thy ===== *)
theory Identicon
  imports Png JsNum
begin

unbundle bit_operations_syntax

text \<open>
  \<^verbatim>\<open>src/src/qt/res/assets/plugins/identicon/identicon.js\<close>: the class \<^verbatim>\<open>Identicon\<close>, which paints a hash as a
  symmetric five by five pattern on an image of \<^verbatim>\<open>PNGlib\<close>. Sizes are natural numbers, the margin a rounded fraction.
  The theory states what it needs of an image as a locale of canvases, interprets it on the images of \<open>Png\<close>, and proves
  which colour every pixel gets.
\<close>

section \<open>Strings and numbers\<close>

definition hexunit :: "nat \<Rightarrow> nat option" where
  "hexunit c =
     (if 48 \<le> c \<and> c \<le> 57 then Some (c - 48)
      else if 97 \<le> c \<and> c \<le> 102 then Some (c - 87)
      else if 65 \<le> c \<and> c \<le> 70 then Some (c - 55) else None)"

fun hex_value :: "nat \<Rightarrow> jsstr \<Rightarrow> nat" where
  "hex_value n [] = n"
| "hex_value n (c # s) = (case hexunit c of None \<Rightarrow> n | Some d \<Rightarrow> hex_value (16 * n + d) s)"

text \<open>\<^verbatim>\<open>parseInt(s, 16)\<close>: leading space, a sign and the prefix \<^verbatim>\<open>0x\<close> are skipped; without a digit it is not a number.\<close>

definition parseInt16 :: "jsstr \<Rightarrow> int option" where
  "parseInt16 s =
     (let s1 = dropWhile is_space s;
          neg = (case s1 of c # _ \<Rightarrow> c = 45 | [] \<Rightarrow> False);
          s2 = (case s1 of c # r \<Rightarrow> if c = 45 \<or> c = 43 then r else s1 | [] \<Rightarrow> []);
          s3 = (case s2 of a # b # r \<Rightarrow> if a = 48 \<and> (b = 120 \<or> b = 88) then r else s2 | _ \<Rightarrow> s2)
      in case s3 of
           [] \<Rightarrow> None
         | c # _ \<Rightarrow> (if hexunit c = None then None
                     else Some (if neg then - int (hex_value 0 s3) else int (hex_value 0 s3))))"

text \<open>\<^verbatim>\<open>substr(-n)\<close>: the last characters.\<close>

definition substr_last :: "nat \<Rightarrow> jsstr \<Rightarrow> jsstr" where
  "substr_last n s = drop (length s - n) s"

fun dec_nat :: "nat \<Rightarrow> jsstr" where
  "dec_nat n = (if n < 10 then [48 + n] else dec_nat (n div 10) @ [48 + n mod 10])"

declare dec_nat.simps [simp del]

definition dec_int :: "int \<Rightarrow> jsstr" where
  "dec_int n = (if n < 0 then 45 # dec_nat (nat (- n)) else dec_nat (nat n))"

definition hash_step :: "u32 \<Rightarrow> nat \<Rightarrow> u32" where
  "hash_step h chr = (push_bit 5 h - h) + of_nat chr"

definition createHashFromString :: "jsstr \<Rightarrow> jsstr" where
  "createHashFromString str =
     (if str = [] then js ''0''
      else dec_int (sint (foldl hash_step 0 (str @ js ''identicon'' @ str))))"

section \<open>The class\<close>

record identicon =
  i_background :: "int list"
  i_hash :: jsstr
  i_margin :: rat
  i_size :: nat

record id_options =
  o_background :: "int list option"
  o_margin :: "rat option"
  o_size :: "nat option"

datatype id_arg = Obj id_options | Num nat | Absent

definition id_defaults :: id_options where
  "id_defaults = \<lparr>o_background = Some [240, 240, 240, 255], o_margin = Some (rnd (8 / 100)), o_size = Some 64\<rparr>"

text \<open>\<^verbatim>\<open>a || b\<close> on numbers: absent and zero give way.\<close>

definition or_else :: "'a :: zero option \<Rightarrow> 'a \<Rightarrow> 'a" where
  "or_else a b = (case a of Some v \<Rightarrow> if v = 0 then b else v | None \<Rightarrow> b)"

text \<open>The constructor; \<open>now\<close> is the date as text.\<close>

definition Identicon_new :: "jsstr \<Rightarrow> jsstr \<Rightarrow> id_arg \<Rightarrow> rat option \<Rightarrow> identicon" where
  "Identicon_new now hash arg1 arg2 =
     (let opts = (case arg1 of Obj ob \<Rightarrow> ob | _ \<Rightarrow> id_defaults);
          opts = (case arg1 of Num n \<Rightarrow> if n \<noteq> 0 then opts\<lparr>o_size := Some n\<rparr> else opts | _ \<Rightarrow> opts);
          opts = (case arg2 of Some m \<Rightarrow> if m \<noteq> 0 then opts\<lparr>o_margin := Some m\<rparr> else opts | None \<Rightarrow> opts)
      in \<lparr>i_background = (case o_background opts of Some b \<Rightarrow> b | None \<Rightarrow> [240, 240, 240, 255]),
          i_hash = (if hash = [] then createHashFromString now else hash),
          i_margin = or_else (o_margin opts) (rnd (8 / 100)),
          i_size = or_else (o_size opts) 64\<rparr>)"

text \<open>
  The list of six levels between which \<^verbatim>\<open>hsl2rgb\<close> chooses; a level computed from a hue that is not a number is
  not a number, as is one outside the list.
\<close>

definition hsl_levels :: "rat option \<Rightarrow> rat \<Rightarrow> rat \<Rightarrow> rat option list" where
  "hsl_levels f s b =
     (let s1 = rnd (s * (if b < 1 / 2 then b else rnd (1 - b))); b1 = rnd (b + s1);
          s2 = rnd (s1 * 2); b2 = rnd (b1 - s2)
      in [Some b1, map_option (\<lambda>f. rnd (b1 - rnd (rnd (f * s1) * 2))) f, Some b2, Some b2,
          map_option (\<lambda>f. rnd (b2 + rnd (f * s2))) f, Some (rnd (b2 + s2))])"

definition level_at :: "rat option list \<Rightarrow> int \<Rightarrow> rat option" where
  "level_at ls i = (let k = js_rem i 6 in if 0 \<le> k \<and> nat k < length ls then ls ! nat k else None)"

definition hsl2rgb :: "rat option \<Rightarrow> rat \<Rightarrow> rat \<Rightarrow> rat option list" where
  "hsl2rgb h s b =
     (let h6 = map_option (\<lambda>x. rnd (x * 6)) h;
          t = (case h6 of None \<Rightarrow> 0 | Some x \<Rightarrow> of_int (trunc x)) :: u32;
          ls = hsl_levels (map_option frac_part h6) s b
      in [level_at ls (sint (NOT (NOT t))), level_at ls (sint (t OR 16)), level_at ls (sint (t OR 8))])"

text \<open>A component times 255, as the integer that \<^verbatim>\<open>color\<close> makes of it.\<close>

definition to_component :: "rat option \<Rightarrow> int" where
  "to_component v = (case v of None \<Rightarrow> 0 | Some x \<Rightarrow> trunc (rnd (x * 255)))"

fun paint :: "png \<Rightarrow> nat \<Rightarrow> (int \<times> int) list \<Rightarrow> png option" where
  "paint im c [] = Some im"
| "paint im c ((i, j) # ijs) = Option.bind (set_pixel im i j c) (\<lambda>im. paint im c ijs)"

definition rect_points :: "int \<Rightarrow> int \<Rightarrow> int \<Rightarrow> int \<Rightarrow> (int \<times> int) list" where
  "rect_points x y w h = concat (map (\<lambda>i. map (\<lambda>j. (i, j)) [y..y + h - 1]) [x..x + w - 1])"

definition rectangle :: "int \<Rightarrow> int \<Rightarrow> int \<Rightarrow> int \<Rightarrow> nat \<Rightarrow> png \<Rightarrow> png option" where
  "rectangle x y w h c im = paint im c (rect_points x y w h)"

text \<open>The cells painted for one digit: down the middle first, then mirrored outwards.\<close>

definition digit_cells :: "nat \<Rightarrow> (int \<times> int) list" where
  "digit_cells i =
     (if i < 5 then [(2, int i)]
      else if i < 10 then [(1, int i - 5), (3, int i - 5)]
      else if i < 15 then [(0, int i - 10), (4, int i - 10)] else [])"

definition digit_odd :: "jsstr \<Rightarrow> nat \<Rightarrow> bool" where
  "digit_odd hash i = (case parseInt16 (charAt hash i) of None \<Rightarrow> False | Some v \<Rightarrow> js_rem v 2 \<noteq> 0)"

fun draw_cells :: "int \<Rightarrow> int \<Rightarrow> nat \<Rightarrow> (int \<times> int) list \<Rightarrow> png \<Rightarrow> png option" where
  "draw_cells cell margin c [] im = Some im"
| "draw_cells cell margin c ((a, b) # cs) im =
     Option.bind (rectangle (a * cell + margin) (b * cell + margin) cell cell c im)
       (\<lambda>im. draw_cells cell margin c cs im)"

fun draw_digits :: "jsstr \<Rightarrow> int \<Rightarrow> int \<Rightarrow> nat \<Rightarrow> nat \<Rightarrow> nat list \<Rightarrow> png \<Rightarrow> png option" where
  "draw_digits hash cell margin bg fg [] im = Some im"
| "draw_digits hash cell margin bg fg (i # ks) im =
     Option.bind (draw_cells cell margin (if digit_odd hash i then bg else fg) (digit_cells i) im)
       (\<lambda>im. draw_digits hash cell margin bg fg ks im)"

definition id_cell :: "identicon \<Rightarrow> int" where
  "id_cell ic =
     (let sz = int (i_size ic); baseMargin = floor (rnd (of_int sz * i_margin ic))
      in floor (rnd (of_int (sz - baseMargin * 2) / 5)))"

definition id_margin :: "identicon \<Rightarrow> int" where
  "id_margin ic = floor (rnd (of_int (int (i_size ic) - id_cell ic * 5) / 2))"

definition bg_component :: "identicon \<Rightarrow> nat \<Rightarrow> int" where
  "bg_component ic k = (if k < length (i_background ic) then i_background ic ! k else 0)"

definition fg_rgb :: "identicon \<Rightarrow> rat option list" where
  "fg_rgb ic =
     hsl2rgb (map_option (\<lambda>v. rnd (of_int v / 0xfffffff)) (parseInt16 (substr_last 7 (i_hash ic)))) (rnd (1 / 2)) (rnd (7 / 10))"

definition render :: "identicon \<Rightarrow> png option" where
  "render ic =
     Option.bind (PNGlib (i_size ic) (i_size ic) 256) (\<lambda>im.
     Option.bind (color im (bg_component ic 0) (bg_component ic 1) (bg_component ic 2)
       (if 3 < length (i_background ic) then Some (i_background ic ! 3) else None)) (\<lambda>(bg, im).
     Option.bind (color im (to_component (fg_rgb ic ! 0)) (to_component (fg_rgb ic ! 1)) (to_component (fg_rgb ic ! 2)) None)
       (\<lambda>(fg, im).
     draw_digits (i_hash ic) (id_cell ic) (id_margin ic) bg fg [0..<15] im)))"

definition toString :: "(jsstr \<Rightarrow> jsstr) option \<Rightarrow> identicon \<Rightarrow> jsstr option" where
  "toString btoa ic = Option.bind (render ic) (\<lambda>im. map_option fst (getBase64 btoa im))"

section \<open>Canvases\<close>

text \<open>
  What painting needs of an image: inside it, setting a pixel succeeds, keeps the image in order and its extent, and
  changes what is read at this point only.
\<close>

locale canvas =
  fixes ok :: "'s \<Rightarrow> bool"
    and inside :: "int \<Rightarrow> int \<Rightarrow> bool"
    and get :: "'s \<Rightarrow> int \<Rightarrow> int \<Rightarrow> nat"
    and put :: "'s \<Rightarrow> int \<Rightarrow> int \<Rightarrow> nat \<Rightarrow> 's option"
    and pnt :: "'s \<Rightarrow> nat \<Rightarrow> (int \<times> int) list \<Rightarrow> 's option"
  assumes put: "ok s \<Longrightarrow> inside x y \<Longrightarrow> c < 256 \<Longrightarrow>
      \<exists>s'. put s x y c = Some s' \<and> ok s' \<and> (\<forall>i j. inside i j \<longrightarrow> get s' i j = (if i = x \<and> j = y then c else get s i j))"
    and pnt_Nil: "pnt s c [] = Some s"
    and pnt_Cons: "pnt s c ((x, y) # ps) = Option.bind (put s x y c) (\<lambda>s. pnt s c ps)"
begin

lemma pnt_points:
  assumes "ok s" "\<forall>(i, j) \<in> set ps. inside i j" "c < 256"
  shows "\<exists>s'. pnt s c ps = Some s' \<and> ok s'
    \<and> (\<forall>i j. inside i j \<longrightarrow> get s' i j = (if (i, j) \<in> set ps then c else get s i j))"
  using assms
proof (induction ps arbitrary: s)
  case Nil
  then show ?case by (simp add: pnt_Nil)
next
  case (Cons xy ps)
  obtain x y where xy: "xy = (x, y)" by (cases xy)
  obtain s1 where s1: "put s x y c = Some s1" "ok s1"
    "\<forall>i j. inside i j \<longrightarrow> get s1 i j = (if i = x \<and> j = y then c else get s i j)"
    using put [of s x y c] Cons.prems xy by auto
  obtain s2 where s2: "pnt s1 c ps = Some s2" "ok s2"
    "\<forall>i j. inside i j \<longrightarrow> get s2 i j = (if (i, j) \<in> set ps then c else get s1 i j)"
    using Cons.IH [OF s1(2)] Cons.prems by auto
  show ?case using s1 s2 by (auto simp: xy pnt_Cons)
qed

end

definition in_image :: "nat \<Rightarrow> nat \<Rightarrow> int \<Rightarrow> int \<Rightarrow> bool" where
  "in_image w h x y \<longleftrightarrow> 0 \<le> x \<and> x < int w \<and> 0 \<le> y \<and> y < int h"

definition pixel :: "png \<Rightarrow> int \<Rightarrow> int \<Rightarrow> nat" where
  "pixel im x y = p_buffer im ! nat (index im x y)"

definition image_ok :: "nat \<Rightarrow> nat \<Rightarrow> nat list \<Rightarrow> nat list \<Rightarrow> png \<Rightarrow> bool" where
  "image_ok w h plte trns im \<longleftrightarrow>
     (\<exists>raster. png_ok im plte trns raster) \<and> pal_ok im plte trns \<and> p_width im = w \<and> p_height im = h"

lemma index_buffer [simp]: "index (im\<lparr>p_buffer := b\<rparr>) x y = index im x y"
  by (simp add: index_def offs_defs pix_size_def)

lemma index_inj:
  assumes "in_image w h x y" "in_image w h i j" "index im x y = index im i j" "p_width im = w" "h * (w + 1) \<le> 65535"
    "p_height im = h"
  shows "i = x \<and> j = y"
proof -
  have pos: "int (raster_pos im a b) = b * (int w + 1) + a + 1" "raster_pos im a b < pix_size im" if "in_image w h a b" for a b
    using raster_pos_lt [of a im b] that assms(4,6) by (simp_all add: in_image_def)
  have "pix_size im \<le> 65535" using assms by (simp add: pix_size_def)
  then have "index im a b = int (idat_offs im) + 15 + (b * (int w + 1) + a + 1)" if "in_image w h a b" for a b
    using index_small [of b im a] pos [OF that] assms(4) by simp
  then have e: "y * (int w + 1) + x = j * (int w + 1) + i" using assms(1-3) by simp
  have "(y * (int w + 1) + x) div (int w + 1) = y" "(j * (int w + 1) + i) div (int w + 1) = j"
    using assms(1,2) by (simp_all add: in_image_def)
  then have "y = j" using e by simp
  then show ?thesis using e by simp
qed

lemma set_pixel_canvas:
  assumes ok: "image_ok w h plte trns im" and xy: "in_image w h x y" and c: "c < 256"
  shows "\<exists>im'. set_pixel im x y c = Some im' \<and> image_ok w h plte trns im'
    \<and> (\<forall>i j. in_image w h i j \<longrightarrow> pixel im' i j = (if i = x \<and> j = y then c else pixel im i j))"
proof -
  obtain raster where r: "png_ok im plte trns raster" "p_width im = w" "p_height im = h" "pal_ok im plte trns"
    using ok by (auto simp: image_ok_def)
  have hw: "h * (w + 1) \<le> 65535" using r by (simp add: png_ok_def pix_size_def)
  obtain b where b: "set_pixel im x y c = Some (im\<lparr>p_buffer := b\<rparr>)" "png_ok (im\<lparr>p_buffer := b\<rparr>) plte trns (raster[raster_pos im x y := c])"
    using set_pixel_eq [OF r(1), of x y c] xy c r(2,3) by (auto simp: in_image_def)
  then have bb: "b = (p_buffer im)[nat (index im x y) := c]" "0 \<le> index im x y" "nat (index im x y) < length (p_buffer im)"
    by (auto simp: set_pixel_def Let_def split: if_splits dest: arg_cong [where f = p_buffer])
  have "0 \<le> index im i j" if "in_image w h i j" for i j
    using raster_pos_lt [of i im j] index_small [of j im i] that r hw by (simp add: in_image_def pix_size_def)
  then have "pixel (im\<lparr>p_buffer := b\<rparr>) i j = (if i = x \<and> j = y then c else pixel im i j)" if "in_image w h i j" for i j
    using index_inj [OF xy that _ r(2) hw r(3)] bb that by (auto simp: pixel_def nth_list_update eq_nat_nat_iff)
  then show ?thesis using b r by (auto simp: image_ok_def pal_ok_buffer)
qed

interpretation png_canvas: canvas "image_ok w h plte trns" "in_image w h" pixel set_pixel paint for w h plte trns
  by unfold_locales (use set_pixel_canvas in \<open>simp_all\<close>)

section \<open>Painting the pattern\<close>

lemma set_rect_points: "set (rect_points x y w h) = {x..<x + w} \<times> {y..<y + h}"
  by (auto simp: rect_points_def)

lemma rectangle_paints:
  assumes "image_ok W H plte trns im" "0 \<le> x" "x + w \<le> int W" "0 \<le> y" "y + h \<le> int H" "c < 256"
  shows "\<exists>im'. rectangle x y w h c im = Some im' \<and> image_ok W H plte trns im'
    \<and> (\<forall>i j. in_image W H i j \<longrightarrow> pixel im' i j = (if x \<le> i \<and> i < x + w \<and> y \<le> j \<and> j < y + h then c else pixel im i j))"
proof -
  have "\<forall>(i, j) \<in> set (rect_points x y w h). in_image W H i j"
    using assms(2-5) by (auto simp: set_rect_points in_image_def)
  from png_canvas.pnt_points [OF assms(1) this assms(6)] show ?thesis
    by (simp add: rectangle_def set_rect_points conj_assoc)
qed

text \<open>The point \<open>(i, j)\<close> lies in the cell of column \<open>a\<close> and row \<open>b\<close>.\<close>

definition in_cell :: "int \<Rightarrow> int \<Rightarrow> int \<times> int \<Rightarrow> int \<Rightarrow> int \<Rightarrow> bool" where
  "in_cell cell margin ab i j \<longleftrightarrow>
     fst ab * cell + margin \<le> i \<and> i < fst ab * cell + margin + cell
     \<and> snd ab * cell + margin \<le> j \<and> j < snd ab * cell + margin + cell"

definition in_grid :: "(int \<times> int) list \<Rightarrow> bool" where
  "in_grid cs \<longleftrightarrow> (\<forall>(a, b) \<in> set cs. 0 \<le> a \<and> a \<le> 4 \<and> 0 \<le> b \<and> b \<le> 4)"

lemma grid_bound:
  assumes "0 \<le> cell" "0 \<le> margin" "margin + 5 * cell \<le> sz" "0 \<le> a" "a \<le> (4 :: int)"
  shows "0 \<le> a * cell + margin" "a * cell + margin + cell \<le> sz"
proof -
  have "(a + 1) * cell \<le> 5 * cell" using assms by (intro mult_right_mono) simp_all
  then show "0 \<le> a * cell + margin" "a * cell + margin + cell \<le> sz" using assms by (simp_all add: distrib_right)
qed

lemma draw_cells_paints:
  assumes "image_ok W W plte trns im" "0 \<le> cell" "0 \<le> margin" "margin + 5 * cell \<le> int W" "in_grid cs" "c < 256"
  shows "\<exists>im'. draw_cells cell margin c cs im = Some im' \<and> image_ok W W plte trns im'
    \<and> (\<forall>i j. in_image W W i j \<longrightarrow>
          pixel im' i j = (if \<exists>ab \<in> set cs. in_cell cell margin ab i j then c else pixel im i j))"
  using assms(1,5)
proof (induction cs arbitrary: im)
  case (Cons ab cs)
  obtain a b where ab: "ab = (a, b)" by (cases ab)
  have g: "0 \<le> a" "a \<le> 4" "0 \<le> b" "b \<le> 4" "in_grid cs" using Cons.prems(2) by (auto simp: in_grid_def ab)
  note ga = grid_bound [OF assms(2,3,4) g(1,2)] and gb = grid_bound [OF assms(2,3,4) g(3,4)]
  obtain im1 where 1: "rectangle (a * cell + margin) (b * cell + margin) cell cell c im = Some im1" "image_ok W W plte trns im1"
    "\<forall>i j. in_image W W i j \<longrightarrow> pixel im1 i j = (if in_cell cell margin ab i j then c else pixel im i j)"
    using rectangle_paints [OF Cons.prems(1) ga gb assms(6)] by (auto simp: in_cell_def ab)
  obtain im2 where 2: "draw_cells cell margin c cs im1 = Some im2" "image_ok W W plte trns im2"
    "\<forall>i j. in_image W W i j \<longrightarrow> pixel im2 i j = (if \<exists>ab \<in> set cs. in_cell cell margin ab i j then c else pixel im1 i j)"
    using Cons.IH [OF 1(2) g(5)] by auto
  show ?case using 1 2 by (auto simp: ab)
qed simp

definition digit_of :: "int \<Rightarrow> int \<Rightarrow> nat" where
  "digit_of a b = (if a = 2 then nat b else if a = 1 \<or> a = 3 then 5 + nat b else 10 + nat b)"

lemma digit_cells_iff:
  assumes "k < 15"
  shows "(a, b) \<in> set (digit_cells k) \<longleftrightarrow> 0 \<le> a \<and> a \<le> 4 \<and> 0 \<le> b \<and> b \<le> 4 \<and> k = digit_of a b"
proof -
  have "k < 5 \<or> (5 \<le> k \<and> k < 10) \<or> (10 \<le> k \<and> k < 15)" using assms by linarith
  moreover have "0 \<le> a \<and> a \<le> 4 \<longleftrightarrow> a = 0 \<or> a = 1 \<or> a = 2 \<or> a = 3 \<or> a = 4" by linarith
  ultimately show ?thesis by (auto simp: digit_cells_def digit_of_def)
qed

lemma in_cell_div:
  assumes "in_cell cell margin (a, b) i j"
  shows "a = (i - margin) div cell" "b = (j - margin) div cell"
proof -
  have "(i - margin) div cell = a" if "a * cell + margin \<le> i" "i < a * cell + margin + cell" for a i
    using that by (intro int_div_pos_eq [of _ _ _ "i - margin - a * cell"]) (simp_all add: mult.commute)
  from this [of a i] this [of b j] show "a = (i - margin) div cell" "b = (j - margin) div cell"
    using assms by (simp_all add: in_cell_def)
qed

text \<open>The digit of the cell at a point, if the point is in the pattern.\<close>

definition digit_at :: "int \<Rightarrow> int \<Rightarrow> int \<Rightarrow> int \<Rightarrow> nat option" where
  "digit_at cell margin i j =
     (if margin \<le> i \<and> i < margin + 5 * cell \<and> margin \<le> j \<and> j < margin + 5 * cell
      then Some (digit_of ((i - margin) div cell) ((j - margin) div cell)) else None)"

lemma div_lt:
  assumes "0 < c" "x < k * c"
  shows "x div c < (k :: int)"
proof (rule ccontr)
  assume "\<not> x div c < k"
  then have "k * c \<le> x div c * c" using assms(1) by (intro mult_right_mono) simp_all
  then show False using assms div_mult_mod_eq [of x c] pos_mod_sign [OF assms(1), of x] by linarith
qed

lemma hit_digit:
  assumes "k < 15" "0 \<le> cell"
  shows "(\<exists>ab \<in> set (digit_cells k). in_cell cell margin ab i j) \<longleftrightarrow> digit_at cell margin i j = Some k"
proof
  assume "\<exists>ab \<in> set (digit_cells k). in_cell cell margin ab i j"
  then obtain a b where ab: "(a, b) \<in> set (digit_cells k)" "in_cell cell margin (a, b) i j" by auto
  have g: "0 \<le> a" "a \<le> 4" "0 \<le> b" "b \<le> 4" "k = digit_of a b" using ab(1) digit_cells_iff [OF assms(1)] by auto
  have "0 \<le> x * cell" "x * cell + cell \<le> 5 * cell" if "0 \<le> x" "x \<le> 4" for x
    using that assms(2) mult_right_mono [of "x + 1" 5 cell] by (simp_all add: distrib_right)
  from this [OF g(1,2)] this [OF g(3,4)] ab(2)
  have "margin \<le> i \<and> i < margin + 5 * cell \<and> margin \<le> j \<and> j < margin + 5 * cell"
    unfolding in_cell_def fst_conv snd_conv by linarith
  then show "digit_at cell margin i j = Some k"
    using g(5) in_cell_div [OF ab(2)] by (simp add: digit_at_def)
next
  assume d: "digit_at cell margin i j = Some k"
  define a b where "a = (i - margin) div cell" and "b = (j - margin) div cell"
  have r: "0 \<le> i - margin" "i - margin < 5 * cell" "0 \<le> j - margin" "j - margin < 5 * cell" "k = digit_of a b"
    using d by (auto simp: digit_at_def a_def b_def split: if_splits)
  then have c: "0 < cell" by linarith
  have "0 \<le> a" "a \<le> 4" "0 \<le> b" "b \<le> 4"
    using r c div_lt [OF c r(2)] div_lt [OF c r(4)] by (simp_all add: a_def b_def pos_imp_zdiv_nonneg_iff)
  moreover have "in_cell cell margin (a, b) i j"
    using c pos_mod_bound [OF c, of "i - margin"] pos_mod_sign [OF c, of "i - margin"] pos_mod_bound [OF c, of "j - margin"]
      pos_mod_sign [OF c, of "j - margin"] div_mult_mod_eq [of "i - margin" cell] div_mult_mod_eq [of "j - margin" cell]
    unfolding in_cell_def a_def b_def fst_conv snd_conv by linarith
  ultimately show "\<exists>ab \<in> set (digit_cells k). in_cell cell margin ab i j"
    using digit_cells_iff [OF assms(1), of a b] r(5) by blast
qed

lemma draw_digits_paints:
  assumes "image_ok W W plte trns im" "0 \<le> cell" "0 \<le> margin" "margin + 5 * cell \<le> int W" "bg < 256" "fg < 256"
    "\<forall>k \<in> set ks. k < 15"
  shows "\<exists>im'. draw_digits hash cell margin bg fg ks im = Some im' \<and> image_ok W W plte trns im'
    \<and> (\<forall>i j. in_image W W i j \<longrightarrow> pixel im' i j = (case digit_at cell margin i j of
          Some k \<Rightarrow> if k \<in> set ks then (if digit_odd hash k then bg else fg) else pixel im i j
        | None \<Rightarrow> pixel im i j))"
  using assms(1,7)
proof (induction ks arbitrary: im)
  case Nil
  then show ?case by (simp split: option.split)
next
  case (Cons k ks)
  let ?c = "if digit_odd hash k then bg else fg"
  have k: "k < 15" "in_grid (digit_cells k)" using Cons.prems(2) digit_cells_iff [of k] by (auto simp: in_grid_def)
  have "?c < 256" using assms(5,6) by simp
  from draw_cells_paints [OF Cons.prems(1) assms(2-4) k(2) this]
  obtain im1 where 1: "draw_cells cell margin ?c (digit_cells k) im = Some im1" "image_ok W W plte trns im1"
    "\<forall>i j. in_image W W i j \<longrightarrow> pixel im1 i j = (if digit_at cell margin i j = Some k then ?c else pixel im i j)"
    unfolding hit_digit [OF k(1) assms(2)] by blast
  obtain im2 where 2: "draw_digits hash cell margin bg fg ks im1 = Some im2" "image_ok W W plte trns im2"
    "\<forall>i j. in_image W W i j \<longrightarrow> pixel im2 i j = (case digit_at cell margin i j of
          Some k \<Rightarrow> if k \<in> set ks then (if digit_odd hash k then bg else fg) else pixel im1 i j
        | None \<Rightarrow> pixel im1 i j)"
    using Cons.IH [OF 1(2)] Cons.prems(2) by auto
  show ?case using 1 2 by (auto split: option.splits)
qed

lemma digit_at_lt: "0 \<le> cell \<Longrightarrow> digit_at cell margin i j = Some k \<Longrightarrow> k < 15"
proof -
  assume c: "0 \<le> cell" and d: "digit_at cell margin i j = Some k"
  have r: "0 \<le> j - margin" "j - margin < 5 * cell" "k = digit_of ((i - margin) div cell) ((j - margin) div cell)"
    using d by (auto simp: digit_at_def split: if_splits)
  then have "0 < cell" by linarith
  then have "0 \<le> (j - margin) div cell" "(j - margin) div cell < 5"
    using r(1) div_lt [OF _ r(2)] by (simp_all add: pos_imp_zdiv_nonneg_iff)
  then have "nat ((j - margin) div cell) < 5" by simp
  then show "k < 15" using r(3) unfolding digit_of_def by (auto split: if_splits)
qed

section \<open>Geometry and colours\<close>

lemma id_geometry:
  assumes "i_size ic \<le> 255" "0 \<le> i_margin ic" "i_margin ic \<le> 1 / 2"
  shows "0 \<le> id_cell ic" "0 \<le> id_margin ic" "id_margin ic + 5 * id_cell ic \<le> int (i_size ic)"
proof -
  define sz bm where "sz = int (i_size ic)" and "bm = floor (rnd (of_int sz * i_margin ic))"
  have sz: "0 \<le> sz" "sz \<le> 255" using assms(1) by (simp_all add: sz_def)
  have m: "0 \<le> of_int sz * i_margin ic" "of_int sz * i_margin ic \<le> of_int sz / 2"
    using assms sz mult_left_mono [OF assms(3), of "of_int sz"] by simp_all
  have "rnd (of_int sz * i_margin ic) < of_int (sz div 2) + 1"
  proof -
    have "of_int sz \<le> (of_int (2 * (sz div 2) + 1) :: rat)" unfolding of_int_le_iff by linarith
    then have h: "of_int sz / 2 \<le> of_int (sz div 2) + (1 / 2 :: rat)" by simp
    have "of_int sz / 2 \<le> (128 :: rat)" using sz(2) by simp
    then have "of_int sz * i_margin ic \<le> 128" by (rule order_trans [OF m(2)])
    then have "of_int sz * i_margin ic * eps \<le> 128 * eps" by (intro mult_right_mono) (simp_all add: less_imp_le)
    moreover have "y < D + 1" if "y \<le> x + x * eps" "x \<le> S" "S \<le> D + 1 / 2" "x * eps \<le> 128 * eps" for x y S D :: rat
      using that eps_small eps_pos by linarith
    ultimately show ?thesis using rnd_bounds(2) [OF m(1)] m(2) h by blast
  qed
  then have "bm \<le> sz div 2" by (simp add: bm_def floor_le_iff)
  then have bm: "0 \<le> bm" "2 * bm \<le> sz" using rnd_nonneg [OF m(1)] by (simp_all add: bm_def)
  have c: "id_cell ic = (sz - bm * 2) div 5"
    using floor_quotient [of "sz - bm * 2" 5] bm sz by (simp add: id_cell_def Let_def sz_def [symmetric] bm_def [symmetric])
  then have c5: "0 \<le> id_cell ic" "5 * id_cell ic \<le> sz" using bm sz by linarith+
  have "id_margin ic = (sz - id_cell ic * 5) div 2"
    using floor_quotient [of "sz - id_cell ic * 5" 2] c5 sz by (simp add: id_margin_def sz_def [symmetric])
  then show "0 \<le> id_cell ic" "0 \<le> id_margin ic" "id_margin ic + 5 * id_cell ic \<le> int (i_size ic)"
    using c5 by (simp_all add: sz_def [symmetric])
qed

lemma hsl_levels_eq:
  "hsl_levels f (rnd (1 / 2)) (rnd (7 / 10)) =
    (let s1 = 1351079888211149 / 9007199254740992; b1 = 7656119366529843 / 9007199254740992;
         s2 = 1351079888211149 / 4503599627370496; b2 = 4953959590107545 / 9007199254740992
     in [Some b1, map_option (\<lambda>f. rnd (b1 - rnd (rnd (f * s1) * 2))) f, Some b2, Some b2,
         map_option (\<lambda>f. rnd (b2 + rnd (f * s2))) f, Some b1])"
proof -
  have "rnd (1 / 2) = 1 / 2" by code_simp
  moreover have "rnd (7 / 10) = 3152519739159347 / 4503599627370496" by code_simp
  moreover have "rnd (1 - 3152519739159347 / 4503599627370496) = 1351079888211149 / 4503599627370496" by code_simp
  moreover have "rnd (1 / 2 * (1351079888211149 / 4503599627370496)) = 1351079888211149 / 9007199254740992" by code_simp
  moreover have "rnd (3152519739159347 / 4503599627370496 + 1351079888211149 / 9007199254740992) = 7656119366529843 / 9007199254740992"
    by code_simp
  moreover have "rnd (1351079888211149 / 9007199254740992 * 2) = 1351079888211149 / 4503599627370496" by code_simp
  moreover have "rnd (7656119366529843 / 9007199254740992 - 1351079888211149 / 4503599627370496) = 4953959590107545 / 9007199254740992"
    by code_simp
  moreover have "rnd (4953959590107545 / 9007199254740992 + 1351079888211149 / 4503599627370496) = 7656119366529843 / 9007199254740992"
    by code_simp
  moreover have "\<not> 3152519739159347 / 4503599627370496 < (1 / 2 :: rat)" by simp
  ultimately show ?thesis unfolding hsl_levels_def Let_def by (simp only: if_False)
qed

definition unit_level :: "rat option \<Rightarrow> bool" where
  "unit_level v = (case v of None \<Rightarrow> True | Some x \<Rightarrow> 0 \<le> x \<and> x \<le> 1)"

lemma product_bounds:
  fixes f s :: rat
  assumes "- 1 \<le> f" "f \<le> 1" "0 \<le> s"
  shows "- s \<le> f * s" "f * s \<le> s"
  using mult_right_mono [OF assms(1,3)] mult_right_mono [OF assms(2,3)] by simp_all

lemma level4_unit:
  assumes "- 1 \<le> f" "f \<le> 1"
  shows "0 \<le> rnd (4953959590107545 / 9007199254740992 + rnd (f * (1351079888211149 / 4503599627370496)))
    \<and> rnd (4953959590107545 / 9007199254740992 + rnd (f * (1351079888211149 / 4503599627370496))) \<le> 1"
proof -
  define s :: rat where "s = 1351079888211149 / 4503599627370496"
  define b :: rat where "b = 4953959590107545 / 9007199254740992"
  have c: "1 / 4 \<le> s" "s \<le> 4 / 10" "1 / 2 \<le> b" "b \<le> 56 / 100" by (simp_all add: s_def b_def)
  define w where "w = f * s"
  have p: "- s \<le> w" "w \<le> s" using product_bounds [OF assms, of s] c by (auto simp: w_def)
  define u where "u = rnd w"
  have u: "w - 1 / 1000000 \<le> u" "u \<le> w + 1 / 1000000" unfolding u_def by (rule rnd_close; use p c in linarith)+
  have "b + u - 1 / 1000000 \<le> rnd (b + u)" "rnd (b + u) \<le> b + u + 1 / 1000000"
    by (rule rnd_close; use u p c in linarith)+
  then show ?thesis
    unfolding s_def [symmetric] b_def [symmetric] w_def [symmetric] u_def [symmetric] using p c u by linarith
qed

lemma level1_unit:
  assumes "0 \<le> f" "f \<le> 1"
  shows "0 \<le> rnd (7656119366529843 / 9007199254740992 - rnd (rnd (f * (1351079888211149 / 9007199254740992)) * 2))
    \<and> rnd (7656119366529843 / 9007199254740992 - rnd (rnd (f * (1351079888211149 / 9007199254740992)) * 2)) \<le> 1"
proof -
  define s :: rat where "s = 1351079888211149 / 9007199254740992"
  define b :: rat where "b = 7656119366529843 / 9007199254740992"
  have c: "0 \<le> s" "s \<le> 2 / 10" "8 / 10 \<le> b" "b \<le> 9 / 10" by (simp_all add: s_def b_def)
  define w where "w = f * s"
  have p: "0 \<le> w" "w \<le> s" using product_bounds [of f s] assms c by (auto simp: w_def)
  define u where "u = rnd w"
  have u: "w - 1 / 1000000 \<le> u" "u \<le> w + 1 / 1000000" unfolding u_def by (rule rnd_close; use p c in linarith)+
  define v where "v = rnd (u * 2)"
  have v: "u * 2 - 1 / 1000000 \<le> v" "v \<le> u * 2 + 1 / 1000000" unfolding v_def by (rule rnd_close; use u p c in linarith)+
  have "b - v - 1 / 1000000 \<le> rnd (b - v)" "rnd (b - v) \<le> b - v + 1 / 1000000" by (rule rnd_close; use u v p c in linarith)+
  then show ?thesis
    unfolding s_def [symmetric] b_def [symmetric] w_def [symmetric] u_def [symmetric] v_def [symmetric] using u v p c by linarith
qed

lemma trunc_small:
  assumes "- 7 < x" "x < 7"
  shows "- 6 \<le> trunc x" "trunc x \<le> 6"
proof -
  have f: "0 \<le> floor y" "floor y \<le> 6" if "0 \<le> y" "y < 7" for y :: rat using that by (simp_all add: floor_le_iff)
  have "- 6 \<le> trunc x \<and> trunc x \<le> 6"
  proof (cases "0 \<le> x")
    case True
    then have "trunc x = floor x" by (simp add: trunc_def)
    then show ?thesis using f [OF True assms(2)] by linarith
  next
    case False
    then have "trunc x = - floor (- x)" "0 \<le> - x" "- x < 7" using assms by (simp_all add: trunc_def)
    then show ?thesis using f [of "- x"] by linarith
  qed
  then show "- 6 \<le> trunc x" "trunc x \<le> 6" by simp_all
qed

lemma frac_range: "0 \<le> x \<Longrightarrow> 0 \<le> frac_part x \<and> frac_part x \<le> 1" "x < 0 \<Longrightarrow> - 1 \<le> frac_part x \<and> frac_part x \<le> 1"
  by (auto simp: frac_part_def trunc_def) linarith+

text \<open>Which levels a hue chooses; the second is chosen by positive hues only.\<close>

lemma level_indices:
  assumes "- 6 \<le> t" "t \<le> 6" "k \<in> {sint (NOT (NOT (of_int t :: u32))), sint ((of_int t :: u32) OR 16), sint ((of_int t :: u32) OR 8)}"
  shows "js_rem k 6 = 1 \<Longrightarrow> 0 < t"
proof -
  have "t = - 6 \<or> t = - 5 \<or> t = - 4 \<or> t = - 3 \<or> t = - 2 \<or> t = - 1 \<or> t = 0 \<or> 0 < t" using assms(1) by linarith
  then show "js_rem k 6 = 1 \<Longrightarrow> 0 < t" using assms(3) by (elim disjE) (auto simp: js_rem_def)
qed

lemma level_at_unit:
  assumes f: "f = map_option frac_part h" and idx: "js_rem k 6 = 1 \<Longrightarrow> \<forall>x. h = Some x \<longrightarrow> 0 \<le> x"
  shows "unit_level (level_at (hsl_levels f (rnd (1 / 2)) (rnd (7 / 10))) k)"
proof -
  have fr: "- 1 \<le> frac_part x \<and> frac_part x \<le> 1" for x
    using frac_range [of x] by (cases "0 \<le> x") (auto intro: order_trans [of _ 0])
  have "js_rem k 6 \<notin> {0..5} \<or> js_rem k 6 = 0 \<or> js_rem k 6 = 1 \<or> js_rem k 6 = 2 \<or> js_rem k 6 = 3 \<or> js_rem k 6 = 4 \<or> js_rem k 6 = 5"
    by auto
  then consider "js_rem k 6 \<notin> {0..5}" | "js_rem k 6 \<in> {0, 2, 3, 5}" | "js_rem k 6 = 1" | "js_rem k 6 = 4" by blast
  then show ?thesis
  proof cases
    case 1
    then show ?thesis by (auto simp: level_at_def hsl_levels_eq Let_def unit_level_def)
  next
    case 2
    then show ?thesis by (auto simp: level_at_def hsl_levels_eq Let_def unit_level_def)
  next
    case 3
    then show ?thesis
      using idx level1_unit frac_range(1) by (cases h) (simp_all add: level_at_def hsl_levels_eq Let_def unit_level_def f)
  next
    case 4
    then show ?thesis using fr level4_unit by (cases h) (simp_all add: level_at_def hsl_levels_eq Let_def unit_level_def f)
  qed
qed

lemma hex_value_lt: "hex_value n s < 16 ^ length s * (n + 1)"
proof (induction s arbitrary: n)
  case (Cons c s)
  have d: "d < 16" if "hexunit c = Some d" for d using that by (auto simp: hexunit_def split: if_splits)
  show ?case
  proof (cases "hexunit c")
    case None
    have "n < 1 * (n + 1)" by simp
    also have "\<dots> \<le> 16 ^ length (c # s) * (n + 1)" by (intro mult_right_mono) simp_all
    finally show ?thesis using None by simp
  next
    case (Some e)
    have "hex_value (16 * n + e) s < 16 ^ length s * (16 * n + e + 1)" by (rule Cons.IH)
    also have "\<dots> \<le> 16 ^ length s * (16 * (n + 1))" using d [OF Some] by (intro mult_left_mono) simp_all
    finally show ?thesis using Some by (simp add: distrib_left mult.assoc mult.left_commute)
  qed
qed simp

text \<open>The digits that \<^verbatim>\<open>parseInt\<close> reads are a suffix of its argument.\<close>

definition skip_sign :: "jsstr \<Rightarrow> jsstr" where
  "skip_sign s = (case s of c # r \<Rightarrow> if c = 45 \<or> c = 43 then r else s | [] \<Rightarrow> [])"

definition skip_0x :: "jsstr \<Rightarrow> jsstr" where
  "skip_0x s = (case s of a # b # r \<Rightarrow> if a = 48 \<and> (b = 120 \<or> b = 88) then r else s | _ \<Rightarrow> s)"

lemma skip_length: "length (skip_sign s) \<le> length s" "length (skip_0x s) \<le> length s"
  by (auto simp: skip_sign_def skip_0x_def split: list.split)

lemma parseInt16_digits:
  assumes "parseInt16 s = Some v"
  shows "\<bar>v\<bar> = int (hex_value 0 (skip_0x (skip_sign (dropWhile is_space s))))"
proof -
  define d t where "d = dropWhile is_space s" and "t = skip_0x (skip_sign d)"
  show ?thesis
    using assms unfolding parseInt16_def Let_def skip_sign_def [symmetric] skip_0x_def [symmetric] d_def [symmetric] t_def [symmetric]
    by (cases t) (auto split: if_splits)
qed

lemma parseInt16_bound:
  assumes "parseInt16 s = Some v" "length s \<le> 7"
  shows "\<bar>v\<bar> \<le> 0xfffffff"
proof -
  define t where "t = skip_0x (skip_sign (dropWhile is_space s))"
  have "length t \<le> length s"
    unfolding t_def by (meson skip_length length_dropWhile_le order_trans)
  then have "(16 :: nat) ^ length t \<le> 16 ^ 7" using assms(2) by (intro power_increasing) simp_all
  moreover have "hex_value 0 t < 16 ^ length t" using hex_value_lt [of 0 t] by simp
  ultimately show ?thesis using parseInt16_digits [OF assms(1)] by (simp add: t_def)
qed

lemma hue_small:
  assumes "\<bar>v\<bar> \<le> 0xfffffff"
  shows "- 7 < rnd (rnd (of_int v / 0xfffffff) * 6)" "rnd (rnd (of_int v / 0xfffffff) * 6) < 7"
proof -
  define x :: rat where "x = of_int v / 0xfffffff"
  have "of_int (- 0xfffffff) \<le> (of_int v :: rat)" "(of_int v :: rat) \<le> of_int 0xfffffff"
    using assms by (simp_all only: of_int_le_iff abs_le_iff) linarith
  then have x: "- 1 \<le> x" "x \<le> 1" by (simp_all add: x_def)
  define y where "y = rnd x"
  have y: "x - 1 / 1000000 \<le> y" "y \<le> x + 1 / 1000000" unfolding y_def by (rule rnd_close; use x in linarith)+
  have "y * 6 - 1 / 1000000 \<le> rnd (y * 6)" "rnd (y * 6) \<le> y * 6 + 1 / 1000000" by (rule rnd_close; use x y in linarith)+
  then show "- 7 < rnd (rnd (of_int v / 0xfffffff) * 6)" "rnd (rnd (of_int v / 0xfffffff) * 6) < 7"
    unfolding x_def [symmetric] y_def [symmetric] using x y by linarith+
qed

lemma fg_components:
  "\<exists>r g b. octets r g b 255 \<and> to_component (fg_rgb ic ! 0) = r \<and> to_component (fg_rgb ic ! 1) = g \<and> to_component (fg_rgb ic ! 2) = b"
proof -
  have comp: "0 \<le> to_component v \<and> to_component v < 256" if u: "unit_level v" for v
  proof (cases v)
    case (Some x)
    then have x: "0 \<le> x * 255" "x * 255 \<le> 255" using u by (simp_all add: unit_level_def)
    then have "0 \<le> rnd (x * 255)" "rnd (x * 255) < 256" using rnd_nonneg [OF x(1)] rnd_close(2) [of "x * 255"] by auto
    then show ?thesis using Some by (simp add: to_component_def trunc_def floor_less_iff)
  qed (simp add: to_component_def)
  define h where "h = map_option (\<lambda>v. rnd (of_int v / 0xfffffff)) (parseInt16 (substr_last 7 (i_hash ic)))"
  define h6 where "h6 = map_option (\<lambda>x. rnd (x * 6)) h"
  define t where "t = (case h6 of None \<Rightarrow> 0 | Some x \<Rightarrow> trunc x)"
  have t6: "- 6 \<le> t \<and> t \<le> 6"
  proof (cases "parseInt16 (substr_last 7 (i_hash ic))")
    case (Some v)
    have "\<bar>v\<bar> \<le> 0xfffffff" using parseInt16_bound [OF Some] by (simp add: substr_last_def)
    then have "h6 = Some (rnd (rnd (of_int v / 0xfffffff) * 6))" "- 7 < rnd (rnd (of_int v / 0xfffffff) * 6)"
      "rnd (rnd (of_int v / 0xfffffff) * 6) < 7"
      using hue_small [of v] by (simp_all add: h6_def h_def Some)
    then show ?thesis using trunc_small by (simp add: t_def)
  qed (simp add: t_def h6_def h_def)
  have pos: "0 < t \<Longrightarrow> h6 = Some x \<Longrightarrow> 0 \<le> x" for x by (auto simp: t_def trunc_def split: if_splits)
  let ?w = "of_int t :: u32"
  have w: "(case h6 of None \<Rightarrow> 0 | Some x \<Rightarrow> of_int (trunc x)) = ?w" by (simp add: t_def split: option.split)
  have lev: "unit_level (level_at (hsl_levels (map_option frac_part h6) (rnd (1 / 2)) (rnd (7 / 10))) k)"
    if "k \<in> {sint (NOT (NOT ?w)), sint (?w OR 16), sint (?w OR 8)}" for k
    by (rule level_at_unit [OF refl]) (use level_indices [OF _ _ that] t6 pos in blast)
  have "fg_rgb ic = map (level_at (hsl_levels (map_option frac_part h6) (rnd (1 / 2)) (rnd (7 / 10))))
      [sint (NOT (NOT ?w)), sint (?w OR 16), sint (?w OR 8)]"
    by (simp add: fg_rgb_def hsl2rgb_def Let_def h_def [symmetric] h6_def [symmetric] w)
  then have "unit_level (fg_rgb ic ! 0)" "unit_level (fg_rgb ic ! 1)" "unit_level (fg_rgb ic ! 2)" using lev by simp_all
  then show ?thesis using comp by (simp add: octets_def)
qed

section \<open>Rendering\<close>

lemma pixel_raster:
  assumes ok: "png_ok im plte trns raster" and xy: "in_image (p_width im) (p_height im) x y"
  shows "pixel im x y = raster ! raster_pos im x y"
proof -
  have pos: "raster_pos im x y < pix_size im" "int (raster_pos im x y) = y * (int (p_width im) + 1) + x + 1"
    using raster_pos_lt [of x im y] xy by (simp_all add: in_image_def)
  obtain ad crc where l: "length ad = 4" "\<forall>k. length (crc k) = 4"
    "p_buffer im = layout (p_width im) (p_height im) plte trns raster ad crc" "length plte = 3 * p_depth im"
    "length trns = p_depth im" "length raster = pix_size im" "data_size im = pix_size im + 11"
    using png_okE [OF ok] by blast
  obtain pre post where a: "length pre = idat_offs im + 15" "p_buffer im = pre @ raster @ post"
    using layout_parts(3) [OF l(4-7,1,2)] l(3) by metis
  have "index im x y = int (idat_offs im + 15 + raster_pos im x y)"
    using index_small [of y im x] pos ok by (simp add: png_ok_def)
  then show ?thesis using a pos(1) l(6) by (simp add: pixel_def nth_append del: of_nat_add)
qed

text \<open>The colour of a pixel: that of the digit of its cell in the pattern, the background elsewhere.\<close>

definition pattern :: "identicon \<Rightarrow> nat \<Rightarrow> int \<Rightarrow> int \<Rightarrow> nat" where
  "pattern ic fg x y =
     (case digit_at (id_cell ic) (id_margin ic) x y of
        Some k \<Rightarrow> if digit_odd (i_hash ic) k then 0 else fg
      | None \<Rightarrow> 0)"

definition proper :: "identicon \<Rightarrow> bool" where
  "proper ic \<longleftrightarrow> 0 < i_size ic \<and> i_size ic \<le> 255 \<and> 0 \<le> i_margin ic \<and> i_margin ic \<le> 1 / 2
     \<and> length (i_background ic) = 4 \<and> list_all (\<lambda>x. 0 \<le> x \<and> x < 256) (i_background ic)"

text \<open>The image with its two colours, before the pattern: the background has index 0 and every pixel.\<close>

lemma two_colors:
  assumes n: "0 < n" "n \<le> 255" and o: "octets r g b a" "octets r' g' b' 255"
  obtains im im1 im2 fg plte trns where "PNGlib n n 256 = Some im" "color im r g b (Some a) = Some (0, im1)"
    "color im1 r' g' b' (Some 255) = Some (fg, im2)" "fg < 256" "image_ok n n plte trns im2"
    "entry plte trns 0 = (r, g, b, a)" "entry plte trns fg = (r', g', b', 255)"
    "\<And>x y. in_image n n x y \<Longrightarrow> pixel im2 x y = 0"
proof -
  define raster where "raster = blank (n * (n + 1))"
  have nn: "0 < n * (n + 1)" "n * (n + 1) \<le> 65535" using n mult_le_mono [of n 255 "n + 1" 256] by simp_all
  obtain im where 0: "PNGlib n n 256 = Some im" "p_width im = n" "p_height im = n" "p_depth im = 256"
    "p_palette im = Map.empty" "p_pindex im = 0" "png_ok im (blank (3 * 256)) (blank 256) raster"
    unfolding raster_def by (rule PNGlib_eq [of n n 256]) (use nn n in simp_all)
  obtain c1 im1 plte1 trns1 where 1: "color im r g b (Some a) = Some (c1, im1)" "png_ok im1 plte1 trns1 raster"
    "pal_ok im1 plte1 trns1" "p_pindex im1 \<le> 1" "p_width im1 = n" "p_height im1 = n" "p_depth im1 = 256"
    "c1 < p_pindex im1" "entry plte1 trns1 c1 = (r, g, b, a)"
    using color_spec [OF 0(7) pal_ok_new [OF 0(5,6)] o(1)] 0 by auto
  have c1: "c1 = 0" "0 < p_pindex im1" using 1(4,8) by simp_all
  obtain fg im2 plte trns where 2: "color im1 r' g' b' (Some 255) = Some (fg, im2)" "png_ok im2 plte trns raster"
    "pal_ok im2 plte trns" "\<forall>k < p_pindex im1. entry plte trns k = entry plte1 trns1 k" "p_width im2 = n" "p_height im2 = n"
    "p_depth im2 = 256" "fg < p_pindex im2" "entry plte trns fg = (r', g', b', 255)"
    using color_spec [OF 1(2,3) o(2)] 1 by auto
  have "pixel im2 x y = 0" if "in_image n n x y" for x y
    using pixel_raster [OF 2(2), of x y] raster_pos_lt [of x im2 y] that 2(2,5,6)
    by (simp add: in_image_def raster_def blank_def png_ok_def pix_size_def)
  moreover have "fg < 256" using 2(3,7,8) by (simp add: pal_ok_def)
  moreover have "image_ok n n plte trns im2" using 2(2,3,5,6) by (auto simp: image_ok_def)
  ultimately show ?thesis using that 0(1) 1(1,9) 2(1,4,9) c1 by simp
qed

lemma render_eq:
  assumes ok: "proper ic"
  obtains im plte trns fg where "render ic = Some im" "image_ok (i_size ic) (i_size ic) plte trns im"
    "entry plte trns 0 = (bg_component ic 0, bg_component ic 1, bg_component ic 2, bg_component ic 3)"
    "entry plte trns fg = (to_component (fg_rgb ic ! 0), to_component (fg_rgb ic ! 1), to_component (fg_rgb ic ! 2), 255)"
    "\<And>x y. in_image (i_size ic) (i_size ic) x y \<Longrightarrow> pixel im x y = pattern ic fg x y"
proof -
  have n: "0 < i_size ic" "i_size ic \<le> 255" "0 \<le> i_margin ic" "i_margin ic \<le> 1 / 2" using ok by (simp_all add: proper_def)
  obtain r g b a where bg: "i_background ic = [r, g, b, a]" using ok length4_cases by (metis proper_def)
  then have o: "octets r g b a" using ok by (simp add: proper_def octets_def)
  obtain r' g' b' where f: "octets r' g' b' 255" "to_component (fg_rgb ic ! 0) = r'" "to_component (fg_rgb ic ! 1) = g'"
    "to_component (fg_rgb ic ! 2) = b'" using fg_components by blast
  obtain im0 im1 im2 fg plte trns where c: "PNGlib (i_size ic) (i_size ic) 256 = Some im0" "color im0 r g b (Some a) = Some (0, im1)"
    "color im1 r' g' b' (Some 255) = Some (fg, im2)" "fg < 256" "image_ok (i_size ic) (i_size ic) plte trns im2"
    "entry plte trns 0 = (r, g, b, a)" "entry plte trns fg = (r', g', b', 255)"
    "\<And>x y. in_image (i_size ic) (i_size ic) x y \<Longrightarrow> pixel im2 x y = 0"
    by (rule two_colors [OF n(1,2) o f(1)]) (rule that)
  note geo = id_geometry [OF n(2-4)]
  obtain im where im: "draw_digits (i_hash ic) (id_cell ic) (id_margin ic) 0 fg [0..<15] im2 = Some im"
    "image_ok (i_size ic) (i_size ic) plte trns im"
    "\<forall>i j. in_image (i_size ic) (i_size ic) i j \<longrightarrow> pixel im i j = (case digit_at (id_cell ic) (id_margin ic) i j of
          Some k \<Rightarrow> if k \<in> set [0..<15] then (if digit_odd (i_hash ic) k then 0 else fg) else pixel im2 i j
        | None \<Rightarrow> pixel im2 i j)"
    using draw_digits_paints [OF c(5) geo, of 0 fg "[0..<15]" "i_hash ic"] c(4) by auto
  have "pixel im x y = pattern ic fg x y" if "in_image (i_size ic) (i_size ic) x y" for x y
    using im(3) that c(8) digit_at_lt [OF geo(1)] by (auto simp: pattern_def split: option.split)
  moreover have "render ic = Some im"
    unfolding render_def using c(1-3) im(1) by (simp add: bg bg_component_def f(2-4) f(3) [unfolded One_nat_def] color_default)
  moreover have "entry plte trns 0 = (bg_component ic 0, bg_component ic 1, bg_component ic 2, bg_component ic 3)"
    using c(6) by (simp add: bg bg_component_def)
  ultimately show ?thesis using that im(2) c(7) f(2-4) by metis
qed

lemma pattern_mirror:
  assumes "0 \<le> id_cell ic"
  shows "pattern ic fg x y = pattern ic fg (2 * id_margin ic + 5 * id_cell ic - 1 - x) y"
proof -
  let ?c = "id_cell ic" and ?m = "id_margin ic"
  define u where "u = x - ?m"
  have x': "2 * ?m + 5 * ?c - 1 - x - ?m = 5 * ?c - 1 - u" by (simp add: u_def)
  have "digit_of ((5 * ?c - 1 - u) div ?c) k = digit_of (u div ?c) k" if "0 \<le> u" "u < 5 * ?c" for k
  proof -
    have c: "0 < ?c" using that by linarith
    have q: "u = u div ?c * ?c + u mod ?c" "0 \<le> u mod ?c" "u mod ?c < ?c" "0 \<le> u div ?c" "u div ?c < 5"
      using that c div_lt [OF c that(2)] by (simp_all add: pos_imp_zdiv_nonneg_iff)
    have "(5 * ?c - 1 - u) div ?c = 4 - u div ?c"
    proof (rule int_div_pos_eq [of _ _ _ "?c - 1 - u mod ?c"])
      show "5 * ?c - 1 - u = ?c * (4 - u div ?c) + (?c - 1 - u mod ?c)" using q(1) by (simp add: algebra_simps)
    qed (use q in simp_all)
    moreover have "u div ?c = 0 \<or> u div ?c = 1 \<or> u div ?c = 2 \<or> u div ?c = 3 \<or> u div ?c = 4" using q(4,5) by linarith
    ultimately show ?thesis by (auto simp: digit_of_def)
  qed
  then have "digit_at ?c ?m x y = digit_at ?c ?m (2 * ?m + 5 * ?c - 1 - x) y"
    unfolding digit_at_def x' u_def [symmetric] by (auto simp: u_def)
  then show ?thesis by (simp add: pattern_def)
qed

section \<open>Hashes of strings\<close>

text \<open>
  The hash made from a string is the decimal text of a polynomial in 31 over the code units of the string, the salt and
  the string again, reduced to a signed 32-bit integer.
\<close>

lemma createHash_polynomial:
  assumes "str \<noteq> []"
  shows "createHashFromString str
    = dec_int (sint (of_nat (foldl (\<lambda>h c. 31 * h + c) 0 (str @ js ''identicon'' @ str)) :: u32))"
proof -
  have step: "hash_step (of_nat n) c = of_nat (31 * n + c)" for n c
    by (simp add: hash_step_def push_bit_eq_mult algebra_simps)
  have "foldl hash_step (of_nat n) s = of_nat (foldl (\<lambda>h c. 31 * h + c) n s)" for n s
    by (induction s arbitrary: n) (simp_all add: step del: of_nat_add of_nat_mult)
  from this [of 0] have "foldl hash_step 0 s = of_nat (foldl (\<lambda>h c. 31 * h + c) 0 s)" for s by simp
  then show ?thesis unfolding createHashFromString_def by (simp only: assms if_False)
qed

section \<open>Properties\<close>

text \<open>
  C6 (functional). An identicon of at most 255 pixels with a proper background and a margin of at most one half is always
  rendered: every pixel has the index its place in the pattern asks for, index 0 stands for the background, and the
  foreground entry has the components computed from the hash, which fit a byte for every hash, even one without digits.
\<close>

theorem render_pattern:
  assumes "proper ic"
  shows "\<exists>im plte trns fg. render ic = Some im \<and> image_ok (i_size ic) (i_size ic) plte trns im
    \<and> entry plte trns 0 = (bg_component ic 0, bg_component ic 1, bg_component ic 2, bg_component ic 3)
    \<and> entry plte trns fg = (to_component (fg_rgb ic ! 0), to_component (fg_rgb ic ! 1), to_component (fg_rgb ic ! 2), 255)
    \<and> (\<forall>x y. in_image (i_size ic) (i_size ic) x y \<longrightarrow> pixel im x y = pattern ic fg x y)"
  using render_eq [OF assms] by metis

theorem render_pattern_witness:
  "\<exists>im plte trns fg. render (Identicon_new [] (js ''d41d8cd98f00b204e9800998ecf8427e'') (Num 64) None) = Some im
    \<and> entry plte trns 0 = (240, 240, 240, 255)
    \<and> (\<forall>x y. in_image 64 64 x y \<longrightarrow>
        pixel im x y = pattern (Identicon_new [] (js ''d41d8cd98f00b204e9800998ecf8427e'') (Num 64) None) fg x y)"
proof -
  define h where "h = js ''d41d8cd98f00b204e9800998ecf8427e''"
  let ?ic = "Identicon_new [] h (Num 64) None"
  have m: "rnd (2 / 25) = 5764607523034235 / 72057594037927936" by code_simp
  have f: "i_size ?ic = 64" "i_margin ?ic = 5764607523034235 / 72057594037927936" "i_background ?ic = [240, 240, 240, 255]"
    by (simp_all add: Identicon_new_def id_defaults_def or_else_def Let_def m)
  have "proper ?ic" by (simp add: proper_def f)
  from render_pattern [OF this] show ?thesis unfolding h_def [symmetric] by (auto simp: f bg_component_def)
qed

text \<open>
  C7 (safety). The picture is symmetric: the pattern looks the same from left to right and from right to left, row by row.
\<close>

theorem identicon_mirror:
  assumes "proper ic" "id_margin ic \<le> x" "x < id_margin ic + 5 * id_cell ic" "0 \<le> y" "y < int (i_size ic)"
  shows "\<exists>im. render ic = Some im \<and> pixel im x y = pixel im (2 * id_margin ic + 5 * id_cell ic - 1 - x) y"
proof -
  have geo: "0 \<le> id_cell ic" "0 \<le> id_margin ic" "id_margin ic + 5 * id_cell ic \<le> int (i_size ic)"
    using id_geometry assms(1) by (simp_all add: proper_def)
  then have "in_image (i_size ic) (i_size ic) x y" "in_image (i_size ic) (i_size ic) (2 * id_margin ic + 5 * id_cell ic - 1 - x) y"
    using assms(2-5) by (simp_all add: in_image_def)
  then show ?thesis using render_eq [OF assms(1)] pattern_mirror [OF geo(1)] by metis
qed

theorem identicon_mirror_witness:
  "\<exists>im. render \<lparr>i_background = [240, 240, 240, 255], i_hash = js ''0123456789abcdef'', i_margin = 1 / 4, i_size = 64\<rparr> = Some im
    \<and> pixel im 17 20 = pixel im 46 20"
proof -
  let ?ic = "\<lparr>i_background = [240, 240, 240, 255], i_hash = js ''0123456789abcdef'', i_margin = 1 / 4, i_size = 64\<rparr>"
  have "id_cell ?ic = 6" "id_margin ?ic = 17" by code_simp+
  moreover have "proper ?ic" by (simp add: proper_def)
  ultimately show ?thesis using identicon_mirror [of ?ic 17 20] by simp
qed

end
