(* ===== verification/JsVal.thy ===== *)
theory JsVal
  imports JsBase JsNum "HOL-Library.Multiset"
begin

text \<open>
  What the table scripts use of JavaScript beyond \<open>JsBase\<close>: numbers with \<^verbatim>\<open>NaN\<close> and the infinities, the conversions
  between strings and numbers, the comparison operators on mixed values, and the contract of \<^verbatim>\<open>Array.prototype.sort\<close>.
  The exponent range of numbers and the sign of zero are left out.
\<close>

section \<open>Strings\<close>

definition js_trim :: "jsstr \<Rightarrow> jsstr" where
  "js_trim s = rev (dropWhile is_space (rev (dropWhile is_space s)))"

fun split_on :: "nat \<Rightarrow> jsstr \<Rightarrow> jsstr list" where
  "split_on c [] = [[]]"
| "split_on c (x # xs) =
     (if x = c then [] # split_on c xs
      else case split_on c xs of y # ys \<Rightarrow> (x # y) # ys | [] \<Rightarrow> [[x]])"

text \<open>\<^verbatim>\<open>s.indexOf(p) >= 0\<close>.\<close>

fun occurs :: "jsstr \<Rightarrow> jsstr \<Rightarrow> bool" where
  "occurs p [] \<longleftrightarrow> p = []"
| "occurs p (x # xs) \<longleftrightarrow> take (length p) (x # xs) = p \<or> occurs p xs"

text \<open>The order of strings by code units.\<close>

fun str_less :: "jsstr \<Rightarrow> jsstr \<Rightarrow> bool" where
  "str_less [] ys \<longleftrightarrow> ys \<noteq> []"
| "str_less (x # xs) [] \<longleftrightarrow> False"
| "str_less (x # xs) (y # ys) \<longleftrightarrow> x < y \<or> (x = y \<and> str_less xs ys)"

lemma occurs_iff: "occurs p s \<longleftrightarrow> (\<exists>a b. s = a @ p @ b)"
proof (induction s)
  case Nil
  then show ?case by auto
next
  case (Cons x s)
  have "take (length p) (x # s) = p \<longleftrightarrow> (\<exists>b. x # s = p @ b)"
    by (metis append_eq_conv_conj append_take_drop_id)
  moreover have "(\<exists>a b. s = a @ p @ b) \<longleftrightarrow> (\<exists>a b. x # s = (x # a) @ p @ b)" by simp
  ultimately show ?case
    unfolding occurs.simps Cons.IH by (metis append_Cons append_Nil list.exhaust list.sel(3))
qed

lemma str_less_irrefl [simp]: "\<not> str_less s s"
  by (induction s) auto

lemma str_less_total: "str_less a b \<or> a = b \<or> str_less b a"
proof (induction a b rule: str_less.induct)
  case (1 ys)
  then show ?case by (cases ys) auto
qed auto

lemma str_less_trans: "str_less a b \<Longrightarrow> str_less b c \<Longrightarrow> str_less a c"
proof (induction a b arbitrary: c rule: str_less.induct)
  case (1 ys)
  then show ?case by (cases c; cases ys) auto
next
  case (3 x xs y ys)
  then show ?case by (cases c) auto
qed simp

lemma str_less_asym: "str_less a b \<Longrightarrow> \<not> str_less b a"
  using str_less_trans [of a b a] by auto

section \<open>Numbers\<close>

datatype jsnum = NaN | Inf bool | Fin rat

datatype jsval = VStr jsstr | VNum jsnum

definition is_digit :: "nat \<Rightarrow> bool" where
  "is_digit c \<longleftrightarrow> 48 \<le> c \<and> c \<le> 57"

definition dec_val :: "jsstr \<Rightarrow> nat" where
  "dec_val ds = foldl (\<lambda>a c. 10 * a + (c - 48)) 0 ds"

definition sign_of :: "jsstr \<Rightarrow> bool \<times> jsstr" where
  "sign_of s = (case s of c # r \<Rightarrow> if c = 45 then (True, r) else if c = 43 then (False, r) else (False, s) | [] \<Rightarrow> (False, []))"

definition exponent_of :: "jsstr \<Rightarrow> int \<times> jsstr" where
  "exponent_of s =
     (case s of
        [] \<Rightarrow> (0, [])
      | c # r \<Rightarrow>
          (let (neg, r1) = sign_of r; ds = takeWhile is_digit r1 in
           if (c = 101 \<or> c = 69) \<and> ds \<noteq> [] then ((if neg then - int (dec_val ds) else int (dec_val ds)), dropWhile is_digit r1)
           else (0, s)))"

text \<open>The longest decimal literal at the start of a string, and what follows it.\<close>

definition decimal :: "jsstr \<Rightarrow> (jsnum \<times> jsstr) option" where
  "decimal s =
     (let (neg, s1) = sign_of s in
      if take 8 s1 = js ''Infinity'' then Some (Inf neg, drop 8 s1)
      else
        let ip = takeWhile is_digit s1; r1 = dropWhile is_digit s1;
            (fp, r2) = (case r1 of c # r \<Rightarrow> if c = 46 then (takeWhile is_digit r, dropWhile is_digit r) else ([], r1) | [] \<Rightarrow> ([], []))
        in if ip = [] \<and> fp = [] then None
           else let (e, r3) = exponent_of r2; k = e - int (length fp); n = (of_nat (dec_val (ip @ fp)) :: rat);
                    v = (if 0 \<le> k then n * 10 ^ nat k else n / 10 ^ nat (- k))
                in Some (Fin (rnd (if neg then - v else v)), r3))"

definition parseFloat :: "jsstr \<Rightarrow> jsnum" where
  "parseFloat s = (case decimal (dropWhile is_space s) of None \<Rightarrow> NaN | Some (v, _) \<Rightarrow> v)"

definition radix_digit :: "nat \<Rightarrow> nat \<Rightarrow> nat option" where
  "radix_digit b c =
     (let d = (if is_digit c then c - 48 else if 97 \<le> c \<and> c \<le> 122 then c - 87 else if 65 \<le> c \<and> c \<le> 90 then c - 55 else 99)
      in if d < b then Some d else None)"

definition radix_literal :: "nat \<Rightarrow> jsstr \<Rightarrow> jsnum" where
  "radix_literal b s =
     (if s \<noteq> [] \<and> list_all (\<lambda>c. radix_digit b c \<noteq> None) s
      then Fin (rnd (of_nat (foldl (\<lambda>a c. b * a + the (radix_digit b c)) 0 s))) else NaN)"

text \<open>The conversion of a string to a number by an operator: the whole trimmed string is a literal or empty.\<close>

definition string_number :: "jsstr \<Rightarrow> jsnum" where
  "string_number s =
     (case js_trim s of
        [] \<Rightarrow> Fin 0
      | u \<Rightarrow>
          (case u of
             a # b # r \<Rightarrow>
               if a = 48 \<and> (b = 120 \<or> b = 88) then radix_literal 16 r
               else if a = 48 \<and> (b = 111 \<or> b = 79) then radix_literal 8 r
               else if a = 48 \<and> (b = 98 \<or> b = 66) then radix_literal 2 r
               else (case decimal u of Some (v, []) \<Rightarrow> v | _ \<Rightarrow> NaN)
           | _ \<Rightarrow> (case decimal u of Some (v, []) \<Rightarrow> v | _ \<Rightarrow> NaN)))"

fun to_number :: "jsval \<Rightarrow> jsnum" where
  "to_number (VStr s) = string_number s"
| "to_number (VNum n) = n"

fun truthy :: "jsval \<Rightarrow> bool" where
  "truthy (VStr s) \<longleftrightarrow> s \<noteq> []"
| "truthy (VNum n) \<longleftrightarrow> n \<noteq> NaN \<and> n \<noteq> Fin 0"

fun num_less :: "jsnum \<Rightarrow> jsnum \<Rightarrow> bool" where
  "num_less (Fin a) (Fin b) \<longleftrightarrow> a < b"
| "num_less (Inf s) (Fin b) \<longleftrightarrow> s"
| "num_less (Fin a) (Inf s) \<longleftrightarrow> \<not> s"
| "num_less (Inf s) (Inf u) \<longleftrightarrow> s \<and> \<not> u"
| "num_less _ _ \<longleftrightarrow> False"

fun num_sub :: "jsnum \<Rightarrow> jsnum \<Rightarrow> jsnum" where
  "num_sub (Fin a) (Fin b) = Fin (rnd (a - b))"
| "num_sub (Inf s) (Fin b) = Inf s"
| "num_sub (Fin a) (Inf s) = Inf (\<not> s)"
| "num_sub (Inf s) (Inf u) = (if s = u then NaN else Inf s)"
| "num_sub _ _ = NaN"

fun num_add :: "jsnum \<Rightarrow> jsnum \<Rightarrow> jsnum" where
  "num_add (Fin a) (Fin b) = Fin (rnd (a + b))"
| "num_add (Inf s) (Fin b) = Inf s"
| "num_add (Fin a) (Inf s) = Inf s"
| "num_add (Inf s) (Inf u) = (if s = u then Inf s else NaN)"
| "num_add _ _ = NaN"

fun num_mul :: "jsnum \<Rightarrow> jsnum \<Rightarrow> jsnum" where
  "num_mul (Fin a) (Fin b) = Fin (rnd (a * b))"
| "num_mul (Inf s) (Fin b) = (if b = 0 then NaN else Inf (s \<noteq> (b < 0)))"
| "num_mul (Fin a) (Inf s) = (if a = 0 then NaN else Inf (s \<noteq> (a < 0)))"
| "num_mul (Inf s) (Inf u) = Inf (s \<noteq> u)"
| "num_mul _ _ = NaN"

text \<open>Division by a positive literal.\<close>

fun num_over :: "jsnum \<Rightarrow> rat \<Rightarrow> jsnum" where
  "num_over (Fin a) b = Fin (rnd (a / b))"
| "num_over v b = v"

definition num_min :: "jsnum \<Rightarrow> jsnum \<Rightarrow> jsnum" where
  "num_min a b = (if a = NaN \<or> b = NaN then NaN else if num_less b a then b else a)"

text \<open>\<^verbatim>\<open>v | 0\<close>.\<close>

definition int32 :: "jsnum \<Rightarrow> int" where
  "int32 v = (case v of Fin q \<Rightarrow> sint (of_int (trunc q) :: u32) | _ \<Rightarrow> 0)"

definition num_le :: "jsnum \<Rightarrow> jsnum \<Rightarrow> bool" where
  "num_le a b \<longleftrightarrow> a \<noteq> NaN \<and> b \<noteq> NaN \<and> \<not> num_less b a"

text \<open>General division, \<^verbatim>\<open>Math.abs\<close>, \<^verbatim>\<open>Math.max\<close> and \<^verbatim>\<open>Math.round\<close>; a zero divisor counts as positive.\<close>

fun num_div :: "jsnum \<Rightarrow> jsnum \<Rightarrow> jsnum" where
  "num_div (Fin a) (Fin b) = (if b = 0 then (if a = 0 then NaN else Inf (a < 0)) else Fin (rnd (a / b)))"
| "num_div (Inf s) (Fin b) = Inf (s \<noteq> (b < 0))"
| "num_div (Fin a) (Inf s) = Fin 0"
| "num_div _ _ = NaN"

fun num_abs :: "jsnum \<Rightarrow> jsnum" where
  "num_abs NaN = NaN"
| "num_abs (Inf s) = Inf False"
| "num_abs (Fin q) = Fin \<bar>q\<bar>"

definition num_max :: "jsnum \<Rightarrow> jsnum \<Rightarrow> jsnum" where
  "num_max a b = (if a = NaN \<or> b = NaN then NaN else if num_less a b then b else a)"

fun num_round :: "jsnum \<Rightarrow> jsnum" where
  "num_round NaN = NaN"
| "num_round (Inf s) = Inf s"
| "num_round (Fin q) = Fin (of_int (floor (q + 1 / 2)))"

fun js_less :: "jsval \<Rightarrow> jsval \<Rightarrow> bool" where
  "js_less (VStr a) (VStr b) \<longleftrightarrow> str_less a b"
| "js_less a b \<longleftrightarrow> num_less (to_number a) (to_number b)"

fun js_same :: "jsval \<Rightarrow> jsval \<Rightarrow> bool" where
  "js_same (VStr a) (VStr b) \<longleftrightarrow> a = b"
| "js_same (VNum a) (VNum b) \<longleftrightarrow> a = b \<and> a \<noteq> NaN"
| "js_same _ _ \<longleftrightarrow> False"

text \<open>What \<^verbatim>\<open>sort\<close> reads of a comparison's result: its sign, and nothing of \<^verbatim>\<open>NaN\<close>.\<close>

fun num_sign :: "jsnum \<Rightarrow> int" where
  "num_sign NaN = 0"
| "num_sign (Inf s) = (if s then -1 else 1)"
| "num_sign (Fin q) = (if q < 0 then -1 else if 0 < q then 1 else 0)"

lemma eps_less_1: "eps < 1"
  by (rule order.strict_trans1 [of _ "1 / 2 ^ 53"]) (simp_all add: eps_def pow2_def)

lemma rnd_sign: "rnd x < 0 \<longleftrightarrow> x < 0" "0 < rnd x \<longleftrightarrow> 0 < x"
proof -
  have gen: "(r < 0 \<longleftrightarrow> x < 0) \<and> (0 < r \<longleftrightarrow> 0 < x)" if "\<bar>r - x\<bar> \<le> a" "a < \<bar>x\<bar> \<or> (a = 0 \<and> x = 0)" for r a :: rat
    using that by (auto simp: abs_if split: if_splits)
  have "\<bar>x\<bar> * eps < \<bar>x\<bar> \<or> (\<bar>x\<bar> * eps = 0 \<and> x = 0)"
    using mult_strict_left_mono [OF eps_less_1, of "\<bar>x\<bar>"] by (cases "x = 0") (simp_all del: mult_less_cancel_left2)
  from gen [OF rnd_error this] show "rnd x < 0 \<longleftrightarrow> x < 0" "0 < rnd x \<longleftrightarrow> 0 < x" by auto
qed

lemma num_sign_sub: "num_sign (num_sub (Fin a) (Fin b)) = (if a < b then -1 else if b < a then 1 else 0)"
  by (simp add: rnd_sign)

section \<open>Sorting an array\<close>

text \<open>
  The language promises that the result is a permutation of the array and that it is in order whenever the comparison
  is consistent on the elements. Which permutation it is otherwise, and whether equal elements keep their order, is left
  to the engine: the sort is an argument of the definitions that use it.
\<close>

definition consistent :: "('a \<Rightarrow> 'a \<Rightarrow> int) \<Rightarrow> 'a set \<Rightarrow> bool" where
  "consistent cmp A \<longleftrightarrow>
     (\<forall>x \<in> A. \<forall>y \<in> A. sgn (cmp x y) = - sgn (cmp y x)) \<and>
     (\<forall>x \<in> A. \<forall>y \<in> A. \<forall>z \<in> A. cmp x y \<le> 0 \<longrightarrow> cmp y z \<le> 0 \<longrightarrow> cmp x z \<le> 0)"

lemma consistent_sgn: "consistent cmp A \<Longrightarrow> x \<in> A \<Longrightarrow> y \<in> A \<Longrightarrow> sgn (cmp x y) = - sgn (cmp y x)"
  unfolding consistent_def by blast

lemma consistent_trans:
  "consistent cmp A \<Longrightarrow> x \<in> A \<Longrightarrow> y \<in> A \<Longrightarrow> z \<in> A \<Longrightarrow> cmp x y \<le> 0 \<Longrightarrow> cmp y z \<le> 0 \<Longrightarrow> cmp x z \<le> 0"
  unfolding consistent_def by blast

lemma consistent_mono: "consistent cmp A \<Longrightarrow> B \<subseteq> A \<Longrightarrow> consistent cmp B"
  unfolding consistent_def by blast

definition sorts :: "(('a \<Rightarrow> 'a \<Rightarrow> int) \<Rightarrow> 'a list \<Rightarrow> 'a list) \<Rightarrow> bool" where
  "sorts srt \<longleftrightarrow>
     (\<forall>cmp xs. mset (srt cmp xs) = mset xs \<and>
        (consistent cmp (set xs) \<longrightarrow> sorted_wrt (\<lambda>a b. cmp a b \<le> 0) (srt cmp xs)))"

locale array_sort =
  fixes srt :: "('a \<Rightarrow> 'a \<Rightarrow> int) \<Rightarrow> 'a list \<Rightarrow> 'a list"
  assumes srt_mset: "mset (srt cmp xs) = mset xs"
    and srt_sorted: "consistent cmp (set xs) \<Longrightarrow> sorted_wrt (\<lambda>a b. cmp a b \<le> 0) (srt cmp xs)"
begin

lemma srt_set: "set (srt cmp xs) = set xs"
  using srt_mset [of cmp xs] by (metis set_mset_mset)

lemma srt_length: "length (srt cmp xs) = length xs"
  using srt_mset [of cmp xs] by (metis size_mset)

lemma srt_first_le:
  assumes "consistent cmp (set xs)" "srt cmp xs = a # r" "b \<in> set xs"
  shows "cmp a b \<le> 0"
proof (cases "b = a")
  case True
  have "sgn (cmp a a) = - sgn (cmp a a)" using True assms(1,3) by (intro consistent_sgn) auto
  then show ?thesis using True by (simp add: sgn_if split: if_splits)
next
  case False
  then have "b \<in> set r" using assms srt_set [of cmp xs] by auto
  then show ?thesis using srt_sorted [OF assms(1)] assms(2) by simp
qed

end

lemma sorts_array_sort: "sorts srt \<longleftrightarrow> array_sort srt"
  unfolding sorts_def array_sort_def by blast

text \<open>The insertion sort that engines use on short arrays: each element moves left past the greater ones.\<close>

definition insert_last :: "('a \<Rightarrow> 'a \<Rightarrow> int) \<Rightarrow> 'a list \<Rightarrow> 'a \<Rightarrow> 'a list" where
  "insert_last cmp ys x =
     rev (dropWhile (\<lambda>y. 0 < cmp y x) (rev ys)) @ x # rev (takeWhile (\<lambda>y. 0 < cmp y x) (rev ys))"

definition insertion_sort :: "('a \<Rightarrow> 'a \<Rightarrow> int) \<Rightarrow> 'a list \<Rightarrow> 'a list" where
  "insertion_sort cmp xs = foldl (insert_last cmp) [] xs"

lemma insert_last_split:
  "\<exists>l r. ys = l @ r \<and> insert_last cmp ys x = l @ x # r \<and> (\<forall>y \<in> set r. 0 < cmp y x) \<and> (l \<noteq> [] \<longrightarrow> cmp (last l) x \<le> 0)"
proof -
  let ?l = "rev (dropWhile (\<lambda>y. 0 < cmp y x) (rev ys))" and ?r = "rev (takeWhile (\<lambda>y. 0 < cmp y x) (rev ys))"
  have "ys = ?l @ ?r" by (metis rev_append rev_rev_ident takeWhile_dropWhile_id)
  moreover have "\<forall>y \<in> set ?r. 0 < cmp y x" using set_takeWhileD by fastforce
  moreover have "?l \<noteq> [] \<longrightarrow> cmp (last ?l) x \<le> 0"
    using hd_dropWhile [of "\<lambda>y. 0 < cmp y x" "rev ys"] by (auto simp: last_rev not_less)
  ultimately show ?thesis unfolding insert_last_def by blast
qed

lemma mset_insert_last: "mset (insert_last cmp ys x) = add_mset x (mset ys)"
  using insert_last_split [of ys cmp x] by auto

lemma set_insert_last: "set (insert_last cmp ys x) = insert x (set ys)"
  using mset_insert_last [of cmp ys x] by (metis set_mset_add_mset_insert set_mset_mset)

lemma sorted_insert_last:
  assumes "consistent cmp (insert x (set ys))" "sorted_wrt (\<lambda>a b. cmp a b \<le> 0) ys"
  shows "sorted_wrt (\<lambda>a b. cmp a b \<le> 0) (insert_last cmp ys x)"
proof -
  from insert_last_split [of ys cmp x] obtain l r
    where s: "ys = l @ r" "insert_last cmp ys x = l @ x # r" "\<forall>y \<in> set r. 0 < cmp y x" "l \<noteq> [] \<longrightarrow> cmp (last l) x \<le> 0"
    by blast
  have neg: "cmp x y \<le> 0" if "y \<in> set r" for y
  proof -
    have "sgn (cmp x y) = - sgn (cmp y x)" using that s(1) by (intro consistent_sgn [OF assms(1)]) auto
    then show ?thesis using s(3) that by (simp add: sgn_if split: if_splits)
  qed
  have left: "cmp y x \<le> 0" if y: "y \<in> set l" for y
  proof -
    have ne: "l \<noteq> []" using y by auto
    obtain k z where k: "l = k @ [z]" using ne by (metis append_butlast_last_id)
    then have z: "last l = z" by simp
    have "set l = insert z (set k)" using k by simp
    moreover have "sorted_wrt (\<lambda>a b. cmp a b \<le> 0) (k @ [z])" using assms(2) k s(1) by (simp add: sorted_wrt_append)
    ultimately have "y = z \<or> cmp y z \<le> 0" using y by (auto simp: sorted_wrt_append)
    then have "y = last l \<or> cmp y (last l) \<le> 0" using z by simp
    moreover have "cmp (last l) x \<le> 0" using s(4) ne by blast
    moreover have "y \<in> insert x (set ys)" "last l \<in> insert x (set ys)" using y ne s(1) by auto
    ultimately show ?thesis using consistent_trans [OF assms(1), of y "last l" x] by blast
  qed
  show ?thesis using assms(2) neg left unfolding s(2) by (auto simp: s(1) sorted_wrt_append)
qed

lemma insertion_sort_gen:
  "mset (foldl (insert_last cmp) ys xs) = mset ys + mset xs \<and>
   (consistent cmp (set ys \<union> set xs) \<longrightarrow> sorted_wrt (\<lambda>a b. cmp a b \<le> 0) ys \<longrightarrow>
     sorted_wrt (\<lambda>a b. cmp a b \<le> 0) (foldl (insert_last cmp) ys xs))"
proof (induction xs arbitrary: ys)
  case (Cons x xs)
  have "sorted_wrt (\<lambda>a b. cmp a b \<le> 0) (insert_last cmp ys x)"
    if "consistent cmp (set ys \<union> set (x # xs))" "sorted_wrt (\<lambda>a b. cmp a b \<le> 0) ys"
    using that by (intro sorted_insert_last) (auto elim: consistent_mono)
  then show ?case using Cons.IH [of "insert_last cmp ys x"] by (auto simp: mset_insert_last set_insert_last)
qed simp

interpretation isort: array_sort insertion_sort
  by unfold_locales (use insertion_sort_gen [where ys = "[]"] in \<open>auto simp: insertion_sort_def\<close>)

lemma insertion_sort_sorts: "sorts insertion_sort"
  unfolding sorts_array_sort by unfold_locales

end
