(* ===== verification/Jdenticon.thy ===== *)
theory Jdenticon
  imports Identicon JsVal
begin

text \<open>
  \<^verbatim>\<open>src/src/qt/res/assets/plugins/jdenticon/jdenticon-1.3.2.js\<close>: icons of polygons and circles made from a hash, drawn on a
  canvas or as an SVG text. Coordinates are finite, since the cell size is an integer of 32 bits; sizes, paddings and
  lightnesses may also be \<^verbatim>\<open>NaN\<close> or infinite. The generator works on any renderer, here a record of its four methods; what
  it needs of one is the locale \<open>draws\<close>, which the SVG and the canvas renderer interpret. A canvas context is the list of
  the calls it received. The parser of the browser, the search for elements and their measured sizes are parameters.
\<close>

section \<open>The text of a number\<close>

definition pow10 :: "int \<Rightarrow> rat" where
  "pow10 k = (if 0 \<le> k then 10 ^ nat k else 1 / 10 ^ nat (- k))"

text \<open>
  The text of a number: the fewest decimal digits that read back as the number (seventeen always do), the closest to it if
  there are several, written with an exponent only if it is large or small.
\<close>

definition dec_exponent :: "rat \<Rightarrow> int" where
  "dec_exponent q =
     (case quotient_of q of (a, b) \<Rightarrow>
        let k = int (length (dec_nat (nat a))) - int (length (dec_nat (nat b)))
        in if pow10 k \<le> q then k + 1 else k)"

text \<open>The closest decimal of \<open>k\<close> digits, as its digits and its exponent; rounding up may give one more digit.\<close>

definition dec_digits :: "rat \<Rightarrow> nat \<Rightarrow> int \<times> int" where
  "dec_digits q k =
     (let n = dec_exponent q; s = round_even (q / pow10 (n - int k))
      in if s = 10 ^ k then (10 ^ (k - 1), n + 1) else (s, n))"

definition dec_length :: "rat \<Rightarrow> nat" where
  "dec_length q =
     (case find (\<lambda>k. case dec_digits q k of (s, n) \<Rightarrow> rnd (of_int s * pow10 (n - int k)) = q) [1..<17] of
        Some k \<Rightarrow> k
      | None \<Rightarrow> 17)"

definition pos_text :: "rat \<Rightarrow> jsstr" where
  "pos_text q =
     (let k = dec_length q; (s, n) = dec_digits q k; ds = dec_nat (nat s)
      in if int k \<le> n \<and> n \<le> 21 then ds @ replicate (nat (n - int k)) 48
         else if 0 < n \<and> n \<le> 21 then take (nat n) ds @ js ''.'' @ drop (nat n) ds
         else if - 6 < n \<and> n \<le> 0 then js ''0.'' @ replicate (nat (- n)) 48 @ ds
         else take 1 ds @ (if k = 1 then [] else js ''.'' @ drop 1 ds) @ js ''e'' @ (if n < 1 then js ''-'' else js ''+'') @
              dec_nat (nat \<bar>n - 1\<bar>))"

definition fin_text :: "rat \<Rightarrow> jsstr" where
  "fin_text q = (if q = 0 then js ''0'' else if q < 0 then js ''-'' @ pos_text (- q) else pos_text q)"

fun num_text :: "jsnum \<Rightarrow> jsstr" where
  "num_text NaN = js ''NaN''"
| "num_text (Inf s) = (if s then js ''-Infinity'' else js ''Infinity'')"
| "num_text (Fin q) = fin_text q"

section \<open>Points\<close>

type_synonym point = "rat \<times> rat"

record transform =
  tr_x :: rat
  tr_y :: rat
  tr_size :: rat
  tr_rotation :: nat

text \<open>\<^verbatim>\<open>Transform.prototype.transformPoint\<close>; an absent width or height is 0.\<close>

definition transformPoint :: "transform \<Rightarrow> rat \<Rightarrow> rat \<Rightarrow> rat \<Rightarrow> rat \<Rightarrow> point" where
  "transformPoint t x y w h =
     (let right = rnd (tr_x t + tr_size t); bottom = rnd (tr_y t + tr_size t)
      in if tr_rotation t = 1 then (rnd (rnd (right - y) - h), rnd (tr_y t + x))
         else if tr_rotation t = 2 then (rnd (rnd (right - x) - w), rnd (rnd (bottom - y) - h))
         else if tr_rotation t = 3 then (rnd (tr_x t + y), rnd (rnd (bottom - x) - w))
         else (rnd (tr_x t + x), rnd (tr_y t + y)))"

definition noTransform :: transform where
  "noTransform = \<lparr>tr_x = 0, tr_y = 0, tr_size = 0, tr_rotation = 0\<rparr>"

section \<open>Graphics\<close>

text \<open>The methods of a renderer, on states of type \<open>'s\<close>.\<close>

record 's renderer =
  beginShape :: "jsstr \<Rightarrow> 's \<Rightarrow> 's"
  endShape :: "'s \<Rightarrow> 's"
  rd_polygon :: "point list \<Rightarrow> 's \<Rightarrow> 's"
  rd_circle :: "point \<Rightarrow> rat \<Rightarrow> bool \<Rightarrow> 's \<Rightarrow> 's"

text \<open>
  The object \<^verbatim>\<open>Graphics\<close>: a renderer and the current transformation. The array of a polygon has the coordinates of its
  points one after the other; inverted, it is walked from the last point to the first.
\<close>

record 's graphics =
  g_renderer :: "'s renderer"
  g_transform :: transform

definition Graphics_new :: "'s renderer \<Rightarrow> 's graphics" where
  "Graphics_new R = \<lparr>g_renderer = R, g_transform = noTransform\<rparr>"

fun poly_points :: "transform \<Rightarrow> rat list \<Rightarrow> point list" where
  "poly_points t (x # y # ps) = transformPoint t x y 0 0 # poly_points t ps"
| "poly_points t _ = []"

definition addPolygon :: "'s graphics \<Rightarrow> rat list \<Rightarrow> bool \<Rightarrow> 's \<Rightarrow> 's" where
  "addPolygon g points invert =
     rd_polygon (g_renderer g)
       (if invert then rev (poly_points (g_transform g) points) else poly_points (g_transform g) points)"

definition addCircle :: "'s graphics \<Rightarrow> rat \<Rightarrow> rat \<Rightarrow> rat \<Rightarrow> bool \<Rightarrow> 's \<Rightarrow> 's" where
  "addCircle g x y sz invert = rd_circle (g_renderer g) (transformPoint (g_transform g) x y sz sz) sz invert"

definition addRectangle :: "'s graphics \<Rightarrow> rat \<Rightarrow> rat \<Rightarrow> rat \<Rightarrow> rat \<Rightarrow> bool \<Rightarrow> 's \<Rightarrow> 's" where
  "addRectangle g x y w h invert =
     addPolygon g [x, y, rnd (x + w), y, rnd (x + w), rnd (y + h), x, rnd (y + h)] invert"

definition js_splice :: "nat \<Rightarrow> nat \<Rightarrow> 'a list \<Rightarrow> 'a list" where
  "js_splice i n xs = take i xs @ drop (i + n) xs"

definition addTriangle :: "'s graphics \<Rightarrow> rat \<Rightarrow> rat \<Rightarrow> rat \<Rightarrow> rat \<Rightarrow> nat \<Rightarrow> bool \<Rightarrow> 's \<Rightarrow> 's" where
  "addTriangle g x y w h r invert =
     addPolygon g (js_splice ((r mod 4) * 2) 2 [rnd (x + w), y, rnd (x + w), rnd (y + h), x, rnd (y + h), x, y]) invert"

definition addRhombus :: "'s graphics \<Rightarrow> rat \<Rightarrow> rat \<Rightarrow> rat \<Rightarrow> rat \<Rightarrow> bool \<Rightarrow> 's \<Rightarrow> 's" where
  "addRhombus g x y w h invert =
     addPolygon g
       [rnd (x + rnd (w / 2)), y, rnd (x + w), rnd (y + rnd (h / 2)), rnd (x + rnd (w / 2)), rnd (y + h), x, rnd (y + rnd (h / 2))]
       invert"

section \<open>Shapes\<close>

text \<open>The functions of \<^verbatim>\<open>shapes.center\<close> and \<^verbatim>\<open>shapes.outer\<close>; \<open>cell\<close> is the size of a cell and \<open>i\<close> the index of the position.\<close>

type_synonym 's shape = "'s graphics \<Rightarrow> rat \<Rightarrow> nat \<Rightarrow> 's \<Rightarrow> 's"

text \<open>\<^verbatim>\<open>0 | (cell * c)\<close>.\<close>

definition part :: "rat \<Rightarrow> rat \<Rightarrow> rat" where
  "part cell c = of_int (int32 (Fin (rnd (cell * c))))"

definition center_cut :: "'s shape" where
  "center_cut g cell i =
     (let k = rnd (cell * rnd (42 / 100))
      in addPolygon g [0, 0, cell, 0, cell, rnd (cell - rnd (k * 2)), rnd (cell - k), cell, 0, cell] False)"

definition center_triangle :: "'s shape" where
  "center_triangle g cell i =
     (let w = part cell (1 / 2); h = part cell (rnd (8 / 10)) in addTriangle g (rnd (cell - w)) 0 w h 2 False)"

definition center_square :: "'s shape" where
  "center_square g cell i =
     (let s = of_int (int32 (Fin (rnd (cell / 3)))) in addRectangle g s s (rnd (cell - s)) (rnd (cell - s)) False)"

definition center_inset :: "'s shape" where
  "center_inset g cell i =
     (let inner = part cell (rnd (1 / 10)); outer = part cell (1 / 4); w = rnd (rnd (cell - inner) - outer)
      in addRectangle g outer outer w w False)"

definition center_disc :: "'s shape" where
  "center_disc g cell i =
     (let m = part cell (rnd (15 / 100)); s = part cell (1 / 2); p = rnd (rnd (cell - s) - m) in addCircle g p p s False)"

definition center_negative_triangle :: "'s shape" where
  "center_negative_triangle g cell i st =
     (let inner = rnd (cell * rnd (1 / 10)); outer = rnd (inner * 4); st1 = addRectangle g 0 0 cell cell False st
      in addPolygon g
           [outer, outer, rnd (cell - inner), outer,
            rnd (outer + rnd (rnd (rnd (cell - outer) - inner) / 2)), rnd (cell - inner)] True st1)"

definition center_notch :: "'s shape" where
  "center_notch g cell i =
     (let a = rnd (cell * rnd (7 / 10)); b = rnd (cell * rnd (4 / 10))
      in addPolygon g [0, 0, cell, 0, cell, a, b, b, a, cell, 0, cell] False)"

definition center_corner :: "'s shape" where
  "center_corner g cell i = (let c = rnd (cell / 2) in addTriangle g c c c c 3 False)"

definition center_blocks :: "'s shape" where
  "center_blocks g cell i st =
     (let c = rnd (cell / 2); st1 = addRectangle g 0 0 cell c False st; st2 = addRectangle g 0 c c c False st1
      in addTriangle g c c c c 1 False st2)"

definition center_hole :: "'s shape" where
  "center_hole g cell i st =
     (let inner = part cell (rnd (14 / 100)); outer = part cell (rnd (35 / 100)); w = rnd (rnd (cell - outer) - inner);
          st1 = addRectangle g 0 0 cell cell False st
      in addRectangle g outer outer w w True st1)"

definition center_round_hole :: "'s shape" where
  "center_round_hole g cell i st =
     (let inner = rnd (cell * rnd (12 / 100)); outer = rnd (inner * 3); st1 = addRectangle g 0 0 cell cell False st
      in addCircle g outer outer (rnd (rnd (cell - inner) - outer)) True st1)"

definition center_rhombus_hole :: "'s shape" where
  "center_rhombus_hole g cell i st =
     (let m = rnd (cell * (1 / 4)); w = rnd (cell - m); st1 = addRectangle g 0 0 cell cell False st
      in addRhombus g m m w w True st1)"

definition center_big_disc :: "'s shape" where
  "center_big_disc g cell i st =
     (let m = rnd (cell * rnd (4 / 10)); s = rnd (cell * rnd (12 / 10)) in if i = 0 then addCircle g m m s False st else st)"

definition outer_triangle :: "'s shape" where
  "outer_triangle g cell i = addTriangle g 0 0 cell cell 0 False"

definition outer_low_triangle :: "'s shape" where
  "outer_low_triangle g cell i = addTriangle g 0 (rnd (cell / 2)) cell (rnd (cell / 2)) 0 False"

definition outer_rhombus :: "'s shape" where
  "outer_rhombus g cell i = addRhombus g 0 0 cell cell False"

definition outer_disc :: "'s shape" where
  "outer_disc g cell i = (let m = rnd (cell / 6) in addCircle g m m (rnd (cell - rnd (2 * m))) False)"

definition shapes_center :: "'s shape list" where
  "shapes_center =
     [center_cut, center_triangle, center_square, center_inset, center_disc, center_negative_triangle, center_notch,
      center_corner, center_blocks, center_hole, center_round_hole, center_corner, center_rhombus_hole, center_big_disc]"

definition shapes_outer :: "'s shape list" where
  "shapes_outer = [outer_triangle, outer_low_triangle, outer_rhombus, outer_disc]"

section \<open>Colours\<close>

definition hexchar :: "nat \<Rightarrow> nat" where
  "hexchar d = (if d < 10 then 48 + d else 87 + d)"

definition decToHex :: "jsnum \<Rightarrow> jsstr" where
  "decToHex v =
     (let n = int32 v
      in if n < 0 then js ''00''
         else if n < 16 then [48, hexchar (nat n)]
         else if n < 256 then [hexchar (nat n div 16), hexchar (nat n mod 16)]
         else js ''ff'')"

definition hueToRgb :: "jsnum \<Rightarrow> jsnum \<Rightarrow> jsnum \<Rightarrow> jsstr" where
  "hueToRgb m1 m2 h0 =
     (let h = (if num_less h0 (Fin 0) then num_add h0 (Fin 6) else if num_less (Fin 6) h0 then num_sub h0 (Fin 6) else h0)
      in decToHex (num_mul (Fin 255)
           (if num_less h (Fin 1) then num_add m1 (num_mul (num_sub m2 m1) h)
            else if num_less h (Fin 3) then m2
            else if num_less h (Fin 4) then num_add m1 (num_mul (num_sub m2 m1) (num_sub (Fin 4) h))
            else m1)))"

definition color_rgb :: "jsnum \<Rightarrow> jsnum \<Rightarrow> jsnum \<Rightarrow> jsstr" where
  "color_rgb r g b = js ''#'' @ decToHex r @ decToHex g @ decToHex b"

definition color_hsl :: "jsnum \<Rightarrow> jsnum \<Rightarrow> jsnum \<Rightarrow> jsstr" where
  "color_hsl h s l =
     (if s = Fin 0 then let p = decToHex (num_mul l (Fin 255)) in js ''#'' @ p @ p @ p
      else
        let m2 = (if num_le l (Fin (1 / 2)) then num_mul l (num_add s (Fin 1)) else num_sub (num_add l s) (num_mul l s));
            m1 = num_sub (num_mul l (Fin 2)) m2
        in js ''#'' @ hueToRgb m1 m2 (num_add (num_mul h (Fin 6)) (Fin 2)) @ hueToRgb m1 m2 (num_mul h (Fin 6)) @
           hueToRgb m1 m2 (num_sub (num_mul h (Fin 6)) (Fin 2)))"

definition nth_num :: "jsnum list \<Rightarrow> int \<Rightarrow> jsnum" where
  "nth_num xs i = (if 0 \<le> i \<and> nat i < length xs then xs ! nat i else NaN)"

definition correctors :: "jsnum list" where
  "correctors = map (\<lambda>q. Fin (rnd q)) [55 / 100, 1 / 2, 1 / 2, 46 / 100, 6 / 10, 55 / 100, 55 / 100]"

definition correctedHsl :: "jsnum \<Rightarrow> jsnum \<Rightarrow> jsnum \<Rightarrow> jsstr" where
  "correctedHsl h s l =
     (let corrector = nth_num correctors (int32 (num_add (num_mul h (Fin 6)) (Fin (1 / 2))));
          l1 = (if num_less l (Fin (1 / 2)) then num_mul (num_mul l corrector) (Fin 2)
                else num_add corrector (num_mul (num_mul (num_sub l (Fin (1 / 2))) (num_sub (Fin 1) corrector)) (Fin 2)))
      in color_hsl h s l1)"

record jd_config =
  saturation :: jsnum
  colorLightness :: "jsnum \<Rightarrow> jsnum"
  grayscaleLightness :: "jsnum \<Rightarrow> jsnum"

definition colorTheme :: "jsnum \<Rightarrow> jd_config \<Rightarrow> jsstr list" where
  "colorTheme hue config =
     [color_hsl (Fin 0) (Fin 0) (grayscaleLightness config (Fin 0)),
      correctedHsl hue (saturation config) (colorLightness config (Fin (1 / 2))),
      color_hsl (Fin 0) (Fin 0) (grayscaleLightness config (Fin 1)),
      correctedHsl hue (saturation config) (colorLightness config (Fin 1)),
      correctedHsl hue (saturation config) (colorLightness config (Fin 0))]"

section \<open>The generator\<close>

datatype jd_error = TooSmall | InvalidHash | NoCanvas | NullContext

text \<open>The test \<^verbatim>\<open>/^[0-9a-f]{11,}$/i\<close>.\<close>

definition valid_hash :: "jsstr \<Rightarrow> bool" where
  "valid_hash hash \<longleftrightarrow> 11 \<le> length hash \<and> list_all (\<lambda>c. hexunit c \<noteq> None) hash"

text \<open>\<^verbatim>\<open>parseInt(hash.charAt(i), 16)\<close>, which the test of the hash makes a digit for the positions the code reads.\<close>

definition hash_digit :: "jsstr \<Rightarrow> nat \<Rightarrow> nat" where
  "hash_digit hash i = nat (case parseInt16 (take 1 (drop i hash)) of Some d \<Rightarrow> d | None \<Rightarrow> 0)"

definition isDuplicate :: "nat \<Rightarrow> nat list \<Rightarrow> nat list \<Rightarrow> bool" where
  "isDuplicate idx sel values \<longleftrightarrow> idx \<in> set values \<and> list_ex (\<lambda>v. v \<in> set sel) values"

fun select_colors :: "jsstr \<Rightarrow> nat \<Rightarrow> nat list \<Rightarrow> nat list \<Rightarrow> nat list" where
  "select_colors hash n [] sel = sel"
| "select_colors hash n (i # is) sel =
     (let idx = hash_digit hash (8 + i) mod n;
          idx1 = (if isDuplicate idx sel [0, 4] \<or> isDuplicate idx sel [2, 3] then 1 else idx)
      in select_colors hash n is (sel @ [idx1]))"

definition selectedColorIndexes :: "jsstr \<Rightarrow> nat \<Rightarrow> nat list" where
  "selectedColorIndexes hash n = select_colors hash n [0..<3] []"

text \<open>The loop over the positions of a shape; \<open>r\<close> is the rotation of the next position and \<open>i\<close> its index.\<close>

fun shape_loop :: "'s shape \<Rightarrow> 's graphics \<Rightarrow> rat \<Rightarrow> rat \<Rightarrow> rat \<Rightarrow> nat \<Rightarrow> nat \<Rightarrow> (nat \<times> nat) list \<Rightarrow> 's \<Rightarrow> 's" where
  "shape_loop shape g x y cell r i [] s = s"
| "shape_loop shape g x y cell r i ((px, py) # ps) s =
     (let t = \<lparr>tr_x = rnd (x + rnd (of_nat px * cell)), tr_y = rnd (y + rnd (of_nat py * cell)), tr_size = cell,
               tr_rotation = r mod 4\<rparr>
      in shape_loop shape g x y cell (Suc r) (Suc i) ps (shape (g\<lparr>g_transform := t\<rparr>) cell i s))"

definition renderShape ::
  "'s graphics \<Rightarrow> jsstr \<Rightarrow> rat \<Rightarrow> rat \<Rightarrow> rat \<Rightarrow> jsstr \<Rightarrow> 's shape list \<Rightarrow> nat \<Rightarrow> nat option \<Rightarrow> (nat \<times> nat) list \<Rightarrow> 's \<Rightarrow> 's" where
  "renderShape g hash x y cell colour shapes idx rotationIndex positions s =
     (let r = (case rotationIndex of Some j \<Rightarrow> hash_digit hash j | None \<Rightarrow> 0);
          shape = shapes ! (hash_digit hash idx mod length shapes);
          s1 = beginShape (g_renderer g) colour s;
          s2 = shape_loop shape g x y cell r 0 positions s1
      in endShape (g_renderer g) s2)"

definition sides :: "(nat \<times> nat) list" where
  "sides = [(1, 0), (2, 0), (2, 3), (1, 3), (0, 1), (3, 1), (3, 2), (0, 2)]"

definition corners :: "(nat \<times> nat) list" where
  "corners = [(0, 0), (3, 0), (3, 3), (0, 3)]"

definition middle :: "(nat \<times> nat) list" where
  "middle = [(1, 1), (2, 1), (2, 2), (1, 2)]"

text \<open>The padding in pixels, the size without it, and the offset of the first cell.\<close>

definition icon_padding :: "jsnum \<Rightarrow> jsnum option \<Rightarrow> int" where
  "icon_padding sz padding =
     int32 (num_mul sz (case padding of None \<Rightarrow> Fin (rnd (8 / 100)) | Some p \<Rightarrow> p))"

definition icon_size :: "jsnum \<Rightarrow> jsnum option \<Rightarrow> jsnum" where
  "icon_size sz padding = num_sub sz (num_mul (Fin (of_int (icon_padding sz padding))) (Fin 2))"

definition icon_cell :: "jsnum \<Rightarrow> jsnum option \<Rightarrow> int" where
  "icon_cell sz padding = int32 (num_over (icon_size sz padding) 4)"

definition icon_offset :: "jsnum \<Rightarrow> jsnum option \<Rightarrow> int" where
  "icon_offset sz padding =
     int32 (num_sub (num_add (Fin (of_int (icon_padding sz padding))) (num_over (icon_size sz padding) 2))
              (num_mul (Fin (of_int (icon_cell sz padding))) (Fin 2)))"

definition icon_colors :: "jsstr \<Rightarrow> jd_config \<Rightarrow> jsstr list" where
  "icon_colors hash config =
     colorTheme (num_over (case parseInt16 (substr_last 7 hash) of Some v \<Rightarrow> Fin (of_int v) | None \<Rightarrow> NaN) 0xfffffff) config"

definition iconGenerator ::
  "'s renderer \<Rightarrow> jsstr \<Rightarrow> rat \<Rightarrow> rat \<Rightarrow> jsnum \<Rightarrow> jsnum option \<Rightarrow> jd_config \<Rightarrow> 's \<Rightarrow> jd_error + 's" where
  "iconGenerator R hash x y sz padding config s =
     (if num_less (icon_size sz padding) (Fin 30) then Inl TooSmall
      else if \<not> valid_hash hash then Inl InvalidHash
      else
        let g = Graphics_new R; cell = of_int (icon_cell sz padding);
            x1 = rnd (x + of_int (icon_offset sz padding)); y1 = rnd (y + of_int (icon_offset sz padding));
            colors = icon_colors hash config; sel = selectedColorIndexes hash (length colors);
            s1 = renderShape g hash x1 y1 cell (colors ! (sel ! 0)) shapes_outer 2 (Some 3) sides s;
            s2 = renderShape g hash x1 y1 cell (colors ! (sel ! 1)) shapes_outer 4 (Some 5) corners s1
        in Inr (renderShape g hash x1 y1 cell (colors ! (sel ! 2)) shapes_center 1 None middle s2))"

section \<open>SVG\<close>

text \<open>
  The text added to the data of a path. A polygon has at least one point. The paths by colour are kept in the order in which
  the colours came, as a loop over the object gives them; the current path is named by its colour.
\<close>

definition point_text :: "point \<Rightarrow> jsstr" where
  "point_text p = fin_text (fst p) @ js '' '' @ fin_text (snd p)"

definition svg_polygon_text :: "point list \<Rightarrow> jsstr" where
  "svg_polygon_text ps = js ''M'' @ point_text (hd ps) @ concat (map (\<lambda>p. js ''L'' @ point_text p) (tl ps)) @ js ''Z''"

definition svg_circle_text :: "point \<Rightarrow> rat \<Rightarrow> bool \<Rightarrow> jsstr" where
  "svg_circle_text p d ccw =
     (let sweep = (if ccw then js ''0'' else js ''1''); radius = rnd (d / 2);
          arc = (\<lambda>w. js ''a'' @ fin_text radius @ js '','' @ fin_text radius @ js '' 0 1,'' @ sweep @ js '' '' @ fin_text w @ js '',0'')
      in js ''M'' @ fin_text (fst p) @ js '' '' @ fin_text (rnd (snd p + radius)) @ arc d @ arc (- d))"

record svg =
  sv_paths :: "(jsstr \<times> jsstr) list"
  sv_path :: jsstr
  sv_w :: jsnum
  sv_h :: jsnum

definition SvgRenderer_new :: "jsnum \<Rightarrow> jsnum \<Rightarrow> svg" where
  "SvgRenderer_new w h = \<lparr>sv_paths = [], sv_path = [], sv_w = w, sv_h = h\<rparr>"

definition svg_append :: "jsstr \<Rightarrow> svg \<Rightarrow> svg" where
  "svg_append d s = s\<lparr>sv_paths := map (\<lambda>(c, e). (c, if c = sv_path s then e @ d else e)) (sv_paths s)\<rparr>"

definition svg_beginShape :: "jsstr \<Rightarrow> svg \<Rightarrow> svg" where
  "svg_beginShape c s =
     s\<lparr>sv_path := c, sv_paths := (if c \<in> fst ` set (sv_paths s) then sv_paths s else sv_paths s @ [(c, [])])\<rparr>"

definition svg_renderer :: "svg renderer" where
  "svg_renderer =
     \<lparr>beginShape = svg_beginShape, endShape = (\<lambda>s. s), rd_polygon = (\<lambda>ps. svg_append (svg_polygon_text ps)),
      rd_circle = (\<lambda>p d ccw. svg_append (svg_circle_text p d ccw))\<rparr>"

definition svg_toSvg :: "bool \<Rightarrow> svg \<Rightarrow> jsstr" where
  "svg_toSvg fragment s =
     (let w = num_text (sv_w s); h = num_text (sv_h s);
          start = (if fragment then [] else
            js ''<svg xmlns=\"http://www.w3.org/2000/svg\" width=\"'' @ w @ js ''\" height=\"'' @ h @ js ''\" viewBox=\"0 0 '' @
            w @ js '' '' @ h @ js ''\" preserveAspectRatio=\"xMidYMid meet\">'');
          body = concat (map (\<lambda>(c, d). js ''<path fill=\"'' @ c @ js ''\" d=\"'' @ d @ js ''\"/>'') (sv_paths s))
      in start @ body @ (if fragment then [] else js ''</svg>''))"

section \<open>Canvas\<close>

text \<open>The calls of a context; the circle of an arc is always a full turn.\<close>

datatype ctx_call =
    ClearRect jsnum jsnum | FillStyle jsstr | BeginPath | MoveTo point | LineTo point | ClosePath
  | Arc rat rat rat bool | Fill

type_synonym context2d = "ctx_call list"

definition CanvasRenderer_new :: "jsnum \<Rightarrow> jsnum \<Rightarrow> context2d \<Rightarrow> context2d" where
  "CanvasRenderer_new w h ctx = ctx @ [ClearRect w h]"

definition canvas_polygon :: "point list \<Rightarrow> context2d" where
  "canvas_polygon ps = MoveTo (hd ps) # map LineTo (tl ps) @ [ClosePath]"

definition canvas_circle :: "point \<Rightarrow> rat \<Rightarrow> bool \<Rightarrow> context2d" where
  "canvas_circle p d ccw =
     (let radius = rnd (d / 2) in [Arc (rnd (fst p + radius)) (rnd (snd p + radius)) radius ccw, ClosePath])"

definition canvas_renderer :: "context2d renderer" where
  "canvas_renderer =
     \<lparr>beginShape = (\<lambda>c ctx. ctx @ [FillStyle c, BeginPath]), endShape = (\<lambda>ctx. ctx @ [Fill]),
      rd_polygon = (\<lambda>ps ctx. ctx @ canvas_polygon ps), rd_circle = (\<lambda>p d ccw ctx. ctx @ canvas_circle p d ccw)\<rparr>"

section \<open>The interface\<close>

text \<open>The configuration objects of the page; a lightness that is no array and a saturation that is no number are absent.\<close>

record user_config =
  uc_color :: "jsnum list option"
  uc_grayscale :: "jsnum list option"
  uc_saturation :: "jsnum option"

definition lightness :: "jsnum list option \<Rightarrow> rat \<Rightarrow> rat \<Rightarrow> jsnum \<Rightarrow> jsnum" where
  "lightness conf defaultMin defaultMax v =
     (let range = (case conf of Some r \<Rightarrow> r | None \<Rightarrow> [Fin defaultMin, Fin defaultMax]);
          u = num_add (nth_num range 0) (num_mul v (num_sub (nth_num range 1) (nth_num range 0)))
      in if num_less u (Fin 0) then Fin 0 else if num_less (Fin 1) u then Fin 1 else u)"

definition getCurrentConfig :: "user_config option \<Rightarrow> user_config option \<Rightarrow> jd_config" where
  "getCurrentConfig own shared =
     (let c = (case own of Some o1 \<Rightarrow> o1 | None \<Rightarrow>
                (case shared of Some o2 \<Rightarrow> o2 | None \<Rightarrow> \<lparr>uc_color = None, uc_grayscale = None, uc_saturation = None\<rparr>))
      in \<lparr>saturation = (case uc_saturation c of Some v \<Rightarrow> v | None \<Rightarrow> Fin (1 / 2)),
          colorLightness = lightness (uc_color c) (rnd (4 / 10)) (rnd (8 / 10)),
          grayscaleLightness = lightness (uc_grayscale c) (rnd (3 / 10)) (rnd (9 / 10))\<rparr>)"

definition jd_toSvg :: "jd_config \<Rightarrow> jsstr \<Rightarrow> jsnum \<Rightarrow> jsnum option \<Rightarrow> jd_error + jsstr" where
  "jd_toSvg config hash sz padding =
     (case iconGenerator svg_renderer hash 0 0 sz padding config (SvgRenderer_new sz sz) of
        Inl e \<Rightarrow> Inl e
      | Inr s \<Rightarrow> Inr (svg_toSvg False s))"

text \<open>What is left of the context, and the exception if there is one: the context is cleared before the arguments are tested.\<close>

definition drawIcon :: "jd_config \<Rightarrow> context2d option \<Rightarrow> jsstr \<Rightarrow> jsnum \<Rightarrow> context2d option \<times> jd_error option" where
  "drawIcon config ctx hash sz =
     (case ctx of
        None \<Rightarrow> (None, Some NoCanvas)
      | Some c \<Rightarrow>
          let c1 = CanvasRenderer_new sz sz c
          in (case iconGenerator canvas_renderer hash 0 0 sz (Some (Fin 0)) config c1 of
               Inl e \<Rightarrow> (Some c1, Some e)
             | Inr c2 \<Rightarrow> (Some c2, None)))"

text \<open>An element of the page, with child nodes of type \<open>'n\<close>.\<close>

record 'n element =
  el_tagName :: jsstr
  el_hash :: jsstr
  el_width :: "jsstr option"
  el_height :: "jsstr option"
  el_clientWidth :: jsnum
  el_clientHeight :: jsnum
  el_getContext :: bool
  el_context :: "context2d option"
  el_children :: "'n list"
  el_viewBox :: jsstr

definition ascii_lower :: "nat \<Rightarrow> nat" where
  "ascii_lower c = (if 65 \<le> c \<and> c \<le> 90 then c + 32 else c)"

definition attr_number :: "jsstr option \<Rightarrow> jsnum" where
  "attr_number a = (case a of None \<Rightarrow> Fin 0 | Some s \<Rightarrow> string_number s)"

definition num_or :: "jsnum \<Rightarrow> jsnum \<Rightarrow> jsnum" where
  "num_or a b = (if truthy (VNum a) then a else b)"

text \<open>\<^verbatim>\<open>update\<close> on an element; \<open>parse\<close> gives the nodes inside the outermost element of a text.\<close>

definition update_element ::
  "jd_config \<Rightarrow> (jsstr \<Rightarrow> 'n list) \<Rightarrow> jsstr \<Rightarrow> jsnum option \<Rightarrow> 'n element \<Rightarrow> 'n element \<times> jd_error option" where
  "update_element config parse hash padding el =
     (if el_tagName el = [] then (el, None)
      else
        let hash1 = (if hash \<noteq> [] then hash else el_hash el);
            tag = map ascii_lower (el_tagName el); isSvg = (tag = js ''svg''); isCanvas = (tag = js ''canvas'')
        in if hash1 = [] \<or> (\<not> isSvg \<and> \<not> (isCanvas \<and> el_getContext el)) then (el, None)
           else
             let width = num_or (num_or (attr_number (el_width el)) (el_clientWidth el)) (Fin 0);
                 height = num_or (num_or (attr_number (el_height el)) (el_clientHeight el)) (Fin 0);
                 sz = num_min width height
             in if isSvg then
                  (case iconGenerator svg_renderer hash1 0 0 sz padding config (SvgRenderer_new width height) of
                     Inl e \<Rightarrow> (el, Some e)
                   | Inr s \<Rightarrow>
                       (el\<lparr>el_children := parse (svg_toSvg False s),
                           el_viewBox := js ''0 0 '' @ num_text width @ js '' '' @ num_text height\<rparr>, None))
                else
                  (case el_context el of
                     None \<Rightarrow> (el, Some NullContext)
                   | Some c \<Rightarrow>
                       let c1 = CanvasRenderer_new width height c
                       in (case iconGenerator canvas_renderer hash1 0 0 sz padding config c1 of
                            Inl e \<Rightarrow> (el\<lparr>el_context := Some c1\<rparr>, Some e)
                          | Inr c2 \<Rightarrow> (el\<lparr>el_context := Some c2\<rparr>, None))))"

text \<open>The loop over the elements that a selector finds; an exception ends it.\<close>

fun update_elements ::
  "jd_config \<Rightarrow> (jsstr \<Rightarrow> 'n list) \<Rightarrow> jsstr \<Rightarrow> jsnum option \<Rightarrow> nat list \<Rightarrow> 'n element list \<Rightarrow> 'n element list \<times> jd_error option" where
  "update_elements config parse hash padding [] els = (els, None)"
| "update_elements config parse hash padding (i # is) els =
     (case update_element config parse hash padding (els ! i) of
        (el, Some e) \<Rightarrow> (els[i := el], Some e)
      | (el, None) \<Rightarrow> update_elements config parse hash padding is (els[i := el]))"

definition update_selector ::
  "(jsstr \<Rightarrow> 'n element list \<Rightarrow> nat list) option \<Rightarrow> jd_config \<Rightarrow> (jsstr \<Rightarrow> 'n list) \<Rightarrow> jsstr \<Rightarrow> jsstr \<Rightarrow> jsnum option \<Rightarrow>
   'n element list \<Rightarrow> 'n element list \<times> jd_error option" where
  "update_selector querySelectorAll config parse sel hash padding els =
     (case querySelectorAll of
        None \<Rightarrow> (els, None)
      | Some find_all \<Rightarrow> update_elements config parse hash padding (find_all sel els) els)"

definition jdenticon ::
  "(jsstr \<Rightarrow> 'n element list \<Rightarrow> nat list) option \<Rightarrow> jd_config \<Rightarrow> (jsstr \<Rightarrow> 'n list) \<Rightarrow> 'n element list \<Rightarrow>
   'n element list \<times> jd_error option" where
  "jdenticon querySelectorAll config parse els =
     update_selector querySelectorAll config parse (js ''svg[data-jdenticon-hash],canvas[data-jdenticon-hash]'') [] None els"

text \<open>The jQuery method, on the elements of a collection.\<close>

definition jquery_jdenticon ::
  "jd_config \<Rightarrow> (jsstr \<Rightarrow> 'n list) \<Rightarrow> jsstr \<Rightarrow> jsnum option \<Rightarrow> nat list \<Rightarrow> 'n element list \<Rightarrow> 'n element list \<times> jd_error option" where
  "jquery_jdenticon config parse hash padding is els = update_elements config parse hash padding is els"

end
