(* ===== verification/JdenticonDraw.thy ===== *)
theory JdenticonDraw
  imports Jdenticon
begin

text \<open>
  What the renderers of \<^verbatim>\<open>jdenticon\<close> draw. A picture is a list of layers; the locale \<open>draws\<close> says when the state of a renderer
  depicts one, and the generator then gives every renderer the same icon. The canvas and the SVG renderer interpret it. The
  icon is three layers of placed figures, and their colours are chosen apart.
\<close>

section \<open>Pictures\<close>

text \<open>
  What an icon is, whatever draws it: layers of one colour each. The picture itself is a renderer, and the simplest one.
\<close>

datatype figure = Polygon "point list" | Circle point rat bool

type_synonym layer = "jsstr \<times> figure list"

record picture =
  p_done :: "layer list"
  p_open :: "layer option"

definition blank :: picture where
  "blank = \<lparr>p_done = [], p_open = None\<rparr>"

definition draw :: "figure \<Rightarrow> picture \<Rightarrow> picture" where
  "draw f p = p\<lparr>p_open := map_option (\<lambda>(c, fs). (c, fs @ [f])) (p_open p)\<rparr>"

definition pic_renderer :: "picture renderer" where
  "pic_renderer =
     \<lparr>beginShape = (\<lambda>c p. p\<lparr>p_open := Some (c, [])\<rparr>),
      endShape = (\<lambda>p. \<lparr>p_done = p_done p @ (case p_open p of Some l \<Rightarrow> [l] | None \<Rightarrow> []), p_open = None\<rparr>),
      rd_polygon = (\<lambda>ps. draw (Polygon ps)), rd_circle = (\<lambda>q d ccw. draw (Circle q d ccw))\<rparr>"

definition icon :: "jd_config \<Rightarrow> jsstr \<Rightarrow> jsnum \<Rightarrow> jsnum option \<Rightarrow> jd_error + layer list" where
  "icon config hash sz padding = map_sum id p_done (iconGenerator pic_renderer hash 0 0 sz padding config blank)"

lemmas shape_defs =
  center_cut_def center_triangle_def center_square_def center_inset_def center_disc_def center_negative_triangle_def
  center_notch_def center_corner_def center_blocks_def center_hole_def center_round_hole_def center_rhombus_hole_def
  center_big_disc_def outer_triangle_def outer_low_triangle_def outer_rhombus_def outer_disc_def

section \<open>What a renderer owes\<close>

definition traces :: "('s \<Rightarrow> picture \<Rightarrow> bool) \<Rightarrow> 's \<Rightarrow> picture \<Rightarrow> bool" where
  "traces D s p \<longleftrightarrow> D s p \<and> p_open p \<noteq> None"

lemma shapes_ne [simp]: "shapes_outer \<noteq> []" "shapes_center \<noteq> []"
  by (simp_all add: shapes_outer_def shapes_center_def)

lemma poly_points_Nil: "poly_points t ps = [] \<longleftrightarrow> length ps < 2"
  by (induction t ps rule: poly_points.induct) auto

text \<open>
  A renderer draws if each of its methods does to its state what the method of the picture does to the picture that the
  state depicts. A layer is begun when none is open, and figures are added and the layer is ended when one is.
\<close>

locale draws =
  fixes R :: "'s renderer" and depicts :: "'s \<Rightarrow> picture \<Rightarrow> bool"
  assumes depicts_begin: "depicts s p \<Longrightarrow> p_open p = None \<Longrightarrow> depicts (beginShape R c s) (p\<lparr>p_open := Some (c, [])\<rparr>)"
    and depicts_end: "depicts s p \<Longrightarrow> p_open p = Some l \<Longrightarrow>
      depicts (endShape R s) \<lparr>p_done = p_done p @ [l], p_open = None\<rparr>"
    and depicts_polygon: "depicts s p \<Longrightarrow> p_open p = Some l \<Longrightarrow> ps \<noteq> [] \<Longrightarrow> depicts (rd_polygon R ps s) (draw (Polygon ps) p)"
    and depicts_circle: "depicts s p \<Longrightarrow> p_open p = Some l \<Longrightarrow> depicts (rd_circle R q d ccw s) (draw (Circle q d ccw) p)"
begin

lemma polygon_step:
  assumes "traces depicts s p" "2 \<le> length ps"
  shows "traces depicts (addPolygon \<lparr>g_renderer = R, g_transform = t\<rparr> ps ccw s)
    (addPolygon \<lparr>g_renderer = pic_renderer, g_transform = t\<rparr> ps ccw p)"
proof -
  let ?q = "if ccw then rev (poly_points t ps) else poly_points t ps"
  have "?q \<noteq> []" using assms(2) poly_points_Nil [of t ps] by auto
  then have "traces depicts (rd_polygon R ?q s) (draw (Polygon ?q) p)"
    using assms(1) depicts_polygon [of s p _ ?q] by (auto simp: traces_def draw_def)
  then show ?thesis by (simp only: addPolygon_def pic_renderer_def graphics.simps renderer.simps)
qed

lemma circle_step:
  assumes "traces depicts s p"
  shows "traces depicts (addCircle \<lparr>g_renderer = R, g_transform = t\<rparr> x y d ccw s)
    (addCircle \<lparr>g_renderer = pic_renderer, g_transform = t\<rparr> x y d ccw p)"
proof -
  have "traces depicts (rd_circle R q d ccw s) (draw (Circle q d ccw) p)" for q
    using assms depicts_circle [of s p _ q d ccw] by (auto simp: traces_def draw_def)
  then show ?thesis by (simp add: addCircle_def pic_renderer_def)
qed

lemma triangle_step:
  assumes "traces depicts s p"
  shows "traces depicts (addTriangle \<lparr>g_renderer = R, g_transform = t\<rparr> x y w h r ccw s)
    (addTriangle \<lparr>g_renderer = pic_renderer, g_transform = t\<rparr> x y w h r ccw p)"
  unfolding addTriangle_def by (rule polygon_step [OF assms]) (simp add: js_splice_def)

lemma rectangle_step:
  assumes "traces depicts s p"
  shows "traces depicts (addRectangle \<lparr>g_renderer = R, g_transform = t\<rparr> x y w h ccw s)
    (addRectangle \<lparr>g_renderer = pic_renderer, g_transform = t\<rparr> x y w h ccw p)"
  unfolding addRectangle_def by (rule polygon_step [OF assms]) simp

lemma rhombus_step:
  assumes "traces depicts s p"
  shows "traces depicts (addRhombus \<lparr>g_renderer = R, g_transform = t\<rparr> x y w h ccw s)
    (addRhombus \<lparr>g_renderer = pic_renderer, g_transform = t\<rparr> x y w h ccw p)"
  unfolding addRhombus_def by (rule polygon_step [OF assms]) simp

lemmas figure_steps = polygon_step circle_step triangle_step rectangle_step rhombus_step

lemma shapes_step:
  "list_all2 (\<lambda>sh sh'. \<forall>t cell i s p. traces depicts s p \<longrightarrow>
      traces depicts (sh \<lparr>g_renderer = R, g_transform = t\<rparr> cell i s) (sh' \<lparr>g_renderer = pic_renderer, g_transform = t\<rparr> cell i p))
    shapes_center shapes_center"
  "list_all2 (\<lambda>sh sh'. \<forall>t cell i s p. traces depicts s p \<longrightarrow>
      traces depicts (sh \<lparr>g_renderer = R, g_transform = t\<rparr> cell i s) (sh' \<lparr>g_renderer = pic_renderer, g_transform = t\<rparr> cell i p))
    shapes_outer shapes_outer"
  unfolding shapes_center_def shapes_outer_def list_all2_Cons shape_defs Let_def
  by (simp_all add: figure_steps)

lemma shape_loop_step:
  assumes "\<And>t cell i s p. traces depicts s p \<Longrightarrow>
      traces depicts (sh \<lparr>g_renderer = R, g_transform = t\<rparr> cell i s) (sh' \<lparr>g_renderer = pic_renderer, g_transform = t\<rparr> cell i p)"
    "traces depicts s p"
  shows "traces depicts (shape_loop sh \<lparr>g_renderer = R, g_transform = t\<rparr> x y cell r i ps s)
    (shape_loop sh' \<lparr>g_renderer = pic_renderer, g_transform = t\<rparr> x y cell r i ps p)"
  using assms(2)
proof (induction ps arbitrary: s p r i)
  case (Cons q ps)
  then show ?case by (cases q) (simp add: Let_def assms(1))
qed simp

lemma render_step:
  assumes "depicts s p" "p_open p = None"
    and "list_all2 (\<lambda>sh sh'. \<forall>t cell i s p. traces depicts s p \<longrightarrow>
      traces depicts (sh \<lparr>g_renderer = R, g_transform = t\<rparr> cell i s) (sh' \<lparr>g_renderer = pic_renderer, g_transform = t\<rparr> cell i p)) shs shs'"
    and "shs \<noteq> []"
  shows "depicts (renderShape (Graphics_new R) hash x y cell c shs k rot ps s)
      (renderShape (Graphics_new pic_renderer) hash x y cell c shs' k rot ps p) \<and>
    p_open (renderShape (Graphics_new pic_renderer) hash x y cell c shs' k rot ps p) = None"
proof -
  have len: "length shs' = length shs" using assms(3) by (simp add: list_all2_lengthD)
  have b: "traces depicts (beginShape R c s) (p\<lparr>p_open := Some (c, [])\<rparr>)"
    using depicts_begin [OF assms(1,2)] by (simp add: traces_def)
  have k: "hash_digit hash k mod length shs < length shs" using assms(4) by simp
  let ?s = "shape_loop (shs ! (hash_digit hash k mod length shs)) \<lparr>g_renderer = R, g_transform = noTransform\<rparr> x y cell
    (case rot of Some j \<Rightarrow> hash_digit hash j | None \<Rightarrow> 0) 0 ps (beginShape R c s)"
  let ?p = "shape_loop (shs' ! (hash_digit hash k mod length shs)) \<lparr>g_renderer = pic_renderer, g_transform = noTransform\<rparr> x y cell
    (case rot of Some j \<Rightarrow> hash_digit hash j | None \<Rightarrow> 0) 0 ps (p\<lparr>p_open := Some (c, [])\<rparr>)"
  have "traces depicts ?s ?p"
    using list_all2_nthD [OF assms(3) k] by (intro shape_loop_step b) simp
  then have "depicts (endShape R ?s) (endShape pic_renderer ?p)" "p_open (endShape pic_renderer ?p) = None"
    using depicts_end [of ?s ?p] by (auto simp: traces_def pic_renderer_def simp del: not_None_eq)
  then show ?thesis by (simp add: renderShape_def Graphics_new_def Let_def len pic_renderer_def)
qed

lemma generator_step:
  assumes "depicts s blank"
  shows "rel_sum (=) depicts (iconGenerator R hash x y sz padding config s) (iconGenerator pic_renderer hash x y sz padding config blank)"
proof -
  have 0: "p_open blank = None" by (simp add: blank_def)
  show ?thesis
    unfolding iconGenerator_def Let_def
    by (auto intro!: render_step [THEN conjunct1] render_step [THEN conjunct2] shapes_step shapes_ne 0 assms)
qed

end

section \<open>The two renderers draw the icon\<close>

text \<open>The calls that make a figure and a layer, and what the calls of a finished picture are.\<close>

fun figure_calls :: "figure \<Rightarrow> context2d" where
  "figure_calls (Polygon ps) = canvas_polygon ps"
| "figure_calls (Circle p d ccw) = canvas_circle p d ccw"

definition open_calls :: "layer \<Rightarrow> context2d" where
  "open_calls l = [FillStyle (fst l), BeginPath] @ concat (map figure_calls (snd l))"

definition canvas_depicts :: "context2d \<Rightarrow> context2d \<Rightarrow> picture \<Rightarrow> bool" where
  "canvas_depicts start ctx p \<longleftrightarrow>
     ctx = start @ concat (map (\<lambda>l. open_calls l @ [Fill]) (p_done p)) @ (case p_open p of Some l \<Rightarrow> open_calls l | None \<Rightarrow> [])"

interpretation canvas2d: draws canvas_renderer "canvas_depicts start" for start
  by unfold_locales (auto simp: canvas_depicts_def canvas_renderer_def open_calls_def draw_def)

text \<open>The data of the paths: one path per colour, in the order in which the colours came, with the figures of all its layers.\<close>

fun figure_text :: "figure \<Rightarrow> jsstr" where
  "figure_text (Polygon ps) = svg_polygon_text ps"
| "figure_text (Circle p d ccw) = svg_circle_text p d ccw"

definition first_seen :: "'a list \<Rightarrow> 'a list" where
  "first_seen xs = rev (remdups (rev xs))"

definition path_data :: "layer list \<Rightarrow> jsstr \<Rightarrow> jsstr" where
  "path_data ls c = concat (map figure_text (concat (map snd (filter (\<lambda>l. fst l = c) ls))))"

definition svg_paths :: "layer list \<Rightarrow> (jsstr \<times> jsstr) list" where
  "svg_paths ls = map (\<lambda>c. (c, path_data ls c)) (first_seen (map fst ls))"

definition svg_depicts :: "jsnum \<Rightarrow> jsnum \<Rightarrow> svg \<Rightarrow> picture \<Rightarrow> bool" where
  "svg_depicts w h s p \<longleftrightarrow>
     sv_w s = w \<and> sv_h s = h \<and> sv_paths s = svg_paths (p_done p @ (case p_open p of Some l \<Rightarrow> [l] | None \<Rightarrow> [])) \<and>
     (case p_open p of Some l \<Rightarrow> sv_path s = fst l | None \<Rightarrow> True)"

lemma first_seen_snoc: "first_seen (xs @ [c]) = (if c \<in> set xs then first_seen xs else first_seen xs @ [c])"
  by (simp add: first_seen_def)

lemma set_first_seen [simp]: "set (first_seen xs) = set xs"
  by (simp add: first_seen_def)

lemma svg_paths_begin:
  "svg_paths (ls @ [(c, [])]) = (if c \<in> fst ` set (svg_paths ls) then svg_paths ls else svg_paths ls @ [(c, [])])"
  by (auto simp: svg_paths_def first_seen_snoc path_data_def image_image) force

lemma svg_paths_draw:
  "svg_paths (ls @ [(c, fs @ [f])]) = map (\<lambda>(c1, e). (c1, if c1 = c then e @ figure_text f else e)) (svg_paths (ls @ [(c, fs)]))"
  by (simp add: svg_paths_def path_data_def)

lemma svg_append_depicts:
  assumes "svg_depicts w h s p" "p_open p = Some l"
  shows "svg_depicts w h (svg_append (figure_text f) s) (draw f p)"
  using assms by (cases l) (simp add: svg_depicts_def svg_append_def draw_def svg_paths_draw)

interpretation svg_text: draws svg_renderer "svg_depicts w h" for w h
proof unfold_locales
  fix s p c
  assume "svg_depicts w h s p" "p_open p = None"
  then show "svg_depicts w h (beginShape svg_renderer c s) (p\<lparr>p_open := Some (c, [])\<rparr>)"
    by (simp add: svg_depicts_def svg_renderer_def svg_beginShape_def svg_paths_begin)
next
  fix s p l ps
  assume "svg_depicts w h s p" "p_open p = Some l"
  then show "svg_depicts w h (rd_polygon svg_renderer ps s) (draw (Polygon ps) p)"
    using svg_append_depicts [of w h s p l "Polygon ps"] by (simp add: svg_renderer_def)
next
  fix s p l q d ccw
  assume "svg_depicts w h s p" "p_open p = Some l"
  then show "svg_depicts w h (rd_circle svg_renderer q d ccw s) (draw (Circle q d ccw) p)"
    using svg_append_depicts [of w h s p l "Circle q d ccw"] by (simp add: svg_renderer_def)
qed (simp add: svg_depicts_def svg_renderer_def)

text \<open>No layer is open when an icon is complete.\<close>

lemma generator_closed:
  "iconGenerator pic_renderer hash x y sz padding config p = Inr q \<Longrightarrow> p_open q = None"
  by (auto simp: iconGenerator_def renderShape_def Graphics_new_def pic_renderer_def Let_def split: if_splits)

lemma svg_generator:
  "(case iconGenerator svg_renderer hash 0 0 sz padding config (SvgRenderer_new w h) of Inl e \<Rightarrow> Inl e | Inr s \<Rightarrow> Inr (svg_toSvg False s)) =
   (case icon config hash sz padding of
      Inl e \<Rightarrow> Inl e
    | Inr ls \<Rightarrow> Inr (svg_toSvg False \<lparr>sv_paths = svg_paths ls, sv_path = [], sv_w = w, sv_h = h\<rparr>))"
proof -
  have "svg_depicts w h (SvgRenderer_new w h) blank"
    by (simp add: svg_depicts_def SvgRenderer_new_def blank_def svg_paths_def first_seen_def)
  from svg_text.generator_step [OF this, of hash 0 0 sz padding config] show ?thesis
    by (auto simp: icon_def rel_sum.simps svg_depicts_def svg_toSvg_def generator_closed split: sum.splits)
qed

lemma canvas_generator:
  "iconGenerator canvas_renderer hash 0 0 sz padding config ctx =
   (case icon config hash sz padding of
      Inl e \<Rightarrow> Inl e
    | Inr ls \<Rightarrow> Inr (ctx @ concat (map (\<lambda>l. open_calls l @ [Fill]) ls)))"
proof -
  have "canvas_depicts ctx ctx blank" by (simp add: canvas_depicts_def blank_def)
  from canvas2d.generator_step [OF this, of hash 0 0 sz padding config] show ?thesis
    by (auto simp: icon_def rel_sum.simps canvas_depicts_def generator_closed split: sum.splits)
qed

text \<open>
  C10 (refinement). Both renderers draw the same icon, whatever the arguments: \<^verbatim>\<open>toSvg\<close> gives its text, with one path per colour in
  the order in which the colours were first used and all figures of that colour in it, and \<^verbatim>\<open>drawIcon\<close> makes the calls that
  fill its layers one after the other; if the arguments are refused, the first gives no text and the second leaves a cleared canvas.
\<close>

theorem renderers_draw_icon:
  "jd_toSvg config hash sz padding =
     (case icon config hash sz padding of
        Inl e \<Rightarrow> Inl e
      | Inr ls \<Rightarrow> Inr (svg_toSvg False \<lparr>sv_paths = svg_paths ls, sv_path = [], sv_w = sz, sv_h = sz\<rparr>)) \<and>
   drawIcon config (Some ctx) hash sz =
     (case icon config hash sz (Some (Fin 0)) of
        Inl e \<Rightarrow> (Some (ctx @ [ClearRect sz sz]), Some e)
      | Inr ls \<Rightarrow> (Some (ctx @ [ClearRect sz sz] @ concat (map (\<lambda>l. open_calls l @ [Fill]) ls)), None))"
  unfolding jd_toSvg_def drawIcon_def
  by (simp add: svg_generator canvas_generator CanvasRenderer_new_def Let_def split: sum.split)

section \<open>The layers of an icon\<close>

text \<open>
  A figure in the coordinates of its cell is placed by a transformation. A drawing \<open>paints\<close> some figures if, on a picture with an
  open layer, it adds these figures, placed, and does nothing else.
\<close>

fun place :: "transform \<Rightarrow> figure \<Rightarrow> figure" where
  "place t (Polygon ps) = Polygon (map (\<lambda>(x, y). transformPoint t x y 0 0) ps)"
| "place t (Circle (x, y) d ccw) = Circle (transformPoint t x y d d) d ccw"

definition paints :: "(picture graphics \<Rightarrow> picture \<Rightarrow> picture) \<Rightarrow> figure list \<Rightarrow> bool" where
  "paints F L \<longleftrightarrow>
     (\<forall>t p c fs. p_open p = Some (c, fs) \<longrightarrow>
        F \<lparr>g_renderer = pic_renderer, g_transform = t\<rparr> p = p\<lparr>p_open := Some (c, fs @ map (place t) L)\<rparr>)"

fun pairs :: "rat list \<Rightarrow> point list" where
  "pairs (x # y # ps) = (x, y) # pairs ps"
| "pairs _ = []"

lemma poly_points_pairs: "poly_points t ps = map (\<lambda>(x, y). transformPoint t x y 0 0) (pairs ps)"
  by (induction t ps rule: poly_points.induct) auto

lemma paints_polygon: "paints (\<lambda>g. addPolygon g ps ccw) [Polygon (if ccw then rev (pairs ps) else pairs ps)]"
  by (simp add: paints_def addPolygon_def pic_renderer_def draw_def poly_points_pairs rev_map)

lemma paints_circle: "paints (\<lambda>g. addCircle g x y d ccw) [Circle (x, y) d ccw]"
  by (simp add: paints_def addCircle_def pic_renderer_def draw_def)

lemma paints_rectangle:
  "paints (\<lambda>g. addRectangle g x y w h ccw)
     [Polygon ((if ccw then rev else id) [(x, y), (rnd (x + w), y), (rnd (x + w), rnd (y + h)), (x, rnd (y + h))])]"
  using paints_polygon [of "[x, y, rnd (x + w), y, rnd (x + w), rnd (y + h), x, rnd (y + h)]" ccw]
  by (simp add: addRectangle_def split: if_splits)

lemma paints_triangle:
  "paints (\<lambda>g. addTriangle g x y w h r False)
     [Polygon (pairs (js_splice ((r mod 4) * 2) 2 [rnd (x + w), y, rnd (x + w), rnd (y + h), x, rnd (y + h), x, y]))]"
  unfolding addTriangle_def using paints_polygon [of _ False] by simp

lemma paints_rhombus:
  "paints (\<lambda>g. addRhombus g x y w h ccw)
     [Polygon ((if ccw then rev else id)
        [(rnd (x + rnd (w / 2)), y), (rnd (x + w), rnd (y + rnd (h / 2))), (rnd (x + rnd (w / 2)), rnd (y + h)), (x, rnd (y + rnd (h / 2)))])]"
  using paints_polygon
    [of "[rnd (x + rnd (w / 2)), y, rnd (x + w), rnd (y + rnd (h / 2)), rnd (x + rnd (w / 2)), rnd (y + h), x, rnd (y + rnd (h / 2))]" ccw]
  by (simp add: addRhombus_def split: if_splits)

lemma paints_seq: "paints F L \<Longrightarrow> paints G M \<Longrightarrow> paints (\<lambda>g p. G g (F g p)) (L @ M)"
  by (simp add: paints_def)

lemma paints_none: "paints (\<lambda>g p. p) []"
  by (simp add: paints_def)

text \<open>The figures of each shape, in the coordinates of a cell of size \<open>c\<close>.\<close>

definition box :: "rat \<Rightarrow> figure" where
  "box c = Polygon [(0, 0), (c, 0), (c, c), (0, c)]"

definition cell_at :: "rat \<Rightarrow> rat \<Rightarrow> rat \<Rightarrow> nat \<times> nat \<Rightarrow> nat \<Rightarrow> transform" where
  "cell_at x y cell pos r =
     \<lparr>tr_x = rnd (x + rnd (of_nat (fst pos) * cell)), tr_y = rnd (y + rnd (of_nat (snd pos) * cell)), tr_size = cell,
      tr_rotation = r mod 4\<rparr>"

fun layer_figures :: "(nat \<Rightarrow> figure list) \<Rightarrow> rat \<Rightarrow> rat \<Rightarrow> rat \<Rightarrow> nat \<Rightarrow> nat \<Rightarrow> (nat \<times> nat) list \<Rightarrow> figure list" where
  "layer_figures L x y cell r i [] = []"
| "layer_figures L x y cell r i (pos # ps) =
     map (place (cell_at x y cell pos r)) (L i) @ layer_figures L x y cell (Suc r) (Suc i) ps"

lemma shape_loop_paints:
  assumes "\<And>i. paints (\<lambda>g. sh g cell i) (L i)" "p_open p = Some (c, fs)"
  shows "shape_loop sh \<lparr>g_renderer = pic_renderer, g_transform = t\<rparr> x y cell r i ps p =
    p\<lparr>p_open := Some (c, fs @ layer_figures L x y cell r i ps)\<rparr>"
  using assms(2)
proof (induction ps arbitrary: r i p fs)
  case (Cons q ps)
  then show ?case using assms(1) [of i] by (cases q) (simp add: paints_def cell_at_def)
qed simp

lemma render_layer:
  assumes "\<And>i. paints (\<lambda>g. (shs ! (hash_digit hash k mod length shs)) g cell i) (L i)" "p_open p = None"
  shows "renderShape (Graphics_new pic_renderer) hash x y cell c shs k rot ps p =
    \<lparr>p_done = p_done p @ [(c, layer_figures L x y cell (case rot of Some j \<Rightarrow> hash_digit hash j | None \<Rightarrow> 0) 0 ps)], p_open = None\<rparr>"
proof -
  have "beginShape pic_renderer c p = p\<lparr>p_open := Some (c, [])\<rparr>" by (simp add: pic_renderer_def)
  then show ?thesis
    using shape_loop_paints [of "shs ! (hash_digit hash k mod length shs)" cell L "p\<lparr>p_open := Some (c, [])\<rparr>" c "[]", OF assms(1)]
    by (simp add: renderShape_def Graphics_new_def Let_def) (simp add: pic_renderer_def)
qed

text \<open>Every shape paints something, so that an icon is three layers in the chosen colours.\<close>

lemma paints_big_disc:
  "paints (\<lambda>g. center_big_disc g c i)
     (if i = 0 then [Circle (rnd (c * rnd (4 / 10)), rnd (c * rnd (4 / 10))) (rnd (c * rnd (12 / 10))) False] else [])"
  by (cases "i = 0") (simp_all add: center_big_disc_def [abs_def] Let_def paints_circle paints_none)

lemmas paints_then =
  paints_seq [OF _ paints_polygon] paints_seq [OF _ paints_circle] paints_seq [OF _ paints_rectangle]
  paints_seq [OF _ paints_triangle] paints_seq [OF _ paints_rhombus]

lemmas paints_rules = paints_polygon paints_circle paints_rectangle paints_triangle paints_rhombus paints_then

lemma shapes_paint:
  "list_all (\<lambda>sh. \<forall>i. \<exists>L. paints (\<lambda>g. sh g cell i) L) (shapes_center @ shapes_outer)"
proof -
  have b: "\<exists>L. paints (\<lambda>g. center_big_disc g cell i) L" for i using paints_big_disc by blast
  show ?thesis
    unfolding shapes_center_def shapes_outer_def append.simps list.pred_inject(2)
    apply (intro conjI allI list.pred_inject(1) b)
    unfolding shape_defs [abs_def] Let_def by (rule exI, (rule paints_rules)+)+
qed

definition shape_of :: "'s shape list \<Rightarrow> jsstr \<Rightarrow> nat \<Rightarrow> 's shape" where
  "shape_of shs hash k = shs ! (hash_digit hash k mod length shs)"

lemma icon_eq:
  fixes sz padding
  defines "cell \<equiv> of_int (icon_cell sz padding)" and "x \<equiv> rnd (of_int (icon_offset sz padding))"
  assumes "valid_hash hash" "\<not> num_less (icon_size sz padding) (Fin 30)"
    and "\<And>i. paints (\<lambda>g. shape_of shapes_outer hash 2 g cell i) (L1 i)" "\<And>i. paints (\<lambda>g. shape_of shapes_outer hash 4 g cell i) (L2 i)"
    and "\<And>i. paints (\<lambda>g. shape_of shapes_center hash 1 g cell i) (L3 i)"
  shows "icon config hash sz padding =
    (let colour = (\<lambda>j. icon_colors hash config ! (selectedColorIndexes hash 5 ! j))
     in Inr [(colour 0, layer_figures L1 x x cell (hash_digit hash 3) 0 sides),
             (colour 1, layer_figures L2 x x cell (hash_digit hash 5) 0 corners),
             (colour 2, layer_figures L3 x x cell 0 0 middle)])"
proof -
  have len: "length (icon_colors hash config) = 5" by (simp add: icon_colors_def colorTheme_def)
  note r = render_layer [of shapes_outer hash 2 cell L1, OF assms(5) [unfolded shape_of_def]]
    render_layer [of shapes_outer hash 4 cell L2, OF assms(6) [unfolded shape_of_def]]
    render_layer [of shapes_center hash 1 cell L3, OF assms(7) [unfolded shape_of_def]]
  show ?thesis
    unfolding icon_def iconGenerator_def Let_def cell_def [symmetric] add_0 x_def [symmetric] len using assms(3,4)
    by (simp add: r blank_def del: One_nat_def)
qed

lemma shape_paints:
  "\<exists>L. \<forall>i. paints (\<lambda>g. shape_of shapes_outer hash k g cell i) (L i)" "\<exists>L. \<forall>i. paints (\<lambda>g. shape_of shapes_center hash k g cell i) (L i)"
proof -
  note p = shapes_paint [of cell, unfolded list_all_append]
  have "j mod length xs < length xs" if "xs \<noteq> []" for j and xs :: "picture shape list" using that by simp
  then have c: "\<forall>i. \<exists>L. paints (\<lambda>g. shape_of shapes_outer hash k g cell i) L" "\<forall>i. \<exists>L. paints (\<lambda>g. shape_of shapes_center hash k g cell i) L"
    using p [THEN conjunct1] p [THEN conjunct2] shapes_ne unfolding shape_of_def list_all_length by blast+
  show "\<exists>L. \<forall>i. paints (\<lambda>g. shape_of shapes_outer hash k g cell i) (L i)" "\<exists>L. \<forall>i. paints (\<lambda>g. shape_of shapes_center hash k g cell i) (L i)"
    using choice [OF c(1)] choice [OF c(2)] by blast+
qed

lemma icon_refused:
  "icon config hash sz padding = Inl e \<longleftrightarrow>
     num_less (icon_size sz padding) (Fin 30) \<and> e = TooSmall \<or>
     \<not> num_less (icon_size sz padding) (Fin 30) \<and> \<not> valid_hash hash \<and> e = InvalidHash"
  by (auto simp: icon_def iconGenerator_def Let_def)

lemma icon_colours:
  assumes "icon config hash sz padding = Inr ls"
  shows "map fst ls = map (\<lambda>j. icon_colors hash config ! j) (selectedColorIndexes hash 5)"
proof -
  let ?c = "of_int (icon_cell sz padding) :: rat"
  obtain L1 L2 L3 where "\<And>i. paints (\<lambda>g. shape_of shapes_outer hash 2 g ?c i) (L1 i)"
    "\<And>i. paints (\<lambda>g. shape_of shapes_outer hash 4 g ?c i) (L2 i)" "\<And>i. paints (\<lambda>g. shape_of shapes_center hash 1 g ?c i) (L3 i)"
    using shape_paints by metis
  note e = icon_eq [of hash sz padding L1 L2 L3 config, OF _ _ this]
  have "valid_hash hash" "\<not> num_less (icon_size sz padding) (Fin 30)"
    using icon_refused [of config hash sz padding] assms by auto
  from e [OF this] show ?thesis using assms
    by (auto simp: Let_def selectedColorIndexes_def upt_rec)
qed

text \<open>An icon that has a figure.\<close>

lemma sample_icon:
  "\<exists>ls f. icon (getCurrentConfig None None) (js ''00000000000'') (Fin 100) (Some (Fin 0)) = Inr ls \<and> ls \<noteq> [] \<and> f \<in> set (snd (hd ls))"
proof -
  let ?h = "js ''00000000000''" and ?z = "Fin 100" and ?p = "Some (Fin 0)"
  have p: "icon_padding ?z ?p = 0" by (simp add: icon_padding_def int32_def trunc_def rnd_def)
  have s: "icon_size ?z ?p = Fin 100"
    using rnd_int [of 100] by (simp add: icon_size_def p rnd_def [of 0])
  have v: "valid_hash ?h" "\<not> num_less (icon_size ?z ?p) (Fin 30)" by (simp_all add: valid_hash_def hexunit_def s)
  have d: "hash_digit ?h 2 = 0" by (simp add: hash_digit_def parseInt16_def is_space_def hexunit_def)
  let ?c = "of_int (icon_cell ?z ?p) :: rat"
  have t: "paints (\<lambda>g. shape_of shapes_outer ?h 2 g ?c i) [Polygon (pairs (js_splice 0 2 [rnd ?c, 0, rnd ?c, rnd ?c, 0, rnd ?c, 0, 0]))]" for i
    using paints_triangle [of 0 0 ?c ?c 0] unfolding shape_of_def d by (simp add: shapes_outer_def outer_triangle_def [abs_def])
  obtain L2 L3 where "\<And>i. paints (\<lambda>g. shape_of shapes_outer ?h 4 g ?c i) (L2 i)" "\<And>i. paints (\<lambda>g. shape_of shapes_center ?h 1 g ?c i) (L3 i)"
    using shape_paints by metis
  from icon_eq [OF v t this, of "getCurrentConfig None None"]
  obtain c r ls where "icon (getCurrentConfig None None) ?h ?z ?p = Inr ls" "snd (hd ls) = r" "r \<noteq> []" "ls \<noteq> []"
    unfolding Let_def by (simp add: sides_def)
  then show ?thesis using hd_in_set by blast
qed

text \<open>
  A size that is not a number is not below thirty, so that \<^verbatim>\<open>toSvg\<close> called without a size draws an icon of no extent instead of
  refusing it; and a padding is a fraction of the size, not percents as the comments say.
\<close>

lemma nan_size_is_drawn: "valid_hash hash \<Longrightarrow> \<exists>ls. icon config hash NaN padding = Inr ls"
  using icon_refused [of config hash NaN padding] by (cases "icon config hash NaN padding") (auto simp: icon_size_def)

lemma padding_is_a_fraction: "icon config hash (Fin 100) (Some (Fin 8)) = Inl TooSmall"
proof -
  have "rnd 800 = 800" using rnd_int [of 800] by simp
  then have p: "icon_padding (Fin 100) (Some (Fin 8)) = 800" by (simp add: icon_padding_def int32_def trunc_def)
  have "rnd 1600 = 1600" "rnd (- 1500) = - 1500" using rnd_int [of 1600] rnd_int [of "- 1500"] by simp_all
  then have "icon_size (Fin 100) (Some (Fin 8)) = Fin (- 1500)" by (simp add: icon_size_def p)
  then show ?thesis by (simp add: icon_refused)
qed

section \<open>The colours of an icon\<close>

definition hex_colour :: "jsstr \<Rightarrow> bool" where
  "hex_colour c \<longleftrightarrow> length c = 7 \<and> hd c = 35 \<and> set (tl c) \<subseteq> hexchar ` {..<16}"

lemma decToHex_digits: "length (decToHex v) = 2" "set (decToHex v) \<subseteq> hexchar ` {..<16}"
proof -
  have z: "48 \<in> hexchar ` {..<16}" "102 \<in> hexchar ` {..<16}" 
    by (auto simp: hexchar_def image_iff intro: bexI [of _ 0] bexI [of _ 15])
  have "nat n div 16 < 16" if "n < 256" for n :: int using that by (simp add: less_mult_imp_div_less nat_less_iff)
  then show "set (decToHex v) \<subseteq> hexchar ` {..<16}" using z by (auto simp: decToHex_def Let_def split: if_splits)
qed (simp add: decToHex_def Let_def)

lemma hsl_hex_colour: "hex_colour (color_hsl h s l)"
  by (simp add: hex_colour_def color_hsl_def Let_def hueToRgb_def decToHex_digits)

lemma theme_hex_colour: "j < 5 \<Longrightarrow> hex_colour (icon_colors hash config ! j)"
  by (auto simp: icon_colors_def colorTheme_def correctedHsl_def Let_def hsl_hex_colour less_Suc_eq numeral_eq_Suc)

lemma select_colors_inv:
  assumes "set sel \<subseteq> {..<n}" "1 < n" "length (filter (\<lambda>j. j \<in> {0, 4}) sel) \<le> 1" "length (filter (\<lambda>j. j \<in> {2, 3}) sel) \<le> 1"
  shows "set (select_colors hash n is sel) \<subseteq> {..<n} \<and> length (select_colors hash n is sel) = length sel + length is \<and>
    length (filter (\<lambda>j. j \<in> {0, 4}) (select_colors hash n is sel)) \<le> 1 \<and>
    length (filter (\<lambda>j. j \<in> {2, 3}) (select_colors hash n is sel)) \<le> 1"
  using assms(1,3,4)
proof (induction "is" arbitrary: sel)
  case (Cons i "is")
  let ?k = "hash_digit hash (8 + i) mod n"
  let ?k1 = "if isDuplicate ?k sel [0, 4] \<or> isDuplicate ?k sel [2, 3] then 1 else ?k"
  have d: "isDuplicate ?k sel [a, b] \<longleftrightarrow> ?k \<in> {a, b} \<and> filter (\<lambda>j. j \<in> {a, b}) sel \<noteq> []" for a b
    by (auto simp: isDuplicate_def filter_empty_conv)
  have "set (sel @ [?k1]) \<subseteq> {..<n}" "length (filter (\<lambda>j. j \<in> {0, 4}) (sel @ [?k1])) \<le> 1"
    "length (filter (\<lambda>j. j \<in> {2, 3}) (sel @ [?k1])) \<le> 1"
    using Cons.prems assms(2) unfolding d by auto
  from Cons.IH [OF this] show ?case unfolding select_colors.simps Let_def by simp
qed simp

text \<open>
  C11 (safety). An icon has three layers. Their colours are texts of a number sign and six hexadecimal digits from the five of its
  theme, whatever the configuration of the page, and of the two dark colours (0 and 4) and of the two light ones (2 and 3) at most
  one layer uses one, so that neighbouring shapes are told apart.
\<close>

theorem icon_colour_choice:
  assumes "icon config hash sz padding = Inr ls"
  shows "\<exists>ks. map fst ls = map (\<lambda>j. icon_colors hash config ! j) ks \<and> length ks = 3 \<and> set ks \<subseteq> {..<5} \<and>
    length (filter (\<lambda>j. j \<in> {0, 4}) ks) \<le> 1 \<and> length (filter (\<lambda>j. j \<in> {2, 3}) ks) \<le> 1 \<and> (\<forall>l \<in> set ls. hex_colour (fst l))"
proof -
  have s: "set (selectedColorIndexes hash 5) \<subseteq> {..<5}" "length (selectedColorIndexes hash 5) = 3"
    "length (filter (\<lambda>j. j \<in> {0, 4}) (selectedColorIndexes hash 5)) \<le> 1" "length (filter (\<lambda>j. j \<in> {2, 3}) (selectedColorIndexes hash 5)) \<le> 1"
    using select_colors_inv [of "[]" 5 hash "[0..<3]"] unfolding selectedColorIndexes_def by auto
  have "\<forall>l \<in> set ls. fst l \<in> set (map fst ls)" by simp
  then have "\<forall>l \<in> set ls. hex_colour (fst l)" unfolding icon_colours [OF assms] using s(1) theme_hex_colour by fastforce
  then show ?thesis using icon_colours [OF assms] s by blast
qed

theorem icon_colour_choice_witness:
  "\<exists>ls ks. icon (getCurrentConfig None None) (js ''00000000000'') (Fin 100) (Some (Fin 0)) = Inr ls \<and>
     map fst ls = map (\<lambda>j. icon_colors (js ''00000000000'') (getCurrentConfig None None) ! j) ks \<and> length ks = 3 \<and> hex_colour (fst (hd ls))"
proof -
  obtain ls f where s: "icon (getCurrentConfig None None) (js ''00000000000'') (Fin 100) (Some (Fin 0)) = Inr ls" "ls \<noteq> []" "f \<in> set (snd (hd ls))"
    using sample_icon by blast
  show ?thesis using icon_colour_choice [OF s(1)] s(1,2) by (meson hd_in_set)
qed

end
