(* ===== verification/JdenticonGeometry.thy ===== *)
theory JdenticonGeometry
  imports JdenticonDraw
begin

text \<open>
  Where the figures of a \<^verbatim>\<open>jdenticon\<close> icon are, with all roundings of the coordinates: every shape fits its cell, so that the icon
  leaves its padding blank, and the icon is unchanged by a quarter turn. Both are shown through the figures in the coordinates
  of a cell, for cells of seven pixels or more, which the smallest size the generator accepts implies.
\<close>

section \<open>Roundings\<close>

lemma rnd_within:
  assumes "of_int a \<le> z" "z \<le> of_int b" "\<bar>a\<bar> < 2 ^ 53" "\<bar>b\<bar> < 2 ^ 53"
  shows "of_int a \<le> rnd z" "rnd z \<le> of_int b"
  using rnd_mono [OF assms(1)] rnd_mono [OF assms(2)] rnd_int [OF assms(3)] rnd_int [OF assms(4)] by simp_all

lemma rnd_cell:
  assumes "0 \<le> z" "z \<le> of_int n" "0 \<le> n" "n \<le> 100000000"
  shows "0 \<le> rnd z \<and> rnd z \<le> of_int n"
  using rnd_within [of 0 z n] assms by simp

lemma rnd_ints:
  assumes "\<bar>a\<bar> \<le> 1000000000" "\<bar>b\<bar> \<le> 1000000000"
  shows "rnd (of_int a) = of_int a" "rnd (of_int a + of_int b) = of_int (a + b)" "rnd (of_int a - of_int b) = of_int (a - b)"
    "rnd (of_int a * 2) = of_int (2 * a)" "rnd (of_int a / 2) = of_int a / 2"
proof -
  have "\<bar>a\<bar> < 2 ^ 53" "\<bar>a + b\<bar> < 2 ^ 53" "\<bar>a - b\<bar> < 2 ^ 53" "\<bar>2 * a\<bar> < 2 ^ 53"
    using assms by (auto simp: abs_if split: if_splits)
  note r = this [THEN rnd_int]
  show "rnd (of_int a) = of_int a" "rnd (of_int a + of_int b) = of_int (a + b)" "rnd (of_int a - of_int b) = of_int (a - b)"
    "rnd (of_int a * 2) = of_int (2 * a)" using r by (simp_all add: mult.commute)
  show "rnd (of_int a / 2) = of_int a / 2" using rnd_dyadic [of a "- 1"] assms(1) by (simp add: pow2_def)
qed

text \<open>A literal times the size of a cell, and its integral part.\<close>

lemma rnd_scaled:
  assumes "7 \<le> n" "n \<le> 100000000" "0 \<le> q" "q \<le> 2"
  shows "of_int n * (q - 1 / 1000) \<le> rnd (of_int n * rnd q)" "rnd (of_int n * rnd q) \<le> of_int n * (q + 1 / 1000)"
proof -
  have n: "7 \<le> (of_int n :: rat)" "(of_int n :: rat) \<le> 100000000" using assms(1,2) by simp_all
  have q: "q - 1 / 1000000 \<le> rnd q" "rnd q \<le> q + 1 / 1000000" using rnd_close [of q] assms(3,4) by auto
  have a: "of_int n * (q - 1 / 1000000) \<le> of_int n * rnd q" "of_int n * rnd q \<le> of_int n * (q + 1 / 1000000)"
    using q n by (intro mult_left_mono; simp)+
  have m: "of_int n * rnd q \<le> 100000000 * 3" "0 \<le> of_int n * rnd q"
    using mult_mono [of "of_int n" 100000000 "rnd q" 3] q assms(3,4) n rnd_nonneg [OF assms(3)] by auto
  have r: "of_int n * rnd q - 1 / 1000000 \<le> rnd (of_int n * rnd q)" "rnd (of_int n * rnd q) \<le> of_int n * rnd q + 1 / 1000000"
    using rnd_close [of "of_int n * rnd q"] m by auto
  show "of_int n * (q - 1 / 1000) \<le> rnd (of_int n * rnd q)" "rnd (of_int n * rnd q) \<le> of_int n * (q + 1 / 1000)"
    using a r n by (simp_all add: algebra_simps)
qed

lemma int32_floor:
  assumes "0 \<le> q" "q < 2147483648"
  shows "int32 (Fin q) = floor q"
proof -
  have "0 \<le> floor q" "floor q < 2147483648" using assms by (simp_all add: floor_less_iff)
  then show ?thesis using assms
    by (simp add: int32_def trunc_def signed_of_int signed_take_bit_int_eq_self)
qed

lemma part_bounds:
  assumes "7 \<le> n" "n \<le> 100000000" "0 \<le> q" "q \<le> 2"
  obtains p where "part (of_int n) (rnd q) = of_int p" "0 \<le> p" "of_int p \<le> of_int n * (q + 1 / 1000)"
    "of_int n * (q - 1 / 1000) - 1 \<le> of_int p"
proof
  let ?z = "rnd (of_int n * rnd q)"
  have n: "7 \<le> (of_int n :: rat)" "(of_int n :: rat) \<le> 100000000" using assms(1,2) by simp_all
  note s = rnd_scaled [OF assms]
  have "of_int n * (q + 1 / 1000) \<le> 100000000 * 3" using n assms by (intro mult_mono) auto
  then have z: "0 \<le> ?z" "?z < 2147483648" using s n rnd_nonneg [OF mult_nonneg_nonneg [of "of_int n" "rnd q"]] rnd_nonneg [OF assms(3)] by auto
  show "part (of_int n) (rnd q) = of_int (floor ?z)" by (simp add: part_def int32_floor [OF z])
  show "0 \<le> floor ?z" using z by simp
  have "of_int (floor ?z) \<le> ?z" "?z < of_int (floor ?z) + 1" by linarith+
  then show "of_int (floor ?z) \<le> of_int n * (q + 1 / 1000)" "of_int n * (q - 1 / 1000) - 1 \<le> of_int (floor ?z)" using s by linarith+
qed

section \<open>Shapes stay in their cells\<close>

text \<open>
  A polygon fits a cell if its points are in it. A circle fits if there is some room around it, so that the roundings of its
  corner do no harm.
\<close>

fun fits :: "rat \<Rightarrow> figure \<Rightarrow> bool" where
  "fits c (Polygon ps) \<longleftrightarrow> (\<forall>(x, y) \<in> set ps. 0 \<le> x \<and> x \<le> c \<and> 0 \<le> y \<and> y \<le> c)"
| "fits c (Circle (x, y) d ccw) \<longleftrightarrow> 1 / 1000 \<le> x \<and> 1 / 1000 \<le> y \<and> 0 \<le> d \<and> x + d \<le> c - 1 / 1000 \<and> y + d \<le> c - 1 / 1000"

definition sound :: "picture shape \<Rightarrow> int \<Rightarrow> bool" where
  "sound sh n \<longleftrightarrow> (\<exists>L. (\<forall>i. paints (\<lambda>g. sh g (of_int n) i) L) \<and> (\<forall>f \<in> set L. fits (of_int n) f))"

lemma soundI:
  assumes "\<And>i. paints (\<lambda>g. sh g (of_int n) i) L" "\<And>f. f \<in> set L \<Longrightarrow> fits (of_int n) f"
  shows "sound sh n"
  using assms by (auto simp: sound_def)

lemma literals: "rnd (1 / 2) = 1 / 2" "rnd (1 / 4) = 1 / 4"
  using rnd_dyadic [of 1 "- 1"] rnd_dyadic [of 1 "- 2"] by (simp_all add: pow2_def)

lemma sound_triangles:
  assumes "7 \<le> n" "n \<le> 100000000"
  shows "sound outer_triangle n" "sound outer_low_triangle n" "sound center_corner n"
proof -
  have n: "0 \<le> (of_int n :: rat)" "rnd (of_int n / 2) = of_int n / 2" "rnd (of_int n) = of_int n"
    using assms rnd_ints [of n 0] by simp_all
  show "sound outer_triangle n"
    unfolding outer_triangle_def [abs_def] by (rule soundI, rule paints_triangle) (use assms in \<open>auto simp: js_splice_def n\<close>)
  show "sound outer_low_triangle n"
    unfolding outer_low_triangle_def [abs_def] by (rule soundI, rule paints_triangle) (use assms in \<open>auto simp: js_splice_def n\<close>)
  show "sound center_corner n"
    unfolding center_corner_def [abs_def] Let_def by (rule soundI, rule paints_triangle) (use assms in \<open>auto simp: js_splice_def n\<close>)
qed

lemma sound_rhombus:
  assumes "7 \<le> n" "n \<le> 100000000"
  shows "sound outer_rhombus n" "sound center_rhombus_hole n"
proof -
  have n: "0 \<le> (of_int n :: rat)" "rnd (of_int n / 2) = of_int n / 2" "rnd (of_int n) = of_int n"
    using assms rnd_ints [of n 0] by simp_all
  show "sound outer_rhombus n"
    unfolding outer_rhombus_def [abs_def] by (rule soundI, rule paints_rhombus) (use assms in \<open>auto simp: n\<close>)
  have e: "rnd (of_int k / 8) = of_int k / 8" if "\<bar>k\<bar> \<le> 8 * 100000000" for k
    using rnd_dyadic [of k "- 3"] that by (simp add: pow2_def)
  have q: "rnd (of_int n / 4) = of_int n / 4" "rnd (3 * of_int n / 4) = 3 * of_int n / 4" "rnd (3 * of_int n / 8) = 3 * of_int n / 8"
    "rnd (5 * of_int n / 8) = 5 * of_int n / 8"
    using e [of "2 * n"] e [of "6 * n"] e [of "3 * n"] e [of "5 * n"] assms by (simp_all add: field_simps)
  show "sound center_rhombus_hole n"
    unfolding center_rhombus_hole_def [abs_def] Let_def
    by (rule soundI, rule paints_then, rule paints_rectangle) (use assms in \<open>auto simp: n q\<close>)
qed

lemma sound_blocks:
  assumes "7 \<le> n" "n \<le> 100000000"
  shows "sound center_blocks n"
proof -
  have n: "0 \<le> (of_int n :: rat)" "rnd (of_int n / 2) = of_int n / 2" "rnd (of_int n) = of_int n"
    using assms rnd_ints [of n 0] by simp_all
  show ?thesis unfolding center_blocks_def [abs_def] Let_def
    by (rule soundI, rule paints_then, rule paints_then, rule paints_rectangle) (use assms in \<open>auto simp: js_splice_def n\<close>)
qed

lemma sound_cut:
  assumes "7 \<le> n" "n \<le> 100000000"
  shows "sound center_cut n" "sound center_notch n"
proof -
  have n: "7 \<le> (of_int n :: rat)" "(of_int n :: rat) \<le> 100000000" using assms by simp_all
  note s = rnd_scaled [OF assms]
  let ?k = "rnd (of_int n * rnd (42 / 100))"
  have k: "0 \<le> ?k" "?k \<le> of_int n * (421 / 1000)" using s [of "42 / 100"] n by auto
  have "0 \<le> rnd (?k * 2) \<and> rnd (?k * 2) \<le> of_int n" by (rule rnd_cell) (use k n assms in linarith)+
  then have "0 \<le> rnd (of_int n - rnd (?k * 2)) \<and> rnd (of_int n - rnd (?k * 2)) \<le> of_int n"
    by (intro rnd_cell) (use assms in linarith)+
  note a = this
  have b: "0 \<le> rnd (of_int n - ?k) \<and> rnd (of_int n - ?k) \<le> of_int n" by (rule rnd_cell) (use k n assms in linarith)+
  show "sound center_cut n"
    unfolding center_cut_def [abs_def] Let_def by (rule soundI, rule paints_polygon) (use n a b in auto)
  have c: "0 \<le> rnd (of_int n * rnd (7 / 10))" "rnd (of_int n * rnd (7 / 10)) \<le> of_int n"
    "0 \<le> rnd (of_int n * rnd (4 / 10))" "rnd (of_int n * rnd (4 / 10)) \<le> of_int n"
    using s [of "7 / 10"] s [of "4 / 10"] n by auto
  show "sound center_notch n"
    unfolding center_notch_def [abs_def] Let_def by (rule soundI, rule paints_polygon) (use n c in auto)
qed

lemma int_part:
  assumes "7 \<le> n" "n \<le> 100000000" "0 \<le> q" "q \<le> 8 / 10"
  shows "\<exists>p. part (of_int n) (rnd q) = of_int p \<and> 0 \<le> p \<and> p \<le> n \<and> of_int p \<le> of_int n * (q + 1 / 1000) \<and>
    of_int n * (q - 1 / 1000) - 1 \<le> of_int p"
proof -
  obtain p where p: "part (of_int n) (rnd q) = of_int p" "0 \<le> p" "of_int p \<le> of_int n * (q + 1 / 1000)"
    "of_int n * (q - 1 / 1000) - 1 \<le> of_int p" using part_bounds [of n q] assms by auto
  have "of_int n * (q + 1 / 1000) \<le> (of_int n * 1 :: rat)" using assms by (intro mult_left_mono) simp_all
  then have "p \<le> n" using p(3) by simp
  then show ?thesis using p by blast
qed

text \<open>A square with integer corners, and what is left of a cell beside two integers.\<close>

lemma paints_inset:
  assumes "0 \<le> a" "0 \<le> w" "a + w \<le> n" "n \<le> 100000000"
  shows "\<exists>f. paints (\<lambda>g. addRectangle g (of_int a) (of_int a) (of_int w) (of_int w) ccw) [f] \<and> fits (of_int n) f"
proof (intro exI conjI)
  have "rnd (of_int a + of_int w) = of_int (a + w)" using assms rnd_ints [of a w] by simp
  then show "fits (of_int n) (Polygon ((if ccw then rev else id)
      [(of_int a, of_int a), (rnd (of_int a + of_int w), of_int a), (rnd (of_int a + of_int w), rnd (of_int a + of_int w)), (of_int a, rnd (of_int a + of_int w))]))"
    using assms by (auto simp flip: of_int_add)
qed (rule paints_rectangle)

lemma two_diffs:
  assumes "0 \<le> a" "0 \<le> b" "a + b \<le> n" "n \<le> 100000000"
  shows "rnd (rnd (of_int n - of_int a) - of_int b) = of_int (n - a - b)"
  using assms rnd_ints(3) [of n a] rnd_ints(3) [of "n - a" b] by simp

lemma paints_box:
  assumes "0 \<le> n" "n \<le> 100000000"
  shows "\<exists>f. paints (\<lambda>g. addRectangle g 0 0 (of_int n) (of_int n) ccw) [f] \<and> fits (of_int n) f"
  using paints_inset [of 0 n n ccw] assms by simp

lemma sound_int_shapes:
  assumes "7 \<le> n" "n \<le> 100000000"
  shows "sound center_triangle n" "sound center_square n"
proof -
  obtain w where w: "part (of_int n) (1 / 2) = of_int w" "0 \<le> w" "w \<le> n"
    using int_part [OF assms, of "1 / 2"] unfolding literals by auto
  obtain h where h: "part (of_int n) (rnd (8 / 10)) = of_int h" "0 \<le> h" "h \<le> n" using int_part [OF assms, of "8 / 10"] by auto
  have r: "rnd (of_int n - of_int w) = of_int (n - w)" "rnd (of_int (n - w) + of_int w) = of_int n" "rnd (of_int h) = of_int h"
    using w h assms rnd_ints(3) [of n w] rnd_ints(2) [of "n - w" w] rnd_ints(1) [of h 0] by simp_all
  show "sound center_triangle n"
  proof (rule soundI)
    show "paints (\<lambda>g. center_triangle g (of_int n) i) [Polygon [(of_int n, 0), (of_int n, of_int h), (of_int (n - w), 0)]]" for i
      using paints_triangle [of "of_int (n - w)" 0 "of_int w" "of_int h" 2]
      unfolding center_triangle_def [abs_def] Let_def w(1) h(1) r(1) by (simp add: js_splice_def r del: of_int_diff)
  qed (use w h assms in auto)
  have q: "of_int (int32 (Fin (rnd (of_int n / 3)))) = (of_int (n div 3) :: rat)" "0 \<le> n div 3" "n div 3 \<le> n"
    using assms floor_quotient [of n 3] rnd_cell [of "of_int n / 3" n] by (auto simp: int32_floor)
  have d: "rnd (of_int n - of_int (n div 3)) = of_int (n - n div 3)" using rnd_ints(3) [of n "n div 3"] assms q by simp
  obtain f where "paints (\<lambda>g. addRectangle g (of_int (n div 3)) (of_int (n div 3)) (of_int (n - n div 3)) (of_int (n - n div 3)) False) [f]"
    "fits (of_int n) f" using paints_inset [of "n div 3" "n - n div 3" n False] assms q by auto
  then show "sound center_square n"
    by (intro soundI [of _ _ "[f]"]) (simp_all only: center_square_def [abs_def] Let_def q(1) d set_simps, auto)
qed

lemma sound_insets:
  assumes "7 \<le> n" "n \<le> 100000000"
  shows "sound center_inset n" "sound center_hole n"
proof -
  have n: "7 \<le> (of_int n :: rat)" using assms by simp
  obtain a where a: "part (of_int n) (rnd (1 / 10)) = of_int a" "0 \<le> a" "(of_int a :: rat) \<le> of_int n * (1 / 10 + 1 / 1000)"
    using int_part [OF assms, of "1 / 10"] by auto
  obtain b where b: "part (of_int n) (1 / 4) = of_int b" "0 \<le> b" "(of_int b :: rat) \<le> of_int n * (1 / 4 + 1 / 1000)"
    using int_part [OF assms, of "1 / 4"] unfolding literals by auto
  have "of_int (a + b) \<le> (of_int n :: rat)" using a(3) b(3) n by simp
  then have ab: "a + b \<le> n" by (simp only: of_int_le_iff)
  then obtain f where "paints (\<lambda>g. addRectangle g (of_int b) (of_int b) (of_int (n - a - b)) (of_int (n - a - b)) False) [f]" "fits (of_int n) f"
    using paints_inset [of b "n - a - b" n False] assms a b by auto
  then show "sound center_inset n"
    by (intro soundI [of _ _ "[f]"])
      (simp_all only: center_inset_def [abs_def] Let_def a(1) b(1) two_diffs [OF a(2) b(2) ab assms(2)] set_simps, auto)
  obtain c where c: "part (of_int n) (rnd (14 / 100)) = of_int c" "0 \<le> c" "(of_int c :: rat) \<le> of_int n * (14 / 100 + 1 / 1000)"
    using int_part [OF assms, of "14 / 100"] by auto
  obtain d where d: "part (of_int n) (rnd (35 / 100)) = of_int d" "0 \<le> d" "(of_int d :: rat) \<le> of_int n * (35 / 100 + 1 / 1000)"
    using int_part [OF assms, of "35 / 100"] by auto
  have "of_int (d + c) \<le> (of_int n :: rat)" using c(3) d(3) n by simp
  then have dc: "d + c \<le> n" by (simp only: of_int_le_iff)
  then obtain f where f: "paints (\<lambda>g. addRectangle g (of_int d) (of_int d) (of_int (n - d - c)) (of_int (n - d - c)) True) [f]" "fits (of_int n) f"
    using paints_inset [of d "n - d - c" n True] assms c d by auto
  obtain e where e: "paints (\<lambda>g. addRectangle g 0 0 (of_int n) (of_int n) False) [e]" "fits (of_int n) e" using paints_box [of n] assms by auto
  show "sound center_hole n"
    using paints_seq [OF e(1) f(1)] e(2) f(2)
    by (intro soundI [of _ _ "[e] @ [f]"])
      (simp_all only: center_hole_def [abs_def] Let_def c(1) d(1) two_diffs [OF d(2) c(2) dc assms(2)], auto)
qed

lemma sound_discs:
  assumes "7 \<le> n" "n \<le> 100000000"
  shows "sound center_disc n"
proof -
  have n: "7 \<le> (of_int n :: rat)" "(of_int n :: rat) \<le> 100000000" using assms by simp_all
  obtain m where m: "part (of_int n) (rnd (15 / 100)) = of_int m" "0 \<le> m" "(of_int m :: rat) \<le> of_int n * (15 / 100 + 1 / 1000)"
    "of_int n * (15 / 100 - 1 / 1000) - 1 \<le> (of_int m :: rat)"
    using int_part [OF assms, of "15 / 100"] by auto
  obtain s where s: "part (of_int n) (1 / 2) = of_int s" "0 \<le> s" "(of_int s :: rat) \<le> of_int n * (1 / 2 + 1 / 1000)"
    using int_part [OF assms, of "1 / 2"] unfolding literals by auto
  have "of_int (s + m) \<le> (of_int n :: rat)" using m(3) s(3) n by simp
  then have sm: "s + m \<le> n" by (simp only: of_int_le_iff)
  have "0 < (of_int m :: rat)" using m(4) n by simp
  then have m1: "1 \<le> m" by simp
  have nsm: "1 \<le> n - s - m"
  proof -
    have "1 \<le> (of_int (n - s - m) :: rat)" using m(3) s(3) n by simp
    then show ?thesis by simp
  qed
  show "sound center_disc n"
    by (intro soundI [of _ _ "[Circle (of_int (n - s - m), of_int (n - s - m)) (of_int s) False]"])
      (simp_all only: center_disc_def [abs_def] Let_def m(1) s(1) two_diffs [OF s(2) m(2) sm assms(2)] paints_circle,
        use m1 nsm s(2) in auto)
qed

lemma sound_round:
  assumes "7 \<le> n" "n \<le> 100000000"
  shows "sound outer_disc n" "sound center_round_hole n"
proof -
  let ?c = "of_int n :: rat"
  have n: "7 \<le> ?c" "?c \<le> 100000000" using assms by simp_all
  have r: "z - 1 / 1000000 \<le> rnd z \<and> rnd z \<le> z + 1 / 1000000" if "- 1000000000 \<le> z \<and> z \<le> 1000000000" for z
    using rnd_close [of z] that by blast
  obtain e where e: "paints (\<lambda>g. addRectangle g 0 0 ?c ?c False) [e]" "fits ?c e" using paints_box [of n] assms by auto
  define m where "m = rnd (?c / 6)"
  define m2 where "m2 = rnd (2 * m)"
  define d where "d = rnd (?c - m2)"
  have m: "?c / 6 - 1 / 1000000 \<le> m \<and> m \<le> ?c / 6 + 1 / 1000000" unfolding m_def by (rule r) (use n in linarith)
  have m2: "2 * m - 1 / 1000000 \<le> m2 \<and> m2 \<le> 2 * m + 1 / 1000000" unfolding m2_def by (rule r) (use n m in linarith)
  have d: "?c - m2 - 1 / 1000000 \<le> d \<and> d \<le> ?c - m2 + 1 / 1000000" unfolding d_def by (rule r) (use n m m2 in linarith)
  show "sound outer_disc n"
    by (intro soundI [of _ _ "[Circle (m, m) d False]"])
      (simp_all only: outer_disc_def [abs_def] Let_def m_def [symmetric] m2_def [symmetric] d_def [symmetric] paints_circle,
        use m m2 d n in auto)
  define i where "i = rnd (?c * rnd (12 / 100))"
  define j where "j = rnd (i * 3)"
  define k where "k = rnd (?c - i)"
  define l where "l = rnd (k - j)"
  have i: "?c * (119 / 1000) \<le> i \<and> i \<le> ?c * (121 / 1000)" unfolding i_def using rnd_scaled [OF assms, of "12 / 100"] by simp
  have j: "i * 3 - 1 / 1000000 \<le> j \<and> j \<le> i * 3 + 1 / 1000000" unfolding j_def by (rule r) (use n i in linarith)
  have k: "?c - i - 1 / 1000000 \<le> k \<and> k \<le> ?c - i + 1 / 1000000" unfolding k_def by (rule r) (use n i in linarith)
  have l: "k - j - 1 / 1000000 \<le> l \<and> l \<le> k - j + 1 / 1000000" unfolding l_def by (rule r) (use n i j k in linarith)
  have "fits ?c (Circle (j, j) l True)" using i j k l n by auto
  with paints_seq [OF e(1) paints_circle [of j j l True]] show "sound center_round_hole n"
    using e(2) by (intro soundI [of _ _ "[e] @ [Circle (j, j) l True]"])
      (simp_all only: center_round_hole_def [abs_def] Let_def i_def [symmetric] j_def [symmetric] k_def [symmetric] l_def [symmetric], auto)
qed

lemma sound_negative_triangle:
  assumes "7 \<le> n" "n \<le> 100000000"
  shows "sound center_negative_triangle n"
proof -
  let ?c = "of_int n :: rat"
  have n: "7 \<le> ?c" "?c \<le> 100000000" using assms by simp_all
  obtain e where e: "paints (\<lambda>g. addRectangle g 0 0 ?c ?c False) [e]" "fits ?c e" using paints_box [of n] assms by auto
  have r: "z - 1 / 1000000 \<le> rnd z \<and> rnd z \<le> z + 1 / 1000000" if "- 1000000000 \<le> z \<and> z \<le> 1000000000" for z
    using rnd_close [of z] that by blast
  define i where "i = rnd (?c * rnd (1 / 10))"
  define j where "j = rnd (i * 4)"
  define k where "k = rnd (?c - i)"
  define l where "l = rnd (?c - j)"
  define u where "u = rnd (l - i)"
  define v where "v = rnd (u / 2)"
  define w where "w = rnd (j + v)"
  have i: "?c * (99 / 1000) \<le> i \<and> i \<le> ?c * (101 / 1000)" unfolding i_def using rnd_scaled [OF assms, of "1 / 10"] by simp
  have j: "i * 4 - 1 / 1000000 \<le> j \<and> j \<le> i * 4 + 1 / 1000000" unfolding j_def by (rule r) (use n i in linarith)
  have k: "?c - i - 1 / 1000000 \<le> k \<and> k \<le> ?c - i + 1 / 1000000" unfolding k_def by (rule r) (use n i in linarith)
  have l: "?c - j - 1 / 1000000 \<le> l \<and> l \<le> ?c - j + 1 / 1000000" unfolding l_def by (rule r) (use n i j in linarith)
  have u: "l - i - 1 / 1000000 \<le> u \<and> u \<le> l - i + 1 / 1000000" unfolding u_def by (rule r) (use n i j l in linarith)
  have v: "u / 2 - 1 / 1000000 \<le> v \<and> v \<le> u / 2 + 1 / 1000000" unfolding v_def by (rule r) (use n i j l u in linarith)
  have w: "j + v - 1 / 1000000 \<le> w \<and> w \<le> j + v + 1 / 1000000" unfolding w_def by (rule r) (use n i j l u v in linarith)
  have f: "fits ?c (Polygon (rev (pairs [j, j, k, j, w, k])))" using i j k l u v w n by auto
  show "sound center_negative_triangle n"
    using paints_seq [OF e(1) paints_polygon [of "[j, j, k, j, w, k]" True]] f e(2)
    by (intro soundI [of _ _ "[e] @ [Polygon (rev (pairs [j, j, k, j, w, k]))]"])
      (simp_all only: center_negative_triangle_def [abs_def] Let_def i_def [symmetric] j_def [symmetric] k_def [symmetric]
        l_def [symmetric] u_def [symmetric] v_def [symmetric] w_def [symmetric] if_True, auto)
qed

lemma sound_shapes:
  assumes "7 \<le> n" "n \<le> 100000000"
  shows "k < 4 \<Longrightarrow> sound (shapes_outer ! k) n" "k < 13 \<Longrightarrow> sound (shapes_center ! k) n"
  using sound_triangles [OF assms] sound_rhombus [OF assms] sound_blocks [OF assms] sound_cut [OF assms] sound_int_shapes [OF assms]
    sound_insets [OF assms] sound_discs [OF assms] sound_round [OF assms] sound_negative_triangle [OF assms]
  by (auto simp: shapes_outer_def shapes_center_def less_Suc_eq numeral_eq_Suc)

section \<open>Placing a figure\<close>

lemma cell_at_int:
  assumes "0 \<le> a" "0 \<le> n" "a + 4 * n \<le> 100000000" "fst pos \<le> 3" "snd pos \<le> 3"
  shows "cell_at (of_int a) (of_int a) (of_int n) pos r =
    \<lparr>tr_x = of_int (a + int (fst pos) * n), tr_y = of_int (a + int (snd pos) * n), tr_size = of_int n, tr_rotation = r mod 4\<rparr>"
proof -
  have "rnd (of_int a + rnd (of_nat k * of_int n)) = of_int (a + int k * n)" if "k \<le> 3" for k
  proof -
    have k: "0 \<le> int k * n" "int k * n \<le> 3 * n" using assms(2) that by (simp_all add: mult_right_mono)
    then have "rnd (of_nat k * of_int n) = of_int (int k * n)" using rnd_ints(1) [of "int k * n" 0] assms by simp
    then show ?thesis using rnd_ints(2) [of a "int k * n"] k assms by simp
  qed
  from this [OF assms(4)] this [OF assms(5)] show ?thesis by (simp add: cell_at_def)
qed

text \<open>The two kinds of coordinates that a transformation gives, from the low and from the high side of a cell.\<close>

lemma coordinate_inside:
  assumes "0 \<le> a" "0 \<le> n" "a + n \<le> 100000000" "0 \<le> v" "v \<le> of_int n"
  shows "of_int a \<le> rnd (of_int a + v) \<and> rnd (of_int a + v) \<le> of_int a + of_int n"
    "of_int a \<le> rnd (rnd (rnd (of_int a + of_int n) - v)) \<and> rnd (rnd (rnd (of_int a + of_int n) - v)) \<le> of_int a + of_int n"
proof -
  have w: "of_int a \<le> rnd z \<and> rnd z \<le> of_int a + of_int n" if "of_int a \<le> z \<and> z \<le> of_int a + of_int n" for z
    using rnd_within [of a z "a + n"] that assms by simp
  show "of_int a \<le> rnd (of_int a + v) \<and> rnd (of_int a + v) \<le> of_int a + of_int n" by (rule w) (use assms in linarith)
  have "rnd (of_int a + of_int n) = of_int a + of_int n" using rnd_ints(2) [of a n] assms by simp
  then show "of_int a \<le> rnd (rnd (rnd (of_int a + of_int n) - v)) \<and> rnd (rnd (rnd (of_int a + of_int n) - v)) \<le> of_int a + of_int n"
    using assms by (intro w) simp
qed

lemma coordinate_close:
  assumes "0 \<le> a" "0 \<le> n" "a + n \<le> 100000000" "0 \<le> v" "v \<le> of_int n" "0 \<le> d" "d \<le> of_int n"
  shows "of_int a + v - 1 / 1000000 \<le> rnd (of_int a + v) \<and> rnd (of_int a + v) \<le> of_int a + v + 1 / 1000000"
    "of_int a + of_int n - v - d - 2 / 1000000 \<le> rnd (rnd (rnd (of_int a + of_int n) - v) - d) \<and>
     rnd (rnd (rnd (of_int a + of_int n) - v) - d) \<le> of_int a + of_int n - v - d + 2 / 1000000"
proof -
  have b: "0 \<le> (of_int a :: rat)" "0 \<le> (of_int n :: rat)" using assms by simp_all
  have "of_int (a + n) \<le> (of_int 100000000 :: rat)" using assms(3) by (simp only: of_int_le_iff)
  then have s: "of_int a + of_int n \<le> (100000000 :: rat)" by simp
  have r: "z - 1 / 1000000 \<le> rnd z \<and> rnd z \<le> z + 1 / 1000000" if "- 1000000000 \<le> z \<and> z \<le> 1000000000" for z
    using rnd_close [of z] that by blast
  show "of_int a + v - 1 / 1000000 \<le> rnd (of_int a + v) \<and> rnd (of_int a + v) \<le> of_int a + v + 1 / 1000000"
    by (rule r) (use b s assms in linarith)
  have e: "rnd (of_int a + of_int n) = of_int a + of_int n" using rnd_ints(2) [of a n] assms by simp
  define z where "z = rnd (of_int a + of_int n - v)"
  have z: "of_int a + of_int n - v - 1 / 1000000 \<le> z \<and> z \<le> of_int a + of_int n - v + 1 / 1000000"
    unfolding z_def by (rule r) (use b s assms in linarith)
  have "z - d - 1 / 1000000 \<le> rnd (z - d) \<and> rnd (z - d) \<le> z - d + 1 / 1000000" by (rule r) (use b s assms z in linarith)
  with z show "of_int a + of_int n - v - d - 2 / 1000000 \<le> rnd (rnd (rnd (of_int a + of_int n) - v) - d) \<and>
     rnd (rnd (rnd (of_int a + of_int n) - v) - d) \<le> of_int a + of_int n - v - d + 2 / 1000000"
    unfolding e z_def [symmetric] by linarith
qed

fun inside :: "rat \<Rightarrow> rat \<Rightarrow> figure \<Rightarrow> bool" where
  "inside lo hi (Polygon ps) \<longleftrightarrow> (\<forall>p \<in> set ps. lo \<le> fst p \<and> fst p \<le> hi \<and> lo \<le> snd p \<and> snd p \<le> hi)"
| "inside lo hi (Circle (x, y) d ccw) \<longleftrightarrow> 0 \<le> d \<and> lo \<le> x \<and> x + d \<le> hi \<and> lo \<le> y \<and> y + d \<le> hi"

lemma inside_mono: "inside a b f \<Longrightarrow> c \<le> a \<Longrightarrow> b \<le> e \<Longrightarrow> inside c e f"
  by (induction a b f rule: inside.induct) (simp_all, blast intro: order_trans)

definition small :: "int \<Rightarrow> int \<Rightarrow> bool" where
  "small a n \<longleftrightarrow> 0 \<le> a \<and> 7 \<le> n \<and> a + 4 * n \<le> 100000000"

lemma place_inside:
  assumes "small a n" "fst pos \<le> 3" "snd pos \<le> 3" "fits (of_int n) f"
  shows "inside (of_int a) (of_int (a + 4 * n)) (place (cell_at (of_int a) (of_int a) (of_int n) pos r) f)"
proof -
  have an: "0 \<le> a" "0 \<le> n" "a + 4 * n \<le> 100000000" using assms(1) by (simp_all add: small_def)
  define x y where "x = a + int (fst pos) * n" and "y = a + int (snd pos) * n"
  have k: "0 \<le> int j * n" "int j * n \<le> 3 * n" if "j \<le> 3" for j using an(2) that by (simp_all add: mult_right_mono)
  have x: "a \<le> x" "x + n \<le> a + 4 * n" and y: "a \<le> y" "y + n \<le> a + 4 * n"
    using k [OF assms(2)] k [OF assms(3)] by (simp_all add: x_def y_def)
  have xb: "0 \<le> x" "x + n \<le> 100000000" and yb: "0 \<le> y" "y + n \<le> 100000000" using x y an by linarith+
  have q: "(of_int a :: rat) \<le> of_int x" "of_int x + of_int n \<le> (of_int (a + 4 * n) :: rat)"
    "(of_int a :: rat) \<le> of_int y" "of_int y + of_int n \<le> (of_int (a + 4 * n) :: rat)"
    using x y by (simp_all only: of_int_le_iff flip: of_int_add)
  note c = cell_at_int [OF an assms(2,3), of r, folded x_def y_def]
  show ?thesis
  proof (cases f)
    case (Polygon ps)
    have "of_int a \<le> fst (transformPoint (cell_at (of_int a) (of_int a) (of_int n) pos r) u v 0 0) \<and>
        fst (transformPoint (cell_at (of_int a) (of_int a) (of_int n) pos r) u v 0 0) \<le> of_int (a + 4 * n) \<and>
        of_int a \<le> snd (transformPoint (cell_at (of_int a) (of_int a) (of_int n) pos r) u v 0 0) \<and>
        snd (transformPoint (cell_at (of_int a) (of_int a) (of_int n) pos r) u v 0 0) \<le> of_int (a + 4 * n)" if "(u, v) \<in> set ps" for u v
    proof -
      have uv: "0 \<le> u" "u \<le> of_int n" "0 \<le> v" "v \<le> of_int n" using assms(4) that Polygon by auto
      note i = coordinate_inside [OF xb(1) an(2) xb(2) uv(1,2)] coordinate_inside [OF xb(1) an(2) xb(2) uv(3,4)]
        coordinate_inside [OF yb(1) an(2) yb(2) uv(1,2)] coordinate_inside [OF yb(1) an(2) yb(2) uv(3,4)]
      show ?thesis unfolding c transformPoint_def Let_def using i q by (simp del: of_int_add)
    qed
    then show ?thesis by (simp add: Polygon case_prod_beta)
  next
    case (Circle p d ccw)
    obtain u v where p: "p = (u, v)" by (cases p)
    have uv: "1 / 1000 \<le> u" "1 / 1000 \<le> v" "0 \<le> d" "u + d \<le> of_int n - 1 / 1000" "v + d \<le> of_int n - 1 / 1000" using assms(4) by (auto simp: Circle p)
    then have uv1: "0 \<le> u" "u \<le> of_int n" "0 \<le> v" "v \<le> of_int n" "0 \<le> d" "d \<le> of_int n" by linarith+
    note i = coordinate_close [OF xb(1) an(2) xb(2) uv1(1,2,5,6)] coordinate_close [OF xb(1) an(2) xb(2) uv1(3-6)]
      coordinate_close [OF yb(1) an(2) yb(2) uv1(1,2,5,6)] coordinate_close [OF yb(1) an(2) yb(2) uv1(3-6)]
    consider "r mod 4 = 0" | "r mod 4 = 1" | "r mod 4 = 2" | "r mod 4 = 3" by linarith
    then show ?thesis
      by cases (simp add: c Circle p transformPoint_def Let_def del: of_int_add, intro conjI; use i q uv in linarith)+
  qed
qed

text \<open>The big disc covers the middle of the icon.\<close>

lemma big_disc_close:
  assumes "7 \<le> n" "n \<le> 25000000"
  shows "of_int n * (399 / 1000) \<le> rnd (of_int n * rnd (4 / 10)) \<and> rnd (of_int n * rnd (4 / 10)) \<le> of_int n * (401 / 1000)"
    "of_int n * (1199 / 1000) \<le> rnd (of_int n * rnd (12 / 10)) \<and> rnd (of_int n * rnd (12 / 10)) \<le> of_int n * (1201 / 1000)"
  using rnd_scaled [of n "4 / 10"] rnd_scaled [of n "12 / 10"] assms by simp_all

section \<open>The square of an icon\<close>

lemma icon_frame:
  assumes "0 \<le> s" "s \<le> 100000000" "0 \<le> icon_padding (Fin (of_int s)) padding" "\<not> num_less (icon_size (Fin (of_int s)) padding) (Fin 30)"
  defines "a \<equiv> icon_offset (Fin (of_int s)) padding" and "n \<equiv> icon_cell (Fin (of_int s)) padding" and "p \<equiv> icon_padding (Fin (of_int s)) padding"
  shows "small a n" "p \<le> a" "a + 4 * n \<le> s - p" "n = (s - 2 * p) div 4"
proof -
  have p31: "p < 2 ^ 31" unfolding p_def icon_padding_def int32_def
    by (auto split: jsnum.splits simp: sint_lt [where 'a = 32, simplified])
  have p: "0 \<le> p" using assms(3) by (simp add: p_def)
  have "rnd (of_int p * 2) = of_int (2 * p)" using rnd_int [of "2 * p"] p p31 by (simp add: mult.commute)
  moreover have "rnd (of_int s - of_int (2 * p)) = of_int (s - 2 * p)" using rnd_int [of "s - 2 * p"] p p31 assms(1,2) by (auto simp: abs_if)
  ultimately have z: "icon_size (Fin (of_int s)) padding = Fin (of_int (s - 2 * p))" by (simp add: icon_size_def p_def [symmetric])
  then have "(30 :: rat) \<le> of_int (s - 2 * p)" using assms(4) by simp
  then have m: "30 \<le> s - 2 * p" by linarith
  let ?q = "rnd (of_int (s - 2 * p) / 4)"
  have f: "floor ?q = (s - 2 * p) div 4" using floor_quotient [of "s - 2 * p" 4] m assms(2) p by simp
  have "0 \<le> ?q \<and> ?q \<le> of_int (s - 2 * p)" using m p assms(2) by (intro rnd_cell) (simp_all del: of_int_diff)
  moreover have "of_int (s - 2 * p) \<le> (100000000 :: rat)" using p assms(2) by (simp only: of_int_le_numeral_iff)
  ultimately have q: "0 \<le> ?q" "?q < 2147483648" by linarith+
  show n: "n = (s - 2 * p) div 4" unfolding n_def icon_cell_def z num_over.simps int32_floor [OF q] f ..
  then have n1: "7 \<le> n" "4 * n \<le> s - 2 * p" using m by linarith+
  have h: "rnd (of_int (s - 2 * p) / 2) = of_int (s - 2 * p) / 2" using rnd_ints(5) [of "s - 2 * p" 0] m p assms(2) by simp
  have h2: "of_int p + of_int (s - 2 * p) / 2 = (of_int s / 2 :: rat)" by (simp add: field_simps)
  have h3: "rnd (of_int s / 2) = of_int s / 2" "rnd (of_int n * 2) = of_int (2 * n)" using rnd_ints(5) [of s 0] rnd_ints(4) [of n 0] assms(1,2) n1 p by simp_all
  have h4: "rnd (of_int s / 2 - of_int (2 * n)) = of_int (s - 4 * n) / 2"
    using rnd_ints(5) [of "s - 4 * n" 0] assms(1,2) n1 p by (simp add: diff_divide_distrib)
  have d: "floor (of_int (s - 4 * n) / (2 :: rat)) = (s - 4 * n) div 2" using floor_divide_of_int_eq [of "s - 4 * n" 2] by simp
  have "0 \<le> (of_int (s - 4 * n) :: rat)" "of_int (s - 4 * n) \<le> (100000000 :: rat)"
    using n1 p assms(2) by (simp_all only: of_int_le_numeral_iff of_int_0_le_iff)
  then have r: "0 \<le> of_int (s - 4 * n) / (2 :: rat)" "of_int (s - 4 * n) / (2 :: rat) < 2147483648" by (simp_all del: of_int_diff)
  have a: "a = (s - 4 * n) div 2"
    unfolding a_def icon_offset_def z n_def [symmetric] p_def [symmetric] num_over.simps num_add.simps num_mul.simps num_sub.simps h h2 h3 h4
      int32_floor [OF r] d ..
  show "small a n" "p \<le> a" "a + 4 * n \<le> s - p" using n1 p assms(2) by (simp_all add: a small_def)
qed

lemma set_layer_figures:
  "f \<in> set (layer_figures L x y c r i ps) \<longleftrightarrow>
     (\<exists>k < length ps. \<exists>g \<in> set (L (i + k)). f = place (cell_at x y c (ps ! k) (r + k)) g)"
proof (induction ps arbitrary: r i)
  case (Cons q ps)
  have "(\<exists>k < length (q # ps). P k) \<longleftrightarrow> P 0 \<or> (\<exists>k < length ps. P (Suc k))" for P :: "nat \<Rightarrow> bool"
    by (auto simp: less_Suc_eq_0_disj)
  then show ?case by (auto simp: Cons)
qed simp

text \<open>
  An icon in numbers: offset, cell size, and for each layer the figures of its shape, which fit a cell, except for the big disc.
\<close>

lemma icon_shapes:
  assumes "icon config hash sz padding = Inr ls" "7 \<le> icon_cell sz padding" "icon_cell sz padding \<le> 25000000" "\<bar>icon_offset sz padding\<bar> \<le> 100000000"
  defines "n \<equiv> icon_cell sz padding" and "a \<equiv> icon_offset sz padding"
  shows "\<exists>c1 c2 c3 L1 L2 L3 r1 r2.
    ls = [(c1, layer_figures (\<lambda>i. L1) (of_int a) (of_int a) (of_int n) r1 0 sides),
          (c2, layer_figures (\<lambda>i. L2) (of_int a) (of_int a) (of_int n) r2 0 corners),
          (c3, layer_figures L3 (of_int a) (of_int a) (of_int n) 0 0 middle)] \<and>
    (\<forall>f \<in> set L1 \<union> set L2. fits (of_int n) f) \<and>
    ((\<exists>L. L3 = (\<lambda>i. L) \<and> (\<forall>f \<in> set L. fits (of_int n) f)) \<or>
     L3 = (\<lambda>i. if i = 0 then [Circle (rnd (of_int n * rnd (4 / 10)), rnd (of_int n * rnd (4 / 10))) (rnd (of_int n * rnd (12 / 10))) False] else []))"
proof -
  have n: "7 \<le> n" "n \<le> 100000000" using assms(2,3) by (simp_all add: n_def)
  have l: "length (shapes_outer :: picture shape list) = 4" "length (shapes_center :: picture shape list) = 14"
    by (simp_all add: shapes_outer_def shapes_center_def)
  have "sound (shape_of shapes_outer hash k) n" for k unfolding shape_of_def l by (rule sound_shapes [OF n]) simp
  then obtain L1 L2 where L1: "\<And>i. paints (\<lambda>g. shape_of shapes_outer hash 2 g (of_int n) i) L1" "\<forall>f \<in> set L1. fits (of_int n) f"
    and L2: "\<And>i. paints (\<lambda>g. shape_of shapes_outer hash 4 g (of_int n) i) L2" "\<forall>f \<in> set L2. fits (of_int n) f"
    unfolding sound_def by metis
  let ?big = "\<lambda>i :: nat. if i = 0 then [Circle (rnd (of_int n * rnd (4 / 10)), rnd (of_int n * rnd (4 / 10))) (rnd (of_int n * rnd (12 / 10))) False] else []"
  obtain L3 where L3: "\<And>i. paints (\<lambda>g. shape_of shapes_center hash 1 g (of_int n) i) (L3 i)"
    "(\<exists>L. L3 = (\<lambda>i. L) \<and> (\<forall>f \<in> set L. fits (of_int n) f)) \<or> L3 = ?big"
  proof (cases "hash_digit hash 1 mod 14 < 13")
    case True
    then have "sound (shape_of shapes_center hash 1) n" unfolding shape_of_def l by (rule sound_shapes [OF n])
    then obtain L where "\<And>i. paints (\<lambda>g. shape_of shapes_center hash 1 g (of_int n) i) L" "\<forall>f \<in> set L. fits (of_int n) f"
      unfolding sound_def by metis
    then show thesis by (intro that [of "\<lambda>i. L"]) auto
  next
    case False
    have "hash_digit hash 1 mod 14 < 14" by simp
    then have "hash_digit hash 1 mod 14 = 13" using False by linarith
    then have b: "shape_of shapes_center hash 1 = center_big_disc" unfolding shape_of_def l by (simp add: shapes_center_def)
    show thesis by (rule that [of ?big]) (simp_all only: b paints_big_disc, simp)
  qed
  have "valid_hash hash" "\<not> num_less (icon_size sz padding) (Fin 30)" using icon_refused [of config hash sz padding] assms(1) by auto
  note e = icon_eq [OF this, of "\<lambda>i. L1" "\<lambda>i. L2" L3 config, folded n_def a_def, OF L1(1) L2(1) L3(1)]
  have r: "rnd (of_int a) = of_int a" using rnd_ints(1) [of a 0] assms(4) by (simp add: a_def)
  show ?thesis
    by (rule exI, rule exI, rule exI, rule exI [of _ L1], rule exI [of _ L2], rule exI [of _ L3], rule exI, rule exI, intro conjI)
      (use e assms(1) in \<open>simp only: Let_def r sum.inject\<close>, use L1(2) L2(2) in blast, rule L3(2))
qed

lemma positions_small: "pos \<in> set (sides @ corners @ middle) \<Longrightarrow> fst pos \<le> 3 \<and> snd pos \<le> 3"
  by (auto simp: sides_def corners_def middle_def)

lemma layer_inside:
  assumes "small a n" "set ps \<subseteq> set (sides @ corners @ middle)" "\<And>i f. f \<in> set (L i) \<Longrightarrow> fits (of_int n) f"
    "f \<in> set (layer_figures L (of_int a) (of_int a) (of_int n) r i ps)"
  shows "inside (of_int a) (of_int (a + 4 * n)) f"
proof -
  obtain k g where k: "k < length ps" "g \<in> set (L (i + k))" "f = place (cell_at (of_int a) (of_int a) (of_int n) (ps ! k) (r + k)) g"
    using assms(4) unfolding set_layer_figures by blast
  have "ps ! k \<in> set (sides @ corners @ middle)" using assms(2) k(1) nth_mem by blast
  from positions_small [OF this] show ?thesis unfolding k(3) using place_inside assms(1,3) k(2) by blast
qed

lemma big_disc_placed:
  assumes "small a n"
  defines "m \<equiv> rnd (of_int n * rnd (4 / 10))" and "d \<equiv> rnd (of_int n * rnd (12 / 10))"
  shows "\<exists>q. place (cell_at (of_int a) (of_int a) (of_int n) (1, 1) 0) (Circle (m, m) d False) = Circle (q, q) d False \<and>
    of_int a + of_int n + m - 1 / 1000000 \<le> q \<and> q \<le> of_int a + of_int n + m + 1 / 1000000"
proof -
  have an: "0 \<le> a" "0 \<le> n" "a + 4 * n \<le> 100000000" "7 \<le> n" "n \<le> 25000000" using assms(1) by (simp_all add: small_def)
  have c: "cell_at (of_int a) (of_int a) (of_int n) (1, 1) 0 = \<lparr>tr_x = of_int (a + n), tr_y = of_int (a + n), tr_size = of_int n, tr_rotation = 0\<rparr>"
    using cell_at_int [OF an(1-3), of "(1, 1)" 0] by simp
  have m: "0 \<le> m" "m \<le> of_int n" using big_disc_close(1) [OF an(4,5)] an by (simp_all add: m_def)
  have "a + n + n \<le> 100000000" "0 \<le> a + n" using an by linarith+
  from coordinate_close(1) [OF this(2) an(2) this(1) m order_refl] an show ?thesis
    unfolding c by (intro exI conjI) (auto simp: transformPoint_def)
qed

definition turns :: "(nat \<times> nat) list \<Rightarrow> bool" where
  "turns ps \<longleftrightarrow> (\<forall>i < length ps. \<exists>j < length ps. ps ! j = (3 - snd (ps ! i), fst (ps ! i)) \<and> j mod 4 = Suc i mod 4)"

lemma positions_turn: "turns sides" "turns corners" "turns middle"
proof -
  have t: "turns ps" if "length ps = k" "\<forall>i \<in> {..<k}. \<exists>j \<in> {..<k}. ps ! j = (3 - snd (ps ! i), fst (ps ! i)) \<and> j mod 4 = Suc i mod 4"
    for ps :: "(nat \<times> nat) list" and k using that by (auto simp: turns_def)
  have e: "{..<8 :: nat} = {0, 1, 2, 3, 4, 5, 6, 7}" "{..<4 :: nat} = {0, 1, 2, 3}" by auto
  show "turns sides" by (rule t [of _ 8, unfolded e]) (simp_all add: sides_def)
  show "turns corners" by (rule t [of _ 4, unfolded e]) (simp_all add: corners_def)
  show "turns middle" by (rule t [of _ 4, unfolded e]) (simp_all add: middle_def)
qed

text \<open>
  A layer of an icon: the figures of a shape that fit a cell, in positions that a quarter turn permutes, or the big disc alone.
\<close>

lemma icon_layer:
  assumes "icon config hash (Fin (of_int s)) padding = Inr ls" "0 \<le> s" "s \<le> 100000000" "0 \<le> icon_padding (Fin (of_int s)) padding"
    and "l \<in> set ls"
  defines "a \<equiv> icon_offset (Fin (of_int s)) padding" and "n \<equiv> icon_cell (Fin (of_int s)) padding" and "p \<equiv> icon_padding (Fin (of_int s)) padding"
  shows "small a n" "p \<le> a" "a + 4 * n \<le> s - p"
    "(\<exists>L r ps. snd l = layer_figures (\<lambda>i. L) (of_int a) (of_int a) (of_int n) r 0 ps \<and> (\<forall>f \<in> set L. fits (of_int n) f) \<and>
       turns ps \<and> set ps \<subseteq> set (sides @ corners @ middle)) \<or>
     (\<exists>q. snd l = [Circle (q, q) (rnd (of_int n * rnd (12 / 10))) False] \<and>
       of_int a + of_int n + rnd (of_int n * rnd (4 / 10)) - 1 / 1000000 \<le> q \<and> q \<le> of_int a + of_int n + rnd (of_int n * rnd (4 / 10)) + 1 / 1000000)"
proof -
  have "\<not> num_less (icon_size (Fin (of_int s)) padding) (Fin 30)" using icon_refused [of config hash "Fin (of_int s)" padding] assms(1) by auto
  note fr = icon_frame [OF assms(2-4) this, folded a_def n_def p_def]
  show "small a n" "p \<le> a" "a + 4 * n \<le> s - p" by (fact fr(1-3))+
  have an: "7 \<le> n" "n \<le> 25000000" "\<bar>a\<bar> \<le> 100000000" using fr(1) by (simp_all add: small_def)
  note pos = positions_turn subset_refl
  obtain c1 c2 c3 L1 L2 L3 r1 r2 where ls: "ls = [(c1, layer_figures (\<lambda>i. L1) (of_int a) (of_int a) (of_int n) r1 0 sides),
          (c2, layer_figures (\<lambda>i. L2) (of_int a) (of_int a) (of_int n) r2 0 corners),
          (c3, layer_figures L3 (of_int a) (of_int a) (of_int n) 0 0 middle)]"
    and L: "\<forall>f \<in> set L1 \<union> set L2. fits (of_int n) f"
    and L3: "(\<exists>L. L3 = (\<lambda>i. L) \<and> (\<forall>f \<in> set L. fits (of_int n) f)) \<or>
     L3 = (\<lambda>i. if i = 0 then [Circle (rnd (of_int n * rnd (4 / 10)), rnd (of_int n * rnd (4 / 10))) (rnd (of_int n * rnd (12 / 10))) False] else [])"
    using icon_shapes [OF assms(1), folded n_def a_def, OF an] by blast
  have sub: "set sides \<subseteq> set (sides @ corners @ middle)" "set corners \<subseteq> set (sides @ corners @ middle)" "set middle \<subseteq> set (sides @ corners @ middle)"
    by auto
  consider "snd l = layer_figures (\<lambda>i. L1) (of_int a) (of_int a) (of_int n) r1 0 sides"
    | "snd l = layer_figures (\<lambda>i. L2) (of_int a) (of_int a) (of_int n) r2 0 corners"
    | L where "snd l = layer_figures (\<lambda>i. L) (of_int a) (of_int a) (of_int n) 0 0 middle" "\<forall>f \<in> set L. fits (of_int n) f"
    | "snd l = [place (cell_at (of_int a) (of_int a) (of_int n) (1, 1) 0)
         (Circle (rnd (of_int n * rnd (4 / 10)), rnd (of_int n * rnd (4 / 10))) (rnd (of_int n * rnd (12 / 10))) False)]"
    using assms(5) L3 unfolding ls by (auto simp: middle_def)
  then show "(\<exists>L r ps. snd l = layer_figures (\<lambda>i. L) (of_int a) (of_int a) (of_int n) r 0 ps \<and> (\<forall>f \<in> set L. fits (of_int n) f) \<and>
       turns ps \<and> set ps \<subseteq> set (sides @ corners @ middle)) \<or>
     (\<exists>q. snd l = [Circle (q, q) (rnd (of_int n * rnd (12 / 10))) False] \<and>
       of_int a + of_int n + rnd (of_int n * rnd (4 / 10)) - 1 / 1000000 \<le> q \<and> q \<le> of_int a + of_int n + rnd (of_int n * rnd (4 / 10)) + 1 / 1000000)"
    using positions_turn sub L big_disc_placed [OF fr(1)] by cases (blast | metis UnI1 UnI2)+
qed

text \<open>
  C9 (bounds). An icon of an integral size \<open>s\<close> up to a hundred million pixels and a padding that is not negative leaves the
  padding blank: every corner of every polygon and the box around every circle is between the padding and the size less the
  padding, in both directions, in spite of all roundings of the coordinates.
\<close>

theorem icon_inside_padding:
  assumes "icon config hash (Fin (of_int s)) padding = Inr ls" "0 \<le> s" "s \<le> 100000000" "0 \<le> icon_padding (Fin (of_int s)) padding"
    and "l \<in> set ls" "f \<in> set (snd l)"
  shows "inside (of_int (icon_padding (Fin (of_int s)) padding)) (of_int (s - icon_padding (Fin (of_int s)) padding)) f"
proof -
  define a n p where "a = icon_offset (Fin (of_int s)) padding" and "n = icon_cell (Fin (of_int s)) padding" and "p = icon_padding (Fin (of_int s)) padding"
  note l = icon_layer [OF assms(1-5), folded a_def n_def p_def]
  have "inside (of_int a) (of_int (a + 4 * n)) f" using l(4)
  proof (elim disjE exE conjE)
    fix L r ps
    assume "snd l = layer_figures (\<lambda>i. L) (of_int a) (of_int a) (of_int n) r 0 ps" "\<forall>f \<in> set L. fits (of_int n) f"
      "set ps \<subseteq> set (sides @ corners @ middle)"
    then show ?thesis using assms(6) by (intro layer_inside [OF l(1), of ps "\<lambda>i. L" f r 0]) auto
  next
    fix q
    assume "snd l = [Circle (q, q) (rnd (of_int n * rnd (12 / 10))) False]"
      "of_int a + of_int n + rnd (of_int n * rnd (4 / 10)) - 1 / 1000000 \<le> q" "q \<le> of_int a + of_int n + rnd (of_int n * rnd (4 / 10)) + 1 / 1000000"
    moreover have "7 \<le> n" "n \<le> 25000000" using l(1) by (simp_all add: small_def)
    ultimately show ?thesis using assms(6) big_disc_close [of n] by auto
  qed
  then show ?thesis unfolding p_def [symmetric] by (rule inside_mono) (use l(2,3) in \<open>simp_all only: of_int_le_iff\<close>)
qed

theorem icon_inside_padding_witness:
  "\<exists>ls f. icon (getCurrentConfig None None) (js ''00000000000'') (Fin 100) (Some (Fin 0)) = Inr ls \<and>
     f \<in> set (snd (hd ls)) \<and> inside 0 100 f"
proof -
  obtain ls f where s: "icon (getCurrentConfig None None) (js ''00000000000'') (Fin 100) (Some (Fin 0)) = Inr ls" "ls \<noteq> []" "f \<in> set (snd (hd ls))"
    using sample_icon by blast
  have "icon_padding (Fin (of_int 100)) (Some (Fin 0)) = 0" by (simp add: icon_padding_def int32_def trunc_def rnd_def)
  then have "inside 0 100 f"
    using icon_inside_padding [of "getCurrentConfig None None" "js ''00000000000''" 100 "Some (Fin 0)" ls "hd ls" f] s by simp
  then show ?thesis using s by blast
qed

section \<open>Quarter turns\<close>

text \<open>A figure turned by a quarter in the square from 0 to \<open>s\<close>, and figures that differ by less than a thousandth of a pixel.\<close>

fun turn :: "rat \<Rightarrow> figure \<Rightarrow> figure" where
  "turn s (Polygon ps) = Polygon (map (\<lambda>(x, y). (s - y, x)) ps)"
| "turn s (Circle (x, y) d ccw) = Circle (s - y - d, x) d ccw"

definition near :: "point \<Rightarrow> point \<Rightarrow> bool" where
  "near p q \<longleftrightarrow> \<bar>fst p - fst q\<bar> \<le> 1 / 1000 \<and> \<bar>snd p - snd q\<bar> \<le> 1 / 1000"

fun alike :: "figure \<Rightarrow> figure \<Rightarrow> bool" where
  "alike (Polygon ps) (Polygon qs) \<longleftrightarrow> list_all2 near ps qs"
| "alike (Circle p d ccw) (Circle q e cw) \<longleftrightarrow> near p q \<and> d = e \<and> ccw = cw"
| "alike _ _ \<longleftrightarrow> False"

lemma turned_point:
  assumes "small a n" "fst pos \<le> 3" "snd pos \<le> 3" "0 \<le> u" "u \<le> of_int n" "0 \<le> v" "v \<le> of_int n" "0 \<le> d" "d \<le> of_int n" "j mod 4 = Suc i mod 4"
  defines "p \<equiv> transformPoint (cell_at (of_int a) (of_int a) (of_int n) pos i) u v d d"
  shows "near (transformPoint (cell_at (of_int a) (of_int a) (of_int n) (3 - snd pos, fst pos) j) u v d d)
    (2 * of_int a + 4 * of_int n - snd p - d, fst p)"
proof -
  have an: "0 \<le> a" "0 \<le> n" "a + 4 * n \<le> 100000000" using assms(1) by (simp_all add: small_def)
  define x y z where "x = a + int (fst pos) * n" and "y = a + int (snd pos) * n" and "z = a + int (3 - snd pos) * n"
  have k: "0 \<le> int j * n" "int j * n \<le> 3 * n" if "j \<le> 3" for j using an(2) that by (simp_all add: mult_right_mono)
  have xb: "0 \<le> x" "x + n \<le> 100000000" and yb: "0 \<le> y" "y + n \<le> 100000000" and zb: "0 \<le> z" "z + n \<le> 100000000"
    using k [OF assms(2)] k [OF assms(3)] k [of "3 - snd pos"] an by (simp_all add: x_def y_def z_def)
  have "z = 2 * a + 3 * n - y" using assms(3) by (simp add: z_def y_def of_nat_diff algebra_simps)
  then have z: "(of_int z :: rat) = 2 * of_int a + 3 * of_int n - of_int y" by simp
  have c: "cell_at (of_int a) (of_int a) (of_int n) pos i = \<lparr>tr_x = of_int x, tr_y = of_int y, tr_size = of_int n, tr_rotation = i mod 4\<rparr>"
    "cell_at (of_int a) (of_int a) (of_int n) (3 - snd pos, fst pos) j = \<lparr>tr_x = of_int z, tr_y = of_int x, tr_size = of_int n, tr_rotation = j mod 4\<rparr>"
    using cell_at_int [OF an assms(2,3), of i] cell_at_int [OF an, of "(3 - snd pos, fst pos)" j] assms(2) by (simp_all add: x_def y_def z_def)
  note r = coordinate_close [OF xb(1) an(2) xb(2) assms(4,5) assms(8,9)] coordinate_close [OF xb(1) an(2) xb(2) assms(6-9)]
    coordinate_close [OF yb(1) an(2) yb(2) assms(4,5) assms(8,9)] coordinate_close [OF yb(1) an(2) yb(2) assms(6-9)]
    coordinate_close [OF zb(1) an(2) zb(2) assms(4,5) assms(8,9)] coordinate_close [OF zb(1) an(2) zb(2) assms(6-9)]
  have "(i mod 4 = 0 \<and> j mod 4 = 1) \<or> (i mod 4 = 1 \<and> j mod 4 = 2) \<or> (i mod 4 = 2 \<and> j mod 4 = 3) \<or> (i mod 4 = 3 \<and> j mod 4 = 0)"
    using assms(10) by presburger
  then consider "i mod 4 = 0 \<and> j mod 4 = 1" | "i mod 4 = 1 \<and> j mod 4 = 2" | "i mod 4 = 2 \<and> j mod 4 = 3" | "i mod 4 = 3 \<and> j mod 4 = 0"
    by blast
  then show ?thesis
    unfolding near_def abs_le_iff p_def c transformPoint_def Let_def by cases (simp, intro conjI; use r z in linarith)+
qed

lemma rnd_scaled_near:
  assumes "7 \<le> n" "n \<le> 25000000" "0 \<le> q" "q \<le> 2"
  shows "of_int n * q - 1 / 10000 \<le> rnd (of_int n * rnd q) \<and> rnd (of_int n * rnd q) \<le> of_int n * q + 1 / 10000"
proof -
  have n: "0 \<le> (of_int n :: rat)" "(of_int n :: rat) \<le> 25000000" using assms(1,2) by simp_all
  have "of_int n * \<bar>rnd q - q\<bar> \<le> 25000000 * (2 * eps)"
    using n order_trans [OF rnd_error [of q] mult_right_mono [of "\<bar>q\<bar>" 2 eps]] assms(3,4) by (intro mult_mono) (simp_all add: less_imp_le)
  then have e: "\<bar>of_int n * rnd q - of_int n * q\<bar> \<le> 1 / 1000000" using eps_small n by (simp add: abs_mult flip: right_diff_distrib)
  have "of_int n * q \<le> 25000000 * 2" "0 \<le> of_int n * q" using mult_mono [of "of_int n" 25000000 q 2] n assms(3,4) by simp_all
  then have "- 1000000000 \<le> of_int n * rnd q" "of_int n * rnd q \<le> 1000000000" using e [unfolded abs_le_iff] by linarith+
  from rnd_close [OF this] e show ?thesis unfolding abs_le_iff by linarith
qed

lemma turned_figure:
  assumes "small a n" "fst pos \<le> 3" "snd pos \<le> 3" "fits (of_int n) f" "j mod 4 = Suc i mod 4"
  shows "alike (place (cell_at (of_int a) (of_int a) (of_int n) (3 - snd pos, fst pos) j) f)
    (turn (2 * of_int a + 4 * of_int n) (place (cell_at (of_int a) (of_int a) (of_int n) pos i) f))"
proof (cases f)
  case (Polygon ps)
  have n: "0 \<le> (of_int n :: rat)" using assms(1) by (simp add: small_def)
  have "near (transformPoint (cell_at (of_int a) (of_int a) (of_int n) (3 - snd pos, fst pos) j) u v 0 0)
      (2 * of_int a + 4 * of_int n - snd (transformPoint (cell_at (of_int a) (of_int a) (of_int n) pos i) u v 0 0),
       fst (transformPoint (cell_at (of_int a) (of_int a) (of_int n) pos i) u v 0 0))" if "(u, v) \<in> set ps" for u v
    using turned_point [OF assms(1-3) _ _ _ _ order_refl n assms(5), of u v] assms(4) that by (auto simp: Polygon)
  then show ?thesis unfolding Polygon by (auto simp: list_all2_conv_all_nth case_prod_beta)
next
  case (Circle p d ccw)
  obtain u v where p: "p = (u, v)" by (cases p)
  have "0 \<le> u" "u \<le> of_int n" "0 \<le> v" "v \<le> of_int n" "0 \<le> d" "d \<le> of_int n" using assms(4) by (auto simp: Circle p)
  from turned_point [OF assms(1-3) this assms(5)] show ?thesis
    by (cases "transformPoint (cell_at (of_int a) (of_int a) (of_int n) pos i) u v d d") (simp add: Circle p)
qed

lemma layer_turns:
  assumes "small a n" "turns ps" "set ps \<subseteq> set (sides @ corners @ middle)" "\<And>f. f \<in> set L \<Longrightarrow> fits (of_int n) f"
    "f \<in> set (layer_figures (\<lambda>i. L) (of_int a) (of_int a) (of_int n) r 0 ps)"
  shows "\<exists>g \<in> set (layer_figures (\<lambda>i. L) (of_int a) (of_int a) (of_int n) r 0 ps). alike g (turn (2 * of_int a + 4 * of_int n) f)"
proof -
  obtain i h where i: "i < length ps" "h \<in> set L" "f = place (cell_at (of_int a) (of_int a) (of_int n) (ps ! i) (r + i)) h"
    using assms(5) unfolding set_layer_figures by auto
  obtain j where j: "j < length ps" "ps ! j = (3 - snd (ps ! i), fst (ps ! i))" "j mod 4 = Suc i mod 4" using assms(2) i(1) by (auto simp: turns_def)
  have m: "(r + j) mod 4 = Suc (r + i) mod 4" using mod_add_cong [OF refl [of "r mod 4"] j(3)] by simp
  have "ps ! i \<in> set (sides @ corners @ middle)" using assms(3) i(1) nth_mem by blast
  note p = positions_small [OF this]
  have "alike (place (cell_at (of_int a) (of_int a) (of_int n) (ps ! j) (r + j)) h) (turn (2 * of_int a + 4 * of_int n) f)"
    unfolding i(3) j(2) by (rule turned_figure [OF assms(1) p [THEN conjunct1] p [THEN conjunct2] assms(4) [OF i(2)] m])
  then show ?thesis unfolding set_layer_figures Bex_def using j(1) i(2) by auto
qed

text \<open>
  C8 (safety). An icon looks the same after a quarter turn about its centre: for every figure of a layer the same layer has one
  that is alike to the turned figure, point by point in the same order and up to a thousandth of a pixel, whatever the hash and
  whatever the roundings.
\<close>

theorem icon_quarter_turn:
  assumes "icon config hash (Fin (of_int s)) padding = Inr ls" "0 \<le> s" "s \<le> 100000000" "0 \<le> icon_padding (Fin (of_int s)) padding"
    and "l \<in> set ls" "f \<in> set (snd l)"
  shows "\<exists>g \<in> set (snd l).
    alike g (turn (of_int (2 * icon_offset (Fin (of_int s)) padding + 4 * icon_cell (Fin (of_int s)) padding)) f)"
proof -
  define a n where "a = icon_offset (Fin (of_int s)) padding" and "n = icon_cell (Fin (of_int s)) padding"
  let ?S = "2 * of_int a + 4 * of_int n :: rat"
  note l = icon_layer [OF assms(1-5), folded a_def n_def]
  have "\<exists>g \<in> set (snd l). alike g (turn ?S f)" using l(4)
  proof (elim disjE exE conjE)
    fix L r ps
    assume "snd l = layer_figures (\<lambda>i. L) (of_int a) (of_int a) (of_int n) r 0 ps" "\<forall>f \<in> set L. fits (of_int n) f"
      "turns ps" "set ps \<subseteq> set (sides @ corners @ middle)"
    then show ?thesis using layer_turns [OF l(1), of ps L f r] assms(6) by auto
  next
    fix q
    assume q: "snd l = [Circle (q, q) (rnd (of_int n * rnd (12 / 10))) False]"
      "of_int a + of_int n + rnd (of_int n * rnd (4 / 10)) - 1 / 1000000 \<le> q" "q \<le> of_int a + of_int n + rnd (of_int n * rnd (4 / 10)) + 1 / 1000000"
    have n: "7 \<le> n" "n \<le> 25000000" using l(1) by (simp_all add: small_def)
    have f: "f = Circle (q, q) (rnd (of_int n * rnd (12 / 10))) False" using assms(6) q(1) by simp
    have "alike f (turn ?S f)"
      using q(2,3) rnd_scaled_near [OF n, of "4 / 10"] rnd_scaled_near [OF n, of "12 / 10"]
      unfolding f turn.simps alike.simps near_def abs_le_iff fst_conv snd_conv by (intro conjI; linarith)
    then show ?thesis using assms(6) by blast
  qed
  then show ?thesis by (simp add: a_def n_def)
qed

theorem icon_quarter_turn_witness:
  "\<exists>ls f g. icon (getCurrentConfig None None) (js ''00000000000'') (Fin 100) (Some (Fin 0)) = Inr ls \<and>
     f \<in> set (snd (hd ls)) \<and> g \<in> set (snd (hd ls)) \<and>
     alike g (turn (of_int (2 * icon_offset (Fin 100) (Some (Fin 0)) + 4 * icon_cell (Fin 100) (Some (Fin 0)))) f)"
proof -
  obtain ls f where s: "icon (getCurrentConfig None None) (js ''00000000000'') (Fin 100) (Some (Fin 0)) = Inr ls" "ls \<noteq> []" "f \<in> set (snd (hd ls))"
    using sample_icon by blast
  have "icon_padding (Fin (of_int 100)) (Some (Fin 0)) = 0" by (simp add: icon_padding_def int32_def trunc_def rnd_def)
  then obtain g where "g \<in> set (snd (hd ls))" "alike g (turn (of_int (2 * icon_offset (Fin 100) (Some (Fin 0)) + 4 * icon_cell (Fin 100) (Some (Fin 0)))) f)"
    using icon_quarter_turn [of "getCurrentConfig None None" "js ''00000000000''" 100 "Some (Fin 0)" ls "hd ls" f] s by auto
  then show ?thesis using s by blast
qed

end
