(* ===== verification/Iscroll.thy ===== *)
theory Iscroll
  imports JsVal
begin

text \<open>
  \<^verbatim>\<open>src/src/qt/res/assets/plugins/iscroll/iscroll.js\<close>: the scroller, its gestures, momentum, snapping to pages, wheel, keys,
  animation and scroll bars. The scroller is the record \<open>scroll\<close>, every handler a function on it; \<open>None\<close> is a \<^verbatim>\<open>TypeError\<close>,
  which only snapping raises. Positions are numbers of JavaScript, since a division by a time of zero may make them infinite
  or no number; measured sizes are integers, as the browser gives them. What the page attaches to the events of the scroller
  is the argument \<open>H\<close>. The clock, the measured sizes, the computed position of a running transition and the functions of
  \<^verbatim>\<open>Math\<close> that the language leaves to the implementation come with the calls. The texts written into styles, the workaround for
  old Android browsers and the registration of listeners are left out.
\<close>

section \<open>Easing\<close>

record easing =
  ez_style :: jsstr
  ez_fn :: "jsnum \<Rightarrow> jsnum"

record math_funs =
  m_sqrt :: "jsnum \<Rightarrow> jsnum"
  m_pow :: "jsnum \<Rightarrow> jsnum \<Rightarrow> jsnum"
  m_sin :: "jsnum \<Rightarrow> jsnum"
  m_pi :: rat

abbreviation lit :: "rat \<Rightarrow> jsnum" where
  "lit q \<equiv> Fin (rnd q)"

definition ease_quadratic :: easing where
  "ease_quadratic =
     \<lparr>ez_style = js ''cubic-bezier(0.25, 0.46, 0.45, 0.94)'', ez_fn = (\<lambda>k. num_mul k (num_sub (Fin 2) k))\<rparr>"

definition ease_circular :: "math_funs \<Rightarrow> easing" where
  "ease_circular M =
     \<lparr>ez_style = js ''cubic-bezier(0.1, 0.57, 0.1, 1)'',
      ez_fn = (\<lambda>k. let k1 = num_sub k (Fin 1) in m_sqrt M (num_sub (Fin 1) (num_mul k1 k1)))\<rparr>"

definition ease_back :: easing where
  "ease_back =
     \<lparr>ez_style = js ''cubic-bezier(0.175, 0.885, 0.32, 1.275)'',
      ez_fn = (\<lambda>k. let k1 = num_sub k (Fin 1)
                   in num_add (num_mul (num_mul k1 k1) (num_add (num_mul (Fin 5) k1) (Fin 4))) (Fin 1))\<rparr>"

definition bounce_part :: "jsnum \<Rightarrow> rat \<Rightarrow> rat \<Rightarrow> jsnum" where
  "bounce_part k c d =
     (let k1 = num_sub k (lit (c / rnd (275 / 100))) in num_add (num_mul (num_mul (lit (75625 / 10000)) k1) k1) (lit d))"

definition ease_bounce :: easing where
  "ease_bounce =
     \<lparr>ez_style = [],
      ez_fn = (\<lambda>k.
        if num_less k (lit (1 / rnd (275 / 100))) then num_mul (num_mul (lit (75625 / 10000)) k) k
        else if num_less k (lit (2 / rnd (275 / 100))) then bounce_part k (rnd (15 / 10)) (3 / 4)
        else if num_less k (lit (rnd (25 / 10) / rnd (275 / 100))) then bounce_part k (rnd (225 / 100)) (9375 / 10000)
        else bounce_part k (rnd (2625 / 1000)) (984375 / 1000000))\<rparr>"

definition ease_elastic :: "math_funs \<Rightarrow> easing" where
  "ease_elastic M =
     \<lparr>ez_style = [],
      ez_fn = (\<lambda>k.
        if k = Fin 0 then Fin 0 else if k = Fin 1 then Fin 1
        else num_add (num_mul (num_mul (lit (4 / 10)) (m_pow M (Fin 2) (num_mul (Fin (- 10)) k)))
               (m_sin M (num_div (num_mul (num_sub k (lit (rnd (22 / 100) / 4))) (num_mul (Fin 2) (Fin (m_pi M)))) (lit (22 / 100)))))
               (Fin 1))\<rparr>"

section \<open>Momentum\<close>

definition num_ints :: "int \<Rightarrow> jsnum" where
  "num_ints n = Fin (of_int n)"

text \<open>\<^verbatim>\<open>utils.momentum\<close>: the destination, rounded, and the time to it.\<close>

definition momentum :: "jsnum \<Rightarrow> jsnum \<Rightarrow> jsnum \<Rightarrow> int \<Rightarrow> int \<Rightarrow> jsnum option \<Rightarrow> jsnum \<times> jsnum" where
  "momentum current start time lowerMargin wrapperSize deceleration =
     (let distance = num_sub current start;
          speed = num_div (num_abs distance) time;
          dec = (case deceleration of None \<Rightarrow> lit (6 / 10000) | Some d \<Rightarrow> d);
          destination = num_add current
            (num_mul (num_div (num_mul speed speed) (num_mul (Fin 2) dec)) (if num_less distance (Fin 0) then Fin (- 1) else Fin 1));
          duration = num_div speed dec;
          over = num_mul (num_div (num_ints wrapperSize) (lit (25 / 10))) (num_div speed (Fin 8))
      in if num_less destination (num_ints lowerMargin) then
           let destination1 = (if wrapperSize \<noteq> 0 then num_sub (num_ints lowerMargin) over else num_ints lowerMargin)
           in (num_round destination1, num_div (num_abs (num_sub destination1 current)) speed)
         else if num_less (Fin 0) destination then
           let destination1 = (if wrapperSize \<noteq> 0 then over else Fin 0)
           in (num_round destination1, num_div (num_add (num_abs current) destination1) speed)
         else (num_round destination, duration))"

section \<open>The scroller\<close>

datatype pass = NoPass | VerticalPass | HorizontalPass

datatype lock = Unlocked | LockH | LockV | LockN

datatype shrink = NoShrink | Clip | Scale

text \<open>The rectangle of an element to which the scroller snaps: left, top, width, height.\<close>

type_synonym rect = "int \<times> int \<times> int \<times> int"

datatype snap = NoSnap | SnapGrid | SnapTo "rect list"

record key_bindings =
  kb_pageUp :: nat
  kb_pageDown :: nat
  kb_end :: nat
  kb_home :: nat
  kb_left :: nat
  kb_up :: nat
  kb_right :: nat
  kb_down :: nat

record scroll_options =
  o_useTransition :: bool
  o_useTransform :: bool
  o_eventPassthrough :: pass
  o_preventDefault :: bool
  o_scrollX :: bool
  o_scrollY :: bool
  o_freeScroll :: bool
  o_directionLockThreshold :: jsnum
  o_momentum :: bool
  o_bounce :: bool
  o_bounceTime :: jsnum
  o_bounceEasing :: easing
  o_circular :: easing
  o_tap :: bool
  o_click :: bool
  o_flick :: bool
  o_snap :: snap
  o_snapSpeed :: jsnum
  o_snapStepX :: int
  o_snapStepY :: int
  o_snapThreshold :: rat
  o_deceleration :: "jsnum option"
  o_mouseWheelSpeed :: jsnum
  o_invertWheelDirection :: bool
  o_keyBindings :: key_bindings

record page =
  pg_x :: jsnum
  pg_y :: jsnum
  pg_width :: int
  pg_height :: int
  pg_cx :: jsnum
  pg_cy :: jsnum

record current_page =
  cp_x :: jsnum
  cp_y :: jsnum
  cp_pageX :: "int option"
  cp_pageY :: "int option"

text \<open>A step of an animation that waits for its frame.\<close>

record animation =
  an_startX :: jsnum
  an_startY :: jsnum
  an_destX :: jsnum
  an_destY :: jsnum
  an_startTime :: jsnum
  an_duration :: jsnum
  an_fn :: "jsnum \<Rightarrow> jsnum"

record indicator =
  in_listenX :: bool
  in_listenY :: bool
  in_resize :: bool
  in_shrink :: shrink
  in_speedRatioX :: rat
  in_speedRatioY :: rat
  in_ignoreBoundaries :: bool
  in_snapSpeed :: jsnum
  in_wrapperWidth :: int
  in_wrapperHeight :: int
  in_indicatorWidth :: int
  in_indicatorHeight :: int
  in_maxPosX :: int
  in_maxPosY :: int
  in_minBoundaryX :: jsnum
  in_maxBoundaryX :: jsnum
  in_minBoundaryY :: jsnum
  in_maxBoundaryY :: jsnum
  in_sizeRatioX :: jsnum
  in_sizeRatioY :: jsnum
  in_x :: jsnum
  in_y :: jsnum
  in_width :: jsnum
  in_height :: jsnum
  in_display :: bool
  in_initiated :: bool
  in_moved :: bool
  in_lastPointX :: jsnum
  in_lastPointY :: jsnum

record scroll =
  sc_x :: jsnum
  sc_y :: jsnum
  sc_maxX :: int
  sc_maxY :: int
  sc_hasH :: bool
  sc_hasV :: bool
  sc_wrapperWidth :: int
  sc_wrapperHeight :: int
  sc_scrollerWidth :: int
  sc_scrollerHeight :: int
  sc_wrapperOffset :: "int \<times> int"
  sc_enabled :: bool
  sc_initiated :: nat
  sc_moved :: bool
  sc_distX :: jsnum
  sc_distY :: jsnum
  sc_directionX :: int
  sc_directionY :: int
  sc_locked :: lock
  sc_startTime :: jsnum
  sc_endTime :: jsnum
  sc_startX :: jsnum
  sc_startY :: jsnum
  sc_absStartX :: jsnum
  sc_absStartY :: jsnum
  sc_pointX :: jsnum
  sc_pointY :: jsnum
  sc_inTransition :: bool
  sc_animating :: bool
  sc_frames :: "animation list"
  sc_pages :: "page option list list"
  sc_currentPage :: current_page
  sc_snapThresholdX :: jsnum
  sc_snapThresholdY :: jsnum
  sc_wheelPending :: bool
  sc_resizePending :: bool
  sc_keyTime :: jsnum
  sc_keyAcceleration :: jsnum
  sc_transitionTime :: jsnum
  sc_timingFunction :: jsstr
  sc_indicators :: "indicator list"
  sc_tapped :: nat
  sc_clicked :: nat

datatype sevent = BeforeScrollStart | ScrollStart | ScrollEnd | ScrollCancel | FlickEvent | RefreshEvent | DestroyEvent

type_synonym handlers = "sevent \<Rightarrow> scroll \<Rightarrow> scroll"

section \<open>Scroll bars: positions\<close>

text \<open>A new indicator; \<open>NaN\<close> stands for a number that is not defined yet, with which no comparison holds.\<close>

definition Indicator_new :: "bool \<Rightarrow> bool \<Rightarrow> bool \<Rightarrow> shrink \<Rightarrow> rat \<Rightarrow> rat \<Rightarrow> bool \<Rightarrow> jsnum \<Rightarrow> indicator" where
  "Indicator_new listenX listenY rsz shr speedX speedY ignore snapSpeed =
     \<lparr>in_listenX = listenX, in_listenY = listenY, in_resize = rsz, in_shrink = shr, in_speedRatioX = speedX, in_speedRatioY = speedY,
      in_ignoreBoundaries = ignore, in_snapSpeed = snapSpeed, in_wrapperWidth = 0, in_wrapperHeight = 0, in_indicatorWidth = 0,
      in_indicatorHeight = 0, in_maxPosX = 0, in_maxPosY = 0, in_minBoundaryX = NaN, in_maxBoundaryX = NaN, in_minBoundaryY = NaN,
      in_maxBoundaryY = NaN, in_sizeRatioX = Fin 1, in_sizeRatioY = Fin 1, in_x = NaN, in_y = NaN, in_width = NaN, in_height = NaN,
      in_display = True, in_initiated = False, in_moved = False, in_lastPointX = NaN, in_lastPointY = NaN\<rparr>"

text \<open>The indicators of the default scroll bars: vertical, then horizontal, kept in the opposite order.\<close>

definition default_bars :: "bool \<Rightarrow> shrink \<Rightarrow> scroll_options \<Rightarrow> indicator list" where
  "default_bars rsz shr opt =
     rev ((if o_scrollY opt then [Indicator_new False True rsz shr 0 0 False (Fin 0)] else []) @
          (if o_scrollX opt then [Indicator_new True False rsz shr 0 0 False (Fin 0)] else []))"

text \<open>
  One axis of \<^verbatim>\<open>updatePosition\<close>: the new position and size of the indicator on a scroll bar, given its ratio to the scroller;
  \<open>f\<close> is the factor by which the size shrinks outside (1 across, 3 down).
\<close>

definition indicator_axis ::
  "bool \<Rightarrow> shrink \<Rightarrow> bool \<Rightarrow> jsnum \<Rightarrow> jsnum \<Rightarrow> jsnum \<Rightarrow> jsnum \<Rightarrow> int \<Rightarrow> int \<Rightarrow> rat \<Rightarrow> jsnum \<Rightarrow> jsnum \<times> jsnum" where
  "indicator_axis listen shr ignore ratio pos minB maxB maxPos len f width =
     (let v = num_round (num_mul ratio pos); x = (if listen \<and> truthy (VNum v) then v else Fin 0)
      in if ignore then (x, width)
         else if num_less x minB then
           (minB, if shr = Scale then num_max (num_add (num_ints len) (if f = 1 then x else num_mul x (Fin f))) (Fin 8) else width)
         else if num_less maxB x then
           (if shr = Scale then
              let d = num_sub x (num_ints maxPos);
                  w = num_max (num_sub (num_ints len) (if f = 1 then d else num_mul d (Fin f))) (Fin 8)
              in (num_sub (num_add (num_ints maxPos) (num_ints len)) w, w)
            else (maxB, width))
         else (x, if shr = Scale then num_ints len else width))"

definition updatePosition :: "jsnum \<Rightarrow> jsnum \<Rightarrow> indicator \<Rightarrow> indicator" where
  "updatePosition x y i =
     (let (nx, w) = indicator_axis (in_listenX i) (in_shrink i) (in_ignoreBoundaries i) (in_sizeRatioX i) x
            (in_minBoundaryX i) (in_maxBoundaryX i) (in_maxPosX i) (in_indicatorWidth i) 1 (in_width i);
          (ny, h) = indicator_axis (in_listenY i) (in_shrink i) (in_ignoreBoundaries i) (in_sizeRatioY i) y
            (in_minBoundaryY i) (in_maxBoundaryY i) (in_maxPosY i) (in_indicatorHeight i) 3 (in_height i)
      in i\<lparr>in_x := nx, in_y := ny, in_width := w, in_height := h\<rparr>)"

text \<open>One axis of the refreshing of a scroll bar: size, greatest position, boundaries and ratio.\<close>

definition bar_length :: "bool \<Rightarrow> int \<Rightarrow> int \<Rightarrow> int \<Rightarrow> int" where
  "bar_length rsz wrapperLen scrollerLen clientLen =
     (if rsz then
        let d = (if scrollerLen \<noteq> 0 then scrollerLen else if wrapperLen \<noteq> 0 then wrapperLen else 1)
        in max (floor (rnd (of_int (wrapperLen * wrapperLen) / of_int d) + 1 / 2)) 8
      else clientLen)"

definition bar_boundaries :: "shrink \<Rightarrow> int \<Rightarrow> int \<Rightarrow> jsnum \<times> jsnum" where
  "bar_boundaries shr wrapperLen len =
     (if shr = Clip then (num_ints (8 - len), num_ints (wrapperLen - 8)) else (num_ints 0, num_ints (wrapperLen - len)))"

definition bar_ratio :: "rat \<Rightarrow> int \<Rightarrow> int \<Rightarrow> jsnum" where
  "bar_ratio speed maxScroll maxPos =
     (if speed \<noteq> 0 then Fin speed else if maxScroll = 0 then Fin 0 else num_div (num_ints maxPos) (num_ints maxScroll))"

text \<open>\<^verbatim>\<open>Indicator.refresh\<close>; \<open>ww\<close>, \<open>wh\<close>, \<open>cw\<close>, \<open>ch\<close> are the measured sizes of the bar and of the indicator in it.\<close>

definition indicator_refresh :: "int \<Rightarrow> int \<Rightarrow> int \<Rightarrow> int \<Rightarrow> scroll \<Rightarrow> indicator \<Rightarrow> indicator" where
  "indicator_refresh ww wh cw ch s i =
     (let i1 = i\<lparr>in_display := (if in_listenX i \<and> \<not> in_listenY i then sc_hasH s
                                else if in_listenY i \<and> \<not> in_listenX i then sc_hasV s else sc_hasH s \<or> sc_hasV s)\<rparr>;
          lx = bar_length (in_resize i) ww (sc_scrollerWidth s) cw;
          i2 = (if in_listenX i then
                  i1\<lparr>in_wrapperWidth := ww, in_indicatorWidth := lx, in_maxPosX := ww - lx,
                     in_minBoundaryX := fst (bar_boundaries (in_shrink i) ww lx), in_maxBoundaryX := snd (bar_boundaries (in_shrink i) ww lx),
                     in_sizeRatioX := bar_ratio (in_speedRatioX i) (sc_maxX s) (ww - lx)\<rparr>
                else i1);
          ly = bar_length (in_resize i) wh (sc_scrollerHeight s) ch;
          i3 = (if in_listenY i then
                  i2\<lparr>in_wrapperHeight := wh, in_indicatorHeight := ly, in_maxPosY := wh - ly,
                     in_minBoundaryY := fst (bar_boundaries (in_shrink i) wh ly), in_maxBoundaryY := snd (bar_boundaries (in_shrink i) wh ly),
                     in_sizeRatioY := bar_ratio (in_speedRatioY i) (sc_maxY s) (wh - ly)\<rparr>
                else i2)
      in updatePosition (sc_x s) (sc_y s) i3)"

section \<open>Moving the scroller\<close>

definition transition_time :: "scroll_options \<Rightarrow> jsnum \<Rightarrow> scroll \<Rightarrow> scroll" where
  "transition_time opt time s =
     (if o_useTransition opt then s\<lparr>sc_transitionTime := (if truthy (VNum time) then time else Fin 0)\<rparr> else s)"

definition translate :: "scroll_options \<Rightarrow> jsnum \<Rightarrow> jsnum \<Rightarrow> scroll \<Rightarrow> scroll" where
  "translate opt x y s =
     (let x1 = (if o_useTransform opt then x else num_round x); y1 = (if o_useTransform opt then y else num_round y)
      in s\<lparr>sc_x := x1, sc_y := y1, sc_indicators := map (updatePosition x1 y1) (sc_indicators s)\<rparr>)"

text \<open>
  The frame of an animation at time \<open>now\<close> before its end, and its start, which runs the first frame at once. No caller passes a
  negative duration, and the clock does not pass the end of the animation between its start and that frame.
\<close>

definition tween :: "animation \<Rightarrow> jsnum \<Rightarrow> jsnum \<times> jsnum" where
  "tween a now =
     (let e = an_fn a (num_div (num_sub now (an_startTime a)) (an_duration a))
      in (num_add (num_mul (num_sub (an_destX a) (an_startX a)) e) (an_startX a),
          num_add (num_mul (num_sub (an_destY a) (an_startY a)) e) (an_startY a)))"

definition animate :: "scroll_options \<Rightarrow> jsnum \<Rightarrow> jsnum \<Rightarrow> jsnum \<Rightarrow> jsnum \<Rightarrow> (jsnum \<Rightarrow> jsnum) \<Rightarrow> scroll \<Rightarrow> scroll" where
  "animate opt now destX destY duration fn s =
     (let a = \<lparr>an_startX = sc_x s, an_startY = sc_y s, an_destX = destX, an_destY = destY, an_startTime = now,
               an_duration = duration, an_fn = fn\<rparr>;
          (x, y) = tween a now
      in (translate opt x y s)\<lparr>sc_animating := True, sc_frames := sc_frames s @ [a]\<rparr>)"

text \<open>\<^verbatim>\<open>scrollTo\<close>; without an easing it is the circular one.\<close>

definition scrollTo :: "scroll_options \<Rightarrow> jsnum \<Rightarrow> jsnum \<Rightarrow> jsnum \<Rightarrow> jsnum \<Rightarrow> easing option \<Rightarrow> scroll \<Rightarrow> scroll" where
  "scrollTo opt now x y time ease s =
     (let e = (case ease of Some e \<Rightarrow> e | None \<Rightarrow> o_circular opt);
          s1 = s\<lparr>sc_inTransition := o_useTransition opt \<and> num_less (Fin 0) time\<rparr>;
          css = o_useTransition opt \<and> ez_style e \<noteq> []
      in if \<not> truthy (VNum time) \<or> css then
           translate opt x y (if css then transition_time opt time (s1\<lparr>sc_timingFunction := ez_style e\<rparr>) else s1)
         else animate opt now x y time (ez_fn e) s1)"

definition scrollBy :: "scroll_options \<Rightarrow> jsnum \<Rightarrow> jsnum \<Rightarrow> jsnum \<Rightarrow> jsnum \<Rightarrow> easing option \<Rightarrow> scroll \<Rightarrow> scroll" where
  "scrollBy opt now x y time ease s = scrollTo opt now (num_add (sc_x s) x) (num_add (sc_y s) y) time ease s"

text \<open>One coordinate kept between the greatest scroll and zero; \<open>NaN\<close> passes through.\<close>

definition clamp :: "int \<Rightarrow> jsnum \<Rightarrow> jsnum" where
  "clamp m v = (if num_less (Fin 0) v then Fin 0 else if num_less v (num_ints m) then num_ints m else v)"

definition num_same :: "jsnum \<Rightarrow> jsnum \<Rightarrow> bool" where
  "num_same a b \<longleftrightarrow> a = b \<and> a \<noteq> NaN"

definition resetPosition :: "scroll_options \<Rightarrow> jsnum \<Rightarrow> jsnum \<Rightarrow> scroll \<Rightarrow> bool \<times> scroll" where
  "resetPosition opt now time s =
     (let x = (if \<not> sc_hasH s then Fin 0 else clamp (sc_maxX s) (sc_x s));
          y = (if \<not> sc_hasV s then Fin 0 else clamp (sc_maxY s) (sc_y s))
      in if num_same x (sc_x s) \<and> num_same y (sc_y s) then (False, s)
         else (True, scrollTo opt now x y time (Some (o_bounceEasing opt)) s))"

text \<open>
  \<^verbatim>\<open>scrollToElement\<close> for an element at a place and of a size in the page; \<open>None\<close> as a time is the automatic one, \<open>None\<close> as an offset
  centres the element.
\<close>

definition scrollToElement ::
  "scroll_options \<Rightarrow> jsnum \<Rightarrow> int \<times> int \<Rightarrow> int \<times> int \<Rightarrow> int \<times> int \<Rightarrow> jsnum option \<Rightarrow> jsnum option \<Rightarrow> jsnum option \<Rightarrow> easing option \<Rightarrow> scroll \<Rightarrow> scroll" where
  "scrollToElement opt now pos esize wsize time offsetX offsetY ease s =
     (let half = (\<lambda>e w. num_round (num_sub (num_over (num_ints e) 2) (num_over (num_ints w) 2)));
          ox = (case offsetX of Some v \<Rightarrow> v | None \<Rightarrow> half (fst esize) (fst wsize));
          oy = (case offsetY of Some v \<Rightarrow> v | None \<Rightarrow> half (snd esize) (snd wsize));
          left = clamp (sc_maxX s) (num_sub (num_ints (fst pos - fst (sc_wrapperOffset s))) (if truthy (VNum ox) then ox else Fin 0));
          tp = clamp (sc_maxY s) (num_sub (num_ints (snd pos - snd (sc_wrapperOffset s))) (if truthy (VNum oy) then oy else Fin 0));
          t = (case time of Some t \<Rightarrow> t | None \<Rightarrow> num_max (num_abs (num_sub (sc_x s) left)) (num_abs (num_sub (sc_y s) tp)))
      in scrollTo opt now left tp t ease s)"

text \<open>\<^verbatim>\<open>utils.offset\<close>: the sum of the offsets of an element and of the elements it is positioned in, negated.\<close>

definition offset :: "(int \<times> int) list \<Rightarrow> int \<times> int" where
  "offset ps = foldl (\<lambda>(l, t) (ol, ot). (l - ol, t - ot)) (0, 0) ps"

section \<open>Snapping\<close>

text \<open>The time of a movement to a page, unless the option fixes it.\<close>

definition snap_time :: "jsnum \<Rightarrow> jsnum \<Rightarrow> jsnum \<Rightarrow> jsnum" where
  "snap_time speed dx dy =
     (if truthy (VNum speed) then speed
      else num_max (num_max (num_min (num_abs dx) (Fin 1000)) (num_min (num_abs dy) (Fin 1000))) (Fin 300))"

definition into :: "int \<Rightarrow> int \<Rightarrow> int" where
  "into len i = (if i \<ge> len then len - 1 else if i < 0 then 0 else i)"

definition nth_opt :: "'a option list \<Rightarrow> int \<Rightarrow> 'a option" where
  "nth_opt xs i = (if 0 \<le> i \<and> nat i < length xs then xs ! nat i else None)"

definition column_at :: "scroll \<Rightarrow> int \<Rightarrow> page option list option" where
  "column_at s i = (if 0 \<le> i \<and> nat i < length (sc_pages s) then Some (sc_pages s ! nat i) else None)"

definition goToPage :: "scroll_options \<Rightarrow> jsnum \<Rightarrow> int option \<Rightarrow> int option \<Rightarrow> jsnum option \<Rightarrow> easing option \<Rightarrow> scroll \<Rightarrow> scroll option" where
  "goToPage opt now px py time ease s =
     (let e = (case ease of Some e \<Rightarrow> e | None \<Rightarrow> o_bounceEasing opt)
      in case px of None \<Rightarrow> None | Some x \<Rightarrow>
        (let x1 = into (int (length (sc_pages s))) x
         in case column_at s x1 of None \<Rightarrow> None | Some col \<Rightarrow>
           (case py of None \<Rightarrow> None | Some y \<Rightarrow>
             (let y1 = into (int (length col)) y
              in case nth_opt col y1 of None \<Rightarrow> None | Some p \<Rightarrow>
                (let t = (case time of Some t \<Rightarrow> t | None \<Rightarrow>
                       snap_time (o_snapSpeed opt) (num_sub (pg_x p) (sc_x s)) (num_sub (pg_y p) (sc_y s)))
                 in Some (scrollTo opt now (pg_x p) (pg_y p) t (Some e)
                      (s\<lparr>sc_currentPage := \<lparr>cp_x = pg_x p, cp_y = pg_y p, cp_pageX = Some x1, cp_pageY = Some y1\<rparr>\<rparr>)))))))"

text \<open>The positions that a loop \<^verbatim>\<open>while (x > -len) x -= step\<close> passes; \<open>None\<close> if it never ends.\<close>

partial_function (option) snap_loop :: "int \<Rightarrow> int \<Rightarrow> int \<Rightarrow> int list option" where
  "snap_loop len step x =
     (if x > - len then Option.bind (snap_loop len step (x - step)) (\<lambda>xs. Some (x # xs)) else Some [])"

definition snap_page :: "int \<Rightarrow> int \<Rightarrow> int \<Rightarrow> int \<Rightarrow> int \<Rightarrow> int \<Rightarrow> page" where
  "snap_page maxX maxY stepX stepY x y =
     \<lparr>pg_x = num_ints (max x maxX), pg_y = num_ints (max y maxY), pg_width = stepX, pg_height = stepY,
      pg_cx = num_ints (x - (stepX + 1) div 2), pg_cy = num_ints (y - (stepY + 1) div 2)\<rparr>"

definition grid_pages :: "scroll_options \<Rightarrow> scroll \<Rightarrow> page option list list option" where
  "grid_pages opt s =
     (let stepX = (if o_snapStepX opt \<noteq> 0 then o_snapStepX opt else sc_wrapperWidth s);
          stepY = (if o_snapStepY opt \<noteq> 0 then o_snapStepY opt else sc_wrapperHeight s)
      in Option.bind (snap_loop (sc_scrollerWidth s) stepX 0) (\<lambda>xs.
         Option.bind (snap_loop (sc_scrollerHeight s) stepY 0) (\<lambda>ys.
           Some (map (\<lambda>x. map (\<lambda>y. Some (snap_page (sc_maxX s) (sc_maxY s) stepX stepY x y)) ys) xs))))"

text \<open>An assignment to an element of an array, which may leave holes.\<close>

definition put_at :: "nat \<Rightarrow> 'a \<Rightarrow> 'a option list \<Rightarrow> 'a option list" where
  "put_at n v xs = (if n < length xs then xs[n := Some v] else xs @ replicate (n - length xs) None @ [Some v])"

definition put_page :: "nat \<Rightarrow> nat \<Rightarrow> page \<Rightarrow> page option list list \<Rightarrow> page option list list" where
  "put_page m n p pages =
     (let pages1 = (if m < length pages then pages else pages @ [[]]) in pages1[m := put_at n p (pages1 ! m)])"

fun element_pages ::
  "int \<Rightarrow> int \<Rightarrow> rect list \<Rightarrow> int option \<Rightarrow> nat \<Rightarrow> int \<Rightarrow> page option list list \<Rightarrow> page option list list" where
  "element_pages maxX maxY [] prev m n pages = pages"
| "element_pages maxX maxY ((lft, tp, w, h) # els) prev m n pages =
     (let fresh = (case prev of None \<Rightarrow> True | Some l \<Rightarrow> lft \<le> l);
          m1 = (if fresh then 0 else m); n1 = (if fresh then n + 1 else n);
          x = max (- lft) maxX; y = max (- tp) maxY;
          p = \<lparr>pg_x = num_ints x, pg_y = num_ints y, pg_width = w, pg_height = h,
               pg_cx = num_ints (x - (w + 1) div 2), pg_cy = num_ints (y - (h + 1) div 2)\<rparr>
      in element_pages maxX maxY els (Some lft) (if x > maxX then m1 + 1 else m1) n1 (put_page m1 (nat n1) p pages))"

text \<open>The handler of the event \<^verbatim>\<open>refresh\<close> that snapping registers.\<close>

definition snap_thresholds :: "scroll_options \<Rightarrow> scroll \<Rightarrow> scroll option" where
  "snap_thresholds opt s =
     (let t = o_snapThreshold opt
      in if t = of_int (trunc t) then Some (s\<lparr>sc_snapThresholdX := Fin t, sc_snapThresholdY := Fin t\<rparr>)
         else Option.bind (cp_pageX (sc_currentPage s)) (\<lambda>px. Option.bind (cp_pageY (sc_currentPage s)) (\<lambda>py.
              Option.bind (column_at s px) (\<lambda>col. Option.bind (nth_opt col py) (\<lambda>p.
                Some (s\<lparr>sc_snapThresholdX := num_round (num_mul (num_ints (pg_width p)) (Fin t)),
                        sc_snapThresholdY := num_round (num_mul (num_ints (pg_height p)) (Fin t))\<rparr>))))))"

definition snap_refresh :: "scroll_options \<Rightarrow> jsnum \<Rightarrow> scroll \<Rightarrow> scroll option" where
  "snap_refresh opt now s =
     (if o_snap opt = NoSnap then Some s
      else if sc_wrapperWidth s = 0 \<or> sc_wrapperHeight s = 0 \<or> sc_scrollerWidth s = 0 \<or> sc_scrollerHeight s = 0
      then Some (s\<lparr>sc_pages := []\<rparr>)
      else
        Option.bind (case o_snap opt of
            SnapTo els \<Rightarrow> Some (element_pages (sc_maxX s) (sc_maxY s) els None 0 (- 1) [])
          | _ \<Rightarrow> grid_pages opt s) (\<lambda>pages.
        Option.bind (goToPage opt now
            (Some (case cp_pageX (sc_currentPage s) of Some i \<Rightarrow> i | None \<Rightarrow> 0))
            (Some (case cp_pageY (sc_currentPage s) of Some i \<Rightarrow> i | None \<Rightarrow> 0)) (Some (Fin 0)) None (s\<lparr>sc_pages := pages\<rparr>))
          (snap_thresholds opt)))"

definition snap_flick :: "scroll_options \<Rightarrow> jsnum \<Rightarrow> scroll \<Rightarrow> scroll option" where
  "snap_flick opt now s =
     (if o_snap opt = NoSnap then Some s
      else goToPage opt now (map_option (\<lambda>i. i + sc_directionX s) (cp_pageX (sc_currentPage s)))
             (map_option (\<lambda>i. i + sc_directionY s) (cp_pageY (sc_currentPage s)))
             (Some (snap_time (o_snapSpeed opt) (num_sub (sc_x s) (sc_startX s)) (num_sub (sc_y s) (sc_startY s)))) None s)"

text \<open>The first entry that fulfils a condition, the length if none does, or a hole before it, on which the code throws.\<close>

fun first_at :: "('a \<Rightarrow> bool) \<Rightarrow> 'a option list \<Rightarrow> nat \<Rightarrow> nat option" where
  "first_at P [] i = Some i"
| "first_at P (None # ps) i = None"
| "first_at P (Some p # ps) i = (if P p then Some i else first_at P ps (Suc i))"

definition heads :: "page option list list \<Rightarrow> page option list" where
  "heads pages = map (\<lambda>col. case col of [] \<Rightarrow> None | p # _ \<Rightarrow> p) pages"

definition nearestSnap :: "jsnum \<Rightarrow> jsnum \<Rightarrow> scroll \<Rightarrow> current_page option" where
  "nearestSnap x y s =
     (if sc_pages s = [] then Some \<lparr>cp_x = Fin 0, cp_y = Fin 0, cp_pageX = Some 0, cp_pageY = Some 0\<rparr>
      else if num_less (num_abs (num_sub x (sc_absStartX s))) (sc_snapThresholdX s) \<and>
              num_less (num_abs (num_sub y (sc_absStartY s))) (sc_snapThresholdY s) then Some (sc_currentPage s)
      else
        let x1 = clamp (sc_maxX s) x; y1 = clamp (sc_maxY s) y; cols = heads (sc_pages s); row = sc_pages s ! 0
        in Option.bind (first_at (\<lambda>p. num_le (pg_cx p) x1) cols 0) (\<lambda>i.
           if length (sc_pages s) \<le> i then None
           else
             Option.bind (nth_opt cols (int i)) (\<lambda>pi.
             let l = length (sc_pages s ! i)
             in Option.bind (first_at (\<lambda>p. num_le (pg_cy p) y1) (map (\<lambda>m. nth_opt row (int m)) [0..<l]) 0) (\<lambda>m.
                let ym = (if m < l then map_option pg_y (nth_opt row (int m)) else Some y1);
                    i1 = (if Some (int i) = cp_pageX (sc_currentPage s) then
                            (let k = int i + sc_directionX s in if k < 0 then 0 else if k \<ge> int (length cols) then int (length cols) - 1 else k)
                          else int i);
                    m1 = (if Some (int m) = cp_pageY (sc_currentPage s) then
                            (let k = int m + sc_directionY s in if k < 0 then 0 else if k \<ge> int (length row) then int (length row) - 1 else k)
                          else int m)
                in Option.bind (if Some (int i) = cp_pageX (sc_currentPage s) then map_option pg_x (nth_opt cols i1) else Some (pg_x pi)) (\<lambda>nx.
                   Option.bind (if Some (int m) = cp_pageY (sc_currentPage s) then map_option pg_y (nth_opt row m1) else ym) (\<lambda>ny.
                     Some \<lparr>cp_x = nx, cp_y = ny, cp_pageX = Some i1, cp_pageY = Some m1\<rparr>))))))"

definition next_page :: "scroll_options \<Rightarrow> jsnum \<Rightarrow> jsnum option \<Rightarrow> easing option \<Rightarrow> scroll \<Rightarrow> scroll option" where
  "next_page opt now time ease s =
     (let x = map_option (\<lambda>i. i + 1) (cp_pageX (sc_currentPage s)); y = cp_pageY (sc_currentPage s)
      in if (case x of Some i \<Rightarrow> int (length (sc_pages s)) \<le> i | None \<Rightarrow> False) \<and> sc_hasV s
         then goToPage opt now (Some 0) (map_option (\<lambda>i. i + 1) y) time ease s
         else goToPage opt now x y time ease s)"

definition prev_page :: "scroll_options \<Rightarrow> jsnum \<Rightarrow> jsnum option \<Rightarrow> easing option \<Rightarrow> scroll \<Rightarrow> scroll option" where
  "prev_page opt now time ease s =
     (let x = map_option (\<lambda>i. i - 1) (cp_pageX (sc_currentPage s)); y = cp_pageY (sc_currentPage s)
      in if (case x of Some i \<Rightarrow> i < 0 | None \<Rightarrow> False) \<and> sc_hasV s
         then goToPage opt now (Some 0) (map_option (\<lambda>i. i - 1) y) time ease s
         else goToPage opt now x y time ease s)"

section \<open>Measuring\<close>

text \<open>What the browser measures: the sizes of the wrapper and of the scroller, the place of the wrapper, and the bars.\<close>

record measures =
  me_wrapperWidth :: int
  me_wrapperHeight :: int
  me_scrollerWidth :: int
  me_scrollerHeight :: int
  me_offset :: "int \<times> int"
  me_bars :: "(int \<times> int \<times> int \<times> int) list"

definition measure_scroll :: "scroll_options \<Rightarrow> measures \<Rightarrow> scroll \<Rightarrow> scroll" where
  "measure_scroll opt me s =
     (let mx = me_wrapperWidth me - me_scrollerWidth me; my = me_wrapperHeight me - me_scrollerHeight me;
          h = (o_scrollX opt \<and> mx < 0); v = (o_scrollY opt \<and> my < 0)
      in s\<lparr>sc_wrapperWidth := me_wrapperWidth me, sc_wrapperHeight := me_wrapperHeight me, sc_hasH := h, sc_hasV := v,
           sc_maxX := (if h then mx else 0), sc_scrollerWidth := (if h then me_scrollerWidth me else me_wrapperWidth me),
           sc_maxY := (if v then my else 0), sc_scrollerHeight := (if v then me_scrollerHeight me else me_wrapperHeight me),
           sc_endTime := Fin 0, sc_directionX := 0, sc_directionY := 0, sc_wrapperOffset := me_offset me\<rparr>)"

definition refresh_bars :: "measures \<Rightarrow> scroll \<Rightarrow> scroll" where
  "refresh_bars me s =
     s\<lparr>sc_indicators := map2 (\<lambda>(ww, wh, cw, ch). indicator_refresh ww wh cw ch s) (me_bars me) (sc_indicators s)\<rparr>"

text \<open>\<^verbatim>\<open>refresh\<close>: the scroll bars and snapping handle the event before the page does.\<close>

definition refresh :: "scroll_options \<Rightarrow> handlers \<Rightarrow> jsnum \<Rightarrow> measures \<Rightarrow> scroll \<Rightarrow> scroll option" where
  "refresh opt H now me s =
     Option.bind (snap_refresh opt now (refresh_bars me (measure_scroll opt me s))) (\<lambda>s1.
       Some (snd (resetPosition opt now (Fin 0) (H RefreshEvent s1))))"

section \<open>Gestures\<close>

record pointer_event =
  ev_kind :: nat
  ev_which :: nat
  ev_button :: nat
  ev_x :: jsnum
  ev_y :: jsnum
  ev_time :: jsnum
  ev_later :: jsnum
  ev_computed :: "jsnum \<times> jsnum"

definition left_button :: "pointer_event \<Rightarrow> bool" where
  "left_button e \<longleftrightarrow>
     ev_kind e = 1 \<or> (if ev_which e = 0 then ev_button e < 2 else ev_button e = 0)"

definition stop_transition :: "scroll_options \<Rightarrow> jsnum \<times> jsnum \<Rightarrow> scroll \<Rightarrow> scroll" where
  "stop_transition opt pos s = translate opt (num_round (fst pos)) (num_round (snd pos)) (s\<lparr>sc_inTransition := False\<rparr>)"

definition start_gesture :: "scroll_options \<Rightarrow> handlers \<Rightarrow> pointer_event \<Rightarrow> scroll \<Rightarrow> scroll" where
  "start_gesture opt H e s =
     (if \<not> left_button e \<or> \<not> sc_enabled s \<or> (sc_initiated s \<noteq> 0 \<and> ev_kind e \<noteq> sc_initiated s) then s
      else
        let s1 = s\<lparr>sc_initiated := ev_kind e, sc_moved := False, sc_distX := Fin 0, sc_distY := Fin 0, sc_directionX := 0,
                   sc_directionY := 0, sc_locked := Unlocked, sc_startTime := ev_time e\<rparr>;
            s2 = (if o_useTransition opt \<and> sc_inTransition s1 then
                    H ScrollEnd (stop_transition opt (ev_computed e) (transition_time opt (Fin 0) s1))
                  else if \<not> o_useTransition opt \<and> sc_animating s1 then H ScrollEnd (s1\<lparr>sc_animating := False\<rparr>)
                  else s1)
        in H BeforeScrollStart
             (s2\<lparr>sc_startX := sc_x s2, sc_startY := sc_y s2, sc_absStartX := sc_x s2, sc_absStartY := sc_y s2,
                 sc_pointX := ev_x e, sc_pointY := ev_y e\<rparr>))"

definition sign_dir :: "jsnum \<Rightarrow> int" where
  "sign_dir d = (if num_less (Fin 0) d then - 1 else if num_less d (Fin 0) then 1 else 0)"

definition lock_of :: "scroll_options \<Rightarrow> jsnum \<Rightarrow> jsnum \<Rightarrow> lock" where
  "lock_of opt ax ay =
     (if num_less (num_add ay (o_directionLockThreshold opt)) ax then LockH
      else if num_le (num_add ax (o_directionLockThreshold opt)) ay then LockV else LockN)"

text \<open>The new coordinate on one axis: outside it follows at a third of the speed, or stops if the scroller does not bounce.\<close>

definition drag :: "scroll_options \<Rightarrow> int \<Rightarrow> jsnum \<Rightarrow> jsnum \<Rightarrow> jsnum" where
  "drag opt m x delta =
     (let new = num_add x delta
      in if num_less (Fin 0) new \<or> num_less new (num_ints m) then
           (if o_bounce opt then num_add x (num_over delta 3) else if num_less (Fin 0) new then Fin 0 else num_ints m)
         else new)"

definition move_by :: "scroll_options \<Rightarrow> handlers \<Rightarrow> jsnum \<Rightarrow> jsnum \<Rightarrow> jsnum \<Rightarrow> scroll \<Rightarrow> scroll" where
  "move_by opt H timestamp dx dy s =
     (let dx1 = (if sc_hasH s then dx else Fin 0); dy1 = (if sc_hasV s then dy else Fin 0);
          newX = drag opt (sc_maxX s) (sc_x s) dx1; newY = drag opt (sc_maxY s) (sc_y s) dy1;
          s1 = s\<lparr>sc_directionX := sign_dir dx1, sc_directionY := sign_dir dy1\<rparr>;
          s2 = (if \<not> sc_moved s1 then H ScrollStart s1 else s1);
          s3 = translate opt newX newY (s2\<lparr>sc_moved := True\<rparr>)
      in if num_less (Fin 300) (num_sub timestamp (sc_startTime s3))
         then s3\<lparr>sc_startTime := timestamp, sc_startX := sc_x s3, sc_startY := sc_y s3\<rparr> else s3)"

definition move_gesture :: "scroll_options \<Rightarrow> handlers \<Rightarrow> pointer_event \<Rightarrow> scroll \<Rightarrow> scroll" where
  "move_gesture opt H e s =
     (if \<not> sc_enabled s \<or> ev_kind e \<noteq> sc_initiated s then s
      else
        let dx = num_sub (ev_x e) (sc_pointX s); dy = num_sub (ev_y e) (sc_pointY s);
            s1 = s\<lparr>sc_pointX := ev_x e, sc_pointY := ev_y e, sc_distX := num_add (sc_distX s) dx, sc_distY := num_add (sc_distY s) dy\<rparr>;
            ax = num_abs (sc_distX s1); ay = num_abs (sc_distY s1)
        in if num_less (Fin 300) (num_sub (ev_time e) (sc_endTime s1)) \<and> num_less ax (Fin 10) \<and> num_less ay (Fin 10) then s1
           else
             let s2 = (if sc_locked s1 = Unlocked \<and> \<not> o_freeScroll opt then s1\<lparr>sc_locked := lock_of opt ax ay\<rparr> else s1)
             in case sc_locked s2 of
                  LockH \<Rightarrow> (if o_eventPassthrough opt = HorizontalPass then s2\<lparr>sc_initiated := 0\<rparr>
                            else move_by opt H (ev_time e) dx (Fin 0) s2)
                | LockV \<Rightarrow> (if o_eventPassthrough opt = VerticalPass then s2\<lparr>sc_initiated := 0\<rparr>
                            else move_by opt H (ev_time e) (Fin 0) dy s2)
                | _ \<Rightarrow> move_by opt H (ev_time e) dx dy s2)"

definition out_of_bounds :: "scroll \<Rightarrow> jsnum \<Rightarrow> jsnum \<Rightarrow> bool" where
  "out_of_bounds s x y \<longleftrightarrow>
     num_less (Fin 0) x \<or> num_less x (num_ints (sc_maxX s)) \<or> num_less (Fin 0) y \<or> num_less y (num_ints (sc_maxY s))"

text \<open>The end of a gesture from the snapping on.\<close>

definition glide :: "scroll_options \<Rightarrow> handlers \<Rightarrow> jsnum \<Rightarrow> jsnum \<Rightarrow> jsnum \<Rightarrow> jsnum \<Rightarrow> easing option \<Rightarrow> scroll \<Rightarrow> scroll" where
  "glide opt H now newX newY time ease s =
     (if \<not> num_same newX (sc_x s) \<or> \<not> num_same newY (sc_y s) then
        scrollTo opt now newX newY time (if out_of_bounds s newX newY then Some ease_quadratic else ease) s
      else H ScrollEnd s)"

definition end_momentum :: "scroll_options \<Rightarrow> jsnum \<Rightarrow> jsnum \<Rightarrow> jsnum \<Rightarrow> scroll \<Rightarrow> jsnum \<times> jsnum \<times> jsnum" where
  "end_momentum opt duration newX newY s =
     (let (mx, tx) = (if sc_hasH s then momentum (sc_x s) (sc_startX s) duration (sc_maxX s)
                        (if o_bounce opt then sc_wrapperWidth s else 0) (o_deceleration opt) else (newX, Fin 0));
          (my, ty) = (if sc_hasV s then momentum (sc_y s) (sc_startY s) duration (sc_maxY s)
                        (if o_bounce opt then sc_wrapperHeight s else 0) (o_deceleration opt) else (newY, Fin 0))
      in (mx, my, num_max tx ty))"

definition end_moved :: "scroll_options \<Rightarrow> handlers \<Rightarrow> jsnum \<Rightarrow> jsnum \<Rightarrow> jsnum \<Rightarrow> jsnum \<Rightarrow> scroll \<Rightarrow> scroll option" where
  "end_moved opt H now duration newX newY s =
     (let coast = (o_momentum opt \<and> num_less duration (Fin 300));
          (mx, my, t) = (if coast then end_momentum opt duration newX newY s else (newX, newY, Fin 0));
          s1 = (if coast then s\<lparr>sc_inTransition := True\<rparr> else s)
      in if o_snap opt = NoSnap then Some (glide opt H now mx my t None s1)
         else
           Option.bind (nearestSnap mx my s1) (\<lambda>p.
             Some (glide opt H now (cp_x p) (cp_y p) (snap_time (o_snapSpeed opt) (num_sub mx (cp_x p)) (num_sub my (cp_y p)))
                     (Some (o_bounceEasing opt)) (s1\<lparr>sc_currentPage := p, sc_directionX := 0, sc_directionY := 0\<rparr>))))"

definition end_gesture :: "scroll_options \<Rightarrow> handlers \<Rightarrow> pointer_event \<Rightarrow> scroll \<Rightarrow> scroll option" where
  "end_gesture opt H e s =
     (if \<not> sc_enabled s \<or> ev_kind e \<noteq> sc_initiated s then Some s
      else
        let duration = num_sub (ev_time e) (sc_startTime s); newX = num_round (sc_x s); newY = num_round (sc_y s);
            distanceX = num_abs (num_sub newX (sc_startX s)); distanceY = num_abs (num_sub newY (sc_startY s));
            s1 = s\<lparr>sc_inTransition := False, sc_initiated := 0, sc_endTime := ev_later e\<rparr>;
            (back, s2) = resetPosition opt (ev_later e) (o_bounceTime opt) s1
        in if back then Some s2
           else
             let s3 = scrollTo opt (ev_later e) newX newY (Fin 0) None s2
             in if \<not> sc_moved s3 then
                  Some (H ScrollCancel (s3\<lparr>sc_tapped := sc_tapped s3 + (if o_tap opt then 1 else 0),
                                           sc_clicked := sc_clicked s3 + (if o_click opt then 1 else 0)\<rparr>))
                else if (o_flick opt \<or> o_snap opt \<noteq> NoSnap) \<and> num_less duration (Fin 200) \<and> num_less distanceX (Fin 100) \<and>
                        num_less distanceY (Fin 100) then
                  map_option (H FlickEvent) (snap_flick opt (ev_later e) s3)
                else end_moved opt H (ev_later e) duration newX newY s3)"

text \<open>The end of a style transition of the scroller.\<close>

definition transition_end :: "scroll_options \<Rightarrow> handlers \<Rightarrow> jsnum \<Rightarrow> bool \<Rightarrow> scroll \<Rightarrow> scroll" where
  "transition_end opt H now on_scroller s =
     (if \<not> on_scroller \<or> \<not> sc_inTransition s then s
      else case resetPosition opt now (o_bounceTime opt) (transition_time opt (Fin 0) s) of
             (True, s1) \<Rightarrow> s1
           | (False, s1) \<Rightarrow> H ScrollEnd (s1\<lparr>sc_inTransition := False\<rparr>))"

text \<open>A frame of the animation that waits first.\<close>

definition animation_frame :: "scroll_options \<Rightarrow> handlers \<Rightarrow> jsnum \<Rightarrow> scroll \<Rightarrow> scroll" where
  "animation_frame opt H now s =
     (case sc_frames s of
        [] \<Rightarrow> s
      | a # as \<Rightarrow>
          let s1 = s\<lparr>sc_frames := as\<rparr>
          in if num_le (num_add (an_startTime a) (an_duration a)) now then
               (case resetPosition opt now (o_bounceTime opt) (translate opt (an_destX a) (an_destY a) (s1\<lparr>sc_animating := False\<rparr>)) of
                  (True, s2) \<Rightarrow> s2
                | (False, s2) \<Rightarrow> H ScrollEnd s2)
             else
               let s2 = translate opt (fst (tween a now)) (snd (tween a now)) s1
               in if sc_animating s2 then s2\<lparr>sc_frames := sc_frames s2 @ [a]\<rparr> else s2)"

section \<open>Wheel and keys\<close>

datatype wheel_data =
    Delta nat jsnum jsnum | WheelDeltaXY jsnum jsnum | WheelDelta jsnum | Detail jsnum | NoData

definition wheel_deltas :: "scroll_options \<Rightarrow> wheel_data \<Rightarrow> (jsnum \<times> jsnum) option" where
  "wheel_deltas opt w =
     (let sp = o_mouseWheelSpeed opt; neg = num_sub (Fin 0)
      in map_option (\<lambda>(x, y). if o_invertWheelDirection opt then (neg x, neg y) else (x, y))
        (case w of
           Delta mode x y \<Rightarrow> Some (if mode = 1 then (num_mul (neg x) sp, num_mul (neg y) sp) else (neg x, neg y))
         | WheelDeltaXY x y \<Rightarrow> Some (num_mul (num_over x 120) sp, num_mul (num_over y 120) sp)
         | WheelDelta d \<Rightarrow> Some (num_mul (num_over d 120) sp, num_mul (num_over d 120) sp)
         | Detail d \<Rightarrow> Some (num_mul (num_over (neg d) 3) sp, num_mul (num_over (neg d) 3) sp)
         | NoData \<Rightarrow> None))"

definition step_page :: "jsnum \<Rightarrow> int option \<Rightarrow> int option" where
  "step_page d i = map_option (\<lambda>k. if num_less (Fin 0) d then k - 1 else if num_less d (Fin 0) then k + 1 else k) i"

definition wheel :: "scroll_options \<Rightarrow> handlers \<Rightarrow> jsnum \<Rightarrow> wheel_data \<Rightarrow> scroll \<Rightarrow> scroll option" where
  "wheel opt H now w s =
     (if \<not> sc_enabled s then Some s
      else
        let s1 = (if \<not> sc_wheelPending s then H ScrollStart s else s)\<lparr>sc_wheelPending := True\<rparr>
        in case wheel_deltas opt w of
             None \<Rightarrow> Some s1
           | Some (wx, wy) \<Rightarrow>
               let dx = (if sc_hasV s1 then wx else wy); dy = (if sc_hasV s1 then wy else Fin 0)
               in if o_snap opt \<noteq> NoSnap then
                    goToPage opt now (step_page dx (cp_pageX (sc_currentPage s1))) (step_page dy (cp_pageY (sc_currentPage s1))) None None s1
                  else
                    let newX = num_add (sc_x s1) (num_round (if sc_hasH s1 then dx else Fin 0));
                        newY = num_add (sc_y s1) (num_round (if sc_hasV s1 then dy else Fin 0));
                        s2 = s1\<lparr>sc_directionX := sign_dir dx, sc_directionY := sign_dir dy\<rparr>
                    in Some (scrollTo opt now (clamp (sc_maxX s2) newX) (clamp (sc_maxY s2) newY) (Fin 0) None s2))"

text \<open>The timeout after the last turn of the wheel.\<close>

definition wheel_timeout :: "scroll_options \<Rightarrow> handlers \<Rightarrow> scroll \<Rightarrow> scroll" where
  "wheel_timeout opt H s =
     (if sc_wheelPending s then (if o_snap opt = NoSnap then H ScrollEnd s else s)\<lparr>sc_wheelPending := False\<rparr> else s)"

definition default_keys :: key_bindings where
  "default_keys =
     \<lparr>kb_pageUp = 33, kb_pageDown = 34, kb_end = 35, kb_home = 36, kb_left = 37, kb_up = 38, kb_right = 39, kb_down = 40\<rparr>"

text \<open>The page on which a key lands when snapping, and the position otherwise; \<open>None\<close> is a key that is not bound.\<close>

definition key_page :: "scroll_options \<Rightarrow> nat \<Rightarrow> scroll \<Rightarrow> (int option \<times> int option) option option" where
  "key_page opt code s =
     (let kb = o_keyBindings opt; x = cp_pageX (sc_currentPage s); y = cp_pageY (sc_currentPage s);
          add = (\<lambda>d. map_option (\<lambda>i. i + d)); lone = (sc_hasH s \<and> \<not> sc_hasV s)
      in if code = kb_pageUp kb then Some (Some (if lone then (add 1 x, y) else (x, add 1 y)))
         else if code = kb_pageDown kb then Some (Some (if lone then (add (- 1) x, y) else (x, add (- 1) y)))
         else if code = kb_end kb then
           Some (case sc_pages s of [] \<Rightarrow> None | col # _ \<Rightarrow> Some (Some (int (length (sc_pages s)) - 1), Some (int (length col) - 1)))
         else if code = kb_home kb then Some (Some (Some 0, Some 0))
         else if code = kb_left kb then Some (Some (add (- 1) x, y))
         else if code = kb_up kb then Some (Some (x, add 1 y))
         else if code = kb_right kb then Some (Some (add 1 x, y))
         else if code = kb_down kb then Some (Some (x, add (- 1) y))
         else None)"

definition key_position :: "scroll_options \<Rightarrow> nat \<Rightarrow> jsnum \<Rightarrow> jsnum \<Rightarrow> scroll \<Rightarrow> (jsnum \<times> jsnum) option" where
  "key_position opt code x y s =
     (let kb = o_keyBindings opt; lone = (sc_hasH s \<and> \<not> sc_hasV s);
          acc = num_ints (int32 (num_add (Fin 5) (sc_keyAcceleration s)))
      in if code = kb_pageUp kb then
           Some (if lone then (num_add x (num_ints (sc_wrapperWidth s)), y) else (x, num_add y (num_ints (sc_wrapperHeight s))))
         else if code = kb_pageDown kb then
           Some (if lone then (num_sub x (num_ints (sc_wrapperWidth s)), y) else (x, num_sub y (num_ints (sc_wrapperHeight s))))
         else if code = kb_end kb then Some (num_ints (sc_maxX s), num_ints (sc_maxY s))
         else if code = kb_home kb then Some (Fin 0, Fin 0)
         else if code = kb_left kb then Some (num_add x acc, y)
         else if code = kb_up kb then Some (x, num_add y acc)
         else if code = kb_right kb then Some (num_sub x acc, y)
         else if code = kb_down kb then Some (x, num_sub y acc)
         else None)"

text \<open>
  \<^verbatim>\<open>_key\<close>. The position from which the key moves is read before a running transition is stopped; pages are not changed by that.
\<close>

definition key :: "scroll_options \<Rightarrow> jsnum \<Rightarrow> nat \<Rightarrow> jsnum \<times> jsnum \<Rightarrow> scroll \<Rightarrow> scroll option" where
  "key opt now code computed s =
     (if \<not> sc_enabled s then Some s
      else
        let s1 = (if o_useTransition opt \<and> sc_inTransition s then stop_transition opt computed s else s);
            s2 = s1\<lparr>sc_keyAcceleration :=
                     (if num_less (num_sub now (sc_keyTime s1)) (Fin 200) then num_min (num_add (sc_keyAcceleration s1) (Fin (1 / 4))) (Fin 50)
                      else Fin 0)\<rparr>
        in if o_snap opt \<noteq> NoSnap then
             (case key_page opt code s2 of
                None \<Rightarrow> Some s2
              | Some None \<Rightarrow> None
              | Some (Some (px, py)) \<Rightarrow> goToPage opt now px py None None s2)
           else
             (case key_position opt code (sc_x s) (sc_y s) s2 of
                None \<Rightarrow> Some s2
              | Some (newX, newY) \<Rightarrow>
                  let x = clamp (sc_maxX s2) newX; y = clamp (sc_maxY s2) newY;
                      s3 = (if out_of_bounds s2 newX newY then s2\<lparr>sc_keyAcceleration := Fin 0\<rparr> else s2)
                  in Some ((scrollTo opt now x y (Fin 0) None s3)\<lparr>sc_keyTime := now\<rparr>)))"

section \<open>Scroll bars: dragging\<close>

definition indicator_pos :: "scroll_options \<Rightarrow> jsnum \<Rightarrow> indicator \<Rightarrow> jsnum \<Rightarrow> jsnum \<Rightarrow> scroll \<Rightarrow> scroll" where
  "indicator_pos opt now i x y s =
     (let cut = (\<lambda>m v. if num_less v (Fin 0) then Fin 0 else if num_less (num_ints m) v then num_ints m else v);
          nx = (if in_listenX i then num_round (num_div (cut (in_maxPosX i) x) (in_sizeRatioX i)) else sc_x s);
          ny = (if in_listenY i then num_round (num_div (cut (in_maxPosY i) y) (in_sizeRatioY i)) else sc_y s)
      in scrollTo opt now nx ny (Fin 0) None s)"

definition indicator_start :: "handlers \<Rightarrow> nat \<Rightarrow> jsnum \<Rightarrow> jsnum \<Rightarrow> scroll \<Rightarrow> scroll" where
  "indicator_start H k px py s =
     H BeforeScrollStart (s\<lparr>sc_indicators := (sc_indicators s)[k := (sc_indicators s ! k)
       \<lparr>in_initiated := True, in_moved := False, in_lastPointX := px, in_lastPointY := py\<rparr>]\<rparr>)"

definition indicator_move :: "scroll_options \<Rightarrow> handlers \<Rightarrow> jsnum \<Rightarrow> nat \<Rightarrow> jsnum \<Rightarrow> jsnum \<Rightarrow> scroll \<Rightarrow> scroll" where
  "indicator_move opt H now k px py s =
     (let s1 = (if in_moved (sc_indicators s ! k) then s else H ScrollStart s);
          i = sc_indicators s1 ! k;
          dx = num_sub px (in_lastPointX i); dy = num_sub py (in_lastPointY i);
          i1 = i\<lparr>in_moved := True, in_lastPointX := px, in_lastPointY := py\<rparr>
      in indicator_pos opt now i1 (num_add (in_x i1) dx) (num_add (in_y i1) dy) (s1\<lparr>sc_indicators := (sc_indicators s1)[k := i1]\<rparr>))"

definition indicator_end :: "scroll_options \<Rightarrow> handlers \<Rightarrow> jsnum \<Rightarrow> nat \<Rightarrow> scroll \<Rightarrow> scroll option" where
  "indicator_end opt H now k s =
     (let i = sc_indicators s ! k
      in if \<not> in_initiated i then Some s
         else
           let s1 = s\<lparr>sc_indicators := (sc_indicators s)[k := i\<lparr>in_initiated := False\<rparr>]\<rparr>
           in map_option (\<lambda>s2. if in_moved i then H ScrollEnd s2 else s2)
                (if o_snap opt = NoSnap then Some s1
                 else
                   Option.bind (nearestSnap (sc_x s1) (sc_y s1) s1) (\<lambda>p.
                     Some (if \<not> num_same (sc_x s1) (cp_x p) \<or> \<not> num_same (sc_y s1) (cp_y p) then
                             scrollTo opt now (cp_x p) (cp_y p)
                               (snap_time (in_snapSpeed i) (num_sub (sc_x s1) (cp_x p)) (num_sub (sc_y s1) (cp_y p)))
                               (Some (o_bounceEasing opt)) (s1\<lparr>sc_directionX := 0, sc_directionY := 0, sc_currentPage := p\<rparr>)
                           else s1))))"

section \<open>Construction and events\<close>

definition normalize :: "bool \<Rightarrow> bool \<Rightarrow> bool \<Rightarrow> scroll_options \<Rightarrow> scroll_options" where
  "normalize hasTransition hasTransform scale_bars opt =
     (let pt = o_eventPassthrough opt
      in opt\<lparr>o_useTransition := hasTransition \<and> o_useTransition opt \<and> \<not> scale_bars,
             o_useTransform := hasTransform \<and> o_useTransform opt,
             o_preventDefault := pt = NoPass \<and> o_preventDefault opt,
             o_scrollY := pt \<noteq> VerticalPass \<and> o_scrollY opt, o_scrollX := pt \<noteq> HorizontalPass \<and> o_scrollX opt,
             o_freeScroll := o_freeScroll opt \<and> pt = NoPass,
             o_directionLockThreshold := (if pt \<noteq> NoPass then Fin 0 else o_directionLockThreshold opt)\<rparr>)"

text \<open>The easing of a name; unknown names are circular.\<close>

definition ease_named :: "math_funs \<Rightarrow> string \<Rightarrow> easing" where
  "ease_named M n =
     (if n = ''quadratic'' then ease_quadratic else if n = ''back'' then ease_back else if n = ''bounce'' then ease_bounce
      else if n = ''elastic'' then ease_elastic M else ease_circular M)"

text \<open>The options before the page changes them; an option without a default that the code tests for truth is zero.\<close>

definition default_options :: "math_funs \<Rightarrow> scroll_options" where
  "default_options M =
     \<lparr>o_useTransition = True, o_useTransform = True, o_eventPassthrough = NoPass, o_preventDefault = True, o_scrollX = False,
      o_scrollY = True, o_freeScroll = False, o_directionLockThreshold = Fin 5, o_momentum = True, o_bounce = True,
      o_bounceTime = Fin 600, o_bounceEasing = ease_named M [], o_circular = ease_circular M, o_tap = False, o_click = False,
      o_flick = False, o_snap = NoSnap, o_snapSpeed = Fin 0, o_snapStepX = 0, o_snapStepY = 0, o_snapThreshold = rnd (334 / 1000),
      o_deceleration = None, o_mouseWheelSpeed = Fin 20, o_invertWheelDirection = False, o_keyBindings = default_keys\<rparr>"

definition blank_scroll :: "indicator list \<Rightarrow> scroll" where
  "blank_scroll bars =
     \<lparr>sc_x = Fin 0, sc_y = Fin 0, sc_maxX = 0, sc_maxY = 0, sc_hasH = False, sc_hasV = False, sc_wrapperWidth = 0,
      sc_wrapperHeight = 0, sc_scrollerWidth = 0, sc_scrollerHeight = 0, sc_wrapperOffset = (0, 0), sc_enabled = False,
      sc_initiated = 0, sc_moved = False, sc_distX = NaN, sc_distY = NaN, sc_directionX = 0, sc_directionY = 0,
      sc_locked = Unlocked, sc_startTime = NaN, sc_endTime = NaN, sc_startX = NaN, sc_startY = NaN, sc_absStartX = NaN,
      sc_absStartY = NaN, sc_pointX = NaN, sc_pointY = NaN, sc_inTransition = False, sc_animating = False, sc_frames = [],
      sc_pages = [], sc_currentPage = \<lparr>cp_x = NaN, cp_y = NaN, cp_pageX = None, cp_pageY = None\<rparr>, sc_snapThresholdX = NaN,
      sc_snapThresholdY = NaN, sc_wheelPending = False, sc_resizePending = False, sc_keyTime = Fin 0, sc_keyAcceleration = NaN,
      sc_transitionTime = Fin 0, sc_timingFunction = [], sc_indicators = bars, sc_tapped = 0, sc_clicked = 0\<rparr>"

definition IScroll_new :: "scroll_options \<Rightarrow> handlers \<Rightarrow> jsnum \<Rightarrow> measures \<Rightarrow> jsnum \<Rightarrow> jsnum \<Rightarrow> indicator list \<Rightarrow> scroll option" where
  "IScroll_new opt H now me startX startY bars =
     Option.bind (refresh opt H now me (blank_scroll bars)) (\<lambda>s.
       Some ((scrollTo opt now startX startY (Fin 0) None s)\<lparr>sc_enabled := True\<rparr>))"

definition resize_event :: "scroll \<Rightarrow> scroll" where
  "resize_event s = s\<lparr>sc_resizePending := True\<rparr>"

definition resize_timeout :: "scroll_options \<Rightarrow> handlers \<Rightarrow> jsnum \<Rightarrow> measures \<Rightarrow> scroll \<Rightarrow> scroll option" where
  "resize_timeout opt H now me s = (if sc_resizePending s then refresh opt H now me (s\<lparr>sc_resizePending := False\<rparr>) else Some s)"

definition destroy :: "handlers \<Rightarrow> scroll \<Rightarrow> scroll" where
  "destroy H s = H DestroyEvent (s\<lparr>sc_resizePending := False, sc_wheelPending := False\<rparr>)"

datatype ui_event =
    PointerDown pointer_event | PointerMove pointer_event | PointerUp pointer_event | Resize | TransitionEnd jsnum bool
  | Wheel jsnum wheel_data | KeyDown jsnum nat "jsnum \<times> jsnum" | Frame jsnum | WheelTimeout | ResizeTimeout jsnum measures
  | Enable bool

text \<open>\<^verbatim>\<open>handleEvent\<close>, with the timeouts and frames that the browser runs, and \<^verbatim>\<open>enable\<close> and \<^verbatim>\<open>disable\<close>.\<close>

definition handleEvent :: "scroll_options \<Rightarrow> handlers \<Rightarrow> ui_event \<Rightarrow> scroll \<Rightarrow> scroll option" where
  "handleEvent opt H ev s =
     (case ev of
        PointerDown e \<Rightarrow> Some (start_gesture opt H e s)
      | PointerMove e \<Rightarrow> Some (move_gesture opt H e s)
      | PointerUp e \<Rightarrow> end_gesture opt H e s
      | Resize \<Rightarrow> Some (resize_event s)
      | TransitionEnd now t \<Rightarrow> Some (transition_end opt H now t s)
      | Wheel now w \<Rightarrow> wheel opt H now w s
      | KeyDown now c pos \<Rightarrow> key opt now c pos s
      | Frame now \<Rightarrow> Some (animation_frame opt H now s)
      | WheelTimeout \<Rightarrow> Some (wheel_timeout opt H s)
      | ResizeTimeout now me \<Rightarrow> resize_timeout opt H now me s
      | Enable b \<Rightarrow> Some (s\<lparr>sc_enabled := b\<rparr>))"

end
