(* ===== verification/IscrollBounds.thy ===== *)
theory IscrollBounds
  imports Iscroll
begin

text \<open>
  Where the scroller of \<^verbatim>\<open>iscroll.js\<close> can be. One coordinate: clamping, rounding, dragging and momentum keep it between the greatest
  scroll and zero. States: \<open>settled\<close> is the invariant, \<open>scroll_view\<close> the part of the state it reads, so that an update of anything
  else keeps it. Then one lemma per handler, the runs of the page with the place at which the browser shows the scroller, by rule
  induction, the jumps of wheel, keys and elements, and the pages of a grid.
\<close>

section \<open>Bounds of a coordinate\<close>

definition finite_num :: "jsnum \<Rightarrow> bool" where
  "finite_num v \<longleftrightarrow> (\<exists>q. v = Fin q)"

definition inb :: "int \<Rightarrow> jsnum \<Rightarrow> bool" where
  "inb m v \<longleftrightarrow> (\<exists>q. v = Fin q \<and> of_int m \<le> q \<and> q \<le> 0)"

lemma finite_num_simps [simp]:
  "finite_num (Fin q)" "finite_num (num_ints n)" "inb m v \<Longrightarrow> finite_num v"
  "finite_num a \<Longrightarrow> finite_num b \<Longrightarrow> finite_num (num_add a b)" "finite_num a \<Longrightarrow> finite_num b \<Longrightarrow> finite_num (num_sub a b)"
  "finite_num a \<Longrightarrow> finite_num b \<Longrightarrow> finite_num (num_mul a b)" "finite_num a \<Longrightarrow> finite_num (num_over a c)"
  "finite_num a \<Longrightarrow> finite_num (num_abs a)" "finite_num a \<Longrightarrow> finite_num (num_round a)"
  by (auto simp: finite_num_def inb_def num_ints_def)

lemma clamp_inb: "m \<le> 0 \<Longrightarrow> finite_num v \<Longrightarrow> inb m (clamp m v)"
  by (auto simp: clamp_def inb_def finite_num_def num_ints_def)

lemma clamp_number: "m \<le> 0 \<Longrightarrow> v \<noteq> NaN \<Longrightarrow> inb m (clamp m v)"
  by (cases v rule: jsnum.exhaust) (auto simp: clamp_def inb_def num_ints_def)

lemma clamp_same [simp]: "inb m v \<Longrightarrow> clamp m v = v"
  by (auto simp: clamp_def inb_def num_ints_def)

lemma round_inb: "m \<le> 0 \<Longrightarrow> inb m v \<Longrightarrow> inb m (num_round v)"
  by (auto simp: inb_def le_floor_iff floor_le_iff)

lemma inb_0: "m \<le> 0 \<Longrightarrow> inb m (Fin 0)" "inb 0 v \<longleftrightarrow> v = Fin 0"
  by (auto simp: inb_def)

lemma num_same_refl [simp]: "inb m v \<Longrightarrow> num_same v v"
  by (auto simp: num_same_def inb_def)

lemma drag_inb: "\<not> o_bounce opt \<Longrightarrow> m \<le> 0 \<Longrightarrow> finite_num x \<Longrightarrow> finite_num d \<Longrightarrow> inb m (drag opt m x d)"
  by (auto simp: drag_def inb_def finite_num_def num_ints_def Let_def)

lemma momentum_inb:
  assumes "m \<le> 0" "finite_num current" "finite_num start" "0 < t" "0 < d"
    "deceleration = None \<and> d = rnd (6 / 10000) \<or> deceleration = Some (Fin d)"
  shows "inb m (fst (momentum current start (Fin t) m 0 deceleration))"
proof -
  have dec: "(case deceleration of None \<Rightarrow> lit (6 / 10000) | Some d \<Rightarrow> d) = Fin d" using assms(6) by auto
  let ?speed = "num_div (num_abs (num_sub current start)) (Fin t)"
  let ?dest = "num_add current (num_mul (num_div (num_mul ?speed ?speed) (num_mul (Fin 2) (Fin d)))
    (if num_less (num_sub current start) (Fin 0) then Fin (- 1) else Fin 1))"
  have "0 < rnd (2 * d)" using assms(5) by (simp add: rnd_sign)
  then have "rnd (2 * d) \<noteq> 0" by simp
  then have f: "finite_num ?dest" using assms(2-4) by (auto simp: finite_num_def)
  have "fst (momentum current start (Fin t) m 0 deceleration) =
      num_round (if num_less ?dest (num_ints m) then num_ints m else if num_less (Fin 0) ?dest then Fin 0 else ?dest)"
    unfolding momentum_def dec Let_def by (simp only: fst_conv if_distrib [of fst] if_distrib [of num_round] simp_thms if_False)
  also have "(if num_less ?dest (num_ints m) then num_ints m else if num_less (Fin 0) ?dest then Fin 0 else ?dest) = clamp m ?dest"
    using f assms(1) by (auto simp: clamp_def finite_num_def num_ints_def)
  finally show ?thesis using round_inb [OF assms(1) clamp_inb [OF assms(1) f]] by simp
qed

text \<open>A gesture that starts and ends in the same millisecond leaves no number.\<close>

lemma momentum_without_time:
  "fst (momentum (Fin q) (Fin q) (Fin 0) m w None) = NaN"
  "w > 0 \<Longrightarrow> fst (momentum (Fin (- 30)) (Fin (- 10)) (Fin 0) m w None) = Inf True"
proof -
  show "fst (momentum (Fin q) (Fin q) (Fin 0) m w None) = NaN" by (simp add: momentum_def Let_def rnd_def [of 0] num_ints_def)
  have r: "rnd 20 = 20" using rnd_int [of 20] by simp
  have "0 < rnd (6 / 10000 :: rat)" by (simp add: rnd_sign)
  then have "0 < rnd (2 * rnd (6 / 10000 :: rat))" by (simp add: rnd_sign)
  moreover assume "w > 0"
  moreover from this have "0 < rnd (of_int w / rnd (25 / 10))" by (simp add: rnd_sign)
  ultimately show "fst (momentum (Fin (- 30)) (Fin (- 10)) (Fin 0) m w None) = Inf True"
    by (simp add: momentum_def Let_def r num_ints_def)
qed

section \<open>States\<close>

text \<open>
  The scroller is inside if both coordinates are between the greatest scroll and zero; a direction without scrolling has the greatest
  scroll zero. During a gesture its start is known, and no animation waits.
\<close>

definition inside_scroll :: "scroll \<Rightarrow> bool" where
  "inside_scroll s \<longleftrightarrow>
     sc_maxX s \<le> 0 \<and> sc_maxY s \<le> 0 \<and> inb (sc_maxX s) (sc_x s) \<and> inb (sc_maxY s) (sc_y s) \<and>
     (\<not> sc_hasH s \<longrightarrow> sc_maxX s = 0) \<and> (\<not> sc_hasV s \<longrightarrow> sc_maxY s = 0)"

definition gesture_known :: "scroll \<Rightarrow> bool" where
  "gesture_known s \<longleftrightarrow>
     (sc_initiated s \<noteq> 0 \<longrightarrow>
        finite_num (sc_startX s) \<and> finite_num (sc_startY s) \<and> finite_num (sc_startTime s) \<and> finite_num (sc_pointX s) \<and> finite_num (sc_pointY s))"

definition settled :: "scroll \<Rightarrow> bool" where
  "settled s \<longleftrightarrow> inside_scroll s \<and> gesture_known s \<and> sc_frames s = []"

text \<open>The part of the state that a page's handlers leave alone if they only watch.\<close>

definition scroll_view :: "scroll \<Rightarrow> (jsnum \<times> jsnum \<times> int \<times> int \<times> bool \<times> bool) \<times> (nat \<times> jsnum \<times> jsnum \<times> jsnum \<times> jsnum \<times> jsnum) \<times> animation list" where
  "scroll_view s =
     ((sc_x s, sc_y s, sc_maxX s, sc_maxY s, sc_hasH s, sc_hasV s),
      (sc_initiated s, sc_startX s, sc_startY s, sc_startTime s, sc_pointX s, sc_pointY s), sc_frames s)"

definition watches :: "handlers \<Rightarrow> bool" where
  "watches H \<longleftrightarrow> (\<forall>ev s. scroll_view (H ev s) = scroll_view s)"

text \<open>The options for which the theorems hold: style transitions, so that nothing is animated by frames; no snapping.\<close>

definition smooth :: "scroll_options \<Rightarrow> bool" where
  "smooth opt \<longleftrightarrow> o_useTransition opt \<and> o_snap opt = NoSnap \<and> ez_style (o_bounceEasing opt) \<noteq> [] \<and> ez_style (o_circular opt) \<noteq> [] \<and>
     finite_num (o_mouseWheelSpeed opt) \<and>
     (case o_deceleration opt of None \<Rightarrow> True | Some d \<Rightarrow> num_less (Fin 0) d \<and> finite_num d)"

lemma view_fields:
  assumes "scroll_view s = scroll_view t"
  shows "sc_x s = sc_x t" "sc_y s = sc_y t" "sc_maxX s = sc_maxX t" "sc_maxY s = sc_maxY t" "sc_hasH s = sc_hasH t" "sc_hasV s = sc_hasV t"
    "sc_initiated s = sc_initiated t" "sc_startX s = sc_startX t" "sc_startY s = sc_startY t" "sc_startTime s = sc_startTime t"
    "sc_pointX s = sc_pointX t" "sc_pointY s = sc_pointY t" "sc_frames s = sc_frames t"
  using assms by (simp_all add: scroll_view_def)

lemmas watched = view_fields [OF watches_def [THEN iffD1, rule_format]]

lemma settled_view:
  assumes "scroll_view s = scroll_view t"
  shows "settled s \<longleftrightarrow> settled t"
  unfolding settled_def inside_scroll_def gesture_known_def view_fields [OF assms] ..

lemma settled_watched [simp]: "watches H \<Longrightarrow> settled (H ev s) \<longleftrightarrow> settled s"
  by (rule settled_view) (simp add: watches_def)

lemma translate_view:
  "scroll_view (translate opt x y s) =
   scroll_view (s\<lparr>sc_x := (if o_useTransform opt then x else num_round x), sc_y := (if o_useTransform opt then y else num_round y)\<rparr>)"
  by (simp add: translate_def scroll_view_def Let_def)

lemma translate_settled:
  assumes "inside_scroll (s\<lparr>sc_x := x, sc_y := y\<rparr>)" "gesture_known s" "sc_frames s = []"
  shows "settled (translate opt x y s)"
  using assms unfolding settled_view [OF translate_view]
  by (auto simp: settled_def inside_scroll_def gesture_known_def round_inb)

lemma scrollTo_view:
  assumes "smooth opt" "ease = None \<or> ease = Some (o_bounceEasing opt) \<or> ease = Some ease_quadratic"
  shows "scroll_view (scrollTo opt now x y t ease s) = scroll_view (translate opt x y s)"
proof -
  have "o_useTransition opt \<and> ez_style (case ease of Some e \<Rightarrow> e | None \<Rightarrow> o_circular opt) \<noteq> []"
    using assms by (auto simp: smooth_def ease_quadratic_def)
  then show ?thesis
    unfolding scrollTo_def Let_def translate_view by (simp add: translate_view) (simp add: scroll_view_def transition_time_def)
qed

lemma scrollTo_at_once: "scroll_view (scrollTo opt now x y (Fin 0) ease s) = scroll_view (translate opt x y s)"
  unfolding scrollTo_def Let_def translate_view by (simp add: translate_view) (simp add: scroll_view_def transition_time_def)

lemma scrollTo_kept:
  "sc_moved (scrollTo opt now x y t ease s) = sc_moved s" "sc_maxX (scrollTo opt now x y t ease s) = sc_maxX s"
  "sc_maxY (scrollTo opt now x y t ease s) = sc_maxY s"
  by (simp_all add: scrollTo_def animate_def translate_def transition_time_def Let_def split: prod.split)

lemma scrollTo_settled:
  assumes "smooth opt" "ease = None \<or> ease = Some (o_bounceEasing opt) \<or> ease = Some ease_quadratic"
    "inside_scroll (s\<lparr>sc_x := x, sc_y := y\<rparr>)" "gesture_known s" "sc_frames s = []"
  shows "settled (scrollTo opt now x y t ease s)"
  unfolding settled_view [OF scrollTo_view [OF assms(1,2)]] by (rule translate_settled [OF assms(3-5)])

lemma inside_moved:
  assumes "settled s" "inb (sc_maxX s) x" "inb (sc_maxY s) y"
  shows "inside_scroll (s\<lparr>sc_x := x, sc_y := y\<rparr>)" "gesture_known s" "sc_frames s = []"
  using assms by (simp_all add: settled_def inside_scroll_def)

lemma jump_settled:
  assumes "smooth opt" "settled s" "inb (sc_maxX s) x" "inb (sc_maxY s) y" "ease = None \<or> ease = Some (o_bounceEasing opt) \<or> ease = Some ease_quadratic"
  shows "settled (scrollTo opt now x y t ease s)"
  by (rule scrollTo_settled [OF assms(1,5) inside_moved [OF assms(2-4)]])

lemma resetPosition_settled:
  assumes "settled s"
  shows "resetPosition opt now t s = (False, s)"
proof -
  have "sc_x s \<noteq> NaN" "sc_y s \<noteq> NaN" using assms by (auto simp: settled_def inside_scroll_def inb_def)
  then show ?thesis using assms by (auto simp: resetPosition_def Let_def settled_def inside_scroll_def inb_0(2) num_same_def)
qed

text \<open>What a state must have for a reset to bring it inside.\<close>

lemma resetPosition_inside:
  assumes "smooth opt" "sc_maxX s \<le> 0" "sc_maxY s \<le> 0" "\<not> sc_hasH s \<longrightarrow> sc_maxX s = 0" "\<not> sc_hasV s \<longrightarrow> sc_maxY s = 0"
    "finite_num (sc_x s)" "finite_num (sc_y s)" "gesture_known s" "sc_frames s = []"
  shows "settled (snd (resetPosition opt now t s))"
proof -
  define x y where "x = (if \<not> sc_hasH s then Fin 0 else clamp (sc_maxX s) (sc_x s))" and "y = (if \<not> sc_hasV s then Fin 0 else clamp (sc_maxY s) (sc_y s))"
  have b: "inb (sc_maxX s) x" "inb (sc_maxY s) y" using assms by (simp_all add: x_def y_def clamp_inb inb_0)
  then have m: "inside_scroll (s\<lparr>sc_x := x, sc_y := y\<rparr>)" using assms by (simp add: inside_scroll_def)
  have r: "settled s" if "num_same x (sc_x s) \<and> num_same y (sc_y s)" using that b assms by (simp add: settled_def inside_scroll_def num_same_def)
  show ?thesis unfolding resetPosition_def Let_def x_def [symmetric] y_def [symmetric]
    using r scrollTo_settled [OF assms(1) _ m assms(8,9), of "Some (o_bounceEasing opt)"] by simp
qed

section \<open>Handlers\<close>

text \<open>
  What the lemmas of the handlers need of an event: finite coordinates and times, a computed position inside, and a clock that has
  advanced when a gesture that moved ends.
\<close>

fun harmless :: "ui_event \<Rightarrow> scroll \<Rightarrow> bool" where
  "harmless (PointerDown e) s \<longleftrightarrow> finite_num (ev_x e) \<and> finite_num (ev_y e) \<and> finite_num (ev_time e) \<and>
     inb (sc_maxX s) (fst (ev_computed e)) \<and> inb (sc_maxY s) (snd (ev_computed e))"
| "harmless (PointerMove e) s \<longleftrightarrow> finite_num (ev_x e) \<and> finite_num (ev_y e) \<and> finite_num (ev_time e) \<and> ev_kind e \<noteq> 0"
| "harmless (PointerUp e) s \<longleftrightarrow> finite_num (ev_time e) \<and> ev_kind e \<noteq> 0 \<and> (sc_initiated s = ev_kind e \<and> sc_moved s \<longrightarrow> num_less (sc_startTime s) (ev_time e))"
| "harmless (Wheel now w) s \<longleftrightarrow>
     (case w of Delta m x y \<Rightarrow> finite_num x \<and> finite_num y | WheelDeltaXY x y \<Rightarrow> finite_num x \<and> finite_num y
      | WheelDelta d \<Rightarrow> finite_num d | Detail d \<Rightarrow> finite_num d | NoData \<Rightarrow> True)"
| "harmless (KeyDown now c pos) s \<longleftrightarrow> inb (sc_maxX s) (fst pos) \<and> inb (sc_maxY s) (snd pos)"
| "harmless _ s \<longleftrightarrow> True"

lemma settled_upd [simp]:
  "settled (s\<lparr>sc_enabled := b\<rparr>) = settled s" "settled (s\<lparr>sc_wheelPending := b\<rparr>) = settled s" "settled (s\<lparr>sc_resizePending := b\<rparr>) = settled s"
  "settled (s\<lparr>sc_inTransition := b\<rparr>) = settled s" "settled (s\<lparr>sc_animating := b\<rparr>) = settled s" "settled (s\<lparr>sc_moved := b\<rparr>) = settled s"
  "settled (s\<lparr>sc_directionX := i\<rparr>) = settled s" "settled (s\<lparr>sc_directionY := j\<rparr>) = settled s" "settled (s\<lparr>sc_locked := l\<rparr>) = settled s"
  "settled (s\<lparr>sc_keyAcceleration := v\<rparr>) = settled s" "settled (s\<lparr>sc_keyTime := v\<rparr>) = settled s" "settled (s\<lparr>sc_transitionTime := v\<rparr>) = settled s"
  "settled (s\<lparr>sc_distX := v\<rparr>) = settled s" "settled (s\<lparr>sc_distY := v\<rparr>) = settled s" "settled (s\<lparr>sc_endTime := v\<rparr>) = settled s"
  "settled (s\<lparr>sc_tapped := k\<rparr>) = settled s" "settled (s\<lparr>sc_clicked := k\<rparr>) = settled s"
  by (simp_all add: settled_def inside_scroll_def gesture_known_def)

lemma finite_settled: "settled s \<Longrightarrow> finite_num (sc_x s) \<and> finite_num (sc_y s) \<and> sc_maxX s \<le> 0 \<and> sc_maxY s \<le> 0"
  by (auto simp: settled_def inside_scroll_def)

lemma start_settled:
  assumes "smooth opt" "watches H" "settled s" "harmless (PointerDown e) s"
  shows "settled (start_gesture opt H e s)"
proof -
  have r: "settled (H BeforeScrollStart (t\<lparr>sc_startX := sc_x t, sc_startY := sc_y t, sc_absStartX := sc_x t, sc_absStartY := sc_y t,
      sc_pointX := ev_x e, sc_pointY := ev_y e\<rparr>))" if "inside_scroll t" "finite_num (sc_startTime t)" "sc_frames t = []" for t
    using that assms(4) unfolding settled_watched [OF assms(2)]
    by (auto simp: settled_def inside_scroll_def gesture_known_def)
  let ?s = "s\<lparr>sc_initiated := ev_kind e, sc_moved := False, sc_distX := Fin 0, sc_distY := Fin 0, sc_directionX := 0,
                   sc_directionY := 0, sc_locked := Unlocked, sc_startTime := ev_time e\<rparr>"
  have i: "inside_scroll ?s" "finite_num (sc_startTime ?s)" "sc_frames ?s = []" using assms(3,4) by (auto simp: settled_def inside_scroll_def)
  let ?t = "stop_transition opt (ev_computed e) (transition_time opt (Fin 0) ?s)"
  have t: "scroll_view ?t = scroll_view (translate opt (num_round (fst (ev_computed e))) (num_round (snd (ev_computed e))) ?s)"
    unfolding stop_transition_def translate_view by (simp add: scroll_view_def transition_time_def)
  have "inside_scroll ?t" "finite_num (sc_startTime ?t)" "sc_frames ?t = []"
    using assms(3,4) unfolding inside_scroll_def view_fields [OF t] view_fields [OF translate_view]
    by (auto simp: settled_def inside_scroll_def round_inb)
  then have "inside_scroll (H ScrollEnd ?t)" "finite_num (sc_startTime (H ScrollEnd ?t))" "sc_frames (H ScrollEnd ?t) = []"
    unfolding inside_scroll_def watched [OF assms(2)] .
  note h = r [OF this]
  have "inside_scroll (H ScrollEnd (?s\<lparr>sc_animating := False\<rparr>))" "finite_num (sc_startTime (H ScrollEnd (?s\<lparr>sc_animating := False\<rparr>)))"
    "sc_frames (H ScrollEnd (?s\<lparr>sc_animating := False\<rparr>)) = []"
    using i unfolding inside_scroll_def watched [OF assms(2)] by simp_all
  note k = r [OF this]
  show ?thesis unfolding start_gesture_def Let_def using assms(3) h k r [OF i] by simp
qed

lemma move_by_settled:
  assumes "smooth opt" "\<not> o_bounce opt" "watches H" "settled s" "finite_num dx" "finite_num dy" "finite_num ts"
  shows "settled (move_by opt H ts dx dy s)"
proof -
  define dx1 dy1 where "dx1 = (if sc_hasH s then dx else Fin 0)" and "dy1 = (if sc_hasV s then dy else Fin 0)"
  let ?x = "drag opt (sc_maxX s) (sc_x s) dx1" and ?y = "drag opt (sc_maxY s) (sc_y s) dy1"
  have b: "inb (sc_maxX s) ?x" "inb (sc_maxY s) ?y"
    using finite_settled [OF assms(4)] assms(2,5,6) by (simp_all add: dx1_def dy1_def drag_inb)
  define s1 where "s1 = s\<lparr>sc_directionX := sign_dir dx1, sc_directionY := sign_dir dy1\<rparr>"
  define s2 where "s2 = (if \<not> sc_moved s1 then H ScrollStart s1 else s1)"
  have "scroll_view s2 = scroll_view s" using assms(3) by (simp add: s2_def s1_def watches_def scroll_view_def)
  note v = view_fields [OF this] settled_view [OF this]
  define s3 where "s3 = translate opt ?x ?y (s2\<lparr>sc_moved := True\<rparr>)"
  have s3: "settled s3" unfolding s3_def
    using inside_moved [of "s2\<lparr>sc_moved := True\<rparr>" ?x ?y] b v assms(4) by (intro translate_settled) simp_all
  then have "settled (s3\<lparr>sc_startTime := ts, sc_startX := sc_x s3, sc_startY := sc_y s3\<rparr>)"
    using assms(7) by (auto simp: settled_def inside_scroll_def gesture_known_def)
  then show ?thesis
    unfolding move_by_def Let_def dx1_def [symmetric] dy1_def [symmetric] s1_def [symmetric] s2_def [symmetric] s3_def [symmetric]
    using s3 by simp
qed

lemma move_settled:
  assumes "smooth opt" "\<not> o_bounce opt" "watches H" "settled s" "harmless (PointerMove e) s"
  shows "settled (move_gesture opt H e s)"
proof (cases "\<not> sc_enabled s \<or> ev_kind e \<noteq> sc_initiated s")
  case False
  let ?dx = "num_sub (ev_x e) (sc_pointX s)" and ?dy = "num_sub (ev_y e) (sc_pointY s)"
  define s1 where "s1 = s\<lparr>sc_pointX := ev_x e, sc_pointY := ev_y e, sc_distX := num_add (sc_distX s) ?dx, sc_distY := num_add (sc_distY s) ?dy\<rparr>"
  have d: "finite_num ?dx" "finite_num ?dy" using False assms(4,5) by (auto simp: settled_def gesture_known_def)
  have s1: "settled s1" using assms(4,5) by (auto simp: s1_def settled_def inside_scroll_def gesture_known_def)
  define s2 where "s2 = (if sc_locked s1 = Unlocked \<and> \<not> o_freeScroll opt then s1\<lparr>sc_locked := lock_of opt (num_abs (sc_distX s1)) (num_abs (sc_distY s1))\<rparr> else s1)"
  have s2: "settled s2" using s1 by (simp add: s2_def)
  then have "settled (s2\<lparr>sc_initiated := 0\<rparr>)" by (simp add: settled_def inside_scroll_def gesture_known_def)
  moreover have "settled (move_by opt H (ev_time e) a b s2)" if "finite_num a" "finite_num b" for a b
    using move_by_settled [OF assms(1-3) s2 that] assms(5) by simp
  ultimately show ?thesis using False s1 d
    unfolding move_gesture_def Let_def s1_def [symmetric] s2_def [symmetric] by (simp split: lock.split)
qed (auto simp: move_gesture_def assms(4))

lemma glide_settled:
  assumes "smooth opt" "watches H" "settled s" "inb (sc_maxX s) x" "inb (sc_maxY s) y"
  shows "settled (glide opt H now x y t None s)"
  unfolding glide_def using jump_settled [OF assms(1,3-5)] assms(2,3) by simp

lemma end_momentum_inb:
  assumes "smooth opt" "\<not> o_bounce opt" "settled s" "finite_num (sc_startX s)" "finite_num (sc_startY s)" "0 < t"
    "inb (sc_maxX s) x" "inb (sc_maxY s) y" "end_momentum opt (Fin t) x y s = (mx, my, u)"
  shows "inb (sc_maxX s) mx \<and> inb (sc_maxY s) my"
proof -
  have r: "0 < rnd (6 / 10000 :: rat)" by (simp add: rnd_sign)
  obtain d where d: "0 < d" "o_deceleration opt = None \<and> d = rnd (6 / 10000) \<or> o_deceleration opt = Some (Fin d)"
    using assms(1) r unfolding smooth_def finite_num_def by (cases "o_deceleration opt") auto
  note m = momentum_inb [OF _ _ _ assms(6) d]
  show ?thesis using assms(2-5,7-9) finite_settled [OF assms(3)] m [of "sc_maxX s" "sc_x s" "sc_startX s"] m [of "sc_maxY s" "sc_y s" "sc_startY s"]
    unfolding end_momentum_def by (auto split: if_splits prod.splits)
qed

lemma end_settled:
  assumes "smooth opt" "\<not> o_bounce opt" "watches H" "settled s" "harmless (PointerUp e) s" "end_gesture opt H e s = Some s'"
  shows "settled s'"
proof (cases "\<not> sc_enabled s \<or> ev_kind e \<noteq> sc_initiated s")
  case False
  define x y where "x = num_round (sc_x s)" and "y = num_round (sc_y s)"
  have k: "finite_num (sc_startX s)" "finite_num (sc_startY s)" "finite_num (sc_startTime s)" using False assms(4,5) by (auto simp: settled_def gesture_known_def)
  have b: "inb (sc_maxX s) x" "inb (sc_maxY s) y" using assms(4) by (auto simp: x_def y_def round_inb settled_def inside_scroll_def)
  obtain t where t: "num_sub (ev_time e) (sc_startTime s) = Fin t" "sc_moved s \<longrightarrow> 0 < t"
    using False assms(5) k(3) by (auto simp: finite_num_def rnd_sign)
  define s1 where "s1 = s\<lparr>sc_inTransition := False, sc_initiated := 0, sc_endTime := ev_later e\<rparr>"
  have s1: "settled s1" using assms(4) by (simp add: s1_def settled_def inside_scroll_def gesture_known_def)
  define s3 where "s3 = scrollTo opt (ev_later e) x y (Fin 0) None s1"
  have s3: "settled s3" unfolding s3_def using b by (intro scrollTo_settled [OF assms(1)] inside_moved [OF s1]) (simp_all add: s1_def)
  have v: "scroll_view s3 = scroll_view (translate opt x y s1)" unfolding s3_def using scrollTo_view [OF assms(1)] by blast
  have f: "sc_maxX s3 = sc_maxX s" "sc_maxY s3 = sc_maxY s" "sc_startX s3 = sc_startX s" "sc_startY s3 = sc_startY s"
    unfolding view_fields [OF v] view_fields [OF translate_view] by (simp_all add: s1_def)
  have mv: "sc_moved s3 = sc_moved s" by (simp add: s3_def s1_def scrollTo_kept)
  have m: "settled s''" if "end_moved opt H (ev_later e) (Fin t) x y s3 = Some s''" "sc_moved s" for s''
  proof (cases "o_momentum opt \<and> num_less (Fin t) (Fin 300)")
    case True
    obtain mx my u where q: "end_momentum opt (Fin t) x y s3 = (mx, my, u)" by (cases "end_momentum opt (Fin t) x y s3")
    have "inb (sc_maxX s3) mx \<and> inb (sc_maxY s3) my" by (rule end_momentum_inb [OF assms(1,2) s3 _ _ t(2) [rule_format, OF that(2)] _ _ q]) (simp_all add: f k b)
    then show ?thesis using True that s3 assms(1) q glide_settled [OF assms(1,3), of "s3\<lparr>sc_inTransition := True\<rparr>" mx my]
      by (auto simp: end_moved_def smooth_def)
  next
    case c: False
    then show ?thesis using that s3 assms(1) b f glide_settled [OF assms(1,3) s3, of x y] by (auto simp: end_moved_def smooth_def)
  qed
  show ?thesis using assms(6) False m s3 mv assms(1,3) resetPosition_settled [OF s1]
    unfolding end_gesture_def Let_def x_def [symmetric] y_def [symmetric] s1_def [symmetric] t(1) case_prod_beta
    by (auto simp: s3_def [symmetric] smooth_def snap_flick_def split: if_splits)
qed (use assms(4,6) in \<open>auto simp: end_gesture_def\<close>)

lemma wheel_deltas_finite:
  assumes "finite_num (o_mouseWheelSpeed opt)" "harmless (Wheel now w) s" "wheel_deltas opt w = Some (dx, dy)"
  shows "finite_num dx \<and> finite_num dy"
  using assms by (auto simp: wheel_deltas_def Let_def split: wheel_data.splits if_splits)

text \<open>Neither the wheel nor a bound key leaves the bounds, wherever the scroller was and whether it bounces or not.\<close>

lemma clamped_scroll:
  fixes opt now
  assumes "sc_maxX s \<le> 0" "sc_maxY s \<le> 0" "finite_num x" "finite_num y"
  defines "t \<equiv> scrollTo opt now (clamp (sc_maxX s) x) (clamp (sc_maxY s) y) (Fin 0) None s"
  shows "inb (sc_maxX s) (sc_x t) \<and> inb (sc_maxY s) (sc_y t)"
  unfolding t_def view_fields [OF scrollTo_at_once] view_fields [OF translate_view] using assms(1-4) by (simp add: clamp_inb round_inb)

lemma wheel_inside:
  assumes "o_snap opt = NoSnap" "finite_num (o_mouseWheelSpeed opt)" "watches H" "sc_enabled s" "sc_maxX s \<le> 0" "sc_maxY s \<le> 0"
    "finite_num (sc_x s)" "finite_num (sc_y s)" "harmless (Wheel now w) s" "w \<noteq> NoData"
  shows "\<exists>t. wheel opt H now w s = Some t \<and> inb (sc_maxX s) (sc_x t) \<and> inb (sc_maxY s) (sc_y t)"
proof -
  define s1 where "s1 = (if \<not> sc_wheelPending s then H ScrollStart s else s)\<lparr>sc_wheelPending := True\<rparr>"
  have "scroll_view s1 = scroll_view s" using assms(3) by (simp add: s1_def watches_def scroll_view_def)
  note v = view_fields [OF this]
  obtain wx wy where w: "wheel_deltas opt w = Some (wx, wy)"
    using assms(10) by (cases w; cases "wheel_deltas opt w") (auto simp: wheel_deltas_def Let_def)
  have f: "finite_num wx" "finite_num wy" using wheel_deltas_finite [OF assms(2,9) w] by simp_all
  define dx dy where "dx = (if sc_hasV s1 then wx else wy)" and "dy = (if sc_hasV s1 then wy else Fin 0)"
  define s2 where "s2 = s1\<lparr>sc_directionX := sign_dir dx, sc_directionY := sign_dir dy\<rparr>"
  define nx ny where "nx = num_add (sc_x s1) (num_round (if sc_hasH s1 then dx else Fin 0))"
    and "ny = num_add (sc_y s1) (num_round (if sc_hasV s1 then dy else Fin 0))"
  have n: "finite_num nx" "finite_num ny" using f assms(7,8) by (simp_all add: nx_def ny_def dx_def dy_def v)
  have m: "sc_maxX s2 = sc_maxX s" "sc_maxY s2 = sc_maxY s" by (simp_all add: s2_def v)
  have "wheel opt H now w s = Some (scrollTo opt now (clamp (sc_maxX s2) nx) (clamp (sc_maxY s2) ny) (Fin 0) None s2)"
    using assms(1,4) unfolding wheel_def Let_def s1_def [symmetric] w option.case prod.case dx_def [symmetric] dy_def [symmetric]
      nx_def [symmetric] ny_def [symmetric] s2_def [symmetric] by simp
  then show ?thesis using clamped_scroll [of s2 nx ny opt now, unfolded m, OF assms(5,6) n] m by auto
qed

lemma key_position_finite:
  assumes "finite_num x" "finite_num y" "key_position opt c x y s = Some (u, v)"
  shows "finite_num u \<and> finite_num v"
  using assms by (auto simp: key_position_def Let_def split: if_splits)

lemma stop_transition_settled:
  assumes "settled s" "inb (sc_maxX s) (fst pos)" "inb (sc_maxY s) (snd pos)"
  shows "settled (stop_transition opt pos s)"
proof -
  have "scroll_view (stop_transition opt pos s) = scroll_view (translate opt (num_round (fst pos)) (num_round (snd pos)) s)"
    by (simp add: stop_transition_def translate_def scroll_view_def Let_def)
  from settled_view [OF this] show ?thesis
    using translate_settled [OF inside_moved [OF assms(1)]] assms(2,3) finite_settled [OF assms(1)] by (simp add: round_inb)
qed

lemma key_settled:
  assumes "smooth opt" "settled s" "harmless (KeyDown now c pos) s" "key opt now c pos s = Some s'"
  shows "settled s'"
proof -
  define s1 where "s1 = (if o_useTransition opt \<and> sc_inTransition s then stop_transition opt pos s else s)"
  note fr = finite_settled [OF assms(2)]
  have p: "inb (sc_maxX s) (fst pos)" "inb (sc_maxY s) (snd pos)" using assms(3) by simp_all
  have st: "settled (stop_transition opt pos s)" by (rule stop_transition_settled [OF assms(2) p])
  have s1: "settled s1" "sc_maxX s1 = sc_maxX s" "sc_maxY s1 = sc_maxY s"
    using st assms(2) by (auto simp: s1_def stop_transition_def translate_def Let_def)
  define s2 where "s2 = s1\<lparr>sc_keyAcceleration := (if num_less (num_sub now (sc_keyTime s1)) (Fin 200) then num_min (num_add (sc_keyAcceleration s1) (Fin (1 / 4))) (Fin 50) else Fin 0)\<rparr>"
  have s2: "settled s2" "sc_maxX s2 = sc_maxX s" "sc_maxY s2 = sc_maxY s" using s1 by (simp_all add: s2_def)
  have "settled s'" if "key_position opt c (sc_x s) (sc_y s) s2 = Some (u, v)" "sc_enabled s" for u v
  proof -
    let ?s3 = "if out_of_bounds s2 u v then s2\<lparr>sc_keyAcceleration := Fin 0\<rparr> else s2"
    have "finite_num u \<and> finite_num v" using key_position_finite [OF _ _ that(1)] fr by simp
    then have "inb (sc_maxX ?s3) (clamp (sc_maxX s2) u)" "inb (sc_maxY ?s3) (clamp (sc_maxY s2) v)" "settled ?s3"
      using s2 fr by (simp_all add: clamp_inb)
    then have "settled (scrollTo opt now (clamp (sc_maxX s2) u) (clamp (sc_maxY s2) v) (Fin 0) None ?s3)"
      using scrollTo_settled [OF assms(1) _ inside_moved] by blast
    moreover have "s' = (scrollTo opt now (clamp (sc_maxX s2) u) (clamp (sc_maxY s2) v) (Fin 0) None ?s3)\<lparr>sc_keyTime := now\<rparr>"
      using assms(1,4) that unfolding key_def Let_def s1_def [symmetric] s2_def [symmetric] by (simp add: smooth_def)
    ultimately show ?thesis by simp
  qed
  then show ?thesis using assms(1,2,4) s2(1) unfolding key_def Let_def s1_def [symmetric] s2_def [symmetric]
    by (auto simp: smooth_def split: if_splits option.splits)
qed

lemma refresh_settled:
  assumes "smooth opt" "watches H" "finite_num (sc_x s)" "finite_num (sc_y s)" "gesture_known s" "sc_frames s = []"
    "refresh opt H now me s = Some s'"
  shows "settled s'"
proof -
  define s1 where "s1 = H RefreshEvent (refresh_bars me (measure_scroll opt me s))"
  have v: "scroll_view s1 = scroll_view (measure_scroll opt me s)"
    using assms(2) by (simp add: s1_def watches_def) (simp add: scroll_view_def refresh_bars_def)
  have "settled (snd (resetPosition opt now (Fin 0) s1))"
    by (rule resetPosition_inside [OF assms(1)])
      (use assms(3-6) in \<open>simp_all add: view_fields [OF v] gesture_known_def\<close>, simp_all add: measure_scroll_def Let_def)
  then show ?thesis using assms(1,7) by (simp add: refresh_def snap_refresh_def smooth_def s1_def)
qed

lemma new_settled:
  assumes "smooth opt" "watches H" "IScroll_new opt H now me startX startY bars = Some s" "inb (sc_maxX s) startX" "inb (sc_maxY s) startY"
  shows "settled s"
proof -
  obtain s1 where s1: "refresh opt H now me (blank_scroll bars) = Some s1"
      "s = (scrollTo opt now startX startY (Fin 0) None s1)\<lparr>sc_enabled := True\<rparr>"
    using assms(3) by (auto simp: IScroll_new_def bind_eq_Some_conv)
  have r: "settled s1" by (rule refresh_settled [OF assms(1,2) _ _ _ _ s1(1)]) (simp_all add: blank_scroll_def gesture_known_def)
  have "inb (sc_maxX s1) startX" "inb (sc_maxY s1) startY" using assms(4,5) by (simp_all add: s1(2) scrollTo_kept)
  then have "settled (scrollTo opt now startX startY (Fin 0) None s1)" by (intro jump_settled [OF assms(1) r]) simp_all
  then show ?thesis by (simp add: s1(2))
qed

lemma wheel_settled:
  assumes "smooth opt" "watches H" "settled s" "harmless (Wheel now w) s" "wheel opt H now w s = Some s'"
  shows "settled s'"
proof (cases "sc_enabled s")
  case True
  define s1 where "s1 = (if \<not> sc_wheelPending s then H ScrollStart s else s)\<lparr>sc_wheelPending := True\<rparr>"
  have s1: "settled s1" using assms(2,3) by (simp add: s1_def)
  show ?thesis
  proof (cases "wheel_deltas opt w")
    case None
    then show ?thesis using assms(5) True s1 unfolding wheel_def Let_def s1_def [symmetric] by simp
  next
    case (Some d)
    then obtain wx wy where d: "wheel_deltas opt w = Some (wx, wy)" by (cases d) simp
    have "finite_num (o_mouseWheelSpeed opt)" using assms(1) by (simp add: smooth_def)
    then have f: "finite_num wx" "finite_num wy" using wheel_deltas_finite [OF _ assms(4) d] by simp_all
    have c: "settled (scrollTo opt now (clamp (sc_maxX s1) x) (clamp (sc_maxY s1) y) (Fin 0) None (s1\<lparr>sc_directionX := i, sc_directionY := j\<rparr>))"
      if "finite_num x" "finite_num y" for x y i j
      using that finite_settled [OF s1] s1 by (intro jump_settled [OF assms(1)]) (simp_all add: clamp_inb)
    show ?thesis using assms(1,5) True f finite_settled [OF s1] c
      unfolding wheel_def Let_def s1_def [symmetric] d by (auto simp: smooth_def split: if_splits)
  qed
qed (use assms(3,5) in \<open>simp add: wheel_def\<close>)

lemma transition_end_settled:
  assumes "watches H" "settled s"
  shows "settled (transition_end opt H now b s)"
proof -
  have "settled (transition_time opt (Fin 0) s)" using assms(2) by (simp add: transition_time_def)
  then show ?thesis using assms by (simp add: transition_end_def resetPosition_settled)
qed

lemma handleEvent_settled:
  assumes "smooth opt" "\<not> o_bounce opt" "watches H" "settled s" "harmless ev s" "handleEvent opt H ev s = Some s'"
  shows "settled s'"
proof (cases ev)
  case (ResizeTimeout now me)
  have "settled (s\<lparr>sc_resizePending := False\<rparr>)" using assms(4) by simp
  then have "gesture_known (s\<lparr>sc_resizePending := False\<rparr>)" "sc_frames s = []" by (simp_all add: settled_def)
  note r = refresh_settled [OF assms(1,3) _ _ this(1), of now me s']
  show ?thesis using assms(4,6) ResizeTimeout finite_settled [OF assms(4)] r \<open>sc_frames s = []\<close>
    by (auto simp: handleEvent_def resize_timeout_def split: if_splits)
next
  case (Frame now)
  then show ?thesis using assms(4,6) by (simp add: handleEvent_def animation_frame_def settled_def)
qed (use assms start_settled [OF assms(1,3,4)] move_settled [OF assms(1-4)] end_settled [OF assms(1-4)] wheel_settled [OF assms(1,3,4)]
       key_settled [OF assms(1,4)] transition_end_settled [OF assms(3,4)]
     in \<open>auto simp: handleEvent_def resize_event_def wheel_timeout_def split: if_splits\<close>)

lemma handleEvent_some:
  assumes "o_snap opt = NoSnap"
  shows "\<exists>s'. handleEvent opt H ev s = Some s'"
proof -
  have "\<exists>s'. end_gesture opt H e s = Some s'" for e
    using assms unfolding end_gesture_def end_moved_def snap_flick_def Let_def case_prod_beta by auto
  moreover have "\<exists>s'. wheel opt H now w s = Some s'" for now w
    using assms unfolding wheel_def Let_def by (auto split: option.split)
  moreover have "\<exists>s'. key opt now c pos s = Some s'" for now c pos
    using assms unfolding key_def Let_def by (auto split: option.split)
  moreover have "\<exists>s'. resize_timeout opt H now me s = Some s'" for now me
    using assms by (simp add: resize_timeout_def refresh_def snap_refresh_def)
  ultimately show ?thesis by (cases ev) (simp_all add: handleEvent_def)
qed

text \<open>Only a refresh changes the greatest scroll.\<close>

lemma reset_kept: "sc_maxX (snd (resetPosition opt now t s)) = sc_maxX s" "sc_maxY (snd (resetPosition opt now t s)) = sc_maxY s"
  by (simp_all add: resetPosition_def Let_def scrollTo_kept)

lemma translate_kept: "sc_maxX (translate opt x y s) = sc_maxX s" "sc_maxY (translate opt x y s) = sc_maxY s"
  by (simp_all add: translate_def Let_def)

lemma stop_kept: "sc_maxX (stop_transition opt pos s) = sc_maxX s" "sc_maxY (stop_transition opt pos s) = sc_maxY s"
  by (simp_all add: stop_transition_def translate_kept)

lemma handlers_kept:
  assumes "watches H" "o_snap opt = NoSnap"
  shows "sc_maxX (start_gesture opt H e s) = sc_maxX s \<and> sc_maxY (start_gesture opt H e s) = sc_maxY s"
    "sc_maxX (move_by opt H ts dx dy s) = sc_maxX s \<and> sc_maxY (move_by opt H ts dx dy s) = sc_maxY s"
    "sc_maxX (glide opt H now x y t ease s) = sc_maxX s \<and> sc_maxY (glide opt H now x y t ease s) = sc_maxY s"
    "sc_maxX (transition_end opt H now b s) = sc_maxX s \<and> sc_maxY (transition_end opt H now b s) = sc_maxY s"
    "sc_maxX (animation_frame opt H now s) = sc_maxX s \<and> sc_maxY (animation_frame opt H now s) = sc_maxY s"
proof -
  note w = watched(3,4) [OF assms(1)]
  show "sc_maxX (start_gesture opt H e s) = sc_maxX s \<and> sc_maxY (start_gesture opt H e s) = sc_maxY s"
    by (simp add: start_gesture_def Let_def w stop_kept transition_time_def)
  show "sc_maxX (move_by opt H ts dx dy s) = sc_maxX s \<and> sc_maxY (move_by opt H ts dx dy s) = sc_maxY s"
    by (simp add: move_by_def Let_def w translate_kept)
  show "sc_maxX (glide opt H now x y t ease s) = sc_maxX s \<and> sc_maxY (glide opt H now x y t ease s) = sc_maxY s"
    by (simp add: glide_def w scrollTo_kept)
  show "sc_maxX (transition_end opt H now b s) = sc_maxX s \<and> sc_maxY (transition_end opt H now b s) = sc_maxY s"
    using reset_kept [of opt now "o_bounceTime opt" "transition_time opt (Fin 0) s"]
    by (auto simp: transition_end_def w transition_time_def split: prod.split bool.split)
  show "sc_maxX (animation_frame opt H now s) = sc_maxX s \<and> sc_maxY (animation_frame opt H now s) = sc_maxY s"
    by (auto simp: animation_frame_def Let_def w translate_kept dest: arg_cong [of _ _ "\<lambda>p. sc_maxX (snd p)"] arg_cong [of _ _ "\<lambda>p. sc_maxY (snd p)"]
        simp: reset_kept split: list.split prod.split bool.split)
qed

lemma move_kept:
  assumes "watches H" "o_snap opt = NoSnap"
  shows "sc_maxX (move_gesture opt H e s) = sc_maxX s \<and> sc_maxY (move_gesture opt H e s) = sc_maxY s"
  by (simp add: move_gesture_def Let_def handlers_kept(2) [OF assms] split: lock.split)

lemma end_kept:
  assumes "watches H" "o_snap opt = NoSnap" "end_gesture opt H e s = Some s'"
  shows "sc_maxX s' = sc_maxX s \<and> sc_maxY s' = sc_maxY s"
proof -
  let ?s1 = "s\<lparr>sc_inTransition := False, sc_initiated := 0, sc_endTime := ev_later e\<rparr>"
  have m: "sc_maxX u = sc_maxX t \<and> sc_maxY u = sc_maxY t" if "end_moved opt H now d x y t = Some u" for now d x y t u
    using that handlers_kept(3) [OF assms(1,2)] assms(2) by (auto simp: end_moved_def Let_def case_prod_beta)
  note k = reset_kept [of opt "ev_later e" "o_bounceTime opt" ?s1]
  show ?thesis using assms(3) k
    unfolding end_gesture_def Let_def case_prod_beta
    by (auto simp: watched(3,4) [OF assms(1)] scrollTo_kept snap_flick_def assms(2) dest!: m split: if_splits)
qed

lemma wheel_kept:
  assumes "watches H" "o_snap opt = NoSnap" "wheel opt H now w s = Some s'"
  shows "sc_maxX s' = sc_maxX s \<and> sc_maxY s' = sc_maxY s"
  using assms(3) by (auto simp: wheel_def Let_def assms(2) scrollTo_kept watched(3,4) [OF assms(1)] split: if_splits option.splits)

lemma key_kept:
  assumes "o_snap opt = NoSnap" "key opt now c pos s = Some s'"
  shows "sc_maxX s' = sc_maxX s \<and> sc_maxY s' = sc_maxY s"
  using assms(2) by (auto simp: key_def Let_def assms(1) scrollTo_kept stop_kept split: if_splits option.splits)

lemma handleEvent_kept:
  assumes "watches H" "o_snap opt = NoSnap" "handleEvent opt H ev s = Some s'" "\<nexists>now me. ev = ResizeTimeout now me"
  shows "sc_maxX s' = sc_maxX s \<and> sc_maxY s' = sc_maxY s"
  using assms(3,4) handlers_kept [OF assms(1,2)] move_kept [OF assms(1,2)] end_kept [OF assms(1,2)] wheel_kept [OF assms(1,2)]
    key_kept [OF assms(2)]
  by (cases ev) (auto simp: handleEvent_def resize_event_def wheel_timeout_def watched(3,4) [OF assms(1)] split: if_splits)

section \<open>Runs\<close>

text \<open>
  A run pairs the scroller with the place at which the browser shows it. A style transition takes the shown place, step by step,
  from where it is towards the position that the code has set, and never beyond; an event leaves it where it is, except that a
  refresh, which sets positions without transition, takes effect at once. The computed position that an event reports is the
  shown place. An event can happen if its coordinates and times are finite, the clock has advanced when a gesture that moved ends,
  and no transition runs when the sizes are measured again.
\<close>

definition between :: "jsnum \<Rightarrow> jsnum \<Rightarrow> jsnum \<Rightarrow> bool" where
  "between a b v \<longleftrightarrow> (\<exists>p q r. a = Fin p \<and> b = Fin q \<and> v = Fin r \<and> min p q \<le> r \<and> r \<le> max p q)"

lemma between_inb: "between a b v \<Longrightarrow> inb m a \<Longrightarrow> inb m b \<Longrightarrow> inb m v"
  by (auto simp: between_def inb_def)

fun possible :: "jsnum \<times> jsnum \<Rightarrow> ui_event \<Rightarrow> scroll \<Rightarrow> bool" where
  "possible shown (PointerDown e) s \<longleftrightarrow> finite_num (ev_x e) \<and> finite_num (ev_y e) \<and> finite_num (ev_time e) \<and> ev_computed e = shown"
| "possible shown (KeyDown now c pos) s \<longleftrightarrow> pos = shown"
| "possible shown (ResizeTimeout now me) s \<longleftrightarrow> shown = (sc_x s, sc_y s)"
| "possible shown ev s \<longleftrightarrow> harmless ev s"

inductive scroll_run :: "scroll_options \<Rightarrow> handlers \<Rightarrow> scroll \<Rightarrow> jsnum \<times> jsnum \<Rightarrow> bool" for opt H where
  made: "IScroll_new opt H now me startX startY bars = Some s \<Longrightarrow> inb (sc_maxX s) startX \<Longrightarrow> inb (sc_maxY s) startY \<Longrightarrow>
    scroll_run opt H s (sc_x s, sc_y s)"
| time: "scroll_run opt H s (vx, vy) \<Longrightarrow> between vx (sc_x s) x \<Longrightarrow> between vy (sc_y s) y \<Longrightarrow> scroll_run opt H s (x, y)"
| event: "scroll_run opt H s shown \<Longrightarrow> possible shown ev s \<Longrightarrow> handleEvent opt H ev s = Some s' \<Longrightarrow>
    scroll_run opt H s' (case ev of ResizeTimeout now me \<Rightarrow> (sc_x s', sc_y s') | _ \<Rightarrow> shown)"

definition shown_inside :: "scroll \<Rightarrow> jsnum \<times> jsnum \<Rightarrow> bool" where
  "shown_inside s shown \<longleftrightarrow> inb (sc_maxX s) (fst shown) \<and> inb (sc_maxY s) (snd shown)"

lemma settled_shown: "settled s \<Longrightarrow> shown_inside s (sc_x s, sc_y s)"
  by (simp add: settled_def inside_scroll_def shown_inside_def)

lemma possible_harmless: "possible shown ev s \<Longrightarrow> shown_inside s shown \<Longrightarrow> harmless ev s"
  by (cases ev) (auto simp: shown_inside_def)

lemma scroll_run_settled:
  assumes "scroll_run opt H s shown" "smooth opt" "\<not> o_bounce opt" "watches H"
  shows "settled s \<and> shown_inside s shown"
  using assms(1)
proof induction
  case (made now me startX startY bars s)
  then have "settled s" using new_settled [OF assms(2,4)] by blast
  then show ?case using settled_shown by blast
next
  case (time s vx vy x y)
  then show ?case by (auto simp: shown_inside_def settled_def inside_scroll_def intro: between_inb)
next
  case (event s shown ev s')
  have s': "settled s'" using handleEvent_settled [OF assms(2-4)] possible_harmless event by blast
  show ?case
  proof (cases "\<exists>now me. ev = ResizeTimeout now me")
    case True
    then show ?thesis using s' settled_shown [OF s'] by auto
  next
    case False
    have "o_snap opt = NoSnap" using assms(2) by (simp add: smooth_def)
    then have "sc_maxX s' = sc_maxX s \<and> sc_maxY s' = sc_maxY s" using handleEvent_kept [OF assms(4) _ event(3)] False by blast
    moreover have "(case ev of ResizeTimeout now me \<Rightarrow> (sc_x s', sc_y s') | _ \<Rightarrow> shown) = shown" using False by (cases ev) auto
    ultimately show ?thesis using s' event by (simp add: shown_inside_def)
  qed
qed

section \<open>Jumps\<close>

definition bound_keys :: "scroll_options \<Rightarrow> nat list" where
  "bound_keys opt =
     (let kb = o_keyBindings opt
      in [kb_pageUp kb, kb_pageDown kb, kb_end kb, kb_home kb, kb_left kb, kb_up kb, kb_right kb, kb_down kb])"

lemma key_position_bound: "c \<in> set (bound_keys opt) \<Longrightarrow> \<exists>u v. key_position opt c x y s = Some (u, v)"
  by (auto simp: bound_keys_def key_position_def Let_def)

lemma key_inside:
  assumes "o_snap opt = NoSnap" "sc_enabled s" "sc_maxX s \<le> 0" "sc_maxY s \<le> 0" "finite_num (sc_x s)" "finite_num (sc_y s)"
    "c \<in> set (bound_keys opt)"
  shows "\<exists>t. key opt now c pos s = Some t \<and> inb (sc_maxX s) (sc_x t) \<and> inb (sc_maxY s) (sc_y t)"
proof -
  define s1 where "s1 = (if o_useTransition opt \<and> sc_inTransition s then stop_transition opt pos s else s)"
  define s2 where "s2 = s1\<lparr>sc_keyAcceleration := (if num_less (num_sub now (sc_keyTime s1)) (Fin 200)
    then num_min (num_add (sc_keyAcceleration s1) (Fin (1 / 4))) (Fin 50) else Fin 0)\<rparr>"
  obtain u v where k: "key_position opt c (sc_x s) (sc_y s) s2 = Some (u, v)" using key_position_bound [OF assms(7)] by metis
  have f: "finite_num u" "finite_num v" using key_position_finite [OF assms(5,6) k] by simp_all
  define s3 where "s3 = (if out_of_bounds s2 u v then s2\<lparr>sc_keyAcceleration := Fin 0\<rparr> else s2)"
  have m: "sc_maxX s2 = sc_maxX s" "sc_maxY s2 = sc_maxY s" "sc_maxX s3 = sc_maxX s" "sc_maxY s3 = sc_maxY s"
    by (simp_all add: s3_def s2_def s1_def stop_kept)
  have "key opt now c pos s = Some ((scrollTo opt now (clamp (sc_maxX s3) u) (clamp (sc_maxY s3) v) (Fin 0) None s3)\<lparr>sc_keyTime := now\<rparr>)"
    using assms(1,2) k unfolding key_def Let_def s1_def [symmetric] s2_def [symmetric] by (simp add: s3_def [symmetric] m)
  then show ?thesis using clamped_scroll [of s3 u v opt now, unfolded m, OF assms(3,4) f] m by auto
qed

text \<open>At a place between the greatest scroll and zero, or animated towards one.\<close>

definition headed_inside :: "scroll \<Rightarrow> scroll \<Rightarrow> bool" where
  "headed_inside s t \<longleftrightarrow>
     (inb (sc_maxX s) (sc_x t) \<and> inb (sc_maxY s) (sc_y t) \<and> sc_frames t = sc_frames s) \<or>
     (\<exists>a. sc_frames t = sc_frames s @ [a] \<and> inb (sc_maxX s) (an_destX a) \<and> inb (sc_maxY s) (an_destY a))"

lemma scrollTo_headed:
  assumes "sc_maxX s \<le> 0" "sc_maxY s \<le> 0" "inb (sc_maxX s) x" "inb (sc_maxY s) y"
  shows "headed_inside s (scrollTo opt now x y t ease s)"
  using assms by (auto simp: headed_inside_def scrollTo_def animate_def translate_def transition_time_def round_inb Let_def split: prod.split)

lemma num_sub_number: "v \<noteq> NaN \<Longrightarrow> num_sub (num_ints p) v \<noteq> NaN"
  by (cases v) (simp_all add: num_ints_def)

lemma scrollToElement_headed:
  assumes "sc_maxX s \<le> 0" "sc_maxY s \<le> 0"
  shows "headed_inside s (scrollToElement opt now pos esize wsize time offsetX offsetY ease s)"
proof -
  have "(if truthy (VNum v) then v else Fin 0) \<noteq> NaN" for v by simp
  note n = num_sub_number [OF this]
  show ?thesis unfolding scrollToElement_def Let_def
    by (intro scrollTo_headed assms clamp_number n)
qed

section \<open>Snapping to a grid\<close>

lemma snap_loop_ends:
  assumes "0 < step"
  shows "snap_loop len step x = Some (map (\<lambda>k. x - int k * step) [0..<nat ((len + x + step - 1) div step)])"
proof (induction "nat (len + x)" arbitrary: x rule: less_induct)
  case less
  show ?case
  proof (cases "x > - len")
    case True
    let ?n = "(len + (x - step) + step - 1) div step"
    have e: "(len + x + step - 1) div step = ?n + 1" using assms div_add_self2 [of step "len + x - 1"] by (simp add: algebra_simps)
    have n: "0 \<le> ?n" using True assms by (intro pos_imp_zdiv_nonneg_iff [THEN iffD2]) auto
    have "[0..<nat (?n + 1)] = 0 # map Suc [0..<nat ?n]" using n by (simp add: nat_add_distrib upt_conv_Cons map_Suc_upt del: upt_Suc)
    then have "map (\<lambda>k. x - int k * step) [0..<nat (?n + 1)] = x # map (\<lambda>k. (x - step) - int k * step) [0..<nat ?n]"
      by (simp add: algebra_simps comp_def)
    moreover have "snap_loop len step (x - step) = Some (map (\<lambda>k. (x - step) - int k * step) [0..<nat ?n])"
      by (rule less) (use True assms in simp)
    ultimately show ?thesis unfolding e using True snap_loop.simps [of len step x] by simp
  next
    case False
    then have "(len + x + step - 1) div step \<le> 0" using assms zdiv_mono1 [of "len + x + step - 1" "step - 1" step] by simp
    then show ?thesis using False snap_loop.simps [of len step x] by simp
  qed
qed

lemma snap_loop_never:
  assumes "step \<le> 0" "x > - len"
  shows "snap_loop len step x = None"
proof (rule ccontr)
  assume "snap_loop len step x \<noteq> None"
  then obtain ys where "snap_loop len step x = Some ys" by blast
  then have "x > - len \<longrightarrow> 0 < step" 
    using snap_loop.raw_induct [where P = "\<lambda>len step x ys. x > - len \<longrightarrow> 0 < step" and xa = "((len, step), x)" and y = ys]
    by (fastforce simp: bind_eq_Some_conv split: if_splits)
  then show False using assms by simp
qed

text \<open>The steps of the grid: the option, or the size of the wrapper.\<close>

definition step_across :: "scroll_options \<Rightarrow> scroll \<Rightarrow> int" where
  "step_across opt s = (if o_snapStepX opt \<noteq> 0 then o_snapStepX opt else sc_wrapperWidth s)"

definition step_down :: "scroll_options \<Rightarrow> scroll \<Rightarrow> int" where
  "step_down opt s = (if o_snapStepY opt \<noteq> 0 then o_snapStepY opt else sc_wrapperHeight s)"

lemma grid_pages_steps:
  "grid_pages opt s =
     Option.bind (snap_loop (sc_scrollerWidth s) (step_across opt s) 0) (\<lambda>xs.
     Option.bind (snap_loop (sc_scrollerHeight s) (step_down opt s) 0) (\<lambda>ys.
       Some (map (\<lambda>x. map (\<lambda>y. Some (snap_page (sc_maxX s) (sc_maxY s) (step_across opt s) (step_down opt s) x y)) ys) xs)))"
  by (simp add: grid_pages_def step_across_def step_down_def Let_def)

text \<open>The number of pages along one axis.\<close>

definition pages_needed :: "int \<Rightarrow> int \<Rightarrow> nat" where
  "pages_needed len step = nat ((len + step - 1) div step)"

lemma pages_needed_pos: "0 < len \<Longrightarrow> 0 < step \<Longrightarrow> 0 < pages_needed len step"
  using zdiv_mono1 [of step "len + step - 1" step] by (simp add: pages_needed_def)

text \<open>The page in a column and row: its steps from the origin, but not beyond the greatest scroll, and its middle.\<close>

definition grid_page :: "scroll_options \<Rightarrow> scroll \<Rightarrow> nat \<Rightarrow> nat \<Rightarrow> page" where
  "grid_page opt s i j =
     \<lparr>pg_x = Fin (of_int (max (- int i * step_across opt s) (sc_maxX s))), pg_y = Fin (of_int (max (- int j * step_down opt s) (sc_maxY s))),
      pg_width = step_across opt s, pg_height = step_down opt s,
      pg_cx = Fin (of_int (- int i * step_across opt s - (step_across opt s + 1) div 2)),
      pg_cy = Fin (of_int (- int j * step_down opt s - (step_down opt s + 1) div 2))\<rparr>"

definition grid :: "scroll_options \<Rightarrow> scroll \<Rightarrow> page option list list" where
  "grid opt s =
     map (\<lambda>i. map (\<lambda>j. Some (grid_page opt s i j)) [0..<pages_needed (sc_scrollerHeight s) (step_down opt s)])
       [0..<pages_needed (sc_scrollerWidth s) (step_across opt s)]"

lemma grid_pages_eq:
  assumes "0 < step_across opt s" "0 < step_down opt s"
  shows "grid_pages opt s = Some (grid opt s)"
  using assms by (simp add: grid_pages_steps snap_loop_ends pages_needed_def comp_def grid_def grid_page_def snap_page_def num_ints_def)

lemma into_less: "0 < n \<Longrightarrow> 0 \<le> into (int n) i \<and> nat (into (int n) i) < n \<and> into (int n) i = max 0 (min (int n - 1) i)"
  by (auto simp: into_def)

lemma grid_page_inb:
  assumes "sc_maxX s \<le> 0" "sc_maxY s \<le> 0" "0 < step_across opt s" "0 < step_down opt s"
  shows "inb (sc_maxX s) (pg_x (grid_page opt s i j))" "inb (sc_maxY s) (pg_y (grid_page opt s i j))"
proof -
  have "- int i * step_across opt s \<le> 0" "- int j * step_down opt s \<le> 0" using assms(3,4) by simp_all
  then show "inb (sc_maxX s) (pg_x (grid_page opt s i j))" "inb (sc_maxY s) (pg_y (grid_page opt s i j))"
    using assms(1,2) by (simp_all add: grid_page_def inb_def)
qed

lemma scrollTo_pages:
  "sc_pages (scrollTo opt now x y (Fin 0) ease s) = sc_pages s"
  "sc_currentPage (scrollTo opt now x y (Fin 0) ease s) = sc_currentPage s"
  by (simp_all add: scrollTo_def translate_def transition_time_def Let_def)

text \<open>With a grid, going to any page at once ends on a page of the grid.\<close>

lemma goToPage_grid:
  assumes "sc_pages s = map (\<lambda>i. map (\<lambda>j. Some (f i j)) [0..<n]) [0..<m]" "0 < n" "0 < m"
  shows "\<exists>i j t. i < m \<and> j < n \<and> int i = max 0 (min (int m - 1) a) \<and> int j = max 0 (min (int n - 1) b) \<and> goToPage opt now (Some a) (Some b) (Some (Fin 0)) None s = Some t \<and> sc_pages t = sc_pages s \<and>
    sc_currentPage t = \<lparr>cp_x = pg_x (f i j), cp_y = pg_y (f i j), cp_pageX = Some (int i), cp_pageY = Some (int j)\<rparr> \<and>
    scroll_view t = scroll_view (translate opt (pg_x (f i j)) (pg_y (f i j)) s)"
proof -
  define i j where "i = nat (into (int m) a)" and "j = nat (into (int n) b)"
  have i: "i < m" "into (int m) a = int i" "int i = max 0 (min (int m - 1) a)"
    and j: "j < n" "into (int n) b = int j" "int j = max 0 (min (int n - 1) b)"
    using into_less [OF assms(3), of a] into_less [OF assms(2), of b] assms(2,3) unfolding i_def j_def by auto
  let ?s = "s\<lparr>sc_currentPage := \<lparr>cp_x = pg_x (f i j), cp_y = pg_y (f i j), cp_pageX = Some (int i), cp_pageY = Some (int j)\<rparr>\<rparr>"
  let ?t = "scrollTo opt now (pg_x (f i j)) (pg_y (f i j)) (Fin 0) (Some (o_bounceEasing opt)) ?s"
  have "column_at s (int i) = Some (map (\<lambda>j. Some (f i j)) [0..<n])" using i(1) by (simp add: column_at_def assms(1))
  then have "goToPage opt now (Some a) (Some b) (Some (Fin 0)) None s = Some ?t"
    using i(1,2) j(1,2) by (simp add: goToPage_def assms(1) nth_opt_def)
  moreover have "scroll_view ?t = scroll_view (translate opt (pg_x (f i j)) (pg_y (f i j)) s)"
    unfolding scrollTo_at_once translate_view by (simp add: scroll_view_def)
  ultimately show ?thesis using i(1,3) j(1,3) scrollTo_pages [of opt now _ _ _ ?s] by fastforce
qed

lemma snap_thresholds_grid:
  assumes "sc_pages s = map (\<lambda>i. map (\<lambda>j. Some (f i j)) [0..<n]) [0..<m]" "i < m" "j < n"
    "cp_pageX (sc_currentPage s) = Some (int i)" "cp_pageY (sc_currentPage s) = Some (int j)"
  shows "\<exists>a b. snap_thresholds opt s = Some (s\<lparr>sc_snapThresholdX := a, sc_snapThresholdY := b\<rparr>)"
  using assms by (auto simp: snap_thresholds_def Let_def column_at_def nth_opt_def)

section \<open>Properties\<close>

text \<open>
  C12 (invariant). A scroller that does not bounce, made at a place inside, stays between its greatest scroll and zero in both
  directions, and so does the place at which the browser shows it, whatever pointer, wheel, key, resize and timer events come; no
  handler throws, and no animation is left waiting. This holds for style transitions without snapping, handlers of the page that
  only watch, finite coordinates and times, a clock that has advanced when a gesture that moved ends, and sizes measured while no
  transition runs.
\<close>
theorem no_bounce_inside:
  assumes "scroll_run opt H s shown" "smooth opt" "\<not> o_bounce opt" "watches H"
  shows "inside_scroll s \<and> shown_inside s shown \<and> sc_frames s = [] \<and> (\<exists>s'. handleEvent opt H ev s = Some s')"
  using scroll_run_settled [OF assms] handleEvent_some assms(2) by (simp add: settled_def smooth_def)

text \<open>
  C13 (bounds). Wherever the scroller was, and whether it bounces or not: the wheel and the bound keys without snapping end
  between the greatest scroll and zero, and a jump to an element, with any offsets, time, easing and options, ends there or starts
  an animation towards such a place.
\<close>
theorem jumps_land_inside:
  assumes "sc_maxX s \<le> 0" "sc_maxY s \<le> 0"
  shows "(sc_enabled s \<and> o_snap opt = NoSnap \<and> finite_num (sc_x s) \<and> finite_num (sc_y s) \<longrightarrow>
      (watches H \<and> finite_num (o_mouseWheelSpeed opt) \<and> harmless (Wheel now w) s \<and> w \<noteq> NoData \<longrightarrow>
        (\<exists>t. wheel opt H now w s = Some t \<and> inb (sc_maxX s) (sc_x t) \<and> inb (sc_maxY s) (sc_y t))) \<and>
      (c \<in> set (bound_keys opt) \<longrightarrow>
        (\<exists>t. key opt now c computed s = Some t \<and> inb (sc_maxX s) (sc_x t) \<and> inb (sc_maxY s) (sc_y t)))) \<and>
    headed_inside s (scrollToElement opt now pos esize wsize time offsetX offsetY ease s)"
  using wheel_inside [of opt H s now w] key_inside [of opt s c now computed] scrollToElement_headed [OF assms] assms by blast

text \<open>
  C14 (termination). The loops over the pages of a grid end exactly if the steps across and down, the options or else the sizes
  of the wrapper, are positive.
\<close>
theorem snap_grid_ends:
  assumes "0 < sc_scrollerWidth s" "0 < sc_scrollerHeight s"
  shows "(\<exists>pages. grid_pages opt s = Some pages) \<longleftrightarrow> 0 < step_across opt s \<and> 0 < step_down opt s"
proof (cases "0 < step_across opt s \<and> 0 < step_down opt s")
  case False
  then have "snap_loop (sc_scrollerWidth s) (step_across opt s) 0 = None \<or> snap_loop (sc_scrollerHeight s) (step_down opt s) 0 = None"
    using snap_loop_never [of "step_across opt s" "sc_scrollerWidth s" 0] snap_loop_never [of "step_down opt s" "sc_scrollerHeight s" 0] assms
    by auto
  then show ?thesis using False by (auto simp: grid_pages_steps bind_eq_Some_conv)
qed (simp add: grid_pages_eq)

text \<open>
  C15 (functional). Refreshing a scroller that snaps to a grid makes as many columns and rows of pages as the steps need to cover
  it, each page its number of steps from the origin but not beyond the greatest scroll; it ends on the page in the column and row it
  was on before, or the last one if there are fewer now, at the place of that page, which lies between the greatest scroll and zero.
\<close>
theorem snap_refresh_lands:
  assumes "o_snap opt = SnapGrid" "0 < sc_scrollerWidth s" "0 < sc_scrollerHeight s" "0 < sc_wrapperWidth s" "0 < sc_wrapperHeight s"
    "0 < step_across opt s" "0 < step_down opt s" "sc_maxX s \<le> 0" "sc_maxY s \<le> 0"
  shows "\<exists>t i j. snap_refresh opt now s = Some t \<and> sc_pages t = grid opt s \<and>
    length (sc_pages t) = pages_needed (sc_scrollerWidth s) (step_across opt s) \<and>
    list_all (\<lambda>col. length col = pages_needed (sc_scrollerHeight s) (step_down opt s)) (sc_pages t) \<and>
    i < pages_needed (sc_scrollerWidth s) (step_across opt s) \<and> j < pages_needed (sc_scrollerHeight s) (step_down opt s) \<and>
    int i = max 0 (min (int (pages_needed (sc_scrollerWidth s) (step_across opt s)) - 1)
      (case cp_pageX (sc_currentPage s) of Some k \<Rightarrow> k | None \<Rightarrow> 0)) \<and>
    int j = max 0 (min (int (pages_needed (sc_scrollerHeight s) (step_down opt s)) - 1)
      (case cp_pageY (sc_currentPage s) of Some k \<Rightarrow> k | None \<Rightarrow> 0)) \<and>
    sc_currentPage t = \<lparr>cp_x = pg_x (grid_page opt s i j), cp_y = pg_y (grid_page opt s i j), cp_pageX = Some (int i), cp_pageY = Some (int j)\<rparr> \<and>
    sc_x t = cp_x (sc_currentPage t) \<and> sc_y t = cp_y (sc_currentPage t) \<and> inb (sc_maxX s) (sc_x t) \<and> inb (sc_maxY s) (sc_y t)"
proof -
  let ?n = "pages_needed (sc_scrollerHeight s) (step_down opt s)" and ?m = "pages_needed (sc_scrollerWidth s) (step_across opt s)"
  let ?f = "grid_page opt s" and ?s = "s\<lparr>sc_pages := grid opt s\<rparr>"
  let ?a = "case cp_pageX (sc_currentPage s) of Some i \<Rightarrow> i | None \<Rightarrow> 0" and ?b = "case cp_pageY (sc_currentPage s) of Some i \<Rightarrow> i | None \<Rightarrow> 0"
  have r: "num_round (pg_x (?f i j)) = pg_x (?f i j)" "num_round (pg_y (?f i j)) = pg_y (?f i j)" for i j
    by (simp_all add: grid_page_def floor_eq_iff)
  note b = grid_page_inb [OF assms(8,9,6,7)]
  obtain i j t where t: "i < ?m" "j < ?n" "int i = max 0 (min (int ?m - 1) ?a)" "int j = max 0 (min (int ?n - 1) ?b)"
    "goToPage opt now (Some ?a) (Some ?b) (Some (Fin 0)) None ?s = Some t" "sc_pages t = grid opt s"
    "sc_currentPage t = \<lparr>cp_x = pg_x (?f i j), cp_y = pg_y (?f i j), cp_pageX = Some (int i), cp_pageY = Some (int j)\<rparr>"
    "scroll_view t = scroll_view (translate opt (pg_x (?f i j)) (pg_y (?f i j)) ?s)"
    using goToPage_grid [of ?s ?f ?n ?m ?a ?b opt now] pages_needed_pos assms(2,3,6,7) by (auto simp: grid_def)
  obtain c d where u: "snap_thresholds opt t = Some (t\<lparr>sc_snapThresholdX := c, sc_snapThresholdY := d\<rparr>)"
    using snap_thresholds_grid [of t ?f ?n ?m i j opt] t by (auto simp: grid_def)
  have p: "sc_x t = pg_x (?f i j)" "sc_y t = pg_y (?f i j)"
    unfolding view_fields [OF t(8)] view_fields [OF translate_view] by (simp_all add: r)
  have l: "length (grid opt s) = ?m" "list_all (\<lambda>col. length col = ?n) (grid opt s)" by (simp_all add: grid_def list_all_iff)
  have e: "snap_refresh opt now s = Some (t\<lparr>sc_snapThresholdX := c, sc_snapThresholdY := d\<rparr>)"
    using assms(1-5) t(5) u by (simp add: snap_refresh_def grid_pages_eq [OF assms(6,7)])
  show ?thesis
    by (rule exI [of _ "t\<lparr>sc_snapThresholdX := c, sc_snapThresholdY := d\<rparr>"], rule exI [of _ i], rule exI [of _ j])
      (simp add: e t(1,2,6,7) t(3,4) [symmetric] p l b)
qed

section \<open>Witnesses\<close>

definition plain_math :: math_funs where
  "plain_math = \<lparr>m_sqrt = (\<lambda>v. v), m_pow = num_mul, m_sin = (\<lambda>v. v), m_pi = 3\<rparr>"

definition still :: scroll_options where
  "still = (default_options plain_math)\<lparr>o_bounce := False\<rparr>"

definition sizes :: measures where
  "sizes = \<lparr>me_wrapperWidth = 300, me_wrapperHeight = 200, me_scrollerWidth = 300, me_scrollerHeight = 700, me_offset = (0, 0), me_bars = []\<rparr>"

definition made_scroll :: "scroll_options \<Rightarrow> scroll" where
  "made_scroll opt = the (IScroll_new opt (\<lambda>ev s. s) (Fin 0) sizes (Fin 0) (Fin 0) [])"

lemma made_scroll_some: "o_snap opt = NoSnap \<Longrightarrow> IScroll_new opt (\<lambda>ev s. s) (Fin 0) sizes (Fin 0) (Fin 0) [] = Some (made_scroll opt)"
  by (simp add: made_scroll_def IScroll_new_def refresh_def snap_refresh_def)

lemma smooth_default: "smooth (default_options plain_math)" "smooth still"
  by (simp_all add: smooth_def still_def default_options_def ease_named_def ease_quadratic_def ease_circular_def js_def)

lemma watches_nothing: "watches (\<lambda>ev s. s)"
  by (simp add: watches_def)

lemma made_values:
  "sc_enabled (made_scroll still)" "sc_maxX (made_scroll still) = 0" "sc_maxY (made_scroll still) = - 500"
  "sc_x (made_scroll still) = Fin 0" "sc_y (made_scroll still) = Fin 0" "sc_scrollerWidth (made_scroll still) = 300" "sc_scrollerHeight (made_scroll still) = 700"
  "sc_wrapperWidth (made_scroll still) = 300" "sc_wrapperHeight (made_scroll still) = 200"
  "cp_pageX (sc_currentPage (made_scroll still)) = None" "cp_pageY (sc_currentPage (made_scroll still)) = None"
  by code_simp+

text \<open>A turn of the wheel, and the start of a gesture, at the place shown.\<close>

definition turned :: scroll where
  "turned = the (handleEvent still (\<lambda>ev s. s) (Wheel (Fin 5) (Delta 0 (Fin 0) (Fin 30))) (made_scroll still))"

theorem no_bounce_inside_witness:
  "inside_scroll turned \<and> sc_y turned = Fin (- 30) \<and> shown_inside turned (Fin 0, Fin (- 20)) \<and> sc_frames turned = [] \<and>
   (\<exists>s'. handleEvent still (\<lambda>ev s. s) (KeyDown (Fin 9) 34 (Fin 0, Fin (- 20))) turned = Some s')"
proof -
  have m: "scroll_run still (\<lambda>ev s. s) (made_scroll still) (Fin 0, Fin 0)"
    using scroll_run.made [OF made_scroll_some [of still]] smooth_default(2) by (simp add: smooth_def made_values inb_0)
  have h: "handleEvent still (\<lambda>ev s. s) (Wheel (Fin 5) (Delta 0 (Fin 0) (Fin 30))) (made_scroll still) = Some turned"
    using handleEvent_some [of still "\<lambda>ev s. s" "Wheel (Fin 5) (Delta 0 (Fin 0) (Fin 30))" "made_scroll still"] smooth_default(2)
    by (auto simp: turned_def smooth_def)
  have y: "sc_y turned = Fin (- 30)" "sc_x turned = Fin 0" by code_simp+
  have "scroll_run still (\<lambda>ev s. s) turned (Fin 0, Fin 0)" using scroll_run.event [OF m _ h] by simp
  then have "scroll_run still (\<lambda>ev s. s) turned (Fin 0, Fin (- 20))"
    by (rule scroll_run.time) (simp_all add: y between_def)
  moreover have "\<not> o_bounce still" by (simp add: still_def)
  ultimately show ?thesis using no_bounce_inside [OF _ smooth_default(2) _ watches_nothing] y by blast
qed

theorem jumps_land_inside_witness:
  "(\<exists>t. wheel (default_options plain_math) (\<lambda>ev s. s) (Fin 5) (WheelDelta (Fin 120)) ((made_scroll still)\<lparr>sc_y := Fin 40\<rparr>) = Some t \<and>
      inb 0 (sc_x t) \<and> inb (- 500) (sc_y t)) \<and>
   (\<exists>t. key (default_options plain_math) (Fin 5) 36 (Fin 0, Fin 40) ((made_scroll still)\<lparr>sc_y := Fin 40\<rparr>) = Some t \<and> inb (- 500) (sc_y t)) \<and>
   headed_inside ((made_scroll still)\<lparr>sc_y := Fin 40\<rparr>)
     (scrollToElement (default_options plain_math) (Fin 5) (0, - 900) (10, 10) (300, 200) None (Some (Fin 7)) (Some NaN) (Some ease_bounce)
       ((made_scroll still)\<lparr>sc_y := Fin 40\<rparr>))"
proof -
  have b: "36 \<in> set (bound_keys (default_options plain_math))" "o_snap (default_options plain_math) = NoSnap"
    "finite_num (o_mouseWheelSpeed (default_options plain_math))"
    by (simp_all add: bound_keys_def default_options_def default_keys_def)
  show ?thesis
    using jumps_land_inside [of "(made_scroll still)\<lparr>sc_y := Fin 40\<rparr>" "default_options plain_math" "\<lambda>ev s. s" "Fin 5" "WheelDelta (Fin 120)"
        36 "(Fin 0, Fin 40)" "(0, - 900)" "(10, 10)" "(300, 200)" None "Some (Fin 7)" "Some NaN" "Some ease_bounce"] b watches_nothing
    by (simp add: made_values) blast
qed

definition gridded :: "int \<Rightarrow> scroll_options" where
  "gridded step = (default_options plain_math)\<lparr>o_snap := SnapGrid, o_snapStepX := step\<rparr>"

theorem snap_grid_ends_witness:
  "(\<exists>pages. grid_pages (gridded 100) (made_scroll still) = Some pages) \<and> \<not> (\<exists>pages. grid_pages (gridded (- 100)) (made_scroll still) = Some pages)"
  using snap_grid_ends [of "made_scroll still" "gridded 100"] snap_grid_ends [of "made_scroll still" "gridded (- 100)"]
  by (simp add: made_values step_across_def step_down_def gridded_def default_options_def)

theorem snap_refresh_lands_witness:
  "\<exists>t. snap_refresh (gridded 100) (Fin 0) (made_scroll still) = Some t \<and> length (sc_pages t) = 3 \<and>
    list_all (\<lambda>col. length col = 4) (sc_pages t) \<and> sc_x t = Fin 0 \<and> sc_y t = Fin 0 \<and> cp_pageX (sc_currentPage t) = Some 0"
proof -
  have g: "o_snap (gridded 100) = SnapGrid" "step_across (gridded 100) (made_scroll still) = 100" "step_down (gridded 100) (made_scroll still) = 200"
    by (simp_all add: made_values step_across_def step_down_def gridded_def default_options_def)
  show ?thesis using snap_refresh_lands [of "gridded 100" "made_scroll still" "Fin 0"]
    by (auto simp: g made_values pages_needed_def grid_page_def)
qed

end
