(* ===== verification/Footable.thy ===== *)
theory Footable
  imports JsVal
begin

text \<open>
  \<^verbatim>\<open>src/src/qt/res/assets/plugins/footable/footable.js\<close>: the core of the responsive tables. The state is the part of the
  document that the script reads and writes, a record per table: header cells, body rows with their cells, classes and
  display, the data it keeps on the table element, and the \<^verbatim>\<open>Footable\<close> object beside them. Rows are named by a number,
  which stands for the identity of the element. A handler returns the new state, marked when an exception left it.
  Handlers that a page binds to the events of the script are not part of it; where their answer matters to the code it is
  an argument.
\<close>

section \<open>Numbers as text\<close>

fun nat_text :: "nat \<Rightarrow> jsstr" where
  "nat_text n = (if n < 10 then [48 + n] else nat_text (n div 10) @ [48 + n mod 10])"

declare nat_text.simps [simp del]

section \<open>The document\<close>

text \<open>The contents of a cell: text, the toggle marker of the script, or an element that may hold an input field.\<close>

datatype node = Text jsstr | ToggleSpan | Element jsstr bool

fun node_text :: "node \<Rightarrow> jsstr" where
  "node_text (Text s) = s"
| "node_text ToggleSpan = []"
| "node_text (Element s _) = s"

fun node_input :: "node \<Rightarrow> bool" where
  "node_input (Element _ i) = i"
| "node_input _ = False"

text \<open>
  A cell: its tag, its contents, what \<^verbatim>\<open>data('value')\<close> reads from its attribute with the attribute's text, and the
  attribute, display and classes that the script sets.
\<close>

record cell =
  c_th :: bool
  c_nodes :: "node list"
  c_value :: "jsval option"
  c_value_text :: jsstr
  c_bind :: "jsstr option"
  c_shown :: bool
  c_visible :: bool
  c_first :: bool
  c_last :: bool
  c_classes :: "jsstr list"

definition cell_text :: "cell \<Rightarrow> jsstr" where
  "cell_text c = concat (map node_text (c_nodes c))"

text \<open>What a detail row shows: headings of groups, and names with the value and its binding.\<close>

datatype ditem = DGroup jsstr | DRow jsstr "jsstr option" "node list"

record row =
  r_id :: nat
  r_detail :: bool
  r_show :: bool
  r_filtered :: bool
  r_disabled :: bool
  r_shown :: bool
  r_created :: bool
  r_cells :: "cell list"
  r_span :: nat
  r_items :: "ditem list"

text \<open>A cell of the last header row with the attributes that the scripts read, and a cell of the row of groups above it.\<close>

record th =
  h_td :: bool
  h_hide :: "jsstr option"
  h_type :: "jsstr option"
  h_name :: "jsstr option"
  h_text :: jsstr
  h_ignore :: bool
  h_toggle :: bool
  h_class :: "jsstr option"
  h_group :: "jsstr option"
  h_editable :: "bool option"
  h_colspan :: nat
  h_names :: "jsstr option"
  h_sort_initial :: "jsstr option"
  h_sort_ignore :: bool
  h_sort_match :: nat
  h_sortable :: bool
  h_sorted :: bool
  h_desc :: bool
  h_shown :: bool
  h_visible :: bool
  h_first :: bool
  h_last :: bool

record gcell =
  g_group :: "jsstr option"
  g_cell :: cell
  g_span :: nat

record column =
  co_index :: nat
  co_hide :: "(jsstr \<times> bool) list"
  co_type :: jsstr
  co_name :: jsstr
  co_ignore :: bool
  co_toggle :: bool
  co_className :: "jsstr option"
  co_matches :: "nat list"
  co_names :: "(nat \<times> jsstr) list"
  co_group :: "jsstr option"
  co_groupName :: "jsstr option"
  co_isEditable :: "bool option"
  co_hasBreakpoint :: bool
  co_sort_initial :: "jsstr option"
  co_sort_ignore :: bool
  co_sort_match :: nat

record winfo =
  w_width :: int
  w_viewport :: int
  w_parent :: int

text \<open>The options, merged from the defaults and the call, that the modelled code reads. Labels of buttons are left out.\<close>

record options =
  opt_breakpoints :: "(jsstr \<times> int) list"
  opt_addRowToggle :: bool
  opt_override :: "(winfo \<Rightarrow> winfo) option"
  opt_separator :: jsstr
  opt_sort :: bool
  opt_filter :: bool
  opt_minimum :: nat
  opt_paginate :: bool
  opt_pageSize :: int
  opt_limit :: int

text \<open>The page buttons: what a button leads to, and its display and classes.\<close>

datatype target = ToFirst | ToPrev | LimitPrev | ToPage int | LimitNext | LimitLast | ToNext | ToLast

record button =
  b_target :: target
  b_hidden :: bool
  b_active :: bool
  b_disabled :: bool
  b_none :: bool

record pageInfo =
  i_pageSize :: int
  i_limitNavigation :: int
  i_currentPage :: int
  i_pages :: "nat list list"
  i_control :: bool
  i_manual :: bool

text \<open>
  The state. The attributes of the table element come first (\<^verbatim>\<open>data-page-size\<close> and so on, zero when absent; the flags ending
  in \<open>off\<close> are attributes with the value \<^verbatim>\<open>false\<close>), then what the scripts keep on it, the rows, and the \<^verbatim>\<open>Footable\<close> object.
  \<open>t_nav\<close> is the list element of the page buttons, if the page has one that belongs to the table; \<open>t_now\<close> is the text of
  \<^verbatim>\<open>$.now()\<close>.
\<close>

record footable =
  a_sort_off :: bool
  a_page_off :: bool
  a_filter_off :: bool
  a_pageSize :: int
  a_limit :: int
  a_manual :: bool
  a_minimum :: nat
  a_text_only :: bool
  a_group_row :: bool
  t_visible :: bool
  t_loading :: bool
  t_loaded :: bool
  t_main :: bool
  t_breakpoint_class :: bool
  t_size_class :: "jsstr option"
  t_no_paging :: bool
  d_breakpoint :: "jsstr option"
  d_info :: "winfo option"
  d_sorted :: "nat option"
  d_filter_string :: "jsstr option"
  d_current_filter :: jsstr
  d_currentPage :: int
  t_headers :: "th list"
  t_groups :: "gcell list option"
  t_rows :: "row list"
  t_foot :: "row list"
  t_colgroups :: "bool list list"
  t_toggle_bound :: "nat list"
  t_next_id :: nat
  t_now :: jsstr
  t_nav :: "button list option"
  ft_options :: options
  ft_columns :: "column list"
  ft_breakpoints :: "(jsstr \<times> int) list"
  ft_pageInfo :: pageInfo

section \<open>Outcomes\<close>

datatype outcome = Done footable | Thrown footable

fun and_then :: "outcome \<Rightarrow> (footable \<Rightarrow> outcome) \<Rightarrow> outcome" where
  "and_then (Done t) f = f t"
| "and_then (Thrown t) f = Thrown t"

fun each :: "('a \<Rightarrow> footable \<Rightarrow> outcome) \<Rightarrow> 'a list \<Rightarrow> footable \<Rightarrow> outcome" where
  "each f [] t = Done t"
| "each f (x # xs) t = and_then (f x t) (each f xs)"

fun state_of :: "outcome \<Rightarrow> footable" where
  "state_of (Done t) = t"
| "state_of (Thrown t) = t"

lemma and_then_Done [simp]: "and_then x Done = x"
  by (cases x) auto

lemma and_then_assoc: "and_then (and_then x f) g = and_then x (\<lambda>t. and_then (f t) g)"
  by (cases x) auto

lemma each_append: "each f (xs @ ys) t = and_then (each f xs t) (each f ys)"
proof (induction xs arbitrary: t)
  case (Cons x xs)
  then show ?case by (cases "f x t") auto
qed simp

section \<open>Rows by their identity\<close>

definition get_row :: "nat \<Rightarrow> footable \<Rightarrow> row option" where
  "get_row i t = find (\<lambda>r. r_id r = i) (t_rows t)"

definition upd_row :: "nat \<Rightarrow> (row \<Rightarrow> row) \<Rightarrow> footable \<Rightarrow> footable" where
  "upd_row i f t = t\<lparr>t_rows := map (\<lambda>r. if r_id r = i then f r else r) (t_rows t)\<rparr>"

fun next_in :: "nat \<Rightarrow> row list \<Rightarrow> row option" where
  "next_in i [] = None"
| "next_in i [r] = None"
| "next_in i (r # q # rs) = (if r_id r = i then Some q else next_in i (q # rs))"

fun prev_in :: "nat \<Rightarrow> row list \<Rightarrow> row option" where
  "prev_in i [] = None"
| "prev_in i [r] = None"
| "prev_in i (r # q # rs) = (if r_id q = i then Some r else prev_in i (q # rs))"

definition next_row :: "nat \<Rightarrow> footable \<Rightarrow> row option" where
  "next_row i t = next_in i (t_rows t)"

definition main_rows :: "footable \<Rightarrow> row list" where
  "main_rows t = filter (\<lambda>r. \<not> r_detail r) (t_rows t)"

definition row_visible :: "footable \<Rightarrow> row \<Rightarrow> bool" where
  "row_visible t r \<longleftrightarrow> t_visible t \<and> r_shown r"

definition row_cell :: "nat \<Rightarrow> nat \<Rightarrow> footable \<Rightarrow> cell option" where
  "row_cell i k t = (case get_row i t of None \<Rightarrow> None | Some r \<Rightarrow> if k < length (r_cells r) then Some (r_cells r ! k) else None)"

definition upd_cell :: "nat \<Rightarrow> nat \<Rightarrow> (cell \<Rightarrow> cell) \<Rightarrow> footable \<Rightarrow> footable" where
  "upd_cell i k f t =
     upd_row i (\<lambda>r. if k < length (r_cells r) then r\<lparr>r_cells := (r_cells r)[k := f (r_cells r ! k)]\<rparr> else r) t"

fun insert_after :: "nat \<Rightarrow> row \<Rightarrow> row list \<Rightarrow> row list" where
  "insert_after i x [] = []"
| "insert_after i x (r # rs) = (if r_id r = i then r # x # rs else r # insert_after i x rs)"

section \<open>Parsers\<close>

text \<open>\<^verbatim>\<open>data('value') || other\<close>.\<close>

definition or_value :: "jsval option \<Rightarrow> jsval \<Rightarrow> jsval" where
  "or_value v w = (case v of Some x \<Rightarrow> if truthy x then x else w | None \<Rightarrow> w)"

definition parse_alpha :: "cell \<Rightarrow> jsval" where
  "parse_alpha c = or_value (c_value c) (VStr (js_trim (cell_text c)))"

fun value_float :: "jsval \<Rightarrow> jsnum" where
  "value_float (VStr s) = parseFloat s"
| "value_float (VNum n) = n"

definition parse_numeric :: "cell \<Rightarrow> jsval" where
  "parse_numeric c =
     (let val = or_value (c_value c) (VStr (filter (\<lambda>u. is_digit u \<or> u = 46 \<or> u = 45) (cell_text c)));
          n = value_float val
      in VNum (if n = NaN then Fin 0 else n))"

definition parse_cell :: "cell \<Rightarrow> column \<Rightarrow> jsval" where
  "parse_cell c col = (if co_type col = js ''numeric'' then parse_numeric c else parse_alpha c)"

section \<open>The detail of a row\<close>

text \<open>An entry of the array from which a detail row is built.\<close>

record dvalue =
  dv_name :: jsstr
  dv_value :: jsval
  dv_display :: "node list"
  dv_group :: "jsstr option"
  dv_groupName :: "jsstr option"
  dv_bind :: "jsstr option"

text \<open>The names that every object inherits: \<^verbatim>\<open>in\<close> finds them, but what they name has no array \<^verbatim>\<open>data\<close>.\<close>

definition inherited :: "jsstr list" where
  "inherited = map js [''constructor'', ''hasOwnProperty'', ''isPrototypeOf'', ''propertyIsEnumerable'', ''toLocaleString'',
     ''toString'', ''valueOf'', ''__proto__'', ''__defineGetter__'', ''__defineSetter__'', ''__lookupGetter__'', ''__lookupSetter__'']"

type_synonym groups = "(jsstr \<times> jsstr option \<times> dvalue list) list"

definition none_key :: jsstr where
  "none_key = js ''_none''"

definition push_group :: "jsstr \<Rightarrow> dvalue \<Rightarrow> groups \<Rightarrow> groups" where
  "push_group g d gs = map (\<lambda>(k, n, ds). if k = g then (k, n, ds @ [d]) else (k, n, ds)) gs"

text \<open>\<open>None\<close> is the exception of \<^verbatim>\<open>groups[groupid].data.push\<close> on an inherited name.\<close>

definition group_step :: "dvalue \<Rightarrow> groups \<Rightarrow> groups option" where
  "group_step d gs =
     (case dv_group d of
        Some g \<Rightarrow>
          if g \<in> set (map fst gs) then Some (push_group g d gs)
          else if g \<in> set inherited then None
          else Some (push_group g d (gs @ [(g, Some (case dv_groupName d of Some n \<Rightarrow> if n = [] then g else n | None \<Rightarrow> g), [])]))
      | None \<Rightarrow> Some (push_group none_key d gs))"

fun group_all :: "dvalue list \<Rightarrow> groups \<Rightarrow> groups option" where
  "group_all [] gs = Some gs"
| "group_all (d # ds) gs = (case group_step d gs of None \<Rightarrow> None | Some gs' \<Rightarrow> group_all ds gs')"

definition createGroupedDetail :: "dvalue list \<Rightarrow> groups option" where
  "createGroupedDetail data = group_all data [(none_key, None, [])]"

text \<open>The order in which \<^verbatim>\<open>for ... in\<close> visits an object: array indices by value, then the other names as they were added.\<close>

definition array_index :: "jsstr \<Rightarrow> bool" where
  "array_index k \<longleftrightarrow> k \<noteq> [] \<and> list_all is_digit k \<and> (hd k = 48 \<longrightarrow> k = [48]) \<and> dec_val k < 4294967295"

definition for_in :: "(jsstr \<times> 'v) list \<Rightarrow> (jsstr \<times> 'v) list" where
  "for_in obj = sort_key (\<lambda>(k, _). dec_val k) (filter (\<lambda>(k, _). array_index k) obj) @ filter (\<lambda>(k, _). \<not> array_index k) obj"

definition detail_row :: "jsstr \<Rightarrow> dvalue \<Rightarrow> ditem" where
  "detail_row sep d = DRow (dv_name d @ (if dv_name d \<noteq> [] then sep else [])) (dv_bind d) (dv_display d)"

definition detail_group :: "jsstr \<Rightarrow> jsstr \<times> jsstr option \<times> dvalue list \<Rightarrow> ditem list" where
  "detail_group sep g =
     (case g of (k, n, ds) \<Rightarrow>
        if ds = [] then []
        else (if k \<noteq> none_key then [DGroup (case n of Some s \<Rightarrow> s | None \<Rightarrow> js ''null'')] else []) @ map (detail_row sep) ds)"

definition createDetail :: "dvalue list \<Rightarrow> jsstr \<Rightarrow> ditem list option" where
  "createDetail data sep =
     (case createGroupedDetail data of None \<Rightarrow> None | Some gs \<Rightarrow> Some (concat (map (detail_group sep) (for_in gs))))"

definition getColumnFromTdIndex :: "footable \<Rightarrow> nat \<Rightarrow> column option" where
  "getColumnFromTdIndex t k = find (\<lambda>c. k \<in> set (co_matches c)) (ft_columns t)"

text \<open>The values bound to a name, in every detail row: what they hold, and the state after it is taken out.\<close>

fun bound_nodes :: "jsstr \<Rightarrow> ditem \<Rightarrow> node list" where
  "bound_nodes b (DRow _ (Some b') ns) = (if b' = b then ns else [])"
| "bound_nodes b _ = []"

fun put_bound :: "jsstr \<Rightarrow> node list \<Rightarrow> ditem \<Rightarrow> ditem" where
  "put_bound b ns (DRow l (Some b') ns') = DRow l (Some b') (if b' = b then ns else ns')"
| "put_bound b ns x = x"

definition bind_values :: "jsstr \<Rightarrow> footable \<Rightarrow> node list list" where
  "bind_values b t =
     concat (map (\<lambda>r. map (bound_nodes b) (filter (\<lambda>x. case x of DRow _ b' _ \<Rightarrow> b' = Some b | _ \<Rightarrow> False) (r_items r))) (t_rows t))"

definition set_bind_values :: "jsstr \<Rightarrow> node list \<Rightarrow> footable \<Rightarrow> footable" where
  "set_bind_values b ns t = t\<lparr>t_rows := map (\<lambda>r. r\<lparr>r_items := map (put_bound b ns) (r_items r)\<rparr>) (t_rows t)\<rparr>"

text \<open>The body of the loop over the hidden cells. \<open>Inl\<close> is the exception when no column covers the cell.\<close>

definition detail_cell :: "nat \<Rightarrow> nat \<Rightarrow> dvalue list \<Rightarrow> footable \<Rightarrow> footable + dvalue list \<times> footable" where
  "detail_cell i k vs t =
     (case getColumnFromTdIndex t k of
        None \<Rightarrow> Inl t
      | Some col \<Rightarrow>
          if co_ignore col then Inr (vs, t)
          else
            case row_cell i k t of
              None \<Rightarrow> Inr (vs, t)
            | Some c \<Rightarrow>
                let name = (case obj_get (co_names col) k of Some n \<Rightarrow> n | None \<Rightarrow> co_name col);
                    t1 = (case c_bind c of
                            Some b \<Rightarrow>
                              if c_nodes c = []
                              then upd_cell i k (\<lambda>c. c\<lparr>c_nodes := concat (bind_values b t)\<rparr>) (set_bind_values b [] t)
                              else t
                          | None \<Rightarrow> t);
                    c1 = (case row_cell i k t1 of Some x \<Rightarrow> x | None \<Rightarrow> c);
                    editable = (co_isEditable col \<noteq> Some False \<and>
                                (co_isEditable col = Some True \<or> list_ex node_input (c_nodes c1)));
                    bindName = (if editable \<and> c_bind c1 = None
                                then Some (js ''bind-'' @ t_now t @ js ''-'' @ nat_text k) else c_bind c1);
                    display = c_nodes c1;
                    c2 = (if editable then c1\<lparr>c_bind := bindName, c_nodes := []\<rparr> else c1)
                in Inr (vs @ [\<lparr>dv_name = name, dv_value = parse_cell c2 col, dv_display = display, dv_group = co_group col,
                               dv_groupName = co_groupName col, dv_bind = bindName\<rparr>],
                        upd_cell i k (\<lambda>_. c2) t1))"

fun detail_cells :: "nat \<Rightarrow> nat list \<Rightarrow> dvalue list \<Rightarrow> footable \<Rightarrow> footable + dvalue list \<times> footable" where
  "detail_cells i [] vs t = Inr (vs, t)"
| "detail_cells i (k # ks) vs t =
     (case detail_cell i k vs t of Inl t' \<Rightarrow> Inl t' | Inr (vs', t') \<Rightarrow> detail_cells i ks vs' t')"

definition hidden_cells :: "row \<Rightarrow> nat list" where
  "hidden_cells r = filter (\<lambda>k. \<not> c_th (r_cells r ! k) \<and> \<not> c_shown (r_cells r ! k)) [0 ..< length (r_cells r)]"

definition shown_cells :: "row \<Rightarrow> nat" where
  "shown_cells r = length (filter (\<lambda>c. \<not> c_th c \<and> c_shown c) (r_cells r))"

definition new_detail :: "nat \<Rightarrow> row" where
  "new_detail i = \<lparr>r_id = i, r_detail = True, r_show = False, r_filtered = False, r_disabled = False, r_shown = True,
     r_created = False, r_cells = [], r_span = 0, r_items = []\<rparr>"

definition createOrUpdateDetailRow :: "nat \<Rightarrow> footable \<Rightarrow> outcome" where
  "createOrUpdateDetailRow i t =
     (case get_row i t of
        None \<Rightarrow> Done t
      | Some r \<Rightarrow>
          if r_created r then Done t
          else if \<not> row_visible t r then Done t
          else
            case detail_cells i (hidden_cells r) [] t of
              Inl t' \<Rightarrow> Thrown t'
            | Inr (values, t1) \<Rightarrow>
                if values = [] then Done t1
                else
                  let colspan = shown_cells r;
                      exists = (case next_row i t1 of Some q \<Rightarrow> r_detail q | None \<Rightarrow> False);
                      t2 = (if exists then t1
                            else t1\<lparr>t_rows := insert_after i (new_detail (t_next_id t1)) (t_rows t1), t_next_id := Suc (t_next_id t1)\<rparr>);
                      d = (case next_row i t2 of Some q \<Rightarrow> r_id q | None \<Rightarrow> 0);
                      t3 = upd_row d (\<lambda>q. q\<lparr>r_span := colspan, r_items := []\<rparr>) t2
                  in case createDetail values (opt_separator (ft_options t)) of
                       None \<Rightarrow> Thrown t3
                     | Some items \<Rightarrow> Done (upd_row i (\<lambda>q. q\<lparr>r_created := True\<rparr>) (upd_row d (\<lambda>q. q\<lparr>r_items := items\<rparr>) t3)))"

section \<open>Opening and closing rows\<close>

definition set_shown :: "bool \<Rightarrow> row \<Rightarrow> row" where
  "set_shown b r = r\<lparr>r_shown := b\<rparr>"

definition show_next :: "nat \<Rightarrow> footable \<Rightarrow> footable" where
  "show_next i t = (case next_row i t of Some q \<Rightarrow> upd_row (r_id q) (set_shown True) t | None \<Rightarrow> t)"

definition toggleDetail :: "nat \<Rightarrow> footable \<Rightarrow> outcome" where
  "toggleDetail i t =
     (case get_row i t of
        None \<Rightarrow> Done t
      | Some r \<Rightarrow>
          if r_show r then
            let t1 = upd_row i (\<lambda>r. r\<lparr>r_show := False\<rparr>) t in
            Done (case next_row i t of
                    Some q \<Rightarrow> if r_detail q then upd_row (r_id q) (set_shown False) t1 else t1
                  | None \<Rightarrow> t1)
          else
            and_then (createOrUpdateDetailRow i t)
              (\<lambda>t1. Done (show_next i (upd_row i (\<lambda>r. r\<lparr>r_show := True\<rparr>) t1))))"

text \<open>The handlers bound to the rows: the trigger \<^verbatim>\<open>footable_toggle_row\<close> and the click on a cell.\<close>

definition trigger_toggleRow :: "nat \<Rightarrow> footable \<Rightarrow> outcome" where
  "trigger_toggleRow i t = (if i \<in> set (t_toggle_bound t) then toggleDetail i t else Done t)"

definition row_click :: "nat \<Rightarrow> footable \<Rightarrow> outcome" where
  "row_click i t = (if i \<in> set (t_toggle_bound t) \<and> t_breakpoint_class t then trigger_toggleRow i t else Done t)"

definition hasAnyBreakpointColumn :: "footable \<Rightarrow> bool" where
  "hasAnyBreakpointColumn t = list_ex co_hasBreakpoint (ft_columns t)"

definition hasBreakpointColumn :: "jsstr option \<Rightarrow> footable \<Rightarrow> bool" where
  "hasBreakpointColumn b t =
     list_ex (\<lambda>c. (case b of Some n \<Rightarrow> obj_get (co_hide c) n = Some True | None \<Rightarrow> False) \<and> \<not> co_ignore c) (ft_columns t)"

definition bindToggleSelectors :: "footable \<Rightarrow> footable" where
  "bindToggleSelectors t =
     (if \<not> hasAnyBreakpointColumn t then t
      else let ids = map r_id (main_rows t) in
           t\<lparr>t_toggle_bound := filter (\<lambda>i. i \<notin> set ids) (t_toggle_bound t) @ ids\<rparr>)"

definition expandFirstRow :: "footable \<Rightarrow> outcome" where
  "expandFirstRow t = each trigger_toggleRow (map r_id (filter (\<lambda>r. \<not> r_show r) (take 1 (main_rows t)))) t"

definition expandAll :: "footable \<Rightarrow> outcome" where
  "expandAll t = each trigger_toggleRow (map r_id (filter (\<lambda>r. \<not> r_show r) (main_rows t))) t"

definition collapseAll :: "footable \<Rightarrow> outcome" where
  "collapseAll t = each trigger_toggleRow (map r_id (filter r_show (t_rows t))) t"

section \<open>Removing and resetting\<close>

definition del_row :: "nat \<Rightarrow> footable \<Rightarrow> footable" where
  "del_row i t = t\<lparr>t_rows := filter (\<lambda>r. r_id r \<noteq> i) (t_rows t)\<rparr>"

text \<open>\<open>removed\<close> are the handlers of \<^verbatim>\<open>footable_row_removed\<close>.\<close>

definition remove_target :: "nat \<Rightarrow> footable \<Rightarrow> row option" where
  "remove_target i t =
     (case get_row i t of
        Some r \<Rightarrow> if r_detail r then prev_in i (t_rows t) else Some r
      | None \<Rightarrow> None)"

definition removeRow :: "(footable \<Rightarrow> outcome) \<Rightarrow> nat \<Rightarrow> footable \<Rightarrow> outcome" where
  "removeRow removed i t =
     (case remove_target i t of
        None \<Rightarrow> removed t
      | Some r \<Rightarrow>
          let t1 = (case next_row (r_id r) t of
                      Some q \<Rightarrow> if r_created r then del_row (r_id q) t else t
                    | None \<Rightarrow> t)
          in removed (del_row (r_id r) t1))"

definition reset :: "footable \<Rightarrow> footable" where
  "reset t =
     t\<lparr>d_info := None, d_breakpoint := Some [], t_loading := False, t_loaded := False,
       t_toggle_bound := filter (\<lambda>i. i \<notin> r_id ` set (main_rows t)) (t_toggle_bound t),
       t_rows := filter (\<lambda>r. \<not> r_detail r) (map (\<lambda>r. r\<lparr>r_show := False\<rparr>) (t_rows t))\<rparr>"

section \<open>Columns\<close>

definition split_hide :: "jsstr option \<Rightarrow> jsstr list" where
  "split_hide h = map js_trim (split_on 44 (case h of Some s \<Rightarrow> s | None \<Rightarrow> []))"

definition hides :: "jsstr option \<Rightarrow> jsstr \<Rightarrow> bool" where
  "hides h n \<longleftrightarrow> h = Some (js ''all'') \<or> n \<in> set (split_hide h)"

definition group_name :: "footable \<Rightarrow> jsstr \<Rightarrow> jsstr" where
  "group_name t g =
     (case find (\<lambda>c. g_group c = Some g) (case t_groups t of Some gs \<Rightarrow> gs | None \<Rightarrow> []) of
        Some gc \<Rightarrow> (case c_value (g_cell gc) of
                      Some v \<Rightarrow> if truthy v then c_value_text (g_cell gc) else js_trim (cell_text (g_cell gc))
                    | None \<Rightarrow> js_trim (cell_text (g_cell gc)))
      | None \<Rightarrow> [])"

definition nonempty :: "jsstr option \<Rightarrow> jsstr option" where
  "nonempty s = (if s = Some [] then None else s)"

text \<open>
  The column of a header cell. \<open>off\<close> is \<^verbatim>\<open>indexOffset\<close> with the share of the cell before already added; \<open>colData\<close> are the
  handlers of \<^verbatim>\<open>footable_column_data\<close>, which complete the column.
\<close>

definition getColumnData :: "(th \<Rightarrow> column \<Rightarrow> column) \<Rightarrow> footable \<Rightarrow> nat \<Rightarrow> nat \<Rightarrow> th \<Rightarrow> column" where
  "getColumnData colData t off index h =
     (let curindex = index + off;
          names = split_on 44 (case h_names h of Some s \<Rightarrow> s | None \<Rightarrow> []);
          wide = 1 < h_colspan h;
          hide = (js ''default'', hides (h_hide h) (js ''default'')) #
                 map (\<lambda>(n, w). (n, hides (h_hide h) n)) (for_in (opt_breakpoints (ft_options t)))
      in colData h
           \<lparr>co_index = index, co_hide = hide,
            co_type = (case nonempty (h_type h) of Some s \<Rightarrow> s | None \<Rightarrow> js ''alpha''),
            co_name = (case nonempty (h_name h) of Some s \<Rightarrow> s | None \<Rightarrow> js_trim (h_text h)),
            co_ignore = h_ignore h, co_toggle = h_toggle h, co_className = nonempty (h_class h),
            co_matches = (if wide then map (\<lambda>i. i + curindex) [0 ..< h_colspan h] else [curindex]),
            co_names = (if wide then map (\<lambda>i. (i + curindex, names ! i)) [0 ..< min (h_colspan h) (length names)] else []),
            co_group = nonempty (h_group h),
            co_groupName = (case nonempty (h_group h) of Some g \<Rightarrow> Some (group_name t g) | None \<Rightarrow> None),
            co_isEditable = h_editable h,
            co_hasBreakpoint = list_ex (\<lambda>(n, w). hides (h_hide h) n) (opt_breakpoints (ft_options t)),
            co_sort_initial = None, co_sort_ignore = False, co_sort_match = 0\<rparr>)"

text \<open>The loop over the header cells: the offset grows by what the cell before spans beyond one.\<close>

fun read_columns :: "(th \<Rightarrow> column \<Rightarrow> column) \<Rightarrow> footable \<Rightarrow> nat \<Rightarrow> nat \<Rightarrow> nat \<Rightarrow> th list \<Rightarrow> column list" where
  "read_columns colData t off pcolspan index [] = []"
| "read_columns colData t off pcolspan index (h # hs) =
     (let off' = off + (if 1 < pcolspan then pcolspan - 1 else 0) in
      getColumnData colData t off' index h # read_columns colData t off' (h_colspan h) (Suc index) hs)"

section \<open>Widths and breakpoints\<close>

definition calculateWidth :: "options \<Rightarrow> winfo \<Rightarrow> winfo" where
  "calculateWidth opt info =
     (case opt_override opt of
        Some f \<Rightarrow> f info
      | None \<Rightarrow>
          let info1 = (if w_viewport info < w_width info then info\<lparr>w_width := w_viewport info\<rparr> else info)
          in if w_parent info1 < w_width info1 then info1\<lparr>w_width := w_parent info1\<rparr> else info1)"

definition find_breakpoint :: "(jsstr \<times> int) list \<Rightarrow> int \<Rightarrow> (jsstr \<times> int) option" where
  "find_breakpoint bps w = find (\<lambda>(n, bw). bw \<noteq> 0 \<and> w \<le> bw) bps"

definition breakpoint_name :: "(jsstr \<times> int) list \<Rightarrow> int \<Rightarrow> jsstr" where
  "breakpoint_name bps w = (case find_breakpoint bps w of Some (n, _) \<Rightarrow> n | None \<Rightarrow> js ''default'')"

text \<open>\<open>measured\<close> are the widths of the table, the viewport and the parent; \<open>redraw\<close> is the bound handler of \<^verbatim>\<open>footable_redraw\<close>.\<close>

definition resize :: "(footable \<Rightarrow> outcome) \<Rightarrow> winfo \<Rightarrow> footable \<Rightarrow> outcome" where
  "resize redraw measured t =
     (if \<not> t_visible t then Done t
      else if \<not> hasAnyBreakpointColumn t then redraw t
      else
        let info = calculateWidth (ft_options t) measured;
            pinfo = d_info t;
            t1 = t\<lparr>d_info := Some info\<rparr>
        in if (case pinfo of None \<Rightarrow> True | Some p \<Rightarrow> w_width p \<noteq> 0 \<and> w_width p \<noteq> w_width info)
           then
             let name = breakpoint_name (ft_breakpoints t) (w_width info);
                 fired = hasBreakpointColumn (Some name) t;
                 previous = d_breakpoint t;
                 t2 = t1\<lparr>d_breakpoint := Some name, t_size_class := Some name, t_breakpoint_class := fired\<rparr>
             in if Some name \<noteq> previous then redraw t2 else Done t2
           else Done t1)"

section \<open>Redrawing\<close>

definition map_cells :: "(row \<Rightarrow> bool) \<Rightarrow> (nat \<Rightarrow> cell \<Rightarrow> cell) \<Rightarrow> row list \<Rightarrow> row list" where
  "map_cells P f rs = map (\<lambda>r. if P r then r\<lparr>r_cells := map2 f [0 ..< length (r_cells r)] (r_cells r)\<rparr> else r) rs"

definition drop_toggles :: "node list \<Rightarrow> node list" where
  "drop_toggles ns = filter (\<lambda>n. n \<noteq> ToggleSpan) ns"

fun drop_item_toggles :: "ditem \<Rightarrow> ditem" where
  "drop_item_toggles (DRow l b ns) = DRow l b (drop_toggles ns)"
| "drop_item_toggles (DGroup s) = DGroup s"

definition remove_toggles :: "row \<Rightarrow> row" where
  "remove_toggles r = r\<lparr>r_cells := map (\<lambda>c. c\<lparr>c_nodes := drop_toggles (c_nodes c)\<rparr>) (r_cells r), r_items := map drop_item_toggles (r_items r)\<rparr>"

text \<open>
  Without a toggle column the marker goes into the first cell of the row. The selector that is added there for header cells
  starts at the document and finds nothing, so only a \<^verbatim>\<open>td\<close> gets it.
\<close>

definition addRowToggle :: "footable \<Rightarrow> footable" where
  "addRowToggle t =
     (if \<not> opt_addRowToggle (ft_options t) then t
      else
        let t1 = t\<lparr>t_rows := map remove_toggles (t_rows t), t_foot := map remove_toggles (t_foot t)\<rparr>;
            mark = (\<lambda>k ok. map_cells (\<lambda>r. \<not> r_detail r \<and> \<not> r_disabled r)
                             (\<lambda>j c. if j = k \<and> ok c then c\<lparr>c_nodes := ToggleSpan # c_nodes c\<rparr> else c) (t_rows t1))
        in case find co_toggle (ft_columns t) of
             Some col \<Rightarrow> t1\<lparr>t_rows := mark (co_index col) (\<lambda>c. True)\<rparr>
           | None \<Rightarrow> t1\<lparr>t_rows := mark 0 (\<lambda>c. \<not> c_th c)\<rparr>)"

definition setColumnClasses :: "footable \<Rightarrow> footable" where
  "setColumnClasses t =
     t\<lparr>t_rows := fold (\<lambda>col rs.
         case co_className col of
           None \<Rightarrow> rs
         | Some cl \<Rightarrow>
             map_cells (\<lambda>r. \<not> r_detail r)
               (\<lambda>j c. if j \<in> set (co_matches col) \<and> \<not> c_th c \<and> cl \<notin> set (c_classes c) then c\<lparr>c_classes := c_classes c @ [cl]\<rparr> else c) rs)
       (ft_columns t) (t_rows t)\<rparr>"

definition set_vis :: "bool \<Rightarrow> cell \<Rightarrow> cell" where
  "set_vis b c = c\<lparr>c_visible := b, c_shown := b\<rparr>"

definition vis_rows :: "bool \<Rightarrow> nat list \<Rightarrow> row list \<Rightarrow> row list" where
  "vis_rows b ms rs = map_cells (\<lambda>r. \<not> r_detail r) (\<lambda>j c. if j \<in> set ms \<and> \<not> c_th c then set_vis b c else c) rs"

text \<open>One header cell \<open>j\<close> of \<^verbatim>\<open>redraw\<close>: show or hide its column, then set the span of its group.\<close>

definition show_column :: "bool \<Rightarrow> nat \<Rightarrow> column \<Rightarrow> footable \<Rightarrow> footable" where
  "show_column b j col t =
     t\<lparr>t_rows := vis_rows b (co_matches col) (t_rows t),
       t_foot := vis_rows b (co_matches col) (t_foot t),
       t_colgroups := map (\<lambda>cs. map2 (\<lambda>k v. if k \<in> set (co_matches col) then b else v) [0 ..< length cs] cs) (t_colgroups t),
       t_groups := map_option (map (\<lambda>g. if a_group_row t \<and> c_th (g_cell g) \<and> g_group g = co_group col \<and> co_group col \<noteq> None
                                          then g\<lparr>g_cell := set_vis b (g_cell g)\<rparr> else g)) (t_groups t),
       t_headers := (t_headers t)[j := (t_headers t ! j)\<lparr>h_visible := b, h_shown := b\<rparr>]\<rparr>"

definition span_group :: "column \<Rightarrow> footable \<Rightarrow> footable" where
  "span_group col t =
     (case (t_groups t, co_group col) of
        (Some gs, Some g) \<Rightarrow>
          let groupspan = sum_list (map (\<lambda>h. if h_colspan h = 0 then 1 else h_colspan h)
                 (filter (\<lambda>h. \<not> h_td h \<and> h_group h = Some g \<and> h_shown h \<and> t_visible t) (t_headers t)))
          in t\<lparr>t_groups := Some (map (\<lambda>gc. if g_group gc = Some g
                 then (if 0 < groupspan then gc\<lparr>g_span := groupspan, g_cell := (g_cell gc)\<lparr>c_shown := True\<rparr>\<rparr>
                       else gc\<lparr>g_cell := (g_cell gc)\<lparr>c_shown := False\<rparr>\<rparr>)
                 else gc) gs)\<rparr>
      | _ \<Rightarrow> t)"

definition redraw_header :: "nat \<Rightarrow> footable \<Rightarrow> outcome" where
  "redraw_header j t =
     (if length (ft_columns t) \<le> j then Thrown t
      else let col = ft_columns t ! j;
               t1 = (if d_breakpoint t = Some [] then t
                     else show_column (case d_breakpoint t of Some n \<Rightarrow> obj_get (co_hide col) n = Some False | None \<Rightarrow> False) j col t)
           in Done (span_group col t1))"

text \<open>
  Moving an input between its cell and the detail row. A collection in which nothing was found is not \<^verbatim>\<open>:empty\<close>, and one with
  an empty element is.
\<close>

definition toggleInput :: "nat \<times> nat \<Rightarrow> footable \<Rightarrow> outcome" where
  "toggleInput ik t =
     (case (get_row (fst ik) t, row_cell (fst ik) (snd ik) t) of
        (Some r, Some c) \<Rightarrow>
          (case c_bind c of
             None \<Rightarrow> Done t
           | Some b \<Rightarrow>
               if row_visible t r \<and> c_shown c then
                 (if [] \<in> set (bind_values b t) then Done t
                  else Done (upd_cell (fst ik) (snd ik) (\<lambda>c. c\<lparr>c_nodes := concat (bind_values b t)\<rparr>) (set_bind_values b [] t)))
               else if c_nodes c \<noteq> [] then
                 Done (set_bind_values b (c_nodes c) (upd_cell (fst ik) (snd ik) (\<lambda>c. c\<lparr>c_nodes := []\<rparr>) t))
               else Done t)
      | _ \<Rightarrow> Done t)"

definition bind_cells :: "footable \<Rightarrow> (nat \<times> nat) list" where
  "bind_cells t =
     concat (map (\<lambda>r. map (Pair (r_id r)) (filter (\<lambda>k. c_bind (r_cells r ! k) \<noteq> None) [0 ..< length (r_cells r)])) (t_rows t))"

definition show_detail_of :: "bool \<Rightarrow> nat \<Rightarrow> footable \<Rightarrow> outcome" where
  "show_detail_of fired i t =
     Done (case next_row i t of
             Some q \<Rightarrow> if r_detail q then upd_row (r_id q) (set_shown fired) t else t
           | None \<Rightarrow> t)"

text \<open>The first and the last visible cell of a row, separately among its \<^verbatim>\<open>th\<close> and its \<^verbatim>\<open>td\<close>.\<close>

fun mark_first :: "('a \<Rightarrow> bool) \<Rightarrow> ('a \<Rightarrow> 'a) \<Rightarrow> 'a list \<Rightarrow> 'a list" where
  "mark_first P f [] = []"
| "mark_first P f (x # xs) = (if P x then f x # xs else x # mark_first P f xs)"

definition mark_ends :: "('a \<Rightarrow> bool) \<Rightarrow> ('a \<Rightarrow> 'a) \<Rightarrow> ('a \<Rightarrow> 'a) \<Rightarrow> 'a list \<Rightarrow> 'a list" where
  "mark_ends P f l xs = mark_first P f (rev (mark_first P l (rev xs)))"

text \<open>The classes of the last drawing are removed from the cells with one tag only, \<^verbatim>\<open>td\<close> in the body and \<^verbatim>\<open>th\<close> in the head.\<close>

definition end_classes :: "bool \<Rightarrow> cell list \<Rightarrow> cell list" where
  "end_classes body cs =
     (let cs0 = map (\<lambda>c. if c_th c = body then c else c\<lparr>c_first := False, c_last := False\<rparr>) cs;
          mark = (\<lambda>P. mark_ends P (\<lambda>c. c\<lparr>c_first := True\<rparr>) (\<lambda>c. c\<lparr>c_last := True\<rparr>))
      in mark (\<lambda>c. c_visible c \<and> \<not> c_th c) (mark (\<lambda>c. c_visible c \<and> c_th c) cs0))"

definition header_end_classes :: "th list \<Rightarrow> th list" where
  "header_end_classes hs =
     (let hs0 = map (\<lambda>h. h\<lparr>h_first := h_td h \<and> h_first h, h_last := h_td h \<and> h_last h\<rparr>) hs;
          mark = (\<lambda>P. mark_ends P (\<lambda>h. h\<lparr>h_first := True\<rparr>) (\<lambda>h. h\<lparr>h_last := True\<rparr>))
      in mark (\<lambda>h. h_visible h \<and> h_td h) (mark (\<lambda>h. h_visible h \<and> \<not> h_td h) hs0))"

definition set_end_classes :: "footable \<Rightarrow> footable" where
  "set_end_classes t =
     t\<lparr>t_rows := map (\<lambda>r. r\<lparr>r_cells := end_classes True (r_cells r)\<rparr>) (t_rows t),
       t_groups := map_option (\<lambda>gs. map2 (\<lambda>g c. g\<lparr>g_cell := c\<rparr>) gs (end_classes False (map g_cell gs))) (t_groups t),
       t_headers := header_end_classes (t_headers t)\<rparr>"

text \<open>\<open>redrawn\<close> are the handlers of \<^verbatim>\<open>footable_redrawn\<close>.\<close>

definition redraw :: "(footable \<Rightarrow> outcome) \<Rightarrow> footable \<Rightarrow> outcome" where
  "redraw redrawn t =
     (let t1 = setColumnClasses (bindToggleSelectors (addRowToggle t));
          fired = hasBreakpointColumn (d_breakpoint t1) t1;
          t2 = t1\<lparr>t_rows := map (\<lambda>r. if r_detail r then r else r\<lparr>r_created := False\<rparr>) (t_rows t1)\<rparr>
      in and_then (each redraw_header (filter (\<lambda>j. \<not> h_td (t_headers t2 ! j)) [0 ..< length (t_headers t2)]) t2) (\<lambda>t3.
         and_then (each createOrUpdateDetailRow (map r_id (filter r_show (t_rows t3))) t3) (\<lambda>t4.
         and_then (each toggleInput (bind_cells t4) t4) (\<lambda>t5.
         and_then (each (show_detail_of fired) (map r_id (filter (\<lambda>r. r_show r \<and> row_visible t5 r) (t_rows t5))) t5) (\<lambda>t6.
         redrawn (set_end_classes t6))))))"

definition appendRow :: "(footable \<Rightarrow> outcome) \<Rightarrow> row \<Rightarrow> footable \<Rightarrow> outcome" where
  "appendRow redrawn r t = redraw redrawn (t\<lparr>t_rows := t_rows t @ [r]\<rparr>)"

section \<open>Initialisation\<close>

text \<open>The trigger \<^verbatim>\<open>footable_initialize\<close>; \<open>initialized\<close> are the handlers of \<^verbatim>\<open>footable_initialized\<close>.\<close>

definition initialize :: "(footable \<Rightarrow> outcome) \<Rightarrow> (footable \<Rightarrow> outcome) \<Rightarrow> winfo \<Rightarrow> footable \<Rightarrow> outcome" where
  "initialize redrawn initialized measured t =
     and_then (resize (redraw redrawn) measured (t\<lparr>d_info := None, d_breakpoint := Some []\<rparr>))
       (\<lambda>t1. initialized (t1\<lparr>t_loading := False, t_loaded := True, t_main := True\<rparr>))"

definition by_width :: "jsstr \<times> int \<Rightarrow> jsstr \<times> int \<Rightarrow> int" where
  "by_width a b = snd a - snd b"

text \<open>\<^verbatim>\<open>ft.init\<close> after the plugins are initialised; \<open>srt\<close> is the sort of arrays.\<close>

definition init :: "((jsstr \<times> int \<Rightarrow> jsstr \<times> int \<Rightarrow> int) \<Rightarrow> (jsstr \<times> int) list \<Rightarrow> (jsstr \<times> int) list) \<Rightarrow> (th \<Rightarrow> column \<Rightarrow> column) \<Rightarrow>
    (footable \<Rightarrow> outcome) \<Rightarrow> (footable \<Rightarrow> outcome) \<Rightarrow> winfo \<Rightarrow> footable \<Rightarrow> outcome" where
  "init srt colData redrawn initialized measured t =
     (if t_loaded t then Done t
      else initialize redrawn initialized measured
        (t\<lparr>t_loading := True,
           ft_columns := read_columns colData t 0 0 0 (t_headers t),
           ft_breakpoints := srt by_width (for_in (opt_breakpoints (ft_options t)))\<rparr>))"

section \<open>Timers\<close>

text \<open>
  A timer and the timeouts that the browser still holds. \<open>timer_fire\<close> is the browser running a timeout: it leaves the list, the
  code runs, which may use the timer itself, and unless it throws the callback then resets the timer.
\<close>

record timer =
  tm_id :: "nat option"
  tm_busy :: bool

record clock =
  k_next :: nat
  k_pending :: "nat list"

definition new_timer :: timer where
  "new_timer = \<lparr>tm_id = None, tm_busy = False\<rparr>"

definition timer_stop :: "timer \<times> clock \<Rightarrow> timer \<times> clock" where
  "timer_stop s =
     (case s of (t, k) \<Rightarrow>
        (case tm_id t of
           Some i \<Rightarrow> (t\<lparr>tm_id := None, tm_busy := False\<rparr>, k\<lparr>k_pending := filter (\<lambda>j. j \<noteq> i) (k_pending k)\<rparr>)
         | None \<Rightarrow> s))"

definition timer_start :: "timer \<times> clock \<Rightarrow> timer \<times> clock" where
  "timer_start s =
     (if tm_busy (fst s) then s
      else case timer_stop s of (t, k) \<Rightarrow>
        (t\<lparr>tm_id := Some (k_next k), tm_busy := True\<rparr>, k\<lparr>k_next := Suc (k_next k), k_pending := k_pending k @ [k_next k]\<rparr>))"

definition timer_fire :: "(timer \<times> clock \<Rightarrow> bool \<times> timer \<times> clock) \<Rightarrow> nat \<Rightarrow> timer \<times> clock \<Rightarrow> timer \<times> clock" where
  "timer_fire code i s =
     (case s of (t, k) \<Rightarrow> (case code (t, k\<lparr>k_pending := filter (\<lambda>j. j \<noteq> i) (k_pending k)\<rparr>) of (threw, t1, k1) \<Rightarrow>
        if threw then (t1, k1) else (t1\<lparr>tm_id := None, tm_busy := False\<rparr>, k1)))"

text \<open>What the handlers of the window's resizing and of the filter's field do to their timers.\<close>

definition timer_restart :: "timer \<times> clock \<Rightarrow> timer \<times> clock" where
  "timer_restart s = timer_start (timer_stop s)"

section \<open>Plugins and calls\<close>

text \<open>A registered constructor: what the validation asks of it, whether constructing and initialising it throws.\<close>

record 'o plugin =
  pl_function :: bool
  pl_named :: bool
  pl_has_init :: bool
  pl_constructs :: bool
  pl_init :: "'o"

definition plugin_validate :: "'o plugin \<Rightarrow> bool" where
  "plugin_validate p \<longleftrightarrow> pl_function p \<and> pl_named p \<and> pl_has_init p"

text \<open>\<open>merge\<close> merges options; \<open>None\<close> stands for options that are no object.\<close>

definition plugin_register ::
    "('opts \<Rightarrow> 'opts \<Rightarrow> 'opts) \<Rightarrow> 'o plugin \<Rightarrow> 'opts option \<Rightarrow> 'o plugin list \<times> 'opts \<Rightarrow> 'o plugin list \<times> 'opts" where
  "plugin_register merge p o1 s =
     (if plugin_validate p then (fst s @ [p], case o1 of Some x \<Rightarrow> merge (snd s) x | None \<Rightarrow> snd s) else s)"

definition plugin_load :: "'o plugin list \<Rightarrow> 'o plugin list" where
  "plugin_load ps = filter pl_constructs ps"

text \<open>Initialising goes on after an exception, in the state that it left.\<close>

definition plugin_init_all :: "(footable \<Rightarrow> outcome) plugin list \<Rightarrow> footable \<Rightarrow> footable" where
  "plugin_init_all ps t = fold (\<lambda>p t. state_of (pl_init p t)) ps t"

text \<open>
  \<^verbatim>\<open>$.fn.footable\<close> on the breakpoints: the shared defaults are cleared when the call names breakpoints of its own. The state
  is the shared defaults and the number of instances; \<open>n\<close> is the number of tables of the call.
\<close>

definition obj_set :: "'k \<Rightarrow> 'v \<Rightarrow> ('k \<times> 'v) list \<Rightarrow> ('k \<times> 'v) list" where
  "obj_set k v obj = (if k \<in> set (map fst obj) then map (\<lambda>(j, w). if j = k then (j, v) else (j, w)) obj else obj @ [(k, v)])"

definition obj_extend :: "('k \<times> 'v) list \<Rightarrow> ('k \<times> 'v) list \<Rightarrow> ('k \<times> 'v) list" where
  "obj_extend a b = fold (\<lambda>(k, v). obj_set k v) b a"

definition fn_footable :: "(jsstr \<times> int) list option \<Rightarrow> nat \<Rightarrow> (jsstr \<times> int) list \<times> nat \<Rightarrow>
    (jsstr \<times> int) list \<times> (jsstr \<times> int) list \<times> nat" where
  "fn_footable bps n s =
     (let defaults = (if bps \<noteq> None then [] else fst s);
          merged = obj_extend defaults (case bps of Some b \<Rightarrow> b | None \<Rightarrow> [])
      in (merged, defaults, snd s + n))"

text \<open>\<^verbatim>\<open>version.parse\<close>: the first run of digits and up to two more after optional dots; an exception without a digit.\<close>

definition version_part :: "jsstr \<Rightarrow> nat \<times> jsstr" where
  "version_part s =
     (let r = (case s of c # cs \<Rightarrow> if c = 46 then cs else s | [] \<Rightarrow> []) in (dec_val (takeWhile is_digit r), dropWhile is_digit r))"

definition version_parse :: "jsstr \<Rightarrow> (nat \<times> nat \<times> nat) option" where
  "version_parse s =
     (let s1 = dropWhile (\<lambda>c. \<not> is_digit c) s in
      if s1 = [] then None
      else let major = dec_val (takeWhile is_digit s1);
               (minor, r) = version_part (dropWhile is_digit s1);
               (patch, _) = version_part r
           in Some (major, minor, patch))"

end
