(* ===== verification/FootableRows.thy ===== *)
theory FootableRows
  imports Footable
begin

text \<open>
  Facts about the rows of a table that the plugins share: what building a detail row can change, which rows an operation shows,
  and when no exception can come from a detail row.
\<close>

section \<open>What building a detail row leaves alone\<close>

text \<open>
  The skeleton of a row is all of it but its detail, the contents of its cells and the mark that the detail was created. Building a detail row changes
  nothing outside the rows and keeps every skeleton; at most it inserts one detail row.
\<close>

definition skel :: "row \<Rightarrow> nat \<times> bool \<times> bool \<times> bool \<times> bool \<times> bool \<times> nat" where
  "skel r = (r_id r, r_detail r, r_show r, r_filtered r, r_disabled r, r_shown r, length (r_cells r))"

definition frame :: "footable \<Rightarrow> footable \<Rightarrow> bool" where
  "frame t t' \<longleftrightarrow> t' = t\<lparr>t_rows := t_rows t', t_next_id := t_next_id t'\<rparr>"

named_theorems frames \<open>changes that are confined to the rows\<close>
named_theorems skels \<open>changes that keep the skeletons of the rows\<close>

lemma frame_iff: "frame t t' \<longleftrightarrow> (\<exists>rs n. t' = t\<lparr>t_rows := rs, t_next_id := n\<rparr>)"
proof
  show "frame t t' \<Longrightarrow> \<exists>rs n. t' = t\<lparr>t_rows := rs, t_next_id := n\<rparr>" unfolding frame_def by blast
  assume "\<exists>rs n. t' = t\<lparr>t_rows := rs, t_next_id := n\<rparr>"
  then obtain rs n where "t' = t\<lparr>t_rows := rs, t_next_id := n\<rparr>" by blast
  then show "frame t t'" by (simp add: frame_def)
qed

lemma frame_refl [frames]: "frame t t"
  by (simp add: frame_def)

lemma frame_trans: "frame t u \<Longrightarrow> frame u v \<Longrightarrow> frame t v"
  unfolding frame_iff by (elim exE, simp) blast

lemma frame_rows [frames]: "frame t (t\<lparr>t_rows := rs\<rparr>)" "frame t (t\<lparr>t_rows := rs, t_next_id := n\<rparr>)"
  by (simp_all add: frame_def)

lemma frame_upd [frames]:
  "frame t (upd_row i f t)" "frame t (upd_cell i k g t)" "frame t (set_bind_values b ns t)" "frame t (del_row i t)"
  by (simp_all add: upd_row_def upd_cell_def set_bind_values_def del_row_def frame_rows)

lemma skel_upd_row [skels]:
  "(\<And>r. skel (f r) = skel r) \<Longrightarrow> map skel (t_rows (upd_row i f t)) = map skel (t_rows t)"
  by (simp add: upd_row_def comp_def if_distrib cong: if_cong)

lemma skel_upd_cell [skels]: "map skel (t_rows (upd_cell i k g t)) = map skel (t_rows t)"
  unfolding upd_cell_def by (rule skel_upd_row) (simp add: skel_def)

lemma skel_set_bind_values [skels]: "map skel (t_rows (set_bind_values b ns t)) = map skel (t_rows t)"
  by (simp add: set_bind_values_def comp_def skel_def)

lemma next_id_upd [simp]:
  "t_next_id (upd_row i f t) = t_next_id t" "t_next_id (upd_cell i k g t) = t_next_id t"
  "t_next_id (set_bind_values b ns t) = t_next_id t"
  by (simp_all add: upd_row_def upd_cell_def set_bind_values_def)

definition same_skel :: "footable \<Rightarrow> footable \<Rightarrow> bool" where
  "same_skel t t' \<longleftrightarrow> frame t t' \<and> map skel (t_rows t') = map skel (t_rows t) \<and> t_next_id t' = t_next_id t"

lemma same_skel_refl [simp]: "same_skel t t"
  by (simp add: same_skel_def frame_refl)

lemma same_skel_trans: "same_skel t u \<Longrightarrow> same_skel u v \<Longrightarrow> same_skel t v"
  unfolding same_skel_def using frame_trans by auto

lemma same_skel_upd:
  "same_skel t (upd_cell i k g t)" "same_skel t (set_bind_values b ns t)"
  "(\<And>r. skel (f r) = skel r) \<Longrightarrow> same_skel t (upd_row i f t)"
  by (simp_all add: same_skel_def frame_upd skels)

lemma detail_cell_skel:
  "case detail_cell i k vs t of Inl t' \<Rightarrow> same_skel t t' | Inr (vs', t') \<Rightarrow> same_skel t t'"
proof (cases "getColumnFromTdIndex t k")
  case (Some col)
  show ?thesis
  proof (cases "co_ignore col \<or> row_cell i k t = None")
    case False
    then obtain c where c: "row_cell i k t = Some c" "\<not> co_ignore col" by auto
    show ?thesis
      unfolding detail_cell_def Some option.case c if_not_P [OF c(2)] Let_def sum.case prod.case
      by (rule same_skel_trans [OF _ same_skel_upd(1)])
         (auto split: option.split if_split intro: same_skel_trans [OF same_skel_upd(2) same_skel_upd(1)])
  qed (auto simp: detail_cell_def Some)
qed (simp add: detail_cell_def)

lemma detail_cells_skel:
  "case detail_cells i ks vs t of Inl t' \<Rightarrow> same_skel t t' | Inr (vs', t') \<Rightarrow> same_skel t t'"
proof (induction ks arbitrary: vs t)
  case (Cons k ks)
  show ?case
  proof (cases "detail_cell i k vs t")
    case (Inl t')
    then show ?thesis using detail_cell_skel [where i = i and k = k and vs = vs and t = t] by simp
  next
    case (Inr p)
    obtain vs' t' where p: "p = (vs', t')" by (cases p)
    have 1: "same_skel t t'" using detail_cell_skel [where i = i and k = k and vs = vs and t = t] unfolding Inr p by simp
    show ?thesis
      using Cons.IH [where vs = vs' and t = t'] 1 unfolding detail_cells.simps Inr p sum.case prod.case
      by (auto split: sum.splits intro: same_skel_trans)
  qed
qed simp

text \<open>The skeletons after building the detail of row \<open>i\<close>: the same, or with a new shown detail row behind a visible \<open>i\<close>.\<close>

definition detail_inserted :: "nat \<Rightarrow> footable \<Rightarrow> footable \<Rightarrow> bool" where
  "detail_inserted i t t' \<longleftrightarrow>
     frame t t' \<and> t_next_id t' = Suc (t_next_id t) \<and>
     map skel (t_rows t') = map skel (insert_after i (new_detail (t_next_id t)) (t_rows t)) \<and>
     (\<exists>r. get_row i t = Some r \<and> row_visible t r) \<and>
     (case next_row i t of Some q \<Rightarrow> \<not> r_detail q | None \<Rightarrow> True)"

lemma skel_eqs:
  assumes "map skel rs = map skel rs'"
  shows "map r_id rs = map r_id rs'" "map r_detail rs = map r_detail rs'"
  using arg_cong [OF assms, of "map fst"] arg_cong [OF assms, of "map (fst \<circ> snd)"] by (simp_all add: comp_def skel_def)

lemma next_in_skel:
  assumes "map skel rs = map skel rs'"
  shows "map_option skel (next_in i rs) = map_option skel (next_in i rs')"
  using assms
proof (induction i rs arbitrary: rs' rule: next_in.induct)
  case (3 i r q rs)
  then obtain r' q' rs2 where "rs' = r' # q' # rs2" by (auto simp: Cons_eq_map_conv)
  moreover have "r_id r = r_id r'" using 3(2) calculation by (simp add: skel_def)
  ultimately show ?case using 3 by auto
qed (auto simp: Cons_eq_map_conv)

lemma insert_after_skel:
  "map skel rs = map skel rs' \<Longrightarrow> map skel (insert_after i x rs) = map skel (insert_after i x rs')"
proof (induction i x rs arbitrary: rs' rule: insert_after.induct)
  case (2 i x r rs)
  then obtain r' rs2 where "rs' = r' # rs2" by (auto simp: Cons_eq_map_conv)
  moreover have "r_id r = r_id r'" using 2(2) calculation by (simp add: skel_def)
  ultimately show ?case using 2 by auto
qed simp

lemma same_skel_next: "same_skel t t' \<Longrightarrow> map_option skel (next_row i t') = map_option skel (next_row i t)"
  unfolding next_row_def by (rule next_in_skel) (simp add: same_skel_def)

lemma createOrUpdateDetailRow_skel:
  "same_skel t (state_of (createOrUpdateDetailRow i t)) \<or> detail_inserted i t (state_of (createOrUpdateDetailRow i t))"
proof (cases "\<exists>r. get_row i t = Some r \<and> \<not> r_created r \<and> row_visible t r")
  case False
  then show ?thesis by (auto simp: createOrUpdateDetailRow_def split: option.split)
next
  case True
  then obtain r where r: "get_row i t = Some r" "\<not> r_created r" "row_visible t r" by blast
  show ?thesis
  proof (cases "detail_cells i (hidden_cells r) [] t")
    case (Inl t')
    then have "same_skel t t'" using detail_cells_skel [where i = i and ks = "hidden_cells r" and vs = "[]" and t = t] by simp
    then show ?thesis using r Inl by (simp add: createOrUpdateDetailRow_def)
  next
    case (Inr p)
    obtain vs t1 where p: "p = (vs, t1)" by (cases p)
    have s1: "same_skel t t1"
      using detail_cells_skel [where i = i and ks = "hidden_cells r" and vs = "[]" and t = t] Inr p by simp
    define ex where "ex = (case next_row i t1 of Some q \<Rightarrow> r_detail q | None \<Rightarrow> False)"
    define t2 where "t2 = (if ex then t1 else t1\<lparr>t_rows := insert_after i (new_detail (t_next_id t1)) (t_rows t1), t_next_id := Suc (t_next_id t1)\<rparr>)"
    define d where "d = (case next_row i t2 of Some q \<Rightarrow> r_id q | None \<Rightarrow> 0)"
    define t3 where "t3 = upd_row d (\<lambda>q. q\<lparr>r_span := shown_cells r, r_items := []\<rparr>) t2"
    define fin where "fin = (if vs = [] then t1 else case createDetail vs (opt_separator (ft_options t)) of
        None \<Rightarrow> t3 | Some items \<Rightarrow> upd_row i (\<lambda>q. q\<lparr>r_created := True\<rparr>) (upd_row d (\<lambda>q. q\<lparr>r_items := items\<rparr>) t3))"
    have run: "state_of (createOrUpdateDetailRow i t) = fin"
      unfolding createOrUpdateDetailRow_def fin_def t3_def d_def t2_def ex_def using r Inr p
      by (simp add: Let_def split: option.split)
    have s3: "same_skel t2 t3" unfolding t3_def by (rule same_skel_upd(3)) (simp add: skel_def)
    have s4: "same_skel t3 (upd_row i (\<lambda>q. q\<lparr>r_created := True\<rparr>) (upd_row d (\<lambda>q. q\<lparr>r_items := items\<rparr>) t3))" for items
      by (rule same_skel_trans [OF same_skel_upd(3) same_skel_upd(3)]) (simp_all add: skel_def)
    have s2: "vs = [] \<and> fin = t1 \<or> same_skel t2 fin"
      unfolding fin_def using s3 same_skel_trans [OF s3 s4] by (auto split: option.split)
    have det: "(case next_row i t of Some q \<Rightarrow> r_detail q | None \<Rightarrow> False) = ex"
      using same_skel_next [OF s1, of i] unfolding ex_def
      by (cases "next_row i t"; cases "next_row i t1") (auto simp: skel_def)
    show ?thesis
    proof (cases "ex \<or> fin = t1")
      case True
      then have "same_skel t fin" using s1 s2 by (auto simp: t2_def intro: same_skel_trans)
      then show ?thesis unfolding run ..
    next
      case False
      then have f: "same_skel t2 fin" and "\<not> ex" using s2 by auto
      then have t2: "t2 = t1\<lparr>t_rows := insert_after i (new_detail (t_next_id t1)) (t_rows t1), t_next_id := Suc (t_next_id t1)\<rparr>"
        by (simp add: t2_def)
      have "frame t1 t2" unfolding t2 by (rule frame_rows)
      then have "frame t fin" using s1 f unfolding same_skel_def by (blast intro: frame_trans)
      moreover have "t_next_id fin = Suc (t_next_id t)" using f s1 unfolding same_skel_def by (simp add: t2)
      moreover have "map skel (t_rows fin) = map skel (insert_after i (new_detail (t_next_id t)) (t_rows t))"
        using f s1 insert_after_skel [of "t_rows t1" "t_rows t"] unfolding same_skel_def by (simp add: t2)
      ultimately have "detail_inserted i t fin"
        unfolding detail_inserted_def using r det \<open>\<not> ex\<close> by (auto split: option.splits)
      then show ?thesis unfolding run ..
    qed
  qed
qed

section \<open>Showing rows\<close>

text \<open>
  \<open>fill bp S rs\<close> are the rows \<open>rs\<close> after those with a number in \<open>S\<close> are shown: a detail row is shown with the row before it if
  that row is open and the table is at a breakpoint.
\<close>

definition opened :: "bool \<Rightarrow> nat set \<Rightarrow> row list \<Rightarrow> row \<Rightarrow> bool" where
  "opened bp S rs r \<longleftrightarrow>
     r_detail r \<and> bp \<and> (case prev_in (r_id r) rs of Some p \<Rightarrow> r_show p \<and> r_id p \<in> S | None \<Rightarrow> False)"

definition fill :: "bool \<Rightarrow> nat set \<Rightarrow> row list \<Rightarrow> row list" where
  "fill bp S rs = map (\<lambda>r. set_shown (r_shown r \<or> r_id r \<in> S \<or> opened bp S rs r) r) rs"

lemma set_shown_simps [simp]:
  "r_id (set_shown b r) = r_id r" "r_detail (set_shown b r) = r_detail r" "r_show (set_shown b r) = r_show r"
  "r_filtered (set_shown b r) = r_filtered r" "r_shown (set_shown b r) = b" "r_cells (set_shown b r) = r_cells r"
  "r_disabled (set_shown b r) = r_disabled r" "r_created (set_shown b r) = r_created r" "r_items (set_shown b r) = r_items r"
  "set_shown b (set_shown c r) = set_shown b r" "set_shown (r_shown r) r = r"
  by (simp_all add: set_shown_def)

lemma skel_set_shown: "skel r = skel r' \<Longrightarrow> skel (set_shown b r) = skel (set_shown b r')"
  by (simp add: skel_def)

lemma prev_in_map: "(\<And>r. r_id (f r) = r_id r) \<Longrightarrow> prev_in k (map f rs) = map_option f (prev_in k rs)"
  by (induction k rs rule: prev_in.induct) auto

lemma next_in_map: "(\<And>r. r_id (f r) = r_id r) \<Longrightarrow> next_in k (map f rs) = map_option f (next_in k rs)"
  by (induction k rs rule: next_in.induct) auto

lemma prev_in_skel:
  assumes "map skel rs = map skel rs'"
  shows "map_option skel (prev_in i rs) = map_option skel (prev_in i rs')"
  using assms
proof (induction i rs arbitrary: rs' rule: prev_in.induct)
  case (3 i r q rs)
  then obtain r' q' rs2 where "rs' = r' # q' # rs2" by (auto simp: Cons_eq_map_conv)
  moreover have "r_id q = r_id q'" using 3(2) calculation by (simp add: skel_def)
  ultimately show ?case using 3 by auto
qed (auto simp: Cons_eq_map_conv)

lemma next_in_mem: "next_in i rs = Some q \<Longrightarrow> q \<in> set rs \<and> (\<exists>p \<in> set rs. r_id p = i)"
  by (induction i rs rule: next_in.induct) (auto split: if_splits)

lemma prev_in_mem: "prev_in i rs = Some p \<Longrightarrow> p \<in> set rs \<and> (\<exists>q \<in> set rs. r_id q = i)"
  by (induction i rs rule: prev_in.induct) (auto split: if_splits)

lemma distinct_id_eq: "distinct (map r_id rs) \<Longrightarrow> r \<in> set rs \<Longrightarrow> q \<in> set rs \<Longrightarrow> r_id r = r_id q \<Longrightarrow> r = q"
  by (auto simp: distinct_map inj_on_def)

lemma prev_in_absent: "k \<notin> r_id ` set (tl rs) \<Longrightarrow> prev_in k rs = None"
  by (induction k rs rule: prev_in.induct) auto

lemma next_prev:
  assumes "distinct (map r_id rs)"
  shows "next_in i rs = Some q \<longleftrightarrow> q \<in> set rs \<and> (\<exists>p. prev_in (r_id q) rs = Some p \<and> r_id p = i)"
  using assms
proof (induction i rs rule: next_in.induct)
  case (3 i r q' rs)
  have d: "r_id r \<notin> r_id ` set (q' # rs)" "r_id q' \<notin> r_id ` set rs" using 3(2) by auto
  have first: "prev_in (r_id q') (q' # rs) = None" using d(2) by (intro prev_in_absent) simp
  have q': "q \<in> set (r # q' # rs) \<Longrightarrow> r_id q' = r_id q \<Longrightarrow> q = q'" by (rule distinct_id_eq [OF 3(2)]) auto
  have step: "prev_in (r_id q) (r # q' # rs) = (if r_id q' = r_id q then Some r else prev_in (r_id q) (q' # rs))" by simp
  show ?case
  proof (cases "r_id r = i")
    case True
    have none: "r_id p \<noteq> i" if "prev_in (r_id q) (q' # rs) = Some p" for p
      using prev_in_mem [OF that] d(1) True by (metis imageI)
    show ?thesis
    proof (cases "q' = q")
      case False
      then have "q \<in> set (r # q' # rs) \<Longrightarrow> r_id q' \<noteq> r_id q" using q' by blast
      then have "\<not> (q \<in> set (r # q' # rs) \<and> (\<exists>p. prev_in (r_id q) (r # q' # rs) = Some p \<and> r_id p = i))"
        using none unfolding step by (metis (full_types))
      moreover have "next_in i (r # q' # rs) \<noteq> Some q" using True False by simp
      ultimately show ?thesis by blast
    qed (simp add: True)
  next
    case False
    have gone: "prev_in (r_id q) (q' # rs) = None" if "q = r" using d(1) that by (intro prev_in_absent) auto
    have IH: "next_in i (q' # rs) = Some q \<longleftrightarrow> q \<in> set (q' # rs) \<and> (\<exists>p. prev_in (r_id q) (q' # rs) = Some p \<and> r_id p = i)"
      using 3(1) [OF False] 3(2) by simp
    have "next_in i (r # q' # rs) = Some q \<longleftrightarrow> next_in i (q' # rs) = Some q" using False by simp
    also note IH
    also have "(q \<in> set (q' # rs) \<and> (\<exists>p. prev_in (r_id q) (q' # rs) = Some p \<and> r_id p = i)) \<longleftrightarrow>
        (q \<in> set (r # q' # rs) \<and> (\<exists>p. prev_in (r_id q) (r # q' # rs) = Some p \<and> r_id p = i))"
    proof (cases "r_id q' = r_id q")
      case True
      then show ?thesis using first False step by simp
    next
      case neq: False
      then show ?thesis using gone step by (cases "q = r") simp_all
    qed
    finally show ?thesis .
  qed
qed auto

lemma get_row_eq: "distinct (map r_id (t_rows t)) \<Longrightarrow> get_row i t = Some r \<longleftrightarrow> r \<in> set (t_rows t) \<and> r_id r = i"
  unfolding get_row_def by (auto simp: find_Some_iff in_set_conv_nth distinct_conv_nth)

lemma get_row_None: "get_row i t = None \<longleftrightarrow> i \<notin> r_id ` set (t_rows t)"
  unfolding get_row_def by (auto simp: find_None_iff)

lemma fill_cong:
  assumes "map skel rs = map skel rs'"
  shows "map skel (fill bp S rs) = map skel (fill bp S rs')"
proof -
  have "skel (set_shown (r_shown a \<or> r_id a \<in> S \<or> opened bp S rs a) a) = skel (set_shown (r_shown b \<or> r_id b \<in> S \<or> opened bp S rs' b) b)"
    if "skel a = skel b" for a b
  proof -
    have "r_id a = r_id b" "r_shown a = r_shown b" "r_detail a = r_detail b" using that by (auto simp: skel_def)
    moreover have "opened bp S rs a = opened bp S rs' b"
      using prev_in_skel [OF assms, of "r_id b"] calculation unfolding opened_def
      by (cases "prev_in (r_id b) rs"; cases "prev_in (r_id b) rs'") (auto simp: skel_def)
    ultimately show ?thesis using that by (simp add: skel_def)
  qed
  then show ?thesis using assms unfolding fill_def
    by (auto simp: list_eq_iff_nth_eq)
qed

lemma fill_fill: "fill bp S (fill bp T rs) = fill bp (T \<union> S) rs"
proof -
  let ?f = "\<lambda>r. set_shown (r_shown r \<or> r_id r \<in> T \<or> opened bp T rs r) r"
  have p: "prev_in k (fill bp T rs) = map_option ?f (prev_in k rs)" for k
    unfolding fill_def by (rule prev_in_map) simp
  have "opened bp S (fill bp T rs) (?f r) = opened bp S rs r" for r
    unfolding opened_def p by (cases "prev_in (r_id r) rs") auto
  moreover have "opened bp (T \<union> S) rs r \<longleftrightarrow> opened bp T rs r \<or> opened bp S rs r" for r
    unfolding opened_def by (cases "prev_in (r_id r) rs") auto
  ultimately show ?thesis unfolding fill_def [of bp S] fill_def [of bp "T \<union> S"] unfolding fill_def
    by (auto intro!: arg_cong [where f = "\<lambda>b. set_shown b _"])
qed

lemma fill_empty [simp]: "fill bp {} rs = rs"
  unfolding fill_def opened_def by (rule map_idI) (auto split: option.split)

text \<open>Showing one row, as the plugins do.\<close>

definition show_pair :: "nat \<Rightarrow> footable \<Rightarrow> outcome" where
  "show_pair i t =
     (case get_row i t of
        None \<Rightarrow> Done t
      | Some r \<Rightarrow>
          (case next_row i t of
             Some q \<Rightarrow>
               if t_breakpoint_class t \<and> r_show r \<and> r_detail q
               then createOrUpdateDetailRow i (upd_row (r_id q) (set_shown True) (upd_row i (set_shown True) t))
               else Done (upd_row i (set_shown True) t)
           | None \<Rightarrow> Done (upd_row i (set_shown True) t)))"

definition filled :: "nat set \<Rightarrow> footable \<Rightarrow> footable \<Rightarrow> bool" where
  "filled S t t' \<longleftrightarrow>
     frame t t' \<and> t_next_id t' = t_next_id t \<and> map skel (t_rows t') = map skel (fill (t_breakpoint_class t) S (t_rows t))"

lemma frame_fields:
  assumes "frame t t'"
  shows "t_breakpoint_class t' = t_breakpoint_class t" "t_visible t' = t_visible t" "ft_pageInfo t' = ft_pageInfo t"
    "ft_columns t' = ft_columns t" "ft_options t' = ft_options t" "t_headers t' = t_headers t" "t_nav t' = t_nav t"
    "d_currentPage t' = d_currentPage t" "t_toggle_bound t' = t_toggle_bound t" "a_text_only t' = a_text_only t"
    "d_current_filter t' = d_current_filter t"
proof -
  from assms obtain rs n where "t' = t\<lparr>t_rows := rs, t_next_id := n\<rparr>" unfolding frame_iff by blast
  then show "t_breakpoint_class t' = t_breakpoint_class t" "t_visible t' = t_visible t" "ft_pageInfo t' = ft_pageInfo t"
    "ft_columns t' = ft_columns t" "ft_options t' = ft_options t" "t_headers t' = t_headers t" "t_nav t' = t_nav t"
    "d_currentPage t' = d_currentPage t" "t_toggle_bound t' = t_toggle_bound t" "a_text_only t' = a_text_only t"
    "d_current_filter t' = d_current_filter t" by simp_all
qed

lemma upd_row_rows [simp]: "t_rows (upd_row i f t) = map (\<lambda>r. if r_id r = i then f r else r) (t_rows t)"
  by (simp add: upd_row_def)

lemma filled_trans:
  assumes "filled S t u" "filled T u v"
  shows "filled (S \<union> T) t v"
proof -
  have "map skel (t_rows v) = map skel (fill (t_breakpoint_class t) T (t_rows u))"
    using assms frame_fields(1) [of t u] by (simp add: filled_def)
  also have "\<dots> = map skel (fill (t_breakpoint_class t) T (fill (t_breakpoint_class t) S (t_rows t)))"
    using assms(1) by (intro fill_cong) (simp add: filled_def)
  finally show ?thesis using assms unfolding filled_def fill_fill by (auto intro: frame_trans)
qed

lemma fill_one:
  assumes d: "distinct (map r_id rs)"
  shows "fill bp {i} rs =
     map (\<lambda>r. if r_id r = i \<or> (\<exists>p q. bp \<and> p \<in> set rs \<and> r_id p = i \<and> r_show p \<and> next_in i rs = Some q \<and> r_detail q \<and> r_id r = r_id q)
              then set_shown True r else r) rs"
proof -
  have op: "opened bp {i} rs r \<longleftrightarrow> (\<exists>p q. bp \<and> p \<in> set rs \<and> r_id p = i \<and> r_show p \<and> next_in i rs = Some q \<and> r_detail q \<and> r_id r = r_id q)"
    if "r \<in> set rs" for r
  proof -
    have "opened bp {i} rs r \<longleftrightarrow> r_detail r \<and> bp \<and> (\<exists>p. prev_in (r_id r) rs = Some p \<and> r_show p \<and> r_id p = i)"
      unfolding opened_def by (auto split: option.split)
    also have "\<dots> \<longleftrightarrow> r_detail r \<and> bp \<and> next_in i rs = Some r \<and> (\<exists>p. p \<in> set rs \<and> r_show p \<and> r_id p = i)"
      unfolding next_prev [OF d] using that prev_in_mem distinct_id_eq [OF d] by metis
    finally show ?thesis using that next_in_mem distinct_id_eq [OF d] by metis
  qed
  have s: "set_shown (r_shown r \<or> r_id r \<in> {i} \<or> opened bp {i} rs r) r = (if r_id r = i \<or> opened bp {i} rs r then set_shown True r else r)" for r
    by auto
  show ?thesis unfolding fill_def by (intro map_cong refl) (subst s, simp only: op)
qed

lemma show_pair_filled:
  assumes d: "distinct (map r_id (t_rows t))"
  shows "filled {i} t (state_of (show_pair i t))"
proof (cases "get_row i t")
  case None
  then have "i \<notin> r_id ` set (t_rows t)" by (simp add: get_row_None)
  then have "fill (t_breakpoint_class t) {i} (t_rows t) = t_rows t"
    unfolding fill_one [OF d] by (intro map_idI) (auto simp: image_iff)
  then show ?thesis using None by (simp add: show_pair_def filled_def frame_refl)
next
  case (Some r)
  then have r: "r \<in> set (t_rows t)" "r_id r = i" using get_row_eq [OF d] by auto
  have only: "p = r" if "p \<in> set (t_rows t)" "r_id p = i" for p using distinct_id_eq [OF d] that r by auto
  show ?thesis
  proof (cases "\<exists>q. next_row i t = Some q \<and> t_breakpoint_class t \<and> r_show r \<and> r_detail q")
    case True
    then obtain q where q: "next_row i t = Some q" "t_breakpoint_class t" "r_show r" "r_detail q" by blast
    define u where "u = upd_row (r_id q) (set_shown True) (upd_row i (set_shown True) t)"
    have run: "show_pair i t = createOrUpdateDetailRow i u" by (simp add: show_pair_def Some q u_def)
    have u: "t_rows u = fill (t_breakpoint_class t) {i} (t_rows t)"
      unfolding fill_one [OF d] u_def using q r by (auto simp: next_row_def)
    have "frame t u" unfolding u_def by (rule frame_trans [OF frame_upd(1) frame_upd(1)])
    moreover have "next_row i u = Some (set_shown True q) \<or> next_row i u = Some q"
    proof -
      let ?f = "\<lambda>r. if r_id r = r_id q then set_shown True r else r" and ?g = "\<lambda>r. if r_id r = i then set_shown True r else r"
      have "next_row i u = map_option (?f \<circ> ?g) (next_row i t)"
        unfolding next_row_def u_def upd_row_rows by (simp add: next_in_map option.map_comp)
      then show ?thesis using q by auto
    qed
    then have "\<not> detail_inserted i u (state_of (createOrUpdateDetailRow i u))" unfolding detail_inserted_def using q by auto
    then have "same_skel u (state_of (createOrUpdateDetailRow i u))" using createOrUpdateDetailRow_skel by blast
    moreover have "t_next_id u = t_next_id t" by (simp add: u_def)
    ultimately show ?thesis unfolding run filled_def same_skel_def u using frame_trans by metis
  next
    case False
    then have "show_pair i t = Done (upd_row i (set_shown True) t)" using Some by (auto simp: show_pair_def split: option.split)
    moreover have "t_rows (upd_row i (set_shown True) t) = fill (t_breakpoint_class t) {i} (t_rows t)"
      unfolding fill_one [OF d] using False only by (auto simp: next_row_def)
    ultimately show ?thesis by (simp only: state_of.simps filled_def frame_upd next_id_upd)
  qed
qed

lemma fill_ids: "map r_id (fill bp S rs) = map r_id rs"
  by (simp add: fill_def comp_def)

lemma filled_ids: "filled S t t' \<Longrightarrow> map r_id (t_rows t') = map r_id (t_rows t)"
  unfolding filled_def using skel_eqs(1) fill_ids by metis

lemma each_show_pair:
  assumes "distinct (map r_id (t_rows t))"
  shows "\<exists>S \<subseteq> set is. filled S t (state_of (each show_pair is t)) \<and> (\<forall>t'. each show_pair is t = Done t' \<longrightarrow> S = set is)"
  using assms
proof (induction "is" arbitrary: t)
  case Nil
  then show ?case by (intro exI [of _ "{}"]) (simp add: filled_def frame_refl)
next
  case (Cons i "is")
  have 1: "filled {i} t (state_of (show_pair i t))" by (rule show_pair_filled [OF Cons.prems])
  show ?case
  proof (cases "show_pair i t")
    case (Done u)
    then have u: "filled {i} t u" using 1 by simp
    then have "distinct (map r_id (t_rows u))" using Cons.prems by (simp add: filled_ids)
    then obtain S where "S \<subseteq> set is" "filled S u (state_of (each show_pair is u))" "\<forall>t'. each show_pair is u = Done t' \<longrightarrow> S = set is"
      using Cons.IH by blast
    then show ?thesis using filled_trans [OF u] Done by (intro exI [of _ "{i} \<union> S"]) auto
  next
    case (Thrown u)
    then show ?thesis using 1 by (intro exI [of _ "{i}"]) simp
  qed
qed


lemma skel_filter:
  assumes "map skel rs = map skel rs'" "\<And>r r'. skel r = skel r' \<Longrightarrow> P r = Q r'"
  shows "map skel (filter P rs) = map skel (filter Q rs')"
  using assms(1)
proof (induction rs arbitrary: rs')
  case (Cons r rs)
  then obtain r' rs2 where "rs' = r' # rs2" "skel r = skel r'" "map skel rs = map skel rs2" by (auto simp: Cons_eq_map_conv)
  moreover have "P r = Q r'" using assms(2) calculation by blast
  ultimately show ?case using Cons.IH by simp
qed simp

lemma skel_filter_ids:
  "map skel rs = map skel rs' \<Longrightarrow> (\<And>r r'. skel r = skel r' \<Longrightarrow> P r = Q r') \<Longrightarrow> map r_id (filter P rs) = map r_id (filter Q rs')"
  by (rule skel_eqs(1)) (rule skel_filter)

lemma opened_cong:
  assumes "map skel rs = map skel rs'" "skel r = skel r'"
  shows "opened bp S rs r = opened bp S rs' r'"
  using prev_in_skel [OF assms(1), of "r_id r'"] assms(2) unfolding opened_def
  by (cases "prev_in (r_id r') rs"; cases "prev_in (r_id r') rs'") (auto simp: skel_def)

lemma bindToggle_rows [simp]:
  "t_rows (bindToggleSelectors t) = t_rows t" "t_headers (bindToggleSelectors t) = t_headers t" "main_rows (bindToggleSelectors t) = main_rows t"
  "t_next_id (bindToggleSelectors t) = t_next_id t" "ft_columns (bindToggleSelectors t) = ft_columns t" "ft_options (bindToggleSelectors t) = ft_options t"
  by (simp_all add: bindToggleSelectors_def main_rows_def Let_def)

section \<open>Bodies in order\<close>

text \<open>Every detail row stands directly behind a row of data, and numbers are unique.\<close>

fun details_ok :: "bool list \<Rightarrow> bool" where
  "details_ok [] \<longleftrightarrow> True"
| "details_ok [d] \<longleftrightarrow> \<not> d"
| "details_ok (d # e # ds) \<longleftrightarrow> \<not> d \<and> (if e then details_ok ds else details_ok (e # ds))"

definition wf_body :: "footable \<Rightarrow> bool" where
  "wf_body t \<longleftrightarrow>
     distinct (map r_id (t_rows t)) \<and> (\<forall>i \<in> set (map r_id (t_rows t)). i < t_next_id t) \<and>
     details_ok (map r_detail (t_rows t)) \<and> (\<forall>r \<in> set (t_rows t). r_detail r \<longrightarrow> r_cells r = [])"

text \<open>The shape of a row is what the order of a body depends on.\<close>

definition shape :: "row \<Rightarrow> nat \<times> bool \<times> nat" where
  "shape r = (r_id r, r_detail r, length (r_cells r))"

lemma shape_eqs:
  assumes "map shape rs = map shape rs'"
  shows "map r_id rs = map r_id rs'" "map r_detail rs = map r_detail rs'"
    "(\<forall>r \<in> set rs. r_detail r \<longrightarrow> r_cells r = []) \<longleftrightarrow> (\<forall>r \<in> set rs'. r_detail r \<longrightarrow> r_cells r = [])"
proof -
  show "map r_id rs = map r_id rs'" "map r_detail rs = map r_detail rs'"
    using arg_cong [OF assms, of "map fst"] arg_cong [OF assms, of "map (fst \<circ> snd)"] by (simp_all add: comp_def shape_def)
  have "(\<forall>r \<in> set rs. r_detail r \<longrightarrow> r_cells r = []) \<longleftrightarrow> (\<forall>(i, d, n) \<in> set (map shape rs). d \<longrightarrow> n = 0)" for rs
    by (auto simp: shape_def)
  then show "(\<forall>r \<in> set rs. r_detail r \<longrightarrow> r_cells r = []) \<longleftrightarrow> (\<forall>r \<in> set rs'. r_detail r \<longrightarrow> r_cells r = [])"
    by (simp only: assms)
qed

lemma skel_shape:
  assumes "map skel rs = map skel rs'"
  shows "map shape rs = map shape rs'"
  using arg_cong [OF assms, of "map (\<lambda>(i, d, _, _, _, _, n). (i, d, n))"] by (simp add: comp_def skel_def shape_def [abs_def])

lemma wf_body_cong: "map shape (t_rows t') = map shape (t_rows t) \<Longrightarrow> t_next_id t' = t_next_id t \<Longrightarrow> wf_body t' = wf_body t"
  unfolding wf_body_def using shape_eqs [of "t_rows t'" "t_rows t"] by simp

lemma wf_same_skel: "same_skel t t' \<Longrightarrow> wf_body t' = wf_body t"
  by (rule wf_body_cong) (auto simp: same_skel_def intro: skel_shape)

lemma insert_after_ids: "set (map r_id (insert_after i x rs)) \<subseteq> insert (r_id x) (set (map r_id rs))"
  by (induction i x rs rule: insert_after.induct) auto

lemma insert_after_distinct:
  "distinct (map r_id rs) \<Longrightarrow> r_id x \<notin> set (map r_id rs) \<Longrightarrow> distinct (map r_id (insert_after i x rs))"
proof (induction i x rs rule: insert_after.induct)
  case (2 i x r rs)
  then show ?case using insert_after_ids [of i x rs] by auto
qed simp

lemma insert_after_details:
  assumes "details_ok (map r_detail rs)" "r_detail x" "\<forall>r \<in> set rs. r_id r = i \<longrightarrow> \<not> r_detail r"
    "case next_in i rs of Some q \<Rightarrow> \<not> r_detail q | None \<Rightarrow> True"
  shows "details_ok (map r_detail (insert_after i x rs))"
  using assms
proof (induction "length rs" arbitrary: rs rule: less_induct)
  case less
  note details = less.prems(1) and x = less.prems(2) and main = less.prems(3) and nx = less.prems(4)
  show ?case
  proof (cases rs)
    case Nil
    then show ?thesis by simp
  next
    case (Cons r rs1)
    show ?thesis
    proof (cases rs1)
      case Nil
      then show ?thesis using details x Cons by simp
    next
      case rs1: (Cons q rs2)
      have r: "\<not> r_detail r" using details Cons rs1 by simp
      show ?thesis
      proof (cases "r_id r = i")
        case True
        then show ?thesis using details x nx Cons rs1 by simp
      next
        case False
        then have nx1: "case next_in i rs1 of Some q \<Rightarrow> \<not> r_detail q | None \<Rightarrow> True" using nx Cons rs1 by simp
        show ?thesis
        proof (cases "r_detail q")
          case True
          then have q: "r_id q \<noteq> i" using main Cons rs1 by auto
          then have "next_in i rs1 = next_in i rs2" using rs1 by (cases rs2) auto
          then have "details_ok (map r_detail (insert_after i x rs2))"
            using less.hyps [of rs2] details x main nx1 Cons rs1 True by simp
          then show ?thesis using q False True r Cons rs1 by simp
        next
          case nd: False
          then have "details_ok (map r_detail (insert_after i x rs1))"
            using less.hyps [of rs1] details x main nx1 Cons rs1 by simp
          then show ?thesis using nd False r Cons rs1 by (cases "r_id q = i") simp_all
        qed
      qed
    qed
  qed
qed

lemma wf_detail_inserted:
  assumes "detail_inserted i t t'" "wf_body t" "\<And>r. get_row i t = Some r \<Longrightarrow> \<not> r_detail r"
  shows "wf_body t'"
proof -
  let ?new = "insert_after i (new_detail (t_next_id t)) (t_rows t)"
  have d: "distinct (map r_id (t_rows t))" and b: "\<forall>i \<in> set (map r_id (t_rows t)). i < t_next_id t"
    and o: "details_ok (map r_detail (t_rows t))" using assms(2) by (auto simp: wf_body_def)
  have i: "map r_id (t_rows t') = map r_id ?new" "map r_detail (t_rows t') = map r_detail ?new" "t_next_id t' = Suc (t_next_id t)"
    using assms(1) skel_eqs unfolding detail_inserted_def by blast+
  have "\<forall>r \<in> set (t_rows t). r_id r = i \<longrightarrow> \<not> r_detail r" using assms(3) get_row_eq [OF d] by blast
  then have "details_ok (map r_detail ?new)"
    using assms(1) o by (intro insert_after_details) (auto simp: new_detail_def detail_inserted_def next_row_def)
  moreover have "distinct (map r_id ?new)" using d b by (intro insert_after_distinct) (auto simp: new_detail_def)
  moreover have "\<forall>i \<in> set (map r_id ?new). i < Suc (t_next_id t)"
    using insert_after_ids [of i "new_detail (t_next_id t)" "t_rows t"] b by (fastforce simp: new_detail_def)
  moreover have "\<forall>r \<in> set (t_rows t'). r_detail r \<longrightarrow> r_cells r = []"
  proof -
    have "set (insert_after i x rs) \<subseteq> insert x (set rs)" for x rs by (induction i x rs rule: insert_after.induct) auto
    then have "\<forall>r \<in> set ?new. r_detail r \<longrightarrow> r_cells r = []" using assms(2) by (fastforce simp: wf_body_def new_detail_def)
    moreover have "map shape (t_rows t') = map shape ?new" using assms(1) skel_shape unfolding detail_inserted_def by blast
    ultimately show ?thesis using shape_eqs(3) by blast
  qed
  ultimately show ?thesis unfolding wf_body_def i by simp
qed

section \<open>When no exception comes from a detail row\<close>

text \<open>Every cell is covered by a column, and no group has a name that every object inherits.\<close>

definition covered :: "footable \<Rightarrow> bool" where
  "covered t \<longleftrightarrow>
     (\<forall>r \<in> set (t_rows t). \<forall>k < length (r_cells r). getColumnFromTdIndex t k \<noteq> None) \<and>
     (\<forall>c \<in> set (ft_columns t). \<forall>g. co_group c = Some g \<longrightarrow> g \<notin> set inherited)"

lemma covered_cong:
  assumes "map (length \<circ> r_cells) (t_rows t') = map (length \<circ> r_cells) (t_rows t)" "ft_columns t' = ft_columns t"
  shows "covered t' = covered t"
proof -
  have gen: "(\<forall>r \<in> set rs. \<forall>k < length (r_cells r). P k) \<longleftrightarrow> (\<forall>n \<in> set (map (length \<circ> r_cells) rs). \<forall>k < n. P k)" for rs P by auto
  show ?thesis unfolding covered_def getColumnFromTdIndex_def assms(2) gen assms(1) by (rule refl)
qed

lemma skel_lengths:
  assumes "map skel rs = map skel rs'"
  shows "map (length \<circ> r_cells) rs = map (length \<circ> r_cells) rs'"
  using arg_cong [OF assms, of "map (\<lambda>(_, _, _, _, _, _, n). n)"] by (simp add: comp_def skel_def)

lemma covered_same_skel: "same_skel t t' \<Longrightarrow> covered t' = covered t"
  by (rule covered_cong) (auto simp: same_skel_def intro: skel_lengths frame_fields)

lemma covered_filled: "filled S t t' \<Longrightarrow> covered t' = covered t"
proof (rule covered_cong)
  assume f: "filled S t t'"
  then have "map (length \<circ> r_cells) (t_rows t') = map (length \<circ> r_cells) (fill (t_breakpoint_class t) S (t_rows t))"
    unfolding filled_def by (blast intro: skel_lengths)
  then show "map (length \<circ> r_cells) (t_rows t') = map (length \<circ> r_cells) (t_rows t)" by (simp add: fill_def comp_def)
  show "ft_columns t' = ft_columns t" using f frame_fields unfolding filled_def by blast
qed

lemma group_all_safe:
  "\<forall>d \<in> set ds. \<forall>g. dv_group d = Some g \<longrightarrow> g \<notin> set inherited \<Longrightarrow> group_all ds gs \<noteq> None"
  by (induction ds gs rule: group_all.induct) (auto simp: group_step_def split: option.splits if_splits)

lemma createDetail_safe:
  "\<forall>d \<in> set ds. \<forall>g. dv_group d = Some g \<longrightarrow> g \<notin> set inherited \<Longrightarrow> createDetail ds sep \<noteq> None"
  using group_all_safe by (auto simp: createDetail_def createGroupedDetail_def split: option.split)

lemma detail_cell_Inr:
  assumes "getColumnFromTdIndex t k = Some col"
  obtains vs' t' where "detail_cell i k vs t = Inr (vs', t')" "\<forall>d \<in> set vs'. d \<in> set vs \<or> dv_group d = co_group col"
  using assms that unfolding detail_cell_def
  by (cases "co_ignore col"; cases "row_cell i k t") (auto simp: Let_def)

lemma detail_cells_Inr:
  assumes "covered t" "\<forall>k \<in> set ks. getColumnFromTdIndex t k \<noteq> None"
    and "\<forall>d \<in> set vs. \<forall>g. dv_group d = Some g \<longrightarrow> g \<notin> set inherited"
  obtains vs' t' where "detail_cells i ks vs t = Inr (vs', t')" "\<forall>d \<in> set vs'. \<forall>g. dv_group d = Some g \<longrightarrow> g \<notin> set inherited"
  using assms
proof (induction ks arbitrary: vs t thesis)
  case (Cons k ks)
  obtain col where col: "getColumnFromTdIndex t k = Some col" using Cons.prems(3) by auto
  then have "col \<in> set (ft_columns t)" by (auto simp: getColumnFromTdIndex_def find_Some_iff)
  then have g: "\<forall>g. co_group col = Some g \<longrightarrow> g \<notin> set inherited" using Cons.prems(2) by (simp add: covered_def)
  obtain vs1 t1 where 1: "detail_cell i k vs t = Inr (vs1, t1)" "\<forall>d \<in> set vs1. d \<in> set vs \<or> dv_group d = co_group col"
    using detail_cell_Inr [OF col] by blast
  have s: "same_skel t t1" using detail_cell_skel [where i = i and k = k and vs = vs and t = t] 1(1) by simp
  have "covered t1" using Cons.prems(2) covered_same_skel [OF s] by simp
  moreover have "\<forall>k \<in> set ks. getColumnFromTdIndex t1 k \<noteq> None"
    using Cons.prems(3) s frame_fields(4) [of t t1] by (simp add: getColumnFromTdIndex_def same_skel_def)
  moreover have "\<forall>d \<in> set vs1. \<forall>g. dv_group d = Some g \<longrightarrow> g \<notin> set inherited" using 1(2) Cons.prems(4) g by metis
  ultimately show ?case using Cons.IH [where t = t1 and vs = vs1] Cons.prems(1) 1(1) by (metis detail_cells.simps(2) prod.case sum.case(2))
qed auto

lemma createOrUpdateDetailRow_safe:
  assumes "covered t"
  shows "createOrUpdateDetailRow i t = Done (state_of (createOrUpdateDetailRow i t))"
proof (cases "get_row i t")
  case (Some r)
  then have "r \<in> set (t_rows t)" by (auto simp: get_row_def find_Some_iff)
  then have "\<forall>k \<in> set (hidden_cells r). getColumnFromTdIndex t k \<noteq> None" using assms by (simp add: covered_def hidden_cells_def)
  then obtain vs t' where "detail_cells i (hidden_cells r) [] t = Inr (vs, t')"
      "\<forall>d \<in> set vs. \<forall>g. dv_group d = Some g \<longrightarrow> g \<notin> set inherited"
    using detail_cells_Inr [OF assms, of "hidden_cells r" "[]" i] by auto
  moreover from this(2) obtain items where "createDetail vs (opt_separator (ft_options t)) = Some items"
    using createDetail_safe by blast
  ultimately show ?thesis using Some
    by (auto simp: createOrUpdateDetailRow_def Let_def split: option.split)
qed (simp add: createOrUpdateDetailRow_def)

lemma show_pair_safe:
  assumes "covered t"
  shows "show_pair i t = Done (state_of (show_pair i t))"
proof -
  have "covered (upd_row a (set_shown True) (upd_row i (set_shown True) t)) = covered t" for a
    by (rule covered_cong) (auto simp: upd_row_def)
  then show ?thesis using createOrUpdateDetailRow_safe assms unfolding show_pair_def by (auto split: option.split)
qed

lemma each_show_pair_safe:
  assumes "covered t" "distinct (map r_id (t_rows t))"
  obtains t' where "each show_pair is t = Done t'" "filled (set is) t t'"
proof -
  have "\<exists>t'. each show_pair is t = Done t'" using assms
  proof (induction "is" arbitrary: t)
    case (Cons i "is")
    obtain u where u: "show_pair i t = Done u" using show_pair_safe [OF Cons.prems(1), of i] by blast
    then have f: "filled {i} t u" using show_pair_filled [OF Cons.prems(2), of i] by simp
    then show ?case using Cons.IH [of u] Cons.prems covered_filled [OF f] filled_ids [OF f] u by simp
  qed simp
  then show thesis using each_show_pair [OF assms(2), of "is"] that by (metis state_of.simps(1))
qed

section \<open>A sample table\<close>

text \<open>Concrete tables on which the theorems of the plugins are applied: rows of text cells under columns of their own.\<close>

definition sample_cell :: "string \<Rightarrow> cell" where
  "sample_cell s = \<lparr>c_th = False, c_nodes = [Text (js s)], c_value = None, c_value_text = [], c_bind = None, c_shown = True,
     c_visible = True, c_first = False, c_last = False, c_classes = []\<rparr>"

definition sample_row :: "nat \<Rightarrow> string list \<Rightarrow> row" where
  "sample_row i ss = \<lparr>r_id = i, r_detail = False, r_show = False, r_filtered = False, r_disabled = False, r_shown = True,
     r_created = False, r_cells = map sample_cell ss, r_span = 0, r_items = []\<rparr>"

definition sample_column :: "nat \<Rightarrow> string \<Rightarrow> column" where
  "sample_column k ty = \<lparr>co_index = k, co_hide = [(js ''default'', False)], co_type = js ty, co_name = js ''name'', co_ignore = False,
     co_toggle = False, co_className = None, co_matches = [k], co_names = [], co_group = None, co_groupName = None,
     co_isEditable = None, co_hasBreakpoint = False, co_sort_initial = None, co_sort_ignore = False, co_sort_match = k\<rparr>"

definition sample_options :: options where
  "sample_options = \<lparr>opt_breakpoints = [(js ''phone'', 480), (js ''tablet'', 1024)], opt_addRowToggle = True, opt_override = None,
     opt_separator = js '':'', opt_sort = True, opt_filter = True, opt_minimum = 2, opt_paginate = True, opt_pageSize = 10, opt_limit = 0\<rparr>"

definition sample_table :: "int \<Rightarrow> column list \<Rightarrow> row list \<Rightarrow> footable" where
  "sample_table psize cols rs =
     \<lparr>a_sort_off = False, a_page_off = False, a_filter_off = False, a_pageSize = psize, a_limit = 0, a_manual = False, a_minimum = 0,
      a_text_only = False, a_group_row = False, t_visible = True, t_loading = False, t_loaded = True, t_main = True,
      t_breakpoint_class = False, t_size_class = None, t_no_paging = False, d_breakpoint = Some (js ''default''), d_info = None,
      d_sorted = None, d_filter_string = None, d_current_filter = [], d_currentPage = 0, t_headers = [], t_groups = None,
      t_rows = rs, t_foot = [], t_colgroups = [], t_toggle_bound = [], t_next_id = 100, t_now = js ''0'', t_nav = Some [],
      ft_options = sample_options, ft_columns = cols, ft_breakpoints = [],
      ft_pageInfo = \<lparr>i_pageSize = 0, i_limitNavigation = 0, i_currentPage = 0, i_pages = [], i_control = False, i_manual = False\<rparr>\<rparr>"

definition sample3 :: footable where
  "sample3 = sample_table 2 [sample_column 0 ''alpha'', sample_column 1 ''numeric'']
     [sample_row 1 [''pear'', ''3''], sample_row 2 [''Apple'', ''10''], sample_row 3 [''fig'', ''-1'']]"

lemmas sample_defs = sample3_def sample_table_def sample_row_def sample_cell_def sample_column_def sample_options_def

lemma covered_sample3: "covered sample3"
  by (simp add: covered_def sample_defs getColumnFromTdIndex_def less_Suc_eq)

end
