(* ===== verification/FootableCore.thy ===== *)
theory FootableCore
  imports FootableRows
begin

text \<open>
  Properties of the core of \<^verbatim>\<open>footable.js\<close> on its own: which breakpoint a width selects, which cells a header covers, what the
  timers promise, and some concrete runs that show where rows and inputs get lost.
\<close>

section \<open>Breakpoints\<close>

lemma by_width_consistent: "consistent by_width A"
  unfolding consistent_def by_width_def by (auto simp: sgn_if)

lemma find_sorted:
  assumes "sorted_wrt (\<lambda>a b. snd a \<le> snd b) bps" "find P bps = Some x" "y \<in> set bps" "P y"
  shows "snd x \<le> (snd y :: int)"
  using assms by (induction bps) (auto split: if_splits)

lemma find_mem: "find P xs = Some x \<Longrightarrow> x \<in> set xs \<and> P x"
  by (induction xs) (auto split: if_splits)

text \<open>
  C24 (functional). The breakpoint chosen for a width is the smallest one that is at least as wide, and the default layout is chosen
  exactly when there is none; the order in which the options name the breakpoints does not matter, whatever sort of arrays the
  engine uses.
\<close>

theorem breakpoint_is_smallest:
  assumes "sorts srt"
  shows "case find_breakpoint (srt by_width bps) w of
      None \<Rightarrow> breakpoint_name (srt by_width bps) w = js ''default'' \<and> (\<forall>(n, b) \<in> set bps. b \<noteq> 0 \<longrightarrow> b < w)
    | Some (n, b) \<Rightarrow> breakpoint_name (srt by_width bps) w = n \<and> (n, b) \<in> set bps \<and> b \<noteq> 0 \<and> w \<le> b \<and>
        (\<forall>(n', b') \<in> set bps. b' \<noteq> 0 \<longrightarrow> w \<le> b' \<longrightarrow> b \<le> b')"
proof -
  have a: "array_sort srt" using assms by (simp add: sorts_array_sort)
  let ?s = "srt by_width bps" and ?P = "\<lambda>(n, bw). bw \<noteq> (0 :: int) \<and> w \<le> bw"
  have set: "set ?s = set bps" by (rule array_sort.srt_set [OF a])
  have "sorted_wrt (\<lambda>a b. by_width a b \<le> 0) ?s" by (rule array_sort.srt_sorted [OF a by_width_consistent])
  then have sorted: "sorted_wrt (\<lambda>a b. snd a \<le> snd b) ?s" by (rule sorted_wrt_mono_rel [rotated]) (simp add: by_width_def)
  show ?thesis
  proof (cases "find_breakpoint ?s w")
    case None
    then have "\<forall>(n, b) \<in> set bps. b \<noteq> 0 \<longrightarrow> b < w" by (auto simp: find_breakpoint_def find_None_iff set not_le)
    then show ?thesis using None by (simp add: breakpoint_name_def)
  next
    case (Some x)
    obtain n b where x: "x = (n, b)" by (cases x)
    have f: "find ?P ?s = Some (n, b)" using Some x by (simp add: find_breakpoint_def)
    have "(n, b) \<in> set bps" "b \<noteq> 0" "w \<le> b" using find_mem [OF f] set by auto
    moreover have "b \<le> b'" if "(n', b') \<in> set bps" "b' \<noteq> 0" "w \<le> b'" for n' b'
      using find_sorted [OF sorted f, of "(n', b')"] that set by auto
    ultimately show ?thesis using Some x by (auto simp: breakpoint_name_def)
  qed
qed

theorem breakpoint_is_smallest_witness:
  "case find_breakpoint (insertion_sort by_width [(js ''tablet'', 1024), (js ''phone'', 480)]) 300 of
      None \<Rightarrow> False
    | Some (n, b) \<Rightarrow> (n, b) \<in> {(js ''tablet'', 1024), (js ''phone'', 480)} \<and> 300 \<le> b \<and> b \<le> 480"
  using breakpoint_is_smallest [OF insertion_sort_sorts, of "[(js ''tablet'', 1024), (js ''phone'', 480)]" 300]
  by (auto split: option.splits)

section \<open>Columns\<close>

text \<open>The number of cells of a row that a header cell covers.\<close>

definition width_of :: "th \<Rightarrow> nat" where
  "width_of h = max 1 (h_colspan h)"

definition keeps_matches :: "(th \<Rightarrow> column \<Rightarrow> column) \<Rightarrow> bool" where
  "keeps_matches colData \<longleftrightarrow> (\<forall>h c. co_matches (colData h c) = co_matches c \<and> co_index (colData h c) = co_index c)"

lemma getColumnData_matches:
  "keeps_matches colData \<Longrightarrow> co_matches (getColumnData colData t off i h) = [i + off ..< i + off + width_of h] \<and>
     co_index (getColumnData colData t off i h) = i"
proof -
  have m: "map (\<lambda>i. i + k) [0 ..< n] = [k ..< k + n]" for k n by (simp add: map_add_upt add.commute)
  assume "keeps_matches colData"
  then show ?thesis by (auto simp: getColumnData_def keeps_matches_def width_of_def Let_def m max_def)
qed

lemma read_columns_matches:
  assumes "keeps_matches colData" "start = i + off + (if 1 < pc then pc - 1 else 0)"
  shows "map co_matches (read_columns colData t off pc i hs) =
      map (\<lambda>k. [start + sum_list (map width_of (take k hs)) ..< start + sum_list (map width_of (take (Suc k) hs))]) [0 ..< length hs] \<and>
    map co_index (read_columns colData t off pc i hs) = [i ..< i + length hs]"
  using assms(2)
proof (induction hs arbitrary: off pc i start)
  case (Cons h hs)
  let ?off = "off + (if 1 < pc then pc - 1 else 0)"
  have start: "start = i + ?off" using Cons.prems by simp
  have nx: "start + width_of h = Suc i + ?off + (if 1 < h_colspan h then h_colspan h - 1 else 0)"
    unfolding start width_of_def by auto
  have first: "co_matches (getColumnData colData t ?off i h) = [start ..< start + width_of h]" "co_index (getColumnData colData t ?off i h) = i"
    using getColumnData_matches [OF assms(1)] start by blast+
  have up: "[0 ..< length (h # hs)] = 0 # map Suc [0 ..< length hs]" unfolding map_Suc_upt by (simp only: list.size(4) add_Suc_right add_0_right, rule upt_conv_Cons, simp)
  have up': "[i ..< i + length (h # hs)] = i # [Suc i ..< Suc i + length hs]"
    by (simp only: list.size(4) add_Suc_right add_0_right add_Suc, rule upt_conv_Cons, simp)
  show ?case unfolding up up' using Cons.IH [OF nx] first by (simp add: Let_def add.assoc)
qed simp

text \<open>
  C25 (functional). Each header cell covers the cells of a row that lie under it: the columns read from a header cover, one after the
  other, as many cells as their spans say, without a gap and without an overlap, so that looking up a cell of a row finds the one
  column above it and no cell beyond the header finds one.
\<close>

theorem columns_cover_cells:
  assumes "keeps_matches colData" "ft_columns u = read_columns colData t 0 0 0 (t_headers t)"
  shows "concat (map co_matches (ft_columns u)) = [0 ..< sum_list (map width_of (t_headers t))] \<and>
    (\<forall>j < length (t_headers t). \<forall>k. sum_list (map width_of (take j (t_headers t))) \<le> k \<longrightarrow>
       k < sum_list (map width_of (take (Suc j) (t_headers t))) \<longrightarrow> map_option co_index (getColumnFromTdIndex u k) = Some j) \<and>
    (\<forall>k. sum_list (map width_of (t_headers t)) \<le> k \<longrightarrow> getColumnFromTdIndex u k = None)"
proof -
  let ?hs = "t_headers t" and ?S = "\<lambda>k. sum_list (map width_of (take k (t_headers t)))"
  have m: "map co_matches (ft_columns u) = map (\<lambda>k. [?S k ..< ?S (Suc k)]) [0 ..< length ?hs]"
    and ix: "map co_index (ft_columns u) = [0 ..< length ?hs]"
    using read_columns_matches [OF assms(1), of 0 0 0 0 t ?hs] assms(2) by simp_all
  have step: "?S k \<le> ?S (Suc k)" for k by (cases "k < length ?hs") (simp_all add: take_Suc_conv_app_nth)
  then have mono: "i \<le> j \<Longrightarrow> ?S i \<le> ?S j" for i j by (rule lift_Suc_mono_le)
  have cc: "concat (map (\<lambda>k. [?S k ..< ?S (Suc k)]) [0 ..< n]) = [0 ..< ?S n]" for n
  proof (induction n)
    case (Suc n)
    have "[0 ..< ?S n] @ [?S n ..< ?S (Suc n)] = [0 ..< ?S (Suc n)]" using step [of n] by (metis le_add_diff_inverse upt_add_eq_append zero_le)
    then show ?case using Suc by simp
  qed simp
  have total: "concat (map co_matches (ft_columns u)) = [0 ..< ?S (length ?hs)]" unfolding m by (rule cc)
  have nth: "co_matches (ft_columns u ! j) = [?S j ..< ?S (Suc j)]" "co_index (ft_columns u ! j) = j" "j < length (ft_columns u)"
    if "j < length ?hs" for j
  proof -
    have len: "length (ft_columns u) = length ?hs" using ix by (metis length_map length_upt diff_zero)
    show "j < length (ft_columns u)" using that len by simp
    show "co_matches (ft_columns u ! j) = [?S j ..< ?S (Suc j)]" "co_index (ft_columns u ! j) = j"
      using arg_cong [OF m, of "\<lambda>xs. xs ! j"] arg_cong [OF ix, of "\<lambda>xs. xs ! j"] that len by simp_all
  qed
  have "map_option co_index (getColumnFromTdIndex u k) = Some j" if "j < length ?hs" "?S j \<le> k" "k < ?S (Suc j)" for j k
  proof -
    have len: "length (ft_columns u) = length ?hs" using ix by (metis length_map length_upt diff_zero)
    have "k \<notin> set (co_matches (ft_columns u ! i))" if "i < j" for i
      using nth(1) [of i] that \<open>j < length ?hs\<close> mono [of "Suc i" j] \<open>?S j \<le> k\<close> by auto
    moreover have "k \<in> set (co_matches (ft_columns u ! j))" using nth(1) [OF that(1)] that by simp
    ultimately have "getColumnFromTdIndex u k = Some (ft_columns u ! j)"
      unfolding getColumnFromTdIndex_def find_Some_iff using nth(3) [OF that(1)] by blast
    then show ?thesis using nth(2) [OF that(1)] by simp
  qed
  moreover have "getColumnFromTdIndex u k = None" if "?S (length ?hs) \<le> k" for k
  proof -
    have "k \<notin> set (concat (map co_matches (ft_columns u)))" unfolding total using that by simp
    then show ?thesis unfolding getColumnFromTdIndex_def find_None_iff by auto
  qed
  ultimately show ?thesis using total by simp
qed

definition sample_th :: "nat \<Rightarrow> th" where
  "sample_th n = \<lparr>h_td = False, h_hide = None, h_type = None, h_name = None, h_text = js ''head'', h_ignore = False, h_toggle = False,
     h_class = None, h_group = None, h_editable = None, h_colspan = n, h_names = None, h_sort_initial = None, h_sort_ignore = False,
     h_sort_match = 0, h_sortable = False, h_sorted = False, h_desc = False, h_shown = True, h_visible = True, h_first = False, h_last = False\<rparr>"

theorem columns_cover_cells_witness:
  "map_option co_index (getColumnFromTdIndex
     (sample3\<lparr>ft_columns := read_columns (\<lambda>h c. c) (sample3\<lparr>t_headers := [sample_th 0, sample_th 3, sample_th 1]\<rparr>) 0 0 0 [sample_th 0, sample_th 3, sample_th 1]\<rparr>) 4)
   = Some 2"
proof -
  let ?t = "sample3\<lparr>t_headers := [sample_th 0, sample_th 3, sample_th 1]\<rparr>"
  let ?u = "sample3\<lparr>ft_columns := read_columns (\<lambda>h c. c) ?t 0 0 0 (t_headers ?t)\<rparr>"
  have "keeps_matches (\<lambda>h c. c)" "ft_columns ?u = read_columns (\<lambda>h c. c) ?t 0 0 0 (t_headers ?t)"
    by (simp_all add: keeps_matches_def)
  from conjunct1 [OF conjunct2 [OF columns_cover_cells [OF this]], rule_format, of 2 4] show ?thesis
    by (simp add: sample_th_def width_of_def)
qed

section \<open>Timers\<close>

text \<open>
  What scripts and the browser can do with a timer: start it, stop it, restart it, or let a pending timeout run. Its code may
  call the timer and may throw afterwards, unless the run is \<open>calm\<close>.
\<close>

datatype timer_call = Start | Stop

definition timer_calls :: "timer_call list \<Rightarrow> timer \<times> clock \<Rightarrow> timer \<times> clock" where
  "timer_calls cs s = fold (\<lambda>c. case c of Start \<Rightarrow> timer_start | Stop \<Rightarrow> timer_stop) cs s"

inductive timer_run :: "bool \<Rightarrow> timer \<times> clock \<Rightarrow> bool" for calm where
  fresh: "timer_run calm (new_timer, \<lparr>k_next = n, k_pending = []\<rparr>)"
| start: "timer_run calm s \<Longrightarrow> timer_run calm (timer_start s)"
| stop: "timer_run calm s \<Longrightarrow> timer_run calm (timer_stop s)"
| restart: "timer_run calm s \<Longrightarrow> timer_run calm (timer_restart s)"
| fire: "timer_run calm s \<Longrightarrow> i \<in> set (k_pending (snd s)) \<Longrightarrow> calm \<longrightarrow> cs = [] \<and> \<not> threw \<Longrightarrow>
    timer_run calm (timer_fire (\<lambda>s. (threw, timer_calls cs s)) i s)"

text \<open>What holds whatever the codes do, and what calm runs add.\<close>

definition timer_known :: "timer \<times> clock \<Rightarrow> bool" where
  "timer_known s \<longleftrightarrow> (tm_busy (fst s) \<longleftrightarrow> tm_id (fst s) \<noteq> None) \<and> (\<forall>i \<in> set (k_pending (snd s)). i < k_next (snd s))"

definition timer_ok :: "timer \<times> clock \<Rightarrow> bool" where
  "timer_ok s \<longleftrightarrow> timer_known s \<and> k_pending (snd s) = (case tm_id (fst s) of Some i \<Rightarrow> [i] | None \<Rightarrow> [])"

lemma timer_known_ops:
  "timer_known s \<Longrightarrow> timer_known (timer_stop s)" "timer_known s \<Longrightarrow> timer_known (timer_start s)" "timer_known s \<Longrightarrow> timer_known (timer_restart s)"
  by (auto simp: timer_known_def timer_stop_def timer_start_def timer_restart_def less_SucI split: option.splits prod.splits)

lemma timer_known_calls: "timer_known s \<Longrightarrow> timer_known (timer_calls cs s)"
  unfolding timer_calls_def by (induction cs arbitrary: s) (auto simp: timer_known_ops split: timer_call.split)

lemma timer_known_fire:
  assumes "timer_known s" "\<And>u. timer_known u \<Longrightarrow> timer_known (snd (code u))"
  shows "timer_known (timer_fire code i s)"
proof -
  obtain t k where s: "s = (t, k)" by (cases s)
  have "timer_known (t, k\<lparr>k_pending := filter (\<lambda>j. j \<noteq> i) (k_pending k)\<rparr>)" using assms(1) by (auto simp: timer_known_def s)
  from assms(2) [OF this] show ?thesis by (auto simp: timer_fire_def s timer_known_def split: prod.split)
qed

lemma timer_ok_ops:
  assumes "timer_ok s"
  shows "timer_ok (timer_stop s)" "timer_ok (timer_start s)" "timer_ok (timer_restart s)"
    "i \<in> set (k_pending (snd s)) \<Longrightarrow> timer_ok (timer_fire (\<lambda>s. (False, s)) i s)" "k_pending (snd (timer_stop s)) = []"
  using assms
  by (auto simp: timer_ok_def timer_known_def timer_stop_def timer_start_def timer_restart_def timer_fire_def split: option.splits prod.splits)

lemma timer_run_known: "timer_run calm s \<Longrightarrow> timer_known s"
proof (induction rule: timer_run.induct)
  case (fire s i cs threw)
  then show ?case by (intro timer_known_fire) (simp_all add: timer_known_calls)
qed (simp_all add: timer_known_ops, simp add: timer_known_def new_timer_def)

lemma timer_run_ok: "timer_run calm s \<Longrightarrow> calm \<Longrightarrow> timer_ok s"
proof (induction rule: timer_run.induct)
  case (fire s i cs threw)
  then show ?case using timer_ok_ops(4) [of s i] by (simp add: timer_calls_def)
qed (simp_all add: timer_ok_ops, simp add: timer_ok_def timer_known_def new_timer_def)

lemma timer_restart_eq:
  assumes "timer_known s"
  shows "timer_restart s =
    (fst s\<lparr>tm_id := Some (k_next (snd s)), tm_busy := True\<rparr>,
     snd s\<lparr>k_next := Suc (k_next (snd s)), k_pending := filter (\<lambda>j. tm_id (fst s) \<noteq> Some j) (k_pending (snd s)) @ [k_next (snd s)]\<rparr>)"
proof -
  have "filter (\<lambda>j. Some i \<noteq> Some j) xs = filter (\<lambda>j. j \<noteq> i) xs" for i and xs :: "nat list" by (rule filter_cong) auto
  then show ?thesis using assms by (cases s) (auto simp: timer_known_def timer_restart_def timer_start_def timer_stop_def split: option.splits)
qed

text \<open>
  C23 (safety). However a timer is used, it is busy exactly while it knows a timeout, and a restart leaves pending a new one, which
  it knows, and not the one it knew. As long as the codes of its timeouts neither throw nor call the timer, at most one timeout is
  pending, the timer is busy exactly while one is, and a stop leaves none, so that of the keys pressed or the window sizes seen in
  quick succession only the last is handled. In such a state, a code that throws leaves the timer busy with nothing pending, so
  that a start has no effect; and a code that restarts its timer leaves a timeout pending that the timer does not know, so that a
  start makes a second one.
\<close>

theorem timer_one_pending:
  assumes "timer_run calm s"
  shows "(tm_busy (fst s) \<longleftrightarrow> tm_id (fst s) \<noteq> None) \<and>
    (\<exists>i. k_pending (snd (timer_restart s)) = filter (\<lambda>j. tm_id (fst s) \<noteq> Some j) (k_pending (snd s)) @ [i] \<and>
      i \<notin> set (k_pending (snd s)) \<and> tm_id (fst (timer_restart s)) = Some i) \<and>
    (calm \<longrightarrow> length (k_pending (snd s)) \<le> 1 \<and> (tm_busy (fst s) \<longleftrightarrow> k_pending (snd s) \<noteq> []) \<and>
      k_pending (snd (timer_stop s)) = [] \<and> length (k_pending (snd (timer_restart s))) = 1 \<and>
      (\<forall>i \<in> set (k_pending (snd s)).
        (let u = timer_fire (\<lambda>s. (True, s)) i s in tm_busy (fst u) \<and> k_pending (snd u) = [] \<and> timer_start u = u) \<and>
        (let u = timer_fire (\<lambda>s. (False, timer_restart s)) i s
         in \<not> tm_busy (fst u) \<and> length (k_pending (snd u)) = 1 \<and> length (k_pending (snd (timer_start u))) = 2)))"
proof -
  have k: "timer_known s" using assms by (rule timer_run_known)
  note r = timer_restart_eq [OF k]
  have "length (k_pending (snd s)) \<le> 1 \<and> (tm_busy (fst s) \<longleftrightarrow> k_pending (snd s) \<noteq> []) \<and>
      k_pending (snd (timer_stop s)) = [] \<and> length (k_pending (snd (timer_restart s))) = 1" if calm
    using timer_run_ok [OF assms that] timer_ok_ops(5) by (auto simp: timer_ok_def timer_known_def r split: option.splits)
  moreover have "(let u = timer_fire (\<lambda>s. (True, s)) i s in tm_busy (fst u) \<and> k_pending (snd u) = [] \<and> timer_start u = u) \<and>
      (let u = timer_fire (\<lambda>s. (False, timer_restart s)) i s
       in \<not> tm_busy (fst u) \<and> length (k_pending (snd u)) = 1 \<and> length (k_pending (snd (timer_start u))) = 2)"
    if c: calm and i: "i \<in> set (k_pending (snd s))" for i
  proof -
    obtain t c where s: "s = (t, c)" by (cases s)
    have "tm_id t = Some i" "k_pending c = [i]" "tm_busy t"
      using timer_run_ok [OF assms c] i by (auto simp: s timer_ok_def timer_known_def split: option.splits)
    then show ?thesis by (simp add: s timer_fire_def timer_restart_def timer_start_def timer_stop_def Let_def)
  qed
  moreover have "k_next (snd s) \<notin> set (k_pending (snd s))" using k by (auto simp: timer_known_def)
  ultimately show ?thesis using k by (auto simp: timer_known_def r)
qed

theorem timer_one_pending_witness:
  "length (k_pending (snd (timer_restart (timer_start (new_timer, \<lparr>k_next = 0, k_pending = []\<rparr>))))) \<le> 1"
  using timer_one_pending [OF timer_run.restart [OF timer_run.start [OF timer_run.fresh [of True 0]]]] by blast

section \<open>Where rows get lost\<close>

text \<open>
  Removing a row after a reset: the mark that its detail was created is still there, so the next row of data goes with it.
\<close>

lemma reset_then_remove_takes_two_rows:
  "let t = sample3\<lparr>t_rows := [(sample_row 1 [''a''])\<lparr>r_created := True\<rparr>, new_detail 9, sample_row 2 [''b''], sample_row 3 [''c'']]\<rparr> in
   map r_id (t_rows (state_of (removeRow Done 1 (reset t)))) = [3]"
  by (simp add: sample_defs new_detail_def reset_def removeRow_def remove_target_def get_row_def next_row_def del_row_def main_rows_def Let_def)

text \<open>
  Removing a closed row after a redrawing, which clears that mark: the detail row stays and stands behind the row before.
\<close>

lemma stale_detail_is_left_behind:
  "let t = sample3\<lparr>t_rows := [sample_row 1 [''a''], (sample_row 2 [''b''])\<lparr>r_created := False\<rparr>, new_detail 9, sample_row 3 [''c'']]\<rparr> in
   map r_id (t_rows (state_of (removeRow Done 2 t))) = [1, 9, 3]"
  by (simp add: sample_defs new_detail_def removeRow_def remove_target_def get_row_def next_row_def del_row_def Let_def)

text \<open>Expanding a row without hidden cells shows the next row of data, here one that is filtered out.\<close>

lemma expanding_shows_a_filtered_row:
  "let t = sample3\<lparr>t_rows := [sample_row 1 [''a''], (sample_row 2 [''b''])\<lparr>r_filtered := True, r_shown := False\<rparr>]\<rparr> in
   map (\<lambda>r. (r_filtered r, r_shown r)) (t_rows (state_of (toggleDetail 1 t))) = [(False, True), (True, True)]"
  by (simp add: sample_defs toggleDetail_def createOrUpdateDetailRow_def get_row_def hidden_cells_def row_visible_def
      show_next_def next_row_def upd_row_def set_shown_def Let_def)

text \<open>The value zero of the attribute \<^verbatim>\<open>data-value\<close> gives way to the text of the cell.\<close>

lemma zero_value_is_ignored:
  "parse_alpha ((sample_cell ''n/a'')\<lparr>c_value := Some (VNum (Fin 0)), c_value_text := js ''0''\<rparr>) = VStr (js ''n/a'')"
  by (simp add: parse_alpha_def or_value_def cell_text_def sample_cell_def js_trim_def is_space_def)

text \<open>A group with an inherited name throws.\<close>

lemma inherited_group_throws:
  "createGroupedDetail [\<lparr>dv_name = [], dv_value = VStr [], dv_display = [], dv_group = Some (js ''constructor''), dv_groupName = None, dv_bind = None\<rparr>] = None"
  by (simp add: createGroupedDetail_def group_step_def none_key_def inherited_def)

text \<open>A call with breakpoints of its own leaves none for the next call.\<close>

lemma own_breakpoints_clear_the_defaults:
  "bps \<noteq> None \<Longrightarrow> fst (fn_footable None m (snd (fn_footable bps n s))) = []"
  by (simp add: fn_footable_def obj_extend_def Let_def)

end
