(* ===== verification/FootablePaginate.thy ===== *)
theory FootablePaginate
  imports FootableRows
begin

text \<open>
  \<^verbatim>\<open>src/src/qt/res/assets/plugins/footable/footable.paginate.js\<close>: the rows of a table in pages, and the buttons that lead from
  page to page. What handlers of the page may answer is the record \<open>pager\<close>: the pages they make of
  \<^verbatim>\<open>footable_create_pages\<close>, and whether they cancel \<^verbatim>\<open>footable_paging\<close>.
\<close>

record pager =
  on_create_pages :: "nat list list \<Rightarrow> nat list list"
  cancels_paging :: "int \<Rightarrow> bool"

section \<open>Pages\<close>

definition new_pageInfo :: "footable \<Rightarrow> pageInfo" where
  "new_pageInfo t =
     \<lparr>i_pageSize = (if a_pageSize t \<noteq> 0 then a_pageSize t else opt_pageSize (ft_options t)),
      i_limitNavigation = (if a_limit t \<noteq> 0 then a_limit t else if opt_limit (ft_options t) \<noteq> 0 then opt_limit (ft_options t) else 0),
      i_currentPage = d_currentPage t, i_pages = [], i_control = False, i_manual = a_manual t\<rparr>"

definition limited :: "pageInfo \<Rightarrow> bool" where
  "limited info \<longleftrightarrow> 0 < i_limitNavigation info"

text \<open>
  The loop over the rows, \<open>n\<close> of them in all, from the \<open>i\<close>-th on. \<open>rest\<close> is \<^verbatim>\<open>rows.length % info.pageSize\<close>, without a value
  for the page size zero.
\<close>

fun page_loop :: "int \<Rightarrow> int \<Rightarrow> int option \<Rightarrow> int \<Rightarrow> int \<Rightarrow> 'a list \<Rightarrow> 'a list \<Rightarrow> 'a list list \<Rightarrow> 'a list \<Rightarrow> 'a list list \<times> 'a list" where
  "page_loop psize n rest i pages page lastPage acc [] = (acc, lastPage)"
| "page_loop psize n rest i pages page lastPage acc (r # rs) =
     (if i = pages * psize - 1 then page_loop psize n rest (i + 1) (pages + 1) [] lastPage (acc @ [page @ [r]]) rs
      else if (case rest of Some k \<Rightarrow> n - k \<le> i | None \<Rightarrow> False)
           then page_loop psize n rest (i + 1) pages (page @ [r]) (lastPage @ [r]) acc rs
           else page_loop psize n rest (i + 1) pages (page @ [r]) lastPage acc rs)"

definition split_pages :: "int \<Rightarrow> 'a list \<Rightarrow> 'a list list \<times> 'a list" where
  "split_pages psize rs =
     (let n = int (length rs) in
      page_loop psize n (if psize = 0 then None else Some (js_rem n psize)) 0 1 [] [] [] rs)"

definition page_rows :: "footable \<Rightarrow> nat list" where
  "page_rows t = map r_id (filter (\<lambda>r. \<not> r_filtered r \<and> \<not> r_detail r) (t_rows t))"

definition createPages :: "pager \<Rightarrow> footable \<Rightarrow> footable" where
  "createPages pg t =
     (let info = ft_pageInfo t;
          (full, lastPage) = split_pages (i_pageSize info) (page_rows t);
          pages = on_create_pages pg full @ (if lastPage \<noteq> [] then [lastPage] else []);
          cur1 = (if int (length pages) \<le> i_currentPage info then int (length pages) - 1 else i_currentPage info);
          cur2 = (if cur1 < 0 then 0 else cur1)
      in t\<lparr>ft_pageInfo := info\<lparr>i_pages := pages, i_currentPage := cur2\<rparr>, t_no_paging := (length pages = 1)\<rparr>)"

section \<open>Buttons\<close>

definition new_button :: "target \<Rightarrow> button" where
  "new_button g = \<lparr>b_target = g, b_hidden = False, b_active = False, b_disabled = False, b_none = False\<rparr>"

definition is_page :: "button \<Rightarrow> bool" where
  "is_page b \<longleftrightarrow> (case b_target b of ToPage _ \<Rightarrow> True | _ \<Rightarrow> False)"

text \<open>
  \<^verbatim>\<open>createLimited\<close>: only the buttons of the pages from \<open>start\<close> on, after the button to the pages before, which is hidden at the
  start, as are those to the pages behind at the end. \<open>None\<close> is a start that is not a number.
\<close>

definition limited_pages :: "pageInfo \<Rightarrow> int \<Rightarrow> button list" where
  "limited_pages info start =
     map (\<lambda>i. new_button (ToPage (int i)))
       (filter (\<lambda>i. start \<le> int i \<and> int i < start + i_limitNavigation info \<and> i_pages info ! i \<noteq> []) [0 ..< length (i_pages info)])"

fun after_prev :: "button list \<Rightarrow> button list \<Rightarrow> button list" where
  "after_prev new [] = []"
| "after_prev new (b # bs) = (if b_target b = LimitPrev then b # new @ after_prev new bs else b # after_prev new bs)"

definition createLimited :: "pageInfo \<Rightarrow> int option \<Rightarrow> button list \<Rightarrow> button list" where
  "createLimited info start0 nav =
     (let start = (case start0 of Some s \<Rightarrow> s | None \<Rightarrow> 0);
          nav1 = after_prev (limited_pages info start) (filter (\<lambda>b. \<not> is_page b) nav)
      in map (\<lambda>b. if b_target b = LimitPrev then b\<lparr>b_hidden := (start = 0)\<rparr>
                  else if b_target b = LimitNext \<or> b_target b = LimitLast
                  then b\<lparr>b_hidden := (int (length (i_pages info)) \<le> start + i_limitNavigation info)\<rparr>
                  else b) nav1)"

definition setPagingClasses :: "int \<Rightarrow> int \<Rightarrow> button list \<Rightarrow> button list" where
  "setPagingClasses currentPage pageCount nav =
     map (\<lambda>b.
       let b1 = (if b_target b = ToPage currentPage then b\<lparr>b_active := True\<rparr> else b);
           b2 = (if pageCount - 1 \<le> currentPage
                 then (if b_target b = ToNext \<or> b_target b = ToLast then b1\<lparr>b_disabled := True\<rparr>
                       else if b_target b = LimitLast then b1\<lparr>b_none := True\<rparr> else b1)
                 else b1)
       in if currentPage < 1 \<and> (b_target b = ToFirst \<or> b_target b = ToPrev) then b2\<lparr>b_disabled := True\<rparr> else b2) nav"

definition clear_classes :: "button list \<Rightarrow> button list" where
  "clear_classes nav = map (\<lambda>b. b\<lparr>b_active := False, b_disabled := False, b_none := False\<rparr>) nav"

definition page_buttons :: "pageInfo \<Rightarrow> button list" where
  "page_buttons info =
     map (\<lambda>i. new_button (ToPage (int i))) (filter (\<lambda>i. i_pages info ! i \<noteq> []) [0 ..< length (i_pages info)])"

definition all_buttons :: "pageInfo \<Rightarrow> button list" where
  "all_buttons info =
     (if i_pages info = [] then []
      else (if limited info
            then createLimited info (Some 0) (map new_button [ToFirst, ToPrev, LimitPrev, LimitNext, LimitLast])
            else map new_button [ToFirst, ToPrev] @ page_buttons info) @
           map new_button [ToNext, ToLast])"

definition upd_nav :: "(button list \<Rightarrow> button list) \<Rightarrow> footable \<Rightarrow> footable" where
  "upd_nav f t = t\<lparr>t_nav := map_option f (t_nav t)\<rparr>"

definition page_classes :: "footable \<Rightarrow> footable" where
  "page_classes t = upd_nav (setPagingClasses (i_currentPage (ft_pageInfo t)) (int (length (i_pages (ft_pageInfo t))))) t"

definition createNavigation :: "footable \<Rightarrow> footable" where
  "createNavigation t =
     (case t_nav t of
        None \<Rightarrow> t
      | Some _ \<Rightarrow>
          page_classes (t\<lparr>ft_pageInfo := (ft_pageInfo t)\<lparr>i_control := True\<rparr>, t_nav := Some (all_buttons (ft_pageInfo t))\<rparr>))"

section \<open>Showing a page\<close>

definition showRow :: "nat \<Rightarrow> footable \<Rightarrow> outcome" where
  "showRow i t =
     (case get_row i t of
        None \<Rightarrow> Done t
      | Some r \<Rightarrow>
          (case next_row i t of
             Some q \<Rightarrow>
               if t_breakpoint_class t \<and> r_show r \<and> r_detail q
               then createOrUpdateDetailRow i (upd_row (r_id q) (set_shown True) (upd_row i (set_shown True) t))
               else Done (upd_row i (set_shown True) t)
           | None \<Rightarrow> Done (upd_row i (set_shown True) t)))"

definition hide_rows :: "footable \<Rightarrow> footable" where
  "hide_rows t = t\<lparr>t_rows := map (set_shown False) (t_rows t)\<rparr>"

text \<open>An index outside the array gives no rows.\<close>

definition page_at :: "pageInfo \<Rightarrow> int \<Rightarrow> nat list" where
  "page_at info k = (if 0 \<le> k \<and> k < int (length (i_pages info)) then i_pages info ! nat k else [])"

definition fillPage :: "int \<Rightarrow> footable \<Rightarrow> outcome" where
  "fillPage k t =
     (let t1 = t\<lparr>ft_pageInfo := (ft_pageInfo t)\<lparr>i_currentPage := k\<rparr>, d_currentPage := k\<rparr>
      in each showRow (page_at (ft_pageInfo t1) k) (hide_rows t1))"

definition paginate :: "pager \<Rightarrow> int \<Rightarrow> footable \<Rightarrow> outcome" where
  "paginate pg k t =
     (let info = ft_pageInfo t in
      if i_manual info \<or> i_currentPage info \<noteq> k \<or> \<not> list_ex (row_visible t) (t_rows t)
      then if cancels_paging pg k then Done t
           else and_then (fillPage k t)
                  (\<lambda>t1. if i_control (ft_pageInfo t1) then Done (page_classes (upd_nav clear_classes t1)) else Thrown t1)
      else Done t)"

definition setupPaging :: "pager \<Rightarrow> footable \<Rightarrow> outcome" where
  "setupPaging pg t =
     (let t1 = createNavigation (createPages pg (t\<lparr>ft_pageInfo := new_pageInfo t\<rparr>)) in
      and_then (paginate pg (i_currentPage (ft_pageInfo t1)) t1) (\<lambda>t2. fillPage (i_currentPage (ft_pageInfo t2)) t2))"

text \<open>The handler that \<^verbatim>\<open>init\<close> binds to the events of the table, unless paging is switched off.\<close>

definition paging_handler :: "pager \<Rightarrow> footable \<Rightarrow> outcome" where
  "paging_handler pg t = (if opt_paginate (ft_options t) \<and> \<not> a_page_off t then setupPaging pg t else Done t)"

section \<open>Clicks on the buttons\<close>

text \<open>The loop that looks for the start of the block of page buttons.\<close>

function block_start :: "int \<Rightarrow> int \<Rightarrow> int" where
  "block_start limit start = (if 0 < limit \<and> 0 \<le> start \<and> start mod limit \<noteq> 0 then block_start limit (start - 1) else start)"
  by auto
termination by (relation "measure (\<lambda>(limit, start). nat (start + 1))") auto

declare block_start.simps [simp del]

definition first_page_button :: "button list \<Rightarrow> int option" where
  "first_page_button nav = (case filter is_page nav of b # _ \<Rightarrow> (case b_target b of ToPage k \<Rightarrow> Some k | _ \<Rightarrow> None) | [] \<Rightarrow> None)"

definition last_page_button :: "button list \<Rightarrow> int option" where
  "last_page_button nav = first_page_button (rev nav)"

definition the_nav :: "footable \<Rightarrow> button list" where
  "the_nav t = (case t_nav t of Some nav \<Rightarrow> nav | None \<Rightarrow> [])"

text \<open>The new page and the state after the buttons of a block are rebuilt; minus one is no page.\<close>

definition click_page :: "target \<Rightarrow> footable \<Rightarrow> int \<times> footable" where
  "click_page g t =
     (let info = ft_pageInfo t; newPage = i_currentPage info; n = int (length (i_pages info)) in
      case g of
        ToFirst \<Rightarrow> (0, t)
      | ToPrev \<Rightarrow> ((if 0 < newPage then newPage - 1 else newPage), t)
      | ToNext \<Rightarrow> ((if newPage < n - 1 then newPage + 1 else newPage), t)
      | ToLast \<Rightarrow> (n - 1, t)
      | LimitLast \<Rightarrow> (n - 1, t)
      | LimitPrev \<Rightarrow>
          (-1, page_classes (upd_nav (createLimited info (map_option (\<lambda>first. first - i_limitNavigation info) (first_page_button (the_nav t)))) t))
      | LimitNext \<Rightarrow> (-1, page_classes (upd_nav (createLimited info (map_option (\<lambda>last. last + 1) (last_page_button (the_nav t)))) t))
      | ToPage k \<Rightarrow> (k, t))"

definition nav_click :: "pager \<Rightarrow> target \<Rightarrow> footable \<Rightarrow> outcome" where
  "nav_click pg g t =
     (case click_page g t of (newPage, t1) \<Rightarrow>
        if 0 \<le> newPage then
          let info = ft_pageInfo t1;
              t2 = (if limited info \<and> i_currentPage info \<noteq> newPage
                    then upd_nav (createLimited info (Some (block_start (i_limitNavigation info) newPage))) t1 else t1)
          in paginate pg newPage t2
        else Done t1)"

section \<open>Pages partition the rows\<close>

lemma page_loop_spec:
  fixes k n p :: nat
  assumes "0 < k" "n = i + length rs" "1 \<le> p" "i = (p - 1) * k + length page" "length page < k"
    and "lst = (if p - 1 = n div k then page else [])"
    and "page_loop (int k) (int n) (Some (int (n mod k))) (int i) (int p) page lst acc rs = (A, L)"
  shows "concat A @ L = concat acc @ page @ rs \<and> (\<forall>q \<in> set A. q \<in> set acc \<or> length q = k) \<and>
    length L = n mod k \<and> length A + (p - 1) = length acc + n div k"
  using assms
proof (induction rs arbitrary: i p page lst acc)
  case Nil
  then have "n div k = p - 1" "n mod k = length page" by auto
  then show ?case using Nil by auto
next
  case (Cons r rs)
  have k: "0 < k" and n: "n = i + Suc (length rs)" and p: "1 \<le> p" and i: "i = (p - 1) * k + length page" and lp: "length page < k"
    using Cons.prems by auto
  have pk: "p * k = (p - 1) * k + k" using p by (cases p) auto
  show ?case
  proof (cases "Suc (length page) = k")
    case True
    then have e: "int i = int p * int k - 1" and full: "Suc i = p * k" using i pk by (simp_all flip: of_nat_mult)
    have "p * k \<le> n" using full n by simp
    then have "p \<le> n div k" using k by (simp add: less_eq_div_iff_mult_less_eq)
    then have lst: "lst = []" using Cons.prems(6) p by auto
    have run: "page_loop (int k) (int n) (Some (int (n mod k))) (int (Suc i)) (int (Suc p)) [] [] (acc @ [page @ [r]]) rs = (A, L)"
      using Cons.prems(7) e lst by (simp add: add.commute)
    show ?thesis
      using Cons.IH [OF k _ _ _ _ _ run] full n True \<open>p \<le> n div k\<close> p by auto
  next
    case False
    then have ne: "int i \<noteq> int p * int k - 1" using i pk lp by (simp flip: of_nat_mult)
    have c: "int n - int (n mod k) \<le> int i \<longleftrightarrow> p - 1 = n div k"
    proof -
      have "int n - int (n mod k) \<le> int i \<longleftrightarrow> n div k * k \<le> i"
        using div_mult_mod_eq [of n k] by linarith
      also have "\<dots> \<longleftrightarrow> n div k \<le> p - 1"
        using i lp k less_eq_div_iff_mult_less_eq [OF k, of "n div k" i] by simp
      also have "\<dots> \<longleftrightarrow> p - 1 = n div k"
      proof -
        have "p - 1 \<le> n div k" using k n i by (simp add: less_eq_div_iff_mult_less_eq)
        then show ?thesis by auto
      qed
      finally show ?thesis .
    qed
    define last' where "last' = (if p - 1 = n div k then lst @ [r] else lst)"
    have run: "page_loop (int k) (int n) (Some (int (n mod k))) (int (Suc i)) (int p) (page @ [r]) last' acc rs = (A, L)"
      using Cons.prems(7) ne c by (auto simp: last'_def add.commute split: if_splits)
    show ?thesis
      using Cons.IH [OF k _ p _ _ _ run] n i lp False Cons.prems(6) by (auto simp: last'_def)
  qed
qed

lemma split_pages_spec:
  assumes "0 < psize" "split_pages psize rs = (full, lastPage)"
  shows "concat full @ lastPage = rs" "\<forall>q \<in> set full. int (length q) = psize"
    "int (length lastPage) = int (length rs) mod psize" "int (length full) = int (length rs) div psize"
proof -
  obtain k where k: "psize = int k" "0 < k" using assms(1) by (metis zero_less_imp_eq_int)
  have "js_rem (int (length rs)) (int k) = int (length rs mod k)"
    using k by (simp add: js_rem_def zmod_int)
  then have "page_loop (int k) (int (length rs)) (Some (int (length rs mod k))) (int 0) (int 1) [] [] [] rs = (full, lastPage)"
    using assms k by (simp add: split_pages_def Let_def)
  from page_loop_spec [OF k(2) _ _ _ _ _ this] k
  show "concat full @ lastPage = rs" "\<forall>q \<in> set full. int (length q) = psize"
    "int (length lastPage) = int (length rs) mod psize" "int (length full) = int (length rs) div psize"
    by (auto simp: zmod_int zdiv_int)
qed

definition default_pager :: "pager \<Rightarrow> bool" where
  "default_pager pg \<longleftrightarrow> on_create_pages pg = id"

text \<open>What \<^verbatim>\<open>createPages\<close> makes of the rows: full pages and a shorter last one, in the order of the table.\<close>

definition paged :: "footable \<Rightarrow> bool" where
  "paged t \<longleftrightarrow>
     (let info = ft_pageInfo t; pages = i_pages info; n = int (length pages) in
      concat pages = page_rows t \<and>
      (\<forall>k < length pages. pages ! k \<noteq> [] \<and>
          (if Suc k < length pages then int (length (pages ! k)) = i_pageSize info else int (length (pages ! k)) \<le> i_pageSize info)) \<and>
      0 \<le> i_currentPage info \<and> i_currentPage info < max 1 n)"

lemma last_short_pages:
  assumes "0 < psize" "split_pages psize rs = (full, lastPage)"
    and "pages = full @ (if lastPage \<noteq> [] then [lastPage] else [])" "k < length pages"
  shows "pages ! k \<noteq> [] \<and>
    (if Suc k < length pages then int (length (pages ! k)) = psize else int (length (pages ! k)) \<le> psize)"
proof -
  note s = split_pages_spec [OF assms(1,2)]
  show ?thesis
  proof (cases "k < length full")
    case True
    then have "pages ! k \<in> set full" using assms(3) by (simp add: nth_append)
    then have "int (length (pages ! k)) = psize" using s(2) by blast
    then show ?thesis using assms(1) by auto
  next
    case False
    then have k: "k = length full" "lastPage \<noteq> []" using assms(3,4) by (auto split: if_splits)
    then have "pages ! k = lastPage" "\<not> Suc k < length pages" using assms(3) by auto
    moreover have "int (length lastPage) \<le> psize" using s(3) assms(1) by (simp add: order_less_imp_le)
    ultimately show ?thesis using k by simp
  qed
qed

lemma page_rows_pageInfo [simp]:
  "page_rows (t\<lparr>ft_pageInfo := x\<rparr>) = page_rows t" "page_rows (t\<lparr>ft_pageInfo := x, t_no_paging := b\<rparr>) = page_rows t"
  "page_rows (t\<lparr>t_nav := v\<rparr>) = page_rows t"
  by (simp_all add: page_rows_def)

lemma createPages_paged:
  assumes "default_pager pg" "0 < i_pageSize (ft_pageInfo t)"
  shows "paged (createPages pg t)"
proof -
  obtain full lastPage where s: "split_pages (i_pageSize (ft_pageInfo t)) (page_rows t) = (full, lastPage)" by (metis surj_pair)
  define pages where "pages = full @ (if lastPage \<noteq> [] then [lastPage] else [])"
  have "concat pages = page_rows t" using split_pages_spec(1) [OF assms(2) s] by (auto simp: pages_def)
  moreover have "\<forall>k < length pages. pages ! k \<noteq> [] \<and>
      (if Suc k < length pages then int (length (pages ! k)) = i_pageSize (ft_pageInfo t) else int (length (pages ! k)) \<le> i_pageSize (ft_pageInfo t))"
    using last_short_pages [OF assms(2) s pages_def] by blast
  moreover have c: "i_pages (ft_pageInfo (createPages pg t)) = pages" "i_pageSize (ft_pageInfo (createPages pg t)) = i_pageSize (ft_pageInfo t)"
    "page_rows (createPages pg t) = page_rows t"
    using assms(1) s unfolding pages_def by (simp_all add: createPages_def default_pager_def Let_def)
  moreover have "0 \<le> i_currentPage (ft_pageInfo (createPages pg t)) \<and> i_currentPage (ft_pageInfo (createPages pg t)) < max 1 (int (length pages))"
    using assms(1) s unfolding pages_def by (auto simp: createPages_def default_pager_def Let_def max_def)
  ultimately show ?thesis unfolding paged_def Let_def c by blast
qed

section \<open>What is shown\<close>

definition shows_page :: "footable \<Rightarrow> bool" where
  "shows_page t \<longleftrightarrow>
     (let page = page_at (ft_pageInfo t) (i_currentPage (ft_pageInfo t)) in
      map r_id (filter r_shown (main_rows t)) = page \<and>
      (\<forall>r \<in> set (t_rows t). r_detail r \<longrightarrow> r_shown r = opened (t_breakpoint_class t) (set page) (t_rows t) r))"

lemma filter_page:
  "concat pages = xs \<Longrightarrow> distinct xs \<Longrightarrow> k < length pages \<Longrightarrow> filter (\<lambda>x. x \<in> set (pages ! k)) xs = pages ! k"
proof (induction pages arbitrary: xs k)
  case (Cons p ps)
  have "distinct (p @ concat ps)" using Cons.prems by simp
  then have d: "distinct p" "distinct (concat ps)" "set p \<inter> set (concat ps) = {}" unfolding distinct_append by blast+
  show ?case
  proof (cases k)
    case 0
    have "filter (\<lambda>x. x \<in> set p) p = p" by (rule filter_True) simp
    moreover have "filter (\<lambda>x. x \<in> set p) (concat ps) = []" using d(3) by (intro filter_False) auto
    ultimately show ?thesis using 0 Cons.prems(1) by (metis append_Nil2 concat.simps(2) filter_append nth_Cons_0)
  next
    case (Suc j)
    then have j: "j < length ps" using Cons.prems by simp
    then have "set (ps ! j) \<subseteq> set (concat ps)" by (auto intro: bexI [OF _ nth_mem])
    then have "filter (\<lambda>x. x \<in> set (ps ! j)) p = []" using d(3) by (intro filter_False) auto
    then show ?thesis using Suc Cons.IH [OF refl d(2) j] Cons.prems(1) by (metis append_Nil concat.simps(2) filter_append nth_Cons_Suc)
  qed
qed simp

lemma page_rows_filled:
  assumes "filled S t t'"
  shows "page_rows t' = page_rows t"
proof -
  have "page_rows t' = map r_id (filter (\<lambda>r. \<not> r_filtered r \<and> \<not> r_detail r) (fill (t_breakpoint_class t) S (t_rows t)))"
    unfolding page_rows_def by (rule skel_filter_ids) (use assms in \<open>auto simp: filled_def skel_def\<close>)
  then show ?thesis by (simp add: page_rows_def fill_def filter_map comp_def)
qed

lemma filled_shown:
  assumes f: "filled S t t'" and hidden: "\<forall>r \<in> set (t_rows t). \<not> r_shown r"
    and S: "S \<subseteq> set (page_rows t)" and d: "distinct (map r_id (t_rows t))"
  shows "map r_id (filter r_shown (main_rows t')) = filter (\<lambda>i. i \<in> S) (page_rows t)"
    and "\<forall>r \<in> set (t_rows t'). r_detail r \<longrightarrow> r_shown r = opened (t_breakpoint_class t') S (t_rows t') r"
proof -
  let ?F = "fill (t_breakpoint_class t) S (t_rows t)"
  have sk: "map skel (t_rows t') = map skel ?F" using f by (simp add: filled_def)
  have main: "r_id r \<in> S \<longrightarrow> \<not> r_filtered r \<and> \<not> r_detail r" if "r \<in> set (t_rows t)" for r
  proof
    assume "r_id r \<in> S"
    then have "r_id r \<in> r_id ` {q \<in> set (t_rows t). \<not> r_filtered q \<and> \<not> r_detail q}" using S by (auto simp: page_rows_def)
    then obtain q where "q \<in> set (t_rows t)" "\<not> r_filtered q \<and> \<not> r_detail q" "r_id r = r_id q" by blast
    then show "\<not> r_filtered r \<and> \<not> r_detail r" using distinct_id_eq [OF d that] by blast
  qed
  have "map r_id (filter r_shown (main_rows t')) = map r_id (filter (\<lambda>r. r_shown r \<and> \<not> r_detail r) ?F)"
    unfolding main_rows_def filter_filter by (rule skel_filter_ids [OF sk]) (auto simp: skel_def)
  also have "\<dots> = map r_id (filter (\<lambda>r. r_id r \<in> S) (t_rows t))"
    using hidden main by (auto simp: fill_def filter_map comp_def opened_def intro!: arg_cong [where f = "map r_id"] filter_cong)
  also have "\<dots> = filter (\<lambda>i. i \<in> S) (page_rows t)"
    using main by (auto simp: page_rows_def filter_map comp_def intro!: arg_cong [where f = "map r_id"] filter_cong)
  finally show "map r_id (filter r_shown (main_rows t')) = filter (\<lambda>i. i \<in> S) (page_rows t)" .
  have bp: "t_breakpoint_class t' = t_breakpoint_class t" using f frame_fields(1) by (auto simp: filled_def)
  show "\<forall>r \<in> set (t_rows t'). r_detail r \<longrightarrow> r_shown r = opened (t_breakpoint_class t') S (t_rows t') r"
  proof (intro ballI impI)
    fix r assume r: "r \<in> set (t_rows t')" "r_detail r"
    then obtain k where k: "k < length (t_rows t')" "r = t_rows t' ! k" by (auto simp: in_set_conv_nth)
    have len: "length (t_rows t') = length ?F" using sk by (metis length_map)
    then have q: "skel r = skel (?F ! k)" using sk k by (metis nth_map)
    define q0 where "q0 = t_rows t ! k"
    have k0: "k < length (t_rows t)" using k len by (simp add: fill_def)
    then have q0: "q0 \<in> set (t_rows t)" "?F ! k = set_shown (r_shown q0 \<or> r_id q0 \<in> S \<or> opened (t_breakpoint_class t) S (t_rows t) q0) q0"
      by (simp_all add: q0_def fill_def)
    have "r_detail q0" using q q0(2) r(2) by (simp add: skel_def)
    then have "r_id q0 \<notin> S" using main [OF q0(1)] by blast
    then have "r_shown r = opened (t_breakpoint_class t) S (t_rows t) q0"
      using q q0 hidden by (simp add: skel_def)
    also have "\<dots> = opened (t_breakpoint_class t) S ?F (?F ! k)"
    proof -
      have "prev_in i ?F = map_option (\<lambda>r. set_shown (r_shown r \<or> r_id r \<in> S \<or> opened (t_breakpoint_class t) S (t_rows t) r) r) (prev_in i (t_rows t))" for i
        unfolding fill_def by (rule prev_in_map) simp
      then show ?thesis unfolding opened_def q0(2) by (cases "prev_in (r_id q0) (t_rows t)") auto
    qed
    also have "\<dots> = opened (t_breakpoint_class t) S (t_rows t') r" by (rule opened_cong [OF sk [symmetric] q [symmetric]])
    finally show "r_shown r = opened (t_breakpoint_class t') S (t_rows t') r" unfolding bp .
  qed
qed

lemma showRow_pair: "showRow = show_pair"
  by (intro ext) (simp add: showRow_def show_pair_def)

text \<open>Two states with the same pages that differ at most in rows, buttons and the current page.\<close>

definition same_pages :: "footable \<Rightarrow> footable \<Rightarrow> bool" where
  "same_pages t t' \<longleftrightarrow>
     page_rows t' = page_rows t \<and> i_pages (ft_pageInfo t') = i_pages (ft_pageInfo t) \<and>
     i_pageSize (ft_pageInfo t') = i_pageSize (ft_pageInfo t) \<and> i_control (ft_pageInfo t') = i_control (ft_pageInfo t) \<and>
     i_limitNavigation (ft_pageInfo t') = i_limitNavigation (ft_pageInfo t) \<and>
     map r_id (t_rows t') = map r_id (t_rows t) \<and> covered t' = covered t"

lemma same_pages_refl [simp]: "same_pages t t"
  by (simp add: same_pages_def)

lemma same_pages_trans: "same_pages t u \<Longrightarrow> same_pages u v \<Longrightarrow> same_pages t v"
  by (simp add: same_pages_def)

lemma upd_nav_simps [simp]:
  "t_rows (upd_nav f t) = t_rows t" "ft_pageInfo (upd_nav f t) = ft_pageInfo t" "t_breakpoint_class (upd_nav f t) = t_breakpoint_class t"
  "t_nav (upd_nav f t) = map_option f (t_nav t)" "t_visible (upd_nav f t) = t_visible t" "ft_columns (upd_nav f t) = ft_columns t"
  "d_currentPage (upd_nav f t) = d_currentPage t"
  by (simp_all add: upd_nav_def)

lemma page_classes_simps [simp]:
  "t_rows (page_classes t) = t_rows t" "ft_pageInfo (page_classes t) = ft_pageInfo t"
  "t_breakpoint_class (page_classes t) = t_breakpoint_class t" "t_visible (page_classes t) = t_visible t"
  "t_nav (page_classes t) = map_option (setPagingClasses (i_currentPage (ft_pageInfo t)) (int (length (i_pages (ft_pageInfo t))))) (t_nav t)"
  "ft_columns (page_classes t) = ft_columns t" "d_currentPage (page_classes t) = d_currentPage t"
  by (simp_all add: page_classes_def)

lemma same_rows_covered: "t_rows t' = t_rows t \<Longrightarrow> ft_columns t' = ft_columns t \<Longrightarrow> covered t' = covered t"
  by (rule covered_cong) simp_all

lemma same_rows_pages: "t_rows t' = t_rows t \<Longrightarrow> page_rows t' = page_rows t"
  by (simp add: page_rows_def)

lemma same_pages_nav [simp]: "same_pages t (upd_nav f t)" "same_pages t (page_classes t)"
  unfolding same_pages_def by (intro conjI same_rows_covered same_rows_pages; simp)+

lemma shows_page_nav:
  "t_rows t' = t_rows t \<Longrightarrow> ft_pageInfo t' = ft_pageInfo t \<Longrightarrow> t_breakpoint_class t' = t_breakpoint_class t \<Longrightarrow>
   shows_page t' = shows_page t"
  by (simp add: shows_page_def main_rows_def)

lemma page_at_sub: "concat (i_pages info) = xs \<Longrightarrow> set (page_at info k) \<subseteq> set xs"
  by (auto simp: page_at_def nat_less_iff intro!: bexI [of _ "i_pages info ! nat k"])

lemma page_rows_distinct: "distinct (map r_id (t_rows t)) \<Longrightarrow> distinct (page_rows t)"
  unfolding page_rows_def by (simp add: distinct_map inj_on_def)

lemma fillPage_run:
  assumes "covered t" "distinct (map r_id (t_rows t))" "concat (i_pages (ft_pageInfo t)) = page_rows t"
  obtains t' where "fillPage k t = Done t'" "same_pages t t'" "i_currentPage (ft_pageInfo t') = k" "shows_page t'"
    "t_nav t' = t_nav t" "d_currentPage t' = k"
proof -
  let ?info = "(ft_pageInfo t)\<lparr>i_currentPage := k\<rparr>"
  let ?t1 = "hide_rows (t\<lparr>ft_pageInfo := ?info, d_currentPage := k\<rparr>)"
  define page where "page = page_at ?info k"
  have rows: "t_rows ?t1 = map (set_shown False) (t_rows t)" and cols: "ft_columns ?t1 = ft_columns t"
    and nx: "t_nav ?t1 = t_nav t" "d_currentPage ?t1 = k" "ft_pageInfo ?t1 = ?info" by (simp_all add: hide_rows_def)
  have cov: "covered ?t1 = covered t" by (rule covered_cong) (simp_all only: rows cols, simp)
  have ids: "map r_id (t_rows ?t1) = map r_id (t_rows t)" by (simp add: rows)
  have pr: "page_rows ?t1 = page_rows t" by (simp add: page_rows_def rows filter_map comp_def)
  obtain t' where t': "each show_pair page ?t1 = Done t'" "filled (set page) ?t1 t'"
    using each_show_pair_safe [of ?t1 page] assms cov ids by metis
  have f: "frame ?t1 t'" using t'(2) by (simp add: filled_def)
  have info: "ft_pageInfo t' = ?info" "t_nav t' = t_nav t" "d_currentPage t' = k"
    using frame_fields [OF f] nx by auto
  have sub: "set page \<subseteq> set (page_rows ?t1)" unfolding page_def pr by (rule page_at_sub) (simp add: assms(3))
  have hidden: "\<forall>r \<in> set (t_rows ?t1). \<not> r_shown r" by (simp add: rows)
  have "filter (\<lambda>i. i \<in> set page) (page_rows t) = page"
    using filter_page [OF assms(3) page_rows_distinct [OF assms(2)]] by (auto simp: page_def page_at_def)
  then have "shows_page t'"
    using filled_shown [OF t'(2) hidden sub] assms(2) unfolding shows_page_def ids pr info Let_def page_def by simp
  moreover have "fillPage k t = Done t'" using t'(1) by (simp add: fillPage_def Let_def showRow_pair page_def)
  moreover have "same_pages t t'"
    using page_rows_filled [OF t'(2)] filled_ids [OF t'(2)] covered_filled [OF t'(2)] pr cov unfolding same_pages_def info ids by simp
  ultimately show thesis using that info by simp
qed

lemma paged_same: "same_pages t t' \<Longrightarrow> paged t \<Longrightarrow> 0 \<le> i_currentPage (ft_pageInfo t') \<Longrightarrow>
    i_currentPage (ft_pageInfo t') < max 1 (int (length (i_pages (ft_pageInfo t)))) \<Longrightarrow> paged t'"
  unfolding paged_def same_pages_def Let_def by simp

section \<open>From page to page\<close>

text \<open>The buttons lead to pages that exist, there are none without pages, and otherwise the four arrows are always there.\<close>

definition arrows :: "target set" where
  "arrows = {ToFirst, ToPrev, ToNext, ToLast}"

definition nav_ok :: "footable \<Rightarrow> bool" where
  "nav_ok t \<longleftrightarrow>
     (\<forall>b \<in> set (the_nav t). i_pages (ft_pageInfo t) \<noteq> [] \<and>
        (\<forall>k. b_target b = ToPage k \<longrightarrow> 0 \<le> k \<and> k < int (length (i_pages (ft_pageInfo t))))) \<and>
     (t_nav t \<noteq> None \<longrightarrow> i_pages (ft_pageInfo t) \<noteq> [] \<longrightarrow> arrows \<subseteq> b_target ` set (the_nav t))"

definition ready :: "footable \<Rightarrow> bool" where
  "ready t \<longleftrightarrow>
     paged t \<and> shows_page t \<and> nav_ok t \<and> covered t \<and> distinct (map r_id (t_rows t)) \<and>
     i_control (ft_pageInfo t) \<and> t_nav t \<noteq> None"

lemma new_button_simps [simp]: "b_target (new_button g) = g" "is_page (new_button (ToPage k))"
  "\<not> is_page (new_button ToFirst)" "\<not> is_page (new_button ToPrev)" "\<not> is_page (new_button ToNext)" "\<not> is_page (new_button ToLast)"
  "\<not> is_page (new_button LimitPrev)" "\<not> is_page (new_button LimitNext)" "\<not> is_page (new_button LimitLast)"
  by (simp_all add: new_button_def is_page_def)

lemma set_after_prev: "set (after_prev new nav) \<subseteq> set new \<union> set nav"
  by (induction new nav rule: after_prev.induct) auto

lemma createLimited_targets:
  "b_target ` set (createLimited info s nav) \<subseteq>
     {ToPage k |k. 0 \<le> k \<and> k < int (length (i_pages info))} \<union> b_target ` {b \<in> set nav. \<not> is_page b}"
proof -
  let ?new = "limited_pages info (case s of Some x \<Rightarrow> x | None \<Rightarrow> 0)"
  have "b_target ` set ?new \<subseteq> {ToPage k |k. 0 \<le> k \<and> k < int (length (i_pages info))}"
    by (auto simp: limited_pages_def)
  moreover have "b_target ` set (createLimited info s nav) = b_target ` set (after_prev ?new (filter (\<lambda>b. \<not> is_page b) nav))"
    unfolding createLimited_def Let_def set_map image_image by (intro image_cong refl) simp
  moreover have "set (after_prev ?new (filter (\<lambda>b. \<not> is_page b) nav)) \<subseteq> set ?new \<union> {b \<in> set nav. \<not> is_page b}"
    using set_after_prev [of ?new "filter (\<lambda>b. \<not> is_page b) nav"] by simp
  ultimately show ?thesis by blast
qed

lemma createLimited_keeps: "b_target ` {b \<in> set nav. \<not> is_page b} \<subseteq> b_target ` set (createLimited info s nav)"
proof -
  have keep: "set nav \<subseteq> set (after_prev new nav)" for new nav
    by (induction new nav rule: after_prev.induct) auto
  have "b_target ` set (createLimited info s nav) =
      b_target ` set (after_prev (limited_pages info (case s of Some x \<Rightarrow> x | None \<Rightarrow> 0)) (filter (\<lambda>b. \<not> is_page b) nav))"
    unfolding createLimited_def Let_def set_map image_image by (intro image_cong refl) simp
  then show ?thesis using keep [of "filter (\<lambda>b. \<not> is_page b) nav"] by (simp add: image_mono)
qed

lemma is_page_target: "is_page b \<longleftrightarrow> (\<exists>k. b_target b = ToPage k)"
  by (auto simp: is_page_def split: target.splits)

lemma nav_ok_targets:
  "nav_ok t \<longleftrightarrow>
     (\<forall>g \<in> b_target ` set (the_nav t). i_pages (ft_pageInfo t) \<noteq> [] \<and>
        (\<forall>k. g = ToPage k \<longrightarrow> 0 \<le> k \<and> k < int (length (i_pages (ft_pageInfo t))))) \<and>
     (t_nav t \<noteq> None \<longrightarrow> i_pages (ft_pageInfo t) \<noteq> [] \<longrightarrow> arrows \<subseteq> b_target ` set (the_nav t))"
  by (simp add: nav_ok_def)

lemma setPagingClasses_targets: "b_target ` set (setPagingClasses c n nav) = b_target ` set nav"
  unfolding setPagingClasses_def set_map image_image Let_def by (intro image_cong refl) simp

lemma clear_classes_targets: "b_target ` set (clear_classes nav) = b_target ` set nav"
  unfolding clear_classes_def set_map image_image by simp

lemma nav_ok_classes:
  "nav_ok t \<Longrightarrow> nav_ok (page_classes t)" "nav_ok t \<Longrightarrow> nav_ok (upd_nav clear_classes t)"
  unfolding nav_ok_targets by (cases "t_nav t"; simp add: the_nav_def setPagingClasses_targets clear_classes_targets)+

lemma nav_ok_limited:
  assumes "nav_ok t"
  shows "nav_ok (upd_nav (createLimited (ft_pageInfo t) s) t)"
proof (cases "t_nav t")
  case (Some nav)
  show ?thesis
    unfolding nav_ok_targets
  proof (intro conjI ballI impI)
    assume "i_pages (ft_pageInfo (upd_nav (createLimited (ft_pageInfo t) s) t)) \<noteq> []"
    then have "arrows \<subseteq> b_target ` set nav" using assms Some by (simp add: nav_ok_targets the_nav_def)
    then have "arrows \<subseteq> b_target ` {b \<in> set nav. \<not> is_page b}" by (auto simp: arrows_def is_page_target)
    then show "arrows \<subseteq> b_target ` set (the_nav (upd_nav (createLimited (ft_pageInfo t) s) t))"
      using createLimited_keeps [of nav "ft_pageInfo t" s] Some by (simp add: the_nav_def)
  next
    fix g assume "g \<in> b_target ` set (the_nav (upd_nav (createLimited (ft_pageInfo t) s) t))"
    then have "g \<in> {ToPage k |k. 0 \<le> k \<and> k < int (length (i_pages (ft_pageInfo t)))} \<union> b_target ` {b \<in> set nav. \<not> is_page b}"
      using createLimited_targets [of "ft_pageInfo t" s nav] Some by (auto simp: the_nav_def)
    moreover have "\<forall>g \<in> b_target ` set nav. i_pages (ft_pageInfo t) \<noteq> []" using assms Some by (cases nav) (simp_all add: nav_ok_targets the_nav_def)
    ultimately have "i_pages (ft_pageInfo t) \<noteq> [] \<and> (\<forall>k. g = ToPage k \<longrightarrow> 0 \<le> k \<and> k < int (length (i_pages (ft_pageInfo t))))"
      by (auto simp: is_page_target)
    then show "i_pages (ft_pageInfo (upd_nav (createLimited (ft_pageInfo t) s) t)) \<noteq> []"
      "\<forall>k. g = ToPage k \<longrightarrow> 0 \<le> k \<and> k < int (length (i_pages (ft_pageInfo (upd_nav (createLimited (ft_pageInfo t) s) t))))"
      by simp_all
  qed
qed (simp add: nav_ok_def the_nav_def)

lemma all_buttons_arrows: "i_pages info \<noteq> [] \<Longrightarrow> arrows \<subseteq> b_target ` set (all_buttons info)"
proof -
  let ?nav = "map new_button [ToFirst, ToPrev, LimitPrev, LimitNext, LimitLast]"
  assume ne: "i_pages info \<noteq> []"
  have "new_button ToFirst \<in> {b \<in> set ?nav. \<not> is_page b}" "new_button ToPrev \<in> {b \<in> set ?nav. \<not> is_page b}" by simp_all
  then have "b_target (new_button ToFirst) \<in> b_target ` set (createLimited info (Some 0) ?nav)"
      "b_target (new_button ToPrev) \<in> b_target ` set (createLimited info (Some 0) ?nav)"
    using createLimited_keeps [of ?nav info "Some 0"] by (blast intro: imageI)+
  then show ?thesis using ne by (auto simp: all_buttons_def arrows_def)
qed

lemma all_buttons_targets:
  "g \<in> b_target ` set (all_buttons info) \<Longrightarrow> i_pages info \<noteq> [] \<and> (\<forall>k. g = ToPage k \<longrightarrow> 0 \<le> k \<and> k < int (length (i_pages info)))"
  using createLimited_targets [of info "Some 0" "map new_button [ToFirst, ToPrev, LimitPrev, LimitNext, LimitLast]"]
  by (fastforce simp: all_buttons_def page_buttons_def split: if_splits)

text \<open>The page that a button aims at, of \<open>n\<close> pages when the current one is \<open>c\<close>; the buttons of blocks keep the page.\<close>

fun aimed :: "int \<Rightarrow> int \<Rightarrow> target \<Rightarrow> int" where
  "aimed n c ToFirst = 0"
| "aimed n c ToPrev = max 0 (c - 1)"
| "aimed n c ToNext = min (n - 1) (c + 1)"
| "aimed n c ToLast = n - 1"
| "aimed n c LimitLast = n - 1"
| "aimed n c (ToPage k) = k"
| "aimed n c LimitPrev = c"
| "aimed n c LimitNext = c"

definition page_count :: "footable \<Rightarrow> int" where
  "page_count t = int (length (i_pages (ft_pageInfo t)))"

definition current :: "footable \<Rightarrow> int" where
  "current t = i_currentPage (ft_pageInfo t)"

lemma ready_current: "ready t \<Longrightarrow> 0 \<le> current t \<and> current t < max 1 (page_count t)"
  by (simp add: ready_def paged_def current_def page_count_def Let_def)

lemma ready_concat: "ready t \<Longrightarrow> concat (i_pages (ft_pageInfo t)) = page_rows t"
  by (simp add: ready_def paged_def Let_def)

lemma ready_nav:
  assumes "ready t" "nav_ok (upd_nav f t)"
  shows "ready (upd_nav f t)"
proof -
  have "paged (upd_nav f t)" using assms(1) by (simp add: ready_def paged_def same_rows_pages [of "upd_nav f t" t])
  moreover have "covered (upd_nav f t)" using assms(1) same_pages_nav(1) [of t f] by (simp add: ready_def same_pages_def)
  moreover have "shows_page (upd_nav f t)" using assms(1) shows_page_nav [of "upd_nav f t" t] by (simp add: ready_def)
  ultimately show ?thesis using assms by (simp add: ready_def)
qed

lemma paginate_ready:
  assumes r: "ready t" and k: "0 \<le> k" "k < max 1 (page_count t)"
  obtains t' where "paginate pg k t = Done t'" "ready t'" "same_pages t t'"
    "current t' = (if cancels_paging pg k then current t else k)"
proof (cases "(i_manual (ft_pageInfo t) \<or> i_currentPage (ft_pageInfo t) \<noteq> k \<or> \<not> list_ex (row_visible t) (t_rows t)) \<and> \<not> cancels_paging pg k")
  case False
  then have "paginate pg k t = Done t" by (auto simp: paginate_def Let_def)
  then show thesis using that [of t] r False by (auto simp: current_def)
next
  case True
  obtain u where u: "fillPage k t = Done u" "same_pages t u" "i_currentPage (ft_pageInfo u) = k" "shows_page u" "t_nav u = t_nav t"
    using fillPage_run [of t k] r ready_concat [OF r] by (metis ready_def)
  let ?c = "upd_nav clear_classes u"
  have ctl: "i_control (ft_pageInfo u)" using u(2) r by (simp add: ready_def same_pages_def)
  then have run: "paginate pg k t = Done (page_classes ?c)" using True u(1) by (simp add: paginate_def Let_def)
  have "nav_ok u" using r u(2,5) by (simp add: ready_def nav_ok_def the_nav_def same_pages_def)
  moreover have "paged u" using r k by (intro paged_same [OF u(2)]) (simp_all add: ready_def u(3) page_count_def)
  ultimately have "ready u" using r u ctl by (simp add: ready_def same_pages_def)
  then have "ready ?c" by (rule ready_nav) (rule nav_ok_classes(2) [OF \<open>nav_ok u\<close>])
  then have "ready (page_classes ?c)"
    unfolding page_classes_def by (rule ready_nav) (use nav_ok_classes(1) [OF nav_ok_classes(2) [OF \<open>nav_ok u\<close>]] in \<open>simp add: page_classes_def\<close>)
  moreover have "same_pages t (page_classes ?c)" using same_pages_trans [OF u(2)] same_pages_trans [OF same_pages_nav(1) same_pages_nav(2)] by blast
  ultimately show thesis using that run u(3) True by (simp add: current_def)
qed

lemma nav_click_ready:
  assumes r: "ready t" and g: "g \<in> b_target ` set (the_nav t)"
  obtains t' where "nav_click pg g t = Done t'" "ready t'" "same_pages t t'"
    "current t' = (if cancels_paging pg (aimed (page_count t) (current t) g) then current t else aimed (page_count t) (current t) g)"
proof -
  have n: "0 < page_count t" and pg: "\<And>k. g = ToPage k \<Longrightarrow> 0 \<le> k \<and> k < page_count t"
    using r g by (auto simp: ready_def nav_ok_def page_count_def)
  have c: "0 \<le> current t" "current t < page_count t"
    using ready_current [OF r] n by linarith+
  let ?k = "aimed (page_count t) (current t) g"
  show thesis
  proof (cases "g = LimitPrev \<or> g = LimitNext")
    case True
    define s where "s = (if g = LimitPrev then map_option (\<lambda>first. first - i_limitNavigation (ft_pageInfo t)) (first_page_button (the_nav t))
                         else map_option (\<lambda>last. last + 1) (last_page_button (the_nav t)))"
    let ?u = "upd_nav (createLimited (ft_pageInfo t) s) t"
    have run: "nav_click pg g t = Done (page_classes ?u)"
      using True by (auto simp: nav_click_def click_page_def Let_def s_def)
    have no: "nav_ok t" using r by (simp add: ready_def)
    have "ready ?u" by (rule ready_nav [OF r nav_ok_limited [OF no]])
    then have "ready (page_classes ?u)"
      unfolding page_classes_def by (rule ready_nav) (use nav_ok_classes(1) [OF nav_ok_limited [OF no]] in \<open>simp add: page_classes_def\<close>)
    moreover have "same_pages t (page_classes ?u)" by (rule same_pages_trans [OF same_pages_nav(1) same_pages_nav(2)])
    moreover have "?k = current t" using True by auto
    ultimately show thesis using that run by (simp add: current_def)
  next
    case False
    have "click_page g t = (?k, t)"
      using False c by (cases g) (auto simp: click_page_def Let_def current_def page_count_def)
    moreover have k: "0 \<le> ?k" "?k < max 1 (page_count t)" using c n pg False by (cases g; auto)+
    moreover define u where "u = (if limited (ft_pageInfo t) \<and> i_currentPage (ft_pageInfo t) \<noteq> ?k
        then upd_nav (createLimited (ft_pageInfo t) (Some (block_start (i_limitNavigation (ft_pageInfo t)) ?k))) t else t)"
    ultimately have run: "nav_click pg g t = paginate pg ?k u" by (simp add: nav_click_def Let_def)
    have "ready u" using ready_nav [OF r nav_ok_limited] r by (simp add: u_def ready_def)
    moreover have su: "same_pages t u" "page_count u = page_count t" "current u = current t" by (simp_all add: u_def page_count_def current_def)
    ultimately obtain t' where "paginate pg ?k u = Done t'" "ready t'" "same_pages u t'" "current t' = (if cancels_paging pg ?k then current u else ?k)"
      using paginate_ready [of u ?k pg] k by metis
    then show thesis using that run su same_pages_trans by metis
  qed
qed

text \<open>Setting the pages up: the state before the first page is shown.\<close>

definition set_up :: "pager \<Rightarrow> footable \<Rightarrow> footable" where
  "set_up pg t = createNavigation (createPages pg (t\<lparr>ft_pageInfo := new_pageInfo t\<rparr>))"

lemma createPages_simps [simp]:
  "t_rows (createPages pg t) = t_rows t" "ft_columns (createPages pg t) = ft_columns t" "t_nav (createPages pg t) = t_nav t"
  "t_breakpoint_class (createPages pg t) = t_breakpoint_class t" "t_visible (createPages pg t) = t_visible t"
  "i_manual (ft_pageInfo (createPages pg t)) = i_manual (ft_pageInfo t)"
  "i_control (ft_pageInfo (createPages pg t)) = i_control (ft_pageInfo t)"
  "i_limitNavigation (ft_pageInfo (createPages pg t)) = i_limitNavigation (ft_pageInfo t)"
  "i_pageSize (ft_pageInfo (createPages pg t)) = i_pageSize (ft_pageInfo t)"
  "ft_options (createPages pg t) = ft_options t"
  by (simp_all add: createPages_def Let_def case_prod_beta)

lemma createNavigation_simps [simp]:
  "t_rows (createNavigation t) = t_rows t" "ft_columns (createNavigation t) = ft_columns t"
  "t_breakpoint_class (createNavigation t) = t_breakpoint_class t" "t_visible (createNavigation t) = t_visible t"
  "i_pages (ft_pageInfo (createNavigation t)) = i_pages (ft_pageInfo t)"
  "i_pageSize (ft_pageInfo (createNavigation t)) = i_pageSize (ft_pageInfo t)"
  "i_manual (ft_pageInfo (createNavigation t)) = i_manual (ft_pageInfo t)"
  "i_currentPage (ft_pageInfo (createNavigation t)) = i_currentPage (ft_pageInfo t)"
  "i_limitNavigation (ft_pageInfo (createNavigation t)) = i_limitNavigation (ft_pageInfo t)"
  by (simp_all add: createNavigation_def split: option.split)

lemma createNavigation_control:
  "\<not> i_control (ft_pageInfo t) \<Longrightarrow> i_control (ft_pageInfo (createNavigation t)) \<longleftrightarrow> t_nav t \<noteq> None"
  "t_nav (createNavigation t) = None \<longleftrightarrow> t_nav t = None"
  by (simp_all add: createNavigation_def split: option.split)

lemma createNavigation_nav_ok: "nav_ok (createNavigation t)"
proof (cases "t_nav t")
  case (Some nav)
  let ?u = "t\<lparr>ft_pageInfo := (ft_pageInfo t)\<lparr>i_control := True\<rparr>, t_nav := Some (all_buttons (ft_pageInfo t))\<rparr>"
  have "nav_ok ?u" unfolding nav_ok_targets using all_buttons_targets [of _ "ft_pageInfo t"] all_buttons_arrows [of "ft_pageInfo t"] by (simp add: the_nav_def)
  then show ?thesis using nav_ok_classes(1) Some by (simp add: createNavigation_def)
qed (simp add: createNavigation_def nav_ok_def the_nav_def)

lemma createPages_current:
  "current (createPages pg t) = max 0 (min (current t) (page_count (createPages pg t) - 1))"
  by (auto simp: createPages_def current_def page_count_def Let_def case_prod_beta)

lemma paged_nav: "paged (createNavigation t) = paged t"
  by (simp add: paged_def same_rows_pages [of "createNavigation t" t] Let_def)

lemma paged_buttons: "paged (upd_nav g t) = paged t" "paged (page_classes t) = paged t"
  by (simp_all add: paged_def same_rows_pages [of "upd_nav g t" t] same_rows_pages [of "page_classes t" t] Let_def)

lemma set_up_facts:
  assumes "default_pager pg" "0 < i_pageSize (new_pageInfo t)"
  shows "paged (set_up pg t)" "t_rows (set_up pg t) = t_rows t" "nav_ok (set_up pg t)"
    "i_control (ft_pageInfo (set_up pg t)) \<longleftrightarrow> t_nav t \<noteq> None" "t_nav (set_up pg t) = None \<longleftrightarrow> t_nav t = None"
    "ft_columns (set_up pg t) = ft_columns t" "i_manual (ft_pageInfo (set_up pg t)) = a_manual t" "t_visible (set_up pg t) = t_visible t"
    "i_limitNavigation (ft_pageInfo (set_up pg t)) = i_limitNavigation (new_pageInfo t)"
    "i_pageSize (ft_pageInfo (set_up pg t)) = i_pageSize (new_pageInfo t)"
    "current (set_up pg t) = max 0 (min (d_currentPage t) (page_count (set_up pg t) - 1))"
proof -
  show "paged (set_up pg t)" unfolding set_up_def paged_nav by (rule createPages_paged) (use assms in simp_all)
  show "i_control (ft_pageInfo (set_up pg t)) \<longleftrightarrow> t_nav t \<noteq> None" "t_nav (set_up pg t) = None \<longleftrightarrow> t_nav t = None"
    unfolding set_up_def by (simp_all add: createNavigation_control new_pageInfo_def)
  show "current (set_up pg t) = max 0 (min (d_currentPage t) (page_count (set_up pg t) - 1))"
    unfolding set_up_def using createPages_current [of pg "t\<lparr>ft_pageInfo := new_pageInfo t\<rparr>"]
    by (simp add: current_def page_count_def new_pageInfo_def)
qed (simp_all add: set_up_def createNavigation_nav_ok new_pageInfo_def)

text \<open>A table whose rows are shown as the current page, with or without buttons.\<close>

definition settled :: "footable \<Rightarrow> bool" where
  "settled t \<longleftrightarrow> paged t \<and> shows_page t \<and> covered t \<and> distinct (map r_id (t_rows t))"

lemma fillPage_settled:
  assumes "paged t" "covered t" "distinct (map r_id (t_rows t))"
  obtains t' where "fillPage (current t) t = Done t'" "settled t'" "same_pages t t'" "current t' = current t" "t_nav t' = t_nav t"
proof -
  obtain t' where t': "fillPage (current t) t = Done t'" "same_pages t t'" "i_currentPage (ft_pageInfo t') = current t" "shows_page t'" "t_nav t' = t_nav t"
    using fillPage_run [of t "current t"] assms by (metis paged_def)
  have "paged t'" using assms(1) t'(3) by (intro paged_same [OF t'(2)]) (simp_all add: paged_def current_def Let_def)
  then have "settled t'" using t' assms by (simp add: settled_def same_pages_def)
  then show thesis using that t' by (simp add: current_def)
qed

lemma setupPaging_set_up:
  "setupPaging pg t = and_then (paginate pg (current (set_up pg t)) (set_up pg t)) (\<lambda>u. fillPage (current u) u)"
  by (simp add: setupPaging_def set_up_def current_def Let_def)

definition nothing_shown :: "footable \<Rightarrow> bool" where
  "nothing_shown t \<longleftrightarrow> \<not> list_ex (row_visible t) (t_rows t)"

text \<open>
  \<^verbatim>\<open>setupPaging\<close> ends with the current page shown, unless the table has no page buttons and a page is to be filled first:
  then the access to the missing buttons throws.
\<close>

lemma setupPaging_result:
  assumes "default_pager pg" "0 < i_pageSize (new_pageInfo t)" "covered t" "distinct (map r_id (t_rows t))"
  shows "if t_nav t = None \<and> (a_manual t \<or> nothing_shown t) \<and> \<not> cancels_paging pg (current (set_up pg t))
    then \<exists>u. setupPaging pg t = Thrown u
    else \<exists>t'. setupPaging pg t = Done t' \<and> settled t' \<and> same_pages (set_up pg t) t' \<and> current t' = current (set_up pg t) \<and>
           (t_nav t \<noteq> None \<longrightarrow> ready t')"
proof -
  let ?s = "set_up pg t" and ?k = "current (set_up pg t)"
  note f = set_up_facts [OF assms(1,2)]
  have s: "paged ?s" "covered ?s" "distinct (map r_id (t_rows ?s))" "nav_ok ?s"
    using f assms covered_cong [of ?s t] by simp_all
  have ready: "ready t'" if "settled t'" "same_pages ?s t'" "nav_ok t'" "t_nav t' \<noteq> None" "t_nav t \<noteq> None" for t'
    using that f(4) by (simp add: ready_def settled_def same_pages_def)
  have kept: "nav_ok t'" if "same_pages u t'" "t_nav t' = t_nav u" "nav_ok u" for u t'
    using that by (simp add: nav_ok_def the_nav_def same_pages_def)
  let ?fill = "(a_manual t \<or> nothing_shown t) \<and> \<not> cancels_paging pg ?k"
  have cond: "i_manual (ft_pageInfo ?s) \<or> i_currentPage (ft_pageInfo ?s) \<noteq> ?k \<or> \<not> list_ex (row_visible ?s) (t_rows ?s) \<longleftrightarrow> a_manual t \<or> nothing_shown t"
  proof -
    have "row_visible ?s = row_visible t" by (intro ext) (simp add: row_visible_def f)
    then show ?thesis by (simp add: f current_def nothing_shown_def)
  qed
  show ?thesis
  proof (cases ?fill)
    case False
    then have "paginate pg ?k ?s = Done ?s" using cond by (auto simp: paginate_def Let_def)
    then obtain t' where "setupPaging pg t = Done t'" "settled t'" "same_pages ?s t'" "current t' = ?k" "t_nav t' = t_nav ?s"
      using fillPage_settled [OF s(1-3)] setupPaging_set_up [of pg t] by (metis and_then.simps(1))
    then show ?thesis using False ready kept s(4) f(5) by auto
  next
    case True
    obtain u where u: "fillPage ?k ?s = Done u" "settled u" "same_pages ?s u" "current u = ?k" "t_nav u = t_nav ?s"
      using fillPage_settled [OF s(1-3)] by metis
    then have ctl: "i_control (ft_pageInfo u) \<longleftrightarrow> t_nav t \<noteq> None" using f(4) by (simp add: same_pages_def)
    have run: "paginate pg ?k ?s = (if t_nav t \<noteq> None then Done (page_classes (upd_nav clear_classes u)) else Thrown u)"
      using True cond u(1) ctl by (simp add: paginate_def Let_def)
    show ?thesis
    proof (cases "t_nav t")
      case None
      then show ?thesis using True run setupPaging_set_up [of pg t] by simp
    next
      case (Some nav)
      let ?v = "page_classes (upd_nav clear_classes u)"
      have su: "same_pages u ?v" by (rule same_pages_trans [OF same_pages_nav(1) same_pages_nav(2)])
      have v: "paged ?v" "covered ?v" "distinct (map r_id (t_rows ?v))" "current ?v = ?k"
        using u su by (simp_all add: settled_def same_pages_def paged_buttons current_def)
      have "nav_ok ?v" by (intro nav_ok_classes) (rule kept [OF u(3,5) s(4)])
      obtain t' where t': "fillPage ?k ?v = Done t'" "settled t'" "same_pages ?v t'" "current t' = ?k" "t_nav t' = t_nav ?v"
        using fillPage_settled [OF v(1-3)] v(4) by metis
      have "setupPaging pg t = Done t'" using setupPaging_set_up [of pg t] run Some t'(1) v(4) by simp
      moreover have sp: "same_pages ?s t'" using same_pages_trans [OF u(3) same_pages_trans [OF su t'(3)]] .
      moreover have "ready t'" using t' sp kept [OF t'(3,5) \<open>nav_ok ?v\<close>] Some u(5) f(5) by (intro ready) auto
      ultimately show ?thesis using Some t'(2,4) by auto
    qed
  qed
qed

section \<open>Properties\<close>

text \<open>
  C16 (functional). Setting up the pages of a table with page buttons always ends with one page shown: the pages are the rows that
  are neither filtered out nor details, cut in order into full pages and a last one that is not empty; the current page is the
  remembered one, moved into range; the shown rows are exactly those of the current page, and a detail row is shown exactly behind
  a shown open row of a table at a breakpoint.
\<close>

theorem setupPaging_shows_page:
  assumes "default_pager pg" "0 < i_pageSize (new_pageInfo t)" "covered t" "distinct (map r_id (t_rows t))" "t_nav t \<noteq> None"
  shows "\<exists>t'. setupPaging pg t = Done t' \<and>
    (let info = ft_pageInfo t'; pages = i_pages info in
     concat pages = map r_id (filter (\<lambda>r. \<not> r_filtered r \<and> \<not> r_detail r) (t_rows t)) \<and>
     (\<forall>k < length pages. pages ! k \<noteq> [] \<and> int (length (pages ! k)) \<le> i_pageSize (new_pageInfo t) \<and>
        (Suc k < length pages \<longrightarrow> int (length (pages ! k)) = i_pageSize (new_pageInfo t))) \<and>
     i_currentPage info = max 0 (min (d_currentPage t) (int (length pages) - 1)) \<and>
     map r_id (filter r_shown (main_rows t')) = page_at info (i_currentPage info) \<and>
     (\<forall>r \<in> set (t_rows t'). r_detail r \<longrightarrow>
        r_shown r = opened (t_breakpoint_class t') (set (page_at info (i_currentPage info))) (t_rows t') r))"
proof -
  from setupPaging_result [OF assms(1-4)] assms(5) obtain t'
    where t': "setupPaging pg t = Done t'" "settled t'" "same_pages (set_up pg t) t'" "current t' = current (set_up pg t)" by auto
  note f = set_up_facts [OF assms(1,2)]
  have p: "paged t'" and s: "shows_page t'" using t'(2) by (simp_all add: settled_def)
  have size: "i_pageSize (ft_pageInfo t') = i_pageSize (new_pageInfo t)" using t'(3) f(10) by (simp add: same_pages_def)
  have rows: "page_rows t' = map r_id (filter (\<lambda>r. \<not> r_filtered r \<and> \<not> r_detail r) (t_rows t))"
    using t'(3) f(2) by (simp add: same_pages_def page_rows_def)
  have cur: "i_currentPage (ft_pageInfo t') = max 0 (min (d_currentPage t) (int (length (i_pages (ft_pageInfo t'))) - 1))"
    using t'(3,4) f(11) by (simp add: same_pages_def current_def page_count_def)
  show ?thesis
    using t'(1) p s cur unfolding paged_def shows_page_def Let_def rows size by (intro exI [of _ t']) (auto split: if_splits)
qed

theorem setupPaging_shows_page_witness:
  "\<exists>t'. setupPaging \<lparr>on_create_pages = id, cancels_paging = (\<lambda>_. False)\<rparr> sample3 = Done t' \<and>
     concat (i_pages (ft_pageInfo t')) = [1, 2, 3] \<and> map r_id (filter r_shown (main_rows t')) = page_at (ft_pageInfo t') (i_currentPage (ft_pageInfo t'))"
proof -
  have "0 < i_pageSize (new_pageInfo sample3)" "distinct (map r_id (t_rows sample3))" "t_nav sample3 \<noteq> None"
    "map r_id (filter (\<lambda>r. \<not> r_filtered r \<and> \<not> r_detail r) (t_rows sample3)) = [1, 2, 3]"
    by (simp_all add: sample_defs new_pageInfo_def)
  then show ?thesis
    using setupPaging_shows_page [of "\<lparr>on_create_pages = id, cancels_paging = (\<lambda>_. False)\<rparr>" sample3, OF _ _ covered_sample3]
    by (auto simp: default_pager_def Let_def)
qed

text \<open>The states that a user reaches with the page buttons.\<close>

inductive paging_run :: "pager \<Rightarrow> footable \<Rightarrow> footable \<Rightarrow> bool" for pg t0 where
  start: "setupPaging pg t0 = Done t \<Longrightarrow> paging_run pg t0 t"
| click: "paging_run pg t0 t \<Longrightarrow> g \<in> b_target ` set (the_nav t) \<Longrightarrow> nav_click pg g t = Done t' \<Longrightarrow> paging_run pg t0 t'"

lemma paging_run_ready:
  assumes "paging_run pg t0 t"
    and "default_pager pg" "0 < i_pageSize (new_pageInfo t0)" "covered t0" "distinct (map r_id (t_rows t0))" "t_nav t0 \<noteq> None"
  shows "ready t \<and> same_pages (set_up pg t0) t"
  using assms(1)
proof induction
  case (start t)
  then show ?case using setupPaging_result [OF assms(2-5)] assms(6) by auto
next
  case (click t g t')
  then show ?case using nav_click_ready [of t g pg] by (metis outcome.inject(1) same_pages_trans)
qed

text \<open>
  C17 (invariant). Whatever buttons are clicked after the set-up, and whichever page changes are cancelled, every click ends
  without an exception, the current page exists and its rows are exactly the ones shown; the pages stay those of the set-up.
\<close>

theorem paging_run_invariant:
  assumes "paging_run pg t0 t"
    and "default_pager pg" "0 < i_pageSize (new_pageInfo t0)" "covered t0" "distinct (map r_id (t_rows t0))" "t_nav t0 \<noteq> None"
  shows "0 \<le> current t \<and> current t < max 1 (page_count t) \<and> concat (i_pages (ft_pageInfo t)) = page_rows t0 \<and>
    map r_id (filter r_shown (main_rows t)) = page_at (ft_pageInfo t) (current t) \<and>
    (\<forall>g \<in> b_target ` set (the_nav t). \<exists>t'. nav_click pg g t = Done t' \<and>
       current t' = (if cancels_paging pg (aimed (page_count t) (current t) g) then current t else aimed (page_count t) (current t) g))"
proof -
  note r = paging_run_ready [OF assms]
  have "concat (i_pages (ft_pageInfo t)) = page_rows t0"
    using r ready_concat [of t] set_up_facts(2) [OF assms(2,3)] by (simp add: same_pages_def page_rows_def)
  moreover have "map r_id (filter r_shown (main_rows t)) = page_at (ft_pageInfo t) (current t)"
    using r by (simp add: ready_def shows_page_def current_def Let_def)
  moreover have "\<exists>t'. nav_click pg g t = Done t' \<and>
       current t' = (if cancels_paging pg (aimed (page_count t) (current t) g) then current t else aimed (page_count t) (current t) g)"
    if "g \<in> b_target ` set (the_nav t)" for g
    using nav_click_ready [of t g pg] r that by metis
  ultimately show ?thesis using ready_current r by blast
qed

theorem paging_run_invariant_witness:
  "\<exists>t. setupPaging \<lparr>on_create_pages = id, cancels_paging = (\<lambda>_. False)\<rparr> sample3 = Done t \<and>
     0 \<le> current t \<and> concat (i_pages (ft_pageInfo t)) = page_rows sample3"
proof -
  let ?pg = "\<lparr>on_create_pages = id, cancels_paging = (\<lambda>_. False)\<rparr>"
  have h: "default_pager ?pg" "0 < i_pageSize (new_pageInfo sample3)" "distinct (map r_id (t_rows sample3))" "t_nav sample3 \<noteq> None"
    by (simp_all add: sample_defs new_pageInfo_def default_pager_def)
  obtain t where t: "setupPaging ?pg sample3 = Done t"
    using setupPaging_result [OF h(1,2) covered_sample3 h(3)] h(4) by auto
  then show ?thesis
    using paging_run_invariant [OF paging_run.start [OF t] h(1,2) covered_sample3 h(3,4)] by blast
qed

lemma next_clicks:
  assumes "ready t" "cancels_paging pg = (\<lambda>_. False)" "current t + int m < page_count t"
  obtains t' where "each (nav_click pg) (replicate m ToNext) t = Done t'" "ready t'" "same_pages t t'" "current t' = current t + int m"
  using assms
proof (induction m arbitrary: t thesis)
  case 0
  then show ?case by simp
next
  case (Suc m)
  have n: "0 < page_count t" using Suc.prems(2,4) ready_current [of t] by linarith
  then have "ToNext \<in> b_target ` set (the_nav t)"
    using Suc.prems(2) by (auto simp: ready_def nav_ok_def arrows_def page_count_def)
  moreover have "aimed (page_count t) (current t) ToNext = current t + 1" using Suc.prems(4) by simp
  ultimately obtain u where u: "nav_click pg ToNext t = Done u" "ready u" "same_pages t u" "current u = current t + 1"
    using nav_click_ready [OF Suc.prems(2), of ToNext pg] Suc.prems(3) by metis
  have "page_count u = page_count t" using u(3) by (simp add: same_pages_def page_count_def)
  then have "current u + int m < page_count u" using Suc.prems(4) u(4) by simp
  then obtain t' where "each (nav_click pg) (replicate m ToNext) u = Done t'" "ready t'" "same_pages u t'" "current t' = current u + int m"
    using Suc.IH [OF _ u(2) Suc.prems(3)] by blast
  then show ?case using Suc.prems(1) u same_pages_trans [OF u(3)] by simp
qed

text \<open>
  C18 (liveness). No row gets lost: from every state with the page buttons, unless page changes are cancelled, the button to the
  first page and then the button to the next page, clicked often enough, show any row that is not filtered out. The number of
  clicks is below the number of pages.
\<close>

theorem every_row_is_reached:
  assumes "paging_run pg t0 t" "cancels_paging pg = (\<lambda>_. False)" "i \<in> set (page_rows t0)"
    and "default_pager pg" "0 < i_pageSize (new_pageInfo t0)" "covered t0" "distinct (map r_id (t_rows t0))" "t_nav t0 \<noteq> None"
  shows "\<exists>m t'. int m < page_count t \<and> each (nav_click pg) (ToFirst # replicate m ToNext) t = Done t' \<and>
    i \<in> set (map r_id (filter r_shown (main_rows t')))"
proof -
  have r: "ready t" and sp: "same_pages (set_up pg t0) t" using paging_run_ready [OF assms(1,4-8)] by blast+
  have pr: "page_rows t = page_rows t0" using sp set_up_facts(2) [OF assms(4,5)] by (simp add: same_pages_def page_rows_def)
  obtain m where m: "m < length (i_pages (ft_pageInfo t))" "i \<in> set (i_pages (ft_pageInfo t) ! m)"
    using ready_concat [OF r] assms(3) pr by (metis concat_eq_concat_iff in_set_conv_nth set_concat UN_E)
  then have n: "0 < page_count t" by (auto simp: page_count_def)
  then have "ToFirst \<in> b_target ` set (the_nav t)" using r by (auto simp: ready_def nav_ok_def arrows_def page_count_def)
  then obtain u where u: "nav_click pg ToFirst t = Done u" "ready u" "same_pages t u" "current u = 0"
    using nav_click_ready [OF r, of ToFirst pg] assms(2) by auto
  have "current u + int m < page_count u" using u(3,4) m(1) by (simp add: same_pages_def page_count_def)
  then obtain t' where t': "each (nav_click pg) (replicate m ToNext) u = Done t'" "ready t'" "same_pages u t'" "current t' = int m"
    using next_clicks [OF u(2) assms(2), of m] u(4) by auto
  have "i_pages (ft_pageInfo t') = i_pages (ft_pageInfo t)" using u(3) t'(3) by (simp add: same_pages_def)
  then have "page_at (ft_pageInfo t') (current t') = i_pages (ft_pageInfo t) ! m" using t'(4) m(1) by (simp add: page_at_def)
  then have "map r_id (filter r_shown (main_rows t')) = i_pages (ft_pageInfo t) ! m"
    using t'(2) by (simp add: ready_def shows_page_def current_def Let_def)
  then show ?thesis using m t'(1) u(1) by (intro exI [of _ m] exI [of _ t']) (simp add: page_count_def)
qed

theorem every_row_is_reached_witness:
  "\<exists>t m t'. each (nav_click \<lparr>on_create_pages = id, cancels_paging = (\<lambda>_. False)\<rparr>) (ToFirst # replicate m ToNext) t = Done t' \<and>
     (3 :: nat) \<in> set (map r_id (filter r_shown (main_rows t')))"
proof -
  let ?pg = "\<lparr>on_create_pages = id, cancels_paging = (\<lambda>_. False)\<rparr>"
  have h: "default_pager ?pg" "0 < i_pageSize (new_pageInfo sample3)" "distinct (map r_id (t_rows sample3))" "t_nav sample3 \<noteq> None"
    by (simp_all add: sample_defs new_pageInfo_def default_pager_def)
  obtain t where t: "setupPaging ?pg sample3 = Done t"
    using setupPaging_result [OF h(1,2) covered_sample3 h(3)] h(4) by auto
  have "3 \<in> set (page_rows sample3)" by (simp add: sample_defs page_rows_def)
  then show ?thesis
    using every_row_is_reached [OF paging_run.start [OF t] _ _ h(1,2) covered_sample3 h(3,4)] by force
qed

text \<open>
  For a table without page buttons, setting up the pages throws exactly when a page has to be filled first, that is
  when paging is manual or no row is visible, and the change is not cancelled.
\<close>

theorem paging_needs_buttons:
  assumes "default_pager pg" "0 < i_pageSize (new_pageInfo t)" "covered t" "distinct (map r_id (t_rows t))" "t_nav t = None"
  shows "(\<exists>u. setupPaging pg t = Thrown u) \<longleftrightarrow>
    (a_manual t \<or> \<not> list_ex (row_visible t) (t_rows t)) \<and>
    \<not> cancels_paging pg (i_currentPage (ft_pageInfo (createPages pg (t\<lparr>ft_pageInfo := new_pageInfo t\<rparr>))))"
  using setupPaging_result [OF assms(1-4)] assms(5)
  by (auto simp: nothing_shown_def current_def set_up_def split: if_splits)

text \<open>The loop that looks for the start of a block of page buttons finds the greatest multiple of the limit.\<close>

lemma block_start_eq: "0 < limit \<Longrightarrow> 0 \<le> k \<Longrightarrow> block_start limit k = k - k mod limit"
proof (induction limit k rule: block_start.induct)
  case (1 limit k)
  show ?case
  proof (cases "k mod limit = 0")
    case True
    then show ?thesis by (simp add: block_start.simps [of limit k])
  next
    case False
    then have "0 < k" using 1 by (metis le_less mod_0)
    have "0 < limit" using 1 by simp
    have m: "0 \<le> k mod limit" "k mod limit < limit" using \<open>0 < limit\<close> by simp_all
    have "(k - 1) mod limit = (k mod limit - 1) mod limit" by (simp add: mod_diff_left_eq)
    also have "\<dots> = k mod limit - 1" by (rule mod_pos_pos_trivial) (use m False in linarith)+
    finally have "(k - 1) mod limit = k mod limit - 1" .
    then show ?thesis using 1 False \<open>0 < k\<close> by (simp add: block_start.simps [of limit k])
  qed
qed

end
