(* ===== verification/FootableSort.thy ===== *)
theory FootableSort
  imports FootableRows
begin

text \<open>
  \<^verbatim>\<open>src/src/qt/res/assets/plugins/footable/footable.sort.js\<close>: sorting the body of a table by a column, each row with the detail row
  behind it. The conversion to lower case and the sort of arrays are arguments, as is what handlers of the page answer to
  \<^verbatim>\<open>footable_sorting\<close>; \<open>onSorted\<close> are the handlers of \<^verbatim>\<open>footable_sorted\<close>.
\<close>

section \<open>Comparing values\<close>

fun lower_value :: "(jsstr \<Rightarrow> jsstr) \<Rightarrow> jsval \<Rightarrow> jsval" where
  "lower_value lc (VStr s) = VStr (lc s)"
| "lower_value lc (VNum n) = VNum n"

definition alpha_sorter :: "(jsstr \<Rightarrow> jsstr) \<Rightarrow> jsval \<Rightarrow> jsval \<Rightarrow> int" where
  "alpha_sorter lc a0 b0 =
     (let a = lower_value lc a0; b = lower_value lc b0 in if js_same a b then 0 else if js_less a b then -1 else 1)"

definition numeric_sorter :: "jsval \<Rightarrow> jsval \<Rightarrow> int" where
  "numeric_sorter a b = num_sign (num_sub (to_number a) (to_number b))"

definition sorter_of :: "(jsstr \<Rightarrow> jsstr) \<Rightarrow> jsstr \<Rightarrow> jsval \<Rightarrow> jsval \<Rightarrow> int" where
  "sorter_of lc ty = (if ty = js ''numeric'' then numeric_sorter else alpha_sorter lc)"

section \<open>The rows to sort\<close>

record srow =
  sr_row :: row
  sr_detail :: "row option"
  sr_value :: jsval

definition no_cell :: cell where
  "no_cell = \<lparr>c_th = False, c_nodes = [], c_value = None, c_value_text = [], c_bind = None, c_shown = False, c_visible = False,
     c_first = False, c_last = False, c_classes = []\<rparr>"

definition sort_value :: "column \<Rightarrow> row \<Rightarrow> jsval" where
  "sort_value col r =
     parse_cell (if co_sort_match col < length (r_cells r) then r_cells r ! co_sort_match col else no_cell) col"

definition detail_behind :: "row list \<Rightarrow> row option" where
  "detail_behind rs = (case rs of q # _ \<Rightarrow> if r_detail q then Some q else None | [] \<Rightarrow> None)"

fun sort_rows :: "column \<Rightarrow> row list \<Rightarrow> srow list" where
  "sort_rows col [] = []"
| "sort_rows col (r # rs) =
     (if r_detail r then sort_rows col rs
      else \<lparr>sr_row = r, sr_detail = detail_behind rs, sr_value = sort_value col r\<rparr> # sort_rows col rs)"

definition put_back :: "srow \<Rightarrow> row list" where
  "put_back s = sr_row s # (case sr_detail s of Some d \<Rightarrow> [d] | None \<Rightarrow> [])"

type_synonym row_sort = "(srow \<Rightarrow> srow \<Rightarrow> int) \<Rightarrow> srow list \<Rightarrow> srow list"

definition row_order :: "(jsstr \<Rightarrow> jsstr) \<Rightarrow> column \<Rightarrow> bool \<Rightarrow> srow \<Rightarrow> srow \<Rightarrow> int" where
  "row_order lc col ascending a b =
     (if ascending then sorter_of lc (co_type col) (sr_value a) (sr_value b)
      else sorter_of lc (co_type col) (sr_value b) (sr_value a))"

definition sort_body :: "row_sort \<Rightarrow> (jsstr \<Rightarrow> jsstr) \<Rightarrow> column \<Rightarrow> bool \<Rightarrow> footable \<Rightarrow> footable" where
  "sort_body srt lc col ascending t =
     t\<lparr>t_rows := concat (map put_back (srt (row_order lc col ascending) (sort_rows col (t_rows t))))\<rparr>"

section \<open>Sorting by a column\<close>

datatype direction = Undefined | Toggle | Ascending bool

text \<open>The position of the \<open>k\<close>-th \<^verbatim>\<open>th\<close> of the header.\<close>

definition th_eq :: "nat \<Rightarrow> th list \<Rightarrow> nat option" where
  "th_eq k hs = (let is = filter (\<lambda>j. \<not> h_td (hs ! j)) [0 ..< length hs] in if k < length is then Some (is ! k) else None)"

definition is_sorted :: "nat \<Rightarrow> footable \<Rightarrow> bool" where
  "is_sorted k t = (case th_eq k (t_headers t) of Some j \<Rightarrow> h_sorted (t_headers t ! j) | None \<Rightarrow> False)"

definition mark_sorted :: "nat \<Rightarrow> bool \<Rightarrow> th list \<Rightarrow> th list" where
  "mark_sorted k ascending hs =
     map2 (\<lambda>j h. if th_eq k hs = Some j then h\<lparr>h_sorted := ascending, h_desc := \<not> ascending\<rparr>
                 else h\<lparr>h_sorted := False, h_desc := False\<rparr>) [0 ..< length hs] hs"

record sorting =
  so_sort :: row_sort
  so_lower :: "jsstr \<Rightarrow> jsstr"
  so_cancels :: "nat \<Rightarrow> bool \<Rightarrow> bool"

definition doSort :: "sorting \<Rightarrow> (footable \<Rightarrow> outcome) \<Rightarrow> nat \<Rightarrow> direction \<Rightarrow> footable \<Rightarrow> outcome" where
  "doSort so onSorted k dir t =
     (if a_sort_off t then Done t
      else
        let ascending = (case dir of Undefined \<Rightarrow> is_sorted k t | Toggle \<Rightarrow> \<not> is_sorted k t | Ascending b \<Rightarrow> b) in
        if length (ft_columns t) \<le> k then Thrown t
        else
          let col = ft_columns t ! k in
          if co_sort_ignore col then Done t
          else if so_cancels so k ascending then Done t
          else
            let t1 = t\<lparr>d_sorted := Some (co_index col), t_headers := mark_sorted k ascending (t_headers t)\<rparr>
            in onSorted (bindToggleSelectors (sort_body (so_sort so) (so_lower so) col ascending t1)))"

section \<open>Handlers\<close>

definition sort_column_data :: "th \<Rightarrow> column \<Rightarrow> column" where
  "sort_column_data h col =
     (let m = (if length (co_matches col) \<le> h_sort_match h then 0 else h_sort_match h) in
      col\<lparr>co_sort_initial := nonempty (h_sort_initial h), co_sort_ignore := h_sort_ignore h, co_sort_match := co_matches col ! m\<rparr>)"

definition mark_sortable :: "footable \<Rightarrow> footable" where
  "mark_sortable t =
     t\<lparr>t_headers := map2 (\<lambda>h col. if co_sort_ignore col then h else h\<lparr>h_sortable := True\<rparr>) (t_headers t) (ft_columns t)\<rparr>"

definition sort_initialized :: "sorting \<Rightarrow> (footable \<Rightarrow> outcome) \<Rightarrow> footable \<Rightarrow> outcome" where
  "sort_initialized so onSorted t =
     (if \<not> opt_sort (ft_options t) \<or> a_sort_off t then Done t
      else
        let t1 = mark_sortable t in
        case find (\<lambda>c. co_sort_initial c \<noteq> None) (ft_columns t1) of
          Some col \<Rightarrow> doSort so onSorted (co_index col) (Ascending (co_sort_initial col \<noteq> Some (js ''descending''))) t1
        | None \<Rightarrow> Done t1)"

text \<open>The loop over the \<^verbatim>\<open>th\<close> of the header, each asked when its turn comes.\<close>

definition resort :: "sorting \<Rightarrow> (footable \<Rightarrow> outcome) \<Rightarrow> nat \<Rightarrow> footable \<Rightarrow> outcome" where
  "resort so onSorted k t =
     (case th_eq k (t_headers t) of
        Some j \<Rightarrow>
          if h_sorted (t_headers t ! j) \<or> h_desc (t_headers t ! j) then doSort so onSorted k Undefined t else Done t
      | None \<Rightarrow> Done t)"

definition sort_redrawn :: "sorting \<Rightarrow> (footable \<Rightarrow> outcome) \<Rightarrow> footable \<Rightarrow> outcome" where
  "sort_redrawn so onSorted t =
     (if \<not> opt_sort (ft_options t) \<or> d_sorted t = None then Done t
      else each (resort so onSorted) [0 ..< length (filter (\<lambda>h. \<not> h_td h) (t_headers t))] t)"

definition header_click :: "sorting \<Rightarrow> (footable \<Rightarrow> outcome) \<Rightarrow> nat \<Rightarrow> footable \<Rightarrow> outcome" where
  "header_click so onSorted j t =
     (if j < length (t_headers t) \<and> h_sortable (t_headers t ! j)
      then doSort so onSorted j (Ascending (\<not> h_sorted (t_headers t ! j))) t else Done t)"

section \<open>Rows and their details stay together\<close>

lemma put_back_rows: "details_ok (map r_detail rs) \<Longrightarrow> concat (map put_back (sort_rows col rs)) = rs"
proof (induction "length rs" arbitrary: rs rule: less_induct)
  case less
  show ?case
  proof (cases rs)
    case (Cons r rs1)
    have r: "\<not> r_detail r" using less.prems Cons by (cases rs1) simp_all
    show ?thesis
    proof (cases rs1)
      case Nil
      then show ?thesis using Cons r by (simp add: put_back_def detail_behind_def)
    next
      case rs1: (Cons q rs2)
      show ?thesis
      proof (cases "r_detail q")
        case True
        then have "concat (map put_back (sort_rows col rs2)) = rs2" using less Cons rs1 by simp
        then show ?thesis using Cons rs1 r True by (simp add: put_back_def detail_behind_def)
      next
        case False
        have "concat (map put_back (sort_rows col rs1)) = rs1" by (rule less.hyps) (use less.prems Cons rs1 False in simp_all)
        moreover have "detail_behind rs1 = None" using rs1 False by (simp add: detail_behind_def)
        ultimately show ?thesis using Cons r by (simp add: put_back_def)
      qed
    qed
  qed simp
qed

definition srow_ok :: "column \<Rightarrow> srow \<Rightarrow> bool" where
  "srow_ok col s \<longleftrightarrow>
     \<not> r_detail (sr_row s) \<and> (\<forall>d. sr_detail s = Some d \<longrightarrow> r_detail d) \<and> sr_value s = sort_value col (sr_row s)"

lemma detail_behind_detail: "detail_behind rs = Some d \<Longrightarrow> r_detail d"
  by (auto simp: detail_behind_def split: list.splits if_splits)

lemma sort_rows_ok: "\<forall>s \<in> set (sort_rows col rs). srow_ok col s"
  by (induction rs) (simp_all add: srow_ok_def detail_behind_detail)

lemma srow_eq: "srow_ok col s \<Longrightarrow> \<lparr>sr_row = sr_row s, sr_detail = sr_detail s, sr_value = sort_value col (sr_row s)\<rparr> = s"
  by (simp add: srow_ok_def)

lemma put_back_ok:
  assumes "\<forall>s \<in> set ss. srow_ok col s"
  shows "sort_rows col (concat (map put_back ss)) = ss" "details_ok (map r_detail (concat (map put_back ss)))"
    "filter (\<lambda>r. \<not> r_detail r) (concat (map put_back ss)) = map sr_row ss"
proof -
  have hd: "detail_behind (concat (map put_back ss)) = None" if "\<forall>s \<in> set ss. srow_ok col s" for ss
    using that by (cases ss) (auto simp: detail_behind_def put_back_def srow_ok_def)
  have det: "details_ok (d # map r_detail (concat (map put_back ss))) = (\<not> d \<and> details_ok (map r_detail (concat (map put_back ss))))"
    if "\<forall>s \<in> set ss. srow_ok col s" for ss d
    using that by (cases ss) (auto simp: put_back_def srow_ok_def)
  have "sort_rows col (concat (map put_back ss)) = ss \<and> details_ok (map r_detail (concat (map put_back ss))) \<and>
      filter (\<lambda>r. \<not> r_detail r) (concat (map put_back ss)) = map sr_row ss"
    using assms
  proof (induction ss)
    case (Cons s ss)
    let ?X = "concat (map put_back ss)"
    have IH: "sort_rows col ?X = ss" "details_ok (map r_detail ?X)" "filter (\<lambda>r. \<not> r_detail r) ?X = map sr_row ss"
      and s: "srow_ok col s" and X: "detail_behind ?X = None" "details_ok (False # map r_detail ?X)"
      using Cons hd [of ss] det [of ss] by simp_all
    have r: "\<not> r_detail (sr_row s)" using s by (simp add: srow_ok_def)
    show ?case
    proof (cases "sr_detail s")
      case None
      then show ?thesis using IH X r srow_eq [OF s] by (simp add: put_back_def [of s])
    next
      case (Some d)
      then have "r_detail d" using s by (simp add: srow_ok_def)
      then show ?thesis using IH X r srow_eq [OF s] Some by (simp add: put_back_def [of s] detail_behind_def [of "_ # _"])
    qed
  qed simp
  then show "sort_rows col (concat (map put_back ss)) = ss" "details_ok (map r_detail (concat (map put_back ss)))"
    "filter (\<lambda>r. \<not> r_detail r) (concat (map put_back ss)) = map sr_row ss" by blast+
qed

lemma mset_concat_map: "mset xs = mset ys \<Longrightarrow> mset (concat (map f xs)) = mset (concat (map f ys))"
  by (simp add: mset_concat flip: sum_mset_sum_list)

section \<open>Consistent comparisons\<close>

lemma num_sign_less:
  assumes "a \<noteq> NaN" "b \<noteq> NaN"
  shows "num_sign (num_sub a b) = (if num_less a b then -1 else if num_less b a then 1 else 0)"
  using assms by (cases a; cases b) (auto simp: rnd_sign)

lemma num_less_asym: "num_less a b \<Longrightarrow> \<not> num_less b a"
  by (cases a; cases b) auto

lemma num_less_weak:
  "a \<noteq> NaN \<Longrightarrow> b \<noteq> NaN \<Longrightarrow> c \<noteq> NaN \<Longrightarrow> \<not> num_less b a \<Longrightarrow> \<not> num_less c b \<Longrightarrow> \<not> num_less c a"
  by (cases a; cases b; cases c) auto

lemma consistent_flip: "consistent cmp A \<Longrightarrow> consistent (\<lambda>x y. cmp y x) A"
  unfolding consistent_def by (metis (full_types))

text \<open>A comparison that orders by a strict weak order is consistent, both ways round.\<close>

lemma consistent_less:
  assumes "\<And>x y. x \<in> A \<Longrightarrow> y \<in> A \<Longrightarrow> cmp x y = (if lt (f x) (f y) then -1 else if lt (f y) (f x) then 1 else 0)"
    and "\<And>x y. x \<in> A \<Longrightarrow> y \<in> A \<Longrightarrow> lt (f x) (f y) \<Longrightarrow> \<not> lt (f y) (f x)"
    and "\<And>x y z. x \<in> A \<Longrightarrow> y \<in> A \<Longrightarrow> z \<in> A \<Longrightarrow> \<not> lt (f y) (f x) \<Longrightarrow> \<not> lt (f z) (f y) \<Longrightarrow> \<not> lt (f z) (f x)"
  shows "consistent cmp A" "consistent (\<lambda>x y. cmp y x) A"
proof -
  have le: "cmp x y \<le> 0 \<longleftrightarrow> \<not> lt (f y) (f x)" if "x \<in> A" "y \<in> A" for x y
    using assms(1) [OF that] assms(2) [OF that] by auto
  have "sgn (cmp x y) = - sgn (cmp y x)" if "x \<in> A" "y \<in> A" for x y
    using assms(1) [OF that] assms(1) [OF that(2,1)] assms(2) [OF that] by auto
  moreover have "cmp x z \<le> 0" if "x \<in> A" "y \<in> A" "z \<in> A" "cmp x y \<le> 0" "cmp y z \<le> 0" for x y z
    using that assms(3) [of x y z] le by blast
  ultimately show "consistent cmp A" unfolding consistent_def by blast
  then show "consistent (\<lambda>x y. cmp y x) A" by (rule consistent_flip)
qed

text \<open>When the values of a column can be compared: a numeric column always, any other one if its values are all strings.\<close>

definition comparable :: "column \<Rightarrow> row list \<Rightarrow> bool" where
  "comparable col rs \<longleftrightarrow>
     co_type col = js ''numeric'' \<or> (\<forall>r \<in> set rs. \<not> r_detail r \<longrightarrow> (\<exists>s. sort_value col r = VStr s))"

lemma sort_rows_row: "s \<in> set (sort_rows col rs) \<Longrightarrow> sr_row s \<in> set rs"
  by (induction col rs rule: sort_rows.induct) (auto split: if_splits)

lemma row_order_consistent:
  assumes "comparable col rs"
  shows "consistent (row_order lc col asc) (set (sort_rows col rs))"
proof (cases "co_type col = js ''numeric''")
  case True
  let ?A = "set (sort_rows col rs)" and ?f = "\<lambda>s. to_number (sr_value s)"
  have n: "?f s \<noteq> NaN" if "s \<in> ?A" for s
    using sort_rows_ok [of col rs] that True by (auto simp: srow_ok_def sort_value_def parse_cell_def parse_numeric_def Let_def)
  have c: "numeric_sorter (sr_value x) (sr_value y) = (if num_less (?f x) (?f y) then -1 else if num_less (?f y) (?f x) then 1 else 0)"
    if "x \<in> ?A" "y \<in> ?A" for x y
    unfolding numeric_sorter_def using num_sign_less n that by simp
  have w: "\<not> num_less (?f z) (?f x)" if "x \<in> ?A" "y \<in> ?A" "z \<in> ?A" "\<not> num_less (?f y) (?f x)" "\<not> num_less (?f z) (?f y)" for x y z
    by (rule num_less_weak [OF n [OF that(1)] n [OF that(2)] n [OF that(3)] that(4,5)])
  note 1 = consistent_less [of ?A "\<lambda>x y. numeric_sorter (sr_value x) (sr_value y)" num_less ?f, OF c num_less_asym w]
  have "row_order lc col asc = (if asc then (\<lambda>x y. numeric_sorter (sr_value x) (sr_value y)) else (\<lambda>x y. numeric_sorter (sr_value y) (sr_value x)))"
    using True by (intro ext) (simp add: row_order_def sorter_of_def)
  then show ?thesis using 1 by simp
next
  case False
  let ?A = "set (sort_rows col rs)" and ?f = "\<lambda>s. (case sr_value s of VStr x \<Rightarrow> lc x | VNum _ \<Rightarrow> [])"
  have str: "\<exists>x. sr_value s = VStr x" if "s \<in> ?A" for s
    using sort_rows_ok [of col rs] that assms False sort_rows_row [OF that] by (auto simp: srow_ok_def comparable_def)
  have c: "alpha_sorter lc (sr_value x) (sr_value y) = (if str_less (?f x) (?f y) then -1 else if str_less (?f y) (?f x) then 1 else 0)"
    if xy: "x \<in> ?A" "y \<in> ?A" for x y
  proof -
    obtain a b where "sr_value x = VStr a" "sr_value y = VStr b" using str [OF xy(1)] str [OF xy(2)] by blast
    then show ?thesis using str_less_total [of "lc a" "lc b"] by (auto simp: alpha_sorter_def Let_def)
  qed
  have tr: "\<not> str_less b a \<Longrightarrow> \<not> str_less c b \<Longrightarrow> \<not> str_less c a" for a b c
    using str_less_trans str_less_total by metis
  note 1 = consistent_less [of ?A "\<lambda>x y. alpha_sorter lc (sr_value x) (sr_value y)" str_less ?f, OF c str_less_asym tr]
  have "row_order lc col asc = (if asc then (\<lambda>x y. alpha_sorter lc (sr_value x) (sr_value y)) else (\<lambda>x y. alpha_sorter lc (sr_value y) (sr_value x)))"
    using False by (intro ext) (simp add: row_order_def sorter_of_def)
  then show ?thesis using 1 by simp
qed

section \<open>Properties\<close>

lemma sort_body_result:
  assumes "sorts srt" "details_ok (map r_detail (t_rows t))"
    and t': "t' = sort_body srt lc col asc t"
  shows "mset (t_rows t') = mset (t_rows t)" "details_ok (map r_detail (t_rows t'))"
    "mset (sort_rows col (t_rows t')) = mset (sort_rows col (t_rows t))"
    "comparable col (t_rows t) \<Longrightarrow> sorted_wrt (\<lambda>a b. (if asc then sorter_of lc (co_type col) (sort_value col a) (sort_value col b)
        else sorter_of lc (co_type col) (sort_value col b) (sort_value col a)) \<le> 0) (main_rows t')"
proof -
  have a: "array_sort srt" using assms(1) by (simp add: sorts_array_sort)
  let ?ss = "sort_rows col (t_rows t)" and ?ord = "row_order lc col asc"
  let ?zs = "srt ?ord ?ss"
  have rows: "t_rows t' = concat (map put_back ?zs)" by (simp add: t' sort_body_def)
  have m: "mset ?zs = mset ?ss" by (rule array_sort.srt_mset [OF a])
  have ok: "\<forall>s \<in> set ?zs. srow_ok col s" using sort_rows_ok [of col "t_rows t"] array_sort.srt_set [OF a, of ?ord ?ss] by simp
  show "mset (t_rows t') = mset (t_rows t)" unfolding rows using mset_concat_map [OF m, of put_back] put_back_rows [OF assms(2)] by simp
  show "details_ok (map r_detail (t_rows t'))" unfolding rows by (rule put_back_ok(2) [OF ok])
  show "mset (sort_rows col (t_rows t')) = mset ?ss" unfolding rows put_back_ok(1) [OF ok] by (rule m)
  have main: "main_rows t' = map sr_row ?zs" unfolding main_rows_def rows by (rule put_back_ok(3) [OF ok])
  assume "comparable col (t_rows t)"
  then have "sorted_wrt (\<lambda>a b. ?ord a b \<le> 0) ?zs" by (intro array_sort.srt_sorted [OF a] row_order_consistent)
  then show "sorted_wrt (\<lambda>a b. (if asc then sorter_of lc (co_type col) (sort_value col a) (sort_value col b)
        else sorter_of lc (co_type col) (sort_value col b) (sort_value col a)) \<le> 0) (main_rows t')"
    unfolding main sorted_wrt_map by (rule sorted_wrt_mono_rel [rotated]) (use ok in \<open>auto simp: row_order_def srow_ok_def\<close>)
qed

text \<open>
  C19 (functional). Sorting by a column that is not excluded permutes the rows of the body and keeps every detail row behind its row;
  if the column is numeric, or its values are all strings, the rows of data are then in the order of the column's comparison, in
  the direction asked for; only the header cell of the column is marked, with that direction. The sort of arrays may be any that
  the language allows.
\<close>

theorem doSort_sorts:
  assumes "sorts (so_sort so)" "details_ok (map r_detail (t_rows t))"
    and "\<not> a_sort_off t" "k < length (ft_columns t)" "\<not> co_sort_ignore (ft_columns t ! k)" "\<not> so_cancels so k asc"
  shows "\<exists>t'. doSort so onSorted k (Ascending asc) t = onSorted t' \<and>
    mset (t_rows t') = mset (t_rows t) \<and> details_ok (map r_detail (t_rows t')) \<and>
    mset (sort_rows (ft_columns t ! k) (t_rows t')) = mset (sort_rows (ft_columns t ! k) (t_rows t)) \<and>
    (comparable (ft_columns t ! k) (t_rows t) \<longrightarrow>
       sorted_wrt (\<lambda>a b. let cmp = sorter_of (so_lower so) (co_type (ft_columns t ! k)); val = sort_value (ft_columns t ! k) in
                         (if asc then cmp (val a) (val b) else cmp (val b) (val a)) \<le> 0) (main_rows t')) \<and>
    (\<forall>j < length (t_headers t).
       h_sorted (t_headers t' ! j) = (th_eq k (t_headers t) = Some j \<and> asc) \<and>
       h_desc (t_headers t' ! j) = (th_eq k (t_headers t) = Some j \<and> \<not> asc))"
proof -
  let ?col = "ft_columns t ! k"
  let ?t1 = "t\<lparr>d_sorted := Some (co_index ?col), t_headers := mark_sorted k asc (t_headers t)\<rparr>"
  let ?t' = "bindToggleSelectors (sort_body (so_sort so) (so_lower so) ?col asc ?t1)"
  have "doSort so onSorted k (Ascending asc) t = onSorted ?t'" using assms(3-6) by (simp add: doSort_def Let_def)
  moreover have "t_headers ?t' = mark_sorted k asc (t_headers t)" by (simp add: sort_body_def)
  then have "\<forall>j < length (t_headers t).
       h_sorted (t_headers ?t' ! j) = (th_eq k (t_headers t) = Some j \<and> asc) \<and>
       h_desc (t_headers ?t' ! j) = (th_eq k (t_headers t) = Some j \<and> \<not> asc)" by (simp add: mark_sorted_def)
  ultimately show ?thesis
    using sort_body_result [of "so_sort so" ?t1 _ "so_lower so" ?col asc, OF _ _ refl] assms(1,2)
    by (intro exI [of _ ?t']) (simp add: Let_def)
qed

theorem doSort_sorts_witness:
  "\<exists>t'. doSort \<lparr>so_sort = insertion_sort, so_lower = id, so_cancels = (\<lambda>_ _. False)\<rparr> Done 1 (Ascending True) sample3 = Done t' \<and>
     mset (t_rows t') = mset (t_rows sample3) \<and>
     sorted_wrt (\<lambda>a b. numeric_sorter (sort_value (sample_column 1 ''numeric'') a) (sort_value (sample_column 1 ''numeric'') b) \<le> 0) (main_rows t')"
proof -
  let ?so = "\<lparr>so_sort = insertion_sort, so_lower = id, so_cancels = (\<lambda>_ _. False)\<rparr>"
  have c: "ft_columns sample3 ! 1 = sample_column 1 ''numeric''" by (simp add: sample3_def sample_table_def)
  have "details_ok (map r_detail (t_rows sample3))" "\<not> a_sort_off sample3" "1 < length (ft_columns sample3)"
    "\<not> co_sort_ignore (ft_columns sample3 ! 1)" "comparable (ft_columns sample3 ! 1) (t_rows sample3)"
    by (simp_all add: sample_defs comparable_def)
  then show ?thesis
    using doSort_sorts [of ?so sample3 1 True Done] insertion_sort_sorts unfolding c
    by (auto simp: Let_def sorter_of_def sample_column_def)
qed

text \<open>
  A column that mixes numbers, which come from the attribute \<^verbatim>\<open>data-value\<close>, with text has no order: each of the two values is
  after the other.
\<close>

lemma mixed_values_have_no_order:
  "alpha_sorter id (VNum (Fin 5)) (VStr (js ''abc'')) = 1" "alpha_sorter id (VStr (js ''abc'')) (VNum (Fin 5)) = 1"
  by (simp_all add: alpha_sorter_def string_number_def js_trim_def is_space_def decimal_def sign_of_def is_digit_def Let_def)

end
