(* ===== verification/FootableFilter.thy ===== *)
theory FootableFilter
  imports FootableRows
begin

text \<open>
  \<^verbatim>\<open>src/src/qt/res/assets/plugins/footable/footable.filter.js\<close>: hiding the rows that do not contain every word of a filter. The
  conversion to upper case is an argument, as is what handlers of the page make of \<^verbatim>\<open>footable_filtering\<close>; \<open>filtered\<close> are the
  handlers of \<^verbatim>\<open>footable_filtered\<close>.
\<close>

section \<open>Matching a row\<close>

definition row_text :: "bool \<Rightarrow> row \<Rightarrow> jsstr" where
  "row_text text_only r =
     (let tds = filter (\<lambda>c. \<not> c_th c) (r_cells r) in
      concat (map cell_text tds) @
      (if text_only then [] else concat (map c_value_text (filter (\<lambda>c. c_value c \<noteq> None) tds))))"

definition filterFunction :: "(jsstr \<Rightarrow> jsstr) \<Rightarrow> footable \<Rightarrow> row \<Rightarrow> bool" where
  "filterFunction uc t r \<longleftrightarrow> occurs (uc (d_current_filter t)) (uc (row_text (a_text_only t) r))"

section \<open>Filtering\<close>

record filter_event =
  fe_cancel :: bool
  fe_filter :: jsstr
  fe_clear :: bool

record filtering =
  fi_upper :: "jsstr \<Rightarrow> jsstr"
  fi_event :: "jsstr \<Rightarrow> bool \<Rightarrow> filter_event"

definition filter_showRow :: "nat \<Rightarrow> footable \<Rightarrow> outcome" where
  "filter_showRow i t =
     (case get_row i t of
        None \<Rightarrow> Done t
      | Some r \<Rightarrow>
          if row_visible t r then Done t
          else
            case next_row i t of
              Some q \<Rightarrow>
                if t_breakpoint_class t \<and> r_show r \<and> r_detail q
                then createOrUpdateDetailRow i (upd_row (r_id q) (set_shown True) (upd_row i (set_shown True) t))
                else Done (upd_row i (set_shown True) t)
            | None \<Rightarrow> Done (upd_row i (set_shown True) t))"

text \<open>The loop over the words: each narrows the rows, given by their numbers.\<close>

definition narrow :: "(jsstr \<Rightarrow> jsstr) \<Rightarrow> jsstr \<Rightarrow> footable \<times> nat list \<Rightarrow> footable \<times> nat list" where
  "narrow uc f s =
     (case s of (t, ids) \<Rightarrow>
        if f \<noteq> []
        then let t1 = t\<lparr>d_current_filter := f\<rparr>
             in (t1, filter (\<lambda>i. case get_row i t1 of Some r \<Rightarrow> filterFunction uc t1 r | None \<Rightarrow> False) ids)
        else (t, ids))"

definition clear_filtered :: "row \<Rightarrow> row" where
  "clear_filtered r = r\<lparr>r_filtered := False\<rparr>"

definition show_match :: "nat \<Rightarrow> footable \<Rightarrow> outcome" where
  "show_match i t = and_then (filter_showRow i t) (\<lambda>t1. Done (upd_row i clear_filtered t1))"

definition hide_filtered :: "footable \<Rightarrow> footable" where
  "hide_filtered t = t\<lparr>t_rows := map (\<lambda>r. r\<lparr>r_shown := False, r_filtered := True\<rparr>) (t_rows t)\<rparr>"

definition clearFilter :: "(footable \<Rightarrow> outcome) \<Rightarrow> footable \<Rightarrow> outcome" where
  "clearFilter filtered t =
     (let t1 = t\<lparr>t_rows := map (\<lambda>r. if r_detail r then r else clear_filtered r) (t_rows t)\<rparr>
      in and_then (each filter_showRow (map r_id (main_rows t1)) t1) (\<lambda>t2. filtered (t2\<lparr>d_filter_string := None\<rparr>)))"

definition filter_table :: "filtering \<Rightarrow> (footable \<Rightarrow> outcome) \<Rightarrow> jsstr \<Rightarrow> footable \<Rightarrow> outcome" where
  "filter_table fi filtered filterString t =
     (let minimum = (if a_minimum t \<noteq> 0 then a_minimum t else opt_minimum (ft_options t));
          e = fi_event fi filterString (filterString = [])
      in if fe_cancel e then Done t
         else if fe_filter e \<noteq> [] \<and> length (fe_filter e) < minimum then Done t
         else if fe_clear e then clearFilter filtered t
         else
           let t1 = hide_filtered t;
               (t2, ids) = fold (narrow (fi_upper fi)) (split_on 32 (fe_filter e)) (t1, map r_id (main_rows t1))
           in and_then (each show_match ids t2) (\<lambda>t3. filtered (t3\<lparr>d_filter_string := Some (fe_filter e)\<rparr>)))"

section \<open>Handlers\<close>

definition filter_on :: "footable \<Rightarrow> bool" where
  "filter_on t \<longleftrightarrow> opt_filter (ft_options t) \<and> \<not> a_filter_off t"

definition filter_redrawn :: "filtering \<Rightarrow> (footable \<Rightarrow> outcome) \<Rightarrow> footable \<Rightarrow> outcome" where
  "filter_redrawn fi filtered t =
     (if filter_on t
      then case d_filter_string t of Some s \<Rightarrow> if s \<noteq> [] then filter_table fi filtered s t else Done t | None \<Rightarrow> Done t
      else Done t)"

text \<open>The key handlers of the input field: its text after a key, and whether a key press goes through.\<close>

definition filter_keyup :: "nat \<Rightarrow> jsstr \<Rightarrow> timer \<times> clock \<Rightarrow> jsstr \<times> timer \<times> clock" where
  "filter_keyup key val s = ((if key = 27 then [] else val), timer_start (timer_stop s))"

definition filter_keypress :: "bool \<Rightarrow> nat \<Rightarrow> bool" where
  "filter_keypress disableEnter key \<longleftrightarrow> \<not> (disableEnter \<and> key = 13)"

section \<open>Which rows match\<close>

text \<open>The words of a filter, and the rows that contain them all.\<close>

definition filter_words :: "jsstr \<Rightarrow> jsstr list" where
  "filter_words f = filter (\<lambda>w. w \<noteq> []) (split_on 32 f)"

definition matches_all :: "(jsstr \<Rightarrow> jsstr) \<Rightarrow> bool \<Rightarrow> jsstr \<Rightarrow> row \<Rightarrow> bool" where
  "matches_all uc text_only f r \<longleftrightarrow> (\<forall>w \<in> set (filter_words f). occurs (uc w) (uc (row_text text_only r)))"

lemma get_row_current [simp]: "get_row i (t\<lparr>d_current_filter := f\<rparr>) = get_row i t"
  by (simp add: get_row_def)

lemma narrow_fold:
  assumes "fold (narrow uc) fs (t, ids) = (t', ids')"
  shows "(\<exists>f. t' = t\<lparr>d_current_filter := f\<rparr>) \<and>
    ids' = filter (\<lambda>i. \<forall>w \<in> set fs. w \<noteq> [] \<longrightarrow> (case get_row i t of Some r \<Rightarrow> occurs (uc w) (uc (row_text (a_text_only t) r)) | None \<Rightarrow> False)) ids"
  using assms
proof (induction fs arbitrary: t ids)
  case Nil
  then show ?case by (auto intro!: exI [of _ "d_current_filter t"])
next
  case (Cons f fs)
  let ?P = "\<lambda>w i. case get_row i t of Some r \<Rightarrow> occurs (uc w) (uc (row_text (a_text_only t) r)) | None \<Rightarrow> False"
  show ?case
  proof (cases "f = []")
    case True
    then have "narrow uc f (t, ids) = (t, ids)" by (simp add: narrow_def)
    then show ?thesis using Cons.IH [of t ids] Cons.prems True by simp
  next
    case False
    let ?u = "t\<lparr>d_current_filter := f\<rparr>"
    have "narrow uc f (t, ids) = (?u, filter (?P f) ids)"
      using False by (auto simp: narrow_def Let_def filterFunction_def intro!: filter_cong split: option.split)
    then have "fold (narrow uc) fs (?u, filter (?P f) ids) = (t', ids')" using Cons.prems by simp
    from Cons.IH [OF this] obtain h where t': "t' = ?u\<lparr>d_current_filter := h\<rparr>"
      and ids': "ids' = filter (\<lambda>i. \<forall>w \<in> set fs. w \<noteq> [] \<longrightarrow> (case get_row i ?u of Some r \<Rightarrow> occurs (uc w) (uc (row_text (a_text_only ?u) r)) | None \<Rightarrow> False)) (filter (?P f) ids)"
      by blast
    have "t' = t\<lparr>d_current_filter := h\<rparr>" using t' by simp
    moreover have "ids' = filter (\<lambda>i. \<forall>w \<in> set (f # fs). w \<noteq> [] \<longrightarrow> ?P w i) ids"
    proof -
      have "a_text_only ?u = a_text_only t" by simp
      then show ?thesis using ids' False by (simp only: get_row_current filter_filter) (simp add: conj_commute)
    qed
    ultimately show ?thesis by blast
  qed
qed

section \<open>Showing the matches\<close>

lemma filter_showRow_pair:
  "get_row i t = Some r \<Longrightarrow> \<not> r_shown r \<Longrightarrow> filter_showRow i t = show_pair i t"
  by (simp add: filter_showRow_def show_pair_def row_visible_def)

lemma filter_showRow_none: "get_row i t = None \<Longrightarrow> filter_showRow i t = show_pair i t"
  by (simp add: filter_showRow_def show_pair_def)

text \<open>The rows after the matches \<open>S\<close> are shown and lose their mark.\<close>

definition unmark :: "nat set \<Rightarrow> row list \<Rightarrow> row list" where
  "unmark S rs = map (\<lambda>r. if r_id r \<in> S then clear_filtered r else r) rs"

lemma clear_filtered_simps [simp]:
  "r_id (clear_filtered r) = r_id r" "r_detail (clear_filtered r) = r_detail r" "r_show (clear_filtered r) = r_show r"
  "r_shown (clear_filtered r) = r_shown r" "r_filtered (clear_filtered r) = False" "r_cells (clear_filtered r) = r_cells r"
  "clear_filtered (set_shown b r) = set_shown b (clear_filtered r)" "r_disabled (clear_filtered r) = r_disabled r"
  "clear_filtered (clear_filtered r) = clear_filtered r"
  by (simp_all add: clear_filtered_def set_shown_def)

lemma unmark_skel: "map skel rs = map skel rs' \<Longrightarrow> map skel (unmark S rs) = map skel (unmark S rs')"
  unfolding unmark_def by (auto simp: list_eq_iff_nth_eq skel_def)

lemma fill_unmark: "fill bp S (unmark T rs) = unmark T (fill bp S rs)"
proof -
  have p: "prev_in k (unmark T rs) = map_option (\<lambda>r. if r_id r \<in> T then clear_filtered r else r) (prev_in k rs)" for k
    unfolding unmark_def by (rule prev_in_map) simp
  have "opened bp S (unmark T rs) (if r_id r \<in> T then clear_filtered r else r) = opened bp S rs r" for r
    unfolding opened_def p by (cases "prev_in (r_id r) rs") auto
  then show ?thesis unfolding fill_def unmark_def by auto
qed

lemma unmark_unmark: "unmark S (unmark T rs) = unmark (T \<union> S) rs"
  by (simp add: unmark_def)

lemma unmark_ids: "map r_id (unmark S rs) = map r_id rs"
  by (simp add: unmark_def)

definition matched :: "nat set \<Rightarrow> footable \<Rightarrow> footable \<Rightarrow> bool" where
  "matched S t t' \<longleftrightarrow> frame t t' \<and> t_next_id t' = t_next_id t \<and>
     map skel (t_rows t') = map skel (unmark S (fill (t_breakpoint_class t) S (t_rows t)))"

lemma matched_trans:
  assumes "matched S t u" "matched T u v"
  shows "matched (S \<union> T) t v"
proof -
  let ?bp = "t_breakpoint_class t"
  have "map skel (t_rows v) = map skel (unmark T (fill ?bp T (t_rows u)))"
    using assms frame_fields(1) [of t u] by (simp add: matched_def)
  also have "\<dots> = map skel (unmark T (fill ?bp T (unmark S (fill ?bp S (t_rows t)))))"
    using assms(1) by (intro unmark_skel fill_cong) (simp add: matched_def)
  also have "\<dots> = map skel (unmark (S \<union> T) (fill ?bp (S \<union> T) (t_rows t)))"
    by (simp add: fill_unmark fill_fill unmark_unmark Un_commute)
  finally show ?thesis using assms unfolding matched_def by (auto intro: frame_trans)
qed

lemma matched_ids: "matched S t t' \<Longrightarrow> map r_id (t_rows t') = map r_id (t_rows t)"
  unfolding matched_def using skel_eqs(1) unmark_ids fill_ids by metis

lemma matched_covered: "matched S t t' \<Longrightarrow> covered t' = covered t"
proof (rule covered_cong)
  assume m: "matched S t t'"
  then have "map (length \<circ> r_cells) (t_rows t') = map (length \<circ> r_cells) (unmark S (fill (t_breakpoint_class t) S (t_rows t)))"
    unfolding matched_def by (blast intro: skel_lengths)
  then show "map (length \<circ> r_cells) (t_rows t') = map (length \<circ> r_cells) (t_rows t)"
    by (auto simp: unmark_def fill_def)
  show "ft_columns t' = ft_columns t" using m frame_fields unfolding matched_def by blast
qed

lemma show_match_matched:
  assumes d: "distinct (map r_id (t_rows t))" and c: "covered t" and h: "\<And>r. get_row i t = Some r \<Longrightarrow> \<not> r_shown r"
  obtains t' where "show_match i t = Done t'" "matched {i} t t'"
proof -
  have p: "filter_showRow i t = show_pair i t"
    using h by (cases "get_row i t") (simp_all add: filter_showRow_pair filter_showRow_none)
  obtain u where e: "each show_pair [i] t = Done u" "filled (set [i]) t u" by (rule each_show_pair_safe [OF c d])
  have u: "show_pair i t = Done u" "filled {i} t u" using e by (cases "show_pair i t", simp_all)+
  let ?t' = "upd_row i clear_filtered u"
  have "t_rows ?t' = unmark {i} (t_rows u)" by (simp add: unmark_def)
  then have "map skel (t_rows ?t') = map skel (unmark {i} (fill (t_breakpoint_class t) {i} (t_rows t)))"
    using u(2) unmark_skel [of "t_rows u"] by (simp add: filled_def)
  then have "matched {i} t ?t'" using u(2) frame_trans [OF _ frame_upd(1)] by (auto simp: matched_def filled_def)
  then show thesis using that u(1) p by (simp add: show_match_def)
qed

lemma hidden_after_match:
  assumes m: "matched {i} t t'" and d: "distinct (map r_id (t_rows t))"
    and h: "\<forall>r \<in> set (t_rows t). r_id r \<in> set (i # ids) \<longrightarrow> \<not> r_shown r \<and> \<not> r_detail r" and n: "i \<notin> set ids"
  shows "\<forall>r \<in> set (t_rows t'). r_id r \<in> set ids \<longrightarrow> \<not> r_shown r \<and> \<not> r_detail r"
proof -
  let ?F = "unmark {i} (fill (t_breakpoint_class t) {i} (t_rows t))"
  have F: "\<forall>r \<in> set ?F. r_id r \<in> set ids \<longrightarrow> \<not> r_shown r \<and> \<not> r_detail r"
    using h n by (auto simp: unmark_def fill_def opened_def)
  have sk: "map skel (t_rows t') = map skel ?F" using m by (simp add: matched_def)
  show ?thesis
  proof (intro ballI impI)
    fix r assume r: "r \<in> set (t_rows t')" "r_id r \<in> set ids"
    then have "skel r \<in> set (map skel ?F)" using sk by (metis imageI list.set_map)
    then obtain q where "q \<in> set ?F" "skel r = skel q" by auto
    then show "\<not> r_shown r \<and> \<not> r_detail r" using F r(2) by (auto simp: skel_def)
  qed
qed

lemma each_show_match:
  assumes "distinct (map r_id (t_rows t))" "covered t" "distinct ids"
    and "\<forall>r \<in> set (t_rows t). r_id r \<in> set ids \<longrightarrow> \<not> r_shown r \<and> \<not> r_detail r"
  obtains t' where "each show_match ids t = Done t'" "matched (set ids) t t'"
  using assms
proof (induction ids arbitrary: t thesis)
  case Nil
  have "matched {} t t" by (simp add: matched_def frame_refl unmark_def)
  then show ?case using Nil by simp
next
  case (Cons i ids)
  obtain u where u: "show_match i t = Done u" "matched {i} t u"
    using show_match_matched [OF Cons.prems(2,3), of i] Cons.prems(5) get_row_eq [OF Cons.prems(2)] by (metis list.set_intros(1))
  have "distinct (map r_id (t_rows u))" "covered u" using matched_ids [OF u(2)] matched_covered [OF u(2)] Cons.prems(2,3) by simp_all
  moreover have "\<forall>r \<in> set (t_rows u). r_id r \<in> set ids \<longrightarrow> \<not> r_shown r \<and> \<not> r_detail r"
    by (rule hidden_after_match [OF u(2) Cons.prems(2,5)]) (use Cons.prems(4) in simp)
  ultimately obtain t' where t': "each show_match ids u = Done t'" "matched (set ids) u t'"
    using Cons.IH [of u] Cons.prems(4) by (metis distinct.simps(2))
  have "matched (set (i # ids)) t t'" using matched_trans [OF u(2) t'(2)] by simp
  then show ?case using Cons.prems(1) u(1) t'(1) by simp
qed

section \<open>Properties\<close>

definition filtering_runs :: "filtering \<Rightarrow> jsstr \<Rightarrow> footable \<Rightarrow> bool" where
  "filtering_runs fi s t \<longleftrightarrow>
     (let e = fi_event fi s (s = []) in
      \<not> fe_cancel e \<and> \<not> fe_clear e \<and>
      (fe_filter e = [] \<or> (if a_minimum t \<noteq> 0 then a_minimum t else opt_minimum (ft_options t)) \<le> length (fe_filter e)))"

lemma filter_table_result:
  assumes d: "distinct (map r_id (t_rows t))" and c: "covered t" and f: "filtering_runs fi s t"
  defines "w \<equiv> fe_filter (fi_event fi s (s = []))"
  defines "M \<equiv> \<lambda>r. \<not> r_detail r \<and> matches_all (fi_upper fi) (a_text_only t) w r"
  obtains t' where "filter_table fi filtered s t = filtered t'" "covered t'" "map r_id (t_rows t') = map r_id (t_rows t)"
    "map skel (t_rows t') = map skel (unmark (r_id ` {r \<in> set (t_rows t). M r})
        (fill (t_breakpoint_class t) (r_id ` {r \<in> set (t_rows t). M r}) (t_rows (hide_filtered t))))"
    "d_filter_string t' = Some w" "\<exists>h rs n. t' = t\<lparr>d_current_filter := h, d_filter_string := Some w, t_rows := rs, t_next_id := n\<rparr>"
proof -
  let ?h = "hide_filtered t"
  have hr: "t_rows ?h = map (\<lambda>r. r\<lparr>r_shown := False, r_filtered := True\<rparr>) (t_rows t)" by (simp add: hide_filtered_def)
  have hids: "map r_id (t_rows ?h) = map r_id (t_rows t)" by (simp add: hr)
  obtain t2 ids where fd: "fold (narrow (fi_upper fi)) (split_on 32 w) (?h, map r_id (main_rows ?h)) = (t2, ids)" by (metis surj_pair)
  from narrow_fold [OF fd] obtain g where t2: "t2 = ?h\<lparr>d_current_filter := g\<rparr>"
    and ids: "ids = filter (\<lambda>i. \<forall>w \<in> set (split_on 32 w). w \<noteq> [] \<longrightarrow> (case get_row i ?h of
        Some r \<Rightarrow> occurs (fi_upper fi w) (fi_upper fi (row_text (a_text_only ?h) r)) | None \<Rightarrow> False)) (map r_id (main_rows ?h))" by blast
  have gr: "get_row (r_id r) ?h = Some (r\<lparr>r_shown := False, r_filtered := True\<rparr>)" if "r \<in> set (t_rows t)" for r
  proof -
    have "distinct (map r_id (t_rows ?h))" unfolding hids by (rule d)
    from get_row_eq [OF this] show ?thesis using that by (auto simp: hr)
  qed
  have "ids = map r_id (filter M (t_rows t))"
  proof -
    have main: "map r_id (main_rows ?h) = map r_id (filter (\<lambda>r. \<not> r_detail r) (t_rows t))"
      by (simp add: main_rows_def hr filter_map comp_def)
    have tonly: "a_text_only ?h = a_text_only t" by (simp add: hide_filtered_def)
    have rt: "row_text b (r\<lparr>r_shown := False, r_filtered := True\<rparr>) = row_text b r" for b r by (simp add: row_text_def)
    show ?thesis unfolding ids main M_def matches_all_def filter_words_def
      by (auto simp: filter_map comp_def gr tonly rt intro!: arg_cong [where f = "map r_id"] filter_cong)
  qed
  then have S: "set ids = r_id ` {r \<in> set (t_rows t). M r}" and di: "distinct ids"
    using d by (auto simp: distinct_map inj_on_def)
  have rows2: "t_rows t2 = t_rows ?h" by (simp add: t2)
  have cov: "covered t2 = covered t" by (rule covered_cong) (simp_all add: t2 hr comp_def, simp add: hide_filtered_def)
  have d2: "distinct (map r_id (t_rows t2))" using d by (simp add: rows2 hr comp_def)
  have "\<forall>r \<in> set (t_rows t2). r_id r \<in> set ids \<longrightarrow> \<not> r_shown r \<and> \<not> r_detail r"
  proof (intro ballI impI)
    fix r assume r: "r \<in> set (t_rows t2)" "r_id r \<in> set ids"
    then obtain q where q: "q \<in> set (t_rows t)" "r = q\<lparr>r_shown := False, r_filtered := True\<rparr>" by (auto simp: rows2 hr)
    obtain p where p: "p \<in> set (t_rows t)" "M p" "r_id p = r_id q" using r(2) S q(2) by auto
    then have "p = q" using distinct_id_eq [OF d] q(1) by blast
    then show "\<not> r_shown r \<and> \<not> r_detail r" using p(2) q(2) by (simp add: M_def)
  qed
  then obtain t3 where t3: "each show_match ids t2 = Done t3" "matched (set ids) t2 t3"
    using each_show_match [OF d2 _ di] cov c by blast
  let ?t' = "t3\<lparr>d_filter_string := Some w\<rparr>"
  have bp: "t_breakpoint_class t2 = t_breakpoint_class t" by (simp add: t2 hide_filtered_def)
  have run: "filter_table fi filtered s t = filtered ?t'"
    using f fd t3(1) unfolding filter_table_def filtering_runs_def w_def by (auto simp: Let_def)
  have sk: "map skel (t_rows ?t') = map skel (unmark (set ids) (fill (t_breakpoint_class t) (set ids) (t_rows ?h)))"
    using t3(2) by (simp add: matched_def bp rows2)
  from t3(2) obtain rs n where "t3 = t2\<lparr>t_rows := rs, t_next_id := n\<rparr>" unfolding matched_def frame_iff by blast
  then have fr: "?t' = t\<lparr>d_current_filter := g, d_filter_string := Some w, t_rows := rs, t_next_id := n\<rparr>" by (simp add: t2 hide_filtered_def)
  have "covered ?t'" using matched_covered [OF t3(2)] cov c same_skel_refl covered_cong [of ?t' t3] by simp
  moreover have "map r_id (t_rows ?t') = map r_id (t_rows t)" using matched_ids [OF t3(2)] hids by (simp add: rows2)
  moreover have "\<exists>h rs n. ?t' = t\<lparr>d_current_filter := h, d_filter_string := Some w, t_rows := rs, t_next_id := n\<rparr>" using fr by blast
  ultimately show thesis using sk unfolding S by (intro that [OF run]) simp_all
qed

lemma filter_rows:
  assumes d: "distinct (map r_id (t_rows t))" and "covered t" "filtering_runs fi s t"
  shows "\<exists>t'. filter_table fi filtered s t = filtered t' \<and>
    (let w = fe_filter (fi_event fi s (s = []));
         hits = map r_id (filter (\<lambda>r. \<not> r_detail r \<and> matches_all (fi_upper fi) (a_text_only t) w r) (t_rows t)) in
     map r_id (filter (\<lambda>r. \<not> r_filtered r \<and> \<not> r_detail r) (t_rows t')) = hits \<and>
     map r_id (filter r_shown (main_rows t')) = hits \<and> d_filter_string t' = Some w)"
proof -
  define w where "w = fe_filter (fi_event fi s (s = []))"
  define M where "M = (\<lambda>r. \<not> r_detail r \<and> matches_all (fi_upper fi) (a_text_only t) w r)"
  let ?S = "r_id ` {r \<in> set (t_rows t). M r}" and ?h = "t_rows (hide_filtered t)"
  let ?X = "unmark ?S (fill (t_breakpoint_class t) ?S ?h)"
  obtain t' where t': "filter_table fi filtered s t = filtered t'" "d_filter_string t' = Some w"
    "map skel (t_rows t') = map skel (unmark ?S (fill (t_breakpoint_class t) ?S ?h))"
    by (rule filter_table_result [OF assms, of filtered, folded w_def]) (unfold M_def, blast)
  define S where "S = ?S"
  have iff: "r_id r \<in> S \<longleftrightarrow> M r" if "r \<in> set (t_rows t)" for r
    unfolding S_def using distinct_id_eq [OF d that] that by auto
  define F where "F = (\<lambda>r. let h = r\<lparr>r_shown := False, r_filtered := True\<rparr>;
      q = set_shown (r_id r \<in> S \<or> opened (t_breakpoint_class t) S ?h h) h in if r_id r \<in> S then clear_filtered q else q)"
  have X: "?X = map F (t_rows t)"
    unfolding S_def [symmetric] by (simp add: unmark_def fill_def F_def Let_def) (simp add: hide_filtered_def)
  have F: "r_id (F r) = r_id r" "r_detail (F r) = r_detail r" "r_filtered (F r) = (r_id r \<notin> S)"
    "r_shown (F r) = (r_id r \<in> S \<or> opened (t_breakpoint_class t) S ?h (r\<lparr>r_shown := False, r_filtered := True\<rparr>))" for r
    by (auto simp: F_def Let_def)
  have op: "opened bp S' rs (r\<lparr>r_shown := False, r_filtered := True\<rparr>) \<Longrightarrow> r_detail r" for bp S' rs r by (simp add: opened_def)
  have sk: "map r_id (filter P (t_rows t')) = map r_id (filter (\<lambda>r. P (F r)) (t_rows t))"
    if "\<And>r r'. skel r = skel r' \<Longrightarrow> P r = P r'" for P
  proof -
    have "map r_id (filter P (t_rows t')) = map r_id (filter P (map F (t_rows t)))"
      by (rule skel_filter_ids [OF t'(3) [unfolded X] that])
    then show ?thesis by (simp only: filter_map comp_def map_map F(1))
  qed
  have "map r_id (filter (\<lambda>r. \<not> r_filtered r \<and> \<not> r_detail r) (t_rows t')) = map r_id (filter M (t_rows t))"
    by (subst sk) (auto simp: skel_def F iff M_def intro!: arg_cong [where f = "map r_id"] filter_cong)
  moreover have "map r_id (filter r_shown (main_rows t')) = map r_id (filter M (t_rows t))"
    unfolding main_rows_def filter_filter
    by (subst sk) (auto simp: skel_def F iff M_def dest: op intro!: arg_cong [where f = "map r_id"] filter_cong)
  ultimately show ?thesis using t'(1,2) unfolding Let_def w_def M_def by blast
qed

lemma filter_rows_left:
  assumes "distinct (map r_id (t_rows t))" "covered t" "filtering_runs fi s t"
  shows "\<exists>t'. filter_table fi filtered s t = filtered t' \<and>
    map r_id (filter (\<lambda>r. \<not> r_filtered r \<and> \<not> r_detail r) (t_rows t')) =
    map r_id (filter (\<lambda>r. \<not> r_detail r \<and> matches_all (fi_upper fi) (a_text_only t) (fe_filter (fi_event fi s (s = []))) r) (t_rows t))"
  using filter_rows [OF assms, of filtered] unfolding Let_def by blast

text \<open>
  C20 (functional). A filter that is not cancelled, not empty and not too short ends without an exception: the rows of data that it
  leaves unmarked and shows are exactly those whose text, with the values of their attributes unless the table asks for text only,
  contains every word of the filter regardless of case, in the order of the table. What is bound to the event then runs on that state.
\<close>

theorem filter_keeps_matches:
  assumes d: "distinct (map r_id (t_rows t))" and "covered t" "filtering_runs fi s t"
  shows "\<exists>t'. filter_table fi filtered s t = filtered t' \<and>
    (let w = fe_filter (fi_event fi s (s = []));
         hits = map r_id (filter (\<lambda>r. \<not> r_detail r \<and> matches_all (fi_upper fi) (a_text_only t) w r) (t_rows t)) in
     map r_id (filter (\<lambda>r. \<not> r_filtered r \<and> \<not> r_detail r) (t_rows t')) = hits \<and>
     map r_id (filter r_shown (main_rows t')) = hits \<and> d_filter_string t' = Some w)"
  using filter_rows [OF assms, of filtered] .

text \<open>The sample filter: upper case is left as it is, and no handler interferes.\<close>

definition plain_filtering :: filtering where
  "plain_filtering = \<lparr>fi_upper = map ascii_upper, fi_event = (\<lambda>s c. \<lparr>fe_cancel = False, fe_filter = s, fe_clear = c\<rparr>)\<rparr>"

theorem filter_keeps_matches_witness:
  "\<exists>t'. filter_table plain_filtering Done (js ''FIG -1'') sample3 = Done t' \<and> map r_id (filter r_shown (main_rows t')) = [3]"
proof -
  have "distinct (map r_id (t_rows sample3))" "filtering_runs plain_filtering (js ''FIG -1'') sample3"
    by (simp_all add: sample_defs filtering_runs_def plain_filtering_def)
  moreover have "map r_id (filter (\<lambda>r. \<not> r_detail r \<and> matches_all (map ascii_upper) False (js ''FIG -1'') r) (t_rows sample3)) = [3]"
    by (simp add: sample_defs matches_all_def filter_words_def row_text_def cell_text_def ascii_upper_def)
  moreover have "a_text_only sample3 = False" by (simp add: sample_defs)
  ultimately show ?thesis
    using filter_keeps_matches [of sample3 plain_filtering "js ''FIG -1''" Done, OF _ covered_sample3]
    by (auto simp: plain_filtering_def Let_def)
qed

end
