(* ===== verification/FootableEvents.thy ===== *)
theory FootableEvents
  imports FootableCore FootablePaginate FootableSort FootableFilter
begin

text \<open>
  The scripts of a table together. The page loads \<^verbatim>\<open>footable.js\<close> and the plugins for sorting, filtering and paging in this order, so
  that their handlers of one event run in this order. The theory composes them, states what the core needs of a handler as a
  locale, interprets it on the handlers of the plugins, and proves the properties that span the scripts.
\<close>

section \<open>The handlers of an event\<close>

record env =
  e_pager :: pager
  e_sorting :: sorting
  e_filtering :: filtering

text \<open>Sorting, filtering and removing a row are followed by the paging alone, a redrawing by all three plugins.\<close>

definition after_change :: "env \<Rightarrow> footable \<Rightarrow> outcome" where
  "after_change e = paging_handler (e_pager e)"

definition after_redraw :: "env \<Rightarrow> footable \<Rightarrow> outcome" where
  "after_redraw e t =
     and_then (sort_redrawn (e_sorting e) (after_change e) t)
       (\<lambda>t1. and_then (filter_redrawn (e_filtering e) (after_change e) t1) (paging_handler (e_pager e)))"

definition after_init :: "env \<Rightarrow> footable \<Rightarrow> outcome" where
  "after_init e t = and_then (sort_initialized (e_sorting e) (after_change e) t) (paging_handler (e_pager e))"

text \<open>What can happen to a table: by the user, by the window, or by triggers of the page.\<close>

datatype ui =
    RowClick nat
  | HeaderClick nat
  | NavClick target
  | Filter jsstr
  | ClearFilter
  | WindowResize winfo
  | Redraw
  | Initialize winfo
  | ExpandFirst
  | ExpandAll
  | CollapseAll
  | Append row
  | Remove nat
  | Reset

definition ui_step :: "env \<Rightarrow> ui \<Rightarrow> footable \<Rightarrow> outcome" where
  "ui_step e x t =
     (case x of
        RowClick i \<Rightarrow> row_click i t
      | HeaderClick j \<Rightarrow> header_click (e_sorting e) (after_change e) j t
      | NavClick g \<Rightarrow> if g \<in> b_target ` set (the_nav t) then nav_click (e_pager e) g t else Done t
      | Filter s \<Rightarrow> filter_table (e_filtering e) (after_change e) s t
      | ClearFilter \<Rightarrow> clearFilter (after_change e) t
      | WindowResize w \<Rightarrow> resize (redraw (after_redraw e)) w t
      | Redraw \<Rightarrow> redraw (after_redraw e) t
      | Initialize w \<Rightarrow> initialize (after_redraw e) (after_init e) w t
      | ExpandFirst \<Rightarrow> expandFirstRow t
      | ExpandAll \<Rightarrow> expandAll t
      | CollapseAll \<Rightarrow> collapseAll t
      | Append r \<Rightarrow> appendRow (after_redraw e) r t
      | Remove i \<Rightarrow> removeRow (after_change e) i t
      | Reset \<Rightarrow> Done (reset t))"

text \<open>The data that the sorting adds to a column leave the cells that it covers alone, as \<open>columns_cover_cells\<close> asks.\<close>

lemma sort_column_data_keeps: "keeps_matches sort_column_data"
  by (simp add: keeps_matches_def sort_column_data_def Let_def)

section \<open>Handlers that keep the body in order\<close>

definition keeps :: "(footable \<Rightarrow> outcome) \<Rightarrow> bool" where
  "keeps f \<longleftrightarrow> (\<forall>t. wf_body t \<longrightarrow> wf_body (state_of (f t)))"

named_theorems keep \<open>operations that keep the body of a table in order\<close>

lemma keepsI: "(\<And>t. wf_body t \<Longrightarrow> wf_body (state_of (f t))) \<Longrightarrow> keeps f"
  by (simp add: keeps_def)

lemma keepsD: "keeps f \<Longrightarrow> wf_body t \<Longrightarrow> wf_body (state_of (f t))"
  by (simp add: keeps_def)

lemma keep_Done [keep]: "keeps Done"
  by (simp add: keeps_def)

lemma wf_and_then: "wf_body (state_of x) \<Longrightarrow> (\<And>t. x = Done t \<Longrightarrow> wf_body t \<Longrightarrow> wf_body (state_of (f t))) \<Longrightarrow> wf_body (state_of (and_then x f))"
  by (cases x) auto

lemma keep_and_then [keep]: "keeps f \<Longrightarrow> keeps g \<Longrightarrow> keeps (\<lambda>t. and_then (f t) g)"
  by (auto simp: keeps_def intro: wf_and_then)

lemma keep_each [keep]: "(\<And>x. x \<in> set xs \<Longrightarrow> keeps (f x)) \<Longrightarrow> keeps (each f xs)"
proof (induction xs)
  case (Cons x xs)
  then show ?case by (auto simp: keeps_def intro!: wf_and_then)
qed (simp add: keeps_def)

lemma keep_if [keep]: "keeps f \<Longrightarrow> keeps g \<Longrightarrow> keeps (\<lambda>t. if P t then f t else g t)"
  by (simp add: keeps_def)

text \<open>Changing rows one by one without their number or their kind, and changing anything else, keeps the body in order.\<close>

lemma wf_map_rows:
  assumes "wf_body t" "t_rows t' = map f (t_rows t)" "t_next_id t' = t_next_id t" "\<And>r. shape (f r) = shape r"
  shows "wf_body t'"
proof -
  have "map shape (t_rows t') = map shape (t_rows t)" using assms(2,4) by simp
  then show ?thesis using wf_body_cong assms(1,3) by blast
qed

lemma wf_same_rows: "wf_body t \<Longrightarrow> t_rows t' = t_rows t \<Longrightarrow> t_next_id t' = t_next_id t \<Longrightarrow> wf_body t'"
  by (simp add: wf_body_def)

lemma wf_upd_row: "wf_body t \<Longrightarrow> (\<And>r. shape (f r) = shape r) \<Longrightarrow> wf_body (upd_row i f t)"
  by (rule wf_map_rows [where f = "\<lambda>r. if r_id r = i then f r else r"]) auto

lemma wf_distinct: "wf_body t \<Longrightarrow> distinct (map r_id (t_rows t))"
  by (simp add: wf_body_def)

lemma wf_filled:
  assumes "wf_body t" "filled S t t'"
  shows "wf_body t'"
proof -
  have "map shape (t_rows t') = map shape (fill (t_breakpoint_class t) S (t_rows t))"
    using assms(2) skel_shape unfolding filled_def by blast
  also have "\<dots> = map shape (t_rows t)" by (simp add: fill_def shape_def comp_def)
  finally show ?thesis using assms wf_body_cong [of t' t] by (simp add: filled_def)
qed

section \<open>The core\<close>

lemma wf_createOrUpdateDetailRow: "wf_body t \<Longrightarrow> wf_body (state_of (createOrUpdateDetailRow i t))"
proof -
  assume w: "wf_body t"
  let ?t' = "state_of (createOrUpdateDetailRow i t)"
  have "same_skel t ?t' \<or> detail_inserted i t ?t'" by (rule createOrUpdateDetailRow_skel)
  then show ?thesis
  proof
    assume "same_skel t ?t'"
    then show ?thesis using w wf_same_skel by blast
  next
    assume ins: "detail_inserted i t ?t'"
    have "\<not> r_detail r" if r: "get_row i t = Some r" for r
    proof
      assume "r_detail r"
      then have "r_cells r = []" using r w get_row_eq [OF wf_distinct [OF w]] by (auto simp: wf_body_def)
      then have "hidden_cells r = []" by (simp add: hidden_cells_def)
      then have "createOrUpdateDetailRow i t = Done t" using r by (simp add: createOrUpdateDetailRow_def)
      then show False using ins by (simp add: detail_inserted_def)
    qed
    then show ?thesis using wf_detail_inserted [OF ins w] by blast
  qed
qed

lemma keep_createOrUpdateDetailRow [keep]: "keeps (createOrUpdateDetailRow i)"
  by (rule keepsI) (rule wf_createOrUpdateDetailRow)

lemma wf_show_next: "wf_body t \<Longrightarrow> wf_body (show_next i t)"
  by (auto simp: show_next_def shape_def intro!: wf_upd_row split: option.split)

lemma keep_toggleDetail [keep]: "keeps (toggleDetail i)"
proof (rule keepsI)
  fix t assume w: "wf_body t"
  have sh: "shape (r\<lparr>r_show := b\<rparr>) = shape r" "shape (set_shown c r) = shape r" for r b c by (simp_all add: shape_def)
  show "wf_body (state_of (toggleDetail i t))"
    unfolding toggleDetail_def Let_def
    by (auto split: option.split simp: sh w intro!: wf_and_then wf_upd_row wf_show_next wf_createOrUpdateDetailRow)
qed

lemma keep_trigger [keep]: "keeps (trigger_toggleRow i)" "keeps (row_click i)"
  unfolding row_click_def trigger_toggleRow_def by (intro keep; simp)+

lemma keep_each_of: "(\<And>x. keeps (f x)) \<Longrightarrow> wf_body t \<Longrightarrow> wf_body (state_of (each f (xs t) t))"
  using keep_each keepsD by metis

lemma keep_expand [keep]: "keeps expandFirstRow" "keeps expandAll" "keeps collapseAll"
  unfolding expandFirstRow_def expandAll_def collapseAll_def by (auto intro!: keepsI keep_each_of keep)

lemma shape_simps [simp]:
  "shape (remove_toggles r) = shape r" "shape (r\<lparr>r_created := b\<rparr>) = shape r" "shape (set_shown b r) = shape r"
  "shape (r\<lparr>r_show := b\<rparr>) = shape r" "shape (r\<lparr>r_items := x\<rparr>) = shape r" "shape (r\<lparr>r_filtered := b\<rparr>) = shape r"
  "shape (r\<lparr>r_shown := c, r_filtered := b\<rparr>) = shape r" "shape (clear_filtered r) = shape r"
  "shape (r\<lparr>r_shown := c\<rparr>) = shape r"
  by (simp_all add: shape_def remove_toggles_def)

lemma shape_map_cells [simp]: "map shape (map_cells P f rs) = map shape rs"
  by (auto simp: map_cells_def shape_def)

text \<open>States whose rows have the same shapes.\<close>

definition alike :: "footable \<Rightarrow> footable \<Rightarrow> bool" where
  "alike t t' \<longleftrightarrow> map shape (t_rows t') = map shape (t_rows t) \<and> t_next_id t' = t_next_id t"

lemma alike_wf: "alike t t' \<Longrightarrow> wf_body t \<Longrightarrow> wf_body t'"
  unfolding alike_def using wf_body_cong by blast

lemma alike_trans: "alike t u \<Longrightarrow> alike u v \<Longrightarrow> alike t v"
  by (simp add: alike_def)

lemma alike_same [simp]: "t_rows t' = t_rows t \<Longrightarrow> t_next_id t' = t_next_id t \<Longrightarrow> alike t t'"
  by (simp add: alike_def)

lemma addRowToggle_alike: "alike t (addRowToggle t)"
  by (simp add: addRowToggle_def alike_def Let_def comp_def split: option.split)

lemma setColumnClasses_alike: "alike t (setColumnClasses t)"
proof -
  have "map shape (fold (\<lambda>col rs. case co_className col of None \<Rightarrow> rs
      | Some cl \<Rightarrow> map_cells (\<lambda>r. \<not> r_detail r)
          (\<lambda>j c. if j \<in> set (co_matches col) \<and> \<not> c_th c \<and> cl \<notin> set (c_classes c) then c\<lparr>c_classes := c_classes c @ [cl]\<rparr> else c) rs) cols rs)
      = map shape rs" for cols rs
    by (induction cols arbitrary: rs) (auto split: option.split)
  then show ?thesis by (simp add: setColumnClasses_def alike_def)
qed

lemma redraw_header_alike: "alike t (state_of (redraw_header j t))"
  by (auto simp: redraw_header_def alike_def Let_def span_group_def show_column_def vis_rows_def split: option.split prod.split)

lemma upd_cell_shape: "map shape (t_rows (upd_cell i k f t)) = map shape (t_rows t)"
  by (auto simp: upd_cell_def shape_def)

lemma set_bind_values_shape: "map shape (t_rows (set_bind_values b ns t)) = map shape (t_rows t)"
  by (simp add: set_bind_values_def)

lemma toggleInput_alike: "alike t (state_of (toggleInput ik t))"
  by (auto simp: toggleInput_def alike_def upd_cell_shape set_bind_values_shape split: option.split)

lemma show_detail_of_alike: "alike t (state_of (show_detail_of b i t))"
  by (auto simp: show_detail_of_def alike_def split: option.split)

lemma mark_first_length: "length (mark_first P f xs) = length xs"
  by (induction xs) auto

lemma end_classes_length: "length (end_classes b cs) = length cs"
  by (simp add: end_classes_def mark_ends_def mark_first_length Let_def)

lemma set_end_classes_alike: "alike t (set_end_classes t)"
  by (simp add: set_end_classes_def alike_def shape_def end_classes_length)

lemma keep_alike: "(\<And>t. alike t (state_of (f t))) \<Longrightarrow> keeps f"
  using alike_wf by (blast intro: keepsI)

text \<open>What the scripts ask of a handler of their events: that it keeps the body in order.\<close>

locale body_handler =
  fixes handle :: "footable \<Rightarrow> outcome"
  assumes handle_keeps: "keeps handle"
begin

lemma redraw_keeps: "keeps (redraw handle)"
proof (rule keepsI)
  fix t assume w: "wf_body t"
  define t1 where "t1 = setColumnClasses (bindToggleSelectors (addRowToggle t))"
  define t2 where "t2 = t1\<lparr>t_rows := map (\<lambda>r. if r_detail r then r else r\<lparr>r_created := False\<rparr>) (t_rows t1)\<rparr>"
  have "alike t t1"
    unfolding t1_def by (rule alike_trans [OF alike_trans [OF addRowToggle_alike alike_same] setColumnClasses_alike]) simp_all
  moreover have "alike t1 t2" by (auto simp: t2_def alike_def)
  ultimately have w2: "wf_body t2" using w alike_wf alike_trans by blast
  have k: "keeps (each redraw_header xs)" "keeps (each createOrUpdateDetailRow ys)" "keeps (each toggleInput zs)"
      "keeps (each (show_detail_of b) us)" for xs ys zs b us
    by (intro keep_each keep_createOrUpdateDetailRow keep_alike redraw_header_alike toggleInput_alike show_detail_of_alike)+
  show "wf_body (state_of (redraw handle t))"
    unfolding redraw_def Let_def t1_def [symmetric] t2_def [symmetric]
    by (intro wf_and_then keepsD [OF k(1)] keepsD [OF k(2)] keepsD [OF k(3)] keepsD [OF k(4)] keepsD [OF handle_keeps] w2
        alike_wf [OF set_end_classes_alike])
qed

lemma resize_keeps: "keeps (resize (redraw handle) w)"
proof (rule keepsI)
  fix t assume w: "wf_body t"
  have same: "wf_body t'" if "t_rows t' = t_rows t" "t_next_id t' = t_next_id t" for t' using w that by (rule wf_same_rows)
  show "wf_body (state_of (resize (redraw handle) w t))"
    unfolding resize_def Let_def by (auto intro!: keepsD [OF redraw_keeps] same w)
qed

lemma appendRow_keeps:
  assumes "wf_body t" "r_id r \<notin> set (map r_id (t_rows t))" "r_id r < t_next_id t" "\<not> r_detail r"
  shows "wf_body (state_of (appendRow handle r t))"
proof -
  have "details_ok (ds @ [False])" if "details_ok ds" for ds
    using that by (induction ds rule: details_ok.induct) auto
  then have "wf_body (t\<lparr>t_rows := t_rows t @ [r]\<rparr>)" using assms by (auto simp: wf_body_def)
  then show ?thesis unfolding appendRow_def by (rule keepsD [OF redraw_keeps])
qed

end

text \<open>Sorting is a client of both the handlers of its event and the sort of arrays.\<close>

locale sort_plugin = body_handler onSorted for onSorted +
  fixes so :: sorting
  assumes so_sorts: "sorts (so_sort so)"
begin

lemma sort_body_keeps: "wf_body t \<Longrightarrow> wf_body (sort_body (so_sort so) lc col asc t)"
proof -
  assume w: "wf_body t"
  let ?t' = "sort_body (so_sort so) lc col asc t"
  have d: "details_ok (map r_detail (t_rows t))" using w by (simp add: wf_body_def)
  have m: "mset (t_rows ?t') = mset (t_rows t)" "details_ok (map r_detail (t_rows ?t'))"
    using sort_body_result(1,2) [OF so_sorts d refl] by blast+
  have "set (t_rows ?t') = set (t_rows t)" using m(1) by (metis set_mset_mset)
  moreover have "distinct (map r_id (t_rows ?t'))"
    using w m(1) by (metis wf_distinct mset_eq_imp_distinct_iff mset_map)
  ultimately show ?thesis using w m(2) by (auto simp: wf_body_def sort_body_def)
qed

lemma doSort_keeps: "keeps (doSort so onSorted k dir)"
proof (rule keepsI)
  fix t assume w: "wf_body t"
  have "wf_body (bindToggleSelectors (sort_body (so_sort so) (so_lower so) c a (t\<lparr>d_sorted := x, t_headers := h\<rparr>)))" for c a x h
    by (rule wf_same_rows [OF sort_body_keeps [of "t\<lparr>d_sorted := x, t_headers := h\<rparr>"]]) (use w in \<open>simp_all add: wf_body_def\<close>)
  then show "wf_body (state_of (doSort so onSorted k dir t))"
    using w unfolding doSort_def Let_def by (auto intro!: keepsD [OF handle_keeps])
qed

lemma header_click_keeps: "keeps (header_click so onSorted j)"
  using doSort_keeps unfolding header_click_def keeps_def by simp

lemma sort_redrawn_keeps: "keeps (sort_redrawn so onSorted)"
proof -
  have "keeps (resort so onSorted k)" for k
    using doSort_keeps unfolding resort_def keeps_def by (auto split: option.split)
  then have "wf_body t \<Longrightarrow> wf_body (state_of (each (resort so onSorted) xs t))" for xs t using keep_each keepsD by metis
  then show ?thesis unfolding sort_redrawn_def keeps_def by simp
qed

lemma sort_initialized_keeps: "keeps (sort_initialized so onSorted)"
proof (rule keepsI)
  fix t assume w: "wf_body t"
  then have "wf_body (mark_sortable t)" by (rule wf_same_rows) (simp_all add: mark_sortable_def)
  then show "wf_body (state_of (sort_initialized so onSorted t))"
    using w unfolding sort_initialized_def Let_def by (auto intro!: keepsD [OF doSort_keeps] split: option.split)
qed

end

section \<open>The plugins\<close>

lemma keep_show_pair [keep]: "keeps (show_pair i)"
  using wf_filled show_pair_filled wf_distinct by (blast intro: keepsI)

lemma keep_fillPage [keep]: "keeps (fillPage k)"
proof (rule keepsI)
  fix t assume w: "wf_body t"
  have "wf_body (hide_rows (t\<lparr>ft_pageInfo := i, d_currentPage := k\<rparr>))" for i
    by (rule alike_wf [OF _ w]) (simp add: alike_def hide_rows_def)
  moreover have "keeps (each showRow is)" for "is" unfolding showRow_pair by (intro keep_each keep_show_pair)
  ultimately show "wf_body (state_of (fillPage k t))" unfolding fillPage_def Let_def by (blast intro: keepsD)
qed

lemma nav_alike: "alike t (upd_nav f t)" "alike t (page_classes t)" "alike t (createNavigation t)" "alike t (createPages pg t)"
  by (simp_all add: upd_nav_def page_classes_def createNavigation_def createPages_def Let_def case_prod_beta split: option.split)

lemma keep_paginate [keep]: "keeps (paginate pg k)"
proof (rule keepsI)
  fix t assume w: "wf_body t"
  show "wf_body (state_of (paginate pg k t))"
    unfolding paginate_def Let_def
    by (auto intro!: wf_and_then keepsD [OF keep_fillPage] w alike_wf [OF nav_alike(2)] alike_wf [OF nav_alike(1)])
qed

lemma keep_setupPaging [keep]: "keeps (setupPaging pg)"
proof (rule keepsI)
  fix t assume w: "wf_body t"
  have "wf_body (t\<lparr>ft_pageInfo := i\<rparr>)" for i by (rule wf_same_rows [OF w]) simp_all
  then show "wf_body (state_of (setupPaging pg t))"
    unfolding setupPaging_def Let_def
    by (intro wf_and_then keepsD [OF keep_paginate] keepsD [OF keep_fillPage] alike_wf [OF nav_alike(3)] alike_wf [OF nav_alike(4)])
qed

lemma keep_paging_handler [keep]: "keeps (paging_handler pg)"
  using keep_setupPaging unfolding paging_handler_def keeps_def by simp

interpretation paging: body_handler "paging_handler pg" for pg
  by unfold_locales (rule keep_paging_handler)

interpretation sorting: sort_plugin "paging_handler pg" "\<lparr>so_sort = insertion_sort, so_lower = lc, so_cancels = c\<rparr>" for pg lc c
  by unfold_locales (simp add: insertion_sort_sorts)

lemma sort_plugin_paging: "sorts (so_sort so) \<Longrightarrow> sort_plugin (paging_handler pg) so"
  by (intro sort_plugin.intro paging.body_handler_axioms sort_plugin_axioms.intro)

lemma keep_nav_click [keep]: "keeps (nav_click pg g)"
proof (rule keepsI)
  fix t assume w: "wf_body t"
  have "alike t (snd (click_page g t))"
    by (cases g) (simp_all add: click_page_def Let_def alike_trans [OF nav_alike(1) nav_alike(2)])
  then have u: "wf_body (snd (click_page g t))" using w alike_wf by blast
  show "wf_body (state_of (nav_click pg g t))"
    unfolding nav_click_def Let_def case_prod_beta
    by (auto intro!: keepsD [OF keep_paginate] u alike_wf [OF nav_alike(1)])
qed

lemma filter_showRow_eq:
  "filter_showRow i t = (case get_row i t of Some r \<Rightarrow> if row_visible t r then Done t else show_pair i t | None \<Rightarrow> Done t)"
  by (simp add: filter_showRow_def show_pair_def split: option.split)

lemma keep_filter_showRow [keep]: "keeps (filter_showRow i)"
  using keep_show_pair unfolding filter_showRow_eq keeps_def by (auto split: option.split)

lemma keep_show_match [keep]: "keeps (show_match i)"
proof (rule keepsI)
  fix t assume w: "wf_body t"
  show "wf_body (state_of (show_match i t))" unfolding show_match_def
    by (intro wf_and_then keepsD [OF keep_filter_showRow] w) (simp, rule wf_upd_row, simp_all)
qed

text \<open>Filtering, again as a client of the handlers of its event.\<close>

context body_handler
begin

lemma clearFilter_keeps: "keeps (clearFilter handle)"
proof (rule keepsI)
  fix t assume w: "wf_body t"
  let ?t1 = "t\<lparr>t_rows := map (\<lambda>r. if r_detail r then r else clear_filtered r) (t_rows t)\<rparr>"
  have w1: "wf_body ?t1" by (rule alike_wf [OF _ w]) (auto simp: alike_def)
  have "keeps (each filter_showRow is)" for "is" by (intro keep_each keep_filter_showRow)
  then have "wf_body (state_of (each filter_showRow is ?t1))" for "is" using keepsD w1 by blast
  then show "wf_body (state_of (clearFilter handle t))"
    unfolding clearFilter_def Let_def by (intro wf_and_then keepsD [OF handle_keeps]) (auto elim: wf_same_rows)
qed

lemma filter_table_keeps: "keeps (filter_table fi handle s)"
proof (rule keepsI)
  fix t assume w: "wf_body t"
  have w1: "wf_body (hide_filtered t)" by (rule alike_wf [OF _ w]) (auto simp: alike_def hide_filtered_def)
  have n: "wf_body (fst (fold (narrow uc) fs (u, ids)))" if "wf_body u" for uc fs u ids
    using that
  proof (induction fs arbitrary: u ids)
    case (Cons f fs)
    have "wf_body (fst (narrow uc f (u, ids)))"
      using Cons.prems by (auto simp: narrow_def Let_def elim: wf_same_rows)
    then show ?case using Cons.IH [of "fst (narrow uc f (u, ids))" "snd (narrow uc f (u, ids))"] by simp
  qed simp
  have m: "keeps (each show_match is)" for "is" by (intro keep_each keep_show_match)
  show "wf_body (state_of (filter_table fi handle s t))"
    unfolding filter_table_def Let_def case_prod_beta
    using w keepsD [OF clearFilter_keeps w]
    by (auto simp: narrow_def w1 intro!: wf_and_then keepsD [OF m] n keepsD [OF handle_keeps] elim: wf_same_rows)
qed

lemma filter_redrawn_keeps: "keeps (filter_redrawn fi handle)"
  using filter_table_keeps unfolding filter_redrawn_def keeps_def by (auto split: option.split)

end

section \<open>Removing and resetting\<close>

lemma details_ok_True [simp]: "\<not> details_ok (True # ds)"
  by (cases ds) simp_all

lemma details_apart: "\<not> details_ok (ds @ True # True # es)"
  by (induction ds rule: details_ok.induct) auto

lemma details_cut_pair: "details_ok (ds @ False # True # es) \<Longrightarrow> details_ok (ds @ es)"
proof (induction ds rule: details_ok.induct)
  case (2 d)
  then show ?case by (cases es) (auto split: if_splits)
next
  case (3 d e ds)
  then show ?case by (auto split: if_splits)
qed simp

lemma details_cut_one: "details_ok (ds @ False # es) \<Longrightarrow> es = [] \<or> \<not> hd es \<Longrightarrow> details_ok (ds @ es)"
proof (induction ds rule: details_ok.induct)
  case 1
  then show ?case by (cases es) auto
next
  case (2 d)
  then show ?case by (cases es) (auto split: if_splits)
next
  case (3 d e ds)
  then show ?case by (auto split: if_splits)
qed

lemma next_in_split: "distinct (map r_id (rs1 @ r # rs2)) \<Longrightarrow> next_in (r_id r) (rs1 @ r # rs2) = (case rs2 of [] \<Rightarrow> None | q # _ \<Rightarrow> Some q)"
proof (induction rs1)
  case Nil
  then show ?case by (cases rs2) simp_all
next
  case (Cons x rs1)
  then show ?case by (cases rs1; cases rs2) (auto split: list.split)
qed

lemma filter_id_split: "distinct (map r_id (rs1 @ r # rs2)) \<Longrightarrow> filter (\<lambda>x. r_id x \<noteq> r_id r) (rs1 @ r # rs2) = rs1 @ rs2"
  by (simp add: image_iff) (metis (mono_tags, lifting) filter_True)

text \<open>
  A row can be removed if its mark tells whether the row behind it is its detail; redrawing and resetting leave marks that do not.
\<close>

definition removable :: "nat \<Rightarrow> footable \<Rightarrow> bool" where
  "removable i t \<longleftrightarrow>
     (case remove_target i t of
        None \<Rightarrow> True
      | Some r \<Rightarrow> (case next_row (r_id r) t of None \<Rightarrow> True | Some q \<Rightarrow> r_created r = r_detail q))"

lemma details_detail_has_prev:
  assumes "details_ok (map r_detail (rs1 @ p # q # rs2))" "r_detail q"
  shows "\<not> r_detail p"
proof
  assume "r_detail p"
  then show False using assms details_apart [of "map r_detail rs1" "map r_detail rs2"] by simp
qed

lemma prev_in_split: "prev_in i rs = Some p \<Longrightarrow> \<exists>rs1 q rs2. rs = rs1 @ p # q # rs2 \<and> r_id q = i"
proof (induction i rs rule: prev_in.induct)
  case (3 i r q rs)
  show ?case
  proof (cases "r_id q = i")
    case True
    then have "r # q # rs = [] @ p # q # rs" using 3(2) by simp
    then show ?thesis using True by blast
  next
    case False
    then obtain rs1 q' rs2 where "q # rs = rs1 @ p # q' # rs2 \<and> r_id q' = i" using 3 by auto
    then have "r # q # rs = (r # rs1) @ p # q' # rs2 \<and> r_id q' = i" by simp
    then show ?thesis by blast
  qed
qed simp_all

lemma remove_target_main:
  assumes "wf_body t" "remove_target i t = Some r"
  shows "r \<in> set (t_rows t) \<and> \<not> r_detail r"
proof -
  have d: "distinct (map r_id (t_rows t))" and o: "details_ok (map r_detail (t_rows t))" using assms(1) by (simp_all add: wf_body_def)
  obtain r0 where r0: "get_row i t = Some r0" "(if r_detail r0 then prev_in i (t_rows t) else Some r0) = Some r"
    using assms(2) by (auto simp: remove_target_def split: option.splits)
  have m: "r0 \<in> set (t_rows t)" "r_id r0 = i" using get_row_eq [OF d] r0(1) by blast+
  show ?thesis
  proof (cases "r_detail r0")
    case True
    then obtain rs1 q rs2 where s: "t_rows t = rs1 @ r # q # rs2" "r_id q = i" using r0(2) prev_in_split [of i "t_rows t" r] by auto
    have "q \<in> set (t_rows t)" by (simp add: s(1))
    then have "q = r0" using m s(2) distinct_id_eq [OF d] by metis
    then have "\<not> r_detail r" using details_detail_has_prev [of rs1 r q rs2] o True unfolding s(1) by simp
    then show ?thesis by (simp add: s(1))
  qed (use r0 m in auto)
qed

lemma wf_filter_rows:
  assumes "wf_body t" "t_rows t' = filter P (t_rows t)" "t_next_id t' = t_next_id t" "details_ok (map r_detail (t_rows t'))"
  shows "wf_body t'"
  using assms unfolding wf_body_def by (simp add: distinct_map_filter)

context body_handler
begin

lemma removeRow_keeps:
  assumes "wf_body t" "removable i t"
  shows "wf_body (state_of (removeRow handle i t))"
proof (cases "remove_target i t")
  case None
  then show ?thesis using keepsD [OF handle_keeps assms(1)] by (simp add: removeRow_def)
next
  case (Some r)
  then have r: "r \<in> set (t_rows t)" "\<not> r_detail r" using remove_target_main [OF assms(1)] by blast+
  have d: "distinct (map r_id (t_rows t))" and o: "details_ok (map r_detail (t_rows t))" using assms(1) by (simp_all add: wf_body_def)
  obtain rs1 rs2 where s: "t_rows t = rs1 @ r # rs2" using r(1) by (meson split_list)
  have nx: "next_row (r_id r) t = (case rs2 of [] \<Rightarrow> None | q # _ \<Rightarrow> Some q)"
    unfolding next_row_def s by (rule next_in_split) (use d s in simp)
  define t1 where "t1 = (case next_row (r_id r) t of Some q \<Rightarrow> if r_created r then del_row (r_id q) t else t | None \<Rightarrow> t)"
  have "wf_body (del_row (r_id r) t1)"
  proof (cases "\<exists>q rs3. rs2 = q # rs3 \<and> r_created r")
    case True
    then obtain q rs3 where q: "rs2 = q # rs3" "r_created r" by blast
    then have "r_detail q" using assms(2) Some nx by (simp add: removable_def)
    then have ok: "details_ok (map r_detail (rs1 @ rs3))" using o r(2) details_cut_pair [of "map r_detail rs1" "map r_detail rs3"] by (simp add: s q)
    have "filter (\<lambda>x. r_id x \<noteq> r_id q) (t_rows t) = (rs1 @ [r]) @ rs3" using d filter_id_split [of "rs1 @ [r]" q rs3] by (simp add: s q)
    moreover have "filter (\<lambda>x. r_id x \<noteq> r_id r) (rs1 @ r # rs3) = rs1 @ rs3" using d by (intro filter_id_split) (auto simp: s q)
    ultimately have rows: "t_rows (del_row (r_id r) t1) = rs1 @ rs3" using q nx by (simp add: t1_def del_row_def)
    moreover have "t_rows (del_row (r_id r) t1) = filter (\<lambda>x. r_id x \<noteq> r_id q \<and> r_id x \<noteq> r_id r) (t_rows t)"
      using q nx by (simp add: t1_def del_row_def)
    ultimately show ?thesis using ok q nx
      by (intro wf_filter_rows [OF assms(1), where P = "\<lambda>x. r_id x \<noteq> r_id q \<and> r_id x \<noteq> r_id r"]) (simp_all add: t1_def del_row_def)
  next
    case False
    then have t1: "t1 = t" using nx by (auto simp: t1_def split: list.split)
    have rows: "t_rows (del_row (r_id r) t1) = rs1 @ rs2" using d filter_id_split [of rs1 r rs2] by (simp add: t1 del_row_def s)
    have h: "map r_detail rs2 = [] \<or> \<not> hd (map r_detail rs2)" using assms(2) Some nx False by (cases rs2) (auto simp: removable_def)
    have "details_ok (map r_detail rs1 @ False # map r_detail rs2)" using o r(2) by (simp add: s)
    from details_cut_one [OF this h] have ok: "details_ok (map r_detail (t_rows (del_row (r_id r) t1)))" by (simp add: rows)
    show ?thesis by (rule wf_filter_rows [OF assms(1) _ _ ok, where P = "\<lambda>x. r_id x \<noteq> r_id r"]) (simp_all add: t1 del_row_def)
  qed
  then have "wf_body (state_of (handle (del_row (r_id r) t1)))" by (rule keepsD [OF handle_keeps])
  then show ?thesis using Some by (simp add: removeRow_def t1_def Let_def)
qed

end

lemma details_ok_none: "\<not> True \<in> set ds \<Longrightarrow> details_ok ds"
  by (induction ds rule: details_ok.induct) auto

lemma wf_reset: "wf_body t \<Longrightarrow> wf_body (reset t)"
proof -
  assume w: "wf_body t"
  have "wf_body (t\<lparr>t_rows := map (\<lambda>r. r\<lparr>r_show := False\<rparr>) (t_rows t)\<rparr>)" by (rule wf_map_rows [OF w, where f = "\<lambda>r. r\<lparr>r_show := False\<rparr>"]) simp_all
  then show "wf_body (reset t)"
    by (rule wf_filter_rows [where t = "t\<lparr>t_rows := map (\<lambda>r. r\<lparr>r_show := False\<rparr>) (t_rows t)\<rparr>" and P = "\<lambda>r. \<not> r_detail r"])
      (auto simp: reset_def intro!: details_ok_none)
qed

section \<open>Properties\<close>

lemma after_keeps:
  assumes "sorts (so_sort (e_sorting e))"
  shows "keeps (after_change e)" "keeps (after_redraw e)" "keeps (after_init e)"
proof -
  have p: "sort_plugin (paging_handler (e_pager e)) (e_sorting e)" by (rule sort_plugin_paging [OF assms])
  show "keeps (after_change e)" unfolding after_change_def by (rule keep_paging_handler)
  show "keeps (after_redraw e)" unfolding after_redraw_def after_change_def
    by (intro keep_and_then sort_plugin.sort_redrawn_keeps [OF p] paging.filter_redrawn_keeps keep_paging_handler)
  show "keeps (after_init e)" unfolding after_init_def after_change_def
    by (intro keep_and_then sort_plugin.sort_initialized_keeps [OF p] keep_paging_handler)
qed

text \<open>
  A row to append is a new row of data, a row to remove has a mark that is right; everything else can always happen, also after an
  exception.
\<close>

definition ui_ok :: "ui \<Rightarrow> footable \<Rightarrow> bool" where
  "ui_ok x t \<longleftrightarrow> (case x of Append r \<Rightarrow> r_id r \<notin> set (map r_id (t_rows t)) \<and> r_id r < t_next_id t \<and> \<not> r_detail r
      | Remove i \<Rightarrow> removable i t | _ \<Rightarrow> True)"

inductive ui_run :: "env \<Rightarrow> footable \<Rightarrow> footable \<Rightarrow> bool" for e t0 where
  none: "ui_run e t0 t0"
| more: "ui_run e t0 t \<Longrightarrow> ui_ok x t \<Longrightarrow> ui_run e t0 (state_of (ui_step e x t))"

lemma ui_step_keeps:
  assumes "sorts (so_sort (e_sorting e))" "wf_body t" "ui_ok x t"
  shows "wf_body (state_of (ui_step e x t))"
proof -
  note k = after_keeps [OF assms(1)]
  have p: "sort_plugin (after_change e) (e_sorting e)" unfolding after_change_def by (rule sort_plugin_paging [OF assms(1)])
  have c: "body_handler (after_change e)" and r: "body_handler (after_redraw e)" by (intro body_handler.intro k)+
  have i: "wf_body (state_of (initialize (after_redraw e) (after_init e) w t))" for w
  proof -
    have "wf_body (t\<lparr>d_info := None, d_breakpoint := Some []\<rparr>)" by (rule wf_same_rows [OF assms(2)]) simp_all
    then show ?thesis unfolding initialize_def
      by (intro wf_and_then keepsD [OF body_handler.resize_keeps [OF r]] keepsD [OF k(3)]) (auto elim: wf_same_rows)
  qed
  show ?thesis
  proof (cases x)
    case (Append q)
    then show ?thesis using body_handler.appendRow_keeps [OF r assms(2)] assms(3) by (simp add: ui_step_def ui_ok_def)
  next
    case (Remove i)
    then show ?thesis using body_handler.removeRow_keeps [OF c assms(2)] assms(3) by (simp add: ui_step_def ui_ok_def)
  qed (simp_all add: ui_step_def assms(2) i wf_reset keepsD [OF keep_trigger(2)] keepsD [OF keep_nav_click] keepsD [OF keep_expand(1)]
      keepsD [OF keep_expand(2)] keepsD [OF keep_expand(3)] keepsD [OF sort_plugin.header_click_keeps [OF p]]
      keepsD [OF body_handler.filter_table_keeps [OF c]] keepsD [OF body_handler.clearFilter_keeps [OF c]]
      keepsD [OF body_handler.resize_keeps [OF r]] keepsD [OF body_handler.redraw_keeps [OF r]])
qed

text \<open>
  C21 (invariant). Through every sequence, also after exceptions, of clicks on rows, headers and page buttons, filters, resizing,
  redrawing, initializing, expanding and collapsing, new rows, resets, and removals of rows whose mark of a created detail is right,
  numbers of rows stay unique and every detail row stands directly behind one row of data, as long as the sort of arrays keeps its
  contract. A removal with a wrong mark, as redrawing and resetting leave it, is excluded: it takes a row of data or leaves a detail
  behind.
\<close>

theorem ui_run_keeps_body:
  assumes "ui_run e t0 t" "wf_body t0" "sorts (so_sort (e_sorting e))"
  shows "distinct (map r_id (t_rows t)) \<and> details_ok (map r_detail (t_rows t)) \<and> (\<forall>r \<in> set (t_rows t). r_id r < t_next_id t)"
proof -
  have "wf_body t" using assms(1) by induction (use assms ui_step_keeps in auto)
  then show ?thesis by (simp add: wf_body_def)
qed

theorem ui_run_keeps_body_witness:
  "\<exists>t. ui_run \<lparr>e_pager = \<lparr>on_create_pages = id, cancels_paging = (\<lambda>_. False)\<rparr>,
       e_sorting = \<lparr>so_sort = insertion_sort, so_lower = id, so_cancels = (\<lambda>_ _. False)\<rparr>, e_filtering = plain_filtering\<rparr> sample3 t \<and>
     distinct (map r_id (t_rows t)) \<and> details_ok (map r_detail (t_rows t))"
proof -
  let ?e = "\<lparr>e_pager = \<lparr>on_create_pages = id, cancels_paging = (\<lambda>_. False)\<rparr>,
       e_sorting = \<lparr>so_sort = insertion_sort, so_lower = id, so_cancels = (\<lambda>_ _. False)\<rparr>, e_filtering = plain_filtering\<rparr>"
  have r: "ui_run ?e sample3 (state_of (ui_step ?e ExpandAll sample3))" by (intro ui_run.intros) (simp add: ui_ok_def)
  have "wf_body sample3" by (simp add: wf_body_def sample_defs)
  then show ?thesis using ui_run_keeps_body [OF r] r insertion_sort_sorts by auto
qed

text \<open>
  C22 (functional). Filtering and paging together: after a filter the pages consist of exactly the rows that contain all its words,
  in the order of the table, and the rows shown are those of one page, the remembered one if there still are so many.
\<close>

theorem filter_pages_the_matches:
  assumes "distinct (map r_id (t_rows t))" "covered t" "filtering_runs (e_filtering e) s t"
    and "default_pager (e_pager e)" "0 < i_pageSize (new_pageInfo t)" "t_nav t \<noteq> None" "opt_paginate (ft_options t)" "\<not> a_page_off t"
  shows "\<exists>t'. ui_step e (Filter s) t = Done t' \<and>
    concat (i_pages (ft_pageInfo t')) =
      map r_id (filter (\<lambda>r. \<not> r_detail r \<and>
        matches_all (fi_upper (e_filtering e)) (a_text_only t) (fe_filter (fi_event (e_filtering e) s (s = []))) r) (t_rows t)) \<and>
    map r_id (filter r_shown (main_rows t')) = page_at (ft_pageInfo t') (current t') \<and>
    current t' = max 0 (min (d_currentPage t) (page_count t' - 1))"
proof -
  let ?h = "after_change e" and ?pg = "e_pager e"
  define w where "w = fe_filter (fi_event (e_filtering e) s (s = []))"
  obtain u where u: "filter_table (e_filtering e) Done s t = Done u" "covered u" "map r_id (t_rows u) = map r_id (t_rows t)"
      "\<exists>h rs n. u = t\<lparr>d_current_filter := h, d_filter_string := Some w, t_rows := rs, t_next_id := n\<rparr>"
    by (rule filter_table_result [OF assms(1-3), of Done]) (simp add: w_def)
  have gen: "filter_table (e_filtering e) ?h s t = and_then (filter_table (e_filtering e) Done s t) ?h"
    using assms(3) unfolding filter_table_def filtering_runs_def Let_def case_prod_beta
    by (auto simp: and_then_assoc)
  obtain v where v: "filter_table (e_filtering e) Done s t = Done v"
      "map r_id (filter (\<lambda>r. \<not> r_filtered r \<and> \<not> r_detail r) (t_rows v)) =
       map r_id (filter (\<lambda>r. \<not> r_detail r \<and> matches_all (fi_upper (e_filtering e)) (a_text_only t) w r) (t_rows t))"
    using filter_rows_left [OF assms(1-3), of Done] unfolding w_def by blast
  have uv: "v = u" using u(1) v(1) by simp
  obtain h rs n where ur: "u = t\<lparr>d_current_filter := h, d_filter_string := Some w, t_rows := rs, t_next_id := n\<rparr>" using u(4) by blast
  have psz: "0 < i_pageSize (new_pageInfo u)" using assms(5) by (auto simp: ur new_pageInfo_def split: if_splits)
  have "ui_step e (Filter s) t = ?h u" by (simp add: ui_step_def gen u(1))
  then have run: "ui_step e (Filter s) t = setupPaging ?pg u"
    using assms(7,8) by (simp add: after_change_def paging_handler_def ur)
  have du: "distinct (map r_id (t_rows u))" using u(3) assms(1) by simp
  have "\<not> t_nav u = None" using assms(6) by (simp add: ur)
  with setupPaging_result [OF assms(4) psz u(2) du] obtain t'
    where t': "setupPaging ?pg u = Done t'" "settled t'" "same_pages (set_up ?pg u) t'" "current t' = current (set_up ?pg u)" by auto
  note f = set_up_facts [OF assms(4) psz]
  have "concat (i_pages (ft_pageInfo t')) = page_rows u"
    using t'(2,3) f(2) by (simp add: settled_def paged_def same_pages_def page_rows_def Let_def)
  then have pages: "concat (i_pages (ft_pageInfo t')) =
      map r_id (filter (\<lambda>r. \<not> r_detail r \<and> matches_all (fi_upper (e_filtering e)) (a_text_only t) w r) (t_rows t))"
    using v(2) uv by (simp add: page_rows_def)
  have "map r_id (filter r_shown (main_rows t')) = page_at (ft_pageInfo t') (current t')"
    using t'(2) by (simp add: settled_def shows_page_def current_def Let_def)
  moreover have "current t' = max 0 (min (d_currentPage t) (page_count t' - 1))"
    using t'(3,4) f(11) by (simp add: same_pages_def page_count_def ur)
  ultimately show ?thesis using run t'(1) pages unfolding w_def by auto
qed

theorem filter_pages_the_matches_witness:
  "\<exists>t'. ui_step \<lparr>e_pager = \<lparr>on_create_pages = id, cancels_paging = (\<lambda>_. False)\<rparr>,
       e_sorting = \<lparr>so_sort = insertion_sort, so_lower = id, so_cancels = (\<lambda>_ _. False)\<rparr>, e_filtering = plain_filtering\<rparr>
       (Filter (js ''FIG -1'')) sample3 = Done t' \<and> concat (i_pages (ft_pageInfo t')) = [3]"
proof -
  let ?e = "\<lparr>e_pager = \<lparr>on_create_pages = id, cancels_paging = (\<lambda>_. False)\<rparr>,
       e_sorting = \<lparr>so_sort = insertion_sort, so_lower = id, so_cancels = (\<lambda>_ _. False)\<rparr>, e_filtering = plain_filtering\<rparr>"
  have "distinct (map r_id (t_rows sample3))" "filtering_runs (e_filtering ?e) (js ''FIG -1'') sample3" "default_pager (e_pager ?e)"
    "0 < i_pageSize (new_pageInfo sample3)" "t_nav sample3 \<noteq> None" "opt_paginate (ft_options sample3)" "\<not> a_page_off sample3"
    by (simp_all add: sample_defs filtering_runs_def plain_filtering_def default_pager_def new_pageInfo_def)
  moreover have "map r_id (filter (\<lambda>r. \<not> r_detail r \<and> matches_all (map ascii_upper) False (js ''FIG -1'') r) (t_rows sample3)) = [3]"
    by (simp add: sample_defs matches_all_def filter_words_def row_text_def cell_text_def ascii_upper_def)
  moreover have "a_text_only sample3 = False" by (simp add: sample_defs)
  ultimately show ?thesis
    using filter_pages_the_matches [of sample3 ?e "js ''FIG -1''", OF _ covered_sample3] by (auto simp: plain_filtering_def)
qed

end
