(* ===== verification/Spec2Isabelle.thy ===== *)
theory Spec2Isabelle
  imports ScriptStd EmojiTables Md5 JdenticonGeometry IscrollBounds FootableEvents
begin

text \<open>
  A verification library of the Alias wallet.

  \<^bold>\<open>The program.\<close> The wallet (\<^verbatim>\<open>src/src\<close>) is a peer-to-peer currency node in C++ with a Qt interface whose pages are
  web pages: their scripts are the JavaScript plug-ins under \<^verbatim>\<open>src/src/qt/res/assets/plugins\<close>. The library models the
  plug-ins (emoji conversion, digests, images, icons, responsive tables) and the consensus core of the node (integers,
  serialization, transactions, keys, scripts, chain rules). Each theory names the files and functions it translates.

  \<^bold>\<open>Common ground.\<close>
  \<^item> \<open>Prelude\<close>: numbers as digit lists, bytes of an integer, word lemmas, the collections \<open>word_conv\<close> and \<open>le_simps\<close>.
  \<^item> \<open>JsBase\<close>: strings as lists of UTF-16 code units, literal objects, global replacement by a matcher, 32-bit operators.
  \<^item> \<open>JsNum\<close>: numbers as rationals rounded to 53 bits, with the bound on the error of a rounding and the exactness of
    integral parts of quotients. Overflow, gradual underflow and the sign of zero are left out.

  \<^bold>\<open>Plug-ins.\<close>
  \<^item> \<open>EmojiData\<close>, \<open>Emojione\<close>, \<open>EmojiTables\<close>: \<^verbatim>\<open>emojione/emojione.js\<close>. The tables are lists of entries; every function of
    the name space is a definition; regular expressions are matchers. Shown: the escape table is exact, names and codes
    are well formed, a pass over a text replaces short names one by one and keeps markup, what escaping and unescaping
    do to each character, and that the memoized tables change no result.
  \<^item> \<open>Md5\<close>: \<^verbatim>\<open>md5/md5.js\<close>. The object is the record \<open>md5_state\<close>; both views of its buffer are one byte list. The locale
    \<open>md5_filler\<close> is the contract between the outer loop of \<^verbatim>\<open>update\<close> and its inner loops, interpreted for bytes and for
    strings. Shown: the digest is that of RFC 1321 however the message is cut, the loops end, strings are hashed as UTF-8,
    and the three outputs agree. The outer loops are partial functions, so that their end is a theorem.
  \<^item> \<open>Png\<close>: \<^verbatim>\<open>pnglib/pnglib.js\<close>. The image is the record \<open>png\<close> with its buffer of code units; \<open>None\<close> is an access outside
    it. The relation \<open>drawn\<close> is what a client may do. Shown, for images of at most 65535 bytes: the dump is a PNG file with
    correct lengths and check sums, after any sequence of operations; colours get exact palette entries; base 64 is that of
    RFC 4648; the postponed sums stay below \<open>2 ^ 32\<close>. For larger images the code is wrong (\<open>large_blocks_not_final\<close>).
  \<^item> \<open>Identicon\<close>: \<^verbatim>\<open>identicon/identicon.js\<close>, a client of \<open>Png\<close> through the locale \<open>canvas\<close>, interpreted on its images.
    Shown: which colour every pixel gets, that both colours are exact for every hash, and the symmetry of the pattern.
  \<^item> \<open>Jdenticon\<close>, \<open>JdenticonDraw\<close>, \<open>JdenticonGeometry\<close>: \<^verbatim>\<open>jdenticon/jdenticon-1.3.2.js\<close>. The generator takes a renderer, a record of four
    methods; the locale \<open>draws\<close> is its contract, interpreted for canvas calls and for SVG text. Shown: both draw the same layers,
    how colours are chosen, that all figures stay off the padding, and that an icon is unchanged by a quarter turn, both with
    every rounding (for integral sizes up to \<open>10 ^ 8\<close>).

  \<^bold>\<open>Tables.\<close> FooTable with its paging, sorting and filtering; the four files of \<^verbatim>\<open>footable/\<close> work on one table in the page.
  \<^item> \<open>JsVal\<close>: the values the table reads from attributes, \<^verbatim>\<open>parseFloat\<close>, comparison, and the locale \<open>array_sort\<close>, what the
    sort of arrays promises, interpreted on insertion sort.
  \<^item> \<open>Footable\<close>: \<^verbatim>\<open>footable.js\<close>. Cells, rows, headers, columns and the table are records; an operation gives the new table or
    the exception (\<open>outcome\<close>). Measured widths, the clock, and the handlers a page attaches are parameters.
  \<^item> \<open>FootableRows\<close>: the shape of a body (a row of data, perhaps followed by its detail row; \<open>wf_body\<close>) and what each
    operation keeps of it. \<open>FootableCore\<close>: the breakpoint chosen, which column a cell belongs to, what a timer keeps when its
    codes throw or call it, and that otherwise one timeout at most is pending.
  \<^item> \<open>FootablePaginate\<close>: \<^verbatim>\<open>footable.paginate.js\<close>. Shown: the page that is filled, that clicks keep it so, that every row is
    reached by the buttons, and that a table without buttons throws.
  \<^item> \<open>FootableSort\<close>: \<^verbatim>\<open>footable.sort.js\<close>. Shown: the body is put in the order of the column with each detail behind its row.
  \<^item> \<open>FootableFilter\<close>: \<^verbatim>\<open>footable.filter.js\<close>. Shown: which rows stay, word by word of the query.
  \<^item> \<open>FootableEvents\<close>: the events that connect the four files (\<open>ui_step\<close>). The locales \<open>body_handler\<close> and \<open>sort_plugin\<close> say what
    a plug-in must keep; paging and sorting interpret them. Shown: every run keeps the shape of the body, except a removal whose
    mark of a detail is wrong, and a filter is
    followed by paging over its matches only.

  \<^bold>\<open>Scrolling.\<close> \<^verbatim>\<open>iscroll/iscroll.js\<close>.
  \<^item> \<open>Iscroll\<close>: the scroller is the record \<open>scroll\<close>, each handler a function on it, \<open>handleEvent\<close> their dispatch with the timeouts
    and frames of the browser. The clock, measured sizes, the computed position of a transition and the page's handlers come with
    the calls; the loops over the pages of a grid are a partial function, since they need not end.
  \<^item> \<open>IscrollBounds\<close>: a run pairs the scroller with the place the browser shows, which moves towards the position set. Without
    bouncing every run keeps both inside the bounds (for style transitions, no snapping, handlers that only watch, and the side
    conditions named there); wheel, keys and jumps to elements end inside in any case; the loops over pages end exactly for positive
    steps, and snapping makes the pages of the grid and ends on one of them.

  \<^bold>\<open>Core.\<close>
  \<^item> \<open>Uint256\<close>: \<^verbatim>\<open>uint256.h\<close>, numbers as lists of 32-bit limbs. The operators refine arithmetic, order and shifts on natural
    numbers modulo \<open>2 ^ n\<close>; hexadecimal and byte forms read back.
  \<^item> \<open>Serialize\<close>: \<^verbatim>\<open>serialize.h\<close>, readers as functions from a byte list to an error or a value and the rest. Compact sizes
    and variable-length integers read back, and only canonical forms are accepted.
  \<^item> \<open>Tx\<close>: \<^verbatim>\<open>core.h\<close>, \<^verbatim>\<open>main.h\<close>. Transactions read back; the sum of outputs is exact, refused, or an overflow without meaning, and when each; the order of replacement.
  \<^item> \<open>Bignum\<close>: \<^verbatim>\<open>bignum.h\<close> over a record of the OpenSSL functions it calls, whose documented behaviour is the hypothesis of
    the properties, shown satisfiable by a concrete instance. Script numbers read back; conversions; compact targets.
  \<^item> \<open>Key\<close>: \<^verbatim>\<open>key.h\<close>, \<^verbatim>\<open>key.cpp\<close>, \<^verbatim>\<open>keystore.h\<close>, \<^verbatim>\<open>keystore.cpp\<close>, range checks and the key store.
  \<^item> \<open>Chain\<close>: \<^verbatim>\<open>chainparams.h\<close>, \<^verbatim>\<open>chainparams.cpp\<close>, \<^verbatim>\<open>main.cpp\<close>: parameters, rewards, retarget and proof of work, over chains
    of index entries.
  \<^item> \<open>Script\<close>, \<open>ScriptEval\<close>, \<open>ScriptStd\<close>: \<^verbatim>\<open>script.h\<close>, \<^verbatim>\<open>script.cpp\<close>: instructions, interpreter, signature hash and cache,
    standard scripts. Pushes read back, deletion removes exactly the copies found, bounds on signature operations, and the byte-wise
    signature check accepts exactly the encodings of two non-negative integers.

  \<^bold>\<open>Bounds and fuel.\<close> Every loop is structural or has a measure, except the two of \<open>Md5\<close> and the one of \<open>Iscroll\<close> named above. The interpreter reads
  one instruction per step of a measure on the rest of the script. Machine integers keep their width.

  \<^bold>\<open>Not modelled.\<close> The class helper and the minified libraries; of the scroller, styles, fading and listeners; of the node, the
  parts that are input and output, threads or database access (network, wallet database, block storage, remote calls,
  start-up), the Qt widgets, and vendored C code. OpenSSL, the elliptic curve and hash functions are parameters.
\<close>

end
